(* ===== verification/Prelude.thy ===== *)
theory Prelude
  imports Main "HOL-Library.Word"
begin

text \<open>
  What every theory of the development shares: the types that stand for Go's values, the
  error values, the state-and-error computations in which the handlers are written, Go's
  slice expressions (which panic out of range), and the decimal conversions of \<open>fmt\<close> and
  \<open>strconv\<close>.

  Go's \<open>int\<close> is \<open>int\<close> here (the code's values are 64-bit and the places where a conversion
  can wrap are written with \<open>u64\<close>), \<open>uint64\<close> is \<open>64 word\<close>, a Go string is a byte string and
  so a \<open>string\<close> (a list of 8-bit characters), \<open>[]byte\<close> is a list of \<open>8 word\<close>, a pointer
  that may be nil is an \<open>option\<close>.
\<close>

section \<open>Types\<close>

type_synonym byte = "8 word"
type_synonym bytes = "byte list"
type_synonym u64 = "64 word"
type_synonym address = "160 word"

named_theorems run_simps "one-step unfolding of state-and-error computations"
named_theorems db_simps "effect of a database statement on the tables"

section \<open>Errors\<close>

text \<open>
  \<open>EPanic\<close> is a Go run-time panic (no error check of the code sees it), \<open>EDb\<close> an error that
  the database driver reports, \<open>EExt\<close> an error of a third-party library, \<open>EMsg\<close> an error
  built by the code with \<open>fmt.Errorf\<close> or \<open>errors.New\<close>, \<open>EWrap\<close> an error wrapped with
  \<open>%w\<close>; the others are the named errors of the pagination and of the standard library.
\<close>

datatype err =
    EPanic string
  | EDb string
  | EExt string
  | EMsg string
  | EWrap string err
  | ErrMixedPagination
  | ErrInvalidCursor
  | ErrInvalidLimit
  | ErrBase64
  | ErrAtoi

type_synonym 'a res = "err + 'a"

fun is_panic :: "err \<Rightarrow> bool" where
  "is_panic (EPanic _) = True"
| "is_panic _ = False"

definition is_ok :: "'a res \<Rightarrow> bool" where
  "is_ok r = (case r of Inl _ \<Rightarrow> False | Inr _ \<Rightarrow> True)"

lemma is_ok_simps [simp]: "is_ok (Inr x)" "\<not> is_ok (Inl e)"
  by (simp_all add: is_ok_def)

definition rbind :: "'a res \<Rightarrow> ('a \<Rightarrow> 'b res) \<Rightarrow> 'b res" where
  "rbind r f = (case r of Inl e \<Rightarrow> Inl e | Inr x \<Rightarrow> f x)"

lemma rbind_simps [simp]: "rbind (Inl e) f = Inl e" "rbind (Inr x) f = f x"
  by (simp_all add: rbind_def)

lemma rbind_Inr_iff: "rbind r f = Inr y \<longleftrightarrow> (\<exists>x. r = Inr x \<and> f x = Inr y)"
  by (cases r) auto

text \<open>\<open>rmap f xs\<close> is a Go loop that converts the elements in order and returns at the first error.\<close>

fun rmap :: "('a \<Rightarrow> 'b res) \<Rightarrow> 'a list \<Rightarrow> 'b list res" where
  "rmap f [] = Inr []"
| "rmap f (x # xs) = rbind (f x) (\<lambda>y. rbind (rmap f xs) (\<lambda>ys. Inr (y # ys)))"

lemma rmap_ok: "(\<And>x. x \<in> set xs \<Longrightarrow> f x = Inr (g x)) \<Longrightarrow> rmap f xs = Inr (map g xs)"
  by (induction xs) auto

lemma rmap_length: "rmap f xs = Inr ys \<Longrightarrow> length ys = length xs"
  by (induction xs arbitrary: ys) (auto simp: rbind_Inr_iff)

section \<open>Computations over a state\<close>

text \<open>
  A method that reads and writes a state \<open>'s\<close> and returns a value or an error. The state is
  kept on an error: what was written before the error stays written.
\<close>

type_synonym ('s, 'a) comp = "'s \<Rightarrow> 'a res \<times> 's"

definition ret :: "'a \<Rightarrow> ('s, 'a) comp" where
  "ret x = (\<lambda>s. (Inr x, s))"

definition fail :: "err \<Rightarrow> ('s, 'a) comp" where
  "fail e = (\<lambda>s. (Inl e, s))"

definition andThen :: "('s, 'a) comp \<Rightarrow> ('a \<Rightarrow> ('s, 'b) comp) \<Rightarrow> ('s, 'b) comp" where
  "andThen m f = (\<lambda>s. case m s of (Inl e, s') \<Rightarrow> (Inl e, s') | (Inr x, s') \<Rightarrow> f x s')"

definition lift_res :: "'a res \<Rightarrow> ('s, 'a) comp" where
  "lift_res r = (\<lambda>s. (r, s))"

text \<open>
  \<open>onError m h\<close> is \<open>if err != nil { h(err) }\<close>; a panic is not an error value and passes
  through it.
\<close>

definition onError :: "('s, 'a) comp \<Rightarrow> (err \<Rightarrow> ('s, 'a) comp) \<Rightarrow> ('s, 'a) comp" where
  "onError m h = (\<lambda>s. case m s of
     (Inl e, s') \<Rightarrow> if is_panic e then (Inl e, s') else h e s'
   | (Inr x, s') \<Rightarrow> (Inr x, s'))"

definition wrapErr :: "string \<Rightarrow> ('s, 'a) comp \<Rightarrow> ('s, 'a) comp" where
  "wrapErr msg m = onError m (\<lambda>e. fail (EWrap msg e))"

text \<open>\<open>forEach f xs\<close> is \<open>for _, x := range xs\<close> with a body that may return an error.\<close>

fun forEach :: "('a \<Rightarrow> ('s, unit) comp) \<Rightarrow> 'a list \<Rightarrow> ('s, unit) comp" where
  "forEach f [] = ret ()"
| "forEach f (x # xs) = andThen (f x) (\<lambda>_. forEach f xs)"

lemma ret_apply [simp, run_simps]: "ret x s = (Inr x, s)"
  by (simp add: ret_def)

lemma fail_apply [simp, run_simps]: "fail e s = (Inl e, s)"
  by (simp add: fail_def)

lemma lift_res_apply [simp, run_simps]: "lift_res r s = (r, s)"
  by (simp add: lift_res_def)

lemma andThen_apply [run_simps]:
  "andThen m f s = (case m s of (Inl e, s') \<Rightarrow> (Inl e, s') | (Inr x, s') \<Rightarrow> f x s')"
  by (simp add: andThen_def)

lemma andThen_ok: "m s = (Inr x, s') \<Longrightarrow> andThen m f s = f x s'"
  by (simp add: andThen_def)

lemma andThen_err: "m s = (Inl e, s') \<Longrightarrow> andThen m f s = (Inl e, s')"
  by (simp add: andThen_def)

lemma andThen_InrE:
  assumes "andThen m f s = (Inr y, s'')"
  obtains x s' where "m s = (Inr x, s')" and "f x s' = (Inr y, s'')"
  using assms by (cases "m s") (auto simp: andThen_def split: sum.splits)

lemma andThen_assoc: "andThen (andThen m f) g = andThen m (\<lambda>x. andThen (f x) g)"
  by (rule ext) (auto simp: andThen_def split: prod.splits sum.splits)

lemma andThen_ret [simp]: "andThen m ret = m"
  by (rule ext) (auto simp: andThen_def ret_def split: prod.splits sum.splits)

lemma onError_apply [run_simps]:
  "onError m h s = (case m s of
     (Inl e, s') \<Rightarrow> if is_panic e then (Inl e, s') else h e s'
   | (Inr x, s') \<Rightarrow> (Inr x, s'))"
  by (simp add: onError_def)

lemma wrapErr_apply [run_simps]:
  "wrapErr msg m s = (case m s of
     (Inl e, s') \<Rightarrow> (Inl (if is_panic e then e else EWrap msg e), s')
   | (Inr x, s') \<Rightarrow> (Inr x, s'))"
  by (auto simp: wrapErr_def onError_def split: prod.splits sum.splits)

text \<open>
  A relation between the state before and the state after that every step respects is
  respected by the compositions: the frame rule used for invariants.
\<close>

definition keeps :: "('s \<Rightarrow> 's \<Rightarrow> bool) \<Rightarrow> ('s, 'a) comp \<Rightarrow> bool" where
  "keeps R m \<longleftrightarrow> (\<forall>s. R s (snd (m s)))"

lemma keepsD: "keeps R m \<Longrightarrow> m s = (r, s') \<Longrightarrow> R s s'"
  by (metis keeps_def snd_conv)

lemma keeps_ret [simp, intro]: "reflp R \<Longrightarrow> keeps R (ret x)"
  by (simp add: keeps_def reflp_def)

lemma keeps_fail [simp, intro]: "reflp R \<Longrightarrow> keeps R (fail e)"
  by (simp add: keeps_def reflp_def)

lemma keeps_lift_res [simp, intro]: "reflp R \<Longrightarrow> keeps R (lift_res r)"
  by (simp add: keeps_def reflp_def)

lemma keeps_andThen:
  assumes "transp R" and "keeps R m" and "\<And>x. keeps R (f x)"
  shows "keeps R (andThen m f)"
  unfolding keeps_def
proof
  fix s
  obtain r s' where m: "m s = (r, s')" by fastforce
  have R1: "R s s'" using assms(2) m by (rule keepsD)
  show "R s (snd (andThen m f s))"
  proof (cases r)
    case (Inl e)
    with m R1 show ?thesis by (simp add: andThen_apply)
  next
    case (Inr x)
    have "R s' (snd (f x s'))" using assms(3) by (simp add: keeps_def)
    with assms(1) R1 m Inr show ?thesis by (auto simp: andThen_apply dest: transpD)
  qed
qed

lemma keeps_onError:
  assumes "transp R" and "keeps R m" and "\<And>e. keeps R (h e)"
  shows "keeps R (onError m h)"
  unfolding keeps_def
proof
  fix s
  obtain r s' where m: "m s = (r, s')" by fastforce
  have R1: "R s s'" using assms(2) m by (rule keepsD)
  show "R s (snd (onError m h s))"
  proof (cases r)
    case (Inl e)
    have "R s' (snd (h e s'))" using assms(3) by (simp add: keeps_def)
    with assms(1) R1 m Inl show ?thesis by (auto simp: onError_apply dest: transpD)
  next
    case (Inr x)
    with m R1 show ?thesis by (simp add: onError_apply)
  qed
qed

lemma keeps_wrapErr:
  assumes "keeps R m"
  shows "keeps R (wrapErr msg m)"
  unfolding keeps_def
proof
  fix s
  obtain r s' where m: "m s = (r, s')" by fastforce
  have "R s s'" using assms m by (rule keepsD)
  with m show "R s (snd (wrapErr msg m s))"
    by (cases r) (auto simp: wrapErr_apply)
qed

lemma keeps_forEach:
  assumes "reflp R" and "transp R" and "\<And>x. x \<in> set xs \<Longrightarrow> keeps R (f x)"
  shows "keeps R (forEach f xs)"
  using assms(3) by (induction xs) (auto intro: keeps_andThen [OF assms(2)] assms(1))

lemma forEach_append:
  "forEach f (xs @ ys) = andThen (forEach f xs) (\<lambda>_. forEach f ys)"
proof (induction xs)
  case Nil
  show ?case by (rule ext) (simp add: andThen_apply)
next
  case (Cons x xs)
  then show ?case by (simp add: andThen_assoc)
qed

section \<open>Slices, decimal numbers, bytes\<close>

definition slice_from :: "nat \<Rightarrow> 'a list \<Rightarrow> 'a list res" where
  "slice_from i xs =
     (if i \<le> length xs then Inr (drop i xs) else Inl (EPanic ''slice bounds out of range''))"

definition slice :: "nat \<Rightarrow> nat \<Rightarrow> 'a list \<Rightarrow> 'a list res" where
  "slice i j xs =
     (if i \<le> j \<and> j \<le> length xs then Inr (take (j - i) (drop i xs))
      else Inl (EPanic ''slice bounds out of range''))"

definition dec_digits :: string where
  "dec_digits = ''0123456789''"

definition string_of_digit :: "nat \<Rightarrow> char" where
  "string_of_digit n = dec_digits ! n"

definition digit_of_char :: "char \<Rightarrow> nat option" where
  "digit_of_char c =
     (if c \<in> set dec_digits then Some (length (takeWhile (\<lambda>d. d \<noteq> c) dec_digits)) else None)"

fun nat_to_dec :: "nat \<Rightarrow> string" where
  "nat_to_dec n =
     (if n < 10 then [string_of_digit n] else nat_to_dec (n div 10) @ [string_of_digit (n mod 10)])"

declare nat_to_dec.simps [simp del]

text \<open>\<open>fmt.Sprint\<close> and \<open>%d\<close> of an integer.\<close>

definition itoa :: "int \<Rightarrow> string" where
  "itoa i = (if i < 0 then CHR ''-'' # nat_to_dec (nat (- i)) else nat_to_dec (nat i))"

fun dec_to_nat_acc :: "nat \<Rightarrow> string \<Rightarrow> nat option" where
  "dec_to_nat_acc acc [] = Some acc"
| "dec_to_nat_acc acc (c # cs) =
     (case digit_of_char c of None \<Rightarrow> None | Some d \<Rightarrow> dec_to_nat_acc (10 * acc + d) cs)"

definition dec_to_nat :: "string \<Rightarrow> nat option" where
  "dec_to_nat s = (if s = [] then None else dec_to_nat_acc 0 s)"

text \<open>A decimal integer literal with an optional sign; \<open>strconv.Atoi\<close> also checks the range.\<close>

definition dec_to_int :: "string \<Rightarrow> int option" where
  "dec_to_int s =
     (case s of [] \<Rightarrow> None
      | c # cs \<Rightarrow>
          if c = CHR ''-'' then map_option (\<lambda>n. - int n) (dec_to_nat cs)
          else if c = CHR ''+'' then map_option int (dec_to_nat cs)
          else map_option int (dec_to_nat s))"

definition Atoi :: "string \<Rightarrow> int res" where
  "Atoi s = (case dec_to_int s of None \<Rightarrow> Inl ErrAtoi
     | Some i \<Rightarrow> if - (2 ^ 63) \<le> i \<and> i < 2 ^ 63 then Inr i else Inl ErrAtoi)"

lemma digit_of_string_of_digit [simp]:
  assumes "n < 10"
  shows "digit_of_char (string_of_digit n) = Some n"
proof -
  have "\<forall>n \<in> set [0..<10]. digit_of_char (string_of_digit n) = Some n" by code_simp
  with assms show ?thesis by simp
qed

lemma string_of_digit_in: "n < 10 \<Longrightarrow> string_of_digit n \<in> set dec_digits"
proof -
  have "\<forall>n \<in> set [0..<10]. string_of_digit n \<in> set dec_digits" by code_simp
  then show "n < 10 \<Longrightarrow> string_of_digit n \<in> set dec_digits" by simp
qed

lemma dec_to_nat_acc_append:
  "dec_to_nat_acc acc (xs @ ys) =
     (case dec_to_nat_acc acc xs of None \<Rightarrow> None | Some a \<Rightarrow> dec_to_nat_acc a ys)"
  by (induction xs arbitrary: acc) (auto split: option.splits)

lemma dec_to_nat_acc_nat_to_dec:
  "\<exists>k. dec_to_nat_acc acc (nat_to_dec n) = Some (acc * 10 ^ k + n)"
proof (induction n arbitrary: acc rule: nat_to_dec.induct)
  case (1 n)
  show ?case
  proof (cases "n < 10")
    case True
    then have "dec_to_nat_acc acc (nat_to_dec n) = Some (acc * 10 ^ 1 + n)"
      by (simp add: nat_to_dec.simps [of n])
    then show ?thesis by blast
  next
    case False
    with "1.IH" obtain k where k:
      "dec_to_nat_acc acc (nat_to_dec (n div 10)) = Some (acc * 10 ^ k + n div 10)" by blast
    have "dec_to_nat_acc acc (nat_to_dec n) = Some (10 * (acc * 10 ^ k + n div 10) + n mod 10)"
      using False k
      by (simp add: nat_to_dec.simps [of n] dec_to_nat_acc_append)
    also have "10 * (acc * 10 ^ k + n div 10) + n mod 10 = acc * 10 ^ Suc k + n"
      by (simp add: algebra_simps)
    finally show ?thesis by blast
  qed
qed

lemma nat_to_dec_not_Nil [simp]: "nat_to_dec n \<noteq> []"
  by (subst nat_to_dec.simps) simp

lemma dec_to_nat_nat_to_dec [simp]: "dec_to_nat (nat_to_dec n) = Some n"
  using dec_to_nat_acc_nat_to_dec [of 0 n] by (auto simp: dec_to_nat_def)

lemma set_nat_to_dec: "set (nat_to_dec n) \<subseteq> set ''0123456789''"
proof (induction n rule: nat_to_dec.induct)
  case (1 n)
  have "string_of_digit (n mod 10) \<in> set dec_digits" by (rule string_of_digit_in) simp
  moreover have "n < 10 \<Longrightarrow> string_of_digit n \<in> set dec_digits" by (rule string_of_digit_in)
  ultimately show ?case using 1 by (subst nat_to_dec.simps) (auto simp: dec_digits_def split: if_splits)
qed

lemma hd_nat_to_dec: "hd (nat_to_dec n) \<in> set ''0123456789''"
  using set_nat_to_dec [of n] hd_in_set [OF nat_to_dec_not_Nil] by blast

lemma dec_to_int_itoa [simp]: "dec_to_int (itoa i) = Some i"
proof (cases "i < 0")
  case True
  then show ?thesis by (simp add: itoa_def dec_to_int_def)
next
  case False
  obtain c cs where c: "nat_to_dec (nat i) = c # cs"
    by (cases "nat_to_dec (nat i)") auto
  then have "c \<in> set ''0123456789''" using hd_nat_to_dec [of "nat i"] by simp
  then have "c \<noteq> CHR ''-''" and "c \<noteq> CHR ''+''" by auto
  moreover have "dec_to_nat (c # cs) = Some (nat i)" using c dec_to_nat_nat_to_dec by metis
  ultimately show ?thesis using False by (simp add: itoa_def dec_to_int_def c)
qed

lemma itoa_inj: "itoa i = itoa j \<Longrightarrow> i = j"
  by (metis dec_to_int_itoa option.inject)

lemma Atoi_itoa: "- (2 ^ 63) \<le> i \<Longrightarrow> i < 2 ^ 63 \<Longrightarrow> Atoi (itoa i) = Inr i"
  by (simp add: Atoi_def)

lemma itoa_not_Nil [simp]: "itoa i \<noteq> []"
  by (simp add: itoa_def)

text \<open>\<open>[]byte(s)\<close> and \<open>string(b)\<close>.\<close>

definition bytes_of_string :: "string \<Rightarrow> bytes" where
  "bytes_of_string s = map (\<lambda>c. of_nat (of_char c)) s"

definition string_of_bytes :: "bytes \<Rightarrow> string" where
  "string_of_bytes b = map (\<lambda>w. char_of (unat w)) b"

lemma string_of_bytes_of_string [simp]: "string_of_bytes (bytes_of_string s) = s"
proof -
  have "char_of (unat (of_nat (of_char c) :: byte)) = c" for c
  proof -
    have "unat (of_nat (of_char c) :: byte) = of_char c"
      by (simp add: unat_of_nat mod_less of_char_def [symmetric])
    then show ?thesis by simp
  qed
  then show ?thesis by (simp add: string_of_bytes_def bytes_of_string_def comp_def)
qed

text \<open>\<open>strings.Join\<close>.\<close>

fun join :: "string \<Rightarrow> string list \<Rightarrow> string" where
  "join sep [] = []"
| "join sep [x] = x"
| "join sep (x # y # ys) = x @ sep @ join sep (y # ys)"

text \<open>\<open>strings.HasSuffix\<close>.\<close>

definition HasSuffix :: "string \<Rightarrow> string \<Rightarrow> bool" where
  "HasSuffix s suf \<longleftrightarrow> length suf \<le> length s \<and> drop (length s - length suf) s = suf"

lemma uint_eq_iff [simp]: "uint x = uint y \<longleftrightarrow> x = y"
  by (simp add: word_uint_eq_iff)

section \<open>Lists\<close>

lemma sorted_map_take_drop: "sorted (map f xs) \<Longrightarrow> sorted (map f (take n (drop m xs)))"
  by (metis drop_map sorted_wrt_drop sorted_wrt_take take_map)

lemma take_drop_append: "take a (drop m xs) @ take b (drop (m + a) xs) = take (a + b) (drop m xs)"
  by (simp add: take_add add.commute)

end
