(* ===== verification/SqlEngine.thy ===== *)
theory SqlEngine
  imports Prelude "HOL-Library.Product_Lexorder" "HOL-Library.List_Lexorder"
begin

text \<open>
  The SQL that the repositories send to the database. A statement is the text that the Go
  code builds and a list of bound arguments; this theory parses the text and executes it on
  tables, as SQL defines it and with SQLite's rules for column affinity (SQLite is the
  default of \<open>--db-implementation\<close>). Covered is the fragment that occurs in
  \<open>internal/convenience/repository\<close>: \<open>CREATE TABLE IF NOT EXISTS\<close>, \<open>CREATE INDEX\<close>,
  \<open>INSERT\<close>, \<open>UPDATE ... SET ... WHERE\<close> and \<open>SELECT\<close> with a conjunction of comparisons,
  \<open>ORDER BY\<close>, \<open>LIMIT\<close> and \<open>OFFSET\<close>. Rows are kept in insertion order, which is the order
  of a query that asks for none.
\<close>

section \<open>Values\<close>

datatype sqlval = VNull | VInt int | VText string

text \<open>SQLite orders NULL before numbers before texts, and texts by their bytes.\<close>

fun sqlval_key :: "sqlval \<Rightarrow> nat \<times> int \<times> nat list" where
  "sqlval_key VNull = (0, 0, [])"
| "sqlval_key (VInt i) = (1, i, [])"
| "sqlval_key (VText s) = (2, 0, map of_char s)"

lemma sqlval_key_inj: "sqlval_key a = sqlval_key b \<Longrightarrow> a = b"
proof -
  have "map of_char s = (map of_char t :: nat list) \<Longrightarrow> s = t" for s t
    by (rule map_injective) (auto intro: injI)
  then show "sqlval_key a = sqlval_key b \<Longrightarrow> a = b"
    by (cases a; cases b) auto
qed

instantiation sqlval :: linorder
begin

definition less_eq_sqlval :: "sqlval \<Rightarrow> sqlval \<Rightarrow> bool" where
  "less_eq_sqlval a b \<longleftrightarrow> sqlval_key a \<le> sqlval_key b"

definition less_sqlval :: "sqlval \<Rightarrow> sqlval \<Rightarrow> bool" where
  "less_sqlval a b \<longleftrightarrow> sqlval_key a < sqlval_key b"

instance
proof
  fix x y z :: sqlval
  show "x < y \<longleftrightarrow> x \<le> y \<and> \<not> y \<le> x" by (auto simp: less_eq_sqlval_def less_sqlval_def)
  show "x \<le> x" by (simp add: less_eq_sqlval_def)
  show "x \<le> y \<Longrightarrow> y \<le> z \<Longrightarrow> x \<le> z" by (simp add: less_eq_sqlval_def)
  show "x \<le> y \<Longrightarrow> y \<le> x \<Longrightarrow> x = y" by (simp add: less_eq_sqlval_def sqlval_key_inj)
  show "x \<le> y \<or> y \<le> x" by (auto simp: less_eq_sqlval_def)
qed

end

lemma VInt_less_eq [simp]: "VInt a \<le> VInt b \<longleftrightarrow> a \<le> b"
  by (auto simp: less_eq_sqlval_def)

lemma VInt_less [simp]: "VInt a < VInt b \<longleftrightarrow> a < b"
  by (simp add: less_sqlval_def)

datatype affinity = AffNumeric | AffText

text \<open>
  A value that meets a column takes the column's affinity: a text that is an integer literal
  becomes the integer, an integer becomes its decimal text.
\<close>

fun apply_affinity :: "affinity \<Rightarrow> sqlval \<Rightarrow> sqlval" where
  "apply_affinity AffNumeric (VText s) = (case dec_to_int s of Some i \<Rightarrow> VInt i | None \<Rightarrow> VText s)"
| "apply_affinity AffText (VInt i) = VText (itoa i)"
| "apply_affinity _ v = v"

text \<open>Arguments as the driver binds them; \<open>database/sql\<close> refuses a \<open>uint64\<close> with the high bit set.\<close>

datatype goarg = AInt int | AU64 u64 | AStr string | ABool bool

fun bind_arg :: "goarg \<Rightarrow> sqlval res" where
  "bind_arg (AInt i) = Inr (VInt i)"
| "bind_arg (AU64 w) =
     (if unat w < 2 ^ 63 then Inr (VInt (uint w))
      else Inl (EDb ''uint64 values with high bit set are not supported''))"
| "bind_arg (AStr s) = Inr (VText s)"
| "bind_arg (ABool b) = Inr (VInt (if b then 1 else 0))"

section \<open>Tables and statements\<close>

record coldef =
  cd_name :: string
  cd_aff :: affinity

text \<open>\<open>t_key\<close> is the table's composite primary key, \<open>t_auto\<close> says that the first column is an
  \<open>INTEGER PRIMARY KEY\<close>, which the database numbers.\<close>

record table =
  t_cols :: "coldef list"
  t_key :: "string list"
  t_auto :: bool
  t_rows :: "sqlval list list"

type_synonym tables = "string \<Rightarrow> table option"

type_synonym sqlcond = "string \<times> string \<times> nat"

datatype limexp = LNum int | LArg nat
datatype selection = SelStar | SelCount | SelCols "string list"

datatype stmt =
    SCreateTable string "coldef list" "string list" bool
  | SCreateIndex
  | SInsert string "string list" "nat list"
  | SUpdate string "(string \<times> nat) list" "sqlcond list"
  | SSelect selection string "sqlcond list" "(string \<times> bool) list" "limexp option" "limexp option"

section \<open>Parsing\<close>

definition is_space :: "char \<Rightarrow> bool" where
  "is_space c \<longleftrightarrow> c = CHR '' '' \<or> c = CHR 0x09 \<or> c = CHR 0x0A"

definition is_punct :: "char \<Rightarrow> bool" where
  "is_punct c \<longleftrightarrow> c = CHR ''('' \<or> c = CHR '')'' \<or> c = CHR '','' \<or> c = CHR '';''"

definition flush :: "string \<Rightarrow> string list \<Rightarrow> string list" where
  "flush w ts = (if w = [] then ts else w # ts)"

fun tokens_acc :: "string \<Rightarrow> string \<Rightarrow> string list" where
  "tokens_acc w [] = flush w []"
| "tokens_acc w (c # cs) =
     (if is_space c then flush w (tokens_acc [] cs)
      else if is_punct c then flush w ([c] # tokens_acc [] cs)
      else tokens_acc (w @ [c]) cs)"

definition tokens :: "string \<Rightarrow> string list" where
  "tokens s = tokens_acc [] s"

definition lower_char :: "char \<Rightarrow> char" where
  "lower_char c = (if 65 \<le> (of_char c :: nat) \<and> (of_char c :: nat) \<le> 90
     then char_of ((of_char c :: nat) + 32) else c)"

definition kw :: "string \<Rightarrow> string \<Rightarrow> bool" where
  "kw t k \<longleftrightarrow> map lower_char t = k"

definition placeholder :: "string \<Rightarrow> nat option" where
  "placeholder t = (case t of [] \<Rightarrow> None | c # ds \<Rightarrow> if c = CHR ''$'' then dec_to_nat ds else None)"

fun p_names :: "string list \<Rightarrow> (string list \<times> string list) option" where
  "p_names (c # t # ts) =
     (if t = '','' then map_option (\<lambda>(cs, r). (c # cs, r)) (p_names ts) else Some ([c], t # ts))"
| "p_names [c] = Some ([c], [])"
| "p_names [] = None"

fun p_conj :: "string list \<Rightarrow> (sqlcond list \<times> string list) option" where
  "p_conj (c # op # p # t # ts) =
     (case placeholder p of None \<Rightarrow> None
      | Some n \<Rightarrow> if kw t ''and'' then map_option (\<lambda>(cs, r). ((c, op, n) # cs, r)) (p_conj ts)
                  else Some ([(c, op, n)], t # ts))"
| "p_conj [c, op, p] = map_option (\<lambda>n. ([(c, op, n)], [])) (placeholder p)"
| "p_conj _ = None"

definition p_where :: "string list \<Rightarrow> (sqlcond list \<times> string list) option" where
  "p_where ts = (case ts of
       t # ts' \<Rightarrow> if kw t ''where'' then p_conj ts' else Some ([], ts)
     | [] \<Rightarrow> Some ([], []))"

fun p_keys :: "string list \<Rightarrow> ((string \<times> bool) list \<times> string list) option" where
  "p_keys (c # d # t # ts) =
     (if kw d ''asc'' \<or> kw d ''desc'' then
        if t = '','' then map_option (\<lambda>(ks, r). ((c, kw d ''desc'') # ks, r)) (p_keys ts)
        else Some ([(c, kw d ''desc'')], t # ts)
      else None)"
| "p_keys [c, d] = (if kw d ''asc'' \<or> kw d ''desc'' then Some ([(c, kw d ''desc'')], []) else None)"
| "p_keys _ = None"

definition p_order :: "string list \<Rightarrow> ((string \<times> bool) list \<times> string list) option" where
  "p_order ts = (case ts of
       t # u # ts' \<Rightarrow> if kw t ''order'' \<and> kw u ''by'' then p_keys ts' else Some ([], ts)
     | _ \<Rightarrow> Some ([], ts))"

definition p_limexp :: "string \<Rightarrow> limexp option" where
  "p_limexp t = (case placeholder t of Some n \<Rightarrow> Some (LArg n)
     | None \<Rightarrow> map_option (\<lambda>n. LNum (int n)) (dec_to_nat t))"

definition p_limit :: "string list \<Rightarrow> (limexp option \<times> limexp option) option" where
  "p_limit ts = (case ts of
       [] \<Rightarrow> Some (None, None)
     | [a, x] \<Rightarrow> if kw a ''limit'' then map_option (\<lambda>l. (Some l, None)) (p_limexp x) else None
     | [a, x, b, y] \<Rightarrow> if kw a ''limit'' \<and> kw b ''offset'' then
           (case (p_limexp x, p_limexp y) of (Some l, Some k) \<Rightarrow> Some (Some l, Some k) | _ \<Rightarrow> None)
         else None
     | _ \<Rightarrow> None)"

definition p_selection :: "string list \<Rightarrow> (selection \<times> string list) option" where
  "p_selection ts =
     (if take 1 ts = [''*''] then Some (SelStar, tl ts)
      else if 4 \<le> length ts \<and> kw (ts ! 0) ''count'' \<and> ts ! 1 = ''('' \<and> ts ! 2 = ''*'' \<and> ts ! 3 = '')''
      then Some (SelCount, drop 4 ts)
      else map_option (\<lambda>(cs, r). (SelCols cs, r)) (p_names ts))"

definition p_select :: "string list \<Rightarrow> stmt option" where
  "p_select ts = Option.bind (p_selection ts) (\<lambda>(sel, ts1). case ts1 of
       f # tbl # ts2 \<Rightarrow> if kw f ''from'' then
           Option.bind (p_where ts2) (\<lambda>(conds, ts3).
           Option.bind (p_order ts3) (\<lambda>(ks, ts4).
           Option.bind (p_limit ts4) (\<lambda>(l, k). Some (SSelect sel tbl conds ks l k))))
         else None
     | _ \<Rightarrow> None)"

definition those_placeholders :: "string list \<Rightarrow> nat list option" where
  "those_placeholders ps = those (map placeholder ps)"

definition p_insert :: "string list \<Rightarrow> stmt option" where
  "p_insert ts = (case ts of
       i # tbl # lp # ts1 \<Rightarrow> if kw i ''into'' \<and> lp = ''('' then
           Option.bind (p_names ts1) (\<lambda>(cols, ts2). case ts2 of
               rp # v # lp2 # ts3 \<Rightarrow> if rp = '')'' \<and> kw v ''values'' \<and> lp2 = ''('' then
                   Option.bind (p_names ts3) (\<lambda>(ps, ts4).
                     if ts4 = ['')''] then
                       map_option (\<lambda>ns. SInsert tbl cols ns) (those_placeholders ps)
                     else None)
                 else None
             | _ \<Rightarrow> None)
         else None
     | _ \<Rightarrow> None)"

fun p_sets :: "string list \<Rightarrow> ((string \<times> nat) list \<times> string list) option" where
  "p_sets (c # e # p # t # ts) =
     (case placeholder p of None \<Rightarrow> None
      | Some n \<Rightarrow> if e \<noteq> ''='' then None
          else if t = '','' then map_option (\<lambda>(cs, r). ((c, n) # cs, r)) (p_sets ts)
          else Some ([(c, n)], t # ts))"
| "p_sets _ = None"

definition p_update :: "string list \<Rightarrow> stmt option" where
  "p_update ts = (case ts of
       tbl # s # ts1 \<Rightarrow> if kw s ''set'' then
           Option.bind (p_sets ts1) (\<lambda>(sets, ts2).
           Option.bind (p_where ts2) (\<lambda>(conds, ts3).
             if ts3 = [] then Some (SUpdate tbl sets conds) else None))
         else None
     | _ \<Rightarrow> None)"

text \<open>The items of a column list: split at the commas outside parentheses, up to the closing one.\<close>

fun p_items :: "nat \<Rightarrow> string list \<Rightarrow> string list \<Rightarrow> string list list option" where
  "p_items d cur [] = None"
| "p_items d cur (t # ts) =
     (if t = ''('' then p_items (Suc d) (cur @ [t]) ts
      else if t = '')'' then
        (if d = 0 then (if ts = [] then Some [cur] else None) else p_items (d - 1) (cur @ [t]) ts)
      else if t = '','' \<and> d = 0 then map_option (Cons cur) (p_items 0 [] ts)
      else p_items d (cur @ [t]) ts)"

definition p_affinity :: "string \<Rightarrow> affinity" where
  "p_affinity ty = (if kw ty ''text'' then AffText else AffNumeric)"

fun p_columns ::
  "string list list \<Rightarrow> (coldef list \<times> string list \<times> bool) \<Rightarrow> (coldef list \<times> string list \<times> bool) option" where
  "p_columns [] acc = Some acc"
| "p_columns (it # its) (cols, key, auto) =
     (case it of
        a # b # rest \<Rightarrow>
          if kw a ''primary'' \<and> kw b ''key'' then
            (case rest of lp # ns \<Rightarrow> (case p_names ns of
                Some (ks, [rp]) \<Rightarrow> if lp = ''('' \<and> rp = '')'' then p_columns its (cols, ks, auto) else None
              | _ \<Rightarrow> None)
             | [] \<Rightarrow> None)
          else p_columns its
            (cols @ [\<lparr>cd_name = a, cd_aff = p_affinity b\<rparr>], key,
             auto \<or> list_ex (\<lambda>t. kw t ''primary'') rest)
      | _ \<Rightarrow> None)"

definition p_create :: "string list \<Rightarrow> stmt option" where
  "p_create ts = (case ts of
       what # i # n # e # name # ts1 \<Rightarrow>
         if kw i ''if'' \<and> kw n ''not'' \<and> kw e ''exists'' then
           if kw what ''index'' then Some SCreateIndex
           else if kw what ''table'' then (case ts1 of
               lp # ts2 \<Rightarrow> if lp = ''('' then
                   Option.bind (p_items 0 [] ts2) (\<lambda>its.
                   Option.bind (p_columns its ([], [], False)) (\<lambda>(cols, key, auto).
                     Some (SCreateTable name cols key auto)))
                 else None
             | [] \<Rightarrow> None)
           else None
         else None
     | _ \<Rightarrow> None)"

definition p_stmt :: "string list \<Rightarrow> stmt option" where
  "p_stmt ts = (case ts of
       [] \<Rightarrow> None
     | t # ts' \<Rightarrow> if kw t ''select'' then p_select ts'
         else if kw t ''insert'' then p_insert ts'
         else if kw t ''update'' then p_update ts'
         else if kw t ''create'' then p_create ts'
         else None)"

fun split_stmts :: "string list \<Rightarrow> string list \<Rightarrow> string list list" where
  "split_stmts cur [] = (if cur = [] then [] else [cur])"
| "split_stmts cur (t # ts) =
     (if t = '';'' then (if cur = [] then split_stmts [] ts else cur # split_stmts [] ts)
      else split_stmts (cur @ [t]) ts)"

definition parse_script :: "string \<Rightarrow> stmt list option" where
  "parse_script text = those (map p_stmt (split_stmts [] (tokens text)))"

definition parse_query :: "string \<Rightarrow> stmt option" where
  "parse_query text = (case parse_script text of Some [s] \<Rightarrow> Some s | _ \<Rightarrow> None)"

section \<open>Execution\<close>

definition col_index :: "table \<Rightarrow> string \<Rightarrow> nat option" where
  "col_index t c = (let ns = map cd_name (t_cols t) in
     if c \<in> set ns then Some (length (takeWhile (\<lambda>n. n \<noteq> c) ns)) else None)"

definition known_op :: "string \<Rightarrow> bool" where
  "known_op op \<longleftrightarrow> op = ''='' \<or> op = ''<>'' \<or> op = ''<'' \<or> op = ''>''"

definition sql_compare :: "string \<Rightarrow> sqlval \<Rightarrow> sqlval \<Rightarrow> bool" where
  "sql_compare op a b \<longleftrightarrow>
     a \<noteq> VNull \<and> b \<noteq> VNull \<and>
     (if op = ''='' then a = b else if op = ''<>'' then a \<noteq> b
      else if op = ''<'' then a < b else b < a)"

definition cond_ok :: "table \<Rightarrow> nat \<Rightarrow> sqlcond \<Rightarrow> bool" where
  "cond_ok t nargs = (\<lambda>(c, op, n). col_index t c \<noteq> None \<and> known_op op \<and> 1 \<le> n \<and> n \<le> nargs)"

definition cond_holds :: "table \<Rightarrow> sqlval list \<Rightarrow> sqlval list \<Rightarrow> sqlcond \<Rightarrow> bool" where
  "cond_holds t args row = (\<lambda>(c, op, n).
     case col_index t c of None \<Rightarrow> False
     | Some i \<Rightarrow> sql_compare op (row ! i) (apply_affinity (cd_aff (t_cols t ! i)) (args ! (n - 1))))"

definition row_matches :: "table \<Rightarrow> sqlval list \<Rightarrow> sqlcond list \<Rightarrow> sqlval list \<Rightarrow> bool" where
  "row_matches t args conds row \<longleftrightarrow> list_all (cond_holds t args row) conds"

definition sort_by :: "table \<Rightarrow> string \<times> bool \<Rightarrow> sqlval list list \<Rightarrow> sqlval list list" where
  "sort_by t = (\<lambda>(c, desc) rs. case col_index t c of None \<Rightarrow> rs
     | Some i \<Rightarrow> if desc then rev (sort_key (\<lambda>r. r ! i) (rev rs)) else sort_key (\<lambda>r. r ! i) rs)"

definition sort_rows :: "table \<Rightarrow> (string \<times> bool) list \<Rightarrow> sqlval list list \<Rightarrow> sqlval list list" where
  "sort_rows t ks rs = foldr (sort_by t) ks rs"

definition lim_value :: "sqlval list \<Rightarrow> limexp \<Rightarrow> int option" where
  "lim_value args l = (case l of LNum i \<Rightarrow> Some i
     | LArg n \<Rightarrow> if 1 \<le> n \<and> n \<le> length args
         then (case args ! (n - 1) of VInt i \<Rightarrow> Some i | _ \<Rightarrow> None) else None)"

text \<open>A negative limit is no limit, a negative offset is no offset.\<close>

definition sql_limit :: "int option \<Rightarrow> int option \<Rightarrow> 'r list \<Rightarrow> 'r list" where
  "sql_limit l k rs =
     (let rs' = (case k of None \<Rightarrow> rs | Some i \<Rightarrow> drop (nat i) rs)
      in case l of None \<Rightarrow> rs' | Some i \<Rightarrow> if i < 0 then rs' else take (nat i) rs')"

definition sql_error :: "string \<Rightarrow> err" where
  "sql_error m = EDb m"

definition project :: "table \<Rightarrow> string list \<Rightarrow> sqlval list \<Rightarrow> sqlval list" where
  "project t cs row = map (\<lambda>c. case col_index t c of None \<Rightarrow> VNull | Some i \<Rightarrow> row ! i) cs"

text \<open>The result of a query: the column names and the rows.\<close>

type_synonym resultset = "string list \<times> sqlval list list"

definition opt_lim :: "sqlval list \<Rightarrow> limexp option \<Rightarrow> int option option" where
  "opt_lim args l = (case l of None \<Rightarrow> Some None | Some e \<Rightarrow> map_option Some (lim_value args e))"

definition run_select ::
  "selection \<Rightarrow> table \<Rightarrow> sqlcond list \<Rightarrow> (string \<times> bool) list \<Rightarrow> limexp option \<Rightarrow> limexp option \<Rightarrow>
   sqlval list \<Rightarrow> resultset res" where
  "run_select sel t conds ks l k args =
     (if \<not> list_all (cond_ok t (length args)) conds \<or> \<not> list_all (\<lambda>(c, _). col_index t c \<noteq> None) ks
         \<or> (case sel of SelCols cs \<Rightarrow> \<not> list_all (\<lambda>c. col_index t c \<noteq> None) cs | _ \<Rightarrow> False)
      then Inl (sql_error ''no such column'')
      else case (opt_lim args l, opt_lim args k) of
        (Some l', Some k') \<Rightarrow>
          (let rs = filter (row_matches t args conds) (t_rows t)
           in case sel of
             SelCount \<Rightarrow> Inr ([''count(*)''], [[VInt (int (length rs))]])
           | SelStar \<Rightarrow> Inr (map cd_name (t_cols t), sql_limit l' k' (sort_rows t ks rs))
           | SelCols cs \<Rightarrow> Inr (cs, map (project t cs) (sql_limit l' k' (sort_rows t ks rs))))
      | _ \<Rightarrow> Inl (sql_error ''datatype mismatch''))"

definition sql_query :: "tables \<Rightarrow> string \<Rightarrow> goarg list \<Rightarrow> resultset res" where
  "sql_query ts text args =
     (case parse_query text of
        Some (SSelect sel tbl conds ks l k) \<Rightarrow>
          rbind (rmap bind_arg args) (\<lambda>vals.
          case ts tbl of None \<Rightarrow> Inl (sql_error ''no such table'')
          | Some t \<Rightarrow> run_select sel t conds ks l k vals)
      | _ \<Rightarrow> Inl (sql_error ''syntax error''))"

definition key_values :: "table \<Rightarrow> sqlval list \<Rightarrow> sqlval list" where
  "key_values t row = project t (t_key t) row"

definition unique_ok :: "table \<Rightarrow> bool" where
  "unique_ok t \<longleftrightarrow> t_key t = [] \<or> distinct (map (key_values t) (t_rows t))"

definition next_id :: "table \<Rightarrow> int" where
  "next_id t = foldr (\<lambda>row m. case row of VInt i # _ \<Rightarrow> max i m | _ \<Rightarrow> m) (t_rows t) 0 + 1"

definition insert_value :: "table \<Rightarrow> string list \<Rightarrow> sqlval list \<Rightarrow> nat \<Rightarrow> sqlval" where
  "insert_value t cs vals i =
     (let cd = t_cols t ! i in
      case map_of (zip cs vals) (cd_name cd) of
        Some v \<Rightarrow> apply_affinity (cd_aff cd) v
      | None \<Rightarrow> if t_auto t \<and> i = 0 then VInt (next_id t) else VNull)"

definition run_insert :: "table \<Rightarrow> string list \<Rightarrow> nat list \<Rightarrow> sqlval list \<Rightarrow> table res" where
  "run_insert t cs ns vals =
     (if length cs \<noteq> length ns \<or> \<not> list_all (\<lambda>c. col_index t c \<noteq> None) cs
         \<or> \<not> list_all (\<lambda>n. 1 \<le> n \<and> n \<le> length vals) ns
      then Inl (sql_error ''bad insert'')
      else let vs = map (\<lambda>n. vals ! (n - 1)) ns;
               row = map (insert_value t cs vs) [0..<length (t_cols t)];
               t' = t\<lparr>t_rows := t_rows t @ [row]\<rparr>
           in if unique_ok t' then Inr t' else Inl (sql_error ''UNIQUE constraint failed''))"

definition set_columns :: "table \<Rightarrow> sqlval list \<Rightarrow> (string \<times> nat) list \<Rightarrow> sqlval list \<Rightarrow> sqlval list" where
  "set_columns t vals sets row =
     fold (\<lambda>(c, n) r. case col_index t c of None \<Rightarrow> r
       | Some i \<Rightarrow> r[i := apply_affinity (cd_aff (t_cols t ! i)) (vals ! (n - 1))]) sets row"

definition run_update ::
  "table \<Rightarrow> (string \<times> nat) list \<Rightarrow> sqlcond list \<Rightarrow> sqlval list \<Rightarrow> table res" where
  "run_update t sets conds vals =
     (if \<not> list_all (\<lambda>(c, n). col_index t c \<noteq> None \<and> 1 \<le> n \<and> n \<le> length vals) sets
         \<or> \<not> list_all (cond_ok t (length vals)) conds
      then Inl (sql_error ''bad update'')
      else let t' = t\<lparr>t_rows := map (\<lambda>row. if row_matches t vals conds row
                       then set_columns t vals sets row else row) (t_rows t)\<rparr>
           in if unique_ok t' then Inr t' else Inl (sql_error ''UNIQUE constraint failed''))"

definition run_stmt :: "sqlval list \<Rightarrow> stmt \<Rightarrow> tables \<Rightarrow> tables res" where
  "run_stmt vals st ts = (case st of
       SCreateTable name cols key auto \<Rightarrow>
         (case ts name of Some _ \<Rightarrow> Inr ts
          | None \<Rightarrow> Inr (ts(name \<mapsto> \<lparr>t_cols = cols, t_key = key, t_auto = auto, t_rows = []\<rparr>)))
     | SCreateIndex \<Rightarrow> Inr ts
     | SInsert tbl cs ns \<Rightarrow> (case ts tbl of None \<Rightarrow> Inl (sql_error ''no such table'')
          | Some t \<Rightarrow> rbind (run_insert t cs ns vals) (\<lambda>t'. Inr (ts(tbl \<mapsto> t'))))
     | SUpdate tbl sets conds \<Rightarrow> (case ts tbl of None \<Rightarrow> Inl (sql_error ''no such table'')
          | Some t \<Rightarrow> rbind (run_update t sets conds vals) (\<lambda>t'. Inr (ts(tbl \<mapsto> t'))))
     | SSelect _ _ _ _ _ _ \<Rightarrow> Inr ts)"

fun run_stmts :: "sqlval list \<Rightarrow> stmt list \<Rightarrow> tables \<Rightarrow> tables res" where
  "run_stmts vals [] ts = Inr ts"
| "run_stmts vals (st # sts) ts = rbind (run_stmt vals st ts) (run_stmts vals sts)"

definition sql_exec :: "tables \<Rightarrow> string \<Rightarrow> goarg list \<Rightarrow> tables res" where
  "sql_exec ts text args =
     (case parse_script text of
        None \<Rightarrow> Inl (sql_error ''syntax error'')
      | Some sts \<Rightarrow> rbind (rmap bind_arg args) (\<lambda>vals. run_stmts vals sts ts))"

section \<open>The connection: faults, transactions\<close>

text \<open>
  A database handle. \<open>db_faults\<close> is the schedule of failures the environment has chosen: each
  statement takes the next entry, \<open>None\<close> (or an exhausted schedule) lets it run,
  \<open>Some (FailNow m)\<close> makes the call itself return the error and \<open>Some (FailNext m)\<close> makes the
  iteration over the rows of a query fail. \<open>db_pending\<close> is the content seen by an open
  transaction; reads through the plain handle see \<open>db_committed\<close>.
\<close>

datatype fault = FailNow string | FailNext string

record db =
  db_committed :: tables
  db_pending :: "tables option"
  db_faults :: "fault option list"

definition pop_fault :: "db \<Rightarrow> fault option \<times> db" where
  "pop_fault d = (case db_faults d of [] \<Rightarrow> (None, d) | f # fs \<Rightarrow> (f, d\<lparr>db_faults := fs\<rparr>))"

text \<open>A context either carries a transaction or not (\<open>GetTransaction\<close>).\<close>

datatype ctx = NoTx | WithTx

text \<open>Rows that a query handed out: \<open>Next\<close> walks over them, \<open>Err\<close> is the iteration error.\<close>

record sqlrows =
  rs_cols :: "string list"
  rs_rows :: "sqlval list list"
  rs_err :: "err option"

definition db_Query :: "string \<Rightarrow> goarg list \<Rightarrow> (db, sqlrows) comp" where
  "db_Query text args d = (case pop_fault d of
       (Some (FailNow m), d') \<Rightarrow> (Inl (EDb m), d')
     | (Some (FailNext m), d') \<Rightarrow> (Inr \<lparr>rs_cols = [], rs_rows = [], rs_err = Some (EDb m)\<rparr>, d')
     | (None, d') \<Rightarrow> (case sql_query (db_committed d') text args of
           Inl e \<Rightarrow> (Inl e, d')
         | Inr (cs, rs) \<Rightarrow> (Inr \<lparr>rs_cols = cs, rs_rows = rs, rs_err = None\<rparr>, d')))"

text \<open>\<open>Select\<close> and \<open>Get\<close> read the whole result and return an iteration error as an error.\<close>

definition db_Select :: "string \<Rightarrow> goarg list \<Rightarrow> (db, resultset) comp" where
  "db_Select text args = andThen (db_Query text args) (\<lambda>rs. case rs_err rs of
       Some e \<Rightarrow> fail e | None \<Rightarrow> ret (rs_cols rs, rs_rows rs))"

definition ErrNoRows :: err where
  "ErrNoRows = EDb ''sql: no rows in result set''"

definition db_Get :: "string \<Rightarrow> goarg list \<Rightarrow> (db, string list \<times> sqlval list) comp" where
  "db_Get text args = andThen (db_Select text args) (\<lambda>(cs, rs). case rs of
       [] \<Rightarrow> fail ErrNoRows | r # _ \<Rightarrow> ret (cs, r))"

definition ErrTxDone :: err where
  "ErrTxDone = EDb ''sql: transaction has already been committed or rolled back''"

definition db_Exec :: "string \<Rightarrow> goarg list \<Rightarrow> (db, unit) comp" where
  "db_Exec text args d = (case pop_fault d of
       (Some (FailNow m), d') \<Rightarrow> (Inl (EDb m), d')
     | (Some (FailNext m), d') \<Rightarrow> (Inl (EDb m), d')
     | (None, d') \<Rightarrow> (case sql_exec (db_committed d') text args of
           Inl e \<Rightarrow> (Inl e, d')
         | Inr ts \<Rightarrow> (Inr (), d'\<lparr>db_committed := ts\<rparr>)))"

definition tx_Exec :: "string \<Rightarrow> goarg list \<Rightarrow> (db, unit) comp" where
  "tx_Exec text args d = (case db_pending d of
       None \<Rightarrow> (Inl ErrTxDone, d)
     | Some pend \<Rightarrow> (case pop_fault d of
           (Some (FailNow m), d') \<Rightarrow> (Inl (EDb m), d')
         | (Some (FailNext m), d') \<Rightarrow> (Inl (EDb m), d')
         | (None, d') \<Rightarrow> (case sql_exec pend text args of
               Inl e \<Rightarrow> (Inl e, d')
             | Inr ts \<Rightarrow> (Inr (), d'\<lparr>db_pending := Some ts\<rparr>))))"

text \<open>\<open>Beginx\<close>, \<open>Commit\<close> and \<open>Rollback\<close>. A failed commit ends the transaction without its writes.\<close>

definition db_Begin :: "(db, unit) comp" where
  "db_Begin d = (case pop_fault d of
       (Some (FailNow m), d') \<Rightarrow> (Inl (EDb m), d')
     | (Some (FailNext m), d') \<Rightarrow> (Inl (EDb m), d')
     | (None, d') \<Rightarrow> (Inr (), d'\<lparr>db_pending := Some (db_committed d')\<rparr>))"

definition tx_Commit :: "(db, unit) comp" where
  "tx_Commit d = (case db_pending d of
       None \<Rightarrow> (Inl ErrTxDone, d)
     | Some pend \<Rightarrow> (case pop_fault d of
           (Some (FailNow m), d') \<Rightarrow> (Inl (EDb m), d'\<lparr>db_pending := None\<rparr>)
         | (Some (FailNext m), d') \<Rightarrow> (Inl (EDb m), d'\<lparr>db_pending := None\<rparr>)
         | (None, d') \<Rightarrow> (Inr (), d'\<lparr>db_committed := pend, db_pending := None\<rparr>)))"

definition tx_Rollback :: "(db, unit) comp" where
  "tx_Rollback d = (case db_pending d of
       None \<Rightarrow> (Inl ErrTxDone, d)
     | Some _ \<Rightarrow> (Inr (), d\<lparr>db_pending := None\<rparr>))"

section \<open>Scanning values into Go variables\<close>

definition scan_int :: "sqlval \<Rightarrow> int res" where
  "scan_int v = (case v of VInt i \<Rightarrow> Inr i
     | VText s \<Rightarrow> (case Atoi s of Inr i \<Rightarrow> Inr i | Inl _ \<Rightarrow> Inl (EDb ''converting to an int: invalid syntax''))
     | VNull \<Rightarrow> Inl (EDb ''converting NULL to int is unsupported''))"

definition scan_u64 :: "sqlval \<Rightarrow> u64 res" where
  "scan_u64 v = rbind (scan_int v) (\<lambda>i.
     if i < 0 then Inl (EDb ''converting to a uint64: invalid syntax'') else Inr (of_int i))"

definition scan_string :: "sqlval \<Rightarrow> string res" where
  "scan_string v = (case v of VText s \<Rightarrow> Inr s | VInt i \<Rightarrow> Inr (itoa i)
     | VNull \<Rightarrow> Inl (EDb ''converting NULL to string is unsupported''))"

definition scan_bool :: "sqlval \<Rightarrow> bool res" where
  "scan_bool v = (case v of VInt i \<Rightarrow>
       if i = 1 then Inr True else if i = 0 then Inr False else Inl (EDb ''could not convert to bool'')
     | _ \<Rightarrow> Inl (EDb ''could not convert to bool''))"

text \<open>\<open>StructScan\<close> finds a column by its \<open>db\<close> tag.\<close>

definition column :: "string list \<Rightarrow> sqlval list \<Rightarrow> string \<Rightarrow> sqlval res" where
  "column cs row c = (case map_of (zip cs row) c of Some v \<Rightarrow> Inr v
     | None \<Rightarrow> Inl (EDb ''missing destination name''))"

end
