(* ===== verification/SqlLemmas.thy ===== *)
theory SqlLemmas
  imports SqlEngine "HOL-Library.Multiset"
begin

text \<open>
  How the SQL engine reads the texts that the repositories build: a constant head, a
  \<open>WHERE\<close> clause assembled from fragments \<open>column op $n\<close> joined with \<open>and\<close>, and a constant
  tail. The main facts are \<open>parse_query_page\<close> and \<open>parse_query_where\<close> (what such a text means)
  and \<open>sql_query_page\<close> and \<open>sql_query_count\<close> (what it returns). The locale
  \<open>where_builder\<close> is the contract of the four \<open>transformTo...Query\<close> loops.
\<close>

section \<open>Tokens\<close>

lemma flush_append: "flush w (xs @ ys) = flush w xs @ ys"
  by (simp add: flush_def)

lemma tokens_acc_space:
  "is_space c \<Longrightarrow> tokens_acc w (s @ c # t) = tokens_acc w s @ tokens_acc [] t"
  by (induction s arbitrary: w) (simp_all add: flush_append, simp_all add: flush_def)

lemma tokens_space: "is_space c \<Longrightarrow> tokens (s @ c # t) = tokens s @ tokens t"
  by (simp add: tokens_def tokens_acc_space)

lemma is_space_blank [simp]: "is_space (CHR '' '')"
  by (simp add: is_space_def)

lemma tokens_blank [simp]: "tokens (s @ CHR '' '' # t) = tokens s @ tokens t"
  by (simp add: tokens_space)

lemma tokens_Nil [simp]: "tokens [] = []"
  by (simp add: tokens_def flush_def)

definition ends_blank :: "string \<Rightarrow> bool" where
  "ends_blank s \<longleftrightarrow> s \<noteq> [] \<and> last s = CHR '' ''"

lemma tokens_append: "ends_blank s \<Longrightarrow> tokens (s @ t) = tokens s @ tokens t"
proof -
  assume "ends_blank s"
  then have s: "s = butlast s @ [CHR '' '']" by (simp add: ends_blank_def) (metis append_butlast_last_id)
  have "tokens (s @ t) = tokens (butlast s) @ tokens t"
    by (subst s) simp
  also have "tokens (butlast s) = tokens s" by (subst (2) s) simp
  finally show ?thesis .
qed

text \<open>A word is one token.\<close>

definition word :: "string \<Rightarrow> bool" where
  "word s \<longleftrightarrow> s \<noteq> [] \<and> list_all (\<lambda>c. \<not> is_space c \<and> \<not> is_punct c) s"

lemma tokens_acc_word:
  "list_all (\<lambda>c. \<not> is_space c \<and> \<not> is_punct c) s \<Longrightarrow> tokens_acc w s = flush (w @ s) []"
  by (induction s arbitrary: w) simp_all

lemma tokens_word [simp]: "word s \<Longrightarrow> tokens s = [s]"
  by (simp add: tokens_def word_def tokens_acc_word flush_def)

lemma digit_not_special: "c \<in> set ''0123456789'' \<Longrightarrow> \<not> is_space c \<and> \<not> is_punct c"
  by (auto simp: is_space_def is_punct_def)

lemma word_placeholder [simp]: "word (CHR ''$'' # itoa (int n))"
  using set_nat_to_dec [of n] digit_not_special
  by (auto simp: word_def itoa_def list_all_iff is_space_def is_punct_def dest!: subsetD)

lemma placeholder_itoa [simp]: "placeholder (CHR ''$'' # itoa (int n)) = Some n"
  by (simp add: placeholder_def itoa_def)

lemma p_limexp_itoa [simp]: "p_limexp (CHR ''$'' # itoa (int n)) = Some (LArg n)"
  by (simp add: p_limexp_def)

section \<open>Where clauses\<close>

text \<open>\<open>cond_text\<close> is the fragment of one condition, \<open>conds_text\<close> the clause.\<close>

definition cond_text :: "sqlcond \<Rightarrow> string" where
  "cond_text = (\<lambda>(c, op, n). c @ '' '' @ op @ '' $'' @ itoa (int n) @ '' '')"

definition conds_text :: "sqlcond list \<Rightarrow> string" where
  "conds_text cs = (if cs = [] then [] else ''WHERE '' @ join '' and '' (map cond_text cs))"

definition cond_tokens :: "sqlcond \<Rightarrow> string list" where
  "cond_tokens = (\<lambda>(c, op, n). [c, op, CHR ''$'' # itoa (int n)])"

fun conj_tokens :: "sqlcond list \<Rightarrow> string list" where
  "conj_tokens [] = []"
| "conj_tokens [c] = cond_tokens c"
| "conj_tokens (c # d # cs) = cond_tokens c @ ''and'' # conj_tokens (d # cs)"

definition where_tokens :: "sqlcond list \<Rightarrow> string list" where
  "where_tokens cs = (if cs = [] then [] else ''WHERE'' # conj_tokens cs)"

definition cond_words :: "sqlcond \<Rightarrow> bool" where
  "cond_words = (\<lambda>(c, op, n). word c \<and> word op)"

lemma tokens_cond_text: "cond_words c \<Longrightarrow> tokens (cond_text c @ s) = cond_tokens c @ tokens s"
proof -
  assume w: "cond_words c"
  obtain a op n where c: "c = (a, op, n)" by (cases c)
  have "tokens (cond_text c @ s) =
      tokens (a @ CHR '' '' # op @ CHR '' '' # (CHR ''$'' # itoa (int n)) @ CHR '' '' # s)"
    by (simp add: cond_text_def c)
  also have "\<dots> = [a] @ [op] @ [CHR ''$'' # itoa (int n)] @ tokens s"
    using w by (simp only: tokens_blank) (simp add: cond_words_def c)
  finally show ?thesis by (simp add: cond_tokens_def c)
qed

lemma tokens_join:
  "list_all cond_words cs \<Longrightarrow> cs \<noteq> [] \<Longrightarrow>
   tokens (join '' and '' (map cond_text cs) @ s) = conj_tokens cs @ tokens s"
proof (induction cs rule: conj_tokens.induct)
  case (2 c)
  then show ?case by (simp add: tokens_cond_text)
next
  case (3 c d cs)
  have "tokens (join '' and '' (map cond_text (c # d # cs)) @ s) =
      tokens (cond_text c @ '' and '' @ join '' and '' (map cond_text (d # cs)) @ s)"
    by simp
  also have "\<dots> = cond_tokens c @ tokens ([] @ CHR '' '' # ''and'' @ CHR '' '' #
      join '' and '' (map cond_text (d # cs)) @ s)"
    using "3.prems" by (subst tokens_cond_text) simp_all
  also have "\<dots> = cond_tokens c @ [''and''] @ tokens (join '' and '' (map cond_text (d # cs)) @ s)"
  proof -
    have "word ''and''" by (simp add: word_def is_space_def is_punct_def)
    then show ?thesis by (simp only: tokens_blank) simp
  qed
  finally show ?case using 3 by simp
qed simp

lemma tokens_conds_text:
  "list_all cond_words cs \<Longrightarrow> tokens (conds_text cs @ s) = where_tokens cs @ tokens s"
proof (cases "cs = []")
  case False
  assume w: "list_all cond_words cs"
  have "tokens (conds_text cs @ s) = tokens (''WHERE'' @ CHR '' '' # join '' and '' (map cond_text cs) @ s)"
    using False by (simp add: conds_text_def)
  also have "\<dots> = tokens ''WHERE'' @ tokens (join '' and '' (map cond_text cs) @ s)"
    by (simp only: tokens_blank)
  also have "tokens ''WHERE'' = [''WHERE'']"
    by (intro tokens_word) (simp add: word_def is_space_def is_punct_def)
  finally show ?thesis using False w by (simp add: tokens_join where_tokens_def)
qed (simp add: conds_text_def where_tokens_def)

subsection \<open>Reading a clause back\<close>

lemma p_conj_tokens:
  "cs \<noteq> [] \<Longrightarrow> (case rest of [] \<Rightarrow> True | t # _ \<Rightarrow> \<not> kw t ''and'') \<Longrightarrow>
   p_conj (conj_tokens cs @ rest) = Some (cs, rest)"
proof (induction cs rule: conj_tokens.induct)
  case (2 c)
  then show ?case by (cases c) (auto simp: cond_tokens_def split: list.splits)
next
  case (3 c d cs)
  have "kw ''and'' ''and''" by code_simp
  with 3 show ?case by (cases c) (simp add: cond_tokens_def)
qed simp

lemma p_where_tokens:
  assumes "case rest of [] \<Rightarrow> True | t # _ \<Rightarrow> \<not> kw t ''and'' \<and> \<not> kw t ''where''"
  shows "p_where (where_tokens cs @ rest) = Some (cs, rest)"
proof (cases "cs = []")
  case True
  with assms show ?thesis by (cases rest) (simp_all add: where_tokens_def p_where_def)
next
  case False
  have "kw ''WHERE'' ''where''" by code_simp
  moreover have "p_conj (conj_tokens cs @ rest) = Some (cs, rest)"
    using False assms by (intro p_conj_tokens) (auto split: list.splits)
  ultimately show ?thesis using False by (simp add: where_tokens_def p_where_def)
qed

lemma semi_not_conj_tokens:
  "list_all cond_words cs \<Longrightarrow> '';'' \<notin> set (conj_tokens cs)"
  by (induction cs rule: conj_tokens.induct)
    (auto simp: cond_words_def cond_tokens_def word_def is_punct_def)

lemma semi_not_where_tokens [simp]:
  "list_all cond_words cs \<Longrightarrow> '';'' \<notin> set (where_tokens cs)"
  by (simp add: where_tokens_def semi_not_conj_tokens)

section \<open>Whole statements\<close>

lemma split_stmts_single: "'';'' \<notin> set ts \<Longrightarrow> cur @ ts \<noteq> [] \<Longrightarrow> split_stmts cur ts = [cur @ ts]"
  by (induction ts arbitrary: cur) auto

lemma parse_query_tokens:
  "'';'' \<notin> set (tokens text) \<Longrightarrow> tokens text \<noteq> [] \<Longrightarrow> parse_query text = p_stmt (tokens text)"
  by (simp add: parse_query_def parse_script_def split_stmts_single split: option.splits)

lemma parse_script_single: "parse_query text = Some s \<Longrightarrow> parse_script text = Some [s]"
  by (auto simp: parse_query_def split: option.splits list.splits)

text \<open>\<open>select_head pre sel tbl\<close>: the text \<open>pre\<close> is \<open>SELECT ... FROM tbl\<close> and a blank.\<close>

definition select_head :: "string \<Rightarrow> selection \<Rightarrow> string \<Rightarrow> bool" where
  "select_head pre sel tbl \<longleftrightarrow> ends_blank pre \<and> '';'' \<notin> set (tokens pre) \<and>
     (\<exists>ts. tokens pre = ''SELECT'' # ts \<and> (\<forall>r. p_selection (ts @ r) = Some (sel, ''FROM'' # tbl # r)))"

definition order_tail :: "string \<Rightarrow> (string \<times> bool) list \<Rightarrow> bool" where
  "order_tail ord ks \<longleftrightarrow> ends_blank ord \<and> '';'' \<notin> set (tokens ord) \<and>
     (\<exists>ts. tokens ord = ''ORDER'' # ts \<and>
       (\<forall>r. p_order (''ORDER'' # ts @ ''LIMIT'' # r) = Some (ks, ''LIMIT'' # r)))"

lemma kw_facts [simp]:
  "kw ''SELECT'' ''select''" "kw ''FROM'' ''from''" "kw ''LIMIT'' ''limit''" "kw ''OFFSET'' ''offset''"
  "\<not> kw ''ORDER'' ''and''" "\<not> kw ''ORDER'' ''where''"
  "kw ''ORDER'' ''order''" "kw ''BY'' ''by''" "kw ''ASC'' ''asc''" "\<not> kw ''ASC'' ''desc''"
  by code_simp+

lemma select_headI:
  assumes "tokens pre = ''SELECT'' # ts" and "ends_blank pre" and "'';'' \<notin> set ts"
    and "\<And>r. p_selection (ts @ r) = Some (sel, ''FROM'' # tbl # r)"
  shows "select_head pre sel tbl"
  using assms by (auto simp: select_head_def)

lemma order_tailI:
  assumes "tokens ord = ''ORDER'' # ts" and "ends_blank ord" and "'';'' \<notin> set ts"
    and "\<And>r. p_order (''ORDER'' # ts @ ''LIMIT'' # r) = Some (ks, ''LIMIT'' # r)"
  shows "order_tail ord ks"
  using assms by (auto simp: order_tail_def)

text \<open>The heads and tails that all the repositories share.\<close>

lemma select_head_count:
  assumes "tokens pre = [''SELECT'', ''count'', ''('', ''*'', '')'', ''FROM'', tbl]" and "ends_blank pre"
    and "tbl \<noteq> '';''"
  shows "select_head pre SelCount tbl"
proof (rule select_headI [OF assms(1,2)])
  have "kw ''count'' ''count''" by code_simp
  then show "p_selection ([''count'', ''('', ''*'', '')'', ''FROM'', tbl] @ r) = Some (SelCount, ''FROM'' # tbl # r)" for r
    by (simp add: p_selection_def)
qed (use assms(3) in simp)

lemma select_head_star:
  assumes "tokens pre = [''SELECT'', ''*'', ''FROM'', tbl]" and "ends_blank pre" and "tbl \<noteq> '';''"
  shows "select_head pre SelStar tbl"
proof (rule select_headI [OF assms(1,2)])
  show "p_selection ([''*'', ''FROM'', tbl] @ r) = Some (SelStar, ''FROM'' # tbl # r)" for r
    by (simp add: p_selection_def)
qed (use assms(3) in simp)

lemma order_tail_input_output:
  assumes "tokens ord = [''ORDER'', ''BY'', ''input_index'', ''ASC'', '','', ''output_index'', ''ASC'']"
    and "ends_blank ord"
  shows "order_tail ord [(''input_index'', False), (''output_index'', False)]"
proof (rule order_tailI [OF assms])
  show "p_order (''ORDER'' # [''BY'', ''input_index'', ''ASC'', '','', ''output_index'', ''ASC''] @ ''LIMIT'' # r)
    = Some ([(''input_index'', False), (''output_index'', False)], ''LIMIT'' # r)" for r
    by (simp add: p_order_def)
qed simp

lemma order_tail_single:
  assumes "tokens ord = [''ORDER'', ''BY'', c, ''ASC'']" and "ends_blank ord" and "c \<noteq> '';''"
  shows "order_tail ord [(c, False)]"
proof (rule order_tailI [OF assms(1,2)])
  show "p_order (''ORDER'' # [''BY'', c, ''ASC''] @ ''LIMIT'' # r) = Some ([(c, False)], ''LIMIT'' # r)" for r
    by (simp add: p_order_def)
qed (use assms(3) in simp)

lemma parse_query_where:
  assumes head: "select_head pre sel tbl" and w: "list_all cond_words cs"
  shows "parse_query (pre @ conds_text cs) = Some (SSelect sel tbl cs [] None None)"
proof -
  from head obtain ts where eb: "ends_blank pre" and semi: "'';'' \<notin> set (tokens pre)"
    and ts: "tokens pre = ''SELECT'' # ts" "\<And>r. p_selection (ts @ r) = Some (sel, ''FROM'' # tbl # r)"
    by (auto simp: select_head_def)
  have toks: "tokens (pre @ conds_text cs) = ''SELECT'' # ts @ where_tokens cs"
    using eb w ts tokens_conds_text [of cs "[]"] by (simp add: tokens_append)
  have "p_where (where_tokens cs) = Some (cs, [])" using p_where_tokens [of "[]" cs] by simp
  then have "p_select (ts @ where_tokens cs) = Some (SSelect sel tbl cs [] None None)"
    by (simp add: p_select_def ts(2) p_order_def p_limit_def)
  moreover have "parse_query (pre @ conds_text cs) = p_stmt (tokens (pre @ conds_text cs))"
    using semi ts w by (intro parse_query_tokens) (simp_all add: toks)
  ultimately show ?thesis by (simp add: toks p_stmt_def)
qed

definition page_tail :: "nat \<Rightarrow> nat \<Rightarrow> string" where
  "page_tail n m = ''LIMIT $'' @ itoa (int n) @ '' '' @ ''OFFSET $'' @ itoa (int m) @ '' ''"

lemma tokens_page_tail:
  "tokens (page_tail n m) =
     [''LIMIT'', CHR ''$'' # itoa (int n), ''OFFSET'', CHR ''$'' # itoa (int m)]"
proof -
  have "page_tail n m = ''LIMIT'' @ CHR '' '' # (CHR ''$'' # itoa (int n)) @ CHR '' '' #
      ''OFFSET'' @ CHR '' '' # (CHR ''$'' # itoa (int m)) @ CHR '' '' # []"
    by (simp add: page_tail_def)
  moreover have "word ''LIMIT''" "word ''OFFSET''"
    by (simp_all add: word_def is_space_def is_punct_def)
  ultimately show ?thesis by (simp only: tokens_blank) simp
qed

lemma parse_query_page:
  assumes head: "select_head pre sel tbl" and w: "list_all cond_words cs" and tail: "order_tail ord ks"
  shows "parse_query (pre @ conds_text cs @ ord @ page_tail n m) =
    Some (SSelect sel tbl cs ks (Some (LArg n)) (Some (LArg m)))"
proof -
  from head obtain ts where eb: "ends_blank pre" and semi: "'';'' \<notin> set (tokens pre)"
    and ts: "tokens pre = ''SELECT'' # ts" "\<And>r. p_selection (ts @ r) = Some (sel, ''FROM'' # tbl # r)"
    by (auto simp: select_head_def)
  from tail obtain os where eo: "ends_blank ord" and semio: "'';'' \<notin> set (tokens ord)"
    and os: "tokens ord = ''ORDER'' # os"
      "\<And>r. p_order (''ORDER'' # os @ ''LIMIT'' # r) = Some (ks, ''LIMIT'' # r)"
    by (auto simp: order_tail_def)
  let ?lim = "[''LIMIT'', CHR ''$'' # itoa (int n), ''OFFSET'', CHR ''$'' # itoa (int m)]"
  have toks: "tokens (pre @ conds_text cs @ ord @ page_tail n m) =
      ''SELECT'' # ts @ where_tokens cs @ ''ORDER'' # os @ ?lim"
    using eb eo w ts os by (simp add: tokens_append tokens_conds_text tokens_page_tail)
  have "p_where (where_tokens cs @ ''ORDER'' # os @ ?lim) = Some (cs, ''ORDER'' # os @ ?lim)"
    by (rule p_where_tokens) simp
  moreover have "p_limit ?lim = Some (Some (LArg n), Some (LArg m))" by (simp add: p_limit_def)
  ultimately have "p_select (ts @ where_tokens cs @ ''ORDER'' # os @ ?lim) =
      Some (SSelect sel tbl cs ks (Some (LArg n)) (Some (LArg m)))"
    using os(2) by (simp add: p_select_def ts(2))
  moreover have "parse_query (pre @ conds_text cs @ ord @ page_tail n m) =
      p_stmt (tokens (pre @ conds_text cs @ ord @ page_tail n m))"
    using semi semio ts os w by (intro parse_query_tokens) (simp_all add: toks)
  ultimately show ?thesis by (simp add: toks p_stmt_def)
qed

section \<open>Execution over typed rows\<close>

lemma sort_key_map: "sort_key f (map g xs) = map g (sort_key (\<lambda>x. f (g x)) xs)"
proof (induction xs)
  case (Cons x xs)
  have "insort_key f (g a) (map g zs) = map g (insort_key (\<lambda>x. f (g x)) a zs)" for a zs
    by (induction zs) auto
  with Cons show ?case by simp
qed simp

lemma sort_key_cong:
  assumes "\<And>x y. (f x \<le> f y) = (h x \<le> h y)"
  shows "sort_key f xs = sort_key h xs"
proof -
  have "insort_key f a zs = insort_key h a zs" for a zs
    by (induction zs) (simp_all add: assms)
  then have "insort_key f = insort_key h" by (intro ext)
  then show ?thesis by (simp add: sort_key_def)
qed

lemma sort_key_VInt [simp]: "sort_key (\<lambda>x. VInt (h x)) xs = sort_key h xs"
  by (rule sort_key_cong) simp

text \<open>Sorting by a second key and then, stably, by a first one sorts by the pair.\<close>

lemma insort_key_pair:
  "sorted_wrt (\<lambda>x y. (f x, g x) \<le> (f y, g y)) ys \<Longrightarrow> \<forall>y \<in> set ys. g z \<le> g y \<Longrightarrow>
   sorted_wrt (\<lambda>x y. (f x, g x) \<le> (f y, g y)) (insort_key f z ys)"
  by (induction ys) (auto simp: set_insort_key)

lemma sorted_sort_key_pair:
  "sorted_wrt (\<lambda>x y. g x \<le> g y) zs \<Longrightarrow>
   sorted_wrt (\<lambda>x y. (f x, g x) \<le> (f y, g y)) (sort_key f zs)"
proof (induction zs)
  case (Cons z zs)
  then show ?case using insort_key_pair [of f g "sort_key f zs" z] by simp
qed simp

lemma sort_key_pair: "sort_key f (sort_key g xs) = sort_key (\<lambda>x. (f x, g x)) xs"
proof (rule sym, rule properties_for_sort_key)
  let ?ys = "sort_key f (sort_key g xs)"
  show "mset ?ys = mset xs" by simp
  show "filter (\<lambda>x. (f k, g k) = (f x, g x)) ?ys = filter (\<lambda>x. (f k, g k) = (f x, g x)) xs" for k
  proof -
    have two: "filter (\<lambda>x. (f k, g k) = (f x, g x)) zs = filter (\<lambda>x. g x = g k) (filter (\<lambda>x. f x = f k) zs)"
      "filter (\<lambda>x. (f k, g k) = (f x, g x)) zs = filter (\<lambda>x. f x = f k) (filter (\<lambda>x. g x = g k) zs)" for zs
      by (auto intro: filter_cong)
    have "filter (\<lambda>x. (f k, g k) = (f x, g x)) ?ys = filter (\<lambda>x. (f k, g k) = (f x, g x)) (sort_key g xs)"
      unfolding two(1) by (simp only: sort_key_stable)
    also have "\<dots> = filter (\<lambda>x. (f k, g k) = (f x, g x)) xs"
      unfolding two(2) by (simp only: sort_key_stable)
    finally show ?thesis .
  qed
  have "sorted_wrt (\<lambda>x y. g x \<le> g y) (sort_key g xs)" by (simp add: sorted_wrt_map [symmetric])
  from sorted_sort_key_pair [OF this, of f] show "sorted (map (\<lambda>x. (f x, g x)) ?ys)"
    by (simp add: sorted_wrt_map)
qed

text \<open>A condition with its argument, before the argument has its number.\<close>

type_synonym acond = "string \<times> string \<times> goarg"

definition arg_val :: "goarg \<Rightarrow> sqlval" where
  "arg_val a = (case bind_arg a of Inr v \<Rightarrow> v | Inl _ \<Rightarrow> VNull)"

definition acond_holds :: "table \<Rightarrow> sqlval list \<Rightarrow> acond \<Rightarrow> bool" where
  "acond_holds t row = (\<lambda>(c, op, a). case col_index t c of None \<Rightarrow> False
     | Some i \<Rightarrow> sql_compare op (row ! i) (apply_affinity (cd_aff (t_cols t ! i)) (arg_val a)))"

fun number_from :: "nat \<Rightarrow> acond list \<Rightarrow> sqlcond list" where
  "number_from n [] = []"
| "number_from n ((c, op, a) # as) = (c, op, n) # number_from (Suc n) as"

definition acond_arg :: "acond \<Rightarrow> goarg" where
  "acond_arg = (\<lambda>(c, op, a). a)"

definition acond_ok :: "table \<Rightarrow> acond \<Rightarrow> bool" where
  "acond_ok t = (\<lambda>(c, op, a). col_index t c \<noteq> None \<and> known_op op \<and> is_ok (bind_arg a))"

lemma acond_arg_simps [simp]: "acond_arg (c, op, a) = a"
  by (simp add: acond_arg_def)

lemma row_matches_number_from:
  "row_matches t (pre @ map (\<lambda>a. arg_val (acond_arg a)) as @ post) (number_from (Suc (length pre)) as) row
   = list_all (acond_holds t row) as"
proof (induction as arbitrary: pre)
  case Nil
  show ?case by (simp add: row_matches_def)
next
  case (Cons a as)
  obtain c op x where a: "a = (c, op, x)" by (cases a)
  have "row_matches t ((pre @ [arg_val x]) @ map (\<lambda>a. arg_val (acond_arg a)) as @ post)
      (number_from (Suc (length (pre @ [arg_val x]))) as) row = list_all (acond_holds t row) as"
    by (rule Cons.IH)
  then show ?case
    by (simp add: a row_matches_def cond_holds_def acond_holds_def nth_append split: option.splits)
qed

lemma cond_ok_number_from:
  "list_all (acond_ok t) as \<Longrightarrow> 1 \<le> n \<Longrightarrow> n + length as \<le> Suc m \<Longrightarrow>
   list_all (cond_ok t m) (number_from n as)"
  by (induction n as rule: number_from.induct) (auto simp: acond_ok_def cond_ok_def)

lemma cond_words_number_from:
  "list_all (\<lambda>(c, op, a). word c \<and> word op) as \<Longrightarrow> list_all cond_words (number_from n as)"
  by (induction n as rule: number_from.induct) (auto simp: cond_words_def)

lemma rmap_bind_args:
  "list_all (acond_ok t) as \<Longrightarrow> rmap bind_arg (map acond_arg as) = Inr (map (\<lambda>a. arg_val (acond_arg a)) as)"
proof -
  assume "list_all (acond_ok t) as"
  then have "\<And>x. x \<in> set (map acond_arg as) \<Longrightarrow> bind_arg x = Inr (arg_val x)"
    by (auto simp: list_all_iff acond_ok_def arg_val_def is_ok_def split: sum.splits)
  then have "rmap bind_arg (map acond_arg as) = Inr (map arg_val (map acond_arg as))" by (rule rmap_ok)
  then show ?thesis by (simp add: comp_def)
qed

lemma rmap_map: "rmap f (map g xs) = rmap (\<lambda>x. f (g x)) xs"
  by (induction xs) simp_all

lemma rmap_append: "rmap f (xs @ ys) = rbind (rmap f xs) (\<lambda>us. rbind (rmap f ys) (\<lambda>vs. Inr (us @ vs)))"
proof (induction xs)
  case Nil
  show ?case by (cases "rmap f ys") simp_all
next
  case (Cons x xs)
  then show ?case by (cases "f x"; cases "rmap f xs"; cases "rmap f ys") simp_all
qed

lemma length_number_from [simp]: "length (number_from n as) = length as"
  by (induction n as rule: number_from.induct) simp_all

text \<open>The rows of a table that satisfy all conditions.\<close>

definition matching_rows :: "table \<Rightarrow> acond list \<Rightarrow> sqlval list list" where
  "matching_rows t as = filter (\<lambda>row. list_all (acond_holds t row) as) (t_rows t)"

lemma sql_query_count:
  assumes "ts tbl = Some t" and "select_head pre SelCount tbl"
    and "list_all (acond_ok t) as" and "list_all (\<lambda>(c, op, a). word c \<and> word op) as"
  shows "sql_query ts (pre @ conds_text (number_from 1 as)) (map acond_arg as) =
    Inr ([''count(*)''], [[VInt (int (length (matching_rows t as)))]])"
proof -
  have "list_all (cond_ok t (length as)) (number_from 1 as)"
    using assms(3) by (intro cond_ok_number_from) simp_all
  moreover have "row_matches t (map (\<lambda>a. arg_val (acond_arg a)) as) (number_from (Suc 0) as)
      = (\<lambda>row. list_all (acond_holds t row) as)"
    by (rule ext) (use row_matches_number_from [of t "[]" as "[]"] in simp)
  ultimately show ?thesis
    using assms by (simp add: sql_query_def parse_query_where cond_words_number_from rmap_bind_args
        run_select_def opt_lim_def matching_rows_def Let_def)
qed

definition known_sel :: "table \<Rightarrow> selection \<Rightarrow> bool" where
  "known_sel t sel = (case sel of SelStar \<Rightarrow> True | SelCount \<Rightarrow> False
     | SelCols cs \<Rightarrow> list_all (\<lambda>c. col_index t c \<noteq> None) cs)"

definition sel_cols :: "table \<Rightarrow> selection \<Rightarrow> string list" where
  "sel_cols t sel = (case sel of SelCols cs \<Rightarrow> cs | _ \<Rightarrow> map cd_name (t_cols t))"

definition sel_row :: "table \<Rightarrow> selection \<Rightarrow> sqlval list \<Rightarrow> sqlval list" where
  "sel_row t sel row = (case sel of SelCols cs \<Rightarrow> project t cs row | _ \<Rightarrow> row)"

lemma sql_query_page:
  assumes "ts tbl = Some t" and "select_head pre sel tbl" and "order_tail ord ks"
    and "list_all (acond_ok t) as" and "list_all (\<lambda>(c, op, a). word c \<and> word op) as"
    and "known_sel t sel" and "list_all (\<lambda>(c, _). col_index t c \<noteq> None) ks"
    and "0 \<le> limit" and "0 \<le> offset"
  shows "sql_query ts (pre @ conds_text (number_from 1 as) @ ord @ page_tail (1 + length as) (2 + length as))
      (map acond_arg as @ [AInt limit, AInt offset]) =
    Inr (sel_cols t sel, map (sel_row t sel)
      (take (nat limit) (drop (nat offset) (sort_rows t ks (matching_rows t as)))))"
proof -
  let ?vals = "map (\<lambda>a. arg_val (acond_arg a)) as @ [VInt limit, VInt offset]"
  have "list_all (cond_ok t (length ?vals)) (number_from 1 as)"
    using assms(4) by (intro cond_ok_number_from) simp_all
  moreover have "row_matches t ?vals (number_from (Suc 0) as) = (\<lambda>row. list_all (acond_holds t row) as)"
    by (rule ext) (use row_matches_number_from [of t "[]" as "[VInt limit, VInt offset]"] in simp)
  moreover have "rmap bind_arg (map acond_arg as @ [AInt limit, AInt offset]) = Inr ?vals"
    using assms(4) by (simp add: rmap_append rmap_bind_args)
  ultimately show ?thesis
    using assms by (auto simp: sql_query_def parse_query_page cond_words_number_from
        run_select_def opt_lim_def lim_value_def nth_append matching_rows_def Let_def sql_limit_def
        known_sel_def sel_cols_def sel_row_def map_idI split: selection.splits)
qed

section \<open>The contract of the filter loops\<close>

text \<open>
  \<open>loop\<close> walks over the filters with the fragments, the arguments and the number of the next
  placeholder; \<open>cond\<close> is what one filter asks for. The contract says that each round appends the
  fragment of the filter's condition with the current number, or returns the filter's error.
\<close>

locale where_builder =
  fixes loop :: "'f list \<Rightarrow> string list \<Rightarrow> goarg list \<Rightarrow> int \<Rightarrow> (string list \<times> goarg list \<times> int) res"
    and cond :: "'f \<Rightarrow> acond res"
  assumes loop_Nil: "loop [] w as n = Inr (w, as, n)"
    and loop_Cons: "loop (f # fs) w as n = rbind (cond f) (\<lambda>(c, op, a).
        loop fs (w @ [c @ '' '' @ op @ '' $'' @ itoa n @ '' '']) (as @ [a]) (n + 1))"
begin

lemma loop_spec:
  "loop fs w as (int n) = rbind (rmap cond fs) (\<lambda>acs.
     Inr (w @ map cond_text (number_from n acs), as @ map acond_arg acs, int (n + length acs)))"
proof (induction fs arbitrary: w as n)
  case Nil
  show ?case by (simp add: loop_Nil)
next
  case (Cons f fs)
  have step: "int n + 1 = int (Suc n)" by simp
  show ?case
  proof (cases "cond f")
    case (Inl e)
    then show ?thesis by (simp add: loop_Cons)
  next
    case (Inr x)
    then obtain c op a where x: "cond f = Inr (c, op, a)" by (cases x) simp
    have "loop (f # fs) w as (int n) =
        loop fs (w @ [cond_text (c, op, n)]) (as @ [a]) (int (Suc n))"
      by (simp only: loop_Cons x rbind_simps prod.case step) (simp add: cond_text_def)
    also have "\<dots> = rbind (rmap cond fs) (\<lambda>acs. Inr ((w @ [cond_text (c, op, n)]) @
        map cond_text (number_from (Suc n) acs), (as @ [a]) @ map acond_arg acs, int (Suc n + length acs)))"
      by (rule Cons.IH)
    finally show ?thesis by (cases "rmap cond fs") (simp_all add: x)
  qed
qed

text \<open>The clause of a whole filter list, as the methods return it.\<close>

lemma clause_spec:
  "rbind (loop fs [] [] 1) (\<lambda>(w, as, n).
      Inr ((if fs \<noteq> [] then ''WHERE '' else []) @ join '' and '' w, as, n)) =
   rbind (rmap cond fs) (\<lambda>acs.
      Inr (conds_text (number_from 1 acs), map acond_arg acs, 1 + int (length acs)))"
proof (cases "rmap cond fs")
  case (Inl e)
  then show ?thesis using loop_spec [of fs "[]" "[]" 1] by simp
next
  case (Inr acs)
  have ne: "number_from (Suc 0) acs = [] \<longleftrightarrow> fs = []"
    using rmap_length [OF Inr] length_number_from [of "Suc 0" acs] by (metis length_0_conv)
  show ?thesis using loop_spec [of fs "[]" "[]" 1] Inr ne
    by (cases "fs = []") (simp_all add: conds_text_def)
qed

end

end
