(* ===== verification/Base64.thy ===== *)
theory Base64
  imports Prelude
begin

text \<open>
  Go's \<open>base64.StdEncoding\<close>, which the cursors use: encoding of a byte string in groups of
  three bytes with \<open>=\<close> padding, and decoding, which skips line breaks, wants complete
  groups of four characters and the padding in the last group only. The lemma a client
  needs is \<open>base64_roundtrip\<close>.
\<close>

definition b64_alphabet :: string where
  "b64_alphabet = ''ABCDEFGHIJKLMNOPQRSTUVWXYZabcdefghijklmnopqrstuvwxyz0123456789+/''"

definition b64_pad :: char where
  "b64_pad = CHR ''=''"

fun index_of :: "'a \<Rightarrow> 'a list \<Rightarrow> nat option" where
  "index_of x [] = None"
| "index_of x (y # ys) = (if x = y then Some 0 else map_option Suc (index_of x ys))"

definition b64_char :: "nat \<Rightarrow> char" where
  "b64_char n = b64_alphabet ! n"

definition b64_val :: "char \<Rightarrow> nat option" where
  "b64_val c = index_of c b64_alphabet"

fun b64_encode_bytes :: "nat list \<Rightarrow> string" where
  "b64_encode_bytes [] = []"
| "b64_encode_bytes [a] =
     (let n = a * 16 in [b64_char (n div 64), b64_char (n mod 64), b64_pad, b64_pad])"
| "b64_encode_bytes [a, b] =
     (let n = a * 1024 + b * 4
      in [b64_char (n div 4096), b64_char (n div 64 mod 64), b64_char (n mod 64), b64_pad])"
| "b64_encode_bytes (a # b # c # r) =
     (let n = a * 65536 + b * 256 + c
      in b64_char (n div 262144) # b64_char (n div 4096 mod 64) # b64_char (n div 64 mod 64)
         # b64_char (n mod 64) # b64_encode_bytes r)"

fun b64_decode_quads :: "string \<Rightarrow> nat list res" where
  "b64_decode_quads [] = Inr []"
| "b64_decode_quads (c0 # c1 # c2 # c3 # r) =
     (case (b64_val c0, b64_val c1) of
        (Some v0, Some v1) \<Rightarrow>
          if c2 = b64_pad then
            if c3 = b64_pad \<and> r = [] then Inr [(v0 * 64 + v1) div 16] else Inl ErrBase64
          else (case b64_val c2 of
              None \<Rightarrow> Inl ErrBase64
            | Some v2 \<Rightarrow>
                if c3 = b64_pad then
                  if r = [] then
                    let n = v0 * 4096 + v1 * 64 + v2 in Inr [n div 1024, n div 4 mod 256]
                  else Inl ErrBase64
                else (case b64_val c3 of
                    None \<Rightarrow> Inl ErrBase64
                  | Some v3 \<Rightarrow>
                      let n = v0 * 262144 + v1 * 4096 + v2 * 64 + v3
                      in rbind (b64_decode_quads r)
                           (\<lambda>bs. Inr (n div 65536 # n div 256 mod 256 # n mod 256 # bs))))
      | _ \<Rightarrow> Inl ErrBase64)"
| "b64_decode_quads _ = Inl ErrBase64"

definition base64_EncodeToString :: "string \<Rightarrow> string" where
  "base64_EncodeToString s = b64_encode_bytes (map of_char s)"

definition base64_DecodeString :: "string \<Rightarrow> string res" where
  "base64_DecodeString s =
     rbind (b64_decode_quads (filter (\<lambda>c. c \<noteq> CHR 0x0A \<and> c \<noteq> CHR 0x0D) s))
       (\<lambda>bs. Inr (map char_of bs))"

lemma b64_val_char: "n < 64 \<Longrightarrow> b64_val (b64_char n) = Some n"
proof -
  have "\<forall>n \<in> set [0..<64]. b64_val (b64_char n) = Some n" by code_simp
  then show "n < 64 \<Longrightarrow> b64_val (b64_char n) = Some n" by simp
qed

lemma b64_char_plain:
  "n < 64 \<Longrightarrow> b64_char n \<noteq> b64_pad \<and> b64_char n \<noteq> CHR 0x0A \<and> b64_char n \<noteq> CHR 0x0D"
proof -
  have "\<forall>n \<in> set [0..<64]. b64_char n \<noteq> b64_pad \<and> b64_char n \<noteq> CHR 0x0A \<and> b64_char n \<noteq> CHR 0x0D"
    by code_simp
  then show "n < 64 \<Longrightarrow> b64_char n \<noteq> b64_pad \<and> b64_char n \<noteq> CHR 0x0A \<and> b64_char n \<noteq> CHR 0x0D"
    by simp
qed

text \<open>Three bytes are four digits to the base 64, and back.\<close>

lemma b64_carry4:
  fixes t c b a q p n :: nat
  shows "t * 64 + c = q \<Longrightarrow> q * 64 + b = p \<Longrightarrow> p * 64 + a = n \<Longrightarrow>
    t * 262144 + c * 4096 + b * 64 + a = n"
  by simp

lemma b64_carry3:
  fixes q b a p n :: nat
  shows "q * 64 + b = p \<Longrightarrow> p * 64 + a = n \<Longrightarrow> q * 4096 + b * 64 + a = n"
  by simp

lemma b64_digits3:
  fixes a b c :: nat
  assumes "a < 256" and "b < 256" and "c < 256"
  defines "n \<equiv> a * 65536 + b * 256 + c"
  shows "n div 262144 < 64" "n div 4096 mod 64 < 64" "n div 64 mod 64 < 64" "n mod 64 < 64"
    and "n div 262144 * 262144 + n div 4096 mod 64 * 4096 + n div 64 mod 64 * 64 + n mod 64 = n"
    and "n div 65536 = a" "n div 256 mod 256 = b" "n mod 256 = c"
proof -
  show "n div 262144 < 64" using assms by (simp add: n_def)
  show "n div 4096 mod 64 < 64" "n div 64 mod 64 < 64" "n mod 64 < 64" by simp_all
  have e: "n div 4096 = n div 64 div 64" "n div 262144 = n div 64 div 64 div 64"
    by (simp_all add: div_mult2_eq)
  show "n div 262144 * 262144 + n div 4096 mod 64 * 4096 + n div 64 mod 64 * 64 + n mod 64 = n"
    unfolding e by (rule b64_carry4 [OF div_mult_mod_eq div_mult_mod_eq div_mult_mod_eq])
  show "n div 65536 = a" using assms by (simp add: n_def)
  have "n = c + (a * 256 + b) * 256" by (simp add: n_def)
  then have "n div 256 = a * 256 + b" using assms(3) by (simp add: div_mult_self1)
  then show "n div 256 mod 256 = b" using assms(2) by simp
  have "n = c + (a * 256 + b) * 256" by (simp add: n_def)
  then show "n mod 256 = c" using assms(3) by (simp only: mod_mult_self1 mod_less)
qed

lemma b64_digits1:
  fixes a :: nat
  assumes "a < 256"
  shows "a * 16 div 64 < 64" "a * 16 mod 64 < 64"
    and "(a * 16 div 64 * 64 + a * 16 mod 64) div 16 = a"
proof -
  show "a * 16 div 64 < 64" "a * 16 mod 64 < 64" using assms by simp_all
  show "(a * 16 div 64 * 64 + a * 16 mod 64) div 16 = a"
    by (simp only: div_mult_mod_eq nonzero_mult_div_cancel_right)
qed

lemma b64_digits2:
  fixes a b :: nat
  assumes "a < 256" and "b < 256"
  defines "n \<equiv> a * 1024 + b * 4"
  shows "n div 4096 < 64" "n div 64 mod 64 < 64" "n mod 64 < 64"
    and "n div 4096 * 4096 + n div 64 mod 64 * 64 + n mod 64 = n"
    and "n div 1024 = a" "n div 4 mod 256 = b"
proof -
  show "n div 4096 < 64" using assms by (simp add: n_def)
  show "n div 64 mod 64 < 64" "n mod 64 < 64" by simp_all
  have e: "n div 4096 = n div 64 div 64" by (simp add: div_mult2_eq)
  show "n div 4096 * 4096 + n div 64 mod 64 * 64 + n mod 64 = n"
    unfolding e by (rule b64_carry3 [OF div_mult_mod_eq div_mult_mod_eq])
  show "n div 1024 = a" using assms by (simp add: n_def)
  show "n div 4 mod 256 = b" using assms by (simp add: n_def)
qed

text \<open>One group of the decoder, for digits that are not yet computed.\<close>

lemma b64_decode_quad:
  assumes "v0 < 64" "v1 < 64" "v2 < 64" "v3 < 64"
  shows "b64_decode_quads (b64_char v0 # b64_char v1 # b64_char v2 # b64_char v3 # r) =
    (let n = v0 * 262144 + v1 * 4096 + v2 * 64 + v3
     in rbind (b64_decode_quads r) (\<lambda>bs. Inr (n div 65536 # n div 256 mod 256 # n mod 256 # bs)))"
  using assms by (simp add: b64_val_char b64_char_plain)

lemma b64_decode_two:
  assumes "v0 < 64" "v1 < 64" "v2 < 64"
  shows "b64_decode_quads [b64_char v0, b64_char v1, b64_char v2, b64_pad] =
    (let n = v0 * 4096 + v1 * 64 + v2 in Inr [n div 1024, n div 4 mod 256])"
  using assms by (simp add: b64_val_char b64_char_plain)

lemma b64_decode_one:
  assumes "v0 < 64" "v1 < 64"
  shows "b64_decode_quads [b64_char v0, b64_char v1, b64_pad, b64_pad] =
    Inr [(v0 * 64 + v1) div 16]"
  using assms by (simp add: b64_val_char)

lemma b64_decode_encode: "(\<forall>x \<in> set bs. x < 256) \<Longrightarrow> b64_decode_quads (b64_encode_bytes bs) = Inr bs"
proof (induction bs rule: b64_encode_bytes.induct)
  case 1
  show ?case by simp
next
  case (2 a)
  then have "a < 256" by simp
  note d = b64_digits1 [OF this]
  show ?case
    by (simp only: b64_encode_bytes.simps Let_def b64_decode_one [OF d(1,2)] d(3))
next
  case (3 a b)
  then have "a < 256" "b < 256" by simp_all
  note d = b64_digits2 [OF this]
  show ?case
    by (simp only: b64_encode_bytes.simps Let_def b64_decode_two [OF d(1-3)] d(4-6))
next
  case (4 a b c r)
  then have "a < 256" "b < 256" "c < 256" by simp_all
  note d = b64_digits3 [OF this]
  have "b64_decode_quads (b64_encode_bytes r) = Inr r" using 4 by simp
  then show ?case
    by (simp only: b64_encode_bytes.simps Let_def b64_decode_quad [OF d(1-4)] d(5-8) rbind_simps)
qed

definition b64_printable :: "char \<Rightarrow> bool" where
  "b64_printable c \<longleftrightarrow> c \<noteq> CHR 0x0A \<and> c \<noteq> CHR 0x0D"

lemma b64_printable_char: "n < 64 \<Longrightarrow> b64_printable (b64_char n)"
  by (simp add: b64_printable_def b64_char_plain)

lemma b64_printable_pad: "b64_printable b64_pad"
  by (simp add: b64_printable_def b64_pad_def)

lemma b64_encode_printable:
  "(\<forall>x \<in> set bs. x < 256) \<Longrightarrow> list_all b64_printable (b64_encode_bytes bs)"
proof (induction bs rule: b64_encode_bytes.induct)
  case 1
  show ?case by simp
next
  case (2 a)
  then have "a < 256" by simp
  note d = b64_digits1 [OF this]
  show ?case
    by (simp only: b64_encode_bytes.simps Let_def list.pred_inject b64_printable_pad
        b64_printable_char [OF d(1)] b64_printable_char [OF d(2)] simp_thms)
next
  case (3 a b)
  then have "a < 256" "b < 256" by simp_all
  note d = b64_digits2 [OF this]
  show ?case
    by (simp only: b64_encode_bytes.simps Let_def list.pred_inject b64_printable_pad
        b64_printable_char [OF d(1)] b64_printable_char [OF d(2)] b64_printable_char [OF d(3)]
        simp_thms)
next
  case (4 a b c r)
  then have "a < 256" "b < 256" "c < 256" by simp_all
  note d = b64_digits3 [OF this]
  have "list_all b64_printable (b64_encode_bytes r)" using 4 by simp
  then show ?case
    by (simp only: b64_encode_bytes.simps Let_def list.pred_inject
        b64_printable_char [OF d(1)] b64_printable_char [OF d(2)] b64_printable_char [OF d(3)]
        b64_printable_char [OF d(4)] simp_thms)
qed

lemma base64_roundtrip [simp]: "base64_DecodeString (base64_EncodeToString s) = Inr s"
proof -
  let ?bs = "map of_char s :: nat list"
  have small: "\<forall>x \<in> set ?bs. x < 256" by auto
  have "filter b64_printable (b64_encode_bytes ?bs) = b64_encode_bytes ?bs"
    using b64_encode_printable [OF small] by (simp add: list_all_iff)
  then have "filter (\<lambda>c. c \<noteq> CHR 0x0A \<and> c \<noteq> CHR 0x0D) (b64_encode_bytes ?bs) = b64_encode_bytes ?bs"
    by (simp only: b64_printable_def [abs_def])
  then show ?thesis
    by (simp add: base64_DecodeString_def base64_EncodeToString_def b64_decode_encode [OF small] comp_def)
qed

lemma base64_EncodeToString_inj: "base64_EncodeToString s = base64_EncodeToString t \<Longrightarrow> s = t"
  by (metis base64_roundtrip sum.inject(2))

end
