(* ===== verification/Pagination.thy ===== *)
theory Pagination
  imports Base64
begin

text \<open>
  The cursor pagination: \<open>internal/commons/pagination.go\<close> computes the offset and the limit
  of the database query from the GraphQL connection arguments, and
  \<open>internal/reader/model/pagination.go\<close> builds the connection from the rows of the page.
  Optional arguments are options (nil is \<open>None\<close>). The locale \<open>paged_query\<close> is the contract
  of the repositories' \<open>FindAll\<close> methods; each repository interprets it, and what a client
  that follows the cursors sees is proved once inside it.
\<close>

section \<open>Page computation\<close>

definition DefaultPaginationLimit :: int where
  "DefaultPaginationLimit = 1000"

record 'a PageResult =
  Total :: u64
  Offset :: u64
  Rows :: "'a list"

definition EncodeCursor :: "int \<Rightarrow> string" where
  "EncodeCursor offset = base64_EncodeToString (itoa offset)"

definition DecodeCursor :: "string \<Rightarrow> int \<Rightarrow> int res" where
  "DecodeCursor base64Cursor tot =
     rbind (base64_DecodeString base64Cursor) (\<lambda>cursorBytes.
     rbind (Atoi cursorBytes) (\<lambda>offset.
     if offset < 0 \<or> tot \<le> offset then Inl ErrInvalidCursor else Inr offset))"

definition computeForwardPage :: "int option \<Rightarrow> string option \<Rightarrow> int \<Rightarrow> (int \<times> int) res" where
  "computeForwardPage first after tot =
     rbind (case first of
         Some f \<Rightarrow> if f < 0 then Inl ErrInvalidLimit else Inr f
       | None \<Rightarrow> Inr DefaultPaginationLimit) (\<lambda>limit.
     rbind (case after of
         Some c \<Rightarrow> rbind (DecodeCursor c tot) (\<lambda>offset. Inr (offset + 1))
       | None \<Rightarrow> Inr 0) (\<lambda>offset.
     Inr (offset, min limit (tot - offset))))"

definition computeBackwardPage :: "int option \<Rightarrow> string option \<Rightarrow> int \<Rightarrow> (int \<times> int) res" where
  "computeBackwardPage lastN before tot =
     rbind (case lastN of
         Some l \<Rightarrow> if l < 0 then Inl ErrInvalidLimit else Inr l
       | None \<Rightarrow> Inr DefaultPaginationLimit) (\<lambda>limit.
     rbind (case before of
         Some c \<Rightarrow> DecodeCursor c tot
       | None \<Rightarrow> Inr tot) (\<lambda>beforeOffset.
     let offset = max 0 (beforeOffset - limit)
     in Inr (offset, min limit (tot - offset))))"

definition ComputePage ::
  "int option \<Rightarrow> int option \<Rightarrow> string option \<Rightarrow> string option \<Rightarrow> int \<Rightarrow> (int \<times> int) res" where
  "ComputePage first lastN after before tot =
     (let forward = (first \<noteq> None \<or> after \<noteq> None);
          backward = (lastN \<noteq> None \<or> before \<noteq> None)
      in if forward \<and> backward then Inl ErrMixedPagination
         else let forward' = (if \<not> forward \<and> \<not> backward then True else forward)
              in if forward' then computeForwardPage first after tot
                 else computeBackwardPage lastN before tot)"

subsection \<open>Cursors\<close>

lemma DecodeCursor_EncodeCursor:
  "- (2 ^ 63) \<le> n \<Longrightarrow> n < 2 ^ 63 \<Longrightarrow>
   DecodeCursor (EncodeCursor n) tot = (if 0 \<le> n \<and> n < tot then Inr n else Inl ErrInvalidCursor)"
  by (auto simp: DecodeCursor_def EncodeCursor_def Atoi_itoa)

lemma DecodeCursor_Encode_ok [simp]:
  "0 \<le> n \<Longrightarrow> n < tot \<Longrightarrow> tot \<le> 2 ^ 63 \<Longrightarrow> DecodeCursor (EncodeCursor n) tot = Inr n"
  by (simp add: DecodeCursor_EncodeCursor)

lemma DecodeCursor_range: "DecodeCursor c tot = Inr n \<Longrightarrow> 0 \<le> n \<and> n < tot"
  by (auto simp: DecodeCursor_def rbind_Inr_iff split: if_splits)

subsection \<open>What a successful computation returns\<close>

lemma computeForwardPage_bounds:
  "computeForwardPage first after tot = Inr (off, lim) \<Longrightarrow> 0 \<le> tot \<Longrightarrow>
   0 \<le> off \<and> 0 \<le> lim \<and> off + lim \<le> tot"
  by (auto simp: computeForwardPage_def rbind_Inr_iff DefaultPaginationLimit_def
      split: option.splits if_splits dest!: DecodeCursor_range)

lemma computeBackwardPage_bounds:
  "computeBackwardPage lastN before tot = Inr (off, lim) \<Longrightarrow> 0 \<le> tot \<Longrightarrow>
   0 \<le> off \<and> 0 \<le> lim \<and> off + lim \<le> tot"
  by (auto simp: computeBackwardPage_def rbind_Inr_iff DefaultPaginationLimit_def Let_def
      split: option.splits if_splits dest!: DecodeCursor_range)

lemma ComputePage_bounds:
  assumes "ComputePage first lastN after before tot = Inr (off, lim)" and "0 \<le> tot"
  shows "0 \<le> off \<and> 0 \<le> lim \<and> off + lim \<le> tot"
  using assms by (auto simp: ComputePage_def Let_def split: if_splits
      dest: computeForwardPage_bounds computeBackwardPage_bounds)

lemma ComputePage_default: "0 \<le> tot \<Longrightarrow> ComputePage None None None None tot = Inr (0, min 1000 tot)"
  by (simp add: ComputePage_def computeForwardPage_def DefaultPaginationLimit_def)

lemma ComputePage_first:
  "0 \<le> f \<Longrightarrow> ComputePage (Some f) None None None tot = Inr (0, min f tot)"
  by (simp add: ComputePage_def computeForwardPage_def)

lemma ComputePage_first_after:
  "0 \<le> f \<Longrightarrow> DecodeCursor c tot = Inr n \<Longrightarrow>
   ComputePage (Some f) None (Some c) None tot = Inr (n + 1, min f (tot - (n + 1)))"
  by (simp add: ComputePage_def computeForwardPage_def)

lemma ComputePage_last_before:
  "0 \<le> l \<Longrightarrow> DecodeCursor c tot = Inr n \<Longrightarrow>
   ComputePage None (Some l) None (Some c) tot =
     Inr (max 0 (n - l), min l (tot - max 0 (n - l)))"
  by (simp add: ComputePage_def computeBackwardPage_def Let_def)

section \<open>Connections\<close>

record 'a Edge =
  Node :: 'a
  edge_offset :: int

record PageInfo =
  StartCursor :: "string option"
  EndCursor :: "string option"
  HasNextPage :: bool
  HasPreviousPage :: bool

record 'a Connection =
  TotalCount :: int
  Edges :: "'a Edge list"
  Connection_PageInfo :: PageInfo

text \<open>The reader's copy of the cursor encoder.\<close>

definition encodeCursor :: "int \<Rightarrow> string" where
  "encodeCursor offset = base64_EncodeToString (itoa offset)"

definition Cursor :: "'a Edge \<Rightarrow> string" where
  "Cursor e = encodeCursor (edge_offset e)"

definition NewConnection :: "int \<Rightarrow> int \<Rightarrow> 'a list \<Rightarrow> 'a Connection" where
  "NewConnection offset tot nodes =
     (let edges = map (\<lambda>i. \<lparr>Node = nodes ! i, edge_offset = offset + int i\<rparr>) [0..<length nodes];
          pageInfo =
            (if length edges > 0 then
               \<lparr>StartCursor = Some (encodeCursor (edge_offset (edges ! 0))),
                EndCursor = Some (encodeCursor (edge_offset (edges ! (length edges - 1)))),
                HasNextPage = edge_offset (edges ! (length edges - 1)) < tot - 1,
                HasPreviousPage = edge_offset (edges ! 0) > 0\<rparr>
             else \<lparr>StartCursor = None, EndCursor = None, HasNextPage = False, HasPreviousPage = False\<rparr>)
      in \<lparr>TotalCount = tot, Edges = edges, Connection_PageInfo = pageInfo\<rparr>)"

lemma encodeCursor_EncodeCursor: "encodeCursor = EncodeCursor"
  by (rule ext) (simp add: encodeCursor_def EncodeCursor_def)

lemma NewConnection_nodes: "map Node (Edges (NewConnection offset tot nodes)) = nodes"
  by (simp add: NewConnection_def Let_def comp_def map_nth)

lemma NewConnection_offsets:
  "i < length nodes \<Longrightarrow> edge_offset (Edges (NewConnection offset tot nodes) ! i) = offset + int i"
  by (simp add: NewConnection_def Let_def)

lemma NewConnection_length [simp]:
  "length (Edges (NewConnection offset tot nodes)) = length nodes"
  by (simp add: NewConnection_def Let_def)

lemma NewConnection_TotalCount [simp]: "TotalCount (NewConnection offset tot nodes) = tot"
  by (simp add: NewConnection_def Let_def)

lemma NewConnection_info_Nil:
  "Connection_PageInfo (NewConnection offset tot []) =
     \<lparr>StartCursor = None, EndCursor = None, HasNextPage = False, HasPreviousPage = False\<rparr>"
  by (simp add: NewConnection_def)

lemma NewConnection_info:
  "nodes \<noteq> [] \<Longrightarrow> Connection_PageInfo (NewConnection offset tot nodes) =
     \<lparr>StartCursor = Some (EncodeCursor offset),
      EndCursor = Some (EncodeCursor (offset + int (length nodes) - 1)),
      HasNextPage = offset + int (length nodes) < tot,
      HasPreviousPage = offset > 0\<rparr>"
  by (cases nodes) (auto simp: NewConnection_def Let_def encodeCursor_EncodeCursor nth_append
      simp del: upt_Suc)

section \<open>The contract of the paged queries\<close>

text \<open>The page of a list of matching rows: what a \<open>FindAll\<close> has to return for its arguments.\<close>

definition page_of ::
  "int option \<Rightarrow> int option \<Rightarrow> string option \<Rightarrow> string option \<Rightarrow> 'r list \<Rightarrow> 'r PageResult res" where
  "page_of first lastN after before rows =
     rbind (ComputePage first lastN after before (int (length rows))) (\<lambda>(offset, limit).
     Inr \<lparr>Total = of_nat (length rows), Offset = of_int offset,
          Rows = take (nat limit) (drop (nat offset) rows)\<rparr>)"

text \<open>
  A client that pages forward: it asks for \<open>first: k\<close>, builds the connection, and as long as
  \<open>hasNextPage\<close> holds asks again with \<open>after: endCursor\<close>. The fuel bounds the number of pages.
\<close>

definition connection_of :: "'r PageResult \<Rightarrow> 'r Connection" where
  "connection_of p = NewConnection (sint (Offset p)) (sint (Total p)) (Rows p)"

fun forward_walk ::
  "nat \<Rightarrow> (string option \<Rightarrow> 'r PageResult res) \<Rightarrow> string option \<Rightarrow> 'r list option" where
  "forward_walk 0 page after = None"
| "forward_walk (Suc fuel) page after =
     (case page after of
        Inl e \<Rightarrow> None
      | Inr p \<Rightarrow>
          let info = Connection_PageInfo (connection_of p)
          in if HasNextPage info then map_option (\<lambda>rs. Rows p @ rs) (forward_walk fuel page (EndCursor info))
             else Some (Rows p))"

lemma sint_of_nat_small: "n < 2 ^ 63 \<Longrightarrow> sint (of_nat n :: u64) = int n"
  by (simp add: signed_of_nat signed_take_bit_int_eq_self)

lemma sint_of_int_small: "0 \<le> i \<Longrightarrow> i < 2 ^ 63 \<Longrightarrow> sint (of_int i :: u64) = i"
  using sint_of_nat_small [of "nat i"] by simp

text \<open>The \<open>after\<close> argument that continues at row \<open>m\<close>.\<close>

definition resume_at :: "nat \<Rightarrow> string option \<Rightarrow> bool" where
  "resume_at m after \<longleftrightarrow> (case after of None \<Rightarrow> m = 0 | Some c \<Rightarrow> 0 < m \<and> c = EncodeCursor (int m - 1))"

lemma page_of_resume:
  assumes "resume_at m after" and "m \<le> length rows" and "length rows < 2 ^ 63" and "0 \<le> k"
  shows "page_of (Some k) None after None rows =
    Inr \<lparr>Total = of_nat (length rows), Offset = of_nat m,
         Rows = take (nat k) (drop m rows)\<rparr>"
proof -
  have "ComputePage (Some k) None after None (int (length rows)) =
    Inr (int m, min k (int (length rows) - int m))"
  proof (cases after)
    case None
    with assms show ?thesis by (simp add: resume_at_def ComputePage_first)
  next
    case (Some c)
    with assms have c: "c = EncodeCursor (int m - 1)" and m: "0 < m" by (simp_all add: resume_at_def)
    have "DecodeCursor c (int (length rows)) = Inr (int m - 1)"
      using m assms(2,3) unfolding c by (intro DecodeCursor_Encode_ok) (simp_all add: less_imp_le)
    from ComputePage_first_after [OF assms(4) this] Some show ?thesis by simp
  qed
  moreover have "take (nat (min k (int (length rows) - int m))) (drop m rows) = take (nat k) (drop m rows)"
    by (cases "k \<le> int (length rows) - int m") (simp_all add: min_def)
  ultimately show ?thesis by (simp add: page_of_def)
qed

lemma forward_walk_from:
  assumes "0 < k" and "length rows < 2 ^ 63"
  shows "resume_at m after \<Longrightarrow> m \<le> length rows \<Longrightarrow> length rows - m < fuel \<Longrightarrow>
    forward_walk fuel (\<lambda>after. page_of (Some k) None after None rows) after = Some (drop m rows)"
proof (induction fuel arbitrary: m after)
  case 0
  then show ?case by simp
next
  case (Suc fuel)
  let ?page = "take (nat k) (drop m rows)"
  let ?p = "\<lparr>Total = of_nat (length rows), Offset = of_nat m, Rows = ?page\<rparr> :: 'a PageResult"
  have page: "page_of (Some k) None after None rows = Inr ?p"
    using Suc.prems assms by (intro page_of_resume) simp_all
  have conn: "connection_of ?p = NewConnection (int m) (int (length rows)) ?page"
    using Suc.prems(2) assms(2) by (simp add: connection_of_def sint_of_nat_small)
  show ?case
  proof (cases "m + nat k < length rows")
    case False
    then have all: "?page = drop m rows" by simp
    have "\<not> HasNextPage (Connection_PageInfo (connection_of ?p))"
      unfolding all conn [unfolded all] using Suc.prems(2)
      by (cases "drop m rows = []") (simp_all add: NewConnection_info_Nil NewConnection_info)
    then show ?thesis by (simp add: page all Let_def)
  next
    case True
    then have len: "length ?page = nat k" and ne: "?page \<noteq> []" using assms(1) by auto
    have info: "HasNextPage (Connection_PageInfo (connection_of ?p))"
      "EndCursor (Connection_PageInfo (connection_of ?p)) = Some (EncodeCursor (int (m + nat k) - 1))"
      using True assms(1) len by (auto simp: conn NewConnection_info [OF ne] simp del: length_take length_drop)
    have "resume_at (m + nat k) (Some (EncodeCursor (int (m + nat k) - 1)))"
      using assms(1) by (simp add: resume_at_def)
    then have "forward_walk fuel (\<lambda>after. page_of (Some k) None after None rows)
        (Some (EncodeCursor (int (m + nat k) - 1))) = Some (drop (m + nat k) rows)"
      using True Suc.prems(3) assms(1) by (intro Suc.IH) auto
    with info have "forward_walk (Suc fuel) (\<lambda>after. page_of (Some k) None after None rows) after =
        Some (?page @ drop (m + nat k) rows)"
      by (simp add: page Let_def)
    also have "?page @ drop (m + nat k) rows = drop m rows"
      by (metis add.commute append_take_drop_id drop_drop)
    finally show ?thesis .
  qed
qed

lemma forward_walk_all:
  assumes "0 < k" and "length rows < 2 ^ 63"
  shows "forward_walk (Suc (length rows)) (\<lambda>after. page_of (Some k) None after None rows) None = Some rows"
  using forward_walk_from [OF assms, of 0 None "Suc (length rows)"] by (simp add: resume_at_def)

lemma page_of_rows:
  assumes "page_of first lastN after before rows = Inr p"
  shows "\<exists>offset limit. ComputePage first lastN after before (int (length rows)) = Inr (offset, limit) \<and>
    Rows p = take (nat limit) (drop (nat offset) rows) \<and> length (Rows p) = nat limit"
proof -
  from assms obtain offset limit where
    c: "ComputePage first lastN after before (int (length rows)) = Inr (offset, limit)"
    and p: "p = \<lparr>Total = of_nat (length rows), Offset = of_int offset,
      Rows = take (nat limit) (drop (nat offset) rows)\<rparr>"
    by (auto simp: page_of_def rbind_Inr_iff)
  have "0 \<le> offset \<and> 0 \<le> limit \<and> offset + limit \<le> int (length rows)"
    using ComputePage_bounds [OF c] by simp
  with c p show ?thesis by auto
qed

locale paged_query =
  fixes findall :: "int option \<Rightarrow> int option \<Rightarrow> string option \<Rightarrow> string option \<Rightarrow> 'f \<Rightarrow>
      ('s, 'r PageResult) comp"
    and matches :: "'f \<Rightarrow> 's \<Rightarrow> 'r list res"
    and good :: "'s \<Rightarrow> bool"
  assumes findall_ok: "good s \<Longrightarrow> matches fs s = Inr rows \<Longrightarrow>
      findall first lastN after before fs s = (page_of first lastN after before rows, s)"
    and findall_err: "good s \<Longrightarrow> matches fs s = Inl e \<Longrightarrow>
      findall first lastN after before fs s = (Inl e, s)"
    and matches_small: "good s \<Longrightarrow> matches fs s = Inr rows \<Longrightarrow> length rows < 2 ^ 63"
begin

lemma findall_pure: "good s \<Longrightarrow> snd (findall first lastN after before fs s) = s"
  by (cases "matches fs s") (simp_all add: findall_ok findall_err)

lemma findall_rows:
  assumes "good s" and "fst (findall first lastN after before fs s) = Inr p"
  obtains rows where "matches fs s = Inr rows" and "page_of first lastN after before rows = Inr p"
  using assms by (cases "matches fs s") (simp_all add: findall_ok findall_err)

lemma findall_subset:
  assumes "good s" and "fst (findall first lastN after before fs s) = Inr p"
    and "matches fs s = Inr rows"
  shows "set (Rows p) \<subseteq> set rows"
proof -
  from assms have "page_of first lastN after before rows = Inr p" by (simp add: findall_ok)
  from page_of_rows [OF this] obtain offset limit
    where "Rows p = take (nat limit) (drop (nat offset) rows)" by blast
  then show ?thesis by (metis set_drop_subset set_take_subset subset_trans)
qed

text \<open>Following the cursors from the first page returns every matching row once, in order.\<close>

lemma findall_walk:
  assumes "good s" and "matches fs s = Inr rows" and "0 < k"
  shows "forward_walk (Suc (length rows))
    (\<lambda>after. fst (findall (Some k) None after None fs s)) None = Some rows"
proof -
  have "(\<lambda>after. fst (findall (Some k) None after None fs s)) =
      (\<lambda>after. page_of (Some k) None after None rows)"
    by (rule ext) (simp add: findall_ok [OF assms(1,2)])
  then show ?thesis
    using forward_walk_all [OF assms(3) matches_small [OF assms(1,2)]] by simp
qed

end

end
