(* ===== verification/ConvModel.thy ===== *)
theory ConvModel
  imports Prelude
begin

text \<open>
  The data of the convenience layer (\<open>internal/convenience/model/type.go\<close>) and the
  third-party functions it is used with. A struct is a record with the source's fields,
  prefixed to keep them apart; the recursive filter struct is a datatype. The functions of
  go-ethereum (addresses, hex strings, ABI decoding) are not part of the repository: they are
  the fields of the record \<open>ethlib\<close>, which the definitions that use them take as an
  argument; \<open>eth_laws\<close> says what the code relies on.
\<close>

section \<open>Constants\<close>

definition EXECUTED :: string where "EXECUTED = ''Executed''"
definition FALSE :: string where "FALSE = ''false''"
definition DESTINATION :: string where "DESTINATION = ''Destination''"
definition VOUCHER_SELECTOR :: string where "VOUCHER_SELECTOR = ''ef615e2f''"
definition NOTICE_SELECTOR :: string where "NOTICE_SELECTOR = ''c258d6e5''"
definition INPUT_INDEX :: string where "INPUT_INDEX = ''InputIndex''"

text \<open>\<open>CompletionStatus\<close> is an \<open>int\<close> in Go; any integer can be one.\<close>

type_synonym CompletionStatus = int

definition CompletionStatusUnprocessed :: CompletionStatus where "CompletionStatusUnprocessed = 0"
definition CompletionStatusAccepted :: CompletionStatus where "CompletionStatusAccepted = 1"
definition CompletionStatusRejected :: CompletionStatus where "CompletionStatusRejected = 2"
definition CompletionStatusException :: CompletionStatus where "CompletionStatusException = 3"

lemmas status_defs = CompletionStatusUnprocessed_def CompletionStatusAccepted_def
  CompletionStatusRejected_def CompletionStatusException_def

section \<open>Times\<close>

text \<open>\<open>time.Time\<close> as nanoseconds since the Unix epoch.\<close>

type_synonym time = int

definition UnixMilli_of :: "time \<Rightarrow> int" where "UnixMilli_of t = t div 1000000"
definition Unix_of :: "time \<Rightarrow> int" where "Unix_of t = t div 1000000000"
definition time_UnixMilli :: "int \<Rightarrow> time" where "time_UnixMilli ms = ms * 1000000"
definition time_Unix :: "int \<Rightarrow> time" where "time_Unix s = s * 1000000000"

lemma UnixMilli_roundtrip [simp]: "UnixMilli_of (time_UnixMilli ms) = ms"
  by (simp add: UnixMilli_of_def time_UnixMilli_def)

lemma time_UnixMilli_Unix [simp]: "time_UnixMilli (UnixMilli_of (time_Unix s)) = time_Unix s"
  by (simp add: UnixMilli_of_def time_UnixMilli_def time_Unix_def)

lemma Unix_of_UnixMilli [simp]: "Unix_of (time_UnixMilli (UnixMilli_of t)) = Unix_of t"
proof -
  have "t div 1000000 * 1000000 div 1000000000 = t div 1000000 div 1000"
    using div_mult_mult1 [of 1000000 "t div 1000000" 1000] by (simp add: mult.commute)
  also have "\<dots> = t div 1000000000" using zdiv_zmult2_eq [of 1000 t 1000000] by simp
  finally show ?thesis by (simp add: Unix_of_def UnixMilli_of_def time_UnixMilli_def)
qed

section \<open>Entities\<close>

record ConvenienceNotice =
  cn_Payload :: string
  cn_InputIndex :: u64
  cn_OutputIndex :: u64
  cn_AppContract :: address

record ConvenienceVoucher =
  cv_Destination :: address
  cv_Payload :: string
  cv_InputIndex :: u64
  cv_OutputIndex :: u64
  cv_Executed :: bool
  cv_AppContract :: address

datatype ConvenienceFilter = ConvenienceFilter
  (cf_Field: "string option")
  (cf_Eq: "string option")
  (cf_Ne: "string option")
  (cf_Gt: "string option")
  (cf_Gte: "string option")
  (cf_Lt: "string option")
  (cf_Lte: "string option")
  (cf_In: "string option list")
  (cf_Nin: "string option list")
  (cf_And: "ConvenienceFilter list")
  (cf_Or: "ConvenienceFilter list")

text \<open>The filter literals of the code: a field and one comparison, the other fields nil.\<close>

definition filter_Eq :: "string \<Rightarrow> string \<Rightarrow> ConvenienceFilter" where
  "filter_Eq f v = ConvenienceFilter (Some f) (Some v) None None None None None [] [] [] []"

definition filter_Ne :: "string \<Rightarrow> string \<Rightarrow> ConvenienceFilter" where
  "filter_Ne f v = ConvenienceFilter (Some f) None (Some v) None None None None [] [] [] []"

definition filter_Gt :: "string \<Rightarrow> string \<Rightarrow> ConvenienceFilter" where
  "filter_Gt f v = ConvenienceFilter (Some f) None None (Some v) None None None [] [] [] []"

definition filter_Lt :: "string \<Rightarrow> string \<Rightarrow> ConvenienceFilter" where
  "filter_Lt f v = ConvenienceFilter (Some f) None None None None (Some v) None [] [] [] []"

record SynchronizerFetch =
  sf_Id :: int
  sf_TimestampAfter :: u64
  sf_IniCursorAfter :: string
  sf_LogVouchersIds :: string
  sf_EndCursorAfter :: string
  sf_IniInputCursorAfter :: string
  sf_EndInputCursorAfter :: string
  sf_IniReportCursorAfter :: string
  sf_EndReportCursorAfter :: string

record Report =
  rp_Index :: int
  rp_InputIndex :: int
  rp_Payload :: bytes
  rp_AppContract :: address

record AdvanceInput =
  ai_Index :: int
  ai_Status :: CompletionStatus
  ai_MsgSender :: address
  ai_Payload :: bytes
  ai_BlockNumber :: u64
  ai_BlockTimestamp :: time
  ai_PrevRandao :: string
  ai_AppContract :: address
  ai_Vouchers :: "ConvenienceVoucher list"
  ai_Notices :: "ConvenienceNotice list"
  ai_Reports :: "Report list"
  ai_Exception :: bytes

record ConvertedInput =
  ci_MsgSender :: address
  ci_AppContract :: address
  ci_BlockNumber :: int
  ci_BlockTimestamp :: int
  ci_PrevRandao :: string
  ci_Payload :: string

record InputEdge =
  ie_Cursor :: string
  ie_Index :: int
  ie_Blob :: string

record OutputEdge =
  oe_Cursor :: string
  oe_Index :: int
  oe_Blob :: string
  oe_InputIndex :: int

record ProcessOutputData =
  po_OutputIndex :: u64
  po_InputIndex :: u64
  po_Payload :: string
  po_Destination :: string

section \<open>The third-party functions\<close>

text \<open>
  The values of an \<open>EvmAdvance\<close> call, in the order of its ABI (\<open>internal/contracts/inputs.go\<close>):
  \<open>values[0]\<close> is \<open>ev_chainId\<close> up to \<open>values[7]\<close>, \<open>ev_payload\<close>.
\<close>

record EvmAdvance =
  ev_chainId :: int
  ev_appContract :: address
  ev_msgSender :: address
  ev_blockNumber :: int
  ev_blockTimestamp :: int
  ev_prevRandao :: int
  ev_index :: int
  ev_payload :: bytes

text \<open>
  \<open>addr_Hex\<close> is \<open>Address.Hex\<close> and \<open>Address.String\<close>; \<open>UnpackEvmAdvance\<close> and \<open>UnpackVoucher\<close>
  are \<open>Methods[...].Inputs.Unpack\<close> of the generated ABI, with the parsing of the ABI before it
  (both fail with an error that the callers treat alike); \<open>UnpackVoucher\<close> returns the values of
  \<open>Voucher(address, uint256, bytes)\<close>.
\<close>

record ethlib =
  addr_Hex :: "address \<Rightarrow> string"
  HexToAddress :: "string \<Rightarrow> address"
  IsHexAddress :: "string \<Rightarrow> bool"
  Bytes2Hex :: "bytes \<Rightarrow> string"
  Hex2Bytes :: "string \<Rightarrow> bytes"
  hexutil_Encode :: "bytes \<Rightarrow> string"
  hexutil_Decode :: "string \<Rightarrow> bytes res"
  UnpackEvmAdvance :: "bytes \<Rightarrow> EvmAdvance res"
  UnpackVoucher :: "bytes \<Rightarrow> (address \<times> int \<times> bytes) res"

text \<open>The documented behaviour of these functions that the code relies on.\<close>

definition eth_laws :: "ethlib \<Rightarrow> bool" where
  "eth_laws E \<longleftrightarrow>
     (\<forall>a. HexToAddress E (addr_Hex E a) = a) \<and>
     (\<forall>a. IsHexAddress E (addr_Hex E a)) \<and>
     (\<forall>b. Hex2Bytes E (Bytes2Hex E b) = b) \<and>
     (\<forall>b. hexutil_Encode E b = ''0x'' @ Bytes2Hex E b) \<and>
     (\<forall>b. hexutil_Decode E (hexutil_Encode E b) = Inr b)"

lemma eth_HexToAddress: "eth_laws E \<Longrightarrow> HexToAddress E (addr_Hex E a) = a"
  by (simp add: eth_laws_def)

lemma eth_addr_Hex_inj: "eth_laws E \<Longrightarrow> addr_Hex E a = addr_Hex E b \<longleftrightarrow> a = b"
  by (metis eth_HexToAddress)

lemma eth_Hex2Bytes: "eth_laws E \<Longrightarrow> Hex2Bytes E (Bytes2Hex E b) = b"
  by (simp add: eth_laws_def)

lemma eth_Encode: "eth_laws E \<Longrightarrow> hexutil_Encode E b = ''0x'' @ Bytes2Hex E b"
  by (simp add: eth_laws_def)

lemma eth_Decode: "eth_laws E \<Longrightarrow> hexutil_Decode E (hexutil_Encode E b) = Inr b"
  unfolding eth_laws_def by blast

section \<open>A concrete instance\<close>

text \<open>
  Functions with these properties, so that examples can be computed: lower-case hex digits,
  addresses as 40 digits after \<open>0x\<close>, and an ABI decoder that reads a fixed layout
  (one byte per small integer). The theorems hold for every instance.
\<close>

definition hex_digits :: string where
  "hex_digits = ''0123456789abcdef''"

definition hex_digit :: "nat \<Rightarrow> char" where
  "hex_digit n = hex_digits ! n"

definition hex_value :: "char \<Rightarrow> nat" where
  "hex_value c = (if c \<in> set hex_digits then length (takeWhile (\<lambda>d. d \<noteq> c) hex_digits) else 0)"

definition hex_of_bytes :: "bytes \<Rightarrow> string" where
  "hex_of_bytes b = concat (map (\<lambda>w. [hex_digit (unat w div 16), hex_digit (unat w mod 16)]) b)"

fun bytes_of_hex :: "string \<Rightarrow> bytes" where
  "bytes_of_hex (a # b # s) = of_nat (hex_value a * 16 + hex_value b) # bytes_of_hex s"
| "bytes_of_hex _ = []"

fun hex_fixed :: "nat \<Rightarrow> nat \<Rightarrow> string" where
  "hex_fixed 0 n = []"
| "hex_fixed (Suc k) n = hex_fixed k (n div 16) @ [hex_digit (n mod 16)]"

definition nat_of_hex :: "string \<Rightarrow> nat" where
  "nat_of_hex s = foldl (\<lambda>n c. n * 16 + hex_value c) 0 s"

definition example_Hex :: "address \<Rightarrow> string" where
  "example_Hex a = ''0x'' @ hex_fixed 40 (unat a)"

definition example_Decode :: "string \<Rightarrow> bytes res" where
  "example_Decode s =
     (if take 2 s = ''0x'' then Inr (bytes_of_hex (drop 2 s)) else Inl (EExt ''missing 0x prefix''))"

definition example_Unpack :: "bytes \<Rightarrow> EvmAdvance res" where
  "example_Unpack b = (if length b < 7 then Inl (EExt ''abi: improperly formatted'')
     else Inr \<lparr>ev_chainId = uint (b ! 0), ev_appContract = ucast (b ! 1), ev_msgSender = ucast (b ! 2),
       ev_blockNumber = uint (b ! 3), ev_blockTimestamp = uint (b ! 4), ev_prevRandao = uint (b ! 5),
       ev_index = uint (b ! 6), ev_payload = drop 7 b\<rparr>)"

definition example_UnpackVoucher :: "bytes \<Rightarrow> (address \<times> int \<times> bytes) res" where
  "example_UnpackVoucher b = (if length b < 2 then Inl (EExt ''abi: improperly formatted'')
     else Inr (ucast (b ! 0), uint (b ! 1), drop 2 b))"

definition example_eth :: ethlib where
  "example_eth = \<lparr>addr_Hex = example_Hex, HexToAddress = (\<lambda>s. of_nat (nat_of_hex (drop 2 s))),
     IsHexAddress = (\<lambda>s. take 2 s = ''0x'' \<and> length s = 42),
     Bytes2Hex = hex_of_bytes, Hex2Bytes = bytes_of_hex,
     hexutil_Encode = (\<lambda>b. ''0x'' @ hex_of_bytes b), hexutil_Decode = example_Decode,
     UnpackEvmAdvance = example_Unpack, UnpackVoucher = example_UnpackVoucher\<rparr>"

lemma hex_value_digit: "n < 16 \<Longrightarrow> hex_value (hex_digit n) = n"
proof -
  have "\<forall>n \<in> set [0..<16]. hex_value (hex_digit n) = n" by code_simp
  then show "n < 16 \<Longrightarrow> hex_value (hex_digit n) = n" by simp
qed

lemma bytes_of_hex_of_bytes: "bytes_of_hex (hex_of_bytes b) = b"
proof (induction b)
  case Nil
  show ?case by (simp add: hex_of_bytes_def)
next
  case (Cons w b)
  have "unat w < 2 ^ LENGTH(8)" by (rule unsigned_less)
  then have "unat w < 256" by simp
  then have "unat w div 16 < 16" by simp
  then have "of_nat (hex_value (hex_digit (unat w div 16)) * 16 + hex_value (hex_digit (unat w mod 16))) = w"
    by (simp add: hex_value_digit)
  with Cons show ?case by (simp add: hex_of_bytes_def)
qed

lemma nat_of_hex_snoc: "nat_of_hex (s @ [c]) = nat_of_hex s * 16 + hex_value c"
  by (simp add: nat_of_hex_def)

lemma nat_of_hex_fixed: "n < 16 ^ k \<Longrightarrow> nat_of_hex (hex_fixed k n) = n"
proof (induction k arbitrary: n)
  case 0
  then show ?case by (simp add: nat_of_hex_def)
next
  case (Suc k)
  then have "nat_of_hex (hex_fixed k (n div 16)) = n div 16"
    by (intro Suc.IH) (simp add: less_mult_imp_div_less mult.commute)
  then show ?case by (simp add: nat_of_hex_snoc hex_value_digit)
qed

lemma length_hex_fixed [simp]: "length (hex_fixed k n) = k"
  by (induction k arbitrary: n) simp_all

lemma example_Hex_roundtrip: "of_nat (nat_of_hex (drop 2 (example_Hex a))) = a"
proof -
  have "unat a < 2 ^ LENGTH(160)" by (rule unsigned_less)
  then have "unat a < 16 ^ 40" by simp
  then show ?thesis by (simp add: example_Hex_def nat_of_hex_fixed del: hex_fixed.simps)
qed

lemma example_eth_laws: "eth_laws example_eth"
  using example_Hex_roundtrip
  by (simp add: eth_laws_def example_eth_def bytes_of_hex_of_bytes example_Decode_def example_Hex_def)

end
