(* ===== verification/RepoBase.thy ===== *)
theory RepoBase
  imports SqlLemmas Pagination ConvModel
begin

text \<open>
  What the repositories of \<open>internal/convenience/repository\<close> share: the transaction that a
  context carries (\<open>transaction_helper.go\<close>), the executor that uses it (\<open>sql_executor.go\<close>),
  tables of typed rows, and the two steps that every paged query is made of. The locale
  \<open>paged_repo\<close> collects what a repository's texts, filter loop and row scanner have to
  satisfy, and proves inside that its count and page queries are those of the contract
  \<open>paged_query\<close>.
\<close>

section \<open>Pointers and constants\<close>

definition deref :: "'a option \<Rightarrow> 'a res" where
  "deref p = (case p of Some x \<Rightarrow> Inr x
     | None \<Rightarrow> Inl (EPanic ''invalid memory address or nil pointer dereference''))"

lemma deref_simps [simp]: "deref (Some x) = Inr x"
  "deref None = Inl (EPanic ''invalid memory address or nil pointer dereference'')"
  by (simp_all add: deref_def)

definition WHERE :: string where "WHERE = ''WHERE ''"

section \<open>Transactions\<close>

definition StartTransaction :: "ctx \<Rightarrow> (db, ctx) comp" where
  "StartTransaction ctx =
     andThen (wrapErr ''failed to begin transaction'' db_Begin) (\<lambda>_. ret WithTx)"

definition GetTransaction :: "ctx \<Rightarrow> bool" where
  "GetTransaction ctx = (case ctx of WithTx \<Rightarrow> True | NoTx \<Rightarrow> False)"

definition DBExecutor_ExecContext :: "ctx \<Rightarrow> string \<Rightarrow> goarg list \<Rightarrow> (db, unit) comp" where
  "DBExecutor_ExecContext ctx query args =
     (let isTxEnable = GetTransaction ctx
      in if \<not> isTxEnable then db_Exec query args else tx_Exec query args)"

text \<open>The tables that a write through the context changes.\<close>

definition target :: "ctx \<Rightarrow> db \<Rightarrow> tables option" where
  "target ctx d = (case ctx of NoTx \<Rightarrow> Some (db_committed d) | WithTx \<Rightarrow> db_pending d)"

definition set_target :: "ctx \<Rightarrow> tables \<Rightarrow> db \<Rightarrow> db" where
  "set_target ctx ts d =
     (case ctx of NoTx \<Rightarrow> d\<lparr>db_committed := ts\<rparr> | WithTx \<Rightarrow> d\<lparr>db_pending := Some ts\<rparr>)"

lemma DBExecutor_ExecContext_ok:
  assumes "db_faults d = []" and "target ctx d = Some ts"
  shows "DBExecutor_ExecContext ctx text args d =
    (case sql_exec ts text args of Inl e \<Rightarrow> (Inl e, d) | Inr ts' \<Rightarrow> (Inr (), set_target ctx ts' d))"
  using assms
  by (auto simp: DBExecutor_ExecContext_def GetTransaction_def target_def set_target_def
      db_Exec_def tx_Exec_def pop_fault_def split: ctx.splits sum.splits)

lemma target_set_target [simp]: "target ctx (set_target ctx ts d) = Some ts"
  by (cases ctx) (simp_all add: target_def set_target_def)

lemma db_faults_set_target [simp]: "db_faults (set_target ctx ts d) = db_faults d"
  by (cases ctx) (simp_all add: set_target_def)

lemma db_Select_ok:
  assumes "db_faults d = []"
  shows "db_Select text args d = (sql_query (db_committed d) text args, d)"
  using assms by (auto simp: db_Select_def andThen_apply db_Query_def pop_fault_def split: sum.splits)

lemma db_Query_ok:
  assumes "db_faults d = []"
  shows "db_Query text args d = (case sql_query (db_committed d) text args of Inl e \<Rightarrow> (Inl e, d)
    | Inr (cs, rs) \<Rightarrow> (Inr \<lparr>rs_cols = cs, rs_rows = rs, rs_err = None\<rparr>, d))"
  using assms by (auto simp: db_Query_def pop_fault_def)

lemma db_Get_ok:
  assumes "db_faults d = []"
  shows "db_Get text args d = (case sql_query (db_committed d) text args of Inl e \<Rightarrow> (Inl e, d)
    | Inr (cs, rs) \<Rightarrow> (case rs of [] \<Rightarrow> (Inl ErrNoRows, d) | r # _ \<Rightarrow> (Inr (cs, r), d)))"
  using assms by (auto simp: db_Get_def andThen_apply db_Select_ok split: sum.splits list.splits)

lemma uint_of_int_small:
  "0 \<le> n \<Longrightarrow> n < 2 ^ 63 \<Longrightarrow> uint (of_int n :: u64) = n"
  "0 \<le> n \<Longrightarrow> n < 2 ^ 63 \<Longrightarrow> unat (of_int n :: u64) < 2 ^ 63"
  by (simp_all add: uint_word_of_int_eq take_bit_int_eq_self unat_eq_nat_uint)

section \<open>Typed tables\<close>

definition mk_table ::
  "coldef list \<Rightarrow> string list \<Rightarrow> bool \<Rightarrow> ('r \<Rightarrow> sqlval list) \<Rightarrow> 'r list \<Rightarrow> table" where
  "mk_table cols key auto row rs =
     \<lparr>t_cols = cols, t_key = key, t_auto = auto, t_rows = map row rs\<rparr>"

lemma mk_table_simps [simp]:
  "t_cols (mk_table cols key auto row rs) = cols" "t_key (mk_table cols key auto row rs) = key"
  "t_auto (mk_table cols key auto row rs) = auto" "t_rows (mk_table cols key auto row rs) = map row rs"
  by (simp_all add: mk_table_def)

lemma mk_table_update: "mk_table cols key auto row rs\<lparr>t_rows := map row rs'\<rparr> = mk_table cols key auto row rs'"
  by (simp add: mk_table_def)

lemma same_cols_fun:
  assumes "t_cols t = t_cols t'"
  shows "col_index t = col_index t'" "acond_holds t = acond_holds t'" "acond_ok t = acond_ok t'"
    "cond_ok t = cond_ok t'" "row_matches t = row_matches t'" "set_columns t = set_columns t'"
    "project t = project t'" "known_sel t = known_sel t'" "sel_cols t = sel_cols t'"
    "sel_row t = sel_row t'"
proof -
  show c: "col_index t = col_index t'" using assms by (auto simp: col_index_def)
  show "acond_holds t = acond_holds t'" "acond_ok t = acond_ok t'" "cond_ok t = cond_ok t'"
    "row_matches t = row_matches t'" "set_columns t = set_columns t'" and p: "project t = project t'"
    by (simp_all only: c assms acond_holds_def [abs_def] acond_ok_def [abs_def] cond_ok_def [abs_def]
        row_matches_def [abs_def] cond_holds_def [abs_def] set_columns_def [abs_def] project_def [abs_def])
  show "known_sel t = known_sel t'" "sel_cols t = sel_cols t'" "sel_row t = sel_row t'"
    by (auto simp: known_sel_def sel_cols_def sel_row_def c assms p fun_eq_iff split: selection.splits)
qed

text \<open>
  \<open>shape\<close> is the empty table of the same columns: what a statement computes from the columns is
  computed on it.
\<close>

definition shape :: "coldef list \<Rightarrow> table" where
  "shape cols = \<lparr>t_cols = cols, t_key = [], t_auto = False, t_rows = []\<rparr>"

lemma shape_cols [simp]: "t_cols (shape cols) = cols"
  by (simp add: shape_def)

lemmas mk_table_shape [simp] =
  same_cols_fun [of "mk_table cols key auto row rs" "shape cols" for cols key auto row rs, simplified]

lemma distinct_map_iff: "(\<And>x y. (f x = f y) = (g x = g y)) \<Longrightarrow> distinct (map f xs) = distinct (map g xs)"
  by (induction xs) (auto simp: image_iff)

lemma unique_ok_mk_table:
  "unique_ok (mk_table cols key auto row rs) \<longleftrightarrow>
     key = [] \<or> distinct (map (\<lambda>r. project (shape cols) key (row r)) rs)"
  by (simp add: unique_ok_def key_values_def comp_def)

lemma run_insert_typed:
  assumes "length cs = length ns" and "list_all (\<lambda>c. col_index (shape cols) c \<noteq> None) cs"
    and "list_all (\<lambda>n. 1 \<le> n \<and> n \<le> length vals) ns"
    and "map (insert_value (mk_table cols key auto row rs) cs (map (\<lambda>n. vals ! (n - 1)) ns)) [0..<length cols]
      = row r"
  shows "run_insert (mk_table cols key auto row rs) cs ns vals =
    (if unique_ok (mk_table cols key auto row (rs @ [r])) then Inr (mk_table cols key auto row (rs @ [r]))
     else Inl (EDb ''UNIQUE constraint failed''))"
proof -
  have u: "mk_table cols key auto row rs\<lparr>t_rows := map row rs @ [row r]\<rparr> = mk_table cols key auto row (rs @ [r])"
    by (simp add: mk_table_def)
  show ?thesis unfolding run_insert_def Let_def sql_error_def
    using assms by (simp add: u)
qed

lemma run_update_typed:
  assumes "list_all (\<lambda>(c, n). col_index (shape cols) c \<noteq> None \<and> 1 \<le> n \<and> n \<le> length vals) sets"
    and "list_all (cond_ok (shape cols) (length vals)) conds"
    and "\<And>r. row_matches (shape cols) vals conds (row r) = P r"
    and "\<And>r. P r \<Longrightarrow> set_columns (shape cols) vals sets (row r) = row (upd r)"
  shows "run_update (mk_table cols key auto row rs) sets conds vals =
    (if unique_ok (mk_table cols key auto row (map (\<lambda>r. if P r then upd r else r) rs))
     then Inr (mk_table cols key auto row (map (\<lambda>r. if P r then upd r else r) rs))
     else Inl (EDb ''UNIQUE constraint failed''))"
proof -
  let ?upd = "\<lambda>x. if row_matches (shape cols) vals conds x then set_columns (shape cols) vals sets x else x"
  have "map ?upd (map row rs) = map row (map (\<lambda>r. if P r then upd r else r) rs)"
    using assms(3,4) by simp
  then have "mk_table cols key auto row rs\<lparr>t_rows := map ?upd (map row rs)\<rparr> =
      mk_table cols key auto row (map (\<lambda>r. if P r then upd r else r) rs)"
    by (simp add: mk_table_def del: map_map)
  then show ?thesis
    using assms(1,2) by (simp add: run_update_def Let_def sql_error_def del: map_map cong: if_cong)
qed

lemma run_update_unique:
  assumes "list_all (\<lambda>(c, n). col_index (shape cols) c \<noteq> None \<and> 1 \<le> n \<and> n \<le> length vals) sets"
    and "list_all (cond_ok (shape cols) (length vals)) conds"
    and "unique_ok (mk_table cols key auto row (map (\<lambda>r. if P r then upd r else r) rs))"
    and "\<And>r. row_matches (shape cols) vals conds (row r) = P r"
    and "\<And>r. P r \<Longrightarrow> set_columns (shape cols) vals sets (row r) = row (upd r)"
  shows "run_update (mk_table cols key auto row rs) sets conds vals =
    Inr (mk_table cols key auto row (map (\<lambda>r. if P r then upd r else r) rs))"
  using run_update_typed [where row = row and P = P and upd = upd, OF assms(1,2,4,5)] assms(3) by simp

lemma sql_exec_insert:
  assumes "parse_script text = Some [SInsert tbl cs ns]" and "ts tbl = Some t"
    and "rmap bind_arg args = Inr vals"
  shows "sql_exec ts text args = rbind (run_insert t cs ns vals) (\<lambda>t'. Inr (ts(tbl \<mapsto> t')))"
  using assms by (cases "run_insert t cs ns vals") (simp_all add: sql_exec_def run_stmt_def)

lemma sql_exec_update:
  assumes "parse_script text = Some [SUpdate tbl sets conds]" and "ts tbl = Some t"
    and "rmap bind_arg args = Inr vals"
  shows "sql_exec ts text args = rbind (run_update t sets conds vals) (\<lambda>t'. Inr (ts(tbl \<mapsto> t')))"
  using assms by (cases "run_update t sets conds vals") (simp_all add: sql_exec_def run_stmt_def)

lemma sql_exec_bind_error:
  "rmap bind_arg args = Inl e \<Longrightarrow> parse_script text = Some sts \<Longrightarrow> sql_exec ts text args = Inl e"
  by (simp add: sql_exec_def)

lemma sql_query_find:
  assumes "parse_query text = Some (SSelect sel tbl conds ks l None)" and "l = None \<or> l = Some (LNum 1)"
    and "ts tbl = Some (mk_table cols key auto row rs)" and "rmap bind_arg args = Inr vals"
    and "list_all (cond_ok (shape cols) (length vals)) conds" and "known_sel (shape cols) sel"
    and "list_all (\<lambda>(c, _). col_index (shape cols) c \<noteq> None) ks"
    and "\<And>r. row_matches (shape cols) vals conds (row r) = P r"
    and "sort_rows (mk_table cols key auto row rs) ks (map row (filter P rs)) = map row rs'"
  shows "sql_query ts text args = Inr (sel_cols (shape cols) sel,
    map (\<lambda>r. sel_row (shape cols) sel (row r)) (if l = None then rs' else take 1 rs'))"
proof -
  have f: "filter (row_matches (shape cols) vals conds) (map row rs) = map row (filter P rs)"
    using assms(8) by (simp add: filter_map comp_def)
  have lim: "\<exists>l'. opt_lim vals l = Some l' \<and> sql_limit l' None (map row rs') =
      map row (if l = None then rs' else take 1 rs')"
    using assms(2) by (auto simp: opt_lim_def lim_value_def sql_limit_def take_map)
  then obtain l' where l': "opt_lim vals l = Some l'"
    "sql_limit l' None (map row rs') = map row (if l = None then rs' else take 1 rs')" by blast
  have nk: "opt_lim vals None = Some None" by (simp add: opt_lim_def)
  show ?thesis
    using assms(6,7) by (cases sel)
      (simp_all add: sql_query_def assms(1,3,4,5,9) run_select_def nk l' f known_sel_def sel_cols_def
        sel_row_def comp_def)
qed

lemma filter_hd: "(case filter P xs of [] \<Rightarrow> None | x # _ \<Rightarrow> Some x) = find P xs"
  by (induction xs) simp_all

lemma find_filter: "find P xs = (if filter P xs = [] then None else Some (hd (filter P xs)))"
  by (induction xs) auto

text \<open>
  The lookups that query and take the first row: \<open>if res.Next() { ... parse ... }\<close>, otherwise nil.
  The iteration error of the rows is not looked at.
\<close>

definition first_row ::
  "string \<Rightarrow> goarg list \<Rightarrow> (sqlval list \<Rightarrow> 'r res) \<Rightarrow> (db, 'r option) comp" where
  "first_row query args parse =
     andThen (db_Query query args) (\<lambda>res. case rs_rows res of
         r # _ \<Rightarrow> andThen (lift_res (parse r)) (\<lambda>x. ret (Some x))
       | [] \<Rightarrow> ret None)"

lemma first_row_ordered:
  assumes "parse_query text = Some (SSelect sel tbl conds ks l None)" and "l = None \<or> l = Some (LNum 1)"
    and "db_faults d = []" and "db_committed d tbl = Some (mk_table cols key auto row rs)"
    and "rmap bind_arg args = Inr vals"
    and "list_all (cond_ok (shape cols) (length vals)) conds" and "known_sel (shape cols) sel"
    and "list_all (\<lambda>(c, _). col_index (shape cols) c \<noteq> None) ks"
    and "\<And>r. row_matches (shape cols) vals conds (row r) = P r"
    and "sort_rows (mk_table cols key auto row rs) ks (map row (filter P rs)) = map row rs'"
    and "\<And>r. r \<in> set rs' \<Longrightarrow> parse (sel_row (shape cols) sel (row r)) = Inr (f r)"
  shows "first_row text args parse d = (Inr (case rs' of [] \<Rightarrow> None | r # _ \<Rightarrow> Some (f r)), d)"
proof -
  have "sql_query (db_committed d) text args = Inr (sel_cols (shape cols) sel,
      map (\<lambda>r. sel_row (shape cols) sel (row r)) (if l = None then rs' else take 1 rs'))"
    by (rule sql_query_find [where vals = vals and P = P and rs = rs and conds = conds and ks = ks]) (fact assms)+
  then show ?thesis using assms(3,11)
    by (cases rs') (auto simp: first_row_def andThen_apply db_Query_ok)
qed

lemma first_row_find:
  assumes "parse_query text = Some (SSelect sel tbl conds [] l None)" and "l = None \<or> l = Some (LNum 1)"
    and "db_faults d = []" and "db_committed d tbl = Some (mk_table cols key auto row rs)"
    and "rmap bind_arg args = Inr vals"
    and "list_all (cond_ok (shape cols) (length vals)) conds" and "known_sel (shape cols) sel"
    and "\<And>r. row_matches (shape cols) vals conds (row r) = P r"
    and "\<And>r. r \<in> set rs \<Longrightarrow> parse (sel_row (shape cols) sel (row r)) = Inr (f r)"
  shows "first_row text args parse d = (Inr (map_option f (find P rs)), d)"
proof -
  have "first_row text args parse d =
      (Inr (case filter P rs of [] \<Rightarrow> None | r # _ \<Rightarrow> Some (f r)), d)"
    by (rule first_row_ordered [OF assms(1-7)]) (simp_all add: assms(8,9) sort_rows_def)
  also have "(case filter P rs of [] \<Rightarrow> None | r # _ \<Rightarrow> Some (f r)) = map_option f (find P rs)"
    by (induction rs) simp_all
  finally show ?thesis .
qed

text \<open>\<open>ORDER BY\<close> of two integer columns.\<close>

lemma selected_filter:
  "matching_rows (mk_table cols key auto row rs) as =
     map row (filter (\<lambda>r. list_all (acond_holds (shape cols) (row r)) as) rs)"
  by (simp add: matching_rows_def filter_map comp_def)

lemma sort_rows_pair:
  assumes "col_index (shape cols) c = Some i" and "col_index (shape cols) c' = Some j"
    and "\<And>r. row r ! i = VInt (h r)" and "\<And>r. row r ! j = VInt (k r)"
  shows "sort_rows (mk_table cols key auto row rs) [(c, False), (c', False)] (map row xs) =
    map row (sort_key (\<lambda>r. (h r, k r)) xs)"
  using assms by (simp add: sort_rows_def sort_by_def sort_key_map sort_key_pair)

lemma sort_rows_one:
  assumes "col_index (shape cols) c = Some i" and "\<And>r. row r ! i = VInt (h r)"
  shows "sort_rows (mk_table cols key auto row rs) [(c, False)] (map row xs) = map row (sort_key h xs)"
  using assms by (simp add: sort_rows_def sort_by_def sort_key_map)

text \<open>A conversion of every filter relates the conditions to the filters.\<close>

lemma rmap_list_all:
  assumes "rmap f xs = Inr ys" and "\<And>x y. f x = Inr y \<Longrightarrow> P y = Q x"
  shows "list_all P ys = list_all Q xs"
  using assms(1) by (induction xs arbitrary: ys) (auto simp: rbind_Inr_iff assms(2))

lemma rmap_then_map:
  "rbind (rmap f xs) (\<lambda>ys. Inr (map g ys)) = rmap (\<lambda>x. rbind (f x) (\<lambda>y. Inr (g y))) xs"
proof (induction xs)
  case (Cons x xs)
  show ?case
    using Cons [symmetric] by (cases "f x"; cases "rmap f xs") simp_all
qed simp

lemma andThen_rmap_map:
  "andThen (lift_res (rmap (\<lambda>x. rbind (f x) (\<lambda>y. Inr (g y))) xs)) k =
   andThen (lift_res (rmap f xs)) (\<lambda>ys. k (map g ys))"
  by (rule ext) (simp add: andThen_apply rmap_then_map [symmetric], cases "rmap f xs", simp_all)

section \<open>Paged queries\<close>

text \<open>
  The two queries of the \<open>FindAll\<close> methods: \<open>Count\<close> prepares the counting text with the clause
  and scans one number; the page query computes the page from the total, appends \<open>LIMIT\<close> and
  \<open>OFFSET\<close> with the next two placeholders, and converts the rows.
\<close>

definition count_step ::
  "string \<Rightarrow> (string \<times> goarg list \<times> int) res \<Rightarrow> (db, u64) comp" where
  "count_step text clause =
     andThen (lift_res clause) (\<lambda>(where, args, _).
     andThen (db_Get (text @ where) args) (\<lambda>(_, r). lift_res (scan_u64 (hd r))))"

definition page_step ::
  "string \<Rightarrow> string \<Rightarrow> (string \<times> goarg list \<times> int) res \<Rightarrow> (string list \<Rightarrow> sqlval list \<Rightarrow> 'r res) \<Rightarrow>
   int option \<Rightarrow> int option \<Rightarrow> string option \<Rightarrow> string option \<Rightarrow> u64 \<Rightarrow> (db, 'r PageResult) comp" where
  "page_step text order clause scan first lastN after before tot =
     andThen (lift_res clause) (\<lambda>(where, args, argsCount).
     andThen (lift_res (ComputePage first lastN after before (sint tot))) (\<lambda>(offset, limit).
     andThen (db_Select (text @ where @ order @ ''LIMIT $'' @ itoa argsCount @ '' '' @
         ''OFFSET $'' @ itoa (argsCount + 1) @ '' '') (args @ [AInt limit, AInt offset])) (\<lambda>(cs, rs).
     andThen (lift_res (rmap (scan cs) rs)) (\<lambda>rows.
     ret \<lparr>Total = tot, Offset = of_int offset, Rows = rows\<rparr>))))"

definition acond_words :: "acond \<Rightarrow> bool" where
  "acond_words = (\<lambda>(c, op, a). word c \<and> word op)"

text \<open>The rows a paged query is about: those of the table that satisfy the conditions, in its order.\<close>

definition selected :: "table \<Rightarrow> (string \<times> bool) list \<Rightarrow> acond list \<Rightarrow> sqlval list list" where
  "selected t ks as = sort_rows t ks (matching_rows t as)"

lemma set_sort_rows [simp]: "set (sort_rows t ks rs) = set rs"
proof -
  have "set (sort_by t k rs) = set rs" for k rs
    by (cases k) (auto simp: sort_by_def split: option.splits)
  then show ?thesis unfolding sort_rows_def by (induction ks) simp_all
qed

lemma length_sort_rows [simp]: "length (sort_rows t ks rs) = length rs"
proof -
  have "length (sort_by t k rs) = length rs" for k rs
    by (cases k) (auto simp: sort_by_def split: option.splits)
  then show ?thesis unfolding sort_rows_def by (induction ks) simp_all
qed

lemma selected_subset: "row \<in> set (selected t ks as) \<Longrightarrow> row \<in> set (t_rows t)"
  by (simp add: selected_def matching_rows_def)

lemma length_selected: "length (selected t ks as) = length (matching_rows t as)"
  by (simp add: selected_def)

lemma length_matching_rows: "length (matching_rows t as) \<le> length (t_rows t)"
  by (simp add: matching_rows_def)

locale paged_repo =
  fixes tbl :: string and cols :: "coldef list" and key :: "string list" and auto :: bool
    and row :: "'a \<Rightarrow> sqlval list" and unrow :: "sqlval list \<Rightarrow> 'r" and row_ok :: "'a \<Rightarrow> bool"
    and val :: "'a \<Rightarrow> 'r"
    and count_head :: string and head :: string and sel :: selection
    and order :: string and ks :: "(string \<times> bool) list"
    and cond :: "'f \<Rightarrow> acond res"
    and clause :: "'f list \<Rightarrow> (string \<times> goarg list \<times> int) res"
    and scan :: "string list \<Rightarrow> sqlval list \<Rightarrow> 'r res"
  assumes heads: "select_head count_head SelCount tbl" "select_head head sel tbl" "order_tail order ks"
    and clause: "clause fs = rbind (rmap cond fs) (\<lambda>acs.
        Inr (conds_text (number_from 1 acs), map acond_arg acs, 1 + int (length acs)))"
    and cond_fine: "cond f = Inr ac \<Longrightarrow> acond_ok (shape cols) ac \<and> acond_words ac"
    and sel_fine: "known_sel (shape cols) sel"
    and keys_fine: "list_all (\<lambda>(c, _). col_index (shape cols) c \<noteq> None) ks"
    and scan_row: "row_ok r \<Longrightarrow>
        scan (sel_cols (shape cols) sel) (sel_row (shape cols) sel (row r)) = Inr (val r)"
    and unrow_row: "row_ok r \<Longrightarrow> unrow (row r) = val r"
begin

definition holds :: "'a list \<Rightarrow> db \<Rightarrow> bool" where
  "holds rs d \<longleftrightarrow> db_faults d = [] \<and> db_committed d tbl = Some (mk_table cols key auto row rs) \<and>
     list_all row_ok rs \<and> length rs < 2 ^ 63"

definition rows_for :: "'f list \<Rightarrow> db \<Rightarrow> 'r list res" where
  "rows_for fs d = rbind (rmap cond fs) (\<lambda>acs. case db_committed d tbl of
      Some t \<Rightarrow> Inr (map unrow (selected t ks acs)) | None \<Rightarrow> Inr [])"

lemma conds_ok:
  assumes "rmap cond fs = Inr acs"
  shows "list_all (acond_ok (mk_table cols key auto row rs)) acs"
proof -
  have "list_all (acond_ok (shape cols)) acs"
    using assms by (induction fs arbitrary: acs) (auto simp: rbind_Inr_iff dest: cond_fine)
  then show ?thesis by simp
qed

lemma conds_words:
  assumes "rmap cond fs = Inr acs"
  shows "list_all (\<lambda>(c, op, a). word c \<and> word op) acs"
  using assms unfolding acond_words_def [symmetric]
  by (induction fs arbitrary: acs) (auto simp: rbind_Inr_iff dest: cond_fine)

lemma count_step_ok:
  assumes "holds rs d" and "rmap cond fs = Inr acs"
  shows "count_step count_head (clause fs) d =
    (Inr (of_nat (length (matching_rows (mk_table cols key auto row rs) acs))), d)"
proof -
  have "sql_query (db_committed d) (count_head @ conds_text (number_from 1 acs)) (map acond_arg acs) =
      Inr ([''count(*)''], [[VInt (int (length (matching_rows (mk_table cols key auto row rs) acs)))]])"
    using assms heads conds_ok [OF assms(2), of rs] conds_words [OF assms(2)]
    by (intro sql_query_count) (simp_all add: holds_def)
  then show ?thesis using assms
    by (simp add: count_step_def clause andThen_apply db_Get_ok holds_def scan_u64_def scan_int_def)
qed

lemma rmap_scan:
  assumes "holds rs d" and "set xs \<subseteq> set (map row rs)"
  shows "rmap (scan (sel_cols (mk_table cols key auto row rs) sel))
      (map (sel_row (mk_table cols key auto row rs) sel) xs) = Inr (map unrow xs)"
proof -
  have "\<And>x. x \<in> set xs \<Longrightarrow> scan (sel_cols (mk_table cols key auto row rs) sel)
      (sel_row (mk_table cols key auto row rs) sel x) = Inr (unrow x)"
    using assms scan_row unrow_row by (auto simp: holds_def list_all_iff)
  then have "rmap (\<lambda>x. scan (sel_cols (mk_table cols key auto row rs) sel)
      (sel_row (mk_table cols key auto row rs) sel x)) xs = Inr (map unrow xs)"
    by (rule rmap_ok)
  then show ?thesis by (simp add: rmap_map)
qed

lemma page_step_ok:
  assumes h: "holds rs d" and acs: "rmap cond fs = Inr acs"
    and total: "tot = of_nat (length (matching_rows (mk_table cols key auto row rs) acs))"
  shows "page_step head order (clause fs) scan first lastN after before tot d =
    (page_of first lastN after before (map unrow (selected (mk_table cols key auto row rs) ks acs)), d)"
proof -
  let ?t = "mk_table cols key auto row rs" and ?sel = "selected (mk_table cols key auto row rs) ks acs"
  have "length (matching_rows ?t acs) < 2 ^ 63"
    using h length_matching_rows [of ?t acs] by (simp add: holds_def)
  then have tot': "sint tot = int (length ?sel)" "tot = of_nat (length ?sel)"
    by (simp_all add: total sint_of_nat_small length_selected)
  show ?thesis
  proof (cases "ComputePage first lastN after before (int (length ?sel))")
    case (Inl e)
    then show ?thesis by (simp add: page_step_def page_of_def clause acs andThen_apply tot'(1))
  next
    case (Inr p)
    then obtain offset limit where p: "p = (offset, limit)" by (cases p)
    have b: "0 \<le> offset" "0 \<le> limit" using ComputePage_bounds [OF Inr [unfolded p]] by simp_all
    have query: "sql_query (db_committed d) (head @ conds_text (number_from 1 acs) @ order @
          page_tail (1 + length acs) (2 + length acs)) (map acond_arg acs @ [AInt limit, AInt offset]) =
        Inr (sel_cols ?t sel, map (sel_row ?t sel) (take (nat limit) (drop (nat offset) ?sel)))"
      unfolding selected_def
    proof (rule sql_query_page)
      show "db_committed d tbl = Some ?t" using h by (simp add: holds_def)
      show "known_sel ?t sel" using sel_fine by simp
      show "list_all (\<lambda>(c, _). col_index ?t c \<noteq> None) ks"
        using keys_fine by simp
    qed (use heads b conds_ok [OF acs, of rs] conds_words [OF acs] in simp_all)
    have "rmap (scan (sel_cols ?t sel)) (map (sel_row ?t sel) (take (nat limit) (drop (nat offset) ?sel)))
        = Inr (map unrow (take (nat limit) (drop (nat offset) ?sel)))"
      by (rule rmap_scan [OF h])
        (use selected_subset [of _ ?t ks acs] in \<open>auto dest!: in_set_takeD in_set_dropD\<close>)
    moreover have "head @ conds_text (number_from 1 acs) @ order @ ''LIMIT $'' @ itoa (1 + int (length acs)) @
          '' '' @ ''OFFSET $'' @ itoa (1 + int (length acs) + 1) @ '' '' =
        head @ conds_text (number_from 1 acs) @ order @ page_tail (1 + length acs) (2 + length acs)"
      by (simp add: page_tail_def)
    moreover have "db_faults d = []" using h by (simp add: holds_def)
    ultimately show ?thesis using Inr query
      by (simp only: page_step_def page_of_def clause acs andThen_apply tot'(1) p db_Select_ok
          rbind_simps lift_res_apply prod.case sum.case ret_apply take_map drop_map length_map
          tot'(2) [symmetric])
  qed
qed

lemma find_all_ok:
  assumes "holds rs d"
  shows "andThen (count_step count_head (clause fs))
      (page_step head order (clause fs) scan first lastN after before) d =
    (rbind (rows_for fs d) (page_of first lastN after before), d)"
proof (cases "rmap cond fs")
  case (Inl e)
  then show ?thesis by (simp add: andThen_apply count_step_def clause rows_for_def)
next
  case (Inr acs)
  have "andThen (count_step count_head (clause fs))
      (page_step head order (clause fs) scan first lastN after before) d =
      page_step head order (clause fs) scan first lastN after before
        (of_nat (length (matching_rows (mk_table cols key auto row rs) acs))) d"
    by (rule andThen_ok) (rule count_step_ok [OF assms Inr])
  also have "\<dots> = (page_of first lastN after before
      (map unrow (selected (mk_table cols key auto row rs) ks acs)), d)"
    by (rule page_step_ok [OF assms Inr refl])
  finally show ?thesis using assms Inr by (simp add: rows_for_def holds_def)
qed

lemma rows_for_small:
  assumes "holds rs d" and "rows_for fs d = Inr rows"
  shows "length rows < 2 ^ 63"
proof -
  from assms obtain acs where rows: "rows = map unrow (selected (mk_table cols key auto row rs) ks acs)"
    by (auto simp: rows_for_def holds_def rbind_Inr_iff)
  have "length rows \<le> length rs"
    unfolding rows using length_matching_rows [of "mk_table cols key auto row rs" acs]
    by (simp add: length_selected)
  with assms(1) show ?thesis by (simp add: holds_def)
qed

end

sublocale paged_repo \<subseteq> paged_query
  "\<lambda>first lastN after before fs. andThen (count_step count_head (clause fs))
     (page_step head order (clause fs) scan first lastN after before)"
  rows_for "\<lambda>d. \<exists>rs. holds rs d"
  by unfold_locales (auto simp: find_all_ok dest: rows_for_small)

text \<open>What the scans of the repositories and their tables share.\<close>

definition output_key :: "string list" where
  "output_key = [''input_index'', ''output_index'']"

lemma scan_bool_flag [simp]: "scan_bool (VInt (if b then 1 else 0)) = Inr b"
  by (simp add: scan_bool_def)

lemma scan_u64_uint [simp]: "scan_u64 (VInt (uint w)) = Inr w"
  by (simp add: scan_u64_def scan_int_def not_less)

lemma scan_string_VText [simp]: "scan_string (VText s) = Inr s"
  by (simp add: scan_string_def)

lemma scan_int_VInt [simp]: "scan_int (VInt i) = Inr i"
  by (simp add: scan_int_def)

lemma find_first: "(if filter P xs = [] then None else Some (hd (filter P xs))) = find P xs"
  by (simp add: find_filter)

lemma less_VInt_VText [simp]: "VInt i < VText s" "\<not> VText s < VInt i"
  by (simp_all add: less_sqlval_def)

lemma snd_enumerate: "kx \<in> set (enumerate n xs) \<Longrightarrow> snd kx \<in> set xs"
  by (metis image_eqI map_snd_enumerate set_map)

lemma filter_enumerate: "map snd (filter (\<lambda>kx. P (snd kx)) (enumerate n xs)) = filter P xs"
  by (induction xs arbitrary: n) simp_all

lemma sort_key_snd: "map snd (sort_key (\<lambda>kx. f (snd kx)) xs) = sort_key f (map snd xs)"
  by (simp add: sort_key_map)

end
