(* ===== verification/VoucherRepository.thy ===== *)
theory VoucherRepository
  imports RepoBase
begin

text \<open>
  \<open>internal/convenience/repository/voucher_repository.go\<close>: the table of vouchers. The statements
  are the source's texts; every method is the computation on the database handle that the Go
  method performs. The second half shows what the methods do on a table of typed vouchers.
\<close>

section \<open>Rows\<close>

record voucherRow =
  vr_Destination :: string
  vr_Payload :: string
  vr_InputIndex :: u64
  vr_OutputIndex :: u64
  vr_Executed :: bool
  vr_AppContract :: string

text \<open>\<open>StructScan\<close> into a \<open>voucherRow\<close>, and \<open>convertToConvenienceVoucher\<close>.\<close>

definition scan_voucherRow :: "string list \<Rightarrow> sqlval list \<Rightarrow> voucherRow res" where
  "scan_voucherRow cs r =
     rbind (rbind (column cs r ''destination'') scan_string) (\<lambda>destination.
     rbind (rbind (column cs r ''payload'') scan_string) (\<lambda>payload.
     rbind (rbind (column cs r ''input_index'') scan_u64) (\<lambda>inputIndex.
     rbind (rbind (column cs r ''output_index'') scan_u64) (\<lambda>outputIndex.
     rbind (rbind (column cs r ''executed'') scan_bool) (\<lambda>executed.
     rbind (rbind (column cs r ''app_contract'') scan_string) (\<lambda>appContract.
     Inr \<lparr>vr_Destination = destination, vr_Payload = payload, vr_InputIndex = inputIndex,
       vr_OutputIndex = outputIndex, vr_Executed = executed, vr_AppContract = appContract\<rparr>))))))"

definition convertToConvenienceVoucher :: "ethlib \<Rightarrow> voucherRow \<Rightarrow> ConvenienceVoucher" where
  "convertToConvenienceVoucher E row =
     (let destinationAddress = HexToAddress E (vr_Destination row);
          appContract = HexToAddress E (vr_AppContract row)
      in \<lparr>cv_Destination = destinationAddress, cv_Payload = vr_Payload row,
          cv_InputIndex = vr_InputIndex row, cv_OutputIndex = vr_OutputIndex row,
          cv_Executed = vr_Executed row, cv_AppContract = appContract\<rparr>)"

text \<open>\<open>parseVoucher\<close> scans by position; \<open>Scan\<close> refuses a row of another width.\<close>

definition parseVoucher :: "ethlib \<Rightarrow> sqlval list \<Rightarrow> ConvenienceVoucher res" where
  "parseVoucher E row = (case row of
       [c0, c1, c2, c3, c4, c5] \<Rightarrow>
         rbind (scan_string c0) (\<lambda>destination.
         rbind (scan_string c1) (\<lambda>payload.
         rbind (scan_bool c2) (\<lambda>executed.
         rbind (scan_u64 c3) (\<lambda>inputIndex.
         rbind (scan_u64 c4) (\<lambda>outputIndex.
         rbind (scan_string c5) (\<lambda>appContract.
         Inr \<lparr>cv_Destination = HexToAddress E destination, cv_Payload = payload,
           cv_InputIndex = inputIndex, cv_OutputIndex = outputIndex, cv_Executed = executed,
           cv_AppContract = HexToAddress E appContract\<rparr>))))))
     | _ \<Rightarrow> Inl (EDb ''sql: expected other number of destination arguments in Scan''))"

section \<open>The filter clause\<close>

fun transformToQuery_loop ::
  "ethlib \<Rightarrow> ConvenienceFilter list \<Rightarrow> string list \<Rightarrow> goarg list \<Rightarrow> int \<Rightarrow>
   (string list \<times> goarg list \<times> int) res" where
  "transformToQuery_loop E [] where' args count' = Inr (where', args, count')"
| "transformToQuery_loop E (f # filters) where' args count' =
     rbind (deref (cf_Field f)) (\<lambda>field.
     if field = EXECUTED then
       rbind (deref (cf_Eq f)) (\<lambda>eq.
       if eq = ''true'' then
         transformToQuery_loop E filters (where' @ [''executed = $'' @ itoa count' @ '' ''])
           (args @ [ABool True]) (count' + 1)
       else if eq = FALSE then
         transformToQuery_loop E filters (where' @ [''executed = $'' @ itoa count' @ '' ''])
           (args @ [ABool False]) (count' + 1)
       else Inl (EMsg (''unexpected executed value '' @ eq)))
     else if field = DESTINATION then
       (case cf_Eq f of
          Some eq \<Rightarrow>
            if \<not> IsHexAddress E eq then Inl (EMsg ''wrong address value'')
            else transformToQuery_loop E filters (where' @ [''destination = $'' @ itoa count' @ '' ''])
              (args @ [AStr eq]) (count' + 1)
        | None \<Rightarrow> Inl (EMsg ''operation not implemented''))
     else if field = INPUT_INDEX then
       (case cf_Eq f of
          Some eq \<Rightarrow> transformToQuery_loop E filters (where' @ [''input_index = $'' @ itoa count' @ '' ''])
              (args @ [AStr eq]) (count' + 1)
        | None \<Rightarrow> Inl (EMsg ''operation not implemented''))
     else Inl (EMsg (''unexpected field '' @ field)))"

definition transformToQuery ::
  "ethlib \<Rightarrow> ConvenienceFilter list \<Rightarrow> (string \<times> goarg list \<times> int) res" where
  "transformToQuery E filters =
     (let query = (if filters \<noteq> [] then ''WHERE '' else [])
      in rbind (transformToQuery_loop E filters [] [] 1) (\<lambda>(where', args, count').
         Inr (query @ join '' and '' where', args, count')))"

section \<open>Methods\<close>

definition VoucherRepository_schema :: string where
  "VoucherRepository_schema =
''CREATE TABLE IF NOT EXISTS convenience_vouchers (
		destination text,
		payload 	text,
		executed	BOOLEAN,
		input_index  integer,
		output_index integer,
		app_contract    text,
		PRIMARY KEY (input_index, output_index));''"

definition VoucherRepository_CreateTables :: "(db, unit) comp" where
  "VoucherRepository_CreateTables = db_Exec VoucherRepository_schema []"

definition insertVoucher :: string where
  "insertVoucher =
''INSERT INTO convenience_vouchers (
		destination,
		payload,
		executed,
		input_index,
		output_index,
		app_contract) VALUES ($1, $2, $3, $4, $5, $6)''"

definition VoucherRepository_CreateVoucher ::
  "ethlib \<Rightarrow> ctx \<Rightarrow> ConvenienceVoucher \<Rightarrow> (db, ConvenienceVoucher) comp" where
  "VoucherRepository_CreateVoucher E ctx voucher =
     andThen (DBExecutor_ExecContext ctx insertVoucher
       [AStr (addr_Hex E (cv_Destination voucher)), AStr (cv_Payload voucher),
        ABool (cv_Executed voucher), AU64 (cv_InputIndex voucher), AU64 (cv_OutputIndex voucher),
        AStr (addr_Hex E (cv_AppContract voucher))]) (\<lambda>_.
     ret voucher)"

definition updateVoucher :: string where
  "updateVoucher =
''UPDATE convenience_vouchers SET 
		destination = $1,
		payload = $2,
		executed = $3
		WHERE input_index = $4 and output_index = $5''"

definition VoucherRepository_UpdateVoucher ::
  "ethlib \<Rightarrow> ctx \<Rightarrow> ConvenienceVoucher \<Rightarrow> (db, ConvenienceVoucher) comp" where
  "VoucherRepository_UpdateVoucher E ctx voucher =
     andThen (DBExecutor_ExecContext ctx updateVoucher
       [AStr (addr_Hex E (cv_Destination voucher)), AStr (cv_Payload voucher),
        ABool (cv_Executed voucher), AU64 (cv_InputIndex voucher), AU64 (cv_OutputIndex voucher)]) (\<lambda>_.
     ret voucher)"

text \<open>The error of the query is dropped: \<open>return 0, nil\<close>.\<close>

definition VoucherRepository_VoucherCount :: "(db, u64) comp" where
  "VoucherRepository_VoucherCount =
     onError
       (andThen (db_Get ''SELECT count(*) FROM convenience_vouchers'' []) (\<lambda>(_, r).
        andThen (lift_res (scan_int (hd r))) (\<lambda>count'. ret (of_int count'))))
       (\<lambda>_. ret 0)"

definition VoucherRepository_FindVoucherByInputAndOutputIndex ::
  "ethlib \<Rightarrow> u64 \<Rightarrow> u64 \<Rightarrow> (db, ConvenienceVoucher option) comp" where
  "VoucherRepository_FindVoucherByInputAndOutputIndex E inputIndex outputIndex =
     (let query = ''SELECT * FROM convenience_vouchers WHERE input_index = $1 and output_index = $2 LIMIT 1''
      in onError
        (andThen (db_Get query [AU64 inputIndex, AU64 outputIndex]) (\<lambda>(cs, r).
         andThen (lift_res (scan_voucherRow cs r)) (\<lambda>row.
         ret (Some (convertToConvenienceVoucher E row)))))
        (\<lambda>err. if err = ErrNoRows then ret None else fail err))"

definition VoucherRepository_UpdateExecuted :: "u64 \<Rightarrow> u64 \<Rightarrow> bool \<Rightarrow> (db, unit) comp" where
  "VoucherRepository_UpdateExecuted inputIndex outputIndex executedValue =
     (let query = ''UPDATE convenience_vouchers SET executed = $1 WHERE input_index = $2 and output_index = $3''
      in db_Exec query [ABool executedValue, AU64 inputIndex, AU64 outputIndex])"

definition VoucherRepository_Count :: "ethlib \<Rightarrow> ConvenienceFilter list \<Rightarrow> (db, u64) comp" where
  "VoucherRepository_Count E filters =
     (let query = ''SELECT count(*) FROM convenience_vouchers ''
      in andThen (lift_res (transformToQuery E filters)) (\<lambda>(where', args, _).
         let query = query @ where'
         in andThen (db_Get query args) (\<lambda>(_, r).
            lift_res (scan_u64 (hd r)))))"

definition VoucherRepository_FindAllVouchers ::
  "ethlib \<Rightarrow> int option \<Rightarrow> int option \<Rightarrow> string option \<Rightarrow> string option \<Rightarrow> ConvenienceFilter list \<Rightarrow>
   (db, ConvenienceVoucher PageResult) comp" where
  "VoucherRepository_FindAllVouchers E first lastN after before filters =
     andThen (VoucherRepository_Count E filters) (\<lambda>tot.
     let query = ''SELECT * FROM convenience_vouchers ''
     in andThen (lift_res (transformToQuery E filters)) (\<lambda>(where', args, argsCount).
     let query = query @ where';
         query = query @ '' ORDER BY input_index ASC, output_index ASC ''
     in andThen (lift_res (ComputePage first lastN after before (sint tot))) (\<lambda>(offset, limit).
     let query = query @ ''LIMIT $'' @ itoa argsCount @ '' '';
         args = args @ [AInt limit];
         argsCount = argsCount + 1;
         query = query @ ''OFFSET $'' @ itoa argsCount @ '' '';
         args = args @ [AInt offset]
     in andThen (db_Select query args) (\<lambda>(cs, rs).
        andThen (lift_res (rmap (scan_voucherRow cs) rs)) (\<lambda>rows.
        ret \<lparr>Total = tot, Offset = of_int offset,
             Rows = map (convertToConvenienceVoucher E) rows\<rparr>)))))"

definition VoucherRepository_FindVoucherByAppContractAndIndex ::
  "ethlib \<Rightarrow> int \<Rightarrow> address \<Rightarrow> (db, ConvenienceVoucher option) comp" where
  "VoucherRepository_FindVoucherByAppContractAndIndex E index appContract =
     (let query = ''SELECT * FROM convenience_vouchers WHERE input_index = $1 AND app_contract = $2''
      in first_row query [AU64 (of_int index), AStr (addr_Hex E appContract)] (parseVoucher E))"

section \<open>The table of vouchers\<close>

definition voucher_cols :: "coldef list" where
  "voucher_cols =
     [\<lparr>cd_name = ''destination'', cd_aff = AffText\<rparr>, \<lparr>cd_name = ''payload'', cd_aff = AffText\<rparr>,
      \<lparr>cd_name = ''executed'', cd_aff = AffNumeric\<rparr>, \<lparr>cd_name = ''input_index'', cd_aff = AffNumeric\<rparr>,
      \<lparr>cd_name = ''output_index'', cd_aff = AffNumeric\<rparr>, \<lparr>cd_name = ''app_contract'', cd_aff = AffText\<rparr>]"

definition voucher_row :: "ethlib \<Rightarrow> ConvenienceVoucher \<Rightarrow> sqlval list" where
  "voucher_row E v =
     [VText (addr_Hex E (cv_Destination v)), VText (cv_Payload v),
      VInt (if cv_Executed v then 1 else 0), VInt (uint (cv_InputIndex v)),
      VInt (uint (cv_OutputIndex v)), VText (addr_Hex E (cv_AppContract v))]"

definition vouchers_table :: "ethlib \<Rightarrow> ConvenienceVoucher list \<Rightarrow> table" where
  "vouchers_table E vs = mk_table voucher_cols output_key False (voucher_row E) vs"

definition voucher_key :: "ConvenienceVoucher \<Rightarrow> u64 \<times> u64" where
  "voucher_key v = (cv_InputIndex v, cv_OutputIndex v)"

lemma VoucherRepository_schema_parse:
  "parse_script VoucherRepository_schema =
    Some [SCreateTable ''convenience_vouchers'' voucher_cols output_key False]"
  unfolding VoucherRepository_schema_def by code_simp

lemma insertVoucher_parse:
  "parse_script insertVoucher = Some [SInsert ''convenience_vouchers''
     [''destination'', ''payload'', ''executed'', ''input_index'', ''output_index'', ''app_contract'']
     [1, 2, 3, 4, 5, 6]]"
  unfolding insertVoucher_def by code_simp

lemma updateVoucher_parse:
  "parse_script updateVoucher = Some [SUpdate ''convenience_vouchers''
     [(''destination'', 1), (''payload'', 2), (''executed'', 3)]
     [(''input_index'', ''='', 4), (''output_index'', ''='', 5)]]"
  unfolding updateVoucher_def by code_simp


lemma voucher_col_index [simp]:
  "col_index (shape voucher_cols) ''destination'' = Some 0"
  "col_index (shape voucher_cols) ''payload'' = Some 1"
  "col_index (shape voucher_cols) ''executed'' = Some 2"
  "col_index (shape voucher_cols) ''input_index'' = Some 3"
  "col_index (shape voucher_cols) ''output_index'' = Some 4"
  "col_index (shape voucher_cols) ''app_contract'' = Some 5"
  by (simp_all add: col_index_def voucher_cols_def)

lemma voucher_aff [simp]:
  "cd_aff (voucher_cols ! 0) = AffText" "cd_aff (voucher_cols ! Suc 0) = AffText"
  "cd_aff (voucher_cols ! 2) = AffNumeric" "cd_aff (voucher_cols ! 3) = AffNumeric"
  "cd_aff (voucher_cols ! 4) = AffNumeric" "cd_aff (voucher_cols ! 5) = AffText"
  by (simp_all add: voucher_cols_def)

lemma voucher_row_nth [simp]:
  "voucher_row E v ! 0 = VText (addr_Hex E (cv_Destination v))"
  "voucher_row E v ! 2 = VInt (if cv_Executed v then 1 else 0)"
  "voucher_row E v ! 3 = VInt (uint (cv_InputIndex v))"
  "voucher_row E v ! 4 = VInt (uint (cv_OutputIndex v))"
  "voucher_row E v ! 5 = VText (addr_Hex E (cv_AppContract v))"
  by (simp_all add: voucher_row_def)

subsection \<open>Filters\<close>

text \<open>What one filter asks for, and which vouchers satisfy a filter that is accepted.\<close>

definition voucher_acond :: "ethlib \<Rightarrow> ConvenienceFilter \<Rightarrow> acond res" where
  "voucher_acond E f =
     rbind (deref (cf_Field f)) (\<lambda>field.
     if field = EXECUTED then
       rbind (deref (cf_Eq f)) (\<lambda>eq.
       if eq = ''true'' then Inr (''executed'', ''='', ABool True)
       else if eq = FALSE then Inr (''executed'', ''='', ABool False)
       else Inl (EMsg (''unexpected executed value '' @ eq)))
     else if field = DESTINATION then
       (case cf_Eq f of None \<Rightarrow> Inl (EMsg ''operation not implemented'')
        | Some eq \<Rightarrow> if IsHexAddress E eq then Inr (''destination'', ''='', AStr eq)
                      else Inl (EMsg ''wrong address value''))
     else if field = INPUT_INDEX then
       (case cf_Eq f of None \<Rightarrow> Inl (EMsg ''operation not implemented'')
        | Some eq \<Rightarrow> Inr (''input_index'', ''='', AStr eq))
     else Inl (EMsg (''unexpected field '' @ field)))"

definition voucher_sat :: "ethlib \<Rightarrow> ConvenienceFilter \<Rightarrow> ConvenienceVoucher \<Rightarrow> bool" where
  "voucher_sat E f v =
     (if cf_Field f = Some EXECUTED then cv_Executed v = (cf_Eq f = Some ''true'')
      else if cf_Field f = Some DESTINATION then cf_Eq f = Some (addr_Hex E (cv_Destination v))
      else Option.bind (cf_Eq f) dec_to_int = Some (uint (cv_InputIndex v)))"

interpretation voucher_where: where_builder "transformToQuery_loop E" "voucher_acond E" for E
proof
  fix fs w as n f
  show "transformToQuery_loop E [] w as n = Inr (w, as, n)" by simp
  show "transformToQuery_loop E (f # fs) w as n = rbind (voucher_acond E f) (\<lambda>(c, op, a).
      transformToQuery_loop E fs (w @ [c @ '' '' @ op @ '' $'' @ itoa n @ '' '']) (as @ [a]) (n + 1))"
    by (cases "cf_Field f"; cases "cf_Eq f") (simp_all add: voucher_acond_def)
qed

lemma transformToQuery_spec:
  "transformToQuery E fs = rbind (rmap (voucher_acond E) fs) (\<lambda>acs.
     Inr (conds_text (number_from 1 acs), map acond_arg acs, 1 + int (length acs)))"
  unfolding voucher_where.clause_spec [symmetric] transformToQuery_def Let_def ..

lemma voucher_acond_fine:
  "voucher_acond E f = Inr ac \<Longrightarrow> acond_ok (shape voucher_cols) ac \<and> acond_words ac"
  by (cases "cf_Field f"; cases "cf_Eq f")
    (auto simp: voucher_acond_def acond_ok_def acond_words_def known_op_def word_def is_space_def
      is_punct_def split: if_splits)

lemma voucher_acond_sat:
  assumes "voucher_acond E f = Inr ac"
  shows "acond_holds (shape voucher_cols) (voucher_row E v) ac = voucher_sat E f v"
  using assms
  by (cases "cf_Field f"; cases "cf_Eq f")
    (auto simp: voucher_acond_def voucher_sat_def acond_holds_def arg_val_def sql_compare_def FALSE_def
      split: if_splits option.splits)

subsection \<open>Paged queries\<close>

definition voucher_unrow :: "ethlib \<Rightarrow> sqlval list \<Rightarrow> ConvenienceVoucher" where
  "voucher_unrow E r = projr (parseVoucher E r)"

lemma parseVoucher_row [simp]: "eth_laws E \<Longrightarrow> parseVoucher E (voucher_row E v) = Inr v"
  by (simp add: parseVoucher_def voucher_row_def eth_HexToAddress)

lemma scan_voucherRow_row:
  "rbind (scan_voucherRow (map cd_name voucher_cols) (voucher_row E v))
     (\<lambda>r. Inr (convertToConvenienceVoucher E r)) =
   Inr (v\<lparr>cv_Destination := HexToAddress E (addr_Hex E (cv_Destination v)),
          cv_AppContract := HexToAddress E (addr_Hex E (cv_AppContract v))\<rparr>)"
  by (simp add: scan_voucherRow_def voucher_cols_def column_def voucher_row_def
      convertToConvenienceVoucher_def)

lemma voucher_heads:
  "select_head ''SELECT count(*) FROM convenience_vouchers '' SelCount ''convenience_vouchers''"
  "select_head ''SELECT * FROM convenience_vouchers '' SelStar ''convenience_vouchers''"
  "order_tail '' ORDER BY input_index ASC, output_index ASC '' [(''input_index'', False), (''output_index'', False)]"
proof -
  have "tokens ''SELECT count(*) FROM convenience_vouchers '' = [''SELECT'', ''count'', ''('', ''*'', '')'', ''FROM'', ''convenience_vouchers'']"
    by code_simp
  then show "select_head ''SELECT count(*) FROM convenience_vouchers '' SelCount ''convenience_vouchers''"
    by (rule select_head_count) (simp_all add: ends_blank_def)
  have "tokens ''SELECT * FROM convenience_vouchers '' = [''SELECT'', ''*'', ''FROM'', ''convenience_vouchers'']" by code_simp
  then show "select_head ''SELECT * FROM convenience_vouchers '' SelStar ''convenience_vouchers''"
    by (rule select_head_star) (simp_all add: ends_blank_def)
  have "tokens '' ORDER BY input_index ASC, output_index ASC '' = [''ORDER'', ''BY'', ''input_index'', ''ASC'', '','', ''output_index'', ''ASC'']"
    by code_simp
  then show "order_tail '' ORDER BY input_index ASC, output_index ASC '' [(''input_index'', False), (''output_index'', False)]"
    by (rule order_tail_input_output) (simp add: ends_blank_def)
qed

interpretation voucher_paged: paged_repo "''convenience_vouchers''" voucher_cols output_key False
  "voucher_row E" "voucher_unrow E" "\<lambda>_. eth_laws E" "\<lambda>r. r"
  "''SELECT count(*) FROM convenience_vouchers ''" "''SELECT * FROM convenience_vouchers ''" SelStar
  "'' ORDER BY input_index ASC, output_index ASC ''" "[(''input_index'', False), (''output_index'', False)]"
  "voucher_acond E" "transformToQuery E"
  "\<lambda>cs r. rbind (scan_voucherRow cs r) (\<lambda>row. Inr (convertToConvenienceVoucher E row))" for E
proof (unfold_locales, rule voucher_heads, rule voucher_heads, rule voucher_heads)
  fix v :: ConvenienceVoucher
  assume laws: "eth_laws E"
  show "rbind (scan_voucherRow (sel_cols (shape voucher_cols) SelStar)
      (sel_row (shape voucher_cols) SelStar (voucher_row E v)))
      (\<lambda>row. Inr (convertToConvenienceVoucher E row)) = Inr v"
    using scan_voucherRow_row [of E v] laws by (simp add: sel_cols_def sel_row_def eth_HexToAddress)
  show "voucher_unrow E (voucher_row E v) = v"
    using laws by (simp add: voucher_unrow_def)
qed (simp_all add: transformToQuery_spec voucher_acond_fine known_sel_def)

text \<open>The method is the count and the page query of the contract.\<close>

lemma FindAllVouchers_steps:
  "VoucherRepository_FindAllVouchers E first lastN after before fs =
     andThen (count_step ''SELECT count(*) FROM convenience_vouchers '' (transformToQuery E fs))
       (page_step ''SELECT * FROM convenience_vouchers '' '' ORDER BY input_index ASC, output_index ASC '' (transformToQuery E fs)
         (\<lambda>cs r. rbind (scan_voucherRow cs r) (\<lambda>row. Inr (convertToConvenienceVoucher E row)))
         first lastN after before)"
proof -
  have "VoucherRepository_Count E fs = count_step ''SELECT count(*) FROM convenience_vouchers '' (transformToQuery E fs)"
    by (simp add: VoucherRepository_Count_def count_step_def Let_def)
  then show ?thesis
    by (simp add: VoucherRepository_FindAllVouchers_def page_step_def [abs_def] Let_def andThen_rmap_map)
qed

definition vouchers_in :: "ethlib \<Rightarrow> ConvenienceVoucher list \<Rightarrow> db \<Rightarrow> bool" where
  "vouchers_in E vs d \<longleftrightarrow> db_faults d = [] \<and>
     db_committed d ''convenience_vouchers'' = Some (vouchers_table E vs) \<and>
     (vs \<noteq> [] \<longrightarrow> eth_laws E) \<and> length vs < 2 ^ 63"

lemma vouchers_in_holds: "vouchers_in E vs d \<longleftrightarrow> voucher_paged.holds E vs d"
  by (cases vs) (auto simp: vouchers_in_def voucher_paged.holds_def vouchers_table_def list_all_iff)

text \<open>The rows of the query, typed: the vouchers that satisfy every filter, in key order.\<close>

definition voucher_query ::
  "ethlib \<Rightarrow> ConvenienceFilter list \<Rightarrow> ConvenienceVoucher list \<Rightarrow> ConvenienceVoucher list res" where
  "voucher_query E fs vs = rbind (rmap (voucher_acond E) fs) (\<lambda>_.
     Inr (sort_key (\<lambda>v. (uint (cv_InputIndex v), uint (cv_OutputIndex v)))
       (filter (\<lambda>v. list_all (\<lambda>f. voucher_sat E f v) fs) vs)))"

lemma voucher_rows_for:
  assumes "vouchers_in E vs d"
  shows "voucher_paged.rows_for E fs d = voucher_query E fs vs"
proof (cases "rmap (voucher_acond E) fs")
  case (Inl e)
  then show ?thesis by (simp add: voucher_paged.rows_for_def voucher_query_def)
next
  case (Inr acs)
  have sat: "list_all (acond_holds (shape voucher_cols) (voucher_row E v)) acs =
      list_all (\<lambda>f. voucher_sat E f v) fs" for v
    by (rule rmap_list_all [OF Inr]) (rule voucher_acond_sat)
  let ?rs = "sort_key (\<lambda>v. (uint (cv_InputIndex v), uint (cv_OutputIndex v)))
      (filter (\<lambda>v. list_all (\<lambda>f. voucher_sat E f v) fs) vs)"
  have "selected (vouchers_table E vs) [(''input_index'', False), (''output_index'', False)] acs =
      map (voucher_row E) ?rs"
    unfolding selected_def vouchers_table_def selected_filter
    by (subst sort_rows_pair [where i = 3 and j = 4]) (simp_all add: sat)
  moreover have "map (voucher_unrow E) (map (voucher_row E) ?rs) = ?rs"
    using assms by (intro map_idI [THEN trans [OF map_map]])
      (auto simp: vouchers_in_def voucher_unrow_def)
  ultimately show ?thesis
    using assms Inr by (simp add: voucher_paged.rows_for_def voucher_query_def vouchers_in_def)
qed

interpretation voucher_query: paged_query "VoucherRepository_FindAllVouchers E"
  "voucher_paged.rows_for E" "\<lambda>d. \<exists>vs. vouchers_in E vs d" for E
proof -
  have eq: "VoucherRepository_FindAllVouchers E = (\<lambda>first lastN after before fs.
      andThen (count_step ''SELECT count(*) FROM convenience_vouchers '' (transformToQuery E fs))
       (page_step ''SELECT * FROM convenience_vouchers '' '' ORDER BY input_index ASC, output_index ASC '' (transformToQuery E fs)
         (\<lambda>cs r. rbind (scan_voucherRow cs r) (\<lambda>row. Inr (convertToConvenienceVoucher E row)))
         first lastN after before))"
    by (intro ext) (simp only: FindAllVouchers_steps)
  show "paged_query (VoucherRepository_FindAllVouchers E) (voucher_paged.rows_for E)
      (\<lambda>d. \<exists>vs. vouchers_in E vs d)"
    unfolding eq vouchers_in_holds by (rule voucher_paged.paged_query_axioms)
qed

lemma FindAllVouchers_ok:
  assumes "vouchers_in E vs d"
  shows "VoucherRepository_FindAllVouchers E first lastN after before fs d =
    (rbind (voucher_query E fs vs) (page_of first lastN after before), d)"
  using voucher_paged.find_all_ok [OF assms [unfolded vouchers_in_holds], of fs first lastN after before]
  by (simp add: FindAllVouchers_steps voucher_rows_for [OF assms])


section \<open>What the writes and lookups do\<close>

definition voucher_small :: "ConvenienceVoucher \<Rightarrow> bool" where
  "voucher_small v \<longleftrightarrow> unat (cv_InputIndex v) < 2 ^ 63 \<and> unat (cv_OutputIndex v) < 2 ^ 63"

lemma voucher_key_eq:
  "voucher_key v = (i, o') \<longleftrightarrow> cv_InputIndex v = i \<and> cv_OutputIndex v = o'"
  by (simp add: voucher_key_def)

lemma unique_vouchers:
  "unique_ok (mk_table voucher_cols output_key False (voucher_row E) vs) \<longleftrightarrow> distinct (map voucher_key vs)"
proof -
  have "project (shape voucher_cols) output_key (voucher_row E v) =
      [VInt (uint (cv_InputIndex v)), VInt (uint (cv_OutputIndex v))]" for v
    by (simp add: project_def output_key_def)
  then have "distinct (map (\<lambda>v. project (shape voucher_cols) output_key (voucher_row E v)) vs) =
      distinct (map voucher_key vs)"
    by (intro distinct_map_iff) (simp add: voucher_key_def)
  then show ?thesis by (simp add: unique_ok_mk_table output_key_def)
qed

lemma VoucherRepository_CreateTables_ok:
  assumes "db_faults d = []" and "db_committed d ''convenience_vouchers'' = None"
  shows "VoucherRepository_CreateTables d =
    (Inr (), d\<lparr>db_committed := (db_committed d)(''convenience_vouchers'' \<mapsto> vouchers_table E [])\<rparr>)"
  using assms
  by (simp add: VoucherRepository_CreateTables_def db_Exec_def pop_fault_def sql_exec_def
      VoucherRepository_schema_parse run_stmt_def vouchers_table_def mk_table_def)

lemma CreateVoucher_ok:
  assumes "db_faults d = []" and "target ctx d = Some ts" and "voucher_small v"
    and "ts ''convenience_vouchers'' = Some (vouchers_table E vs)" and "distinct (map voucher_key vs)"
  shows "VoucherRepository_CreateVoucher E ctx v d =
    (if voucher_key v \<in> voucher_key ` set vs then (Inl (EDb ''UNIQUE constraint failed''), d)
     else (Inr v, set_target ctx (ts(''convenience_vouchers'' \<mapsto> vouchers_table E (vs @ [v]))) d))"
proof -
  let ?cs = "[''destination'', ''payload'', ''executed'', ''input_index'', ''output_index'', ''app_contract'']"
  have "map (insert_value (mk_table voucher_cols output_key False (voucher_row E) vs) ?cs (voucher_row E v))
      [0..<length voucher_cols] = voucher_row E v"
    by (simp add: voucher_cols_def insert_value_def voucher_row_def upt_rec)
  moreover have "map (\<lambda>n. voucher_row E v ! (n - 1)) [1, 2, 3, 4, 5, 6 :: nat] = voucher_row E v"
    by (simp add: voucher_row_def)
  ultimately have ins: "run_insert (vouchers_table E vs) ?cs [1, 2, 3, 4, 5, 6] (voucher_row E v) =
      (if voucher_key v \<in> voucher_key ` set vs then Inl (EDb ''UNIQUE constraint failed'')
       else Inr (vouchers_table E (vs @ [v])))"
    unfolding vouchers_table_def using assms(5)
    by (subst run_insert_typed [where r = v]) (simp_all add: unique_vouchers, simp_all add: voucher_row_def)
  have "sql_exec ts insertVoucher
      [AStr (addr_Hex E (cv_Destination v)), AStr (cv_Payload v), ABool (cv_Executed v),
       AU64 (cv_InputIndex v), AU64 (cv_OutputIndex v), AStr (addr_Hex E (cv_AppContract v))] =
      rbind (run_insert (vouchers_table E vs) ?cs [1, 2, 3, 4, 5, 6] (voucher_row E v))
        (\<lambda>t'. Inr (ts(''convenience_vouchers'' \<mapsto> t')))"
    using assms(3,4) by (intro sql_exec_insert [OF insertVoucher_parse])
      (simp_all add: voucher_row_def voucher_small_def)
  then show ?thesis
    using assms(1,2) by (simp add: VoucherRepository_CreateVoucher_def andThen_apply
        DBExecutor_ExecContext_ok ins del: One_nat_def)
qed

lemma voucher_matches_key:
  "vals ! (n - 1) = VInt (uint i) \<Longrightarrow> vals ! (m - 1) = VInt (uint o') \<Longrightarrow>
   row_matches (shape voucher_cols) vals [(''input_index'', ''='', n), (''output_index'', ''='', m)]
     (voucher_row E v) \<longleftrightarrow> voucher_key v = (i, o')"
  by (auto simp: row_matches_def cond_holds_def sql_compare_def voucher_key_eq)

text \<open>An update changes the vouchers with the key, and only their destination, payload and flag.\<close>

definition overwrite_voucher :: "ConvenienceVoucher \<Rightarrow> ConvenienceVoucher \<Rightarrow> ConvenienceVoucher" where
  "overwrite_voucher v w = (if voucher_key w = voucher_key v
     then w\<lparr>cv_Destination := cv_Destination v, cv_Payload := cv_Payload v, cv_Executed := cv_Executed v\<rparr>
     else w)"

lemma voucher_key_overwrite [simp]: "voucher_key (overwrite_voucher v w) = voucher_key w"
  by (simp add: overwrite_voucher_def voucher_key_def)

lemma UpdateVoucher_ok:
  assumes "db_faults d = []" and "target ctx d = Some ts" and "voucher_small v"
    and "ts ''convenience_vouchers'' = Some (vouchers_table E vs)" and "distinct (map voucher_key vs)"
  shows "VoucherRepository_UpdateVoucher E ctx v d = (Inr v,
    set_target ctx (ts(''convenience_vouchers'' \<mapsto> vouchers_table E (map (overwrite_voucher v) vs))) d)"
proof -
  let ?vals = "[VText (addr_Hex E (cv_Destination v)), VText (cv_Payload v),
      VInt (if cv_Executed v then 1 else 0), VInt (uint (cv_InputIndex v)), VInt (uint (cv_OutputIndex v))]"
  let ?sets = "[(''destination'', 1), (''payload'', 2), (''executed'', 3)] :: (string \<times> nat) list"
  let ?conds = "[(''input_index'', ''='', 4), (''output_index'', ''='', 5)] :: sqlcond list"
  have P: "row_matches (shape voucher_cols) ?vals ?conds (voucher_row E w) \<longleftrightarrow> voucher_key w = voucher_key v" for w
    by (subst voucher_matches_key) (simp_all add: voucher_key_def)
  have S: "set_columns (shape voucher_cols) ?vals ?sets (voucher_row E w) = voucher_row E (w\<lparr>
      cv_Destination := cv_Destination v, cv_Payload := cv_Payload v, cv_Executed := cv_Executed v\<rparr>)" for w
    by (simp add: set_columns_def voucher_row_def)
  have k: "voucher_key \<circ> (\<lambda>w. if voucher_key w = voucher_key v then w\<lparr>cv_Destination := cv_Destination v,
      cv_Payload := cv_Payload v, cv_Executed := cv_Executed v\<rparr> else w) = voucher_key"
    by (rule ext) (simp add: voucher_key_def)
  have "run_update (vouchers_table E vs) ?sets ?conds ?vals =
      Inr (vouchers_table E (map (overwrite_voucher v) vs))"
    unfolding vouchers_table_def overwrite_voucher_def [abs_def]
    by (rule run_update_unique) (simp_all only: P S, use assms(5) in \<open>simp_all add: unique_vouchers k cond_ok_def known_op_def\<close>)
  moreover have "sql_exec ts updateVoucher
      [AStr (addr_Hex E (cv_Destination v)), AStr (cv_Payload v), ABool (cv_Executed v),
       AU64 (cv_InputIndex v), AU64 (cv_OutputIndex v)] =
      rbind (run_update (vouchers_table E vs) ?sets ?conds ?vals)
        (\<lambda>t'. Inr (ts(''convenience_vouchers'' \<mapsto> t')))"
    using assms(3,4) by (intro sql_exec_update [OF updateVoucher_parse]) (simp_all add: voucher_small_def)
  ultimately show ?thesis
    using assms(1,2) by (simp add: VoucherRepository_UpdateVoucher_def andThen_apply
        DBExecutor_ExecContext_ok del: One_nat_def)
qed


lemma UpdateExecuted_ok:
  assumes "db_faults d = []" and "unat i < 2 ^ 63" and "unat o' < 2 ^ 63"
    and "db_committed d ''convenience_vouchers'' = Some (vouchers_table E vs)"
    and "distinct (map voucher_key vs)"
  shows "VoucherRepository_UpdateExecuted i o' b d = (Inr (), d\<lparr>db_committed :=
    (db_committed d)(''convenience_vouchers'' \<mapsto> vouchers_table E
      (map (\<lambda>w. if voucher_key w = (i, o') then w\<lparr>cv_Executed := b\<rparr> else w) vs))\<rparr>)"
proof -
  let ?vals = "[VInt (if b then 1 else 0), VInt (uint i), VInt (uint o')]"
  let ?sets = "[(''executed'', 1)] :: (string \<times> nat) list"
  let ?conds = "[(''input_index'', ''='', 2), (''output_index'', ''='', 3)] :: sqlcond list"
  have P: "row_matches (shape voucher_cols) ?vals ?conds (voucher_row E w) \<longleftrightarrow> voucher_key w = (i, o')" for w
    by (subst voucher_matches_key) simp_all
  have S: "set_columns (shape voucher_cols) ?vals ?sets (voucher_row E w) =
      voucher_row E (w\<lparr>cv_Executed := b\<rparr>)" for w
    by (simp add: set_columns_def voucher_row_def)
  have k: "voucher_key \<circ> (\<lambda>w. if voucher_key w = (i, o') then w\<lparr>cv_Executed := b\<rparr> else w) = voucher_key"
    by (rule ext) (simp add: voucher_key_def)
  have "run_update (vouchers_table E vs) ?sets ?conds ?vals = Inr (vouchers_table E
      (map (\<lambda>w. if voucher_key w = (i, o') then w\<lparr>cv_Executed := b\<rparr> else w) vs))"
    unfolding vouchers_table_def
    by (rule run_update_unique) (simp_all only: P S, use assms(5) in \<open>simp_all add: unique_vouchers k cond_ok_def known_op_def\<close>)
  moreover have parse: "parse_script ''UPDATE convenience_vouchers SET executed = $1 WHERE input_index = $2 and output_index = $3'' = Some [SUpdate ''convenience_vouchers'' ?sets ?conds]"
    by code_simp
  moreover have "sql_exec (db_committed d) ''UPDATE convenience_vouchers SET executed = $1 WHERE input_index = $2 and output_index = $3'' [ABool b, AU64 i, AU64 o'] =
      rbind (run_update (vouchers_table E vs) ?sets ?conds ?vals)
        (\<lambda>t'. Inr ((db_committed d)(''convenience_vouchers'' \<mapsto> t')))"
    using assms(2,3,4) by (intro sql_exec_update [OF parse]) simp_all
  ultimately show ?thesis
    using assms(1) by (simp add: VoucherRepository_UpdateExecuted_def db_Exec_def pop_fault_def Let_def
        del: One_nat_def)
qed

lemma FindVoucherByInputAndOutputIndex_ok:
  assumes "vouchers_in E vs d" and "unat i < 2 ^ 63" and "unat o' < 2 ^ 63"
  shows "VoucherRepository_FindVoucherByInputAndOutputIndex E i o' d =
    (Inr (find (\<lambda>v. voucher_key v = (i, o')) vs), d)"
proof -
  have parse: "parse_query ''SELECT * FROM convenience_vouchers WHERE input_index = $1 and output_index = $2 LIMIT 1'' = Some (SSelect SelStar ''convenience_vouchers''
      [(''input_index'', ''='', 1), (''output_index'', ''='', 2)] [] (Some (LNum 1)) None)"
    by code_simp
  have q: "sql_query (db_committed d) ''SELECT * FROM convenience_vouchers WHERE input_index = $1 and output_index = $2 LIMIT 1'' [AU64 i, AU64 o'] =
      Inr (map cd_name voucher_cols,
        map (voucher_row E) (take 1 (filter (\<lambda>v. voucher_key v = (i, o')) vs)))"
    using assms voucher_matches_key [of "[VInt (uint i), VInt (uint o')]" 1 i 2 o' E]
    by (subst sql_query_find [OF parse, where vals = "[VInt (uint i), VInt (uint o')]"
          and P = "\<lambda>v. voucher_key v = (i, o')" and rs = vs])
      (auto simp: vouchers_in_def vouchers_table_def cond_ok_def known_op_def known_sel_def
        sort_rows_def sel_cols_def sel_row_def)
  show ?thesis
  proof (cases "filter (\<lambda>v. voucher_key v = (i, o')) vs")
    case Nil
    have "find (\<lambda>v. voucher_key v = (i, o')) vs = None" by (simp add: find_filter Nil)
    with Nil q assms(1) show ?thesis
      by (simp add: VoucherRepository_FindVoucherByInputAndOutputIndex_def onError_apply andThen_apply
          db_Get_ok vouchers_in_def Let_def ErrNoRows_def)
  next
    case (Cons v xs)
    then have v: "v \<in> set vs" by (metis filter_eq_ConsD in_set_conv_decomp)
    then have E: "eth_laws E" using assms(1) by (auto simp: vouchers_in_def)
    have f: "find (\<lambda>v. voucher_key v = (i, o')) vs = Some v" by (simp add: find_filter Cons)
    obtain r where r: "scan_voucherRow (map cd_name voucher_cols) (voucher_row E v) = Inr r"
      and c: "convertToConvenienceVoucher E r = v"
      using scan_voucherRow_row [of E v] E by (auto simp: rbind_Inr_iff eth_HexToAddress)
    from Cons q assms(1) r c f show ?thesis
      by (simp add: VoucherRepository_FindVoucherByInputAndOutputIndex_def onError_apply andThen_apply
          db_Get_ok vouchers_in_def Let_def)
  qed
qed

lemma FindVoucherByAppContractAndIndex_ok:
  assumes "vouchers_in E vs d" and "0 \<le> n" and "n < 2 ^ 63" and "eth_laws E"
  shows "VoucherRepository_FindVoucherByAppContractAndIndex E n a d =
    (Inr (find (\<lambda>v. uint (cv_InputIndex v) = n \<and> cv_AppContract v = a) vs), d)"
proof -
  have d: "db_faults d = []" "db_committed d ''convenience_vouchers'' = Some (vouchers_table E vs)"
    using assms(1) by (simp_all only: vouchers_in_def)
  let ?P = "\<lambda>v. uint (cv_InputIndex v) = n \<and> cv_AppContract v = a"
  let ?vals = "[VInt n, VText (addr_Hex E a)]"
  have parse: "parse_query ''SELECT * FROM convenience_vouchers WHERE input_index = $1 AND app_contract = $2'' = Some (SSelect SelStar ''convenience_vouchers''
      [(''input_index'', ''='', 1), (''app_contract'', ''='', 2)] [] None None)"
    by code_simp
  have u: "uint (of_int n :: u64) = n" "unat (of_int n :: u64) < 2 ^ 63"
    using uint_of_int_small [OF assms(2,3)] by simp_all
  have "first_row ''SELECT * FROM convenience_vouchers WHERE input_index = $1 AND app_contract = $2'' [AU64 (of_int n), AStr (addr_Hex E a)] (parseVoucher E) d =
      (Inr (map_option (\<lambda>v. v) (find ?P vs)), d)"
    using assms(4) u d
    by (intro first_row_find [OF parse, where vals = ?vals])
      (auto simp: vouchers_table_def cond_ok_def known_op_def known_sel_def row_matches_def
        cond_holds_def sql_compare_def sel_row_def eth_addr_Hex_inj)
  then show ?thesis
    by (simp add: VoucherRepository_FindVoucherByAppContractAndIndex_def option.map_ident Let_def)
qed

end
