(* ===== verification/NoticeRepository.thy ===== *)
theory NoticeRepository
  imports RepoBase
begin

text \<open>
  \<open>internal/convenience/repository/notice_repository.go\<close>: the table of notices, in the same
  shape as the vouchers'; its only filter is the input index.
\<close>

section \<open>Rows\<close>

record noticeRow =
  nr_Payload :: string
  nr_Index :: int
  nr_Output :: int
  nr_AppContract :: string

definition scan_noticeRow :: "string list \<Rightarrow> sqlval list \<Rightarrow> noticeRow res" where
  "scan_noticeRow cs r =
     rbind (rbind (column cs r ''payload'') scan_string) (\<lambda>payload.
     rbind (rbind (column cs r ''input_index'') scan_int) (\<lambda>index.
     rbind (rbind (column cs r ''output_index'') scan_int) (\<lambda>output.
     rbind (rbind (column cs r ''app_contract'') scan_string) (\<lambda>appContract.
     Inr \<lparr>nr_Payload = payload, nr_Index = index, nr_Output = output, nr_AppContract = appContract\<rparr>))))"

definition parseRowNotice :: "ethlib \<Rightarrow> noticeRow \<Rightarrow> ConvenienceNotice" where
  "parseRowNotice E row =
     \<lparr>cn_Payload = nr_Payload row, cn_InputIndex = of_int (nr_Index row),
      cn_OutputIndex = of_int (nr_Output row), cn_AppContract = HexToAddress E (nr_AppContract row)\<rparr>"

definition parseNotice :: "ethlib \<Rightarrow> sqlval list \<Rightarrow> ConvenienceNotice res" where
  "parseNotice E row = (case row of
       [c0, c1, c2, c3] \<Rightarrow>
         rbind (scan_string c0) (\<lambda>payload.
         rbind (scan_u64 c1) (\<lambda>inputIndex.
         rbind (scan_u64 c2) (\<lambda>outputIndex.
         rbind (scan_string c3) (\<lambda>appContract.
         Inr \<lparr>cn_Payload = payload, cn_InputIndex = inputIndex, cn_OutputIndex = outputIndex,
           cn_AppContract = HexToAddress E appContract\<rparr>))))
     | _ \<Rightarrow> Inl (EDb ''sql: expected other number of destination arguments in Scan''))"

section \<open>The filter clause\<close>

fun transformToNoticeQuery_loop ::
  "ConvenienceFilter list \<Rightarrow> string list \<Rightarrow> goarg list \<Rightarrow> int \<Rightarrow>
   (string list \<times> goarg list \<times> int) res" where
  "transformToNoticeQuery_loop [] where' args count' = Inr (where', args, count')"
| "transformToNoticeQuery_loop (f # filters) where' args count' =
     rbind (deref (cf_Field f)) (\<lambda>field.
     if field = INPUT_INDEX then
       (case cf_Eq f of
          Some eq \<Rightarrow> transformToNoticeQuery_loop filters (where' @ [''input_index = $'' @ itoa count' @ '' ''])
              (args @ [AStr eq]) (count' + 1)
        | None \<Rightarrow> Inl (EMsg ''operation not implemented''))
     else Inl (EMsg (''unexpected field '' @ field)))"

definition transformToNoticeQuery ::
  "ConvenienceFilter list \<Rightarrow> (string \<times> goarg list \<times> int) res" where
  "transformToNoticeQuery filters =
     (let query = (if filters \<noteq> [] then WHERE else [])
      in rbind (transformToNoticeQuery_loop filters [] [] 1) (\<lambda>(where', args, count').
         Inr (query @ join '' and '' where', args, count')))"

section \<open>Methods\<close>

definition NoticeRepository_schema :: string where
  "NoticeRepository_schema =
''CREATE TABLE IF NOT EXISTS convenience_notices (
		payload 		text,
		input_index		integer,
		output_index	integer,
		app_contract    text,
		PRIMARY KEY (input_index, output_index));''"

definition NoticeRepository_CreateTables :: "(db, unit) comp" where
  "NoticeRepository_CreateTables = db_Exec NoticeRepository_schema []"

definition insertNotice :: string where
  "insertNotice =
''INSERT INTO convenience_notices (
		payload,
		input_index,
		output_index,
		app_contract) VALUES ($1, $2, $3, $4)''"

definition NoticeRepository_Create ::
  "ethlib \<Rightarrow> ctx \<Rightarrow> ConvenienceNotice \<Rightarrow> (db, ConvenienceNotice) comp" where
  "NoticeRepository_Create E ctx data =
     andThen (DBExecutor_ExecContext ctx insertNotice
       [AStr (cn_Payload data), AU64 (cn_InputIndex data), AU64 (cn_OutputIndex data),
        AStr (addr_Hex E (cn_AppContract data))]) (\<lambda>_.
     ret data)"

definition updateNotice :: string where
  "updateNotice =
''UPDATE convenience_notices SET 
		payload = $1
		WHERE input_index = $2 and output_index = $3''"

definition NoticeRepository_Update ::
  "ctx \<Rightarrow> ConvenienceNotice \<Rightarrow> (db, ConvenienceNotice) comp" where
  "NoticeRepository_Update ctx data =
     andThen (DBExecutor_ExecContext ctx updateNotice
       [AStr (cn_Payload data), AU64 (cn_InputIndex data), AU64 (cn_OutputIndex data)]) (\<lambda>_.
     ret data)"

definition NoticeRepository_Count :: "ConvenienceFilter list \<Rightarrow> (db, u64) comp" where
  "NoticeRepository_Count filters =
     (let query = ''SELECT count(*) FROM convenience_notices ''
      in andThen (lift_res (transformToNoticeQuery filters)) (\<lambda>(where', args, _).
         let query = query @ where'
         in andThen (db_Get query args) (\<lambda>(_, r).
            lift_res (scan_u64 (hd r)))))"

definition NoticeRepository_FindAllNotices ::
  "ethlib \<Rightarrow> int option \<Rightarrow> int option \<Rightarrow> string option \<Rightarrow> string option \<Rightarrow> ConvenienceFilter list \<Rightarrow>
   (db, ConvenienceNotice PageResult) comp" where
  "NoticeRepository_FindAllNotices E first lastN after before filters =
     andThen (NoticeRepository_Count filters) (\<lambda>tot.
     let query = ''SELECT * FROM convenience_notices ''
     in andThen (lift_res (transformToNoticeQuery filters)) (\<lambda>(where', args, argsCount).
     let query = query @ where';
         query = query @ ''ORDER BY input_index ASC, output_index ASC ''
     in andThen (lift_res (ComputePage first lastN after before (sint tot))) (\<lambda>(offset, limit).
     let query = query @ ''LIMIT $'' @ itoa argsCount @ '' '';
         args = args @ [AInt limit];
         argsCount = argsCount + 1;
         query = query @ ''OFFSET $'' @ itoa argsCount @ '' '';
         args = args @ [AInt offset]
     in andThen (db_Select query args) (\<lambda>(cs, rs).
        andThen (lift_res (rmap (scan_noticeRow cs) rs)) (\<lambda>rows.
        ret \<lparr>Total = tot, Offset = of_int offset, Rows = map (parseRowNotice E) rows\<rparr>)))))"

definition NoticeRepository_FindByInputAndOutputIndex ::
  "ethlib \<Rightarrow> u64 \<Rightarrow> u64 \<Rightarrow> (db, ConvenienceNotice option) comp" where
  "NoticeRepository_FindByInputAndOutputIndex E inputIndex outputIndex =
     (let query = ''SELECT * FROM convenience_notices WHERE input_index = $1 and output_index = $2 LIMIT 1''
      in first_row query [AU64 inputIndex, AU64 outputIndex] (parseNotice E))"

definition NoticeRepository_FindNoticeByAppContractAndIndex ::
  "ethlib \<Rightarrow> int \<Rightarrow> address \<Rightarrow> (db, ConvenienceNotice option) comp" where
  "NoticeRepository_FindNoticeByAppContractAndIndex E index appContract =
     (let query = ''SELECT * FROM convenience_notices WHERE input_index = $1 AND app_contract = $2''
      in first_row query [AU64 (of_int index), AStr (addr_Hex E appContract)] (parseNotice E))"

section \<open>The table of notices\<close>

definition notice_cols :: "coldef list" where
  "notice_cols =
     [\<lparr>cd_name = ''payload'', cd_aff = AffText\<rparr>, \<lparr>cd_name = ''input_index'', cd_aff = AffNumeric\<rparr>,
      \<lparr>cd_name = ''output_index'', cd_aff = AffNumeric\<rparr>, \<lparr>cd_name = ''app_contract'', cd_aff = AffText\<rparr>]"

definition notice_row :: "ethlib \<Rightarrow> ConvenienceNotice \<Rightarrow> sqlval list" where
  "notice_row E v =
     [VText (cn_Payload v), VInt (uint (cn_InputIndex v)), VInt (uint (cn_OutputIndex v)),
      VText (addr_Hex E (cn_AppContract v))]"

definition notices_table :: "ethlib \<Rightarrow> ConvenienceNotice list \<Rightarrow> table" where
  "notices_table E ns = mk_table notice_cols output_key False (notice_row E) ns"

definition notice_key :: "ConvenienceNotice \<Rightarrow> u64 \<times> u64" where
  "notice_key v = (cn_InputIndex v, cn_OutputIndex v)"

lemma NoticeRepository_schema_parse:
  "parse_script NoticeRepository_schema =
    Some [SCreateTable ''convenience_notices'' notice_cols output_key False]"
  unfolding NoticeRepository_schema_def by code_simp

lemma insertNotice_parse:
  "parse_script insertNotice = Some [SInsert ''convenience_notices''
     [''payload'', ''input_index'', ''output_index'', ''app_contract''] [1, 2, 3, 4]]"
  unfolding insertNotice_def by code_simp

lemma updateNotice_parse:
  "parse_script updateNotice = Some [SUpdate ''convenience_notices'' [(''payload'', 1)]
     [(''input_index'', ''='', 2), (''output_index'', ''='', 3)]]"
  unfolding updateNotice_def by code_simp

lemma notice_col_index [simp]:
  "col_index (shape notice_cols) ''payload'' = Some 0"
  "col_index (shape notice_cols) ''input_index'' = Some 1"
  "col_index (shape notice_cols) ''output_index'' = Some 2"
  "col_index (shape notice_cols) ''app_contract'' = Some 3"
  by (simp_all add: col_index_def notice_cols_def)

lemma notice_aff [simp]:
  "cd_aff (notice_cols ! 0) = AffText" "cd_aff (notice_cols ! Suc 0) = AffNumeric"
  "cd_aff (notice_cols ! 2) = AffNumeric" "cd_aff (notice_cols ! 3) = AffText"
  by (simp_all add: notice_cols_def)

lemma notice_row_nth [simp]:
  "notice_row E v ! Suc 0 = VInt (uint (cn_InputIndex v))"
  "notice_row E v ! 2 = VInt (uint (cn_OutputIndex v))"
  "notice_row E v ! 3 = VText (addr_Hex E (cn_AppContract v))"
  by (simp_all add: notice_row_def)

subsection \<open>Filters\<close>

definition notice_acond :: "ConvenienceFilter \<Rightarrow> acond res" where
  "notice_acond f =
     rbind (deref (cf_Field f)) (\<lambda>field.
     if field = INPUT_INDEX then
       (case cf_Eq f of None \<Rightarrow> Inl (EMsg ''operation not implemented'')
        | Some eq \<Rightarrow> Inr (''input_index'', ''='', AStr eq))
     else Inl (EMsg (''unexpected field '' @ field)))"

definition notice_sat :: "ConvenienceFilter \<Rightarrow> ConvenienceNotice \<Rightarrow> bool" where
  "notice_sat f v \<longleftrightarrow> Option.bind (cf_Eq f) dec_to_int = Some (uint (cn_InputIndex v))"

interpretation notice_where: where_builder transformToNoticeQuery_loop notice_acond
proof
  fix fs w as n f
  show "transformToNoticeQuery_loop [] w as n = Inr (w, as, n)" by simp
  show "transformToNoticeQuery_loop (f # fs) w as n = rbind (notice_acond f) (\<lambda>(c, op, a).
      transformToNoticeQuery_loop fs (w @ [c @ '' '' @ op @ '' $'' @ itoa n @ '' '']) (as @ [a]) (n + 1))"
    by (cases "cf_Field f"; cases "cf_Eq f") (simp_all add: notice_acond_def)
qed

lemma transformToNoticeQuery_spec:
  "transformToNoticeQuery fs = rbind (rmap notice_acond fs) (\<lambda>acs.
     Inr (conds_text (number_from 1 acs), map acond_arg acs, 1 + int (length acs)))"
  unfolding notice_where.clause_spec [symmetric] transformToNoticeQuery_def Let_def WHERE_def ..

lemma notice_acond_fine:
  "notice_acond f = Inr ac \<Longrightarrow> acond_ok (shape notice_cols) ac \<and> acond_words ac"
  by (cases "cf_Field f"; cases "cf_Eq f")
    (auto simp: notice_acond_def acond_ok_def acond_words_def known_op_def word_def is_space_def
      is_punct_def split: if_splits)

lemma notice_acond_sat:
  assumes "notice_acond f = Inr ac"
  shows "acond_holds (shape notice_cols) (notice_row E v) ac = notice_sat f v"
  using assms
  by (cases "cf_Field f"; cases "cf_Eq f")
    (auto simp: notice_acond_def notice_sat_def acond_holds_def arg_val_def sql_compare_def
      split: if_splits option.splits)

subsection \<open>Paged queries\<close>

definition notice_unrow :: "ethlib \<Rightarrow> sqlval list \<Rightarrow> ConvenienceNotice" where
  "notice_unrow E r = projr (parseNotice E r)"

lemma parseNotice_row [simp]: "eth_laws E \<Longrightarrow> parseNotice E (notice_row E v) = Inr v"
  by (simp add: parseNotice_def notice_row_def eth_HexToAddress)

lemma scan_noticeRow_row:
  "rbind (scan_noticeRow (map cd_name notice_cols) (notice_row E v)) (\<lambda>r. Inr (parseRowNotice E r)) =
   Inr (v\<lparr>cn_AppContract := HexToAddress E (addr_Hex E (cn_AppContract v))\<rparr>)"
  by (simp add: scan_noticeRow_def notice_cols_def column_def notice_row_def parseRowNotice_def scan_int_def)

lemma notice_heads:
  "select_head ''SELECT count(*) FROM convenience_notices '' SelCount ''convenience_notices''"
  "select_head ''SELECT * FROM convenience_notices '' SelStar ''convenience_notices''"
  "order_tail ''ORDER BY input_index ASC, output_index ASC '' [(''input_index'', False), (''output_index'', False)]"
proof -
  have "tokens ''SELECT count(*) FROM convenience_notices '' = [''SELECT'', ''count'', ''('', ''*'', '')'', ''FROM'', ''convenience_notices'']"
    by code_simp
  then show "select_head ''SELECT count(*) FROM convenience_notices '' SelCount ''convenience_notices''"
    by (rule select_head_count) (simp_all add: ends_blank_def)
  have "tokens ''SELECT * FROM convenience_notices '' = [''SELECT'', ''*'', ''FROM'', ''convenience_notices'']" by code_simp
  then show "select_head ''SELECT * FROM convenience_notices '' SelStar ''convenience_notices''"
    by (rule select_head_star) (simp_all add: ends_blank_def)
  have "tokens ''ORDER BY input_index ASC, output_index ASC '' = [''ORDER'', ''BY'', ''input_index'', ''ASC'', '','', ''output_index'', ''ASC'']"
    by code_simp
  then show "order_tail ''ORDER BY input_index ASC, output_index ASC '' [(''input_index'', False), (''output_index'', False)]"
    by (rule order_tail_input_output) (simp add: ends_blank_def)
qed

interpretation notice_paged: paged_repo "''convenience_notices''" notice_cols output_key False
  "notice_row E" "notice_unrow E" "\<lambda>_. eth_laws E" "\<lambda>r. r"
  "''SELECT count(*) FROM convenience_notices ''" "''SELECT * FROM convenience_notices ''" SelStar
  "''ORDER BY input_index ASC, output_index ASC ''" "[(''input_index'', False), (''output_index'', False)]"
  notice_acond transformToNoticeQuery
  "\<lambda>cs r. rbind (scan_noticeRow cs r) (\<lambda>row. Inr (parseRowNotice E row))" for E
proof (unfold_locales, rule notice_heads, rule notice_heads, rule notice_heads)
  fix v :: ConvenienceNotice
  assume laws: "eth_laws E"
  show "rbind (scan_noticeRow (sel_cols (shape notice_cols) SelStar)
      (sel_row (shape notice_cols) SelStar (notice_row E v)))
      (\<lambda>row. Inr (parseRowNotice E row)) = Inr v"
    using scan_noticeRow_row [of E v] laws by (simp add: sel_cols_def sel_row_def eth_HexToAddress)
  show "notice_unrow E (notice_row E v) = v"
    using laws by (simp add: notice_unrow_def)
qed (simp_all add: transformToNoticeQuery_spec notice_acond_fine known_sel_def)

lemma FindAllNotices_steps:
  "NoticeRepository_FindAllNotices E first lastN after before fs =
     andThen (count_step ''SELECT count(*) FROM convenience_notices '' (transformToNoticeQuery fs))
       (page_step ''SELECT * FROM convenience_notices '' ''ORDER BY input_index ASC, output_index ASC '' (transformToNoticeQuery fs)
         (\<lambda>cs r. rbind (scan_noticeRow cs r) (\<lambda>row. Inr (parseRowNotice E row)))
         first lastN after before)"
proof -
  have "NoticeRepository_Count fs = count_step ''SELECT count(*) FROM convenience_notices '' (transformToNoticeQuery fs)"
    by (simp add: NoticeRepository_Count_def count_step_def Let_def)
  then show ?thesis
    by (simp add: NoticeRepository_FindAllNotices_def page_step_def [abs_def] Let_def andThen_rmap_map)
qed

definition notices_in :: "ethlib \<Rightarrow> ConvenienceNotice list \<Rightarrow> db \<Rightarrow> bool" where
  "notices_in E ns d \<longleftrightarrow> db_faults d = [] \<and>
     db_committed d ''convenience_notices'' = Some (notices_table E ns) \<and>
     (ns \<noteq> [] \<longrightarrow> eth_laws E) \<and> length ns < 2 ^ 63"

lemma notices_in_holds: "notices_in E ns d \<longleftrightarrow> notice_paged.holds E ns d"
  by (cases ns) (auto simp: notices_in_def notice_paged.holds_def notices_table_def list_all_iff)

definition notice_query ::
  "ConvenienceFilter list \<Rightarrow> ConvenienceNotice list \<Rightarrow> ConvenienceNotice list res" where
  "notice_query fs ns = rbind (rmap notice_acond fs) (\<lambda>_.
     Inr (sort_key (\<lambda>v. (uint (cn_InputIndex v), uint (cn_OutputIndex v)))
       (filter (\<lambda>v. list_all (\<lambda>f. notice_sat f v) fs) ns)))"

lemma notice_rows_for:
  assumes "notices_in E ns d"
  shows "notice_paged.rows_for E fs d = notice_query fs ns"
proof (cases "rmap notice_acond fs")
  case (Inl e)
  then show ?thesis by (simp add: notice_paged.rows_for_def notice_query_def)
next
  case (Inr acs)
  have sat: "list_all (acond_holds (shape notice_cols) (notice_row E v)) acs =
      list_all (\<lambda>f. notice_sat f v) fs" for v
    by (rule rmap_list_all [OF Inr]) (rule notice_acond_sat)
  let ?rs = "sort_key (\<lambda>v. (uint (cn_InputIndex v), uint (cn_OutputIndex v)))
      (filter (\<lambda>v. list_all (\<lambda>f. notice_sat f v) fs) ns)"
  have "selected (notices_table E ns) [(''input_index'', False), (''output_index'', False)] acs =
      map (notice_row E) ?rs"
    unfolding selected_def notices_table_def selected_filter
    by (subst sort_rows_pair [where i = 1 and j = 2]) (simp_all add: sat)
  moreover have "map (notice_unrow E) (map (notice_row E) ?rs) = ?rs"
    using assms by (intro map_idI [THEN trans [OF map_map]])
      (auto simp: notices_in_def notice_unrow_def)
  ultimately show ?thesis
    using assms Inr by (simp add: notice_paged.rows_for_def notice_query_def notices_in_def)
qed

interpretation notice_query: paged_query "NoticeRepository_FindAllNotices E"
  "notice_paged.rows_for E" "\<lambda>d. \<exists>ns. notices_in E ns d" for E
proof -
  have eq: "NoticeRepository_FindAllNotices E = (\<lambda>first lastN after before fs.
      andThen (count_step ''SELECT count(*) FROM convenience_notices '' (transformToNoticeQuery fs))
       (page_step ''SELECT * FROM convenience_notices '' ''ORDER BY input_index ASC, output_index ASC '' (transformToNoticeQuery fs)
         (\<lambda>cs r. rbind (scan_noticeRow cs r) (\<lambda>row. Inr (parseRowNotice E row)))
         first lastN after before))"
    by (intro ext) (simp only: FindAllNotices_steps)
  show "paged_query (NoticeRepository_FindAllNotices E) (notice_paged.rows_for E)
      (\<lambda>d. \<exists>ns. notices_in E ns d)"
    unfolding eq notices_in_holds by (rule notice_paged.paged_query_axioms)
qed

lemma FindAllNotices_ok:
  assumes "notices_in E ns d"
  shows "NoticeRepository_FindAllNotices E first lastN after before fs d =
    (rbind (notice_query fs ns) (page_of first lastN after before), d)"
  using notice_paged.find_all_ok [OF assms [unfolded notices_in_holds], of fs first lastN after before]
  by (simp add: FindAllNotices_steps notice_rows_for [OF assms])

section \<open>What the writes and lookups do\<close>

definition notice_small :: "ConvenienceNotice \<Rightarrow> bool" where
  "notice_small v \<longleftrightarrow> unat (cn_InputIndex v) < 2 ^ 63 \<and> unat (cn_OutputIndex v) < 2 ^ 63"

lemma notice_key_eq:
  "notice_key v = (i, o') \<longleftrightarrow> cn_InputIndex v = i \<and> cn_OutputIndex v = o'"
  by (simp add: notice_key_def)

lemma unique_notices:
  "unique_ok (mk_table notice_cols output_key False (notice_row E) ns) \<longleftrightarrow> distinct (map notice_key ns)"
proof -
  have "project (shape notice_cols) output_key (notice_row E v) =
      [VInt (uint (cn_InputIndex v)), VInt (uint (cn_OutputIndex v))]" for v
    by (simp add: project_def output_key_def)
  then have "distinct (map (\<lambda>v. project (shape notice_cols) output_key (notice_row E v)) ns) =
      distinct (map notice_key ns)"
    by (intro distinct_map_iff) (simp add: notice_key_def)
  then show ?thesis by (simp add: unique_ok_mk_table output_key_def)
qed

lemma NoticeRepository_CreateTables_ok:
  assumes "db_faults d = []" and "db_committed d ''convenience_notices'' = None"
  shows "NoticeRepository_CreateTables d =
    (Inr (), d\<lparr>db_committed := (db_committed d)(''convenience_notices'' \<mapsto> notices_table E [])\<rparr>)"
  using assms
  by (simp add: NoticeRepository_CreateTables_def db_Exec_def pop_fault_def sql_exec_def
      NoticeRepository_schema_parse run_stmt_def notices_table_def mk_table_def)

lemma CreateNotice_ok:
  assumes "db_faults d = []" and "target ctx d = Some ts" and "notice_small v"
    and "ts ''convenience_notices'' = Some (notices_table E ns)" and "distinct (map notice_key ns)"
  shows "NoticeRepository_Create E ctx v d =
    (if notice_key v \<in> notice_key ` set ns then (Inl (EDb ''UNIQUE constraint failed''), d)
     else (Inr v, set_target ctx (ts(''convenience_notices'' \<mapsto> notices_table E (ns @ [v]))) d))"
proof -
  let ?cs = "[''payload'', ''input_index'', ''output_index'', ''app_contract'']"
  have "map (insert_value (mk_table notice_cols output_key False (notice_row E) ns) ?cs (notice_row E v))
      [0..<length notice_cols] = notice_row E v"
    by (simp add: notice_cols_def insert_value_def notice_row_def upt_rec)
  moreover have "map (\<lambda>n. notice_row E v ! (n - 1)) [1, 2, 3, 4 :: nat] = notice_row E v"
    by (simp add: notice_row_def)
  ultimately have ins: "run_insert (notices_table E ns) ?cs [1, 2, 3, 4] (notice_row E v) =
      (if notice_key v \<in> notice_key ` set ns then Inl (EDb ''UNIQUE constraint failed'')
       else Inr (notices_table E (ns @ [v])))"
    unfolding notices_table_def using assms(5)
    by (subst run_insert_typed [where r = v]) (simp_all add: unique_notices, simp_all add: notice_row_def)
  have "sql_exec ts insertNotice
      [AStr (cn_Payload v), AU64 (cn_InputIndex v), AU64 (cn_OutputIndex v),
       AStr (addr_Hex E (cn_AppContract v))] =
      rbind (run_insert (notices_table E ns) ?cs [1, 2, 3, 4] (notice_row E v))
        (\<lambda>t'. Inr (ts(''convenience_notices'' \<mapsto> t')))"
    using assms(3,4) by (intro sql_exec_insert [OF insertNotice_parse])
      (simp_all add: notice_row_def notice_small_def)
  then show ?thesis
    using assms(1,2) by (simp add: NoticeRepository_Create_def andThen_apply
        DBExecutor_ExecContext_ok ins del: One_nat_def)
qed

lemma notice_matches_key:
  "vals ! (n - 1) = VInt (uint i) \<Longrightarrow> vals ! (m - 1) = VInt (uint o') \<Longrightarrow>
   row_matches (shape notice_cols) vals [(''input_index'', ''='', n), (''output_index'', ''='', m)]
     (notice_row E v) \<longleftrightarrow> notice_key v = (i, o')"
  by (auto simp: row_matches_def cond_holds_def sql_compare_def notice_key_eq)

definition overwrite_notice :: "ConvenienceNotice \<Rightarrow> ConvenienceNotice \<Rightarrow> ConvenienceNotice" where
  "overwrite_notice v w = (if notice_key w = notice_key v then w\<lparr>cn_Payload := cn_Payload v\<rparr> else w)"

lemma notice_key_overwrite [simp]: "notice_key (overwrite_notice v w) = notice_key w"
  by (simp add: overwrite_notice_def notice_key_def)

lemma UpdateNotice_ok:
  assumes "db_faults d = []" and "target ctx d = Some ts" and "notice_small v"
    and "ts ''convenience_notices'' = Some (notices_table E ns)" and "distinct (map notice_key ns)"
  shows "NoticeRepository_Update ctx v d = (Inr v,
    set_target ctx (ts(''convenience_notices'' \<mapsto> notices_table E (map (overwrite_notice v) ns))) d)"
proof -
  let ?vals = "[VText (cn_Payload v), VInt (uint (cn_InputIndex v)), VInt (uint (cn_OutputIndex v))]"
  let ?sets = "[(''payload'', 1)] :: (string \<times> nat) list"
  let ?conds = "[(''input_index'', ''='', 2), (''output_index'', ''='', 3)] :: sqlcond list"
  have P: "row_matches (shape notice_cols) ?vals ?conds (notice_row E w) \<longleftrightarrow> notice_key w = notice_key v" for w
    by (subst notice_matches_key) (simp_all add: notice_key_def)
  have S: "set_columns (shape notice_cols) ?vals ?sets (notice_row E w) =
      notice_row E (w\<lparr>cn_Payload := cn_Payload v\<rparr>)" for w
    by (simp add: set_columns_def notice_row_def)
  have k: "notice_key \<circ> (\<lambda>w. if notice_key w = notice_key v then w\<lparr>cn_Payload := cn_Payload v\<rparr> else w) = notice_key"
    by (rule ext) (simp add: notice_key_def)
  have "run_update (notices_table E ns) ?sets ?conds ?vals =
      Inr (notices_table E (map (overwrite_notice v) ns))"
    unfolding notices_table_def overwrite_notice_def [abs_def]
    by (rule run_update_unique) (simp_all only: P S, use assms(5) in \<open>simp_all add: unique_notices k cond_ok_def known_op_def\<close>)
  moreover have "sql_exec ts updateNotice
      [AStr (cn_Payload v), AU64 (cn_InputIndex v), AU64 (cn_OutputIndex v)] =
      rbind (run_update (notices_table E ns) ?sets ?conds ?vals)
        (\<lambda>t'. Inr (ts(''convenience_notices'' \<mapsto> t')))"
    using assms(3,4) by (intro sql_exec_update [OF updateNotice_parse]) (simp_all add: notice_small_def)
  ultimately show ?thesis
    using assms(1,2) by (simp add: NoticeRepository_Update_def andThen_apply
        DBExecutor_ExecContext_ok del: One_nat_def)
qed

lemma FindNoticeByInputAndOutputIndex_ok:
  assumes "notices_in E ns d" and "unat i < 2 ^ 63" and "unat o' < 2 ^ 63"
  shows "NoticeRepository_FindByInputAndOutputIndex E i o' d =
    (Inr (find (\<lambda>v. notice_key v = (i, o')) ns), d)"
proof -
  have parse: "parse_query ''SELECT * FROM convenience_notices WHERE input_index = $1 and output_index = $2 LIMIT 1'' = Some (SSelect SelStar ''convenience_notices''
      [(''input_index'', ''='', 1), (''output_index'', ''='', 2)] [] (Some (LNum 1)) None)"
    by code_simp
  have "first_row ''SELECT * FROM convenience_notices WHERE input_index = $1 and output_index = $2 LIMIT 1'' [AU64 i, AU64 o'] (parseNotice E) d =
      (Inr (map_option (\<lambda>v. v) (find (\<lambda>v. notice_key v = (i, o')) ns)), d)"
    using assms notice_matches_key [of "[VInt (uint i), VInt (uint o')]" 1 i 2 o' E]
    by (intro first_row_find [OF parse, where vals = "[VInt (uint i), VInt (uint o')]"])
      (auto simp: notices_in_def notices_table_def cond_ok_def known_op_def known_sel_def sel_row_def)
  then show ?thesis
    by (simp add: NoticeRepository_FindByInputAndOutputIndex_def option.map_ident Let_def)
qed

lemma FindNoticeByAppContractAndIndex_ok:
  assumes "notices_in E ns d" and "0 \<le> n" and "n < 2 ^ 63" and "eth_laws E"
  shows "NoticeRepository_FindNoticeByAppContractAndIndex E n a d =
    (Inr (find (\<lambda>v. uint (cn_InputIndex v) = n \<and> cn_AppContract v = a) ns), d)"
proof -
  have d: "db_faults d = []" "db_committed d ''convenience_notices'' = Some (notices_table E ns)"
    using assms(1) by (simp_all only: notices_in_def)
  let ?P = "\<lambda>v. uint (cn_InputIndex v) = n \<and> cn_AppContract v = a"
  have parse: "parse_query ''SELECT * FROM convenience_notices WHERE input_index = $1 AND app_contract = $2'' = Some (SSelect SelStar ''convenience_notices''
      [(''input_index'', ''='', 1), (''app_contract'', ''='', 2)] [] None None)"
    by code_simp
  have u: "uint (of_int n :: u64) = n" "unat (of_int n :: u64) < 2 ^ 63"
    using uint_of_int_small [OF assms(2,3)] by simp_all
  have "first_row ''SELECT * FROM convenience_notices WHERE input_index = $1 AND app_contract = $2'' [AU64 (of_int n), AStr (addr_Hex E a)] (parseNotice E) d =
      (Inr (map_option (\<lambda>v. v) (find ?P ns)), d)"
    using assms(4) u d
    by (intro first_row_find [OF parse, where vals = "[VInt n, VText (addr_Hex E a)]"])
      (auto simp: notices_table_def cond_ok_def known_op_def known_sel_def row_matches_def
        cond_holds_def sql_compare_def sel_row_def eth_addr_Hex_inj)
  then show ?thesis
    by (simp add: NoticeRepository_FindNoticeByAppContractAndIndex_def option.map_ident Let_def)
qed

end
