(* ===== verification/ReportRepository.thy ===== *)
theory ReportRepository
  imports RepoBase
begin

text \<open>
  \<open>internal/convenience/repository/report_repository.go\<close>: the table of reports. Payloads are
  stored as hex text. The lookup by input and output index builds a report without its
  application contract, and is the one lookup that checks the iteration error.
\<close>

section \<open>Rows\<close>

record reportRow =
  rr_Index :: int
  rr_InputIndex :: int
  rr_Payload :: string
  rr_AppContract :: string

definition scan_reportRow :: "string list \<Rightarrow> sqlval list \<Rightarrow> reportRow res" where
  "scan_reportRow cs r =
     rbind (rbind (column cs r ''output_index'') scan_int) (\<lambda>index.
     rbind (rbind (column cs r ''input_index'') scan_int) (\<lambda>inputIndex.
     rbind (rbind (column cs r ''payload'') scan_string) (\<lambda>payload.
     rbind (rbind (column cs r ''app_contract'') scan_string) (\<lambda>appContract.
     Inr \<lparr>rr_Index = index, rr_InputIndex = inputIndex, rr_Payload = payload,
       rr_AppContract = appContract\<rparr>))))"

definition parseReportRow :: "ethlib \<Rightarrow> reportRow \<Rightarrow> Report" where
  "parseReportRow E row =
     \<lparr>rp_Index = rr_Index row, rp_InputIndex = rr_InputIndex row,
      rp_Payload = Hex2Bytes E (rr_Payload row), rp_AppContract = HexToAddress E (rr_AppContract row)\<rparr>"

definition parseReport :: "ethlib \<Rightarrow> sqlval list \<Rightarrow> Report res" where
  "parseReport E row = (case row of
       [c0, c1, c2, c3] \<Rightarrow>
         rbind (scan_int c0) (\<lambda>inputIndex.
         rbind (scan_int c1) (\<lambda>index.
         rbind (scan_string c2) (\<lambda>payload.
         rbind (scan_string c3) (\<lambda>appContract.
         Inr \<lparr>rp_Index = index, rp_InputIndex = inputIndex, rp_Payload = Hex2Bytes E payload,
           rp_AppContract = HexToAddress E appContract\<rparr>))))
     | _ \<Rightarrow> Inl (EDb ''sql: expected other number of destination arguments in Scan''))"

section \<open>The filter clause\<close>

fun transformToReportQuery_loop ::
  "ConvenienceFilter list \<Rightarrow> string list \<Rightarrow> goarg list \<Rightarrow> int \<Rightarrow>
   (string list \<times> goarg list \<times> int) res" where
  "transformToReportQuery_loop [] where' args count' = Inr (where', args, count')"
| "transformToReportQuery_loop (f # filters) where' args count' =
     rbind (deref (cf_Field f)) (\<lambda>field.
     if field = ''OutputIndex'' then
       (case cf_Eq f of
          Some eq \<Rightarrow> transformToReportQuery_loop filters (where' @ [''output_index = $'' @ itoa count' @ '' ''])
              (args @ [AStr eq]) (count' + 1)
        | None \<Rightarrow> Inl (EMsg ''operation not implemented''))
     else if field = INPUT_INDEX then
       (case cf_Eq f of
          Some eq \<Rightarrow> transformToReportQuery_loop filters (where' @ [''input_index = $'' @ itoa count' @ '' ''])
              (args @ [AStr eq]) (count' + 1)
        | None \<Rightarrow> Inl (EMsg ''operation not implemented''))
     else Inl (EMsg (''unexpected field '' @ field)))"

definition transformToReportQuery ::
  "ConvenienceFilter list \<Rightarrow> (string \<times> goarg list \<times> int) res" where
  "transformToReportQuery filters =
     (let query = (if filters \<noteq> [] then WHERE else [])
      in rbind (transformToReportQuery_loop filters [] [] 1) (\<lambda>(where', args, count').
         Inr (query @ join '' and '' where', args, count')))"

section \<open>Methods\<close>

definition ReportRepository_schema :: string where
  "ReportRepository_schema =
''CREATE TABLE IF NOT EXISTS convenience_reports (
		output_index	integer,
		payload 		text,
		input_index 	integer,
		app_contract    text,
		PRIMARY KEY (input_index, output_index));''"

definition ReportRepository_CreateTables :: "(db, unit) comp" where
  "ReportRepository_CreateTables = db_Exec ReportRepository_schema []"

definition insertReport :: string where
  "insertReport =
''INSERT INTO convenience_reports (
		output_index,
		payload,
		input_index,
		app_contract) VALUES ($1, $2, $3, $4)''"

definition ReportRepository_Create :: "ethlib \<Rightarrow> ctx \<Rightarrow> Report \<Rightarrow> (db, Report) comp" where
  "ReportRepository_Create E ctx report =
     andThen (DBExecutor_ExecContext ctx insertReport
       [AInt (rp_Index report), AStr (Bytes2Hex E (rp_Payload report)), AInt (rp_InputIndex report),
        AStr (addr_Hex E (rp_AppContract report))]) (\<lambda>_.
     ret report)"

definition updateReport :: string where
  "updateReport =
''UPDATE convenience_reports
		SET payload = $1
		WHERE input_index = $2 and output_index = $3 ''"

definition ReportRepository_Update :: "ethlib \<Rightarrow> ctx \<Rightarrow> Report \<Rightarrow> (db, Report) comp" where
  "ReportRepository_Update E ctx report =
     andThen (DBExecutor_ExecContext ctx updateReport
       [AStr (Bytes2Hex E (rp_Payload report)), AInt (rp_InputIndex report), AInt (rp_Index report)]) (\<lambda>_.
     ret report)"

definition ReportRepository_FindByInputAndOutputIndex ::
  "ethlib \<Rightarrow> u64 \<Rightarrow> u64 \<Rightarrow> (db, Report option) comp" where
  "ReportRepository_FindByInputAndOutputIndex E inputIndex outputIndex =
     (let query = ''
		SELECT payload FROM convenience_reports
		WHERE input_index = $1 AND output_index = $2
		LIMIT 1''
      in andThen (db_Query query [AU64 inputIndex, AU64 outputIndex]) (\<lambda>rows.
         case rs_rows rows of
           r # _ \<Rightarrow> (case r of
               [c0] \<Rightarrow> andThen (lift_res (scan_string c0)) (\<lambda>payload.
                 ret (Some \<lparr>rp_Index = sint outputIndex, rp_InputIndex = sint inputIndex,
                   rp_Payload = Hex2Bytes E payload, rp_AppContract = 0\<rparr>))
             | _ \<Rightarrow> fail (EDb ''sql: expected other number of destination arguments in Scan''))
         | [] \<Rightarrow> (case rs_err rows of Some err \<Rightarrow> fail err | None \<Rightarrow> ret None)))"

definition ReportRepository_FindReportByAppContractAndIndex ::
  "ethlib \<Rightarrow> int \<Rightarrow> address \<Rightarrow> (db, Report option) comp" where
  "ReportRepository_FindReportByAppContractAndIndex E index appContract =
     (let query = ''SELECT 
		input_index, 
		output_index, 
		payload, 
		app_contract FROM convenience_reports WHERE input_index = $1 AND app_contract = $2''
      in first_row query [AU64 (of_int index), AStr (addr_Hex E appContract)] (parseReport E))"

definition ReportRepository_Count :: "ConvenienceFilter list \<Rightarrow> (db, u64) comp" where
  "ReportRepository_Count filters =
     (let query = ''SELECT count(*) FROM convenience_reports ''
      in andThen (lift_res (transformToReportQuery filters)) (\<lambda>(where', args, _).
         let query = query @ where'
         in andThen (db_Get query args) (\<lambda>(_, r).
            lift_res (scan_u64 (hd r)))))"

definition ReportRepository_FindAll ::
  "ethlib \<Rightarrow> int option \<Rightarrow> int option \<Rightarrow> string option \<Rightarrow> string option \<Rightarrow> ConvenienceFilter list \<Rightarrow>
   (db, Report PageResult) comp" where
  "ReportRepository_FindAll E first lastN after before filters =
     andThen (ReportRepository_Count filters) (\<lambda>tot.
     let query = ''SELECT input_index, output_index, payload, app_contract FROM convenience_reports ''
     in andThen (lift_res (transformToReportQuery filters)) (\<lambda>(where', args, argsCount).
     let query = query @ where';
         query = query @ ''ORDER BY input_index ASC, output_index ASC ''
     in andThen (lift_res (ComputePage first lastN after before (sint tot))) (\<lambda>(offset, limit).
     let query = query @ ''LIMIT $'' @ itoa argsCount @ '' '';
         args = args @ [AInt limit];
         argsCount = argsCount + 1;
         query = query @ ''OFFSET $'' @ itoa argsCount @ '' '';
         args = args @ [AInt offset]
     in andThen (db_Select query args) (\<lambda>(cs, rs).
        andThen (lift_res (rmap (scan_reportRow cs) rs)) (\<lambda>rows.
        ret \<lparr>Total = tot, Offset = of_int offset, Rows = map (parseReportRow E) rows\<rparr>)))))"

definition ReportRepository_FindAllByInputIndex ::
  "ethlib \<Rightarrow> int option \<Rightarrow> int option \<Rightarrow> string option \<Rightarrow> string option \<Rightarrow> int option \<Rightarrow>
   (db, Report PageResult) comp" where
  "ReportRepository_FindAllByInputIndex E first lastN after before inputIndex =
     (let filter' = (case inputIndex of
          Some i \<Rightarrow> [filter_Eq INPUT_INDEX (itoa i)]
        | None \<Rightarrow> [])
      in ReportRepository_FindAll E first lastN after before filter')"

section \<open>The table of reports\<close>

definition report_cols :: "coldef list" where
  "report_cols =
     [\<lparr>cd_name = ''output_index'', cd_aff = AffNumeric\<rparr>, \<lparr>cd_name = ''payload'', cd_aff = AffText\<rparr>,
      \<lparr>cd_name = ''input_index'', cd_aff = AffNumeric\<rparr>, \<lparr>cd_name = ''app_contract'', cd_aff = AffText\<rparr>]"

definition report_row :: "ethlib \<Rightarrow> Report \<Rightarrow> sqlval list" where
  "report_row E v =
     [VInt (rp_Index v), VText (Bytes2Hex E (rp_Payload v)), VInt (rp_InputIndex v),
      VText (addr_Hex E (rp_AppContract v))]"

definition report_sel :: selection where
  "report_sel = SelCols [''input_index'', ''output_index'', ''payload'', ''app_contract'']"

definition reports_table :: "ethlib \<Rightarrow> Report list \<Rightarrow> table" where
  "reports_table E ns = mk_table report_cols output_key False (report_row E) ns"

definition report_key :: "Report \<Rightarrow> int \<times> int" where
  "report_key v = (rp_InputIndex v, rp_Index v)"

lemma ReportRepository_schema_parse:
  "parse_script ReportRepository_schema =
    Some [SCreateTable ''convenience_reports'' report_cols output_key False]"
  unfolding ReportRepository_schema_def by code_simp

lemma insertReport_parse:
  "parse_script insertReport = Some [SInsert ''convenience_reports''
     [''output_index'', ''payload'', ''input_index'', ''app_contract''] [1, 2, 3, 4]]"
  unfolding insertReport_def by code_simp

lemma updateReport_parse:
  "parse_script updateReport = Some [SUpdate ''convenience_reports'' [(''payload'', 1)]
     [(''input_index'', ''='', 2), (''output_index'', ''='', 3)]]"
  unfolding updateReport_def by code_simp

lemma report_col_index [simp]:
  "col_index (shape report_cols) ''output_index'' = Some 0"
  "col_index (shape report_cols) ''payload'' = Some 1"
  "col_index (shape report_cols) ''input_index'' = Some 2"
  "col_index (shape report_cols) ''app_contract'' = Some 3"
  by (simp_all add: col_index_def report_cols_def)

lemma report_aff [simp]:
  "cd_aff (report_cols ! 0) = AffNumeric" "cd_aff (report_cols ! Suc 0) = AffText"
  "cd_aff (report_cols ! 2) = AffNumeric" "cd_aff (report_cols ! 3) = AffText"
  by (simp_all add: report_cols_def)

lemma report_row_nth [simp]:
  "report_row E v ! 0 = VInt (rp_Index v)"
  "report_row E v ! 2 = VInt (rp_InputIndex v)"
  "report_row E v ! 3 = VText (addr_Hex E (rp_AppContract v))"
  by (simp_all add: report_row_def)

subsection \<open>Filters\<close>

definition report_acond :: "ConvenienceFilter \<Rightarrow> acond res" where
  "report_acond f =
     rbind (deref (cf_Field f)) (\<lambda>field.
     if field = ''OutputIndex'' then
       (case cf_Eq f of None \<Rightarrow> Inl (EMsg ''operation not implemented'')
        | Some eq \<Rightarrow> Inr (''output_index'', ''='', AStr eq))
     else if field = INPUT_INDEX then
       (case cf_Eq f of None \<Rightarrow> Inl (EMsg ''operation not implemented'')
        | Some eq \<Rightarrow> Inr (''input_index'', ''='', AStr eq))
     else Inl (EMsg (''unexpected field '' @ field)))"

definition report_sat :: "ConvenienceFilter \<Rightarrow> Report \<Rightarrow> bool" where
  "report_sat f v \<longleftrightarrow> Option.bind (cf_Eq f) dec_to_int =
     Some (if cf_Field f = Some ''OutputIndex'' then rp_Index v else rp_InputIndex v)"

interpretation report_where: where_builder transformToReportQuery_loop report_acond
proof
  fix fs w as n f
  show "transformToReportQuery_loop [] w as n = Inr (w, as, n)" by simp
  show "transformToReportQuery_loop (f # fs) w as n = rbind (report_acond f) (\<lambda>(c, op, a).
      transformToReportQuery_loop fs (w @ [c @ '' '' @ op @ '' $'' @ itoa n @ '' '']) (as @ [a]) (n + 1))"
    by (cases "cf_Field f"; cases "cf_Eq f") (simp_all add: report_acond_def)
qed

lemma transformToReportQuery_spec:
  "transformToReportQuery fs = rbind (rmap report_acond fs) (\<lambda>acs.
     Inr (conds_text (number_from 1 acs), map acond_arg acs, 1 + int (length acs)))"
  unfolding report_where.clause_spec [symmetric] transformToReportQuery_def Let_def WHERE_def ..

lemma report_acond_fine:
  "report_acond f = Inr ac \<Longrightarrow> acond_ok (shape report_cols) ac \<and> acond_words ac"
  by (cases "cf_Field f"; cases "cf_Eq f")
    (auto simp: report_acond_def acond_ok_def acond_words_def known_op_def word_def is_space_def
      is_punct_def split: if_splits)

lemma report_acond_sat:
  assumes "report_acond f = Inr ac"
  shows "acond_holds (shape report_cols) (report_row E v) ac = report_sat f v"
  using assms
  by (cases "cf_Field f"; cases "cf_Eq f")
    (auto simp: report_acond_def report_sat_def acond_holds_def arg_val_def sql_compare_def
      split: if_splits option.splits)

subsection \<open>Paged queries\<close>

definition report_unrow :: "ethlib \<Rightarrow> sqlval list \<Rightarrow> Report" where
  "report_unrow E r = projr (parseReport E (sel_row (shape report_cols) report_sel r))"

lemma report_sel_row [simp]:
  "sel_row (shape report_cols) report_sel (report_row E v) =
     [VInt (rp_InputIndex v), VInt (rp_Index v), VText (Bytes2Hex E (rp_Payload v)),
      VText (addr_Hex E (rp_AppContract v))]"
  by (simp add: sel_row_def report_sel_def project_def report_row_def)

lemma parseReport_row:
  "eth_laws E \<Longrightarrow> parseReport E (sel_row (shape report_cols) report_sel (report_row E v)) = Inr v"
  by (simp add: parseReport_def eth_HexToAddress eth_Hex2Bytes)

lemma scan_reportRow_row:
  "rbind (scan_reportRow (sel_cols (shape report_cols) report_sel)
     (sel_row (shape report_cols) report_sel (report_row E v))) (\<lambda>r. Inr (parseReportRow E r)) =
   Inr (v\<lparr>rp_Payload := Hex2Bytes E (Bytes2Hex E (rp_Payload v)),
          rp_AppContract := HexToAddress E (addr_Hex E (rp_AppContract v))\<rparr>)"
  by (simp add: scan_reportRow_def sel_cols_def report_sel_def column_def parseReportRow_def
      report_sel_row [unfolded report_sel_def])

lemma report_heads:
  "select_head ''SELECT count(*) FROM convenience_reports '' SelCount ''convenience_reports''"
  "select_head ''SELECT input_index, output_index, payload, app_contract FROM convenience_reports '' report_sel ''convenience_reports''"
  "order_tail ''ORDER BY input_index ASC, output_index ASC '' [(''input_index'', False), (''output_index'', False)]"
proof -
  have "tokens ''SELECT count(*) FROM convenience_reports '' = [''SELECT'', ''count'', ''('', ''*'', '')'', ''FROM'', ''convenience_reports'']"
    by code_simp
  then show "select_head ''SELECT count(*) FROM convenience_reports '' SelCount ''convenience_reports''"
    by (rule select_head_count) (simp_all add: ends_blank_def)
  have "tokens ''SELECT input_index, output_index, payload, app_contract FROM convenience_reports '' = ''SELECT'' # [''input_index'', '','', ''output_index'', '','', ''payload'', '','',
      ''app_contract'', ''FROM'', ''convenience_reports'']" by code_simp
  then show "select_head ''SELECT input_index, output_index, payload, app_contract FROM convenience_reports '' report_sel ''convenience_reports''"
    by (rule select_headI) (simp_all add: ends_blank_def p_selection_def report_sel_def)
  have "tokens ''ORDER BY input_index ASC, output_index ASC '' = [''ORDER'', ''BY'', ''input_index'', ''ASC'', '','', ''output_index'', ''ASC'']"
    by code_simp
  then show "order_tail ''ORDER BY input_index ASC, output_index ASC '' [(''input_index'', False), (''output_index'', False)]"
    by (rule order_tail_input_output) (simp add: ends_blank_def)
qed

interpretation report_paged: paged_repo "''convenience_reports''" report_cols output_key False
  "report_row E" "report_unrow E" "\<lambda>_. eth_laws E" "\<lambda>r. r"
  "''SELECT count(*) FROM convenience_reports ''" "''SELECT input_index, output_index, payload, app_contract FROM convenience_reports ''" report_sel
  "''ORDER BY input_index ASC, output_index ASC ''" "[(''input_index'', False), (''output_index'', False)]"
  report_acond transformToReportQuery
  "\<lambda>cs r. rbind (scan_reportRow cs r) (\<lambda>row. Inr (parseReportRow E row))" for E
proof (unfold_locales, rule report_heads, rule report_heads, rule report_heads)
  fix v :: Report
  assume laws: "eth_laws E"
  show "rbind (scan_reportRow (sel_cols (shape report_cols) report_sel)
      (sel_row (shape report_cols) report_sel (report_row E v)))
      (\<lambda>row. Inr (parseReportRow E row)) = Inr v"
    unfolding scan_reportRow_row using laws by (simp add: eth_HexToAddress eth_Hex2Bytes)
  show "report_unrow E (report_row E v) = v"
    using laws by (simp only: report_unrow_def parseReport_row sum.sel)
qed (simp_all add: transformToReportQuery_spec report_acond_fine known_sel_def report_sel_def)

lemma FindAllReports_steps:
  "ReportRepository_FindAll E first lastN after before fs =
     andThen (count_step ''SELECT count(*) FROM convenience_reports '' (transformToReportQuery fs))
       (page_step ''SELECT input_index, output_index, payload, app_contract FROM convenience_reports '' ''ORDER BY input_index ASC, output_index ASC '' (transformToReportQuery fs)
         (\<lambda>cs r. rbind (scan_reportRow cs r) (\<lambda>row. Inr (parseReportRow E row)))
         first lastN after before)"
proof -
  have "ReportRepository_Count fs = count_step ''SELECT count(*) FROM convenience_reports '' (transformToReportQuery fs)"
    by (simp add: ReportRepository_Count_def count_step_def Let_def)
  then show ?thesis
    by (simp add: ReportRepository_FindAll_def page_step_def [abs_def] Let_def andThen_rmap_map)
qed

definition reports_in :: "ethlib \<Rightarrow> Report list \<Rightarrow> db \<Rightarrow> bool" where
  "reports_in E ns d \<longleftrightarrow> db_faults d = [] \<and>
     db_committed d ''convenience_reports'' = Some (reports_table E ns) \<and>
     (ns \<noteq> [] \<longrightarrow> eth_laws E) \<and> length ns < 2 ^ 63"

lemma reports_in_holds: "reports_in E ns d \<longleftrightarrow> report_paged.holds E ns d"
  by (cases ns) (auto simp: reports_in_def report_paged.holds_def reports_table_def list_all_iff)

definition report_query ::
  "ConvenienceFilter list \<Rightarrow> Report list \<Rightarrow> Report list res" where
  "report_query fs ns = rbind (rmap report_acond fs) (\<lambda>_.
     Inr (sort_key (\<lambda>v. (rp_InputIndex v, rp_Index v))
       (filter (\<lambda>v. list_all (\<lambda>f. report_sat f v) fs) ns)))"

lemma report_rows_for:
  assumes "reports_in E ns d"
  shows "report_paged.rows_for E fs d = report_query fs ns"
proof (cases "rmap report_acond fs")
  case (Inl e)
  then show ?thesis by (simp add: report_paged.rows_for_def report_query_def)
next
  case (Inr acs)
  have sat: "list_all (acond_holds (shape report_cols) (report_row E v)) acs =
      list_all (\<lambda>f. report_sat f v) fs" for v
    by (rule rmap_list_all [OF Inr]) (rule report_acond_sat)
  let ?rs = "sort_key (\<lambda>v. (rp_InputIndex v, rp_Index v))
      (filter (\<lambda>v. list_all (\<lambda>f. report_sat f v) fs) ns)"
  have "selected (reports_table E ns) [(''input_index'', False), (''output_index'', False)] acs =
      map (report_row E) ?rs"
    unfolding selected_def reports_table_def selected_filter
    by (subst sort_rows_pair [where i = 2 and j = 0]) (simp_all add: sat)
  moreover have "map (report_unrow E) (map (report_row E) ?rs) = ?rs"
    using assms by (intro map_idI [THEN trans [OF map_map]])
      (auto simp: reports_in_def report_unrow_def simp del: report_sel_row simp add: parseReport_row)
  ultimately show ?thesis
    using assms Inr by (simp add: report_paged.rows_for_def report_query_def reports_in_def)
qed

interpretation report_query: paged_query "ReportRepository_FindAll E"
  "report_paged.rows_for E" "\<lambda>d. \<exists>ns. reports_in E ns d" for E
proof -
  have eq: "ReportRepository_FindAll E = (\<lambda>first lastN after before fs.
      andThen (count_step ''SELECT count(*) FROM convenience_reports '' (transformToReportQuery fs))
       (page_step ''SELECT input_index, output_index, payload, app_contract FROM convenience_reports '' ''ORDER BY input_index ASC, output_index ASC '' (transformToReportQuery fs)
         (\<lambda>cs r. rbind (scan_reportRow cs r) (\<lambda>row. Inr (parseReportRow E row)))
         first lastN after before))"
    by (intro ext) (simp only: FindAllReports_steps)
  show "paged_query (ReportRepository_FindAll E) (report_paged.rows_for E)
      (\<lambda>d. \<exists>ns. reports_in E ns d)"
    unfolding eq reports_in_holds by (rule report_paged.paged_query_axioms)
qed

lemma FindAllReports_ok:
  assumes "reports_in E ns d"
  shows "ReportRepository_FindAll E first lastN after before fs d =
    (rbind (report_query fs ns) (page_of first lastN after before), d)"
  using report_paged.find_all_ok [OF assms [unfolded reports_in_holds], of fs first lastN after before]
  by (simp add: FindAllReports_steps report_rows_for [OF assms])

section \<open>What the writes and lookups do\<close>

lemma report_key_eq: "report_key v = (i, o') \<longleftrightarrow> rp_InputIndex v = i \<and> rp_Index v = o'"
  by (simp add: report_key_def)

lemma unique_reports:
  "unique_ok (mk_table report_cols output_key False (report_row E) rs) \<longleftrightarrow> distinct (map report_key rs)"
proof -
  have "project (shape report_cols) output_key (report_row E v) =
      [VInt (rp_InputIndex v), VInt (rp_Index v)]" for v
    by (simp add: project_def output_key_def)
  then have "distinct (map (\<lambda>v. project (shape report_cols) output_key (report_row E v)) rs) =
      distinct (map report_key rs)"
    by (intro distinct_map_iff) (simp add: report_key_def)
  then show ?thesis by (simp add: unique_ok_mk_table output_key_def)
qed

lemma ReportRepository_CreateTables_ok:
  assumes "db_faults d = []" and "db_committed d ''convenience_reports'' = None"
  shows "ReportRepository_CreateTables d =
    (Inr (), d\<lparr>db_committed := (db_committed d)(''convenience_reports'' \<mapsto> reports_table E [])\<rparr>)"
  using assms
  by (simp add: ReportRepository_CreateTables_def db_Exec_def pop_fault_def sql_exec_def
      ReportRepository_schema_parse run_stmt_def reports_table_def mk_table_def)

lemma CreateReport_ok:
  assumes "db_faults d = []" and "target ctx d = Some ts"
    and "ts ''convenience_reports'' = Some (reports_table E rs)" and "distinct (map report_key rs)"
  shows "ReportRepository_Create E ctx v d =
    (if report_key v \<in> report_key ` set rs then (Inl (EDb ''UNIQUE constraint failed''), d)
     else (Inr v, set_target ctx (ts(''convenience_reports'' \<mapsto> reports_table E (rs @ [v]))) d))"
proof -
  let ?cs = "[''output_index'', ''payload'', ''input_index'', ''app_contract'']"
  have "map (insert_value (mk_table report_cols output_key False (report_row E) rs) ?cs (report_row E v))
      [0..<length report_cols] = report_row E v"
    by (simp add: report_cols_def insert_value_def report_row_def upt_rec)
  moreover have "map (\<lambda>n. report_row E v ! (n - 1)) [1, 2, 3, 4 :: nat] = report_row E v"
    by (simp add: report_row_def)
  ultimately have ins: "run_insert (reports_table E rs) ?cs [1, 2, 3, 4] (report_row E v) =
      (if report_key v \<in> report_key ` set rs then Inl (EDb ''UNIQUE constraint failed'')
       else Inr (reports_table E (rs @ [v])))"
    unfolding reports_table_def using assms(4)
    by (subst run_insert_typed [where r = v]) (simp_all add: unique_reports, simp_all add: report_row_def)
  have "sql_exec ts insertReport
      [AInt (rp_Index v), AStr (Bytes2Hex E (rp_Payload v)), AInt (rp_InputIndex v),
       AStr (addr_Hex E (rp_AppContract v))] =
      rbind (run_insert (reports_table E rs) ?cs [1, 2, 3, 4] (report_row E v))
        (\<lambda>t'. Inr (ts(''convenience_reports'' \<mapsto> t')))"
    using assms(3) by (intro sql_exec_insert [OF insertReport_parse]) (simp_all add: report_row_def)
  then show ?thesis
    using assms(1,2) by (simp add: ReportRepository_Create_def andThen_apply
        DBExecutor_ExecContext_ok ins del: One_nat_def)
qed

lemma report_matches_key:
  "vals ! (n - 1) = VInt i \<Longrightarrow> vals ! (m - 1) = VInt o' \<Longrightarrow>
   row_matches (shape report_cols) vals [(''input_index'', ''='', n), (''output_index'', ''='', m)]
     (report_row E v) \<longleftrightarrow> report_key v = (i, o')"
  by (auto simp: row_matches_def cond_holds_def sql_compare_def report_key_eq)

definition overwrite_report :: "Report \<Rightarrow> Report \<Rightarrow> Report" where
  "overwrite_report v w = (if report_key w = report_key v then w\<lparr>rp_Payload := rp_Payload v\<rparr> else w)"

lemma report_key_overwrite [simp]: "report_key (overwrite_report v w) = report_key w"
  by (simp add: overwrite_report_def report_key_def)

lemma UpdateReport_ok:
  assumes "db_faults d = []" and "target ctx d = Some ts"
    and "ts ''convenience_reports'' = Some (reports_table E rs)" and "distinct (map report_key rs)"
  shows "ReportRepository_Update E ctx v d = (Inr v,
    set_target ctx (ts(''convenience_reports'' \<mapsto> reports_table E (map (overwrite_report v) rs))) d)"
proof -
  let ?vals = "[VText (Bytes2Hex E (rp_Payload v)), VInt (rp_InputIndex v), VInt (rp_Index v)]"
  let ?sets = "[(''payload'', 1)] :: (string \<times> nat) list"
  let ?conds = "[(''input_index'', ''='', 2), (''output_index'', ''='', 3)] :: sqlcond list"
  have P: "row_matches (shape report_cols) ?vals ?conds (report_row E w) \<longleftrightarrow> report_key w = report_key v" for w
    by (subst report_matches_key) (simp_all add: report_key_def)
  have S: "set_columns (shape report_cols) ?vals ?sets (report_row E w) =
      report_row E (w\<lparr>rp_Payload := rp_Payload v\<rparr>)" for w
    by (simp add: set_columns_def report_row_def)
  have k: "report_key \<circ> (\<lambda>w. if report_key w = report_key v then w\<lparr>rp_Payload := rp_Payload v\<rparr> else w) = report_key"
    by (rule ext) (simp add: report_key_def)
  have "run_update (reports_table E rs) ?sets ?conds ?vals =
      Inr (reports_table E (map (overwrite_report v) rs))"
    unfolding reports_table_def overwrite_report_def [abs_def]
    by (rule run_update_unique) (simp_all only: P S, use assms(4) in \<open>simp_all add: unique_reports k cond_ok_def known_op_def\<close>)
  moreover have "sql_exec ts updateReport
      [AStr (Bytes2Hex E (rp_Payload v)), AInt (rp_InputIndex v), AInt (rp_Index v)] =
      rbind (run_update (reports_table E rs) ?sets ?conds ?vals)
        (\<lambda>t'. Inr (ts(''convenience_reports'' \<mapsto> t')))"
    using assms(3) by (intro sql_exec_update [OF updateReport_parse]) simp_all
  ultimately show ?thesis
    using assms(1,2) by (simp add: ReportRepository_Update_def andThen_apply
        DBExecutor_ExecContext_ok del: One_nat_def)
qed

text \<open>The lookup by key loses the application contract: the report it returns has the zero address.\<close>

lemma FindReportByInputAndOutputIndex_ok:
  assumes "reports_in E rs d" and "unat i < 2 ^ 63" and "unat o' < 2 ^ 63"
  shows "ReportRepository_FindByInputAndOutputIndex E i o' d =
    (Inr (map_option (\<lambda>r. r\<lparr>rp_AppContract := 0\<rparr>) (find (\<lambda>r. report_key r = (sint i, sint o')) rs)), d)"
proof -
  have u: "uint i = sint i" "uint o' = sint o'"
    using assms(2,3) sint_of_nat_small [of "unat i"] sint_of_nat_small [of "unat o'"] by simp_all
  have d: "db_faults d = []" "db_committed d ''convenience_reports'' = Some (reports_table E rs)"
    using assms(1) by (simp_all only: reports_in_def)
  let ?P = "\<lambda>r. report_key r = (uint i, uint o')"
  have parse: "parse_query ''
		SELECT payload FROM convenience_reports
		WHERE input_index = $1 AND output_index = $2
		LIMIT 1'' = Some (SSelect (SelCols [''payload'']) ''convenience_reports''
      [(''input_index'', ''='', 1), (''output_index'', ''='', 2)] [] (Some (LNum 1)) None)"
    by code_simp
  have m: "row_matches (shape report_cols) [VInt (uint i), VInt (uint o')]
      [(''input_index'', ''='', 1), (''output_index'', ''='', 2)] (report_row E r) \<longleftrightarrow> ?P r" for r
    by (rule report_matches_key) simp_all
  have "sql_query (db_committed d) ''
		SELECT payload FROM convenience_reports
		WHERE input_index = $1 AND output_index = $2
		LIMIT 1'' [AU64 i, AU64 o'] = Inr (sel_cols (shape report_cols)
      (SelCols [''payload'']), map (\<lambda>r. sel_row (shape report_cols) (SelCols [''payload'']) (report_row E r))
        (if Some (LNum 1) = None then filter ?P rs else take 1 (filter ?P rs)))"
    by (rule sql_query_find [OF parse, where vals = "[VInt (uint i), VInt (uint o')]" and P = ?P and rs = rs])
      (use d assms(2,3) m in \<open>simp_all add: reports_table_def cond_ok_def known_op_def known_sel_def sort_rows_def\<close>)
  then have q: "sql_query (db_committed d) ''
		SELECT payload FROM convenience_reports
		WHERE input_index = $1 AND output_index = $2
		LIMIT 1'' [AU64 i, AU64 o'] = Inr ([''payload''],
      map (\<lambda>r. [VText (Bytes2Hex E (rp_Payload r))]) (take 1 (filter ?P rs)))"
    by (simp add: sel_cols_def sel_row_def project_def) (simp add: report_row_def)
  show ?thesis
  proof (cases "filter ?P rs")
    case Nil
    have "find ?P rs = None" by (simp only: find_filter Nil) simp
    then have "find (\<lambda>r. report_key r = (sint i, sint o')) rs = None" by (simp only: u)
    with Nil q d show ?thesis
      by (simp add: ReportRepository_FindByInputAndOutputIndex_def andThen_apply db_Query_ok Let_def)
  next
    case (Cons r xs)
    then have "r \<in> set (filter ?P rs)" by simp
    then have r: "r \<in> set rs" "?P r" by simp_all
    then have E: "eth_laws E" using assms(1) by (auto simp: reports_in_def)
    have f: "find ?P rs = Some r" by (simp only: find_filter Cons) simp
    then have "(find (\<lambda>r. report_key r = (sint i, sint o')) rs) = Some r" by (simp only: u)
    moreover have "r\<lparr>rp_AppContract := 0\<rparr> = \<lparr>rp_Index = sint o', rp_InputIndex = sint i,
        rp_Payload = rp_Payload r, rp_AppContract = 0\<rparr>"
      using r(2) u by (simp add: report_key_def)
    ultimately show ?thesis using Cons q d E
      by (simp add: ReportRepository_FindByInputAndOutputIndex_def andThen_apply db_Query_ok Let_def
          eth_Hex2Bytes)
  qed
qed

lemma FindReportByAppContractAndIndex_ok:
  assumes "reports_in E rs d" and "0 \<le> n" and "n < 2 ^ 63" and "eth_laws E"
  shows "ReportRepository_FindReportByAppContractAndIndex E n a d =
    (Inr (find (\<lambda>v. rp_InputIndex v = n \<and> rp_AppContract v = a) rs), d)"
proof -
  have d: "db_faults d = []" "db_committed d ''convenience_reports'' = Some (reports_table E rs)"
    using assms(1) by (simp_all only: reports_in_def)
  let ?P = "\<lambda>v. rp_InputIndex v = n \<and> rp_AppContract v = a"
  have parse: "parse_query ''SELECT 
		input_index, 
		output_index, 
		payload, 
		app_contract FROM convenience_reports WHERE input_index = $1 AND app_contract = $2'' = Some (SSelect report_sel ''convenience_reports''
      [(''input_index'', ''='', 1), (''app_contract'', ''='', 2)] [] None None)"
    by code_simp
  have u: "uint (of_int n :: u64) = n" "unat (of_int n :: u64) < 2 ^ 63"
    using uint_of_int_small [OF assms(2,3)] by simp_all
  have "first_row ''SELECT 
		input_index, 
		output_index, 
		payload, 
		app_contract FROM convenience_reports WHERE input_index = $1 AND app_contract = $2'' [AU64 (of_int n), AStr (addr_Hex E a)] (parseReport E) d =
      (Inr (map_option (\<lambda>v. v) (find ?P rs)), d)"
    using u d assms(4)
    by (intro first_row_find [OF parse, where vals = "[VInt n, VText (addr_Hex E a)]"])
      (auto simp: reports_table_def cond_ok_def known_op_def known_sel_def row_matches_def report_sel_def
        cond_holds_def sql_compare_def eth_addr_Hex_inj parseReport_row [unfolded report_sel_def])
  then show ?thesis
    by (simp add: ReportRepository_FindReportByAppContractAndIndex_def option.map_ident Let_def)
qed

lemma FindAllByInputIndex_ok:
  assumes "reports_in E rs d"
  shows "ReportRepository_FindAllByInputIndex E first lastN after before inputIndex d =
    (page_of first lastN after before (sort_key (\<lambda>v. (rp_InputIndex v, rp_Index v))
       (filter (\<lambda>v. inputIndex = None \<or> inputIndex = Some (rp_InputIndex v)) rs)), d)"
proof -
  have "report_query (case inputIndex of Some i \<Rightarrow> [filter_Eq INPUT_INDEX (itoa i)] | None \<Rightarrow> []) rs =
      Inr (sort_key (\<lambda>v. (rp_InputIndex v, rp_Index v))
        (filter (\<lambda>v. inputIndex = None \<or> inputIndex = Some (rp_InputIndex v)) rs))"
    by (auto simp: report_query_def report_acond_def report_sat_def filter_Eq_def INPUT_INDEX_def
        split: option.splits intro!: arg_cong [where f = "sort_key _"] filter_cong)
  then show ?thesis
    by (simp add: ReportRepository_FindAllByInputIndex_def Let_def FindAllReports_ok [OF assms])
qed

end
