(* ===== verification/InputRepository.thy ===== *)
theory InputRepository
  imports RepoBase
begin

text \<open>
  \<open>internal/convenience/repository/input_repository.go\<close>: the table of advance inputs. The
  database numbers its rows; the input index is an ordinary column. The status is kept in a
  text column, payloads as hex text and the timestamp in milliseconds; the outputs of an input
  are not stored with it.
\<close>

section \<open>Rows\<close>

definition INDEX_FIELD :: string where "INDEX_FIELD = ''Index''"

record inputRow =
  ir_Index :: int
  ir_Status :: int
  ir_MsgSender :: string
  ir_Payload :: string
  ir_BlockNumber :: int
  ir_BlockTimestamp :: int
  ir_PrevRandao :: string
  ir_Exception :: string
  ir_AppContract :: string

definition scan_inputRow :: "string list \<Rightarrow> sqlval list \<Rightarrow> inputRow res" where
  "scan_inputRow cs r =
     rbind (rbind (column cs r ''input_index'') scan_int) (\<lambda>index.
     rbind (rbind (column cs r ''status'') scan_int) (\<lambda>status.
     rbind (rbind (column cs r ''msg_sender'') scan_string) (\<lambda>msgSender.
     rbind (rbind (column cs r ''payload'') scan_string) (\<lambda>payload.
     rbind (rbind (column cs r ''block_number'') scan_int) (\<lambda>blockNumber.
     rbind (rbind (column cs r ''block_timestamp'') scan_int) (\<lambda>blockTimestamp.
     rbind (rbind (column cs r ''prev_randao'') scan_string) (\<lambda>prevRandao.
     rbind (rbind (column cs r ''exception'') scan_string) (\<lambda>exception.
     rbind (rbind (column cs r ''app_contract'') scan_string) (\<lambda>appContract.
     Inr \<lparr>ir_Index = index, ir_Status = status, ir_MsgSender = msgSender, ir_Payload = payload,
       ir_BlockNumber = blockNumber, ir_BlockTimestamp = blockTimestamp, ir_PrevRandao = prevRandao,
       ir_Exception = exception, ir_AppContract = appContract\<rparr>)))))))))"

definition parseRowInput :: "ethlib \<Rightarrow> inputRow \<Rightarrow> AdvanceInput" where
  "parseRowInput E row =
     \<lparr>ai_Index = ir_Index row, ai_Status = ir_Status row,
      ai_MsgSender = HexToAddress E (ir_MsgSender row), ai_Payload = Hex2Bytes E (ir_Payload row),
      ai_BlockNumber = of_int (ir_BlockNumber row),
      ai_BlockTimestamp = time_UnixMilli (ir_BlockTimestamp row),
      ai_PrevRandao = ir_PrevRandao row, ai_AppContract = HexToAddress E (ir_AppContract row),
      ai_Vouchers = [], ai_Notices = [], ai_Reports = [],
      ai_Exception = Hex2Bytes E (ir_Exception row)\<rparr>"

definition parseInput :: "ethlib \<Rightarrow> sqlval list \<Rightarrow> AdvanceInput res" where
  "parseInput E row = (case row of
       [c0, c1, c2, c3, c4, c5, c6, c7, c8] \<Rightarrow>
         rbind (scan_int c0) (\<lambda>index.
         rbind (scan_int c1) (\<lambda>status.
         rbind (scan_string c2) (\<lambda>msgSender.
         rbind (scan_string c3) (\<lambda>payload.
         rbind (scan_u64 c4) (\<lambda>blockNumber.
         rbind (scan_int c5) (\<lambda>blockTimestamp.
         rbind (scan_string c6) (\<lambda>prevRandao.
         rbind (scan_string c7) (\<lambda>exception.
         rbind (scan_string c8) (\<lambda>appContract.
         Inr \<lparr>ai_Index = index, ai_Status = status, ai_MsgSender = HexToAddress E msgSender,
           ai_Payload = Hex2Bytes E payload, ai_BlockNumber = blockNumber,
           ai_BlockTimestamp = time_UnixMilli blockTimestamp, ai_PrevRandao = prevRandao,
           ai_AppContract = HexToAddress E appContract, ai_Vouchers = [], ai_Notices = [],
           ai_Reports = [], ai_Exception = Hex2Bytes E exception\<rparr>)))))))))
     | _ \<Rightarrow> Inl (EDb ''sql: expected other number of destination arguments in Scan''))"

section \<open>The filter clause\<close>

fun transformToInputQuery_loop ::
  "ConvenienceFilter list \<Rightarrow> string list \<Rightarrow> goarg list \<Rightarrow> int \<Rightarrow>
   (string list \<times> goarg list \<times> int) res" where
  "transformToInputQuery_loop [] where' args count' = Inr (where', args, count')"
| "transformToInputQuery_loop (f # filters) where' args count' =
     rbind (deref (cf_Field f)) (\<lambda>field.
     if field = INDEX_FIELD then
       (case cf_Eq f of
          Some v \<Rightarrow> transformToInputQuery_loop filters (where' @ [''input_index = $'' @ itoa count' @ '' ''])
              (args @ [AStr v]) (count' + 1)
        | None \<Rightarrow> (case cf_Gt f of
          Some v \<Rightarrow> transformToInputQuery_loop filters (where' @ [''input_index > $'' @ itoa count' @ '' ''])
              (args @ [AStr v]) (count' + 1)
        | None \<Rightarrow> (case cf_Lt f of
          Some v \<Rightarrow> transformToInputQuery_loop filters (where' @ [''input_index < $'' @ itoa count' @ '' ''])
              (args @ [AStr v]) (count' + 1)
        | None \<Rightarrow> Inl (EMsg ''operation not implemented''))))
     else if field = ''Status'' then
       (case cf_Ne f of
          Some v \<Rightarrow> transformToInputQuery_loop filters (where' @ [''status <> $'' @ itoa count' @ '' ''])
              (args @ [AStr v]) (count' + 1)
        | None \<Rightarrow> Inl (EMsg ''operation not implemented''))
     else if field = ''MsgSender'' then
       (case cf_Eq f of
          Some v \<Rightarrow> transformToInputQuery_loop filters (where' @ [''msg_sender = $'' @ itoa count' @ '' ''])
              (args @ [AStr v]) (count' + 1)
        | None \<Rightarrow> Inl (EMsg ''operation not implemented''))
     else Inl (EMsg (''unexpected field '' @ field)))"

definition transformToInputQuery ::
  "ConvenienceFilter list \<Rightarrow> (string \<times> goarg list \<times> int) res" where
  "transformToInputQuery filters =
     (let query = (if filters \<noteq> [] then WHERE else [])
      in rbind (transformToInputQuery_loop filters [] [] 1) (\<lambda>(where', args, count').
         Inr (query @ join '' and '' where', args, count')))"

section \<open>Methods\<close>

text \<open>The schema with the type of the \<open>id\<close> column filled in (\<open>fmt.Sprintf\<close>).\<close>

definition InputRepository_schema :: "string \<Rightarrow> string" where
  "InputRepository_schema autoIncrement =
''CREATE TABLE IF NOT EXISTS convenience_inputs (
		id 				'' @ autoIncrement @
'' NOT NULL PRIMARY KEY,
		input_index		integer,
		app_contract    text,
		status	 		text,
		msg_sender	 	text,
		payload			text,
		block_number	integer,
		block_timestamp	integer,
		prev_randao		text,
		exception		text);
	CREATE INDEX IF NOT EXISTS idx_input_index ON convenience_inputs(input_index);
	CREATE INDEX IF NOT EXISTS idx_status ON convenience_inputs(status);''"

definition InputRepository_CreateTables :: "string \<Rightarrow> (db, unit) comp" where
  "InputRepository_CreateTables driverName =
     (let autoIncrement = (if driverName = ''postgres'' then ''SERIAL'' else ''INTEGER'')
      in db_Exec (InputRepository_schema autoIncrement) [])"

definition insertInput :: string where
  "insertInput =
''INSERT INTO convenience_inputs (
		input_index,
		status,
		msg_sender,
		payload,
		block_number,
		block_timestamp,
		prev_randao,
		exception,
		app_contract
	) VALUES (
		$1,
		$2,
		$3,
		$4,
		$5,
		$6,
		$7,
		$8,
		$9
	);''"

definition InputRepository_rawCreate ::
  "ethlib \<Rightarrow> ctx \<Rightarrow> AdvanceInput \<Rightarrow> (db, AdvanceInput) comp" where
  "InputRepository_rawCreate E ctx input =
     andThen (DBExecutor_ExecContext ctx insertInput
       [AInt (ai_Index input), AInt (ai_Status input), AStr (addr_Hex E (ai_MsgSender input)),
        AStr (Bytes2Hex E (ai_Payload input)), AU64 (ai_BlockNumber input),
        AInt (UnixMilli_of (ai_BlockTimestamp input)), AStr (ai_PrevRandao input),
        AStr (Bytes2Hex E (ai_Exception input)), AStr (addr_Hex E (ai_AppContract input))]) (\<lambda>_.
     ret input)"

definition InputRepository_RawCreate ::
  "ethlib \<Rightarrow> ctx \<Rightarrow> AdvanceInput \<Rightarrow> (db, AdvanceInput) comp" where
  "InputRepository_RawCreate E ctx input = InputRepository_rawCreate E ctx input"

definition InputRepository_FindByIndex :: "ethlib \<Rightarrow> int \<Rightarrow> (db, AdvanceInput option) comp" where
  "InputRepository_FindByIndex E index =
     (let sql =
''SELECT
		input_index,
		status,
		msg_sender,
		payload,
		block_number,
		block_timestamp,
		prev_randao,
		exception,
		app_contract FROM convenience_inputs WHERE input_index = $1''
      in first_row sql [AInt index] (parseInput E))"

definition InputRepository_Create ::
  "ethlib \<Rightarrow> ctx \<Rightarrow> AdvanceInput \<Rightarrow> (db, AdvanceInput) comp" where
  "InputRepository_Create E ctx input =
     andThen (InputRepository_FindByIndex E (ai_Index input)) (\<lambda>exist.
     case exist of
       Some i \<Rightarrow> ret i
     | None \<Rightarrow> InputRepository_rawCreate E ctx input)"

definition updateInput :: string where
  "updateInput =
''UPDATE convenience_inputs
		SET status = $1, exception = $2
		WHERE input_index = $3''"

definition InputRepository_Update ::
  "ethlib \<Rightarrow> ctx \<Rightarrow> AdvanceInput \<Rightarrow> (db, AdvanceInput) comp" where
  "InputRepository_Update E ctx input =
     andThen (DBExecutor_ExecContext ctx updateInput
       [AInt (ai_Status input), AStr (Bytes2Hex E (ai_Exception input)), AInt (ai_Index input)]) (\<lambda>_.
     ret input)"

definition InputRepository_FindByStatusNeDesc ::
  "ethlib \<Rightarrow> CompletionStatus \<Rightarrow> (db, AdvanceInput option) comp" where
  "InputRepository_FindByStatusNeDesc E status =
     (let sql =
''SELECT
		input_index,
		status,
		msg_sender,
		payload,
		block_number,
		timestamp,
		exception,
		app_contract FROM convenience_inputs WHERE status <> $1
		ORDER BY input_index DESC''
      in first_row sql [AInt status] (parseInput E))"

definition InputRepository_FindByStatus ::
  "ethlib \<Rightarrow> CompletionStatus \<Rightarrow> (db, AdvanceInput option) comp" where
  "InputRepository_FindByStatus E status =
     (let sql =
''SELECT
		input_index,
		status,
		msg_sender,
		payload,
		block_number,
		block_timestamp,
		prev_randao,
		exception,
		app_contract FROM convenience_inputs WHERE status = $1
		ORDER BY input_index ASC''
      in first_row sql [AInt status] (parseInput E))"

definition InputRepository_FindInputByAppContractAndIndex ::
  "ethlib \<Rightarrow> int \<Rightarrow> address \<Rightarrow> (db, AdvanceInput option) comp" where
  "InputRepository_FindInputByAppContractAndIndex E index appContract =
     (let sql =
''SELECT
		input_index,
		status,
		msg_sender,
		payload,
		block_number,
		block_timestamp,
		prev_randao,
		exception,
		app_contract FROM convenience_inputs WHERE input_index = $1 AND app_contract = $2''
      in first_row sql [AInt index, AStr (addr_Hex E appContract)] (parseInput E))"

definition InputRepository_Count :: "ConvenienceFilter list \<Rightarrow> (db, u64) comp" where
  "InputRepository_Count filters =
     (let query = ''SELECT count(*) FROM convenience_inputs ''
      in andThen (lift_res (transformToInputQuery filters)) (\<lambda>(where', args, _).
         let query = query @ where'
         in andThen (db_Get query args) (\<lambda>(_, r).
            lift_res (scan_u64 (hd r)))))"

definition findAllInputs :: string where
  "findAllInputs =
''SELECT
		input_index,
		status,
		msg_sender,
		payload,
		block_number,
		block_timestamp,
		prev_randao,
		exception,
		app_contract FROM convenience_inputs ''"

definition InputRepository_FindAll ::
  "ethlib \<Rightarrow> int option \<Rightarrow> int option \<Rightarrow> string option \<Rightarrow> string option \<Rightarrow> ConvenienceFilter list \<Rightarrow>
   (db, AdvanceInput PageResult) comp" where
  "InputRepository_FindAll E first lastN after before filters =
     andThen (InputRepository_Count filters) (\<lambda>tot.
     let query = findAllInputs
     in andThen (lift_res (transformToInputQuery filters)) (\<lambda>(where', args, argsCount).
     let query = query @ where';
         query = query @ ''ORDER BY input_index ASC ''
     in andThen (lift_res (ComputePage first lastN after before (sint tot))) (\<lambda>(offset, limit).
     let query = query @ ''LIMIT $'' @ itoa argsCount @ '' '';
         args = args @ [AInt limit];
         argsCount = argsCount + 1;
         query = query @ ''OFFSET $'' @ itoa argsCount @ '' '';
         args = args @ [AInt offset]
     in andThen (db_Select query args) (\<lambda>(cs, rs).
        andThen (lift_res (rmap (scan_inputRow cs) rs)) (\<lambda>rows.
        ret \<lparr>Total = tot, Offset = of_int offset, Rows = map (parseRowInput E) rows\<rparr>)))))"

section \<open>The table of inputs\<close>

definition input_cols :: "coldef list" where
  "input_cols =
     [\<lparr>cd_name = ''id'', cd_aff = AffNumeric\<rparr>, \<lparr>cd_name = ''input_index'', cd_aff = AffNumeric\<rparr>,
      \<lparr>cd_name = ''app_contract'', cd_aff = AffText\<rparr>, \<lparr>cd_name = ''status'', cd_aff = AffText\<rparr>,
      \<lparr>cd_name = ''msg_sender'', cd_aff = AffText\<rparr>, \<lparr>cd_name = ''payload'', cd_aff = AffText\<rparr>,
      \<lparr>cd_name = ''block_number'', cd_aff = AffNumeric\<rparr>,
      \<lparr>cd_name = ''block_timestamp'', cd_aff = AffNumeric\<rparr>,
      \<lparr>cd_name = ''prev_randao'', cd_aff = AffText\<rparr>, \<lparr>cd_name = ''exception'', cd_aff = AffText\<rparr>]"

text \<open>A row is an input with the number the database gave it.\<close>

definition input_row :: "ethlib \<Rightarrow> nat \<times> AdvanceInput \<Rightarrow> sqlval list" where
  "input_row E = (\<lambda>(k, x).
     [VInt (int k), VInt (ai_Index x), VText (addr_Hex E (ai_AppContract x)), VText (itoa (ai_Status x)),
      VText (addr_Hex E (ai_MsgSender x)), VText (Bytes2Hex E (ai_Payload x)),
      VInt (uint (ai_BlockNumber x)), VInt (UnixMilli_of (ai_BlockTimestamp x)),
      VText (ai_PrevRandao x), VText (Bytes2Hex E (ai_Exception x))])"

definition inputs_table :: "ethlib \<Rightarrow> AdvanceInput list \<Rightarrow> table" where
  "inputs_table E xs = mk_table input_cols [] True (input_row E) (enumerate 1 xs)"

text \<open>What of an input the table keeps.\<close>

definition stored_input :: "AdvanceInput \<Rightarrow> AdvanceInput" where
  "stored_input x = x\<lparr>ai_BlockTimestamp := time_UnixMilli (UnixMilli_of (ai_BlockTimestamp x)),
     ai_Vouchers := [], ai_Notices := [], ai_Reports := []\<rparr>"

definition input_small :: "AdvanceInput \<Rightarrow> bool" where
  "input_small x \<longleftrightarrow> - (2 ^ 63) \<le> ai_Status x \<and> ai_Status x < 2 ^ 63 \<and> unat (ai_BlockNumber x) < 2 ^ 63"

definition input_sel :: selection where
  "input_sel = SelCols [''input_index'', ''status'', ''msg_sender'', ''payload'', ''block_number'',
     ''block_timestamp'', ''prev_randao'', ''exception'', ''app_contract'']"

lemma InputRepository_schema_parse:
  assumes "ty = ''INTEGER'' \<or> ty = ''SERIAL''"
  shows "parse_script (InputRepository_schema ty) =
    Some [SCreateTable ''convenience_inputs'' input_cols [] True, SCreateIndex, SCreateIndex]"
proof -
  have "parse_script (InputRepository_schema ''INTEGER'') =
      Some [SCreateTable ''convenience_inputs'' input_cols [] True, SCreateIndex, SCreateIndex]"
    unfolding InputRepository_schema_def by code_simp
  moreover have "parse_script (InputRepository_schema ''SERIAL'') =
      Some [SCreateTable ''convenience_inputs'' input_cols [] True, SCreateIndex, SCreateIndex]"
    unfolding InputRepository_schema_def by code_simp
  ultimately show ?thesis using assms by blast
qed

lemma insertInput_parse:
  "parse_script insertInput = Some [SInsert ''convenience_inputs''
     [''input_index'', ''status'', ''msg_sender'', ''payload'', ''block_number'', ''block_timestamp'',
      ''prev_randao'', ''exception'', ''app_contract''] [1, 2, 3, 4, 5, 6, 7, 8, 9]]"
  unfolding insertInput_def by code_simp

lemma updateInput_parse:
  "parse_script updateInput = Some [SUpdate ''convenience_inputs''
     [(''status'', 1), (''exception'', 2)] [(''input_index'', ''='', 3)]]"
  unfolding updateInput_def by code_simp

lemma input_col_index [simp]:
  "col_index (shape input_cols) ''input_index'' = Some 1"
  "col_index (shape input_cols) ''app_contract'' = Some 2"
  "col_index (shape input_cols) ''status'' = Some 3"
  "col_index (shape input_cols) ''msg_sender'' = Some 4"
  "col_index (shape input_cols) ''payload'' = Some 5"
  "col_index (shape input_cols) ''block_number'' = Some 6"
  "col_index (shape input_cols) ''block_timestamp'' = Some 7"
  "col_index (shape input_cols) ''prev_randao'' = Some 8"
  "col_index (shape input_cols) ''exception'' = Some 9"
  "col_index (shape input_cols) ''timestamp'' = None"
  by (simp_all add: col_index_def input_cols_def)

lemma input_aff [simp]:
  "cd_aff (input_cols ! Suc 0) = AffNumeric" "cd_aff (input_cols ! 2) = AffText"
  "cd_aff (input_cols ! 3) = AffText" "cd_aff (input_cols ! 4) = AffText"
  "cd_aff (input_cols ! 9) = AffText"
  by (simp_all add: input_cols_def)

lemma input_row_nth [simp]:
  "input_row E kx ! Suc 0 = VInt (ai_Index (snd kx))"
  "input_row E kx ! 2 = VText (addr_Hex E (ai_AppContract (snd kx)))"
  "input_row E kx ! 3 = VText (itoa (ai_Status (snd kx)))"
  "input_row E kx ! 4 = VText (addr_Hex E (ai_MsgSender (snd kx)))"
  by (simp_all add: input_row_def split_beta)

lemma input_sel_row [simp]:
  "sel_row (shape input_cols) input_sel (input_row E (k, x)) =
     [VInt (ai_Index x), VText (itoa (ai_Status x)), VText (addr_Hex E (ai_MsgSender x)),
      VText (Bytes2Hex E (ai_Payload x)), VInt (uint (ai_BlockNumber x)),
      VInt (UnixMilli_of (ai_BlockTimestamp x)), VText (ai_PrevRandao x),
      VText (Bytes2Hex E (ai_Exception x)), VText (addr_Hex E (ai_AppContract x))]"
  by (simp add: sel_row_def input_sel_def project_def) (simp add: input_row_def)

lemma scan_int_status [simp]:
  "input_small x \<Longrightarrow> scan_int (VText (itoa (ai_Status x))) = Inr (ai_Status x)"
  by (simp add: scan_int_def input_small_def Atoi_itoa)

lemma parseInput_row:
  "eth_laws E \<Longrightarrow> input_small (snd kx) \<Longrightarrow>
   parseInput E (sel_row (shape input_cols) input_sel (input_row E kx)) = Inr (stored_input (snd kx))"
  by (cases kx) (simp add: parseInput_def eth_HexToAddress eth_Hex2Bytes stored_input_def)

lemma scan_inputRow_row:
  "eth_laws E \<Longrightarrow> input_small (snd kx) \<Longrightarrow>
   rbind (scan_inputRow (sel_cols (shape input_cols) input_sel)
     (sel_row (shape input_cols) input_sel (input_row E kx))) (\<lambda>r. Inr (parseRowInput E r)) =
   Inr (stored_input (snd kx))"
  by (cases kx) (simp add: scan_inputRow_def sel_cols_def input_sel_def column_def parseRowInput_def
      input_sel_row [unfolded input_sel_def] eth_HexToAddress eth_Hex2Bytes stored_input_def)


subsection \<open>Filters\<close>

definition input_acond :: "ConvenienceFilter \<Rightarrow> acond res" where
  "input_acond f =
     rbind (deref (cf_Field f)) (\<lambda>field.
     if field = INDEX_FIELD then
       (case (cf_Eq f, cf_Gt f, cf_Lt f) of
          (Some v, _, _) \<Rightarrow> Inr (''input_index'', ''='', AStr v)
        | (None, Some v, _) \<Rightarrow> Inr (''input_index'', ''>'', AStr v)
        | (None, None, Some v) \<Rightarrow> Inr (''input_index'', ''<'', AStr v)
        | _ \<Rightarrow> Inl (EMsg ''operation not implemented''))
     else if field = ''Status'' then
       (case cf_Ne f of Some v \<Rightarrow> Inr (''status'', ''<>'', AStr v)
        | None \<Rightarrow> Inl (EMsg ''operation not implemented''))
     else if field = ''MsgSender'' then
       (case cf_Eq f of Some v \<Rightarrow> Inr (''msg_sender'', ''='', AStr v)
        | None \<Rightarrow> Inl (EMsg ''operation not implemented''))
     else Inl (EMsg (''unexpected field '' @ field)))"

text \<open>
  A value that is not a number compares as the database compares a text with a number: it is
  above all of them.
\<close>

definition input_sat :: "ethlib \<Rightarrow> ConvenienceFilter \<Rightarrow> AdvanceInput \<Rightarrow> bool" where
  "input_sat E f x =
     (if cf_Field f = Some INDEX_FIELD then
        (case (cf_Eq f, cf_Gt f, cf_Lt f) of
           (Some v, _, _) \<Rightarrow> dec_to_int v = Some (ai_Index x)
         | (None, Some v, _) \<Rightarrow> (case dec_to_int v of Some i \<Rightarrow> i < ai_Index x | None \<Rightarrow> False)
         | (None, None, Some v) \<Rightarrow> (case dec_to_int v of Some i \<Rightarrow> ai_Index x < i | None \<Rightarrow> True)
         | _ \<Rightarrow> False)
      else if cf_Field f = Some ''Status'' then cf_Ne f \<noteq> Some (itoa (ai_Status x))
      else cf_Eq f = Some (addr_Hex E (ai_MsgSender x)))"

interpretation input_where: where_builder transformToInputQuery_loop input_acond
proof
  fix fs w as n f
  show "transformToInputQuery_loop [] w as n = Inr (w, as, n)" by simp
  show "transformToInputQuery_loop (f # fs) w as n = rbind (input_acond f) (\<lambda>(c, op, a).
      transformToInputQuery_loop fs (w @ [c @ '' '' @ op @ '' $'' @ itoa n @ '' '']) (as @ [a]) (n + 1))"
    by (cases "cf_Field f"; cases "cf_Eq f"; cases "cf_Gt f"; cases "cf_Lt f"; cases "cf_Ne f")
      (simp_all add: input_acond_def)
qed

lemma transformToInputQuery_spec:
  "transformToInputQuery fs = rbind (rmap input_acond fs) (\<lambda>acs.
     Inr (conds_text (number_from 1 acs), map acond_arg acs, 1 + int (length acs)))"
  unfolding input_where.clause_spec [symmetric] transformToInputQuery_def Let_def WHERE_def ..

lemma input_acond_fine:
  "input_acond f = Inr ac \<Longrightarrow> acond_ok (shape input_cols) ac \<and> acond_words ac"
  by (cases "cf_Field f"; cases "cf_Eq f"; cases "cf_Gt f"; cases "cf_Lt f"; cases "cf_Ne f")
    (auto simp: input_acond_def acond_ok_def acond_words_def known_op_def word_def is_space_def
      is_punct_def split: if_splits)

lemma input_acond_sat:
  assumes "input_acond f = Inr ac"
  shows "acond_holds (shape input_cols) (input_row E kx) ac = input_sat E f (snd kx)"
  using assms
  by (cases "cf_Field f"; cases "cf_Eq f"; cases "cf_Gt f"; cases "cf_Lt f"; cases "cf_Ne f")
    (auto simp: input_acond_def input_sat_def acond_holds_def arg_val_def sql_compare_def INDEX_FIELD_def
      split: if_splits option.splits)

subsection \<open>Paged queries\<close>

definition input_unrow :: "ethlib \<Rightarrow> sqlval list \<Rightarrow> AdvanceInput" where
  "input_unrow E r = projr (parseInput E (sel_row (shape input_cols) input_sel r))"

lemma input_heads:
  "select_head ''SELECT count(*) FROM convenience_inputs '' SelCount ''convenience_inputs''"
  "select_head findAllInputs input_sel ''convenience_inputs''"
  "order_tail ''ORDER BY input_index ASC '' [(''input_index'', False)]"
proof -
  have "tokens ''SELECT count(*) FROM convenience_inputs '' = [''SELECT'', ''count'', ''('', ''*'', '')'', ''FROM'', ''convenience_inputs'']"
    by code_simp
  then show "select_head ''SELECT count(*) FROM convenience_inputs '' SelCount ''convenience_inputs''"
    by (rule select_head_count) (simp_all add: ends_blank_def)
  have "tokens findAllInputs = ''SELECT'' # [''input_index'', '','', ''status'', '','', ''msg_sender'', '','',
      ''payload'', '','', ''block_number'', '','', ''block_timestamp'', '','', ''prev_randao'', '','',
      ''exception'', '','', ''app_contract'', ''FROM'', ''convenience_inputs'']"
    unfolding findAllInputs_def by code_simp
  then show "select_head findAllInputs input_sel ''convenience_inputs''"
    by (rule select_headI) (simp_all add: findAllInputs_def ends_blank_def p_selection_def input_sel_def)
  have "tokens ''ORDER BY input_index ASC '' = [''ORDER'', ''BY'', ''input_index'', ''ASC'']" by code_simp
  then show "order_tail ''ORDER BY input_index ASC '' [(''input_index'', False)]"
    by (rule order_tail_single) (simp_all add: ends_blank_def)
qed

interpretation input_paged: paged_repo "''convenience_inputs''" input_cols "[]" True
  "input_row E" "input_unrow E" "\<lambda>kx. eth_laws E \<and> input_small (snd kx)" "\<lambda>kx. stored_input (snd kx)"
  "''SELECT count(*) FROM convenience_inputs ''" findAllInputs input_sel "''ORDER BY input_index ASC ''" "[(''input_index'', False)]"
  input_acond transformToInputQuery
  "\<lambda>cs r. rbind (scan_inputRow cs r) (\<lambda>row. Inr (parseRowInput E row))" for E
proof (unfold_locales, rule input_heads, rule input_heads, rule input_heads)
  fix kx :: "nat \<times> AdvanceInput"
  assume ok: "eth_laws E \<and> input_small (snd kx)"
  then show "rbind (scan_inputRow (sel_cols (shape input_cols) input_sel)
      (sel_row (shape input_cols) input_sel (input_row E kx)))
      (\<lambda>row. Inr (parseRowInput E row)) = Inr (stored_input (snd kx))"
    by (intro scan_inputRow_row) simp_all
  show "input_unrow E (input_row E kx) = stored_input (snd kx)"
    using ok by (simp only: input_unrow_def parseInput_row sum.sel)
qed (simp_all add: transformToInputQuery_spec input_acond_fine known_sel_def input_sel_def)

lemma FindAllInputs_steps:
  "InputRepository_FindAll E first lastN after before fs =
     andThen (count_step ''SELECT count(*) FROM convenience_inputs '' (transformToInputQuery fs))
       (page_step findAllInputs ''ORDER BY input_index ASC '' (transformToInputQuery fs)
         (\<lambda>cs r. rbind (scan_inputRow cs r) (\<lambda>row. Inr (parseRowInput E row)))
         first lastN after before)"
proof -
  have "InputRepository_Count fs = count_step ''SELECT count(*) FROM convenience_inputs '' (transformToInputQuery fs)"
    by (simp add: InputRepository_Count_def count_step_def Let_def)
  then show ?thesis
    by (simp add: InputRepository_FindAll_def page_step_def [abs_def] Let_def andThen_rmap_map)
qed

definition inputs_in :: "ethlib \<Rightarrow> AdvanceInput list \<Rightarrow> db \<Rightarrow> bool" where
  "inputs_in E xs d \<longleftrightarrow> db_faults d = [] \<and>
     db_committed d ''convenience_inputs'' = Some (inputs_table E xs) \<and>
     (xs \<noteq> [] \<longrightarrow> eth_laws E) \<and> list_all input_small xs \<and> length xs < 2 ^ 63"

lemma inputs_in_ok:
  assumes "inputs_in E xs d" and "kx \<in> set (enumerate n xs)"
  shows "eth_laws E" "input_small (snd kx)"
  using assms snd_enumerate [OF assms(2)] by (auto simp: inputs_in_def list_all_iff)

lemma inputs_in_holds: "inputs_in E xs d \<Longrightarrow> input_paged.holds E (enumerate 1 xs) d"
  unfolding input_paged.holds_def list_all_iff
  by (auto simp: inputs_in_def inputs_table_def list_all_iff dest: snd_enumerate)

definition input_query ::
  "ethlib \<Rightarrow> ConvenienceFilter list \<Rightarrow> AdvanceInput list \<Rightarrow> AdvanceInput list res" where
  "input_query E fs xs = rbind (rmap input_acond fs) (\<lambda>_.
     Inr (map stored_input (sort_key ai_Index (filter (\<lambda>x. list_all (\<lambda>f. input_sat E f x) fs) xs))))"

lemma input_rows_for:
  assumes "inputs_in E xs d"
  shows "input_paged.rows_for E fs d = input_query E fs xs"
proof (cases "rmap input_acond fs")
  case (Inl e)
  then show ?thesis by (simp add: input_paged.rows_for_def input_query_def)
next
  case (Inr acs)
  have sat: "list_all (acond_holds (shape input_cols) (input_row E kx)) acs =
      list_all (\<lambda>f. input_sat E f (snd kx)) fs" for kx
    by (rule rmap_list_all [OF Inr]) (rule input_acond_sat)
  let ?P = "\<lambda>kx. list_all (\<lambda>f. input_sat E f (snd kx)) fs"
  let ?rs = "sort_key (\<lambda>kx. ai_Index (snd kx)) (filter ?P (enumerate 1 xs))"
  have "selected (inputs_table E xs) [(''input_index'', False)] acs = map (input_row E) ?rs"
    unfolding selected_def inputs_table_def selected_filter
    by (subst sort_rows_one [where i = 1]) (simp_all add: sat)
  moreover have "map (input_unrow E) (map (input_row E) ?rs) = map (\<lambda>kx. stored_input (snd kx)) ?rs"
  proof -
    have "input_unrow E (input_row E kx) = stored_input (snd kx)" if "kx \<in> set ?rs" for kx
    proof -
      have "kx \<in> set (enumerate 1 xs)" using that by simp
      from inputs_in_ok [OF assms this] show ?thesis
        by (simp only: input_unrow_def parseInput_row sum.sel)
    qed
    then show ?thesis by (simp only: map_map comp_def cong: map_cong)
  qed
  moreover have "map (\<lambda>kx. stored_input (snd kx)) ?rs = map stored_input (map snd ?rs)" by simp
  ultimately show ?thesis
    using assms Inr by (simp only: input_paged.rows_for_def input_query_def inputs_in_def sort_key_snd
        filter_enumerate [where P = "\<lambda>x. list_all (\<lambda>f. input_sat E f x) fs"] rbind_simps option.case)
qed

lemma FindAllInputs_ok:
  assumes "inputs_in E xs d"
  shows "InputRepository_FindAll E first lastN after before fs d =
    (rbind (input_query E fs xs) (page_of first lastN after before), d)"
  using input_paged.find_all_ok [OF inputs_in_holds [OF assms], of fs first lastN after before]
  by (simp add: FindAllInputs_steps input_rows_for [OF assms])

interpretation input_query: paged_query "InputRepository_FindAll E"
  "input_paged.rows_for E" "\<lambda>d. \<exists>xs. inputs_in E xs d" for E
proof
  fix d fs rows e and first lastN after before
  assume "\<exists>xs. inputs_in E xs d"
  then obtain xs where xs: "inputs_in E xs d" ..
  note h = inputs_in_holds [OF xs]
  show "InputRepository_FindAll E first lastN after before fs d = (page_of first lastN after before rows, d)"
    if "input_paged.rows_for E fs d = Inr rows"
    using that FindAllInputs_ok [OF xs] by (simp add: input_rows_for [OF xs])
  show "InputRepository_FindAll E first lastN after before fs d = (Inl e, d)"
    if "input_paged.rows_for E fs d = Inl e"
    using that FindAllInputs_ok [OF xs] by (simp add: input_rows_for [OF xs])
  show "length rows < 2 ^ 63" if "input_paged.rows_for E fs d = Inr rows"
    using input_paged.rows_for_small [OF h that] .
qed

end
