(* ===== verification/InputLaws.thy ===== *)
theory InputLaws
  imports InputRepository
begin

text \<open>
  What the writes and lookups of \<open>InputRepository\<close> do on a table of typed inputs.
\<close>

lemma InputRepository_CreateTables_ok:
  assumes "db_faults d = []" and "db_committed d ''convenience_inputs'' = None"
  shows "InputRepository_CreateTables drv d =
    (Inr (), d\<lparr>db_committed := (db_committed d)(''convenience_inputs'' \<mapsto> inputs_table E [])\<rparr>)"
  using assms InputRepository_schema_parse
  by (simp add: InputRepository_CreateTables_def db_Exec_def pop_fault_def sql_exec_def Let_def
      run_stmt_def inputs_table_def mk_table_def)

lemma next_id_inputs: "next_id (inputs_table E xs) = int (length xs) + 1"
proof -
  have "foldr (\<lambda>row m. case row of VInt i # _ \<Rightarrow> max i m | _ \<Rightarrow> m) (map (input_row E) (enumerate n xs)) 0 =
      (if xs = [] then 0 else int n + int (length xs) - 1)" for n
    by (induction xs arbitrary: n) (auto simp: input_row_def)
  from this [of 1] show ?thesis by (simp add: next_id_def inputs_table_def del: enumerate_simps)
qed

lemma rawCreate_ok:
  assumes "db_faults d = []" and "target ctx d = Some ts" and "input_small x"
    and "ts ''convenience_inputs'' = Some (inputs_table E xs)"
  shows "InputRepository_rawCreate E ctx x d =
    (Inr x, set_target ctx (ts(''convenience_inputs'' \<mapsto> inputs_table E (xs @ [x]))) d)"
proof -
  let ?cs = "[''input_index'', ''status'', ''msg_sender'', ''payload'', ''block_number'',
      ''block_timestamp'', ''prev_randao'', ''exception'', ''app_contract'']"
  let ?vals = "[VInt (ai_Index x), VInt (ai_Status x), VText (addr_Hex E (ai_MsgSender x)),
      VText (Bytes2Hex E (ai_Payload x)), VInt (uint (ai_BlockNumber x)),
      VInt (UnixMilli_of (ai_BlockTimestamp x)), VText (ai_PrevRandao x),
      VText (Bytes2Hex E (ai_Exception x)), VText (addr_Hex E (ai_AppContract x))]"
  let ?t = "mk_table input_cols [] True (input_row E) (enumerate 1 xs)"
  have "map (insert_value ?t ?cs ?vals) [0..<length input_cols] = input_row E (Suc (length xs), x)"
    using next_id_inputs [of E xs, unfolded inputs_table_def]
    by (simp add: input_cols_def insert_value_def input_row_def upt_rec del: enumerate_simps)
  moreover have "map (\<lambda>n. ?vals ! (n - 1)) [1, 2, 3, 4, 5, 6, 7, 8, 9 :: nat] = ?vals" by simp
  ultimately have "run_insert ?t ?cs [1, 2, 3, 4, 5, 6, 7, 8, 9] ?vals =
      Inr (mk_table input_cols [] True (input_row E) (enumerate 1 xs @ [(Suc (length xs), x)]))"
    by (subst run_insert_typed [where r = "(Suc (length xs), x)"]) (simp_all add: unique_ok_mk_table)
  then have ins: "run_insert (inputs_table E xs) ?cs [1, 2, 3, 4, 5, 6, 7, 8, 9] ?vals =
      Inr (inputs_table E (xs @ [x]))"
    by (simp add: inputs_table_def enumerate_append_eq)
  have "sql_exec ts insertInput [AInt (ai_Index x), AInt (ai_Status x), AStr (addr_Hex E (ai_MsgSender x)),
        AStr (Bytes2Hex E (ai_Payload x)), AU64 (ai_BlockNumber x),
        AInt (UnixMilli_of (ai_BlockTimestamp x)), AStr (ai_PrevRandao x),
        AStr (Bytes2Hex E (ai_Exception x)), AStr (addr_Hex E (ai_AppContract x))] =
      rbind (run_insert (inputs_table E xs) ?cs [1, 2, 3, 4, 5, 6, 7, 8, 9] ?vals)
        (\<lambda>t'. Inr (ts(''convenience_inputs'' \<mapsto> t')))"
    using assms(3,4) by (intro sql_exec_insert [OF insertInput_parse]) (simp_all add: input_small_def)
  then show ?thesis
    using assms(1,2) by (simp add: InputRepository_rawCreate_def andThen_apply
        DBExecutor_ExecContext_ok ins del: One_nat_def)
qed

lemma find_enumerate:
  "map_option (\<lambda>kx. f (snd kx)) (find (\<lambda>kx. P (snd kx)) (enumerate n xs)) = map_option f (find P xs)"
  by (induction xs arbitrary: n) simp_all

text \<open>A lookup by one condition on a column, and one by two.\<close>

lemma FindByIndex_ok:
  assumes "inputs_in E xs d"
  shows "InputRepository_FindByIndex E n d =
    (Inr (map_option stored_input (find (\<lambda>x. ai_Index x = n) xs)), d)"
proof -
  have parse: "parse_query
''SELECT
		input_index,
		status,
		msg_sender,
		payload,
		block_number,
		block_timestamp,
		prev_randao,
		exception,
		app_contract FROM convenience_inputs WHERE input_index = $1'' = Some (SSelect input_sel ''convenience_inputs'' [(''input_index'', ''='', 1)] [] None None)"
    by code_simp
  have "InputRepository_FindByIndex E n d =
      (Inr (map_option (\<lambda>kx. stored_input (snd kx)) (find (\<lambda>kx. ai_Index (snd kx) = n) (enumerate 1 xs))), d)"
    unfolding InputRepository_FindByIndex_def Let_def
  proof (rule first_row_find [OF parse])
    show "db_faults d = []"
      "db_committed d ''convenience_inputs'' = Some (mk_table input_cols [] True (input_row E) (enumerate 1 xs))"
      using assms by (simp_all add: inputs_in_def inputs_table_def)
    show "rmap bind_arg [AInt n] = Inr [VInt n]" by simp
    show "parseInput E (sel_row (shape input_cols) input_sel (input_row E kx)) = Inr (stored_input (snd kx))"
      if "kx \<in> set (enumerate 1 xs)" for kx
      using inputs_in_ok [OF assms that] by (rule parseInput_row)
  qed (auto simp: cond_ok_def known_op_def known_sel_def input_sel_def row_matches_def cond_holds_def
        sql_compare_def)
  then show ?thesis by (simp only: find_enumerate [where P = "\<lambda>x. ai_Index x = n"])
qed

lemma FindInputByAppContractAndIndex_ok:
  assumes "inputs_in E xs d" and "eth_laws E"
  shows "InputRepository_FindInputByAppContractAndIndex E n a d =
    (Inr (map_option stored_input (find (\<lambda>x. ai_Index x = n \<and> ai_AppContract x = a) xs)), d)"
proof -
  have parse: "parse_query
''SELECT
		input_index,
		status,
		msg_sender,
		payload,
		block_number,
		block_timestamp,
		prev_randao,
		exception,
		app_contract FROM convenience_inputs WHERE input_index = $1 AND app_contract = $2'' = Some (SSelect input_sel ''convenience_inputs''
      [(''input_index'', ''='', 1), (''app_contract'', ''='', 2)] [] None None)"
    by code_simp
  have "InputRepository_FindInputByAppContractAndIndex E n a d =
      (Inr (map_option (\<lambda>kx. stored_input (snd kx))
        (find (\<lambda>kx. ai_Index (snd kx) = n \<and> ai_AppContract (snd kx) = a) (enumerate 1 xs))), d)"
    unfolding InputRepository_FindInputByAppContractAndIndex_def Let_def
  proof (rule first_row_find [OF parse])
    show "db_faults d = []"
      "db_committed d ''convenience_inputs'' = Some (mk_table input_cols [] True (input_row E) (enumerate 1 xs))"
      using assms(1) by (simp_all add: inputs_in_def inputs_table_def)
    show "rmap bind_arg [AInt n, AStr (addr_Hex E a)] = Inr [VInt n, VText (addr_Hex E a)]" by simp
    show "parseInput E (sel_row (shape input_cols) input_sel (input_row E kx)) = Inr (stored_input (snd kx))"
      if "kx \<in> set (enumerate 1 xs)" for kx
      using inputs_in_ok [OF assms(1) that] by (rule parseInput_row)
  qed (auto simp: cond_ok_def known_op_def known_sel_def input_sel_def row_matches_def cond_holds_def
        sql_compare_def eth_addr_Hex_inj [OF assms(2)])
  then show ?thesis
    by (simp only: find_enumerate [where P = "\<lambda>x. ai_Index x = n \<and> ai_AppContract x = a"])
qed

text \<open>The input of a status with the lowest index; among equal indexes the one stored first.\<close>

definition lowest_index :: "AdvanceInput list \<Rightarrow> AdvanceInput option" where
  "lowest_index xs = (case sort_key ai_Index xs of [] \<Rightarrow> None | x # _ \<Rightarrow> Some x)"

lemma lowest_index_Some:
  "lowest_index xs = Some x \<Longrightarrow> x \<in> set xs \<and> (\<forall>y \<in> set xs. ai_Index x \<le> ai_Index y)"
proof -
  assume "lowest_index xs = Some x"
  then obtain ys where s: "sort_key ai_Index xs = x # ys" by (auto simp: lowest_index_def split: list.splits)
  have "sorted (map ai_Index (x # ys))" unfolding s [symmetric] by simp
  moreover have "set xs = set (x # ys)" unfolding s [symmetric] by simp
  ultimately show ?thesis by auto
qed

lemma lowest_index_None: "lowest_index xs = None \<longleftrightarrow> xs = []"
proof -
  have "sort_key ai_Index xs = [] \<longleftrightarrow> xs = []" by (metis length_0_conv length_sort)
  then show ?thesis by (auto simp: lowest_index_def split: list.splits)
qed

lemma FindByStatus_ok:
  assumes "inputs_in E xs d"
  shows "InputRepository_FindByStatus E st d =
    (Inr (map_option stored_input (lowest_index (filter (\<lambda>x. ai_Status x = st) xs))), d)"
proof -
  have parse: "parse_query
''SELECT
		input_index,
		status,
		msg_sender,
		payload,
		block_number,
		block_timestamp,
		prev_randao,
		exception,
		app_contract FROM convenience_inputs WHERE status = $1
		ORDER BY input_index ASC'' = Some (SSelect input_sel ''convenience_inputs'' [(''status'', ''='', 1)]
      [(''input_index'', False)] None None)"
    by code_simp
  let ?rs = "sort_key (\<lambda>kx. ai_Index (snd kx)) (filter (\<lambda>kx. ai_Status (snd kx) = st) (enumerate 1 xs))"
  have "InputRepository_FindByStatus E st d =
      (Inr (case ?rs of [] \<Rightarrow> None | kx # _ \<Rightarrow> Some (stored_input (snd kx))), d)"
    unfolding InputRepository_FindByStatus_def Let_def
  proof (rule first_row_ordered [OF parse])
    show "db_faults d = []"
      "db_committed d ''convenience_inputs'' = Some (mk_table input_cols [] True (input_row E) (enumerate 1 xs))"
      using assms by (simp_all add: inputs_in_def inputs_table_def)
    show "rmap bind_arg [AInt st] = Inr [VInt st]" by simp
    show "sort_rows (mk_table input_cols [] True (input_row E) (enumerate 1 xs)) [(''input_index'', False)]
        (map (input_row E) (filter (\<lambda>kx. ai_Status (snd kx) = st) (enumerate 1 xs))) = map (input_row E) ?rs"
      by (rule sort_rows_one [where i = 1]) simp_all
    show "parseInput E (sel_row (shape input_cols) input_sel (input_row E kx)) = Inr (stored_input (snd kx))"
      if "kx \<in> set ?rs" for kx
    proof -
      from that have "kx \<in> set (enumerate 1 xs)" by simp
      from inputs_in_ok [OF assms this] show ?thesis by (rule parseInput_row)
    qed
  qed (auto simp: cond_ok_def known_op_def known_sel_def input_sel_def row_matches_def cond_holds_def
        sql_compare_def itoa_inj)
  moreover have snds: "map snd ?rs = sort_key ai_Index (filter (\<lambda>x. ai_Status x = st) xs)"
    by (simp only: sort_key_snd filter_enumerate [where P = "\<lambda>x. ai_Status x = st"])
  have "(case ?rs of [] \<Rightarrow> None | kx # _ \<Rightarrow> Some (stored_input (snd kx))) =
      map_option stored_input (lowest_index (filter (\<lambda>x. ai_Status x = st) xs))"
    unfolding lowest_index_def by (cases ?rs) (simp_all flip: snds)
  ultimately show ?thesis by simp
qed

text \<open>
  The query of \<open>FindByStatusNeDesc\<close> names a column \<open>timestamp\<close> that the table does not have: it
  fails on every database the code creates.
\<close>

lemma FindByStatusNeDesc_fails:
  assumes "inputs_in E xs d"
  shows "InputRepository_FindByStatusNeDesc E st d = (Inl (EDb ''no such column''), d)"
proof -
  have parse: "parse_query
''SELECT
		input_index,
		status,
		msg_sender,
		payload,
		block_number,
		timestamp,
		exception,
		app_contract FROM convenience_inputs WHERE status <> $1
		ORDER BY input_index DESC'' = Some (SSelect (SelCols [''input_index'', ''status'', ''msg_sender'', ''payload'', ''block_number'',
      ''timestamp'', ''exception'', ''app_contract'']) ''convenience_inputs'' [(''status'', ''<>'', 1)]
      [(''input_index'', True)] None None)"
    by code_simp
  then have "sql_query (db_committed d)
''SELECT
		input_index,
		status,
		msg_sender,
		payload,
		block_number,
		timestamp,
		exception,
		app_contract FROM convenience_inputs WHERE status <> $1
		ORDER BY input_index DESC'' [AInt st] = Inl (EDb ''no such column'')"
    using assms by (simp add: sql_query_def inputs_in_def inputs_table_def run_select_def sql_error_def)
  then show ?thesis
    using assms unfolding InputRepository_FindByStatusNeDesc_def Let_def first_row_def
    by (simp only: andThen_apply db_Query_ok inputs_in_def sum.case prod.case)
qed

lemma InputCreate_ok:
  assumes "inputs_in E xs d" and "target ctx d = Some ts" and "input_small x"
    and "ts ''convenience_inputs'' = Some (inputs_table E ys)"
  shows "InputRepository_Create E ctx x d =
    (case find (\<lambda>y. ai_Index y = ai_Index x) xs of
       Some y \<Rightarrow> (Inr (stored_input y), d)
     | None \<Rightarrow> (Inr x, set_target ctx (ts(''convenience_inputs'' \<mapsto> inputs_table E (ys @ [x]))) d))"
proof -
  have "db_faults d = []" using assms(1) by (simp add: inputs_in_def)
  then show ?thesis
    using rawCreate_ok [OF _ assms(2-4)] FindByIndex_ok [OF assms(1)]
    by (simp add: InputRepository_Create_def andThen_apply split: option.splits)
qed

definition overwrite_input :: "AdvanceInput \<Rightarrow> AdvanceInput \<Rightarrow> AdvanceInput" where
  "overwrite_input x y = (if ai_Index y = ai_Index x
     then y\<lparr>ai_Status := ai_Status x, ai_Exception := ai_Exception x\<rparr> else y)"

lemma map_enumerate_apsnd:
  "map (\<lambda>kx. if P (snd kx) then apsnd f kx else kx) (enumerate n xs) =
   enumerate n (map (\<lambda>x. if P x then f x else x) xs)"
  by (induction xs arbitrary: n) simp_all

lemma UpdateInput_ok:
  assumes "db_faults d = []" and "target ctx d = Some ts"
    and "ts ''convenience_inputs'' = Some (inputs_table E xs)"
  shows "InputRepository_Update E ctx x d = (Inr x,
    set_target ctx (ts(''convenience_inputs'' \<mapsto> inputs_table E (map (overwrite_input x) xs))) d)"
proof -
  let ?vals = "[VInt (ai_Status x), VText (Bytes2Hex E (ai_Exception x)), VInt (ai_Index x)]"
  let ?sets = "[(''status'', 1), (''exception'', 2)] :: (string \<times> nat) list"
  let ?conds = "[(''input_index'', ''='', 3)] :: sqlcond list"
  let ?upd = "apsnd (\<lambda>y. y\<lparr>ai_Status := ai_Status x, ai_Exception := ai_Exception x\<rparr>)"
  have P: "row_matches (shape input_cols) ?vals ?conds (input_row E kx) \<longleftrightarrow> ai_Index (snd kx) = ai_Index x" for kx
    by (simp add: row_matches_def cond_holds_def sql_compare_def)
  have S: "set_columns (shape input_cols) ?vals ?sets (input_row E kx) = input_row E (?upd kx)" for kx
    by (cases kx) (simp add: set_columns_def input_row_def)
  have "run_update (mk_table input_cols [] True (input_row E) (enumerate 1 xs)) ?sets ?conds ?vals =
      Inr (mk_table input_cols [] True (input_row E)
        (map (\<lambda>kx. if ai_Index (snd kx) = ai_Index x then ?upd kx else kx) (enumerate 1 xs)))"
    by (rule run_update_unique) (simp_all only: P S, simp_all add: unique_ok_mk_table cond_ok_def known_op_def)
  also have "map (\<lambda>kx. if ai_Index (snd kx) = ai_Index x then ?upd kx else kx) (enumerate 1 xs) =
      enumerate 1 (map (overwrite_input x) xs)"
    unfolding overwrite_input_def [abs_def]
    by (rule map_enumerate_apsnd [where P = "\<lambda>y. ai_Index y = ai_Index x"])
  finally have "run_update (inputs_table E xs) ?sets ?conds ?vals =
      Inr (inputs_table E (map (overwrite_input x) xs))"
    by (simp add: inputs_table_def del: One_nat_def)
  moreover have "sql_exec ts updateInput [AInt (ai_Status x), AStr (Bytes2Hex E (ai_Exception x)), AInt (ai_Index x)] =
      rbind (run_update (inputs_table E xs) ?sets ?conds ?vals)
        (\<lambda>t'. Inr (ts(''convenience_inputs'' \<mapsto> t')))"
    using assms(3) by (intro sql_exec_update [OF updateInput_parse]) simp_all
  ultimately show ?thesis
    using assms(1,2) by (simp add: InputRepository_Update_def andThen_apply
        DBExecutor_ExecContext_ok del: One_nat_def)
qed

end
