(* ===== verification/SynchronizerRepository.thy ===== *)
theory SynchronizerRepository
  imports RepoBase
begin

text \<open>
  \<open>internal/convenience/repository/synchronizer_repository.go\<close>: the log of synchronizer
  fetches. Every batch appends a row with the cursors it ended at; the row with the highest
  number is the position to resume from.
\<close>

definition SynchronizerRepository_schema :: "string \<Rightarrow> string" where
  "SynchronizerRepository_schema idType =
''CREATE TABLE IF NOT EXISTS synchronizer_fetch (
		id '' @ idType @
'' NOT NULL PRIMARY KEY,
		timestamp_after bigint,
		ini_cursor_after text,
		log_vouchers_ids text,
		end_cursor_after text,
		ini_input_cursor_after text,
		end_input_cursor_after text,
		ini_report_cursor_after text,
		end_report_cursor_after text
		);''"

definition SynchronizerRepository_CreateTables :: "string \<Rightarrow> (db, unit) comp" where
  "SynchronizerRepository_CreateTables driverName =
     (let idType = (if driverName = ''postgres'' then ''SERIAL'' else ''INTEGER'')
      in db_Exec (SynchronizerRepository_schema idType) [])"

definition insertFetch :: string where
  "insertFetch =
''INSERT INTO synchronizer_fetch (
		timestamp_after,
		ini_cursor_after,
		log_vouchers_ids,
		end_cursor_after,
		ini_input_cursor_after,
		end_input_cursor_after,
		ini_report_cursor_after,
		end_report_cursor_after
		) VALUES ($1, $2, $3, $4, $5, $6, $7, $8)''"

definition SynchronizerRepository_Create ::
  "ctx \<Rightarrow> SynchronizerFetch \<Rightarrow> (db, SynchronizerFetch) comp" where
  "SynchronizerRepository_Create ctx data =
     andThen (DBExecutor_ExecContext ctx insertFetch
       [AU64 (sf_TimestampAfter data), AStr (sf_IniCursorAfter data), AStr (sf_LogVouchersIds data),
        AStr (sf_EndCursorAfter data), AStr (sf_IniInputCursorAfter data),
        AStr (sf_EndInputCursorAfter data), AStr (sf_IniReportCursorAfter data),
        AStr (sf_EndReportCursorAfter data)]) (\<lambda>_.
     ret data)"

definition SynchronizerRepository_Count :: "(db, u64) comp" where
  "SynchronizerRepository_Count =
     andThen (db_Get ''SELECT count(*) FROM synchronizer_fetch'' []) (\<lambda>(_, r).
     andThen (lift_res (scan_int (hd r))) (\<lambda>count'.
     ret (of_int count')))"

definition scan_SynchronizerFetch :: "string list \<Rightarrow> sqlval list \<Rightarrow> SynchronizerFetch res" where
  "scan_SynchronizerFetch cs r =
     rbind (rbind (column cs r ''id'') scan_int) (\<lambda>i.
     rbind (rbind (column cs r ''timestamp_after'') scan_u64) (\<lambda>timestampAfter.
     rbind (rbind (column cs r ''ini_cursor_after'') scan_string) (\<lambda>iniCursorAfter.
     rbind (rbind (column cs r ''log_vouchers_ids'') scan_string) (\<lambda>logVouchersIds.
     rbind (rbind (column cs r ''end_cursor_after'') scan_string) (\<lambda>endCursorAfter.
     rbind (rbind (column cs r ''ini_input_cursor_after'') scan_string) (\<lambda>iniInput.
     rbind (rbind (column cs r ''end_input_cursor_after'') scan_string) (\<lambda>endInput.
     rbind (rbind (column cs r ''ini_report_cursor_after'') scan_string) (\<lambda>iniReport.
     rbind (rbind (column cs r ''end_report_cursor_after'') scan_string) (\<lambda>endReport.
     Inr \<lparr>sf_Id = i, sf_TimestampAfter = timestampAfter, sf_IniCursorAfter = iniCursorAfter,
       sf_LogVouchersIds = logVouchersIds, sf_EndCursorAfter = endCursorAfter,
       sf_IniInputCursorAfter = iniInput, sf_EndInputCursorAfter = endInput,
       sf_IniReportCursorAfter = iniReport, sf_EndReportCursorAfter = endReport\<rparr>)))))))))"

definition SynchronizerRepository_GetLastFetched :: "(db, SynchronizerFetch option) comp" where
  "SynchronizerRepository_GetLastFetched =
     (let query = ''SELECT * FROM synchronizer_fetch ORDER BY id DESC LIMIT 1''
      in onError
        (andThen (db_Get query []) (\<lambda>(cs, r).
         andThen (lift_res (scan_SynchronizerFetch cs r)) (\<lambda>p.
         ret (Some p))))
        (\<lambda>err. if err = ErrNoRows then ret None else fail err))"

section \<open>The table of fetches\<close>

definition fetch_cols :: "coldef list" where
  "fetch_cols =
     [\<lparr>cd_name = ''id'', cd_aff = AffNumeric\<rparr>, \<lparr>cd_name = ''timestamp_after'', cd_aff = AffNumeric\<rparr>,
      \<lparr>cd_name = ''ini_cursor_after'', cd_aff = AffText\<rparr>, \<lparr>cd_name = ''log_vouchers_ids'', cd_aff = AffText\<rparr>,
      \<lparr>cd_name = ''end_cursor_after'', cd_aff = AffText\<rparr>,
      \<lparr>cd_name = ''ini_input_cursor_after'', cd_aff = AffText\<rparr>,
      \<lparr>cd_name = ''end_input_cursor_after'', cd_aff = AffText\<rparr>,
      \<lparr>cd_name = ''ini_report_cursor_after'', cd_aff = AffText\<rparr>,
      \<lparr>cd_name = ''end_report_cursor_after'', cd_aff = AffText\<rparr>]"

definition fetch_row :: "nat \<times> SynchronizerFetch \<Rightarrow> sqlval list" where
  "fetch_row = (\<lambda>(k, f).
     [VInt (int k), VInt (uint (sf_TimestampAfter f)), VText (sf_IniCursorAfter f),
      VText (sf_LogVouchersIds f), VText (sf_EndCursorAfter f), VText (sf_IniInputCursorAfter f),
      VText (sf_EndInputCursorAfter f), VText (sf_IniReportCursorAfter f),
      VText (sf_EndReportCursorAfter f)])"

definition fetches_table :: "SynchronizerFetch list \<Rightarrow> table" where
  "fetches_table fs = mk_table fetch_cols [] True fetch_row (enumerate 1 fs)"

lemma SynchronizerRepository_schema_parse:
  assumes "ty = ''INTEGER'' \<or> ty = ''SERIAL''"
  shows "parse_script (SynchronizerRepository_schema ty) =
    Some [SCreateTable ''synchronizer_fetch'' fetch_cols [] True]"
proof -
  have "parse_script (SynchronizerRepository_schema ''INTEGER'') =
      Some [SCreateTable ''synchronizer_fetch'' fetch_cols [] True]"
    unfolding SynchronizerRepository_schema_def by code_simp
  moreover have "parse_script (SynchronizerRepository_schema ''SERIAL'') =
      Some [SCreateTable ''synchronizer_fetch'' fetch_cols [] True]"
    unfolding SynchronizerRepository_schema_def by code_simp
  ultimately show ?thesis using assms by blast
qed

lemma insertFetch_parse:
  "parse_script insertFetch = Some [SInsert ''synchronizer_fetch''
     [''timestamp_after'', ''ini_cursor_after'', ''log_vouchers_ids'', ''end_cursor_after'',
      ''ini_input_cursor_after'', ''end_input_cursor_after'', ''ini_report_cursor_after'',
      ''end_report_cursor_after''] [1, 2, 3, 4, 5, 6, 7, 8]]"
  unfolding insertFetch_def by code_simp

lemma fetch_col_index [simp]:
  "col_index (shape fetch_cols) ''id'' = Some 0"
  "col_index (shape fetch_cols) ''timestamp_after'' = Some 1"
  "col_index (shape fetch_cols) ''ini_cursor_after'' = Some 2"
  "col_index (shape fetch_cols) ''log_vouchers_ids'' = Some 3"
  "col_index (shape fetch_cols) ''end_cursor_after'' = Some 4"
  "col_index (shape fetch_cols) ''ini_input_cursor_after'' = Some 5"
  "col_index (shape fetch_cols) ''end_input_cursor_after'' = Some 6"
  "col_index (shape fetch_cols) ''ini_report_cursor_after'' = Some 7"
  "col_index (shape fetch_cols) ''end_report_cursor_after'' = Some 8"
  by (simp_all add: col_index_def fetch_cols_def)

lemma SynchronizerRepository_CreateTables_ok:
  assumes "db_faults d = []" and "db_committed d ''synchronizer_fetch'' = None"
  shows "SynchronizerRepository_CreateTables drv d =
    (Inr (), d\<lparr>db_committed := (db_committed d)(''synchronizer_fetch'' \<mapsto> fetches_table [])\<rparr>)"
  using assms SynchronizerRepository_schema_parse
  by (simp add: SynchronizerRepository_CreateTables_def db_Exec_def pop_fault_def sql_exec_def Let_def
      run_stmt_def fetches_table_def mk_table_def)

lemma next_id_fetches: "next_id (fetches_table fs) = int (length fs) + 1"
proof -
  have "foldr (\<lambda>row m. case row of VInt i # _ \<Rightarrow> max i m | _ \<Rightarrow> m) (map fetch_row (enumerate n fs)) 0 =
      (if fs = [] then 0 else int n + int (length fs) - 1)" for n
    by (induction fs arbitrary: n) (auto simp: fetch_row_def)
  from this [of 1] show ?thesis by (simp add: next_id_def fetches_table_def del: enumerate_simps)
qed

lemma sql_exec_insertFetch:
  assumes "unat (sf_TimestampAfter f) < 2 ^ 63"
    and "ts ''synchronizer_fetch'' = Some (fetches_table fs)"
  shows "sql_exec ts insertFetch
       [AU64 (sf_TimestampAfter f), AStr (sf_IniCursorAfter f), AStr (sf_LogVouchersIds f),
        AStr (sf_EndCursorAfter f), AStr (sf_IniInputCursorAfter f),
        AStr (sf_EndInputCursorAfter f), AStr (sf_IniReportCursorAfter f),
        AStr (sf_EndReportCursorAfter f)] =
    Inr (ts(''synchronizer_fetch'' \<mapsto> fetches_table (fs @ [f])))"
proof -
  let ?cs = "[''timestamp_after'', ''ini_cursor_after'', ''log_vouchers_ids'', ''end_cursor_after'',
      ''ini_input_cursor_after'', ''end_input_cursor_after'', ''ini_report_cursor_after'',
      ''end_report_cursor_after'']"
  let ?vals = "[VInt (uint (sf_TimestampAfter f)), VText (sf_IniCursorAfter f),
      VText (sf_LogVouchersIds f), VText (sf_EndCursorAfter f), VText (sf_IniInputCursorAfter f),
      VText (sf_EndInputCursorAfter f), VText (sf_IniReportCursorAfter f),
      VText (sf_EndReportCursorAfter f)]"
  let ?t = "mk_table fetch_cols [] True fetch_row (enumerate 1 fs)"
  have "map (insert_value ?t ?cs ?vals) [0..<length fetch_cols] = fetch_row (Suc (length fs), f)"
    using next_id_fetches [of fs, unfolded fetches_table_def]
    by (simp add: fetch_cols_def insert_value_def fetch_row_def upt_rec del: enumerate_simps)
  moreover have "map (\<lambda>n. ?vals ! (n - 1)) [1, 2, 3, 4, 5, 6, 7, 8 :: nat] = ?vals" by simp
  ultimately have "run_insert ?t ?cs [1, 2, 3, 4, 5, 6, 7, 8] ?vals =
      Inr (mk_table fetch_cols [] True fetch_row (enumerate 1 fs @ [(Suc (length fs), f)]))"
    by (subst run_insert_typed [where r = "(Suc (length fs), f)"]) (simp_all add: unique_ok_mk_table)
  then have ins: "run_insert (fetches_table fs) ?cs [1, 2, 3, 4, 5, 6, 7, 8] ?vals =
      Inr (fetches_table (fs @ [f]))"
    by (simp add: fetches_table_def enumerate_append_eq)
  have "sql_exec ts insertFetch
       [AU64 (sf_TimestampAfter f), AStr (sf_IniCursorAfter f), AStr (sf_LogVouchersIds f),
        AStr (sf_EndCursorAfter f), AStr (sf_IniInputCursorAfter f),
        AStr (sf_EndInputCursorAfter f), AStr (sf_IniReportCursorAfter f),
        AStr (sf_EndReportCursorAfter f)] =
      rbind (run_insert (fetches_table fs) ?cs [1, 2, 3, 4, 5, 6, 7, 8] ?vals)
        (\<lambda>t'. Inr (ts(''synchronizer_fetch'' \<mapsto> t')))"
    using assms by (intro sql_exec_insert [OF insertFetch_parse]) simp_all
  then show ?thesis by (simp only: ins rbind_simps)
qed

lemma SynchronizerCreate_ok:
  assumes "db_faults d = []" and "target ctx d = Some ts" and "unat (sf_TimestampAfter f) < 2 ^ 63"
    and "ts ''synchronizer_fetch'' = Some (fetches_table fs)"
  shows "SynchronizerRepository_Create ctx f d =
    (Inr f, set_target ctx (ts(''synchronizer_fetch'' \<mapsto> fetches_table (fs @ [f]))) d)"
  using assms(1,2) by (simp add: SynchronizerRepository_Create_def andThen_apply
      DBExecutor_ExecContext_ok sql_exec_insertFetch [where ts = ts, OF assms(3,4)])

definition fetches_in :: "SynchronizerFetch list \<Rightarrow> db \<Rightarrow> bool" where
  "fetches_in fs d \<longleftrightarrow> db_faults d = [] \<and> db_committed d ''synchronizer_fetch'' = Some (fetches_table fs)"

lemma scan_fetch_row:
  "scan_SynchronizerFetch (map cd_name fetch_cols) (fetch_row (k, f)) = Inr (f\<lparr>sf_Id := int k\<rparr>)"
  by (simp add: scan_SynchronizerFetch_def fetch_cols_def fetch_row_def column_def)

lemma sort_enumerate_desc: "rev (sort_key (\<lambda>kx. int (fst kx)) (rev (enumerate n xs))) = rev (enumerate n xs)"
proof -
  have m: "map (\<lambda>kx. int (fst kx)) (enumerate n xs) = map int [n..<n + length xs]"
    by (metis (no_types, lifting) comp_apply map_fst_enumerate map_eq_conv map_map)
  have "sort_key (\<lambda>kx. int (fst kx)) (rev (enumerate n xs)) = enumerate n xs"
  proof (rule sort_key_inj_key_eq)
    have "distinct (map (\<lambda>kx. int (fst kx)) (enumerate n xs))"
      unfolding m by (simp add: distinct_map)
    then show "inj_on (\<lambda>kx. int (fst kx)) (set (rev (enumerate n xs)))" by (simp add: distinct_map)
    show "sorted (map (\<lambda>kx. int (fst kx)) (enumerate n xs))"
      unfolding m by (simp add: sorted_wrt_map)
  qed simp
  then show ?thesis by simp
qed

lemma GetLastFetched_ok:
  assumes "fetches_in fs d"
  shows "SynchronizerRepository_GetLastFetched d =
    (Inr (if fs = [] then None else Some ((last fs)\<lparr>sf_Id := int (length fs)\<rparr>)), d)"
proof -
  have parse: "parse_query ''SELECT * FROM synchronizer_fetch ORDER BY id DESC LIMIT 1'' =
      Some (SSelect SelStar ''synchronizer_fetch'' [] [(''id'', True)] (Some (LNum 1)) None)"
    by code_simp
  have "sort_rows (mk_table fetch_cols [] True fetch_row (enumerate 1 fs)) [(''id'', True)]
      (map fetch_row (enumerate 1 fs)) = map fetch_row (rev (enumerate 1 fs))"
  proof -
    have "fetch_row kx ! 0 = VInt (int (fst kx))" for kx by (cases kx) (simp add: fetch_row_def)
    then show ?thesis using sort_enumerate_desc [of 1 fs]
      by (simp add: sort_rows_def sort_by_def rev_map sort_key_map)
  qed
  then have q: "sql_query (db_committed d) ''SELECT * FROM synchronizer_fetch ORDER BY id DESC LIMIT 1'' [] =
      Inr (map cd_name fetch_cols, map fetch_row (take 1 (rev (enumerate 1 fs))))"
    using assms
    by (subst sql_query_find [OF parse, where vals = "[]" and P = "\<lambda>_. True" and rs = "enumerate 1 fs"])
      (simp_all add: fetches_in_def fetches_table_def known_sel_def row_matches_def sel_cols_def sel_row_def
        del: enumerate_simps)
  show ?thesis
  proof (cases fs rule: rev_cases)
    case Nil
    with q assms show ?thesis
      by (simp add: SynchronizerRepository_GetLastFetched_def onError_apply andThen_apply db_Get_ok
          fetches_in_def Let_def ErrNoRows_def)
  next
    case (snoc gs f)
    have "map fetch_row (take 1 (rev (enumerate 1 fs))) = [fetch_row (Suc (length gs), f)]"
      by (simp add: snoc enumerate_append_eq)
    with q assms snoc show ?thesis
      by (simp add: SynchronizerRepository_GetLastFetched_def onError_apply andThen_apply db_Get_ok
          fetches_in_def Let_def scan_fetch_row del: One_nat_def)
  qed
qed

end
