(* ===== verification/ConvenienceService.thy ===== *)
theory ConvenienceService
  imports VoucherRepository NoticeRepository ReportRepository InputLaws SynchronizerRepository
begin

text \<open>
  \<open>internal/convenience/services/service.go\<close>: the service over the four repositories. Its
  \<open>Create\<close> methods look for an output of the same input and application and then update or
  create. The locale \<open>output_store\<close> states what the repositories promise, and what the service
  makes of it is proved once inside: which writes are stored, which are repeated without effect,
  and which are lost.
\<close>

section \<open>Methods\<close>

definition ConvenienceService_CreateVoucher1 ::
  "ethlib \<Rightarrow> ctx \<Rightarrow> ConvenienceVoucher \<Rightarrow> (db, ConvenienceVoucher) comp" where
  "ConvenienceService_CreateVoucher1 E ctx voucher = VoucherRepository_CreateVoucher E ctx voucher"

definition ConvenienceService_CreateNotice ::
  "ethlib \<Rightarrow> ctx \<Rightarrow> ConvenienceNotice \<Rightarrow> (db, ConvenienceNotice) comp" where
  "ConvenienceService_CreateNotice E ctx notice =
     andThen (NoticeRepository_FindNoticeByAppContractAndIndex E (sint (cn_InputIndex notice))
       (cn_AppContract notice)) (\<lambda>noticeInDb.
     if noticeInDb \<noteq> None then NoticeRepository_Update ctx notice
     else NoticeRepository_Create E ctx notice)"

definition ConvenienceService_CreateVoucher ::
  "ethlib \<Rightarrow> ctx \<Rightarrow> ConvenienceVoucher \<Rightarrow> (db, ConvenienceVoucher) comp" where
  "ConvenienceService_CreateVoucher E ctx voucher =
     andThen (VoucherRepository_FindVoucherByAppContractAndIndex E (sint (cv_InputIndex voucher))
       (cv_AppContract voucher)) (\<lambda>voucherInDb.
     if voucherInDb \<noteq> None then VoucherRepository_UpdateVoucher E ctx voucher
     else VoucherRepository_CreateVoucher E ctx voucher)"

definition ConvenienceService_CreateInput ::
  "ethlib \<Rightarrow> ctx \<Rightarrow> AdvanceInput \<Rightarrow> (db, AdvanceInput) comp" where
  "ConvenienceService_CreateInput E ctx input =
     andThen (InputRepository_FindInputByAppContractAndIndex E (ai_Index input) (ai_AppContract input))
       (\<lambda>inputInDb.
     if inputInDb \<noteq> None then InputRepository_Update E ctx input
     else InputRepository_RawCreate E ctx input)"

definition ConvenienceService_CreateReport :: "ethlib \<Rightarrow> ctx \<Rightarrow> Report \<Rightarrow> (db, Report) comp" where
  "ConvenienceService_CreateReport E ctx report =
     andThen (ReportRepository_FindReportByAppContractAndIndex E (rp_InputIndex report)
       (rp_AppContract report)) (\<lambda>reportInDb.
     if reportInDb \<noteq> None then ReportRepository_Update E ctx report
     else ReportRepository_Create E ctx report)"

definition ConvenienceService_UpdateExecuted :: "u64 \<Rightarrow> u64 \<Rightarrow> bool \<Rightarrow> (db, unit) comp" where
  "ConvenienceService_UpdateExecuted inputIndex outputIndex executedValue =
     VoucherRepository_UpdateExecuted inputIndex outputIndex executedValue"

definition ConvenienceService_FindAllVouchers ::
  "ethlib \<Rightarrow> int option \<Rightarrow> int option \<Rightarrow> string option \<Rightarrow> string option \<Rightarrow> ConvenienceFilter list \<Rightarrow>
   (db, ConvenienceVoucher PageResult) comp" where
  "ConvenienceService_FindAllVouchers E first lastN after before filters =
     VoucherRepository_FindAllVouchers E first lastN after before filters"

definition ConvenienceService_FindAllNotices ::
  "ethlib \<Rightarrow> int option \<Rightarrow> int option \<Rightarrow> string option \<Rightarrow> string option \<Rightarrow> ConvenienceFilter list \<Rightarrow>
   (db, ConvenienceNotice PageResult) comp" where
  "ConvenienceService_FindAllNotices E first lastN after before filters =
     NoticeRepository_FindAllNotices E first lastN after before filters"

definition ConvenienceService_FindAllInputs ::
  "ethlib \<Rightarrow> int option \<Rightarrow> int option \<Rightarrow> string option \<Rightarrow> string option \<Rightarrow> ConvenienceFilter list \<Rightarrow>
   (db, AdvanceInput PageResult) comp" where
  "ConvenienceService_FindAllInputs E first lastN after before filters =
     InputRepository_FindAll E first lastN after before filters"

definition ConvenienceService_FindAllByInputIndex ::
  "ethlib \<Rightarrow> int option \<Rightarrow> int option \<Rightarrow> string option \<Rightarrow> string option \<Rightarrow> int option \<Rightarrow>
   (db, Report PageResult) comp" where
  "ConvenienceService_FindAllByInputIndex E first lastN after before inputIndex =
     ReportRepository_FindAllByInputIndex E first lastN after before inputIndex"

definition ConvenienceService_FindVoucherByInputAndOutputIndex ::
  "ethlib \<Rightarrow> u64 \<Rightarrow> u64 \<Rightarrow> (db, ConvenienceVoucher option) comp" where
  "ConvenienceService_FindVoucherByInputAndOutputIndex E inputIndex outputIndex =
     VoucherRepository_FindVoucherByInputAndOutputIndex E inputIndex outputIndex"

definition ConvenienceService_FindNoticeByInputAndOutputIndex ::
  "ethlib \<Rightarrow> u64 \<Rightarrow> u64 \<Rightarrow> (db, ConvenienceNotice option) comp" where
  "ConvenienceService_FindNoticeByInputAndOutputIndex E inputIndex outputIndex =
     NoticeRepository_FindByInputAndOutputIndex E inputIndex outputIndex"

definition ConvenienceService_FindInputByIndex :: "ethlib \<Rightarrow> int \<Rightarrow> (db, AdvanceInput option) comp" where
  "ConvenienceService_FindInputByIndex E index = InputRepository_FindByIndex E index"

section \<open>The contract of an output repository\<close>

text \<open>
  \<open>rows_in rs d\<close>: the database \<open>d\<close> holds the rows \<open>rs\<close>. The primary key of a row is \<open>key\<close>, but the
  service's lookup goes by \<open>slot\<close>, the input and the application.
\<close>

locale output_store =
  fixes rows_in :: "'r list \<Rightarrow> db \<Rightarrow> bool" and key :: "'r \<Rightarrow> 'k" and slot :: "'r \<Rightarrow> 's"
    and overwrite :: "'r \<Rightarrow> 'r \<Rightarrow> 'r" and ok :: "'r \<Rightarrow> bool"
    and find_slot :: "'r \<Rightarrow> (db, 'r option) comp"
    and update :: "'r \<Rightarrow> (db, 'r) comp" and create :: "'r \<Rightarrow> (db, 'r) comp"
    and save :: "'r \<Rightarrow> (db, 'r) comp"
  assumes save: "save r = andThen (find_slot r) (\<lambda>x. if x \<noteq> None then update r else create r)"
    and find_ok: "rows_in rs d \<Longrightarrow> ok r \<Longrightarrow> find_slot r d = (Inr (find (\<lambda>x. slot x = slot r) rs), d)"
    and create_new: "rows_in rs d \<Longrightarrow> distinct (map key rs) \<Longrightarrow> ok r \<Longrightarrow> Suc (length rs) < 2 ^ 63 \<Longrightarrow>
        key r \<notin> key ` set rs \<Longrightarrow> \<exists>d'. create r d = (Inr r, d') \<and> rows_in (rs @ [r]) d'"
    and create_taken: "rows_in rs d \<Longrightarrow> distinct (map key rs) \<Longrightarrow> ok r \<Longrightarrow>
        key r \<in> key ` set rs \<Longrightarrow> create r d = (Inl (EDb ''UNIQUE constraint failed''), d)"
    and update_ok: "rows_in rs d \<Longrightarrow> distinct (map key rs) \<Longrightarrow> ok r \<Longrightarrow>
        \<exists>d'. update r d = (Inr r, d') \<and> rows_in (map (overwrite r) rs) d'"
    and overwrite_key: "key (overwrite r x) = key x"
    and overwrite_slot: "slot (overwrite r x) = slot x"
    and overwrite_other: "key x \<noteq> key r \<Longrightarrow> overwrite r x = x"
    and overwrite_same: "key x = key r \<Longrightarrow> slot x = slot r \<Longrightarrow> overwrite r x = r"
begin

lemma found_iff: "find (\<lambda>x. slot x = slot r) rs \<noteq> None \<longleftrightarrow> slot r \<in> slot ` set rs"
  by (auto simp: find_None_iff image_iff) metis

lemma distinct_overwrite: "distinct (map key (map (overwrite r) rs)) = distinct (map key rs)"
  by (simp add: comp_def overwrite_key)

text \<open>The first output of an input is stored.\<close>

lemma save_new:
  assumes "rows_in rs d" and "distinct (map key rs)" and "ok r" and "Suc (length rs) < 2 ^ 63"
    and "slot r \<notin> slot ` set rs" and "key r \<notin> key ` set rs"
  shows "\<exists>d'. save r d = (Inr r, d') \<and> rows_in (rs @ [r]) d'"
proof -
  have "find (\<lambda>x. slot x = slot r) rs = None" using found_iff [of r rs] assms(5) by simp
  then show ?thesis
    using create_new [OF assms(1-4,6)] find_ok [OF assms(1,3)] by (simp add: save andThen_apply)
qed

text \<open>An output under another application's key is refused.\<close>

lemma save_taken:
  assumes "rows_in rs d" and "distinct (map key rs)" and "ok r"
    and "slot r \<notin> slot ` set rs" and "key r \<in> key ` set rs"
  shows "save r d = (Inl (EDb ''UNIQUE constraint failed''), d)"
proof -
  have "find (\<lambda>x. slot x = slot r) rs = None" using found_iff [of r rs] assms(4) by simp
  then show ?thesis
    using create_taken [OF assms(1-3,5)] find_ok [OF assms(1,3)] by (simp add: save andThen_apply)
qed

lemma save_found:
  assumes "rows_in rs d" and "distinct (map key rs)" and "ok r" and "slot r \<in> slot ` set rs"
  shows "\<exists>d'. save r d = (Inr r, d') \<and> rows_in (map (overwrite r) rs) d'"
proof -
  have "find (\<lambda>x. slot x = slot r) rs \<noteq> None" using found_iff [of r rs] assms(4) by simp
  then show ?thesis
    using update_ok [OF assms(1-3)] find_ok [OF assms(1,3)] by (auto simp: save andThen_apply)
qed

text \<open>Saving an output again changes nothing.\<close>

lemma save_again:
  assumes "rows_in rs d" and "distinct (map key rs)" and "ok r" and "r \<in> set rs"
  shows "\<exists>d'. save r d = (Inr r, d') \<and> rows_in rs d'"
proof -
  have "overwrite r x = x" if "x \<in> set rs" for x
  proof (cases "key x = key r")
    case True
    with that assms(2,4) have "x = r" by (auto simp: distinct_map dest: inj_onD)
    then show ?thesis by (simp add: overwrite_same)
  qed (simp add: overwrite_other)
  then have "map (overwrite r) rs = rs" by (simp add: map_idI)
  then show ?thesis using save_found [OF assms(1-3)] assms(4) by auto
qed

text \<open>
  When the input and application already have an output, an output with a new key is reported as
  saved and is not stored.
\<close>

lemma save_lost:
  assumes "rows_in rs d" and "distinct (map key rs)" and "ok r"
    and "slot r \<in> slot ` set rs" and "key r \<notin> key ` set rs"
  shows "\<exists>d'. save r d = (Inr r, d') \<and> rows_in rs d'"
proof -
  have "overwrite r x = x" if "x \<in> set rs" for x
    using that assms(5) by (intro overwrite_other) (metis image_eqI)
  then have "map (overwrite r) rs = rs" by (simp add: map_idI)
  then show ?thesis using save_found [OF assms(1-4)] by auto
qed

text \<open>Whatever is saved, the keys stay distinct and no stored key is lost.\<close>

lemma save_keys:
  assumes "rows_in rs d" and "distinct (map key rs)" and "ok r" and "Suc (length rs) < 2 ^ 63"
  shows "\<exists>rs'. rows_in rs' (snd (save r d)) \<and> distinct (map key rs') \<and>
    (map key rs' = map key rs \<or> map key rs' = map key rs @ [key r])"
proof (cases "slot r \<in> slot ` set rs")
  case True
  from save_found [OF assms(1-3) True] obtain d'
    where "save r d = (Inr r, d')" "rows_in (map (overwrite r) rs) d'" by blast
  then show ?thesis using assms(2)
    by (intro exI [of _ "map (overwrite r) rs"]) (simp add: comp_def overwrite_key)
next
  case new: False
  show ?thesis
  proof (cases "key r \<in> key ` set rs")
    case True
    from save_taken [OF assms(1-3) new True] assms(1,2) show ?thesis by (intro exI [of _ rs]) simp
  next
    case False
    from save_new [OF assms new False] obtain d' where "save r d = (Inr r, d')" "rows_in (rs @ [r]) d'"
      by blast
    then show ?thesis using assms(2) False by (intro exI [of _ "rs @ [r]"]) simp
  qed
qed

end

section \<open>The repositories keep the contract\<close>

definition voucher_slot :: "ConvenienceVoucher \<Rightarrow> u64 \<times> address" where
  "voucher_slot v = (cv_InputIndex v, cv_AppContract v)"

definition notice_slot :: "ConvenienceNotice \<Rightarrow> u64 \<times> address" where
  "notice_slot v = (cn_InputIndex v, cn_AppContract v)"

definition report_slot :: "Report \<Rightarrow> int \<times> address" where
  "report_slot r = (rp_InputIndex r, rp_AppContract r)"

lemma small_index:
  "unat (i :: u64) < 2 ^ 63 \<Longrightarrow> 0 \<le> sint i \<and> sint i < 2 ^ 63 \<and> uint i = sint i"
proof -
  assume small: "unat i < 2 ^ 63"
  then have "sint i = uint i" using sint_of_nat_small [of "unat i"] by simp
  moreover have "uint i < 2 ^ 63"
    using small of_nat_less_iff [of "unat i" "2 ^ 63", where 'a = int] by simp
  moreover have "0 \<le> uint i" by simp
  ultimately show ?thesis by simp
qed

lemma target_NoTx [simp]: "target NoTx d = Some (db_committed d)"
  by (simp add: target_def)

lemma set_target_NoTx [simp]: "set_target NoTx ts d = d\<lparr>db_committed := ts\<rparr>"
  by (simp add: set_target_def)

interpretation voucher_store: output_store "\<lambda>vs d. eth_laws E \<and> vouchers_in E vs d" voucher_key voucher_slot
  overwrite_voucher voucher_small
  "\<lambda>v. VoucherRepository_FindVoucherByAppContractAndIndex E (sint (cv_InputIndex v)) (cv_AppContract v)"
  "VoucherRepository_UpdateVoucher E NoTx" "VoucherRepository_CreateVoucher E NoTx"
  "ConvenienceService_CreateVoucher E NoTx" for E
proof
  fix vs d and v x :: ConvenienceVoucher
  show "ConvenienceService_CreateVoucher E NoTx v = andThen
      (VoucherRepository_FindVoucherByAppContractAndIndex E (sint (cv_InputIndex v)) (cv_AppContract v))
      (\<lambda>x. if x \<noteq> None then VoucherRepository_UpdateVoucher E NoTx v else VoucherRepository_CreateVoucher E NoTx v)"
    by (simp add: ConvenienceService_CreateVoucher_def)
  show "VoucherRepository_FindVoucherByAppContractAndIndex E (sint (cv_InputIndex v)) (cv_AppContract v) d =
      (Inr (find (\<lambda>x. voucher_slot x = voucher_slot v) vs), d)"
    if "eth_laws E \<and> vouchers_in E vs d" "voucher_small v"
  proof -
    have s: "0 \<le> sint (cv_InputIndex v)" "sint (cv_InputIndex v) < 2 ^ 63"
      "sint (cv_InputIndex v) = uint (cv_InputIndex v)"
      using that(2) small_index by (simp_all add: voucher_small_def)
    show ?thesis using FindVoucherByAppContractAndIndex_ok [OF conjunct2 [OF that(1)] s(1,2) conjunct1 [OF that(1)]]
      by (simp add: s(3) voucher_slot_def)
  qed
  show "\<exists>d'. VoucherRepository_CreateVoucher E NoTx v d = (Inr v, d') \<and> eth_laws E \<and> vouchers_in E (vs @ [v]) d'"
    if "eth_laws E \<and> vouchers_in E vs d" "distinct (map voucher_key vs)" "voucher_small v"
      "Suc (length vs) < 2 ^ 63" "voucher_key v \<notin> voucher_key ` set vs"
    using that by (subst CreateVoucher_ok [where ts = "db_committed d" and vs = vs]) (simp_all add: vouchers_in_def)
  show "VoucherRepository_CreateVoucher E NoTx v d = (Inl (EDb ''UNIQUE constraint failed''), d)"
    if "eth_laws E \<and> vouchers_in E vs d" "distinct (map voucher_key vs)" "voucher_small v"
      "voucher_key v \<in> voucher_key ` set vs"
    using that by (subst CreateVoucher_ok [where ts = "db_committed d" and vs = vs]) (simp_all add: vouchers_in_def)
  show "\<exists>d'. VoucherRepository_UpdateVoucher E NoTx v d = (Inr v, d') \<and> eth_laws E \<and>
      vouchers_in E (map (overwrite_voucher v) vs) d'"
    if "eth_laws E \<and> vouchers_in E vs d" "distinct (map voucher_key vs)" "voucher_small v"
    using that by (subst UpdateVoucher_ok [where ts = "db_committed d" and vs = vs]) (simp_all add: vouchers_in_def)
  show "voucher_slot (overwrite_voucher v x) = voucher_slot x"
    by (simp add: overwrite_voucher_def voucher_slot_def)
  show "overwrite_voucher v x = v" if "voucher_key x = voucher_key v" "voucher_slot x = voucher_slot v"
    using that by (simp add: overwrite_voucher_def voucher_key_def voucher_slot_def)
qed (auto simp: overwrite_voucher_def voucher_key_def)

interpretation notice_store: output_store "\<lambda>ns d. eth_laws E \<and> notices_in E ns d" notice_key notice_slot
  overwrite_notice notice_small
  "\<lambda>v. NoticeRepository_FindNoticeByAppContractAndIndex E (sint (cn_InputIndex v)) (cn_AppContract v)"
  "NoticeRepository_Update NoTx" "NoticeRepository_Create E NoTx"
  "ConvenienceService_CreateNotice E NoTx" for E
proof
  fix ns d and v x :: ConvenienceNotice
  show "ConvenienceService_CreateNotice E NoTx v = andThen
      (NoticeRepository_FindNoticeByAppContractAndIndex E (sint (cn_InputIndex v)) (cn_AppContract v))
      (\<lambda>x. if x \<noteq> None then NoticeRepository_Update NoTx v else NoticeRepository_Create E NoTx v)"
    by (simp add: ConvenienceService_CreateNotice_def)
  show "NoticeRepository_FindNoticeByAppContractAndIndex E (sint (cn_InputIndex v)) (cn_AppContract v) d =
      (Inr (find (\<lambda>x. notice_slot x = notice_slot v) ns), d)"
    if "eth_laws E \<and> notices_in E ns d" "notice_small v"
  proof -
    have s: "0 \<le> sint (cn_InputIndex v)" "sint (cn_InputIndex v) < 2 ^ 63"
      "sint (cn_InputIndex v) = uint (cn_InputIndex v)"
      using that(2) small_index by (simp_all add: notice_small_def)
    show ?thesis using FindNoticeByAppContractAndIndex_ok [OF conjunct2 [OF that(1)] s(1,2) conjunct1 [OF that(1)]]
      by (simp add: s(3) notice_slot_def)
  qed
  show "\<exists>d'. NoticeRepository_Create E NoTx v d = (Inr v, d') \<and> eth_laws E \<and> notices_in E (ns @ [v]) d'"
    if "eth_laws E \<and> notices_in E ns d" "distinct (map notice_key ns)" "notice_small v"
      "Suc (length ns) < 2 ^ 63" "notice_key v \<notin> notice_key ` set ns"
    using that by (subst CreateNotice_ok [where ts = "db_committed d" and ns = ns]) (simp_all add: notices_in_def)
  show "NoticeRepository_Create E NoTx v d = (Inl (EDb ''UNIQUE constraint failed''), d)"
    if "eth_laws E \<and> notices_in E ns d" "distinct (map notice_key ns)" "notice_small v"
      "notice_key v \<in> notice_key ` set ns"
    using that by (subst CreateNotice_ok [where ts = "db_committed d" and ns = ns]) (simp_all add: notices_in_def)
  show "\<exists>d'. NoticeRepository_Update NoTx v d = (Inr v, d') \<and> eth_laws E \<and>
      notices_in E (map (overwrite_notice v) ns) d'"
    if "eth_laws E \<and> notices_in E ns d" "distinct (map notice_key ns)" "notice_small v"
    using that by (subst UpdateNotice_ok [where E = E and ts = "db_committed d" and ns = ns]) (simp_all add: notices_in_def)
  show "notice_slot (overwrite_notice v x) = notice_slot x"
    by (simp add: overwrite_notice_def notice_slot_def)
  show "overwrite_notice v x = v" if "notice_key x = notice_key v" "notice_slot x = notice_slot v"
    using that by (simp add: overwrite_notice_def notice_key_def notice_slot_def)
qed (auto simp: overwrite_notice_def notice_key_def)

definition report_small :: "Report \<Rightarrow> bool" where
  "report_small r \<longleftrightarrow> 0 \<le> rp_InputIndex r \<and> rp_InputIndex r < 2 ^ 63"

interpretation report_store: output_store "\<lambda>rs d. eth_laws E \<and> reports_in E rs d" report_key report_slot
  overwrite_report report_small
  "\<lambda>v. ReportRepository_FindReportByAppContractAndIndex E (rp_InputIndex v) (rp_AppContract v)"
  "ReportRepository_Update E NoTx" "ReportRepository_Create E NoTx"
  "ConvenienceService_CreateReport E NoTx" for E
proof
  fix rs d and v x :: Report
  show "ConvenienceService_CreateReport E NoTx v = andThen
      (ReportRepository_FindReportByAppContractAndIndex E (rp_InputIndex v) (rp_AppContract v))
      (\<lambda>x. if x \<noteq> None then ReportRepository_Update E NoTx v else ReportRepository_Create E NoTx v)"
    by (simp add: ConvenienceService_CreateReport_def)
  show "ReportRepository_FindReportByAppContractAndIndex E (rp_InputIndex v) (rp_AppContract v) d =
      (Inr (find (\<lambda>x. report_slot x = report_slot v) rs), d)"
    if "eth_laws E \<and> reports_in E rs d" "report_small v"
    using that by (subst FindReportByAppContractAndIndex_ok [where rs = rs])
      (simp_all add: report_small_def report_slot_def)
  show "\<exists>d'. ReportRepository_Create E NoTx v d = (Inr v, d') \<and> eth_laws E \<and> reports_in E (rs @ [v]) d'"
    if "eth_laws E \<and> reports_in E rs d" "distinct (map report_key rs)" "report_small v"
      "Suc (length rs) < 2 ^ 63" "report_key v \<notin> report_key ` set rs"
    using that by (subst CreateReport_ok [where ts = "db_committed d" and rs = rs]) (simp_all add: reports_in_def)
  show "ReportRepository_Create E NoTx v d = (Inl (EDb ''UNIQUE constraint failed''), d)"
    if "eth_laws E \<and> reports_in E rs d" "distinct (map report_key rs)" "report_small v"
      "report_key v \<in> report_key ` set rs"
    using that by (subst CreateReport_ok [where ts = "db_committed d" and rs = rs]) (simp_all add: reports_in_def)
  show "\<exists>d'. ReportRepository_Update E NoTx v d = (Inr v, d') \<and> eth_laws E \<and>
      reports_in E (map (overwrite_report v) rs) d'"
    if "eth_laws E \<and> reports_in E rs d" "distinct (map report_key rs)" "report_small v"
    using that by (subst UpdateReport_ok [where ts = "db_committed d" and rs = rs]) (simp_all add: reports_in_def)
  show "report_slot (overwrite_report v x) = report_slot x"
    by (simp add: overwrite_report_def report_slot_def)
  show "overwrite_report v x = v" if "report_key x = report_key v" "report_slot x = report_slot v"
    using that by (simp add: overwrite_report_def report_key_def report_slot_def)
qed (auto simp: overwrite_report_def report_key_def)

end
