(* ===== verification/Decoder.thy ===== *)
theory Decoder
  imports ConvenienceService
begin

text \<open>
  \<open>internal/convenience/adapter/adapter.go\<close> and \<open>internal/convenience/decoder/decoder.go\<close>: the
  outputs, inputs and reports that the synchronizers fetch arrive as hex text with a 4-byte
  selector; the decoder takes them apart and hands the result to the service. The slices of the
  source panic when the text is too short, and so do these. The functions that fetch or parse
  JSON (\<open>GetAbi\<close>, \<open>jsonToAbi\<close>) are not modelled.
\<close>

section \<open>Payload texts\<close>

definition ConvertVoucherPayloadToV2 :: "string \<Rightarrow> string" where
  "ConvertVoucherPayloadToV2 payloadV1 = ''0x'' @ VOUCHER_SELECTOR @ payloadV1"

definition ConvertNoticePayloadToV2 :: "string \<Rightarrow> string" where
  "ConvertNoticePayloadToV2 payloadV1 = ''0x'' @ NOTICE_SELECTOR @ payloadV1"

definition RemoveSelector :: "string \<Rightarrow> string res" where
  "RemoveSelector payload = rbind (slice_from 10 payload) (\<lambda>s. Inr (''0x'' @ s))"

definition GetDestination :: "ethlib \<Rightarrow> string \<Rightarrow> address res" where
  "GetDestination E payload =
     rbind (slice_from 10 payload) (\<lambda>s.
     rbind (UnpackVoucher E (Hex2Bytes E s)) (\<lambda>(destination, _, _). Inr destination))"

definition adapter_GetConvertedInput :: "ethlib \<Rightarrow> string \<Rightarrow> EvmAdvance res" where
  "adapter_GetConvertedInput E payload =
     rbind (slice_from 10 payload) (\<lambda>s. UnpackEvmAdvance E (Hex2Bytes E s))"

section \<open>Conversions\<close>

text \<open>\<open>big.Int.Int64\<close> and \<open>big.Int.Uint64\<close> keep the low 64 bits.\<close>

definition big_Int64 :: "int \<Rightarrow> int" where "big_Int64 i = sint (of_int i :: u64)"
definition big_Uint64 :: "int \<Rightarrow> u64" where "big_Uint64 i = of_int i"

definition GetConvertedInput :: "ethlib \<Rightarrow> InputEdge \<Rightarrow> ConvertedInput res" where
  "GetConvertedInput E input =
     rbind (slice_from 10 (ie_Blob input)) (\<lambda>s.
     rbind (UnpackEvmAdvance E (Hex2Bytes E s)) (\<lambda>values.
     Inr \<lparr>ci_MsgSender = ev_msgSender values, ci_AppContract = ev_appContract values,
       ci_BlockNumber = ev_blockNumber values,
       ci_BlockTimestamp = big_Int64 (ev_blockTimestamp values),
       ci_PrevRandao = itoa (ev_prevRandao values),
       ci_Payload = string_of_bytes (ev_payload values)\<rparr>))"

definition RetrieveDestination :: "ethlib \<Rightarrow> string \<Rightarrow> address res" where
  "RetrieveDestination E payload =
     rbind (slice_from 10 payload) (\<lambda>s.
     rbind (UnpackVoucher E (Hex2Bytes E s)) (\<lambda>(destination, _, _). Inr destination))"

section \<open>Handlers\<close>

definition HandleOutput ::
  "ethlib \<Rightarrow> ctx \<Rightarrow> address \<Rightarrow> string \<Rightarrow> u64 \<Rightarrow> u64 \<Rightarrow> (db, unit) comp" where
  "HandleOutput E ctx destination payload inputIndex outputIndex =
     andThen (lift_res (slice 2 10 payload)) (\<lambda>selector.
     if selector = VOUCHER_SELECTOR then
       andThen (lift_res (RemoveSelector payload)) (\<lambda>p.
       andThen (ConvenienceService_CreateVoucher E ctx
         \<lparr>cv_Destination = destination, cv_Payload = p, cv_InputIndex = inputIndex,
          cv_OutputIndex = outputIndex, cv_Executed = False, cv_AppContract = 0\<rparr>) (\<lambda>_.
       ret ()))
     else
       andThen (lift_res (RemoveSelector payload)) (\<lambda>p.
       andThen (ConvenienceService_CreateNotice E ctx
         \<lparr>cn_Payload = p, cn_InputIndex = inputIndex, cn_OutputIndex = outputIndex, cn_AppContract = 0\<rparr>)
         (\<lambda>_.
       ret ())))"

definition HandleOutputV2 :: "ethlib \<Rightarrow> ctx \<Rightarrow> ProcessOutputData \<Rightarrow> (db, unit) comp" where
  "HandleOutputV2 E ctx processOutputData =
     andThen (wrapErr ''error getting converted input''
       (lift_res (GetConvertedInput E \<lparr>ie_Cursor = [], ie_Index = 0, ie_Blob = po_Payload processOutputData\<rparr>)))
       (\<lambda>convertedInput.
     andThen (lift_res (slice_from 2 (po_Payload processOutputData))) (\<lambda>payload.
     andThen (lift_res (slice 2 10 payload)) (\<lambda>selector.
     if selector = VOUCHER_SELECTOR then
       andThen (wrapErr (''error retrieving destination for node blob '' @ po_Payload processOutputData)
         (lift_res (RetrieveDestination E (po_Payload processOutputData)))) (\<lambda>destination.
       andThen (lift_res (RemoveSelector (po_Payload processOutputData))) (\<lambda>p.
       andThen (ConvenienceService_CreateVoucher E ctx
         \<lparr>cv_Destination = destination, cv_Payload = p, cv_InputIndex = po_InputIndex processOutputData,
          cv_OutputIndex = po_OutputIndex processOutputData, cv_Executed = False,
          cv_AppContract = ci_AppContract convertedInput\<rparr>) (\<lambda>_.
       ret ())))
     else
       andThen (lift_res (RemoveSelector (po_Payload processOutputData))) (\<lambda>p.
       andThen (ConvenienceService_CreateNotice E ctx
         \<lparr>cn_Payload = p, cn_InputIndex = po_InputIndex processOutputData,
          cn_OutputIndex = po_OutputIndex processOutputData,
          cn_AppContract = ci_AppContract convertedInput\<rparr>) (\<lambda>_.
       ret ())))))"

definition HandleInput :: "ethlib \<Rightarrow> ctx \<Rightarrow> InputEdge \<Rightarrow> CompletionStatus \<Rightarrow> (db, unit) comp" where
  "HandleInput E ctx input status =
     andThen (wrapErr ''error getting converted input'' (lift_res (GetConvertedInput E input)))
       (\<lambda>convertedInput.
     andThen (ConvenienceService_CreateInput E ctx
       \<lparr>ai_Index = ie_Index input, ai_Status = status, ai_MsgSender = ci_MsgSender convertedInput,
        ai_Payload = bytes_of_string (ci_Payload convertedInput),
        ai_BlockNumber = big_Uint64 (ci_BlockNumber convertedInput),
        ai_BlockTimestamp = time_Unix (ci_BlockTimestamp convertedInput),
        ai_PrevRandao = ci_PrevRandao convertedInput, ai_AppContract = ci_AppContract convertedInput,
        ai_Vouchers = [], ai_Notices = [], ai_Reports = [], ai_Exception = []\<rparr>) (\<lambda>_.
     ret ()))"

definition HandleReport :: "ethlib \<Rightarrow> ctx \<Rightarrow> int \<Rightarrow> int \<Rightarrow> string \<Rightarrow> (db, unit) comp" where
  "HandleReport E ctx index outputIndex payload =
     andThen (ConvenienceService_CreateReport E ctx
       \<lparr>rp_Index = outputIndex, rp_InputIndex = index, rp_Payload = bytes_of_string payload,
        rp_AppContract = 0\<rparr>) (\<lambda>_.
     ret ())"

section \<open>Facts\<close>

lemma slice_from_ok: "i \<le> length xs \<Longrightarrow> slice_from i xs = Inr (drop i xs)"
  by (simp add: slice_from_def)

lemma slice_ok: "i \<le> j \<Longrightarrow> j \<le> length xs \<Longrightarrow> slice i j xs = Inr (take (j - i) (drop i xs))"
  by (simp add: slice_def)

lemma length_selectors [simp]: "length VOUCHER_SELECTOR = 8" "length NOTICE_SELECTOR = 8"
  by (simp_all add: VOUCHER_SELECTOR_def NOTICE_SELECTOR_def)

lemma selectors_differ: "NOTICE_SELECTOR \<noteq> VOUCHER_SELECTOR"
  by (simp add: VOUCHER_SELECTOR_def NOTICE_SELECTOR_def)

text \<open>Taking the selector off what the adapter put on gives the payload back.\<close>

lemma RemoveSelector_Convert [simp]:
  "RemoveSelector (ConvertVoucherPayloadToV2 s) = Inr (''0x'' @ s)"
  "RemoveSelector (ConvertNoticePayloadToV2 s) = Inr (''0x'' @ s)"
  by (simp_all add: RemoveSelector_def ConvertVoucherPayloadToV2_def ConvertNoticePayloadToV2_def
      slice_from_def)

lemma selector_Convert [simp]:
  "slice 2 10 (ConvertVoucherPayloadToV2 s) = Inr VOUCHER_SELECTOR"
  "slice 2 10 (ConvertNoticePayloadToV2 s) = Inr NOTICE_SELECTOR"
  by (simp_all add: slice_def ConvertVoucherPayloadToV2_def ConvertNoticePayloadToV2_def)

lemma RemoveSelector_long: "10 \<le> length p \<Longrightarrow> RemoveSelector p = Inr (''0x'' @ drop 10 p)"
  by (simp add: RemoveSelector_def slice_from_ok)

lemma RemoveSelector_short:
  "length p < 10 \<Longrightarrow> RemoveSelector p = Inl (EPanic ''slice bounds out of range'')"
  by (simp add: RemoveSelector_def slice_from_def)

lemma bytes_of_string_of_bytes [simp]: "bytes_of_string (string_of_bytes b) = b"
proof -
  have "of_nat (of_char (char_of (unat w) :: char)) = w" for w :: byte
  proof -
    have "unat w < 2 ^ LENGTH(8)" by (rule unsigned_less)
    then have "of_char (char_of (unat w) :: char) = unat w" by simp
    then show ?thesis by simp
  qed
  then show ?thesis by (simp add: string_of_bytes_def bytes_of_string_def comp_def map_idI)
qed

text \<open>The voucher and the notice that an output of the first version becomes.\<close>

lemma HandleOutput_voucher:
  "HandleOutput E ctx destination (ConvertVoucherPayloadToV2 s) i o' =
     andThen (ConvenienceService_CreateVoucher E ctx
       \<lparr>cv_Destination = destination, cv_Payload = ''0x'' @ s, cv_InputIndex = i,
        cv_OutputIndex = o', cv_Executed = False, cv_AppContract = 0\<rparr>) (\<lambda>_. ret ())"
  by (rule ext) (simp add: HandleOutput_def andThen_apply)

lemma HandleOutput_notice:
  "HandleOutput E ctx destination (ConvertNoticePayloadToV2 s) i o' =
     andThen (ConvenienceService_CreateNotice E ctx
       \<lparr>cn_Payload = ''0x'' @ s, cn_InputIndex = i, cn_OutputIndex = o', cn_AppContract = 0\<rparr>) (\<lambda>_. ret ())"
  by (rule ext) (simp add: HandleOutput_def andThen_apply selectors_differ)

text \<open>
  \<open>HandleOutputV2\<close> cuts \<open>0x\<close> off and then looks for the selector two characters too far to the
  right: an output of the adapter's form whose arguments decode is stored as a notice unless the
  text continues with the second half of the selector and its four next characters.
\<close>

lemma HandleOutputV2_selector:
  assumes "12 \<le> length p"
  shows "rbind (slice_from 2 p) (slice 2 10) = Inr (take 8 (drop 4 p))"
  using assms by (simp add: slice_from_ok slice_ok add.commute)

lemma HandleOutputV2_dispatch:
  assumes "12 \<le> length (po_Payload p)"
    and "UnpackEvmAdvance E (Hex2Bytes E (drop 10 (po_Payload p))) = Inr ev"
    and "take 8 (drop 4 (po_Payload p)) \<noteq> VOUCHER_SELECTOR"
  shows "HandleOutputV2 E ctx p =
    andThen (ConvenienceService_CreateNotice E ctx
      \<lparr>cn_Payload = ''0x'' @ drop 10 (po_Payload p), cn_InputIndex = po_InputIndex p,
       cn_OutputIndex = po_OutputIndex p, cn_AppContract = ev_appContract ev\<rparr>) (\<lambda>_. ret ())"
  using assms
  by (intro ext) (simp add: HandleOutputV2_def andThen_apply wrapErr_apply GetConvertedInput_def
      slice_from_ok slice_ok RemoveSelector_long)

end
