(* ===== verification/NonodoModel.thy ===== *)
theory NonodoModel
  imports Decoder
begin

text \<open>
  \<open>internal/model/model.go\<close>, \<open>state.go\<close>, \<open>types.go\<close>, \<open>filters.go\<close> and \<open>sequencer.go\<close>: the
  node's model, which the HTTP handlers and the inputter share. It is idle, or it processes an
  advance input of the database, or an inspect input of its own list, and it collects the outputs
  of that input. The mutex makes every method one step. The advance input under processing is a
  private copy of the row; the inspect input is shared with the list through a pointer, and so
  the inspect state holds its position in the list. The Go interface value of the state is a
  datatype, a method call on it a case distinction.
\<close>

section \<open>Data\<close>

record model_Voucher =
  mv_Index :: int
  mv_InputIndex :: int
  mv_Destination :: address
  mv_Payload :: bytes

record model_Notice =
  mn_Index :: int
  mn_InputIndex :: int
  mn_Payload :: bytes

record model_Report =
  mr_Index :: int
  mr_InputIndex :: int
  mr_Payload :: bytes

record InspectInput =
  ii_Index :: int
  ii_Status :: CompletionStatus
  ii_Payload :: bytes
  ii_ProcessedInputCount :: int
  ii_Reports :: "model_Report list"
  ii_Exception :: bytes

record InputFilter =
  IndexGreaterThan :: "int option"
  IndexLowerThan :: "int option"

definition InputFilter_Filter :: "InputFilter \<Rightarrow> AdvanceInput \<Rightarrow> bool" where
  "InputFilter_Filter f i \<longleftrightarrow>
     (case IndexGreaterThan f of None \<Rightarrow> False | Some n \<Rightarrow> ai_Index i \<le> n) \<or>
     (case IndexLowerThan f of None \<Rightarrow> False | Some n \<Rightarrow> n \<le> ai_Index i)"

text \<open>\<open>OutputFilter\<close>; its argument is any output, of which only the input index counts.\<close>

definition OutputFilter_Filter :: "int option \<Rightarrow> int \<Rightarrow> bool" where
  "OutputFilter_Filter InputIndex outputInputIndex \<longleftrightarrow>
     InputIndex \<noteq> None \<and> InputIndex \<noteq> Some outputInputIndex"

text \<open>What \<open>FinishAndGetNext\<close> hands out: the interface \<open>Input\<close> with its two implementations.\<close>

datatype Input = IAdvance AdvanceInput | IInspect InspectInput

record rollupsStateAdvance =
  sa_input :: AdvanceInput
  sa_vouchers :: "ConvenienceVoucher list"
  sa_notices :: "ConvenienceNotice list"
  sa_reports :: "Report list"

record rollupsStateInspect =
  si_input :: nat
  si_reports :: "model_Report list"

datatype rollupsState =
    rollupsStateIdle
  | StAdvance rollupsStateAdvance
  | StInspect rollupsStateInspect

type_synonym HandleOutput_type = "address \<Rightarrow> string \<Rightarrow> u64 \<Rightarrow> u64 \<Rightarrow> (db, unit) comp"

text \<open>
  The decoder may be nil, and so may the report repository; the latter's database is nil in
  neither of the code's set-ups and counts as nil with it.
\<close>

record NonodoModel =
  nm_inspects :: "InspectInput list"
  nm_state :: rollupsState
  nm_decoder :: "HandleOutput_type option"
  nm_hasReportRepository :: bool
  nm_db :: db

definition on_nm :: "(db, 'a) comp \<Rightarrow> (NonodoModel, 'a) comp" where
  "on_nm m s = (case m (nm_db s) of (r, d) \<Rightarrow> (r, s\<lparr>nm_db := d\<rparr>))"

definition set_state :: "rollupsState \<Rightarrow> (NonodoModel, unit) comp" where
  "set_state st s = (Inr (), s\<lparr>nm_state := st\<rparr>)"

definition NewNonodoModel :: "HandleOutput_type option \<Rightarrow> bool \<Rightarrow> db \<Rightarrow> NonodoModel" where
  "NewNonodoModel decoder hasReports d = \<lparr>nm_inspects = [], nm_state = rollupsStateIdle,
     nm_decoder = decoder, nm_hasReportRepository = hasReports, nm_db = d\<rparr>"

definition newRollupsStateIdle :: rollupsState where
  "newRollupsStateIdle = rollupsStateIdle"

definition newRollupsStateAdvance :: "AdvanceInput \<Rightarrow> rollupsState" where
  "newRollupsStateAdvance input =
     StAdvance \<lparr>sa_input = input, sa_vouchers = [], sa_notices = [], sa_reports = []\<rparr>"

definition newRollupsStateInspect :: "nat \<Rightarrow> rollupsState" where
  "newRollupsStateInspect i = StInspect \<lparr>si_input = i, si_reports = []\<rparr>"

section \<open>Adding inputs\<close>

definition AddAdvanceInput ::
  "ethlib \<Rightarrow> address \<Rightarrow> bytes \<Rightarrow> u64 \<Rightarrow> time \<Rightarrow> int \<Rightarrow> (NonodoModel, unit) comp" where
  "AddAdvanceInput E sender payload blockNumber timestamp index =
     andThen (on_nm (InputRepository_Create E NoTx
       \<lparr>ai_Index = index, ai_Status = CompletionStatusUnprocessed, ai_MsgSender = sender,
        ai_Payload = payload, ai_BlockNumber = blockNumber, ai_BlockTimestamp = timestamp,
        ai_PrevRandao = [], ai_AppContract = 0, ai_Vouchers = [], ai_Notices = [], ai_Reports = [],
        ai_Exception = []\<rparr>)) (\<lambda>_. ret ())"

definition AddInspectInput :: "bytes \<Rightarrow> (NonodoModel, int) comp" where
  "AddInspectInput payload s =
     (let index = int (length (nm_inspects s));
          input = \<lparr>ii_Index = index, ii_Status = CompletionStatusUnprocessed, ii_Payload = payload,
            ii_ProcessedInputCount = 0, ii_Reports = [], ii_Exception = []\<rparr>
      in (Inr index, s\<lparr>nm_inspects := nm_inspects s @ [input]\<rparr>))"

definition GetInspectInput :: "int \<Rightarrow> (NonodoModel, InspectInput) comp" where
  "GetInspectInput index s =
     (if int (length (nm_inspects s)) \<le> index then
        (Inl (EMsg (''invalid inspect input index: '' @ itoa index)), s)
      else if index < 0 then (Inl (EPanic ''index out of range''), s)
      else (Inr (nm_inspects s ! nat index), s))"

definition getProcessedInputCount :: "ethlib \<Rightarrow> (NonodoModel, int) comp" where
  "getProcessedInputCount E =
     andThen (on_nm (InputRepository_Count [filter_Ne ''Status'' (itoa CompletionStatusUnprocessed)]))
       (\<lambda>total. ret (sint total))"

section \<open>Finishing an input\<close>

definition sendAllInputVouchersToDecoder ::
  "HandleOutput_type option \<Rightarrow> u64 \<Rightarrow> ConvenienceVoucher list \<Rightarrow> (db, unit) comp" where
  "sendAllInputVouchersToDecoder decoder inputIndex vouchers =
     (case decoder of None \<Rightarrow> ret ()
      | Some handler \<Rightarrow> forEach (\<lambda>v.
          let adapted = ConvertVoucherPayloadToV2 (cv_Payload v)
          in handler (cv_Destination v) adapted (cv_InputIndex v) (cv_OutputIndex v)) vouchers)"

definition sendAllInputNoticesToDecoder ::
  "HandleOutput_type option \<Rightarrow> u64 \<Rightarrow> ConvenienceNotice list \<Rightarrow> (db, unit) comp" where
  "sendAllInputNoticesToDecoder decoder inputIndex notices =
     (case decoder of None \<Rightarrow> ret ()
      | Some handler \<Rightarrow> forEach (\<lambda>v.
          let adapted = ConvertNoticePayloadToV2 (cn_Payload v)
          in handler 0 adapted (cn_InputIndex v) (cn_OutputIndex v)) notices)"

definition saveAllReports :: "ethlib \<Rightarrow> bool \<Rightarrow> Report list \<Rightarrow> (db, unit) comp" where
  "saveAllReports E hasRepository reports =
     (if \<not> hasRepository then ret ()
      else forEach (\<lambda>r. andThen (ReportRepository_Create E NoTx r) (\<lambda>_. ret ())) reports)"

definition finish_advance :: "ethlib \<Rightarrow> rollupsStateAdvance \<Rightarrow> CompletionStatus \<Rightarrow> (NonodoModel, unit) comp" where
  "finish_advance E st status s =
     (let input = (sa_input st)\<lparr>ai_Status := status\<rparr>;
          input' = (if status = CompletionStatusAccepted
            then input\<lparr>ai_Vouchers := sa_vouchers st, ai_Notices := sa_notices st\<rparr> else input)
      in andThen (set_state (StAdvance (st\<lparr>sa_input := input'\<rparr>))) (\<lambda>_.
         andThen
           (if status = CompletionStatusAccepted \<and> nm_decoder s \<noteq> None then
              andThen (on_nm (sendAllInputVouchersToDecoder (nm_decoder s) (of_int (ai_Index input))
                (sa_vouchers st))) (\<lambda>_.
              on_nm (sendAllInputNoticesToDecoder (nm_decoder s) (of_int (ai_Index input))
                (sa_notices st)))
            else ret ()) (\<lambda>_.
         andThen (on_nm (saveAllReports E (nm_hasReportRepository s) (sa_reports st))) (\<lambda>_.
         andThen (on_nm (InputRepository_Update E NoTx input')) (\<lambda>_.
         ret ())))) s)"

text \<open>Writing through the pointer of the inspect state.\<close>

definition upd_inspect :: "nat \<Rightarrow> (InspectInput \<Rightarrow> InspectInput) \<Rightarrow> (NonodoModel, unit) comp" where
  "upd_inspect i f s = (Inr (), s\<lparr>nm_inspects := (nm_inspects s)[i := f (nm_inspects s ! i)]\<rparr>)"

definition finish_inspect :: "ethlib \<Rightarrow> rollupsStateInspect \<Rightarrow> CompletionStatus \<Rightarrow> (NonodoModel, unit) comp" where
  "finish_inspect E st status =
     andThen (upd_inspect (si_input st) (\<lambda>i. i\<lparr>ii_Status := status\<rparr>)) (\<lambda>_.
     andThen (getProcessedInputCount E) (\<lambda>inputCount.
     upd_inspect (si_input st)
       (\<lambda>i. i\<lparr>ii_ProcessedInputCount := inputCount, ii_Reports := si_reports st\<rparr>)))"

definition state_finish :: "ethlib \<Rightarrow> CompletionStatus \<Rightarrow> (NonodoModel, unit) comp" where
  "state_finish E status s = (case nm_state s of
       rollupsStateIdle \<Rightarrow> (Inr (), s)
     | StAdvance st \<Rightarrow> finish_advance E st status s
     | StInspect st \<Rightarrow> finish_inspect E st status s)"

text \<open>The position of the first unprocessed inspect.\<close>

fun first_unprocessed :: "nat \<Rightarrow> InspectInput list \<Rightarrow> nat option" where
  "first_unprocessed i [] = None"
| "first_unprocessed i (x # xs) =
     (if ii_Status x = CompletionStatusUnprocessed then Some i else first_unprocessed (Suc i) xs)"

definition FinishAndGetNext :: "ethlib \<Rightarrow> bool \<Rightarrow> (NonodoModel, Input option) comp" where
  "FinishAndGetNext E accepted =
     (let status = (if accepted then CompletionStatusAccepted else CompletionStatusRejected)
      in andThen (state_finish E status) (\<lambda>_ s.
         case first_unprocessed 0 (nm_inspects s) of
           Some i \<Rightarrow> (Inr (Some (IInspect (nm_inspects s ! i))),
             s\<lparr>nm_state := newRollupsStateInspect i\<rparr>)
         | None \<Rightarrow>
             andThen (on_nm (InputRepository_FindByStatus E CompletionStatusUnprocessed)) (\<lambda>input.
             case input of
               Some input \<Rightarrow> andThen (set_state (newRollupsStateAdvance input)) (\<lambda>_.
                 ret (Some (IAdvance input)))
             | None \<Rightarrow> andThen (set_state newRollupsStateIdle) (\<lambda>_. ret None)) s))"

text \<open>
  \<open>sequencer.go\<close> repeats the body in a function of its own, which both of its sequencers call.
\<close>

definition sequencer_FinishAndGetNext :: "ethlib \<Rightarrow> bool \<Rightarrow> (NonodoModel, Input option) comp" where
  "sequencer_FinishAndGetNext E accept =
     (let status = (if accept then CompletionStatusAccepted else CompletionStatusRejected)
      in andThen (state_finish E status) (\<lambda>_ s.
         case first_unprocessed 0 (nm_inspects s) of
           Some i \<Rightarrow> (Inr (Some (IInspect (nm_inspects s ! i))),
             s\<lparr>nm_state := newRollupsStateInspect i\<rparr>)
         | None \<Rightarrow>
             andThen (on_nm (InputRepository_FindByStatus E CompletionStatusUnprocessed)) (\<lambda>input.
             case input of
               Some input \<Rightarrow> andThen (set_state (newRollupsStateAdvance input)) (\<lambda>_.
                 ret (Some (IAdvance input)))
             | None \<Rightarrow> andThen (set_state newRollupsStateIdle) (\<lambda>_. ret None)) s))"

definition InputBoxSequencer_FinishAndGetNext :: "ethlib \<Rightarrow> bool \<Rightarrow> (NonodoModel, Input option) comp" where
  "InputBoxSequencer_FinishAndGetNext E accept = sequencer_FinishAndGetNext E accept"

definition EspressoSequencer_FinishAndGetNext :: "ethlib \<Rightarrow> bool \<Rightarrow> (NonodoModel, Input option) comp" where
  "EspressoSequencer_FinishAndGetNext E accept = sequencer_FinishAndGetNext E accept"

section \<open>Outputs of the current input\<close>

definition addVoucher_advance ::
  "ethlib \<Rightarrow> rollupsStateAdvance \<Rightarrow> address \<Rightarrow> bytes \<Rightarrow> u64 \<Rightarrow> (NonodoModel, int) comp" where
  "addVoucher_advance E st destination payload inputIndex =
     (let index = int (length (sa_vouchers st));
          voucher = \<lparr>cv_Destination = destination, cv_Payload = Bytes2Hex E payload,
            cv_InputIndex = inputIndex, cv_OutputIndex = of_int index, cv_Executed = False,
            cv_AppContract = 0\<rparr>
      in andThen (set_state (StAdvance (st\<lparr>sa_vouchers := sa_vouchers st @ [voucher]\<rparr>))) (\<lambda>_. ret index))"

definition AddVoucher :: "ethlib \<Rightarrow> address \<Rightarrow> bytes \<Rightarrow> (NonodoModel, int) comp" where
  "AddVoucher E destination payload s = (case nm_state s of
       rollupsStateIdle \<Rightarrow> (Inl (EMsg ''cannot add voucher in idle state''), s)
     | StAdvance st \<Rightarrow> addVoucher_advance E st destination payload (of_int (ai_Index (sa_input st))) s
     | StInspect _ \<Rightarrow> (Inl (EMsg ''cannot add voucher in inspect state''), s))"

definition AddVoucherWithInput :: "ethlib \<Rightarrow> address \<Rightarrow> bytes \<Rightarrow> int \<Rightarrow> (NonodoModel, int) comp" where
  "AddVoucherWithInput E destination payload inputIndex s = (case nm_state s of
       rollupsStateIdle \<Rightarrow> (Inl (EMsg ''cannot add voucher in idle state''), s)
     | StAdvance st \<Rightarrow> addVoucher_advance E st destination payload (of_int inputIndex) s
     | StInspect _ \<Rightarrow> (Inl (EMsg ''cannot add voucher in inspect state''), s))"

definition addNotice_advance ::
  "ethlib \<Rightarrow> rollupsStateAdvance \<Rightarrow> bytes \<Rightarrow> u64 \<Rightarrow> (NonodoModel, int) comp" where
  "addNotice_advance E st payload inputIndex =
     (let index = int (length (sa_notices st));
          notice = \<lparr>cn_Payload = Bytes2Hex E payload, cn_InputIndex = inputIndex,
            cn_OutputIndex = of_int index, cn_AppContract = 0\<rparr>
      in andThen (set_state (StAdvance (st\<lparr>sa_notices := sa_notices st @ [notice]\<rparr>))) (\<lambda>_. ret index))"

definition AddNotice :: "ethlib \<Rightarrow> bytes \<Rightarrow> (NonodoModel, int) comp" where
  "AddNotice E payload s = (case nm_state s of
       StAdvance st \<Rightarrow> addNotice_advance E st payload (of_int (ai_Index (sa_input st))) s
     | _ \<Rightarrow> (Inl (EMsg ''cannot add notice in current state''), s))"

definition AddNoticeWithInput :: "ethlib \<Rightarrow> bytes \<Rightarrow> int \<Rightarrow> (NonodoModel, int) comp" where
  "AddNoticeWithInput E payload inputIndex s = (case nm_state s of
       StAdvance st \<Rightarrow> addNotice_advance E st payload (of_int inputIndex) s
     | _ \<Rightarrow> (Inl (EMsg ''cannot add notice in current state''), s))"

definition AddReport :: "bytes \<Rightarrow> (NonodoModel, unit) comp" where
  "AddReport payload s = (case nm_state s of
       rollupsStateIdle \<Rightarrow> (Inl (EMsg ''cannot add report in current state''), s)
     | StAdvance st \<Rightarrow>
         let report = \<lparr>rp_Index = int (length (sa_reports st)), rp_InputIndex = ai_Index (sa_input st),
               rp_Payload = payload, rp_AppContract = 0\<rparr>
         in set_state (StAdvance (st\<lparr>sa_reports := sa_reports st @ [report]\<rparr>)) s
     | StInspect st \<Rightarrow>
         let report = \<lparr>mr_Index = int (length (si_reports st)),
               mr_InputIndex = ii_Index (nm_inspects s ! si_input st), mr_Payload = payload\<rparr>
         in set_state (StInspect (st\<lparr>si_reports := si_reports st @ [report]\<rparr>)) s)"

definition registerException_advance ::
  "ethlib \<Rightarrow> rollupsStateAdvance \<Rightarrow> bytes \<Rightarrow> (NonodoModel, unit) comp" where
  "registerException_advance E st payload s =
     (let input = (sa_input st)\<lparr>ai_Status := CompletionStatusException, ai_Reports := sa_reports st,
            ai_Exception := payload\<rparr>
      in andThen (set_state (StAdvance (st\<lparr>sa_input := input\<rparr>))) (\<lambda>_.
         andThen (on_nm (InputRepository_Update E NoTx input)) (\<lambda>_.
         on_nm (saveAllReports E (nm_hasReportRepository s) (sa_reports st)))) s)"

text \<open>The count's error is dropped here; the count is then -1.\<close>

definition registerException_inspect ::
  "ethlib \<Rightarrow> rollupsStateInspect \<Rightarrow> bytes \<Rightarrow> (NonodoModel, unit) comp" where
  "registerException_inspect E st payload =
     andThen (upd_inspect (si_input st) (\<lambda>i. i\<lparr>ii_Status := CompletionStatusException\<rparr>)) (\<lambda>_.
     andThen (onError (getProcessedInputCount E) (\<lambda>_. ret (-1))) (\<lambda>inputCount.
     upd_inspect (si_input st) (\<lambda>i. i\<lparr>ii_ProcessedInputCount := inputCount,
       ii_Reports := si_reports st, ii_Exception := payload\<rparr>)))"

definition RegisterException :: "ethlib \<Rightarrow> bytes \<Rightarrow> (NonodoModel, unit) comp" where
  "RegisterException E payload =
     andThen (\<lambda>s. case nm_state s of
         rollupsStateIdle \<Rightarrow> (Inl (EMsg ''cannot register exception in current state''), s)
       | StAdvance st \<Rightarrow> registerException_advance E st payload s
       | StInspect st \<Rightarrow> registerException_inspect E st payload s) (\<lambda>_.
     set_state newRollupsStateIdle)"

end
