(* ===== verification/Frames.thy ===== *)
theory Frames
  imports Decoder
begin

text \<open>
  What a statement leaves alone. The locale \<open>table_frame\<close> is the interface between the database
  and everything that writes through the service: a relation between the database before and
  after that a query and a statement on other tables than \<open>t\<close> respect. It has two
  interpretations: inside a transaction, where the committed tables stay and the table \<open>t\<close> of
  the transaction stays, and outside, where the committed table \<open>t\<close> stays.
\<close>

fun stmt_table :: "stmt \<Rightarrow> string option" where
  "stmt_table (SCreateTable n _ _ _) = Some n"
| "stmt_table SCreateIndex = None"
| "stmt_table (SInsert n _ _) = Some n"
| "stmt_table (SUpdate n _ _) = Some n"
| "stmt_table (SSelect _ _ _ _ _ _) = None"

lemma run_stmt_other: "run_stmt vals st ts = Inr ts' \<Longrightarrow> stmt_table st \<noteq> Some t \<Longrightarrow> ts' t = ts t"
  by (cases st) (auto simp: run_stmt_def rbind_Inr_iff split: option.splits)

lemma pop_fault_frame:
  "pop_fault d = (x, d') \<Longrightarrow> db_committed d' = db_committed d \<and> db_pending d' = db_pending d \<and>
     (db_faults d = [] \<longrightarrow> db_faults d' = [])"
  by (auto simp: pop_fault_def split: list.splits)

lemma sql_exec_other:
  assumes "parse_script text = Some [st]" and "stmt_table st \<noteq> Some t" and "sql_exec ts text args = Inr ts'"
  shows "ts' t = ts t"
  using assms by (auto simp: sql_exec_def rbind_Inr_iff dest: run_stmt_other)

lemma db_Query_state: "snd (db_Query text args d) = snd (pop_fault d)"
  by (simp add: db_Query_def split: option.splits fault.splits sum.splits prod.splits)

locale table_frame =
  fixes R :: "db \<Rightarrow> db \<Rightarrow> bool" and c :: ctx and t :: string
  assumes R_refl: "reflp R" and R_trans: "transp R"
    and keeps_db_Query: "keeps R (db_Query text args)"
    and keeps_ExecContext: "parse_script text = Some [st] \<Longrightarrow> stmt_table st \<noteq> Some t \<Longrightarrow>
      keeps R (DBExecutor_ExecContext c text args)"
begin

lemmas steps = keeps_andThen [OF R_trans] keeps_onError [OF R_trans] keeps_wrapErr
  keeps_ret [OF R_refl] keeps_fail [OF R_refl] keeps_lift_res [OF R_refl]

lemma keeps_first_row: "keeps R (first_row text args parse)"
  unfolding first_row_def by (intro steps keeps_db_Query) (auto intro: steps split: list.splits)

lemma keeps_CreateVoucher:
  "t \<noteq> ''convenience_vouchers'' \<Longrightarrow> keeps R (ConvenienceService_CreateVoucher E c v)"
  unfolding ConvenienceService_CreateVoucher_def VoucherRepository_FindVoucherByAppContractAndIndex_def
    VoucherRepository_UpdateVoucher_def VoucherRepository_CreateVoucher_def Let_def
  by (auto intro!: steps keeps_first_row keeps_ExecContext [OF insertVoucher_parse]
      keeps_ExecContext [OF updateVoucher_parse])

lemma keeps_CreateNotice:
  "t \<noteq> ''convenience_notices'' \<Longrightarrow> keeps R (ConvenienceService_CreateNotice E c n)"
  unfolding ConvenienceService_CreateNotice_def NoticeRepository_FindNoticeByAppContractAndIndex_def
    NoticeRepository_Update_def NoticeRepository_Create_def Let_def
  by (auto intro!: steps keeps_first_row keeps_ExecContext [OF insertNotice_parse]
      keeps_ExecContext [OF updateNotice_parse])

lemma keeps_ReportCreate:
  "t \<noteq> ''convenience_reports'' \<Longrightarrow> keeps R (ReportRepository_Create E c r)"
  unfolding ReportRepository_Create_def Let_def
  by (auto intro!: steps keeps_ExecContext [OF insertReport_parse])

lemma keeps_CreateReport:
  "t \<noteq> ''convenience_reports'' \<Longrightarrow> keeps R (ConvenienceService_CreateReport E c r)"
  unfolding ConvenienceService_CreateReport_def ReportRepository_FindReportByAppContractAndIndex_def
    ReportRepository_Update_def Let_def
  by (auto intro!: steps keeps_first_row keeps_ReportCreate keeps_ExecContext [OF updateReport_parse])

lemma keeps_CreateInput:
  "t \<noteq> ''convenience_inputs'' \<Longrightarrow> keeps R (ConvenienceService_CreateInput E c i)"
  unfolding ConvenienceService_CreateInput_def InputRepository_FindInputByAppContractAndIndex_def
    InputRepository_Update_def InputRepository_RawCreate_def InputRepository_rawCreate_def Let_def
  by (auto intro!: steps keeps_first_row keeps_ExecContext [OF insertInput_parse]
      keeps_ExecContext [OF updateInput_parse])

text \<open>The handlers of the decoder write outputs, inputs and reports.\<close>

lemma keeps_HandleOutput:
  "t \<noteq> ''convenience_vouchers'' \<Longrightarrow> t \<noteq> ''convenience_notices'' \<Longrightarrow>
   keeps R (HandleOutput E c destination payload i o')"
  unfolding HandleOutput_def by (auto intro!: steps keeps_CreateVoucher keeps_CreateNotice)

lemma keeps_HandleOutputV2:
  "t \<noteq> ''convenience_vouchers'' \<Longrightarrow> t \<noteq> ''convenience_notices'' \<Longrightarrow> keeps R (HandleOutputV2 E c p)"
  unfolding HandleOutputV2_def by (auto intro!: steps keeps_CreateVoucher keeps_CreateNotice)

lemma keeps_HandleInput: "t \<noteq> ''convenience_inputs'' \<Longrightarrow> keeps R (HandleInput E c i st)"
  unfolding HandleInput_def by (auto intro!: steps keeps_CreateInput)

lemma keeps_HandleReport: "t \<noteq> ''convenience_reports'' \<Longrightarrow> keeps R (HandleReport E c k n payload)"
  unfolding HandleReport_def by (auto intro!: steps keeps_CreateReport)

end

section \<open>Inside a transaction\<close>

text \<open>The committed tables stay, and so does the table \<open>t\<close> of the open transaction.\<close>

definition tx_frame :: "string \<Rightarrow> db \<Rightarrow> db \<Rightarrow> bool" where
  "tx_frame t d d' \<longleftrightarrow> db_committed d' = db_committed d \<and>
     (case db_pending d of None \<Rightarrow> db_pending d' = None
      | Some p \<Rightarrow> (\<exists>p'. db_pending d' = Some p' \<and> p' t = p t))"

lemma tx_frame_refl [simp]: "reflp (tx_frame t)"
  by (auto simp: reflp_def tx_frame_def split: option.splits)

lemma tx_frame_trans [simp]: "transp (tx_frame t)"
  by (rule transpI) (auto simp: tx_frame_def split: option.splits)

interpretation in_tx: table_frame "tx_frame t" WithTx t for t
proof
  show "keeps (tx_frame t) (db_Query q args)" for q args
    using pop_fault_frame [OF surjective_pairing]
    by (auto simp: keeps_def tx_frame_def db_Query_state split: option.splits)
  show "keeps (tx_frame t) (DBExecutor_ExecContext WithTx q args)"
    if "parse_script q = Some [st]" "stmt_table st \<noteq> Some t" for q st args
    unfolding keeps_def
  proof
    fix d
    obtain x d' where p: "pop_fault d = (x, d')" by fastforce
    show "tx_frame t d (snd (DBExecutor_ExecContext WithTx q args d))"
      using pop_fault_frame [OF p] sql_exec_other [OF that]
      by (auto simp: DBExecutor_ExecContext_def GetTransaction_def tx_Exec_def p tx_frame_def
          split: option.splits fault.splits sum.splits)
  qed
qed simp_all

section \<open>Outside a transaction\<close>

text \<open>The committed table \<open>t\<close> stays, an open transaction stays, and no fault is added.\<close>

definition com_frame :: "string \<Rightarrow> db \<Rightarrow> db \<Rightarrow> bool" where
  "com_frame t d d' \<longleftrightarrow> db_committed d' t = db_committed d t \<and> db_pending d' = db_pending d \<and>
     (db_faults d = [] \<longrightarrow> db_faults d' = [])"

lemma com_frame_refl [simp]: "reflp (com_frame t)"
  by (auto simp: reflp_def com_frame_def)

lemma com_frame_trans [simp]: "transp (com_frame t)"
  by (rule transpI) (auto simp: com_frame_def)

interpretation no_tx: table_frame "com_frame t" NoTx t for t
proof
  show "keeps (com_frame t) (db_Query q args)" for q args
    using pop_fault_frame [OF surjective_pairing]
    by (auto simp: keeps_def com_frame_def db_Query_state)
  show "keeps (com_frame t) (DBExecutor_ExecContext NoTx q args)"
    if "parse_script q = Some [st]" "stmt_table st \<noteq> Some t" for q st args
    unfolding keeps_def
  proof
    fix d
    obtain x d' where p: "pop_fault d = (x, d')" by fastforce
    show "com_frame t d (snd (DBExecutor_ExecContext NoTx q args d))"
      using pop_fault_frame [OF p] sql_exec_other [OF that]
      by (auto simp: DBExecutor_ExecContext_def GetTransaction_def db_Exec_def p com_frame_def
          split: option.splits fault.splits sum.splits)
  qed
qed simp_all

end
