(* ===== verification/NonodoLaws.thy ===== *)
theory NonodoLaws
  imports NonodoModel Frames
begin

text \<open>
  The model of \<open>NonodoModel\<close> as a state machine: one rule per method, and a rule for what other
  workers do to the database between two methods. The invariants are about every reachable
  state; the last sections follow an input from its arrival to its result.
\<close>

section \<open>Steps and reachable states\<close>

inductive nonodo_step :: "ethlib \<Rightarrow> NonodoModel \<Rightarrow> NonodoModel \<Rightarrow> bool" for E where
  st_advance: "nonodo_step E s (snd (AddAdvanceInput E sender payload block time index s))"
| st_inspect: "nonodo_step E s (snd (AddInspectInput payload s))"
| st_finish: "nonodo_step E s (snd (FinishAndGetNext E accepted s))"
| st_voucher: "nonodo_step E s (snd (AddVoucher E destination payload s))"
| st_voucher_with: "nonodo_step E s (snd (AddVoucherWithInput E destination payload index s))"
| st_notice: "nonodo_step E s (snd (AddNotice E payload s))"
| st_notice_with: "nonodo_step E s (snd (AddNoticeWithInput E payload index s))"
| st_report: "nonodo_step E s (snd (AddReport payload s))"
| st_exception: "nonodo_step E s (snd (RegisterException E payload s))"
| st_database: "nonodo_step E s (s\<lparr>nm_db := d\<rparr>)"

inductive nonodo_reachable :: "ethlib \<Rightarrow> NonodoModel \<Rightarrow> bool" for E where
  start: "nonodo_reachable E (NewNonodoModel decoder hasReports d)"
| step: "nonodo_reachable E s \<Longrightarrow> nonodo_step E s s' \<Longrightarrow> nonodo_reachable E s'"

inductive_cases nonodo_stepE: "nonodo_step E s s'"
inductive_simps nonodo_reachable_iff: "nonodo_reachable E s"

section \<open>How the methods change the two shared fields\<close>

lemma on_nm_apply: "on_nm m s = (fst (m (nm_db s)), s\<lparr>nm_db := snd (m (nm_db s))\<rparr>)"
  by (simp add: on_nm_def split: prod.splits)

lemma set_state_apply [simp]: "set_state st s = (Inr (), s\<lparr>nm_state := st\<rparr>)"
  by (simp add: set_state_def)

lemma upd_inspect_apply [simp]:
  "upd_inspect i f s = (Inr (), s\<lparr>nm_inspects := (nm_inspects s)[i := f (nm_inspects s ! i)]\<rparr>)"
  by (simp add: upd_inspect_def)

text \<open>Methods that leave the inspects, the state and the decoder alone.\<close>

definition db_only :: "NonodoModel \<Rightarrow> NonodoModel \<Rightarrow> bool" where
  "db_only s s' \<longleftrightarrow> (\<exists>d. s' = s\<lparr>nm_db := d\<rparr>)"

lemma db_only_refl [simp]: "reflp db_only"
  unfolding reflp_def db_only_def by (metis NonodoModel.surjective NonodoModel.update_convs(5))

lemma db_only_trans [simp]: "transp db_only"
  by (rule transpI) (auto simp: db_only_def)

lemma keeps_on_nm [simp]: "keeps db_only (on_nm m)"
  by (auto simp: keeps_def db_only_def on_nm_apply)

lemmas db_only_keeps = keeps_andThen [OF db_only_trans] keeps_onError [OF db_only_trans]
  keeps_ret [OF db_only_refl] keeps_fail [OF db_only_refl] keeps_on_nm

lemma keeps_getProcessedInputCount: "keeps db_only (getProcessedInputCount E)"
  unfolding getProcessedInputCount_def by (intro db_only_keeps)

lemma AddAdvanceInput_frame: "db_only s (snd (AddAdvanceInput E sender payload b t i s))"
  using keepsD [of db_only "AddAdvanceInput E sender payload b t i" s, OF _ surjective_pairing]
  unfolding AddAdvanceInput_def by (simp add: db_only_keeps)

text \<open>Finishing an advance keeps the inspects and the collected outputs.\<close>

definition finished_input :: "rollupsStateAdvance \<Rightarrow> CompletionStatus \<Rightarrow> AdvanceInput" where
  "finished_input st status =
     (if status = CompletionStatusAccepted
      then (sa_input st)\<lparr>ai_Status := status, ai_Vouchers := sa_vouchers st, ai_Notices := sa_notices st\<rparr>
      else (sa_input st)\<lparr>ai_Status := status\<rparr>)"

definition finish_writes ::
  "ethlib \<Rightarrow> HandleOutput_type option \<Rightarrow> bool \<Rightarrow> rollupsStateAdvance \<Rightarrow> CompletionStatus \<Rightarrow> (db, unit) comp" where
  "finish_writes E decoder hasReports st status =
     andThen
       (if status = CompletionStatusAccepted \<and> decoder \<noteq> None then
          andThen (sendAllInputVouchersToDecoder decoder (of_int (ai_Index (sa_input st))) (sa_vouchers st))
            (\<lambda>_. sendAllInputNoticesToDecoder decoder (of_int (ai_Index (sa_input st))) (sa_notices st))
        else ret ()) (\<lambda>_.
     andThen (saveAllReports E hasReports (sa_reports st)) (\<lambda>_.
     andThen (InputRepository_Update E NoTx (finished_input st status)) (\<lambda>_. ret ())))"

lemma on_nm_andThen: "on_nm (andThen m f) = andThen (on_nm m) (\<lambda>x. on_nm (f x))"
  by (rule ext) (auto simp: on_nm_def andThen_apply split: prod.splits sum.splits)

lemma on_nm_ret: "on_nm (ret x) = ret x"
  by (rule ext) (simp add: on_nm_def)

lemma on_nm_if: "on_nm (if b then m else n) = (if b then on_nm m else on_nm n)"
  by simp

lemma finish_advance_eq:
  "finish_advance E st status s =
     on_nm (finish_writes E (nm_decoder s) (nm_hasReportRepository s) st status)
       (s\<lparr>nm_state := StAdvance (st\<lparr>sa_input := finished_input st status\<rparr>)\<rparr>)"
  by (simp only: finish_advance_def finish_writes_def finished_input_def Let_def on_nm_andThen on_nm_ret
      on_nm_if andThen_ok [OF set_state_apply] AdvanceInput.simps if_distrib split: if_split) simp

lemma finished_input_index [simp]: "ai_Index (finished_input st status) = ai_Index (sa_input st)"
  by (simp add: finished_input_def)

lemma finish_advance_frame:
  "\<exists>d. snd (finish_advance E st status s) =
     s\<lparr>nm_state := StAdvance (st\<lparr>sa_input := finished_input st status\<rparr>), nm_db := d\<rparr>"
  by (auto simp: finish_advance_eq on_nm_apply)

text \<open>Counting the processed inputs touches the database at most.\<close>

lemma count_cases: "\<exists>r d. getProcessedInputCount E s = (r, s\<lparr>nm_db := d\<rparr>)"
  using keeps_getProcessedInputCount [of E] unfolding keeps_def db_only_def
  by (metis surjective_pairing)

text \<open>
  Finishing an inspect writes that inspect only: its status in any case, and its result when the
  count succeeds.
\<close>

lemma finish_inspect_cases:
  obtains d e where "finish_inspect E st status s = (Inl e, s\<lparr>nm_inspects := (nm_inspects s)
      [si_input st := (nm_inspects s ! si_input st)\<lparr>ii_Status := status\<rparr>], nm_db := d\<rparr>)"
  | d n where "si_input st < length (nm_inspects s) \<Longrightarrow> finish_inspect E st status s = (Inr (), s\<lparr>nm_db := d, nm_inspects := (nm_inspects s)
      [si_input st := (nm_inspects s ! si_input st)\<lparr>ii_Status := status, ii_ProcessedInputCount := n,
        ii_Reports := si_reports st\<rparr>]\<rparr>)"
proof -
  obtain r d where c: "getProcessedInputCount E (s\<lparr>nm_inspects := (nm_inspects s)
      [si_input st := (nm_inspects s ! si_input st)\<lparr>ii_Status := status\<rparr>]\<rparr>) = (r, s\<lparr>nm_inspects := (nm_inspects s)
      [si_input st := (nm_inspects s ! si_input st)\<lparr>ii_Status := status\<rparr>], nm_db := d\<rparr>)"
    using count_cases by fastforce
  show thesis
  proof (cases r)
    case (Inl e)
    with c show thesis by (intro that(1)) (simp add: finish_inspect_def andThen_apply)
  next
    case (Inr n)
    with c show thesis by (intro that(2)) (simp add: finish_inspect_def andThen_apply)
  qed
qed

lemma registerException_inspect_cases:
  obtains d e where "registerException_inspect E st payload s = (Inl e, s\<lparr>nm_inspects := (nm_inspects s)
      [si_input st := (nm_inspects s ! si_input st)\<lparr>ii_Status := CompletionStatusException\<rparr>], nm_db := d\<rparr>)"
  | d n where "si_input st < length (nm_inspects s) \<Longrightarrow> registerException_inspect E st payload s = (Inr (), s\<lparr>nm_db := d, nm_inspects := (nm_inspects s)
      [si_input st := (nm_inspects s ! si_input st)\<lparr>ii_Status := CompletionStatusException,
        ii_ProcessedInputCount := n, ii_Reports := si_reports st, ii_Exception := payload\<rparr>]\<rparr>)"
proof -
  obtain r d where c: "getProcessedInputCount E (s\<lparr>nm_inspects := (nm_inspects s)
      [si_input st := (nm_inspects s ! si_input st)\<lparr>ii_Status := CompletionStatusException\<rparr>]\<rparr>) = (r, s\<lparr>nm_inspects := (nm_inspects s)
      [si_input st := (nm_inspects s ! si_input st)\<lparr>ii_Status := CompletionStatusException\<rparr>], nm_db := d\<rparr>)"
    using count_cases by fastforce
  show thesis
  proof (cases r)
    case (Inl e)
    show thesis
    proof (cases "is_panic e")
      case True
      with Inl c show thesis
        by (intro that(1)) (simp add: registerException_inspect_def andThen_apply onError_apply)
    next
      case False
      with Inl c show thesis
        by (intro that(2) [where n = "-1"]) (simp add: registerException_inspect_def andThen_apply onError_apply)
    qed
  next
    case (Inr n)
    with c show thesis
      by (intro that(2) [where n = n]) (simp add: registerException_inspect_def andThen_apply onError_apply)
  qed
qed

section \<open>The invariant\<close>

text \<open>
  The inspects are numbered, an inspect that was not processed has no result, and the processed
  ones are the first \<open>n\<close>.
\<close>

definition inspects_ok :: "InspectInput list \<Rightarrow> bool" where
  "inspects_ok xs \<longleftrightarrow> (\<forall>i < length xs. ii_Index (xs ! i) = int i \<and>
     ii_Status (xs ! i) \<in> {CompletionStatusUnprocessed, CompletionStatusAccepted,
       CompletionStatusRejected, CompletionStatusException} \<and>
     (ii_Status (xs ! i) = CompletionStatusUnprocessed \<longrightarrow>
        ii_Reports (xs ! i) = [] \<and> ii_ProcessedInputCount (xs ! i) = 0 \<and> ii_Exception (xs ! i) = []))"

definition processed_first :: "nat \<Rightarrow> InspectInput list \<Rightarrow> bool" where
  "processed_first n xs \<longleftrightarrow>
     (\<forall>i < length xs. ii_Status (xs ! i) = CompletionStatusUnprocessed \<longleftrightarrow> n \<le> i)"

text \<open>Outputs are numbered from 0 in the order they were added, and reports carry their input.\<close>

definition state_ok :: "InspectInput list \<Rightarrow> rollupsState \<Rightarrow> bool" where
  "state_ok xs st = (case st of
       rollupsStateIdle \<Rightarrow> True
     | StAdvance a \<Rightarrow>
         map cv_OutputIndex (sa_vouchers a) = map of_nat [0..<length (sa_vouchers a)] \<and>
         map cn_OutputIndex (sa_notices a) = map of_nat [0..<length (sa_notices a)] \<and>
         map rp_Index (sa_reports a) = map int [0..<length (sa_reports a)] \<and>
         (\<forall>r \<in> set (sa_reports a). rp_InputIndex r = ai_Index (sa_input a))
     | StInspect i \<Rightarrow>
         si_input i < length xs \<and>
         (processed_first (si_input i) xs \<or> processed_first (Suc (si_input i)) xs) \<and>
         map mr_Index (si_reports i) = map int [0..<length (si_reports i)] \<and>
         (\<forall>r \<in> set (si_reports i). mr_InputIndex r = int (si_input i)))"

definition nonodo_inv :: "NonodoModel \<Rightarrow> bool" where
  "nonodo_inv s \<longleftrightarrow> inspects_ok (nm_inspects s) \<and> (\<exists>n. processed_first n (nm_inspects s)) \<and>
     state_ok (nm_inspects s) (nm_state s)"

lemma status_distinct [simp]:
  "CompletionStatusAccepted \<noteq> CompletionStatusUnprocessed"
  "CompletionStatusRejected \<noteq> CompletionStatusUnprocessed"
  "CompletionStatusException \<noteq> CompletionStatusUnprocessed"
  "CompletionStatusUnprocessed \<noteq> CompletionStatusAccepted"
  "CompletionStatusUnprocessed \<noteq> CompletionStatusRejected"
  "CompletionStatusUnprocessed \<noteq> CompletionStatusException"
  by (simp_all add: status_defs)

lemma nonodo_inv_db [simp]: "nonodo_inv (s\<lparr>nm_db := d\<rparr>) = nonodo_inv s"
  by (simp add: nonodo_inv_def)

lemma nonodo_inv_db_only: "db_only s s' \<Longrightarrow> nonodo_inv s' = nonodo_inv s"
  by (auto simp: db_only_def)

lemma nonodo_inv_init: "nonodo_inv (NewNonodoModel decoder hasReports d)"
  by (simp add: nonodo_inv_def NewNonodoModel_def inspects_ok_def processed_first_def state_ok_def)

lemma inspects_ok_write:
  assumes "inspects_ok xs" and "i < length xs" and "ii_Index x = int i"
    and "ii_Status x \<in> {CompletionStatusAccepted, CompletionStatusRejected, CompletionStatusException}"
  shows "inspects_ok (xs[i := x])"
  using assms by (auto simp: inspects_ok_def nth_list_update)

lemma processed_first_write:
  assumes "processed_first i xs \<or> processed_first (Suc i) xs" and "i < length xs"
    and "ii_Status x \<noteq> CompletionStatusUnprocessed"
  shows "processed_first (Suc i) (xs[i := x])"
  using assms by (auto simp: processed_first_def nth_list_update)

lemma first_unprocessed_Some:
  "first_unprocessed k xs = Some i \<Longrightarrow> k \<le> i \<and> i - k < length xs \<and>
     ii_Status (xs ! (i - k)) = CompletionStatusUnprocessed \<and>
     (\<forall>j < i - k. ii_Status (xs ! j) \<noteq> CompletionStatusUnprocessed)"
proof (induction k xs rule: first_unprocessed.induct)
  case (2 k x xs)
  show ?case
  proof (cases "ii_Status x = CompletionStatusUnprocessed")
    case False
    with 2 have IH: "Suc k \<le> i" "i - Suc k < length xs"
      "ii_Status (xs ! (i - Suc k)) = CompletionStatusUnprocessed"
      "\<forall>j < i - Suc k. ii_Status (xs ! j) \<noteq> CompletionStatusUnprocessed" by auto
    then have "i - k = Suc (i - Suc k)" by simp
    with IH False show ?thesis by (auto simp: less_Suc_eq_0_disj)
  qed (use 2 in simp)
qed simp

lemma first_unprocessed_None:
  "first_unprocessed k xs = None \<longleftrightarrow> (\<forall>x \<in> set xs. ii_Status x \<noteq> CompletionStatusUnprocessed)"
  by (induction k xs rule: first_unprocessed.induct) auto

lemma first_unprocessed_first:
  assumes "processed_first n xs" and "first_unprocessed 0 xs = Some i"
  shows "processed_first i xs \<and> i < length xs"
proof -
  have i: "i < length xs" "ii_Status (xs ! i) = CompletionStatusUnprocessed"
    "\<forall>j < i. ii_Status (xs ! j) \<noteq> CompletionStatusUnprocessed"
    using first_unprocessed_Some [OF assms(2)] by auto
  with assms(1) have "n \<le> i" by (simp add: processed_first_def)
  moreover have "i \<le> n"
  proof (rule ccontr)
    assume "\<not> i \<le> n"
    with assms(1) i(1) have "ii_Status (xs ! n) = CompletionStatusUnprocessed"
      by (simp add: processed_first_def)
    with i(3) \<open>\<not> i \<le> n\<close> show False by simp
  qed
  ultimately show ?thesis using assms(1) i(1) by simp
qed

section \<open>Every method keeps the invariant\<close>

lemma inv_AddInspectInput:
  assumes "nonodo_inv s"
  shows "nonodo_inv (snd (AddInspectInput payload s))"
proof -
  obtain n where n: "processed_first n (nm_inspects s)" using assms by (auto simp: nonodo_inv_def)
  let ?x = "\<lparr>ii_Index = int (length (nm_inspects s)), ii_Status = CompletionStatusUnprocessed,
    ii_Payload = payload, ii_ProcessedInputCount = 0, ii_Reports = [], ii_Exception = []\<rparr>"
  have grow: "processed_first (min m (length (nm_inspects s))) (nm_inspects s @ [?x])"
    if "processed_first m (nm_inspects s)" for m
    using that by (auto simp: processed_first_def nth_append less_Suc_eq)
  have "inspects_ok (nm_inspects s @ [?x])"
    using assms by (auto simp: nonodo_inv_def inspects_ok_def nth_append less_Suc_eq)
  moreover have "state_ok (nm_inspects s @ [?x]) (nm_state s)"
  proof (cases "nm_state s")
    case (StInspect st)
    with assms have i: "si_input st < length (nm_inspects s)"
      "processed_first (si_input st) (nm_inspects s) \<or> processed_first (Suc (si_input st)) (nm_inspects s)"
      by (auto simp: nonodo_inv_def state_ok_def)
    then have "processed_first (si_input st) (nm_inspects s @ [?x]) \<or>
        processed_first (Suc (si_input st)) (nm_inspects s @ [?x])"
      using grow [of "si_input st"] grow [of "Suc (si_input st)"] by (auto simp: min_def Suc_le_eq)
    with i StInspect assms show ?thesis by (auto simp: nonodo_inv_def state_ok_def)
  qed (use assms in \<open>auto simp: nonodo_inv_def state_ok_def\<close>)
  ultimately show ?thesis
    using grow [OF n] by (auto simp: AddInspectInput_def nonodo_inv_def Let_def)
qed

lemma state_ok_finished:
  "state_ok xs (StAdvance st) \<Longrightarrow> state_ok xs (StAdvance (st\<lparr>sa_input := finished_input st status\<rparr>))"
  by (simp add: state_ok_def)

lemma inv_write_inspect:
  assumes "nonodo_inv s" and "nm_state s = StInspect st"
    and "x = (nm_inspects s ! si_input st)\<lparr>ii_Status := status, ii_ProcessedInputCount := n,
      ii_Reports := rs, ii_Exception := ex\<rparr>"
    and "status \<in> {CompletionStatusAccepted, CompletionStatusRejected, CompletionStatusException}"
  shows "nonodo_inv (s\<lparr>nm_inspects := (nm_inspects s)[si_input st := x]\<rparr>)"
proof -
  have i: "si_input st < length (nm_inspects s)"
    and p: "processed_first (si_input st) (nm_inspects s) \<or> processed_first (Suc (si_input st)) (nm_inspects s)"
    using assms(1,2) by (auto simp: nonodo_inv_def state_ok_def)
  have st: "ii_Status x \<noteq> CompletionStatusUnprocessed" using assms(3,4) by auto
  have "ii_Index x = int (si_input st)"
    using assms(1,3) i by (auto simp: nonodo_inv_def inspects_ok_def)
  then have "inspects_ok ((nm_inspects s)[si_input st := x])"
    using assms(1,3,4) i by (intro inspects_ok_write) (auto simp: nonodo_inv_def)
  with processed_first_write [OF p i st] show ?thesis
    using assms(1,2) i by (auto simp: nonodo_inv_def state_ok_def)
qed

lemma nonodo_inv_state: "nonodo_inv (s\<lparr>nm_state := st\<rparr>) \<longleftrightarrow>
    inspects_ok (nm_inspects s) \<and> (\<exists>n. processed_first n (nm_inspects s)) \<and> state_ok (nm_inspects s) st"
  by (simp add: nonodo_inv_def)

lemma inv_state_finish:
  assumes "nonodo_inv s" and "status \<in> {CompletionStatusAccepted, CompletionStatusRejected}"
  shows "nonodo_inv (snd (state_finish E status s))"
proof (cases "nm_state s")
  case (StAdvance st)
  obtain d where "snd (finish_advance E st status s) =
      s\<lparr>nm_state := StAdvance (st\<lparr>sa_input := finished_input st status\<rparr>), nm_db := d\<rparr>"
    using finish_advance_frame by blast
  with assms(1) StAdvance show ?thesis
    using state_ok_finished [of "nm_inspects s" st status]
    by (simp add: state_finish_def nonodo_inv_def)
next
  case (StInspect st)
  then have i: "si_input st < length (nm_inspects s)"
    using assms(1) by (auto simp: nonodo_inv_def state_ok_def)
  let ?x = "nm_inspects s ! si_input st"
  have same: "?x\<lparr>ii_Status := status\<rparr> = ?x\<lparr>ii_Status := status,
      ii_ProcessedInputCount := ii_ProcessedInputCount ?x, ii_Reports := ii_Reports ?x,
      ii_Exception := ii_Exception ?x\<rparr>"
    "?x\<lparr>ii_Status := status, ii_ProcessedInputCount := n, ii_Reports := rs\<rparr> = ?x\<lparr>ii_Status := status,
      ii_ProcessedInputCount := n, ii_Reports := rs, ii_Exception := ii_Exception ?x\<rparr>" for n rs
    by simp_all
  have st: "status \<in> {CompletionStatusAccepted, CompletionStatusRejected, CompletionStatusException}"
    using assms(2) by auto
  show ?thesis
    using finish_inspect_cases [of E st status s]
  proof cases
    case (1 d e)
    with StInspect inv_write_inspect [OF assms(1) StInspect same(1) st] show ?thesis
      by (simp add: state_finish_def nonodo_inv_def)
  next
    case (2 d n)
    with StInspect inv_write_inspect [OF assms(1) StInspect same(2) st] i show ?thesis
      by (simp add: state_finish_def nonodo_inv_def)
  qed
qed (use assms in \<open>simp add: state_finish_def\<close>)

lemma inv_pick_inspect:
  "nonodo_inv s \<Longrightarrow> first_unprocessed 0 (nm_inspects s) = Some i \<Longrightarrow>
   nonodo_inv (s\<lparr>nm_state := newRollupsStateInspect i\<rparr>)"
  using first_unprocessed_first
  by (fastforce simp: nonodo_inv_def state_ok_def newRollupsStateInspect_def)

lemma inv_pick_advance: "nonodo_inv s \<Longrightarrow> nonodo_inv (s\<lparr>nm_state := newRollupsStateAdvance input\<rparr>)"
  by (simp add: nonodo_inv_def state_ok_def newRollupsStateAdvance_def)

lemma inv_pick_idle: "nonodo_inv s \<Longrightarrow> nonodo_inv (s\<lparr>nm_state := newRollupsStateIdle\<rparr>)"
  by (simp add: nonodo_inv_def state_ok_def newRollupsStateIdle_def)

text \<open>
  What \<open>FinishAndGetNext\<close> does after a successful finish: the first unprocessed inspect, else the
  first unprocessed advance, else idle.
\<close>

definition get_next :: "ethlib \<Rightarrow> (NonodoModel, Input option) comp" where
  "get_next E s = (case first_unprocessed 0 (nm_inspects s) of
       Some i \<Rightarrow> (Inr (Some (IInspect (nm_inspects s ! i))), s\<lparr>nm_state := newRollupsStateInspect i\<rparr>)
     | None \<Rightarrow> (case InputRepository_FindByStatus E CompletionStatusUnprocessed (nm_db s) of
           (Inl e, d) \<Rightarrow> (Inl e, s\<lparr>nm_db := d\<rparr>)
         | (Inr (Some input), d) \<Rightarrow> (Inr (Some (IAdvance input)),
             s\<lparr>nm_db := d, nm_state := newRollupsStateAdvance input\<rparr>)
         | (Inr None, d) \<Rightarrow> (Inr None, s\<lparr>nm_db := d, nm_state := newRollupsStateIdle\<rparr>)))"

lemma FinishAndGetNext_eq:
  "FinishAndGetNext E accepted = andThen
     (state_finish E (if accepted then CompletionStatusAccepted else CompletionStatusRejected))
     (\<lambda>_. get_next E)"
  by (rule ext) (auto simp: FinishAndGetNext_def get_next_def Let_def andThen_apply on_nm_def
      split: prod.splits sum.splits option.splits)

lemma inv_get_next: "nonodo_inv s \<Longrightarrow> nonodo_inv (snd (get_next E s))"
  by (auto simp: get_next_def inv_pick_inspect inv_pick_advance inv_pick_idle
      split: prod.splits sum.splits option.splits)

lemma inv_FinishAndGetNext:
  assumes "nonodo_inv s"
  shows "nonodo_inv (snd (FinishAndGetNext E accepted s))"
proof -
  define status where "status = (if accepted then CompletionStatusAccepted else CompletionStatusRejected)"
  obtain r s' where f: "state_finish E status s = (r, s')" by fastforce
  have "nonodo_inv s'"
    using inv_state_finish [OF assms, of status E] f by (simp add: status_def split: if_splits)
  with f show ?thesis
    by (cases r) (simp_all add: FinishAndGetNext_eq status_def [symmetric] andThen_apply inv_get_next)
qed

lemma inv_outputs:
  assumes "nonodo_inv s"
  shows "nonodo_inv (snd (AddVoucher E destination payload s))"
    and "nonodo_inv (snd (AddVoucherWithInput E destination payload i s))"
    and "nonodo_inv (snd (AddNotice E payload s))"
    and "nonodo_inv (snd (AddNoticeWithInput E payload i s))"
    and "nonodo_inv (snd (AddReport payload s))"
  using assms
  by (auto simp: AddVoucher_def AddVoucherWithInput_def AddNotice_def AddNoticeWithInput_def AddReport_def
      addVoucher_advance_def addNotice_advance_def Let_def andThen_apply nonodo_inv_def state_ok_def
      inspects_ok_def split: rollupsState.splits)

lemma inv_RegisterException:
  assumes "nonodo_inv s"
  shows "nonodo_inv (snd (RegisterException E payload s))"
proof (cases "nm_state s")
  case rollupsStateIdle
  with assms show ?thesis by (simp add: RegisterException_def andThen_apply)
next
  case (StAdvance st)
  let ?in = "(sa_input st)\<lparr>ai_Status := CompletionStatusException, ai_Reports := sa_reports st, ai_Exception := payload\<rparr>"
  have "keeps db_only (andThen (on_nm (InputRepository_Update E NoTx ?in))
      (\<lambda>_. on_nm (saveAllReports E (nm_hasReportRepository s) (sa_reports st))))"
    by (intro db_only_keeps)
  then obtain r d where r: "registerException_advance E st payload s =
      (r, s\<lparr>nm_state := StAdvance (st\<lparr>sa_input := ?in\<rparr>), nm_db := d\<rparr>)"
    unfolding registerException_advance_def keeps_def db_only_def Let_def andThen_ok [OF set_state_apply]
    by (metis surjective_pairing)
  have "nonodo_inv (s\<lparr>nm_state := StAdvance (st\<lparr>sa_input := ?in\<rparr>)\<rparr>)"
    using assms StAdvance by (simp add: nonodo_inv_def state_ok_def)
  with r StAdvance assms show ?thesis
    by (cases r) (simp_all add: RegisterException_def andThen_apply nonodo_inv_state state_ok_def
        nonodo_inv_def newRollupsStateIdle_def)
next
  case (StInspect st)
  then have i: "si_input st < length (nm_inspects s)"
    using assms by (auto simp: nonodo_inv_def state_ok_def)
  let ?x = "nm_inspects s ! si_input st"
  have same: "?x\<lparr>ii_Status := CompletionStatusException\<rparr> = ?x\<lparr>ii_Status := CompletionStatusException,
      ii_ProcessedInputCount := ii_ProcessedInputCount ?x, ii_Reports := ii_Reports ?x,
      ii_Exception := ii_Exception ?x\<rparr>" by simp
  have st: "CompletionStatusException \<in>
      {CompletionStatusAccepted, CompletionStatusRejected, CompletionStatusException}" by simp
  show ?thesis
    using registerException_inspect_cases [of E st payload s]
  proof cases
    case (1 d e)
    with StInspect inv_write_inspect [OF assms StInspect same st] show ?thesis
      by (simp add: RegisterException_def andThen_apply nonodo_inv_def)
  next
    case (2 d n)
    with StInspect inv_write_inspect [OF assms StInspect refl st] i show ?thesis
      by (simp add: RegisterException_def andThen_apply nonodo_inv_def newRollupsStateIdle_def state_ok_def)
  qed
qed

lemma nonodo_step_inv: "nonodo_step E s s' \<Longrightarrow> nonodo_inv s \<Longrightarrow> nonodo_inv s'"
  by (erule nonodo_stepE)
    (simp_all add: inv_AddInspectInput inv_FinishAndGetNext inv_outputs inv_RegisterException
      nonodo_inv_db_only [OF AddAdvanceInput_frame])

lemma nonodo_reachable_inv: "nonodo_reachable E s \<Longrightarrow> nonodo_inv s"
  by (induction rule: nonodo_reachable.induct) (auto simp: nonodo_inv_init intro: nonodo_step_inv)

section \<open>Results of inspects\<close>

text \<open>An inspect is done when it was processed and is no longer the current one.\<close>

definition inspect_done :: "nat \<Rightarrow> InspectInput \<Rightarrow> NonodoModel \<Rightarrow> bool" where
  "inspect_done j x s \<longleftrightarrow> j < length (nm_inspects s) \<and> nm_inspects s ! j = x \<and>
     ii_Status x \<noteq> CompletionStatusUnprocessed \<and> (\<forall>st. nm_state s = StInspect st \<longrightarrow> si_input st \<noteq> j)"

lemma inspect_done_db_only: "db_only s s' \<Longrightarrow> inspect_done j x s \<Longrightarrow> inspect_done j x s'"
  by (auto simp: db_only_def inspect_done_def)

lemma inspect_done_finish:
  assumes "inspect_done j x s" and "nonodo_inv s"
  shows "inspect_done j x (snd (state_finish E status s))"
proof (cases "nm_state s")
  case (StAdvance st)
  obtain d where "snd (finish_advance E st status s) =
      s\<lparr>nm_state := StAdvance (st\<lparr>sa_input := finished_input st status\<rparr>), nm_db := d\<rparr>"
    using finish_advance_frame by blast
  with StAdvance assms(1) show ?thesis by (simp add: state_finish_def inspect_done_def)
next
  case (StInspect st)
  then have i: "si_input st < length (nm_inspects s)" "si_input st \<noteq> j"
    using assms by (auto simp: nonodo_inv_def state_ok_def inspect_done_def)
  show ?thesis
    using finish_inspect_cases [of E st status s]
    by cases (use StInspect assms(1) i in \<open>simp_all add: state_finish_def inspect_done_def\<close>)
qed (use assms in \<open>simp add: state_finish_def\<close>)

lemma inspect_done_get_next:
  assumes "inspect_done j x s"
  shows "inspect_done j x (snd (get_next E s))"
proof -
  have "i \<noteq> j" if "first_unprocessed 0 (nm_inspects s) = Some i" for i
    using first_unprocessed_Some [OF that] assms by (auto simp: inspect_done_def)
  with assms show ?thesis
    by (auto simp: get_next_def inspect_done_def newRollupsStateInspect_def newRollupsStateAdvance_def
        newRollupsStateIdle_def split: prod.splits sum.splits option.splits)
qed

lemma inspect_done_Finish:
  assumes "inspect_done j x s" and "nonodo_inv s"
  shows "inspect_done j x (snd (FinishAndGetNext E accepted s))"
proof -
  define status where "status = (if accepted then CompletionStatusAccepted else CompletionStatusRejected)"
  obtain r s' where f: "state_finish E status s = (r, s')" by fastforce
  with inspect_done_finish [OF assms, of E status] show ?thesis
    by (cases r) (simp_all add: FinishAndGetNext_eq status_def [symmetric] andThen_apply inspect_done_get_next)
qed

lemma inspect_done_outputs:
  assumes "inspect_done j x s"
  shows "inspect_done j x (snd (AddVoucher E destination payload s))"
    and "inspect_done j x (snd (AddVoucherWithInput E destination payload i s))"
    and "inspect_done j x (snd (AddNotice E payload s))"
    and "inspect_done j x (snd (AddNoticeWithInput E payload i s))"
    and "inspect_done j x (snd (AddReport payload s))"
    and "inspect_done j x (snd (AddInspectInput payload s))"
  using assms
  by (auto simp: AddVoucher_def AddVoucherWithInput_def AddNotice_def AddNoticeWithInput_def AddReport_def
      addVoucher_advance_def addNotice_advance_def AddInspectInput_def Let_def andThen_apply inspect_done_def
      nth_append split: rollupsState.splits)

lemma inspect_done_exception:
  assumes "inspect_done j x s" and "nonodo_inv s"
  shows "inspect_done j x (snd (RegisterException E payload s))"
proof (cases "nm_state s")
  case (StAdvance st)
  let ?in = "(sa_input st)\<lparr>ai_Status := CompletionStatusException, ai_Reports := sa_reports st, ai_Exception := payload\<rparr>"
  have "keeps db_only (andThen (on_nm (InputRepository_Update E NoTx ?in))
      (\<lambda>_. on_nm (saveAllReports E (nm_hasReportRepository s) (sa_reports st))))"
    by (intro db_only_keeps)
  then obtain r d where r: "registerException_advance E st payload s =
      (r, s\<lparr>nm_state := StAdvance (st\<lparr>sa_input := ?in\<rparr>), nm_db := d\<rparr>)"
    unfolding registerException_advance_def keeps_def db_only_def Let_def andThen_ok [OF set_state_apply]
    by (metis surjective_pairing)
  with StAdvance assms(1) show ?thesis
    by (cases r) (simp_all add: RegisterException_def andThen_apply inspect_done_def newRollupsStateIdle_def)
next
  case (StInspect st)
  then have i: "si_input st < length (nm_inspects s)" "si_input st \<noteq> j"
    using assms by (auto simp: nonodo_inv_def state_ok_def inspect_done_def)
  show ?thesis
    using registerException_inspect_cases [of E st payload s]
    by cases (use StInspect assms(1) i in \<open>simp_all add: RegisterException_def andThen_apply inspect_done_def
      newRollupsStateIdle_def\<close>)
qed (use assms in \<open>simp add: RegisterException_def andThen_apply\<close>)

lemma inspect_done_step:
  "nonodo_step E s s' \<Longrightarrow> nonodo_inv s \<Longrightarrow> inspect_done j x s \<Longrightarrow> inspect_done j x s'"
  by (erule nonodo_stepE)
    (auto simp: inspect_done_outputs inspect_done_Finish inspect_done_exception
      inspect_done_db_only [OF AddAdvanceInput_frame], auto simp: inspect_done_def)

text \<open>An inspect that was finished without an error is done.\<close>

lemma finished_inspect_done:
  assumes "nonodo_inv s" and "nm_state s = StInspect st" and "FinishAndGetNext E accepted s = (Inr r, s')"
  shows "\<exists>x. inspect_done (si_input st) x s' \<and> ii_Reports x = si_reports st \<and>
    ii_Status x = (if accepted then CompletionStatusAccepted else CompletionStatusRejected)"
proof -
  define status where "status = (if accepted then CompletionStatusAccepted else CompletionStatusRejected)"
  then have nu: "status \<noteq> CompletionStatusUnprocessed" by simp
  have i: "si_input st < length (nm_inspects s)"
    using assms(1,2) by (auto simp: nonodo_inv_def state_ok_def)
  show ?thesis
    using finish_inspect_cases [of E st status s]
  proof cases
    case (1 d e)
    with assms(2,3) show ?thesis
      by (simp add: FinishAndGetNext_eq status_def [symmetric] andThen_apply state_finish_def)
  next
    case (2 d n)
    let ?x = "(nm_inspects s ! si_input st)\<lparr>ii_Status := status, ii_ProcessedInputCount := n,
        ii_Reports := si_reports st\<rparr>"
    let ?s = "s\<lparr>nm_db := d, nm_inspects := (nm_inspects s)[si_input st := ?x]\<rparr>"
    from 2 i assms(2,3) have g: "get_next E ?s = (Inr r, s')"
      by (simp add: FinishAndGetNext_eq status_def [symmetric] andThen_apply state_finish_def)
    have "inspect_done (si_input st) ?x (?s\<lparr>nm_state := newRollupsStateIdle\<rparr>)"
      using i nu by (simp add: inspect_done_def newRollupsStateIdle_def)
    moreover have "get_next E (?s\<lparr>nm_state := newRollupsStateIdle\<rparr>) =
        (fst (get_next E ?s), if \<exists>e. fst (get_next E ?s) = Inl e
           then (snd (get_next E ?s))\<lparr>nm_state := newRollupsStateIdle\<rparr> else snd (get_next E ?s))"
      by (auto simp: get_next_def split: prod.splits sum.splits option.splits)
    ultimately have "inspect_done (si_input st) ?x s'"
      using inspect_done_get_next [of "si_input st" ?x "?s\<lparr>nm_state := newRollupsStateIdle\<rparr>" E] g by simp
    then show ?thesis by (intro exI [of _ ?x]) (simp add: status_def)
  qed
qed

end
