(* ===== verification/NonodoAdvance.thy ===== *)
theory NonodoAdvance
  imports NonodoLaws
begin

text \<open>
  An advance input from the queue to its result: what finishing it writes to the tables, what is
  handed out next, and the two ways in which finishing goes wrong, an output that is lost and a
  report that cannot be saved again.
\<close>

section \<open>Finishing writes the status\<close>

lemma saveAllReports_frame:
  "t \<noteq> ''convenience_reports'' \<Longrightarrow> keeps (com_frame t) (saveAllReports E b rs)"
  unfolding saveAllReports_def
  by (auto intro!: no_tx.steps keeps_forEach no_tx.keeps_ReportCreate)

definition quiet_handler :: "HandleOutput_type option \<Rightarrow> bool" where
  "quiet_handler decoder \<longleftrightarrow> (\<forall>h a p i o'. decoder = Some h \<longrightarrow>
     keeps (com_frame ''convenience_inputs'') (h a p i o'))"

lemma quiet_HandleOutput: "quiet_handler (Some (HandleOutput E NoTx))"
  by (simp add: quiet_handler_def no_tx.keeps_HandleOutput)

lemma quiet_None: "quiet_handler None"
  by (simp add: quiet_handler_def)

lemma sendAll_frames:
  assumes "quiet_handler decoder"
  shows "keeps (com_frame ''convenience_inputs'') (sendAllInputVouchersToDecoder decoder i vs)"
    and "keeps (com_frame ''convenience_inputs'') (sendAllInputNoticesToDecoder decoder i ns)"
  using assms
  by (auto simp: sendAllInputVouchersToDecoder_def sendAllInputNoticesToDecoder_def quiet_handler_def Let_def
      intro!: keeps_forEach no_tx.steps split: option.splits)

lemma finished_input_small:
  assumes "status \<in> {CompletionStatusAccepted, CompletionStatusRejected}" and "list_all input_small xs"
  shows "list_all input_small (map (overwrite_input (finished_input st status)) xs)"
  using assms by (auto simp: list_all_iff overwrite_input_def input_small_def finished_input_def status_defs)

lemma finish_writes_inputs:
  assumes "quiet_handler decoder" and "inputs_in E xs d"
    and "status \<in> {CompletionStatusAccepted, CompletionStatusRejected}"
    and "finish_writes E decoder hasReports st status d = (Inr u, d')"
  shows "inputs_in E (map (overwrite_input (finished_input st status)) xs) d'"
proof -
  define outputs where "outputs = (if status = CompletionStatusAccepted \<and> decoder \<noteq> None then
      andThen (sendAllInputVouchersToDecoder decoder (of_int (ai_Index (sa_input st))) (sa_vouchers st))
        (\<lambda>_. sendAllInputNoticesToDecoder decoder (of_int (ai_Index (sa_input st))) (sa_notices st))
      else ret ())"
  obtain d1 d2 where o1: "outputs d = (Inr (), d1)"
    and r: "saveAllReports E hasReports (sa_reports st) d1 = (Inr (), d2)"
    and u: "andThen (InputRepository_Update E NoTx (finished_input st status)) (\<lambda>_. ret ()) d2 = (Inr u, d')"
    using assms(4) unfolding finish_writes_def outputs_def [symmetric]
    by (elim andThen_InrE) (auto simp: andThen_apply)
  have "keeps (com_frame ''convenience_inputs'') outputs"
    unfolding outputs_def using sendAll_frames [OF assms(1)] by (auto intro!: no_tx.steps)
  from keepsD [OF this o1] keepsD [OF saveAllReports_frame r]
  have "com_frame ''convenience_inputs'' d d2" by (auto simp: com_frame_def)
  with assms(2) have "db_faults d2 = []" "target NoTx d2 = Some (db_committed d2)"
    "db_committed d2 ''convenience_inputs'' = Some (inputs_table E xs)"
    by (auto simp: com_frame_def inputs_in_def)
  from UpdateInput_ok [OF this, of "finished_input st status"] u
  have "d' = d2\<lparr>db_committed := (db_committed d2)(''convenience_inputs'' \<mapsto>
      inputs_table E (map (overwrite_input (finished_input st status)) xs))\<rparr>"
    by (simp add: andThen_apply)
  with \<open>db_faults d2 = []\<close> assms(2) finished_input_small [OF assms(3)] show ?thesis
    by (simp add: inputs_in_def)
qed

text \<open>The next advance is the unprocessed one of the lowest index.\<close>

lemma get_next_advance:
  assumes "inputs_in E xs (nm_db s)" and "first_unprocessed 0 (nm_inspects s) = None"
  shows "get_next E s = (case lowest_index (filter (\<lambda>x. ai_Status x = CompletionStatusUnprocessed) xs) of
      Some x \<Rightarrow> (Inr (Some (IAdvance (stored_input x))), s\<lparr>nm_state := newRollupsStateAdvance (stored_input x)\<rparr>)
    | None \<Rightarrow> (Inr None, s\<lparr>nm_state := newRollupsStateIdle\<rparr>))"
  using assms by (simp add: get_next_def FindByStatus_ok split: option.splits)

lemma get_next_inputs: "inputs_in E xs (nm_db s) \<Longrightarrow> inputs_in E xs (nm_db (snd (get_next E s)))"
  by (auto simp: get_next_def FindByStatus_ok split: option.splits)

lemma finish_advance_inputs:
  assumes "nm_state s = StAdvance st" and "inputs_in E xs (nm_db s)" and "quiet_handler (nm_decoder s)"
    and "FinishAndGetNext E accepted s = (Inr r, s')"
  defines "status \<equiv> (if accepted then CompletionStatusAccepted else CompletionStatusRejected)"
  defines "xs' \<equiv> map (overwrite_input (finished_input st status)) xs"
  obtains s1 where "inputs_in E xs' (nm_db s1)" and "nm_inspects s1 = nm_inspects s"
    and "get_next E s1 = (Inr r, s')" and "inputs_in E xs' (nm_db s')"
proof -
  let ?s = "s\<lparr>nm_state := StAdvance (st\<lparr>sa_input := finished_input st status\<rparr>)\<rparr>"
  have st: "status \<in> {CompletionStatusAccepted, CompletionStatusRejected}" by (simp add: status_def)
  obtain q d where w: "finish_writes E (nm_decoder s) (nm_hasReportRepository s) st status (nm_db s) = (q, d)"
    by fastforce
  have f: "state_finish E status s = (q, ?s\<lparr>nm_db := d\<rparr>)"
    using assms(1) w by (simp add: state_finish_def finish_advance_eq on_nm_apply)
  obtain u where q: "q = Inr u"
    using assms(4) f by (cases q) (simp_all add: FinishAndGetNext_eq status_def [symmetric] andThen_apply)
  have g: "get_next E (?s\<lparr>nm_db := d\<rparr>) = (Inr r, s')"
    using assms(4) f q by (simp add: FinishAndGetNext_eq status_def [symmetric] andThen_apply)
  have i: "inputs_in E xs' d"
    unfolding xs'_def using finish_writes_inputs [OF assms(3,2) st w [unfolded q]] .
  show thesis
    using that [of "?s\<lparr>nm_db := d\<rparr>"] i g get_next_inputs [of E xs' "?s\<lparr>nm_db := d\<rparr>"] by simp
qed

section \<open>One voucher per input\<close>

text \<open>What the decoder makes of a voucher of the model.\<close>

definition sent_voucher :: "ConvenienceVoucher \<Rightarrow> ConvenienceVoucher" where
  "sent_voucher v = v\<lparr>cv_Payload := ''0x'' @ cv_Payload v, cv_Executed := False, cv_AppContract := 0\<rparr>"

lemma send_voucher:
  "HandleOutput E ctx (cv_Destination v) (ConvertVoucherPayloadToV2 (cv_Payload v)) (cv_InputIndex v) (cv_OutputIndex v) =
     andThen (ConvenienceService_CreateVoucher E ctx (sent_voucher v)) (\<lambda>_. ret ())"
  by (cases v) (simp add: HandleOutput_voucher sent_voucher_def)

lemma sendAll_vouchers:
  "sendAllInputVouchersToDecoder (Some (HandleOutput E NoTx)) i vs =
     forEach (\<lambda>v. andThen (ConvenienceService_CreateVoucher E NoTx (sent_voucher v)) (\<lambda>_. ret ())) vs"
  by (simp add: sendAllInputVouchersToDecoder_def send_voucher)

lemma later_vouchers_lost:
  assumes "eth_laws E" and "vouchers_in E vs d" and "distinct (map voucher_key vs)"
    and "list_all (\<lambda>w. voucher_small w \<and> voucher_slot (sent_voucher w) \<in> voucher_slot ` set vs \<and>
      voucher_key w \<notin> voucher_key ` set vs) ws"
  shows "\<exists>d'. sendAllInputVouchersToDecoder (Some (HandleOutput E NoTx)) i ws d = (Inr (), d') \<and>
    vouchers_in E vs d'"
  using assms(2,4)
proof (induction ws arbitrary: d)
  case Nil
  then show ?case by (simp add: sendAllInputVouchersToDecoder_def)
next
  case (Cons w ws)
  have "voucher_small (sent_voucher w)" "voucher_key (sent_voucher w) = voucher_key w"
    using Cons.prems(2) by (simp_all add: sent_voucher_def voucher_small_def voucher_key_def)
  with voucher_store.save_lost [of E vs d "sent_voucher w"] Cons.prems assms(1,3) obtain d1
    where "ConvenienceService_CreateVoucher E NoTx (sent_voucher w) d = (Inr (sent_voucher w), d1)"
      and "vouchers_in E vs d1" by auto
  with Cons.IH [of d1] Cons.prems(2) show ?case by (auto simp: sendAll_vouchers andThen_apply)
qed

text \<open>
  Of the vouchers of an input only the first is stored, though all of them are reported as sent.
\<close>

lemma first_voucher_only:
  assumes "eth_laws E" and "vouchers_in E vs d" and "distinct (map voucher_key vs)"
    and "Suc (length vs) < 2 ^ 63"
    and "list_all (\<lambda>w. voucher_small w \<and> cv_InputIndex w = n \<and> voucher_key w \<notin> voucher_key ` set vs) (v # ws)"
    and "distinct (map voucher_key (v # ws))" and "(n, 0) \<notin> voucher_slot ` set vs"
  shows "\<exists>d'. sendAllInputVouchersToDecoder (Some (HandleOutput E NoTx)) i (v # ws) d = (Inr (), d') \<and>
    vouchers_in E (vs @ [sent_voucher v]) d'"
proof -
  have s: "voucher_small (sent_voucher w)" "voucher_key (sent_voucher w) = voucher_key w"
    "voucher_slot (sent_voucher w) = (n, 0)" if "w \<in> set (v # ws)" for w
    using that assms(5) by (auto simp: list_all_iff sent_voucher_def voucher_small_def voucher_key_def voucher_slot_def)
  have v: "voucher_key v \<notin> voucher_key ` set vs" using assms(5) by simp
  from voucher_store.save_new [of E vs d "sent_voucher v"] assms(1-4,7) s [of v] v obtain d1
    where d1: "ConvenienceService_CreateVoucher E NoTx (sent_voucher v) d = (Inr (sent_voucher v), d1)"
      and in1: "vouchers_in E (vs @ [sent_voucher v]) d1" by auto
  have "distinct (map voucher_key (vs @ [sent_voucher v]))"
    using assms(3) s [of v] v by simp
  moreover have "list_all (\<lambda>w. voucher_small w \<and>
      voucher_slot (sent_voucher w) \<in> voucher_slot ` set (vs @ [sent_voucher v]) \<and>
      voucher_key w \<notin> voucher_key ` set (vs @ [sent_voucher v])) ws"
    using assms(5,6) s by (auto simp: list_all_iff) (metis image_eqI)
  ultimately obtain d' where "sendAllInputVouchersToDecoder (Some (HandleOutput E NoTx)) i ws d1 = (Inr (), d')"
    "vouchers_in E (vs @ [sent_voucher v]) d'"
    using later_vouchers_lost [OF assms(1) in1] by blast
  with d1 show ?thesis by (auto simp: sendAll_vouchers andThen_apply)
qed

section \<open>A report that is already stored\<close>

text \<open>
  The reports are saved before the status of the input. When that last write fails, or the process
  ends before it, the reports are in the table and the input is not finished.
\<close>

definition wedged :: "ethlib \<Rightarrow> NonodoModel \<Rightarrow> bool" where
  "wedged E s \<longleftrightarrow> (\<exists>st r rs stored. nm_state s = StAdvance st \<and> sa_reports st = r # rs \<and>
     sa_vouchers st = [] \<and> sa_notices st = [] \<and> nm_hasReportRepository s \<and>
     reports_in E stored (nm_db s) \<and> distinct (map report_key stored) \<and>
     report_key r \<in> report_key ` set stored)"

lemma saveAllReports_taken:
  assumes "reports_in E stored d" and "distinct (map report_key stored)"
    and "report_key r \<in> report_key ` set stored"
  shows "saveAllReports E True (r # rs) d = (Inl (EDb ''UNIQUE constraint failed''), d)"
  using assms by (simp add: saveAllReports_def andThen_apply
      CreateReport_ok [where ts = "db_committed d" and rs = stored] reports_in_def)

lemma wedged_finish:
  assumes "wedged E s"
  shows "fst (FinishAndGetNext E accepted s) = Inl (EDb ''UNIQUE constraint failed'') \<and>
    wedged E (snd (FinishAndGetNext E accepted s))"
proof -
  define status where "status = (if accepted then CompletionStatusAccepted else CompletionStatusRejected)"
  from assms obtain st r rs stored where w: "nm_state s = StAdvance st" "sa_reports st = r # rs"
    "sa_vouchers st = []" "sa_notices st = []" "nm_hasReportRepository s" "reports_in E stored (nm_db s)"
    "distinct (map report_key stored)" "report_key r \<in> report_key ` set stored"
    unfolding wedged_def by blast
  have "finish_writes E (nm_decoder s) True st status (nm_db s) =
      (Inl (EDb ''UNIQUE constraint failed''), nm_db s)"
    using saveAllReports_taken [OF w(6-8), of rs] w(2-4)
    by (simp add: finish_writes_def andThen_apply sendAllInputVouchersToDecoder_def
        sendAllInputNoticesToDecoder_def split: option.splits)
  then have "FinishAndGetNext E accepted s = (Inl (EDb ''UNIQUE constraint failed''),
      s\<lparr>nm_state := StAdvance (st\<lparr>sa_input := finished_input st status\<rparr>)\<rparr>)"
    using w(1,5) by (simp add: FinishAndGetNext_eq status_def [symmetric] andThen_apply state_finish_def
        finish_advance_eq on_nm_apply)
  with w show ?thesis by (auto simp: wedged_def)
qed

lemma wedged_exception:
  assumes "wedged E s" and "inputs_in E xs (nm_db s)"
  shows "fst (RegisterException E payload s) = Inl (EDb ''UNIQUE constraint failed'') \<and>
    wedged E (snd (RegisterException E payload s))"
proof -
  from assms obtain st r rs stored where w: "nm_state s = StAdvance st" "sa_reports st = r # rs"
    "sa_vouchers st = []" "sa_notices st = []" "nm_hasReportRepository s" "reports_in E stored (nm_db s)"
    "distinct (map report_key stored)" "report_key r \<in> report_key ` set stored"
    unfolding wedged_def by blast
  let ?in = "(sa_input st)\<lparr>ai_Status := CompletionStatusException, ai_Reports := sa_reports st, ai_Exception := payload\<rparr>"
  let ?d = "(nm_db s)\<lparr>db_committed := (db_committed (nm_db s))(''convenience_inputs'' \<mapsto>
      inputs_table E (map (overwrite_input ?in) xs))\<rparr>"
  have u: "InputRepository_Update E NoTx ?in (nm_db s) = (Inr ?in, ?d)"
    using assms(2) by (subst UpdateInput_ok [where ts = "db_committed (nm_db s)" and xs = xs])
      (simp_all add: inputs_in_def)
  have "reports_in E stored ?d" using w(6) by (simp add: reports_in_def)
  with saveAllReports_taken [OF this w(7,8), of rs] u w(1,2,5) show ?thesis
    using w(3,4,7,8) by (auto simp: RegisterException_def registerException_advance_def andThen_apply on_nm_apply
        wedged_def Let_def)
qed

end
