(* ===== verification/RollupApi.thy ===== *)
theory RollupApi
  imports NonodoAdvance
begin

text \<open>
  The HTTP handlers of \<open>internal/rollup/rollup.go\<close> and \<open>internal/inspect/inspect.go\<close>, and the echo
  application of \<open>internal/echoapp/echoapp.go\<close> that calls the former. A handler returns an error
  (which echo turns into a response) or a response: a status with a text, a JSON value or nothing.
  A request is its content type and what \<open>echo.Context.Bind\<close> makes of its body. What other
  requests and workers do while a handler waits is an argument of the handler: a function on the
  model for each wait.
\<close>

section \<open>Requests and responses\<close>

record 'b http_request =
  rq_ContentType :: string
  rq_Bind :: "'b res"

datatype 'a response = RString int string | RJSON int 'a | RNoContent int

fun status_code :: "'a response \<Rightarrow> int" where
  "status_code (RString c _) = c"
| "status_code (RJSON c _) = c"
| "status_code (RNoContent c) = c"

definition checkContentType :: "'b http_request \<Rightarrow> bool" where
  "checkContentType rq \<longleftrightarrow> take (length ''application/json'') (rq_ContentType rq) = ''application/json''"

record VoucherRequest =
  vr_Destination :: string
  vr_Payload :: string
  vr_Value :: string

record Metadata =
  md_AppContract :: string
  md_BlockNumber :: u64
  md_BlockTimestamp :: u64
  md_ChainId :: u64
  md_InputIndex :: u64
  md_MsgSender :: string
  md_PrevRandao :: string

record Advance =
  adv_Metadata :: Metadata
  adv_Payload :: string

text \<open>The request type is the constructor; the JSON union holds the value.\<close>

datatype RollupRequest = AdvanceState Advance | InspectState string

text \<open>The 20 bytes of an address, and \<open>common.Address(b)\<close> of 20 bytes.\<close>

definition address_bytes :: "address \<Rightarrow> bytes" where
  "address_bytes a = map (\<lambda>i. ucast (drop_bit (8 * i) a)) (rev [0..<20])"

definition address_of_bytes :: "bytes \<Rightarrow> address" where
  "address_of_bytes b = foldl (\<lambda>a x. 256 * a + ucast x) 0 b"

definition convertInput :: "ethlib \<Rightarrow> Input \<Rightarrow> RollupRequest res" where
  "convertInput E input = (case input of
       IAdvance input \<Rightarrow>
         let advance = \<lparr>adv_Metadata = \<lparr>md_AppContract = [], md_BlockNumber = ai_BlockNumber input,
               md_BlockTimestamp = of_int (Unix_of (ai_BlockTimestamp input)), md_ChainId = 0,
               md_InputIndex = of_int (ai_Index input),
               md_MsgSender = hexutil_Encode E (address_bytes (ai_MsgSender input)), md_PrevRandao = []\<rparr>,
             adv_Payload = hexutil_Encode E (ai_Payload input)\<rparr>
         in Inr (AdvanceState advance)
     | IInspect input \<Rightarrow> Inr (InspectState (hexutil_Encode E (ii_Payload input))))"

section \<open>Finish\<close>

definition FinishRetries :: nat where "FinishRetries = 50"

datatype wait = CtxDone string | AfterInterval "NonodoModel \<Rightarrow> NonodoModel"

text \<open>
  The loop over the retries, with \<open>k\<close> of them left; \<open>waits\<close> gives what ends each wait. The sequencer
  is the function \<open>next\<close>.
\<close>

fun finish_loop ::
  "ethlib \<Rightarrow> (NonodoModel, Input option) comp \<Rightarrow> (nat \<Rightarrow> wait) \<Rightarrow> nat \<Rightarrow>
   (NonodoModel, RollupRequest response) comp" where
  "finish_loop E next' waits 0 = ret (RString 202 ''no rollup request available'')"
| "finish_loop E next' waits (Suc k) =
     andThen next' (\<lambda>input. case input of
         Some input \<Rightarrow> andThen (lift_res (convertInput E input)) (\<lambda>resp. ret (RJSON 200 resp))
       | None \<Rightarrow> (case waits (FinishRetries - Suc k) of
             CtxDone msg \<Rightarrow> ret (RString 500 msg)
           | AfterInterval others \<Rightarrow> (\<lambda>s. finish_loop E next' waits k (others s))))"

definition RollupAPI_Finish ::
  "ethlib \<Rightarrow> (bool \<Rightarrow> (NonodoModel, Input option) comp) option \<Rightarrow> (nat \<Rightarrow> wait) \<Rightarrow> string http_request \<Rightarrow>
   (NonodoModel, RollupRequest response) comp" where
  "RollupAPI_Finish E sequencer waits c =
     (if \<not> checkContentType c then ret (RString 415 ''invalid content type'')
      else andThen (lift_res (rq_Bind c)) (\<lambda>request.
        let serve = (\<lambda>accepted. case sequencer of
              None \<Rightarrow> ret (RString 500 ''sequencer not available'')
            | Some sequencer \<Rightarrow> finish_loop E (sequencer accepted) waits FinishRetries)
        in if request = ''accept'' then serve True
           else if request = ''reject'' then serve False
           else ret (RString 400 ''invalid value for status'')))"

section \<open>Outputs\<close>

text \<open>\<open>if err != nil { return c.String(status, text) }\<close> with the error's text where \<open>text\<close> is None.\<close>

fun err_text :: "err \<Rightarrow> string" where
  "err_text (EMsg m) = m"
| "err_text (EDb m) = m"
| "err_text (EExt m) = m"
| "err_text (EPanic m) = m"
| "err_text (EWrap m e) = m @ '': '' @ err_text e"
| "err_text ErrMixedPagination = ''cannot mix forward pagination (first, after) with backward pagination (last, before)''"
| "err_text ErrInvalidCursor = ''invalid pagination cursor''"
| "err_text ErrInvalidLimit = ''limit cannot be negative''"
| "err_text ErrBase64 = ''illegal base64 data''"
| "err_text ErrAtoi = ''invalid syntax''"

definition or_respond ::
  "int \<Rightarrow> (err \<Rightarrow> string) \<Rightarrow> ('s, 'x) comp \<Rightarrow> ('x \<Rightarrow> ('s, 'a response) comp) \<Rightarrow> ('s, 'a response) comp" where
  "or_respond status msg m f s = (case m s of
       (Inl e, s') \<Rightarrow> if is_panic e then (Inl e, s') else (Inr (RString status (msg e)), s')
     | (Inr x, s') \<Rightarrow> f x s')"

definition RollupAPI_AddVoucher ::
  "ethlib \<Rightarrow> VoucherRequest http_request \<Rightarrow> (NonodoModel, u64 response) comp" where
  "RollupAPI_AddVoucher E c =
     (if \<not> checkContentType c then ret (RString 415 ''invalid content type'')
      else andThen (lift_res (rq_Bind c)) (\<lambda>request.
        or_respond 400 (\<lambda>_. ''invalid hex payload'') (lift_res (hexutil_Decode E (vr_Destination request)))
          (\<lambda>destination.
        if length destination \<noteq> 20 then ret (RString 400 ''invalid address length'')
        else or_respond 400 (\<lambda>_. ''invalid hex payload'') (lift_res (hexutil_Decode E (vr_Payload request)))
          (\<lambda>payload.
        or_respond 403 err_text (AddVoucher E (address_of_bytes destination) payload) (\<lambda>index.
        ret (RJSON 200 (of_int index)))))))"

definition RollupAPI_AddNotice ::
  "ethlib \<Rightarrow> string http_request \<Rightarrow> (NonodoModel, u64 response) comp" where
  "RollupAPI_AddNotice E c =
     (if \<not> checkContentType c then ret (RString 415 ''invalid content type'')
      else andThen (lift_res (rq_Bind c)) (\<lambda>request.
        or_respond 400 (\<lambda>_. ''invalid hex payload'') (lift_res (hexutil_Decode E request)) (\<lambda>payload.
        or_respond 403 err_text (AddNotice E payload) (\<lambda>index. ret (RJSON 200 (of_int index))))))"

definition RollupAPI_AddReport ::
  "ethlib \<Rightarrow> string http_request \<Rightarrow> (NonodoModel, unit response) comp" where
  "RollupAPI_AddReport E c =
     (if \<not> checkContentType c then ret (RString 415 ''invalid content type'')
      else andThen (lift_res (rq_Bind c)) (\<lambda>request.
        or_respond 400 (\<lambda>_. ''invalid hex payload'') (lift_res (hexutil_Decode E request)) (\<lambda>payload.
        or_respond 403 err_text (AddReport payload) (\<lambda>_. ret (RNoContent 200)))))"

definition RollupAPI_RegisterException ::
  "ethlib \<Rightarrow> string http_request \<Rightarrow> (NonodoModel, unit response) comp" where
  "RollupAPI_RegisterException E c =
     (if \<not> checkContentType c then ret (RString 415 ''invalid content type'')
      else andThen (lift_res (rq_Bind c)) (\<lambda>request.
        or_respond 400 (\<lambda>_. ''invalid hex payload'') (lift_res (hexutil_Decode E request)) (\<lambda>payload.
        or_respond 403 err_text (RegisterException E payload) (\<lambda>_. ret (RNoContent 200)))))"

section \<open>Inspect\<close>

definition PayloadSizeLimit :: nat where "PayloadSizeLimit = 1048576"

record InspectResult =
  ir_Status :: string
  ir_Reports :: "string list"
  ir_ExceptionPayload :: string
  ir_ProcessedInputCount :: int

definition inspect_convertInput :: "ethlib \<Rightarrow> InspectInput \<Rightarrow> InspectResult res" where
  "inspect_convertInput E input =
     rbind (if ii_Status input = CompletionStatusUnprocessed then Inl (EMsg ''impossible'')
        else if ii_Status input = CompletionStatusAccepted then Inr ''Accepted''
        else if ii_Status input = CompletionStatusRejected then Inr ''Rejected''
        else if ii_Status input = CompletionStatusException then Inr ''Exception''
        else Inl (EMsg ''invalid completion status'')) (\<lambda>status.
     Inr \<lparr>ir_Status = status,
       ir_Reports = map (\<lambda>report. hexutil_Encode E (mr_Payload report)) (ii_Reports input),
       ir_ExceptionPayload = hexutil_Encode E (ii_Exception input),
       ir_ProcessedInputCount = ii_ProcessedInputCount input\<rparr>)"

text \<open>
  The polling of the model, over the list of what ends each wait; \<open>None\<close> when the list is used up
  with the handler still waiting.
\<close>

fun inspect_poll ::
  "ethlib \<Rightarrow> int \<Rightarrow> wait list \<Rightarrow> NonodoModel \<Rightarrow> (InspectResult response res \<times> NonodoModel) option" where
  "inspect_poll E index waits s = (case GetInspectInput index s of
       (Inl e, s') \<Rightarrow> Some (Inl e, s')
     | (Inr input, s') \<Rightarrow>
         if ii_Status input \<noteq> CompletionStatusUnprocessed then
           Some (rbind (inspect_convertInput E input) (\<lambda>resp. Inr (RJSON 200 resp)), s')
         else (case waits of
             [] \<Rightarrow> None
           | CtxDone msg # _ \<Rightarrow> Some (Inl (EMsg msg), s')
           | AfterInterval others # rest \<Rightarrow> inspect_poll E index rest (others s')))"

declare inspect_poll.simps [simp del]

definition inspectAPI_inspect ::
  "ethlib \<Rightarrow> bytes \<Rightarrow> wait list \<Rightarrow> NonodoModel \<Rightarrow> (InspectResult response res \<times> NonodoModel) option" where
  "inspectAPI_inspect E payload waits s = (case AddInspectInput payload s of
       (Inl e, s') \<Rightarrow> Some (Inl e, s')
     | (Inr index, s') \<Rightarrow> inspect_poll E index waits s')"

text \<open>The body is what reading the request gave.\<close>

definition InspectPost ::
  "ethlib \<Rightarrow> bytes res \<Rightarrow> wait list \<Rightarrow> NonodoModel \<Rightarrow> (InspectResult response res \<times> NonodoModel) option" where
  "InspectPost E body waits s = (case body of
       Inl err \<Rightarrow> Some (Inr (RString 400 (err_text err)), s)
     | Inr payload \<Rightarrow> if length payload > PayloadSizeLimit
         then Some (Inr (RString 400 ''Payload reached size limit''), s)
         else inspectAPI_inspect E payload waits s)"

text \<open>
  The payload of a GET request is the URI after the nine characters \<open>/inspect/\<close>, unescaped by
  \<open>url.QueryUnescape\<close>; a shorter URI makes the slice panic.
\<close>

definition InspectGet ::
  "ethlib \<Rightarrow> (string \<Rightarrow> string res) \<Rightarrow> string \<Rightarrow> wait list \<Rightarrow> NonodoModel \<Rightarrow>
   (InspectResult response res \<times> NonodoModel) option" where
  "InspectGet E QueryUnescape RequestURI waits s = (case slice_from 9 RequestURI of
       Inl e \<Rightarrow> Some (Inl e, s)
     | Inr uri \<Rightarrow> (case QueryUnescape uri of
           Inl err \<Rightarrow> Some (Inr (RString 400 (err_text err)), s)
         | Inr payload \<Rightarrow> inspectAPI_inspect E (bytes_of_string payload) waits s))"

section \<open>The echo application\<close>

text \<open>The generated client of the rollup API: a call answers or fails to reach the server.\<close>

record RollupClient =
  cl_FinishWithResponse :: "string \<Rightarrow> (NonodoModel, RollupRequest response) comp"
  cl_AddVoucher :: "VoucherRequest \<Rightarrow> (NonodoModel, u64 response) comp"
  cl_AddNotice :: "string \<Rightarrow> (NonodoModel, u64 response) comp"
  cl_AddReport :: "string \<Rightarrow> (NonodoModel, unit response) comp"

definition handleAdvance :: "RollupClient \<Rightarrow> Advance \<Rightarrow> (NonodoModel, unit) comp" where
  "handleAdvance client advance =
     andThen (wrapErr ''echo'' (cl_AddVoucher client
       \<lparr>vr_Destination = md_MsgSender (adv_Metadata advance), vr_Payload = adv_Payload advance,
       vr_Value = []\<rparr>)) (\<lambda>voucherResp.
     if status_code voucherResp \<noteq> 200 then fail (EMsg ''echo: failed to add report'')
     else andThen (wrapErr ''echo'' (cl_AddNotice client (adv_Payload advance @ ''ff''))) (\<lambda>noticeResp.
     if status_code noticeResp \<noteq> 200 then fail (EMsg ''echo: failed to add notice'')
     else andThen (wrapErr ''echo'' (cl_AddReport client (adv_Payload advance))) (\<lambda>reportResp.
     if status_code reportResp \<noteq> 200 then fail (EMsg ''echo: failed to add report'')
     else ret ())))"

definition handleInspect :: "RollupClient \<Rightarrow> string \<Rightarrow> (NonodoModel, unit) comp" where
  "handleInspect client inspect =
     andThen (wrapErr ''echo'' (cl_AddReport client inspect)) (\<lambda>reportResp.
     if status_code reportResp \<noteq> 200 then fail (EMsg ''echo: failed to add report'')
     else ret ())"

text \<open>One round of the endless loop of the worker.\<close>

definition EchoAppWorker_round :: "RollupClient \<Rightarrow> (NonodoModel, unit) comp" where
  "EchoAppWorker_round client =
     andThen (wrapErr ''echo'' (cl_FinishWithResponse client ''accept'')) (\<lambda>finishResp.
     if status_code finishResp = 202 then ret ()
     else if status_code finishResp \<noteq> 200 then fail (EMsg ''echo: invalid finish response'')
     else (case finishResp of
         RJSON _ (AdvanceState advance) \<Rightarrow> handleAdvance client advance
       | RJSON _ (InspectState inspect) \<Rightarrow> handleInspect client inspect
       | _ \<Rightarrow> fail (EMsg ''echo: missing finish response body'')))"

fun EchoAppWorker_Start :: "nat \<Rightarrow> RollupClient \<Rightarrow> (NonodoModel, unit) comp" where
  "EchoAppWorker_Start 0 client = ret ()"
| "EchoAppWorker_Start (Suc n) client = andThen (EchoAppWorker_round client) (\<lambda>_. EchoAppWorker_Start n client)"

text \<open>The client that calls the handlers of this theory directly.\<close>

definition direct_client :: "ethlib \<Rightarrow> (nat \<Rightarrow> wait) \<Rightarrow> RollupClient" where
  "direct_client E waits = \<lparr>
     cl_FinishWithResponse = (\<lambda>r. RollupAPI_Finish E (Some (InputBoxSequencer_FinishAndGetNext E)) waits
        \<lparr>rq_ContentType = ''application/json'', rq_Bind = Inr r\<rparr>),
     cl_AddVoucher = (\<lambda>r. RollupAPI_AddVoucher E \<lparr>rq_ContentType = ''application/json'', rq_Bind = Inr r\<rparr>),
     cl_AddNotice = (\<lambda>r. RollupAPI_AddNotice E \<lparr>rq_ContentType = ''application/json'', rq_Bind = Inr r\<rparr>),
     cl_AddReport = (\<lambda>r. RollupAPI_AddReport E \<lparr>rq_ContentType = ''application/json'', rq_Bind = Inr r\<rparr>)\<rparr>"

end
