(* ===== verification/RollupLaws.thy ===== *)
theory RollupLaws
  imports RollupApi
begin

text \<open>
  Facts about the handlers: the bounded polling of \<open>/finish\<close>, the order in which inspects are
  served, and a round of the echo application against the handlers.
\<close>

section \<open>Status codes\<close>

lemma or_respond_apply [run_simps]:
  "or_respond status msg m f s = (case m s of
       (Inl e, s') \<Rightarrow> if is_panic e then (Inl e, s') else (Inr (RString status (msg e)), s')
     | (Inr x, s') \<Rightarrow> f x s')"
  by (simp add: or_respond_def)

section \<open>Finish\<close>

text \<open>With nothing to hand out every poll after the first leaves the model as it is.\<close>

definition nothing_waits :: "ethlib \<Rightarrow> AdvanceInput list \<Rightarrow> NonodoModel \<Rightarrow> bool" where
  "nothing_waits E xs s \<longleftrightarrow> inputs_in E xs (nm_db s) \<and>
     (\<forall>x \<in> set xs. ai_Status x \<noteq> CompletionStatusUnprocessed) \<and>
     (\<forall>x \<in> set (nm_inspects s). ii_Status x \<noteq> CompletionStatusUnprocessed)"

lemma nothing_waits_next:
  assumes "nothing_waits E xs s"
  shows "get_next E s = (Inr None, s\<lparr>nm_state := rollupsStateIdle\<rparr>)"
proof -
  have "filter (\<lambda>x. ai_Status x = CompletionStatusUnprocessed) xs = []"
    using assms by (simp add: nothing_waits_def filter_empty_conv)
  moreover have "lowest_index [] = None" by (simp add: lowest_index_None)
  moreover have "first_unprocessed 0 (nm_inspects s) = None"
    using assms by (simp add: nothing_waits_def first_unprocessed_None)
  ultimately show ?thesis
    using get_next_advance [of E xs s] assms by (simp add: nothing_waits_def newRollupsStateIdle_def)
qed

lemma idle_poll:
  assumes "nothing_waits E xs s" and "nm_state s = rollupsStateIdle"
  shows "FinishAndGetNext E accepted s = (Inr None, s)"
proof -
  have "s\<lparr>nm_state := rollupsStateIdle\<rparr> = s" using assms(2) by simp
  with nothing_waits_next [OF assms(1)] assms(2) show ?thesis
    by (simp add: FinishAndGetNext_eq andThen_apply state_finish_def)
qed

lemma finish_loop_idle:
  assumes "nothing_waits E xs s" and "nm_state s = rollupsStateIdle"
    and "\<And>i. waits i = AfterInterval (\<lambda>s. s)"
  shows "finish_loop E (FinishAndGetNext E accepted) waits k s =
    (Inr (RString 202 ''no rollup request available''), s)"
  using assms by (induction k) (simp_all add: andThen_apply idle_poll)

text \<open>
  The whole request, when nothing waits: the current advance is finished once and the answer is
  202.
\<close>

lemma Finish_nothing:
  assumes "nm_state s = StAdvance st" and "inputs_in E xs (nm_db s)" and "quiet_handler (nm_decoder s)"
    and "FinishAndGetNext E accepted s = (Inr None, s')"
    and "\<And>i. waits i = AfterInterval (\<lambda>s. s)"
  shows "finish_loop E (FinishAndGetNext E accepted) waits (Suc k) s =
    (Inr (RString 202 ''no rollup request available''), s')"
proof -
  define ys where "ys = map (overwrite_input (finished_input st
    (if accepted then CompletionStatusAccepted else CompletionStatusRejected))) xs"
  obtain s1 where s1: "inputs_in E ys (nm_db s1)" "get_next E s1 = (Inr None, s')"
    unfolding ys_def using finish_advance_inputs [OF assms(1-4)] by metis
  have u: "first_unprocessed 0 (nm_inspects s1) = None"
    using s1(2) by (auto simp: get_next_def split: option.splits)
  have f: "filter (\<lambda>x. ai_Status x = CompletionStatusUnprocessed) ys = []"
    using s1(2) get_next_advance [OF s1(1) u] by (simp add: lowest_index_None split: option.splits)
  have s': "s' = s1\<lparr>nm_state := rollupsStateIdle\<rparr>"
    using s1(2) get_next_advance [OF s1(1) u]
    by (simp add: f lowest_index_None [THEN iffD2] newRollupsStateIdle_def)
  have n: "nothing_waits E ys s'"
    using s1(1) u f unfolding nothing_waits_def s' first_unprocessed_None filter_empty_conv by simp
  from finish_loop_idle [OF n, of waits accepted k] assms(5) s' assms(4) show ?thesis
    by (simp add: andThen_apply)
qed

section \<open>Inspects are served\<close>

text \<open>How many successful finishes an inspect is away from its result, at most.\<close>

definition rank :: "nat \<Rightarrow> NonodoModel \<Rightarrow> nat" where
  "rank i s = (if ii_Status (nm_inspects s ! i) \<noteq> CompletionStatusUnprocessed then 0
     else (case nm_state s of StInspect st \<Rightarrow> Suc (i - si_input st) | _ \<Rightarrow> i + 2))"

lemma get_next_inspect:
  assumes "processed_first n (nm_inspects s)" and "i < length (nm_inspects s)"
    and "ii_Status (nm_inspects s ! i) = CompletionStatusUnprocessed"
  obtains j where "get_next E s = (Inr (Some (IInspect (nm_inspects s ! j))), s\<lparr>nm_state := newRollupsStateInspect j\<rparr>)"
    and "j \<le> i" and "processed_first j (nm_inspects s)"
proof -
  have "first_unprocessed 0 (nm_inspects s) \<noteq> None"
    using assms(2,3) by (auto simp: first_unprocessed_None)
  then obtain j where j: "first_unprocessed 0 (nm_inspects s) = Some j" by blast
  with first_unprocessed_first [OF assms(1)] have p: "processed_first j (nm_inspects s)" by simp
  with assms(2,3) have "j \<le> i" by (simp add: processed_first_def)
  with that p j show thesis by (simp add: get_next_def)
qed

lemma finish_rank:
  assumes "nonodo_inv s" and "i < length (nm_inspects s)" and "FinishAndGetNext E accepted s = (Inr r, s')"
  shows "i < length (nm_inspects s') \<and> (rank i s' < rank i s \<or> rank i s' = 0)"
proof -
  define status where "status = (if accepted then CompletionStatusAccepted else CompletionStatusRejected)"
  have nu: "status \<noteq> CompletionStatusUnprocessed" by (simp add: status_def)
  obtain q s1 where f: "state_finish E status s = (q, s1)" by fastforce
  with assms(3) obtain u where q: "q = Inr u" and g: "get_next E s1 = (Inr r, s')"
    by (cases q) (simp_all add: FinishAndGetNext_eq status_def [symmetric] andThen_apply)
  have inv1: "nonodo_inv s1"
    using inv_state_finish [OF assms(1), of status E] f by (simp add: status_def split: if_splits)
  have same: "nm_inspects s' = nm_inspects s1"
    using g by (auto simp: get_next_def split: option.splits prod.splits sum.splits)
  have len: "length (nm_inspects s1) = length (nm_inspects s) \<and>
    (ii_Status (nm_inspects s1 ! i) = CompletionStatusUnprocessed \<longrightarrow>
      ii_Status (nm_inspects s ! i) = CompletionStatusUnprocessed) \<and>
    (rank i s \<noteq> 0 \<longrightarrow> ii_Status (nm_inspects s1 ! i) = CompletionStatusUnprocessed \<longrightarrow>
      (case nm_state s of StInspect st \<Rightarrow> si_input st < i \<and> processed_first (Suc (si_input st)) (nm_inspects s1)
       | _ \<Rightarrow> True))"
  proof (cases "nm_state s")
    case (StAdvance st)
    obtain d where "snd (finish_advance E st status s) =
        s\<lparr>nm_state := StAdvance (st\<lparr>sa_input := finished_input st status\<rparr>), nm_db := d\<rparr>"
      using finish_advance_frame by blast
    with f StAdvance show ?thesis by (auto simp: state_finish_def)
  next
    case (StInspect st)
    then have si: "si_input st < length (nm_inspects s)"
      and p: "processed_first (si_input st) (nm_inspects s) \<or> processed_first (Suc (si_input st)) (nm_inspects s)"
      using assms(1) by (auto simp: nonodo_inv_def state_ok_def)
    show ?thesis
      using finish_inspect_cases [of E st status s]
    proof cases
      case (1 d e)
      with f q StInspect show ?thesis by (simp add: state_finish_def)
    next
      case (2 d n)
      let ?x = "(nm_inspects s ! si_input st)\<lparr>ii_Status := status, ii_ProcessedInputCount := n,
          ii_Reports := si_reports st\<rparr>"
      from 2 si f StInspect have s1: "nm_inspects s1 = (nm_inspects s)[si_input st := ?x]"
        by (auto simp: state_finish_def)
      have "processed_first (Suc (si_input st)) (nm_inspects s1)"
        unfolding s1 using nu by (intro processed_first_write [OF p si]) simp
      moreover from this have "ii_Status (nm_inspects s1 ! i) = CompletionStatusUnprocessed \<Longrightarrow> si_input st < i"
        using assms(2) by (simp add: processed_first_def s1 Suc_le_eq)
      ultimately show ?thesis using s1 StInspect assms(2) nu
        by (auto simp: nth_list_update split: if_splits)
    qed
  qed (use f in \<open>simp add: state_finish_def\<close>)
  show ?thesis
  proof (cases "ii_Status (nm_inspects s1 ! i) = CompletionStatusUnprocessed")
    case False
    with same len assms(2) show ?thesis by (simp add: rank_def)
  next
    case True
    obtain n where "processed_first n (nm_inspects s1)" using inv1 by (auto simp: nonodo_inv_def)
    then obtain j where j: "get_next E s1 = (Inr (Some (IInspect (nm_inspects s1 ! j))),
        s1\<lparr>nm_state := newRollupsStateInspect j\<rparr>)" "j \<le> i" "processed_first j (nm_inspects s1)"
      using get_next_inspect [of n s1 i E] True len assms(2) by auto
    from g j(1) have r': "rank i s' = Suc (i - j)"
      using True by (auto simp: rank_def newRollupsStateInspect_def)
    show ?thesis
    proof -
      from True len have un: "ii_Status (nm_inspects s ! i) = CompletionStatusUnprocessed" by simp
      show ?thesis
      proof (cases "nm_state s")
        case (StInspect st)
        with len un True have st: "si_input st < i" "processed_first (Suc (si_input st)) (nm_inspects s1)"
          by (auto simp: rank_def)
        have "ii_Status (nm_inspects s1 ! j) = CompletionStatusUnprocessed"
          using j(2,3) assms(2) len by (simp add: processed_first_def)
        then have "Suc (si_input st) \<le> j"
          using st(2) j(2) assms(2) len by (simp add: processed_first_def)
        then show ?thesis using r' un StInspect same len assms(2) j(2) by (simp add: rank_def)
      qed (use r' un same len assms(2) in \<open>simp_all add: rank_def\<close>)
    qed
  qed
qed

text \<open>A run of finishes, all of which succeed.\<close>

definition finish_run :: "ethlib \<Rightarrow> bool list \<Rightarrow> (NonodoModel, unit) comp" where
  "finish_run E flags = forEach (\<lambda>b. andThen (FinishAndGetNext E b) (\<lambda>_. ret ())) flags"

lemma finish_run_rank:
  assumes "finish_run E flags s = (Inr (), s')" and "nonodo_inv s" and "i < length (nm_inspects s)"
  shows "i < length (nm_inspects s') \<and> rank i s' \<le> rank i s - length flags"
  using assms
proof (induction flags arbitrary: s)
  case Nil
  then show ?case by (simp add: finish_run_def)
next
  case (Cons b bs)
  obtain q s1 where f: "FinishAndGetNext E b s = (q, s1)" by fastforce
  with Cons.prems(1) obtain r where q: "q = Inr r" and run: "finish_run E bs s1 = (Inr (), s')"
    by (cases q) (simp_all add: finish_run_def andThen_apply)
  have "nonodo_inv s1" using inv_FinishAndGetNext [OF Cons.prems(2), of E b] f by simp
  moreover have "i < length (nm_inspects s1)" "rank i s1 < rank i s \<or> rank i s1 = 0"
    using finish_rank [OF Cons.prems(2,3), of E b r s1] f q by simp_all
  ultimately show ?case using Cons.IH [OF run] by auto
qed

lemma rank_0: "rank i s = 0 \<longleftrightarrow> ii_Status (nm_inspects s ! i) \<noteq> CompletionStatusUnprocessed"
  by (simp add: rank_def split: rollupsState.splits)

lemma rank_bound: "rank i s \<le> i + 2"
  by (auto simp: rank_def split: rollupsState.splits)

section \<open>The inspect handler\<close>

lemma inspect_convert_ok:
  "ii_Status x \<in> {CompletionStatusAccepted, CompletionStatusRejected, CompletionStatusException} \<Longrightarrow>
   \<exists>resp. inspect_convertInput E x = Inr resp \<and>
     ir_Reports resp = map (\<lambda>r. hexutil_Encode E (mr_Payload r)) (ii_Reports x) \<and>
     ir_ProcessedInputCount resp = ii_ProcessedInputCount x"
  by (auto simp: inspect_convertInput_def)

lemma GetInspectInput_ok:
  "i < length (nm_inspects s) \<Longrightarrow> GetInspectInput (int i) s = (Inr (nm_inspects s ! i), s)"
  by (simp add: GetInspectInput_def)

end
