(* ===== verification/NonodoQueue.thy ===== *)
theory NonodoQueue
  imports NonodoAdvance
begin

text \<open>
  The queue of advance inputs: what is handed out after an advance was finished.
\<close>

lemma finish_hands_out:
  assumes "nm_state s = StAdvance st" and "inputs_in E xs (nm_db s)" and "quiet_handler (nm_decoder s)"
    and "FinishAndGetNext E accepted s = (Inr r, s')"
  defines "xs' \<equiv> map (overwrite_input (finished_input st
    (if accepted then CompletionStatusAccepted else CompletionStatusRejected))) xs"
  shows "inputs_in E xs' (nm_db s') \<and>
    (case r of
       Some (IAdvance x) \<Rightarrow> ai_Index x \<noteq> ai_Index (sa_input st) \<and>
         (\<exists>y \<in> set xs. x = stored_input y \<and> ai_Status y = CompletionStatusUnprocessed) \<and>
         (\<forall>y \<in> set xs'. ai_Status y = CompletionStatusUnprocessed \<longrightarrow> ai_Index x \<le> ai_Index y)
     | Some (IInspect x) \<Rightarrow> x \<in> set (nm_inspects s) \<and> ii_Status x = CompletionStatusUnprocessed
     | None \<Rightarrow> \<forall>y \<in> set xs'. ai_Status y \<noteq> CompletionStatusUnprocessed)"
proof -
  obtain s1 where s1: "inputs_in E xs' (nm_db s1)" "nm_inspects s1 = nm_inspects s"
    "get_next E s1 = (Inr r, s')" "inputs_in E xs' (nm_db s')"
    using finish_advance_inputs [OF assms(1-4)] unfolding xs'_def by metis
  show ?thesis
  proof (cases "first_unprocessed 0 (nm_inspects s1)")
    case (Some i)
    with s1 have "r = Some (IInspect (nm_inspects s ! i))" by (simp add: get_next_def)
    with s1(2,4) first_unprocessed_Some [OF Some] show ?thesis by simp
  next
    case None
    note g = get_next_advance [OF s1(1) None]
    show ?thesis
    proof (cases "lowest_index (filter (\<lambda>x. ai_Status x = CompletionStatusUnprocessed) xs')")
      case None
      with g s1(3,4) show ?thesis by (simp add: lowest_index_None filter_empty_conv)
    next
      case (Some y)
      from lowest_index_Some [OF Some] have y: "y \<in> set xs'" "ai_Status y = CompletionStatusUnprocessed"
        "\<forall>z \<in> set xs'. ai_Status z = CompletionStatusUnprocessed \<longrightarrow> ai_Index y \<le> ai_Index z" by auto
      then obtain z where z: "z \<in> set xs" "y = overwrite_input (finished_input st
          (if accepted then CompletionStatusAccepted else CompletionStatusRejected)) z"
        by (auto simp: xs'_def)
      have n: "ai_Index z \<noteq> ai_Index (sa_input st)"
        using y(2) z(2) by (auto simp: overwrite_input_def finished_input_def split: if_splits)
      then have "y = z" using z(2) by (simp add: overwrite_input_def)
      moreover have "r = Some (IAdvance (stored_input y))" using g s1(3) Some by simp
      ultimately show ?thesis using s1(4) y z(1) n by (auto simp: stored_input_def)
    qed
  qed
qed

section \<open>The count in an inspect result\<close>

lemma InputRepository_Count_ok:
  assumes "inputs_in E xs d" and "rmap input_acond fs = Inr acs"
  shows "InputRepository_Count fs d =
    (Inr (of_nat (length (filter (\<lambda>x. list_all (\<lambda>f. input_sat E f x) fs) xs))), d)"
proof -
  note h = inputs_in_holds [OF assms(1)]
  let ?t = "mk_table input_cols [] True (input_row E) (enumerate 1 xs)"
  have "db_committed d ''convenience_inputs'' = Some ?t" using h by (simp add: input_paged.holds_def)
  then have "input_paged.rows_for E fs d = Inr (map (input_unrow E) (selected ?t [(''input_index'', False)] acs))"
    using assms(2) by (simp add: input_paged.rows_for_def)
  with input_rows_for [OF assms(1), of fs] assms(2)
  have "length (map (input_unrow E) (selected ?t [(''input_index'', False)] acs)) =
      length (filter (\<lambda>x. list_all (\<lambda>f. input_sat E f x) fs) xs)"
    by (simp add: input_query_def)
  then have "length (matching_rows ?t acs) = length (filter (\<lambda>x. list_all (\<lambda>f. input_sat E f x) fs) xs)"
    by (simp add: length_selected)
  moreover have "InputRepository_Count fs = count_step ''SELECT count(*) FROM convenience_inputs '' (transformToInputQuery fs)"
    by (simp add: InputRepository_Count_def count_step_def Let_def)
  ultimately show ?thesis using input_paged.count_step_ok [OF h assms(2)] by simp
qed

lemma getProcessedInputCount_ok:
  assumes "inputs_in E xs (nm_db s)"
  shows "getProcessedInputCount E s =
    (Inr (int (length (filter (\<lambda>x. ai_Status x \<noteq> CompletionStatusUnprocessed) xs))), s)"
proof -
  let ?fs = "[filter_Ne ''Status'' (itoa CompletionStatusUnprocessed)]"
  have "rmap input_acond ?fs \<noteq> Inl e" for e
    by (simp add: input_acond_def filter_Ne_def INDEX_FIELD_def)
  then obtain acs where acs: "rmap input_acond ?fs = Inr acs" by (cases "rmap input_acond ?fs") auto
  have "list_all (\<lambda>f. input_sat E f x) ?fs \<longleftrightarrow> ai_Status x \<noteq> CompletionStatusUnprocessed" for x
    by (auto simp: input_sat_def filter_Ne_def INDEX_FIELD_def itoa_inj)
  moreover have "length (filter (\<lambda>x. ai_Status x \<noteq> CompletionStatusUnprocessed) xs) < 2 ^ 63"
    using assms le_less_trans [OF length_filter_le] unfolding inputs_in_def by blast
  ultimately show ?thesis using InputRepository_Count_ok [OF assms acs]
    by (simp add: getProcessedInputCount_def andThen_apply on_nm_apply sint_of_nat_small cong: filter_cong)
qed

text \<open>Finishing an inspect on a database that answers.\<close>

lemma finish_inspect_ok:
  assumes "inputs_in E xs (nm_db s)" and "si_input st < length (nm_inspects s)"
  shows "finish_inspect E st status s = (Inr (), s\<lparr>nm_inspects := (nm_inspects s)
    [si_input st := (nm_inspects s ! si_input st)\<lparr>ii_Status := status,
       ii_ProcessedInputCount := int (length (filter (\<lambda>x. ai_Status x \<noteq> CompletionStatusUnprocessed) xs)),
       ii_Reports := si_reports st\<rparr>]\<rparr>)"
  using assms by (simp add: finish_inspect_def andThen_apply
      getProcessedInputCount_ok [where xs = xs])

text \<open>Both sequencers are the model's own method.\<close>

lemma sequencer_eq:
  "InputBoxSequencer_FinishAndGetNext E = FinishAndGetNext E"
  "EspressoSequencer_FinishAndGetNext E = FinishAndGetNext E"
  by (rule ext, simp add: InputBoxSequencer_FinishAndGetNext_def EspressoSequencer_FinishAndGetNext_def
      sequencer_FinishAndGetNext_def FinishAndGetNext_def)+

end
