(* ===== verification/RollupServing.thy ===== *)
theory RollupServing
  imports RollupLaws NonodoQueue
begin

text \<open>
  Two compositions: an inspect request that polls while an application keeps finishing, and a round
  of the echo application through the handlers down to the node.
\<close>

section \<open>An inspect request is answered\<close>

definition finish_step :: "ethlib \<Rightarrow> bool \<Rightarrow> wait" where
  "finish_step E b = AfterInterval (\<lambda>s. snd (FinishAndGetNext E b s))"

lemma poll_while_finishing:
  assumes "finish_run E flags s = (Inr (), s')" and "nonodo_inv s" and "i < length (nm_inspects s)"
    and "ii_Status (nm_inspects s' ! i) \<noteq> CompletionStatusUnprocessed"
  shows "\<exists>resp t. inspect_poll E (int i) (map (finish_step E) flags) s = Some (Inr (RJSON 200 resp), t)"
  using assms
proof (induction flags arbitrary: s)
  case Nil
  then have "ii_Status (nm_inspects s ! i) \<noteq> CompletionStatusUnprocessed" by (simp add: finish_run_def)
  moreover from this Nil.prems(2,3) have "ii_Status (nm_inspects s ! i) \<in>
      {CompletionStatusAccepted, CompletionStatusRejected, CompletionStatusException}"
    by (auto simp: nonodo_inv_def inspects_ok_def)
  ultimately show ?case using inspect_convert_ok [of "nm_inspects s ! i" E] Nil.prems(3)
    by (auto simp: inspect_poll.simps GetInspectInput_ok)
next
  case (Cons b bs)
  show ?case
  proof (cases "ii_Status (nm_inspects s ! i) = CompletionStatusUnprocessed")
    case False
    with Cons.prems(2,3) have "ii_Status (nm_inspects s ! i) \<in>
        {CompletionStatusAccepted, CompletionStatusRejected, CompletionStatusException}"
      by (auto simp: nonodo_inv_def inspects_ok_def)
    with False inspect_convert_ok [of "nm_inspects s ! i" E] Cons.prems(3) show ?thesis
      by (auto simp: inspect_poll.simps GetInspectInput_ok)
  next
    case True
    obtain q s1 where f: "FinishAndGetNext E b s = (q, s1)" by fastforce
    with Cons.prems(1) obtain r where q: "q = Inr r" and run: "finish_run E bs s1 = (Inr (), s')"
      by (cases q) (simp_all add: finish_run_def andThen_apply)
    have "nonodo_inv s1" using inv_FinishAndGetNext [OF Cons.prems(2), of E b] f by simp
    moreover have "i < length (nm_inspects s1)"
      using finish_rank [OF Cons.prems(2,3), of E b r s1] f q by simp
    ultimately show ?thesis using Cons.IH [OF run _ _ Cons.prems(4)] True Cons.prems(3) f
      by (simp add: inspect_poll.simps GetInspectInput_ok finish_step_def)
  qed
qed

lemma inv_AddInspect_split:
  assumes "nonodo_inv s"
  shows "AddInspectInput payload s = (Inr (int (length (nm_inspects s))), snd (AddInspectInput payload s)) \<and>
    nonodo_inv (snd (AddInspectInput payload s)) \<and>
    length (nm_inspects (snd (AddInspectInput payload s))) = Suc (length (nm_inspects s))"
  using inv_AddInspectInput [OF assms, of payload] by (simp add: AddInspectInput_def Let_def)

lemma inspect_answered:
  assumes "nonodo_inv s" and "length payload \<le> PayloadSizeLimit"
    and "finish_run E flags (snd (AddInspectInput payload s)) = (Inr (), s')"
    and "length (nm_inspects s) + 2 \<le> length flags"
  shows "\<exists>resp t. InspectPost E (Inr payload) (map (finish_step E) flags) s = Some (Inr (RJSON 200 resp), t)"
proof -
  let ?s = "snd (AddInspectInput payload s)"
  note a = inv_AddInspect_split [OF assms(1), of payload]
  then have i: "length (nm_inspects s) < length (nm_inspects ?s)" by simp
  from finish_run_rank [OF assms(3) _ i] a rank_bound [of "length (nm_inspects s)" ?s] assms(4)
  have "rank (length (nm_inspects s)) s' = 0" by simp
  then have "ii_Status (nm_inspects s' ! length (nm_inspects s)) \<noteq> CompletionStatusUnprocessed"
    by (simp add: rank_0)
  from poll_while_finishing [OF assms(3) _ i this] a
  obtain resp t where p: "inspect_poll E (int (length (nm_inspects s))) (map (finish_step E) flags) ?s =
      Some (Inr (RJSON 200 resp), t)" by blast
  have "InspectPost E (Inr payload) (map (finish_step E) flags) s =
      inspect_poll E (int (length (nm_inspects s))) (map (finish_step E) flags) ?s"
    using assms(2) by (subst InspectPost_def, simp add: inspectAPI_inspect_def, subst conjunct1 [OF a], simp)
  from trans [OF this p] show ?thesis by (intro exI)
qed

section \<open>Addresses as bytes\<close>

lemma take_bit_8_more:
  "take_bit (m + 8) (a :: address) = take_bit 8 (drop_bit m a) * 2 ^ m + take_bit m a"
proof -
  have "push_bit m (drop_bit m (take_bit (m + 8) a)) + take_bit m (take_bit (m + 8) a) = take_bit (m + 8) a"
    by (rule bits_ident)
  then show ?thesis by (simp add: drop_bit_take_bit push_bit_eq_mult add.commute)
qed

lemma address_of_bytes_from:
  "foldl (\<lambda>a x. 256 * a + ucast x) acc (map (\<lambda>i. ucast (drop_bit (8 * i) a) :: byte) (rev [0..<n])) =
     acc * 2 ^ (8 * n) + take_bit (8 * n) (a :: address)"
proof (induction n arbitrary: acc)
  case (Suc n)
  have u: "(ucast (ucast (drop_bit (8 * n) a) :: byte) :: address) = take_bit 8 (drop_bit (8 * n) a)"
    by (simp add: unsigned_ucast_eq)
  have "foldl (\<lambda>a x. 256 * a + ucast x) acc (map (\<lambda>i. ucast (drop_bit (8 * i) a) :: byte) (rev [0..<Suc n])) =
      (256 * acc + take_bit 8 (drop_bit (8 * n) a)) * 2 ^ (8 * n) + take_bit (8 * n) a"
    by (simp add: Suc u)
  also have "\<dots> = acc * (2 ^ (8 * n) * 2 ^ 8) + (take_bit 8 (drop_bit (8 * n) a) * 2 ^ (8 * n) + take_bit (8 * n) a)"
    by (simp add: algebra_simps)
  also have "\<dots> = acc * 2 ^ (8 * n + 8) + take_bit (8 * n + 8) a"
    by (simp only: take_bit_8_more power_add)
  also have "8 * n + 8 = 8 * Suc n" by simp
  finally show ?case .
qed simp

lemma address_of_bytes_of_address [simp]: "address_of_bytes (address_bytes a) = a"
  using address_of_bytes_from [of 0 a 20]
  by (simp add: address_of_bytes_def address_bytes_def take_bit_word_eq_self)

lemma length_address_bytes [simp]: "length (address_bytes a) = 20"
  by (simp add: address_bytes_def)

section \<open>A round of the echo application\<close>

text \<open>The outputs that the application makes of an advance input with index \<open>i\<close>.\<close>

definition echo_voucher :: "ethlib \<Rightarrow> AdvanceInput \<Rightarrow> ConvenienceVoucher" where
  "echo_voucher E x = \<lparr>cv_Destination = ai_MsgSender x, cv_Payload = Bytes2Hex E (ai_Payload x),
     cv_InputIndex = of_int (ai_Index x), cv_OutputIndex = 0, cv_Executed = False, cv_AppContract = 0\<rparr>"

definition echo_notice :: "ethlib \<Rightarrow> AdvanceInput \<Rightarrow> ConvenienceNotice" where
  "echo_notice E x = \<lparr>cn_Payload = Bytes2Hex E (ai_Payload x @ [255]), cn_InputIndex = of_int (ai_Index x),
     cn_OutputIndex = 0, cn_AppContract = 0\<rparr>"

definition echo_report :: "AdvanceInput \<Rightarrow> Report" where
  "echo_report x = \<lparr>rp_Index = 0, rp_InputIndex = ai_Index x, rp_Payload = ai_Payload x, rp_AppContract = 0\<rparr>"

lemma direct_finish:
  assumes "FinishAndGetNext E True s = (Inr (Some x), s1)"
  shows "\<exists>k. FinishRetries = Suc k \<and> cl_FinishWithResponse (direct_client E waits) ''accept'' s =
    (case convertInput E x of Inl e \<Rightarrow> (Inl e, s1) | Inr resp \<Rightarrow> (Inr (RJSON 200 resp), s1))"
  using assms by (simp add: FinishRetries_def direct_client_def RollupAPI_Finish_def checkContentType_def
      andThen_apply sequencer_eq eval_nat_numeral split: sum.splits)

lemma picked_advance:
  assumes "FinishAndGetNext E accepted s = (Inr (Some (IAdvance x)), s1)"
  shows "nm_state s1 = StAdvance \<lparr>sa_input = x, sa_vouchers = [], sa_notices = [], sa_reports = []\<rparr>"
  using assms by (auto simp: FinishAndGetNext_eq andThen_apply get_next_def newRollupsStateAdvance_def
      split: prod.splits sum.splits option.splits)

lemma echo_advance:
  assumes "eth_laws E" and "hexutil_Decode E (hexutil_Encode E (ai_Payload x) @ ''ff'') = Inr (ai_Payload x @ [255])"
    and "FinishAndGetNext E True s = (Inr (Some (IAdvance x)), s1)"
  shows "EchoAppWorker_round (direct_client E waits) s = (Inr (), s1\<lparr>nm_state := StAdvance
    \<lparr>sa_input = x, sa_vouchers = [echo_voucher E x], sa_notices = [echo_notice E x],
     sa_reports = [echo_report x]\<rparr>\<rparr>)"
proof -
  let ?payload = "hexutil_Encode E (ai_Payload x)"
  have dec: "hexutil_Decode E (hexutil_Encode E b) = Inr b" for b using assms(1) by (rule eth_Decode)
  note st = picked_advance [OF assms(3)]
  have "cl_FinishWithResponse (direct_client E waits) ''accept'' s =
      (Inr (RJSON 200 (AdvanceState \<lparr>adv_Metadata = \<lparr>md_AppContract = [], md_BlockNumber = ai_BlockNumber x,
         md_BlockTimestamp = of_int (Unix_of (ai_BlockTimestamp x)), md_ChainId = 0, md_InputIndex = of_int (ai_Index x),
         md_MsgSender = hexutil_Encode E (address_bytes (ai_MsgSender x)), md_PrevRandao = []\<rparr>, adv_Payload = ?payload\<rparr>)), s1)"
    using direct_finish [OF assms(3), of waits] by (simp add: convertInput_def Let_def)
  then show ?thesis using st
    by (simp add: EchoAppWorker_round_def handleAdvance_def andThen_apply wrapErr_apply direct_client_def
        RollupAPI_AddVoucher_def RollupAPI_AddNotice_def RollupAPI_AddReport_def checkContentType_def
        or_respond_apply dec assms(2) AddVoucher_def addVoucher_advance_def AddNotice_def addNotice_advance_def
        AddReport_def Let_def echo_voucher_def echo_notice_def echo_report_def)
qed

text \<open>And of an inspect.\<close>

lemma picked_inspect:
  assumes "FinishAndGetNext E accepted s = (Inr (Some (IInspect x)), s1)"
  obtains i where "nm_state s1 = StInspect \<lparr>si_input = i, si_reports = []\<rparr>" and "nm_inspects s1 ! i = x"
  using assms that by (auto simp: FinishAndGetNext_eq andThen_apply get_next_def newRollupsStateInspect_def
      split: prod.splits sum.splits option.splits)

lemma echo_inspect:
  assumes "eth_laws E" and "FinishAndGetNext E True s = (Inr (Some (IInspect x)), s1)"
  shows "\<exists>i. EchoAppWorker_round (direct_client E waits) s = (Inr (), s1\<lparr>nm_state := StInspect
    \<lparr>si_input = i, si_reports = [\<lparr>mr_Index = 0, mr_InputIndex = ii_Index x, mr_Payload = ii_Payload x\<rparr>]\<rparr>\<rparr>)"
proof -
  have dec: "hexutil_Decode E (hexutil_Encode E b) = Inr b" for b using assms(1) by (rule eth_Decode)
  obtain i where "nm_state s1 = StInspect \<lparr>si_input = i, si_reports = []\<rparr>" "nm_inspects s1 ! i = x"
    using picked_inspect [OF assms(2)] .
  moreover have "cl_FinishWithResponse (direct_client E waits) ''accept'' s =
      (Inr (RJSON 200 (InspectState (hexutil_Encode E (ii_Payload x)))), s1)"
    using direct_finish [OF assms(2), of waits] by (simp add: convertInput_def)
  ultimately show ?thesis
    by (intro exI [of _ i]) (simp add: EchoAppWorker_round_def handleInspect_def andThen_apply wrapErr_apply direct_client_def
        RollupAPI_AddReport_def checkContentType_def or_respond_apply dec AddReport_def Let_def)
qed

end
