(* ===== verification/GraphileSync.thy ===== *)
theory GraphileSync
  imports Frames
begin

text \<open>
  \<open>internal/convenience/synchronizer/graphile_fetcher.go\<close> and \<open>graphile_synchornizer.go\<close>: the
  worker that polls a GraphQL endpoint for outputs, inputs and reports, hands each to the decoder
  inside one database transaction, and moves its three cursors. The endpoint is a function from
  the query text to a response or an error; the waits between two rounds have no counterpart. The
  decoder is an interface in the source and a record of operations here; the locale
  \<open>sync_decoder\<close> is its contract: inside a transaction its operations touch neither the committed
  tables nor the log of fetches.
\<close>

section \<open>The fetcher\<close>

text \<open>\<open>fmt.Sprintf\<close> with the verbs \<open>%d\<close> and \<open>%s\<close>, the arguments already printed.\<close>

fun Sprintf :: "string \<Rightarrow> string list \<Rightarrow> string" where
  "Sprintf [] as = []"
| "Sprintf [c] as = [c]"
| "Sprintf (c # v # cs) as =
     (if c = CHR ''%'' \<and> (v = CHR ''d'' \<or> v = CHR ''s'') then
        (case as of [] \<Rightarrow> ''%!'' @ v # ''(MISSING)'' @ Sprintf cs []
         | a # as' \<Rightarrow> a @ Sprintf cs as')
      else c # Sprintf (v # cs) as)"

definition outputQuery :: string where
  "outputQuery = ''
	query {
		outputs(first: %d) {
			edges {
				cursor
				node {
					blob
					index
					inputIndex
					nodeId
					proofByInputIndexAndOutputIndex {
						validityOutputIndexWithinInput
						validityOutputHashesRootHash
						validityOutputHashesInEpochSiblings
						validityOutputHashInOutputHashesSiblings
						validityOutputEpochRootHash
						validityMachineStateHash
						validityInputIndexWithinEpoch
					}
				}
			}
			pageInfo {
				endCursor
				hasNextPage
				hasPreviousPage
				startCursor
			}
		}
		%s

		#report
		%s
	}''"

definition inputQuery :: string where
  "inputQuery = ''
	inputs(first: %d) {
		edges {
			cursor
			node {
				blob
				index
				nodeId
			}
		}
		pageInfo {
			endCursor
			hasNextPage
			hasPreviousPage
			startCursor
		}
	}
''"

definition inputQueryWithCursor :: string where
  "inputQueryWithCursor = ''
	inputs(first: %d, after: \"%s\") {
		edges {
			cursor
			node {
				blob
				index
				nodeId
			}
		}
		pageInfo {
			endCursor
			hasNextPage
			hasPreviousPage
			startCursor
		}
	}
''"

definition outputQueryWithCursor :: string where
  "outputQueryWithCursor = ''
	query {
		outputs(first: %d, after: \"%s\") {
			edges {
				cursor
				node {
					blob
					index
					inputIndex
					nodeId
					proofByInputIndexAndOutputIndex {
						validityOutputIndexWithinInput
						validityOutputHashesRootHash
						validityOutputHashesInEpochSiblings
						validityOutputHashInOutputHashesSiblings
						validityOutputEpochRootHash
						validityMachineStateHash
						validityInputIndexWithinEpoch
					}
				}
			}
			pageInfo {
				endCursor
				hasNextPage
				hasPreviousPage
				startCursor
			}
		}
		%s

		#report
		%s
	}''"

definition reportQuery :: string where
  "reportQuery = ''
	reports(first: %d) {
		edges {
			node {
				blob
				index
				inputIndex
			}
		}
		pageInfo {
			endCursor
			hasNextPage
			hasPreviousPage
			startCursor
		}
	}
''"

definition reportQueryWithCursor :: string where
  "reportQueryWithCursor = ''
	reports(first: %d, after: \"%s\") {
		edges {
			node {
				blob
				index
				inputIndex
			}
		}
		pageInfo {
			endCursor
			hasNextPage
			hasPreviousPage
			startCursor
		}
	}
''"

definition DefaultQueryBatchSize :: int where
  "DefaultQueryBatchSize = 10"

record GraphileFetcher =
  gf_CursorAfter :: string
  gf_CursorInputAfter :: string
  gf_CursorReportAfter :: string
  gf_BatchSize :: int

definition NewGraphileFetcher :: GraphileFetcher where
  "NewGraphileFetcher = \<lparr>gf_CursorAfter = [], gf_CursorInputAfter = [], gf_CursorReportAfter = [],
     gf_BatchSize = DefaultQueryBatchSize\<rparr>"

definition GetReportQuery :: "GraphileFetcher \<Rightarrow> string" where
  "GetReportQuery v =
     (if length (gf_CursorReportAfter v) > 0 then
        Sprintf reportQueryWithCursor [itoa (gf_BatchSize v), gf_CursorReportAfter v]
      else Sprintf reportQuery [itoa (gf_BatchSize v)])"

definition GetInputQuery :: "GraphileFetcher \<Rightarrow> string" where
  "GetInputQuery v =
     (if length (gf_CursorInputAfter v) > 0 then
        Sprintf inputQueryWithCursor [itoa (gf_BatchSize v), gf_CursorInputAfter v]
      else Sprintf inputQuery [itoa (gf_BatchSize v)])"

definition GetFullQuery :: "GraphileFetcher \<Rightarrow> string" where
  "GetFullQuery v =
     (let reportQueryWithVars = GetReportQuery v;
          inputQueryWithVars = GetInputQuery v
      in if length (gf_CursorAfter v) > 0 then
           Sprintf outputQueryWithCursor
             [itoa (gf_BatchSize v), gf_CursorAfter v, inputQueryWithVars, reportQueryWithVars]
         else Sprintf outputQuery [itoa (gf_BatchSize v), inputQueryWithVars, reportQueryWithVars])"

record SyncPageInfo =
  pi_StartCursor :: string
  pi_EndCursor :: string
  pi_HasNextPage :: bool
  pi_HasPreviousPage :: bool

record ReportEdge =
  re_Index :: int
  re_InputIndex :: int
  re_Blob :: string

record OutputResponse =
  or_OutputsPageInfo :: SyncPageInfo
  or_OutputsEdges :: "OutputEdge list"
  or_InputsPageInfo :: SyncPageInfo
  or_InputsEdges :: "InputEdge list"
  or_ReportsEdges :: "ReportEdge list"
  or_ReportsPageInfo :: SyncPageInfo

text \<open>The endpoint answers a query text; the errors of the client and of the JSON parser are its errors.\<close>

type_synonym endpoint = "string \<Rightarrow> OutputResponse res"

definition GraphileFetcher_Fetch :: "endpoint \<Rightarrow> GraphileFetcher \<Rightarrow> OutputResponse res" where
  "GraphileFetcher_Fetch post v =
     (let query = GetFullQuery v
      in rbind (post query) (\<lambda>response. Inr response))"

section \<open>The synchronizer\<close>

text \<open>The decoder interface of \<open>internal/convenience/model/type.go\<close>, as far as it is called here.\<close>

record DecoderInterface =
  dc_HandleOutputV2 :: "ctx \<Rightarrow> ProcessOutputData \<Rightarrow> (db, unit) comp"
  dc_HandleInput :: "ctx \<Rightarrow> InputEdge \<Rightarrow> CompletionStatus \<Rightarrow> (db, unit) comp"
  dc_HandleReport :: "ctx \<Rightarrow> int \<Rightarrow> int \<Rightarrow> string \<Rightarrow> (db, unit) comp"

record sync_state =
  sy_fetcher :: GraphileFetcher
  sy_db :: db

definition on_db :: "(db, 'a) comp \<Rightarrow> (sync_state, 'a) comp" where
  "on_db m s = (case m (sy_db s) of (r, d) \<Rightarrow> (r, s\<lparr>sy_db := d\<rparr>))"

text \<open>The end cursor of one of the three lists, and the row that records the batch.\<close>

definition voucher_id :: "OutputEdge \<Rightarrow> string" where
  "voucher_id output = itoa (oe_InputIndex output) @ '':'' @ itoa (oe_Index output)"

definition end_cursor :: "string \<Rightarrow> SyncPageInfo \<Rightarrow> string" where
  "end_cursor current pageInfo =
     (if length (pi_EndCursor pageInfo) > 0 then pi_EndCursor pageInfo
      else if length current > 0 then current else [])"

definition synchronizeFetch :: "int \<Rightarrow> GraphileFetcher \<Rightarrow> OutputResponse \<Rightarrow> SynchronizerFetch" where
  "synchronizeFetch now f resp =
     \<lparr>sf_Id = 0, sf_TimestampAfter = of_int now,
      sf_IniCursorAfter = gf_CursorAfter f,
      sf_LogVouchersIds = join '';'' (map voucher_id (or_OutputsEdges resp)),
      sf_EndCursorAfter = end_cursor (gf_CursorAfter f) (or_OutputsPageInfo resp),
      sf_IniInputCursorAfter = gf_CursorInputAfter f,
      sf_EndInputCursorAfter = end_cursor (gf_CursorInputAfter f) (or_InputsPageInfo resp),
      sf_IniReportCursorAfter = gf_CursorReportAfter f,
      sf_EndReportCursorAfter = end_cursor (gf_CursorReportAfter f) (or_ReportsPageInfo resp)\<rparr>"

definition move_cursors :: "SynchronizerFetch \<Rightarrow> GraphileFetcher \<Rightarrow> GraphileFetcher" where
  "move_cursors sf f = f
     \<lparr>gf_CursorAfter := (if length (sf_EndCursorAfter sf) \<noteq> 0 then sf_EndCursorAfter sf
        else gf_CursorAfter f),
      gf_CursorReportAfter := (if length (sf_EndReportCursorAfter sf) \<noteq> 0 then sf_EndReportCursorAfter sf
        else gf_CursorReportAfter f),
      gf_CursorInputAfter := (if length (sf_EndInputCursorAfter sf) \<noteq> 0 then sf_EndInputCursorAfter sf
        else gf_CursorInputAfter f)\<rparr>"

definition hasMore :: "OutputResponse \<Rightarrow> bool" where
  "hasMore resp \<longleftrightarrow> length (pi_EndCursor (or_InputsPageInfo resp)) > 0
     \<or> length (pi_EndCursor (or_OutputsPageInfo resp)) > 0
     \<or> length (pi_EndCursor (or_ReportsPageInfo resp)) > 0"

definition handleGraphileResponse ::
  "DecoderInterface \<Rightarrow> int \<Rightarrow> ctx \<Rightarrow> OutputResponse \<Rightarrow> (sync_state, unit) comp" where
  "handleGraphileResponse D now ctx outputResp =
     andThen (forEach (\<lambda>output.
       let processOutputData = \<lparr>po_OutputIndex = of_int (oe_Index output),
             po_InputIndex = of_int (oe_InputIndex output), po_Payload = oe_Blob output,
             po_Destination = oe_Blob output\<rparr>
       in wrapErr ''error handling output'' (on_db (dc_HandleOutputV2 D ctx processOutputData)))
       (or_OutputsEdges outputResp)) (\<lambda>_.
     andThen (forEach (\<lambda>input.
       wrapErr ''error handling input'' (on_db (dc_HandleInput D ctx input CompletionStatusUnprocessed)))
       (or_InputsEdges outputResp)) (\<lambda>_.
     andThen (forEach (\<lambda>report.
       wrapErr ''error handling report''
         (on_db (dc_HandleReport D ctx (re_InputIndex report) (re_Index report) (re_Blob report))))
       (or_ReportsEdges outputResp)) (\<lambda>_ s.
     let sf = synchronizeFetch now (sy_fetcher s) outputResp
     in andThen (if hasMore outputResp then
         andThen (wrapErr ''error creating synchronize repository''
           (on_db (SynchronizerRepository_Create ctx sf))) (\<lambda>_. ret ())
        else ret ()) (\<lambda>_ s.
        (Inr (), s\<lparr>sy_fetcher := move_cursors sf (sy_fetcher s)\<rparr>)) s)))"

text \<open>\<open>callRollback\<close> only logs the error of the rollback.\<close>

definition callRollback :: "(sync_state, unit) comp" where
  "callRollback s = (Inr (), snd (on_db tx_Rollback s))"

definition handleWithDBTransaction ::
  "DecoderInterface \<Rightarrow> int \<Rightarrow> OutputResponse \<Rightarrow> (sync_state, unit) comp" where
  "handleWithDBTransaction D now outputResp =
     andThen (on_db (StartTransaction NoTx)) (\<lambda>ctxWithTx.
     let isTxEnable = GetTransaction ctxWithTx
     in if \<not> isTxEnable then ret ()
     else andThen (onError (handleGraphileResponse D now ctxWithTx outputResp)
         (\<lambda>err. andThen callRollback (\<lambda>_. fail err))) (\<lambda>_.
       onError (on_db tx_Commit) (\<lambda>err. andThen callRollback (\<lambda>_. fail err))))"

text \<open>
  One round of the polling loop at time \<open>now\<close>, and the loop over the rounds up to the
  cancellation of its context. A panic of the handler ends the process.
\<close>

definition poll_round ::
  "DecoderInterface \<Rightarrow> int \<times> endpoint \<Rightarrow> (sync_state, unit) comp" where
  "poll_round D = (\<lambda>(now, post) s.
     case GraphileFetcher_Fetch post (sy_fetcher s) of
       Inl err \<Rightarrow> (Inr (), s)
     | Inr voucherResp \<Rightarrow> onError (handleWithDBTransaction D now voucherResp) (\<lambda>_. ret ()) s)"

definition resume_cursors :: "SynchronizerFetch option \<Rightarrow> GraphileFetcher \<Rightarrow> GraphileFetcher" where
  "resume_cursors lastFetch f = (case lastFetch of None \<Rightarrow> f
     | Some l \<Rightarrow> f\<lparr>gf_CursorAfter := sf_EndCursorAfter l, gf_CursorInputAfter := sf_EndInputCursorAfter l,
         gf_CursorReportAfter := sf_EndReportCursorAfter l\<rparr>)"

definition GraphileSynchronizer_Start ::
  "DecoderInterface \<Rightarrow> (int \<times> endpoint) list \<Rightarrow> (sync_state, unit) comp" where
  "GraphileSynchronizer_Start D rounds =
     andThen (on_db SynchronizerRepository_GetLastFetched) (\<lambda>lastFetch.
     andThen (\<lambda>s. (Inr (), s\<lparr>sy_fetcher := resume_cursors lastFetch (sy_fetcher s)\<rparr>)) (\<lambda>_.
     forEach (poll_round D) rounds))"

text \<open>The decoder that the container wires in.\<close>

definition OutputDecoder :: "ethlib \<Rightarrow> DecoderInterface" where
  "OutputDecoder E = \<lparr>dc_HandleOutputV2 = HandleOutputV2 E, dc_HandleInput = HandleInput E,
     dc_HandleReport = HandleReport E\<rparr>"


section \<open>What happens inside a transaction\<close>

text \<open>The same for the synchronizer: besides, the cursors stay.\<close>

definition batch_frame :: "sync_state \<Rightarrow> sync_state \<Rightarrow> bool" where
  "batch_frame s s' \<longleftrightarrow> sy_fetcher s' = sy_fetcher s \<and> tx_frame ''synchronizer_fetch'' (sy_db s) (sy_db s')"

lemma batch_frame_refl [simp]: "reflp batch_frame"
  using tx_frame_refl by (auto simp: reflp_def batch_frame_def)

lemma batch_frame_trans [simp]: "transp batch_frame"
  by (rule transpI) (auto simp: batch_frame_def intro: transpD [OF tx_frame_trans])

lemma keeps_on_db: "keeps (tx_frame ''synchronizer_fetch'') m \<Longrightarrow> keeps batch_frame (on_db m)"
  by (auto simp: keeps_def on_db_def batch_frame_def split: prod.splits) (metis snd_conv)

text \<open>\<open>logged fs f\<close>: the cursors of the fetcher are the ones the log would resume from.\<close>

definition logged :: "SynchronizerFetch list \<Rightarrow> GraphileFetcher \<Rightarrow> bool" where
  "logged fs f \<longleftrightarrow>
     gf_CursorAfter f = (if fs = [] then [] else sf_EndCursorAfter (last fs)) \<and>
     gf_CursorInputAfter f = (if fs = [] then [] else sf_EndInputCursorAfter (last fs)) \<and>
     gf_CursorReportAfter f = (if fs = [] then [] else sf_EndReportCursorAfter (last fs))"

definition extend_log ::
  "int \<Rightarrow> GraphileFetcher \<Rightarrow> OutputResponse \<Rightarrow> SynchronizerFetch list \<Rightarrow> SynchronizerFetch list" where
  "extend_log now f resp fs = (if hasMore resp then fs @ [synchronizeFetch now f resp] else fs)"

lemma logged_extend:
  "logged fs f \<Longrightarrow> logged (extend_log now f resp fs) (move_cursors (synchronizeFetch now f resp) f)"
  by (auto simp: logged_def extend_log_def hasMore_def move_cursors_def synchronizeFetch_def end_cursor_def)

text \<open>Recording the batch, with any schedule of faults.\<close>

lemma SynchronizerCreate_tx:
  assumes "SynchronizerRepository_Create WithTx f d = (Inr x, d')" and "db_pending d = Some p"
    and "p ''synchronizer_fetch'' = Some (fetches_table fs)" and "unat (sf_TimestampAfter f) < 2 ^ 63"
  shows "db_committed d' = db_committed d \<and>
    (\<exists>p'. db_pending d' = Some p' \<and> p' ''synchronizer_fetch'' = Some (fetches_table (fs @ [f])))"
proof -
  obtain y d1 where q: "pop_fault d = (y, d1)" by fastforce
  from assms(1,2) q show ?thesis
    by (auto simp: SynchronizerRepository_Create_def andThen_apply DBExecutor_ExecContext_def
        GetTransaction_def tx_Exec_def sql_exec_insertFetch [where ts = p, OF assms(4,3)]
        split: option.splits fault.splits dest!: pop_fault_frame)
qed

lemma SynchronizerCreate_any:
  assumes "SynchronizerRepository_Create WithTx f d = (r, d')"
  shows "db_committed d' = db_committed d \<and> (db_pending d' = None \<longleftrightarrow> db_pending d = None)"
proof -
  obtain y d1 where q: "pop_fault d = (y, d1)" by fastforce
  from assms q show ?thesis
    by (auto simp: SynchronizerRepository_Create_def andThen_apply DBExecutor_ExecContext_def
        GetTransaction_def tx_Exec_def split: option.splits fault.splits sum.splits dest!: pop_fault_frame)
qed

text \<open>The steps of the transaction.\<close>

lemma begin_cases:
  assumes "on_db (StartTransaction NoTx) s = (r, s1)"
  shows "sy_fetcher s1 = sy_fetcher s \<and> db_committed (sy_db s1) = db_committed (sy_db s) \<and>
    ((\<exists>e. r = Inl e \<and> db_pending (sy_db s1) = db_pending (sy_db s)) \<or>
     r = Inr WithTx \<and> db_pending (sy_db s1) = Some (db_committed (sy_db s)))"
proof -
  obtain y d1 where q: "pop_fault (sy_db s) = (y, d1)" by fastforce
  from assms q show ?thesis
    by (auto simp: on_db_def StartTransaction_def andThen_apply wrapErr_apply db_Begin_def
        split: option.splits fault.splits dest!: pop_fault_frame)
qed

lemma commit_cases:
  assumes "on_db tx_Commit s = (r, s1)" and "db_pending (sy_db s) = Some p"
  shows "sy_fetcher s1 = sy_fetcher s \<and> db_pending (sy_db s1) = None \<and>
    (case r of Inr _ \<Rightarrow> db_committed (sy_db s1) = p
     | Inl e \<Rightarrow> \<not> is_panic e \<and> db_committed (sy_db s1) = db_committed (sy_db s))"
proof -
  obtain y d1 where q: "pop_fault (sy_db s) = (y, d1)" by fastforce
  from assms q show ?thesis
    by (auto simp: on_db_def tx_Commit_def split: option.splits fault.splits dest!: pop_fault_frame)
qed

lemma rollback_cases:
  assumes "callRollback s = (r, s1)"
  shows "r = Inr () \<and> sy_fetcher s1 = sy_fetcher s \<and> db_committed (sy_db s1) = db_committed (sy_db s) \<and>
    db_pending (sy_db s1) = None"
  using assms by (auto simp: callRollback_def on_db_def tx_Rollback_def split: option.splits prod.splits)

text \<open>The handler is its three loops and then the bookkeeping.\<close>

definition batch_loops :: "DecoderInterface \<Rightarrow> ctx \<Rightarrow> OutputResponse \<Rightarrow> (sync_state, unit) comp" where
  "batch_loops D ctx outputResp =
     andThen (forEach (\<lambda>output.
       wrapErr ''error handling output'' (on_db (dc_HandleOutputV2 D ctx
         \<lparr>po_OutputIndex = of_int (oe_Index output), po_InputIndex = of_int (oe_InputIndex output),
          po_Payload = oe_Blob output, po_Destination = oe_Blob output\<rparr>)))
       (or_OutputsEdges outputResp)) (\<lambda>_.
     andThen (forEach (\<lambda>input.
       wrapErr ''error handling input'' (on_db (dc_HandleInput D ctx input CompletionStatusUnprocessed)))
       (or_InputsEdges outputResp)) (\<lambda>_.
     forEach (\<lambda>report.
       wrapErr ''error handling report''
         (on_db (dc_HandleReport D ctx (re_InputIndex report) (re_Index report) (re_Blob report))))
       (or_ReportsEdges outputResp)))"

definition record_batch :: "int \<Rightarrow> ctx \<Rightarrow> OutputResponse \<Rightarrow> (sync_state, unit) comp" where
  "record_batch now ctx outputResp s =
     (let sf = synchronizeFetch now (sy_fetcher s) outputResp
      in andThen (if hasMore outputResp then
         andThen (wrapErr ''error creating synchronize repository''
           (on_db (SynchronizerRepository_Create ctx sf))) (\<lambda>_. ret ())
        else ret ()) (\<lambda>_ s.
        (Inr (), s\<lparr>sy_fetcher := move_cursors sf (sy_fetcher s)\<rparr>)) s)"

lemma handleGraphileResponse_split:
  "handleGraphileResponse D now ctx resp = andThen (batch_loops D ctx resp) (\<lambda>_. record_batch now ctx resp)"
  by (simp add: handleGraphileResponse_def batch_loops_def record_batch_def [abs_def] andThen_assoc Let_def)

locale sync_decoder =
  fixes D :: DecoderInterface
  assumes output_frame: "keeps (tx_frame ''synchronizer_fetch'') (dc_HandleOutputV2 D WithTx p)"
    and input_frame: "keeps (tx_frame ''synchronizer_fetch'') (dc_HandleInput D WithTx i st)"
    and report_frame: "keeps (tx_frame ''synchronizer_fetch'') (dc_HandleReport D WithTx k n payload)"
begin

lemmas decoder_frames = output_frame [THEN keeps_on_db] input_frame [THEN keeps_on_db]
  report_frame [THEN keeps_on_db]

lemmas loop_frame = keeps_forEach [OF batch_frame_refl batch_frame_trans]

lemma loops_frame: "keeps batch_frame (batch_loops D WithTx resp)"
  unfolding batch_loops_def
  by (intro keeps_andThen [OF batch_frame_trans] loop_frame keeps_wrapErr decoder_frames)

text \<open>A batch that fails leaves the cursors and the committed tables.\<close>

lemma batch_any:
  assumes "handleGraphileResponse D now WithTx resp s = (r', s')"
  shows "db_committed (sy_db s') = db_committed (sy_db s) \<and>
    (db_pending (sy_db s') = None \<longleftrightarrow> db_pending (sy_db s) = None) \<and>
    ((\<exists>e. r' = Inl e) \<longrightarrow> sy_fetcher s' = sy_fetcher s)"
proof -
  obtain r s1 where l: "batch_loops D WithTx resp s = (r, s1)" by fastforce
  have "batch_frame s s1" using keepsD [OF loops_frame l] .
  then have f: "sy_fetcher s1 = sy_fetcher s \<and> db_committed (sy_db s1) = db_committed (sy_db s) \<and>
      (db_pending (sy_db s1) = None \<longleftrightarrow> db_pending (sy_db s) = None)"
    by (auto simp: batch_frame_def tx_frame_def split: option.splits)
  show ?thesis
  proof (cases r)
    case (Inl e')
    with l assms f show ?thesis by (auto simp: handleGraphileResponse_split andThen_apply)
  next
    case (Inr u)
    with l assms have rb: "record_batch now WithTx resp s1 = (r', s')"
      by (simp add: handleGraphileResponse_split andThen_apply)
    obtain r2 d' where c: "SynchronizerRepository_Create WithTx
        (synchronizeFetch now (sy_fetcher s1) resp) (sy_db s1) = (r2, d')" by fastforce
    have rs: "record_batch now WithTx resp s1 = (if hasMore resp then
          (case r2 of Inl e \<Rightarrow> (Inl (if is_panic e then e else EWrap ''error creating synchronize repository'' e),
              s1\<lparr>sy_db := d'\<rparr>)
           | Inr _ \<Rightarrow> (Inr (), s1\<lparr>sy_db := d', sy_fetcher := move_cursors
              (synchronizeFetch now (sy_fetcher s1) resp) (sy_fetcher s1)\<rparr>))
        else (Inr (), s1\<lparr>sy_fetcher := move_cursors
              (synchronizeFetch now (sy_fetcher s1) resp) (sy_fetcher s1)\<rparr>))"
      using c by (cases r2) (simp_all add: record_batch_def Let_def andThen_apply wrapErr_apply on_db_def)
    show ?thesis
      using rb rs SynchronizerCreate_any [OF c] f by (cases "hasMore resp"; cases r2) auto
  qed
qed

text \<open>A batch that succeeds extends the log in the open transaction and moves the cursors.\<close>

lemma batch_ok:
  assumes "handleGraphileResponse D now WithTx resp s = (Inr x, s')"
    and "db_pending (sy_db s) = Some p" and "p ''synchronizer_fetch'' = Some (fetches_table fs)"
    and "0 \<le> now" and "now < 2 ^ 63"
  shows "sy_fetcher s' = move_cursors (synchronizeFetch now (sy_fetcher s) resp) (sy_fetcher s) \<and>
    db_committed (sy_db s') = db_committed (sy_db s) \<and>
    (\<exists>p'. db_pending (sy_db s') = Some p' \<and>
      p' ''synchronizer_fetch'' = Some (fetches_table (extend_log now (sy_fetcher s) resp fs)))"
proof -
  obtain s1 where l: "batch_loops D WithTx resp s = (Inr (), s1)"
    and r: "record_batch now WithTx resp s1 = (Inr x, s')"
    using assms(1) by (auto simp: handleGraphileResponse_split elim: andThen_InrE)
  have "batch_frame s s1" using keepsD [OF loops_frame l] .
  with assms(2,3) obtain p1 where f: "sy_fetcher s1 = sy_fetcher s"
    "db_committed (sy_db s1) = db_committed (sy_db s)" "db_pending (sy_db s1) = Some p1"
    "p1 ''synchronizer_fetch'' = Some (fetches_table fs)"
    by (auto simp: batch_frame_def tx_frame_def)
  let ?sf = "synchronizeFetch now (sy_fetcher s) resp"
  have small: "unat (sf_TimestampAfter ?sf) < 2 ^ 63"
    using uint_of_int_small(2) [OF assms(4,5)] by (simp add: synchronizeFetch_def)
  show ?thesis
  proof (cases "hasMore resp")
    case False
    with r f show ?thesis
      by (auto simp: record_batch_def Let_def andThen_apply extend_log_def)
  next
    case True
    with r f obtain y d' where c: "SynchronizerRepository_Create WithTx ?sf (sy_db s1) = (Inr y, d')"
      and s': "s' = s1\<lparr>sy_db := d', sy_fetcher := move_cursors ?sf (sy_fetcher s1)\<rparr>"
      by (auto simp: record_batch_def Let_def andThen_apply wrapErr_apply on_db_def
          split: sum.splits prod.splits)
    from SynchronizerCreate_tx [OF c f(3,4) small] s' f True show ?thesis
      by (auto simp: extend_log_def)
  qed
qed

text \<open>
  The transaction as a whole, with any schedule of faults: it ends; it succeeds with the log and
  the cursors extended together; on an error the committed tables are as before.
\<close>

lemma transaction_ok:
  assumes "handleWithDBTransaction D now resp s = (Inr x, s')"
    and "db_committed (sy_db s) ''synchronizer_fetch'' = Some (fetches_table fs)"
    and "0 \<le> now" and "now < 2 ^ 63"
  shows "sy_fetcher s' = move_cursors (synchronizeFetch now (sy_fetcher s) resp) (sy_fetcher s) \<and>
    db_pending (sy_db s') = None \<and>
    db_committed (sy_db s') ''synchronizer_fetch'' = Some (fetches_table (extend_log now (sy_fetcher s) resp fs))"
proof -
  obtain r s1 where b: "on_db (StartTransaction NoTx) s = (r, s1)" by fastforce
  obtain r2 s2 where h: "handleGraphileResponse D now WithTx resp s1 = (r2, s2)" by fastforce
  obtain r3 s3 where c: "on_db tx_Commit s2 = (r3, s3)" by fastforce
  obtain r4 s4 where rb: "callRollback s2 = (r4, s4)" by fastforce
  obtain r5 s5 where rc: "callRollback s3 = (r5, s5)" by fastforce
  have "\<exists>c. r = Inr c"
    using assms(1) b by (cases r) (simp_all add: handleWithDBTransaction_def andThen_apply)
  with begin_cases [OF b] have r: "r = Inr WithTx" and s1: "sy_fetcher s1 = sy_fetcher s"
    "db_pending (sy_db s1) = Some (db_committed (sy_db s))" by auto
  have t: "handleWithDBTransaction D now resp s =
      andThen (onError (handleGraphileResponse D now WithTx resp)
         (\<lambda>err. andThen callRollback (\<lambda>_. fail err)))
       (\<lambda>_. onError (on_db tx_Commit) (\<lambda>err. andThen callRollback (\<lambda>_. fail err))) s1"
    by (simp add: handleWithDBTransaction_def andThen_apply b r GetTransaction_def)
  have "\<exists>y. r2 = Inr y"
    using assms(1) rollback_cases [OF rb]
    by (cases r2) (auto simp: t andThen_apply onError_apply h rb split: if_splits)
  then obtain y where r2: "r2 = Inr y" ..
  have "r3 = Inr x \<and> s3 = s'"
    using assms(1) rollback_cases [OF rc]
    by (cases r3) (auto simp: t andThen_apply onError_apply h r2 c rc split: if_splits)
  then have c': "on_db tx_Commit s2 = (Inr x, s')" using c by simp
  from batch_ok [OF _ s1(2) assms(2-4)] h r2 s1(1) obtain p' where
    "sy_fetcher s2 = move_cursors (synchronizeFetch now (sy_fetcher s) resp) (sy_fetcher s)"
    "db_pending (sy_db s2) = Some p'"
    "p' ''synchronizer_fetch'' = Some (fetches_table (extend_log now (sy_fetcher s) resp fs))"
    by fastforce
  with commit_cases [OF c'] show ?thesis by simp
qed

lemma transaction_error:
  assumes "handleWithDBTransaction D now resp s = (Inl e, s')" and "\<not> is_panic e"
    and "db_pending (sy_db s) = None"
  shows "db_committed (sy_db s') = db_committed (sy_db s) \<and> db_pending (sy_db s') = None"
proof -
  obtain r s1 where b: "on_db (StartTransaction NoTx) s = (r, s1)" by fastforce
  note b' = begin_cases [OF b]
  show ?thesis
  proof (cases r)
    case (Inl e')
    with b b' assms show ?thesis by (auto simp: handleWithDBTransaction_def andThen_apply)
  next
    case (Inr ctx)
    with b' have s1: "ctx = WithTx" "db_committed (sy_db s1) = db_committed (sy_db s)"
      "db_pending (sy_db s1) = Some (db_committed (sy_db s))" by auto
    obtain r2 s2 where h: "handleGraphileResponse D now WithTx resp s1 = (r2, s2)" by fastforce
    show ?thesis
    proof (cases r2)
      case (Inl e2)
      from batch_any [OF h] s1 have "db_committed (sy_db s2) = db_committed (sy_db s)" by simp
      with b Inr s1 h Inl assms(1,2) rollback_cases [of s2] show ?thesis
        by (auto simp: handleWithDBTransaction_def andThen_apply onError_apply GetTransaction_def
            split: if_splits prod.splits sum.splits)
    next
      case (Inr u)
      from batch_any [OF h] s1 obtain p where s2: "db_committed (sy_db s2) = db_committed (sy_db s)"
        "db_pending (sy_db s2) = Some p" by auto
      obtain r3 s3 where c: "on_db tx_Commit s2 = (r3, s3)" by fastforce
      obtain r4 s4 where rb: "callRollback s3 = (r4, s4)" by fastforce
      have t: "handleWithDBTransaction D now resp s =
          onError (on_db tx_Commit) (\<lambda>err. andThen callRollback (\<lambda>_. fail err)) s2"
        using b \<open>r = Inr ctx\<close> s1(1) h Inr
        by (simp add: handleWithDBTransaction_def andThen_apply onError_apply GetTransaction_def)
      show ?thesis
        using assms(1) commit_cases [OF c s2(2)] s2(1) rollback_cases [OF rb]
        by (cases r3) (auto simp: t onError_apply c andThen_apply rb)
    qed
  qed
qed

end

interpretation output_decoder: sync_decoder "OutputDecoder E" for E
  by unfold_locales (simp_all add: OutputDecoder_def in_tx.keeps_HandleOutputV2 in_tx.keeps_HandleInput
      in_tx.keeps_HandleReport)

end
