(* ===== verification/Reader.thy ===== *)
theory Reader
  imports GraphileSync
begin

text \<open>
  \<open>internal/reader\<close>: the GraphQL side. \<open>model/types.go\<close>, \<open>model/generated.go\<close> and
  \<open>model/conversions.go\<close> hold the GraphQL types and the conversions to them, \<open>adapter_v1.go\<close> and
  \<open>adapter_v2.go\<close> the two implementations of the interface of \<open>adapter.go\<close>,
  \<open>reader.resolvers.go\<close> the resolvers that gqlgen calls. The HTTP client of the second adapter is
  the record \<open>graphile\<close>: a function from a request to the decoded response.
\<close>

section \<open>The GraphQL types\<close>

record gql_Input =
  gi_Index :: int
  gi_Status :: string
  gi_MsgSender :: string
  gi_Timestamp :: string
  gi_BlockNumber :: string
  gi_Payload :: string

record gql_Voucher =
  gv_Index :: int
  gv_InputIndex :: int
  gv_Destination :: string
  gv_Payload :: string
  gv_Executed :: bool

record gql_Report =
  gr_Index :: int
  gr_InputIndex :: int
  gr_Payload :: string

record gql_Notice =
  gn_Index :: int
  gn_InputIndex :: int
  gn_Payload :: string

record gql_Proof =
  pf_FirstIndex :: int
  pf_InputByInputIndex :: "gql_Input option"
  pf_InputIndex :: int
  pf_LastInput :: int
  pf_NodeID :: string
  pf_OutputIndex :: int
  pf_ValidityInputIndexWithinEpoch :: int
  pf_ValidityMachineStateHash :: string
  pf_ValidityOutputEpochRootHash :: string
  pf_ValidityOutputHashInOutputHashesSiblings :: "string option list"
  pf_ValidityOutputHashesInEpochSiblings :: "string option list"
  pf_ValidityOutputHashesRootHash :: string
  pf_ValidityOutputIndexWithinInput :: int

record gql_InputFilter =
  if_IndexLowerThan :: "int option"
  if_IndexGreaterThan :: "int option"
  if_MsgSender :: "string option"

datatype AddressFilterInput = AddressFilterInput
    (af_Eq: "string option") (af_Ne: "string option") (af_In: "string option list")
    (af_Nin: "string option list") (af_And: "ConvenientFilter list") (af_Or: "ConvenientFilter list")
  and BooleanFilterInput = BooleanFilterInput
    (bf_Eq: "bool option") (bf_Ne: "bool option") (bf_And: "ConvenientFilter list")
    (bf_Or: "ConvenientFilter list")
  and ConvenientFilter = ConvenientFilter
    (gf_Destination: "AddressFilterInput option") (gf_Executed: "BooleanFilterInput option")
    (gf_And: "ConvenientFilter list") (gf_Or: "ConvenientFilter list")

definition gql_Unprocessed :: string where "gql_Unprocessed = ''UNPROCESSED''"
definition gql_Accepted :: string where "gql_Accepted = ''ACCEPTED''"
definition gql_Rejected :: string where "gql_Rejected = ''REJECTED''"
definition gql_Exception :: string where "gql_Exception = ''EXCEPTION''"

definition AllCompletionStatus :: "string list" where
  "AllCompletionStatus = [gql_Unprocessed, gql_Accepted, gql_Rejected, gql_Exception,
     ''MACHINE_HALTED'', ''CYCLE_LIMIT_EXCEEDED'', ''TIME_LIMIT_EXCEEDED'',
     ''PAYLOAD_LENGTH_LIMIT_EXCEEDED'']"

definition CompletionStatus_IsValid :: "string \<Rightarrow> bool" where
  "CompletionStatus_IsValid e \<longleftrightarrow> e = gql_Unprocessed \<or> e = gql_Accepted \<or> e = gql_Rejected
     \<or> e = gql_Exception \<or> e = ''MACHINE_HALTED'' \<or> e = ''CYCLE_LIMIT_EXCEEDED''
     \<or> e = ''TIME_LIMIT_EXCEEDED'' \<or> e = ''PAYLOAD_LENGTH_LIMIT_EXCEEDED''"

text \<open>\<open>UnmarshalGQL\<close> of a string; what is not a string is refused before.\<close>

definition CompletionStatus_UnmarshalGQL :: "string option \<Rightarrow> string res" where
  "CompletionStatus_UnmarshalGQL v = (case v of
       None \<Rightarrow> Inl (EMsg ''enums must be strings'')
     | Some str \<Rightarrow> if CompletionStatus_IsValid str then Inr str
         else Inl (EMsg (str @ '' is not a valid CompletionStatus'')))"

section \<open>Conversions\<close>

definition model_convertCompletionStatus :: "CompletionStatus \<Rightarrow> string res" where
  "model_convertCompletionStatus status =
     (if status = CompletionStatusUnprocessed then Inr gql_Unprocessed
      else if status = CompletionStatusAccepted then Inr gql_Accepted
      else if status = CompletionStatusRejected then Inr gql_Rejected
      else if status = CompletionStatusException then Inr gql_Exception
      else Inl (EMsg ''invalid completion status''))"

definition ConvertInput :: "ethlib \<Rightarrow> AdvanceInput \<Rightarrow> gql_Input res" where
  "ConvertInput E input =
     rbind (model_convertCompletionStatus (ai_Status input)) (\<lambda>convertedStatus.
     Inr \<lparr>gi_Index = ai_Index input, gi_Status = convertedStatus,
       gi_MsgSender = addr_Hex E (ai_MsgSender input),
       gi_Timestamp = itoa (Unix_of (ai_BlockTimestamp input)),
       gi_BlockNumber = itoa (uint (ai_BlockNumber input)),
       gi_Payload = hexutil_Encode E (ai_Payload input)\<rparr>)"

definition convertConvenientVoucherV1 :: "ethlib \<Rightarrow> ConvenienceVoucher \<Rightarrow> gql_Voucher" where
  "convertConvenientVoucherV1 E cVoucher =
     \<lparr>gv_Index = sint (cv_OutputIndex cVoucher), gv_InputIndex = sint (cv_InputIndex cVoucher),
      gv_Destination = addr_Hex E (cv_Destination cVoucher), gv_Payload = cv_Payload cVoucher,
      gv_Executed = False\<rparr>"

definition format_bool :: "bool \<Rightarrow> string" where
  "format_bool b = (if b then ''true'' else ''false'')"

definition flag_text :: "bool option \<Rightarrow> string" where
  "flag_text b = (case b of None \<Rightarrow> [] | Some b \<Rightarrow> format_bool b)"

text \<open>
  The recursion goes through the four lists of nested filters. The comparison of the executed
  flag is handed on as pointers to local strings, which are empty where the filter has none.
\<close>

fun ConvertToConvenienceFilter :: "ConvenientFilter list \<Rightarrow> ConvenienceFilter list res" where
  "ConvertToConvenienceFilter [] = Inr []"
| "ConvertToConvenienceFilter (ConvenientFilter dest exec ands ors # fs) =
     rbind (ConvertToConvenienceFilter ands) (\<lambda>and0.
     rbind (ConvertToConvenienceFilter ors) (\<lambda>or0.
     rbind (case dest of None \<Rightarrow> Inr ([], and0, or0)
        | Some (AddressFilterInput eq ne in' nin dands dors) \<Rightarrow>
            rbind (ConvertToConvenienceFilter dands) (\<lambda>a.
            rbind (ConvertToConvenienceFilter dors) (\<lambda>o'.
            Inr ([ConvenienceFilter (Some ''Destination'') eq ne None None None None in' nin
                (a @ and0) (o' @ or0)], a @ and0, o' @ or0)))) (\<lambda>(out1, and1, or1).
     rbind (case exec of None \<Rightarrow> Inr []
        | Some (BooleanFilterInput eq ne eands eors) \<Rightarrow>
            rbind (ConvertToConvenienceFilter eands) (\<lambda>a.
            rbind (ConvertToConvenienceFilter eors) (\<lambda>o'.
            Inr [ConvenienceFilter (Some ''Executed'') (Some (flag_text eq)) (Some (flag_text ne))
                None None None None [] [] (a @ and1) (o' @ or1)]))) (\<lambda>out2.
     rbind (ConvertToConvenienceFilter fs) (\<lambda>rest. Inr (out1 @ out2 @ rest))))))"

definition ConvertToVoucherConnectionV1 ::
  "ethlib \<Rightarrow> ConvenienceVoucher list \<Rightarrow> int \<Rightarrow> int \<Rightarrow> gql_Voucher Connection" where
  "ConvertToVoucherConnectionV1 E vouchers offset tot =
     NewConnection offset tot (map (convertConvenientVoucherV1 E) vouchers)"

definition convertConvenientNoticeV1 :: "ConvenienceNotice \<Rightarrow> gql_Notice" where
  "convertConvenientNoticeV1 cNotice =
     \<lparr>gn_Index = sint (cn_OutputIndex cNotice), gn_InputIndex = sint (cn_InputIndex cNotice),
      gn_Payload = cn_Payload cNotice\<rparr>"

definition ConvertToNoticeConnectionV1 ::
  "ConvenienceNotice list \<Rightarrow> int \<Rightarrow> int \<Rightarrow> gql_Notice Connection" where
  "ConvertToNoticeConnectionV1 notices offset tot =
     NewConnection offset tot (map convertConvenientNoticeV1 notices)"

definition ConvertToInputConnectionV1 ::
  "ethlib \<Rightarrow> AdvanceInput list \<Rightarrow> int \<Rightarrow> int \<Rightarrow> gql_Input Connection res" where
  "ConvertToInputConnectionV1 E inputs offset tot =
     rbind (rmap (ConvertInput E) inputs) (\<lambda>convNodes. Inr (NewConnection offset tot convNodes))"

section \<open>The input blob adapter\<close>

record input_blob_node =
  bn_Index :: int
  bn_Blob :: string
  bn_Status :: string

definition reader_convertCompletionStatus :: "string \<Rightarrow> string res" where
  "reader_convertCompletionStatus status =
     (if status = gql_Unprocessed then Inr gql_Unprocessed
      else if status = gql_Accepted then Inr gql_Accepted
      else if status = gql_Rejected then Inr gql_Rejected
      else if status = gql_Exception then Inr gql_Exception
      else Inl (EMsg (''Error converting CompletionStatus to valid value. Status to be converted '' @ status)))"

definition InputBlobAdapter_Adapt :: "ethlib \<Rightarrow> input_blob_node \<Rightarrow> gql_Input res" where
  "InputBlobAdapter_Adapt E node =
     rbind (slice_from 10 (bn_Blob node)) (\<lambda>s.
     rbind (UnpackEvmAdvance E (Hex2Bytes E s)) (\<lambda>values.
     rbind (reader_convertCompletionStatus (bn_Status node)) (\<lambda>convertedStatus.
     Inr \<lparr>gi_Index = bn_Index node, gi_Status = convertedStatus,
       gi_MsgSender = addr_Hex E (ev_msgSender values),
       gi_Timestamp = itoa (ev_blockTimestamp values),
       gi_BlockNumber = itoa (ev_blockNumber values),
       gi_Payload = string_of_bytes (ev_payload values)\<rparr>)))"

section \<open>The adapters\<close>

text \<open>The operations of the interface \<open>Adapter\<close>; all of them only read.\<close>

record Adapter =
  ad_GetReport :: "int \<Rightarrow> int \<Rightarrow> (db, gql_Report option) comp"
  ad_GetReports :: "int option \<Rightarrow> int option \<Rightarrow> string option \<Rightarrow> string option \<Rightarrow> int option \<Rightarrow>
    (db, gql_Report Connection) comp"
  ad_GetInputs :: "int option \<Rightarrow> int option \<Rightarrow> string option \<Rightarrow> string option \<Rightarrow> gql_InputFilter option \<Rightarrow>
    (db, gql_Input Connection) comp"
  ad_GetInput :: "int \<Rightarrow> (db, gql_Input) comp"
  ad_GetNotice :: "int \<Rightarrow> int \<Rightarrow> (db, gql_Notice) comp"
  ad_GetNotices :: "int option \<Rightarrow> int option \<Rightarrow> string option \<Rightarrow> string option \<Rightarrow> int option \<Rightarrow>
    (db, gql_Notice Connection) comp"
  ad_GetVoucher :: "int \<Rightarrow> int \<Rightarrow> (db, gql_Voucher) comp"
  ad_GetVouchers :: "int option \<Rightarrow> int option \<Rightarrow> string option \<Rightarrow> string option \<Rightarrow> int option \<Rightarrow>
    (db, gql_Voucher Connection) comp"
  ad_GetProof :: "int \<Rightarrow> int \<Rightarrow> (db, gql_Proof) comp"

definition index_filter :: "int option \<Rightarrow> ConvenienceFilter list" where
  "index_filter inputIndex = (case inputIndex of None \<Rightarrow> [] | Some i \<Rightarrow> [filter_Eq INPUT_INDEX (itoa i)])"

subsection \<open>The first adapter\<close>

definition V1_GetProof :: "int \<Rightarrow> int \<Rightarrow> (db, gql_Proof) comp" where
  "V1_GetProof inputIndex outputIndex = fail (EMsg ''proofs are not supported in nonodo v1'')"

definition V1_GetNotices ::
  "ethlib \<Rightarrow> int option \<Rightarrow> int option \<Rightarrow> string option \<Rightarrow> string option \<Rightarrow> int option \<Rightarrow>
   (db, gql_Notice Connection) comp" where
  "V1_GetNotices E first lastN after before inputIndex =
     (let filters = index_filter inputIndex
      in andThen (ConvenienceService_FindAllNotices E first lastN after before filters) (\<lambda>notices.
         ret (ConvertToNoticeConnectionV1 (Rows notices) (sint (Offset notices)) (sint (Total notices)))))"

definition V1_GetVoucher :: "ethlib \<Rightarrow> int \<Rightarrow> int \<Rightarrow> (db, gql_Voucher) comp" where
  "V1_GetVoucher E voucherIndex inputIndex =
     andThen (ConvenienceService_FindVoucherByInputAndOutputIndex E (of_int inputIndex) (of_int voucherIndex))
       (\<lambda>voucher. case voucher of
          None \<Rightarrow> fail (EMsg ''voucher not found'')
        | Some voucher \<Rightarrow> ret \<lparr>gv_Index = voucherIndex, gv_InputIndex = sint (cv_InputIndex voucher),
            gv_Destination = addr_Hex E (cv_Destination voucher), gv_Payload = cv_Payload voucher,
            gv_Executed = False\<rparr>)"

definition V1_GetVouchers ::
  "ethlib \<Rightarrow> int option \<Rightarrow> int option \<Rightarrow> string option \<Rightarrow> string option \<Rightarrow> int option \<Rightarrow>
   (db, gql_Voucher Connection) comp" where
  "V1_GetVouchers E first lastN after before inputIndex =
     (let filters = index_filter inputIndex
      in andThen (ConvenienceService_FindAllVouchers E first lastN after before filters) (\<lambda>vouchers.
         ret (ConvertToVoucherConnectionV1 E (Rows vouchers) (sint (Offset vouchers)) (sint (Total vouchers)))))"

definition V1_GetNotice :: "ethlib \<Rightarrow> int \<Rightarrow> int \<Rightarrow> (db, gql_Notice) comp" where
  "V1_GetNotice E noticeIndex inputIndex =
     andThen (ConvenienceService_FindNoticeByInputAndOutputIndex E (of_int inputIndex) (of_int noticeIndex))
       (\<lambda>notice. case notice of
          None \<Rightarrow> fail (EMsg ''notice not found'')
        | Some notice \<Rightarrow> ret \<lparr>gn_Index = noticeIndex, gn_InputIndex = inputIndex,
            gn_Payload = cn_Payload notice\<rparr>)"

definition V1_convertToReport :: "ethlib \<Rightarrow> Report \<Rightarrow> gql_Report" where
  "V1_convertToReport E report = \<lparr>gr_Index = rp_Index report, gr_InputIndex = rp_InputIndex report,
     gr_Payload = ''0x'' @ Bytes2Hex E (rp_Payload report)\<rparr>"

definition V1_convertToReportConnection ::
  "ethlib \<Rightarrow> Report list \<Rightarrow> int \<Rightarrow> int \<Rightarrow> gql_Report Connection" where
  "V1_convertToReportConnection E reports offset tot =
     NewConnection offset tot (map (V1_convertToReport E) reports)"

definition V1_GetReport :: "ethlib \<Rightarrow> int \<Rightarrow> int \<Rightarrow> (db, gql_Report option) comp" where
  "V1_GetReport E reportIndex inputIndex =
     andThen (ReportRepository_FindByInputAndOutputIndex E (of_int inputIndex) (of_int reportIndex))
       (\<lambda>report. case report of
          None \<Rightarrow> fail (EMsg ''report not found'')
        | Some report \<Rightarrow> ret (Some (V1_convertToReport E report)))"

definition V1_GetReports ::
  "ethlib \<Rightarrow> int option \<Rightarrow> int option \<Rightarrow> string option \<Rightarrow> string option \<Rightarrow> int option \<Rightarrow>
   (db, gql_Report Connection) comp" where
  "V1_GetReports E first lastN after before inputIndex =
     andThen (ReportRepository_FindAllByInputIndex E first lastN after before inputIndex) (\<lambda>reports.
     ret (V1_convertToReportConnection E (Rows reports) (sint (Offset reports)) (sint (Total reports))))"

definition V1_GetInput :: "ethlib \<Rightarrow> int \<Rightarrow> (db, gql_Input) comp" where
  "V1_GetInput E index =
     andThen (InputRepository_FindByIndex E index) (\<lambda>input. case input of
          None \<Rightarrow> fail (EMsg ''input not found'')
        | Some input \<Rightarrow> lift_res (ConvertInput E input))"

definition V1_convertToInputConnection ::
  "ethlib \<Rightarrow> AdvanceInput list \<Rightarrow> int \<Rightarrow> int \<Rightarrow> gql_Input Connection res" where
  "V1_convertToInputConnection E inputs offset tot =
     rbind (rmap (ConvertInput E) inputs) (\<lambda>convNodes. Inr (NewConnection offset tot convNodes))"

definition V1_input_filters :: "gql_InputFilter option \<Rightarrow> ConvenienceFilter list" where
  "V1_input_filters where' = (case where' of None \<Rightarrow> []
     | Some w \<Rightarrow>
         (case if_IndexGreaterThan w of None \<Rightarrow> [] | Some n \<Rightarrow> [filter_Gt ''Index'' (itoa n)]) @
         (case if_IndexLowerThan w of None \<Rightarrow> [] | Some n \<Rightarrow> [filter_Lt ''Index'' (itoa n)]) @
         (case if_MsgSender w of None \<Rightarrow> [] | Some m \<Rightarrow> [filter_Eq ''MsgSender'' m]))"

definition V1_GetInputs ::
  "ethlib \<Rightarrow> int option \<Rightarrow> int option \<Rightarrow> string option \<Rightarrow> string option \<Rightarrow> gql_InputFilter option \<Rightarrow>
   (db, gql_Input Connection) comp" where
  "V1_GetInputs E first lastN after before where' =
     (let filters = V1_input_filters where'
      in andThen (InputRepository_FindAll E first lastN after before filters) (\<lambda>inputs.
         lift_res (V1_convertToInputConnection E (Rows inputs) (sint (Offset inputs)) (sint (Total inputs)))))"

definition AdapterV1 :: "ethlib \<Rightarrow> Adapter" where
  "AdapterV1 E = \<lparr>ad_GetReport = V1_GetReport E, ad_GetReports = V1_GetReports E,
     ad_GetInputs = V1_GetInputs E, ad_GetInput = V1_GetInput E, ad_GetNotice = V1_GetNotice E,
     ad_GetNotices = V1_GetNotices E, ad_GetVoucher = V1_GetVoucher E,
     ad_GetVouchers = V1_GetVouchers E, ad_GetProof = V1_GetProof\<rparr>"

text \<open>The constructor creates the two tables and panics when that fails.\<close>

definition NewAdapterV1 :: "ethlib \<Rightarrow> string \<Rightarrow> (db, Adapter) comp" where
  "NewAdapterV1 E drv =
     andThen (onError ReportRepository_CreateTables (\<lambda>err. fail (EPanic ''CreateTables''))) (\<lambda>_.
     andThen (onError (InputRepository_CreateTables drv) (\<lambda>err. fail (EPanic ''CreateTables''))) (\<lambda>_.
     ret (AdapterV1 E)))"

subsection \<open>The second adapter\<close>

record report_node =
  rn_Index :: int
  rn_Blob :: string
  rn_InputIndex :: int

text \<open>
  The client of the remote endpoint: the edges of the response to a request body, and the proof
  in the response to a query with its two variables.
\<close>

record graphile =
  gc_reports :: "string \<Rightarrow> report_node list res"
  gc_proof :: "string \<Rightarrow> int \<Rightarrow> int \<Rightarrow> gql_Proof res"

definition proofQuery :: string where
  "proofQuery = ''
	query ProofQuery($inputIndex: Int!, $outputIndex: Int!) {
		proof(inputIndex: $inputIndex, outputIndex: $outputIndex) {
			nodeId
			inputIndex
			outputIndex
			firstInput
			lastInput
			validityInputIndexWithinEpoch
			validityOutputIndexWithinInput
			validityOutputHashesRootHash
			validityOutputEpochRootHash
			validityMachineStateHash
			validityOutputHashInOutputHashesSiblings
			validityOutputHashesInEpochSiblings
		}
	}''"

definition reportByIdBody :: string where
  "reportByIdBody = ''
    {
		\"query\": \"query { reports(condition: {index: %d, inputIndex: %d}) { edges { node { index blob inputIndex}}}}\"
		
	}''"

definition V2_GetProof :: "graphile \<Rightarrow> int \<Rightarrow> int \<Rightarrow> (db, gql_Proof) comp" where
  "V2_GetProof G inputIndex outputIndex =
     andThen (lift_res (gc_proof G proofQuery inputIndex outputIndex)) (\<lambda>theProof. ret theProof)"

definition convertReport :: "report_node \<Rightarrow> gql_Report" where
  "convertReport node = \<lparr>gr_Index = rn_Index node, gr_InputIndex = rn_InputIndex node,
     gr_Payload = rn_Blob node\<rparr>"

definition V2_GetReport :: "graphile \<Rightarrow> int \<Rightarrow> int \<Rightarrow> (db, gql_Report option) comp" where
  "V2_GetReport G reportIndex inputIndex =
     (let requestBody = Sprintf reportByIdBody [itoa reportIndex, itoa inputIndex]
      in andThen (lift_res (gc_reports G requestBody)) (\<lambda>edges.
         if length edges > 0 then ret (Some (convertReport (edges ! 0))) else ret None))"

definition V2_convertToReport :: "ethlib \<Rightarrow> Report \<Rightarrow> gql_Report" where
  "V2_convertToReport E report = \<lparr>gr_Index = rp_Index report, gr_InputIndex = rp_InputIndex report,
     gr_Payload = ''0x'' @ Bytes2Hex E (rp_Payload report)\<rparr>"

definition V2_convertToReportConnection ::
  "ethlib \<Rightarrow> Report list \<Rightarrow> int \<Rightarrow> int \<Rightarrow> gql_Report Connection" where
  "V2_convertToReportConnection E reports offset tot =
     NewConnection offset tot (map (V2_convertToReport E) reports)"

definition V2_GetReports ::
  "ethlib \<Rightarrow> int option \<Rightarrow> int option \<Rightarrow> string option \<Rightarrow> string option \<Rightarrow> int option \<Rightarrow>
   (db, gql_Report Connection) comp" where
  "V2_GetReports E first lastN after before inputIndex =
     andThen (ConvenienceService_FindAllByInputIndex E first lastN after before inputIndex) (\<lambda>reports.
     ret (V2_convertToReportConnection E (Rows reports) (sint (Offset reports)) (sint (Total reports))))"

definition V2_GetInputs ::
  "ethlib \<Rightarrow> int option \<Rightarrow> int option \<Rightarrow> string option \<Rightarrow> string option \<Rightarrow> gql_InputFilter option \<Rightarrow>
   (db, gql_Input Connection) comp" where
  "V2_GetInputs E first lastN after before where' =
     (let filters = []
      in andThen (ConvenienceService_FindAllInputs E first lastN after before filters) (\<lambda>inputs.
         lift_res (ConvertToInputConnectionV1 E (Rows inputs) (sint (Offset inputs)) (sint (Total inputs)))))"

definition V2_convertCompletionStatus :: "AdvanceInput \<Rightarrow> string" where
  "V2_convertCompletionStatus input =
     (if ai_Status input = CompletionStatusUnprocessed then gql_Unprocessed
      else if ai_Status input = CompletionStatusAccepted then gql_Accepted
      else if ai_Status input = CompletionStatusRejected then gql_Rejected
      else if ai_Status input = CompletionStatusException then gql_Rejected
      else gql_Unprocessed)"

definition V2_GetInput :: "ethlib \<Rightarrow> int \<Rightarrow> (db, gql_Input) comp" where
  "V2_GetInput E index =
     andThen (ConvenienceService_FindInputByIndex E index) (\<lambda>input. case input of
          None \<Rightarrow> fail (EMsg ''input not found'')
        | Some input \<Rightarrow> ret \<lparr>gi_Index = ai_Index input,
            gi_Status = V2_convertCompletionStatus input,
            gi_MsgSender = addr_Hex E (ai_MsgSender input),
            gi_Timestamp = itoa (Unix_of (ai_BlockTimestamp input)),
            gi_BlockNumber = itoa (uint (ai_BlockNumber input)),
            gi_Payload = string_of_bytes (ai_Payload input)\<rparr>)"

definition V2_GetNotice :: "ethlib \<Rightarrow> int \<Rightarrow> int \<Rightarrow> (db, gql_Notice) comp" where
  "V2_GetNotice E noticeIndex inputIndex =
     andThen (ConvenienceService_FindNoticeByInputAndOutputIndex E (of_int inputIndex) (of_int noticeIndex))
       (\<lambda>notice. case notice of
          None \<Rightarrow> fail (EMsg ''notice not found'')
        | Some notice \<Rightarrow> ret \<lparr>gn_Index = noticeIndex, gn_InputIndex = inputIndex,
            gn_Payload = cn_Payload notice\<rparr>)"

definition V2_GetNotices ::
  "ethlib \<Rightarrow> int option \<Rightarrow> int option \<Rightarrow> string option \<Rightarrow> string option \<Rightarrow> int option \<Rightarrow>
   (db, gql_Notice Connection) comp" where
  "V2_GetNotices E first lastN after before inputIndex =
     (let filters = index_filter inputIndex
      in andThen (ConvenienceService_FindAllNotices E first lastN after before filters) (\<lambda>notices.
         ret (ConvertToNoticeConnectionV1 (Rows notices) (sint (Offset notices)) (sint (Total notices)))))"

definition V2_GetVoucher :: "ethlib \<Rightarrow> int \<Rightarrow> int \<Rightarrow> (db, gql_Voucher) comp" where
  "V2_GetVoucher E voucherIndex inputIndex =
     andThen (ConvenienceService_FindVoucherByInputAndOutputIndex E (of_int inputIndex) (of_int voucherIndex))
       (\<lambda>voucher. case voucher of
          None \<Rightarrow> fail (EMsg ''voucher not found'')
        | Some voucher \<Rightarrow> ret \<lparr>gv_Index = voucherIndex, gv_InputIndex = sint (cv_InputIndex voucher),
            gv_Destination = addr_Hex E (cv_Destination voucher), gv_Payload = cv_Payload voucher,
            gv_Executed = False\<rparr>)"

definition V2_GetVouchers ::
  "ethlib \<Rightarrow> int option \<Rightarrow> int option \<Rightarrow> string option \<Rightarrow> string option \<Rightarrow> int option \<Rightarrow>
   (db, gql_Voucher Connection) comp" where
  "V2_GetVouchers E first lastN after before inputIndex =
     (let filters = index_filter inputIndex
      in andThen (ConvenienceService_FindAllVouchers E first lastN after before filters) (\<lambda>vouchers.
         ret (ConvertToVoucherConnectionV1 E (Rows vouchers) (sint (Offset vouchers)) (sint (Total vouchers)))))"

definition NewAdapterV2 :: "ethlib \<Rightarrow> graphile \<Rightarrow> Adapter" where
  "NewAdapterV2 E G = \<lparr>ad_GetReport = V2_GetReport G, ad_GetReports = V2_GetReports E,
     ad_GetInputs = V2_GetInputs E, ad_GetInput = V2_GetInput E, ad_GetNotice = V2_GetNotice E,
     ad_GetNotices = V2_GetNotices E, ad_GetVoucher = V2_GetVoucher E,
     ad_GetVouchers = V2_GetVouchers E, ad_GetProof = V2_GetProof G\<rparr>"

section \<open>The resolvers\<close>

definition inputResolver_Voucher :: "Adapter \<Rightarrow> gql_Input \<Rightarrow> int \<Rightarrow> (db, gql_Voucher) comp" where
  "inputResolver_Voucher r obj index = ad_GetVoucher r index (gi_Index obj)"

definition inputResolver_Notice :: "Adapter \<Rightarrow> gql_Input \<Rightarrow> int \<Rightarrow> (db, gql_Notice) comp" where
  "inputResolver_Notice r obj index = ad_GetNotice r index (gi_Index obj)"

definition inputResolver_Report :: "Adapter \<Rightarrow> gql_Input \<Rightarrow> int \<Rightarrow> (db, gql_Report option) comp" where
  "inputResolver_Report r obj index = ad_GetReport r index (gi_Index obj)"

definition inputResolver_Vouchers ::
  "Adapter \<Rightarrow> gql_Input \<Rightarrow> int option \<Rightarrow> int option \<Rightarrow> string option \<Rightarrow> string option \<Rightarrow>
   (db, gql_Voucher Connection) comp" where
  "inputResolver_Vouchers r obj first lastN after before =
     ad_GetVouchers r first lastN after before (Some (gi_Index obj))"

definition inputResolver_Notices ::
  "Adapter \<Rightarrow> gql_Input \<Rightarrow> int option \<Rightarrow> int option \<Rightarrow> string option \<Rightarrow> string option \<Rightarrow>
   (db, gql_Notice Connection) comp" where
  "inputResolver_Notices r obj first lastN after before =
     ad_GetNotices r first lastN after before (Some (gi_Index obj))"

definition inputResolver_Reports ::
  "Adapter \<Rightarrow> gql_Input \<Rightarrow> int option \<Rightarrow> int option \<Rightarrow> string option \<Rightarrow> string option \<Rightarrow>
   (db, gql_Report Connection) comp" where
  "inputResolver_Reports r obj first lastN after before =
     ad_GetReports r first lastN after before (Some (gi_Index obj))"

definition noticeResolver_Input :: "Adapter \<Rightarrow> gql_Notice \<Rightarrow> (db, gql_Input) comp" where
  "noticeResolver_Input r obj = ad_GetInput r (gn_InputIndex obj)"

definition noticeResolver_Proof :: "Adapter \<Rightarrow> gql_Notice \<Rightarrow> (db, gql_Proof) comp" where
  "noticeResolver_Proof r obj = ad_GetProof r (gn_InputIndex obj) (gn_Index obj)"

definition queryResolver_Input :: "Adapter \<Rightarrow> int \<Rightarrow> (db, gql_Input) comp" where
  "queryResolver_Input r index = ad_GetInput r index"

definition queryResolver_Voucher :: "Adapter \<Rightarrow> int \<Rightarrow> int \<Rightarrow> (db, gql_Voucher) comp" where
  "queryResolver_Voucher r voucherIndex inputIndex = ad_GetVoucher r voucherIndex inputIndex"

definition queryResolver_Notice :: "Adapter \<Rightarrow> int \<Rightarrow> int \<Rightarrow> (db, gql_Notice) comp" where
  "queryResolver_Notice r noticeIndex inputIndex = ad_GetNotice r noticeIndex inputIndex"

definition queryResolver_Report :: "Adapter \<Rightarrow> int \<Rightarrow> int \<Rightarrow> (db, gql_Report option) comp" where
  "queryResolver_Report r reportIndex inputIndex = ad_GetReport r reportIndex inputIndex"

definition queryResolver_Inputs ::
  "Adapter \<Rightarrow> int option \<Rightarrow> int option \<Rightarrow> string option \<Rightarrow> string option \<Rightarrow> gql_InputFilter option \<Rightarrow>
   (db, gql_Input Connection) comp" where
  "queryResolver_Inputs r first lastN after before where' =
     ad_GetInputs r first lastN after before where'"

definition queryResolver_Vouchers ::
  "ethlib \<Rightarrow> int option \<Rightarrow> int option \<Rightarrow> string option \<Rightarrow> string option \<Rightarrow> ConvenientFilter list \<Rightarrow>
   (db, gql_Voucher Connection) comp" where
  "queryResolver_Vouchers E first lastN after before filter' =
     andThen (lift_res (ConvertToConvenienceFilter filter')) (\<lambda>convenienceFilter.
     andThen (ConvenienceService_FindAllVouchers E first lastN after before convenienceFilter) (\<lambda>vouchers.
     ret (ConvertToVoucherConnectionV1 E (Rows vouchers) (sint (Offset vouchers)) (sint (Total vouchers)))))"

definition queryResolver_Notices ::
  "Adapter \<Rightarrow> int option \<Rightarrow> int option \<Rightarrow> string option \<Rightarrow> string option \<Rightarrow>
   (db, gql_Notice Connection) comp" where
  "queryResolver_Notices r first lastN after before = ad_GetNotices r first lastN after before None"

definition queryResolver_Reports ::
  "Adapter \<Rightarrow> int option \<Rightarrow> int option \<Rightarrow> string option \<Rightarrow> string option \<Rightarrow>
   (db, gql_Report Connection) comp" where
  "queryResolver_Reports r first lastN after before = ad_GetReports r first lastN after before None"

definition reportResolver_Input :: "Adapter \<Rightarrow> gql_Report \<Rightarrow> (db, gql_Input) comp" where
  "reportResolver_Input r obj = ad_GetInput r (gr_InputIndex obj)"

definition voucherResolver_Input :: "Adapter \<Rightarrow> gql_Voucher \<Rightarrow> (db, gql_Input) comp" where
  "voucherResolver_Input r obj = ad_GetInput r (gv_InputIndex obj)"

definition voucherResolver_Proof :: "Adapter \<Rightarrow> gql_Voucher \<Rightarrow> (db, gql_Proof) comp" where
  "voucherResolver_Proof r obj = ad_GetProof r (gv_InputIndex obj) (gv_Index obj)"

section \<open>What the adapters read\<close>

text \<open>The rows of an input, or all rows, in the order of their indices.\<close>

definition vouchers_of :: "int option \<Rightarrow> ConvenienceVoucher list \<Rightarrow> ConvenienceVoucher list" where
  "vouchers_of idx vs = sort_key (\<lambda>v. (uint (cv_InputIndex v), uint (cv_OutputIndex v)))
     (filter (\<lambda>v. idx = None \<or> idx = Some (uint (cv_InputIndex v))) vs)"

definition notices_of :: "int option \<Rightarrow> ConvenienceNotice list \<Rightarrow> ConvenienceNotice list" where
  "notices_of idx ns = sort_key (\<lambda>v. (uint (cn_InputIndex v), uint (cn_OutputIndex v)))
     (filter (\<lambda>v. idx = None \<or> idx = Some (uint (cn_InputIndex v))) ns)"

definition reports_of :: "int option \<Rightarrow> Report list \<Rightarrow> Report list" where
  "reports_of idx rs = sort_key (\<lambda>v. (rp_InputIndex v, rp_Index v))
     (filter (\<lambda>v. idx = None \<or> idx = Some (rp_InputIndex v)) rs)"

text \<open>A page as the connection that GraphQL answers with.\<close>

definition page_connection :: "('r \<Rightarrow> 'n) \<Rightarrow> 'r PageResult \<Rightarrow> 'n Connection" where
  "page_connection f p = NewConnection (sint (Offset p)) (sint (Total p)) (map f (Rows p))"

definition nodes :: "'n Connection \<Rightarrow> 'n list" where
  "nodes c = map Node (Edges c)"

lemma nodes_page [simp]: "nodes (page_connection f p) = map f (Rows p)"
  by (simp add: nodes_def page_connection_def NewConnection_nodes)

text \<open>The loop of a client that follows the end cursors.\<close>

fun connection_walk ::
  "nat \<Rightarrow> (string option \<Rightarrow> 'n Connection res) \<Rightarrow> string option \<Rightarrow> 'n list option" where
  "connection_walk 0 get after = None"
| "connection_walk (Suc fuel) get after =
     (case get after of
        Inl e \<Rightarrow> None
      | Inr c \<Rightarrow>
          let info = Connection_PageInfo c
          in if HasNextPage info
             then map_option (\<lambda>ns. nodes c @ ns) (connection_walk fuel get (EndCursor info))
             else Some (nodes c))"

lemma page_info_map: "Connection_PageInfo (NewConnection o' t (map f xs)) = Connection_PageInfo (NewConnection o' t xs)"
  by (cases xs) (simp_all add: NewConnection_info NewConnection_info_Nil)

lemma connection_walk_pages:
  "connection_walk fuel (\<lambda>after. rbind (page after) (\<lambda>p. Inr (page_connection f p))) after =
     map_option (map f) (forward_walk fuel page after)"
  by (induction fuel arbitrary: after)
    (auto simp: page_connection_def connection_of_def page_info_map Let_def nodes_def NewConnection_nodes
      option.map_comp comp_def split: sum.splits)

lemma connection_walk_all:
  assumes "0 < k" and "length rows < 2 ^ 63"
  shows "connection_walk (Suc (length rows))
    (\<lambda>after. rbind (page_of (Some k) None after None rows) (\<lambda>p. Inr (page_connection f p))) None =
    Some (map f rows)"
  unfolding connection_walk_pages forward_walk_all [OF assms] by simp

lemma page_of_subset: "page_of first lastN after before rows = Inr p \<Longrightarrow> set (Rows p) \<subseteq> set rows"
  by (auto dest!: page_of_rows in_set_takeD in_set_dropD)

lemma find_key: "x \<in> set xs \<Longrightarrow> distinct (map key xs) \<Longrightarrow> find (\<lambda>y. key y = key x) xs = Some x"
  by (induction xs) auto

lemma set_outputs_of [simp]:
  "v \<in> set (vouchers_of idx vs) \<longleftrightarrow> v \<in> set vs \<and> (idx = None \<or> idx = Some (uint (cv_InputIndex v)))"
  "w \<in> set (notices_of idx ns) \<longleftrightarrow> w \<in> set ns \<and> (idx = None \<or> idx = Some (uint (cn_InputIndex w)))"
  "r \<in> set (reports_of idx rs) \<longleftrightarrow> r \<in> set rs \<and> (idx = None \<or> idx = Some (rp_InputIndex r))"
  by (auto simp: vouchers_of_def notices_of_def reports_of_def)

lemma length_outputs_of:
  "length (vouchers_of idx vs) \<le> length vs"
  "length (notices_of idx ns) \<le> length ns"
  "length (reports_of idx rs) \<le> length rs"
  by (simp_all add: vouchers_of_def notices_of_def reports_of_def)

lemma field_names [simp]:
  "INPUT_INDEX \<noteq> EXECUTED" "INPUT_INDEX \<noteq> DESTINATION" "DESTINATION \<noteq> EXECUTED"
  by (simp_all add: INPUT_INDEX_def EXECUTED_def DESTINATION_def)

lemma index_filter_voucher: "voucher_query E (index_filter idx) vs = Inr (vouchers_of idx vs)"
  by (cases idx)
    (simp_all add: voucher_query_def index_filter_def vouchers_of_def filter_Eq_def voucher_acond_def
      voucher_sat_def deref_def)

lemma index_filter_notice: "notice_query (index_filter idx) ns = Inr (notices_of idx ns)"
  by (cases idx)
    (simp_all add: notice_query_def index_filter_def notices_of_def filter_Eq_def notice_acond_def
      notice_sat_def deref_def)

locale output_reader =
  fixes A :: Adapter and E :: ethlib
  assumes get_vouchers: "vouchers_in E vs d \<Longrightarrow> ad_GetVouchers A first lastN after before idx d =
      (rbind (page_of first lastN after before (vouchers_of idx vs))
         (\<lambda>p. Inr (page_connection (convertConvenientVoucherV1 E) p)), d)"
    and get_voucher: "vouchers_in E vs d \<Longrightarrow> unat i < 2 ^ 63 \<Longrightarrow> unat o' < 2 ^ 63 \<Longrightarrow>
      ad_GetVoucher A (sint o') (sint i) d =
      (case find (\<lambda>v. voucher_key v = (i, o')) vs of None \<Rightarrow> Inl (EMsg ''voucher not found'')
       | Some v \<Rightarrow> Inr (convertConvenientVoucherV1 E v), d)"
    and get_notices: "notices_in E ns d \<Longrightarrow> ad_GetNotices A first lastN after before idx d =
      (rbind (page_of first lastN after before (notices_of idx ns))
         (\<lambda>p. Inr (page_connection convertConvenientNoticeV1 p)), d)"
    and get_notice: "notices_in E ns d \<Longrightarrow> unat i < 2 ^ 63 \<Longrightarrow> unat o' < 2 ^ 63 \<Longrightarrow>
      ad_GetNotice A (sint o') (sint i) d =
      (case find (\<lambda>v. notice_key v = (i, o')) ns of None \<Rightarrow> Inl (EMsg ''notice not found'')
       | Some v \<Rightarrow> Inr (convertConvenientNoticeV1 v), d)"
    and get_reports: "reports_in E rs d \<Longrightarrow> ad_GetReports A first lastN after before idx d =
      (rbind (page_of first lastN after before (reports_of idx rs))
         (\<lambda>p. Inr (page_connection (V1_convertToReport E) p)), d)"
begin

text \<open>The outputs listed under an input are that input's.\<close>

lemma input_vouchers:
  assumes "vouchers_in E vs d" and "list_all voucher_small vs"
    and "fst (inputResolver_Vouchers A obj first lastN after before d) = Inr c" and "n \<in> set (nodes c)"
  shows "gv_InputIndex n = gi_Index obj"
proof -
  from assms(1,3) obtain p where p: "page_of first lastN after before (vouchers_of (Some (gi_Index obj)) vs) = Inr p"
    and c: "c = page_connection (convertConvenientVoucherV1 E) p"
    by (auto simp: inputResolver_Vouchers_def get_vouchers rbind_Inr_iff)
  from assms(4) c obtain v where v: "v \<in> set (Rows p)" "n = convertConvenientVoucherV1 E v" by auto
  from page_of_subset [OF p] v(1) have "v \<in> set vs" "uint (cv_InputIndex v) = gi_Index obj" by auto
  with assms(2) v(2) show ?thesis
    using small_index [of "cv_InputIndex v"]
    by (simp add: list_all_iff voucher_small_def convertConvenientVoucherV1_def)
qed

text \<open>Every voucher of a list is found again under the indices it shows.\<close>

lemma listed_voucher_found:
  assumes "vouchers_in E vs d" and "list_all voucher_small vs" and "distinct (map voucher_key vs)"
    and "fst (ad_GetVouchers A first lastN after before idx d) = Inr c" and "n \<in> set (nodes c)"
  shows "ad_GetVoucher A (gv_Index n) (gv_InputIndex n) d = (Inr n, d)"
proof -
  from assms(1,4) obtain p where p: "page_of first lastN after before (vouchers_of idx vs) = Inr p"
    and c: "c = page_connection (convertConvenientVoucherV1 E) p"
    by (auto simp: get_vouchers rbind_Inr_iff)
  from assms(5) c obtain v where v: "v \<in> set (Rows p)" "n = convertConvenientVoucherV1 E v" by auto
  from page_of_subset [OF p] v(1) have vs: "v \<in> set vs" by auto
  then have "find (\<lambda>x. voucher_key x = voucher_key v) vs = Some v"
    using assms(3) by (rule find_key)
  then show ?thesis using assms(2) vs get_voucher [OF assms(1), of "cv_InputIndex v" "cv_OutputIndex v"]
    by (simp add: v(2) list_all_iff voucher_small_def convertConvenientVoucherV1_def voucher_key_def)
qed

text \<open>A client that follows the end cursors lists every voucher of the input once, in order.\<close>

lemma voucher_walk:
  assumes "vouchers_in E vs d" and "0 < k"
  shows "connection_walk (Suc (length (vouchers_of idx vs)))
    (\<lambda>after. fst (ad_GetVouchers A (Some k) None after None idx d)) None =
    Some (map (convertConvenientVoucherV1 E) (vouchers_of idx vs))"
proof -
  have "length (vouchers_of idx vs) < 2 ^ 63"
    using assms(1) le_less_trans [OF length_outputs_of(1)] unfolding vouchers_in_def by blast
  from connection_walk_all [OF assms(2) this] assms(1) show ?thesis by (simp add: get_vouchers)
qed

lemma notice_walk:
  assumes "notices_in E ns d" and "0 < k"
  shows "connection_walk (Suc (length (notices_of idx ns)))
    (\<lambda>after. fst (ad_GetNotices A (Some k) None after None idx d)) None =
    Some (map convertConvenientNoticeV1 (notices_of idx ns))"
proof -
  have "length (notices_of idx ns) < 2 ^ 63"
    using assms(1) le_less_trans [OF length_outputs_of(2)] unfolding notices_in_def by blast
  from connection_walk_all [OF assms(2) this] assms(1) show ?thesis by (simp add: get_notices)
qed

lemma report_walk:
  assumes "reports_in E rs d" and "0 < k"
  shows "connection_walk (Suc (length (reports_of idx rs)))
    (\<lambda>after. fst (ad_GetReports A (Some k) None after None idx d)) None =
    Some (map (V1_convertToReport E) (reports_of idx rs))"
proof -
  have "length (reports_of idx rs) < 2 ^ 63"
    using assms(1) le_less_trans [OF length_outputs_of(3)] unfolding reports_in_def by blast
  from connection_walk_all [OF assms(2) this] assms(1) show ?thesis by (simp add: get_reports)
qed

end

lemma AdapterV1_reader:
  "vouchers_in E vs d \<Longrightarrow> V1_GetVouchers E first lastN after before idx d =
     (rbind (page_of first lastN after before (vouchers_of idx vs))
        (\<lambda>p. Inr (page_connection (convertConvenientVoucherV1 E) p)), d)"
  "vouchers_in E vs d \<Longrightarrow> unat i < 2 ^ 63 \<Longrightarrow> unat o' < 2 ^ 63 \<Longrightarrow>
   V1_GetVoucher E (sint o') (sint i) d =
     (case find (\<lambda>v. voucher_key v = (i, o')) vs of None \<Rightarrow> Inl (EMsg ''voucher not found'')
      | Some v \<Rightarrow> Inr (convertConvenientVoucherV1 E v), d)"
  "notices_in E ns d \<Longrightarrow> V1_GetNotices E first lastN after before idx d =
     (rbind (page_of first lastN after before (notices_of idx ns))
        (\<lambda>p. Inr (page_connection convertConvenientNoticeV1 p)), d)"
  "notices_in E ns d \<Longrightarrow> unat i < 2 ^ 63 \<Longrightarrow> unat o' < 2 ^ 63 \<Longrightarrow>
   V1_GetNotice E (sint o') (sint i) d =
     (case find (\<lambda>v. notice_key v = (i, o')) ns of None \<Rightarrow> Inl (EMsg ''notice not found'')
      | Some v \<Rightarrow> Inr (convertConvenientNoticeV1 v), d)"
  "reports_in E rs d \<Longrightarrow> V1_GetReports E first lastN after before idx d =
     (rbind (page_of first lastN after before (reports_of idx rs))
        (\<lambda>p. Inr (page_connection (V1_convertToReport E) p)), d)"
proof -
  show "vouchers_in E vs d \<Longrightarrow> V1_GetVouchers E first lastN after before idx d =
     (rbind (page_of first lastN after before (vouchers_of idx vs))
        (\<lambda>p. Inr (page_connection (convertConvenientVoucherV1 E) p)), d)"
    by (cases "page_of first lastN after before (vouchers_of idx vs)")
      (simp_all add: V1_GetVouchers_def ConvenienceService_FindAllVouchers_def FindAllVouchers_ok
        index_filter_voucher andThen_apply ConvertToVoucherConnectionV1_def page_connection_def)
  show "notices_in E ns d \<Longrightarrow> V1_GetNotices E first lastN after before idx d =
     (rbind (page_of first lastN after before (notices_of idx ns))
        (\<lambda>p. Inr (page_connection convertConvenientNoticeV1 p)), d)"
    by (cases "page_of first lastN after before (notices_of idx ns)")
      (simp_all add: V1_GetNotices_def ConvenienceService_FindAllNotices_def FindAllNotices_ok
        index_filter_notice andThen_apply ConvertToNoticeConnectionV1_def page_connection_def)
  show "reports_in E rs d \<Longrightarrow> V1_GetReports E first lastN after before idx d =
     (rbind (page_of first lastN after before (reports_of idx rs))
        (\<lambda>p. Inr (page_connection (V1_convertToReport E) p)), d)"
    by (cases "page_of first lastN after before (reports_of idx rs)")
      (simp_all add: V1_GetReports_def FindAllByInputIndex_ok reports_of_def andThen_apply
        V1_convertToReportConnection_def page_connection_def)
  show "vouchers_in E vs d \<Longrightarrow> unat i < 2 ^ 63 \<Longrightarrow> unat o' < 2 ^ 63 \<Longrightarrow>
     V1_GetVoucher E (sint o') (sint i) d =
     (case find (\<lambda>v. voucher_key v = (i, o')) vs of None \<Rightarrow> Inl (EMsg ''voucher not found'')
      | Some v \<Rightarrow> Inr (convertConvenientVoucherV1 E v), d)"
  proof (cases "find (\<lambda>v. voucher_key v = (i, o')) vs")
    case (Some v)
    then have "voucher_key v = (i, o')" by (auto simp: find_Some_iff)
    then show ?thesis if "vouchers_in E vs d" "unat i < 2 ^ 63" "unat o' < 2 ^ 63"
      using that Some by (auto simp: V1_GetVoucher_def ConvenienceService_FindVoucherByInputAndOutputIndex_def
        FindVoucherByInputAndOutputIndex_ok andThen_apply convertConvenientVoucherV1_def voucher_key_def)
  qed (simp add: V1_GetVoucher_def ConvenienceService_FindVoucherByInputAndOutputIndex_def
      FindVoucherByInputAndOutputIndex_ok andThen_apply)
  show "notices_in E ns d \<Longrightarrow> unat i < 2 ^ 63 \<Longrightarrow> unat o' < 2 ^ 63 \<Longrightarrow>
     V1_GetNotice E (sint o') (sint i) d =
     (case find (\<lambda>v. notice_key v = (i, o')) ns of None \<Rightarrow> Inl (EMsg ''notice not found'')
      | Some v \<Rightarrow> Inr (convertConvenientNoticeV1 v), d)"
  proof (cases "find (\<lambda>v. notice_key v = (i, o')) ns")
    case (Some v)
    then have "notice_key v = (i, o')" by (auto simp: find_Some_iff)
    then show ?thesis if "notices_in E ns d" "unat i < 2 ^ 63" "unat o' < 2 ^ 63"
      using that Some by (auto simp: V1_GetNotice_def ConvenienceService_FindNoticeByInputAndOutputIndex_def
        FindNoticeByInputAndOutputIndex_ok andThen_apply convertConvenientNoticeV1_def notice_key_def)
  qed (simp add: V1_GetNotice_def ConvenienceService_FindNoticeByInputAndOutputIndex_def
      FindNoticeByInputAndOutputIndex_ok andThen_apply)
qed

text \<open>The second adapter reads the outputs in the same way as the first.\<close>

lemma V2_same_reads:
  "V2_GetVouchers = V1_GetVouchers" "V2_GetVoucher = V1_GetVoucher" "V2_GetNotices = V1_GetNotices"
  "V2_GetNotice = V1_GetNotice" "V2_GetReports = V1_GetReports"
  by (intro ext, simp add: V2_GetVouchers_def V1_GetVouchers_def V2_GetVoucher_def V1_GetVoucher_def
      V2_GetNotices_def V1_GetNotices_def V2_GetNotice_def V1_GetNotice_def V2_GetReports_def
      V1_GetReports_def ConvenienceService_FindAllByInputIndex_def V2_convertToReportConnection_def
      V1_convertToReportConnection_def V2_convertToReport_def [abs_def] V1_convertToReport_def [abs_def])+

interpretation adapter_v1: output_reader "AdapterV1 E" E for E
  by unfold_locales (simp_all add: AdapterV1_def AdapterV1_reader)

interpretation adapter_v2: output_reader "NewAdapterV2 E G" E for E G
  by unfold_locales (simp_all add: NewAdapterV2_def V2_same_reads AdapterV1_reader)

section \<open>Filters and statuses\<close>

lemma Convert_total: "\<exists>fs'. ConvertToConvenienceFilter fs = Inr fs'"
  by (induction fs rule: ConvertToConvenienceFilter.induct)
    (fastforce split: option.splits AddressFilterInput.splits BooleanFilterInput.splits)+

text \<open>
  The filters of a conjunction end up in the fields that no repository reads: the conditions are
  the destination and executed comparisons of the outermost level.
\<close>

definition outer_filters :: "ConvenientFilter \<Rightarrow> (string \<times> string option) list" where
  "outer_filters f =
     (case gf_Destination f of None \<Rightarrow> [] | Some d \<Rightarrow> [(DESTINATION, af_Eq d)]) @
     (case gf_Executed f of None \<Rightarrow> [] | Some b \<Rightarrow> [(EXECUTED, Some (flag_text (bf_Eq b)))])"

lemma Convert_outer:
  assumes "ConvertToConvenienceFilter fs = Inr fs'"
  shows "map (\<lambda>f. (cf_Field f, cf_Eq f)) fs' = map (\<lambda>(n, e). (Some n, e)) (concat (map outer_filters fs))"
  using assms
proof (induction fs arbitrary: fs')
  case Nil
  then show ?case by simp
next
  case (Cons f fs)
  obtain dest exec ands ors where f: "f = ConvenientFilter dest exec ands ors" by (cases f)
  have d: "dest = None \<or> (\<exists>eq ne i n a o'. dest = Some (AddressFilterInput eq ne i n a o'))"
    by (metis AddressFilterInput.exhaust option.exhaust)
  have e: "exec = None \<or> (\<exists>eq ne a o'. exec = Some (BooleanFilterInput eq ne a o'))"
    by (metis BooleanFilterInput.exhaust option.exhaust)
  from d e Cons.prems Cons.IH show ?case
    by (elim disjE exE) (auto simp: f rbind_Inr_iff outer_filters_def DESTINATION_def EXECUTED_def)
qed

text \<open>What the voucher repository makes of a filter depends on its field and its \<open>Eq\<close> only.\<close>

lemma voucher_acond_fields:
  "voucher_acond E f = voucher_acond E (ConvenienceFilter (cf_Field f) (cf_Eq f) None None None None None [] [] [] [])"
  by (simp add: voucher_acond_def cong: if_cong)

lemma voucher_sat_fields:
  "voucher_sat E f = voucher_sat E (ConvenienceFilter (cf_Field f) (cf_Eq f) None None None None None [] [] [] [])"
  by (rule ext) (simp add: voucher_sat_def cong: if_cong)
end
