(* ===== verification/GraphileRun.thy ===== *)
theory GraphileRun
  imports GraphileSync
begin

text \<open>
  The polling loop as a whole: on a database that answers, every round keeps the log and the
  cursors in step, so that a restart resumes where the loop stopped; and what a failing commit
  does to a batch.
\<close>

section \<open>A database without faults\<close>

definition fault_free :: "db \<Rightarrow> db \<Rightarrow> bool" where
  "fault_free d d' \<longleftrightarrow> (db_faults d = [] \<longrightarrow> db_faults d' = [])"

lemma fault_free_refl [simp]: "reflp fault_free"
  by (auto simp: reflp_def fault_free_def)

lemma fault_free_trans [simp]: "transp fault_free"
  by (rule transpI) (auto simp: fault_free_def)

lemma pop_fault_free: "db_faults d = [] \<Longrightarrow> pop_fault d = (None, d)"
  by (simp add: pop_fault_def)

interpretation fault_tx: table_frame fault_free WithTx t for t
proof
  show "keeps fault_free (db_Query q args)" for q args
    by (auto simp: keeps_def fault_free_def db_Query_state pop_fault_free)
  show "keeps fault_free (DBExecutor_ExecContext WithTx q args)" for q args
    by (auto simp: keeps_def fault_free_def DBExecutor_ExecContext_def GetTransaction_def tx_Exec_def
        pop_fault_free split: option.splits sum.splits)
qed simp_all

definition sync_fault_free :: "sync_state \<Rightarrow> sync_state \<Rightarrow> bool" where
  "sync_fault_free s s' \<longleftrightarrow> fault_free (sy_db s) (sy_db s')"

lemma sync_fault_free_refl [simp]: "reflp sync_fault_free"
  by (auto simp: reflp_def sync_fault_free_def fault_free_def)

lemma sync_fault_free_trans [simp]: "transp sync_fault_free"
  by (rule transpI) (auto simp: sync_fault_free_def fault_free_def)

lemma sync_fault_on_db: "keeps fault_free m \<Longrightarrow> keeps sync_fault_free (on_db m)"
  by (auto simp: keeps_def on_db_def sync_fault_free_def split: prod.splits) (metis snd_conv)

lemma keeps_if: "(b \<Longrightarrow> keeps R m) \<Longrightarrow> (\<not> b \<Longrightarrow> keeps R n) \<Longrightarrow> keeps R (if b then m else n)"
  by simp

lemma SynchronizerCreate_fault_free: "keeps fault_free (SynchronizerRepository_Create WithTx f)"
  by (auto simp: keeps_def fault_free_def SynchronizerRepository_Create_def andThen_apply
      DBExecutor_ExecContext_def GetTransaction_def tx_Exec_def pop_fault_free Let_def
      split: option.splits sum.splits)

lemma record_batch_fault_free: "keeps sync_fault_free (record_batch now WithTx resp)"
  unfolding keeps_def
proof
  fix s :: sync_state
  obtain r d' where c: "SynchronizerRepository_Create WithTx
      (synchronizeFetch now (sy_fetcher s) resp) (sy_db s) = (r, d')" by fastforce
  from keepsD [OF SynchronizerCreate_fault_free c]
  show "sync_fault_free s (snd (record_batch now WithTx resp s))"
    using c by (cases r) (auto simp: record_batch_def Let_def andThen_apply wrapErr_apply on_db_def
        sync_fault_free_def fault_free_def)
qed

section \<open>The rounds\<close>

text \<open>Log and cursors in step.\<close>

definition in_step :: "SynchronizerFetch list \<Rightarrow> sync_state \<Rightarrow> bool" where
  "in_step fs s \<longleftrightarrow> fetches_in fs (sy_db s) \<and> logged fs (sy_fetcher s)"

text \<open>The decoder of the synchronizer, which moreover adds no fault.\<close>

locale sync_decoder_quiet = sync_decoder +
  assumes output_quiet: "keeps fault_free (dc_HandleOutputV2 D WithTx p)"
    and input_quiet: "keeps fault_free (dc_HandleInput D WithTx i st)"
    and report_quiet: "keeps fault_free (dc_HandleReport D WithTx k n payload)"
begin

lemmas quiet_steps = keeps_forEach [OF sync_fault_free_refl sync_fault_free_trans]
  keeps_andThen [OF sync_fault_free_trans] keeps_wrapErr
  output_quiet [THEN sync_fault_on_db] input_quiet [THEN sync_fault_on_db]
  report_quiet [THEN sync_fault_on_db] record_batch_fault_free

lemma handler_quiet: "keeps sync_fault_free (handleGraphileResponse D now WithTx resp)"
  unfolding handleGraphileResponse_split batch_loops_def by (intro quiet_steps)

text \<open>Without faults a transaction commits, or leaves the committed tables and the cursors.\<close>

lemma transaction_quiet:
  assumes "handleWithDBTransaction D now resp s = (r, s')" and "db_faults (sy_db s) = []"
  shows "db_faults (sy_db s') = [] \<and>
    ((\<exists>x. r = Inr x) \<or> db_committed (sy_db s') = db_committed (sy_db s) \<and> sy_fetcher s' = sy_fetcher s)"
proof -
  let ?s1 = "s\<lparr>sy_db := (sy_db s)\<lparr>db_pending := Some (db_committed (sy_db s))\<rparr>\<rparr>"
  have b: "on_db (StartTransaction NoTx) s = (Inr WithTx, ?s1)"
    using assms(2) by (simp add: on_db_def StartTransaction_def andThen_apply wrapErr_apply db_Begin_def pop_fault_free)
  obtain r2 s2 where h: "handleGraphileResponse D now WithTx resp ?s1 = (r2, s2)" by fastforce
  note any = batch_any [OF h]
  from keepsD [OF handler_quiet h] assms(2) have f: "db_faults (sy_db s2) = []"
    by (simp add: sync_fault_free_def fault_free_def)
  show ?thesis
  proof (cases r2)
    case (Inl e)
    have rb: "snd (callRollback s2) = s2\<lparr>sy_db := (sy_db s2)\<lparr>db_pending := None\<rparr>\<rparr>"
      using any by (auto simp: callRollback_def on_db_def tx_Rollback_def split: option.splits)
    have "r = Inl e \<and> (s' = s2 \<or> s' = snd (callRollback s2))"
      using assms(1) b h Inl
      by (auto simp: handleWithDBTransaction_def andThen_apply onError_apply GetTransaction_def callRollback_def
          split: if_splits)
    with any f Inl show ?thesis by (auto simp: rb)
  next
    case (Inr y)
    from any obtain p where p: "db_pending (sy_db s2) = Some p" by auto
    have "on_db tx_Commit s2 = (Inr (), s2\<lparr>sy_db := (sy_db s2)\<lparr>db_committed := p, db_pending := None\<rparr>\<rparr>)"
      using p f by (simp add: on_db_def tx_Commit_def pop_fault_free)
    with assms(1) b h Inr f show ?thesis
      by (auto simp: handleWithDBTransaction_def andThen_apply onError_apply GetTransaction_def)
  qed
qed

lemma poll_round_in_step:
  assumes "poll_round D (now, post) s = (r, s')" and "in_step fs s" and "0 \<le> now" and "now < 2 ^ 63"
  shows "\<exists>gs. in_step (fs @ gs) s'"
proof (cases "GraphileFetcher_Fetch post (sy_fetcher s)")
  case (Inl e)
  with assms(1,2) have "in_step (fs @ []) s'" by (simp add: poll_round_def)
  then show ?thesis ..
next
  case (Inr resp)
  obtain r1 s1 where t: "handleWithDBTransaction D now resp s = (r1, s1)" by fastforce
  with Inr assms(1) have s': "s' = s1"
    by (cases r1) (auto simp: poll_round_def onError_apply split: if_splits)
  from assms(2) have l: "db_faults (sy_db s) = []" "logged fs (sy_fetcher s)"
    "db_committed (sy_db s) ''synchronizer_fetch'' = Some (fetches_table fs)"
    by (simp_all add: in_step_def fetches_in_def)
  from transaction_quiet [OF t l(1)] show ?thesis
  proof (elim conjE disjE exE)
    fix x assume "r1 = Inr x" and "db_faults (sy_db s1) = []"
    with transaction_ok [OF _ l(3) assms(3,4)] t logged_extend [OF l(2)]
    have "in_step (extend_log now (sy_fetcher s) resp fs) s1"
      by (auto simp: in_step_def fetches_in_def)
    then show ?thesis using s' by (auto simp: extend_log_def split: if_splits intro: exI [of _ "[]"])
  next
    assume "db_faults (sy_db s1) = []" "db_committed (sy_db s1) = db_committed (sy_db s)"
      "sy_fetcher s1 = sy_fetcher s"
    with l s' have "in_step (fs @ []) s'" by (simp add: in_step_def fetches_in_def)
    then show ?thesis ..
  qed
qed

lemma rounds_in_step:
  assumes "forEach (poll_round D) rounds s = (r, s')" and "in_step fs s"
    and "\<forall>(now, post) \<in> set rounds. 0 \<le> now \<and> now < 2 ^ 63"
  shows "\<exists>gs. in_step (fs @ gs) s'"
  using assms
proof (induction rounds arbitrary: s fs)
  case Nil
  then have "in_step (fs @ []) s'" by simp
  then show ?case ..
next
  case (Cons rd rounds)
  obtain now post where rd: "rd = (now, post)" by (cases rd)
  obtain r1 s1 where p: "poll_round D (now, post) s = (r1, s1)" by fastforce
  from poll_round_in_step [OF p Cons.prems(2)] Cons.prems(3) rd obtain gs
    where g: "in_step (fs @ gs) s1" by auto
  show ?case
  proof (cases r1)
    case (Inl e)
    with Cons.prems(1) p rd g show ?thesis by (auto simp: andThen_apply)
  next
    case (Inr u)
    with Cons.prems(1) p rd have "forEach (poll_round D) rounds s1 = (r, s')" by (simp add: andThen_apply)
    from Cons.IH [OF this g] Cons.prems(3) show ?thesis by auto
  qed
qed

end

text \<open>What \<open>Start\<close> reads at a restart are the cursors in memory.\<close>

lemma resume_logged:
  assumes "fetches_in fs (sy_db s)" and "logged fs (sy_fetcher s)"
  shows "GraphileSynchronizer_Start D [] (s\<lparr>sy_fetcher := NewGraphileFetcher\<rparr>) =
    (Inr (), s\<lparr>sy_fetcher := NewGraphileFetcher
      \<lparr>gf_CursorAfter := gf_CursorAfter (sy_fetcher s),
       gf_CursorInputAfter := gf_CursorInputAfter (sy_fetcher s),
       gf_CursorReportAfter := gf_CursorReportAfter (sy_fetcher s)\<rparr>\<rparr>)"
  using GetLastFetched_ok [OF assms(1)] assms(2)
  by (auto simp: GraphileSynchronizer_Start_def andThen_apply on_db_def resume_cursors_def logged_def
      NewGraphileFetcher_def)

interpretation quiet_decoder: sync_decoder_quiet "OutputDecoder E" for E
  by unfold_locales (simp_all add: OutputDecoder_def fault_tx.keeps_HandleOutputV2 [of "''t''"]
      fault_tx.keeps_HandleInput [of "''t''"] fault_tx.keeps_HandleReport [of "''t''"])

section \<open>A commit that fails\<close>

text \<open>The handler has already moved the cursors when the commit fails: the batch is skipped.\<close>

lemma failed_commit_skips:
  assumes "on_db (StartTransaction NoTx) s = (Inr WithTx, s1)"
    and "handleGraphileResponse (OutputDecoder E) now WithTx resp s1 = (Inr (), s2)"
    and "on_db tx_Commit s2 = (Inl e, s3)"
    and "db_committed (sy_db s) ''synchronizer_fetch'' = Some (fetches_table fs)"
    and "0 \<le> now" and "now < 2 ^ 63"
  shows "\<exists>s'. handleWithDBTransaction (OutputDecoder E) now resp s = (Inl e, s') \<and>
    db_committed (sy_db s') = db_committed (sy_db s) \<and>
    sy_fetcher s' = move_cursors (synchronizeFetch now (sy_fetcher s) resp) (sy_fetcher s)"
proof -
  from begin_cases [OF assms(1)] have s1: "sy_fetcher s1 = sy_fetcher s"
    "db_committed (sy_db s1) = db_committed (sy_db s)"
    "db_pending (sy_db s1) = Some (db_committed (sy_db s))" by auto
  from output_decoder.batch_ok [OF assms(2) s1(3) assms(4-6)] s1(1,2) obtain p where s2:
    "sy_fetcher s2 = move_cursors (synchronizeFetch now (sy_fetcher s) resp) (sy_fetcher s)"
    "db_committed (sy_db s2) = db_committed (sy_db s)" "db_pending (sy_db s2) = Some p" by auto
  obtain r4 s4 where rb: "callRollback s3 = (r4, s4)" by fastforce
  have "handleWithDBTransaction (OutputDecoder E) now resp s = (Inl e, s4)"
    using assms(1-3) rb commit_cases [OF assms(3) s2(3)] rollback_cases [OF rb]
    by (simp add: handleWithDBTransaction_def andThen_apply onError_apply GetTransaction_def)
  with s2 commit_cases [OF assms(3) s2(3)] rollback_cases [OF rb] show ?thesis by auto
qed

end
