(* ===== verification/ServiceRuns.thy ===== *)
theory ServiceRuns
  imports ConvenienceService
begin

text \<open>
  What any sequence of saves leaves in a table. The laws of \<open>output_store\<close> are extended by the
  facts about sequences, which hold of the three tables through its interpretations.
\<close>

definition save_all :: "('r \<Rightarrow> (db, 'r) comp) \<Rightarrow> 'r list \<Rightarrow> db \<Rightarrow> db" where
  "save_all save rs d = fold (\<lambda>r d. snd (save r d)) rs d"

lemma save_all_simps [simp]:
  "save_all save [] d = d"
  "save_all save (r # rs) d = save_all save rs (snd (save r d))"
  by (simp_all add: save_all_def)

context output_store
begin

text \<open>The keys stay distinct, no row is lost, and a key that is new is one that was saved.\<close>

lemma save_all_keys:
  assumes "rows_in xs d" and "distinct (map key xs)" and "list_all ok rs"
    and "length xs + length rs < 2 ^ 63"
  shows "\<exists>ys. rows_in ys (save_all save rs d) \<and> distinct (map key ys) \<and>
    (\<exists>ks. map key ys = map key xs @ ks \<and> set ks \<subseteq> key ` set rs)"
  using assms
proof (induction rs arbitrary: xs d)
  case Nil
  then show ?case by auto
next
  case (Cons r rs)
  from save_keys [OF Cons.prems(1,2)] Cons.prems(3,4) obtain ys where
    y: "rows_in ys (snd (save r d))" "distinct (map key ys)"
      "map key ys = map key xs \<or> map key ys = map key xs @ [key r]" by auto
  then have "length ys \<le> Suc (length xs)" by (metis length_append_singleton length_map le_Suc_eq order_refl)
  with Cons.IH [OF y(1,2)] Cons.prems(3,4) obtain zs ks where
    z: "rows_in zs (save_all save rs (snd (save r d)))" "distinct (map key zs)"
      "map key zs = map key ys @ ks" "set ks \<subseteq> key ` set rs" by auto
  from y(3) z show ?case by (elim disjE) (force, force)
qed

end

end
