(* ===== verification/ReaderFilters.thy ===== *)
theory ReaderFilters
  imports Reader
begin

text \<open>
  What the GraphQL filters come to: the voucher query depends on the outermost comparisons only.
\<close>

lemma rmap_cong_map:
  assumes "map k fs = map k gs" and "\<And>f g. k f = k g \<Longrightarrow> c f = c g"
  shows "rmap c fs = rmap c gs"
  using assms(1)
proof (induction fs arbitrary: gs)
  case (Cons f fs)
  then obtain g gs' where "gs = g # gs'" "k f = k g" "map k fs = map k gs'" by (cases gs) auto
  with Cons.IH [of gs'] assms(2) [of f g] show ?case by simp
qed simp

lemma list_all_cong_map:
  assumes "map k fs = map k gs" and "\<And>f g. k f = k g \<Longrightarrow> P f = P g"
  shows "list_all P fs = list_all P gs"
  using assms(1)
proof (induction fs arbitrary: gs)
  case (Cons f fs)
  then obtain g gs' where "gs = g # gs'" "k f = k g" "map k fs = map k gs'" by (cases gs) auto
  with Cons.IH [of gs'] assms(2) [of f g] show ?case by simp
qed simp

definition outer_part :: "ConvenienceFilter \<Rightarrow> string option \<times> string option" where
  "outer_part f = (cf_Field f, cf_Eq f)"

lemma same_outer_part:
  assumes "outer_part f = outer_part g"
  shows "voucher_acond E f = voucher_acond E g" and "voucher_sat E f = voucher_sat E g"
proof -
  have e: "cf_Field f = cf_Field g" "cf_Eq f = cf_Eq g" using assms by (simp_all add: outer_part_def)
  show "voucher_acond E f = voucher_acond E g"
    by (subst voucher_acond_fields [of E f], subst voucher_acond_fields [of E g]) (simp only: e)
  show "voucher_sat E f = voucher_sat E g"
    by (subst voucher_sat_fields [of E f], subst voucher_sat_fields [of E g]) (simp only: e)
qed

lemma voucher_resolver_outer:
  assumes "concat (map outer_filters fs) = concat (map outer_filters gs)" and "vouchers_in E vs d"
  shows "queryResolver_Vouchers E first lastN after before fs d =
    queryResolver_Vouchers E first lastN after before gs d"
proof -
  obtain fs' gs' where f: "ConvertToConvenienceFilter fs = Inr fs'" and g: "ConvertToConvenienceFilter gs = Inr gs'"
    using Convert_total by metis
  from Convert_outer [OF f] Convert_outer [OF g] assms(1)
  have k: "map outer_part fs' = map outer_part gs'" by (simp add: outer_part_def [abs_def])
  have "rmap (voucher_acond E) fs' = rmap (voucher_acond E) gs'"
    by (rule rmap_cong_map [OF k]) (rule same_outer_part(1))
  moreover have "list_all (\<lambda>f. voucher_sat E f v) fs' = list_all (\<lambda>f. voucher_sat E f v) gs'" for v
    by (rule list_all_cong_map [OF k]) (drule same_outer_part(2) [of _ _ E], simp only:)
  ultimately have "voucher_query E fs' vs = voucher_query E gs' vs" by (simp add: voucher_query_def)
  then show ?thesis
    by (simp add: queryResolver_Vouchers_def andThen_apply f g ConvenienceService_FindAllVouchers_def
        FindAllVouchers_ok [OF assms(2)])
qed

section \<open>Status names\<close>

text \<open>
  A status of the convenience layer reaches GraphQL under its name through the first adapter, and
  nothing else is accepted; the second adapter answers REJECTED for an input that ended in an
  exception, and UNPROCESSED for an unknown status.
\<close>

lemma status_names:
  "((\<exists>g. ConvertInput E x = Inr g) \<longleftrightarrow> ai_Status x \<in> {CompletionStatusUnprocessed,
     CompletionStatusAccepted, CompletionStatusRejected, CompletionStatusException}) \<and>
   V2_convertCompletionStatus x = (case model_convertCompletionStatus (ai_Status x) of
     Inr s \<Rightarrow> if s = gql_Exception then gql_Rejected else s | Inl e \<Rightarrow> gql_Unprocessed)"
proof
  show "(\<exists>g. ConvertInput E x = Inr g) \<longleftrightarrow> ai_Status x \<in> {CompletionStatusUnprocessed,
      CompletionStatusAccepted, CompletionStatusRejected, CompletionStatusException}"
    by (auto simp: ConvertInput_def model_convertCompletionStatus_def)
  show "V2_convertCompletionStatus x = (case model_convertCompletionStatus (ai_Status x) of
      Inr s \<Rightarrow> if s = gql_Exception then gql_Rejected else s | Inl e \<Rightarrow> gql_Unprocessed)"
    by (simp add: V2_convertCompletionStatus_def model_convertCompletionStatus_def gql_Exception_def
        gql_Rejected_def gql_Unprocessed_def gql_Accepted_def)
qed

end
