(* ===== verification/VoucherSync.thy ===== *)
theory VoucherSync
  imports GraphileSync
begin

text \<open>
  \<open>internal/convenience/synchronizer/synchronizer.go\<close> and \<open>voucher_fetcher.go\<close>: the older worker, which
  polls the GraphQL endpoint of a rollups node for vouchers, ten at a time. Unlike the worker of
  \<open>GraphileSync\<close> it has no transaction: each voucher is written on its own, and the first handler
  that fails ends the worker. The endpoint is a function from the URL and the request to a response.
\<close>

section \<open>The fetcher\<close>

definition GetVouchersQuery :: string where
  "GetVouchersQuery = ''query GetVouchers($after: String, $batchSize: Int) {
	vouchers(first: $batchSize, after: $after) {
		totalCount
		edges{
			node{
				destination
				payload
				index
				input {
					index
				}
				proof {
					validity {
						inputIndexWithinEpoch
						outputIndexWithinInput
						outputHashesRootHash
						vouchersEpochRootHash
						noticesEpochRootHash
						machineStateHash
						outputHashInOutputHashesSiblings
						outputHashesInEpochSiblings
					}
					context
				}
			}
		}
		pageInfo {
			startCursor
			endCursor
			hasNextPage
			hasPreviousPage
		}
	}
}''"

definition DefaultBatchSize :: int where "DefaultBatchSize = 10"

record VoucherFetcher =
  vf_Url :: string
  vf_CursorAfter :: string
  vf_BatchSize :: int
  vf_Query :: string

definition NewVoucherFetcher :: VoucherFetcher where
  "NewVoucherFetcher = \<lparr>vf_Url = ''http://localhost:8080/graphql'', vf_CursorAfter = [],
     vf_BatchSize = DefaultBatchSize, vf_Query = GetVouchersQuery\<rparr>"

record OutputValidityProof =
  ov_InputIndexWithinEpoch :: int
  ov_OutputIndexWithinInput :: int
  ov_OutputHashesRootHash :: string
  ov_VouchersEpochRootHash :: string
  ov_NoticesEpochRootHash :: string
  ov_MachineStateHash :: string
  ov_OutputHashInOutputHashesSiblings :: "string list"
  ov_OutputHashesInEpochSiblings :: "string list"

record VoucherProof =
  vp_Validity :: OutputValidityProof
  vp_Context :: string

record InputRef =
  ir_Index :: int

record FetchedVoucher =
  fv_Index :: int
  fv_Destination :: string
  fv_Payload :: string
  fv_Proof :: VoucherProof
  fv_Input :: InputRef

record VoucherEdge =
  ve_Node :: FetchedVoucher
  ve_Cursor :: string

record FetchedConnection =
  fc_TotalCount :: int
  fc_Edges :: "VoucherEdge list"
  fc_PageInfo :: SyncPageInfo

record VoucherData =
  vd_Vouchers :: FetchedConnection

record VoucherResponse =
  vr_Data :: VoucherData

text \<open>
  The body of the request before it is printed as JSON: \<open>operationName\<close> is null, and \<open>after\<close> is
  absent for the first page. The query sent is the constant, not the field of the fetcher.
\<close>

record FetchRequest =
  fr_query :: string
  fr_batchSize :: int
  fr_after :: "string option"

type_synonym voucher_endpoint = "string \<Rightarrow> FetchRequest \<Rightarrow> VoucherResponse res"

definition VoucherFetcher_Fetch :: "voucher_endpoint \<Rightarrow> VoucherFetcher \<Rightarrow> VoucherResponse res" where
  "VoucherFetcher_Fetch post v =
     (let payload = \<lparr>fr_query = GetVouchersQuery, fr_batchSize = vf_BatchSize v,
            fr_after = (if length (vf_CursorAfter v) > 0 then Some (vf_CursorAfter v) else None)\<rparr>
      in rbind (post (vf_Url v) payload) (\<lambda>response. Inr response))"

section \<open>The worker\<close>

record voucher_sync =
  vs_fetcher :: VoucherFetcher
  vs_db :: db

definition on_vdb :: "(db, 'a) comp \<Rightarrow> (voucher_sync, 'a) comp" where
  "on_vdb m s = (case m (vs_db s) of (r, d) \<Rightarrow> (r, s\<lparr>vs_db := d\<rparr>))"

definition handle_edge :: "DecoderInterface \<Rightarrow> VoucherEdge \<Rightarrow> (voucher_sync, unit) comp" where
  "handle_edge D edge =
     (let outputIndex = fv_Index (ve_Node edge); inputIndex = ir_Index (fv_Input (ve_Node edge));
          outputData = \<lparr>po_OutputIndex = of_int outputIndex, po_InputIndex = of_int inputIndex,
            po_Payload = fv_Payload (ve_Node edge), po_Destination = fv_Destination (ve_Node edge)\<rparr>
      in on_vdb (dc_HandleOutputV2 D NoTx outputData))"

definition edge_id :: "VoucherEdge \<Rightarrow> string" where
  "edge_id edge = itoa (ir_Index (fv_Input (ve_Node edge))) @ '':'' @ itoa (fv_Index (ve_Node edge))"

definition voucher_fetch :: "int \<Rightarrow> string \<Rightarrow> FetchedConnection \<Rightarrow> SynchronizerFetch" where
  "voucher_fetch now initCursorAfter vouchers =
     \<lparr>sf_Id = 0, sf_TimestampAfter = of_int now, sf_IniCursorAfter = initCursorAfter,
      sf_LogVouchersIds = join '';'' (map edge_id (fc_Edges vouchers)),
      sf_EndCursorAfter = pi_EndCursor (fc_PageInfo vouchers), sf_IniInputCursorAfter = [],
      sf_EndInputCursorAfter = [], sf_IniReportCursorAfter = [], sf_EndReportCursorAfter = []\<rparr>"

text \<open>The cursor in memory moves before the batch is recorded.\<close>

definition record_vouchers :: "int \<Rightarrow> FetchedConnection \<Rightarrow> (voucher_sync, unit) comp" where
  "record_vouchers now vouchers s =
     (if length (pi_EndCursor (fc_PageInfo vouchers)) > 0 then
        (let initCursorAfter = vf_CursorAfter (vs_fetcher s);
             s1 = s\<lparr>vs_fetcher := (vs_fetcher s)\<lparr>vf_CursorAfter := pi_EndCursor (fc_PageInfo vouchers)\<rparr>\<rparr>
         in andThen (on_vdb (SynchronizerRepository_Create NoTx (voucher_fetch now initCursorAfter vouchers)))
              (\<lambda>_. ret ()) s1)
      else (Inr (), s))"

definition voucher_round ::
  "DecoderInterface \<Rightarrow> int \<times> voucher_endpoint \<Rightarrow> (voucher_sync, unit) comp" where
  "voucher_round D = (\<lambda>(now, post) s.
     case VoucherFetcher_Fetch post (vs_fetcher s) of
       Inl err \<Rightarrow> (Inr (), s)
     | Inr voucherResp \<Rightarrow>
         (let vouchers = vd_Vouchers (vr_Data voucherResp)
          in andThen (forEach (handle_edge D) (fc_Edges vouchers)) (\<lambda>_. record_vouchers now vouchers) s))"

text \<open>The loop runs over the rounds until its context is cancelled.\<close>

definition VoucherPolling ::
  "DecoderInterface \<Rightarrow> (int \<times> voucher_endpoint) list \<Rightarrow> (voucher_sync, unit) comp" where
  "VoucherPolling D rounds =
     andThen (on_vdb SynchronizerRepository_GetLastFetched) (\<lambda>lastFetch.
     andThen (\<lambda>s. (Inr (), case lastFetch of None \<Rightarrow> s
       | Some l \<Rightarrow> s\<lparr>vs_fetcher := (vs_fetcher s)\<lparr>vf_CursorAfter := sf_EndCursorAfter l\<rparr>\<rparr>)) (\<lambda>_.
     forEach (voucher_round D) rounds))"

section \<open>The log and the cursor\<close>

definition voucher_log :: "SynchronizerFetch list \<Rightarrow> db \<Rightarrow> bool" where
  "voucher_log fs d \<longleftrightarrow> db_committed d ''synchronizer_fetch'' = Some (fetches_table fs)"

definition last_cursor :: "SynchronizerFetch list \<Rightarrow> string" where
  "last_cursor fs = (if fs = [] then [] else sf_EndCursorAfter (last fs))"

text \<open>Every entry starts where the one before it ended, and none has an empty end.\<close>

fun chained :: "string \<Rightarrow> SynchronizerFetch list \<Rightarrow> bool" where
  "chained c [] \<longleftrightarrow> True"
| "chained c (f # fs) \<longleftrightarrow> sf_IniCursorAfter f = c \<and> sf_EndCursorAfter f \<noteq> [] \<and> chained (sf_EndCursorAfter f) fs"

lemma chained_append: "chained c (fs @ gs) \<longleftrightarrow> chained c fs \<and>
    chained (if fs = [] then c else sf_EndCursorAfter (last fs)) gs"
  by (induction fs arbitrary: c) auto

lemma chained_last: "chained c fs \<Longrightarrow> fs \<noteq> [] \<Longrightarrow> sf_EndCursorAfter (last fs) \<noteq> []"
  by (induction fs arbitrary: c) auto

text \<open>Handling a voucher leaves the fetcher, and the log as far as the decoder leaves it.\<close>

definition edge_frame :: "voucher_sync \<Rightarrow> voucher_sync \<Rightarrow> bool" where
  "edge_frame s s' \<longleftrightarrow> vs_fetcher s' = vs_fetcher s \<and> com_frame ''synchronizer_fetch'' (vs_db s) (vs_db s')"

lemma edge_frame_refl [simp]: "reflp edge_frame"
  using com_frame_refl by (auto simp: reflp_def edge_frame_def)

lemma edge_frame_trans [simp]: "transp edge_frame"
  by (rule transpI) (auto simp: edge_frame_def intro: transpD [OF com_frame_trans])

lemma keeps_on_vdb: "keeps (com_frame ''synchronizer_fetch'') m \<Longrightarrow> keeps edge_frame (on_vdb m)"
  by (auto simp: keeps_def on_vdb_def edge_frame_def split: prod.splits) (metis snd_conv)

lemma edge_frame_log: "edge_frame s s' \<Longrightarrow> voucher_log fs (vs_db s') = voucher_log fs (vs_db s)"
  by (simp add: edge_frame_def com_frame_def voucher_log_def)

text \<open>Recording a batch outside a transaction, with any schedule of faults.\<close>

lemma SynchronizerCreate_no_tx:
  assumes "SynchronizerRepository_Create NoTx f d = (r, d')" and "voucher_log fs d"
    and "unat (sf_TimestampAfter f) < 2 ^ 63"
  shows "voucher_log (if is_ok r then fs @ [f] else fs) d'"
proof -
  obtain y d1 where q: "pop_fault d = (y, d1)" by fastforce
  have c: "db_committed d1 ''synchronizer_fetch'' = Some (fetches_table fs)"
    using assms(2) pop_fault_frame [OF q] by (simp add: voucher_log_def)
  from assms(1) q c show ?thesis
    by (auto simp: SynchronizerRepository_Create_def andThen_apply DBExecutor_ExecContext_def
        GetTransaction_def db_Exec_def sql_exec_insertFetch [where ts = "db_committed d1", OF assms(3) c]
        voucher_log_def split: option.splits fault.splits)
qed

lemma record_vouchers_log:
  assumes "record_vouchers now vouchers s = (r, s')" and "voucher_log fs (vs_db s)"
    and "vf_CursorAfter (vs_fetcher s) = last_cursor fs" and "0 \<le> now" and "now < 2 ^ 63"
  shows "\<exists>gs. voucher_log (fs @ gs) (vs_db s') \<and> chained (last_cursor fs) gs \<and>
    (is_ok r \<longrightarrow> vf_CursorAfter (vs_fetcher s') = last_cursor (fs @ gs))"
proof (cases "pi_EndCursor (fc_PageInfo vouchers) = []")
  case True
  with assms have "voucher_log (fs @ []) (vs_db s') \<and> vf_CursorAfter (vs_fetcher s') = last_cursor (fs @ [])"
    by (simp add: record_vouchers_def)
  then show ?thesis by (intro exI [of _ "[]"]) simp
next
  case False
  let ?f = "voucher_fetch now (vf_CursorAfter (vs_fetcher s)) vouchers"
  obtain r1 d1 where c: "SynchronizerRepository_Create NoTx ?f (vs_db s) = (r1, d1)" by fastforce
  have "unat (sf_TimestampAfter ?f) < 2 ^ 63"
    using uint_of_int_small(2) [OF assms(4,5)] by (simp add: voucher_fetch_def)
  note l = SynchronizerCreate_no_tx [OF c assms(2) this]
  have s': "vs_db s' = d1" "vf_CursorAfter (vs_fetcher s') = pi_EndCursor (fc_PageInfo vouchers)"
    "is_ok r = is_ok r1"
    using assms(1) False c by (cases r1; auto simp: record_vouchers_def Let_def andThen_apply on_vdb_def)+
  have f: "sf_EndCursorAfter ?f = pi_EndCursor (fc_PageInfo vouchers)" "sf_IniCursorAfter ?f = last_cursor fs"
    using assms(3) by (simp_all add: voucher_fetch_def)
  show ?thesis
    by (rule exI [of _ "if is_ok r1 then [?f] else []"])
      (use l s' f False in \<open>auto simp: last_cursor_def\<close>)
qed

text \<open>The decoder, as far as this worker calls it: outside a transaction it leaves the log.\<close>

locale voucher_decoder =
  fixes D :: DecoderInterface
  assumes output_frame: "keeps (com_frame ''synchronizer_fetch'') (dc_HandleOutputV2 D NoTx p)"
begin

lemma edge_keeps: "keeps edge_frame (handle_edge D edge)"
  by (simp add: handle_edge_def Let_def keeps_on_vdb output_frame)

lemmas edges_keep = keeps_forEach [OF edge_frame_refl edge_frame_trans edge_keeps]

lemma round_log:
  assumes "voucher_round D (now, post) s = (r, s')" and "voucher_log fs (vs_db s)"
    and "vf_CursorAfter (vs_fetcher s) = last_cursor fs" and "0 \<le> now" and "now < 2 ^ 63"
  shows "\<exists>gs. voucher_log (fs @ gs) (vs_db s') \<and> chained (last_cursor fs) gs \<and>
    (is_ok r \<longrightarrow> vf_CursorAfter (vs_fetcher s') = last_cursor (fs @ gs))"
proof (cases "VoucherFetcher_Fetch post (vs_fetcher s)")
  case (Inl err)
  with assms have "voucher_log (fs @ []) (vs_db s') \<and> vf_CursorAfter (vs_fetcher s') = last_cursor (fs @ [])"
    by (simp add: voucher_round_def)
  then show ?thesis by (intro exI [of _ "[]"]) simp
next
  case (Inr resp)
  let ?v = "vd_Vouchers (vr_Data resp)"
  obtain r1 s1 where e: "forEach (handle_edge D) (fc_Edges ?v) s = (r1, s1)" by fastforce
  have frame: "edge_frame s s1" using keepsD [OF edges_keep e] .
  have s1: "voucher_log fs (vs_db s1)" "vf_CursorAfter (vs_fetcher s1) = last_cursor fs"
    using frame assms(2,3) edge_frame_log [OF frame] by (simp_all add: edge_frame_def)
  show ?thesis
  proof (cases r1)
    case (Inl err)
    with e Inr assms(1) have "r = Inl err" "s' = s1"
      by (auto simp: voucher_round_def Let_def andThen_apply)
    with s1 show ?thesis by (intro exI [of _ "[]"]) simp
  next
    case (Inr u)
    with e \<open>VoucherFetcher_Fetch post (vs_fetcher s) = Inr resp\<close> assms(1)
    have "record_vouchers now ?v s1 = (r, s')"
      by (simp add: voucher_round_def Let_def andThen_apply)
    from record_vouchers_log [OF this s1 assms(4,5)] show ?thesis .
  qed
qed

lemma rounds_log:
  assumes "forEach (voucher_round D) rounds s = (r, s')" and "voucher_log fs (vs_db s)"
    and "vf_CursorAfter (vs_fetcher s) = last_cursor fs"
    and "\<forall>(now, post) \<in> set rounds. 0 \<le> now \<and> now < 2 ^ 63"
  shows "\<exists>gs. voucher_log (fs @ gs) (vs_db s') \<and> chained (last_cursor fs) gs \<and>
    (is_ok r \<longrightarrow> vf_CursorAfter (vs_fetcher s') = last_cursor (fs @ gs))"
  using assms
proof (induction rounds arbitrary: s fs)
  case Nil
  then have "voucher_log (fs @ []) (vs_db s') \<and> vf_CursorAfter (vs_fetcher s') = last_cursor (fs @ [])"
    by simp
  then show ?case by (intro exI [of _ "[]"]) simp
next
  case (Cons rd rounds)
  obtain now post where rd: "rd = (now, post)" by (cases rd)
  obtain r1 s1 where p: "voucher_round D (now, post) s = (r1, s1)" by fastforce
  from round_log [OF p Cons.prems(2,3)] Cons.prems(4) rd obtain gs where
    g: "voucher_log (fs @ gs) (vs_db s1)" "chained (last_cursor fs) gs"
      "is_ok r1 \<longrightarrow> vf_CursorAfter (vs_fetcher s1) = last_cursor (fs @ gs)" by auto
  show ?case
  proof (cases r1)
    case (Inl err)
    with Cons.prems(1) p rd have "r = Inl err" "s' = s1" by (auto simp: andThen_apply)
    with g Inl show ?thesis by auto
  next
    case (Inr u)
    with Cons.prems(1) p rd have "forEach (voucher_round D) rounds s1 = (r, s')" by (simp add: andThen_apply)
    from Cons.IH [OF this g(1)] g(3) Inr Cons.prems(4) obtain hs where
      h: "voucher_log (fs @ gs @ hs) (vs_db s')" "chained (last_cursor (fs @ gs)) hs"
        "is_ok r \<longrightarrow> vf_CursorAfter (vs_fetcher s') = last_cursor (fs @ gs @ hs)" by auto
    have "chained (last_cursor fs) (gs @ hs)"
      using g(2) h(2) by (cases "gs = []") (simp_all add: chained_append last_cursor_def)
    with h show ?thesis by blast
  qed
qed

text \<open>A handler that fails ends the worker; the log and the cursor are those before the round.\<close>

lemma failing_voucher:
  assumes "VoucherFetcher_Fetch post (vs_fetcher s) = Inr resp"
    and "fc_Edges (vd_Vouchers (vr_Data resp)) = xs @ x # ys"
    and "forEach (handle_edge D) xs s = (Inr (), s1)" and "handle_edge D x s1 = (Inl e, s2)"
  shows "forEach (voucher_round D) ((now, post) # rounds) s = (Inl e, s2) \<and>
    vs_fetcher s2 = vs_fetcher s \<and> voucher_log fs (vs_db s2) = voucher_log fs (vs_db s)"
proof -
  have "edge_frame s s2"
    using keepsD [OF edges_keep assms(3)] keepsD [OF edge_keeps assms(4)] transpD [OF edge_frame_trans] by blast
  moreover have "forEach (voucher_round D) ((now, post) # rounds) s = (Inl e, s2)"
    using assms by (simp add: voucher_round_def Let_def forEach_append andThen_apply)
  ultimately show ?thesis using edge_frame_log by (simp add: edge_frame_def)
qed

end

interpretation voucher_output_decoder: voucher_decoder "OutputDecoder E" for E
  by unfold_locales (simp add: OutputDecoder_def no_tx.keeps_HandleOutputV2)

text \<open>What a start reads from a log on a database that answers.\<close>

lemma VoucherPolling_resumes:
  assumes "voucher_log fs d"
  shows "VoucherPolling D rounds \<lparr>vs_fetcher = NewVoucherFetcher, vs_db = d\<lparr>db_faults := []\<rparr>\<rparr> =
    forEach (voucher_round D) rounds \<lparr>vs_fetcher = NewVoucherFetcher\<lparr>vf_CursorAfter := last_cursor fs\<rparr>,
      vs_db = d\<lparr>db_faults := []\<rparr>\<rparr>"
proof -
  have "fetches_in fs (d\<lparr>db_faults := []\<rparr>)" using assms by (simp add: fetches_in_def voucher_log_def)
  from GetLastFetched_ok [OF this] show ?thesis
    by (auto simp: VoucherPolling_def andThen_apply on_vdb_def last_cursor_def NewVoucherFetcher_def)
qed

end
