(* ===== verification/ExecListener.thy ===== *)
theory ExecListener
  imports ConvenienceService
begin

text \<open>
  \<open>internal/convenience/output_exec_listener.go\<close>: the worker that listens to the execution events of
  the application contract and marks the vouchers they name as executed. The Ethereum client and
  the ABI decoder are parameters: the block of an event is a number to a time or an error, the
  values of an event are what \<open>Unpack\<close> returns. A subscription is the list of the logs it
  delivers and how it ends.
\<close>

section \<open>Events\<close>

datatype abi_value = AbiBigInt int | AbiUint64 u64 | AbiBytes bytes | AbiAddress address

record EthLog =
  el_BlockNumber :: u64
  el_BlockHash :: bytes
  el_Data :: bytes

text \<open>The arguments of \<open>OutputExecuted\<close> in the ABI of the contract: indexed or not, type and name.\<close>

definition OutputExecuted_inputs :: "(bool \<times> string \<times> string) list" where
  "OutputExecuted_inputs = [(False, ''uint64'', ''outputIndex''), (False, ''bytes'', ''output'')]"

record exec_chain =
  xc_BlockByNumber :: "int \<Rightarrow> u64 res"
  xc_Unpack :: "bytes \<Rightarrow> abi_value list res"

definition OnEvent :: "abi_value list \<Rightarrow> u64 \<Rightarrow> u64 \<Rightarrow> (db, unit) comp" where
  "OnEvent eventValues timestamp blockNumber =
     (if length eventValues \<noteq> 1 then fail (EMsg ''wrong event values length != 1'')
      else (case hd eventValues of
          AbiBigInt voucherId \<Rightarrow>
            (let bitsToShift = 128;
                 maxHexBytes = 0xFFFFFFFFFFFFFFFF;
                 voucher = drop_bit bitsToShift voucherId;
                 input = and voucherId maxHexBytes
             in ConvenienceService_UpdateExecuted (of_int input) (of_int voucher) True)
        | _ \<Rightarrow> fail (EMsg ''cannot cast voucher id to big.Int'')))"

definition GetEventData :: "exec_chain \<Rightarrow> EthLog \<Rightarrow> (u64 \<times> u64 \<times> abi_value list) res" where
  "GetEventData C vLog =
     (let blockNumber = el_BlockNumber vLog;
          blockNumberBigInt = sint blockNumber
      in rbind (xc_BlockByNumber C blockNumberBigInt) (\<lambda>timestamp.
         rbind (xc_Unpack C (el_Data vLog)) (\<lambda>values.
         Inr (timestamp, blockNumber, values))))"

definition HandleLog :: "exec_chain \<Rightarrow> EthLog \<Rightarrow> (db, unit) comp" where
  "HandleLog C vLog =
     andThen (lift_res (GetEventData C vLog)) (\<lambda>(timestamp, blockNumber, values).
     andThen (OnEvent values timestamp blockNumber) (\<lambda>_. ret ()))"

text \<open>Errors of the handler are logged and skipped.\<close>

definition HandleLog_or_skip :: "exec_chain \<Rightarrow> EthLog \<Rightarrow> (db, unit) comp" where
  "HandleLog_or_skip C vLog = onError (HandleLog C vLog) (\<lambda>err. ret ())"

definition ReadPastExecutions :: "exec_chain \<Rightarrow> EthLog list res \<Rightarrow> (db, unit) comp" where
  "ReadPastExecutions C FilterLogs =
     andThen (lift_res FilterLogs) (\<lambda>oldLogs.
     forEach (HandleLog_or_skip C) oldLogs)"

text \<open>
  One turn of the loop of \<open>WatchExecutions\<close>: what the node answers to the two calls, the logs that
  the subscription delivers, and its end: the context was cancelled, or the channel of errors
  delivered an error or was closed.
\<close>

datatype watch_end = Cancelled err | SubscriptionError err | SubscriptionClosed

record connection =
  cn_FilterLogs :: "EthLog list res"
  cn_SubscribeFilterLogs :: "unit res"
  cn_logs :: "EthLog list"
  cn_end :: watch_end

text \<open>The result is whether the worker has returned; without it waits for the next connection.\<close>

fun watch_loop :: "exec_chain \<Rightarrow> connection list \<Rightarrow> (db, bool) comp" where
  "watch_loop C [] d = (Inr False, d)"
| "watch_loop C (c # cs) d =
     (case ReadPastExecutions C (cn_FilterLogs c) d of
        (Inl err, d1) \<Rightarrow> if is_panic err then (Inl err, d1) else watch_loop C cs d1
      | (Inr _, d1) \<Rightarrow> (case cn_SubscribeFilterLogs c of
          Inl err \<Rightarrow> watch_loop C cs d1
        | Inr _ \<Rightarrow> (case forEach (HandleLog_or_skip C) (cn_logs c) d1 of
            (Inl err, d2) \<Rightarrow> (Inl err, d2)
          | (Inr _, d2) \<Rightarrow> (case cn_end c of
              Cancelled err \<Rightarrow> (Inl err, d2)
            | SubscriptionError err \<Rightarrow> watch_loop C cs d2
            | SubscriptionClosed \<Rightarrow> (Inr True, d2)))))"

definition WatchExecutions :: "exec_chain \<Rightarrow> unit res \<Rightarrow> connection list \<Rightarrow> (db, bool) comp" where
  "WatchExecutions C GetAbi cs = andThen (lift_res GetAbi) (\<lambda>_. watch_loop C cs)"

text \<open>\<open>Start\<close> dials until it succeeds.\<close>

fun dial_loop :: "'c res list \<Rightarrow> 'c option" where
  "dial_loop [] = None"
| "dial_loop (Inl err # rs) = dial_loop rs"
| "dial_loop (Inr c # rs) = Some c"

definition OutputExecListener_Start ::
  "exec_chain res list \<Rightarrow> unit res \<Rightarrow> connection list \<Rightarrow> (db, bool) comp" where
  "OutputExecListener_Start dials GetAbi cs = (case dial_loop dials of
      None \<Rightarrow> ret False
    | Some client \<Rightarrow> WatchExecutions client GetAbi cs)"

section \<open>What an event marks\<close>

definition mark_all :: "(u64 \<times> u64) set \<Rightarrow> ConvenienceVoucher list \<Rightarrow> ConvenienceVoucher list" where
  "mark_all ks vs = map (\<lambda>w. if voucher_key w \<in> ks then w\<lparr>cv_Executed := True\<rparr> else w) vs"

lemma mark_all_keys [simp]: "map voucher_key (mark_all ks vs) = map voucher_key vs"
  by (simp add: mark_all_def voucher_key_def)

lemma mark_all_empty [simp]: "mark_all {} vs = vs"
  by (simp add: mark_all_def)

lemma mark_all_insert: "mark_all ks (mark_all {k} vs) = mark_all (insert k ks) vs"
  by (simp add: mark_all_def voucher_key_def)

text \<open>The identifier of a voucher: its output index above bit 128, its input index in the low word.\<close>

definition voucher_of_id :: "int \<Rightarrow> u64 \<times> u64" where
  "voucher_of_id i = (of_int (i mod 2 ^ 64), of_int (i div 2 ^ 128))"

lemma OnEvent_id: "OnEvent [AbiBigInt i] timestamp blockNumber =
    ConvenienceService_UpdateExecuted (fst (voucher_of_id i)) (snd (voucher_of_id i)) True"
proof -
  have "(0xFFFFFFFFFFFFFFFF :: int) = mask 64" by (simp add: mask_eq_exp_minus_1)
  then have "and i 0xFFFFFFFFFFFFFFFF = i mod 2 ^ 64" by (simp only: take_bit_eq_mask [symmetric] take_bit_eq_mod)
  then show ?thesis by (simp add: OnEvent_def voucher_of_id_def drop_bit_eq_div)
qed

lemma voucher_of_id_inverse:
  assumes "0 \<le> i" and "i < 2 ^ 64"
  shows "voucher_of_id (2 ^ 128 * v + i) = (of_int i, of_int v)"
proof -
  have "(2 ^ 128 * v + i) mod 2 ^ 64 = i"
  proof -
    have "2 ^ 128 * v + i = i + 2 ^ 64 * (2 ^ 64 * v)" by simp
    then show ?thesis using assms by (simp only: mod_mult_self2) simp
  qed
  moreover have "(2 ^ 128 * v + i) div 2 ^ 128 = v" using assms by (simp add: div_add1_eq)
  ultimately show ?thesis by (simp add: voucher_of_id_def)
qed

definition event_mark :: "exec_chain \<Rightarrow> EthLog \<Rightarrow> (u64 \<times> u64) option" where
  "event_mark C vLog = (case GetEventData C vLog of
      Inr (_, _, [AbiBigInt i]) \<Rightarrow> Some (voucher_of_id i)
    | _ \<Rightarrow> None)"

definition small_key :: "u64 \<times> u64 \<Rightarrow> bool" where
  "small_key k \<longleftrightarrow> unat (fst k) < 2 ^ 63 \<and> unat (snd k) < 2 ^ 63"

text \<open>An event without a mark is skipped: the handler fails and the store stays.\<close>

lemma OnEvent_other:
  assumes "\<forall>i. vs \<noteq> [AbiBigInt i]"
  shows "\<exists>e. OnEvent vs timestamp blockNumber d = (Inl e, d) \<and> \<not> is_panic e"
proof (cases "length vs = 1")
  case False
  then show ?thesis by (simp add: OnEvent_def)
next
  case True
  then obtain v where "vs = [v]" by (auto simp: length_Suc_conv)
  with assms show ?thesis by (cases v) (simp_all add: OnEvent_def)
qed

text \<open>A store with the vouchers \<open>vs\<close> becomes one with the marked vouchers; nothing else changes.\<close>

definition marked :: "ethlib \<Rightarrow> ConvenienceVoucher list \<Rightarrow> db \<Rightarrow> (u64 \<times> u64) set \<Rightarrow> db \<Rightarrow> bool" where
  "marked E vs d ks d' \<longleftrightarrow> vouchers_in E (mark_all ks vs) d' \<and>
     (\<forall>t. t \<noteq> ''convenience_vouchers'' \<longrightarrow> db_committed d' t = db_committed d t)"

lemma marked_refl: "vouchers_in E vs d \<Longrightarrow> marked E vs d {} d"
  by (simp add: marked_def)

lemma marked_trans:
  "marked E vs d {k} d1 \<Longrightarrow> marked E (mark_all {k} vs) d1 ks d2 \<Longrightarrow> marked E vs d (insert k ks) d2"
  by (simp add: marked_def mark_all_insert)

lemma UpdateExecuted_marks:
  assumes "vouchers_in E vs d" and "distinct (map voucher_key vs)" and "small_key k"
  shows "\<exists>d'. ConvenienceService_UpdateExecuted (fst k) (snd k) True d = (Inr (), d') \<and> marked E vs d {k} d'"
  using assms UpdateExecuted_ok [where E = E and d = d and vs = vs and b = True and i = "fst k" and o' = "snd k"]
  by (cases k) (simp add: ConvenienceService_UpdateExecuted_def vouchers_in_def small_key_def marked_def mark_all_def)

lemma HandleLog_marks:
  assumes "\<forall>e. GetEventData C vLog = Inl e \<longrightarrow> \<not> is_panic e"
    and "vouchers_in E vs d" and "distinct (map voucher_key vs)"
    and "\<forall>k. event_mark C vLog = Some k \<longrightarrow> small_key k"
  shows "\<exists>d'. HandleLog_or_skip C vLog d = (Inr (), d') \<and>
    marked E vs d (set_option (event_mark C vLog)) d'"
proof (cases "GetEventData C vLog")
  case (Inl e)
  with assms show ?thesis
    by (simp add: HandleLog_def HandleLog_or_skip_def onError_apply andThen_apply event_mark_def marked_refl)
next
  case (Inr x)
  obtain ts bn vals where x: "x = (ts, bn, vals)" by (cases x)
  show ?thesis
  proof (cases "\<exists>i. vals = [AbiBigInt i]")
    case True
    then obtain i where i: "vals = [AbiBigInt i]" ..
    with Inr x have m: "event_mark C vLog = Some (voucher_of_id i)" by (simp add: event_mark_def)
    with UpdateExecuted_marks [OF assms(2,3)] assms(4) obtain d' where
      "ConvenienceService_UpdateExecuted (fst (voucher_of_id i)) (snd (voucher_of_id i)) True d = (Inr (), d')"
      "marked E vs d {voucher_of_id i} d'" by blast
    with Inr x i m show ?thesis by (simp add: HandleLog_def HandleLog_or_skip_def onError_apply andThen_apply OnEvent_id)
  next
    case False
    then have "event_mark C vLog = None"
      using Inr x by (auto simp: event_mark_def split: list.splits abi_value.splits)
    moreover from False obtain e where "OnEvent vals ts bn d = (Inl e, d)" "\<not> is_panic e"
      using OnEvent_other by blast
    ultimately show ?thesis using Inr x assms(2)
      by (simp add: HandleLog_def HandleLog_or_skip_def onError_apply andThen_apply marked_refl)
  qed
qed

definition marks_of :: "exec_chain \<Rightarrow> EthLog list \<Rightarrow> (u64 \<times> u64) set" where
  "marks_of C logs = {k. \<exists>vLog \<in> set logs. event_mark C vLog = Some k}"

lemma logs_mark:
  assumes "\<forall>vLog \<in> set logs. \<forall>e. GetEventData C vLog = Inl e \<longrightarrow> \<not> is_panic e"
    and "vouchers_in E vs d" and "distinct (map voucher_key vs)"
    and "\<forall>k \<in> marks_of C logs. small_key k"
  shows "\<exists>d'. forEach (HandleLog_or_skip C) logs d = (Inr (), d') \<and>
    marked E vs d (marks_of C logs) d'"
  using assms
proof (induction logs arbitrary: vs d)
  case Nil
  then show ?case by (simp add: marks_of_def marked_refl)
next
  case (Cons l logs)
  have sm: "\<forall>k. event_mark C l = Some k \<longrightarrow> small_key k" using Cons.prems(4) by (auto simp: marks_of_def)
  from HandleLog_marks [OF _ Cons.prems(2,3) sm] Cons.prems(1) obtain d1 where
    h: "HandleLog_or_skip C l d = (Inr (), d1)" "marked E vs d (set_option (event_mark C l)) d1"
    by auto
  let ?vs = "mark_all (set_option (event_mark C l)) vs"
  have v: "vouchers_in E ?vs d1" "distinct (map voucher_key ?vs)"
    using h(2) Cons.prems(3) by (simp_all add: marked_def)
  from Cons.IH [OF _ v] Cons.prems(1,4) obtain d2 where
    r: "forEach (HandleLog_or_skip C) logs d1 = (Inr (), d2)"
      "marked E ?vs d1 (marks_of C logs) d2" by (auto simp: marks_of_def)
  have "marked E vs d (marks_of C (l # logs)) d2"
  proof (cases "event_mark C l")
    case None
    then have "marks_of C (l # logs) = marks_of C logs" by (auto simp: marks_of_def)
    with h(2) r(2) None show ?thesis by (simp add: marked_def)
  next
    case (Some k)
    then have "marks_of C (l # logs) = insert k (marks_of C logs)" by (auto simp: marks_of_def)
    with marked_trans [OF h(2) [unfolded Some, simplified]] r(2) Some show ?thesis by simp
  qed
  with h(1) r(1) show ?case by (simp add: andThen_apply)
qed

section \<open>The events of the contract\<close>

text \<open>
  \<open>Unpack\<close> returns one value for each argument of the event that is not indexed; the contract's
  event has two. Then every log fails and the store never changes.
\<close>

definition unpacks_event :: "exec_chain \<Rightarrow> bool" where
  "unpacks_event C \<longleftrightarrow> (\<forall>data vs. xc_Unpack C data = Inr vs \<longrightarrow>
     length vs = length (filter (\<lambda>(indexed, _). \<not> indexed) OutputExecuted_inputs))"

lemma HandleLog_contract:
  assumes "unpacks_event C"
  shows "keeps (=) (HandleLog_or_skip C vLog)"
proof -
  have e: "reflp ((=) :: db \<Rightarrow> db \<Rightarrow> bool)" "transp ((=) :: db \<Rightarrow> db \<Rightarrow> bool)"
    by (auto simp: reflp_def transp_def)
  have "keeps (=) (HandleLog C vLog)"
    unfolding keeps_def
  proof
    fix d
    show "d = snd (HandleLog C vLog d)"
    proof (cases "GetEventData C vLog")
      case (Inr x)
      obtain ts bn vs where x: "x = (ts, bn, vs)" by (cases x)
      with Inr assms have "length vs = 2"
        by (auto simp: GetEventData_def unpacks_event_def OutputExecuted_inputs_def Let_def rbind_Inr_iff)
      then have "\<forall>i. vs \<noteq> [AbiBigInt i]" by auto
      from OnEvent_other [OF this, of ts bn d] Inr x show ?thesis by (auto simp: HandleLog_def andThen_apply)
    qed (simp add: HandleLog_def andThen_apply)
  qed
  with e show ?thesis unfolding HandleLog_or_skip_def by (intro keeps_onError keeps_ret)
qed

lemma contract_logs:
  assumes "unpacks_event C"
  shows "snd (forEach (HandleLog_or_skip C) logs d) = d"
proof -
  have "keeps (=) (forEach (HandleLog_or_skip C) logs)"
    by (intro keeps_forEach HandleLog_contract assms) (auto simp: reflp_def transp_def)
  then show ?thesis by (simp add: keeps_def)
qed

lemma contract_past:
  assumes "unpacks_event C"
  shows "snd (ReadPastExecutions C FilterLogs d) = d"
  using contract_logs [OF assms] by (cases FilterLogs) (simp_all add: ReadPastExecutions_def andThen_apply)

lemma contract_watch:
  assumes "unpacks_event C"
  shows "snd (watch_loop C cs d) = d"
proof (induction cs)
  case (Cons c cs)
  obtain r d1 where p: "ReadPastExecutions C (cn_FilterLogs c) d = (r, d1)" by fastforce
  obtain r2 d2 where l: "forEach (HandleLog_or_skip C) (cn_logs c) d = (r2, d2)"
    by fastforce
  have "d1 = d" "d2 = d"
    using contract_past [OF assms, of "cn_FilterLogs c" d] contract_logs [OF assms, of "cn_logs c" d] p l by simp_all
  with p l Cons.IH show ?case by (auto split: sum.splits watch_end.splits)
qed simp

lemma contract_listener:
  "unpacks_event C \<Longrightarrow> snd (WatchExecutions C GetAbi cs d) = d"
  by (cases GetAbi) (simp_all add: WatchExecutions_def andThen_apply contract_watch)

end
