(* ===== verification/Inputter.thy ===== *)
theory Inputter
  imports NonodoAdvance ExecListener
begin

text \<open>
  \<open>internal/sequencers/inputter/inputter.go\<close>: the worker that reads the inputs of the application
  from the input box contract and adds them to the model. The node's model is an interface in the
  source; here it is the locale \<open>input_sink\<close>, which promises that adding an input refines the
  insertion of a new index into a list, and is interpreted on \<open>AddAdvanceInput\<close>. The Ethereum
  client is a parameter.
\<close>

section \<open>The worker\<close>

record InputAdded =
  ia_AppContract :: address
  ia_Index :: int
  ia_Input :: bytes
  ia_BlockNumber :: u64
  ia_BlockHash :: bytes

text \<open>The method of the interface \<open>Model\<close>, and the header of a block, as far as it is used: its time.\<close>

type_synonym 'm input_model = "address \<Rightarrow> bytes \<Rightarrow> u64 \<Rightarrow> time \<Rightarrow> int \<Rightarrow> ('m, unit) comp"

type_synonym headers = "bytes \<Rightarrow> u64 res"

definition addInput :: "ethlib \<Rightarrow> 'm input_model \<Rightarrow> headers \<Rightarrow> InputAdded \<Rightarrow> ('m, unit) comp" where
  "addInput E add HeaderByHash event =
     andThen (wrapErr ''inputter: failed to get tx header'' (lift_res (HeaderByHash (ia_BlockHash event))))
       (\<lambda>headerTime.
     let timestamp = time_Unix (sint headerTime)
     in andThen (lift_res (slice_from 4 (ia_Input event))) (\<lambda>eventInput.
        andThen (lift_res (UnpackEvmAdvance E eventInput)) (\<lambda>values.
        let msgSender = ev_msgSender values; payload = ev_payload values;
            inputIndex = big_Int64 (ia_Index event)
        in andThen (add msgSender payload (ia_BlockNumber event) timestamp inputIndex) (\<lambda>_. ret ()))))"

record 'm inputter =
  iw_InputBoxBlock :: u64
  iw_Model :: 'm

definition on_model :: "('m, 'a) comp \<Rightarrow> ('m inputter, 'a) comp" where
  "on_model m s = (case m (iw_Model s) of (r, m') \<Rightarrow> (r, s\<lparr>iw_Model := m'\<rparr>))"

definition read_event :: "ethlib \<Rightarrow> 'm input_model \<Rightarrow> headers \<Rightarrow> InputAdded \<Rightarrow> ('m inputter, unit) comp" where
  "read_event E add HeaderByHash event s =
     on_model (addInput E add HeaderByHash event) (s\<lparr>iw_InputBoxBlock := ia_BlockNumber event - 1\<rparr>)"

definition ReadPastInputs ::
  "ethlib \<Rightarrow> 'm input_model \<Rightarrow> headers \<Rightarrow> (u64 \<Rightarrow> u64 option \<Rightarrow> InputAdded list res) \<Rightarrow>
   u64 \<Rightarrow> u64 option \<Rightarrow> ('m inputter, unit) comp" where
  "ReadPastInputs E add HeaderByHash FilterInputAdded startBlockNumber endBlockNumber =
     andThen (wrapErr ''inputter: filter input added''
       (lift_res (FilterInputAdded startBlockNumber endBlockNumber))) (\<lambda>it.
     forEach (read_event E add HeaderByHash) it)"

text \<open>
  One turn of the loop of \<open>watchNewInputs\<close>: what the node answers, the events of the subscription
  and its end. When an input fails the subscription is left; it is made again unless its end is a
  cancellation.
\<close>

record input_connection =
  ip_HeaderByHash :: headers
  ip_FilterInputAdded :: "u64 \<Rightarrow> u64 option \<Rightarrow> InputAdded list res"
  ip_WatchInputAdded :: "unit res"
  ip_events :: "InputAdded list"
  ip_end :: watch_end

text \<open>The subscription: the current block moves before the input is added.\<close>

fun deliver_inputs ::
  "ethlib \<Rightarrow> 'm input_model \<Rightarrow> headers \<Rightarrow> InputAdded list \<Rightarrow> u64 \<Rightarrow> 'm inputter \<Rightarrow>
   unit res \<times> u64 \<times> 'm inputter" where
  "deliver_inputs E add H [] currentBlock s = (Inr (), currentBlock, s)"
| "deliver_inputs E add H (event # es) currentBlock s =
     (let currentBlock' = ia_BlockNumber event - 1
      in case on_model (addInput E add H event) s of
           (Inl err, s') \<Rightarrow> (Inl err, currentBlock', s')
         | (Inr _, s') \<Rightarrow> deliver_inputs E add H es currentBlock' s')"

text \<open>The result is whether the worker has returned; without it waits for the next connection.\<close>

fun watchNewInputs_loop ::
  "ethlib \<Rightarrow> 'm input_model \<Rightarrow> input_connection list \<Rightarrow> u64 \<Rightarrow> ('m inputter, bool) comp" where
  "watchNewInputs_loop E add [] currentBlock s = (Inr False, s)"
| "watchNewInputs_loop E add (c # cs) currentBlock s =
     (case ReadPastInputs E add (ip_HeaderByHash c) (ip_FilterInputAdded c) currentBlock None s of
        (Inl err, s1) \<Rightarrow> if is_panic err then (Inl err, s1) else watchNewInputs_loop E add cs currentBlock s1
      | (Inr _, s1) \<Rightarrow> (case ip_WatchInputAdded c of
          Inl err \<Rightarrow> watchNewInputs_loop E add cs currentBlock s1
        | Inr _ \<Rightarrow> (case deliver_inputs E add (ip_HeaderByHash c) (ip_events c) currentBlock s1 of
            (Inl err, currentBlock', s2) \<Rightarrow>
              if is_panic err then (Inl err, s2)
              else (case ip_end c of
                  Cancelled cancelled \<Rightarrow> (Inl cancelled, s2)
                | _ \<Rightarrow> watchNewInputs_loop E add cs currentBlock' s2)
          | (Inr _, currentBlock', s2) \<Rightarrow> (case ip_end c of
              Cancelled err \<Rightarrow> (Inl err, s2)
            | SubscriptionError err \<Rightarrow> watchNewInputs_loop E add cs currentBlock' s2
            | SubscriptionClosed \<Rightarrow> (Inr True, s2)))))"

definition watchNewInputs ::
  "ethlib \<Rightarrow> 'm input_model \<Rightarrow> input_connection list \<Rightarrow> ('m inputter, bool) comp" where
  "watchNewInputs E add cs s = watchNewInputs_loop E add cs (iw_InputBoxBlock s) s"

definition InputterWorker_Start ::
  "unit res \<Rightarrow> unit res \<Rightarrow> ethlib \<Rightarrow> 'm input_model \<Rightarrow> input_connection list \<Rightarrow> ('m inputter, bool) comp" where
  "InputterWorker_Start DialContext NewInputBox E add cs =
     andThen (wrapErr ''inputter: dial'' (lift_res DialContext)) (\<lambda>_.
     andThen (wrapErr ''inputter: bind input box'' (lift_res NewInputBox)) (\<lambda>_.
     watchNewInputs E add cs))"

section \<open>The list of inputs\<close>

text \<open>The input that an event stands for, and what adding it means: a new index is appended.\<close>

definition event_input :: "ethlib \<Rightarrow> headers \<Rightarrow> InputAdded \<Rightarrow> AdvanceInput res" where
  "event_input E HeaderByHash event =
     rbind (case HeaderByHash (ia_BlockHash event) of
         Inl e \<Rightarrow> Inl (if is_panic e then e else EWrap ''inputter: failed to get tx header'' e)
       | Inr t \<Rightarrow> Inr t) (\<lambda>headerTime.
     rbind (slice_from 4 (ia_Input event)) (\<lambda>eventInput.
     rbind (UnpackEvmAdvance E eventInput) (\<lambda>values.
     Inr \<lparr>ai_Index = big_Int64 (ia_Index event), ai_Status = CompletionStatusUnprocessed,
       ai_MsgSender = ev_msgSender values, ai_Payload = ev_payload values,
       ai_BlockNumber = ia_BlockNumber event, ai_BlockTimestamp = time_Unix (sint headerTime),
       ai_PrevRandao = [], ai_AppContract = 0, ai_Vouchers = [], ai_Notices = [], ai_Reports = [],
       ai_Exception = []\<rparr>)))"

definition put_input :: "AdvanceInput \<Rightarrow> AdvanceInput list \<Rightarrow> AdvanceInput list" where
  "put_input x xs = (if \<exists>y \<in> set xs. ai_Index y = ai_Index x then xs else xs @ [x])"

definition add_input :: "'m input_model \<Rightarrow> AdvanceInput \<Rightarrow> ('m, unit) comp" where
  "add_input add x = add (ai_MsgSender x) (ai_Payload x) (ai_BlockNumber x) (ai_BlockTimestamp x) (ai_Index x)"

lemma addInput_event:
  "addInput E add H event = andThen (lift_res (event_input E H event)) (\<lambda>x. add_input add x)"
  by (rule ext)
    (auto simp: addInput_def event_input_def add_input_def Let_def andThen_apply wrapErr_apply rbind_def
      split: sum.splits prod.splits)

lemma put_input_same: "ai_Index x \<in> ai_Index ` set xs \<Longrightarrow> put_input x xs = xs"
  by (auto simp: put_input_def)

lemma put_inputs_extend: "\<exists>ys. foldl (\<lambda>xs x. put_input x xs) xs zs = xs @ ys \<and> set ys \<subseteq> set zs"
proof (induction zs arbitrary: xs)
  case (Cons z zs)
  obtain ys where y: "foldl (\<lambda>xs x. put_input x xs) (put_input z xs) zs = put_input z xs @ ys" "set ys \<subseteq> set zs"
    using Cons.IH by blast
  have "put_input z xs = xs @ (if \<exists>y \<in> set xs. ai_Index y = ai_Index z then [] else [z])"
    by (simp add: put_input_def)
  then obtain ws where "put_input z xs = xs @ ws" "set ws \<subseteq> {z}" by fastforce
  with y show ?case by (intro exI [of _ "ws @ ys"]) auto
qed simp

lemma put_inputs_indices:
  "ai_Index ` set (foldl (\<lambda>xs x. put_input x xs) xs zs) = ai_Index ` set xs \<union> ai_Index ` set zs"
proof (induction zs arbitrary: xs)
  case (Cons z zs)
  have "ai_Index ` set (put_input z xs) = insert (ai_Index z) (ai_Index ` set xs)"
    by (auto simp: put_input_def image_iff intro: sym)
  with Cons.IH [of "put_input z xs"] show ?case by auto
qed simp

lemma put_inputs_replay:
  "ai_Index ` set zs \<subseteq> ai_Index ` set xs \<Longrightarrow> foldl (\<lambda>xs x. put_input x xs) xs zs = xs"
  by (induction zs) (simp_all add: put_input_same)

text \<open>A model whose list only grew, by inputs of a source.\<close>

definition grows :: "(AdvanceInput list \<Rightarrow> 'm \<Rightarrow> bool) \<Rightarrow> AdvanceInput set \<Rightarrow> AdvanceInput list \<Rightarrow> 'm \<Rightarrow> bool" where
  "grows holds src xs m \<longleftrightarrow> (\<exists>ys. holds (xs @ ys) m \<and> set ys \<subseteq> src)"

text \<open>The source of a connection: the inputs that the events it may deliver stand for, all of which fit.\<close>

definition offers ::
  "(AdvanceInput \<Rightarrow> bool) \<Rightarrow> ethlib \<Rightarrow> AdvanceInput set \<Rightarrow> input_connection \<Rightarrow> bool" where
  "offers fits E src c \<longleftrightarrow> (\<forall>e. (e \<in> set (ip_events c) \<or> (\<exists>b es. ip_FilterInputAdded c b None = Inr es \<and> e \<in> set es)) \<longrightarrow>
     (\<forall>x. event_input E (ip_HeaderByHash c) e = Inr x \<longrightarrow> fits x \<and> x \<in> src))"

section \<open>The contract of the model\<close>

locale input_sink =
  fixes add :: "'m input_model" and holds :: "AdvanceInput list \<Rightarrow> 'm \<Rightarrow> bool" and fits :: "AdvanceInput \<Rightarrow> bool"
  assumes add_refines: "holds xs m \<Longrightarrow> fits x \<Longrightarrow>
      \<exists>m'. add_input add x m = (Inr (), m') \<and> holds (put_input x xs) m'"
    and add_stored: "holds xs m \<Longrightarrow> fits x \<Longrightarrow> ai_Index x \<in> ai_Index ` set xs \<Longrightarrow> add_input add x m = (Inr (), m)"
begin

text \<open>Reading events that decode appends the inputs whose indices are new.\<close>

lemma read_all:
  assumes "list_all2 (\<lambda>e x. event_input E H e = Inr x \<and> fits x) es zs" and "holds xs (iw_Model s)"
  shows "\<exists>s'. forEach (read_event E add H) es s = (Inr (), s') \<and>
    holds (foldl (\<lambda>xs x. put_input x xs) xs zs) (iw_Model s')"
  using assms
proof (induction es zs arbitrary: s xs rule: list_all2_induct)
  case Nil
  then show ?case by simp
next
  case (Cons e es z zs)
  then obtain m' where a: "add_input add z (iw_Model s) = (Inr (), m')" and h: "holds (put_input z xs) m'"
    using add_refines by blast
  have "read_event E add H e s = (Inr (), s\<lparr>iw_InputBoxBlock := ia_BlockNumber e - 1, iw_Model := m'\<rparr>)"
    using Cons.hyps a by (simp add: read_event_def on_model_def addInput_event andThen_apply)
  with Cons.IH [of "put_input z xs" "s\<lparr>iw_InputBoxBlock := ia_BlockNumber e - 1, iw_Model := m'\<rparr>"] h
  show ?case by (auto simp: andThen_apply)
qed

text \<open>Reading events whose indices are stored leaves the model.\<close>

lemma read_stored:
  assumes "list_all2 (\<lambda>e x. event_input E H e = Inr x \<and> fits x) es zs" and "holds xs (iw_Model s)"
    and "ai_Index ` set zs \<subseteq> ai_Index ` set xs"
  shows "\<exists>s'. forEach (read_event E add H) es s = (Inr (), s') \<and> iw_Model s' = iw_Model s"
  using assms
proof (induction es zs arbitrary: s rule: list_all2_induct)
  case Nil
  then show ?case by simp
next
  case (Cons e es z zs)
  then have a: "add_input add z (iw_Model s) = (Inr (), iw_Model s)"
    using add_stored by auto
  have "read_event E add H e s = (Inr (), s\<lparr>iw_InputBoxBlock := ia_BlockNumber e - 1\<rparr>)"
    using Cons.hyps a by (simp add: read_event_def on_model_def addInput_event andThen_apply)
  with Cons.IH [of "s\<lparr>iw_InputBoxBlock := ia_BlockNumber e - 1\<rparr>"] Cons.prems
  show ?case by (auto simp: andThen_apply)
qed

text \<open>A step, whether it decodes or not, leaves a list that only grows by inputs of events.\<close>

lemma add_grows:
  assumes "on_model (addInput E add H e) s = (r, s')" and "grows holds src xs (iw_Model s)"
    and "\<forall>x. event_input E H e = Inr x \<longrightarrow> fits x \<and> x \<in> src"
  shows "grows holds src xs (iw_Model s')"
proof (cases "event_input E H e")
  case (Inl err)
  with assms(1,2) show ?thesis by (auto simp: on_model_def addInput_event andThen_apply)
next
  case (Inr x)
  obtain ys where y: "holds (xs @ ys) (iw_Model s)" "set ys \<subseteq> src" using assms(2) by (auto simp: grows_def)
  have x: "fits x" "x \<in> src" using assms(3) Inr by auto
  obtain m' where m: "add_input add x (iw_Model s) = (Inr (), m')" "holds (put_input x (xs @ ys)) m'"
    using add_refines [OF y(1) x(1)] by blast
  have s': "iw_Model s' = m'"
    using assms(1) Inr m(1) by (auto simp: on_model_def addInput_event andThen_apply)
  have "\<exists>zs. put_input x (xs @ ys) = xs @ zs \<and> set zs \<subseteq> src"
    using x(2) y(2) by (auto simp: put_input_def)
  with m(2) s' show ?thesis by (auto simp: grows_def)
qed

lemma read_grows:
  assumes "forEach (read_event E add H) es s = (r, s')" and "grows holds src xs (iw_Model s)"
    and "\<forall>e \<in> set es. \<forall>x. event_input E H e = Inr x \<longrightarrow> fits x \<and> x \<in> src"
  shows "grows holds src xs (iw_Model s')"
  using assms
proof (induction es arbitrary: s)
  case Nil
  then show ?case by simp
next
  case (Cons e es)
  obtain r1 s1 where a: "read_event E add H e s = (r1, s1)" by fastforce
  have "grows holds src xs (iw_Model s1)"
    by (rule add_grows [OF a [unfolded read_event_def]]) (use Cons.prems in simp_all)
  with Cons.IH [of s1] Cons.prems a show ?case by (cases r1) (auto simp: andThen_apply)
qed

lemma deliver_grows:
  assumes "deliver_inputs E add H es cb s = (r, cb', s')" and "grows holds src xs (iw_Model s)"
    and "\<forall>e \<in> set es. \<forall>x. event_input E H e = Inr x \<longrightarrow> fits x \<and> x \<in> src"
  shows "grows holds src xs (iw_Model s')"
  using assms
proof (induction es arbitrary: s cb)
  case Nil
  then show ?case by simp
next
  case (Cons e es)
  obtain r1 s1 where a: "on_model (addInput E add H e) s = (r1, s1)" by fastforce
  have "grows holds src xs (iw_Model s1)"
    by (rule add_grows [OF a]) (use Cons.prems in simp_all)
  with Cons.IH [of "ia_BlockNumber e - 1" s1] Cons.prems a show ?case by (cases r1) (auto simp: Let_def)
qed

lemma watch_grows:
  assumes "watchNewInputs_loop E add cs cb s = (r, s')" and "grows holds src xs (iw_Model s)"
    and "\<forall>c \<in> set cs. offers fits E src c"
  shows "grows holds src xs (iw_Model s')"
  using assms
proof (induction cs arbitrary: cb s)
  case Nil
  then show ?case by simp
next
  case (Cons c cs)
  note off = Cons.prems(3)
  have events: "\<forall>e \<in> set (ip_events c). \<forall>x. event_input E (ip_HeaderByHash c) e = Inr x \<longrightarrow> fits x \<and> x \<in> src"
    using off by (auto simp: offers_def)
  obtain r1 s1 where p: "ReadPastInputs E add (ip_HeaderByHash c) (ip_FilterInputAdded c) cb None s = (r1, s1)"
    by fastforce
  have g1: "grows holds src xs (iw_Model s1)"
  proof (cases "ip_FilterInputAdded c cb None")
    case (Inl e)
    with p Cons.prems(2) show ?thesis
      by (auto simp: ReadPastInputs_def andThen_apply wrapErr_apply)
  next
    case (Inr es)
    then have "forEach (read_event E add (ip_HeaderByHash c)) es s = (r1, s1)"
      using p by (simp add: ReadPastInputs_def andThen_apply wrapErr_apply)
    from read_grows [OF this Cons.prems(2)] off Inr show ?thesis by (fastforce simp: offers_def)
  qed
  obtain r2 cb2 s2 where d: "deliver_inputs E add (ip_HeaderByHash c) (ip_events c) cb s1 = (r2, cb2, s2)"
    using prod_cases3 by blast
  note g2 = deliver_grows [OF d g1 events]
  have "\<exists>cb' s0. grows holds src xs (iw_Model s0) \<and> (s' = s0 \<or> watchNewInputs_loop E add cs cb' s0 = (r, s'))"
    using Cons.prems(1) p d g1 g2
    by (auto split: sum.splits watch_end.splits if_splits)
  with Cons.IH off show ?case by auto
qed

end

section \<open>The node as the model\<close>

text \<open>Inputs with distinct indices in range, and a store that answers.\<close>

definition input_fits :: "AdvanceInput \<Rightarrow> bool" where
  "input_fits x \<longleftrightarrow> 0 \<le> ai_Index x \<and> ai_Index x < 2 ^ 63 - 1 \<and> unat (ai_BlockNumber x) < 2 ^ 63 \<and>
     ai_Status x = CompletionStatusUnprocessed \<and> ai_PrevRandao x = [] \<and> ai_AppContract x = 0 \<and>
     ai_Vouchers x = [] \<and> ai_Notices x = [] \<and> ai_Reports x = [] \<and> ai_Exception x = []"

definition node_inputs :: "ethlib \<Rightarrow> AdvanceInput list \<Rightarrow> NonodoModel \<Rightarrow> bool" where
  "node_inputs E xs m \<longleftrightarrow> eth_laws E \<and> inputs_in E xs (nm_db m) \<and> distinct (map ai_Index xs) \<and>
     ai_Index ` set xs \<subseteq> {0 ..< 2 ^ 63 - 1}"

lemma node_inputs_length:
  assumes "distinct (map ai_Index xs)" and "ai_Index ` set xs \<subseteq> {0 ..< 2 ^ 63 - 1 :: int}"
  shows "length xs < 2 ^ 63"
proof -
  have "length xs = card (ai_Index ` set xs)"
    using distinct_card [OF assms(1)] by simp
  also have "\<dots> \<le> card {0 ..< 2 ^ 63 - 1 :: int}"
    by (rule card_mono [OF _ assms(2)]) simp
  also have "\<dots> < 2 ^ 63" by simp
  finally show ?thesis .
qed

lemma AddAdvanceInput_refines:
  assumes "node_inputs E xs m" and "input_fits x"
  shows "\<exists>m'. add_input (AddAdvanceInput E) x m = (Inr (), m') \<and> node_inputs E (put_input x xs) m' \<and>
    (ai_Index x \<in> ai_Index ` set xs \<longrightarrow> m' = m)"
proof -
  let ?d = "nm_db m"
  have x: "\<lparr>ai_Index = ai_Index x, ai_Status = CompletionStatusUnprocessed, ai_MsgSender = ai_MsgSender x,
      ai_Payload = ai_Payload x, ai_BlockNumber = ai_BlockNumber x, ai_BlockTimestamp = ai_BlockTimestamp x,
      ai_PrevRandao = [], ai_AppContract = 0, ai_Vouchers = [], ai_Notices = [], ai_Reports = [],
      ai_Exception = []\<rparr> = x"
    using assms(2) by (simp add: input_fits_def)
  have sm: "input_small x"
    using assms(2) by (simp add: input_fits_def input_small_def CompletionStatusUnprocessed_def)
  have ins: "inputs_in E xs ?d" using assms(1) by (simp add: node_inputs_def)
  then have tab: "db_committed ?d ''convenience_inputs'' = Some (inputs_table E xs)" by (simp add: inputs_in_def)
  note create = InputCreate_ok [where ctx = NoTx and ts = "db_committed ?d", OF ins _ sm tab]
  show ?thesis
  proof (cases "find (\<lambda>y. ai_Index y = ai_Index x) xs")
    case (Some y)
    then have "y \<in> set xs" "ai_Index y = ai_Index x" by (auto simp: find_Some_iff)
    then have st: "ai_Index x \<in> ai_Index ` set xs" using imageI [of y "set xs" ai_Index] by simp
    have "add_input (AddAdvanceInput E) x m = (Inr (), m)"
      using create Some by (simp add: add_input_def AddAdvanceInput_def x on_nm_def andThen_apply target_def)
    with st assms(1) show ?thesis by (auto simp: put_input_same)
  next
    case None
    then have new: "ai_Index x \<notin> ai_Index ` set xs" by (auto simp: find_None_iff)
    let ?d' = "?d\<lparr>db_committed := (db_committed ?d)(''convenience_inputs'' \<mapsto> inputs_table E (xs @ [x]))\<rparr>"
    have p: "put_input x xs = xs @ [x]" using None by (simp add: put_input_def find_None_iff)
    have d: "distinct (map ai_Index (xs @ [x]))" "ai_Index ` set (xs @ [x]) \<subseteq> {0 ..< 2 ^ 63 - 1}"
      using assms new by (auto simp: node_inputs_def input_fits_def)
    have "node_inputs E (xs @ [x]) (m\<lparr>nm_db := ?d'\<rparr>)"
      using assms(1) sm d node_inputs_length [OF d] by (simp add: node_inputs_def inputs_in_def)
    moreover have "add_input (AddAdvanceInput E) x m = (Inr (), m\<lparr>nm_db := ?d'\<rparr>)"
      using create None by (simp add: add_input_def AddAdvanceInput_def x on_nm_def andThen_apply target_def set_target_def)
    ultimately show ?thesis using p new by simp
  qed
qed

interpretation node_sink: input_sink "AddAdvanceInput E" "node_inputs E" input_fits for E
  by unfold_locales (use AddAdvanceInput_refines in \<open>blast, fastforce\<close>)

end
