(* ===== verification/Wiring.thy ===== *)
theory Wiring
  imports VoucherSync ExecListener Inputter RollupApi InputLaws
begin

text \<open>
  \<open>internal/convenience/container.go\<close>, \<open>internal/nonodo/nonodo.go\<close> and \<open>internal/health/health.go\<close>: the
  container that creates the components on demand, with the tables of the repositories, and the
  two functions that choose the workers of the process from its options. Connecting to a
  database, the environment, the URL parser and the installation of anvil are parameters.
\<close>

section \<open>The container\<close>

text \<open>\<open>url.URL\<close>: the host with its port, and the rest. \<open>Port\<close> is what follows the last colon when that is digits.\<close>

record url =
  url_Host :: string
  url_rest :: string

definition url_Port :: "url \<Rightarrow> string" where
  "url_Port u = (let h = url_Host u; p = rev (takeWhile (\<lambda>c. c \<noteq> CHR '':'') (rev h))
     in if CHR '':'' \<in> set h \<and> set p \<subseteq> set ''0123456789'' then p else [])"

text \<open>Which components exist. The client is created for the first URL that is asked for.\<close>

record Container =
  ct_outputDecoder :: bool
  ct_convenienceService :: bool
  ct_repository :: bool
  ct_syncRepository :: bool
  ct_graphQLSynchronizer :: bool
  ct_voucherFetcher :: "VoucherFetcher option"
  ct_noticeRepository :: bool
  ct_graphileFetcher :: "GraphileFetcher option"
  ct_graphileSynchronizer :: bool
  ct_graphileClient :: "url option"
  ct_inputRepository :: bool
  ct_reportRepository :: bool

record cstate =
  cs_driver :: string
  cs_container :: Container
  cs_db :: db

definition NewContainer :: "string \<Rightarrow> db \<Rightarrow> cstate" where
  "NewContainer driver d = \<lparr>cs_driver = driver, cs_container =
     \<lparr>ct_outputDecoder = False, ct_convenienceService = False, ct_repository = False,
      ct_syncRepository = False, ct_graphQLSynchronizer = False, ct_voucherFetcher = None,
      ct_noticeRepository = False, ct_graphileFetcher = None, ct_graphileSynchronizer = False,
      ct_graphileClient = None, ct_inputRepository = False, ct_reportRepository = False\<rparr>, cs_db = d\<rparr>"

text \<open>
  A repository is remembered before its tables are created; an error of the creation is a panic.
\<close>

definition create_tables :: "(db, unit) comp \<Rightarrow> (cstate, unit) comp" where
  "create_tables CreateTables s = (case CreateTables (cs_db s) of
      (Inl err, d) \<Rightarrow> (Inl (EPanic (err_text err)), s\<lparr>cs_db := d\<rparr>)
    | (Inr _, d) \<Rightarrow> (Inr (), s\<lparr>cs_db := d\<rparr>))"

definition GetRepository :: "(cstate, unit) comp" where
  "GetRepository s =
     (if ct_repository (cs_container s) then (Inr (), s)
      else create_tables VoucherRepository_CreateTables
        (s\<lparr>cs_container := (cs_container s)\<lparr>ct_repository := True\<rparr>\<rparr>))"

definition GetSyncRepository :: "(cstate, unit) comp" where
  "GetSyncRepository s =
     (if ct_syncRepository (cs_container s) then (Inr (), s)
      else create_tables (SynchronizerRepository_CreateTables (cs_driver s))
        (s\<lparr>cs_container := (cs_container s)\<lparr>ct_syncRepository := True\<rparr>\<rparr>))"

definition GetNoticeRepository :: "(cstate, unit) comp" where
  "GetNoticeRepository s =
     (if ct_noticeRepository (cs_container s) then (Inr (), s)
      else create_tables NoticeRepository_CreateTables
        (s\<lparr>cs_container := (cs_container s)\<lparr>ct_noticeRepository := True\<rparr>\<rparr>))"

definition GetInputRepository :: "(cstate, unit) comp" where
  "GetInputRepository s =
     (if ct_inputRepository (cs_container s) then (Inr (), s)
      else create_tables (InputRepository_CreateTables (cs_driver s))
        (s\<lparr>cs_container := (cs_container s)\<lparr>ct_inputRepository := True\<rparr>\<rparr>))"

definition GetReportRepository :: "(cstate, unit) comp" where
  "GetReportRepository s =
     (if ct_reportRepository (cs_container s) then (Inr (), s)
      else create_tables ReportRepository_CreateTables
        (s\<lparr>cs_container := (cs_container s)\<lparr>ct_reportRepository := True\<rparr>\<rparr>))"

definition GetConvenienceService :: "(cstate, unit) comp" where
  "GetConvenienceService s =
     (if ct_convenienceService (cs_container s) then (Inr (), s)
      else andThen GetRepository (\<lambda>_. andThen GetNoticeRepository (\<lambda>_. andThen GetInputRepository (\<lambda>_.
        andThen GetReportRepository (\<lambda>_ s.
        (Inr (), s\<lparr>cs_container := (cs_container s)\<lparr>ct_convenienceService := True\<rparr>\<rparr>))))) s)"

definition GetOutputDecoder :: "(cstate, unit) comp" where
  "GetOutputDecoder s =
     (if ct_outputDecoder (cs_container s) then (Inr (), s)
      else andThen GetConvenienceService (\<lambda>_ s.
        (Inr (), s\<lparr>cs_container := (cs_container s)\<lparr>ct_outputDecoder := True\<rparr>\<rparr>)) s)"

definition GetVoucherFetcher :: "(cstate, VoucherFetcher) comp" where
  "GetVoucherFetcher s = (case ct_voucherFetcher (cs_container s) of
      Some f \<Rightarrow> (Inr f, s)
    | None \<Rightarrow> (Inr NewVoucherFetcher,
        s\<lparr>cs_container := (cs_container s)\<lparr>ct_voucherFetcher := Some NewVoucherFetcher\<rparr>\<rparr>))"

definition GetGraphQLSynchronizer :: "(cstate, unit) comp" where
  "GetGraphQLSynchronizer s =
     (if ct_graphQLSynchronizer (cs_container s) then (Inr (), s)
      else andThen GetOutputDecoder (\<lambda>_. andThen GetVoucherFetcher (\<lambda>_. andThen GetSyncRepository (\<lambda>_ s.
        (Inr (), s\<lparr>cs_container := (cs_container s)\<lparr>ct_graphQLSynchronizer := True\<rparr>\<rparr>)))) s)"

definition GetGraphileClient :: "url \<Rightarrow> bool \<Rightarrow> (cstate, url) comp" where
  "GetGraphileClient graphileUrl loadTestMode s = (case ct_graphileClient (cs_container s) of
      Some u \<Rightarrow> (Inr u, s)
    | None \<Rightarrow>
        (let serviceName = ''http://postgraphile'';
             u = (if loadTestMode then
                    (if url_Port graphileUrl \<noteq> [] then
                       graphileUrl\<lparr>url_Host := serviceName @ '':'' @ url_Port graphileUrl\<rparr>
                     else graphileUrl\<lparr>url_Host := serviceName\<rparr>)
                  else graphileUrl)
         in (Inr u, s\<lparr>cs_container := (cs_container s)\<lparr>ct_graphileClient := Some u\<rparr>\<rparr>)))"

definition GetGraphileFetcher :: "url \<Rightarrow> (cstate, GraphileFetcher) comp" where
  "GetGraphileFetcher graphileClient s = (case ct_graphileFetcher (cs_container s) of
      Some f \<Rightarrow> (Inr f, s)
    | None \<Rightarrow> (Inr NewGraphileFetcher,
        s\<lparr>cs_container := (cs_container s)\<lparr>ct_graphileFetcher := Some NewGraphileFetcher\<rparr>\<rparr>))"

definition GetGraphileSynchronizer :: "url \<Rightarrow> bool \<Rightarrow> (cstate, unit) comp" where
  "GetGraphileSynchronizer graphileUrl loadTestMode s =
     (if ct_graphileSynchronizer (cs_container s) then (Inr (), s)
      else andThen (GetGraphileClient graphileUrl loadTestMode) (\<lambda>graphileClient.
        andThen GetOutputDecoder (\<lambda>_. andThen GetSyncRepository (\<lambda>_.
        andThen (GetGraphileFetcher graphileClient) (\<lambda>_ s.
        (Inr (), s\<lparr>cs_container := (cs_container s)\<lparr>ct_graphileSynchronizer := True\<rparr>\<rparr>))))) s)"

section \<open>The options and the workers\<close>

record NonodoOpts =
  op_AnvilAddress :: string
  op_AnvilPort :: int
  op_AnvilVerbose :: bool
  op_HttpAddress :: string
  op_HttpPort :: int
  op_HttpRollupsPort :: int
  op_InputBoxAddress :: string
  op_InputBoxBlock :: u64
  op_ApplicationAddress :: string
  op_RpcUrl :: string
  op_EspressoUrl :: string
  op_EnableEcho :: bool
  op_DisableDevnet :: bool
  op_DisableAdvance :: bool
  op_ApplicationArgs :: "string list"
  op_HLGraphQL :: bool
  op_SqliteFile :: string
  op_FromBlock :: u64
  op_DbImplementation :: string
  op_NodeVersion :: string
  op_LoadTestMode :: bool
  op_Sequencer :: string
  op_Namespace :: u64
  op_TimeoutInspect :: int
  op_TimeoutAdvance :: int
  op_GraphileUrl :: string
  op_GraphileDisableSync :: bool

definition DefaultHttpPort :: int where "DefaultHttpPort = 8080"
definition DefaultRollupsPort :: int where "DefaultRollupsPort = 5004"
definition DefaultNamespace :: u64 where "DefaultNamespace = 10008"

record host_env =
  he_Getenv :: "string \<Rightarrow> string"
  he_url_Parse :: "string \<Rightarrow> url res"
  he_Connect :: "string \<Rightarrow> string \<Rightarrow> db res"
  he_InstallAnvil :: "string res"

text \<open>The constants of \<open>internal/devnet\<close>.\<close>

definition AnvilDefaultAddress :: string where "AnvilDefaultAddress = ''127.0.0.1''"
definition AnvilDefaultPort :: int where "AnvilDefaultPort = 8545"
definition devnet_InputBoxAddress :: string where
  "devnet_InputBoxAddress = ''0x58Df21fE097d4bE5dCf61e01d9ea3f6B81c2E1dB''"
definition devnet_ApplicationAddress :: string where
  "devnet_ApplicationAddress = ''0xab7528bb862fb57e8a2bcd567a2e929a0be56a5e''"

definition NewNonodoOpts :: "host_env \<Rightarrow> NonodoOpts" where
  "NewNonodoOpts H =
     (let defaultTimeout = 10 * 1000000000;
          defaultGraphileUrl = ''http://localhost:5001/graphql'';
          url1 = (if he_Getenv H ''GRAPHILE_URL'' = [] then defaultGraphileUrl else he_Getenv H ''GRAPHILE_URL'');
          graphileUrl = (case he_url_Parse H url1 of Inl err \<Rightarrow> defaultGraphileUrl | Inr _ \<Rightarrow> url1)
      in \<lparr>op_AnvilAddress = AnvilDefaultAddress, op_AnvilPort = AnvilDefaultPort,
          op_AnvilVerbose = False, op_HttpAddress = ''127.0.0.1'', op_HttpPort = DefaultHttpPort,
          op_HttpRollupsPort = DefaultRollupsPort, op_InputBoxAddress = devnet_InputBoxAddress,
          op_InputBoxBlock = 0, op_ApplicationAddress = devnet_ApplicationAddress, op_RpcUrl = [],
          op_EspressoUrl = ''https://query.cappuccino.testnet.espresso.network'', op_EnableEcho = False,
          op_DisableDevnet = False, op_DisableAdvance = False, op_ApplicationArgs = [], op_HLGraphQL = False,
          op_SqliteFile = ''file:memory1?mode=memory&cache=shared'', op_FromBlock = 0,
          op_DbImplementation = ''sqlite'', op_NodeVersion = ''v1'', op_LoadTestMode = False,
          op_Sequencer = ''inputbox'', op_Namespace = DefaultNamespace,
          op_TimeoutInspect = defaultTimeout, op_TimeoutAdvance = defaultTimeout,
          op_GraphileUrl = graphileUrl, op_GraphileDisableSync = False\<rparr>)"

datatype adapter_choice = UseAdapterV1 | UseAdapterV2 url
datatype http_handler = PublicApi adapter_choice | RollupServerApi bool

text \<open>\<open>RollupServerApi b\<close> is the rollup API with (\<open>b\<close>) or without a sequencer.\<close>

datatype worker =
    AnvilWorker string int bool string
  | GraphQLSynchronizerWorker
  | GraphileSynchronizerWorker
  | ExecListenerWorker string address int
  | InputterWorkerOf string address u64 address
  | HttpWorker string http_handler
  | CommandWorker string "string list" "string list"
  | EchoWorker string

definition ws_url :: "NonodoOpts \<Rightarrow> string" where
  "ws_url opts = ''ws://'' @ op_AnvilAddress opts @ '':'' @ itoa (op_AnvilPort opts)"

definition MustConnect :: "host_env \<Rightarrow> string \<Rightarrow> string \<Rightarrow> db res" where
  "MustConnect H driver source = (case he_Connect H driver source of
      Inl err \<Rightarrow> Inl (EPanic (err_text err)) | Inr d \<Rightarrow> Inr d)"

definition or_panic :: "'a res \<Rightarrow> 'a res" where
  "or_panic r = (case r of Inl err \<Rightarrow> Inl (EPanic (err_text err)) | Inr x \<Rightarrow> Inr x)"

definition anvil_worker :: "host_env \<Rightarrow> NonodoOpts \<Rightarrow> (worker list \<times> NonodoOpts) res" where
  "anvil_worker H opts =
     (if op_RpcUrl opts = [] \<and> \<not> op_DisableDevnet opts then
        rbind (or_panic (he_InstallAnvil H)) (\<lambda>anvilLocation.
        Inr ([AnvilWorker (op_AnvilAddress opts) (op_AnvilPort opts) (op_AnvilVerbose opts) anvilLocation],
          opts\<lparr>op_RpcUrl := ws_url opts\<rparr>))
      else Inr ([], opts))"

definition choose_adapter :: "host_env \<Rightarrow> NonodoOpts \<Rightarrow> (cstate, adapter_choice) comp" where
  "choose_adapter H opts =
     (if op_NodeVersion opts = ''v1'' then ret UseAdapterV1
      else andThen (lift_res (or_panic (he_url_Parse H (op_GraphileUrl opts)))) (\<lambda>graphileUrl.
        andThen (GetGraphileClient graphileUrl (op_LoadTestMode opts)) (\<lambda>httpClient.
        ret (UseAdapterV2 httpClient))))"

definition sync_workers :: "ethlib \<Rightarrow> host_env \<Rightarrow> NonodoOpts \<Rightarrow> (cstate, worker list) comp" where
  "sync_workers E H opts =
     (if \<not> op_LoadTestMode opts \<and> \<not> op_GraphileDisableSync opts then
        andThen (if op_NodeVersion opts = ''v2'' then
            andThen (lift_res (or_panic (he_url_Parse H (op_GraphileUrl opts)))) (\<lambda>graphileUrl.
            andThen (GetGraphileSynchronizer graphileUrl (op_LoadTestMode opts)) (\<lambda>_.
            ret GraphileSynchronizerWorker))
          else andThen GetGraphQLSynchronizer (\<lambda>_. ret GraphQLSynchronizerWorker)) (\<lambda>synchronizer.
        let RpcUrl = ws_url opts;
            fromBlock = uint (op_FromBlock opts)
        in ret [synchronizer, ExecListenerWorker RpcUrl (HexToAddress E (op_ApplicationAddress opts)) fromBlock])
      else ret [])"

definition http_address :: "NonodoOpts \<Rightarrow> int \<Rightarrow> string" where
  "http_address opts port = op_HttpAddress opts @ '':'' @ itoa port"

definition NewSupervisorHLGraphQL :: "ethlib \<Rightarrow> host_env \<Rightarrow> NonodoOpts \<Rightarrow> worker list res" where
  "NewSupervisorHLGraphQL E H opts =
     rbind (if op_DbImplementation opts = ''postgres'' then
         (let connectionString = ''host='' @ he_Getenv H ''POSTGRES_HOST'' @ '' port='' @ he_Getenv H ''POSTGRES_PORT'' @
            '' user='' @ he_Getenv H ''POSTGRES_USER'' @ '' dbname='' @ he_Getenv H ''POSTGRES_DB'' @
            '' password='' @ he_Getenv H ''POSTGRES_PASSWORD'' @ '' sslmode=disable''
          in rbind (MustConnect H ''postgres'' connectionString) (\<lambda>d. Inr (NewContainer ''postgres'' d)))
       else rbind (MustConnect H ''sqlite3'' (op_SqliteFile opts)) (\<lambda>d. Inr (NewContainer ''sqlite3'' d)))
     (\<lambda>container.
     fst (andThen GetOutputDecoder (\<lambda>_. andThen GetConvenienceService (\<lambda>_.
       andThen (choose_adapter H opts) (\<lambda>adapter.
       andThen (lift_res (anvil_worker H opts)) (\<lambda>(anvil, opts').
       andThen (sync_workers E H opts') (\<lambda>sync.
       andThen GetReportRepository (\<lambda>_. andThen GetInputRepository (\<lambda>_.
       ret (anvil @ sync @ [HttpWorker (http_address opts' (op_HttpPort opts')) (PublicApi adapter)]))))))))
       container))"

definition input_workers :: "ethlib \<Rightarrow> NonodoOpts \<Rightarrow> (worker list \<times> bool) res" where
  "input_workers E opts =
     (if \<not> op_DisableAdvance opts then
        (if op_Sequencer opts = ''inputbox'' then
           Inr ([InputterWorkerOf (op_RpcUrl opts) (HexToAddress E (op_InputBoxAddress opts)) (op_InputBoxBlock opts)
             (HexToAddress E (op_ApplicationAddress opts))], True)
         else Inl (EPanic ''sequencer not supported''))
      else Inr ([], False))"

definition app_workers :: "NonodoOpts \<Rightarrow> worker list" where
  "app_workers opts =
     (let endpoint = ''http://'' @ op_HttpAddress opts @ '':'' @ itoa (op_HttpRollupsPort opts)
      in case op_ApplicationArgs opts of
           command # args \<Rightarrow> [CommandWorker command args [''ROLLUP_HTTP_SERVER_URL='' @ endpoint]]
         | [] \<Rightarrow> if op_EnableEcho opts then [EchoWorker endpoint] else [])"

definition NewSupervisor :: "ethlib \<Rightarrow> host_env \<Rightarrow> NonodoOpts \<Rightarrow> worker list res" where
  "NewSupervisor E H opts =
     rbind (MustConnect H ''sqlite3'' (op_SqliteFile opts)) (\<lambda>d.
     fst (andThen GetOutputDecoder (\<lambda>_. andThen GetConvenienceService (\<lambda>_.
       andThen GetReportRepository (\<lambda>_. andThen GetInputRepository (\<lambda>_.
       andThen (lift_res (anvil_worker H opts)) (\<lambda>(anvil, opts').
       andThen (lift_res (input_workers E opts')) (\<lambda>(inputs, sequencer).
       ret (anvil @ inputs @
         [HttpWorker (http_address opts' (op_HttpRollupsPort opts')) (RollupServerApi sequencer),
          HttpWorker (http_address opts' (op_HttpPort opts')) (PublicApi UseAdapterV1)] @
         app_workers opts')))))))
       (NewContainer ''sqlite3'' d)))"

text \<open>The health handler.\<close>

definition health_handler :: "unit response" where
  "health_handler = RString 200 ''Ok''"

section \<open>What the container makes of an empty database\<close>

lemma create_tables_ok: "C (cs_db s) = (Inr (), d) \<Longrightarrow> create_tables C s = (Inr (), s\<lparr>cs_db := d\<rparr>)"
  by (simp add: create_tables_def)

definition service_tables :: "ethlib \<Rightarrow> tables \<Rightarrow> tables" where
  "service_tables E ts = ts(''convenience_vouchers'' \<mapsto> vouchers_table E [],
     ''convenience_notices'' \<mapsto> notices_table E [], ''convenience_inputs'' \<mapsto> inputs_table E [],
     ''convenience_reports'' \<mapsto> reports_table E [])"

definition fresh_db :: "db \<Rightarrow> bool" where
  "fresh_db d \<longleftrightarrow> db_faults d = [] \<and> (\<forall>t \<in> {''convenience_vouchers'', ''convenience_notices'',
     ''convenience_inputs'', ''convenience_reports'', ''synchronizer_fetch''}. db_committed d t = None)"

lemmas getters = GetRepository_def GetNoticeRepository_def GetInputRepository_def GetReportRepository_def
  GetConvenienceService_def GetOutputDecoder_def

definition with_service :: "ethlib \<Rightarrow> cstate \<Rightarrow> cstate" where
  "with_service E s = s\<lparr>cs_container := (cs_container s)\<lparr>ct_outputDecoder := True, ct_convenienceService := True,
     ct_repository := True, ct_noticeRepository := True, ct_inputRepository := True, ct_reportRepository := True\<rparr>,
     cs_db := (cs_db s)\<lparr>db_committed := service_tables E (db_committed (cs_db s))\<rparr>\<rparr>"

lemma GetOutputDecoder_fresh:
  assumes "fresh_db d"
  shows "GetOutputDecoder (NewContainer drv d) = (Inr (), with_service E (NewContainer drv d))"
  using assms
  by (simp add: fresh_db_def getters NewContainer_def andThen_apply create_tables_def
      VoucherRepository_CreateTables_ok [of _ E] NoticeRepository_CreateTables_ok [of _ E]
      InputRepository_CreateTables_ok [of _ _ E] ReportRepository_CreateTables_ok [of _ E] service_tables_def
      with_service_def)

lemma with_service_again:
  "GetOutputDecoder (with_service E s) = (Inr (), with_service E s)"
  "GetConvenienceService (with_service E s) = (Inr (), with_service E s)"
  by (simp_all add: with_service_def GetOutputDecoder_def GetConvenienceService_def)

definition with_sync :: "cstate \<Rightarrow> cstate" where
  "with_sync s = s\<lparr>cs_container := (cs_container s)\<lparr>ct_graphQLSynchronizer := True,
     ct_voucherFetcher := Some NewVoucherFetcher, ct_syncRepository := True\<rparr>,
     cs_db := (cs_db s)\<lparr>db_committed := (db_committed (cs_db s))(''synchronizer_fetch'' \<mapsto> fetches_table [])\<rparr>\<rparr>"

lemma GetGraphQLSynchronizer_service:
  assumes "fresh_db d"
  shows "GetGraphQLSynchronizer (with_service E (NewContainer drv d)) =
    (Inr (), with_sync (with_service E (NewContainer drv d)))"
  using assms
  by (simp add: GetGraphQLSynchronizer_def andThen_apply with_service_again GetVoucherFetcher_def GetSyncRepository_def
      create_tables_def with_service_def NewContainer_def SynchronizerRepository_CreateTables_ok fresh_db_def
      service_tables_def with_sync_def GetOutputDecoder_def)

lemma GetGraphQLSynchronizer_fresh:
  assumes "fresh_db d"
  shows "GetGraphQLSynchronizer (NewContainer drv d) = (Inr (), with_sync (with_service E (NewContainer drv d)))"
proof -
  let ?c = "NewContainer drv d"
  have "\<not> ct_graphQLSynchronizer (cs_container ?c)" "\<not> ct_graphQLSynchronizer (cs_container (with_service E ?c))"
    by (simp_all add: NewContainer_def with_service_def)
  then show ?thesis
    using GetGraphQLSynchronizer_service [OF assms, of E drv]
    by (simp add: GetGraphQLSynchronizer_def andThen_apply GetOutputDecoder_fresh [OF assms, of _ E]
        with_service_again)
qed

lemma with_sync_again: "GetGraphQLSynchronizer (with_sync s) = (Inr (), with_sync s)"
  by (simp add: GetGraphQLSynchronizer_def with_sync_def)

text \<open>The tables start out empty and well-formed: the invariants of the repositories hold.\<close>

lemma fresh_tables:
  assumes "fresh_db d"
  shows "vouchers_in E [] (cs_db (with_sync (with_service E (NewContainer drv d))))"
    and "notices_in E [] (cs_db (with_sync (with_service E (NewContainer drv d))))"
    and "inputs_in E [] (cs_db (with_sync (with_service E (NewContainer drv d))))"
    and "reports_in E [] (cs_db (with_sync (with_service E (NewContainer drv d))))"
    and "fetches_in [] (cs_db (with_sync (with_service E (NewContainer drv d))))"
  using assms
  by (simp_all add: vouchers_in_def notices_in_def inputs_in_def reports_in_def fetches_in_def service_tables_def
      fresh_db_def with_sync_def with_service_def NewContainer_def)

section \<open>The workers of the high-level GraphQL server\<close>

text \<open>
  The listener is always pointed at anvil's address, whatever \<open>RpcUrl\<close> the options name, although
  anvil is only started without an \<open>RpcUrl\<close>.
\<close>

lemma sync_workers_provider:
  assumes "sync_workers E H opts s = (Inr ws, s')"
  shows "ExecListenerWorker provider app from \<in> set ws \<Longrightarrow> provider = ws_url opts"
    and "AnvilWorker a p v l \<notin> set ws"
  using assms by (auto simp: sync_workers_def Let_def andThen_apply split: if_splits sum.splits prod.splits)

lemma anvil_worker_fields:
  assumes "anvil_worker H opts = Inr (ws, opts')"
  shows "ws_url opts' = ws_url opts" "op_RpcUrl opts \<noteq> [] \<Longrightarrow> ws = []"
    and "ExecListenerWorker provider app from \<notin> set ws"
  using assms by (auto simp: anvil_worker_def rbind_Inr_iff ws_url_def split: if_splits)

lemma NewSupervisorHLGraphQL_workers:
  assumes "NewSupervisorHLGraphQL E H opts = Inr ws"
  obtains anvil opts' sync s s' adapter where "anvil_worker H opts = Inr (anvil, opts')"
    and "sync_workers E H opts' s = (Inr sync, s')"
    and "ws = anvil @ sync @ [HttpWorker (http_address opts' (op_HttpPort opts')) (PublicApi adapter)]"
proof -
  obtain container where "fst (andThen GetOutputDecoder (\<lambda>_. andThen GetConvenienceService (\<lambda>_.
       andThen (choose_adapter H opts) (\<lambda>adapter.
       andThen (lift_res (anvil_worker H opts)) (\<lambda>(anvil, opts').
       andThen (sync_workers E H opts') (\<lambda>sync.
       andThen GetReportRepository (\<lambda>_. andThen GetInputRepository (\<lambda>_.
       ret (anvil @ sync @ [HttpWorker (http_address opts' (op_HttpPort opts')) (PublicApi adapter)]))))))))
       container) = Inr ws"
    using assms(1) unfolding NewSupervisorHLGraphQL_def rbind_Inr_iff by blast
  then show ?thesis using that by (auto simp: andThen_apply split: sum.splits prod.splits)
qed

lemma NewSupervisorHLGraphQL_provider:
  assumes "NewSupervisorHLGraphQL E H opts = Inr ws"
  shows "ExecListenerWorker provider app from \<in> set ws \<Longrightarrow> provider = ws_url opts"
    and "op_RpcUrl opts \<noteq> [] \<Longrightarrow> AnvilWorker a p v l \<notin> set ws"
proof -
  from NewSupervisorHLGraphQL_workers [OF assms] obtain anvil opts' sync s s' adapter where
    a: "anvil_worker H opts = Inr (anvil, opts')" and w: "sync_workers E H opts' s = (Inr sync, s')"
    and ws: "ws = anvil @ sync @ [HttpWorker (http_address opts' (op_HttpPort opts')) (PublicApi adapter)]" .
  show "provider = ws_url opts" if "ExecListenerWorker provider app from \<in> set ws"
    using that anvil_worker_fields(1,3) [OF a] sync_workers_provider(1) [OF w] ws by auto
  show "AnvilWorker a p v l \<notin> set ws" if "op_RpcUrl opts \<noteq> []"
    using that anvil_worker_fields(2) [OF a] sync_workers_provider(2) [OF w] ws by auto
qed

lemma NewSupervisorHLGraphQL_v1:
  assumes "he_Connect H ''sqlite3'' (op_SqliteFile opts) = Inr d" and "fresh_db d"
    and "op_DbImplementation opts = ''sqlite''" and "op_NodeVersion opts = ''v1''" and "op_RpcUrl opts \<noteq> []"
    and "\<not> op_LoadTestMode opts" and "\<not> op_GraphileDisableSync opts"
  shows "NewSupervisorHLGraphQL E H opts = Inr [GraphQLSynchronizerWorker,
    ExecListenerWorker (ws_url opts) (HexToAddress E (op_ApplicationAddress opts)) (uint (op_FromBlock opts)),
    HttpWorker (http_address opts (op_HttpPort opts)) (PublicApi UseAdapterV1)]"
proof -
  let ?s = "with_service E (NewContainer ''sqlite3'' d)"
  have r: "GetReportRepository (with_sync ?s) = (Inr (), with_sync ?s)"
    "GetInputRepository (with_sync ?s) = (Inr (), with_sync ?s)"
    by (simp_all add: GetReportRepository_def GetInputRepository_def with_sync_def with_service_def)
  show ?thesis using assms
    by (simp add: NewSupervisorHLGraphQL_def MustConnect_def andThen_apply GetOutputDecoder_fresh [of _ _ E]
        with_service_again choose_adapter_def anvil_worker_def sync_workers_def Let_def
        GetGraphQLSynchronizer_service r)
qed

end
