(* ===== verification/Supervisor.thy ===== *)
theory Supervisor
  imports Prelude
begin

text \<open>
  \<open>internal/supervisor/supervisor.go\<close>: \<open>SupervisorWorker.Start\<close> as a step relation. The workers are
  numbered from 0; each runs in its own goroutine and may report that it is ready and return at
  any time. The steps are the receives, timeouts and returns of the source; the deferred calls of
  a goroutine cancel the context first and then count the worker as finished.
\<close>

section \<open>The state machine\<close>

datatype sup_phase = Launch nat | Await nat | Announce | WaitDone | Joining | Returned "unit res"

record sup_state =
  su_phase :: sup_phase
  su_started :: nat
  su_ready :: "nat set"
  su_returned :: "nat set"
  su_finished :: "nat set"
  su_cancelled :: bool

definition sup_start :: sup_state where
  "sup_start = \<lparr>su_phase = Launch 0, su_started = 0, su_ready = {}, su_returned = {}, su_finished = {},
     su_cancelled = False\<rparr>"

inductive SupervisorWorker_step :: "nat \<Rightarrow> sup_state \<Rightarrow> sup_state \<Rightarrow> bool" for n where
  launch: "su_phase s = Launch i \<Longrightarrow> i < n \<Longrightarrow>
    SupervisorWorker_step n s (s\<lparr>su_phase := Await i, su_started := Suc i\<rparr>)"
| all_launched: "su_phase s = Launch n \<Longrightarrow> SupervisorWorker_step n s (s\<lparr>su_phase := Announce\<rparr>)"
| worker_ready: "su_phase s = Await i \<Longrightarrow> i \<notin> su_returned s \<Longrightarrow>
    SupervisorWorker_step n s (s\<lparr>su_phase := Launch (Suc i), su_ready := insert i (su_ready s)\<rparr>)"
| worker_timed_out: "su_phase s = Await i \<Longrightarrow>
    SupervisorWorker_step n s (s\<lparr>su_phase := Announce, su_cancelled := True\<rparr>)"
| start_interrupted: "su_phase s = Await i \<Longrightarrow> su_cancelled s \<Longrightarrow>
    SupervisorWorker_step n s (s\<lparr>su_phase := Announce\<rparr>)"
| worker_returns: "i < su_started s \<Longrightarrow> i \<notin> su_returned s \<Longrightarrow>
    SupervisorWorker_step n s (s\<lparr>su_returned := insert i (su_returned s), su_cancelled := True\<rparr>)"
| worker_finishes: "i \<in> su_returned s \<Longrightarrow>
    SupervisorWorker_step n s (s\<lparr>su_finished := insert i (su_finished s)\<rparr>)"
| parent_cancels: "SupervisorWorker_step n s (s\<lparr>su_cancelled := True\<rparr>)"
| announce: "su_phase s = Announce \<Longrightarrow> SupervisorWorker_step n s (s\<lparr>su_phase := WaitDone\<rparr>)"
| context_done: "su_phase s = WaitDone \<Longrightarrow> su_cancelled s \<Longrightarrow>
    SupervisorWorker_step n s (s\<lparr>su_phase := Joining\<rparr>)"
| joined: "su_phase s = Joining \<Longrightarrow> {..<su_started s} \<subseteq> su_finished s \<Longrightarrow>
    SupervisorWorker_step n s (s\<lparr>su_phase := Returned (Inr ())\<rparr>)"
| join_timed_out: "su_phase s = Joining \<Longrightarrow>
    SupervisorWorker_step n s
      (s\<lparr>su_phase := Returned (Inl (EMsg ''supervisor: timed out waiting for workers''))\<rparr>)"

inductive supervisor_reachable :: "nat \<Rightarrow> sup_state \<Rightarrow> bool" for n where
  start: "supervisor_reachable n sup_start"
| step: "supervisor_reachable n s \<Longrightarrow> SupervisorWorker_step n s s' \<Longrightarrow> supervisor_reachable n s'"

section \<open>The invariant\<close>

definition sup_inv :: "nat \<Rightarrow> sup_state \<Rightarrow> bool" where
  "sup_inv n s \<longleftrightarrow> su_started s \<le> n \<and> su_ready s \<subseteq> {..<su_started s} \<and> su_returned s \<subseteq> {..<su_started s} \<and>
     su_finished s \<subseteq> su_returned s \<and> {..<su_started s - 1} \<subseteq> su_ready s \<and>
     (su_returned s \<noteq> {} \<longrightarrow> su_cancelled s) \<and>
     (case su_phase s of
        Launch i \<Rightarrow> su_started s = i \<and> {..<i} \<subseteq> su_ready s
      | Await i \<Rightarrow> su_started s = Suc i
      | Announce \<Rightarrow> su_cancelled s \<or> {..<n} \<subseteq> su_ready s
      | WaitDone \<Rightarrow> su_cancelled s \<or> {..<n} \<subseteq> su_ready s
      | Joining \<Rightarrow> su_cancelled s
      | Returned r \<Rightarrow> su_cancelled s \<and> (r = Inr () \<longrightarrow> {..<su_started s} \<subseteq> su_finished s))"

lemma sup_inv_start: "sup_inv n sup_start"
  by (simp add: sup_inv_def sup_start_def)

lemma lessThan_Suc_subset: "{..<i} \<subseteq> A \<Longrightarrow> {..<Suc i} \<subseteq> insert i A"
  by (auto simp: less_Suc_eq)

lemma sup_inv_step:
  assumes "SupervisorWorker_step n s s'" and "sup_inv n s"
  shows "sup_inv n s'"
  using assms
proof (cases rule: SupervisorWorker_step.cases)
  case (launch i)
  with assms(2) show ?thesis by (auto simp: sup_inv_def)
next
  case (worker_ready i)
  with assms(2) show ?thesis using lessThan_Suc_subset [of i "su_ready s"] by (auto simp: sup_inv_def)
next
  case (worker_returns i)
  with assms(2) show ?thesis by (auto simp: sup_inv_def split: sup_phase.splits)
next
  case (worker_finishes i)
  with assms(2) show ?thesis by (auto simp: sup_inv_def split: sup_phase.splits)
next
  case parent_cancels
  with assms(2) show ?thesis by (auto simp: sup_inv_def split: sup_phase.splits)
qed (auto simp: sup_inv_def)

lemma supervisor_reachable_inv: "supervisor_reachable n s \<Longrightarrow> sup_inv n s"
  by (induction rule: supervisor_reachable.induct) (auto intro: sup_inv_start sup_inv_step)

text \<open>
  A worker is started only when every one before it was ready; without a cancellation the
  supervisor announces itself only with all workers ready; it returns nil only when every worker
  that was started has finished.
\<close>

lemma supervisor_order:
  assumes "supervisor_reachable n s"
  shows "i < su_started s \<Longrightarrow> j < i \<Longrightarrow> j \<in> su_ready s"
    and "su_phase s = Announce \<or> su_phase s = WaitDone \<Longrightarrow> \<not> su_cancelled s \<Longrightarrow> su_ready s = {..<n}"
    and "su_phase s = Returned (Inr ()) \<Longrightarrow> su_cancelled s \<and> su_finished s = {..<su_started s}"
proof -
  note inv = supervisor_reachable_inv [OF assms, unfolded sup_inv_def]
  show "i < su_started s \<Longrightarrow> j < i \<Longrightarrow> j \<in> su_ready s"
    using inv by (auto dest!: subsetD [of _ "su_ready s" j])
  show "su_phase s = Announce \<or> su_phase s = WaitDone \<Longrightarrow> \<not> su_cancelled s \<Longrightarrow> su_ready s = {..<n}"
    using inv by fastforce
  show "su_phase s = Returned (Inr ()) \<Longrightarrow> su_cancelled s \<and> su_finished s = {..<su_started s}"
    using inv by fastforce
qed

text \<open>Once the context is cancelled the supervisor can always come to its end.\<close>

lemma supervisor_ends:
  assumes "su_cancelled s" and "su_phase s = WaitDone" and "{..<su_started s} \<subseteq> su_finished s"
  shows "\<exists>s'. (SupervisorWorker_step n)\<^sup>*\<^sup>* s s' \<and> su_phase s' = Returned (Inr ())"
proof -
  let ?s1 = "s\<lparr>su_phase := Joining\<rparr>" and ?s2 = "s\<lparr>su_phase := Returned (Inr ())\<rparr>"
  have "SupervisorWorker_step n s ?s1" using assms by (intro context_done)
  moreover have "SupervisorWorker_step n ?s1 (?s1\<lparr>su_phase := Returned (Inr ())\<rparr>)"
    using assms by (intro joined) simp_all
  ultimately have "(SupervisorWorker_step n)\<^sup>*\<^sup>* s ?s2" by (simp add: converse_rtranclp_into_rtranclp)
  then show ?thesis by (intro exI [of _ ?s2]) simp
qed

end
