(* ===== verification/DataAvailability.thy ===== *)
theory DataAvailability
  imports RollupApi
begin

text \<open>
  \<open>internal/dataavailability\<close> and the \<open>/gio\<close> handler of \<open>internal/rollup\<close> (\<open>rollup.go\<close>,
  \<open>fetcher.go\<close>): the conversions of Celestia's proofs to the arguments of the contracts, the
  backward scan for a data commitment, the two clients and the dispatch over them. The remote
  nodes, the ABI coder and the hash function are parameters, gathered in records.
\<close>

section \<open>Go slices of bytes\<close>

text \<open>
  The elements up to the length, and what lies between length and capacity: \<open>s[i:j]\<close> is bounded
  by the capacity, \<open>s[i:]\<close> and \<open>s[i]\<close> by the length.
\<close>

record goslice =
  sl_elems :: bytes
  sl_spare :: bytes

definition sl_index :: "nat \<Rightarrow> goslice \<Rightarrow> byte res" where
  "sl_index i s = (if i < length (sl_elems s) then Inr (sl_elems s ! i)
     else Inl (EPanic ''index out of range''))"

definition sl_range :: "nat \<Rightarrow> nat \<Rightarrow> goslice \<Rightarrow> bytes res" where
  "sl_range i j s = (if i \<le> j \<and> j \<le> length (sl_elems s @ sl_spare s)
     then Inr (take (j - i) (drop i (sl_elems s @ sl_spare s)))
     else Inl (EPanic ''slice bounds out of range''))"

definition sl_from :: "nat \<Rightarrow> goslice \<Rightarrow> bytes res" where
  "sl_from i s = (if i \<le> length (sl_elems s) then Inr (drop i (sl_elems s))
     else Inl (EPanic ''slice bounds out of range''))"

text \<open>\<open>copy\<close> into a zeroed array of \<open>n\<close> bytes.\<close>

definition copy_into :: "nat \<Rightarrow> bytes \<Rightarrow> bytes" where
  "copy_into n src = take n src @ replicate (n - length src) 0"

section \<open>Conversions\<close>

record Namespace =
  ns_Version :: byte
  ns_Id :: bytes

record NamespaceNode =
  nn_Min :: Namespace
  nn_Max :: Namespace
  nn_Digest :: bytes

record NamespaceMerkleMultiproof =
  np_BeginKey :: int
  np_EndKey :: int
  np_SideNodes :: "NamespaceNode list"

record BinaryMerkleProof =
  bp_SideNodes :: "bytes list"
  bp_Key :: int
  bp_NumLeaves :: int

record DataRootTuple =
  dr_Height :: int
  dr_DataRoot :: bytes

record AttestationProof =
  ap_TupleRootNonce :: int
  ap_Tuple :: DataRootTuple
  ap_Proof :: BinaryMerkleProof

text \<open>The proofs as Tendermint's client returns them.\<close>

record NMTProof =
  nmt_Start :: "32 word"
  nmt_End :: "32 word"
  nmt_Nodes :: "goslice list"

record merkle_Proof =
  mp_Total :: int
  mp_Index :: int
  mp_Aunts :: "bytes list"

definition minNamespace :: "goslice \<Rightarrow> Namespace res" where
  "minNamespace innerNode =
     rbind (sl_index 0 innerNode) (\<lambda>version.
     rbind (sl_range 1 29 innerNode) (\<lambda>src.
     Inr \<lparr>ns_Version = version, ns_Id = copy_into 28 src\<rparr>))"

definition maxNamespace :: "goslice \<Rightarrow> Namespace res" where
  "maxNamespace innerNode =
     rbind (sl_index 29 innerNode) (\<lambda>version.
     rbind (sl_range 30 58 innerNode) (\<lambda>src.
     Inr \<lparr>ns_Version = version, ns_Id = copy_into 28 src\<rparr>))"

definition toNamespaceNode :: "goslice \<Rightarrow> NamespaceNode res" where
  "toNamespaceNode node =
     rbind (minNamespace node) (\<lambda>minNs.
     rbind (maxNamespace node) (\<lambda>maxNs.
     rbind (sl_from 58 node) (\<lambda>src.
     Inr \<lparr>nn_Min = minNs, nn_Max = maxNs, nn_Digest = copy_into 32 src\<rparr>)))"

definition namespace :: "bytes \<Rightarrow> byte \<Rightarrow> Namespace" where
  "namespace namespaceID version = \<lparr>ns_Version = version, ns_Id = copy_into 28 namespaceID\<rparr>"

definition toNamespaceMerkleMultiProofs :: "NMTProof list \<Rightarrow> NamespaceMerkleMultiproof list res" where
  "toNamespaceMerkleMultiProofs proofs = rmap (\<lambda>proof.
     rbind (rmap toNamespaceNode (nmt_Nodes proof)) (\<lambda>sideNodes.
     Inr \<lparr>np_BeginKey = sint (nmt_Start proof), np_EndKey = sint (nmt_End proof),
       np_SideNodes = sideNodes\<rparr>)) proofs"

definition toRowRoots :: "goslice list \<Rightarrow> NamespaceNode list res" where
  "toRowRoots roots = rmap toNamespaceNode roots"

definition toRowProofs :: "merkle_Proof list \<Rightarrow> BinaryMerkleProof list" where
  "toRowProofs proofs = map (\<lambda>proof.
     \<lparr>bp_SideNodes = map (copy_into 32) (mp_Aunts proof), bp_Key = mp_Index proof,
      bp_NumLeaves = mp_Total proof\<rparr>) proofs"

definition toAttestationProof :: "u64 \<Rightarrow> u64 \<Rightarrow> bytes \<Rightarrow> merkle_Proof \<Rightarrow> AttestationProof" where
  "toAttestationProof nonce height blockDataRoot dataRootInclusionProof =
     (let sideNodes = map (copy_into 32) (mp_Aunts dataRootInclusionProof)
      in \<lparr>ap_TupleRootNonce = sint nonce,
          ap_Tuple = \<lparr>dr_Height = sint height, dr_DataRoot = blockDataRoot\<rparr>,
          ap_Proof = \<lparr>bp_SideNodes = sideNodes, bp_Key = mp_Index dataRootInclusionProof,
            bp_NumLeaves = mp_Total dataRootInclusionProof\<rparr>\<rparr>)"

section \<open>The data commitment\<close>

definition maxFilterRange :: u64 where "maxFilterRange = 10000"

record DataCommitmentStored =
  dc_ProofNonce :: int
  dc_StartBlock :: u64
  dc_EndBlock :: u64
  dc_DataCommitment :: bytes

text \<open>
  The events that the contract's iterator yields for a range of blocks, both ends included; the code
  does not ask the iterator whether it stopped at an error.
\<close>

type_synonym commitment_filter = "u64 \<Rightarrow> u64 \<Rightarrow> DataCommitmentStored list res"

definition findMatchingDataCommitment ::
  "commitment_filter \<Rightarrow> u64 \<Rightarrow> u64 \<Rightarrow> int \<Rightarrow> DataCommitmentStored option res" where
  "findMatchingDataCommitment contract start end' height =
     (case contract start end' of
        Inl err \<Rightarrow> Inl (EWrap ''failed to filter events'' err)
      | Inr events \<Rightarrow> Inr (find (\<lambda>e. sint (dc_StartBlock e) \<le> height \<and> height < sint (dc_EndBlock e)) events))"

text \<open>
  The loop over the chunks. The block numbers are unsigned: \<open>end -= maxFilterRange\<close> wraps below
  zero, and so the loop need not end; then its value is \<open>None\<close>.
\<close>

partial_function (option) commitment_scan ::
  "commitment_filter \<Rightarrow> int \<Rightarrow> u64 \<Rightarrow> u64 \<Rightarrow> DataCommitmentStored res option" where
  "commitment_scan contract height lower end' =
     (if end' > lower then
        (let start = (if end' - maxFilterRange < lower then lower else end' - maxFilterRange)
         in case findMatchingDataCommitment contract start end' height of
              Inl err \<Rightarrow> Some (Inl (EWrap ''failed to find matching data commitment'' err))
            | Inr (Some dataCommitment) \<Rightarrow> Some (Inr dataCommitment)
            | Inr None \<Rightarrow> commitment_scan contract height lower (end' - maxFilterRange))
      else Some (Inl (EMsg ''no matching data commitment found'')))"

definition GetDataCommitment ::
  "commitment_filter res \<Rightarrow> u64 res \<Rightarrow> int \<Rightarrow> u64 \<Rightarrow> DataCommitmentStored res option" where
  "GetDataCommitment NewBlobstreamX BlockNumber height blocks =
     (case NewBlobstreamX of
        Inl err \<Rightarrow> Some (Inl (EWrap ''failed to instantiate contract'' err))
      | Inr contract \<Rightarrow> (case BlockNumber of
          Inl err \<Rightarrow> Some (Inl (EWrap ''failed to get block number'' err))
        | Inr head \<Rightarrow>
            let blocks' = (if head < blocks then head else blocks)
            in commitment_scan contract height (head - blocks') head))"

section \<open>The share proof\<close>

record ShareProof =
  sp_Data :: "goslice list"
  sp_ShareProofs :: "NMTProof list"
  sp_NamespaceID :: bytes
  sp_NamespaceVersion :: "32 word"
  sp_RowRoots :: "goslice list"
  sp_RowProofs :: "merkle_Proof list"

record ShareDigestsProof =
  sd_Digests :: "bytes list"
  sd_ShareProofs :: "NamespaceMerkleMultiproof list"
  sd_Namespace :: Namespace
  sd_RowRoots :: "NamespaceNode list"
  sd_RowProofs :: "BinaryMerkleProof list"
  sd_AttestationProof :: AttestationProof

text \<open>The two nodes behind \<open>connections\<close>, and the hash function.\<close>

record share_nodes =
  sn_connections :: "unit res"
  sn_NewBlobstreamX :: "commitment_filter res"
  sn_BlockNumber :: "u64 res"
  sn_Block :: "int \<Rightarrow> bytes res"
  sn_DataRootInclusionProof :: "u64 \<Rightarrow> u64 \<Rightarrow> u64 \<Rightarrow> merkle_Proof res"
  sn_ProveShares :: "u64 \<Rightarrow> u64 \<Rightarrow> u64 \<Rightarrow> ShareProof res"
  sn_Sum256 :: "bytes \<Rightarrow> bytes"

definition share_digests :: "(bytes \<Rightarrow> bytes) \<Rightarrow> ShareProof \<Rightarrow> bytes list" where
  "share_digests Sum256 shareProof = map (\<lambda>s.
     let namespaceBytes = ucast (sp_NamespaceVersion shareProof) # sp_NamespaceID shareProof
     in Sum256 ([0] @ namespaceBytes @ sl_elems s)) (sp_Data shareProof)"

text \<open>The conversion of a slice to an array of 32 bytes panics when the slice is shorter.\<close>

definition to_array32 :: "bytes \<Rightarrow> bytes res" where
  "to_array32 b = (if 32 \<le> length b then Inr (take 32 b)
     else Inl (EPanic ''cannot convert slice to array''))"

definition wrap_res :: "string \<Rightarrow> 'a res \<Rightarrow> 'a res" where
  "wrap_res msg r = (case r of Inl e \<Rightarrow> Inl (EWrap msg e) | Inr x \<Rightarrow> Inr x)"

definition share_proof_from ::
  "share_nodes \<Rightarrow> u64 \<Rightarrow> u64 \<Rightarrow> u64 \<Rightarrow> DataCommitmentStored \<Rightarrow> (ShareDigestsProof \<times> bytes) res" where
  "share_proof_from N height start end' dataCommitment =
     (let h = sint height
      in rbind (wrap_res ''failed to get block'' (sn_Block N h)) (\<lambda>dataHash.
         rbind (wrap_res ''failed to get data root inclusion proof''
           (sn_DataRootInclusionProof N height (dc_StartBlock dataCommitment) (dc_EndBlock dataCommitment)))
           (\<lambda>dcProof.
         rbind (wrap_res ''failed to get share proof'' (sn_ProveShares N height start end')) (\<lambda>shareProof.
         let nonce = big_Uint64 (dc_ProofNonce dataCommitment)
         in rbind (to_array32 dataHash) (\<lambda>blockDataRoot.
            if sp_ShareProofs shareProof = [] then Inl (EPanic ''index out of range'')
            else
            rbind (toNamespaceMerkleMultiProofs (sp_ShareProofs shareProof)) (\<lambda>shareProofs.
            rbind (toRowRoots (sp_RowRoots shareProof)) (\<lambda>rowRoots.
            Inr (\<lparr>sd_Digests = share_digests (sn_Sum256 N) shareProof,
                 sd_ShareProofs = shareProofs,
                 sd_Namespace = namespace (sp_NamespaceID shareProof) (ucast (sp_NamespaceVersion shareProof)),
                 sd_RowRoots = rowRoots,
                 sd_RowProofs = toRowProofs (sp_RowProofs shareProof),
                 sd_AttestationProof = toAttestationProof nonce height blockDataRoot dcProof\<rparr>,
               blockDataRoot))))))))"

definition GetShareProof ::
  "share_nodes \<Rightarrow> u64 \<Rightarrow> u64 \<Rightarrow> u64 \<Rightarrow> (ShareDigestsProof \<times> bytes) res option" where
  "GetShareProof N height start end' =
     (let maxHeight = 10000000
      in case sn_connections N of
           Inl err \<Rightarrow> Some (Inl (EWrap ''failed to connect to the Ethereum node or trpc'' err))
         | Inr _ \<Rightarrow> (case GetDataCommitment (sn_NewBlobstreamX N) (sn_BlockNumber N) (sint height) maxHeight of
               None \<Rightarrow> None
             | Some (Inl err) \<Rightarrow> Some (Inl err)
             | Some (Inr dataCommitment) \<Rightarrow> Some (share_proof_from N height start end' dataCommitment)))"

section \<open>The clients\<close>

record HttpCustomError =
  he_status :: int
  he_body :: "string option"

text \<open>\<open>Error\<close> dereferences the body.\<close>

definition HttpCustomError_Error :: "HttpCustomError \<Rightarrow> string res" where
  "HttpCustomError_Error m = (case he_body m of None \<Rightarrow> Inl (EPanic ''nil pointer dereference'')
     | Some b \<Rightarrow> Inr b)"

text \<open>
  A client returns a custom error or a text, or panics. The result of \<open>http.Get\<close> is an error or
  a body, reading which may fail.
\<close>

definition SyscoinClient_Fetch ::
  "(string \<Rightarrow> bytes res res) \<Rightarrow> string \<Rightarrow> (HttpCustomError + string) res" where
  "SyscoinClient_Fetch Get id' =
     (let full_url = ''https://poda.syscoin.org/vh/'' @ id'
      in case Get full_url of
           Inl err \<Rightarrow> Inr (Inl \<lparr>he_status = 500, he_body = None\<rparr>)
         | Inr (Inl err) \<Rightarrow> Inr (Inl \<lparr>he_status = 500, he_body = None\<rparr>)
         | Inr (Inr body) \<Rightarrow> let str = string_of_bytes body in Inr (Inr str))"

record GioReqParams =
  gp_Namespace :: bytes
  gp_Height :: int
  gp_Start :: int

text \<open>A blob as the client returns it: its data, and what its JSON encoding gives.\<close>

record retrieved_blob =
  rb_Data :: bytes
  rb_MarshalJSON :: "string res"

record celestia =
  ce_UnpackValues :: "bytes \<Rightarrow> (bytes \<times> int \<times> int \<times> int) res"
  ce_NewWithTimeout :: "unit res"
  ce_ProveShares :: "u64 \<Rightarrow> u64 \<Rightarrow> u64 \<Rightarrow> goslice list res"
  ce_NewBlobNamespaceV0 :: "bytes \<Rightarrow> bytes res"
  ce_NewClient :: "string \<Rightarrow> string \<Rightarrow> unit res"
  ce_GetAll :: "u64 \<Rightarrow> bytes list \<Rightarrow> retrieved_blob list res"

definition parseParams :: "ethlib \<Rightarrow> celestia \<Rightarrow> string \<Rightarrow> GioReqParams res" where
  "parseParams E C id' =
     rbind (slice_from 2 id') (\<lambda>s.
     rbind (ce_UnpackValues C (Hex2Bytes E s)) (\<lambda>(namespace, height, start, end').
     Inr \<lparr>gp_Namespace = namespace, gp_Height = height, gp_Start = start\<rparr>))"

definition GetBlob :: "ethlib \<Rightarrow> celestia \<Rightarrow> string \<Rightarrow> string \<Rightarrow> string \<Rightarrow> bytes res" where
  "GetBlob E C id' url token =
     rbind (parseParams E C id') (\<lambda>gioReqParams.
     rbind (sl_from 22 \<lparr>sl_elems = gp_Namespace gioReqParams, sl_spare = []\<rparr>) (\<lambda>ns.
     rbind (ce_NewBlobNamespaceV0 C ns) (\<lambda>namespaceV0.
     rbind (ce_NewClient C url token) (\<lambda>_.
     let celestiaHeight = big_Uint64 (gp_Height gioReqParams);
         celestiaNamespace = [namespaceV0]
     in rbind (ce_GetAll C celestiaHeight celestiaNamespace) (\<lambda>retrievedBlobs.
        case retrievedBlobs of
          [] \<Rightarrow> Inl (EPanic ''index out of range'')
        | blob # _ \<Rightarrow> rbind (rb_MarshalJSON blob) (\<lambda>json. Inr (rb_Data blob)))))))"

definition BigEndian_Uint32 :: "bytes \<Rightarrow> 32 word" where
  "BigEndian_Uint32 b = foldl (\<lambda>a x. 256 * a + ucast x) 0 (take 4 b)"

text \<open>
  The data of the first share: its length is in the bytes 30 to 33. The sum \<open>34 + dataLen\<close> is
  computed in 32 bits.
\<close>

definition share_payload :: "goslice \<Rightarrow> bytes res" where
  "share_payload share =
     rbind (sl_range 0 29 share) (\<lambda>namespace.
     rbind (sl_range 30 34 share) (\<lambda>dataRawLen.
     let dataLen = BigEndian_Uint32 dataRawLen
     in sl_range 34 (unat (34 + dataLen)) share))"

definition FetchFromTendermint :: "ethlib \<Rightarrow> celestia \<Rightarrow> string \<Rightarrow> string res" where
  "FetchFromTendermint E C id' =
     rbind (parseParams E C id') (\<lambda>gioReqParams.
     rbind (wrap_res ''failed to connect to the Tendermint RPC'' (ce_NewWithTimeout C)) (\<lambda>_.
     let blockHeight = big_Uint64 (gp_Height gioReqParams);
         shareStart = big_Uint64 (gp_Start gioReqParams);
         shareEnd = shareStart + 1
     in rbind (ce_ProveShares C blockHeight shareStart shareEnd) (\<lambda>shareProofData.
        case shareProofData of
          [] \<Rightarrow> Inl (EPanic ''index out of range'')
        | share # _ \<Rightarrow> rbind (share_payload share) (\<lambda>data. Inr (Bytes2Hex E data)))))"

text \<open>The two environment variables are texts, empty when they are not set.\<close>

definition CelestiaClient_Fetch ::
  "ethlib \<Rightarrow> celestia \<Rightarrow> string \<Rightarrow> string \<Rightarrow> string \<Rightarrow> (HttpCustomError + string) res" where
  "CelestiaClient_Fetch E C TIA_AUTH_TOKEN TIA_URL id' =
     (case FetchFromTendermint E C id' of
        Inr data \<Rightarrow> Inr (Inr data)
      | Inl err \<Rightarrow> if is_panic err then Inl err
          else if TIA_AUTH_TOKEN = [] \<or> TIA_URL = [] then Inr (Inl \<lparr>he_status = 500, he_body = None\<rparr>)
          else (case GetBlob E C id' TIA_URL TIA_AUTH_TOKEN of
              Inl err \<Rightarrow> if is_panic err then Inl err
                else Inr (Inl \<lparr>he_status = 400, he_body = Some (err_text err)\<rparr>)
            | Inr blob \<Rightarrow> Inr (Inr (Bytes2Hex E blob))))"

section \<open>The gio handler\<close>

record GioRequest =
  gio_Domain :: "16 word"
  gio_Id :: string

record GioResponseRollup =
  gio_Code :: "16 word"
  gio_Data :: string

text \<open>The fetchers of the two domains are arguments.\<close>

definition RollupAPI_Fetcher ::
  "(string \<Rightarrow> (HttpCustomError + string) res) \<Rightarrow> (string \<Rightarrow> (HttpCustomError + string) res) \<Rightarrow>
   GioRequest \<Rightarrow> (HttpCustomError + GioResponseRollup option) res" where
  "RollupAPI_Fetcher syscoinFetch celestiaFetch request =
     (let its_ok = 42;
          finish = (\<lambda>r. case r of Inl err \<Rightarrow> Inl err
            | Inr data \<Rightarrow> Inr (Some \<lparr>gio_Code = its_ok, gio_Data = data\<rparr>))
      in if gio_Domain request = 5700 then
           rbind (syscoinFetch (gio_Id request)) (\<lambda>r. Inr (finish r))
         else if gio_Domain request = 714 then
           rbind (celestiaFetch (gio_Id request)) (\<lambda>r. Inr (finish r))
         else Inr (Inl \<lparr>he_status = 400, he_body = Some ''Unsupported domain''\<rparr>))"

text \<open>The text of the error is evaluated for the log and for the answer.\<close>

definition RollupAPI_Gio ::
  "(GioRequest \<Rightarrow> (HttpCustomError + GioResponseRollup option) res) \<Rightarrow> GioRequest http_request \<Rightarrow>
   GioResponseRollup response res" where
  "RollupAPI_Gio Fetcher ctx =
     (if \<not> checkContentType ctx then Inr (RString 415 ''invalid content type'')
      else rbind (rq_Bind ctx) (\<lambda>request.
        rbind (Fetcher request) (\<lambda>r. case r of
            Inl err \<Rightarrow> rbind (HttpCustomError_Error err) (\<lambda>msg. Inr (RString (he_status err) msg))
          | Inr None \<Rightarrow> Inr (RString 404 ''Not found'')
          | Inr (Some fetch) \<Rightarrow> Inr (RJSON 200 fetch))))"

end
