(* ===== verification/DataLaws.thy ===== *)
theory DataLaws
  imports DataAvailability
begin

text \<open>
  Facts about the data availability code: the conversion of a namespace node loses nothing, the scan
  for a commitment finds it when the block numbers do not wrap and never ends when they do, and
  what the \<open>/gio\<close> handler answers.
\<close>

section \<open>Namespace nodes\<close>

definition namespace_bytes :: "Namespace \<Rightarrow> bytes" where
  "namespace_bytes ns = ns_Version ns # ns_Id ns"

definition node_bytes :: "NamespaceNode \<Rightarrow> bytes" where
  "node_bytes n = namespace_bytes (nn_Min n) @ namespace_bytes (nn_Max n) @ nn_Digest n"

lemma copy_into_exact [simp]: "length src = n \<Longrightarrow> copy_into n src = src"
  by (simp add: copy_into_def)

lemma length_copy_into [simp]: "length (copy_into n src) = n"
  by (simp add: copy_into_def min_def)

lemma take_drop_slice:
  "take n (drop i xs) @ take m (drop (i + n) xs) = take (n + m) (drop i xs)"
  by (metis add.commute drop_drop take_add)

lemma toNamespaceNode_ok:
  assumes "length (sl_elems s) = 90"
  shows "\<exists>n. toNamespaceNode s = Inr n \<and> node_bytes n = sl_elems s"
proof -
  let ?b = "sl_elems s"
  have r: "sl_range 1 29 s = Inr (take 28 (drop 1 ?b))" "sl_range 30 58 s = Inr (take 28 (drop 30 ?b))"
    using assms by (simp_all add: sl_range_def)
  have l: "length (take 28 (drop 1 ?b)) = 28" "length (take 28 (drop 30 ?b)) = 28" "length (drop 58 ?b) = 32"
    using assms by simp_all
  have i: "[?b ! 0] = take 1 (drop 0 ?b)" "[?b ! 29] = take 1 (drop 29 ?b)"
    using assms by (simp_all add: take_Suc_conv_app_nth Cons_nth_drop_Suc [symmetric])
  let ?n = "\<lparr>nn_Min = \<lparr>ns_Version = ?b ! 0, ns_Id = take 28 (drop 1 ?b)\<rparr>,
      nn_Max = \<lparr>ns_Version = ?b ! 29, ns_Id = take 28 (drop 30 ?b)\<rparr>, nn_Digest = drop 58 ?b\<rparr>"
  have "toNamespaceNode s = Inr ?n"
    using assms l by (simp add: toNamespaceNode_def minNamespace_def maxNamespace_def sl_index_def sl_from_def r
        del: One_nat_def)
  moreover have "node_bytes ?n = ([?b ! 0] @ take 28 (drop 1 ?b)) @ ([?b ! 29] @ take 28 (drop 30 ?b)) @ drop 58 ?b"
    by (simp add: node_bytes_def namespace_bytes_def)
  moreover have "\<dots> = take 29 (drop 0 ?b) @ take 29 (drop 29 ?b) @ drop 58 ?b"
    unfolding i using take_drop_slice [of 1 0 ?b 28] take_drop_slice [of 1 29 ?b 28] by simp
  moreover have "take 29 (drop 29 ?b) @ drop 58 ?b = drop 29 ?b"
  proof -
    have "drop 58 ?b = drop 29 (drop 29 ?b)" by simp
    then show ?thesis by (simp only: append_take_drop_id)
  qed
  ultimately show ?thesis by simp
qed

text \<open>And exactly the slices of at least 58 bytes are converted; a shorter one panics.\<close>

lemma toNamespaceNode_iff:
  "(\<exists>n. toNamespaceNode s = Inr n) \<longleftrightarrow> 58 \<le> length (sl_elems s)"
  by (auto simp: toNamespaceNode_def minNamespace_def maxNamespace_def sl_index_def sl_from_def
      sl_range_def rbind_Inr_iff split: if_splits)

section \<open>The scan for a data commitment\<close>

definition commits_to :: "int \<Rightarrow> DataCommitmentStored \<Rightarrow> bool" where
  "commits_to height e \<longleftrightarrow> sint (dc_StartBlock e) \<le> height \<and> height < sint (dc_EndBlock e)"

text \<open>The filter of a node that holds the events of \<open>log\<close>.\<close>

definition filter_of :: "(u64 \<times> DataCommitmentStored) list \<Rightarrow> commitment_filter" where
  "filter_of log start end' = Inr (map snd (filter (\<lambda>(b, e). start \<le> b \<and> b \<le> end') log))"

lemma find_in_chunk:
  "findMatchingDataCommitment (filter_of log) start end' height =
     Inr (find (commits_to height) (map snd (filter (\<lambda>(b, e). start \<le> b \<and> b \<le> end') log)))"
  by (simp add: findMatchingDataCommitment_def filter_of_def commits_to_def [abs_def])

definition scan_result ::
  "(u64 \<times> DataCommitmentStored) list \<Rightarrow> int \<Rightarrow> u64 \<Rightarrow> u64 \<Rightarrow> DataCommitmentStored res \<Rightarrow> bool" where
  "scan_result log height lower end' r \<longleftrightarrow> (case r of
       Inr e \<Rightarrow> commits_to height e \<and> (\<exists>b. (b, e) \<in> set log \<and> lower \<le> b \<and> b \<le> end')
     | Inl err \<Rightarrow> err = EMsg ''no matching data commitment found'' \<and>
         (\<forall>(b, e) \<in> set log. lower \<le> b \<longrightarrow> b \<le> end' \<longrightarrow> \<not> commits_to height e))"

lemma chunk_sub:
  assumes "maxFilterRange \<le> lower" and "lower < end'"
  shows "unat (end' - maxFilterRange) = unat end' - 10000" and "10000 \<le> unat end'"
    and "end' - maxFilterRange < end'"
proof -
  have l: "10000 \<le> unat lower" using assms(1) by (simp add: maxFilterRange_def word_le_nat_alt)
  with assms(2) show g: "10000 \<le> unat end'" by (simp add: word_less_nat_alt)
  then show u: "unat (end' - maxFilterRange) = unat end' - 10000"
    by (subst unat_sub) (simp_all add: maxFilterRange_def word_le_nat_alt)
  show "end' - maxFilterRange < end'" using g u by (simp add: word_less_nat_alt)
qed

lemma commitment_scan_ok:
  assumes "maxFilterRange \<le> lower" and "lower < end'"
  shows "\<exists>r. commitment_scan (filter_of log) height lower end' = Some r \<and> scan_result log height lower end' r"
  using assms(2)
proof (induction "unat end'" arbitrary: end' rule: less_induct)
  case less
  note sub = chunk_sub [OF assms(1) less.prems]
  define start where "start = (if end' - maxFilterRange < lower then lower else end' - maxFilterRange)"
  have start: "lower \<le> start" by (simp add: start_def not_less)
  define es where "es = map snd (filter (\<lambda>(b, e). start \<le> b \<and> b \<le> end') log)"
  have step: "commitment_scan (filter_of log) height lower end' = (case find (commits_to height) es of
      Some e \<Rightarrow> Some (Inr e) | None \<Rightarrow> commitment_scan (filter_of log) height lower (end' - maxFilterRange))"
    using less.prems by (subst commitment_scan.simps)
      (simp add: find_in_chunk start_def [symmetric] es_def [symmetric] split: option.splits)
  show ?case
  proof (cases "find (commits_to height) es")
    case (Some e)
    then have "commits_to height e" "e \<in> set es" by (auto simp: find_Some_iff)
    then have "scan_result log height lower end' (Inr e)"
      using start by (auto simp: scan_result_def es_def)
    with step Some show ?thesis by simp
  next
    case None
    then have none: "\<forall>(b, e) \<in> set log. start \<le> b \<longrightarrow> b \<le> end' \<longrightarrow> \<not> commits_to height e"
      by (auto simp: find_None_iff es_def)
    show ?thesis
    proof (cases "lower < end' - maxFilterRange")
      case True
      then have s: "start = end' - maxFilterRange" using less_not_sym [OF True] by (simp add: start_def)
      from less.hyps [OF _ True] sub obtain r where
        r: "commitment_scan (filter_of log) height lower (end' - maxFilterRange) = Some r"
          "scan_result log height lower (end' - maxFilterRange) r" by auto
      have "scan_result log height lower end' r"
        using r(2) none sub(3) unfolding scan_result_def s
        by (cases r) (fastforce, auto intro: order_trans [OF _ less_imp_le])
      with step None r(1) show ?thesis by simp
    next
      case False
      then have "end' - maxFilterRange \<le> lower" by (simp add: not_less)
      then have s: "start = lower" by (auto simp: start_def)
      have "commitment_scan (filter_of log) height lower (end' - maxFilterRange) =
          Some (Inl (EMsg ''no matching data commitment found''))"
        using False by (subst commitment_scan.simps) simp
      with step None none s show ?thesis by (auto simp: scan_result_def)
    qed
  qed
qed

text \<open>The scan over the last blocks of a chain that is long enough.\<close>

lemma GetDataCommitment_ok:
  assumes "blocks + maxFilterRange \<le> head" and "0 < blocks" and "unat blocks + 10000 < 2 ^ 64"
  shows "\<exists>r. GetDataCommitment (Inr (filter_of log)) (Inr head) height blocks = Some r \<and>
    scan_result log height (head - blocks) head r"
proof -
  have u: "unat (blocks + maxFilterRange) = unat blocks + 10000"
    using assms(3) by (subst unat_add_lem [THEN iffD1]) (simp_all add: maxFilterRange_def)
  have b: "unat blocks + 10000 \<le> unat head" using assms(1) u by (simp add: word_le_nat_alt)
  then have s: "unat (head - blocks) = unat head - unat blocks"
    by (subst unat_sub) (simp_all add: word_le_nat_alt)
  have "maxFilterRange \<le> head - blocks"
    using b by (simp add: word_le_nat_alt s) (simp add: maxFilterRange_def)
  moreover have "head - blocks < head"
    using b assms(2) by (simp add: word_less_nat_alt s)
  moreover have "\<not> head < blocks" using b by (simp add: word_less_nat_alt)
  ultimately show ?thesis using commitment_scan_ok by (simp add: GetDataCommitment_def Let_def)
qed

text \<open>
  When the scan would go down to block 0 it only stops at 0 exactly: from a head that is not a
  multiple of 16 the block number wraps around for ever.
\<close>

lemma sub_range_mod: "uint (end' - maxFilterRange) mod 16 = uint end' mod (16 :: int)"
proof -
  have "uint (end' - maxFilterRange) = (uint end' - 10000) mod 2 ^ 64"
    by (simp add: uint_word_ariths maxFilterRange_def)
  then have "uint (end' - maxFilterRange) mod 16 = (uint end' - 10000) mod 16"
    by (simp add: mod_mod_cancel)
  also have "uint end' - 10000 = uint end' + (- 625) * 16" by simp
  also have "\<dots> mod 16 = uint end' mod 16" by (simp only: mod_mult_self1)
  finally show ?thesis .
qed

lemma commitment_scan_stops:
  assumes "commitment_scan contract height lower end' = Some r"
  shows "lower = 0 \<longrightarrow> (\<forall>s e. findMatchingDataCommitment contract s e height = Inr None) \<longrightarrow> uint end' mod 16 = 0"
proof (rule commitment_scan.raw_induct [OF _ assms], intro impI)
  fix scan contract height and lower end' :: u64 and r
  assume IH: "\<And>contract height lower end' r. scan contract height lower end' = Some r \<Longrightarrow>
      lower = 0 \<longrightarrow> (\<forall>s e. findMatchingDataCommitment contract s e height = Inr None) \<longrightarrow> uint end' mod 16 = 0"
    and body: "(if end' > lower then
        (let start = (if end' - maxFilterRange < lower then lower else end' - maxFilterRange)
         in case findMatchingDataCommitment contract start end' height of
              Inl err \<Rightarrow> Some (Inl (EWrap ''failed to find matching data commitment'' err))
            | Inr (Some dataCommitment) \<Rightarrow> Some (Inr dataCommitment)
            | Inr None \<Rightarrow> scan contract height lower (end' - maxFilterRange))
      else Some (Inl (EMsg ''no matching data commitment found''))) = Some r"
    and l: "lower = 0" and none: "\<forall>s e. findMatchingDataCommitment contract s e height = Inr None"
  show "uint end' mod 16 = 0"
  proof (cases "end' > lower")
    case False
    with l have "end' = 0" by (simp add: word_gt_0)
    then show ?thesis by simp
  next
    case True
    with body none have "scan contract height lower (end' - maxFilterRange) = Some r" by (simp add: Let_def)
    from IH [OF this] l none show ?thesis by (simp add: sub_range_mod)
  qed
qed

lemma GetDataCommitment_diverges:
  assumes "head \<le> blocks" and "uint head mod 16 \<noteq> 0"
    and "\<forall>(b, e) \<in> set log. \<not> commits_to height e"
  shows "GetDataCommitment (Inr (filter_of log)) (Inr head) height blocks = None"
proof -
  have "(if head < blocks then head else blocks) = head" using assms(1) by auto
  then have "GetDataCommitment (Inr (filter_of log)) (Inr head) height blocks =
      commitment_scan (filter_of log) height 0 head"
    by (simp add: GetDataCommitment_def Let_def)
  moreover have "findMatchingDataCommitment (filter_of log) s e height = Inr None" for s e
    using assms(3) by (auto simp: find_in_chunk find_None_iff)
  ultimately show ?thesis
    using commitment_scan_stops [of "filter_of log" height 0 head] assms(2)
    by (cases "commitment_scan (filter_of log) height 0 head") auto
qed

section \<open>The gio handler\<close>

text \<open>An error without a body makes the handler panic instead of answering 500.\<close>

lemma Gio_panics:
  assumes "checkContentType c" and "rq_Bind c = Inr request"
    and "Fetcher request = Inr (Inl \<lparr>he_status = st, he_body = None\<rparr>)"
  shows "RollupAPI_Gio Fetcher c = Inl (EPanic ''nil pointer dereference'')"
  using assms by (simp add: RollupAPI_Gio_def HttpCustomError_Error_def)

lemma Gio_syscoin:
  assumes "checkContentType c" and "rq_Bind c = Inr request" and "gio_Domain request = 5700"
  shows "RollupAPI_Gio (RollupAPI_Fetcher (SyscoinClient_Fetch Get) celestiaFetch) c =
    (case Get (''https://poda.syscoin.org/vh/'' @ gio_Id request) of
       Inr (Inr body) \<Rightarrow> Inr (RJSON 200 \<lparr>gio_Code = 42, gio_Data = string_of_bytes body\<rparr>)
     | _ \<Rightarrow> Inl (EPanic ''nil pointer dereference''))"
  using assms by (simp add: RollupAPI_Gio_def RollupAPI_Fetcher_def SyscoinClient_Fetch_def
      HttpCustomError_Error_def Let_def split: sum.splits)

end
