(* ===== verification/BlobSubmission.thy ===== *)
theory BlobSubmission
  imports DataAvailability
begin

text \<open>
  The submitting half of \<open>internal/dataavailability/celestia.go\<close>: \<open>SubmitBlob\<close> and
  \<open>CallCelestiaRelay\<close>. The Celestia node is a state \<open>'n\<close> with its calls, the Ethereum node a record of
  answers and the list of the transactions that were sent to it.
\<close>

section \<open>Submitting a blob\<close>

record celestia_blob =
  bl_Namespace :: bytes
  bl_Data :: bytes
  bl_Commitment :: bytes

text \<open>A range of a proof: its start and its end.\<close>

record 'n blob_node =
  bn_NewClient :: "string \<Rightarrow> string \<Rightarrow> unit res"
  bn_NewBlobNamespaceV0 :: "bytes \<Rightarrow> bytes res"
  bn_NewBlobV0 :: "bytes \<Rightarrow> bytes \<Rightarrow> celestia_blob res"
  bn_Submit :: "celestia_blob list \<Rightarrow> ('n, u64) comp"
  bn_GetProof :: "u64 \<Rightarrow> bytes \<Rightarrow> bytes \<Rightarrow> ('n, (int \<times> int) list) comp"
  bn_Get :: "u64 \<Rightarrow> bytes \<Rightarrow> bytes \<Rightarrow> ('n, celestia_blob) comp"
  bn_MarshalJSON :: "celestia_blob \<Rightarrow> string res"

text \<open>\<open>(*proof)[0]\<close>\<close>

definition first_range :: "(int \<times> int) list \<Rightarrow> (int \<times> int) res" where
  "first_range proof = (case proof of [] \<Rightarrow> Inl (EPanic ''index out of range'') | r # _ \<Rightarrow> Inr r)"

definition SubmitBlob ::
  "ethlib \<Rightarrow> 'n blob_node \<Rightarrow> string \<Rightarrow> string \<Rightarrow> string \<Rightarrow> bytes \<Rightarrow> ('n, u64 \<times> u64 \<times> u64) comp" where
  "SubmitBlob E N url token namespaceHex rawData =
     andThen (lift_res (bn_NewClient N url token)) (\<lambda>_.
     let nms = Hex2Bytes E namespaceHex
     in andThen (lift_res (bn_NewBlobNamespaceV0 N nms)) (\<lambda>namespace.
     andThen (lift_res (bn_NewBlobV0 N namespace rawData)) (\<lambda>helloWorldBlob.
     andThen (bn_Submit N [helloWorldBlob]) (\<lambda>height.
     andThen (bn_GetProof N height namespace (bl_Commitment helloWorldBlob)) (\<lambda>bProof.
     andThen (lift_res (first_range bProof)) (\<lambda>_.
     andThen (bn_Get N height namespace (bl_Commitment helloWorldBlob)) (\<lambda>retrievedBlob.
     andThen (bn_GetProof N height namespace (bl_Commitment helloWorldBlob)) (\<lambda>proof.
     andThen (lift_res (bn_MarshalJSON N retrievedBlob)) (\<lambda>json.
     andThen (lift_res (first_range proof)) (\<lambda>(start, end').
     ret (height, of_int start, of_int end')))))))))))"

section \<open>Relaying the shares\<close>

record relay_tx =
  tx_from :: address
  tx_nonce :: int
  tx_value :: int
  tx_gasLimit :: u64
  tx_gasPrice :: int
  tx_to :: address
  tx_dapp :: address
  tx_proofs :: ShareDigestsProof
  tx_data :: bytes

text \<open>
  Environment, keys and the Ethereum node. \<open>rl_HexToECDSA\<close> returns the key as its address,
  \<open>rl_NewTransactor\<close> is the check of the chain id, and \<open>rl_RelayShares\<close> sends the transaction.
\<close>

record relay_env =
  rl_Getenv :: "string \<Rightarrow> string"
  rl_Dial :: "string \<Rightarrow> unit res"
  rl_HexToECDSA :: "string \<Rightarrow> address res"
  rl_PendingNonceAt :: "address \<Rightarrow> u64 res"
  rl_SuggestGasPrice :: "int res"
  rl_NewTransactor :: "int \<Rightarrow> unit res"
  rl_NewCelestiaRelay :: "address \<Rightarrow> unit res"
  rl_RelayShares :: "relay_tx \<Rightarrow> unit res"

definition CELESTIA_RELAY_ADDRESS :: string where
  "CELESTIA_RELAY_ADDRESS = ''0x4e64020dc800f02decb8Bd45bB4D0f74048e7535''"

text \<open>What is sent when everything before has succeeded; the result is the transaction.\<close>

definition relay_transaction ::
  "ethlib \<Rightarrow> relay_env \<Rightarrow> string \<Rightarrow> ShareDigestsProof \<Rightarrow> address \<Rightarrow> bytes \<Rightarrow> int \<Rightarrow> relay_tx res" where
  "relay_transaction E R pk_celestia proofs dappAddress execLayerData chainId =
     rbind (wrap_res ''failed to create private key'' (rl_HexToECDSA R pk_celestia)) (\<lambda>fromAddress.
     rbind (wrap_res ''failed to get nonce'' (rl_PendingNonceAt R fromAddress)) (\<lambda>nonce.
     rbind (wrap_res ''failed to get gas price'' (rl_SuggestGasPrice R)) (\<lambda>gasPrice.
     rbind (wrap_res ''failed to create transactor'' (rl_NewTransactor R chainId)) (\<lambda>_.
     let envAddress = rl_Getenv R ''CELESTIA_RELAY_ADDRESS'';
         celestiaRelayAddress = HexToAddress E (if envAddress \<noteq> [] then envAddress else CELESTIA_RELAY_ADDRESS)
     in rbind (rl_NewCelestiaRelay R celestiaRelayAddress) (\<lambda>_.
        Inr \<lparr>tx_from = fromAddress, tx_nonce = sint nonce, tx_value = 0, tx_gasLimit = 3000000,
          tx_gasPrice = gasPrice, tx_to = celestiaRelayAddress, tx_dapp = dappAddress, tx_proofs = proofs,
          tx_data = execLayerData\<rparr>)))))"

text \<open>The state is the list of the transactions that were sent; \<open>None\<close> when the proof search does not end.\<close>

definition CallCelestiaRelay ::
  "ethlib \<Rightarrow> relay_env \<Rightarrow> share_nodes \<Rightarrow> u64 \<Rightarrow> u64 \<Rightarrow> u64 \<Rightarrow> address \<Rightarrow> bytes \<Rightarrow> string \<Rightarrow> int \<Rightarrow>
   relay_tx list \<Rightarrow> (unit res \<times> relay_tx list) option" where
  "CallCelestiaRelay E R N height start end' dappAddress execLayerData ethEndpointRPC chainId sent =
     (let pk_celestia = rl_Getenv R ''PK_CELESTIA''
      in if pk_celestia = [] then Some (Inl (EMsg ''missing Celestia private key''), sent)
         else (case rl_Dial R ethEndpointRPC of
             Inl err \<Rightarrow> Some (Inl (EWrap ''failed to connect to the Ethereum node'' err), sent)
           | Inr _ \<Rightarrow> (case GetShareProof N height start end' of
               None \<Rightarrow> None
             | Some (Inl err) \<Rightarrow> Some (Inl err, sent)
             | Some (Inr (proofs, _)) \<Rightarrow>
                 (case relay_transaction E R pk_celestia proofs dappAddress execLayerData chainId of
                    Inl err \<Rightarrow> Some (Inl err, sent)
                  | Inr tx \<Rightarrow> (case rl_RelayShares R tx of
                      Inl err \<Rightarrow> Some (Inl err, sent)
                    | Inr _ \<Rightarrow> Some (Inr (), sent @ [tx]))))))"

section \<open>Facts\<close>

text \<open>A relay that fails sends nothing; one that succeeds sends one transaction with the proof of the shares.\<close>

lemma relay_transaction_fields:
  assumes "relay_transaction E R pk proofs dapp data chainId = Inr tx"
  shows "tx_proofs tx = proofs" "tx_dapp tx = dapp" "tx_data tx = data" "tx_value tx = 0"
  using assms by (auto simp: relay_transaction_def rbind_Inr_iff Let_def)

lemma CallCelestiaRelay_fails:
  assumes "CallCelestiaRelay E R N height start end' dapp data rpc chainId sent = Some (Inl e, sent')"
  shows "sent' = sent"
  using assms by (auto simp: CallCelestiaRelay_def Let_def split: if_splits sum.splits option.splits prod.splits)

lemma CallCelestiaRelay_once:
  assumes "CallCelestiaRelay E R N height start end' dapp data rpc chainId sent = Some (Inr u, sent')"
  shows "\<exists>tx root. sent' = sent @ [tx] \<and> GetShareProof N height start end' = Some (Inr (tx_proofs tx, root)) \<and>
    tx_dapp tx = dapp \<and> tx_data tx = data \<and> tx_value tx = 0"
  using assms by (auto simp: CallCelestiaRelay_def Let_def relay_transaction_fields
      split: if_splits sum.splits option.splits prod.splits)

text \<open>A submission that fails before the node was asked leaves the node as it was.\<close>

lemma SubmitBlob_no_client:
  "bn_NewClient N url token = Inl e \<Longrightarrow> SubmitBlob E N url token ns raw n = (Inl e, n)"
  by (simp add: SubmitBlob_def andThen_apply)

text \<open>
  On a node that accepts the blob and proves it, the result is the height of the inclusion and the
  first range of the proof.
\<close>

lemma SubmitBlob_ok:
  assumes "bn_NewClient N url token = Inr ()" and "bn_NewBlobNamespaceV0 N (Hex2Bytes E nsHex) = Inr ns"
    and "bn_NewBlobV0 N ns raw = Inr b" and "bn_Submit N [b] n = (Inr height, n')"
    and "bn_GetProof N height ns (bl_Commitment b) n' = (Inr ((s, e) # rest), n')"
    and "bn_Get N height ns (bl_Commitment b) n' = (Inr b', n')" and "bn_MarshalJSON N b' = Inr json"
  shows "SubmitBlob E N url token nsHex raw n = (Inr (height, of_int s, of_int e), n')"
  using assms by (simp add: SubmitBlob_def andThen_apply Let_def first_range_def)

end
