(* ===== verification/CommandLine.thy ===== *)
theory CommandLine
  imports BlobSubmission Wiring
begin

text \<open>
  \<open>main.go\<close>: the checks of the command line before the process starts, and the commands of the
  Celestia sub-command. Parsing the flags is the library's; here a command has the flags that are
  registered, which of them were given, and their values. \<open>exitf\<close> ends the process.
\<close>

section \<open>The checks of \<open>run\<close>\<close>

record cobra_cmd =
  cm_registered :: "string list"
  cm_given :: "string \<Rightarrow> bool"
  cm_value :: "string \<Rightarrow> string"

text \<open>\<open>Flags().Changed\<close> is false for a flag that is not registered.\<close>

definition Flags_Changed :: "cobra_cmd \<Rightarrow> string \<Rightarrow> bool" where
  "Flags_Changed cmd name \<longleftrightarrow> name \<in> set (cm_registered cmd) \<and> cm_given cmd name"

text \<open>The names that \<open>init\<close> registers.\<close>

definition registered_flags :: "string list" where
  "registered_flags = [''anvil-address'', ''anvil-port'', ''anvil-verbose'', ''contracts-application-address'',
     ''contracts-input-box-address'', ''contracts-input-box-block'', ''enable-debug'', ''enable-color'',
     ''enable-echo'', ''sequencer'', ''namespace'', ''sm-deadline-inspect-state'',
     ''sm-deadline-advance-state'', ''disable-devnet'', ''disable-advance'', ''http-address'', ''http-port'',
     ''http-rollups-port'', ''rpc-url'', ''high-level-graphql'', ''sqlite-file'', ''from-block'',
     ''db-implementation'', ''node-version'', ''load-test-mode'', ''graphile-disable-sync'', ''graphile-url'']"

text \<open>The result is the message with which the process exits, or the value.\<close>

definition checkEthAddress :: "ethlib \<Rightarrow> cobra_cmd \<Rightarrow> string \<Rightarrow> string + unit" where
  "checkEthAddress E cmd varName =
     (if Flags_Changed cmd varName then
        (case hexutil_Decode E (cm_value cmd varName) of
           Inl err \<Rightarrow> Inl (''invalid address for --'' @ varName @ '': '' @ err_text err)
         | Inr bytes \<Rightarrow> if length bytes \<noteq> 20 then Inl (''invalid address for --'' @ varName @ '': wrong length'')
             else Inr ())
      else Inr ())"

definition check_options :: "ethlib \<Rightarrow> cobra_cmd \<Rightarrow> NonodoOpts \<Rightarrow> string list \<Rightarrow> string + NonodoOpts" where
  "check_options E cmd opts args =
     (case checkEthAddress E cmd ''address-input-box'' of Inl m \<Rightarrow> Inl m | Inr _ \<Rightarrow>
     (case checkEthAddress E cmd ''address-application'' of Inl m \<Rightarrow> Inl m | Inr _ \<Rightarrow>
      if op_AnvilPort opts = 0 then Inl ''--anvil-port cannot be 0''
      else if Flags_Changed cmd ''rpc-url'' \<and> \<not> Flags_Changed cmd ''contracts-input-box-block'' then
        Inl ''must set --contracts-input-box-block when setting --rpc-url''
      else if op_EnableEcho opts \<and> length args > 0 then
        Inl ''can't use built-in echo with custom application''
      else Inr (opts\<lparr>op_ApplicationArgs := args\<rparr>)))"

text \<open>The process exits with a message, or the supervisor is started on the workers (or panics).\<close>

definition run_command :: "ethlib \<Rightarrow> host_env \<Rightarrow> cobra_cmd \<Rightarrow> NonodoOpts \<Rightarrow> string list \<Rightarrow> string + worker list res" where
  "run_command E H cmd opts args =
     (case check_options E cmd opts args of
        Inl m \<Rightarrow> Inl m
      | Inr opts \<Rightarrow> if op_HLGraphQL opts then Inr (NewSupervisorHLGraphQL E H opts) else Inr (NewSupervisor E H opts))"

section \<open>The Celestia commands\<close>

record CelestiaOpts =
  co_Payload :: string
  co_PayloadPath :: string
  co_PayloadUrl :: string
  co_Namespace :: string
  co_Height :: u64
  co_Start :: u64
  co_End :: u64
  co_RpcUrl :: string
  co_chainId :: int

definition MAX_FILE_SIZE :: u64 where "MAX_FILE_SIZE = 1440000"

definition CheckIfValidSize :: "u64 \<Rightarrow> unit res" where
  "CheckIfValidSize size' = (if size' > MAX_FILE_SIZE
     then Inl (EMsg (''File size is too big '' @ nat_to_dec (unat size') @ '' bytes'')) else Inr ())"

definition getTokenFromTia :: "(string \<Rightarrow> string) \<Rightarrow> (string \<times> string) res" where
  "getTokenFromTia Getenv =
     (let token = Getenv ''TIA_AUTH_TOKEN''; url = Getenv ''TIA_URL''
      in if token = [] \<or> url = [] then Inl (EMsg ''missing environment variables'') else Inr (token, url))"

text \<open>The three commands that send; \<open>content\<close> is what was downloaded or read, or the error of that.\<close>

definition celestia_send ::
  "ethlib \<Rightarrow> (string \<Rightarrow> string) \<Rightarrow> 'n blob_node \<Rightarrow> CelestiaOpts \<Rightarrow> ('n, u64 \<times> u64 \<times> u64) comp" where
  "celestia_send E Getenv N celestia =
     andThen (lift_res (getTokenFromTia Getenv)) (\<lambda>(token, url).
     SubmitBlob E N url token (co_Namespace celestia) (bytes_of_string (co_Payload celestia)))"

definition celestia_send_file_url ::
  "ethlib \<Rightarrow> (string \<Rightarrow> string) \<Rightarrow> (string \<Rightarrow> bytes res) \<Rightarrow> 'n blob_node \<Rightarrow> CelestiaOpts \<Rightarrow>
   ('n, u64 \<times> u64 \<times> u64) comp" where
  "celestia_send_file_url E Getenv downloadFile N celestia =
     andThen (lift_res (downloadFile (co_PayloadUrl celestia))) (\<lambda>content.
     andThen (lift_res (CheckIfValidSize (of_nat (length content)))) (\<lambda>_.
     andThen (lift_res (getTokenFromTia Getenv)) (\<lambda>(token, url).
     SubmitBlob E N url token (co_Namespace celestia) (bytes_of_string (co_Payload celestia)))))"

definition celestia_send_file ::
  "ethlib \<Rightarrow> (string \<Rightarrow> string) \<Rightarrow> (string \<Rightarrow> bytes res) \<Rightarrow> 'n blob_node \<Rightarrow> CelestiaOpts \<Rightarrow>
   ('n, u64 \<times> u64 \<times> u64) comp" where
  "celestia_send_file E Getenv readFile N celestia =
     andThen (lift_res (readFile (co_PayloadPath celestia))) (\<lambda>content.
     andThen (lift_res (CheckIfValidSize (of_nat (length content)))) (\<lambda>_.
     andThen (lift_res (getTokenFromTia Getenv)) (\<lambda>(token, url).
     SubmitBlob E N url token (co_Namespace celestia) (bytes_of_string (co_Payload celestia)))))"

text \<open>The flag \<open>--payload\<close> belongs to \<open>send\<close> alone: for the two file commands the payload is empty.\<close>

definition file_opts :: "string \<Rightarrow> string \<Rightarrow> string \<Rightarrow> CelestiaOpts" where
  "file_opts path url ns = \<lparr>co_Payload = [], co_PayloadPath = path, co_PayloadUrl = url,
     co_Namespace = ns, co_Height = 0, co_Start = 0, co_End = 0, co_RpcUrl = ''http://localhost:8545'',
     co_chainId = 31337\<rparr>"

definition celestia_check_proof :: "share_nodes \<Rightarrow> CelestiaOpts \<Rightarrow> (ShareDigestsProof \<times> bytes) res option" where
  "celestia_check_proof N celestia = GetShareProof N (co_Height celestia) (co_Start celestia) (co_End celestia)"

definition celestia_relay_send ::
  "ethlib \<Rightarrow> relay_env \<Rightarrow> share_nodes \<Rightarrow> CelestiaOpts \<Rightarrow> relay_tx list \<Rightarrow> (unit res \<times> relay_tx list) option" where
  "celestia_relay_send E R N celestia =
     CallCelestiaRelay E R N (co_Height celestia) (co_Start celestia) (co_End celestia)
       (HexToAddress E devnet_ApplicationAddress) [] (co_RpcUrl celestia) (co_chainId celestia)"

section \<open>Facts\<close>

text \<open>
  The addresses are never checked: the names that the checks ask for are not those of the flags.
\<close>

lemma addresses_not_checked:
  assumes "cm_registered cmd = registered_flags"
  shows "checkEthAddress E cmd ''address-input-box'' = Inr ()" "checkEthAddress E cmd ''address-application'' = Inr ()"
  using assms by (simp_all add: checkEthAddress_def Flags_Changed_def registered_flags_def)

text \<open>A process that starts has a port, has no echo beside an application, and names a block with an RPC URL.\<close>

lemma check_options_ok:
  assumes "check_options E cmd opts args = Inr opts'"
  shows "op_AnvilPort opts' \<noteq> 0" and "op_EnableEcho opts' \<Longrightarrow> op_ApplicationArgs opts' = []"
    and "Flags_Changed cmd ''rpc-url'' \<Longrightarrow> Flags_Changed cmd ''contracts-input-box-block''"
    and "op_ApplicationArgs opts' = args"
  using assms by (auto simp: check_options_def split: sum.splits if_splits)

text \<open>
  The commands that send a file never send its content: what the node receives does not depend on
  it, as long as the file can be read and is not too big.
\<close>

lemma file_content_not_sent:
  assumes "readFile path = Inr content" and "CheckIfValidSize (of_nat (length content)) = Inr ()"
  shows "celestia_send_file E Getenv readFile N (file_opts path url ns) n =
      celestia_send E Getenv N (file_opts path' url' ns) n"
  using assms by (simp add: celestia_send_file_def celestia_send_def file_opts_def andThen_apply)

lemma url_content_not_sent:
  assumes "downloadFile url = Inr content" and "CheckIfValidSize (of_nat (length content)) = Inr ()"
  shows "celestia_send_file_url E Getenv downloadFile N (file_opts path url ns) n =
      celestia_send E Getenv N (file_opts path' url' ns) n"
  using assms by (simp add: celestia_send_file_url_def celestia_send_def file_opts_def andThen_apply)

end
