(* ===== verification/Releases.thy ===== *)
theory Releases
  imports RollupApi
begin

text \<open>
  \<open>internal/commons/handle_release.go\<close> and \<open>utils.go\<close>, and the installation of anvil in
  \<open>internal/devnet/anvil.go\<close>: choosing the release for the platform, remembering it in a
  configuration file, downloading and unpacking it. The file system is a map from paths, lists of
  names from the root, to directories and files. GitHub, the archive readers and the JSON coder
  are parameters.
\<close>

section \<open>Paths and files\<close>

type_synonym path = "string list"

datatype fnode = FDir | FFile bytes

type_synonym files = "path \<Rightarrow> fnode option"

text \<open>The names between the slashes.\<close>

fun split_slash :: "string \<Rightarrow> string list" where
  "split_slash [] = [[]]"
| "split_slash (c # cs) = (if c = CHR ''/'' then [] # split_slash cs
     else (case split_slash cs of [] \<Rightarrow> [[c]] | n # ns \<Rightarrow> (c # n) # ns))"

text \<open>\<open>filepath.Join\<close> under a rooted directory: the result is cleaned, \<open>..\<close> goes up and stops at the root.\<close>

fun clean_onto :: "path \<Rightarrow> string list \<Rightarrow> path" where
  "clean_onto p [] = p"
| "clean_onto p (n # ns) =
     (if n = [] \<or> n = ''.'' then clean_onto p ns
      else if n = ''..'' then clean_onto (butlast p) ns
      else clean_onto (p @ [n]) ns)"

definition path_Join :: "path \<Rightarrow> string \<Rightarrow> path" where
  "path_Join dir name = clean_onto dir (split_slash name)"

definition path_Dir :: "path \<Rightarrow> path" where "path_Dir p = butlast p"

text \<open>
  A step that touches a path may fail; the failures are a parameter. \<open>MkdirAll\<close> makes every
  directory on the way that is not there.
\<close>

type_synonym fs_faults = "path \<Rightarrow> err option"

definition MkdirAll :: "fs_faults \<Rightarrow> path \<Rightarrow> (files, unit) comp" where
  "MkdirAll F p fs = (case F p of Some e \<Rightarrow> (Inl e, fs)
     | None \<Rightarrow> (Inr (), \<lambda>q. if q \<in> set (map (\<lambda>i. take i p) [0..<Suc (length p)]) \<and> fs q = None then Some FDir else fs q))"

definition WriteFile :: "fs_faults \<Rightarrow> path \<Rightarrow> bytes \<Rightarrow> (files, unit) comp" where
  "WriteFile F p b fs = (case F p of Some e \<Rightarrow> (Inl e, fs) | None \<Rightarrow> (Inr (), fs(p \<mapsto> FFile b)))"

definition ReadFile :: "path \<Rightarrow> (files, bytes) comp" where
  "ReadFile p fs = (case fs p of Some (FFile b) \<Rightarrow> (Inr b, fs) | _ \<Rightarrow> (Inl (EExt ''no such file''), fs))"

definition Stat_ok :: "path \<Rightarrow> files \<Rightarrow> bool" where "Stat_ok p fs \<longleftrightarrow> fs p \<noteq> None"

text \<open>\<open>fmt.Errorf(msg + " %s", err.Error())\<close>: the text of the error, not the error.\<close>

definition textErr :: "string \<Rightarrow> ('s, 'a) comp \<Rightarrow> ('s, 'a) comp" where
  "textErr msg m = onError m (\<lambda>err. fail (EMsg (msg @ '' '' @ err_text err)))"

section \<open>Archives\<close>

text \<open>What the readers deliver one after the other: an entry, or an error that ends the reading.\<close>

datatype archive_entry = EntryDir string | EntryFile string bytes | EntryOther

definition write_entry :: "fs_faults \<Rightarrow> path \<Rightarrow> string \<Rightarrow> bytes \<Rightarrow> (files, unit) comp" where
  "write_entry F destDir name contents =
     andThen (MkdirAll F (path_Dir (path_Join destDir name))) (\<lambda>_.
     WriteFile F (path_Join destDir name) contents)"

definition tar_entry :: "fs_faults \<Rightarrow> path \<Rightarrow> archive_entry res \<Rightarrow> (files, unit) comp" where
  "tar_entry F dir next' = andThen (lift_res next') (\<lambda>header. case header of
         EntryDir name \<Rightarrow> MkdirAll F (path_Join dir name)
       | EntryFile name contents \<Rightarrow> write_entry F dir name contents
       | EntryOther \<Rightarrow> fail (EMsg ''Unsupported type''))"

definition ExtractTarGz ::
  "(bytes \<Rightarrow> (archive_entry res) list res) \<Rightarrow> fs_faults \<Rightarrow> bytes \<Rightarrow> path \<Rightarrow> (files, unit) comp" where
  "ExtractTarGz tarReader F archive destDir =
     andThen (lift_res (tarReader archive)) (\<lambda>headers.
     forEach (tar_entry F destDir) headers)"

definition ExtractZip ::
  "(bytes \<Rightarrow> (archive_entry list) res) \<Rightarrow> fs_faults \<Rightarrow> bytes \<Rightarrow> path \<Rightarrow> (files, unit) comp" where
  "ExtractZip zipReader F archive destDir =
     andThen (lift_res (zipReader archive)) (\<lambda>files.
     forEach (\<lambda>file. case file of
         EntryDir name \<Rightarrow> MkdirAll F (path_Join destDir name)
       | EntryFile name contents \<Rightarrow> write_entry F destDir name contents
       | EntryOther \<Rightarrow> ret ()) files)"

section \<open>Releases\<close>

record ReleaseAsset =
  ra_Tag :: string
  ra_AssetId :: int
  ra_Filename :: string
  ra_Url :: string
  ra_Path :: path

record AnvilConfig =
  ac_AssetAnvil :: ReleaseAsset
  ac_LatestCheck :: string

record github_release =
  gr_TagName :: string
  gr_Assets :: "(int \<times> string \<times> string) list"

text \<open>
  The host: platform, temporary directory, clock, faults of the file system; the JSON coder; GitHub:
  the list of releases, and an asset, directly or as the URL of a redirection; the archive readers.
\<close>

record release_host =
  rh_GOOS :: string
  rh_GOARCH :: string
  rh_TempDir :: path
  rh_Now :: string
  rh_faults :: fs_faults
  rh_Marshal :: "AnvilConfig \<Rightarrow> bytes res"
  rh_Unmarshal :: "bytes \<Rightarrow> AnvilConfig res"
  rh_ListReleases :: "string \<Rightarrow> string \<Rightarrow> github_release list res"
  rh_DownloadReleaseAsset :: "string \<Rightarrow> string \<Rightarrow> int \<Rightarrow> (bytes res \<times> string) res"
  rh_HttpGet :: "string \<Rightarrow> bytes res res"
  rh_tarReader :: "bytes \<Rightarrow> (archive_entry res) list res"
  rh_zipReader :: "bytes \<Rightarrow> (archive_entry list) res"

record AnvilRelease =
  ar_Namespace :: string
  ar_Repository :: string
  ar_ConfigFilename :: string

definition NewAnvilRelease :: AnvilRelease where
  "NewAnvilRelease = \<lparr>ar_Namespace = ''foundry-rs'', ar_Repository = ''foundry'',
     ar_ConfigFilename = ''anvil.nonodo.json''\<rparr>"

definition NewAnvilConfig :: "release_host \<Rightarrow> ReleaseAsset \<Rightarrow> AnvilConfig" where
  "NewAnvilConfig H ra = \<lparr>ac_AssetAnvil = ra, ac_LatestCheck = rh_Now H\<rparr>"

definition LoadAnvilConfig :: "release_host \<Rightarrow> path \<Rightarrow> (files, AnvilConfig) comp" where
  "LoadAnvilConfig H p =
     andThen (textErr ''anvil: failed to read config'' (ReadFile p)) (\<lambda>data.
     textErr ''anvil: failed to unmarshal config'' (lift_res (rh_Unmarshal H data)))"

definition SaveAnvilConfig :: "release_host \<Rightarrow> AnvilConfig \<Rightarrow> path \<Rightarrow> (files, unit) comp" where
  "SaveAnvilConfig H a p =
     andThen (textErr ''anvil: failed to marshal config'' (lift_res (rh_Marshal H a))) (\<lambda>data.
     textErr ''anvil: failed to write config'' (WriteFile (rh_faults H) p data))"

definition config_file :: "release_host \<Rightarrow> AnvilRelease \<Rightarrow> path" where
  "config_file H a = path_Join (rh_TempDir H) (ar_ConfigFilename a)"

definition SaveConfigOnDefaultLocation :: "release_host \<Rightarrow> AnvilRelease \<Rightarrow> AnvilConfig \<Rightarrow> (files, unit) comp" where
  "SaveConfigOnDefaultLocation H a config =
     (let c = NewAnvilConfig H (ac_AssetAnvil config) in SaveAnvilConfig H c (config_file H a))"

definition TryLoadConfig :: "release_host \<Rightarrow> AnvilRelease \<Rightarrow> (files, AnvilConfig option) comp" where
  "TryLoadConfig H a fs =
     (let file = config_file H a
      in if Stat_ok file fs then andThen (LoadAnvilConfig H file) (\<lambda>c. ret (Some c)) fs
         else (Inr None, fs))"

definition WINDOWS :: string where "WINDOWS = ''windows''"

definition FormatNameRelease :: "string \<Rightarrow> string \<Rightarrow> string" where
  "FormatNameRelease goos goarch =
     (let ext = (if goos = WINDOWS then ''.zip'' else ''.tar.gz'');
          myos = (if goos = WINDOWS then ''win32'' else goos)
      in ''foundry_nightly_'' @ myos @ ''_'' @ goarch @ ext)"

text \<open>The message has the system and the architecture the wrong way round.\<close>

definition PlatformCompatible :: "release_host \<Rightarrow> string res" where
  "PlatformCompatible H =
     (let goarch = rh_GOARCH H; goos = rh_GOOS H
      in if (goarch = ''amd64'' \<and> goos = WINDOWS) \<or>
            ((goarch = ''amd64'' \<or> goarch = ''arm64'') \<and> (goos = ''linux'' \<or> goos = ''darwin''))
         then Inr (FormatNameRelease goos goarch)
         else Inl (EMsg (''anvil: platform not supported: os = '' @ goarch @ ''; arch = '' @ goos)))"

definition ExtractAsset :: "release_host \<Rightarrow> bytes \<Rightarrow> string \<Rightarrow> path \<Rightarrow> (files, unit) comp" where
  "ExtractAsset H archive filename destDir =
     (if HasSuffix filename ''.zip'' then ExtractZip (rh_zipReader H) (rh_faults H) archive destDir
      else if HasSuffix filename ''.tar.gz'' then ExtractTarGz (rh_tarReader H) (rh_faults H) archive destDir
      else fail (EMsg (''format unsupported: '' @ filename)))"

definition GetAssetsFromLastReleaseGitHub ::
  "release_host \<Rightarrow> string \<Rightarrow> string \<Rightarrow> ReleaseAsset list res" where
  "GetAssetsFromLastReleaseGitHub H ns repository =
     (case rh_ListReleases H ns repository of
        Inl err \<Rightarrow> Inl (EMsg (ns @ ''('' @ repository @ ''): failed to list releases '' @ err_text err))
      | Inr releases \<Rightarrow> Inr (concat (map (\<lambda>r. map (\<lambda>(i, name, url).
          \<lparr>ra_Tag = gr_TagName r, ra_AssetId = i, ra_Filename = name, ra_Url = url, ra_Path = []\<rparr>)
          (gr_Assets r)) releases)))"

definition GetLatestReleaseCompatible :: "release_host \<Rightarrow> AnvilRelease \<Rightarrow> (files, ReleaseAsset) comp" where
  "GetLatestReleaseCompatible H a =
     andThen (lift_res (PlatformCompatible H)) (\<lambda>p.
     andThen (TryLoadConfig H a) (\<lambda>config. case config of
         Some c \<Rightarrow> ret (ac_AssetAnvil c)
       | None \<Rightarrow>
           andThen (lift_res (GetAssetsFromLastReleaseGitHub H (ar_Namespace a) (ar_Repository a))) (\<lambda>assets.
           case find (\<lambda>a. ra_Filename a = p) assets of
             Some asset \<Rightarrow>
               andThen (SaveConfigOnDefaultLocation H a (NewAnvilConfig H asset)) (\<lambda>_. ret asset)
           | None \<Rightarrow> fail (EMsg ''anvil: no compatible release found''))))"

text \<open>
  The result is the path of the executable and the asset, whose \<open>Path\<close> the source sets when it
  unpacked it.
\<close>

definition DownloadAsset ::
  "release_host \<Rightarrow> AnvilRelease \<Rightarrow> ReleaseAsset \<Rightarrow> (files, path \<times> ReleaseAsset) comp" where
  "DownloadAsset H a release =
     (let root = path_Join (rh_TempDir H) (ra_Tag release)
      in andThen (textErr ''anvil: failed to create temp dir'' (MkdirAll (rh_faults H) root)) (\<lambda>_ fs.
         let filename = (if rh_GOOS H = WINDOWS then ''anvil.exe'' else ''anvil'');
             anvilExec = path_Join root filename
         in if Stat_ok anvilExec fs then (Inr (anvilExec, release), fs)
            else andThen (textErr ''anvil: failed to download asset''
                (lift_res (rh_DownloadReleaseAsset H (ar_Namespace a) (ar_Repository a) (ra_AssetId release))))
              (\<lambda>(rc, redirect).
              andThen (if redirect \<noteq> [] then textErr ''anvil: failed to download asset'' (lift_res (rh_HttpGet H redirect))
                else ret rc) (\<lambda>rc.
              andThen (textErr ''anvil: failed to read asset'' (lift_res rc)) (\<lambda>data.
              andThen (textErr ''anvil: failed to extract asset'' (ExtractAsset H data (ra_Filename release) root)) (\<lambda>_.
              ret (anvilExec, release\<lparr>ra_Path := root\<rparr>))))) fs))"

text \<open>\<open>Prerequisites\<close> does nothing outside Windows; it is a parameter.\<close>

definition InstallAnvil :: "release_host \<Rightarrow> unit res \<Rightarrow> (files, path) comp" where
  "InstallAnvil H Prerequisites =
     andThen (wrapErr ''anvil: failed to get latest release'' (GetLatestReleaseCompatible H NewAnvilRelease)) (\<lambda>latest.
     andThen (wrapErr ''anvil: failed to install prerequisites'' (lift_res Prerequisites)) (\<lambda>_.
     andThen (wrapErr ''anvil: failed to download asset'' (DownloadAsset H NewAnvilRelease latest)) (\<lambda>(anvilExec, _).
     ret anvilExec)))"

definition anvilCommand :: path where "anvilCommand = [''anvil'']"

definition CheckAnvilAndInstall :: "bool \<Rightarrow> release_host \<Rightarrow> unit res \<Rightarrow> (files, path) comp" where
  "CheckAnvilAndInstall IsAnvilInstalled H Prerequisites =
     (if \<not> IsAnvilInstalled then
        andThen (wrapErr ''anvil: failed to install'' (InstallAnvil H Prerequisites)) (\<lambda>location. ret location)
      else ret anvilCommand)"

section \<open>Where an archive is unpacked\<close>

text \<open>The paths on one line with the directory: below it, or above it.\<close>

definition around :: "path \<Rightarrow> path \<Rightarrow> bool" where
  "around dir q \<longleftrightarrow> (\<exists>r. q = dir @ r \<or> dir = q @ r)"

definition only_around :: "path \<Rightarrow> files \<Rightarrow> files \<Rightarrow> bool" where
  "only_around dir fs fs' \<longleftrightarrow> (\<forall>q. fs' q \<noteq> fs q \<longrightarrow> around dir q)"

lemma only_around_refl [simp]: "reflp (only_around dir)"
  by (simp add: reflp_def only_around_def)

lemma only_around_trans [simp]: "transp (only_around dir)"
  by (rule transpI) (metis only_around_def)

lemma around_take:
  assumes "around dir p"
  shows "around dir (take i p)"
proof -
  from assms consider r where "p = dir @ r" | r where "dir = p @ r" by (auto simp: around_def)
  then show ?thesis
  proof cases
    case 1
    show ?thesis
    proof (cases "i \<le> length dir")
      case True
      with 1 have "dir = take i p @ drop i dir" by simp
      then show ?thesis unfolding around_def by blast
    next
      case False
      with 1 have "take i p = dir @ take (i - length dir) r" by simp
      then show ?thesis unfolding around_def by blast
    qed
  next
    case 2
    then have "dir = take i p @ (drop i p @ r)" by simp
    then show ?thesis unfolding around_def by blast
  qed
qed

lemma MkdirAll_around: "around dir p \<Longrightarrow> keeps (only_around dir) (MkdirAll F p)"
  unfolding keeps_def MkdirAll_def
  by (auto simp: only_around_def dest: around_take split: option.splits if_splits)

lemma WriteFile_around: "around dir p \<Longrightarrow> keeps (only_around dir) (WriteFile F p b)"
  by (auto simp: keeps_def WriteFile_def only_around_def split: option.splits)

text \<open>A name without \<open>..\<close> stays below the directory.\<close>

definition safe_name :: "string \<Rightarrow> bool" where
  "safe_name name \<longleftrightarrow> ''..'' \<notin> set (split_slash name)"

lemma clean_onto_below: "''..'' \<notin> set ns \<Longrightarrow> \<exists>r. clean_onto p ns = p @ r"
proof (induction ns arbitrary: p)
  case (Cons n ns)
  obtain r where "clean_onto p ns = p @ r" using Cons by auto
  moreover obtain r' where "clean_onto (p @ [n]) ns = (p @ [n]) @ r'" using Cons.IH [of "p @ [n]"] Cons.prems by auto
  ultimately show ?case using Cons.prems by auto
qed simp

lemma path_Join_around: "safe_name name \<Longrightarrow> around dir (path_Join dir name)"
  using clean_onto_below [of "split_slash name" dir] by (auto simp: path_Join_def safe_name_def around_def)

fun safe_entry :: "archive_entry \<Rightarrow> bool" where
  "safe_entry (EntryDir name) = safe_name name"
| "safe_entry (EntryFile name contents) = safe_name name"
| "safe_entry EntryOther = True"

lemma write_entry_around:
  assumes "safe_name name"
  shows "keeps (only_around dir) (write_entry F dir name contents)"
  unfolding write_entry_def path_Dir_def butlast_conv_take
  by (intro keeps_andThen only_around_trans MkdirAll_around WriteFile_around around_take path_Join_around assms)

lemma EntryDir_around: "safe_name name \<Longrightarrow> keeps (only_around dir) (MkdirAll F (path_Join dir name))"
  by (intro MkdirAll_around path_Join_around)

lemma tar_entry_around:
  assumes "\<And>h. x = Inr h \<Longrightarrow> safe_entry h"
  shows "keeps (only_around dir) (tar_entry F dir x)"
proof (cases x)
  case (Inl e)
  then show ?thesis by (simp add: keeps_def tar_entry_def andThen_apply only_around_def)
next
  case (Inr h)
  with assms have "safe_entry h" .
  with Inr have "tar_entry F dir x fs = (case h of
         EntryDir name \<Rightarrow> MkdirAll F (path_Join dir name)
       | EntryFile name contents \<Rightarrow> write_entry F dir name contents
       | EntryOther \<Rightarrow> fail (EMsg ''Unsupported type'')) fs" for fs
    by (simp add: tar_entry_def andThen_apply)
  with \<open>safe_entry h\<close> show ?thesis
    using EntryDir_around [of _ dir F] write_entry_around [of _ dir F]
    by (cases h) (auto simp: keeps_def only_around_def)
qed

lemma ExtractTarGz_around:
  assumes "\<And>hs h. tarReader archive = Inr hs \<Longrightarrow> Inr h \<in> set hs \<Longrightarrow> safe_entry h"
  shows "keeps (only_around dir) (ExtractTarGz tarReader F archive dir)"
proof (cases "tarReader archive")
  case (Inl e)
  then show ?thesis by (simp add: ExtractTarGz_def keeps_def andThen_apply only_around_def)
next
  case (Inr hs)
  have "keeps (only_around dir) (forEach (tar_entry F dir) hs)"
    using assms [OF Inr] by (intro keeps_forEach only_around_refl only_around_trans tar_entry_around) auto
  with Inr show ?thesis by (simp add: ExtractTarGz_def keeps_def andThen_apply)
qed

lemma ExtractAsset_around:
  assumes "rh_tarReader H archive = Inr hs" and "\<forall>h. Inr h \<in> set hs \<longrightarrow> safe_entry h"
    and "HasSuffix filename ''.tar.gz''" and "\<not> HasSuffix filename ''.zip''"
    and "ExtractAsset H archive filename dir fs = (r, fs')" and "fs' q \<noteq> fs q"
  shows "around dir q"
proof -
  have "ExtractTarGz (rh_tarReader H) (rh_faults H) archive dir fs = (r, fs')"
    using assms(3-5) by (simp add: ExtractAsset_def)
  moreover have "keeps (only_around dir) (ExtractTarGz (rh_tarReader H) (rh_faults H) archive dir)"
    using assms(1,2) by (intro ExtractTarGz_around) auto
  ultimately have "only_around dir fs fs'" by (rule keepsD [rotated])
  with assms(6) show ?thesis by (simp add: only_around_def)
qed

text \<open>But a name that goes up is followed: the archive writes where it likes.\<close>

lemma ExtractTarGz_escapes:
  assumes "tarReader archive = Inr [Inr (EntryFile ''../evil'' contents)]" and "\<And>p. F p = None"
  shows "\<exists>fs'. ExtractTarGz tarReader F archive (dir @ [d]) fs = (Inr (), fs') \<and> fs' (dir @ [''evil'']) = Some (FFile contents)"
proof -
  have "path_Join (dir @ [d]) ''../evil'' = dir @ [''evil'']" by (simp add: path_Join_def)
  then show ?thesis
    using assms by (simp add: ExtractTarGz_def tar_entry_def andThen_apply write_entry_def MkdirAll_def WriteFile_def)
qed

section \<open>The remembered release\<close>

text \<open>\<open>json_roundtrip\<close>: what is written is read back.\<close>

definition json_roundtrip :: "release_host \<Rightarrow> bool" where
  "json_roundtrip H \<longleftrightarrow> (\<forall>c b. rh_Marshal H c = Inr b \<longrightarrow> rh_Unmarshal H b = Inr c)"

lemma textErr_InrE:
  assumes "textErr msg m s = (Inr x, s')"
  obtains "m s = (Inr x, s')"
  using assms by (auto simp: textErr_def onError_apply split: prod.splits sum.splits if_splits)

lemma SaveAnvilConfig_reads:
  assumes "json_roundtrip H" and "SaveAnvilConfig H c p fs = (Inr (), fs')"
  shows "Stat_ok p fs' \<and> LoadAnvilConfig H p fs' = (Inr c, fs')"
proof -
  from assms(2) obtain b where b: "rh_Marshal H c = Inr b" "fs' = fs(p \<mapsto> FFile b)"
    by (auto simp: SaveAnvilConfig_def WriteFile_def textErr_def onError_apply andThen_apply
        split: sum.splits option.splits if_splits)
  with assms(1) have "rh_Unmarshal H b = Inr c" by (auto simp: json_roundtrip_def)
  with b(2) show ?thesis
    by (simp add: Stat_ok_def LoadAnvilConfig_def ReadFile_def textErr_def onError_apply andThen_apply)
qed

text \<open>A release that was chosen once is chosen again, whatever GitHub then offers.\<close>

lemma GetLatestReleaseCompatible_again:
  assumes "json_roundtrip H" and "GetLatestReleaseCompatible H a fs = (Inr r, fs')"
    and "\<not> Stat_ok (config_file H a) fs"
  shows "(\<exists>p. PlatformCompatible H = Inr p \<and> ra_Filename r = p) \<and>
    GetLatestReleaseCompatible (H\<lparr>rh_ListReleases := other\<rparr>) a fs' = (Inr r, fs')"
proof -
  from assms(2,3) obtain p assets where p: "PlatformCompatible H = Inr p"
    and f: "find (\<lambda>a. ra_Filename a = p) assets = Some r"
    and s: "SaveConfigOnDefaultLocation H a (NewAnvilConfig H r) fs = (Inr (), fs')"
    by (auto simp: GetLatestReleaseCompatible_def andThen_apply TryLoadConfig_def Let_def
        split: sum.splits option.splits prod.splits)
  have c: "SaveAnvilConfig H (NewAnvilConfig H r) (config_file H a) fs = (Inr (), fs')"
    using s by (simp add: SaveConfigOnDefaultLocation_def NewAnvilConfig_def)
  let ?H = "H\<lparr>rh_ListReleases := other\<rparr>"
  have "config_file ?H a = config_file H a" "PlatformCompatible ?H = PlatformCompatible H"
    "LoadAnvilConfig ?H = LoadAnvilConfig H"
    by (auto simp: config_file_def PlatformCompatible_def LoadAnvilConfig_def)
  moreover have "ra_Filename r = p" using f by (auto simp: find_Some_iff)
  ultimately show ?thesis
    using SaveAnvilConfig_reads [OF assms(1) c] p
    by (simp add: GetLatestReleaseCompatible_def andThen_apply TryLoadConfig_def NewAnvilConfig_def)
qed

end
