(* ===== verification/CommandLogger.thy ===== *)
theory CommandLogger
  imports Prelude
begin

text \<open>
  \<open>internal/supervisor/command_logger.go\<close>: the writer that turns the output of a command into log lines.
  A call of \<open>Write\<close> logs the lines that end in its data; what stands behind the last line end is
  taken from the buffer as well, and lost.
\<close>

section \<open>The writer\<close>

definition NL :: char where "NL = CHR 0x0A"
definition ESC :: char where "ESC = CHR 0x1B"

text \<open>The colours: the escape character, a bracket, digits and semicolons, and an \<open>m\<close>.\<close>

definition color_tail :: "string \<Rightarrow> string option" where
  "color_tail cs = (case cs of
      b # ds \<Rightarrow> if b = CHR ''['' then
          (case dropWhile (\<lambda>c. c \<in> set ''0123456789;'') ds of
             m # rest \<Rightarrow> if m = CHR ''m'' then Some rest else None
           | [] \<Rightarrow> None)
        else None
    | [] \<Rightarrow> None)"

lemma color_tail_length: "color_tail cs = Some rest \<Longrightarrow> length rest < length cs"
proof -
  assume a: "color_tail cs = Some rest"
  then obtain b ds where cs: "cs = b # ds" by (cases cs) (auto simp: color_tail_def)
  from a cs have "dropWhile (\<lambda>c. c \<in> set ''0123456789;'') ds = CHR ''m'' # rest"
    by (auto simp: color_tail_def split: if_splits list.splits)
  then have "length (CHR ''m'' # rest) \<le> length ds" using length_dropWhile_le by metis
  with cs show ?thesis by simp
qed

function remove_color :: "string \<Rightarrow> string" where
  "remove_color [] = []"
| "remove_color (c # cs) = (if c = ESC then
     (case color_tail cs of Some rest \<Rightarrow> remove_color rest | None \<Rightarrow> c # remove_color cs)
     else c # remove_color cs)"
  by pat_completeness auto
termination
  by (relation "measure length") (auto dest: color_tail_length)

text \<open>\<open>ReadBytes\<close>: up to the line end, or everything and the end of the file; the rest stays.\<close>

definition ReadBytes :: "string \<Rightarrow> (string + string) \<times> string" where
  "ReadBytes buf = (case dropWhile (\<lambda>c. c \<noteq> NL) buf of
      [] \<Rightarrow> (Inl buf, [])
    | n # rest \<Rightarrow> (Inr (takeWhile (\<lambda>c. c \<noteq> NL) buf @ [n]), rest))"

lemma ReadBytes_length: "ReadBytes buf = (Inr line, rest) \<Longrightarrow> length rest < length buf"
proof -
  assume a: "ReadBytes buf = (Inr line, rest)"
  then obtain n where "dropWhile (\<lambda>c. c \<noteq> NL) buf = n # rest"
    by (auto simp: ReadBytes_def split: list.splits)
  then have "length (n # rest) \<le> length buf" using length_dropWhile_le by metis
  then show ?thesis by simp
qed

text \<open>The loop of \<open>Write\<close>: the lines it logs, and the buffer it leaves.\<close>

function log_loop :: "string \<Rightarrow> string list \<times> string" where
  "log_loop buf = (case ReadBytes buf of
      (Inl eof, rest) \<Rightarrow> ([], rest)
    | (Inr bytes, rest) \<Rightarrow>
        (let line = remove_color (take (length bytes - 1) bytes); (lines, buf') = log_loop rest
         in (if length line > 0 then line # lines else lines, buf')))"
  by pat_completeness auto
termination
  by (relation "measure length") (auto dest: ReadBytes_length [OF sym])

declare log_loop.simps [simp del]

record commandLogger =
  cl_name :: string
  cl_buffName :: string
  cl_buffer :: string

text \<open>The lines that are logged, the number of bytes that \<open>Write\<close> returns, and the writer after it.\<close>

definition commandLogger_Write :: "string \<Rightarrow> commandLogger \<Rightarrow> string list \<times> int \<times> commandLogger" where
  "commandLogger_Write data w =
     (let (lines, buf) = log_loop (cl_buffer w @ data)
      in (lines, int (length data), w\<lparr>cl_buffer := buf\<rparr>))"

fun write_all :: "string list \<Rightarrow> commandLogger \<Rightarrow> string list \<times> commandLogger" where
  "write_all [] w = ([], w)"
| "write_all (d # ds) w =
     (let (lines, _, w1) = commandLogger_Write d w; (more, w2) = write_all ds w1 in (lines @ more, w2))"

section \<open>What is logged\<close>

text \<open>A text of whole lines and a rest without a line end.\<close>

fun text_of :: "string list \<Rightarrow> string" where
  "text_of [] = []"
| "text_of (l # ls) = l @ NL # text_of ls"

definition shown :: "string list \<Rightarrow> string list" where
  "shown ls = filter (\<lambda>l. l \<noteq> []) (map remove_color ls)"

lemma before_NL: "NL \<notin> set l \<Longrightarrow> dropWhile (\<lambda>c. c \<noteq> NL) (l @ rest) = dropWhile (\<lambda>c. c \<noteq> NL) rest"
  "NL \<notin> set l \<Longrightarrow> takeWhile (\<lambda>c. c \<noteq> NL) (l @ rest) = l @ takeWhile (\<lambda>c. c \<noteq> NL) rest"
  by (induction l) auto

lemma ReadBytes_rest: "NL \<notin> set rest \<Longrightarrow> ReadBytes rest = (Inl rest, [])"
proof -
  assume "NL \<notin> set rest"
  then have "dropWhile (\<lambda>c. c \<noteq> NL) rest = []" by (induction rest) auto
  then show ?thesis by (simp add: ReadBytes_def del: dropWhile_eq_Nil_conv)
qed

lemma ReadBytes_line: "NL \<notin> set l \<Longrightarrow> ReadBytes (l @ NL # rest) = (Inr (l @ [NL]), rest)"
  by (simp add: ReadBytes_def before_NL)

lemma log_loop_text:
  assumes "\<forall>l \<in> set ls. NL \<notin> set l" and "NL \<notin> set rest"
  shows "log_loop (text_of ls @ rest) = (shown ls, [])"
  using assms(1)
proof (induction ls)
  case Nil
  then show ?case using assms(2) by (subst log_loop.simps) (simp add: ReadBytes_rest shown_def)
next
  case (Cons l ls)
  then show ?case
    by (subst log_loop.simps) (simp add: ReadBytes_line shown_def)
qed

text \<open>
  Every write logs the lines of its own data and loses the rest: a line that comes in two writes is
  logged from the second part on.
\<close>

lemma Write_text:
  assumes "cl_buffer w = []" and "\<forall>l \<in> set ls. NL \<notin> set l" and "NL \<notin> set rest"
  shows "commandLogger_Write (text_of ls @ rest) w = (shown ls, int (length (text_of ls @ rest)), w)"
  using log_loop_text [OF assms(2,3)] assms(1) by (simp add: commandLogger_Write_def)

lemma split_line_is_cut:
  assumes "cl_buffer w = []" and "NL \<notin> set a" and "NL \<notin> set b"
  shows "fst (write_all [a, b @ [NL]] w) = shown [b]" and "fst (write_all [a @ b @ [NL]] w) = shown [a @ b]"
  using Write_text [OF assms(1), of "[]" a] Write_text [OF assms(1), of "[b]" "[]"]
    Write_text [OF assms(1), of "[a @ b]" "[]"] assms(2,3) by (simp_all add: shown_def)

end
