(* ===== verification/Json.thy ===== *)
theory Json
  imports Prelude
begin

text \<open>
  What the repository uses of Go's \<open>encoding/json\<close> (Go 1.22): the text of a value as \<open>Marshal\<close> writes it,
  with the escapes of strings; the parser, from the white space and the escapes to the nesting limit;
  and \<open>Unmarshal\<close> into a struct, whose fields are found by name up to case, where unknown members are
  ignored, absent and null ones leave the field alone, and a value of another type is an error. The
  clients and servers of the HTTP interfaces are built on it. The last section shows that the parser
  reads back what was written.
\<close>

section \<open>UTF-8\<close>

abbreviation code :: "char \<Rightarrow> nat" where "code c \<equiv> of_char c"

definition ascii_char :: "char \<Rightarrow> bool" where "ascii_char c \<longleftrightarrow> code c < 128"

abbreviation ascii :: "string \<Rightarrow> bool" where "ascii \<equiv> list_all ascii_char"

definition between :: "nat \<Rightarrow> nat \<Rightarrow> char \<Rightarrow> bool" where
  "between lo hi c \<longleftrightarrow> lo \<le> code c \<and> code c \<le> hi"

abbreviation cont :: "char \<Rightarrow> bool" where "cont \<equiv> between 0x80 0xBF"

text \<open>The number of continuation bytes of a rune that starts with \<open>c\<close>; \<open>None\<close> when it is not well-formed.\<close>

fun rune_tail :: "char \<Rightarrow> string \<Rightarrow> nat option" where
  "rune_tail c (x # y # z # cs) =
     (if between 0xC2 0xDF c \<and> cont x then Some 1
      else if (c = CHR 0xE0 \<and> between 0xA0 0xBF x \<or> between 0xE1 0xEC c \<and> cont x \<or>
          c = CHR 0xED \<and> between 0x80 0x9F x \<or> between 0xEE 0xEF c \<and> cont x) \<and> cont y then Some 2
      else if (c = CHR 0xF0 \<and> between 0x90 0xBF x \<or> between 0xF1 0xF3 c \<and> cont x \<or>
          c = CHR 0xF4 \<and> between 0x80 0x8F x) \<and> cont y \<and> cont z then Some 3
      else None)"
| "rune_tail c [x, y] =
     (if between 0xC2 0xDF c \<and> cont x then Some 1
      else if (c = CHR 0xE0 \<and> between 0xA0 0xBF x \<or> between 0xE1 0xEC c \<and> cont x \<or>
          c = CHR 0xED \<and> between 0x80 0x9F x \<or> between 0xEE 0xEF c \<and> cont x) \<and> cont y then Some 2
      else None)"
| "rune_tail c [x] = (if between 0xC2 0xDF c \<and> cont x then Some 1 else None)"
| "rune_tail c [] = None"

text \<open>\<open>utf8.EncodeRune\<close>.\<close>

definition utf8_encode :: "nat \<Rightarrow> string" where
  "utf8_encode r =
     (if r < 0x80 then [char_of r]
      else if r < 0x800 then [char_of (0xC0 + r div 64), char_of (0x80 + r mod 64)]
      else if r < 0x10000 then
        [char_of (0xE0 + r div 4096), char_of (0x80 + r div 64 mod 64), char_of (0x80 + r mod 64)]
      else [char_of (0xF0 + r div 262144), char_of (0x80 + r div 4096 mod 64),
        char_of (0x80 + r div 64 mod 64), char_of (0x80 + r mod 64)])"

definition RuneError :: string where "RuneError = [CHR 0xEF, CHR 0xBF, CHR 0xBD]"

section \<open>Writing\<close>

text \<open>Numbers are kept as their literals.\<close>

datatype json = JNull | JBool bool | JNum string | JStr string | JArr "json list" | JObj "(string \<times> json) list"

definition hex_char :: "nat \<Rightarrow> char" where "hex_char n = ''0123456789abcdef'' ! n"

definition unicode_escape :: "nat \<Rightarrow> string" where
  "unicode_escape n = [CHR 0x5C, CHR ''u'', hex_char (n div 4096), hex_char (n div 256 mod 16),
     hex_char (n div 16 mod 16), hex_char (n mod 16)]"

text \<open>A character below 128, with the escapes of HTML.\<close>

definition quote_char :: "char \<Rightarrow> string" where
  "quote_char c =
     (if c = CHR 0x22 \<or> c = CHR 0x5C then [CHR 0x5C, c]
      else if c = CHR 0x08 then [CHR 0x5C, CHR ''b'']
      else if c = CHR 0x0C then [CHR 0x5C, CHR ''f'']
      else if c = CHR 0x0A then [CHR 0x5C, CHR ''n'']
      else if c = CHR 0x0D then [CHR 0x5C, CHR ''r'']
      else if c = CHR 0x09 then [CHR 0x5C, CHR ''t'']
      else if code c < 0x20 \<or> c = CHR ''<'' \<or> c = CHR ''>'' \<or> c = CHR ''&'' then unicode_escape (code c)
      else [c])"

text \<open>The line and paragraph separators are escaped too.\<close>

definition separator :: "string \<Rightarrow> nat option" where
  "separator r = (if r = [CHR 0xE2, CHR 0x80, CHR 0xA8] then Some 0x2028
     else if r = [CHR 0xE2, CHR 0x80, CHR 0xA9] then Some 0x2029 else None)"

function quote_body :: "string \<Rightarrow> string" where
  "quote_body [] = []"
| "quote_body (c # cs) =
     (if ascii_char c then quote_char c @ quote_body cs
      else (case rune_tail c cs of
          None \<Rightarrow> unicode_escape 0xFFFD @ quote_body cs
        | Some n \<Rightarrow> (case separator (c # take n cs) of
              Some r \<Rightarrow> unicode_escape r
            | None \<Rightarrow> c # take n cs) @ quote_body (drop n cs)))"
  by pat_completeness auto
termination by (relation "measure length") auto

definition quote :: "string \<Rightarrow> string" where
  "quote s = CHR 0x22 # quote_body s @ [CHR 0x22]"

text \<open>\<open>json.Marshal\<close>: compact, members in the order of the struct.\<close>

fun json_print :: "json \<Rightarrow> string" where
  "json_print JNull = ''null''"
| "json_print (JBool b) = (if b then ''true'' else ''false'')"
| "json_print (JNum n) = n"
| "json_print (JStr s) = quote s"
| "json_print (JArr xs) = ''['' @ join '','' (map json_print xs) @ '']''"
| "json_print (JObj kvs) = ''{'' @ join '','' (map (\<lambda>(k, v). quote k @ '':'' @ json_print v) kvs) @ ''}''"

section \<open>Reading\<close>

definition is_ws :: "char \<Rightarrow> bool" where
  "is_ws c \<longleftrightarrow> c = CHR '' '' \<or> c = CHR 0x09 \<or> c = CHR 0x0A \<or> c = CHR 0x0D"

definition skip_ws :: "string \<Rightarrow> string" where "skip_ws s = dropWhile is_ws s"

definition hex_val :: "char \<Rightarrow> nat option" where
  "hex_val c =
     (if between 0x30 0x39 c then Some (code c - 0x30)
      else if between 0x61 0x66 c then Some (code c - 0x61 + 10)
      else if between 0x41 0x46 c then Some (code c - 0x41 + 10)
      else None)"

text \<open>Four hexadecimal digits, and the rest.\<close>

definition hex4 :: "string \<Rightarrow> (nat \<times> string) option" where
  "hex4 s = (case s of
       a # b # c # d # r \<Rightarrow> (case (hex_val a, hex_val b, hex_val c, hex_val d) of
           (Some x, Some y, Some z, Some w) \<Rightarrow> Some (4096 * x + 256 * y + 16 * z + w, r)
         | _ \<Rightarrow> None)
     | _ \<Rightarrow> None)"

definition escaped :: "char \<Rightarrow> char option" where
  "escaped e =
     (if e = CHR 0x22 \<or> e = CHR 0x5C \<or> e = CHR ''/'' then Some e
      else if e = CHR ''b'' then Some (CHR 0x08) else if e = CHR ''f'' then Some (CHR 0x0C)
      else if e = CHR ''n'' then Some (CHR 0x0A) else if e = CHR ''r'' then Some (CHR 0x0D)
      else if e = CHR ''t'' then Some (CHR 0x09) else None)"

text \<open>
  The rune of an escape with the digits \<open>r\<close> before the text \<open>s\<close>: a surrogate is combined with a second
  escape, when that is its other half, and is replaced otherwise.
\<close>

definition escape_rune :: "nat \<Rightarrow> string \<Rightarrow> string \<times> string" where
  "escape_rune r s =
     (if 0xD800 \<le> r \<and> r < 0xE000 then
        (case s of
           b # u # s' \<Rightarrow> if b = CHR 0x5C \<and> u = CHR ''u'' then
             (case hex4 s' of
                Some (r', s'') \<Rightarrow> if r < 0xDC00 \<and> 0xDC00 \<le> r' \<and> r' < 0xE000
                    then (utf8_encode (0x10000 + (r - 0xD800) * 1024 + (r' - 0xDC00)), s'')
                    else (RuneError, s)
              | None \<Rightarrow> (RuneError, s))
             else (RuneError, s)
         | _ \<Rightarrow> (RuneError, s))
      else (utf8_encode r, s))"

lemma hex4_length: "hex4 s = Some (r, s') \<Longrightarrow> length s' < length s"
  by (auto simp: hex4_def split: list.splits option.splits prod.splits)

lemma escape_rune_length: "length (snd (escape_rune r s)) \<le> length s"
  by (auto simp: escape_rune_def dest: hex4_length split: list.splits option.splits)

text \<open>The contents of a string, behind its first quote, and what follows its last one.\<close>

function unquote :: "string \<Rightarrow> (string \<times> string) option" where
  "unquote [] = None"
| "unquote (c # cs) =
     (if c = CHR 0x22 then Some ([], cs)
      else if c = CHR 0x5C then
        (case cs of [] \<Rightarrow> None
         | e # es \<Rightarrow>
             if e = CHR ''u'' then
               (case hex4 es of None \<Rightarrow> None
                | Some (r, es') \<Rightarrow> map_option (\<lambda>(x, rest). (fst (escape_rune r es') @ x, rest))
                    (unquote (snd (escape_rune r es'))))
             else (case escaped e of None \<Rightarrow> None
                | Some d \<Rightarrow> map_option (\<lambda>(x, rest). (d # x, rest)) (unquote es)))
      else if code c < 0x20 then None
      else if ascii_char c then map_option (\<lambda>(x, rest). (c # x, rest)) (unquote cs)
      else (case rune_tail c cs of
          None \<Rightarrow> map_option (\<lambda>(x, rest). (RuneError @ x, rest)) (unquote cs)
        | Some n \<Rightarrow> map_option (\<lambda>(x, rest). (c # take n cs @ x, rest)) (unquote (drop n cs))))"
  by pat_completeness auto
termination
proof (relation "measure length", goal_cases)
  case (2 c cs e es p r es')
  then show ?case using escape_rune_length [of r es'] by (auto dest!: hex4_length)
qed auto

definition is_digit :: "char \<Rightarrow> bool" where "is_digit c \<longleftrightarrow> between 0x30 0x39 c"

text \<open>Digits, at least one; then an optional fraction and exponent.\<close>

definition scan_digits :: "string \<Rightarrow> (string \<times> string) option" where
  "scan_digits s = (case takeWhile is_digit s of [] \<Rightarrow> None | ds \<Rightarrow> Some (ds, dropWhile is_digit s))"

definition scan_frac :: "string \<Rightarrow> (string \<times> string) option" where
  "scan_frac s = (case s of c # r \<Rightarrow> if c = CHR ''.''
       then map_option (\<lambda>(ds, r'). (c # ds, r')) (scan_digits r) else Some ([], s)
     | [] \<Rightarrow> Some ([], s))"

definition scan_exp :: "string \<Rightarrow> (string \<times> string) option" where
  "scan_exp s = (case s of c # r \<Rightarrow> if c = CHR ''e'' \<or> c = CHR ''E'' then
       (case r of d # r' \<Rightarrow> if d = CHR ''+'' \<or> d = CHR ''-''
            then map_option (\<lambda>(ds, r''). (c # d # ds, r'')) (scan_digits r')
            else map_option (\<lambda>(ds, r''). (c # ds, r'')) (scan_digits r)
        | [] \<Rightarrow> None)
       else Some ([], s)
     | [] \<Rightarrow> Some ([], s))"

definition scan_integer :: "string \<Rightarrow> (string \<times> string) option" where
  "scan_integer s = (case s of c # r \<Rightarrow> if c = CHR ''0'' then Some ([c], r) else scan_digits s | [] \<Rightarrow> None)"

definition scan_unsigned :: "string \<Rightarrow> (string \<times> string) option" where
  "scan_unsigned s = (case scan_integer s of None \<Rightarrow> None
     | Some (i, r) \<Rightarrow> (case scan_frac r of None \<Rightarrow> None
       | Some (f, r') \<Rightarrow> (case scan_exp r' of None \<Rightarrow> None
         | Some (e, r'') \<Rightarrow> Some (i @ f @ e, r''))))"

definition scan_number :: "string \<Rightarrow> (string \<times> string) option" where
  "scan_number s = (case s of c # r \<Rightarrow> if c = CHR ''-''
       then map_option (\<lambda>(n, r'). (c # n, r')) (scan_unsigned r) else scan_unsigned s
     | [] \<Rightarrow> None)"

definition strip_prefix :: "string \<Rightarrow> string \<Rightarrow> string option" where
  "strip_prefix p s = (if take (length p) s = p then Some (drop (length p) s) else None)"

definition parse_literal :: "string \<Rightarrow> (json \<times> string) option" where
  "parse_literal s = (case strip_prefix ''null'' s of Some r \<Rightarrow> Some (JNull, r)
     | None \<Rightarrow> (case strip_prefix ''true'' s of Some r \<Rightarrow> Some (JBool True, r)
       | None \<Rightarrow> (case strip_prefix ''false'' s of Some r \<Rightarrow> Some (JBool False, r)
         | None \<Rightarrow> map_option (\<lambda>(n, r). (JNum n, r)) (scan_number s))))"

fun parse_value :: "nat \<Rightarrow> string \<Rightarrow> (json \<times> string) option"
and parse_elements :: "nat \<Rightarrow> string \<Rightarrow> (json list \<times> string) option"
and parse_members :: "nat \<Rightarrow> string \<Rightarrow> ((string \<times> json) list \<times> string) option" where
  "parse_value 0 s = None"
| "parse_value (Suc n) s = (case skip_ws s of [] \<Rightarrow> None
     | c # cs \<Rightarrow>
         if c = CHR 0x22 then map_option (\<lambda>(x, r). (JStr x, r)) (unquote cs)
         else if c = CHR ''['' then
           (case strip_prefix '']'' (skip_ws cs) of Some r \<Rightarrow> Some (JArr [], r)
            | None \<Rightarrow> map_option (\<lambda>(xs, r). (JArr xs, r)) (parse_elements n cs))
         else if c = CHR ''{'' then
           (case strip_prefix ''}'' (skip_ws cs) of Some r \<Rightarrow> Some (JObj [], r)
            | None \<Rightarrow> map_option (\<lambda>(kvs, r). (JObj kvs, r)) (parse_members n cs))
         else parse_literal (c # cs))"
| "parse_elements 0 s = None"
| "parse_elements (Suc n) s = (case parse_value n s of None \<Rightarrow> None
     | Some (v, r) \<Rightarrow> (case strip_prefix '']'' (skip_ws r) of Some r' \<Rightarrow> Some ([v], r')
       | None \<Rightarrow> (case strip_prefix '','' (skip_ws r) of None \<Rightarrow> None
         | Some r' \<Rightarrow> map_option (\<lambda>(vs, r''). (v # vs, r'')) (parse_elements n r'))))"
| "parse_members 0 s = None"
| "parse_members (Suc n) s = (case strip_prefix [CHR 0x22] (skip_ws s) of None \<Rightarrow> None
     | Some q \<Rightarrow> (case unquote q of None \<Rightarrow> None
       | Some (k, r) \<Rightarrow> (case strip_prefix '':'' (skip_ws r) of None \<Rightarrow> None
         | Some r' \<Rightarrow> (case parse_value n r' of None \<Rightarrow> None
           | Some (v, w) \<Rightarrow> (case strip_prefix ''}'' (skip_ws w) of Some w' \<Rightarrow> Some ([(k, v)], w')
             | None \<Rightarrow> (case strip_prefix '','' (skip_ws w) of None \<Rightarrow> None
               | Some w' \<Rightarrow> map_option (\<lambda>(kvs, w''). ((k, v) # kvs, w'')) (parse_members n w')))))))"

fun json_depth :: "json \<Rightarrow> nat" where
  "json_depth (JArr xs) = Suc (foldr max (map json_depth xs) 0)"
| "json_depth (JObj kvs) = Suc (foldr max (map (\<lambda>(k, v). json_depth v) kvs) 0)"
| "json_depth _ = 0"

definition maxNestingDepth :: nat where "maxNestingDepth = 10000"

text \<open>
  The first value of a text and what follows it, as a \<open>json.Decoder\<close> reads it; \<open>json.Unmarshal\<close> wants
  nothing but white space behind it. Two steps for each character are enough.
\<close>

definition decode_first :: "string \<Rightarrow> (json \<times> string) option" where
  "decode_first s = (case parse_value (2 * length s + 1) s of
     Some (v, r) \<Rightarrow> if json_depth v \<le> maxNestingDepth then Some (v, r) else None
   | None \<Rightarrow> None)"

definition json_parse :: "string \<Rightarrow> json option" where
  "json_parse s = (case decode_first s of Some (v, r) \<Rightarrow> if skip_ws r = [] then Some v else None | None \<Rightarrow> None)"

section \<open>Structs\<close>

text \<open>\<open>foldName\<close>: names are compared in upper case; two runes beyond ASCII fold to letters.\<close>

definition upper :: "char \<Rightarrow> char" where
  "upper c = (if between 0x61 0x7A c then char_of (code c - 32) else c)"

fun foldName :: "string \<Rightarrow> string" where
  "foldName (a # b # c # s) =
     (if [a, b, c] = [CHR 0xE2, CHR 0x84, CHR 0xAA] then CHR ''K'' # foldName s
      else if [a, b] = [CHR 0xC5, CHR 0xBF] then CHR ''S'' # foldName (c # s)
      else upper a # foldName (b # c # s))"
| "foldName [a, b] = (if [a, b] = [CHR 0xC5, CHR 0xBF] then ''S'' else [upper a, upper b])"
| "foldName [a] = [upper a]"
| "foldName [] = []"

lemmas fold_name_simps = foldName.simps upper_def between_def char_of_def bit_Suc_0_iff

text \<open>A field of a struct: what decoding a value into it does.\<close>

type_synonym 'r setter = "json \<Rightarrow> 'r \<Rightarrow> 'r res"

definition type_error :: "'r res" where
  "type_error = Inl (EExt ''json: cannot unmarshal'')"

fun decode_members :: "(string \<times> 'r setter) list \<Rightarrow> (string \<times> json) list \<Rightarrow> 'r \<Rightarrow> 'r res" where
  "decode_members fields [] r = Inr r"
| "decode_members fields ((k, v) # kvs) r =
     (case map_of (map (\<lambda>(f, d). (foldName f, d)) fields) (foldName k) of
        None \<Rightarrow> decode_members fields kvs r
      | Some d \<Rightarrow> rbind (d v r) (decode_members fields kvs))"

definition decode_struct :: "(string \<times> 'r setter) list \<Rightarrow> 'r setter" where
  "decode_struct fields v r = (case v of JNull \<Rightarrow> Inr r | JObj kvs \<Rightarrow> decode_members fields kvs r | _ \<Rightarrow> type_error)"

text \<open>Fields of the types \<open>string\<close>, \<open>uint16\<close>, \<open>uint64\<close>, \<open>[]T\<close> and a struct.\<close>

definition into_string :: "(string \<Rightarrow> 'r \<Rightarrow> 'r) \<Rightarrow> 'r setter" where
  "into_string upd v r = (case v of JStr s \<Rightarrow> Inr (upd s r) | JNull \<Rightarrow> Inr r | _ \<Rightarrow> type_error)"

definition ParseUint :: "nat \<Rightarrow> string \<Rightarrow> nat option" where
  "ParseUint bits n = (case dec_to_nat n of Some i \<Rightarrow> if i < 2 ^ bits then Some i else None | None \<Rightarrow> None)"

definition into_uint :: "nat \<Rightarrow> (nat \<Rightarrow> 'r \<Rightarrow> 'r) \<Rightarrow> 'r setter" where
  "into_uint bits upd v r = (case v of
       JNum n \<Rightarrow> (case ParseUint bits n of Some i \<Rightarrow> Inr (upd i r) | None \<Rightarrow> type_error)
     | JNull \<Rightarrow> Inr r
     | _ \<Rightarrow> type_error)"

definition into_list :: "'x setter \<Rightarrow> 'x \<Rightarrow> ('x list \<Rightarrow> 'r \<Rightarrow> 'r) \<Rightarrow> 'r setter" where
  "into_list d zero upd v r = (case v of
       JArr vs \<Rightarrow> rbind (rmap (\<lambda>v. d v zero) vs) (\<lambda>xs. Inr (upd xs r))
     | JNull \<Rightarrow> Inr (upd [] r)
     | _ \<Rightarrow> type_error)"

definition into_struct :: "'x setter \<Rightarrow> ('r \<Rightarrow> 'x) \<Rightarrow> ('x \<Rightarrow> 'r \<Rightarrow> 'r) \<Rightarrow> 'r setter" where
  "into_struct d get upd v r = rbind (d v (get r)) (\<lambda>x. Inr (upd x r))"

text \<open>\<open>json.Unmarshal\<close> into a variable that holds \<open>r\<close>, and \<open>Decoder.Decode\<close>.\<close>

definition json_unmarshal :: "'r setter \<Rightarrow> string \<Rightarrow> 'r \<Rightarrow> 'r res" where
  "json_unmarshal d s r = (case json_parse s of
     None \<Rightarrow> Inl (EExt ''invalid character'') | Some v \<Rightarrow> d v r)"

definition json_decode :: "'r setter \<Rightarrow> string \<Rightarrow> 'r \<Rightarrow> 'r res" where
  "json_decode d s r = (case decode_first s of
     None \<Rightarrow> Inl (EExt ''invalid character'') | Some (v, _) \<Rightarrow> d v r)"

lemmas into_defs = into_string_def into_uint_def into_list_def into_struct_def

lemma ParseUint_itoa: "i < 2 ^ bits \<Longrightarrow> ParseUint bits (nat_to_dec i) = Some i"
  by (simp add: ParseUint_def)

section \<open>Reading back what was written\<close>

lemma hex_val_char: "n < 16 \<Longrightarrow> hex_val (hex_char n) = Some n"
proof -
  have "\<forall>n \<in> set [0..<16]. hex_val (hex_char n) = Some n" by code_simp
  then show "n < 16 \<Longrightarrow> hex_val (hex_char n) = Some n" by simp
qed

lemma hex_sum: "16 * a + d = n \<Longrightarrow> 16 * b + e = a \<Longrightarrow> 16 * c + f = b \<Longrightarrow> 4096 * c + 256 * f + 16 * e + d = (n::nat)"
  by simp

lemma hex4_unicode_escape:
  assumes "n < 65536"
  shows "hex4 (drop 2 (unicode_escape n) @ s) = Some (n, s)"
proof -
  have "n div 4096 < 16" using assms by simp
  moreover have "4096 * (n div 4096) + 256 * (n div 256 mod 16) + 16 * (n div 16 mod 16) + n mod 16 = n"
  proof -
    have "n div 256 = n div 16 div 16" "n div 4096 = n div 16 div 16 div 16"
      using div_mult2_eq [of n 16 16] div_mult2_eq [of n 256 16] by simp_all
    then show ?thesis by (simp only:) (rule hex_sum; rule mult_div_mod_eq)
  qed
  moreover have "drop 2 (unicode_escape n) @ s =
      hex_char (n div 4096) # hex_char (n div 256 mod 16) # hex_char (n div 16 mod 16) # hex_char (n mod 16) # s"
    by (simp add: unicode_escape_def)
  ultimately show ?thesis by (simp add: hex4_def hex_val_char)
qed

lemma unquote_unicode_escape:
  assumes "n < 128"
  shows "unquote (unicode_escape n @ s) = map_option (\<lambda>(x, r). (char_of n # x, r)) (unquote s)"
proof -
  have e: "unicode_escape n @ s = CHR 0x5C # CHR ''u'' # drop 2 (unicode_escape n) @ s"
    by (simp add: unicode_escape_def)
  have "escape_rune n s = ([char_of n], s)" using assms by (simp add: escape_rune_def utf8_encode_def)
  with hex4_unicode_escape [of n s] assms show ?thesis by (simp add: e)
qed

lemma unquote_quote_char:
  assumes "ascii_char c"
  shows "unquote (quote_char c @ s) = map_option (\<lambda>(x, r). (c # x, r)) (unquote s)"
proof (cases "code c < 0x20 \<or> c = CHR ''<'' \<or> c = CHR ''>'' \<or> c = CHR ''&''")
  case True
  then have "unquote (unicode_escape (code c) @ s) = map_option (\<lambda>(x, r). (c # x, r)) (unquote s)"
    using unquote_unicode_escape [of "code c" s] by auto
  with True show ?thesis by (simp add: quote_char_def escaped_def)
next
  case False
  with assms show ?thesis by (simp add: quote_char_def escaped_def)
qed

lemma unquote_quote_body: "ascii s \<Longrightarrow> unquote (quote_body s @ CHR 0x22 # r) = Some (s, r)"
  by (induction s) (simp_all add: unquote_quote_char)

text \<open>What can be written and read back: strings of ASCII characters, numbers that are naturals.\<close>

fun json_plain :: "json \<Rightarrow> bool" where
  "json_plain (JStr s) = ascii s"
| "json_plain (JNum n) = (\<exists>i. n = nat_to_dec i)"
| "json_plain (JArr xs) = (\<forall>x \<in> set xs. json_plain x)"
| "json_plain (JObj kvs) = (\<forall>(k, v) \<in> set kvs. ascii k \<and> json_plain v)"
| "json_plain _ = True"

definition ends_value :: "string \<Rightarrow> bool" where
  "ends_value r \<longleftrightarrow> (case r of [] \<Rightarrow> True | c # _ \<Rightarrow> is_ws c \<or> c \<in> set '',]}'')"

lemma is_digit_dec: "c \<in> set ''0123456789'' \<Longrightarrow> is_digit c"
  by (auto simp: is_digit_def between_def)

lemma digits_nat_to_dec: "\<forall>c \<in> set (nat_to_dec n). is_digit c"
  using set_nat_to_dec [of n] is_digit_dec by blast

lemma nat_to_dec_leading_zero: "nat_to_dec n = CHR ''0'' # ds \<Longrightarrow> ds = []"
proof (induction n arbitrary: ds rule: nat_to_dec.induct)
  case (1 n)
  show ?case
  proof (cases "n < 10")
    case True
    with "1.prems" show ?thesis by (simp add: nat_to_dec.simps [of n])
  next
    case False
    then have e: "nat_to_dec (n div 10) @ [string_of_digit (n mod 10)] = CHR ''0'' # ds"
      using "1.prems" by (simp add: nat_to_dec.simps [of n])
    then obtain ds' where d: "nat_to_dec (n div 10) = CHR ''0'' # ds'"
      by (cases "nat_to_dec (n div 10)") auto
    with "1.IH" False have "ds' = []" by blast
    with d have "dec_to_nat (nat_to_dec (n div 10)) = Some 0" by (simp add: dec_to_nat_def digit_of_char_def dec_digits_def)
    then have "n div 10 = 0" by simp
    with False show ?thesis by simp
  qed
qed

lemma ends_not_digit: "ends_value r \<Longrightarrow> takeWhile is_digit r = [] \<and> dropWhile is_digit r = r"
  by (cases r) (auto simp: ends_value_def is_digit_def between_def is_ws_def)

lemma scan_nat_to_dec:
  assumes "ends_value r"
  shows "scan_number (nat_to_dec n @ r) = Some (nat_to_dec n, r)"
proof -
  obtain c cs where c: "nat_to_dec n = c # cs" by (cases "nat_to_dec n") auto
  have ds: "\<forall>x \<in> set (c # cs). is_digit x" using digits_nat_to_dec [of n] c by simp
  have tw: "takeWhile is_digit ((c # cs) @ r) = c # cs" and dw: "dropWhile is_digit ((c # cs) @ r) = r"
    using ds ends_not_digit [OF assms] by (simp_all add: takeWhile_append2 dropWhile_append2)
  have int: "scan_integer ((c # cs) @ r) = Some (c # cs, r)"
  proof (cases "c = CHR ''0''")
    case True
    with c nat_to_dec_leading_zero have "cs = []" by blast
    with True show ?thesis by (simp add: scan_integer_def)
  next
    case False
    with tw dw show ?thesis by (simp add: scan_integer_def scan_digits_def)
  qed
  have "scan_frac r = Some ([], r)" "scan_exp r = Some ([], r)"
    using assms by (auto simp: ends_value_def is_ws_def scan_frac_def scan_exp_def split: list.splits)
  with int have "scan_unsigned ((c # cs) @ r) = Some (c # cs, r)" by (simp add: scan_unsigned_def)
  moreover have "c \<noteq> CHR ''-''" using ds by (auto simp: is_digit_def between_def)
  ultimately show ?thesis by (simp add: scan_number_def c)
qed

lemma skip_ws_Cons [simp]: "skip_ws (c # cs) = (if is_ws c then skip_ws cs else c # cs)"
  by (simp add: skip_ws_def)

lemma skip_ws_Nil [simp]: "skip_ws [] = []"
  by (simp add: skip_ws_def)

lemma strip_prefix_one [simp]:
  "strip_prefix [p] (c # cs) = (if c = p then Some cs else None)" "strip_prefix [p] [] = None"
  by (auto simp: strip_prefix_def)

lemma is_ws_simps [simp]:
  "\<not> is_ws (CHR 0x22)" "\<not> is_ws (CHR ''['')" "\<not> is_ws (CHR ''{'')" "\<not> is_ws (CHR '']'')"
  "\<not> is_ws (CHR ''}'')" "\<not> is_ws (CHR '','')" "\<not> is_ws (CHR '':'')"
  by (simp_all add: is_ws_def)

lemma json_digit_not_special: "is_digit c \<Longrightarrow> \<not> is_ws c \<and> c \<noteq> CHR 0x22 \<and> c \<notin> set ''[]{},:ntf''"
  by (auto simp: is_digit_def is_ws_def between_def)

text \<open>The first character of a written value.\<close>

lemma json_print_first:
  assumes "json_plain v"
  obtains c cs where "json_print v = c # cs" "\<not> is_ws c" "c \<noteq> CHR '']''" "c \<noteq> CHR ''}''"
proof (cases "\<exists>n. v = JNum n")
  case True
  with assms obtain i where i: "json_print v = nat_to_dec i" by auto
  then obtain c cs where c: "json_print v = c # cs" by (metis nat_to_dec_not_Nil neq_Nil_conv)
  with i have "is_digit c" using digits_nat_to_dec [of i] by (metis list.set_intros(1))
  with that c json_digit_not_special [of c] show ?thesis by auto
next
  case False
  have "\<exists>c cs. json_print v = c # cs \<and> \<not> is_ws c \<and> c \<notin> set '']}''"
    using False by (cases v) (simp_all add: is_ws_def quote_def)
  with that show ?thesis by auto
qed

lemma parse_literal_nat:
  assumes "ends_value r"
  shows "parse_literal (nat_to_dec i @ r) = Some (JNum (nat_to_dec i), r)"
proof -
  obtain c cs where c: "nat_to_dec i = c # cs" by (cases "nat_to_dec i") auto
  then have "is_digit c" using digits_nat_to_dec [of i] by simp
  then have "c \<noteq> CHR ''n''" "c \<noteq> CHR ''t''" "c \<noteq> CHR ''f''" using json_digit_not_special [of c] by auto
  then show ?thesis using scan_nat_to_dec [OF assms, of i] by (simp add: c parse_literal_def strip_prefix_def)
qed

lemma parse_elements_join:
  assumes "\<And>x n r. x \<in> set (y # xs) \<Longrightarrow> 2 * length (p x) + 1 \<le> n \<Longrightarrow> ends_value r \<Longrightarrow>
      parse_value n (p x @ r) = Some (x, r)"
    and "2 * length (join '','' (map p (y # xs))) + 2 \<le> n"
  shows "parse_elements n (join '','' (map p (y # xs)) @ '']'' @ r) = Some (y # xs, r)"
  using assms
proof (induction xs arbitrary: y n)
  case Nil
  then obtain m where m: "n = Suc m" by (cases n) auto
  with Nil.prems have "parse_value m (p y @ '']'' @ r) = Some (y, '']'' @ r)"
    by (intro Nil.prems(1)) (auto simp: ends_value_def)
  with m show ?case by simp
next
  case (Cons z xs)
  then obtain m where m: "n = Suc m" by (cases n) auto
  let ?j = "join '','' (map p (z # xs))"
  have "parse_value m (p y @ '','' @ ?j @ '']'' @ r) = Some (y, '','' @ ?j @ '']'' @ r)"
    using Cons.prems(2) m by (intro Cons.prems(1)) (auto simp: ends_value_def)
  moreover have "parse_elements m (?j @ '']'' @ r) = Some (z # xs, r)"
    using Cons.prems m by (intro Cons.IH) auto
  ultimately show ?case using m by simp
qed

lemma parse_members_join:
  assumes "\<And>k x n r. (k, x) \<in> set (y # kvs) \<Longrightarrow> 2 * length (p x) + 1 \<le> n \<Longrightarrow> ends_value r \<Longrightarrow>
      parse_value n (p x @ r) = Some (x, r)"
    and "\<forall>(k, x) \<in> set (y # kvs). ascii k"
    and "2 * length (join '','' (map (\<lambda>(k, x). quote k @ '':'' @ p x) (y # kvs))) + 2 \<le> n"
  shows "parse_members n (join '','' (map (\<lambda>(k, x). quote k @ '':'' @ p x) (y # kvs)) @ ''}'' @ r) =
    Some (y # kvs, r)"
  using assms
proof (induction kvs arbitrary: y n)
  case Nil
  then obtain m where m: "n = Suc m" by (cases n) auto
  obtain k x where y: "y = (k, x)" by fastforce
  with Nil.prems m have "parse_value m (p x @ ''}'' @ r) = Some (x, ''}'' @ r)"
    by (intro Nil.prems(1) [of k]) (auto simp: ends_value_def)
  with m y Nil.prems(2) show ?case by (simp add: quote_def unquote_quote_body)
next
  case (Cons z kvs)
  then obtain m where m: "n = Suc m" by (cases n) auto
  obtain k x where y: "y = (k, x)" by fastforce
  let ?j = "join '','' (map (\<lambda>(k, x). quote k @ '':'' @ p x) (z # kvs))"
  have "parse_value m (p x @ '','' @ ?j @ ''}'' @ r) = Some (x, '','' @ ?j @ ''}'' @ r)"
    using Cons.prems(3) m y by (intro Cons.prems(1) [of k]) (auto simp: ends_value_def)
  moreover have "parse_members m (?j @ ''}'' @ r) = Some (z # kvs, r)"
    using Cons.prems m by (intro Cons.IH) auto
  ultimately show ?case using m y Cons.prems(2) by (simp add: quote_def unquote_quote_body)
qed

lemma parse_value_print:
  "json_plain v \<Longrightarrow> 2 * length (json_print v) + 1 \<le> n \<Longrightarrow> ends_value r \<Longrightarrow>
   parse_value n (json_print v @ r) = Some (v, r)"
proof (induction v arbitrary: n r rule: json_print.induct)
  case (3 i n r)
  then obtain m where m: "n = Suc m" by (cases n) auto
  from 3 obtain j where j: "i = nat_to_dec j" by auto
  then obtain c cs where c: "i = c # cs" by (metis nat_to_dec_not_Nil neq_Nil_conv)
  with j have "is_digit c" using digits_nat_to_dec [of j] by (metis list.set_intros(1))
  then show ?case using json_digit_not_special [of c] parse_literal_nat [OF 3(3), of j] by (simp add: m c j [symmetric])
next
  case (4 s n r)
  then obtain m where "n = Suc m" by (cases n) auto
  with 4 show ?case by (simp add: quote_def unquote_quote_body)
next
  case (5 xs n r)
  then obtain m where m: "n = Suc m" by (cases n) auto
  show ?case
  proof (cases xs)
    case Nil
    with m show ?thesis by simp
  next
    case (Cons y ys)
    have "json_plain y" using 5 Cons by simp
    then obtain c cs where c: "json_print y = c # cs" "\<not> is_ws c" "c \<noteq> CHR '']''" by (rule json_print_first)
    have "parse_elements m (join '','' (map json_print (y # ys)) @ '']'' @ r) = Some (y # ys, r)"
      using 5 Cons m by (intro parse_elements_join) auto
    moreover obtain t where "join '','' (map json_print (y # ys)) = c # t" using c by (cases ys) auto
    ultimately show ?thesis using Cons m c by simp
  qed
next
  case (6 kvs n r)
  then obtain m where m: "n = Suc m" by (cases n) auto
  show ?case
  proof (cases kvs)
    case Nil
    with m show ?thesis by simp
  next
    case (Cons y ys)
    let ?p = "\<lambda>(k, x). quote k @ '':'' @ json_print x"
    have "parse_value n' (json_print x @ r') = Some (x, r')"
      if "(k, x) \<in> set kvs" "2 * length (json_print x) + 1 \<le> n'" "ends_value r'" for k x n' r'
      using 6(1) [of "(k, x)" k x n' r'] that 6(2) by auto
    then have "parse_members m (join '','' (map ?p (y # ys)) @ ''}'' @ r) = Some (y # ys, r)"
      using 6 Cons m by (intro parse_members_join) auto
    moreover obtain t where "join '','' (map ?p (y # ys)) = CHR 0x22 # t"
      by (cases ys; cases y) (auto simp: quote_def)
    ultimately show ?thesis using Cons m by simp
  qed
qed (simp_all add: parse_literal_def strip_prefix_def is_ws_def, (case_tac n; simp add: parse_literal_def strip_prefix_def is_ws_def)+)

declare parse_value.simps [simp del]

text \<open>White space may follow, as the line feed at the end of a response body.\<close>

theorem decode_first_print:
  assumes "json_plain v" and "json_depth v \<le> maxNestingDepth" and "ends_value w"
  shows "decode_first (json_print v @ w) = Some (v, w)"
  using parse_value_print [OF assms(1) _ assms(3), of "2 * length (json_print v @ w) + 1"] assms(2)
  by (simp add: decode_first_def)

theorem json_roundtrip:
  assumes "json_plain v" and "json_depth v \<le> maxNestingDepth" and "skip_ws w = []"
  shows "json_parse (json_print v @ w) = Some v"
proof -
  have "ends_value w" using assms(3) by (cases w) (auto simp: ends_value_def split: if_splits)
  with assms show ?thesis by (simp add: json_parse_def decode_first_print)
qed

end
