(* ===== verification/RollupHttp.thy ===== *)
theory RollupHttp
  imports RollupServing DataAvailability Json
begin

text \<open>
  \<open>internal/rollup/generated.go\<close>, the code generated from \<open>api/rollup.yaml\<close>: the JSON of the requests and
  responses, the client that builds requests and reads responses, and the registration of the
  handlers; and the echo application of \<open>internal/echoapp/echoapp.go\<close> as it runs on that client. The echo
  framework (binding, routing, writing responses) is the record \<open>echo_lib\<close>, \<open>net/url\<close> resolving a
  reference is a function, the transport of the client is a computation.
\<close>

section \<open>Messages\<close>

record wire_request =
  wq_Method :: string
  wq_URL :: string
  wq_ContentType :: string
  wq_Body :: string

text \<open>The body is what reading it gives.\<close>

record wire_response =
  wp_Status :: string
  wp_StatusCode :: int
  wp_ContentType :: string
  wp_Body :: "string res"

section \<open>The JSON of the types\<close>

text \<open>Exception, Notice, Report and Inspect have the one field \<open>payload\<close> and are that payload.\<close>

definition json_of_payload :: "string \<Rightarrow> json" where
  "json_of_payload p = JObj [(''payload'', JStr p)]"

definition into_payload :: "string setter" where
  "into_payload = decode_struct [(''payload'', into_string (\<lambda>s _. s))]"

definition json_of_Finish :: "string \<Rightarrow> json" where
  "json_of_Finish status = JObj [(''status'', JStr status)]"

definition into_Finish :: "string setter" where
  "into_Finish = decode_struct [(''status'', into_string (\<lambda>s _. s))]"

definition json_of_uint :: "'w::len word \<Rightarrow> json" where
  "json_of_uint w = JNum (nat_to_dec (unat w))"

definition json_of_GioRequest :: "GioRequest \<Rightarrow> json" where
  "json_of_GioRequest g = JObj [(''domain'', json_of_uint (gio_Domain g)), (''id'', JStr (gio_Id g))]"

definition into_GioRequest :: "GioRequest setter" where
  "into_GioRequest = decode_struct
     [(''domain'', into_uint 16 (\<lambda>i g. g\<lparr>gio_Domain := of_nat i\<rparr>)), (''id'', into_string (\<lambda>s g. g\<lparr>gio_Id := s\<rparr>))]"

definition json_of_GioResponseRollup :: "GioResponseRollup \<Rightarrow> json" where
  "json_of_GioResponseRollup g = JObj [(''code'', json_of_uint (gio_Code g)), (''data'', JStr (gio_Data g))]"

definition into_GioResponseRollup :: "GioResponseRollup setter" where
  "into_GioResponseRollup = decode_struct
     [(''code'', into_uint 16 (\<lambda>i g. g\<lparr>gio_Code := of_nat i\<rparr>)), (''data'', into_string (\<lambda>s g. g\<lparr>gio_Data := s\<rparr>))]"

definition json_of_IndexResponse :: "u64 \<Rightarrow> json" where
  "json_of_IndexResponse i = JObj [(''index'', json_of_uint i)]"

definition into_IndexResponse :: "u64 setter" where
  "into_IndexResponse = decode_struct [(''index'', into_uint 64 (\<lambda>i _. of_nat i))]"

definition json_of_Voucher :: "VoucherRequest \<Rightarrow> json" where
  "json_of_Voucher v = JObj [(''destination'', JStr (vr_Destination v)), (''payload'', JStr (vr_Payload v)),
     (''value'', JStr (vr_Value v))]"

definition into_Voucher :: "VoucherRequest setter" where
  "into_Voucher = decode_struct
     [(''destination'', into_string (\<lambda>s v. v\<lparr>vr_Destination := s\<rparr>)),
      (''payload'', into_string (\<lambda>s v. v\<lparr>vr_Payload := s\<rparr>)),
      (''value'', into_string (\<lambda>s v. v\<lparr>vr_Value := s\<rparr>))]"

definition json_of_Metadata :: "Metadata \<Rightarrow> json" where
  "json_of_Metadata m = JObj
     [(''app_contract'', JStr (md_AppContract m)), (''block_number'', json_of_uint (md_BlockNumber m)),
      (''block_timestamp'', json_of_uint (md_BlockTimestamp m)), (''chain_id'', json_of_uint (md_ChainId m)),
      (''input_index'', json_of_uint (md_InputIndex m)), (''msg_sender'', JStr (md_MsgSender m)),
      (''prev_randao'', JStr (md_PrevRandao m))]"

definition into_Metadata :: "Metadata setter" where
  "into_Metadata = decode_struct
     [(''app_contract'', into_string (\<lambda>s m. m\<lparr>md_AppContract := s\<rparr>)),
      (''block_number'', into_uint 64 (\<lambda>i m. m\<lparr>md_BlockNumber := of_nat i\<rparr>)),
      (''block_timestamp'', into_uint 64 (\<lambda>i m. m\<lparr>md_BlockTimestamp := of_nat i\<rparr>)),
      (''chain_id'', into_uint 64 (\<lambda>i m. m\<lparr>md_ChainId := of_nat i\<rparr>)),
      (''input_index'', into_uint 64 (\<lambda>i m. m\<lparr>md_InputIndex := of_nat i\<rparr>)),
      (''msg_sender'', into_string (\<lambda>s m. m\<lparr>md_MsgSender := s\<rparr>)),
      (''prev_randao'', into_string (\<lambda>s m. m\<lparr>md_PrevRandao := s\<rparr>))]"

definition json_of_Advance :: "Advance \<Rightarrow> json" where
  "json_of_Advance a = JObj [(''metadata'', json_of_Metadata (adv_Metadata a)), (''payload'', JStr (adv_Payload a))]"

definition into_Advance :: "Advance setter" where
  "into_Advance = decode_struct
     [(''metadata'', into_struct into_Metadata adv_Metadata (\<lambda>m a. a\<lparr>adv_Metadata := m\<rparr>)),
      (''payload'', into_string (\<lambda>s a. a\<lparr>adv_Payload := s\<rparr>))]"

text \<open>The zero values.\<close>

definition zero_Voucher :: VoucherRequest where
  "zero_Voucher = \<lparr>vr_Destination = [], vr_Payload = [], vr_Value = []\<rparr>"

definition zero_Advance :: Advance where
  "zero_Advance = \<lparr>adv_Metadata = \<lparr>md_AppContract = [], md_BlockNumber = 0, md_BlockTimestamp = 0, md_ChainId = 0,
     md_InputIndex = 0, md_MsgSender = [], md_PrevRandao = []\<rparr>, adv_Payload = []\<rparr>"

section \<open>The union of a request\<close>

text \<open>The raw message of the union, \<open>None\<close> while nothing is stored.\<close>

type_synonym RollupRequest_Data = "json option"

record rollup_request =
  rr_Data :: RollupRequest_Data
  rr_RequestType :: string

definition advance_state :: string where "advance_state = ''advance_state''"
definition inspect_state :: string where "inspect_state = ''inspect_state''"
definition Accept :: string where "Accept = ''accept''"
definition Reject :: string where "Reject = ''reject''"

definition AsAdvance :: "RollupRequest_Data \<Rightarrow> Advance res" where
  "AsAdvance t = (case t of None \<Rightarrow> Inl (EExt ''unexpected end of JSON input'') | Some v \<Rightarrow> into_Advance v zero_Advance)"

definition FromAdvance :: "Advance \<Rightarrow> RollupRequest_Data" where
  "FromAdvance v = Some (json_of_Advance v)"

definition AsInspect :: "RollupRequest_Data \<Rightarrow> string res" where
  "AsInspect t = (case t of None \<Rightarrow> Inl (EExt ''unexpected end of JSON input'') | Some v \<Rightarrow> into_payload v [])"

definition FromInspect :: "string \<Rightarrow> RollupRequest_Data" where
  "FromInspect v = Some (json_of_payload v)"

text \<open>\<open>runtime.JsonMerge\<close> is an argument.\<close>

definition MergeAdvance ::
  "(RollupRequest_Data \<Rightarrow> json \<Rightarrow> RollupRequest_Data res) \<Rightarrow> RollupRequest_Data \<Rightarrow> Advance \<Rightarrow> RollupRequest_Data res" where
  "MergeAdvance JsonMerge t v = JsonMerge t (json_of_Advance v)"

definition MergeInspect ::
  "(RollupRequest_Data \<Rightarrow> json \<Rightarrow> RollupRequest_Data res) \<Rightarrow> RollupRequest_Data \<Rightarrow> string \<Rightarrow> RollupRequest_Data res" where
  "MergeInspect JsonMerge t v = JsonMerge t (json_of_payload v)"

definition Data_MarshalJSON :: "RollupRequest_Data \<Rightarrow> json" where
  "Data_MarshalJSON t = (case t of None \<Rightarrow> JNull | Some v \<Rightarrow> v)"

definition Data_UnmarshalJSON :: "json \<Rightarrow> RollupRequest_Data" where
  "Data_UnmarshalJSON v = Some v"

definition json_of_RollupRequest :: "rollup_request \<Rightarrow> json" where
  "json_of_RollupRequest r =
     JObj [(''data'', Data_MarshalJSON (rr_Data r)), (''request_type'', JStr (rr_RequestType r))]"

definition into_RollupRequest :: "rollup_request setter" where
  "into_RollupRequest = decode_struct
     [(''data'', \<lambda>v r. Inr (r\<lparr>rr_Data := Data_UnmarshalJSON v\<rparr>)),
      (''request_type'', into_string (\<lambda>s r. r\<lparr>rr_RequestType := s\<rparr>))]"

text \<open>What \<open>convertInput\<close> stores for an input.\<close>

definition stored_request :: "RollupRequest \<Rightarrow> rollup_request" where
  "stored_request r = (case r of
       AdvanceState a \<Rightarrow> \<lparr>rr_Data = FromAdvance a, rr_RequestType = advance_state\<rparr>
     | InspectState p \<Rightarrow> \<lparr>rr_Data = FromInspect p, rr_RequestType = inspect_state\<rparr>)"

section \<open>The client\<close>

record 's Client =
  hc_Server :: string
  hc_Client :: "(wire_request \<Rightarrow> ('s, wire_response) comp) option"
  hc_RequestEditors :: "(wire_request \<Rightarrow> wire_request res) list"

type_synonym 's ClientOption = "'s Client \<Rightarrow> 's Client res"

fun apply_options :: "'s ClientOption list \<Rightarrow> 's ClientOption" where
  "apply_options [] c = Inr c"
| "apply_options (opt # opts) c = rbind (opt c) (apply_options opts)"

text \<open>The default client of \<open>net/http\<close> is an argument.\<close>

definition NewClient ::
  "(wire_request \<Rightarrow> ('s, wire_response) comp) \<Rightarrow> string \<Rightarrow> 's ClientOption list \<Rightarrow> 's Client res" where
  "NewClient http_Client server opts =
     rbind (apply_options opts \<lparr>hc_Server = server, hc_Client = None, hc_RequestEditors = []\<rparr>) (\<lambda>client.
     let client = (if \<not> HasSuffix (hc_Server client) ''/''
           then client\<lparr>hc_Server := hc_Server client @ ''/''\<rparr> else client);
         client = (if hc_Client client = None then client\<lparr>hc_Client := Some http_Client\<rparr> else client)
     in Inr client)"

definition WithHTTPClient :: "(wire_request \<Rightarrow> ('s, wire_response) comp) \<Rightarrow> 's ClientOption" where
  "WithHTTPClient doer c = Inr (c\<lparr>hc_Client := Some doer\<rparr>)"

definition WithRequestEditorFn :: "(wire_request \<Rightarrow> wire_request res) \<Rightarrow> 's ClientOption" where
  "WithRequestEditorFn fn c = Inr (c\<lparr>hc_RequestEditors := hc_RequestEditors c @ [fn]\<rparr>)"

definition WithBaseURL :: "(string \<Rightarrow> string res) \<Rightarrow> string \<Rightarrow> 's ClientOption" where
  "WithBaseURL url_Parse baseURL c = rbind (url_Parse baseURL) (\<lambda>newBaseURL. Inr (c\<lparr>hc_Server := newBaseURL\<rparr>))"

definition NewClientWithResponses ::
  "(wire_request \<Rightarrow> ('s, wire_response) comp) \<Rightarrow> string \<Rightarrow> 's ClientOption list \<Rightarrow> 's Client res" where
  "NewClientWithResponses http_Client server opts = NewClient http_Client server opts"

fun run_editors :: "(wire_request \<Rightarrow> wire_request res) list \<Rightarrow> wire_request \<Rightarrow> wire_request res" where
  "run_editors [] req = Inr req"
| "run_editors (e # es) req = rbind (e req) (run_editors es)"

definition applyEditors ::
  "'s Client \<Rightarrow> wire_request \<Rightarrow> (wire_request \<Rightarrow> wire_request res) list \<Rightarrow> wire_request res" where
  "applyEditors c req additionalEditors =
     rbind (run_editors (hc_RequestEditors c) req) (run_editors additionalEditors)"

text \<open>\<open>c.Client.Do\<close>; without a client the call panics.\<close>

definition client_Do :: "'s Client \<Rightarrow> wire_request \<Rightarrow> ('s, wire_response) comp" where
  "client_Do c req = (case hc_Client c of None \<Rightarrow> fail (EPanic ''nil pointer dereference'') | Some doer \<Rightarrow> doer req)"

text \<open>What the operations share: a request, its editors, the call.\<close>

definition send_request ::
  "'s Client \<Rightarrow> wire_request res \<Rightarrow> (wire_request \<Rightarrow> wire_request res) list \<Rightarrow> ('s, wire_response) comp" where
  "send_request c req reqEditors =
     andThen (lift_res req) (\<lambda>req.
     andThen (lift_res (applyEditors c req reqEditors)) (client_Do c))"

text \<open>The server is parsed and resolved with the path, which gets a dot in front of its slash.\<close>

definition operation_request ::
  "(string \<Rightarrow> string \<Rightarrow> string res) \<Rightarrow> string \<Rightarrow> string \<Rightarrow> string \<Rightarrow> string \<Rightarrow> string \<Rightarrow> wire_request res" where
  "operation_request url_resolve verb path server contentType body =
     (let operationPath = (if take 1 path = ''/'' then ''.'' @ path else path)
      in rbind (url_resolve server operationPath) (\<lambda>queryURL.
         Inr \<lparr>wq_Method = verb, wq_URL = queryURL, wq_ContentType = contentType, wq_Body = body\<rparr>))"

section \<open>Responses\<close>

text \<open>The response types differ in the type of their JSON field only; some have none.\<close>

record 'j api_response =
  ar_Body :: string
  ar_HTTPResponse :: "wire_response option"
  ar_JSON :: "'j option"

definition Response_Status :: "'j api_response \<Rightarrow> string" where
  "Response_Status r = (case ar_HTTPResponse r of Some rsp \<Rightarrow> wp_Status rsp | None \<Rightarrow> [])"

definition Response_StatusCode :: "'j api_response \<Rightarrow> int" where
  "Response_StatusCode r = (case ar_HTTPResponse r of Some rsp \<Rightarrow> wp_StatusCode rsp | None \<Rightarrow> 0)"

fun has_infix :: "string \<Rightarrow> string \<Rightarrow> bool" where
  "has_infix t [] = (t = [])"
| "has_infix t (c # cs) = (take (length t) (c # cs) = t \<or> has_infix t cs)"

definition plain_response :: "wire_response \<Rightarrow> 'j api_response res" where
  "plain_response rsp = rbind (wp_Body rsp) (\<lambda>bodyBytes.
     Inr \<lparr>ar_Body = bodyBytes, ar_HTTPResponse = Some rsp, ar_JSON = None\<rparr>)"

text \<open>With a JSON field for the status \<open>ok\<close>.\<close>

definition json_response :: "int \<Rightarrow> 'j setter \<Rightarrow> 'j \<Rightarrow> wire_response \<Rightarrow> 'j api_response res" where
  "json_response ok dec zero rsp = rbind (plain_response rsp) (\<lambda>response.
     if has_infix ''json'' (wp_ContentType rsp) \<and> wp_StatusCode rsp = ok
     then rbind (json_unmarshal dec (ar_Body response) zero) (\<lambda>dest. Inr (response\<lparr>ar_JSON := Some dest\<rparr>))
     else Inr response)"

section \<open>The operations\<close>

definition NewRegisterExceptionRequestWithBody ::
  "(string \<Rightarrow> string \<Rightarrow> string res) \<Rightarrow> string \<Rightarrow> string \<Rightarrow> string \<Rightarrow> wire_request res" where
  "NewRegisterExceptionRequestWithBody url_resolve server contentType body =
     operation_request url_resolve ''POST'' ''/exception'' server contentType body"

definition NewRegisterExceptionRequest :: "(string \<Rightarrow> string \<Rightarrow> string res) \<Rightarrow> string \<Rightarrow> string \<Rightarrow> wire_request res" where
  "NewRegisterExceptionRequest url_resolve server body =
     NewRegisterExceptionRequestWithBody url_resolve server ''application/json'' (json_print (json_of_payload body))"

definition Client_RegisterExceptionWithBody ::
  "(string \<Rightarrow> string \<Rightarrow> string res) \<Rightarrow> 's Client \<Rightarrow> string \<Rightarrow> string \<Rightarrow> (wire_request \<Rightarrow> wire_request res) list \<Rightarrow> ('s, wire_response) comp" where
  "Client_RegisterExceptionWithBody url_resolve c contentType body reqEditors =
     send_request c (NewRegisterExceptionRequestWithBody url_resolve (hc_Server c) contentType body) reqEditors"

definition Client_RegisterException ::
  "(string \<Rightarrow> string \<Rightarrow> string res) \<Rightarrow> 's Client \<Rightarrow> string \<Rightarrow> (wire_request \<Rightarrow> wire_request res) list \<Rightarrow> ('s, wire_response) comp" where
  "Client_RegisterException url_resolve c body reqEditors =
     send_request c (NewRegisterExceptionRequest url_resolve (hc_Server c) body) reqEditors"

definition ParseRegisterExceptionResponse :: "wire_response \<Rightarrow> unit api_response res" where
  "ParseRegisterExceptionResponse rsp = plain_response rsp"

definition RegisterExceptionWithBodyWithResponse ::
  "(string \<Rightarrow> string \<Rightarrow> string res) \<Rightarrow> 's Client \<Rightarrow> string \<Rightarrow> string \<Rightarrow> (wire_request \<Rightarrow> wire_request res) list \<Rightarrow> ('s, unit api_response) comp" where
  "RegisterExceptionWithBodyWithResponse url_resolve c contentType body reqEditors =
     andThen (Client_RegisterExceptionWithBody url_resolve c contentType body reqEditors) (\<lambda>rsp. lift_res (ParseRegisterExceptionResponse rsp))"

definition RegisterExceptionWithResponse ::
  "(string \<Rightarrow> string \<Rightarrow> string res) \<Rightarrow> 's Client \<Rightarrow> string \<Rightarrow> (wire_request \<Rightarrow> wire_request res) list \<Rightarrow> ('s, unit api_response) comp" where
  "RegisterExceptionWithResponse url_resolve c body reqEditors =
     andThen (Client_RegisterException url_resolve c body reqEditors) (\<lambda>rsp. lift_res (ParseRegisterExceptionResponse rsp))"

definition NewFinishRequestWithBody ::
  "(string \<Rightarrow> string \<Rightarrow> string res) \<Rightarrow> string \<Rightarrow> string \<Rightarrow> string \<Rightarrow> wire_request res" where
  "NewFinishRequestWithBody url_resolve server contentType body =
     operation_request url_resolve ''POST'' ''/finish'' server contentType body"

definition NewFinishRequest :: "(string \<Rightarrow> string \<Rightarrow> string res) \<Rightarrow> string \<Rightarrow> string \<Rightarrow> wire_request res" where
  "NewFinishRequest url_resolve server body =
     NewFinishRequestWithBody url_resolve server ''application/json'' (json_print (json_of_Finish body))"

definition Client_FinishWithBody ::
  "(string \<Rightarrow> string \<Rightarrow> string res) \<Rightarrow> 's Client \<Rightarrow> string \<Rightarrow> string \<Rightarrow> (wire_request \<Rightarrow> wire_request res) list \<Rightarrow> ('s, wire_response) comp" where
  "Client_FinishWithBody url_resolve c contentType body reqEditors =
     send_request c (NewFinishRequestWithBody url_resolve (hc_Server c) contentType body) reqEditors"

definition Client_Finish ::
  "(string \<Rightarrow> string \<Rightarrow> string res) \<Rightarrow> 's Client \<Rightarrow> string \<Rightarrow> (wire_request \<Rightarrow> wire_request res) list \<Rightarrow> ('s, wire_response) comp" where
  "Client_Finish url_resolve c body reqEditors =
     send_request c (NewFinishRequest url_resolve (hc_Server c) body) reqEditors"

definition ParseFinishResponse :: "wire_response \<Rightarrow> rollup_request api_response res" where
  "ParseFinishResponse rsp = json_response 200 into_RollupRequest \<lparr>rr_Data = None, rr_RequestType = []\<rparr> rsp"

definition FinishWithBodyWithResponse ::
  "(string \<Rightarrow> string \<Rightarrow> string res) \<Rightarrow> 's Client \<Rightarrow> string \<Rightarrow> string \<Rightarrow> (wire_request \<Rightarrow> wire_request res) list \<Rightarrow> ('s, rollup_request api_response) comp" where
  "FinishWithBodyWithResponse url_resolve c contentType body reqEditors =
     andThen (Client_FinishWithBody url_resolve c contentType body reqEditors) (\<lambda>rsp. lift_res (ParseFinishResponse rsp))"

definition FinishWithResponse ::
  "(string \<Rightarrow> string \<Rightarrow> string res) \<Rightarrow> 's Client \<Rightarrow> string \<Rightarrow> (wire_request \<Rightarrow> wire_request res) list \<Rightarrow> ('s, rollup_request api_response) comp" where
  "FinishWithResponse url_resolve c body reqEditors =
     andThen (Client_Finish url_resolve c body reqEditors) (\<lambda>rsp. lift_res (ParseFinishResponse rsp))"

definition NewGioRequestWithBody ::
  "(string \<Rightarrow> string \<Rightarrow> string res) \<Rightarrow> string \<Rightarrow> string \<Rightarrow> string \<Rightarrow> wire_request res" where
  "NewGioRequestWithBody url_resolve server contentType body =
     operation_request url_resolve ''POST'' ''/gio'' server contentType body"

definition NewGioRequest :: "(string \<Rightarrow> string \<Rightarrow> string res) \<Rightarrow> string \<Rightarrow> GioRequest \<Rightarrow> wire_request res" where
  "NewGioRequest url_resolve server body =
     NewGioRequestWithBody url_resolve server ''application/json'' (json_print (json_of_GioRequest body))"

definition Client_GioWithBody ::
  "(string \<Rightarrow> string \<Rightarrow> string res) \<Rightarrow> 's Client \<Rightarrow> string \<Rightarrow> string \<Rightarrow> (wire_request \<Rightarrow> wire_request res) list \<Rightarrow> ('s, wire_response) comp" where
  "Client_GioWithBody url_resolve c contentType body reqEditors =
     send_request c (NewGioRequestWithBody url_resolve (hc_Server c) contentType body) reqEditors"

definition Client_Gio ::
  "(string \<Rightarrow> string \<Rightarrow> string res) \<Rightarrow> 's Client \<Rightarrow> GioRequest \<Rightarrow> (wire_request \<Rightarrow> wire_request res) list \<Rightarrow> ('s, wire_response) comp" where
  "Client_Gio url_resolve c body reqEditors =
     send_request c (NewGioRequest url_resolve (hc_Server c) body) reqEditors"

definition ParseGioResponse :: "wire_response \<Rightarrow> GioResponseRollup api_response res" where
  "ParseGioResponse rsp = json_response 200 into_GioResponseRollup \<lparr>gio_Code = 0, gio_Data = []\<rparr> rsp"

definition GioWithBodyWithResponse ::
  "(string \<Rightarrow> string \<Rightarrow> string res) \<Rightarrow> 's Client \<Rightarrow> string \<Rightarrow> string \<Rightarrow> (wire_request \<Rightarrow> wire_request res) list \<Rightarrow> ('s, GioResponseRollup api_response) comp" where
  "GioWithBodyWithResponse url_resolve c contentType body reqEditors =
     andThen (Client_GioWithBody url_resolve c contentType body reqEditors) (\<lambda>rsp. lift_res (ParseGioResponse rsp))"

definition GioWithResponse ::
  "(string \<Rightarrow> string \<Rightarrow> string res) \<Rightarrow> 's Client \<Rightarrow> GioRequest \<Rightarrow> (wire_request \<Rightarrow> wire_request res) list \<Rightarrow> ('s, GioResponseRollup api_response) comp" where
  "GioWithResponse url_resolve c body reqEditors =
     andThen (Client_Gio url_resolve c body reqEditors) (\<lambda>rsp. lift_res (ParseGioResponse rsp))"

definition NewAddNoticeRequestWithBody ::
  "(string \<Rightarrow> string \<Rightarrow> string res) \<Rightarrow> string \<Rightarrow> string \<Rightarrow> string \<Rightarrow> wire_request res" where
  "NewAddNoticeRequestWithBody url_resolve server contentType body =
     operation_request url_resolve ''POST'' ''/notice'' server contentType body"

definition NewAddNoticeRequest :: "(string \<Rightarrow> string \<Rightarrow> string res) \<Rightarrow> string \<Rightarrow> string \<Rightarrow> wire_request res" where
  "NewAddNoticeRequest url_resolve server body =
     NewAddNoticeRequestWithBody url_resolve server ''application/json'' (json_print (json_of_payload body))"

definition Client_AddNoticeWithBody ::
  "(string \<Rightarrow> string \<Rightarrow> string res) \<Rightarrow> 's Client \<Rightarrow> string \<Rightarrow> string \<Rightarrow> (wire_request \<Rightarrow> wire_request res) list \<Rightarrow> ('s, wire_response) comp" where
  "Client_AddNoticeWithBody url_resolve c contentType body reqEditors =
     send_request c (NewAddNoticeRequestWithBody url_resolve (hc_Server c) contentType body) reqEditors"

definition Client_AddNotice ::
  "(string \<Rightarrow> string \<Rightarrow> string res) \<Rightarrow> 's Client \<Rightarrow> string \<Rightarrow> (wire_request \<Rightarrow> wire_request res) list \<Rightarrow> ('s, wire_response) comp" where
  "Client_AddNotice url_resolve c body reqEditors =
     send_request c (NewAddNoticeRequest url_resolve (hc_Server c) body) reqEditors"

definition ParseAddNoticeResponse :: "wire_response \<Rightarrow> u64 api_response res" where
  "ParseAddNoticeResponse rsp = json_response 201 into_IndexResponse 0 rsp"

definition AddNoticeWithBodyWithResponse ::
  "(string \<Rightarrow> string \<Rightarrow> string res) \<Rightarrow> 's Client \<Rightarrow> string \<Rightarrow> string \<Rightarrow> (wire_request \<Rightarrow> wire_request res) list \<Rightarrow> ('s, u64 api_response) comp" where
  "AddNoticeWithBodyWithResponse url_resolve c contentType body reqEditors =
     andThen (Client_AddNoticeWithBody url_resolve c contentType body reqEditors) (\<lambda>rsp. lift_res (ParseAddNoticeResponse rsp))"

definition AddNoticeWithResponse ::
  "(string \<Rightarrow> string \<Rightarrow> string res) \<Rightarrow> 's Client \<Rightarrow> string \<Rightarrow> (wire_request \<Rightarrow> wire_request res) list \<Rightarrow> ('s, u64 api_response) comp" where
  "AddNoticeWithResponse url_resolve c body reqEditors =
     andThen (Client_AddNotice url_resolve c body reqEditors) (\<lambda>rsp. lift_res (ParseAddNoticeResponse rsp))"

definition NewAddReportRequestWithBody ::
  "(string \<Rightarrow> string \<Rightarrow> string res) \<Rightarrow> string \<Rightarrow> string \<Rightarrow> string \<Rightarrow> wire_request res" where
  "NewAddReportRequestWithBody url_resolve server contentType body =
     operation_request url_resolve ''POST'' ''/report'' server contentType body"

definition NewAddReportRequest :: "(string \<Rightarrow> string \<Rightarrow> string res) \<Rightarrow> string \<Rightarrow> string \<Rightarrow> wire_request res" where
  "NewAddReportRequest url_resolve server body =
     NewAddReportRequestWithBody url_resolve server ''application/json'' (json_print (json_of_payload body))"

definition Client_AddReportWithBody ::
  "(string \<Rightarrow> string \<Rightarrow> string res) \<Rightarrow> 's Client \<Rightarrow> string \<Rightarrow> string \<Rightarrow> (wire_request \<Rightarrow> wire_request res) list \<Rightarrow> ('s, wire_response) comp" where
  "Client_AddReportWithBody url_resolve c contentType body reqEditors =
     send_request c (NewAddReportRequestWithBody url_resolve (hc_Server c) contentType body) reqEditors"

definition Client_AddReport ::
  "(string \<Rightarrow> string \<Rightarrow> string res) \<Rightarrow> 's Client \<Rightarrow> string \<Rightarrow> (wire_request \<Rightarrow> wire_request res) list \<Rightarrow> ('s, wire_response) comp" where
  "Client_AddReport url_resolve c body reqEditors =
     send_request c (NewAddReportRequest url_resolve (hc_Server c) body) reqEditors"

definition ParseAddReportResponse :: "wire_response \<Rightarrow> unit api_response res" where
  "ParseAddReportResponse rsp = plain_response rsp"

definition AddReportWithBodyWithResponse ::
  "(string \<Rightarrow> string \<Rightarrow> string res) \<Rightarrow> 's Client \<Rightarrow> string \<Rightarrow> string \<Rightarrow> (wire_request \<Rightarrow> wire_request res) list \<Rightarrow> ('s, unit api_response) comp" where
  "AddReportWithBodyWithResponse url_resolve c contentType body reqEditors =
     andThen (Client_AddReportWithBody url_resolve c contentType body reqEditors) (\<lambda>rsp. lift_res (ParseAddReportResponse rsp))"

definition AddReportWithResponse ::
  "(string \<Rightarrow> string \<Rightarrow> string res) \<Rightarrow> 's Client \<Rightarrow> string \<Rightarrow> (wire_request \<Rightarrow> wire_request res) list \<Rightarrow> ('s, unit api_response) comp" where
  "AddReportWithResponse url_resolve c body reqEditors =
     andThen (Client_AddReport url_resolve c body reqEditors) (\<lambda>rsp. lift_res (ParseAddReportResponse rsp))"

definition NewAddVoucherRequestWithBody ::
  "(string \<Rightarrow> string \<Rightarrow> string res) \<Rightarrow> string \<Rightarrow> string \<Rightarrow> string \<Rightarrow> wire_request res" where
  "NewAddVoucherRequestWithBody url_resolve server contentType body =
     operation_request url_resolve ''POST'' ''/voucher'' server contentType body"

definition NewAddVoucherRequest :: "(string \<Rightarrow> string \<Rightarrow> string res) \<Rightarrow> string \<Rightarrow> VoucherRequest \<Rightarrow> wire_request res" where
  "NewAddVoucherRequest url_resolve server body =
     NewAddVoucherRequestWithBody url_resolve server ''application/json'' (json_print (json_of_Voucher body))"

definition Client_AddVoucherWithBody ::
  "(string \<Rightarrow> string \<Rightarrow> string res) \<Rightarrow> 's Client \<Rightarrow> string \<Rightarrow> string \<Rightarrow> (wire_request \<Rightarrow> wire_request res) list \<Rightarrow> ('s, wire_response) comp" where
  "Client_AddVoucherWithBody url_resolve c contentType body reqEditors =
     send_request c (NewAddVoucherRequestWithBody url_resolve (hc_Server c) contentType body) reqEditors"

definition Client_AddVoucher ::
  "(string \<Rightarrow> string \<Rightarrow> string res) \<Rightarrow> 's Client \<Rightarrow> VoucherRequest \<Rightarrow> (wire_request \<Rightarrow> wire_request res) list \<Rightarrow> ('s, wire_response) comp" where
  "Client_AddVoucher url_resolve c body reqEditors =
     send_request c (NewAddVoucherRequest url_resolve (hc_Server c) body) reqEditors"

definition ParseAddVoucherResponse :: "wire_response \<Rightarrow> u64 api_response res" where
  "ParseAddVoucherResponse rsp = json_response 201 into_IndexResponse 0 rsp"

definition AddVoucherWithBodyWithResponse ::
  "(string \<Rightarrow> string \<Rightarrow> string res) \<Rightarrow> 's Client \<Rightarrow> string \<Rightarrow> string \<Rightarrow> (wire_request \<Rightarrow> wire_request res) list \<Rightarrow> ('s, u64 api_response) comp" where
  "AddVoucherWithBodyWithResponse url_resolve c contentType body reqEditors =
     andThen (Client_AddVoucherWithBody url_resolve c contentType body reqEditors) (\<lambda>rsp. lift_res (ParseAddVoucherResponse rsp))"

definition AddVoucherWithResponse ::
  "(string \<Rightarrow> string \<Rightarrow> string res) \<Rightarrow> 's Client \<Rightarrow> VoucherRequest \<Rightarrow> (wire_request \<Rightarrow> wire_request res) list \<Rightarrow> ('s, u64 api_response) comp" where
  "AddVoucherWithResponse url_resolve c body reqEditors =
     andThen (Client_AddVoucher url_resolve c body reqEditors) (\<lambda>rsp. lift_res (ParseAddVoucherResponse rsp))"

lemmas operation_defs =
  NewRegisterExceptionRequestWithBody_def NewRegisterExceptionRequest_def Client_RegisterException_def Client_RegisterExceptionWithBody_def ParseRegisterExceptionResponse_def
  RegisterExceptionWithBodyWithResponse_def RegisterExceptionWithResponse_def
  NewFinishRequestWithBody_def NewFinishRequest_def Client_Finish_def Client_FinishWithBody_def ParseFinishResponse_def
  FinishWithBodyWithResponse_def FinishWithResponse_def
  NewGioRequestWithBody_def NewGioRequest_def Client_Gio_def Client_GioWithBody_def ParseGioResponse_def
  GioWithBodyWithResponse_def GioWithResponse_def
  NewAddNoticeRequestWithBody_def NewAddNoticeRequest_def Client_AddNotice_def Client_AddNoticeWithBody_def ParseAddNoticeResponse_def
  AddNoticeWithBodyWithResponse_def AddNoticeWithResponse_def
  NewAddReportRequestWithBody_def NewAddReportRequest_def Client_AddReport_def Client_AddReportWithBody_def ParseAddReportResponse_def
  AddReportWithBodyWithResponse_def AddReportWithResponse_def
  NewAddVoucherRequestWithBody_def NewAddVoucherRequest_def Client_AddVoucher_def Client_AddVoucherWithBody_def ParseAddVoucherResponse_def
  AddVoucherWithBodyWithResponse_def AddVoucherWithResponse_def

section \<open>The server\<close>

text \<open>
  The framework: what binding hands to \<open>encoding/json\<close> for a content type and a body, how it writes
  texts, JSON values and empty responses, how it answers an error of a handler (and, with the
  \<open>Recover\<close> middleware, a panic) and a request without a route, and which of its routes serves a request.
\<close>

record echo_lib =
  ec_Bind :: "string \<Rightarrow> string \<Rightarrow> json option res"
  ec_String :: "int \<Rightarrow> string \<Rightarrow> wire_response"
  ec_JSON :: "int \<Rightarrow> string \<Rightarrow> wire_response"
  ec_NoContent :: "int \<Rightarrow> wire_response"
  ec_Error :: "err \<Rightarrow> wire_response"
  ec_NotFound :: "wire_response"
  ec_Find :: "(string \<times> string) list \<Rightarrow> string \<times> string \<Rightarrow> nat option"

text \<open>A path without parameters and wildcards.\<close>

definition static_path :: "string \<Rightarrow> bool" where
  "static_path p \<longleftrightarrow> take 1 p = ''/'' \<and> CHR '':'' \<notin> set p \<and> CHR ''*'' \<notin> set p"

definition echo_laws :: "echo_lib \<Rightarrow> bool" where
  "echo_laws L \<longleftrightarrow>
     (\<forall>b v r. decode_first b = Some (v, r) \<longrightarrow> ec_Bind L ''application/json'' b = Inr (Some v)) \<and>
     (\<forall>c t. wp_StatusCode (ec_String L c t) = c \<and> \<not> has_infix ''json'' (wp_ContentType (ec_String L c t)) \<and>
        (\<exists>b. wp_Body (ec_String L c t) = Inr b)) \<and>
     (\<forall>c t. wp_StatusCode (ec_JSON L c t) = c \<and> has_infix ''json'' (wp_ContentType (ec_JSON L c t)) \<and>
        (\<exists>w. skip_ws w = [] \<and> wp_Body (ec_JSON L c t) = Inr (t @ w))) \<and>
     (\<forall>c. wp_StatusCode (ec_NoContent L c) = c \<and> \<not> has_infix ''json'' (wp_ContentType (ec_NoContent L c)) \<and>
        (\<exists>b. wp_Body (ec_NoContent L c) = Inr b)) \<and>
     (\<forall>e. 400 \<le> wp_StatusCode (ec_Error L e) \<and> (\<exists>b. wp_Body (ec_Error L e) = Inr b)) \<and>
     (\<forall>rs i. distinct rs \<and> list_all (static_path \<circ> snd) rs \<and> i < length rs \<longrightarrow> ec_Find L rs (rs ! i) = Some i)"

text \<open>\<open>c.Bind\<close> into a struct that is zero.\<close>

definition bind_request :: "echo_lib \<Rightarrow> 'b setter \<Rightarrow> 'b \<Rightarrow> wire_request \<Rightarrow> 'b http_request" where
  "bind_request L dec zero rq = \<lparr>rq_ContentType = wq_ContentType rq,
     rq_Bind = rbind (ec_Bind L (wq_ContentType rq) (wq_Body rq)) (\<lambda>v. case v of
       None \<Rightarrow> Inr zero | Some v \<Rightarrow> dec v zero)\<rparr>"

text \<open>What the framework makes of the result of a handler.\<close>

definition write_response :: "echo_lib \<Rightarrow> ('a \<Rightarrow> json) \<Rightarrow> 'a response res \<Rightarrow> wire_response" where
  "write_response L enc r = (case r of
       Inl e \<Rightarrow> ec_Error L e
     | Inr (RString c t) \<Rightarrow> ec_String L c t
     | Inr (RJSON c v) \<Rightarrow> ec_JSON L c (json_print (enc v))
     | Inr (RNoContent c) \<Rightarrow> ec_NoContent L c)"

definition respond :: "echo_lib \<Rightarrow> ('a \<Rightarrow> json) \<Rightarrow> ('s, 'a response) comp \<Rightarrow> ('s, wire_response) comp" where
  "respond L enc m s = (case m s of (r, s') \<Rightarrow> (Inr (write_response L enc r), s'))"

type_synonym 's HandlerFunc = "wire_request \<Rightarrow> ('s, wire_response) comp"

record 's ServerInterface =
  si_RegisterException :: "'s HandlerFunc"
  si_Finish :: "'s HandlerFunc"
  si_Gio :: "'s HandlerFunc"
  si_AddNotice :: "'s HandlerFunc"
  si_AddReport :: "'s HandlerFunc"
  si_AddVoucher :: "'s HandlerFunc"

definition Wrapper_RegisterException :: "'s ServerInterface \<Rightarrow> 's HandlerFunc" where
  "Wrapper_RegisterException w ctx = si_RegisterException w ctx"

definition Wrapper_Finish :: "'s ServerInterface \<Rightarrow> 's HandlerFunc" where
  "Wrapper_Finish w ctx = si_Finish w ctx"

definition Wrapper_Gio :: "'s ServerInterface \<Rightarrow> 's HandlerFunc" where
  "Wrapper_Gio w ctx = si_Gio w ctx"

definition Wrapper_AddNotice :: "'s ServerInterface \<Rightarrow> 's HandlerFunc" where
  "Wrapper_AddNotice w ctx = si_AddNotice w ctx"

definition Wrapper_AddReport :: "'s ServerInterface \<Rightarrow> 's HandlerFunc" where
  "Wrapper_AddReport w ctx = si_AddReport w ctx"

definition Wrapper_AddVoucher :: "'s ServerInterface \<Rightarrow> 's HandlerFunc" where
  "Wrapper_AddVoucher w ctx = si_AddVoucher w ctx"

text \<open>The routes of a router, in the order of their registration.\<close>

type_synonym 's router = "((string \<times> string) \<times> 's HandlerFunc) list"

definition RegisterHandlersWithBaseURL :: "'s router \<Rightarrow> 's ServerInterface \<Rightarrow> string \<Rightarrow> 's router" where
  "RegisterHandlersWithBaseURL router si baseURL = router @
     [((''POST'', baseURL @ ''/exception''), Wrapper_RegisterException si),
      ((''POST'', baseURL @ ''/finish''), Wrapper_Finish si),
      ((''POST'', baseURL @ ''/gio''), Wrapper_Gio si),
      ((''POST'', baseURL @ ''/notice''), Wrapper_AddNotice si),
      ((''POST'', baseURL @ ''/report''), Wrapper_AddReport si),
      ((''POST'', baseURL @ ''/voucher''), Wrapper_AddVoucher si)]"

definition RegisterHandlers :: "'s router \<Rightarrow> 's ServerInterface \<Rightarrow> 's router" where
  "RegisterHandlers router si = RegisterHandlersWithBaseURL router si []"

definition serve :: "echo_lib \<Rightarrow> 's router \<Rightarrow> 's HandlerFunc" where
  "serve L router rq = (case ec_Find L (map fst router) (wq_Method rq, wq_URL rq) of
       Some i \<Rightarrow> snd (router ! i) rq
     | None \<Rightarrow> ret (ec_NotFound L))"

text \<open>The handlers of \<open>rollup.go\<close> behind the framework; \<open>Fetcher\<close> answers the gio requests.\<close>

definition RollupAPI ::
  "echo_lib \<Rightarrow> ethlib \<Rightarrow> (bool \<Rightarrow> (NonodoModel, Input option) comp) option \<Rightarrow> (nat \<Rightarrow> wait) \<Rightarrow>
   (GioRequest \<Rightarrow> (HttpCustomError + GioResponseRollup option) res) \<Rightarrow> NonodoModel ServerInterface" where
  "RollupAPI L E sequencer waits Fetcher = \<lparr>
     si_RegisterException = (\<lambda>c. respond L (\<lambda>_. JNull) (RollupAPI_RegisterException E (bind_request L into_payload [] c))),
     si_Finish = (\<lambda>c. respond L (json_of_RollupRequest \<circ> stored_request)
        (RollupAPI_Finish E sequencer waits (bind_request L into_Finish [] c))),
     si_Gio = (\<lambda>c. respond L json_of_GioResponseRollup (lift_res (RollupAPI_Gio Fetcher
        (bind_request L into_GioRequest \<lparr>gio_Domain = 0, gio_Id = []\<rparr> c)))),
     si_AddNotice = (\<lambda>c. respond L json_of_IndexResponse (RollupAPI_AddNotice E (bind_request L into_payload [] c))),
     si_AddReport = (\<lambda>c. respond L (\<lambda>_. JNull) (RollupAPI_AddReport E (bind_request L into_payload [] c))),
     si_AddVoucher = (\<lambda>c. respond L json_of_IndexResponse (RollupAPI_AddVoucher E (bind_request L into_Voucher zero_Voucher c)))\<rparr>"

definition rollup_Register ::
  "echo_lib \<Rightarrow> ethlib \<Rightarrow> NonodoModel router \<Rightarrow> (bool \<Rightarrow> (NonodoModel, Input option) comp) option \<Rightarrow> (nat \<Rightarrow> wait) \<Rightarrow>
   (GioRequest \<Rightarrow> (HttpCustomError + GioResponseRollup option) res) \<Rightarrow> NonodoModel router" where
  "rollup_Register L E e sequencer waits Fetcher = RegisterHandlers e (RollupAPI L E sequencer waits Fetcher)"

section \<open>The echo application\<close>

definition wire_handleAdvance ::
  "(string \<Rightarrow> string \<Rightarrow> string res) \<Rightarrow> 's Client \<Rightarrow> Advance \<Rightarrow> ('s, unit) comp" where
  "wire_handleAdvance U client advance =
     andThen (wrapErr ''echo'' (Client_AddVoucher U client
       \<lparr>vr_Destination = md_MsgSender (adv_Metadata advance), vr_Payload = adv_Payload advance, vr_Value = []\<rparr> []))
       (\<lambda>voucherResp.
     if wp_StatusCode voucherResp \<noteq> 200 then fail (EMsg ''echo: failed to add report'')
     else andThen (wrapErr ''echo'' (Client_AddNotice U client (adv_Payload advance @ ''ff'') [])) (\<lambda>noticeResp.
     if wp_StatusCode noticeResp \<noteq> 200 then fail (EMsg ''echo: failed to add notice'')
     else andThen (wrapErr ''echo'' (Client_AddReport U client (adv_Payload advance) [])) (\<lambda>reportResp.
     if wp_StatusCode reportResp \<noteq> 200 then fail (EMsg ''echo: failed to add report'')
     else ret ())))"

definition wire_handleInspect ::
  "(string \<Rightarrow> string \<Rightarrow> string res) \<Rightarrow> 's Client \<Rightarrow> string \<Rightarrow> ('s, unit) comp" where
  "wire_handleInspect U client inspect =
     andThen (wrapErr ''echo'' (Client_AddReport U client inspect [])) (\<lambda>reportResp.
     if wp_StatusCode reportResp \<noteq> 200 then fail (EMsg ''echo: failed to add report'')
     else ret ())"

text \<open>A round of the loop: the request, and the dispatch on its type.\<close>

definition wire_echo_round :: "(string \<Rightarrow> string \<Rightarrow> string res) \<Rightarrow> 's Client \<Rightarrow> ('s, unit) comp" where
  "wire_echo_round U client =
     andThen (wrapErr ''echo'' (FinishWithResponse U client Accept [])) (\<lambda>finishResp.
     if Response_StatusCode finishResp = 202 then ret ()
     else if Response_StatusCode finishResp \<noteq> 200 then fail (EMsg ''echo: invalid finish response'')
     else (case ar_JSON finishResp of
         None \<Rightarrow> fail (EMsg ''echo: missing finish response body'')
       | Some finishBody \<Rightarrow>
           if rr_RequestType finishBody = advance_state then
             andThen (wrapErr ''echo: failed to parser advance'' (lift_res (AsAdvance (rr_Data finishBody))))
               (wire_handleAdvance U client)
           else if rr_RequestType finishBody = inspect_state then
             andThen (wrapErr ''echo: failed to parser inspect'' (lift_res (AsInspect (rr_Data finishBody))))
               (wire_handleInspect U client)
           else fail (EMsg ''echo: invalid request type'')))"

text \<open>The requests of a client whose transport reaches the server at the endpoint.\<close>

definition connected :: "string \<Rightarrow> 's HandlerFunc \<Rightarrow> 's HandlerFunc" where
  "connected endpoint server req = (case strip_prefix endpoint (wq_URL req) of
       Some path \<Rightarrow> server (req\<lparr>wq_URL := path\<rparr>)
     | None \<Rightarrow> fail (EExt ''connection refused''))"

text \<open>\<open>./p\<close> is resolved next to a server whose path ends in a slash.\<close>

definition url_laws :: "(string \<Rightarrow> string \<Rightarrow> string res) \<Rightarrow> string \<Rightarrow> bool" where
  "url_laws U endpoint \<longleftrightarrow>
     list_all (\<lambda>p. U (endpoint @ ''/'') (''./'' @ p) = Inr (endpoint @ ''/'' @ p))
       [''exception'', ''finish'', ''gio'', ''notice'', ''report'', ''voucher'']"

end
