(* ===== verification/HttpLaws.thy ===== *)
theory HttpLaws
  imports RollupHttp
begin

text \<open>
  Facts about the rollup API over HTTP: the JSON of the requests and responses is read back by the other
  side, a call of the generated client is the call of the handler on its argument, and the echo
  application on the generated client does what it does on the handlers directly.
\<close>

section \<open>The JSON is read back\<close>

lemma folded_names:
  "foldName ''payload'' = ''PAYLOAD''" "foldName ''status'' = ''STATUS''" "foldName ''domain'' = ''DOMAIN''"
  "foldName ''id'' = ''ID''" "foldName ''code'' = ''CODE''" "foldName ''data'' = ''DATA''"
  "foldName ''index'' = ''INDEX''" "foldName ''destination'' = ''DESTINATION''" "foldName ''value'' = ''VALUE''"
  "foldName ''app_contract'' = ''APP_CONTRACT''" "foldName ''block_number'' = ''BLOCK_NUMBER''"
  "foldName ''block_timestamp'' = ''BLOCK_TIMESTAMP''" "foldName ''chain_id'' = ''CHAIN_ID''"
  "foldName ''input_index'' = ''INPUT_INDEX''" "foldName ''msg_sender'' = ''MSG_SENDER''"
  "foldName ''prev_randao'' = ''PREV_RANDAO''" "foldName ''metadata'' = ''METADATA''"
  "foldName ''request_type'' = ''REQUEST_TYPE''"
  by (simp_all add: fold_name_simps)

declare foldName.simps [simp del]

lemma ParseUint_word: "ParseUint LENGTH('w) (nat_to_dec (unat (w::'w::len word))) = Some (unat w)"
  by (rule ParseUint_itoa) simp

lemma into_uint_word:
  "bits = LENGTH('w) \<Longrightarrow> into_uint bits upd (json_of_uint (w::'w::len word)) r = Inr (upd (unat w) r)"
  by (simp add: into_uint_def json_of_uint_def ParseUint_word)

lemma into_string_str: "into_string upd (JStr s) r = Inr (upd s r)"
  by (simp add: into_string_def)

lemmas decode_simps = decode_struct_def folded_names into_uint_word into_string_str into_struct_def

lemma payload_back: "into_payload (json_of_payload p) r = Inr p"
  by (simp add: into_payload_def json_of_payload_def decode_simps)

lemma Finish_back: "into_Finish (json_of_Finish st) r = Inr st"
  by (simp add: into_Finish_def json_of_Finish_def decode_simps)

lemma GioRequest_back: "into_GioRequest (json_of_GioRequest g) r = Inr g"
  by (simp add: into_GioRequest_def json_of_GioRequest_def decode_simps)

lemma GioResponseRollup_back: "into_GioResponseRollup (json_of_GioResponseRollup g) r = Inr g"
  by (simp add: into_GioResponseRollup_def json_of_GioResponseRollup_def decode_simps)

lemma IndexResponse_back: "into_IndexResponse (json_of_IndexResponse i) r = Inr i"
  by (simp add: into_IndexResponse_def json_of_IndexResponse_def decode_simps)

lemma Voucher_back: "into_Voucher (json_of_Voucher v) r = Inr v"
  by (simp add: into_Voucher_def json_of_Voucher_def decode_simps)

lemma Metadata_back: "into_Metadata (json_of_Metadata m) r = Inr m"
  by (simp add: into_Metadata_def json_of_Metadata_def decode_simps)

lemma Advance_back: "into_Advance (json_of_Advance a) r = Inr a"
  by (simp add: into_Advance_def json_of_Advance_def decode_simps Metadata_back)

lemma RollupRequest_back:
  "into_RollupRequest (json_of_RollupRequest (stored_request q)) r = Inr (stored_request q)"
  by (cases q) (simp_all add: into_RollupRequest_def json_of_RollupRequest_def stored_request_def FromAdvance_def
      FromInspect_def Data_MarshalJSON_def Data_UnmarshalJSON_def decode_simps advance_state_def inspect_state_def)

lemma AsAdvance_FromAdvance: "AsAdvance (FromAdvance a) = Inr a"
  by (simp add: AsAdvance_def FromAdvance_def Advance_back)

lemma AsInspect_FromInspect: "AsInspect (FromInspect p) = Inr p"
  by (simp add: AsInspect_def FromInspect_def payload_back)

text \<open>Values whose strings are ASCII can be written.\<close>

abbreviation writable :: "json \<Rightarrow> bool" where
  "writable v \<equiv> json_plain v \<and> json_depth v \<le> maxNestingDepth"

definition ascii_voucher :: "VoucherRequest \<Rightarrow> bool" where
  "ascii_voucher v \<longleftrightarrow> ascii (vr_Destination v) \<and> ascii (vr_Payload v) \<and> ascii (vr_Value v)"

definition ascii_request :: "RollupRequest \<Rightarrow> bool" where
  "ascii_request q \<longleftrightarrow> (case q of
       AdvanceState a \<Rightarrow> ascii (adv_Payload a) \<and> ascii (md_AppContract (adv_Metadata a)) \<and>
         ascii (md_MsgSender (adv_Metadata a)) \<and> ascii (md_PrevRandao (adv_Metadata a))
     | InspectState p \<Rightarrow> ascii p)"

lemma plain_uint [simp]: "json_plain (json_of_uint w)" "json_depth (json_of_uint w) = 0"
  by (auto simp: json_of_uint_def)

lemma writable_payload: "ascii p \<Longrightarrow> writable (json_of_payload p)"
  by (simp add: json_of_payload_def ascii_char_def maxNestingDepth_def)

lemma writable_Finish: "ascii p \<Longrightarrow> writable (json_of_Finish p)"
  by (simp add: json_of_Finish_def ascii_char_def maxNestingDepth_def)

lemma writable_GioRequest: "ascii (gio_Id g) \<Longrightarrow> writable (json_of_GioRequest g)"
  by (simp add: json_of_GioRequest_def ascii_char_def maxNestingDepth_def)

lemma writable_GioResponseRollup: "ascii (gio_Data g) \<Longrightarrow> writable (json_of_GioResponseRollup g)"
  by (simp add: json_of_GioResponseRollup_def ascii_char_def maxNestingDepth_def)

lemma writable_IndexResponse: "writable (json_of_IndexResponse i)"
  by (simp add: json_of_IndexResponse_def ascii_char_def maxNestingDepth_def)

lemma writable_Voucher: "ascii_voucher v \<Longrightarrow> writable (json_of_Voucher v)"
  by (simp add: json_of_Voucher_def ascii_voucher_def ascii_char_def maxNestingDepth_def)

lemma writable_RollupRequest: "ascii_request q \<Longrightarrow> writable (json_of_RollupRequest (stored_request q))"
  by (cases q) (simp_all add: json_of_RollupRequest_def stored_request_def FromAdvance_def FromInspect_def
      Data_MarshalJSON_def json_of_Advance_def json_of_Metadata_def json_of_payload_def ascii_request_def ascii_char_def
      advance_state_def inspect_state_def maxNestingDepth_def)

section \<open>A call of the client is a call of the handler\<close>

lemma echo_Bind: "echo_laws L \<Longrightarrow> decode_first b = Some (v, r) \<Longrightarrow> ec_Bind L ''application/json'' b = Inr (Some v)"
  unfolding echo_laws_def by blast

lemma echo_String: "echo_laws L \<Longrightarrow> wp_StatusCode (ec_String L c t) = c \<and>
    \<not> has_infix ''json'' (wp_ContentType (ec_String L c t)) \<and> (\<exists>b. wp_Body (ec_String L c t) = Inr b)"
  unfolding echo_laws_def by blast

lemma echo_JSON: "echo_laws L \<Longrightarrow> wp_StatusCode (ec_JSON L c t) = c \<and>
    has_infix ''json'' (wp_ContentType (ec_JSON L c t)) \<and> (\<exists>w. skip_ws w = [] \<and> wp_Body (ec_JSON L c t) = Inr (t @ w))"
  unfolding echo_laws_def by blast

lemma echo_NoContent: "echo_laws L \<Longrightarrow> wp_StatusCode (ec_NoContent L c) = c \<and>
    \<not> has_infix ''json'' (wp_ContentType (ec_NoContent L c)) \<and> (\<exists>b. wp_Body (ec_NoContent L c) = Inr b)"
  unfolding echo_laws_def by blast

lemma echo_Error: "echo_laws L \<Longrightarrow> 400 \<le> wp_StatusCode (ec_Error L e) \<and> (\<exists>b. wp_Body (ec_Error L e) = Inr b)"
  unfolding echo_laws_def by blast

lemma echo_Find: "echo_laws L \<Longrightarrow> distinct rs \<Longrightarrow> list_all (static_path \<circ> snd) rs \<Longrightarrow> i < length rs \<Longrightarrow>
    ec_Find L rs (rs ! i) = Some i"
  unfolding echo_laws_def by blast

lemma bind_request_json:
  assumes "echo_laws L" and "writable v"
  shows "bind_request L dec zero \<lparr>wq_Method = m, wq_URL = u, wq_ContentType = ''application/json'', wq_Body = json_print v\<rparr> =
    \<lparr>rq_ContentType = ''application/json'', rq_Bind = dec v zero\<rparr>"
proof -
  have "decode_first (json_print v @ []) = Some (v, [])"
    using assms(2) by (intro decode_first_print) (simp_all add: ends_value_def)
  with echo_Bind [OF assms(1)] show ?thesis by (simp add: bind_request_def)
qed

lemma routes_of: "map fst (RegisterHandlers [] si) =
    [(''POST'', ''/exception''), (''POST'', ''/finish''), (''POST'', ''/gio''), (''POST'', ''/notice''),
     (''POST'', ''/report''), (''POST'', ''/voucher'')]"
  by (simp add: RegisterHandlers_def RegisterHandlersWithBaseURL_def)

lemma routes_static: "distinct (map fst (RegisterHandlers [] si)) \<and> list_all (static_path \<circ> snd) (map fst (RegisterHandlers [] si))"
  by (simp add: routes_of static_path_def)

lemma serve_route:
  assumes "echo_laws L" and "i < 6" and "(RegisterHandlers [] si) ! i = ((m, p), h)"
  shows "serve L (RegisterHandlers [] si) \<lparr>wq_Method = m, wq_URL = p, wq_ContentType = ct, wq_Body = b\<rparr> =
    h \<lparr>wq_Method = m, wq_URL = p, wq_ContentType = ct, wq_Body = b\<rparr>"
proof -
  have len: "length (RegisterHandlers [] si) = 6"
    by (simp add: RegisterHandlers_def RegisterHandlersWithBaseURL_def)
  with assms(2,3) have "map fst (RegisterHandlers [] si) ! i = (m, p)" by simp
  with echo_Find [OF assms(1), of "map fst (RegisterHandlers [] si)" i] routes_static [of si] assms(2) len
  have "ec_Find L (map fst (RegisterHandlers [] si)) (m, p) = Some i" by simp
  with assms(3) show ?thesis by (simp add: serve_def)
qed

text \<open>The client of an endpoint without a trailing slash, connected to a server.\<close>

definition connected_client :: "echo_lib \<Rightarrow> 's ServerInterface \<Rightarrow> string \<Rightarrow> 's Client" where
  "connected_client L si endpoint = \<lparr>hc_Server = endpoint @ ''/'',
     hc_Client = Some (connected endpoint (serve L (RegisterHandlers [] si))), hc_RequestEditors = []\<rparr>"

lemma NewClient_connected:
  assumes "\<not> HasSuffix endpoint ''/''"
  shows "NewClientWithResponses (connected endpoint (serve L (RegisterHandlers [] si))) endpoint [] =
    Inr (connected_client L si endpoint)"
  using assms by (simp add: NewClientWithResponses_def NewClient_def connected_client_def)

lemma strip_prefix_append [simp]: "strip_prefix p (p @ s) = Some s"
  by (simp add: strip_prefix_def)

lemma send_connected:
  assumes "echo_laws L" and "U (endpoint @ ''/'') (''./'' @ p) = Inr (endpoint @ ''/'' @ p)"
    and "i < 6" and "(RegisterHandlers [] si) ! i = ((m, ''/'' @ p), h)"
  shows "send_request (connected_client L si endpoint) (operation_request U m (''/'' @ p) (endpoint @ ''/'') ct b) [] s =
    h \<lparr>wq_Method = m, wq_URL = ''/'' @ p, wq_ContentType = ct, wq_Body = b\<rparr> s"
  using assms(2) serve_route [OF assms(1,3,4), of ct b]
  by (simp add: send_request_def operation_request_def andThen_apply applyEditors_def client_Do_def
      connected_client_def connected_def)

lemma url_op:
  assumes "url_laws U endpoint" and "p \<in> set [''exception'', ''finish'', ''gio'', ''notice'', ''report'', ''voucher'']"
  shows "U (endpoint @ ''/'') (''./'' @ p) = Inr (endpoint @ ''/'' @ p)"
  using assms unfolding url_laws_def list_all_iff by blast

text \<open>The request of a handler that the JSON of a value is bound to.\<close>

abbreviation json_request :: "'b \<Rightarrow> 'b http_request" where
  "json_request b \<equiv> \<lparr>rq_ContentType = ''application/json'', rq_Bind = Inr b\<rparr>"

abbreviation rollup_client ::
  "echo_lib \<Rightarrow> ethlib \<Rightarrow> string \<Rightarrow> (bool \<Rightarrow> (NonodoModel, Input option) comp) option \<Rightarrow> (nat \<Rightarrow> wait) \<Rightarrow>
   (GioRequest \<Rightarrow> (HttpCustomError + GioResponseRollup option) res) \<Rightarrow> NonodoModel Client" where
  "rollup_client L E endpoint sequencer waits Fetcher \<equiv>
     connected_client L (RollupAPI L E sequencer waits Fetcher) endpoint"

lemma hc_Server_connected [simp]: "hc_Server (connected_client L si endpoint) = endpoint @ ''/''"
  by (simp add: connected_client_def)

lemma rollup_routes:
  "RegisterHandlers [] si ! 0 = ((''POST'', ''/'' @ ''exception''), Wrapper_RegisterException si)"
  "RegisterHandlers [] si ! 1 = ((''POST'', ''/'' @ ''finish''), Wrapper_Finish si)"
  "RegisterHandlers [] si ! 2 = ((''POST'', ''/'' @ ''gio''), Wrapper_Gio si)"
  "RegisterHandlers [] si ! 3 = ((''POST'', ''/'' @ ''notice''), Wrapper_AddNotice si)"
  "RegisterHandlers [] si ! 4 = ((''POST'', ''/'' @ ''report''), Wrapper_AddReport si)"
  "RegisterHandlers [] si ! 5 = ((''POST'', ''/'' @ ''voucher''), Wrapper_AddVoucher si)"
  by (simp_all add: RegisterHandlers_def RegisterHandlersWithBaseURL_def)

lemmas wrapper_defs = Wrapper_RegisterException_def Wrapper_Finish_def Wrapper_Gio_def Wrapper_AddNotice_def
  Wrapper_AddReport_def Wrapper_AddVoucher_def

lemma call_RegisterException:
  assumes "echo_laws L" and "url_laws U endpoint" and "ascii p"
  shows "Client_RegisterException U (rollup_client L E endpoint sequencer waits Fetcher) p [] s =
    respond L (\<lambda>_. JNull) (RollupAPI_RegisterException E (json_request p)) s"
  by (simp add: operation_defs wrapper_defs RollupAPI_def payload_back
      bind_request_json [OF assms(1) writable_payload [OF assms(3)]]
      send_connected [where p = "''exception''" and i = 0 and U = U and endpoint = endpoint,
        OF assms(1) url_op [OF assms(2)] _ rollup_routes(1), simplified])

lemma call_Finish:
  assumes "echo_laws L" and "url_laws U endpoint" and "ascii p"
  shows "Client_Finish U (rollup_client L E endpoint sequencer waits Fetcher) p [] s =
    respond L (json_of_RollupRequest \<circ> stored_request) (RollupAPI_Finish E sequencer waits (json_request p)) s"
  by (simp add: operation_defs wrapper_defs RollupAPI_def Finish_back
      bind_request_json [OF assms(1) writable_Finish [OF assms(3)]]
      send_connected [where p = "''finish''" and i = 1 and U = U and endpoint = endpoint,
        OF assms(1) url_op [OF assms(2)] _ rollup_routes(2), simplified])

lemma call_Gio:
  assumes "echo_laws L" and "url_laws U endpoint" and "ascii (gio_Id p)"
  shows "Client_Gio U (rollup_client L E endpoint sequencer waits Fetcher) p [] s =
    respond L json_of_GioResponseRollup (lift_res (RollupAPI_Gio Fetcher (json_request p))) s"
  by (simp add: operation_defs wrapper_defs RollupAPI_def GioRequest_back
      bind_request_json [OF assms(1) writable_GioRequest [OF assms(3)]]
      send_connected [where p = "''gio''" and i = 2 and U = U and endpoint = endpoint,
        OF assms(1) url_op [OF assms(2)] _ rollup_routes(3), simplified])

lemma call_AddNotice:
  assumes "echo_laws L" and "url_laws U endpoint" and "ascii p"
  shows "Client_AddNotice U (rollup_client L E endpoint sequencer waits Fetcher) p [] s =
    respond L json_of_IndexResponse (RollupAPI_AddNotice E (json_request p)) s"
  by (simp add: operation_defs wrapper_defs RollupAPI_def payload_back
      bind_request_json [OF assms(1) writable_payload [OF assms(3)]]
      send_connected [where p = "''notice''" and i = 3 and U = U and endpoint = endpoint,
        OF assms(1) url_op [OF assms(2)] _ rollup_routes(4), simplified])

lemma call_AddReport:
  assumes "echo_laws L" and "url_laws U endpoint" and "ascii p"
  shows "Client_AddReport U (rollup_client L E endpoint sequencer waits Fetcher) p [] s =
    respond L (\<lambda>_. JNull) (RollupAPI_AddReport E (json_request p)) s"
  by (simp add: operation_defs wrapper_defs RollupAPI_def payload_back
      bind_request_json [OF assms(1) writable_payload [OF assms(3)]]
      send_connected [where p = "''report''" and i = 4 and U = U and endpoint = endpoint,
        OF assms(1) url_op [OF assms(2)] _ rollup_routes(5), simplified])

lemma call_AddVoucher:
  assumes "echo_laws L" and "url_laws U endpoint" and "ascii_voucher p"
  shows "Client_AddVoucher U (rollup_client L E endpoint sequencer waits Fetcher) p [] s =
    respond L json_of_IndexResponse (RollupAPI_AddVoucher E (json_request p)) s"
  by (simp add: operation_defs wrapper_defs RollupAPI_def Voucher_back
      bind_request_json [OF assms(1) writable_Voucher [OF assms(3)]]
      send_connected [where p = "''voucher''" and i = 5 and U = U and endpoint = endpoint,
        OF assms(1) url_op [OF assms(2)] _ rollup_routes(6), simplified])

section \<open>The echo application over HTTP\<close>

text \<open>Two computations that leave the same state and both succeed or both fail.\<close>

definition same_outcome :: "('s, 'a) comp \<Rightarrow> ('s, 'a) comp \<Rightarrow> bool" where
  "same_outcome m m' \<longleftrightarrow> (\<forall>s. snd (m s) = snd (m' s) \<and> is_ok (fst (m s)) = is_ok (fst (m' s)))"

lemma same_outcome_refl [simp]: "same_outcome m m"
  by (simp add: same_outcome_def)

lemma same_outcomeI:
  "(\<And>s. snd (m s) = snd (m' s) \<and> is_ok (fst (m s)) = is_ok (fst (m' s))) \<Longrightarrow> same_outcome m m'"
  by (simp add: same_outcome_def)

text \<open>The status of a written response.\<close>

lemma write_response_status:
  assumes "echo_laws L"
  shows "case r of Inl e \<Rightarrow> 400 \<le> wp_StatusCode (write_response L enc r)
    | Inr resp \<Rightarrow> wp_StatusCode (write_response L enc r) = status_code resp"
  using echo_String [OF assms] echo_JSON [OF assms] echo_NoContent [OF assms] echo_Error [OF assms]
  by (auto simp: write_response_def split: sum.splits response.splits)

text \<open>A call whose status is wanted to be 200.\<close>

lemma checked_call:
  assumes "echo_laws L" and "same_outcome k k'"
  shows "same_outcome
    (andThen (wrapErr w (respond L enc m)) (\<lambda>rsp. if wp_StatusCode rsp \<noteq> 200 then fail x else k))
    (andThen (wrapErr w m) (\<lambda>rsp. if status_code rsp \<noteq> 200 then fail x else k'))"
proof (rule same_outcomeI)
  fix s
  obtain r s1 where m: "m s = (r, s1)" by fastforce
  show "snd (andThen (wrapErr w (respond L enc m)) (\<lambda>rsp. if wp_StatusCode rsp \<noteq> 200 then fail x else k) s) =
      snd (andThen (wrapErr w m) (\<lambda>rsp. if status_code rsp \<noteq> 200 then fail x else k') s) \<and>
    is_ok (fst (andThen (wrapErr w (respond L enc m)) (\<lambda>rsp. if wp_StatusCode rsp \<noteq> 200 then fail x else k) s)) =
      is_ok (fst (andThen (wrapErr w m) (\<lambda>rsp. if status_code rsp \<noteq> 200 then fail x else k') s))"
    using m assms(2) write_response_status [OF assms(1), where r = r and enc = enc]
    by (cases r) (auto simp: andThen_apply wrapErr_apply respond_def same_outcome_def)
qed

text \<open>The hexadecimal texts of the library are ASCII.\<close>

definition hex_ascii :: "ethlib \<Rightarrow> bool" where
  "hex_ascii E \<longleftrightarrow> (\<forall>b. ascii (hexutil_Encode E b))"

abbreviation ascii_advance :: "Advance \<Rightarrow> bool" where
  "ascii_advance a \<equiv> ascii (adv_Payload a) \<and> ascii (md_MsgSender (adv_Metadata a))"

lemma handleAdvance_wire:
  assumes "echo_laws L" and "url_laws U endpoint" and "ascii_advance a"
  shows "same_outcome
    (wire_handleAdvance U (rollup_client L E endpoint (Some (InputBoxSequencer_FinishAndGetNext E)) waits F) a)
    (handleAdvance (direct_client E waits) a)"
proof -
  have v: "ascii_voucher \<lparr>vr_Destination = md_MsgSender (adv_Metadata a), vr_Payload = adv_Payload a, vr_Value = []\<rparr>"
    using assms(3) by (simp add: ascii_voucher_def)
  have n: "ascii (adv_Payload a @ ''ff'')" using assms(3) by (simp add: ascii_char_def)
  have r: "ascii (adv_Payload a)" using assms(3) by simp
  show ?thesis
    unfolding wire_handleAdvance_def handleAdvance_def direct_client_def
    by (simp add: call_AddVoucher [OF assms(1,2) v, THEN ext] call_AddNotice [OF assms(1,2) n, THEN ext]
        call_AddReport [OF assms(1,2) r, THEN ext] checked_call [OF assms(1)] del: append.simps)
qed

lemma handleInspect_wire:
  assumes "echo_laws L" and "url_laws U endpoint" and "ascii p"
  shows "same_outcome
    (wire_handleInspect U (rollup_client L E endpoint (Some (InputBoxSequencer_FinishAndGetNext E)) waits F) p)
    (handleInspect (direct_client E waits) p)"
  unfolding wire_handleInspect_def handleInspect_def direct_client_def
  by (simp add: call_AddReport [OF assms, THEN ext] checked_call [OF assms(1)])

lemma convertInput_ascii: "hex_ascii E \<Longrightarrow> convertInput E input = Inr q \<Longrightarrow> ascii_request q"
  by (auto simp: convertInput_def ascii_request_def hex_ascii_def Let_def split: Input.splits)

lemma finish_loop_ascii:
  assumes "hex_ascii E"
  shows "finish_loop E nxt waits k s = (Inr (RJSON c q), s') \<Longrightarrow> ascii_request q"
proof (induction k arbitrary: s)
  case (Suc k)
  then show ?case using convertInput_ascii [OF assms]
    by (auto simp: andThen_apply split: prod.splits sum.splits option.splits wait.splits)
qed simp

lemma Finish_ascii:
  assumes "hex_ascii E" and "RollupAPI_Finish E sequencer waits rq s = (Inr (RJSON c q), s')"
  shows "ascii_request q"
  using assms(2) finish_loop_ascii [OF assms(1)]
  by (auto simp: RollupAPI_Finish_def andThen_apply Let_def split: if_splits prod.splits sum.splits option.splits)

text \<open>Reading a written response.\<close>

lemma write_response_body:
  assumes "echo_laws L"
  shows "\<exists>b. wp_Body (write_response L enc r) = Inr b"
proof (cases r)
  case (Inl e)
  with echo_Error [OF assms, of e] show ?thesis by (simp add: write_response_def)
next
  case (Inr resp)
  show ?thesis
  proof (cases resp)
    case (RString c t)
    with Inr echo_String [OF assms, of c t] show ?thesis by (simp add: write_response_def)
  next
    case (RJSON c v)
    with Inr echo_JSON [OF assms, of c "json_print (enc v)"] show ?thesis by (auto simp: write_response_def)
  next
    case (RNoContent c)
    with Inr echo_NoContent [OF assms, of c] show ?thesis by (simp add: write_response_def)
  qed
qed

text \<open>Only a JSON answer of a handler is taken for one.\<close>

lemma write_response_json:
  assumes "echo_laws L" and "has_infix ''json'' (wp_ContentType (write_response L enc r))"
    and "wp_StatusCode (write_response L enc r) = ok" and "ok < 400"
  shows "\<exists>v. r = Inr (RJSON ok v)"
proof (cases r)
  case (Inl e)
  with echo_Error [OF assms(1), of e] assms(3,4) show ?thesis by (simp add: write_response_def)
next
  case (Inr resp)
  then show ?thesis
    using assms(2,3) echo_String [OF assms(1)] echo_JSON [OF assms(1)] echo_NoContent [OF assms(1)]
    by (cases resp) (auto simp: write_response_def)
qed

lemma parse_no_json:
  assumes "wp_Body rsp = Inr b" and "\<not> (has_infix ''json'' (wp_ContentType rsp) \<and> wp_StatusCode rsp = ok)"
  shows "json_response ok dec zero rsp = Inr \<lparr>ar_Body = b, ar_HTTPResponse = Some rsp, ar_JSON = None\<rparr>"
  using assms by (auto simp: json_response_def plain_response_def)

lemma parse_json:
  assumes "echo_laws L" and "writable v" and "dec v zero = Inr x"
  shows "\<exists>b. json_response c dec zero (ec_JSON L c (json_print v)) =
    Inr \<lparr>ar_Body = b, ar_HTTPResponse = Some (ec_JSON L c (json_print v)), ar_JSON = Some x\<rparr>"
proof -
  from echo_JSON [OF assms(1)] obtain w where "skip_ws w = []"
    and b: "wp_Body (ec_JSON L c (json_print v)) = Inr (json_print v @ w)" by blast
  with json_roundtrip [of v w] assms(2) have "json_parse (json_print v @ w) = Some v" by simp
  with b assms(3) echo_JSON [OF assms(1), of c "json_print v"] show ?thesis
    by (simp add: json_response_def plain_response_def json_unmarshal_def)
qed

lemma parse_finish:
  assumes "echo_laws L" and "\<And>c q. r = Inr (RJSON c q) \<Longrightarrow> ascii_request q"
  defines "rsp \<equiv> write_response L (json_of_RollupRequest \<circ> stored_request) r"
  shows "\<exists>b. ParseFinishResponse rsp = Inr \<lparr>ar_Body = b, ar_HTTPResponse = Some rsp,
    ar_JSON = (case r of Inr (RJSON c q) \<Rightarrow> if c = 200 then Some (stored_request q) else None | _ \<Rightarrow> None)\<rparr>"
proof (cases "\<exists>q. r = Inr (RJSON 200 q)")
  case True
  then obtain q where q: "r = Inr (RJSON 200 q)" ..
  with assms(2) have w: "writable (json_of_RollupRequest (stored_request q))"
    using writable_RollupRequest by simp
  show ?thesis
    using parse_json [OF assms(1) w, of into_RollupRequest _ "stored_request q" 200] q
    by (simp add: rsp_def write_response_def ParseFinishResponse_def RollupRequest_back)
next
  case False
  then have n: "\<not> (has_infix ''json'' (wp_ContentType rsp) \<and> wp_StatusCode rsp = 200)"
    using write_response_json [OF assms(1), where r = r and ok = 200] unfolding rsp_def by fastforce
  obtain b where "wp_Body rsp = Inr b"
    using write_response_body [OF assms(1)] unfolding rsp_def by blast
  moreover have "(case r of Inr (RJSON c q) \<Rightarrow> if c = 200 then Some (stored_request q) else None | _ \<Rightarrow> None) = None"
    using False by (auto split: sum.splits response.splits)
  ultimately show ?thesis by (simp add: ParseFinishResponse_def parse_no_json [OF _ n])
qed

theorem echo_round_wire:
  assumes "echo_laws L" and "url_laws U endpoint" and "hex_ascii E"
  shows "same_outcome
    (wire_echo_round U (rollup_client L E endpoint (Some (InputBoxSequencer_FinishAndGetNext E)) waits F))
    (EchoAppWorker_round (direct_client E waits))"
proof (rule same_outcomeI)
  fix s
  let ?c = "rollup_client L E endpoint (Some (InputBoxSequencer_FinishAndGetNext E)) waits F"
  let ?d = "direct_client E waits"
  let ?enc = "json_of_RollupRequest \<circ> stored_request"
  obtain r s1 where r: "RollupAPI_Finish E (Some (InputBoxSequencer_FinishAndGetNext E)) waits (json_request ''accept'') s = (r, s1)"
    by fastforce
  have asc: "ascii_request q" if "r = Inr (RJSON c q)" for c q
    using Finish_ascii [OF assms(3)] r that by blast
  obtain b where p: "ParseFinishResponse (write_response L ?enc r) = Inr \<lparr>ar_Body = b,
      ar_HTTPResponse = Some (write_response L ?enc r),
      ar_JSON = (case r of Inr (RJSON c q) \<Rightarrow> if c = 200 then Some (stored_request q) else None | _ \<Rightarrow> None)\<rparr>"
    using parse_finish [OF assms(1), of r] asc by blast
  have "ascii Accept" by (simp add: Accept_def ascii_char_def)
  from call_Finish [OF assms(1,2) this] r
  have "Client_Finish U ?c Accept [] s = (Inr (write_response L ?enc r), s1)"
    by (simp add: respond_def Accept_def)
  with p have f: "FinishWithResponse U ?c Accept [] s = (Inr \<lparr>ar_Body = b,
      ar_HTTPResponse = Some (write_response L ?enc r),
      ar_JSON = (case r of Inr (RJSON c q) \<Rightarrow> if c = 200 then Some (stored_request q) else None | _ \<Rightarrow> None)\<rparr>, s1)"
    by (simp add: FinishWithResponse_def andThen_apply)
  have d: "cl_FinishWithResponse ?d ''accept'' s = (r, s1)" using r by (simp add: direct_client_def)
  note st = write_response_status [OF assms(1), where r = r and enc = ?enc]
  show "snd (wire_echo_round U ?c s) = snd (EchoAppWorker_round ?d s) \<and>
    is_ok (fst (wire_echo_round U ?c s)) = is_ok (fst (EchoAppWorker_round ?d s))"
  proof (cases "\<exists>q. r = Inr (RJSON 200 q)")
    case False
    then show ?thesis using st
      by (cases r) (auto simp: wire_echo_round_def EchoAppWorker_round_def andThen_apply wrapErr_apply f d
          Response_StatusCode_def split: response.splits)
  next
    case True
    then obtain q where q: "r = Inr (RJSON 200 q)" ..
    show ?thesis
    proof (cases q)
      case (AdvanceState a)
      with q asc have "ascii_advance a" by (simp add: ascii_request_def)
      from handleAdvance_wire [OF assms(1,2) this, of E waits F] show ?thesis using st q AdvanceState
        by (simp add: wire_echo_round_def EchoAppWorker_round_def andThen_apply wrapErr_apply f d same_outcome_def
            Response_StatusCode_def stored_request_def AsAdvance_FromAdvance)
    next
      case (InspectState i)
      with q asc have "ascii i" by (simp add: ascii_request_def)
      from handleInspect_wire [OF assms(1,2) this, of E waits F] show ?thesis using st q InspectState
        by (simp add: wire_echo_round_def EchoAppWorker_round_def andThen_apply wrapErr_apply f d same_outcome_def
            Response_StatusCode_def stored_request_def AsInspect_FromInspect advance_state_def inspect_state_def)
    qed
  qed
qed

section \<open>The index of an output\<close>

text \<open>
  The handlers answer with 200 where the client looks for 201: the field \<open>JSON201\<close> stays empty, although
  the body holds the index.
\<close>

lemma or_respond_RJSON:
  "or_respond status msg m f s = (Inr (RJSON c v), s') \<Longrightarrow> \<exists>x s1. m s = (Inr x, s1) \<and> f x s1 = (Inr (RJSON c v), s')"
  by (auto simp: or_respond_apply split: prod.splits sum.splits if_splits)

lemma AddVoucher_status: "RollupAPI_AddVoucher E rq s = (Inr (RJSON c i), s') \<Longrightarrow> c = 200"
  by (auto simp: RollupAPI_AddVoucher_def andThen_apply split: if_splits sum.splits dest!: or_respond_RJSON)

lemma AddNotice_status: "RollupAPI_AddNotice E rq s = (Inr (RJSON c i), s') \<Longrightarrow> c = 200"
  by (auto simp: RollupAPI_AddNotice_def andThen_apply split: if_splits sum.splits dest!: or_respond_RJSON)

lemma parse_201:
  assumes "echo_laws L" and "\<And>i. r \<noteq> Inr (RJSON 201 i)"
  shows "\<exists>b. json_response 201 dec zero (write_response L json_of_IndexResponse r) = Inr \<lparr>ar_Body = b,
      ar_HTTPResponse = Some (write_response L json_of_IndexResponse r), ar_JSON = None\<rparr> \<and>
    (\<forall>i. r = Inr (RJSON 200 i) \<longrightarrow> json_parse b = Some (json_of_IndexResponse i) \<and>
      wp_StatusCode (write_response L json_of_IndexResponse r) = 200)"
proof -
  let ?rsp = "write_response L json_of_IndexResponse r"
  have n: "\<not> (has_infix ''json'' (wp_ContentType ?rsp) \<and> wp_StatusCode ?rsp = 201)"
    using write_response_json [OF assms(1), where r = r and ok = 201 and enc = json_of_IndexResponse] assms(2) by auto
  obtain b where b: "wp_Body ?rsp = Inr b" using write_response_body [OF assms(1)] by blast
  have "json_parse b = Some (json_of_IndexResponse i) \<and> wp_StatusCode ?rsp = 200" if r: "r = Inr (RJSON 200 i)" for i
  proof -
    have e: "?rsp = ec_JSON L 200 (json_print (json_of_IndexResponse i))" using r by (simp add: write_response_def)
    let ?t = "json_print (json_of_IndexResponse i)"
    from echo_JSON [OF assms(1), of 200 ?t] b e obtain w where "skip_ws w = []" "b = ?t @ w" by auto
    with json_roundtrip [of "json_of_IndexResponse i" w] writable_IndexResponse [of i]
      echo_JSON [OF assms(1), of 200 ?t] e show ?thesis by simp
  qed
  then show ?thesis by (intro exI [of _ b]) (simp add: parse_no_json [OF b n])
qed

lemma AddVoucherWithResponse_index:
  assumes "echo_laws L" and "url_laws U endpoint" and "ascii_voucher v"
    and "RollupAPI_AddVoucher E (json_request v) s = (r, s')"
  shows "\<exists>resp. AddVoucherWithResponse U (rollup_client L E endpoint sequencer waits F) v [] s = (Inr resp, s') \<and>
    ar_JSON resp = None \<and>
    (\<forall>i. r = Inr (RJSON 200 i) \<longrightarrow> Response_StatusCode resp = 200 \<and> json_parse (ar_Body resp) = Some (json_of_IndexResponse i))"
proof -
  have n: "\<And>i. r \<noteq> Inr (RJSON 201 i)" using AddVoucher_status [of E "json_request v" s] assms(4) by fastforce
  from parse_201 [OF assms(1) n, where dec = into_IndexResponse and zero = 0] show ?thesis
    by (auto simp: AddVoucherWithResponse_def andThen_apply call_AddVoucher [OF assms(1-3)] respond_def assms(4)
        ParseAddVoucherResponse_def Response_StatusCode_def)
qed

lemma AddNoticeWithResponse_index:
  assumes "echo_laws L" and "url_laws U endpoint" and "ascii p"
    and "RollupAPI_AddNotice E (json_request p) s = (r, s')"
  shows "\<exists>resp. AddNoticeWithResponse U (rollup_client L E endpoint sequencer waits F) p [] s = (Inr resp, s') \<and>
    ar_JSON resp = None \<and>
    (\<forall>i. r = Inr (RJSON 200 i) \<longrightarrow> Response_StatusCode resp = 200 \<and> json_parse (ar_Body resp) = Some (json_of_IndexResponse i))"
proof -
  have n: "\<And>i. r \<noteq> Inr (RJSON 201 i)" using AddNotice_status [of E "json_request p" s] assms(4) by fastforce
  from parse_201 [OF assms(1) n, where dec = into_IndexResponse and zero = 0] show ?thesis
    by (auto simp: AddNoticeWithResponse_def andThen_apply call_AddNotice [OF assms(1-3)] respond_def assms(4)
        ParseAddNoticeResponse_def Response_StatusCode_def)
qed

text \<open>The answer of a gio request reaches the client whole.\<close>

lemma GioWithResponse_answer:
  assumes "echo_laws L" and "url_laws U endpoint" and "ascii (gio_Id q)" and "ascii (gio_Data g)"
    and "RollupAPI_Gio F (json_request q) = Inr (RJSON 200 g)"
  shows "\<exists>resp. GioWithResponse U (rollup_client L E endpoint sequencer waits F) q [] s = (Inr resp, s) \<and>
    Response_StatusCode resp = 200 \<and> ar_JSON resp = Some g"
proof -
  have w: "writable (json_of_GioResponseRollup g)" using assms(4) by (rule writable_GioResponseRollup)
  have d: "into_GioResponseRollup (json_of_GioResponseRollup g) \<lparr>gio_Code = 0, gio_Data = []\<rparr> = Inr g"
    by (rule GioResponseRollup_back)
  from parse_json [where dec = into_GioResponseRollup, OF assms(1) w d, of 200] show ?thesis
    using echo_JSON [OF assms(1), of 200 "json_print (json_of_GioResponseRollup g)"]
    by (auto simp: GioWithResponse_def andThen_apply call_Gio [OF assms(1-3)] respond_def assms(5)
        write_response_def ParseGioResponse_def Response_StatusCode_def)
qed

end
