(* ===== verification/InspectHttp.thy ===== *)
theory InspectHttp
  imports HttpLaws
begin

text \<open>
  \<open>internal/inspect/generated.go\<close>: the JSON of an inspect result, the requests and responses of the
  generated client, and the registration of the two handlers. The client itself is the one of the
  rollup API, generated from the same template. Styling and binding the path parameter is the OpenAPI
  runtime and an argument.
\<close>

section \<open>The JSON of a result\<close>

text \<open>A list without reports is a nil slice, which is written as null.\<close>

definition json_of_reports :: "string list \<Rightarrow> json" where
  "json_of_reports rs = (if rs = [] then JNull else JArr (map json_of_payload rs))"

definition into_int :: "(int \<Rightarrow> 'r \<Rightarrow> 'r) \<Rightarrow> 'r setter" where
  "into_int upd v r = (case v of
       JNum n \<Rightarrow> (case Atoi n of Inr i \<Rightarrow> Inr (upd i r) | Inl _ \<Rightarrow> type_error)
     | JNull \<Rightarrow> Inr r
     | _ \<Rightarrow> type_error)"

definition json_of_InspectResult :: "InspectResult \<Rightarrow> json" where
  "json_of_InspectResult r = JObj
     [(''exception_payload'', JStr (ir_ExceptionPayload r)),
      (''processed_input_count'', JNum (itoa (ir_ProcessedInputCount r))),
      (''reports'', json_of_reports (ir_Reports r)), (''status'', JStr (ir_Status r))]"

definition into_InspectResult :: "InspectResult setter" where
  "into_InspectResult = decode_struct
     [(''exception_payload'', into_string (\<lambda>s r. r\<lparr>ir_ExceptionPayload := s\<rparr>)),
      (''processed_input_count'', into_int (\<lambda>i r. r\<lparr>ir_ProcessedInputCount := i\<rparr>)),
      (''reports'', into_list into_payload [] (\<lambda>rs r. r\<lparr>ir_Reports := rs\<rparr>)),
      (''status'', into_string (\<lambda>s r. r\<lparr>ir_Status := s\<rparr>))]"

definition zero_InspectResult :: InspectResult where
  "zero_InspectResult = \<lparr>ir_Status = [], ir_Reports = [], ir_ExceptionPayload = [], ir_ProcessedInputCount = 0\<rparr>"

section \<open>The client\<close>

definition NewInspectPostRequestWithBody ::
  "(string \<Rightarrow> string \<Rightarrow> string res) \<Rightarrow> string \<Rightarrow> string \<Rightarrow> string \<Rightarrow> wire_request res" where
  "NewInspectPostRequestWithBody url_resolve server contentType body =
     operation_request url_resolve ''POST'' ''inspect'' server contentType body"

definition NewInspectRequest ::
  "(string \<Rightarrow> string res) \<Rightarrow> (string \<Rightarrow> string \<Rightarrow> string res) \<Rightarrow> string \<Rightarrow> string \<Rightarrow> wire_request res" where
  "NewInspectRequest StyleParam url_resolve server payload =
     rbind (StyleParam payload) (\<lambda>pathParam0.
     operation_request url_resolve ''GET'' (''inspect/'' @ pathParam0) server [] [])"

definition Client_InspectPostWithBody ::
  "(string \<Rightarrow> string \<Rightarrow> string res) \<Rightarrow> 's Client \<Rightarrow> string \<Rightarrow> string \<Rightarrow> (wire_request \<Rightarrow> wire_request res) list \<Rightarrow>
   ('s, wire_response) comp" where
  "Client_InspectPostWithBody url_resolve c contentType body reqEditors =
     send_request c (NewInspectPostRequestWithBody url_resolve (hc_Server c) contentType body) reqEditors"

definition Client_Inspect ::
  "(string \<Rightarrow> string res) \<Rightarrow> (string \<Rightarrow> string \<Rightarrow> string res) \<Rightarrow> 's Client \<Rightarrow> string \<Rightarrow>
   (wire_request \<Rightarrow> wire_request res) list \<Rightarrow> ('s, wire_response) comp" where
  "Client_Inspect StyleParam url_resolve c payload reqEditors =
     send_request c (NewInspectRequest StyleParam url_resolve (hc_Server c) payload) reqEditors"

definition ParseInspectPostResponse :: "wire_response \<Rightarrow> InspectResult api_response res" where
  "ParseInspectPostResponse rsp = json_response 200 into_InspectResult zero_InspectResult rsp"

definition ParseInspectResponse :: "wire_response \<Rightarrow> InspectResult api_response res" where
  "ParseInspectResponse rsp = json_response 200 into_InspectResult zero_InspectResult rsp"

definition InspectPostWithBodyWithResponse ::
  "(string \<Rightarrow> string \<Rightarrow> string res) \<Rightarrow> 's Client \<Rightarrow> string \<Rightarrow> string \<Rightarrow> (wire_request \<Rightarrow> wire_request res) list \<Rightarrow>
   ('s, InspectResult api_response) comp" where
  "InspectPostWithBodyWithResponse url_resolve c contentType body reqEditors =
     andThen (Client_InspectPostWithBody url_resolve c contentType body reqEditors)
       (\<lambda>rsp. lift_res (ParseInspectPostResponse rsp))"

definition InspectWithResponse ::
  "(string \<Rightarrow> string res) \<Rightarrow> (string \<Rightarrow> string \<Rightarrow> string res) \<Rightarrow> 's Client \<Rightarrow> string \<Rightarrow>
   (wire_request \<Rightarrow> wire_request res) list \<Rightarrow> ('s, InspectResult api_response) comp" where
  "InspectWithResponse StyleParam url_resolve c payload reqEditors =
     andThen (Client_Inspect StyleParam url_resolve c payload reqEditors)
       (\<lambda>rsp. lift_res (ParseInspectResponse rsp))"

section \<open>The server\<close>

text \<open>
  The handlers may still be waiting when what happens in the meantime is used up; then there is no
  response. \<open>Inspect\<close> binds the path parameter, which the handler ignores.
\<close>

type_synonym inspect_handler = "wire_request \<Rightarrow> NonodoModel \<Rightarrow> (wire_response \<times> NonodoModel) option"

definition inspect_respond ::
  "echo_lib \<Rightarrow> (InspectResult response res \<times> NonodoModel) option \<Rightarrow> (wire_response \<times> NonodoModel) option" where
  "inspect_respond L = map_option (\<lambda>(r, s'). (write_response L json_of_InspectResult r, s'))"

definition Wrapper_InspectPost :: "echo_lib \<Rightarrow> ethlib \<Rightarrow> wait list \<Rightarrow> inspect_handler" where
  "Wrapper_InspectPost L E waits ctx s =
     inspect_respond L (InspectPost E (Inr (bytes_of_string (wq_Body ctx))) waits s)"

definition Wrapper_Inspect ::
  "(string \<Rightarrow> string res) \<Rightarrow> (string \<Rightarrow> string res) \<Rightarrow> echo_lib \<Rightarrow> ethlib \<Rightarrow> wait list \<Rightarrow> inspect_handler" where
  "Wrapper_Inspect BindParam QueryUnescape L E waits ctx s = (case BindParam (wq_URL ctx) of
       Inl err \<Rightarrow> Some (ec_Error L (EWrap ''Invalid format for parameter payload'' err), s)
     | Inr _ \<Rightarrow> inspect_respond L (InspectGet E QueryUnescape (wq_URL ctx) waits s))"

definition inspect_RegisterHandlersWithBaseURL ::
  "((string \<times> string) \<times> inspect_handler) list \<Rightarrow> inspect_handler \<Rightarrow> inspect_handler \<Rightarrow> string \<Rightarrow>
   ((string \<times> string) \<times> inspect_handler) list" where
  "inspect_RegisterHandlersWithBaseURL router post get baseURL = router @
     [((''POST'', baseURL @ ''inspect''), post), ((''GET'', baseURL @ ''inspect/:payload''), get)]"

definition inspect_Register ::
  "(string \<Rightarrow> string res) \<Rightarrow> (string \<Rightarrow> string res) \<Rightarrow> echo_lib \<Rightarrow> ethlib \<Rightarrow> wait list \<Rightarrow>
   ((string \<times> string) \<times> inspect_handler) list \<Rightarrow> ((string \<times> string) \<times> inspect_handler) list" where
  "inspect_Register BindParam QueryUnescape L E waits e =
     inspect_RegisterHandlersWithBaseURL e (Wrapper_InspectPost L E waits)
       (Wrapper_Inspect BindParam QueryUnescape L E waits) []"

section \<open>Facts\<close>

lemma inspect_names:
  "foldName ''exception_payload'' = ''EXCEPTION_PAYLOAD''"
  "foldName ''processed_input_count'' = ''PROCESSED_INPUT_COUNT''" "foldName ''reports'' = ''REPORTS''"
  by (simp_all add: fold_name_simps)

definition ascii_result :: "InspectResult \<Rightarrow> bool" where
  "ascii_result r \<longleftrightarrow> ascii (ir_Status r) \<and> ascii (ir_ExceptionPayload r) \<and> list_all ascii (ir_Reports r) \<and>
     0 \<le> ir_ProcessedInputCount r \<and> ir_ProcessedInputCount r < 2 ^ 63"

lemma reports_back: "into_list into_payload [] upd (json_of_reports rs) r = Inr (upd rs r)"
proof -
  have "rmap (\<lambda>v. into_payload v []) (map json_of_payload rs) = Inr rs"
    by (induction rs) (simp_all add: payload_back)
  then show ?thesis by (simp add: into_list_def json_of_reports_def)
qed

lemma InspectResult_back:
  assumes "ascii_result r"
  shows "into_InspectResult (json_of_InspectResult r) z = Inr r"
proof -
  have "Atoi (itoa (ir_ProcessedInputCount r)) = Inr (ir_ProcessedInputCount r)"
    using assms by (intro Atoi_itoa) (simp_all add: ascii_result_def)
  then show ?thesis
    by (simp add: into_InspectResult_def json_of_InspectResult_def decode_simps inspect_names into_int_def reports_back)
qed

lemma writable_InspectResult:
  assumes "ascii_result r"
  shows "writable (json_of_InspectResult r)"
proof -
  have "json_plain (json_of_payload p)" if "p \<in> set (ir_Reports r)" for p
    using assms that by (simp add: ascii_result_def list_all_iff writable_payload)
  moreover have "foldr max (map json_depth (map json_of_payload rs)) 0 \<le> 1" for rs :: "string list"
    by (induction rs) (simp_all add: json_of_payload_def)
  ultimately show ?thesis using assms
    by (auto simp: json_of_InspectResult_def json_of_reports_def ascii_result_def ascii_char_def itoa_def
        maxNestingDepth_def intro: le_trans [of _ 1])
qed

text \<open>The client reads the result that the handler wrote.\<close>

theorem inspect_result_read:
  assumes "echo_laws L" and "ascii_result res"
    and "InspectPost E (Inr (bytes_of_string body)) waits s = Some (Inr (RJSON 200 res), s')"
    and "Wrapper_InspectPost L E waits \<lparr>wq_Method = ''POST'', wq_URL = u, wq_ContentType = ct, wq_Body = body\<rparr> s =
      Some (rsp, s'')"
  shows "s'' = s' \<and> (\<exists>resp. ParseInspectPostResponse rsp = Inr resp \<and> Response_StatusCode resp = 200 \<and>
    ar_JSON resp = Some res)"
proof -
  have rsp: "rsp = ec_JSON L 200 (json_print (json_of_InspectResult res))" "s'' = s'"
    using assms(3,4) by (auto simp: Wrapper_InspectPost_def inspect_respond_def write_response_def)
  have d: "into_InspectResult (json_of_InspectResult res) zero_InspectResult = Inr res"
    using assms(2) by (rule InspectResult_back)
  from parse_json [where dec = into_InspectResult, OF assms(1) writable_InspectResult [OF assms(2)] d, of 200]
    echo_JSON [OF assms(1), of 200] rsp show ?thesis
    by (auto simp: ParseInspectPostResponse_def Response_StatusCode_def)
qed

end
