(* ===== verification/FetchHttp.thy ===== *)
theory FetchHttp
  imports VoucherSync Reader InspectHttp
begin

text \<open>
  The requests that the program itself sends to the remote GraphQL node and what it reads in the answers:
  the client of \<open>internal/graphile/graphileclient_impl.go\<close>, the JSON of \<open>graphile_fetcher.go\<close>, of
  \<open>voucher_fetcher.go\<close> and of the two remote queries of \<open>adapter_v2.go\<close>. They instantiate the endpoints that
  \<open>GraphileSync\<close>, \<open>VoucherSync\<close> and \<open>Reader\<close> take as arguments. None of them looks at the status of the answer
  or at its member \<open>errors\<close>.
\<close>

section \<open>The client\<close>

text \<open>The transport answers a request or fails; the text of the URL is part of the client.\<close>

type_synonym http_do = "wire_request \<Rightarrow> wire_response res"

record GraphileClientImpl =
  gc_GraphileUrl :: string

definition GraphileClientImpl_Post :: "http_do \<Rightarrow> GraphileClientImpl \<Rightarrow> string \<Rightarrow> string res" where
  "GraphileClientImpl_Post Do c requestBody =
     rbind (Do \<lparr>wq_Method = ''POST'', wq_URL = gc_GraphileUrl c, wq_ContentType = ''application/json'',
       wq_Body = requestBody\<rparr>) (\<lambda>resp.
     rbind (wp_Body resp) (\<lambda>responseBody. Inr responseBody))"

section \<open>Types of JSON fields\<close>

definition into_bool :: "(bool \<Rightarrow> 'r \<Rightarrow> 'r) \<Rightarrow> 'r setter" where
  "into_bool upd v r = (case v of JBool b \<Rightarrow> Inr (upd b r) | JNull \<Rightarrow> Inr r | _ \<Rightarrow> type_error)"

text \<open>A pointer: null makes it nil, another value is decoded into its target, a new one if it is nil.\<close>

definition into_pointer :: "'x setter \<Rightarrow> 'x \<Rightarrow> 'x option setter" where
  "into_pointer d zero v r = (case v of JNull \<Rightarrow> Inr None | _ \<Rightarrow> rbind (d v (case r of Some y \<Rightarrow> y | None \<Rightarrow> zero)) (\<lambda>x. Inr (Some x)))"

definition into_plain_string :: "string setter" where
  "into_plain_string = into_string (\<lambda>s _. s)"

definition into_PageInfo :: "SyncPageInfo setter" where
  "into_PageInfo = decode_struct
     [(''startCursor'', into_string (\<lambda>s p. p\<lparr>pi_StartCursor := s\<rparr>)),
      (''endCursor'', into_string (\<lambda>s p. p\<lparr>pi_EndCursor := s\<rparr>)),
      (''hasNextPage'', into_bool (\<lambda>b p. p\<lparr>pi_HasNextPage := b\<rparr>)),
      (''hasPreviousPage'', into_bool (\<lambda>b p. p\<lparr>pi_HasPreviousPage := b\<rparr>))]"

definition zero_PageInfo :: SyncPageInfo where
  "zero_PageInfo = \<lparr>pi_StartCursor = [], pi_EndCursor = [], pi_HasNextPage = False, pi_HasPreviousPage = False\<rparr>"

section \<open>The fetcher of the Graphile synchronizer\<close>

text \<open>
  The nested struct of an edge is flat in the model, so that its node is decoded into the edge.
\<close>

definition into_OutputEdge :: "OutputEdge setter" where
  "into_OutputEdge = decode_struct
     [(''cursor'', into_string (\<lambda>s e. e\<lparr>oe_Cursor := s\<rparr>)),
      (''node'', decode_struct
        [(''index'', into_int (\<lambda>i e. e\<lparr>oe_Index := i\<rparr>)), (''blob'', into_string (\<lambda>s e. e\<lparr>oe_Blob := s\<rparr>)),
         (''inputIndex'', into_int (\<lambda>i e. e\<lparr>oe_InputIndex := i\<rparr>))])]"

definition into_InputEdge :: "InputEdge setter" where
  "into_InputEdge = decode_struct
     [(''cursor'', into_string (\<lambda>s e. e\<lparr>ie_Cursor := s\<rparr>)),
      (''node'', decode_struct
        [(''index'', into_int (\<lambda>i e. e\<lparr>ie_Index := i\<rparr>)), (''blob'', into_string (\<lambda>s e. e\<lparr>ie_Blob := s\<rparr>))])]"

definition into_ReportEdge :: "ReportEdge setter" where
  "into_ReportEdge = decode_struct
     [(''node'', decode_struct
        [(''index'', into_int (\<lambda>i e. e\<lparr>re_Index := i\<rparr>)), (''inputIndex'', into_int (\<lambda>i e. e\<lparr>re_InputIndex := i\<rparr>)),
         (''blob'', into_string (\<lambda>s e. e\<lparr>re_Blob := s\<rparr>))])]"

definition zero_OutputEdge :: OutputEdge where
  "zero_OutputEdge = \<lparr>oe_Cursor = [], oe_Index = 0, oe_Blob = [], oe_InputIndex = 0\<rparr>"

definition zero_InputEdge :: InputEdge where
  "zero_InputEdge = \<lparr>ie_Cursor = [], ie_Index = 0, ie_Blob = []\<rparr>"

definition zero_ReportEdge :: ReportEdge where
  "zero_ReportEdge = \<lparr>re_Index = 0, re_InputIndex = 0, re_Blob = []\<rparr>"

definition into_Outputs :: "OutputResponse setter" where
  "into_Outputs = decode_struct
     [(''PageInfo'', into_struct into_PageInfo or_OutputsPageInfo (\<lambda>p r. r\<lparr>or_OutputsPageInfo := p\<rparr>)),
      (''edges'', into_list into_OutputEdge zero_OutputEdge (\<lambda>es r. r\<lparr>or_OutputsEdges := es\<rparr>))]"

definition into_Inputs :: "OutputResponse setter" where
  "into_Inputs = decode_struct
     [(''PageInfo'', into_struct into_PageInfo or_InputsPageInfo (\<lambda>p r. r\<lparr>or_InputsPageInfo := p\<rparr>)),
      (''edges'', into_list into_InputEdge zero_InputEdge (\<lambda>es r. r\<lparr>or_InputsEdges := es\<rparr>))]"

definition into_Reports :: "OutputResponse setter" where
  "into_Reports = decode_struct
     [(''Edges'', into_list into_ReportEdge zero_ReportEdge (\<lambda>es r. r\<lparr>or_ReportsEdges := es\<rparr>)),
      (''PageInfo'', into_struct into_PageInfo or_ReportsPageInfo (\<lambda>p r. r\<lparr>or_ReportsPageInfo := p\<rparr>))]"

definition into_OutputResponse :: "OutputResponse setter" where
  "into_OutputResponse = decode_struct
     [(''data'', decode_struct [(''outputs'', into_Outputs), (''inputs'', into_Inputs), (''Reports'', into_Reports)])]"

definition zero_OutputResponse :: OutputResponse where
  "zero_OutputResponse = \<lparr>or_OutputsPageInfo = zero_PageInfo, or_OutputsEdges = [], or_InputsPageInfo = zero_PageInfo,
     or_InputsEdges = [], or_ReportsEdges = [], or_ReportsPageInfo = zero_PageInfo\<rparr>"

definition query_payload :: "string \<Rightarrow> json" where
  "query_payload query = JObj [(''query'', JStr query)]"

text \<open>\<open>GraphileFetcher.Fetch\<close> on a client is the fetch against this endpoint.\<close>

definition graphile_endpoint :: "(string \<Rightarrow> string res) \<Rightarrow> endpoint" where
  "graphile_endpoint Post query =
     rbind (Post (json_print (query_payload query))) (\<lambda>body.
     json_unmarshal into_OutputResponse body zero_OutputResponse)"

section \<open>The fetcher of the older synchronizer\<close>

definition into_OutputValidityProof :: "OutputValidityProof setter" where
  "into_OutputValidityProof = decode_struct
     [(''inputIndexWithinEpoch'', into_int (\<lambda>i p. p\<lparr>ov_InputIndexWithinEpoch := i\<rparr>)),
      (''outputIndexWithinInput'', into_int (\<lambda>i p. p\<lparr>ov_OutputIndexWithinInput := i\<rparr>)),
      (''outputHashesRootHash'', into_string (\<lambda>s p. p\<lparr>ov_OutputHashesRootHash := s\<rparr>)),
      (''vouchersEpochRootHash'', into_string (\<lambda>s p. p\<lparr>ov_VouchersEpochRootHash := s\<rparr>)),
      (''noticesEpochRootHash'', into_string (\<lambda>s p. p\<lparr>ov_NoticesEpochRootHash := s\<rparr>)),
      (''machineStateHash'', into_string (\<lambda>s p. p\<lparr>ov_MachineStateHash := s\<rparr>)),
      (''outputHashInOutputHashesSiblings'', into_list into_plain_string []
        (\<lambda>xs p. p\<lparr>ov_OutputHashInOutputHashesSiblings := xs\<rparr>)),
      (''outputHashesInEpochSiblings'', into_list into_plain_string []
        (\<lambda>xs p. p\<lparr>ov_OutputHashesInEpochSiblings := xs\<rparr>))]"

definition into_VoucherProof :: "VoucherProof setter" where
  "into_VoucherProof = decode_struct
     [(''validity'', into_struct into_OutputValidityProof vp_Validity (\<lambda>v p. p\<lparr>vp_Validity := v\<rparr>)),
      (''context'', into_string (\<lambda>s p. p\<lparr>vp_Context := s\<rparr>))]"

definition into_InputRef :: "InputRef setter" where
  "into_InputRef = decode_struct [(''index'', into_int (\<lambda>i r. r\<lparr>ir_Index := i\<rparr>))]"

definition into_FetchedVoucher :: "FetchedVoucher setter" where
  "into_FetchedVoucher = decode_struct
     [(''index'', into_int (\<lambda>i v. v\<lparr>fv_Index := i\<rparr>)),
      (''destination'', into_string (\<lambda>s v. v\<lparr>fv_Destination := s\<rparr>)),
      (''payload'', into_string (\<lambda>s v. v\<lparr>fv_Payload := s\<rparr>)),
      (''proof'', into_struct into_VoucherProof fv_Proof (\<lambda>p v. v\<lparr>fv_Proof := p\<rparr>)),
      (''input'', into_struct into_InputRef fv_Input (\<lambda>i v. v\<lparr>fv_Input := i\<rparr>))]"

definition zero_FetchedVoucher :: FetchedVoucher where
  "zero_FetchedVoucher = \<lparr>fv_Index = 0, fv_Destination = [], fv_Payload = [],
     fv_Proof = \<lparr>vp_Validity = \<lparr>ov_InputIndexWithinEpoch = 0, ov_OutputIndexWithinInput = 0, ov_OutputHashesRootHash = [],
       ov_VouchersEpochRootHash = [], ov_NoticesEpochRootHash = [], ov_MachineStateHash = [],
       ov_OutputHashInOutputHashesSiblings = [], ov_OutputHashesInEpochSiblings = []\<rparr>, vp_Context = []\<rparr>,
     fv_Input = \<lparr>ir_Index = 0\<rparr>\<rparr>"

definition into_VoucherEdge :: "VoucherEdge setter" where
  "into_VoucherEdge = decode_struct
     [(''node'', into_struct into_FetchedVoucher ve_Node (\<lambda>n e. e\<lparr>ve_Node := n\<rparr>)),
      (''cursor'', into_string (\<lambda>s e. e\<lparr>ve_Cursor := s\<rparr>))]"

definition into_FetchedConnection :: "FetchedConnection setter" where
  "into_FetchedConnection = decode_struct
     [(''totalCount'', into_int (\<lambda>i c. c\<lparr>fc_TotalCount := i\<rparr>)),
      (''edges'', into_list into_VoucherEdge \<lparr>ve_Node = zero_FetchedVoucher, ve_Cursor = []\<rparr> (\<lambda>es c. c\<lparr>fc_Edges := es\<rparr>)),
      (''pageInfo'', into_struct into_PageInfo fc_PageInfo (\<lambda>p c. c\<lparr>fc_PageInfo := p\<rparr>))]"

definition into_VoucherData :: "VoucherData setter" where
  "into_VoucherData = decode_struct
     [(''vouchers'', into_struct into_FetchedConnection vd_Vouchers (\<lambda>v d. d\<lparr>vd_Vouchers := v\<rparr>))]"

definition into_VoucherResponse :: "VoucherResponse setter" where
  "into_VoucherResponse = decode_struct
     [(''data'', into_struct into_VoucherData vr_Data (\<lambda>d r. r\<lparr>vr_Data := d\<rparr>))]"

definition zero_VoucherResponse :: VoucherResponse where
  "zero_VoucherResponse = \<lparr>vr_Data = \<lparr>vd_Vouchers = \<lparr>fc_TotalCount = 0, fc_Edges = [], fc_PageInfo = zero_PageInfo\<rparr>\<rparr>\<rparr>"

text \<open>The keys of a map are written in their order; \<open>itoa\<close> of a batch size that is not negative.\<close>

definition voucher_variables :: "FetchRequest \<Rightarrow> json" where
  "voucher_variables r = JObj ((case fr_after r of Some c \<Rightarrow> [(''after'', JStr c)] | None \<Rightarrow> []) @
     [(''batchSize'', JNum (itoa (fr_batchSize r)))])"

definition voucher_payload :: "FetchRequest \<Rightarrow> json" where
  "voucher_payload r = JObj [(''operationName'', JNull), (''query'', JStr (fr_query r)), (''variables'', voucher_variables r)]"

definition voucher_http_endpoint :: "http_do \<Rightarrow> voucher_endpoint" where
  "voucher_http_endpoint Do url r =
     rbind (Do \<lparr>wq_Method = ''POST'', wq_URL = url, wq_ContentType = ''application/json'',
       wq_Body = json_print (voucher_payload r)\<rparr>) (\<lambda>resp.
     rbind (wp_Body resp) (\<lambda>body.
     json_unmarshal into_VoucherResponse body zero_VoucherResponse))"

section \<open>The remote queries of the second adapter\<close>

definition into_report_node :: "report_node setter" where
  "into_report_node = decode_struct
     [(''node'', decode_struct
        [(''index'', into_int (\<lambda>i n. n\<lparr>rn_Index := i\<rparr>)), (''blob'', into_string (\<lambda>s n. n\<lparr>rn_Blob := s\<rparr>)),
         (''inputIndex'', into_int (\<lambda>i n. n\<lparr>rn_InputIndex := i\<rparr>))])]"

definition into_ReportByIdResponse :: "report_node list setter" where
  "into_ReportByIdResponse = decode_struct [(''data'', decode_struct [(''reports'', decode_struct
     [(''edges'', into_list into_report_node \<lparr>rn_Index = 0, rn_Blob = [], rn_InputIndex = 0\<rparr> (\<lambda>es _. es))])])]"

definition into_gql_Input :: "gql_Input setter" where
  "into_gql_Input = decode_struct
     [(''index'', into_int (\<lambda>i x. x\<lparr>gi_Index := i\<rparr>)), (''status'', into_string (\<lambda>s x. x\<lparr>gi_Status := s\<rparr>)),
      (''msgSender'', into_string (\<lambda>s x. x\<lparr>gi_MsgSender := s\<rparr>)),
      (''timestamp'', into_string (\<lambda>s x. x\<lparr>gi_Timestamp := s\<rparr>)),
      (''blockNumber'', into_string (\<lambda>s x. x\<lparr>gi_BlockNumber := s\<rparr>)),
      (''payload'', into_string (\<lambda>s x. x\<lparr>gi_Payload := s\<rparr>))]"

definition zero_gql_Input :: gql_Input where
  "zero_gql_Input = \<lparr>gi_Index = 0, gi_Status = [], gi_MsgSender = [], gi_Timestamp = [], gi_BlockNumber = [], gi_Payload = []\<rparr>"

definition into_gql_Proof :: "gql_Proof setter" where
  "into_gql_Proof = decode_struct
     [(''firstIndex'', into_int (\<lambda>i p. p\<lparr>pf_FirstIndex := i\<rparr>)),
      (''inputByInputIndex'', into_struct (into_pointer into_gql_Input zero_gql_Input) pf_InputByInputIndex
        (\<lambda>x p. p\<lparr>pf_InputByInputIndex := x\<rparr>)),
      (''inputIndex'', into_int (\<lambda>i p. p\<lparr>pf_InputIndex := i\<rparr>)),
      (''lastInput'', into_int (\<lambda>i p. p\<lparr>pf_LastInput := i\<rparr>)),
      (''nodeId'', into_string (\<lambda>s p. p\<lparr>pf_NodeID := s\<rparr>)),
      (''outputIndex'', into_int (\<lambda>i p. p\<lparr>pf_OutputIndex := i\<rparr>)),
      (''validityInputIndexWithinEpoch'', into_int (\<lambda>i p. p\<lparr>pf_ValidityInputIndexWithinEpoch := i\<rparr>)),
      (''validityMachineStateHash'', into_string (\<lambda>s p. p\<lparr>pf_ValidityMachineStateHash := s\<rparr>)),
      (''validityOutputEpochRootHash'', into_string (\<lambda>s p. p\<lparr>pf_ValidityOutputEpochRootHash := s\<rparr>)),
      (''validityOutputHashInOutputHashesSiblings'', into_list (into_pointer into_plain_string []) None
        (\<lambda>xs p. p\<lparr>pf_ValidityOutputHashInOutputHashesSiblings := xs\<rparr>)),
      (''validityOutputHashesInEpochSiblings'', into_list (into_pointer into_plain_string []) None
        (\<lambda>xs p. p\<lparr>pf_ValidityOutputHashesInEpochSiblings := xs\<rparr>)),
      (''validityOutputHashesRootHash'', into_string (\<lambda>s p. p\<lparr>pf_ValidityOutputHashesRootHash := s\<rparr>)),
      (''validityOutputIndexWithinInput'', into_int (\<lambda>i p. p\<lparr>pf_ValidityOutputIndexWithinInput := i\<rparr>))]"

definition zero_gql_Proof :: gql_Proof where
  "zero_gql_Proof = \<lparr>pf_FirstIndex = 0, pf_InputByInputIndex = None, pf_InputIndex = 0, pf_LastInput = 0, pf_NodeID = [],
     pf_OutputIndex = 0, pf_ValidityInputIndexWithinEpoch = 0, pf_ValidityMachineStateHash = [],
     pf_ValidityOutputEpochRootHash = [], pf_ValidityOutputHashInOutputHashesSiblings = [],
     pf_ValidityOutputHashesInEpochSiblings = [], pf_ValidityOutputHashesRootHash = [], pf_ValidityOutputIndexWithinInput = 0\<rparr>"

definition into_ProofByIndexes :: "gql_Proof setter" where
  "into_ProofByIndexes = decode_struct [(''Data'', decode_struct [(''Proof'', into_gql_Proof)])]"

definition proof_payload :: "string \<Rightarrow> int \<Rightarrow> int \<Rightarrow> json" where
  "proof_payload query inputIndex outputIndex = JObj [(''operationName'', JNull), (''query'', JStr query),
     (''variables'', JObj [(''inputIndex'', JNum (itoa inputIndex)), (''outputIndex'', JNum (itoa outputIndex))])]"

definition graphile_client :: "(string \<Rightarrow> string res) \<Rightarrow> graphile" where
  "graphile_client Post = \<lparr>
     gc_reports = (\<lambda>requestBody. rbind (Post requestBody) (\<lambda>response. json_unmarshal into_ReportByIdResponse response [])),
     gc_proof = (\<lambda>query inputIndex outputIndex.
       rbind (Post (json_print (proof_payload query inputIndex outputIndex))) (\<lambda>response.
       json_unmarshal into_ProofByIndexes response zero_gql_Proof))\<rparr>"

end
