(* ===== verification/FetchLaws.thy ===== *)
theory FetchLaws
  imports FetchHttp
begin

text \<open>
  Facts about the fetchers on the wire: the remote node receives the query text, what it answers in
  JSON is what the fetcher returns, and an answer without data is an empty batch.
\<close>

section \<open>The query reaches the node\<close>

lemma ascii_Sprintf: "ascii f \<Longrightarrow> list_all ascii as \<Longrightarrow> ascii (Sprintf f as)"
proof (induction f as rule: Sprintf.induct)
  case (3 c v cs as)
  then show ?case by (auto simp: ascii_char_def split: list.splits)
qed simp_all

lemma ascii_itoa: "ascii (itoa i)"
proof -
  have "ascii_char c" if "c \<in> set (nat_to_dec n)" for c n
  proof -
    from that set_nat_to_dec [of n] have "c \<in> set ''0123456789''" by blast
    then show ?thesis by (auto simp: ascii_char_def)
  qed
  then show ?thesis by (simp add: itoa_def list_all_iff ascii_char_def)
qed

lemma ascii_texts:
  "ascii outputQuery" "ascii outputQueryWithCursor" "ascii inputQuery" "ascii inputQueryWithCursor"
  "ascii reportQuery" "ascii reportQueryWithCursor" "ascii GetVouchersQuery" "ascii proofQuery"
proof -
  have "list_all ascii [outputQuery, outputQueryWithCursor, inputQuery, inputQueryWithCursor,
      reportQuery, reportQueryWithCursor, GetVouchersQuery, proofQuery]" by code_simp
  then show "ascii outputQuery" "ascii outputQueryWithCursor" "ascii inputQuery" "ascii inputQueryWithCursor"
    "ascii reportQuery" "ascii reportQueryWithCursor" "ascii GetVouchersQuery" "ascii proofQuery"
    by (simp_all only: list.pred_inject)
qed

definition ascii_cursors :: "GraphileFetcher \<Rightarrow> bool" where
  "ascii_cursors f \<longleftrightarrow> ascii (gf_CursorAfter f) \<and> ascii (gf_CursorInputAfter f) \<and> ascii (gf_CursorReportAfter f)"

lemma ascii_full_query:
  assumes "ascii_cursors f"
  shows "ascii (GetFullQuery f)"
  using assms by (simp add: GetFullQuery_def GetInputQuery_def GetReportQuery_def ascii_cursors_def Let_def
      ascii_Sprintf ascii_texts ascii_itoa)

lemma query_sent:
  assumes "ascii q"
  shows "json_parse (json_print (query_payload q)) = Some (query_payload q)"
  using assms json_roundtrip [of "query_payload q" "[]"]
  by (simp add: query_payload_def ascii_char_def maxNestingDepth_def)

section \<open>The answer of the node is what is fetched\<close>

text \<open>The JSON of an answer, with the names that the query asks for.\<close>

definition json_of_PageInfo :: "SyncPageInfo \<Rightarrow> json" where
  "json_of_PageInfo p = JObj [(''endCursor'', JStr (pi_EndCursor p)), (''hasNextPage'', JBool (pi_HasNextPage p)),
     (''hasPreviousPage'', JBool (pi_HasPreviousPage p)), (''startCursor'', JStr (pi_StartCursor p))]"

definition json_of_OutputEdge :: "OutputEdge \<Rightarrow> json" where
  "json_of_OutputEdge e = JObj [(''cursor'', JStr (oe_Cursor e)), (''node'', JObj [(''blob'', JStr (oe_Blob e)),
     (''index'', JNum (itoa (oe_Index e))), (''inputIndex'', JNum (itoa (oe_InputIndex e)))])]"

definition json_of_InputEdge :: "InputEdge \<Rightarrow> json" where
  "json_of_InputEdge e = JObj [(''cursor'', JStr (ie_Cursor e)), (''node'', JObj [(''blob'', JStr (ie_Blob e)),
     (''index'', JNum (itoa (ie_Index e)))])]"

definition json_of_ReportEdge :: "ReportEdge \<Rightarrow> json" where
  "json_of_ReportEdge e = JObj [(''node'', JObj [(''blob'', JStr (re_Blob e)),
     (''index'', JNum (itoa (re_Index e))), (''inputIndex'', JNum (itoa (re_InputIndex e)))])]"

definition json_of_connection :: "json list \<Rightarrow> SyncPageInfo \<Rightarrow> json" where
  "json_of_connection es p = JObj [(''edges'', JArr es), (''pageInfo'', json_of_PageInfo p)]"

definition json_of_OutputResponse :: "OutputResponse \<Rightarrow> json" where
  "json_of_OutputResponse r = JObj [(''data'', JObj
     [(''outputs'', json_of_connection (map json_of_OutputEdge (or_OutputsEdges r)) (or_OutputsPageInfo r)),
      (''inputs'', json_of_connection (map json_of_InputEdge (or_InputsEdges r)) (or_InputsPageInfo r)),
      (''reports'', json_of_connection (map json_of_ReportEdge (or_ReportsEdges r)) (or_ReportsPageInfo r))])]"

lemma fetch_names:
  "foldName ''startCursor'' = ''STARTCURSOR''" "foldName ''endCursor'' = ''ENDCURSOR''"
  "foldName ''hasNextPage'' = ''HASNEXTPAGE''" "foldName ''hasPreviousPage'' = ''HASPREVIOUSPAGE''"
  "foldName ''cursor'' = ''CURSOR''" "foldName ''node'' = ''NODE''" "foldName ''blob'' = ''BLOB''"
  "foldName ''inputIndex'' = ''INPUTINDEX''" "foldName ''edges'' = ''EDGES''" "foldName ''Edges'' = ''EDGES''"
  "foldName ''pageInfo'' = ''PAGEINFO''" "foldName ''PageInfo'' = ''PAGEINFO''" "foldName ''outputs'' = ''OUTPUTS''"
  "foldName ''inputs'' = ''INPUTS''" "foldName ''Reports'' = ''REPORTS''" "foldName ''reports'' = ''REPORTS''"
  by (simp_all add: fold_name_simps)

text \<open>Go's \<open>int\<close>.\<close>

definition int64 :: "int \<Rightarrow> bool" where
  "int64 i \<longleftrightarrow> 0 \<le> i \<and> i < 2 ^ 63"

lemma into_int_itoa: "int64 i \<Longrightarrow> into_int upd (JNum (itoa i)) r = Inr (upd i r)"
  by (simp add: into_int_def int64_def Atoi_itoa)

lemma into_bool_bool: "into_bool upd (JBool b) r = Inr (upd b r)"
  by (simp add: into_bool_def)

lemmas fetch_simps = decode_struct_def fetch_names folded_names into_string_str into_int_itoa into_bool_bool into_struct_def

lemma PageInfo_back: "into_PageInfo (json_of_PageInfo p) z = Inr p"
  by (simp add: into_PageInfo_def json_of_PageInfo_def fetch_simps)

definition OutputEdge_ok :: "OutputEdge \<Rightarrow> bool" where
  "OutputEdge_ok e \<longleftrightarrow> int64 (oe_Index e) \<and> int64 (oe_InputIndex e) \<and> ascii (oe_Blob e) \<and> ascii (oe_Cursor e)"

definition InputEdge_ok :: "InputEdge \<Rightarrow> bool" where
  "InputEdge_ok e \<longleftrightarrow> int64 (ie_Index e) \<and> ascii (ie_Blob e) \<and> ascii (ie_Cursor e)"

definition ReportEdge_ok :: "ReportEdge \<Rightarrow> bool" where
  "ReportEdge_ok e \<longleftrightarrow> int64 (re_Index e) \<and> int64 (re_InputIndex e) \<and> ascii (re_Blob e)"

definition PageInfo_ok :: "SyncPageInfo \<Rightarrow> bool" where
  "PageInfo_ok p \<longleftrightarrow> ascii (pi_StartCursor p) \<and> ascii (pi_EndCursor p)"

definition OutputResponse_ok :: "OutputResponse \<Rightarrow> bool" where
  "OutputResponse_ok r \<longleftrightarrow> list_all OutputEdge_ok (or_OutputsEdges r) \<and> list_all InputEdge_ok (or_InputsEdges r) \<and>
     list_all ReportEdge_ok (or_ReportsEdges r) \<and> PageInfo_ok (or_OutputsPageInfo r) \<and>
     PageInfo_ok (or_InputsPageInfo r) \<and> PageInfo_ok (or_ReportsPageInfo r)"

lemma OutputEdge_back: "OutputEdge_ok e \<Longrightarrow> into_OutputEdge (json_of_OutputEdge e) z = Inr e"
  by (simp add: into_OutputEdge_def json_of_OutputEdge_def OutputEdge_ok_def fetch_simps)

lemma InputEdge_back: "InputEdge_ok e \<Longrightarrow> into_InputEdge (json_of_InputEdge e) z = Inr e"
  by (simp add: into_InputEdge_def json_of_InputEdge_def InputEdge_ok_def fetch_simps)

lemma ReportEdge_back: "ReportEdge_ok e \<Longrightarrow> into_ReportEdge (json_of_ReportEdge e) z = Inr e"
  by (simp add: into_ReportEdge_def json_of_ReportEdge_def ReportEdge_ok_def fetch_simps)

lemma into_list_back:
  assumes "\<And>x z. ok x \<Longrightarrow> d (enc x) z = Inr x" and "list_all ok xs"
  shows "into_list d zero upd (JArr (map enc xs)) r = Inr (upd xs r)"
proof -
  have "rmap (\<lambda>v. d v zero) (map enc xs) = Inr xs"
    using assms by (induction xs) simp_all
  then show ?thesis by (simp add: into_list_def)
qed

lemma OutputResponse_back:
  assumes "OutputResponse_ok r"
  shows "into_OutputResponse (json_of_OutputResponse r) z = Inr r"
  using assms
  by (simp add: into_OutputResponse_def json_of_OutputResponse_def into_Outputs_def into_Inputs_def into_Reports_def
      json_of_connection_def fetch_simps PageInfo_back OutputResponse_ok_def
      into_list_back [where ok = OutputEdge_ok, OF OutputEdge_back]
      into_list_back [where ok = InputEdge_ok, OF InputEdge_back]
      into_list_back [where ok = ReportEdge_ok, OF ReportEdge_back])

lemma plain_itoa: "int64 i \<Longrightarrow> json_plain (JNum (itoa i))"
  by (auto simp: int64_def itoa_def)

lemma depth_map_le: "(\<And>x. json_depth (f x) \<le> n) \<Longrightarrow> foldr max (map json_depth (map f xs)) 0 \<le> n"
  by (induction xs) simp_all

lemma connection_plain:
  assumes "\<And>e. e \<in> set es \<Longrightarrow> json_plain e" and "PageInfo_ok p"
  shows "json_plain (json_of_connection es p)"
  using assms by (simp add: json_of_connection_def json_of_PageInfo_def PageInfo_ok_def ascii_char_def)

lemma connection_depth:
  assumes "\<And>x. json_depth (f x) \<le> 2"
  shows "json_depth (json_of_connection (map f xs) p) \<le> 4"
  using depth_map_le [of f 2 xs] assms by (simp add: json_of_connection_def json_of_PageInfo_def)

lemma writable_OutputResponse:
  assumes "OutputResponse_ok r"
  shows "writable (json_of_OutputResponse r)"
proof
  have "json_plain (json_of_OutputEdge e)" if "OutputEdge_ok e" for e
    using that by (simp add: json_of_OutputEdge_def OutputEdge_ok_def plain_itoa ascii_char_def del: json_plain.simps(2))
  moreover have "json_plain (json_of_InputEdge e)" if "InputEdge_ok e" for e
    using that by (simp add: json_of_InputEdge_def InputEdge_ok_def plain_itoa ascii_char_def del: json_plain.simps(2))
  moreover have "json_plain (json_of_ReportEdge e)" if "ReportEdge_ok e" for e
    using that by (simp add: json_of_ReportEdge_def ReportEdge_ok_def plain_itoa ascii_char_def del: json_plain.simps(2))
  ultimately show "json_plain (json_of_OutputResponse r)"
    using assms by (auto simp: json_of_OutputResponse_def OutputResponse_ok_def list_all_iff ascii_char_def
        intro!: connection_plain)
  have "json_depth (json_of_connection (map json_of_OutputEdge xs) p) \<le> 4" for xs p
    by (rule connection_depth) (simp add: json_of_OutputEdge_def)
  moreover have "json_depth (json_of_connection (map json_of_InputEdge xs) p) \<le> 4" for xs p
    by (rule connection_depth) (simp add: json_of_InputEdge_def)
  moreover have "json_depth (json_of_connection (map json_of_ReportEdge xs) p) \<le> 4" for xs p
    by (rule connection_depth) (simp add: json_of_ReportEdge_def)
  ultimately show "json_depth (json_of_OutputResponse r) \<le> maxNestingDepth"
    by (simp add: json_of_OutputResponse_def maxNestingDepth_def le_trans [of _ 4])
qed

text \<open>
  A node that answers the query with a response, in JSON, whatever its status: the fetcher returns the
  response.
\<close>

theorem fetch_roundtrip:
  assumes "ascii_cursors f" and "OutputResponse_ok r"
    and "\<And>rq. wq_URL rq = gc_GraphileUrl c \<Longrightarrow> json_parse (wq_Body rq) = Some (query_payload (GetFullQuery f)) \<Longrightarrow>
      \<exists>rsp. Do rq = Inr rsp \<and> wp_Body rsp = Inr (json_print (json_of_OutputResponse r))"
  shows "GraphileFetcher_Fetch (graphile_endpoint (GraphileClientImpl_Post Do c)) f = Inr r"
proof -
  let ?rq = "\<lparr>wq_Method = ''POST'', wq_URL = gc_GraphileUrl c, wq_ContentType = ''application/json'',
    wq_Body = json_print (query_payload (GetFullQuery f))\<rparr>"
  obtain rsp where rsp: "Do ?rq = Inr rsp" "wp_Body rsp = Inr (json_print (json_of_OutputResponse r))"
    using assms(3) [of ?rq] query_sent [OF ascii_full_query [OF assms(1)]] by auto
  moreover have "json_parse (json_print (json_of_OutputResponse r)) = Some (json_of_OutputResponse r)"
    using json_roundtrip [of "json_of_OutputResponse r" "[]"] writable_OutputResponse [OF assms(2)] by simp
  ultimately show ?thesis
    by (simp add: GraphileFetcher_Fetch_def graphile_endpoint_def GraphileClientImpl_Post_def json_unmarshal_def
        OutputResponse_back [OF assms(2)] Let_def)
qed

section \<open>Answers without data\<close>

text \<open>An object whose member \<open>data\<close>, under any spelling, is absent or null: the shape of an error of GraphQL.\<close>

definition no_data :: "json \<Rightarrow> bool" where
  "no_data v \<longleftrightarrow> (\<exists>kvs. v = JObj kvs \<and> (\<forall>(k, x) \<in> set kvs. foldName k = ''DATA'' \<longrightarrow> x = JNull))"

lemma no_data_response: "no_data v \<Longrightarrow> into_OutputResponse v r = Inr r"
proof -
  have "decode_members [(''data'', decode_struct fs)] kvs r = Inr r"
    if "\<forall>(k, x) \<in> set kvs. foldName k = ''DATA'' \<longrightarrow> x = JNull" for kvs and fs :: "(string \<times> OutputResponse setter) list"
    using that by (induction kvs) (auto simp: decode_struct_def folded_names)
  then show "no_data v \<Longrightarrow> into_OutputResponse v r = Inr r"
    by (auto simp: no_data_def into_OutputResponse_def decode_struct_def [of _ v])
qed

lemma no_data_fetch:
  assumes "Post (json_print (query_payload (GetFullQuery f))) = Inr body" and "json_parse body = Some v" and "no_data v"
  shows "GraphileFetcher_Fetch (graphile_endpoint Post) f = Inr zero_OutputResponse"
  using assms no_data_response [OF assms(3)]
  by (simp add: GraphileFetcher_Fetch_def graphile_endpoint_def json_unmarshal_def Let_def)

lemma empty_batch_moves_nothing:
  "move_cursors (synchronizeFetch now f zero_OutputResponse) f = f"
  by (simp add: move_cursors_def synchronizeFetch_def zero_OutputResponse_def zero_PageInfo_def end_cursor_def)

lemma empty_batch:
  "handleGraphileResponse D now ctx zero_OutputResponse s = (Inr (), s)"
  by (simp add: handleGraphileResponse_def andThen_apply Let_def hasMore_def zero_OutputResponse_def zero_PageInfo_def
      empty_batch_moves_nothing [unfolded zero_OutputResponse_def zero_PageInfo_def])

lemma empty_transaction:
  assumes "db_pending (sy_db s) = None"
  shows "case handleWithDBTransaction D now zero_OutputResponse s of (r, s') \<Rightarrow>
    (\<forall>e. r = Inl e \<longrightarrow> \<not> is_panic e) \<and> db_committed (sy_db s') = db_committed (sy_db s) \<and>
    db_pending (sy_db s') = None \<and> sy_fetcher s' = sy_fetcher s"
  using assms
  by (auto simp: handleWithDBTransaction_def andThen_apply onError_apply wrapErr_apply empty_batch Let_def on_db_def
      StartTransaction_def GetTransaction_def db_Begin_def tx_Commit_def tx_Rollback_def callRollback_def pop_fault_def
      ErrTxDone_def split: list.splits option.splits fault.splits prod.splits sum.splits)

text \<open>
  A round that gets an error as its answer ends without an error and leaves the tables and the cursors,
  whatever faults the database has.
\<close>

theorem error_answer_round:
  assumes "Post (json_print (query_payload (GetFullQuery (sy_fetcher s)))) = Inr body"
    and "json_parse body = Some v" and "no_data v" and "db_pending (sy_db s) = None"
    and "poll_round D (now, graphile_endpoint Post) s = (r, s')"
  shows "r = Inr () \<and> db_committed (sy_db s') = db_committed (sy_db s) \<and> db_pending (sy_db s') = None \<and>
    sy_fetcher s' = sy_fetcher s"
proof -
  have "poll_round D (now, graphile_endpoint Post) s =
      onError (handleWithDBTransaction D now zero_OutputResponse) (\<lambda>_. ret ()) s"
    using no_data_fetch [where Post = Post, OF assms(1-3)] by (simp add: poll_round_def)
  with empty_transaction [OF assms(4), of D now] assms(5) show ?thesis
    by (auto simp: onError_apply split: prod.splits sum.splits)
qed

end
