(* ===== verification/Devnet.thy ===== *)
theory Devnet
  imports Releases CommandLogger Json DataAvailability
begin

text \<open>
  The development network and the processes: \<open>internal/devnet/input.go\<close> (sending an input and waiting for
  its receipt), the rest of \<open>internal/devnet/anvil.go\<close> (the worker that starts anvil and the table of the
  addresses), and the workers of \<open>internal/supervisor/command_unix.go\<close>, \<open>server.go\<close> and \<open>http.go\<close>. What runs
  outside, the Ethereum node, the started process and the sockets, answers through parameters.
\<close>

section \<open>Sending an input\<close>

definition SenderAddress :: string where "SenderAddress = ''0xf39Fd6e51aad88F6F4ce6aB8827279cffFb92266''"
definition SenderPrivateKey :: string where
  "SenderPrivateKey = ''0xac0974bec39a17e36ba4a6b4d238ff944bacb478cbed5efcae784d7bf4f2ff80''"
definition GasLimit :: u64 where "GasLimit = 30000000"
definition InputBoxAddress :: string where "InputBoxAddress = ''0x58Df21fE097d4bE5dCf61e01d9ea3f6B81c2E1dB''"
definition ApplicationAddress :: string where "ApplicationAddress = ''0xab7528bb862fb57e8a2bcd567a2e929a0be56a5e''"
definition ApplicationContractName :: string where "ApplicationContractName = ''CartesiDApp''"

record input_tx =
  it_From :: address
  it_Nonce :: int
  it_Value :: int
  it_GasLimit :: u64
  it_GasPrice :: int
  it_InputBox :: address
  it_App :: address
  it_Payload :: bytes

text \<open>
  The node: \<open>cc_ToECDSA\<close> gives the address of a key, \<open>cc_NewTransactor\<close> is the check of the chain id,
  \<open>cc_AddInput\<close> sends the transaction, \<open>cc_FilterInputAdded\<close> gives the events that the iterator delivers
  and the error it ends with.
\<close>

record 'e chain_client =
  cc_Dial :: "string \<Rightarrow> unit res"
  cc_ToECDSA :: "bytes \<Rightarrow> address res"
  cc_ChainID :: "int res"
  cc_NewTransactor :: "int \<Rightarrow> unit res"
  cc_PendingNonceAt :: "address \<Rightarrow> u64 res"
  cc_SuggestGasPrice :: "int res"
  cc_NewInputBox :: "address \<Rightarrow> unit res"
  cc_AddInput :: "input_tx \<Rightarrow> unit res"
  cc_FilterInputAdded :: "('e list \<times> err option) res"

text \<open>
  One turn of the loop that waits for a receipt: the answer of the node, and, when the transaction
  is not mined, whether the context was done before the next tick.
\<close>

datatype receipt_answer = Receipt u64 | NotFound | ReceiptError err

fun waitMined :: "(receipt_answer \<times> err option) list \<Rightarrow> u64 res option" where
  "waitMined [] = None"
| "waitMined ((Receipt status, _) # _) = Some (Inr status)"
| "waitMined ((ReceiptError e, _) # _) = Some (Inl (EWrap ''receipt retrieval failed'' e))"
| "waitMined ((NotFound, Some e) # _) = Some (Inl e)"
| "waitMined ((NotFound, None) # turns) = waitMined turns"

text \<open>The transaction that \<open>AddInput\<close> prepares.\<close>

definition input_transaction :: "ethlib \<Rightarrow> 'e chain_client \<Rightarrow> string \<Rightarrow> bytes \<Rightarrow> input_tx res" where
  "input_transaction E C rpcUrl payload =
     (if length payload = 0 then Inl (EMsg ''cannot send empty payload'')
      else rbind (wrap_res (''dial to '' @ rpcUrl) (cc_Dial C rpcUrl)) (\<lambda>_.
       rbind (wrap_res ''create private key'' (cc_ToECDSA C (Hex2Bytes E (drop 2 SenderPrivateKey)))) (\<lambda>sender.
       rbind (wrap_res ''get chain id'' (cc_ChainID C)) (\<lambda>chainId.
       rbind (wrap_res ''create transactor'' (cc_NewTransactor C chainId)) (\<lambda>_.
       rbind (wrap_res ''get nonce'' (cc_PendingNonceAt C (HexToAddress E SenderAddress))) (\<lambda>nonce.
       rbind (wrap_res ''get gas price'' (cc_SuggestGasPrice C)) (\<lambda>gasPrice.
       rbind (wrap_res ''bind input box'' (cc_NewInputBox C (HexToAddress E InputBoxAddress))) (\<lambda>_.
       Inr \<lparr>it_From = sender, it_Nonce = sint nonce, it_Value = 0, it_GasLimit = GasLimit, it_GasPrice = gasPrice,
         it_InputBox = HexToAddress E InputBoxAddress, it_App = HexToAddress E ApplicationAddress,
         it_Payload = payload\<rparr>))))))))"

text \<open>The state is the list of the transactions that the node took.\<close>

definition devnet_AddInput ::
  "ethlib \<Rightarrow> 'e chain_client \<Rightarrow> (receipt_answer \<times> err option) list \<Rightarrow> string \<Rightarrow> bytes \<Rightarrow> input_tx list \<Rightarrow>
   (unit res \<times> input_tx list) option" where
  "devnet_AddInput E C turns rpcUrl payload sent = (case input_transaction E C rpcUrl payload of
       Inl err \<Rightarrow> Some (Inl err, sent)
     | Inr tx \<Rightarrow> (case cc_AddInput C tx of
         Inl err \<Rightarrow> Some (Inl (EWrap ''add input'' err), sent)
       | Inr _ \<Rightarrow> (case waitMined turns of
           None \<Rightarrow> None
         | Some (Inl err) \<Rightarrow> Some (Inl err, sent @ [tx])
         | Some (Inr status) \<Rightarrow>
             if status = 0 then Some (Inl (EMsg ''transaction was not accepted''), sent @ [tx])
             else Some (Inr (), sent @ [tx]))))"

text \<open>All events of the input box; the error that ends the iterator is not asked for.\<close>

definition GetInputAdded :: "ethlib \<Rightarrow> 'e chain_client \<Rightarrow> string \<Rightarrow> 'e list res" where
  "GetInputAdded E C rpcUrl =
     rbind (wrap_res (''dial to '' @ rpcUrl) (cc_Dial C rpcUrl)) (\<lambda>_.
     rbind (wrap_res ''bind input box'' (cc_NewInputBox C (HexToAddress E InputBoxAddress))) (\<lambda>_.
     rbind (case cc_FilterInputAdded C of
         Inl err \<Rightarrow> Inl (EMsg (''filter input added: '' @ err_text err)) | Inr it \<Rightarrow> Inr it) (\<lambda>(events, _).
     Inr events)))"

section \<open>The workers of the supervisor\<close>

record CommandWorker =
  cw_Name :: string
  cw_Command :: string
  cw_Args :: "string list"
  cw_Env :: "string list"

record exec_cmd =
  ex_Command :: string
  ex_Args :: "string list"
  ex_Env :: "string list"
  ex_Stderr :: commandLogger
  ex_Stdout :: commandLogger
  ex_Setpgid :: bool

text \<open>The command as it is started; the loggers have each other's name, as in the source.\<close>

definition CommandWorker_cmd :: "string list \<Rightarrow> CommandWorker \<Rightarrow> exec_cmd" where
  "CommandWorker_cmd environ w = \<lparr>ex_Command = cw_Command w, ex_Args = cw_Args w, ex_Env = environ @ cw_Env w,
     ex_Stderr = \<lparr>cl_name = cw_Name w, cl_buffName = ''stdout'', cl_buffer = []\<rparr>,
     ex_Stdout = \<lparr>cl_name = cw_Name w, cl_buffName = ''stderr'', cl_buffer = []\<rparr>, ex_Setpgid = True\<rparr>"

text \<open>\<open>cmd.Run\<close> is a parameter; the error of the context, when it has one by then, goes before its result.\<close>

definition CommandWorker_Start ::
  "string list \<Rightarrow> (exec_cmd \<Rightarrow> unit res) \<Rightarrow> err option \<Rightarrow> CommandWorker \<Rightarrow> unit res" where
  "CommandWorker_Start environ Run ctxErr w =
     (let err = Run (CommandWorker_cmd environ w)
      in case ctxErr of Some e \<Rightarrow> Inl e | None \<Rightarrow> err)"

text \<open>The cancellation of a command sends the signal to its process group.\<close>

definition CommandWorker_Cancel :: "(int \<Rightarrow> unit res) \<Rightarrow> int \<Rightarrow> unit res" where
  "CommandWorker_Cancel Kill pid = Kill (- pid)"

record ServerWorker =
  sw_CommandWorker :: CommandWorker
  sw_Port :: int

text \<open>
  The polling of the port once the command is ready: for each turn whether the connection was made, and
  whether the context was done before the next one. \<open>Some True\<close>: the worker reported that it is ready.
\<close>

fun poll_port :: "(bool \<times> bool) list \<Rightarrow> bool option" where
  "poll_port [] = None"
| "poll_port ((dialed, done_ctx) # turns) =
     (if dialed then Some True else if done_ctx then Some False else poll_port turns)"

definition ServerWorker_ready :: "bool \<Rightarrow> (bool \<times> bool) list \<Rightarrow> bool option" where
  "ServerWorker_ready done_first turns = (if done_first then Some False else poll_port turns)"

text \<open>
  The command waits until the poller takes its signal. A poller that has seen the end of the context first is
  gone, and then \<open>Start\<close> does not return.
\<close>

definition ServerWorker_Start ::
  "string list \<Rightarrow> (exec_cmd \<Rightarrow> unit res) \<Rightarrow> err option \<Rightarrow> bool \<Rightarrow> (bool \<times> bool) list \<Rightarrow> ServerWorker \<Rightarrow>
   bool option \<times> unit res option" where
  "ServerWorker_Start environ Run ctxErr done_first turns w =
     (ServerWorker_ready done_first turns,
      if done_first then None else Some (CommandWorker_Start environ Run ctxErr (sw_CommandWorker w)))"

text \<open>The server closed is no error; the worker is ready once the address is bound.\<close>

definition ErrServerClosed :: err where "ErrServerClosed = EExt ''http: Server closed''"

definition HttpWorker_Start :: "(string \<Rightarrow> unit res) \<Rightarrow> unit res \<Rightarrow> string \<Rightarrow> bool \<times> unit res" where
  "HttpWorker_Start Listen Serve address = (case Listen address of
       Inl err \<Rightarrow> (False, Inl err)
     | Inr _ \<Rightarrow> (True, if Serve = Inl ErrServerClosed then Inr () else Serve))"

section \<open>Starting anvil\<close>

definition stateFileName :: string where "stateFileName = ''anvil_state.json''"

text \<open>\<open>os.MkdirTemp\<close> makes a new directory; its name, or the failure, is a parameter.\<close>

definition MkdirTemp :: "(files \<Rightarrow> path res) \<Rightarrow> (files, path) comp" where
  "MkdirTemp Temp fs = (case Temp fs of Inl e \<Rightarrow> (Inl e, fs) | Inr p \<Rightarrow> (Inr p, fs(p \<mapsto> FDir)))"

definition below :: "path \<Rightarrow> path \<Rightarrow> bool" where
  "below p q \<longleftrightarrow> take (length p) q = p"

definition RemoveAll :: "fs_faults \<Rightarrow> path \<Rightarrow> (files, unit) comp" where
  "RemoveAll F p fs = (case F p of Some e \<Rightarrow> (Inl e, fs)
     | None \<Rightarrow> (Inr (), \<lambda>q. if below p q then None else fs q))"

definition makeStateTemp :: "(files \<Rightarrow> path res) \<Rightarrow> fs_faults \<Rightarrow> bytes \<Rightarrow> (files, path) comp" where
  "makeStateTemp Temp F devnetState =
     andThen (wrapErr ''anvil: failed to create temp dir'' (MkdirTemp Temp)) (\<lambda>tempDir.
     let stateFile = path_Join tempDir stateFileName
     in andThen (wrapErr ''anvil: failed to write state file'' (WriteFile F stateFile devnetState)) (\<lambda>_.
        ret tempDir))"

text \<open>The error of removing the directory is logged only.\<close>

definition removeTemp :: "fs_faults \<Rightarrow> path \<Rightarrow> (files, unit) comp" where
  "removeTemp F dir fs = (Inr (), snd (RemoveAll F dir fs))"

record AnvilWorker_fields =
  aw_Address :: string
  aw_Port :: int
  aw_Verbose :: bool
  aw_AnvilCmd :: string

definition path_text :: "path \<Rightarrow> string" where
  "path_text p = concat (map (\<lambda>n. CHR ''/'' # n) p)"

definition anvil_server :: "AnvilWorker_fields \<Rightarrow> path \<Rightarrow> ServerWorker" where
  "anvil_server w dir = \<lparr>sw_CommandWorker = \<lparr>cw_Name = ''anvil'',
       cw_Command = (if aw_AnvilCmd w = [] then ''anvil'' else aw_AnvilCmd w),
       cw_Args = [''--host'', aw_Address w] @ [''--port'', itoa (aw_Port w)] @
         [''--load-state'', path_text (path_Join dir stateFileName)] @ (if \<not> aw_Verbose w then [''--silent''] else []),
       cw_Env = []\<rparr>, sw_Port = aw_Port w\<rparr>"

text \<open>\<open>StartServer\<close> is the start of the server worker, up to its return; the directory is removed then.\<close>

definition AnvilWorker_Start ::
  "(files \<Rightarrow> path res) \<Rightarrow> fs_faults \<Rightarrow> bytes \<Rightarrow> (ServerWorker \<Rightarrow> (files, unit) comp) \<Rightarrow> AnvilWorker_fields \<Rightarrow>
   (files, unit) comp" where
  "AnvilWorker_Start Temp F devnetState StartServer w =
     andThen (makeStateTemp Temp F devnetState) (\<lambda>dir fs.
       case StartServer (anvil_server w dir) fs of (r, fs') \<Rightarrow> (r, snd (removeTemp F dir fs')))"

section \<open>The table of the addresses\<close>

text \<open>The contracts of the embedded file: a map, nil when the member is absent.\<close>

type_synonym ContractInfo = "(string \<times> string) list option"

definition map_set :: "string \<Rightarrow> 'v \<Rightarrow> (string \<times> 'v) list \<Rightarrow> (string \<times> 'v) list" where
  "map_set k v m = filter (\<lambda>(k', _). k' \<noteq> k) m @ [(k, v)]"

definition into_contract :: "string setter" where
  "into_contract = decode_struct [(''address'', into_string (\<lambda>s _. s))]"

fun into_contract_map :: "(string \<times> json) list \<Rightarrow> (string \<times> string) list \<Rightarrow> (string \<times> string) list res" where
  "into_contract_map [] m = Inr m"
| "into_contract_map ((k, v) # kvs) m = rbind (into_contract v []) (\<lambda>a. into_contract_map kvs (map_set k a m))"

definition into_ContractInfo :: "ContractInfo setter" where
  "into_ContractInfo = decode_struct [(''contracts'', \<lambda>v r. case v of
       JNull \<Rightarrow> Inr None
     | JObj kvs \<Rightarrow> rbind (into_contract_map kvs (case r of None \<Rightarrow> [] | Some m \<Rightarrow> m)) (\<lambda>m. Inr (Some m))
     | _ \<Rightarrow> type_error)]"

definition sort_strings :: "string list \<Rightarrow> string list" where
  "sort_strings = sort_key (map (of_char :: char \<Rightarrow> nat))"

definition pad_right :: "nat \<Rightarrow> string \<Rightarrow> string" where
  "pad_right n s = s @ replicate (n - length s) CHR '' ''"

definition address_line :: "string \<Rightarrow> string \<Rightarrow> string" where
  "address_line name a = pad_right 28 name @ '' '' @ a"

definition rule_line :: string where
  "rule_line = concat (replicate 28 [CHR 0xE2, CHR 0x94, CHR 0x80]) @ '' '' @ concat (replicate 42 [CHR 0xE2, CHR 0x94, CHR 0x80])"

text \<open>The lines that are printed; writing into a nil map panics, a file that cannot be read is logged.\<close>

definition ShowAddresses :: "string \<Rightarrow> string list res" where
  "ShowAddresses localhost = (case json_unmarshal into_ContractInfo localhost None of
       Inl err \<Rightarrow> Inr []
     | Inr None \<Rightarrow> Inl (EPanic ''assignment to entry in nil map'')
     | Inr (Some contracts) \<Rightarrow>
         let names = map fst contracts @ [ApplicationContractName];
             contracts = map_set ApplicationContractName ApplicationAddress contracts;
             names = sort_strings names
         in Inr ([address_line ''Contract'' ''Address'', rule_line] @
              concat (map (\<lambda>name. case map_of contracts name of Some a \<Rightarrow> [address_line name a] | None \<Rightarrow> []) names)))"

section \<open>Facts\<close>

text \<open>Nothing is sent for an empty payload, and nothing when a step before the sending fails.\<close>

lemma AddInput_empty: "devnet_AddInput E C turns url [] sent = Some (Inl (EMsg ''cannot send empty payload''), sent)"
  by (simp add: devnet_AddInput_def input_transaction_def)

lemma AddInput_at_most_once:
  assumes "devnet_AddInput E C turns url payload sent = Some (r, sent')"
  shows "sent' = sent \<or> (\<exists>tx. sent' = sent @ [tx] \<and> it_Payload tx = payload \<and> payload \<noteq> [] \<and>
    it_App tx = HexToAddress E ApplicationAddress)"
  using assms by (auto simp: devnet_AddInput_def input_transaction_def rbind_Inr_iff
      split: sum.splits option.splits if_splits)

text \<open>Success means: one transaction was sent, and the first answer that is not \<open>NotFound\<close> is a receipt of an accepted one.\<close>

lemma waitMined_receipt:
  "waitMined turns = Some (Inr status) \<Longrightarrow>
   \<exists>pre post e. turns = pre @ (Receipt status, e) # post \<and> (\<forall>t \<in> set pre. t = (NotFound, None))"
proof (induction turns rule: waitMined.induct)
  case (2 st e turns)
  then show ?case by (intro exI [of _ "[]"] exI [of _ turns] exI [of _ e]) simp
next
  case (5 turns)
  then obtain pre post e where "turns = pre @ (Receipt status, e) # post" "\<forall>t \<in> set pre. t = (NotFound, None)" by auto
  then show ?case by (intro exI [of _ "(NotFound, None) # pre"] exI [of _ post] exI [of _ e]) auto
qed simp_all

lemma waitMined_ends: "waitMined turns = None \<longleftrightarrow> (\<forall>t \<in> set turns. t = (NotFound, None))"
  by (induction turns rule: waitMined.induct) auto

lemma AddInput_success:
  assumes "devnet_AddInput E C turns url payload sent = Some (Inr (), sent')"
  shows "\<exists>tx status pre post e. sent' = sent @ [tx] \<and> it_Payload tx = payload \<and> payload \<noteq> [] \<and> status \<noteq> 0 \<and>
    turns = pre @ (Receipt status, e) # post \<and> (\<forall>t \<in> set pre. t = (NotFound, None))"
proof -
  obtain tx where tx: "input_transaction E C url payload = Inr tx"
    using assms by (auto simp: devnet_AddInput_def split: sum.splits)
  obtain status where "waitMined turns = Some (Inr status)" "status \<noteq> 0" "sent' = sent @ [tx]"
    using assms tx by (auto simp: devnet_AddInput_def split: sum.splits option.splits if_splits)
  with waitMined_receipt [of turns status] tx show ?thesis
    by (fastforce simp: input_transaction_def rbind_Inr_iff split: if_splits)
qed

text \<open>
  Anvil leaves no files: once the directory was made, is new, and can be removed, nothing is left of what
  was written below it, and what the server left elsewhere stays. When the state file cannot be written,
  the directory stays.
\<close>

lemma anvil_cleans_up:
  assumes "Temp fs = Inr dir" and "F dir = None" and "F (path_Join dir stateFileName) = None"
    and "StartServer (anvil_server w dir) (fs(dir \<mapsto> FDir, path_Join dir stateFileName \<mapsto> FFile st)) = (r, fs')"
  shows "AnvilWorker_Start Temp F st StartServer w fs = (r, \<lambda>q. if below dir q then None else fs' q)"
  using assms by (simp add: AnvilWorker_Start_def makeStateTemp_def MkdirTemp_def WriteFile_def RemoveAll_def
      removeTemp_def andThen_apply wrapErr_apply Let_def)

lemma anvil_leaks_directory:
  assumes "Temp fs = Inr dir" and "F (path_Join dir stateFileName) = Some e" and "\<not> is_panic e"
  shows "AnvilWorker_Start Temp F st StartServer w fs =
    (Inl (EWrap ''anvil: failed to write state file'' e), fs(dir \<mapsto> FDir))"
  using assms by (simp add: AnvilWorker_Start_def makeStateTemp_def MkdirTemp_def WriteFile_def andThen_apply
      wrapErr_apply Let_def)

text \<open>A server is reported ready exactly when a connection is made before the context is done.\<close>

lemma poll_port_first:
  "poll_port turns = (case dropWhile (\<lambda>t. t = (False, False)) turns of [] \<Rightarrow> None | (dialed, _) # _ \<Rightarrow> Some dialed)"
  by (induction turns rule: poll_port.induct) auto

text \<open>A context that is done before the poller took the signal of the command keeps the worker for ever.\<close>

lemma ServerWorker_stuck:
  "snd (ServerWorker_Start environ Run ctxErr done_first turns w) = None \<longleftrightarrow> done_first"
  by (simp add: ServerWorker_Start_def)

text \<open>The table lists the application and is sorted by name.\<close>

lemma sort_strings_sorted: "sorted (map (map (of_char :: char \<Rightarrow> nat)) (sort_strings xs))"
  by (simp add: sort_strings_def)

lemma map_of_map_set: "map_of (map_set k v m) k = Some v"
proof -
  have "map_of (filter (\<lambda>(k', _). k' \<noteq> k) m) k = None" by (auto simp: map_of_eq_None_iff)
  then show ?thesis by (simp add: map_set_def map_of_append map_add_def)
qed

lemma ShowAddresses_application:
  assumes "ShowAddresses localhost = Inr lines" and "lines \<noteq> []"
  shows "address_line ApplicationContractName ApplicationAddress \<in> set lines"
proof -
  obtain contracts where l: "lines = [address_line ''Contract'' ''Address'', rule_line] @
      concat (map (\<lambda>name. case map_of (map_set ApplicationContractName ApplicationAddress contracts) name of
        Some a \<Rightarrow> [address_line name a] | None \<Rightarrow> [])
        (sort_strings (map fst contracts @ [ApplicationContractName])))"
    using assms by (auto simp: ShowAddresses_def Let_def split: sum.splits option.splits)
  have "ApplicationContractName \<in> set (sort_strings (map fst contracts @ [ApplicationContractName]))"
    by (simp add: sort_strings_def)
  moreover have "address_line ApplicationContractName ApplicationAddress \<in>
      set (case map_of (map_set ApplicationContractName ApplicationAddress contracts) ApplicationContractName of
        Some a \<Rightarrow> [address_line ApplicationContractName a] | None \<Rightarrow> [])"
    by (simp add: map_of_map_set)
  ultimately show ?thesis unfolding l set_append set_concat set_map by blast
qed

end
