(* ===== verification/GraphRuntime.thy ===== *)
theory GraphRuntime
  imports Reader Json
begin

text \<open>
  What the code generated by gqlgen (\<open>internal/reader/graph/generated.go\<close>) is made of: the library
  \<open>gqlgen/graphql\<close> as the record \<open>gql_lib\<close>, the result of executing a field, and the templates that the
  generated functions repeat: a field, an argument, a list, an object. The selections of an operation
  come from \<open>graphql.CollectFields\<close>; every object type of the schema has one implementor, so they do not depend
  on the objects and the model starts from the collected tree.
\<close>

section \<open>Selections, paths, results\<close>

datatype path_elem = PathName string | PathIndex nat

type_synonym gql_path = "path_elem list"

text \<open>
  A collected field: its alias, its name, its arguments with the variables put in, the label of the
  group it is deferred to, and what is selected of its value. A value of an argument is any Go value that
  JSON can hold.
\<close>

datatype collected_field = CollectedField
  (fl_Alias: string) (fl_Name: string) (fl_Args: "(string \<times> json) list") (fl_Deferrable: "string option")
  (fl_Selections: "collected_field list")

type_synonym gql_error = "gql_path \<times> err"

text \<open>Arguments are read, or refused at a path.\<close>

type_synonym 'a gres = "gql_error + 'a"

definition gbind :: "'a gres \<Rightarrow> ('a \<Rightarrow> 'b gres) \<Rightarrow> 'b gres" where
  "gbind r f = (case r of Inl e \<Rightarrow> Inl e | Inr x \<Rightarrow> f x)"

lemma gbind_simps [simp]: "gbind (Inl e) f = Inl e" "gbind (Inr x) f = f x"
  by (simp_all add: gbind_def)

lemma gbind_Inr_iff: "gbind r f = Inr y \<longleftrightarrow> (\<exists>x. r = Inr x \<and> f x = Inr y)"
  by (cases r) auto

record deferred_result =
  dr_Path :: gql_path
  dr_Label :: string
  dr_Result :: json
  dr_Errors :: "gql_error list"

text \<open>
  What executing a field or an object gives: the JSON it marshals to, the errors that were added, the
  groups that were deferred, and the panic that is on its way. Fields that run concurrently add their errors
  and groups in the order in which they finish; the model has them in the order of the fields, those that run
  at once first.
\<close>

record gql_out =
  go_Value :: json
  go_Errors :: "gql_error list"
  go_Deferred :: "deferred_result list"
  go_Panic :: "err option"

definition marshaled :: "json \<Rightarrow> gql_out" where
  "marshaled j = \<lparr>go_Value = j, go_Errors = [], go_Deferred = [], go_Panic = None\<rparr>"

definition null_with :: "gql_error list \<Rightarrow> gql_out" where
  "null_with es = \<lparr>go_Value = JNull, go_Errors = es, go_Deferred = [], go_Panic = None\<rparr>"

definition panicking :: "gql_error list \<Rightarrow> deferred_result list \<Rightarrow> err \<Rightarrow> gql_out" where
  "panicking es ds e = \<lparr>go_Value = JNull, go_Errors = es, go_Deferred = ds, go_Panic = Some e\<rparr>"

lemma out_simps [simp]:
  "go_Value (marshaled j) = j" "go_Errors (marshaled j) = []" "go_Deferred (marshaled j) = []"
  "go_Panic (marshaled j) = None"
  "go_Value (null_with es) = JNull" "go_Errors (null_with es) = es" "go_Deferred (null_with es) = []"
  "go_Panic (null_with es) = None"
  "go_Value (panicking es ds e) = JNull" "go_Errors (panicking es ds e) = es" "go_Deferred (panicking es ds e) = ds"
  "go_Panic (panicking es ds e) = Some e"
  by (simp_all add: marshaled_def null_with_def panicking_def)

section \<open>The library\<close>

text \<open>
  The scalars that are built in, a value taken as a list, and the error that a recovered panic becomes.
  Writing a scalar gives the JSON of it; a string is read from a string and an \<open>int\<close> from a number.
\<close>

record gql_lib =
  gq_MarshalInt :: "int \<Rightarrow> json"
  gq_MarshalString :: "string \<Rightarrow> json"
  gq_MarshalBoolean :: "bool \<Rightarrow> json"
  gq_MarshalID :: "string \<Rightarrow> json"
  gq_UnmarshalInt :: "json \<Rightarrow> int res"
  gq_UnmarshalString :: "json \<Rightarrow> string res"
  gq_UnmarshalBoolean :: "json \<Rightarrow> bool res"
  gq_CoerceList :: "json \<Rightarrow> json list"
  gq_Recover :: "err \<Rightarrow> err"

definition gql_laws :: "gql_lib \<Rightarrow> bool" where
  "gql_laws L \<longleftrightarrow>
     (\<forall>i. gq_MarshalInt L i = JNum (itoa i)) \<and> (\<forall>s. gq_MarshalString L s = JStr s) \<and>
     (\<forall>b. gq_MarshalBoolean L b = JBool b) \<and> (\<forall>s. gq_MarshalID L s = JStr s) \<and>
     (\<forall>i. - (2 ^ 63) \<le> i \<and> i < 2 ^ 63 \<longrightarrow> gq_UnmarshalInt L (JNum (itoa i)) = Inr i) \<and>
     (\<forall>s. gq_UnmarshalString L (JStr s) = Inr s) \<and> (\<forall>b. gq_UnmarshalBoolean L (JBool b) = Inr b) \<and>
     (\<forall>vs. gq_CoerceList L (JArr vs) = vs) \<and>
     (\<forall>v. v \<noteq> JNull \<and> (\<forall>vs. v \<noteq> JArr vs) \<longrightarrow> gq_CoerceList L v = [v])"

lemma gql_marshal:
  assumes "gql_laws L"
  shows "gq_MarshalInt L i = JNum (itoa i)" "gq_MarshalString L s = JStr s" "gq_MarshalBoolean L b = JBool b"
    "gq_MarshalID L s = JStr s"
  using assms by (simp_all add: gql_laws_def)

lemma gql_unmarshal:
  assumes "gql_laws L"
  shows "- (2 ^ 63) \<le> i \<Longrightarrow> i < 2 ^ 63 \<Longrightarrow> gq_UnmarshalInt L (JNum (itoa i)) = Inr i"
    "gq_UnmarshalString L (JStr s) = Inr s" "gq_UnmarshalBoolean L (JBool b) = Inr b" "gq_CoerceList L (JArr vs) = vs"
    "v \<noteq> JNull \<Longrightarrow> (\<And>vs. v \<noteq> JArr vs) \<Longrightarrow> gq_CoerceList L v = [v]"
  using assms by (simp_all add: gql_laws_def)

section \<open>The templates\<close>

text \<open>A panic below a field is recovered by it: an error at its path, and null.\<close>

definition recovered :: "gql_lib \<Rightarrow> gql_path \<Rightarrow> gql_out \<Rightarrow> gql_out" where
  "recovered L p out = (case go_Panic out of
       None \<Rightarrow> out
     | Some e \<Rightarrow> \<lparr>go_Value = JNull, go_Errors = go_Errors out @ [(p, gq_Recover L e)],
         go_Deferred = go_Deferred out, go_Panic = None\<rparr>)"

text \<open>
  A field: its resolver returns a value or an error, or panics; the value is marshaled. No middleware is
  installed. A value in an interface is not nil there, so that the check of \<open>resTmp\<close> never finds nil: a nil
  pointer is found by the marshaler.
\<close>

definition resolve_field :: "gql_lib \<Rightarrow> gql_path \<Rightarrow> 'a res \<Rightarrow> ('a \<Rightarrow> gql_out) \<Rightarrow> gql_out" where
  "resolve_field L p r marshal = (case r of
       Inl e \<Rightarrow> null_with [(p, if is_panic e then gq_Recover L e else e)]
     | Inr x \<Rightarrow> recovered L p (marshal x))"

text \<open>The arguments are read first; an error ends the field, a panic is recovered.\<close>

definition with_args :: "gql_lib \<Rightarrow> gql_path \<Rightarrow> 'a gres \<Rightarrow> ('a \<Rightarrow> gql_out) \<Rightarrow> gql_out" where
  "with_args L p args k = (case args of
       Inl (q, e) \<Rightarrow> null_with [if is_panic e then (p, gq_Recover L e) else (q, e)]
     | Inr x \<Rightarrow> k x)"

text \<open>An argument that is absent has the zero value.\<close>

definition arg_value :: "(string \<times> json) list \<Rightarrow> gql_path \<Rightarrow> string \<Rightarrow> 'a \<Rightarrow> (gql_path \<Rightarrow> json \<Rightarrow> 'a gres) \<Rightarrow> 'a gres" where
  "arg_value rawArgs p name zero unmarshal = (case map_of rawArgs name of
       None \<Rightarrow> Inr zero
     | Some tmp \<Rightarrow> unmarshal (p @ [PathName name]) tmp)"

text \<open>\<open>graphql.ErrorOnPath\<close>.\<close>

definition on_path :: "gql_path \<Rightarrow> 'a res \<Rightarrow> 'a gres" where
  "on_path p r = (case r of Inl e \<Rightarrow> Inl (p, e) | Inr x \<Rightarrow> Inr x)"

definition null_error :: err where
  "null_error = EMsg ''the requested element is null which the schema does not allow''"

text \<open>
  A value that must not be null; no error stands at the path of the field before its marshaler runs, so
  that \<open>HasFieldError\<close> is false.
\<close>

definition not_null :: "gql_path \<Rightarrow> json \<Rightarrow> gql_out" where
  "not_null p res = (if res = JNull then null_with [(p, null_error)] else marshaled res)"

definition not_nil :: "gql_path \<Rightarrow> 'a option \<Rightarrow> ('a \<Rightarrow> gql_out) \<Rightarrow> gql_out" where
  "not_nil p v run = (case v of None \<Rightarrow> null_with [(p, null_error)] | Some x \<Rightarrow> run x)"

definition nil_null :: "'a option \<Rightarrow> ('a \<Rightarrow> gql_out) \<Rightarrow> gql_out" where
  "nil_null v run = (case v of None \<Rightarrow> marshaled JNull | Some x \<Rightarrow> run x)"

text \<open>
  A list whose elements must not be null. An element that panics empties the list; with one selection
  all elements panic or none.
\<close>

definition marshal_list :: "gql_lib \<Rightarrow> gql_path \<Rightarrow> (gql_path \<Rightarrow> 'a \<Rightarrow> gql_out) \<Rightarrow> 'a list \<Rightarrow> gql_out" where
  "marshal_list L p marshal xs =
     (let raw = map (\<lambda>i. (p @ [PathIndex i], marshal (p @ [PathIndex i]) (xs ! i))) [0..<length xs];
          outs = map (\<lambda>(q, out). recovered L q out) raw
      in \<lparr>go_Value = (if \<exists>(q, out) \<in> set raw. go_Panic out \<noteq> None then JArr []
            else if \<exists>out \<in> set outs. go_Value out = JNull then JNull else JArr (map go_Value outs)),
          go_Errors = concat (map go_Errors outs), go_Deferred = concat (map go_Deferred outs), go_Panic = None\<rparr>)"

text \<open>
  How an object executes a selected field: at once or concurrently, and whether null makes the object
  invalid. The fields of the root run concurrently and are never deferred. A name that is not a field of the
  type panics.
\<close>

datatype field_run =
    Sync bool gql_out
  | Concurrent bool gql_out
  | Rooted bool gql_out
  | UnknownField

type_synonym runs = "(collected_field \<times> field_run) list"

fun run_out :: "field_run \<Rightarrow> gql_out" where
  "run_out (Sync _ out) = out"
| "run_out (Concurrent _ out) = out"
| "run_out (Rooted _ out) = out"
| "run_out UnknownField = null_with []"

fun run_deferred :: "collected_field \<times> field_run \<Rightarrow> string option" where
  "run_deferred (f, Concurrent _ _) = fl_Deferrable f"
| "run_deferred (f, _) = None"

fun is_sync :: "field_run \<Rightarrow> bool" where
  "is_sync (Sync _ _) = True"
| "is_sync _ = False"

fun run_invalid :: "field_run \<Rightarrow> bool" where
  "run_invalid (Sync nn out) = (nn \<and> go_Value out = JNull)"
| "run_invalid (Concurrent nn out) = (nn \<and> go_Value out = JNull)"
| "run_invalid (Rooted nn out) = (nn \<and> go_Value out = JNull)"
| "run_invalid UnknownField = False"

definition run_members :: "runs \<Rightarrow> (string \<times> json) list" where
  "run_members fs = map (\<lambda>(f, r). (fl_Alias f, go_Value (run_out r))) fs"

definition run_errors :: "runs \<Rightarrow> gql_error list" where
  "run_errors fs = concat (map (\<lambda>(_, r). go_Errors (run_out r)) fs)"

definition run_groups :: "runs \<Rightarrow> deferred_result list" where
  "run_groups fs = concat (map (\<lambda>(_, r). go_Deferred (run_out r)) fs)"

text \<open>The groups of an object that is valid, each with the groups of its fields.\<close>

definition deferred_groups :: "gql_path \<Rightarrow> runs \<Rightarrow> deferred_result list" where
  "deferred_groups p fs = concat (map (\<lambda>label.
       let gs = filter (\<lambda>fr. run_deferred fr = Some label) fs
       in \<lparr>dr_Path = p, dr_Label = label,
           dr_Result = (if \<exists>(f, r) \<in> set gs. run_invalid r then JNull else JObj (run_members gs)),
           dr_Errors = run_errors gs\<rparr> # run_groups gs)
     (remdups (concat (map (\<lambda>fr. case run_deferred fr of Some l \<Rightarrow> [l] | None \<Rightarrow> []) fs))))"

text \<open>
  The object: the fields that run at once, then the concurrent ones, and null when a field is invalid. A
  deferred field is null in its place and belongs to its group.
\<close>

definition object_result :: "gql_path \<Rightarrow> runs \<Rightarrow> gql_out" where
  "object_result p fs =
     (let pre = takeWhile (\<lambda>(_, r). r \<noteq> UnknownField) fs;
          sync = filter (\<lambda>(_, r). is_sync r) pre
      in if pre \<noteq> fs
         then panicking (run_errors sync) (run_groups sync)
           (EPanic (''unknown field '' @ quote (fl_Name (fst (fs ! length pre)))))
         else let now = filter (\<lambda>fr. run_deferred fr = None) fs;
                  conc = filter (\<lambda>(_, r). \<not> is_sync r) now;
                  invalid = (\<exists>(_, r) \<in> set now. run_invalid r)
              in \<lparr>go_Value = (if invalid then JNull else JObj (map (\<lambda>(f, r).
                      (fl_Alias f, if run_deferred (f, r) = None then go_Value (run_out r) else JNull)) fs)),
                  go_Errors = run_errors sync @ run_errors conc,
                  go_Deferred = run_groups sync @ run_groups conc @ (if invalid then [] else deferred_groups p fs),
                  go_Panic = None\<rparr>)"

end
