(* ===== verification/GraphMarshal.thy ===== *)
theory GraphMarshal
  imports GraphRuntime
begin

text \<open>
  The environment of an execution and the functions of \<open>reader/graph/generated.go\<close> that read arguments
  (\<open>unmarshalN...\<close>, \<open>unmarshalO...\<close>, \<open>unmarshalInput...\<close>, \<open>field_..._args\<close>) and write values
  (\<open>marshalN...\<close>, \<open>marshalO...\<close>). The names are those of the source without the Go type behind the 2, \<open>_list\<close> for
  a slice and a single underscore for the two of the introspection types.
\<close>

section \<open>The environment\<close>

text \<open>
  The objects that a selection set is executed on. The values of the introspection package are opaque.
\<close>

datatype 'i gql_obj =
    OQuery
  | OInput gql_Input
  | OInputConnection "gql_Input Connection"
  | OInputEdge "gql_Input Edge"
  | ONotice gql_Notice
  | ONoticeConnection "gql_Notice Connection"
  | ONoticeEdge "gql_Notice Edge"
  | OReport gql_Report
  | OReportConnection "gql_Report Connection"
  | OReportEdge "gql_Report Edge"
  | OVoucher gql_Voucher
  | OVoucherConnection "gql_Voucher Connection"
  | OVoucherEdge "gql_Voucher Edge"
  | OPageInfo PageInfo
  | OProof gql_Proof
  | OSchema 'i
  | OType 'i
  | OField 'i
  | OInputValue 'i
  | OEnumValue 'i
  | ODirective 'i

text \<open>The execution of what is selected of a field on its value, at a path.\<close>

type_synonym 'i runner = "'i gql_obj \<Rightarrow> gql_path \<Rightarrow> gql_out"

text \<open>
  The resolvers. They only read, and run concurrently: what a call returns may depend on the path of its field.
  A nil pointer is \<open>None\<close>; so is a list of filters that holds a nil pointer somewhere.
\<close>

record ResolverRoot =
  rs_Input_Voucher :: "gql_path \<Rightarrow> gql_Input \<Rightarrow> int \<Rightarrow> gql_Voucher option res"
  rs_Input_Notice :: "gql_path \<Rightarrow> gql_Input \<Rightarrow> int \<Rightarrow> gql_Notice option res"
  rs_Input_Report :: "gql_path \<Rightarrow> gql_Input \<Rightarrow> int \<Rightarrow> gql_Report option res"
  rs_Input_Vouchers :: "gql_path \<Rightarrow> gql_Input \<Rightarrow> int option \<Rightarrow> int option \<Rightarrow> string option \<Rightarrow> string option \<Rightarrow>
    gql_Voucher Connection option res"
  rs_Input_Notices :: "gql_path \<Rightarrow> gql_Input \<Rightarrow> int option \<Rightarrow> int option \<Rightarrow> string option \<Rightarrow> string option \<Rightarrow>
    gql_Notice Connection option res"
  rs_Input_Reports :: "gql_path \<Rightarrow> gql_Input \<Rightarrow> int option \<Rightarrow> int option \<Rightarrow> string option \<Rightarrow> string option \<Rightarrow>
    gql_Report Connection option res"
  rs_Notice_Input :: "gql_path \<Rightarrow> gql_Notice \<Rightarrow> gql_Input option res"
  rs_Notice_Proof :: "gql_path \<Rightarrow> gql_Notice \<Rightarrow> gql_Proof option res"
  rs_Query_Input :: "gql_path \<Rightarrow> int \<Rightarrow> gql_Input option res"
  rs_Query_Voucher :: "gql_path \<Rightarrow> int \<Rightarrow> int \<Rightarrow> gql_Voucher option res"
  rs_Query_Notice :: "gql_path \<Rightarrow> int \<Rightarrow> int \<Rightarrow> gql_Notice option res"
  rs_Query_Report :: "gql_path \<Rightarrow> int \<Rightarrow> int \<Rightarrow> gql_Report option res"
  rs_Query_Inputs :: "gql_path \<Rightarrow> int option \<Rightarrow> int option \<Rightarrow> string option \<Rightarrow> string option \<Rightarrow>
    gql_InputFilter option \<Rightarrow> gql_Input Connection option res"
  rs_Query_Vouchers :: "gql_path \<Rightarrow> int option \<Rightarrow> int option \<Rightarrow> string option \<Rightarrow> string option \<Rightarrow>
    ConvenientFilter list option \<Rightarrow> gql_Voucher Connection option res"
  rs_Query_Notices :: "gql_path \<Rightarrow> int option \<Rightarrow> int option \<Rightarrow> string option \<Rightarrow> string option \<Rightarrow>
    gql_Notice Connection option res"
  rs_Query_Reports :: "gql_path \<Rightarrow> int option \<Rightarrow> int option \<Rightarrow> string option \<Rightarrow> string option \<Rightarrow>
    gql_Report Connection option res"
  rs_Report_Input :: "gql_path \<Rightarrow> gql_Report \<Rightarrow> gql_Input option res"
  rs_Voucher_Input :: "gql_path \<Rightarrow> gql_Voucher \<Rightarrow> gql_Input option res"
  rs_Voucher_Proof :: "gql_path \<Rightarrow> gql_Voucher \<Rightarrow> gql_Proof option res"

text \<open>The package \<open>introspection\<close>: the schema wrapped for it, and the fields and methods of its types.\<close>

record 'i introspection =
  in_WrapSchema :: 'i
  in_WrapTypeFromDef :: "string \<Rightarrow> 'i option"
  in_Directive_Name :: "'i \<Rightarrow> string"
  in_Directive_Description :: "'i \<Rightarrow> string option"
  in_Directive_Locations :: "'i \<Rightarrow> string list"
  in_Directive_Args :: "'i \<Rightarrow> 'i list"
  in_Directive_IsRepeatable :: "'i \<Rightarrow> bool"
  in_EnumValue_Name :: "'i \<Rightarrow> string"
  in_EnumValue_Description :: "'i \<Rightarrow> string option"
  in_EnumValue_IsDeprecated :: "'i \<Rightarrow> bool"
  in_EnumValue_DeprecationReason :: "'i \<Rightarrow> string option"
  in_Field_Name :: "'i \<Rightarrow> string"
  in_Field_Description :: "'i \<Rightarrow> string option"
  in_Field_Args :: "'i \<Rightarrow> 'i list"
  in_Field_Type :: "'i \<Rightarrow> 'i option"
  in_Field_IsDeprecated :: "'i \<Rightarrow> bool"
  in_Field_DeprecationReason :: "'i \<Rightarrow> string option"
  in_InputValue_Name :: "'i \<Rightarrow> string"
  in_InputValue_Description :: "'i \<Rightarrow> string option"
  in_InputValue_Type :: "'i \<Rightarrow> 'i option"
  in_InputValue_DefaultValue :: "'i \<Rightarrow> string option"
  in_Schema_Description :: "'i \<Rightarrow> string option"
  in_Schema_Types :: "'i \<Rightarrow> 'i list"
  in_Schema_QueryType :: "'i \<Rightarrow> 'i option"
  in_Schema_MutationType :: "'i \<Rightarrow> 'i option"
  in_Schema_SubscriptionType :: "'i \<Rightarrow> 'i option"
  in_Schema_Directives :: "'i \<Rightarrow> 'i list"
  in_Type_Kind :: "'i \<Rightarrow> string"
  in_Type_Name :: "'i \<Rightarrow> string option"
  in_Type_Description :: "'i \<Rightarrow> string option"
  in_Type_Fields :: "'i \<Rightarrow> bool \<Rightarrow> 'i list option"
  in_Type_Interfaces :: "'i \<Rightarrow> 'i list option"
  in_Type_PossibleTypes :: "'i \<Rightarrow> 'i list option"
  in_Type_EnumValues :: "'i \<Rightarrow> bool \<Rightarrow> 'i list option"
  in_Type_InputFields :: "'i \<Rightarrow> 'i list option"
  in_Type_OfType :: "'i \<Rightarrow> 'i option"
  in_Type_SpecifiedByURL :: "'i \<Rightarrow> string option"

record 'i execution =
  ec_lib :: gql_lib
  ec_resolvers :: ResolverRoot
  ec_introspection :: "'i introspection"
  ec_DisableIntrospection :: bool

definition introspectSchema :: "'i execution \<Rightarrow> 'i option res" where
  "introspectSchema ec = (if ec_DisableIntrospection ec then Inl (EMsg ''introspection disabled'')
     else Inr (Some (in_WrapSchema (ec_introspection ec))))"

definition introspectType :: "'i execution \<Rightarrow> string \<Rightarrow> 'i option res" where
  "introspectType ec name = (if ec_DisableIntrospection ec then Inl (EMsg ''introspection disabled'')
     else Inr (in_WrapTypeFromDef (ec_introspection ec) name))"

section \<open>Reading arguments\<close>

definition unmarshalNInt :: "gql_lib \<Rightarrow> gql_path \<Rightarrow> json \<Rightarrow> int gres" where
  "unmarshalNInt L p v = on_path p (gq_UnmarshalInt L v)"

definition unmarshalNString :: "gql_lib \<Rightarrow> gql_path \<Rightarrow> json \<Rightarrow> string gres" where
  "unmarshalNString L p v = on_path p (gq_UnmarshalString L v)"

definition unmarshalOBoolean :: "gql_lib \<Rightarrow> gql_path \<Rightarrow> json \<Rightarrow> bool gres" where
  "unmarshalOBoolean L p v = on_path p (gq_UnmarshalBoolean L v)"

text \<open>A pointer: nil for null.\<close>

definition nil_or :: "(json \<Rightarrow> 'a gres) \<Rightarrow> json \<Rightarrow> 'a option gres" where
  "nil_or un v = (if v = JNull then Inr None else gbind (un v) (\<lambda>x. Inr (Some x)))"

definition unmarshalOInt :: "gql_lib \<Rightarrow> gql_path \<Rightarrow> json \<Rightarrow> int option gres" where
  "unmarshalOInt L p = nil_or (\<lambda>v. on_path p (gq_UnmarshalInt L v))"

definition unmarshalOString :: "gql_lib \<Rightarrow> gql_path \<Rightarrow> json \<Rightarrow> string option gres" where
  "unmarshalOString L p = nil_or (\<lambda>v. on_path p (gq_UnmarshalString L v))"

definition unmarshalOBoolean_ptr :: "gql_lib \<Rightarrow> gql_path \<Rightarrow> json \<Rightarrow> bool option gres" where
  "unmarshalOBoolean_ptr L p = nil_or (\<lambda>v. on_path p (gq_UnmarshalBoolean L v))"

fun gmap_from :: "nat \<Rightarrow> (nat \<Rightarrow> 'a \<Rightarrow> 'b gres) \<Rightarrow> 'a list \<Rightarrow> 'b list gres" where
  "gmap_from i f [] = Inr []"
| "gmap_from i f (x # xs) = gbind (f i x) (\<lambda>y. gbind (gmap_from (Suc i) f xs) (\<lambda>ys. Inr (y # ys)))"

text \<open>Null is a nil slice, which is read as an empty one.\<close>

definition unmarshalOString_list :: "gql_lib \<Rightarrow> gql_path \<Rightarrow> json \<Rightarrow> string option list gres" where
  "unmarshalOString_list L p v = (if v = JNull then Inr []
     else gmap_from 0 (\<lambda>i. unmarshalOString L (p @ [PathIndex i])) (gq_CoerceList L v))"

text \<open>The type assertion to a map, which panics.\<close>

definition as_map :: "gql_path \<Rightarrow> json \<Rightarrow> (string \<times> json) list gres" where
  "as_map p v = (case v of JObj kvs \<Rightarrow> Inr kvs | _ \<Rightarrow> Inl (p, EPanic ''interface conversion''))"

definition unmarshalInputInputFilter :: "gql_lib \<Rightarrow> gql_path \<Rightarrow> json \<Rightarrow> gql_InputFilter gres" where
  "unmarshalInputInputFilter L p v =
     gbind (as_map p v) (\<lambda>asMap.
     gbind (arg_value asMap p ''indexLowerThan'' None (unmarshalOInt L)) (\<lambda>lower.
     gbind (arg_value asMap p ''indexGreaterThan'' None (unmarshalOInt L)) (\<lambda>greater.
     gbind (arg_value asMap p ''msgSender'' None (unmarshalOString L)) (\<lambda>sender.
     Inr \<lparr>if_IndexLowerThan = lower, if_IndexGreaterThan = greater, if_MsgSender = sender\<rparr>))))"

definition unmarshalOInputFilter :: "gql_lib \<Rightarrow> gql_path \<Rightarrow> json \<Rightarrow> gql_InputFilter option gres" where
  "unmarshalOInputFilter L p = nil_or (unmarshalInputInputFilter L p)"

text \<open>
  The filters, with the reader of nested lists of filters as an argument. \<open>None\<close> stands for a list that holds
  a nil pointer, at any depth.
\<close>

type_synonym filters_reader = "gql_path \<Rightarrow> json \<Rightarrow> ConvenientFilter list option gres"

definition unmarshalInputAddressFilterInput ::
  "gql_lib \<Rightarrow> filters_reader \<Rightarrow> gql_path \<Rightarrow> json \<Rightarrow> AddressFilterInput option gres" where
  "unmarshalInputAddressFilterInput L filters p v =
     gbind (as_map p v) (\<lambda>asMap.
     gbind (arg_value asMap p ''eq'' None (unmarshalOString L)) (\<lambda>eq.
     gbind (arg_value asMap p ''ne'' None (unmarshalOString L)) (\<lambda>ne.
     gbind (arg_value asMap p ''in'' [] (unmarshalOString_list L)) (\<lambda>in'.
     gbind (arg_value asMap p ''nin'' [] (unmarshalOString_list L)) (\<lambda>nin.
     gbind (arg_value asMap p ''and'' (Some []) filters) (\<lambda>ands.
     gbind (arg_value asMap p ''or'' (Some []) filters) (\<lambda>ors.
     Inr (case (ands, ors) of
         (Some a, Some o') \<Rightarrow> Some (AddressFilterInput eq ne in' nin a o')
       | _ \<Rightarrow> None))))))))"

definition unmarshalInputBooleanFilterInput ::
  "gql_lib \<Rightarrow> filters_reader \<Rightarrow> gql_path \<Rightarrow> json \<Rightarrow> BooleanFilterInput option gres" where
  "unmarshalInputBooleanFilterInput L filters p v =
     gbind (as_map p v) (\<lambda>asMap.
     gbind (arg_value asMap p ''eq'' None (unmarshalOBoolean_ptr L)) (\<lambda>eq.
     gbind (arg_value asMap p ''ne'' None (unmarshalOBoolean_ptr L)) (\<lambda>ne.
     gbind (arg_value asMap p ''and'' (Some []) filters) (\<lambda>ands.
     gbind (arg_value asMap p ''or'' (Some []) filters) (\<lambda>ors.
     Inr (case (ands, ors) of
         (Some a, Some o') \<Rightarrow> Some (BooleanFilterInput eq ne a o')
       | _ \<Rightarrow> None))))))"

definition unmarshalOAddressFilterInput ::
  "gql_lib \<Rightarrow> filters_reader \<Rightarrow> gql_path \<Rightarrow> json \<Rightarrow> AddressFilterInput option option gres" where
  "unmarshalOAddressFilterInput L filters p v =
     (if v = JNull then Inr (Some None)
      else gbind (unmarshalInputAddressFilterInput L filters p v) (\<lambda>x. Inr (map_option Some x)))"

definition unmarshalOBooleanFilterInput ::
  "gql_lib \<Rightarrow> filters_reader \<Rightarrow> gql_path \<Rightarrow> json \<Rightarrow> BooleanFilterInput option option gres" where
  "unmarshalOBooleanFilterInput L filters p v =
     (if v = JNull then Inr (Some None)
      else gbind (unmarshalInputBooleanFilterInput L filters p v) (\<lambda>x. Inr (map_option Some x)))"

text \<open>A null in the place of a filter is a nil pointer.\<close>

definition unmarshalOConvenientFilter ::
  "(gql_path \<Rightarrow> json \<Rightarrow> ConvenientFilter option gres) \<Rightarrow> gql_path \<Rightarrow> json \<Rightarrow> ConvenientFilter option gres" where
  "unmarshalOConvenientFilter read p v = (if v = JNull then Inr None else read p v)"

definition all_or_none :: "'a option list \<Rightarrow> 'a list option" where
  "all_or_none xs = (if None \<in> set xs then None else Some (map the xs))"

definition unmarshalOConvenientFilter_elems ::
  "gql_lib \<Rightarrow> (gql_path \<Rightarrow> json \<Rightarrow> ConvenientFilter option gres) \<Rightarrow> filters_reader" where
  "unmarshalOConvenientFilter_elems L read p v = (if v = JNull then Inr (Some [])
     else gbind (gmap_from 0 (\<lambda>i. unmarshalOConvenientFilter read (p @ [PathIndex i])) (gq_CoerceList L v)) (\<lambda>xs.
       Inr (all_or_none xs)))"

text \<open>The depth of the filter bounds the recursion: every filter in it is inside its object.\<close>

primrec unmarshalInputConvenientFilter ::
  "gql_lib \<Rightarrow> nat \<Rightarrow> gql_path \<Rightarrow> json \<Rightarrow> ConvenientFilter option gres" where
  "unmarshalInputConvenientFilter L 0 p v = Inl (p, EMsg ''out of fuel'')"
| "unmarshalInputConvenientFilter L (Suc depth) p v =
     (let filters = unmarshalOConvenientFilter_elems L (unmarshalInputConvenientFilter L depth)
      in gbind (as_map p v) (\<lambda>asMap.
         gbind (arg_value asMap p ''destination'' (Some None) (unmarshalOAddressFilterInput L filters)) (\<lambda>destination.
         gbind (arg_value asMap p ''executed'' (Some None) (unmarshalOBooleanFilterInput L filters)) (\<lambda>executed.
         gbind (arg_value asMap p ''and'' (Some []) filters) (\<lambda>ands.
         gbind (arg_value asMap p ''or'' (Some []) filters) (\<lambda>ors.
         Inr (case (destination, executed, ands, ors) of
             (Some d, Some e, Some a, Some o') \<Rightarrow> Some (ConvenientFilter d e a o')
           | _ \<Rightarrow> None)))))))"

definition unmarshalOConvenientFilter_list :: "gql_lib \<Rightarrow> filters_reader" where
  "unmarshalOConvenientFilter_list L p v =
     unmarshalOConvenientFilter_elems L (unmarshalInputConvenientFilter L (Suc (json_depth v))) p v"

section \<open>The arguments of the fields\<close>

definition field_Input_notice_args ::
  "gql_lib \<Rightarrow> gql_path \<Rightarrow> (string \<times> json) list \<Rightarrow> int gres" where
  "field_Input_notice_args L p rawArgs =
     gbind (arg_value rawArgs p ''index'' 0 (unmarshalNInt L)) (\<lambda>arg0.
     Inr arg0)"

definition field_Input_notices_args ::
  "gql_lib \<Rightarrow> gql_path \<Rightarrow> (string \<times> json) list \<Rightarrow> (int option \<times> int option \<times> string option \<times> string option) gres" where
  "field_Input_notices_args L p rawArgs =
     gbind (arg_value rawArgs p ''first'' None (unmarshalOInt L)) (\<lambda>arg0.
     gbind (arg_value rawArgs p ''last'' None (unmarshalOInt L)) (\<lambda>arg1.
     gbind (arg_value rawArgs p ''after'' None (unmarshalOString L)) (\<lambda>arg2.
     gbind (arg_value rawArgs p ''before'' None (unmarshalOString L)) (\<lambda>arg3.
     Inr (arg0, arg1, arg2, arg3)))))"

definition field_Input_report_args ::
  "gql_lib \<Rightarrow> gql_path \<Rightarrow> (string \<times> json) list \<Rightarrow> int gres" where
  "field_Input_report_args L p rawArgs =
     gbind (arg_value rawArgs p ''index'' 0 (unmarshalNInt L)) (\<lambda>arg0.
     Inr arg0)"

definition field_Input_reports_args ::
  "gql_lib \<Rightarrow> gql_path \<Rightarrow> (string \<times> json) list \<Rightarrow> (int option \<times> int option \<times> string option \<times> string option) gres" where
  "field_Input_reports_args L p rawArgs =
     gbind (arg_value rawArgs p ''first'' None (unmarshalOInt L)) (\<lambda>arg0.
     gbind (arg_value rawArgs p ''last'' None (unmarshalOInt L)) (\<lambda>arg1.
     gbind (arg_value rawArgs p ''after'' None (unmarshalOString L)) (\<lambda>arg2.
     gbind (arg_value rawArgs p ''before'' None (unmarshalOString L)) (\<lambda>arg3.
     Inr (arg0, arg1, arg2, arg3)))))"

definition field_Input_voucher_args ::
  "gql_lib \<Rightarrow> gql_path \<Rightarrow> (string \<times> json) list \<Rightarrow> int gres" where
  "field_Input_voucher_args L p rawArgs =
     gbind (arg_value rawArgs p ''index'' 0 (unmarshalNInt L)) (\<lambda>arg0.
     Inr arg0)"

definition field_Input_vouchers_args ::
  "gql_lib \<Rightarrow> gql_path \<Rightarrow> (string \<times> json) list \<Rightarrow> (int option \<times> int option \<times> string option \<times> string option) gres" where
  "field_Input_vouchers_args L p rawArgs =
     gbind (arg_value rawArgs p ''first'' None (unmarshalOInt L)) (\<lambda>arg0.
     gbind (arg_value rawArgs p ''last'' None (unmarshalOInt L)) (\<lambda>arg1.
     gbind (arg_value rawArgs p ''after'' None (unmarshalOString L)) (\<lambda>arg2.
     gbind (arg_value rawArgs p ''before'' None (unmarshalOString L)) (\<lambda>arg3.
     Inr (arg0, arg1, arg2, arg3)))))"

definition field_Query_introspectType_args ::
  "gql_lib \<Rightarrow> gql_path \<Rightarrow> (string \<times> json) list \<Rightarrow> string gres" where
  "field_Query_introspectType_args L p rawArgs =
     gbind (arg_value rawArgs p ''name'' [] (unmarshalNString L)) (\<lambda>arg0.
     Inr arg0)"

definition field_Query_input_args ::
  "gql_lib \<Rightarrow> gql_path \<Rightarrow> (string \<times> json) list \<Rightarrow> int gres" where
  "field_Query_input_args L p rawArgs =
     gbind (arg_value rawArgs p ''index'' 0 (unmarshalNInt L)) (\<lambda>arg0.
     Inr arg0)"

definition field_Query_inputs_args ::
  "gql_lib \<Rightarrow> gql_path \<Rightarrow> (string \<times> json) list \<Rightarrow> (int option \<times> int option \<times> string option \<times> string option \<times> gql_InputFilter option) gres" where
  "field_Query_inputs_args L p rawArgs =
     gbind (arg_value rawArgs p ''first'' None (unmarshalOInt L)) (\<lambda>arg0.
     gbind (arg_value rawArgs p ''last'' None (unmarshalOInt L)) (\<lambda>arg1.
     gbind (arg_value rawArgs p ''after'' None (unmarshalOString L)) (\<lambda>arg2.
     gbind (arg_value rawArgs p ''before'' None (unmarshalOString L)) (\<lambda>arg3.
     gbind (arg_value rawArgs p ''where'' None (unmarshalOInputFilter L)) (\<lambda>arg4.
     Inr (arg0, arg1, arg2, arg3, arg4))))))"

definition field_Query_notice_args ::
  "gql_lib \<Rightarrow> gql_path \<Rightarrow> (string \<times> json) list \<Rightarrow> (int \<times> int) gres" where
  "field_Query_notice_args L p rawArgs =
     gbind (arg_value rawArgs p ''noticeIndex'' 0 (unmarshalNInt L)) (\<lambda>arg0.
     gbind (arg_value rawArgs p ''inputIndex'' 0 (unmarshalNInt L)) (\<lambda>arg1.
     Inr (arg0, arg1)))"

definition field_Query_notices_args ::
  "gql_lib \<Rightarrow> gql_path \<Rightarrow> (string \<times> json) list \<Rightarrow> (int option \<times> int option \<times> string option \<times> string option) gres" where
  "field_Query_notices_args L p rawArgs =
     gbind (arg_value rawArgs p ''first'' None (unmarshalOInt L)) (\<lambda>arg0.
     gbind (arg_value rawArgs p ''last'' None (unmarshalOInt L)) (\<lambda>arg1.
     gbind (arg_value rawArgs p ''after'' None (unmarshalOString L)) (\<lambda>arg2.
     gbind (arg_value rawArgs p ''before'' None (unmarshalOString L)) (\<lambda>arg3.
     Inr (arg0, arg1, arg2, arg3)))))"

definition field_Query_report_args ::
  "gql_lib \<Rightarrow> gql_path \<Rightarrow> (string \<times> json) list \<Rightarrow> (int \<times> int) gres" where
  "field_Query_report_args L p rawArgs =
     gbind (arg_value rawArgs p ''reportIndex'' 0 (unmarshalNInt L)) (\<lambda>arg0.
     gbind (arg_value rawArgs p ''inputIndex'' 0 (unmarshalNInt L)) (\<lambda>arg1.
     Inr (arg0, arg1)))"

definition field_Query_reports_args ::
  "gql_lib \<Rightarrow> gql_path \<Rightarrow> (string \<times> json) list \<Rightarrow> (int option \<times> int option \<times> string option \<times> string option) gres" where
  "field_Query_reports_args L p rawArgs =
     gbind (arg_value rawArgs p ''first'' None (unmarshalOInt L)) (\<lambda>arg0.
     gbind (arg_value rawArgs p ''last'' None (unmarshalOInt L)) (\<lambda>arg1.
     gbind (arg_value rawArgs p ''after'' None (unmarshalOString L)) (\<lambda>arg2.
     gbind (arg_value rawArgs p ''before'' None (unmarshalOString L)) (\<lambda>arg3.
     Inr (arg0, arg1, arg2, arg3)))))"

definition field_Query_voucher_args ::
  "gql_lib \<Rightarrow> gql_path \<Rightarrow> (string \<times> json) list \<Rightarrow> (int \<times> int) gres" where
  "field_Query_voucher_args L p rawArgs =
     gbind (arg_value rawArgs p ''voucherIndex'' 0 (unmarshalNInt L)) (\<lambda>arg0.
     gbind (arg_value rawArgs p ''inputIndex'' 0 (unmarshalNInt L)) (\<lambda>arg1.
     Inr (arg0, arg1)))"

definition field_Query_vouchers_args ::
  "gql_lib \<Rightarrow> gql_path \<Rightarrow> (string \<times> json) list \<Rightarrow> (int option \<times> int option \<times> string option \<times> string option \<times> ConvenientFilter list option) gres" where
  "field_Query_vouchers_args L p rawArgs =
     gbind (arg_value rawArgs p ''first'' None (unmarshalOInt L)) (\<lambda>arg0.
     gbind (arg_value rawArgs p ''last'' None (unmarshalOInt L)) (\<lambda>arg1.
     gbind (arg_value rawArgs p ''after'' None (unmarshalOString L)) (\<lambda>arg2.
     gbind (arg_value rawArgs p ''before'' None (unmarshalOString L)) (\<lambda>arg3.
     gbind (arg_value rawArgs p ''filter'' (Some []) (unmarshalOConvenientFilter_list L)) (\<lambda>arg4.
     Inr (arg0, arg1, arg2, arg3, arg4))))))"

definition field_Type_enumValues_args ::
  "gql_lib \<Rightarrow> gql_path \<Rightarrow> (string \<times> json) list \<Rightarrow> bool gres" where
  "field_Type_enumValues_args L p rawArgs =
     gbind (arg_value rawArgs p ''includeDeprecated'' False (unmarshalOBoolean L)) (\<lambda>arg0.
     Inr arg0)"

definition field_Type_fields_args ::
  "gql_lib \<Rightarrow> gql_path \<Rightarrow> (string \<times> json) list \<Rightarrow> bool gres" where
  "field_Type_fields_args L p rawArgs =
     gbind (arg_value rawArgs p ''includeDeprecated'' False (unmarshalOBoolean L)) (\<lambda>arg0.
     Inr arg0)"

section \<open>Writing values\<close>

definition marshalNInt :: "gql_lib \<Rightarrow> gql_path \<Rightarrow> int \<Rightarrow> gql_out" where
  "marshalNInt L p v = not_null p (gq_MarshalInt L v)"

definition marshalNString :: "gql_lib \<Rightarrow> gql_path \<Rightarrow> string \<Rightarrow> gql_out" where
  "marshalNString L p v = not_null p (gq_MarshalString L v)"

definition marshalNBigInt :: "gql_lib \<Rightarrow> gql_path \<Rightarrow> string \<Rightarrow> gql_out" where
  "marshalNBigInt L p v = not_null p (gq_MarshalString L v)"

definition marshalNID :: "gql_lib \<Rightarrow> gql_path \<Rightarrow> string \<Rightarrow> gql_out" where
  "marshalNID L p v = not_null p (gq_MarshalID L v)"

definition marshalNBoolean :: "gql_lib \<Rightarrow> gql_path \<Rightarrow> bool \<Rightarrow> gql_out" where
  "marshalNBoolean L p v = not_null p (gq_MarshalBoolean L v)"

text \<open>The value marshals itself, as a quoted name.\<close>

definition marshalNCompletionStatus :: "gql_lib \<Rightarrow> gql_path \<Rightarrow> string \<Rightarrow> gql_out" where
  "marshalNCompletionStatus L p v = marshaled (JStr v)"

definition marshalOBoolean :: "gql_lib \<Rightarrow> gql_path \<Rightarrow> bool \<Rightarrow> gql_out" where
  "marshalOBoolean L p v = marshaled (gq_MarshalBoolean L v)"

definition marshalOString :: "gql_lib \<Rightarrow> gql_path \<Rightarrow> string option \<Rightarrow> gql_out" where
  "marshalOString L p v = nil_null v (\<lambda>x. marshaled (gq_MarshalString L x))"

definition marshalNString_list :: "gql_lib \<Rightarrow> gql_path \<Rightarrow> string option list \<Rightarrow> gql_out" where
  "marshalNString_list L p v = marshaled (JArr (map (\<lambda>x. go_Value (marshalOString L p x)) v))"

definition marshalNInput :: "gql_lib \<Rightarrow> 'i runner \<Rightarrow> gql_path \<Rightarrow> gql_Input option \<Rightarrow> gql_out" where
  "marshalNInput L child p v = not_nil p v (\<lambda>x. child (OInput x) p)"

definition marshalNInputConnection ::
  "gql_lib \<Rightarrow> 'i runner \<Rightarrow> gql_path \<Rightarrow> gql_Input Connection option \<Rightarrow> gql_out" where
  "marshalNInputConnection L child p v = not_nil p v (\<lambda>x. child (OInputConnection x) p)"

definition marshalNInputEdge :: "gql_lib \<Rightarrow> 'i runner \<Rightarrow> gql_path \<Rightarrow> gql_Input Edge option \<Rightarrow> gql_out" where
  "marshalNInputEdge L child p v = not_nil p v (\<lambda>x. child (OInputEdge x) p)"

definition marshalNInputEdge_list :: "gql_lib \<Rightarrow> 'i runner \<Rightarrow> gql_path \<Rightarrow> gql_Input Edge list \<Rightarrow> gql_out" where
  "marshalNInputEdge_list L child p v = marshal_list L p (\<lambda>q x. marshalNInputEdge L child q (Some x)) v"

definition marshalNNotice :: "gql_lib \<Rightarrow> 'i runner \<Rightarrow> gql_path \<Rightarrow> gql_Notice option \<Rightarrow> gql_out" where
  "marshalNNotice L child p v = not_nil p v (\<lambda>x. child (ONotice x) p)"

definition marshalNNoticeConnection ::
  "gql_lib \<Rightarrow> 'i runner \<Rightarrow> gql_path \<Rightarrow> gql_Notice Connection option \<Rightarrow> gql_out" where
  "marshalNNoticeConnection L child p v = not_nil p v (\<lambda>x. child (ONoticeConnection x) p)"

definition marshalNNoticeEdge :: "gql_lib \<Rightarrow> 'i runner \<Rightarrow> gql_path \<Rightarrow> gql_Notice Edge option \<Rightarrow> gql_out" where
  "marshalNNoticeEdge L child p v = not_nil p v (\<lambda>x. child (ONoticeEdge x) p)"

definition marshalNNoticeEdge_list :: "gql_lib \<Rightarrow> 'i runner \<Rightarrow> gql_path \<Rightarrow> gql_Notice Edge list \<Rightarrow> gql_out" where
  "marshalNNoticeEdge_list L child p v = marshal_list L p (\<lambda>q x. marshalNNoticeEdge L child q (Some x)) v"

definition marshalNReport :: "gql_lib \<Rightarrow> 'i runner \<Rightarrow> gql_path \<Rightarrow> gql_Report option \<Rightarrow> gql_out" where
  "marshalNReport L child p v = not_nil p v (\<lambda>x. child (OReport x) p)"

definition marshalNReportConnection ::
  "gql_lib \<Rightarrow> 'i runner \<Rightarrow> gql_path \<Rightarrow> gql_Report Connection option \<Rightarrow> gql_out" where
  "marshalNReportConnection L child p v = not_nil p v (\<lambda>x. child (OReportConnection x) p)"

definition marshalNReportEdge :: "gql_lib \<Rightarrow> 'i runner \<Rightarrow> gql_path \<Rightarrow> gql_Report Edge option \<Rightarrow> gql_out" where
  "marshalNReportEdge L child p v = not_nil p v (\<lambda>x. child (OReportEdge x) p)"

definition marshalNReportEdge_list :: "gql_lib \<Rightarrow> 'i runner \<Rightarrow> gql_path \<Rightarrow> gql_Report Edge list \<Rightarrow> gql_out" where
  "marshalNReportEdge_list L child p v = marshal_list L p (\<lambda>q x. marshalNReportEdge L child q (Some x)) v"

definition marshalNVoucher :: "gql_lib \<Rightarrow> 'i runner \<Rightarrow> gql_path \<Rightarrow> gql_Voucher option \<Rightarrow> gql_out" where
  "marshalNVoucher L child p v = not_nil p v (\<lambda>x. child (OVoucher x) p)"

definition marshalNVoucherConnection ::
  "gql_lib \<Rightarrow> 'i runner \<Rightarrow> gql_path \<Rightarrow> gql_Voucher Connection option \<Rightarrow> gql_out" where
  "marshalNVoucherConnection L child p v = not_nil p v (\<lambda>x. child (OVoucherConnection x) p)"

definition marshalNVoucherEdge :: "gql_lib \<Rightarrow> 'i runner \<Rightarrow> gql_path \<Rightarrow> gql_Voucher Edge option \<Rightarrow> gql_out" where
  "marshalNVoucherEdge L child p v = not_nil p v (\<lambda>x. child (OVoucherEdge x) p)"

definition marshalNVoucherEdge_list :: "gql_lib \<Rightarrow> 'i runner \<Rightarrow> gql_path \<Rightarrow> gql_Voucher Edge list \<Rightarrow> gql_out" where
  "marshalNVoucherEdge_list L child p v = marshal_list L p (\<lambda>q x. marshalNVoucherEdge L child q (Some x)) v"

definition marshalNPageInfo :: "gql_lib \<Rightarrow> 'i runner \<Rightarrow> gql_path \<Rightarrow> PageInfo option \<Rightarrow> gql_out" where
  "marshalNPageInfo L child p v = not_nil p v (\<lambda>x. child (OPageInfo x) p)"

definition marshalOInput :: "gql_lib \<Rightarrow> 'i runner \<Rightarrow> gql_path \<Rightarrow> gql_Input option \<Rightarrow> gql_out" where
  "marshalOInput L child p v = nil_null v (\<lambda>x. child (OInput x) p)"

definition marshalOProof :: "gql_lib \<Rightarrow> 'i runner \<Rightarrow> gql_path \<Rightarrow> gql_Proof option \<Rightarrow> gql_out" where
  "marshalOProof L child p v = nil_null v (\<lambda>x. child (OProof x) p)"


subsection \<open>Introspection\<close>

definition marshalN_TypeKind :: "gql_lib \<Rightarrow> gql_path \<Rightarrow> string \<Rightarrow> gql_out" where
  "marshalN_TypeKind L p v = not_null p (gq_MarshalString L v)"

definition marshalN_DirectiveLocation :: "gql_lib \<Rightarrow> gql_path \<Rightarrow> string \<Rightarrow> gql_out" where
  "marshalN_DirectiveLocation L p v = not_null p (gq_MarshalString L v)"

definition marshalN_DirectiveLocation_list :: "gql_lib \<Rightarrow> gql_path \<Rightarrow> string list \<Rightarrow> gql_out" where
  "marshalN_DirectiveLocation_list L p v = marshal_list L p (marshalN_DirectiveLocation L) v"

definition marshalN_Type :: "gql_lib \<Rightarrow> 'i runner \<Rightarrow> gql_path \<Rightarrow> 'i option \<Rightarrow> gql_out" where
  "marshalN_Type L child p v = not_nil p v (\<lambda>x. child (OType x) p)"

definition marshalO_Type :: "gql_lib \<Rightarrow> 'i runner \<Rightarrow> gql_path \<Rightarrow> 'i option \<Rightarrow> gql_out" where
  "marshalO_Type L child p v = nil_null v (\<lambda>x. child (OType x) p)"

definition marshalO_Schema :: "gql_lib \<Rightarrow> 'i runner \<Rightarrow> gql_path \<Rightarrow> 'i option \<Rightarrow> gql_out" where
  "marshalO_Schema L child p v = nil_null v (\<lambda>x. child (OSchema x) p)"

definition marshalN_Type_list :: "gql_lib \<Rightarrow> 'i runner \<Rightarrow> gql_path \<Rightarrow> 'i list \<Rightarrow> gql_out" where
  "marshalN_Type_list L child p v = marshal_list L p (\<lambda>q x. child (OType x) q) v"

definition marshalN_InputValue_list :: "gql_lib \<Rightarrow> 'i runner \<Rightarrow> gql_path \<Rightarrow> 'i list \<Rightarrow> gql_out" where
  "marshalN_InputValue_list L child p v = marshal_list L p (\<lambda>q x. child (OInputValue x) q) v"

definition marshalN_Directive_list :: "gql_lib \<Rightarrow> 'i runner \<Rightarrow> gql_path \<Rightarrow> 'i list \<Rightarrow> gql_out" where
  "marshalN_Directive_list L child p v = marshal_list L p (\<lambda>q x. child (ODirective x) q) v"

definition marshalO_Type_list :: "gql_lib \<Rightarrow> 'i runner \<Rightarrow> gql_path \<Rightarrow> 'i list option \<Rightarrow> gql_out" where
  "marshalO_Type_list L child p v = nil_null v (marshal_list L p (\<lambda>q x. child (OType x) q))"

definition marshalO_Field_list :: "gql_lib \<Rightarrow> 'i runner \<Rightarrow> gql_path \<Rightarrow> 'i list option \<Rightarrow> gql_out" where
  "marshalO_Field_list L child p v = nil_null v (marshal_list L p (\<lambda>q x. child (OField x) q))"

definition marshalO_EnumValue_list :: "gql_lib \<Rightarrow> 'i runner \<Rightarrow> gql_path \<Rightarrow> 'i list option \<Rightarrow> gql_out" where
  "marshalO_EnumValue_list L child p v = nil_null v (marshal_list L p (\<lambda>q x. child (OEnumValue x) q))"

definition marshalO_InputValue_list :: "gql_lib \<Rightarrow> 'i runner \<Rightarrow> gql_path \<Rightarrow> 'i list option \<Rightarrow> gql_out" where
  "marshalO_InputValue_list L child p v = nil_null v (marshal_list L p (\<lambda>q x. child (OInputValue x) q))"

end
