(* ===== verification/GraphFields.thy ===== *)
theory GraphFields
  imports GraphMarshal
begin

text \<open>
  The fields of the object types, one definition for every function \<open>_Type_field\<close> of
  \<open>reader/graph/generated.go\<close>: where the value comes from, a field of the object or a resolver with its
  arguments, and how it is marshaled. \<open>child\<close> executes what is selected of the value, \<open>f\<close> is the collected
  field, \<open>obj\<close> the object and \<open>p\<close> the path of the field.
\<close>

section \<open>Input\<close>

definition Input_index ::
  "'i execution \<Rightarrow> 'i runner \<Rightarrow> collected_field \<Rightarrow> gql_Input \<Rightarrow> gql_path \<Rightarrow> gql_out" where
  "Input_index ec child f obj p =
     resolve_field (ec_lib ec) p (Inr (gi_Index obj)) (marshalNInt (ec_lib ec) p)"

definition Input_status ::
  "'i execution \<Rightarrow> 'i runner \<Rightarrow> collected_field \<Rightarrow> gql_Input \<Rightarrow> gql_path \<Rightarrow> gql_out" where
  "Input_status ec child f obj p =
     resolve_field (ec_lib ec) p (Inr (gi_Status obj)) (marshalNCompletionStatus (ec_lib ec) p)"

definition Input_msgSender ::
  "'i execution \<Rightarrow> 'i runner \<Rightarrow> collected_field \<Rightarrow> gql_Input \<Rightarrow> gql_path \<Rightarrow> gql_out" where
  "Input_msgSender ec child f obj p =
     resolve_field (ec_lib ec) p (Inr (gi_MsgSender obj)) (marshalNString (ec_lib ec) p)"

definition Input_timestamp ::
  "'i execution \<Rightarrow> 'i runner \<Rightarrow> collected_field \<Rightarrow> gql_Input \<Rightarrow> gql_path \<Rightarrow> gql_out" where
  "Input_timestamp ec child f obj p =
     resolve_field (ec_lib ec) p (Inr (gi_Timestamp obj)) (marshalNBigInt (ec_lib ec) p)"

definition Input_blockNumber ::
  "'i execution \<Rightarrow> 'i runner \<Rightarrow> collected_field \<Rightarrow> gql_Input \<Rightarrow> gql_path \<Rightarrow> gql_out" where
  "Input_blockNumber ec child f obj p =
     resolve_field (ec_lib ec) p (Inr (gi_BlockNumber obj)) (marshalNBigInt (ec_lib ec) p)"

definition Input_payload ::
  "'i execution \<Rightarrow> 'i runner \<Rightarrow> collected_field \<Rightarrow> gql_Input \<Rightarrow> gql_path \<Rightarrow> gql_out" where
  "Input_payload ec child f obj p =
     resolve_field (ec_lib ec) p (Inr (gi_Payload obj)) (marshalNString (ec_lib ec) p)"

definition Input_voucher ::
  "'i execution \<Rightarrow> 'i runner \<Rightarrow> collected_field \<Rightarrow> gql_Input \<Rightarrow> gql_path \<Rightarrow> gql_out" where
  "Input_voucher ec child f obj p =
     with_args (ec_lib ec) p (field_Input_voucher_args (ec_lib ec) p (fl_Args f)) (\<lambda>index.
     resolve_field (ec_lib ec) p (rs_Input_Voucher (ec_resolvers ec) p obj index)
       (marshalNVoucher (ec_lib ec) child p))"

definition Input_notice ::
  "'i execution \<Rightarrow> 'i runner \<Rightarrow> collected_field \<Rightarrow> gql_Input \<Rightarrow> gql_path \<Rightarrow> gql_out" where
  "Input_notice ec child f obj p =
     with_args (ec_lib ec) p (field_Input_notice_args (ec_lib ec) p (fl_Args f)) (\<lambda>index.
     resolve_field (ec_lib ec) p (rs_Input_Notice (ec_resolvers ec) p obj index)
       (marshalNNotice (ec_lib ec) child p))"

definition Input_report ::
  "'i execution \<Rightarrow> 'i runner \<Rightarrow> collected_field \<Rightarrow> gql_Input \<Rightarrow> gql_path \<Rightarrow> gql_out" where
  "Input_report ec child f obj p =
     with_args (ec_lib ec) p (field_Input_report_args (ec_lib ec) p (fl_Args f)) (\<lambda>index.
     resolve_field (ec_lib ec) p (rs_Input_Report (ec_resolvers ec) p obj index)
       (marshalNReport (ec_lib ec) child p))"

definition Input_vouchers ::
  "'i execution \<Rightarrow> 'i runner \<Rightarrow> collected_field \<Rightarrow> gql_Input \<Rightarrow> gql_path \<Rightarrow> gql_out" where
  "Input_vouchers ec child f obj p =
     with_args (ec_lib ec) p (field_Input_vouchers_args (ec_lib ec) p (fl_Args f)) (\<lambda>(first, lastN, after, before).
     resolve_field (ec_lib ec) p (rs_Input_Vouchers (ec_resolvers ec) p obj first lastN after before)
       (marshalNVoucherConnection (ec_lib ec) child p))"

definition Input_notices ::
  "'i execution \<Rightarrow> 'i runner \<Rightarrow> collected_field \<Rightarrow> gql_Input \<Rightarrow> gql_path \<Rightarrow> gql_out" where
  "Input_notices ec child f obj p =
     with_args (ec_lib ec) p (field_Input_notices_args (ec_lib ec) p (fl_Args f)) (\<lambda>(first, lastN, after, before).
     resolve_field (ec_lib ec) p (rs_Input_Notices (ec_resolvers ec) p obj first lastN after before)
       (marshalNNoticeConnection (ec_lib ec) child p))"

definition Input_reports ::
  "'i execution \<Rightarrow> 'i runner \<Rightarrow> collected_field \<Rightarrow> gql_Input \<Rightarrow> gql_path \<Rightarrow> gql_out" where
  "Input_reports ec child f obj p =
     with_args (ec_lib ec) p (field_Input_reports_args (ec_lib ec) p (fl_Args f)) (\<lambda>(first, lastN, after, before).
     resolve_field (ec_lib ec) p (rs_Input_Reports (ec_resolvers ec) p obj first lastN after before)
       (marshalNReportConnection (ec_lib ec) child p))"

section \<open>InputConnection\<close>

definition InputConnection_totalCount ::
  "'i execution \<Rightarrow> 'i runner \<Rightarrow> collected_field \<Rightarrow> gql_Input Connection \<Rightarrow> gql_path \<Rightarrow> gql_out" where
  "InputConnection_totalCount ec child f obj p =
     resolve_field (ec_lib ec) p (Inr (TotalCount obj)) (marshalNInt (ec_lib ec) p)"

definition InputConnection_edges ::
  "'i execution \<Rightarrow> 'i runner \<Rightarrow> collected_field \<Rightarrow> gql_Input Connection \<Rightarrow> gql_path \<Rightarrow> gql_out" where
  "InputConnection_edges ec child f obj p =
     resolve_field (ec_lib ec) p (Inr (Edges obj)) (marshalNInputEdge_list (ec_lib ec) child p)"

definition InputConnection_pageInfo ::
  "'i execution \<Rightarrow> 'i runner \<Rightarrow> collected_field \<Rightarrow> gql_Input Connection \<Rightarrow> gql_path \<Rightarrow> gql_out" where
  "InputConnection_pageInfo ec child f obj p =
     resolve_field (ec_lib ec) p (Inr (Some (Connection_PageInfo obj))) (marshalNPageInfo (ec_lib ec) child p)"

section \<open>InputEdge\<close>

definition InputEdge_node ::
  "'i execution \<Rightarrow> 'i runner \<Rightarrow> collected_field \<Rightarrow> gql_Input Edge \<Rightarrow> gql_path \<Rightarrow> gql_out" where
  "InputEdge_node ec child f obj p =
     resolve_field (ec_lib ec) p (Inr (Some (Node obj))) (marshalNInput (ec_lib ec) child p)"

definition InputEdge_cursor ::
  "'i execution \<Rightarrow> 'i runner \<Rightarrow> collected_field \<Rightarrow> gql_Input Edge \<Rightarrow> gql_path \<Rightarrow> gql_out" where
  "InputEdge_cursor ec child f obj p =
     resolve_field (ec_lib ec) p (Inr (Cursor obj)) (marshalNString (ec_lib ec) p)"

section \<open>Notice\<close>

definition Notice_index ::
  "'i execution \<Rightarrow> 'i runner \<Rightarrow> collected_field \<Rightarrow> gql_Notice \<Rightarrow> gql_path \<Rightarrow> gql_out" where
  "Notice_index ec child f obj p =
     resolve_field (ec_lib ec) p (Inr (gn_Index obj)) (marshalNInt (ec_lib ec) p)"

definition Notice_input ::
  "'i execution \<Rightarrow> 'i runner \<Rightarrow> collected_field \<Rightarrow> gql_Notice \<Rightarrow> gql_path \<Rightarrow> gql_out" where
  "Notice_input ec child f obj p =
     resolve_field (ec_lib ec) p (rs_Notice_Input (ec_resolvers ec) p obj) (marshalNInput (ec_lib ec) child p)"

definition Notice_payload ::
  "'i execution \<Rightarrow> 'i runner \<Rightarrow> collected_field \<Rightarrow> gql_Notice \<Rightarrow> gql_path \<Rightarrow> gql_out" where
  "Notice_payload ec child f obj p =
     resolve_field (ec_lib ec) p (Inr (gn_Payload obj)) (marshalNString (ec_lib ec) p)"

definition Notice_proof ::
  "'i execution \<Rightarrow> 'i runner \<Rightarrow> collected_field \<Rightarrow> gql_Notice \<Rightarrow> gql_path \<Rightarrow> gql_out" where
  "Notice_proof ec child f obj p =
     resolve_field (ec_lib ec) p (rs_Notice_Proof (ec_resolvers ec) p obj) (marshalOProof (ec_lib ec) child p)"

section \<open>NoticeConnection\<close>

definition NoticeConnection_totalCount ::
  "'i execution \<Rightarrow> 'i runner \<Rightarrow> collected_field \<Rightarrow> gql_Notice Connection \<Rightarrow> gql_path \<Rightarrow> gql_out" where
  "NoticeConnection_totalCount ec child f obj p =
     resolve_field (ec_lib ec) p (Inr (TotalCount obj)) (marshalNInt (ec_lib ec) p)"

definition NoticeConnection_edges ::
  "'i execution \<Rightarrow> 'i runner \<Rightarrow> collected_field \<Rightarrow> gql_Notice Connection \<Rightarrow> gql_path \<Rightarrow> gql_out" where
  "NoticeConnection_edges ec child f obj p =
     resolve_field (ec_lib ec) p (Inr (Edges obj)) (marshalNNoticeEdge_list (ec_lib ec) child p)"

definition NoticeConnection_pageInfo ::
  "'i execution \<Rightarrow> 'i runner \<Rightarrow> collected_field \<Rightarrow> gql_Notice Connection \<Rightarrow> gql_path \<Rightarrow> gql_out" where
  "NoticeConnection_pageInfo ec child f obj p =
     resolve_field (ec_lib ec) p (Inr (Some (Connection_PageInfo obj))) (marshalNPageInfo (ec_lib ec) child p)"

section \<open>NoticeEdge\<close>

definition NoticeEdge_node ::
  "'i execution \<Rightarrow> 'i runner \<Rightarrow> collected_field \<Rightarrow> gql_Notice Edge \<Rightarrow> gql_path \<Rightarrow> gql_out" where
  "NoticeEdge_node ec child f obj p =
     resolve_field (ec_lib ec) p (Inr (Some (Node obj))) (marshalNNotice (ec_lib ec) child p)"

definition NoticeEdge_cursor ::
  "'i execution \<Rightarrow> 'i runner \<Rightarrow> collected_field \<Rightarrow> gql_Notice Edge \<Rightarrow> gql_path \<Rightarrow> gql_out" where
  "NoticeEdge_cursor ec child f obj p =
     resolve_field (ec_lib ec) p (Inr (Cursor obj)) (marshalNString (ec_lib ec) p)"

section \<open>PageInfo\<close>

definition PageInfo_startCursor ::
  "'i execution \<Rightarrow> 'i runner \<Rightarrow> collected_field \<Rightarrow> PageInfo \<Rightarrow> gql_path \<Rightarrow> gql_out" where
  "PageInfo_startCursor ec child f obj p =
     resolve_field (ec_lib ec) p (Inr (StartCursor obj)) (marshalOString (ec_lib ec) p)"

definition PageInfo_endCursor ::
  "'i execution \<Rightarrow> 'i runner \<Rightarrow> collected_field \<Rightarrow> PageInfo \<Rightarrow> gql_path \<Rightarrow> gql_out" where
  "PageInfo_endCursor ec child f obj p =
     resolve_field (ec_lib ec) p (Inr (EndCursor obj)) (marshalOString (ec_lib ec) p)"

definition PageInfo_hasNextPage ::
  "'i execution \<Rightarrow> 'i runner \<Rightarrow> collected_field \<Rightarrow> PageInfo \<Rightarrow> gql_path \<Rightarrow> gql_out" where
  "PageInfo_hasNextPage ec child f obj p =
     resolve_field (ec_lib ec) p (Inr (HasNextPage obj)) (marshalNBoolean (ec_lib ec) p)"

definition PageInfo_hasPreviousPage ::
  "'i execution \<Rightarrow> 'i runner \<Rightarrow> collected_field \<Rightarrow> PageInfo \<Rightarrow> gql_path \<Rightarrow> gql_out" where
  "PageInfo_hasPreviousPage ec child f obj p =
     resolve_field (ec_lib ec) p (Inr (HasPreviousPage obj)) (marshalNBoolean (ec_lib ec) p)"

section \<open>Proof\<close>

definition Proof_firstIndex ::
  "'i execution \<Rightarrow> 'i runner \<Rightarrow> collected_field \<Rightarrow> gql_Proof \<Rightarrow> gql_path \<Rightarrow> gql_out" where
  "Proof_firstIndex ec child f obj p =
     resolve_field (ec_lib ec) p (Inr (pf_FirstIndex obj)) (marshalNInt (ec_lib ec) p)"

definition Proof_inputByInputIndex ::
  "'i execution \<Rightarrow> 'i runner \<Rightarrow> collected_field \<Rightarrow> gql_Proof \<Rightarrow> gql_path \<Rightarrow> gql_out" where
  "Proof_inputByInputIndex ec child f obj p =
     resolve_field (ec_lib ec) p (Inr (pf_InputByInputIndex obj)) (marshalOInput (ec_lib ec) child p)"

definition Proof_inputIndex ::
  "'i execution \<Rightarrow> 'i runner \<Rightarrow> collected_field \<Rightarrow> gql_Proof \<Rightarrow> gql_path \<Rightarrow> gql_out" where
  "Proof_inputIndex ec child f obj p =
     resolve_field (ec_lib ec) p (Inr (pf_InputIndex obj)) (marshalNInt (ec_lib ec) p)"

definition Proof_lastInput ::
  "'i execution \<Rightarrow> 'i runner \<Rightarrow> collected_field \<Rightarrow> gql_Proof \<Rightarrow> gql_path \<Rightarrow> gql_out" where
  "Proof_lastInput ec child f obj p =
     resolve_field (ec_lib ec) p (Inr (pf_LastInput obj)) (marshalNInt (ec_lib ec) p)"

definition Proof_nodeId ::
  "'i execution \<Rightarrow> 'i runner \<Rightarrow> collected_field \<Rightarrow> gql_Proof \<Rightarrow> gql_path \<Rightarrow> gql_out" where
  "Proof_nodeId ec child f obj p =
     resolve_field (ec_lib ec) p (Inr (pf_NodeID obj)) (marshalNID (ec_lib ec) p)"

definition Proof_outputIndex ::
  "'i execution \<Rightarrow> 'i runner \<Rightarrow> collected_field \<Rightarrow> gql_Proof \<Rightarrow> gql_path \<Rightarrow> gql_out" where
  "Proof_outputIndex ec child f obj p =
     resolve_field (ec_lib ec) p (Inr (pf_OutputIndex obj)) (marshalNInt (ec_lib ec) p)"

definition Proof_validityInputIndexWithinEpoch ::
  "'i execution \<Rightarrow> 'i runner \<Rightarrow> collected_field \<Rightarrow> gql_Proof \<Rightarrow> gql_path \<Rightarrow> gql_out" where
  "Proof_validityInputIndexWithinEpoch ec child f obj p =
     resolve_field (ec_lib ec) p (Inr (pf_ValidityInputIndexWithinEpoch obj)) (marshalNInt (ec_lib ec) p)"

definition Proof_validityMachineStateHash ::
  "'i execution \<Rightarrow> 'i runner \<Rightarrow> collected_field \<Rightarrow> gql_Proof \<Rightarrow> gql_path \<Rightarrow> gql_out" where
  "Proof_validityMachineStateHash ec child f obj p =
     resolve_field (ec_lib ec) p (Inr (pf_ValidityMachineStateHash obj)) (marshalNString (ec_lib ec) p)"

definition Proof_validityOutputEpochRootHash ::
  "'i execution \<Rightarrow> 'i runner \<Rightarrow> collected_field \<Rightarrow> gql_Proof \<Rightarrow> gql_path \<Rightarrow> gql_out" where
  "Proof_validityOutputEpochRootHash ec child f obj p =
     resolve_field (ec_lib ec) p (Inr (pf_ValidityOutputEpochRootHash obj)) (marshalNString (ec_lib ec) p)"

definition Proof_validityOutputHashInOutputHashesSiblings ::
  "'i execution \<Rightarrow> 'i runner \<Rightarrow> collected_field \<Rightarrow> gql_Proof \<Rightarrow> gql_path \<Rightarrow> gql_out" where
  "Proof_validityOutputHashInOutputHashesSiblings ec child f obj p =
     resolve_field (ec_lib ec) p (Inr (pf_ValidityOutputHashInOutputHashesSiblings obj))
       (marshalNString_list (ec_lib ec) p)"

definition Proof_validityOutputHashesInEpochSiblings ::
  "'i execution \<Rightarrow> 'i runner \<Rightarrow> collected_field \<Rightarrow> gql_Proof \<Rightarrow> gql_path \<Rightarrow> gql_out" where
  "Proof_validityOutputHashesInEpochSiblings ec child f obj p =
     resolve_field (ec_lib ec) p (Inr (pf_ValidityOutputHashesInEpochSiblings obj))
       (marshalNString_list (ec_lib ec) p)"

definition Proof_validityOutputHashesRootHash ::
  "'i execution \<Rightarrow> 'i runner \<Rightarrow> collected_field \<Rightarrow> gql_Proof \<Rightarrow> gql_path \<Rightarrow> gql_out" where
  "Proof_validityOutputHashesRootHash ec child f obj p =
     resolve_field (ec_lib ec) p (Inr (pf_ValidityOutputHashesRootHash obj)) (marshalNString (ec_lib ec) p)"

definition Proof_validityOutputIndexWithinInput ::
  "'i execution \<Rightarrow> 'i runner \<Rightarrow> collected_field \<Rightarrow> gql_Proof \<Rightarrow> gql_path \<Rightarrow> gql_out" where
  "Proof_validityOutputIndexWithinInput ec child f obj p =
     resolve_field (ec_lib ec) p (Inr (pf_ValidityOutputIndexWithinInput obj)) (marshalNInt (ec_lib ec) p)"

section \<open>Query\<close>

definition Query_input ::
  "'i execution \<Rightarrow> 'i runner \<Rightarrow> collected_field \<Rightarrow> gql_path \<Rightarrow> gql_out" where
  "Query_input ec child f p =
     with_args (ec_lib ec) p (field_Query_input_args (ec_lib ec) p (fl_Args f)) (\<lambda>index.
     resolve_field (ec_lib ec) p (rs_Query_Input (ec_resolvers ec) p index) (marshalNInput (ec_lib ec) child p))"

definition Query_voucher ::
  "'i execution \<Rightarrow> 'i runner \<Rightarrow> collected_field \<Rightarrow> gql_path \<Rightarrow> gql_out" where
  "Query_voucher ec child f p =
     with_args (ec_lib ec) p (field_Query_voucher_args (ec_lib ec) p (fl_Args f)) (\<lambda>(voucherIndex, inputIndex).
     resolve_field (ec_lib ec) p (rs_Query_Voucher (ec_resolvers ec) p voucherIndex inputIndex)
       (marshalNVoucher (ec_lib ec) child p))"

definition Query_notice ::
  "'i execution \<Rightarrow> 'i runner \<Rightarrow> collected_field \<Rightarrow> gql_path \<Rightarrow> gql_out" where
  "Query_notice ec child f p =
     with_args (ec_lib ec) p (field_Query_notice_args (ec_lib ec) p (fl_Args f)) (\<lambda>(noticeIndex, inputIndex).
     resolve_field (ec_lib ec) p (rs_Query_Notice (ec_resolvers ec) p noticeIndex inputIndex)
       (marshalNNotice (ec_lib ec) child p))"

definition Query_report ::
  "'i execution \<Rightarrow> 'i runner \<Rightarrow> collected_field \<Rightarrow> gql_path \<Rightarrow> gql_out" where
  "Query_report ec child f p =
     with_args (ec_lib ec) p (field_Query_report_args (ec_lib ec) p (fl_Args f)) (\<lambda>(reportIndex, inputIndex).
     resolve_field (ec_lib ec) p (rs_Query_Report (ec_resolvers ec) p reportIndex inputIndex)
       (marshalNReport (ec_lib ec) child p))"

definition Query_inputs ::
  "'i execution \<Rightarrow> 'i runner \<Rightarrow> collected_field \<Rightarrow> gql_path \<Rightarrow> gql_out" where
  "Query_inputs ec child f p =
     with_args (ec_lib ec) p (field_Query_inputs_args (ec_lib ec) p (fl_Args f)) (\<lambda>(first, lastN, after, before, where').
     resolve_field (ec_lib ec) p (rs_Query_Inputs (ec_resolvers ec) p first lastN after before where')
       (marshalNInputConnection (ec_lib ec) child p))"

definition Query_vouchers ::
  "'i execution \<Rightarrow> 'i runner \<Rightarrow> collected_field \<Rightarrow> gql_path \<Rightarrow> gql_out" where
  "Query_vouchers ec child f p =
     with_args (ec_lib ec) p (field_Query_vouchers_args (ec_lib ec) p (fl_Args f)) (\<lambda>(first, lastN, after, before, filter').
     resolve_field (ec_lib ec) p (rs_Query_Vouchers (ec_resolvers ec) p first lastN after before filter')
       (marshalNVoucherConnection (ec_lib ec) child p))"

definition Query_notices ::
  "'i execution \<Rightarrow> 'i runner \<Rightarrow> collected_field \<Rightarrow> gql_path \<Rightarrow> gql_out" where
  "Query_notices ec child f p =
     with_args (ec_lib ec) p (field_Query_notices_args (ec_lib ec) p (fl_Args f)) (\<lambda>(first, lastN, after, before).
     resolve_field (ec_lib ec) p (rs_Query_Notices (ec_resolvers ec) p first lastN after before)
       (marshalNNoticeConnection (ec_lib ec) child p))"

definition Query_reports ::
  "'i execution \<Rightarrow> 'i runner \<Rightarrow> collected_field \<Rightarrow> gql_path \<Rightarrow> gql_out" where
  "Query_reports ec child f p =
     with_args (ec_lib ec) p (field_Query_reports_args (ec_lib ec) p (fl_Args f)) (\<lambda>(first, lastN, after, before).
     resolve_field (ec_lib ec) p (rs_Query_Reports (ec_resolvers ec) p first lastN after before)
       (marshalNReportConnection (ec_lib ec) child p))"

definition Query_introspectType ::
  "'i execution \<Rightarrow> 'i runner \<Rightarrow> collected_field \<Rightarrow> gql_path \<Rightarrow> gql_out" where
  "Query_introspectType ec child f p =
     with_args (ec_lib ec) p (field_Query_introspectType_args (ec_lib ec) p (fl_Args f)) (\<lambda>name.
     resolve_field (ec_lib ec) p (introspectType ec name) (marshalO_Type (ec_lib ec) child p))"

definition Query_introspectSchema ::
  "'i execution \<Rightarrow> 'i runner \<Rightarrow> collected_field \<Rightarrow> gql_path \<Rightarrow> gql_out" where
  "Query_introspectSchema ec child f p =
     resolve_field (ec_lib ec) p (introspectSchema ec) (marshalO_Schema (ec_lib ec) child p)"

section \<open>Report\<close>

definition Report_index ::
  "'i execution \<Rightarrow> 'i runner \<Rightarrow> collected_field \<Rightarrow> gql_Report \<Rightarrow> gql_path \<Rightarrow> gql_out" where
  "Report_index ec child f obj p =
     resolve_field (ec_lib ec) p (Inr (gr_Index obj)) (marshalNInt (ec_lib ec) p)"

definition Report_input ::
  "'i execution \<Rightarrow> 'i runner \<Rightarrow> collected_field \<Rightarrow> gql_Report \<Rightarrow> gql_path \<Rightarrow> gql_out" where
  "Report_input ec child f obj p =
     resolve_field (ec_lib ec) p (rs_Report_Input (ec_resolvers ec) p obj) (marshalNInput (ec_lib ec) child p)"

definition Report_payload ::
  "'i execution \<Rightarrow> 'i runner \<Rightarrow> collected_field \<Rightarrow> gql_Report \<Rightarrow> gql_path \<Rightarrow> gql_out" where
  "Report_payload ec child f obj p =
     resolve_field (ec_lib ec) p (Inr (gr_Payload obj)) (marshalNString (ec_lib ec) p)"

section \<open>ReportConnection\<close>

definition ReportConnection_totalCount ::
  "'i execution \<Rightarrow> 'i runner \<Rightarrow> collected_field \<Rightarrow> gql_Report Connection \<Rightarrow> gql_path \<Rightarrow> gql_out" where
  "ReportConnection_totalCount ec child f obj p =
     resolve_field (ec_lib ec) p (Inr (TotalCount obj)) (marshalNInt (ec_lib ec) p)"

definition ReportConnection_edges ::
  "'i execution \<Rightarrow> 'i runner \<Rightarrow> collected_field \<Rightarrow> gql_Report Connection \<Rightarrow> gql_path \<Rightarrow> gql_out" where
  "ReportConnection_edges ec child f obj p =
     resolve_field (ec_lib ec) p (Inr (Edges obj)) (marshalNReportEdge_list (ec_lib ec) child p)"

definition ReportConnection_pageInfo ::
  "'i execution \<Rightarrow> 'i runner \<Rightarrow> collected_field \<Rightarrow> gql_Report Connection \<Rightarrow> gql_path \<Rightarrow> gql_out" where
  "ReportConnection_pageInfo ec child f obj p =
     resolve_field (ec_lib ec) p (Inr (Some (Connection_PageInfo obj))) (marshalNPageInfo (ec_lib ec) child p)"

section \<open>ReportEdge\<close>

definition ReportEdge_node ::
  "'i execution \<Rightarrow> 'i runner \<Rightarrow> collected_field \<Rightarrow> gql_Report Edge \<Rightarrow> gql_path \<Rightarrow> gql_out" where
  "ReportEdge_node ec child f obj p =
     resolve_field (ec_lib ec) p (Inr (Some (Node obj))) (marshalNReport (ec_lib ec) child p)"

definition ReportEdge_cursor ::
  "'i execution \<Rightarrow> 'i runner \<Rightarrow> collected_field \<Rightarrow> gql_Report Edge \<Rightarrow> gql_path \<Rightarrow> gql_out" where
  "ReportEdge_cursor ec child f obj p =
     resolve_field (ec_lib ec) p (Inr (Cursor obj)) (marshalNString (ec_lib ec) p)"

section \<open>Voucher\<close>

definition Voucher_index ::
  "'i execution \<Rightarrow> 'i runner \<Rightarrow> collected_field \<Rightarrow> gql_Voucher \<Rightarrow> gql_path \<Rightarrow> gql_out" where
  "Voucher_index ec child f obj p =
     resolve_field (ec_lib ec) p (Inr (gv_Index obj)) (marshalNInt (ec_lib ec) p)"

definition Voucher_input ::
  "'i execution \<Rightarrow> 'i runner \<Rightarrow> collected_field \<Rightarrow> gql_Voucher \<Rightarrow> gql_path \<Rightarrow> gql_out" where
  "Voucher_input ec child f obj p =
     resolve_field (ec_lib ec) p (rs_Voucher_Input (ec_resolvers ec) p obj) (marshalNInput (ec_lib ec) child p)"

definition Voucher_destination ::
  "'i execution \<Rightarrow> 'i runner \<Rightarrow> collected_field \<Rightarrow> gql_Voucher \<Rightarrow> gql_path \<Rightarrow> gql_out" where
  "Voucher_destination ec child f obj p =
     resolve_field (ec_lib ec) p (Inr (gv_Destination obj)) (marshalNString (ec_lib ec) p)"

definition Voucher_payload ::
  "'i execution \<Rightarrow> 'i runner \<Rightarrow> collected_field \<Rightarrow> gql_Voucher \<Rightarrow> gql_path \<Rightarrow> gql_out" where
  "Voucher_payload ec child f obj p =
     resolve_field (ec_lib ec) p (Inr (gv_Payload obj)) (marshalNString (ec_lib ec) p)"

definition Voucher_proof ::
  "'i execution \<Rightarrow> 'i runner \<Rightarrow> collected_field \<Rightarrow> gql_Voucher \<Rightarrow> gql_path \<Rightarrow> gql_out" where
  "Voucher_proof ec child f obj p =
     resolve_field (ec_lib ec) p (rs_Voucher_Proof (ec_resolvers ec) p obj) (marshalOProof (ec_lib ec) child p)"

definition Voucher_executed ::
  "'i execution \<Rightarrow> 'i runner \<Rightarrow> collected_field \<Rightarrow> gql_Voucher \<Rightarrow> gql_path \<Rightarrow> gql_out" where
  "Voucher_executed ec child f obj p =
     resolve_field (ec_lib ec) p (Inr (gv_Executed obj)) (marshalOBoolean (ec_lib ec) p)"

section \<open>VoucherConnection\<close>

definition VoucherConnection_totalCount ::
  "'i execution \<Rightarrow> 'i runner \<Rightarrow> collected_field \<Rightarrow> gql_Voucher Connection \<Rightarrow> gql_path \<Rightarrow> gql_out" where
  "VoucherConnection_totalCount ec child f obj p =
     resolve_field (ec_lib ec) p (Inr (TotalCount obj)) (marshalNInt (ec_lib ec) p)"

definition VoucherConnection_edges ::
  "'i execution \<Rightarrow> 'i runner \<Rightarrow> collected_field \<Rightarrow> gql_Voucher Connection \<Rightarrow> gql_path \<Rightarrow> gql_out" where
  "VoucherConnection_edges ec child f obj p =
     resolve_field (ec_lib ec) p (Inr (Edges obj)) (marshalNVoucherEdge_list (ec_lib ec) child p)"

definition VoucherConnection_pageInfo ::
  "'i execution \<Rightarrow> 'i runner \<Rightarrow> collected_field \<Rightarrow> gql_Voucher Connection \<Rightarrow> gql_path \<Rightarrow> gql_out" where
  "VoucherConnection_pageInfo ec child f obj p =
     resolve_field (ec_lib ec) p (Inr (Some (Connection_PageInfo obj))) (marshalNPageInfo (ec_lib ec) child p)"

section \<open>VoucherEdge\<close>

definition VoucherEdge_node ::
  "'i execution \<Rightarrow> 'i runner \<Rightarrow> collected_field \<Rightarrow> gql_Voucher Edge \<Rightarrow> gql_path \<Rightarrow> gql_out" where
  "VoucherEdge_node ec child f obj p =
     resolve_field (ec_lib ec) p (Inr (Some (Node obj))) (marshalNVoucher (ec_lib ec) child p)"

definition VoucherEdge_cursor ::
  "'i execution \<Rightarrow> 'i runner \<Rightarrow> collected_field \<Rightarrow> gql_Voucher Edge \<Rightarrow> gql_path \<Rightarrow> gql_out" where
  "VoucherEdge_cursor ec child f obj p =
     resolve_field (ec_lib ec) p (Inr (Cursor obj)) (marshalNString (ec_lib ec) p)"

section \<open>Introspection: Directive\<close>

definition Directive_name ::
  "'i execution \<Rightarrow> 'i runner \<Rightarrow> collected_field \<Rightarrow> 'i \<Rightarrow> gql_path \<Rightarrow> gql_out" where
  "Directive_name ec child f obj p =
     resolve_field (ec_lib ec) p (Inr (in_Directive_Name (ec_introspection ec) obj)) (marshalNString (ec_lib ec) p)"

definition Directive_description ::
  "'i execution \<Rightarrow> 'i runner \<Rightarrow> collected_field \<Rightarrow> 'i \<Rightarrow> gql_path \<Rightarrow> gql_out" where
  "Directive_description ec child f obj p =
     resolve_field (ec_lib ec) p (Inr (in_Directive_Description (ec_introspection ec) obj))
       (marshalOString (ec_lib ec) p)"

definition Directive_locations ::
  "'i execution \<Rightarrow> 'i runner \<Rightarrow> collected_field \<Rightarrow> 'i \<Rightarrow> gql_path \<Rightarrow> gql_out" where
  "Directive_locations ec child f obj p =
     resolve_field (ec_lib ec) p (Inr (in_Directive_Locations (ec_introspection ec) obj))
       (marshalN_DirectiveLocation_list (ec_lib ec) p)"

definition Directive_args ::
  "'i execution \<Rightarrow> 'i runner \<Rightarrow> collected_field \<Rightarrow> 'i \<Rightarrow> gql_path \<Rightarrow> gql_out" where
  "Directive_args ec child f obj p =
     resolve_field (ec_lib ec) p (Inr (in_Directive_Args (ec_introspection ec) obj))
       (marshalN_InputValue_list (ec_lib ec) child p)"

definition Directive_isRepeatable ::
  "'i execution \<Rightarrow> 'i runner \<Rightarrow> collected_field \<Rightarrow> 'i \<Rightarrow> gql_path \<Rightarrow> gql_out" where
  "Directive_isRepeatable ec child f obj p =
     resolve_field (ec_lib ec) p (Inr (in_Directive_IsRepeatable (ec_introspection ec) obj))
       (marshalNBoolean (ec_lib ec) p)"

section \<open>Introspection: EnumValue\<close>

definition EnumValue_name ::
  "'i execution \<Rightarrow> 'i runner \<Rightarrow> collected_field \<Rightarrow> 'i \<Rightarrow> gql_path \<Rightarrow> gql_out" where
  "EnumValue_name ec child f obj p =
     resolve_field (ec_lib ec) p (Inr (in_EnumValue_Name (ec_introspection ec) obj)) (marshalNString (ec_lib ec) p)"

definition EnumValue_description ::
  "'i execution \<Rightarrow> 'i runner \<Rightarrow> collected_field \<Rightarrow> 'i \<Rightarrow> gql_path \<Rightarrow> gql_out" where
  "EnumValue_description ec child f obj p =
     resolve_field (ec_lib ec) p (Inr (in_EnumValue_Description (ec_introspection ec) obj))
       (marshalOString (ec_lib ec) p)"

definition EnumValue_isDeprecated ::
  "'i execution \<Rightarrow> 'i runner \<Rightarrow> collected_field \<Rightarrow> 'i \<Rightarrow> gql_path \<Rightarrow> gql_out" where
  "EnumValue_isDeprecated ec child f obj p =
     resolve_field (ec_lib ec) p (Inr (in_EnumValue_IsDeprecated (ec_introspection ec) obj))
       (marshalNBoolean (ec_lib ec) p)"

definition EnumValue_deprecationReason ::
  "'i execution \<Rightarrow> 'i runner \<Rightarrow> collected_field \<Rightarrow> 'i \<Rightarrow> gql_path \<Rightarrow> gql_out" where
  "EnumValue_deprecationReason ec child f obj p =
     resolve_field (ec_lib ec) p (Inr (in_EnumValue_DeprecationReason (ec_introspection ec) obj))
       (marshalOString (ec_lib ec) p)"

section \<open>Introspection: Field\<close>

definition Field_name ::
  "'i execution \<Rightarrow> 'i runner \<Rightarrow> collected_field \<Rightarrow> 'i \<Rightarrow> gql_path \<Rightarrow> gql_out" where
  "Field_name ec child f obj p =
     resolve_field (ec_lib ec) p (Inr (in_Field_Name (ec_introspection ec) obj)) (marshalNString (ec_lib ec) p)"

definition Field_description ::
  "'i execution \<Rightarrow> 'i runner \<Rightarrow> collected_field \<Rightarrow> 'i \<Rightarrow> gql_path \<Rightarrow> gql_out" where
  "Field_description ec child f obj p =
     resolve_field (ec_lib ec) p (Inr (in_Field_Description (ec_introspection ec) obj))
       (marshalOString (ec_lib ec) p)"

definition Field_args ::
  "'i execution \<Rightarrow> 'i runner \<Rightarrow> collected_field \<Rightarrow> 'i \<Rightarrow> gql_path \<Rightarrow> gql_out" where
  "Field_args ec child f obj p =
     resolve_field (ec_lib ec) p (Inr (in_Field_Args (ec_introspection ec) obj))
       (marshalN_InputValue_list (ec_lib ec) child p)"

definition Field_type ::
  "'i execution \<Rightarrow> 'i runner \<Rightarrow> collected_field \<Rightarrow> 'i \<Rightarrow> gql_path \<Rightarrow> gql_out" where
  "Field_type ec child f obj p =
     resolve_field (ec_lib ec) p (Inr (in_Field_Type (ec_introspection ec) obj)) (marshalN_Type (ec_lib ec) child p)"

definition Field_isDeprecated ::
  "'i execution \<Rightarrow> 'i runner \<Rightarrow> collected_field \<Rightarrow> 'i \<Rightarrow> gql_path \<Rightarrow> gql_out" where
  "Field_isDeprecated ec child f obj p =
     resolve_field (ec_lib ec) p (Inr (in_Field_IsDeprecated (ec_introspection ec) obj))
       (marshalNBoolean (ec_lib ec) p)"

definition Field_deprecationReason ::
  "'i execution \<Rightarrow> 'i runner \<Rightarrow> collected_field \<Rightarrow> 'i \<Rightarrow> gql_path \<Rightarrow> gql_out" where
  "Field_deprecationReason ec child f obj p =
     resolve_field (ec_lib ec) p (Inr (in_Field_DeprecationReason (ec_introspection ec) obj))
       (marshalOString (ec_lib ec) p)"

section \<open>Introspection: InputValue\<close>

definition InputValue_name ::
  "'i execution \<Rightarrow> 'i runner \<Rightarrow> collected_field \<Rightarrow> 'i \<Rightarrow> gql_path \<Rightarrow> gql_out" where
  "InputValue_name ec child f obj p =
     resolve_field (ec_lib ec) p (Inr (in_InputValue_Name (ec_introspection ec) obj)) (marshalNString (ec_lib ec) p)"

definition InputValue_description ::
  "'i execution \<Rightarrow> 'i runner \<Rightarrow> collected_field \<Rightarrow> 'i \<Rightarrow> gql_path \<Rightarrow> gql_out" where
  "InputValue_description ec child f obj p =
     resolve_field (ec_lib ec) p (Inr (in_InputValue_Description (ec_introspection ec) obj))
       (marshalOString (ec_lib ec) p)"

definition InputValue_type ::
  "'i execution \<Rightarrow> 'i runner \<Rightarrow> collected_field \<Rightarrow> 'i \<Rightarrow> gql_path \<Rightarrow> gql_out" where
  "InputValue_type ec child f obj p =
     resolve_field (ec_lib ec) p (Inr (in_InputValue_Type (ec_introspection ec) obj))
       (marshalN_Type (ec_lib ec) child p)"

definition InputValue_defaultValue ::
  "'i execution \<Rightarrow> 'i runner \<Rightarrow> collected_field \<Rightarrow> 'i \<Rightarrow> gql_path \<Rightarrow> gql_out" where
  "InputValue_defaultValue ec child f obj p =
     resolve_field (ec_lib ec) p (Inr (in_InputValue_DefaultValue (ec_introspection ec) obj))
       (marshalOString (ec_lib ec) p)"

section \<open>Introspection: Schema\<close>

definition Schema_description ::
  "'i execution \<Rightarrow> 'i runner \<Rightarrow> collected_field \<Rightarrow> 'i \<Rightarrow> gql_path \<Rightarrow> gql_out" where
  "Schema_description ec child f obj p =
     resolve_field (ec_lib ec) p (Inr (in_Schema_Description (ec_introspection ec) obj))
       (marshalOString (ec_lib ec) p)"

definition Schema_types ::
  "'i execution \<Rightarrow> 'i runner \<Rightarrow> collected_field \<Rightarrow> 'i \<Rightarrow> gql_path \<Rightarrow> gql_out" where
  "Schema_types ec child f obj p =
     resolve_field (ec_lib ec) p (Inr (in_Schema_Types (ec_introspection ec) obj))
       (marshalN_Type_list (ec_lib ec) child p)"

definition Schema_queryType ::
  "'i execution \<Rightarrow> 'i runner \<Rightarrow> collected_field \<Rightarrow> 'i \<Rightarrow> gql_path \<Rightarrow> gql_out" where
  "Schema_queryType ec child f obj p =
     resolve_field (ec_lib ec) p (Inr (in_Schema_QueryType (ec_introspection ec) obj))
       (marshalN_Type (ec_lib ec) child p)"

definition Schema_mutationType ::
  "'i execution \<Rightarrow> 'i runner \<Rightarrow> collected_field \<Rightarrow> 'i \<Rightarrow> gql_path \<Rightarrow> gql_out" where
  "Schema_mutationType ec child f obj p =
     resolve_field (ec_lib ec) p (Inr (in_Schema_MutationType (ec_introspection ec) obj))
       (marshalO_Type (ec_lib ec) child p)"

definition Schema_subscriptionType ::
  "'i execution \<Rightarrow> 'i runner \<Rightarrow> collected_field \<Rightarrow> 'i \<Rightarrow> gql_path \<Rightarrow> gql_out" where
  "Schema_subscriptionType ec child f obj p =
     resolve_field (ec_lib ec) p (Inr (in_Schema_SubscriptionType (ec_introspection ec) obj))
       (marshalO_Type (ec_lib ec) child p)"

definition Schema_directives ::
  "'i execution \<Rightarrow> 'i runner \<Rightarrow> collected_field \<Rightarrow> 'i \<Rightarrow> gql_path \<Rightarrow> gql_out" where
  "Schema_directives ec child f obj p =
     resolve_field (ec_lib ec) p (Inr (in_Schema_Directives (ec_introspection ec) obj))
       (marshalN_Directive_list (ec_lib ec) child p)"

section \<open>Introspection: Type\<close>

definition Type_kind ::
  "'i execution \<Rightarrow> 'i runner \<Rightarrow> collected_field \<Rightarrow> 'i \<Rightarrow> gql_path \<Rightarrow> gql_out" where
  "Type_kind ec child f obj p =
     resolve_field (ec_lib ec) p (Inr (in_Type_Kind (ec_introspection ec) obj)) (marshalN_TypeKind (ec_lib ec) p)"

definition Type_name ::
  "'i execution \<Rightarrow> 'i runner \<Rightarrow> collected_field \<Rightarrow> 'i \<Rightarrow> gql_path \<Rightarrow> gql_out" where
  "Type_name ec child f obj p =
     resolve_field (ec_lib ec) p (Inr (in_Type_Name (ec_introspection ec) obj)) (marshalOString (ec_lib ec) p)"

definition Type_description ::
  "'i execution \<Rightarrow> 'i runner \<Rightarrow> collected_field \<Rightarrow> 'i \<Rightarrow> gql_path \<Rightarrow> gql_out" where
  "Type_description ec child f obj p =
     resolve_field (ec_lib ec) p (Inr (in_Type_Description (ec_introspection ec) obj)) (marshalOString (ec_lib ec) p)"

definition Type_fields ::
  "'i execution \<Rightarrow> 'i runner \<Rightarrow> collected_field \<Rightarrow> 'i \<Rightarrow> gql_path \<Rightarrow> gql_out" where
  "Type_fields ec child f obj p =
     with_args (ec_lib ec) p (field_Type_fields_args (ec_lib ec) p (fl_Args f)) (\<lambda>includeDeprecated.
     resolve_field (ec_lib ec) p (Inr (in_Type_Fields (ec_introspection ec) obj includeDeprecated))
       (marshalO_Field_list (ec_lib ec) child p))"

definition Type_interfaces ::
  "'i execution \<Rightarrow> 'i runner \<Rightarrow> collected_field \<Rightarrow> 'i \<Rightarrow> gql_path \<Rightarrow> gql_out" where
  "Type_interfaces ec child f obj p =
     resolve_field (ec_lib ec) p (Inr (in_Type_Interfaces (ec_introspection ec) obj))
       (marshalO_Type_list (ec_lib ec) child p)"

definition Type_possibleTypes ::
  "'i execution \<Rightarrow> 'i runner \<Rightarrow> collected_field \<Rightarrow> 'i \<Rightarrow> gql_path \<Rightarrow> gql_out" where
  "Type_possibleTypes ec child f obj p =
     resolve_field (ec_lib ec) p (Inr (in_Type_PossibleTypes (ec_introspection ec) obj))
       (marshalO_Type_list (ec_lib ec) child p)"

definition Type_enumValues ::
  "'i execution \<Rightarrow> 'i runner \<Rightarrow> collected_field \<Rightarrow> 'i \<Rightarrow> gql_path \<Rightarrow> gql_out" where
  "Type_enumValues ec child f obj p =
     with_args (ec_lib ec) p (field_Type_enumValues_args (ec_lib ec) p (fl_Args f)) (\<lambda>includeDeprecated.
     resolve_field (ec_lib ec) p (Inr (in_Type_EnumValues (ec_introspection ec) obj includeDeprecated))
       (marshalO_EnumValue_list (ec_lib ec) child p))"

definition Type_inputFields ::
  "'i execution \<Rightarrow> 'i runner \<Rightarrow> collected_field \<Rightarrow> 'i \<Rightarrow> gql_path \<Rightarrow> gql_out" where
  "Type_inputFields ec child f obj p =
     resolve_field (ec_lib ec) p (Inr (in_Type_InputFields (ec_introspection ec) obj))
       (marshalO_InputValue_list (ec_lib ec) child p)"

definition Type_ofType ::
  "'i execution \<Rightarrow> 'i runner \<Rightarrow> collected_field \<Rightarrow> 'i \<Rightarrow> gql_path \<Rightarrow> gql_out" where
  "Type_ofType ec child f obj p =
     resolve_field (ec_lib ec) p (Inr (in_Type_OfType (ec_introspection ec) obj)) (marshalO_Type (ec_lib ec) child p)"

definition Type_specifiedByURL ::
  "'i execution \<Rightarrow> 'i runner \<Rightarrow> collected_field \<Rightarrow> 'i \<Rightarrow> gql_path \<Rightarrow> gql_out" where
  "Type_specifiedByURL ec child f obj p =
     resolve_field (ec_lib ec) p (Inr (in_Type_SpecifiedByURL (ec_introspection ec) obj))
       (marshalOString (ec_lib ec) p)"

end
