(* ===== verification/GraphExec.thy ===== *)
theory GraphExec
  imports GraphFields
begin

text \<open>
  The executors of the object types, one definition for every \<open>_Type\<close> of \<open>reader/graph/generated.go\<close>: which
  field a name stands for, whether it runs at once or concurrently, and whether its null makes the object null.
  Then the recursion over the selections, the response handler \<open>Exec\<close>, and the resolvers of
  \<open>reader.resolvers.go\<close> on a database.
\<close>

section \<open>The object types\<close>

definition exec_Input ::
  "'i execution \<Rightarrow> 'i runner \<Rightarrow> collected_field \<Rightarrow> gql_Input \<Rightarrow> gql_path \<Rightarrow> field_run" where
  "exec_Input ec child f obj p =
    (if fl_Name f = ''__typename'' then Sync False (marshaled (gq_MarshalString (ec_lib ec) ''Input''))
     else if fl_Name f = ''index'' then Sync True (Input_index ec child f obj p)
     else if fl_Name f = ''status'' then Sync True (Input_status ec child f obj p)
     else if fl_Name f = ''msgSender'' then Sync True (Input_msgSender ec child f obj p)
     else if fl_Name f = ''timestamp'' then Sync True (Input_timestamp ec child f obj p)
     else if fl_Name f = ''blockNumber'' then Sync True (Input_blockNumber ec child f obj p)
     else if fl_Name f = ''payload'' then Sync True (Input_payload ec child f obj p)
     else if fl_Name f = ''voucher'' then Concurrent True (Input_voucher ec child f obj p)
     else if fl_Name f = ''notice'' then Concurrent True (Input_notice ec child f obj p)
     else if fl_Name f = ''report'' then Concurrent True (Input_report ec child f obj p)
     else if fl_Name f = ''vouchers'' then Concurrent True (Input_vouchers ec child f obj p)
     else if fl_Name f = ''notices'' then Concurrent True (Input_notices ec child f obj p)
     else if fl_Name f = ''reports'' then Concurrent True (Input_reports ec child f obj p)
     else UnknownField)"

definition exec_InputConnection ::
  "'i execution \<Rightarrow> 'i runner \<Rightarrow> collected_field \<Rightarrow> gql_Input Connection \<Rightarrow> gql_path \<Rightarrow> field_run" where
  "exec_InputConnection ec child f obj p =
    (if fl_Name f = ''__typename'' then Sync False (marshaled (gq_MarshalString (ec_lib ec) ''InputConnection''))
     else if fl_Name f = ''totalCount'' then Sync True (InputConnection_totalCount ec child f obj p)
     else if fl_Name f = ''edges'' then Sync True (InputConnection_edges ec child f obj p)
     else if fl_Name f = ''pageInfo'' then Sync True (InputConnection_pageInfo ec child f obj p)
     else UnknownField)"

definition exec_InputEdge ::
  "'i execution \<Rightarrow> 'i runner \<Rightarrow> collected_field \<Rightarrow> gql_Input Edge \<Rightarrow> gql_path \<Rightarrow> field_run" where
  "exec_InputEdge ec child f obj p =
    (if fl_Name f = ''__typename'' then Sync False (marshaled (gq_MarshalString (ec_lib ec) ''InputEdge''))
     else if fl_Name f = ''node'' then Sync True (InputEdge_node ec child f obj p)
     else if fl_Name f = ''cursor'' then Sync True (InputEdge_cursor ec child f obj p)
     else UnknownField)"

definition exec_Notice ::
  "'i execution \<Rightarrow> 'i runner \<Rightarrow> collected_field \<Rightarrow> gql_Notice \<Rightarrow> gql_path \<Rightarrow> field_run" where
  "exec_Notice ec child f obj p =
    (if fl_Name f = ''__typename'' then Sync False (marshaled (gq_MarshalString (ec_lib ec) ''Notice''))
     else if fl_Name f = ''index'' then Sync True (Notice_index ec child f obj p)
     else if fl_Name f = ''input'' then Concurrent True (Notice_input ec child f obj p)
     else if fl_Name f = ''payload'' then Sync True (Notice_payload ec child f obj p)
     else if fl_Name f = ''proof'' then Concurrent False (Notice_proof ec child f obj p)
     else UnknownField)"

definition exec_NoticeConnection ::
  "'i execution \<Rightarrow> 'i runner \<Rightarrow> collected_field \<Rightarrow> gql_Notice Connection \<Rightarrow> gql_path \<Rightarrow> field_run" where
  "exec_NoticeConnection ec child f obj p =
    (if fl_Name f = ''__typename'' then Sync False (marshaled (gq_MarshalString (ec_lib ec) ''NoticeConnection''))
     else if fl_Name f = ''totalCount'' then Sync True (NoticeConnection_totalCount ec child f obj p)
     else if fl_Name f = ''edges'' then Sync True (NoticeConnection_edges ec child f obj p)
     else if fl_Name f = ''pageInfo'' then Sync True (NoticeConnection_pageInfo ec child f obj p)
     else UnknownField)"

definition exec_NoticeEdge ::
  "'i execution \<Rightarrow> 'i runner \<Rightarrow> collected_field \<Rightarrow> gql_Notice Edge \<Rightarrow> gql_path \<Rightarrow> field_run" where
  "exec_NoticeEdge ec child f obj p =
    (if fl_Name f = ''__typename'' then Sync False (marshaled (gq_MarshalString (ec_lib ec) ''NoticeEdge''))
     else if fl_Name f = ''node'' then Sync True (NoticeEdge_node ec child f obj p)
     else if fl_Name f = ''cursor'' then Sync True (NoticeEdge_cursor ec child f obj p)
     else UnknownField)"

definition exec_PageInfo ::
  "'i execution \<Rightarrow> 'i runner \<Rightarrow> collected_field \<Rightarrow> PageInfo \<Rightarrow> gql_path \<Rightarrow> field_run" where
  "exec_PageInfo ec child f obj p =
    (if fl_Name f = ''__typename'' then Sync False (marshaled (gq_MarshalString (ec_lib ec) ''PageInfo''))
     else if fl_Name f = ''startCursor'' then Sync False (PageInfo_startCursor ec child f obj p)
     else if fl_Name f = ''endCursor'' then Sync False (PageInfo_endCursor ec child f obj p)
     else if fl_Name f = ''hasNextPage'' then Sync True (PageInfo_hasNextPage ec child f obj p)
     else if fl_Name f = ''hasPreviousPage'' then Sync True (PageInfo_hasPreviousPage ec child f obj p)
     else UnknownField)"

definition exec_Proof ::
  "'i execution \<Rightarrow> 'i runner \<Rightarrow> collected_field \<Rightarrow> gql_Proof \<Rightarrow> gql_path \<Rightarrow> field_run" where
  "exec_Proof ec child f obj p =
    (if fl_Name f = ''__typename'' then Sync False (marshaled (gq_MarshalString (ec_lib ec) ''Proof''))
     else if fl_Name f = ''firstIndex'' then Sync True (Proof_firstIndex ec child f obj p)
     else if fl_Name f = ''inputByInputIndex'' then Sync False (Proof_inputByInputIndex ec child f obj p)
     else if fl_Name f = ''inputIndex'' then Sync True (Proof_inputIndex ec child f obj p)
     else if fl_Name f = ''lastInput'' then Sync True (Proof_lastInput ec child f obj p)
     else if fl_Name f = ''nodeId'' then Sync True (Proof_nodeId ec child f obj p)
     else if fl_Name f = ''outputIndex'' then Sync True (Proof_outputIndex ec child f obj p)
     else if fl_Name f = ''validityInputIndexWithinEpoch'' then Sync True (Proof_validityInputIndexWithinEpoch ec child f obj p)
     else if fl_Name f = ''validityMachineStateHash'' then Sync True (Proof_validityMachineStateHash ec child f obj p)
     else if fl_Name f = ''validityOutputEpochRootHash'' then Sync True (Proof_validityOutputEpochRootHash ec child f obj p)
     else if fl_Name f = ''validityOutputHashInOutputHashesSiblings'' then Sync True (Proof_validityOutputHashInOutputHashesSiblings ec child f obj p)
     else if fl_Name f = ''validityOutputHashesInEpochSiblings'' then Sync True (Proof_validityOutputHashesInEpochSiblings ec child f obj p)
     else if fl_Name f = ''validityOutputHashesRootHash'' then Sync True (Proof_validityOutputHashesRootHash ec child f obj p)
     else if fl_Name f = ''validityOutputIndexWithinInput'' then Sync True (Proof_validityOutputIndexWithinInput ec child f obj p)
     else UnknownField)"

definition exec_Query ::
  "'i execution \<Rightarrow> 'i runner \<Rightarrow> collected_field \<Rightarrow> gql_path \<Rightarrow> field_run" where
  "exec_Query ec child f p =
    (if fl_Name f = ''__typename'' then Sync False (marshaled (gq_MarshalString (ec_lib ec) ''Query''))
     else if fl_Name f = ''input'' then Rooted True (Query_input ec child f p)
     else if fl_Name f = ''voucher'' then Rooted True (Query_voucher ec child f p)
     else if fl_Name f = ''notice'' then Rooted True (Query_notice ec child f p)
     else if fl_Name f = ''report'' then Rooted True (Query_report ec child f p)
     else if fl_Name f = ''inputs'' then Rooted True (Query_inputs ec child f p)
     else if fl_Name f = ''vouchers'' then Rooted True (Query_vouchers ec child f p)
     else if fl_Name f = ''notices'' then Rooted True (Query_notices ec child f p)
     else if fl_Name f = ''reports'' then Rooted True (Query_reports ec child f p)
     else if fl_Name f = ''__type'' then Sync False (Query_introspectType ec child f p)
     else if fl_Name f = ''__schema'' then Sync False (Query_introspectSchema ec child f p)
     else UnknownField)"

definition exec_Report ::
  "'i execution \<Rightarrow> 'i runner \<Rightarrow> collected_field \<Rightarrow> gql_Report \<Rightarrow> gql_path \<Rightarrow> field_run" where
  "exec_Report ec child f obj p =
    (if fl_Name f = ''__typename'' then Sync False (marshaled (gq_MarshalString (ec_lib ec) ''Report''))
     else if fl_Name f = ''index'' then Sync True (Report_index ec child f obj p)
     else if fl_Name f = ''input'' then Concurrent True (Report_input ec child f obj p)
     else if fl_Name f = ''payload'' then Sync True (Report_payload ec child f obj p)
     else UnknownField)"

definition exec_ReportConnection ::
  "'i execution \<Rightarrow> 'i runner \<Rightarrow> collected_field \<Rightarrow> gql_Report Connection \<Rightarrow> gql_path \<Rightarrow> field_run" where
  "exec_ReportConnection ec child f obj p =
    (if fl_Name f = ''__typename'' then Sync False (marshaled (gq_MarshalString (ec_lib ec) ''ReportConnection''))
     else if fl_Name f = ''totalCount'' then Sync True (ReportConnection_totalCount ec child f obj p)
     else if fl_Name f = ''edges'' then Sync True (ReportConnection_edges ec child f obj p)
     else if fl_Name f = ''pageInfo'' then Sync True (ReportConnection_pageInfo ec child f obj p)
     else UnknownField)"

definition exec_ReportEdge ::
  "'i execution \<Rightarrow> 'i runner \<Rightarrow> collected_field \<Rightarrow> gql_Report Edge \<Rightarrow> gql_path \<Rightarrow> field_run" where
  "exec_ReportEdge ec child f obj p =
    (if fl_Name f = ''__typename'' then Sync False (marshaled (gq_MarshalString (ec_lib ec) ''ReportEdge''))
     else if fl_Name f = ''node'' then Sync True (ReportEdge_node ec child f obj p)
     else if fl_Name f = ''cursor'' then Sync True (ReportEdge_cursor ec child f obj p)
     else UnknownField)"

definition exec_Voucher ::
  "'i execution \<Rightarrow> 'i runner \<Rightarrow> collected_field \<Rightarrow> gql_Voucher \<Rightarrow> gql_path \<Rightarrow> field_run" where
  "exec_Voucher ec child f obj p =
    (if fl_Name f = ''__typename'' then Sync False (marshaled (gq_MarshalString (ec_lib ec) ''Voucher''))
     else if fl_Name f = ''index'' then Sync True (Voucher_index ec child f obj p)
     else if fl_Name f = ''input'' then Concurrent True (Voucher_input ec child f obj p)
     else if fl_Name f = ''destination'' then Sync True (Voucher_destination ec child f obj p)
     else if fl_Name f = ''payload'' then Sync True (Voucher_payload ec child f obj p)
     else if fl_Name f = ''proof'' then Concurrent False (Voucher_proof ec child f obj p)
     else if fl_Name f = ''executed'' then Sync False (Voucher_executed ec child f obj p)
     else UnknownField)"

definition exec_VoucherConnection ::
  "'i execution \<Rightarrow> 'i runner \<Rightarrow> collected_field \<Rightarrow> gql_Voucher Connection \<Rightarrow> gql_path \<Rightarrow> field_run" where
  "exec_VoucherConnection ec child f obj p =
    (if fl_Name f = ''__typename'' then Sync False (marshaled (gq_MarshalString (ec_lib ec) ''VoucherConnection''))
     else if fl_Name f = ''totalCount'' then Sync True (VoucherConnection_totalCount ec child f obj p)
     else if fl_Name f = ''edges'' then Sync True (VoucherConnection_edges ec child f obj p)
     else if fl_Name f = ''pageInfo'' then Sync True (VoucherConnection_pageInfo ec child f obj p)
     else UnknownField)"

definition exec_VoucherEdge ::
  "'i execution \<Rightarrow> 'i runner \<Rightarrow> collected_field \<Rightarrow> gql_Voucher Edge \<Rightarrow> gql_path \<Rightarrow> field_run" where
  "exec_VoucherEdge ec child f obj p =
    (if fl_Name f = ''__typename'' then Sync False (marshaled (gq_MarshalString (ec_lib ec) ''VoucherEdge''))
     else if fl_Name f = ''node'' then Sync True (VoucherEdge_node ec child f obj p)
     else if fl_Name f = ''cursor'' then Sync True (VoucherEdge_cursor ec child f obj p)
     else UnknownField)"

definition exec_Directive ::
  "'i execution \<Rightarrow> 'i runner \<Rightarrow> collected_field \<Rightarrow> 'i \<Rightarrow> gql_path \<Rightarrow> field_run" where
  "exec_Directive ec child f obj p =
    (if fl_Name f = ''__typename'' then Sync False (marshaled (gq_MarshalString (ec_lib ec) ''__Directive''))
     else if fl_Name f = ''name'' then Sync True (Directive_name ec child f obj p)
     else if fl_Name f = ''description'' then Sync False (Directive_description ec child f obj p)
     else if fl_Name f = ''locations'' then Sync True (Directive_locations ec child f obj p)
     else if fl_Name f = ''args'' then Sync True (Directive_args ec child f obj p)
     else if fl_Name f = ''isRepeatable'' then Sync True (Directive_isRepeatable ec child f obj p)
     else UnknownField)"

definition exec_EnumValue ::
  "'i execution \<Rightarrow> 'i runner \<Rightarrow> collected_field \<Rightarrow> 'i \<Rightarrow> gql_path \<Rightarrow> field_run" where
  "exec_EnumValue ec child f obj p =
    (if fl_Name f = ''__typename'' then Sync False (marshaled (gq_MarshalString (ec_lib ec) ''__EnumValue''))
     else if fl_Name f = ''name'' then Sync True (EnumValue_name ec child f obj p)
     else if fl_Name f = ''description'' then Sync False (EnumValue_description ec child f obj p)
     else if fl_Name f = ''isDeprecated'' then Sync True (EnumValue_isDeprecated ec child f obj p)
     else if fl_Name f = ''deprecationReason'' then Sync False (EnumValue_deprecationReason ec child f obj p)
     else UnknownField)"

definition exec_Field ::
  "'i execution \<Rightarrow> 'i runner \<Rightarrow> collected_field \<Rightarrow> 'i \<Rightarrow> gql_path \<Rightarrow> field_run" where
  "exec_Field ec child f obj p =
    (if fl_Name f = ''__typename'' then Sync False (marshaled (gq_MarshalString (ec_lib ec) ''__Field''))
     else if fl_Name f = ''name'' then Sync True (Field_name ec child f obj p)
     else if fl_Name f = ''description'' then Sync False (Field_description ec child f obj p)
     else if fl_Name f = ''args'' then Sync True (Field_args ec child f obj p)
     else if fl_Name f = ''type'' then Sync True (Field_type ec child f obj p)
     else if fl_Name f = ''isDeprecated'' then Sync True (Field_isDeprecated ec child f obj p)
     else if fl_Name f = ''deprecationReason'' then Sync False (Field_deprecationReason ec child f obj p)
     else UnknownField)"

definition exec_InputValue ::
  "'i execution \<Rightarrow> 'i runner \<Rightarrow> collected_field \<Rightarrow> 'i \<Rightarrow> gql_path \<Rightarrow> field_run" where
  "exec_InputValue ec child f obj p =
    (if fl_Name f = ''__typename'' then Sync False (marshaled (gq_MarshalString (ec_lib ec) ''__InputValue''))
     else if fl_Name f = ''name'' then Sync True (InputValue_name ec child f obj p)
     else if fl_Name f = ''description'' then Sync False (InputValue_description ec child f obj p)
     else if fl_Name f = ''type'' then Sync True (InputValue_type ec child f obj p)
     else if fl_Name f = ''defaultValue'' then Sync False (InputValue_defaultValue ec child f obj p)
     else UnknownField)"

definition exec_Schema ::
  "'i execution \<Rightarrow> 'i runner \<Rightarrow> collected_field \<Rightarrow> 'i \<Rightarrow> gql_path \<Rightarrow> field_run" where
  "exec_Schema ec child f obj p =
    (if fl_Name f = ''__typename'' then Sync False (marshaled (gq_MarshalString (ec_lib ec) ''__Schema''))
     else if fl_Name f = ''description'' then Sync False (Schema_description ec child f obj p)
     else if fl_Name f = ''types'' then Sync True (Schema_types ec child f obj p)
     else if fl_Name f = ''queryType'' then Sync True (Schema_queryType ec child f obj p)
     else if fl_Name f = ''mutationType'' then Sync False (Schema_mutationType ec child f obj p)
     else if fl_Name f = ''subscriptionType'' then Sync False (Schema_subscriptionType ec child f obj p)
     else if fl_Name f = ''directives'' then Sync True (Schema_directives ec child f obj p)
     else UnknownField)"

definition exec_Type ::
  "'i execution \<Rightarrow> 'i runner \<Rightarrow> collected_field \<Rightarrow> 'i \<Rightarrow> gql_path \<Rightarrow> field_run" where
  "exec_Type ec child f obj p =
    (if fl_Name f = ''__typename'' then Sync False (marshaled (gq_MarshalString (ec_lib ec) ''__Type''))
     else if fl_Name f = ''kind'' then Sync True (Type_kind ec child f obj p)
     else if fl_Name f = ''name'' then Sync False (Type_name ec child f obj p)
     else if fl_Name f = ''description'' then Sync False (Type_description ec child f obj p)
     else if fl_Name f = ''fields'' then Sync False (Type_fields ec child f obj p)
     else if fl_Name f = ''interfaces'' then Sync False (Type_interfaces ec child f obj p)
     else if fl_Name f = ''possibleTypes'' then Sync False (Type_possibleTypes ec child f obj p)
     else if fl_Name f = ''enumValues'' then Sync False (Type_enumValues ec child f obj p)
     else if fl_Name f = ''inputFields'' then Sync False (Type_inputFields ec child f obj p)
     else if fl_Name f = ''ofType'' then Sync False (Type_ofType ec child f obj p)
     else if fl_Name f = ''specifiedByURL'' then Sync False (Type_specifiedByURL ec child f obj p)
     else UnknownField)"

section \<open>The recursion over the selections\<close>

definition run_object ::
  "'i execution \<Rightarrow> 'i runner \<Rightarrow> collected_field \<Rightarrow> 'i gql_obj \<Rightarrow> gql_path \<Rightarrow> field_run" where
  "run_object ec child f obj p = (case obj of
       OQuery \<Rightarrow> exec_Query ec child f p
     | OInput x \<Rightarrow> exec_Input ec child f x p
     | OInputConnection x \<Rightarrow> exec_InputConnection ec child f x p
     | OInputEdge x \<Rightarrow> exec_InputEdge ec child f x p
     | ONotice x \<Rightarrow> exec_Notice ec child f x p
     | ONoticeConnection x \<Rightarrow> exec_NoticeConnection ec child f x p
     | ONoticeEdge x \<Rightarrow> exec_NoticeEdge ec child f x p
     | OReport x \<Rightarrow> exec_Report ec child f x p
     | OReportConnection x \<Rightarrow> exec_ReportConnection ec child f x p
     | OReportEdge x \<Rightarrow> exec_ReportEdge ec child f x p
     | OVoucher x \<Rightarrow> exec_Voucher ec child f x p
     | OVoucherConnection x \<Rightarrow> exec_VoucherConnection ec child f x p
     | OVoucherEdge x \<Rightarrow> exec_VoucherEdge ec child f x p
     | OPageInfo x \<Rightarrow> exec_PageInfo ec child f x p
     | OProof x \<Rightarrow> exec_Proof ec child f x p
     | OSchema x \<Rightarrow> exec_Schema ec child f x p
     | OType x \<Rightarrow> exec_Type ec child f x p
     | OField x \<Rightarrow> exec_Field ec child f x p
     | OInputValue x \<Rightarrow> exec_InputValue ec child f x p
     | OEnumValue x \<Rightarrow> exec_EnumValue ec child f x p
     | ODirective x \<Rightarrow> exec_Directive ec child f x p)"

text \<open>A selection set on an object: every field at the path of its alias.\<close>

definition select_fields :: "(collected_field \<times> ('i gql_obj \<Rightarrow> gql_path \<Rightarrow> field_run)) list \<Rightarrow> 'i runner" where
  "select_fields fs obj p = object_result p (map (\<lambda>(f, run). (f, run obj (p @ [PathName (fl_Alias f)]))) fs)"

primrec run_field :: "'i execution \<Rightarrow> collected_field \<Rightarrow> 'i gql_obj \<Rightarrow> gql_path \<Rightarrow> field_run" where
  "run_field ec (CollectedField alias name args label sels) =
     run_object ec (select_fields (zip sels (map (run_field ec) sels))) (CollectedField alias name args label sels)"

definition execute :: "'i execution \<Rightarrow> collected_field list \<Rightarrow> 'i runner" where
  "execute ec sels = select_fields (map (\<lambda>f. (f, run_field ec f)) sels)"

lemma zip_map_self: "zip xs (map f xs) = map (\<lambda>x. (x, f x)) xs"
  by (induction xs) simp_all

lemma run_field_selections: "run_field ec f = run_object ec (execute ec (fl_Selections f)) f"
  by (cases f) (simp add: execute_def zip_map_self)

lemma execute_fields:
  "execute ec sels obj p =
     object_result p (map (\<lambda>f. (f, run_object ec (execute ec (fl_Selections f)) f obj (p @ [PathName (fl_Alias f)]))) sels)"
  unfolding execute_def [of ec sels] by (simp add: select_fields_def run_field_selections comp_def)

section \<open>The response handler\<close>

datatype operation_type = QueryOperation | MutationOperation | SubscriptionOperation

record operation_context =
  rc_Operation :: operation_type
  rc_SelectionSet :: "collected_field list"

record gql_response =
  gs_Data :: "json option"
  gs_Errors :: "gql_error list"
  gs_Path :: gql_path
  gs_Label :: string
  gs_HasNext :: "bool option"

text \<open>
  The responses until the handler returns nil: the data, then the deferred groups, of which one order is taken.
  A panic leaves the handler.
\<close>

definition Exec :: "'i execution \<Rightarrow> operation_context \<Rightarrow> gql_response list res" where
  "Exec ec rc = (case rc_Operation rc of
       QueryOperation \<Rightarrow>
         let out = execute ec (rc_SelectionSet rc) OQuery [];
             n = length (go_Deferred out);
             hasNext = (\<lambda>k. if 0 < n then Some (k < n) else None)
         in (case go_Panic out of
             Some e \<Rightarrow> Inl e
           | None \<Rightarrow> Inr (\<lparr>gs_Data = Some (go_Value out), gs_Errors = go_Errors out, gs_Path = [], gs_Label = [],
                 gs_HasNext = hasNext 0\<rparr> #
               map (\<lambda>i. let d = go_Deferred out ! i in \<lparr>gs_Data = Some (dr_Result d), gs_Errors = dr_Errors d,
                 gs_Path = dr_Path d, gs_Label = dr_Label d, gs_HasNext = hasNext (Suc i)\<rparr>) [0..<n]))
     | _ \<Rightarrow> Inr [\<lparr>gs_Data = None, gs_Errors = [([], EMsg ''unsupported GraphQL operation'')], gs_Path = [],
         gs_Label = [], gs_HasNext = None\<rparr>])"

section \<open>The resolvers on a database\<close>

definition found :: "'a res \<Rightarrow> 'a option res" where
  "found r = (case r of Inl e \<Rightarrow> Inl e | Inr x \<Rightarrow> Inr (Some x))"

text \<open>
  Resolvers only read: every call sees the tables, and some of the faults that the database shows in the
  meantime. \<open>D\<close> gives the database that the call at a path sees.
\<close>

definition reader_resolvers :: "Adapter \<Rightarrow> ethlib \<Rightarrow> (gql_path \<Rightarrow> db) \<Rightarrow> ResolverRoot" where
  "reader_resolvers A E D = \<lparr>
     rs_Input_Voucher = (\<lambda>p obj index. found (fst (inputResolver_Voucher A obj index (D p)))),
     rs_Input_Notice = (\<lambda>p obj index. found (fst (inputResolver_Notice A obj index (D p)))),
     rs_Input_Report = (\<lambda>p obj index. fst (inputResolver_Report A obj index (D p))),
     rs_Input_Vouchers = (\<lambda>p obj first lastN after before.
       found (fst (inputResolver_Vouchers A obj first lastN after before (D p)))),
     rs_Input_Notices = (\<lambda>p obj first lastN after before.
       found (fst (inputResolver_Notices A obj first lastN after before (D p)))),
     rs_Input_Reports = (\<lambda>p obj first lastN after before.
       found (fst (inputResolver_Reports A obj first lastN after before (D p)))),
     rs_Notice_Input = (\<lambda>p obj. found (fst (noticeResolver_Input A obj (D p)))),
     rs_Notice_Proof = (\<lambda>p obj. found (fst (noticeResolver_Proof A obj (D p)))),
     rs_Query_Input = (\<lambda>p index. found (fst (queryResolver_Input A index (D p)))),
     rs_Query_Voucher = (\<lambda>p voucherIndex inputIndex. found (fst (queryResolver_Voucher A voucherIndex inputIndex (D p)))),
     rs_Query_Notice = (\<lambda>p noticeIndex inputIndex. found (fst (queryResolver_Notice A noticeIndex inputIndex (D p)))),
     rs_Query_Report = (\<lambda>p reportIndex inputIndex. fst (queryResolver_Report A reportIndex inputIndex (D p))),
     rs_Query_Inputs = (\<lambda>p first lastN after before where'.
       found (fst (queryResolver_Inputs A first lastN after before where' (D p)))),
     rs_Query_Vouchers = (\<lambda>p first lastN after before filter'. case filter' of
         None \<Rightarrow> Inl (EPanic ''nil pointer dereference'')
       | Some fs \<Rightarrow> found (fst (queryResolver_Vouchers E first lastN after before fs (D p)))),
     rs_Query_Notices = (\<lambda>p first lastN after before.
       found (fst (queryResolver_Notices A first lastN after before (D p)))),
     rs_Query_Reports = (\<lambda>p first lastN after before.
       found (fst (queryResolver_Reports A first lastN after before (D p)))),
     rs_Report_Input = (\<lambda>p obj. found (fst (reportResolver_Input A obj (D p)))),
     rs_Voucher_Input = (\<lambda>p obj. found (fst (voucherResolver_Input A obj (D p)))),
     rs_Voucher_Proof = (\<lambda>p obj. found (fst (voucherResolver_Proof A obj (D p))))\<rparr>"

text \<open>What \<open>reader.Register\<close> serves under \<open>/graphql\<close>; the default server allows introspection.\<close>

definition reader_schema ::
  "gql_lib \<Rightarrow> 'i introspection \<Rightarrow> Adapter \<Rightarrow> ethlib \<Rightarrow> (gql_path \<Rightarrow> db) \<Rightarrow> 'i execution" where
  "reader_schema L I A E D = \<lparr>ec_lib = L, ec_resolvers = reader_resolvers A E D, ec_introspection = I,
     ec_DisableIntrospection = False\<rparr>"

end
