(* ===== verification/GraphSchema.thy ===== *)
theory GraphSchema
  imports GraphExec
begin

text \<open>
  The object types of the schema, as the text \<open>sources\<close> of \<open>reader/graph/generated.go\<close> has them, and what it
  means that a JSON value conforms to a type and to the fields selected of it.
\<close>

datatype gtype = Named string | NonNull gtype | ListOf gtype

type_synonym gfields = "(string \<times> gtype) list"

definition fields_Proof :: gfields where
  "fields_Proof = [
     (''firstIndex'', NonNull (Named ''Int'')), (''inputByInputIndex'', Named ''Input''),
     (''inputIndex'', NonNull (Named ''Int'')), (''lastInput'', NonNull (Named ''Int'')),
     (''nodeId'', NonNull (Named ''ID'')), (''outputIndex'', NonNull (Named ''Int'')),
     (''validityInputIndexWithinEpoch'', NonNull (Named ''Int'')),
     (''validityMachineStateHash'', NonNull (Named ''String'')),
     (''validityOutputEpochRootHash'', NonNull (Named ''String'')),
     (''validityOutputHashInOutputHashesSiblings'', NonNull (ListOf (Named ''String''))),
     (''validityOutputHashesInEpochSiblings'', NonNull (ListOf (Named ''String''))),
     (''validityOutputHashesRootHash'', NonNull (Named ''String'')),
     (''validityOutputIndexWithinInput'', NonNull (Named ''Int''))]"

definition fields_Input :: gfields where
  "fields_Input = [
     (''index'', NonNull (Named ''Int'')), (''status'', NonNull (Named ''CompletionStatus'')),
     (''msgSender'', NonNull (Named ''String'')), (''timestamp'', NonNull (Named ''BigInt'')),
     (''blockNumber'', NonNull (Named ''BigInt'')), (''payload'', NonNull (Named ''String'')),
     (''voucher'', NonNull (Named ''Voucher'')), (''notice'', NonNull (Named ''Notice'')),
     (''report'', NonNull (Named ''Report'')), (''vouchers'', NonNull (Named ''VoucherConnection'')),
     (''notices'', NonNull (Named ''NoticeConnection'')), (''reports'', NonNull (Named ''ReportConnection''))]"

definition fields_Voucher :: gfields where
  "fields_Voucher = [
     (''index'', NonNull (Named ''Int'')), (''input'', NonNull (Named ''Input'')),
     (''destination'', NonNull (Named ''String'')), (''payload'', NonNull (Named ''String'')),
     (''proof'', Named ''Proof''), (''executed'', Named ''Boolean'')]"

definition fields_Query :: gfields where
  "fields_Query = [
     (''input'', NonNull (Named ''Input'')), (''voucher'', NonNull (Named ''Voucher'')),
     (''notice'', NonNull (Named ''Notice'')), (''report'', NonNull (Named ''Report'')),
     (''inputs'', NonNull (Named ''InputConnection'')), (''vouchers'', NonNull (Named ''VoucherConnection'')),
     (''notices'', NonNull (Named ''NoticeConnection'')), (''reports'', NonNull (Named ''ReportConnection''))]"

definition fields_NoticeEdge :: gfields where
  "fields_NoticeEdge = [
     (''node'', NonNull (Named ''Notice'')), (''cursor'', NonNull (Named ''String''))]"

definition fields_InputConnection :: gfields where
  "fields_InputConnection = [
     (''totalCount'', NonNull (Named ''Int'')), (''edges'', NonNull (ListOf (NonNull (Named ''InputEdge'')))),
     (''pageInfo'', NonNull (Named ''PageInfo''))]"

definition fields_VoucherConnection :: gfields where
  "fields_VoucherConnection = [
     (''totalCount'', NonNull (Named ''Int'')), (''edges'', NonNull (ListOf (NonNull (Named ''VoucherEdge'')))),
     (''pageInfo'', NonNull (Named ''PageInfo''))]"

definition fields_Notice :: gfields where
  "fields_Notice = [
     (''index'', NonNull (Named ''Int'')), (''input'', NonNull (Named ''Input'')),
     (''payload'', NonNull (Named ''String'')), (''proof'', Named ''Proof'')]"

definition fields_ReportEdge :: gfields where
  "fields_ReportEdge = [
     (''node'', NonNull (Named ''Report'')), (''cursor'', NonNull (Named ''String''))]"

definition fields_ReportConnection :: gfields where
  "fields_ReportConnection = [
     (''totalCount'', NonNull (Named ''Int'')), (''edges'', NonNull (ListOf (NonNull (Named ''ReportEdge'')))),
     (''pageInfo'', NonNull (Named ''PageInfo''))]"

definition fields_NoticeConnection :: gfields where
  "fields_NoticeConnection = [
     (''totalCount'', NonNull (Named ''Int'')), (''edges'', NonNull (ListOf (NonNull (Named ''NoticeEdge'')))),
     (''pageInfo'', NonNull (Named ''PageInfo''))]"

definition fields_InputEdge :: gfields where
  "fields_InputEdge = [
     (''node'', NonNull (Named ''Input'')), (''cursor'', NonNull (Named ''String''))]"

definition fields_PageInfo :: gfields where
  "fields_PageInfo = [
     (''startCursor'', Named ''String''), (''endCursor'', Named ''String''),
     (''hasNextPage'', NonNull (Named ''Boolean'')), (''hasPreviousPage'', NonNull (Named ''Boolean''))]"

definition fields_Report :: gfields where
  "fields_Report = [
     (''index'', NonNull (Named ''Int'')), (''input'', NonNull (Named ''Input'')),
     (''payload'', NonNull (Named ''String''))]"

definition fields_VoucherEdge :: gfields where
  "fields_VoucherEdge = [
     (''node'', NonNull (Named ''Voucher'')), (''cursor'', NonNull (Named ''String''))]"

definition schema :: "(string \<times> gfields) list" where
  "schema = [(''Proof'', fields_Proof), (''Input'', fields_Input), (''Voucher'', fields_Voucher),
     (''Query'', fields_Query), (''NoticeEdge'', fields_NoticeEdge),
     (''InputConnection'', fields_InputConnection), (''VoucherConnection'', fields_VoucherConnection),
     (''Notice'', fields_Notice), (''ReportEdge'', fields_ReportEdge),
     (''ReportConnection'', fields_ReportConnection), (''NoticeConnection'', fields_NoticeConnection),
     (''InputEdge'', fields_InputEdge), (''PageInfo'', fields_PageInfo), (''Report'', fields_Report),
     (''VoucherEdge'', fields_VoucherEdge)]"

lemma schema_types [simp]:
  "map_of schema ''Proof'' = Some fields_Proof"
  "map_of schema ''Input'' = Some fields_Input"
  "map_of schema ''Voucher'' = Some fields_Voucher"
  "map_of schema ''Query'' = Some fields_Query"
  "map_of schema ''NoticeEdge'' = Some fields_NoticeEdge"
  "map_of schema ''InputConnection'' = Some fields_InputConnection"
  "map_of schema ''VoucherConnection'' = Some fields_VoucherConnection"
  "map_of schema ''Notice'' = Some fields_Notice"
  "map_of schema ''ReportEdge'' = Some fields_ReportEdge"
  "map_of schema ''ReportConnection'' = Some fields_ReportConnection"
  "map_of schema ''NoticeConnection'' = Some fields_NoticeConnection"
  "map_of schema ''InputEdge'' = Some fields_InputEdge"
  "map_of schema ''PageInfo'' = Some fields_PageInfo"
  "map_of schema ''Report'' = Some fields_Report"
  "map_of schema ''VoucherEdge'' = Some fields_VoucherEdge"
  by (simp_all add: schema_def)

lemma no_object_types [simp]:
  "map_of schema ''Int'' = None" "map_of schema ''String'' = None" "map_of schema ''ID'' = None"
  "map_of schema ''Boolean'' = None" "map_of schema ''BigInt'' = None" "map_of schema ''CompletionStatus'' = None"
  by (simp_all add: schema_def)

section \<open>Conformance\<close>

text \<open>The scalars and the enum.\<close>

definition leaf_conforms :: "string \<Rightarrow> json \<Rightarrow> bool" where
  "leaf_conforms n v = (case v of
       JNull \<Rightarrow> True
     | JNum _ \<Rightarrow> n = ''Int''
     | JBool _ \<Rightarrow> n = ''Boolean''
     | JStr s \<Rightarrow> n \<in> {''ID'', ''String'', ''BigInt''} \<or> n = ''CompletionStatus'' \<and> CompletionStatus_IsValid s
     | _ \<Rightarrow> False)"

lemma size_selections: "f \<in> set sels \<Longrightarrow> size_list size (fl_Selections f) < size_list size sels"
  by (induction sels) (auto simp: less_Suc_eq_le trans_le_add1 collected_field.size(2) elim!: collected_field.exhaust
      dest: less_imp_le, case_tac f, simp)

text \<open>
  An object has the members that are selected, in their order; each has the type that the schema gives its field,
  or is deferred and null. The fields \<open>__schema\<close> and \<open>__type\<close> of a query have types that the schema does
  not define.
\<close>

function conforms :: "collected_field list \<Rightarrow> gtype \<Rightarrow> json \<Rightarrow> bool" where
  "conforms sels (NonNull t) v = (v \<noteq> JNull \<and> conforms sels t v)"
| "conforms sels (ListOf t) v = (case v of JNull \<Rightarrow> True | JArr vs \<Rightarrow> \<forall>x \<in> set vs. conforms sels t x | _ \<Rightarrow> False)"
| "conforms sels (Named n) v = (case map_of schema n of
       None \<Rightarrow> leaf_conforms n v
     | Some fs \<Rightarrow> (case v of
         JNull \<Rightarrow> True
       | JObj kvs \<Rightarrow> map fst kvs = map fl_Alias sels \<and>
           (\<forall>(f, x) \<in> set (zip sels (map snd kvs)). fl_Deferrable f \<noteq> None \<and> x = JNull \<or>
             fl_Name f = ''__typename'' \<and> x = JStr n \<or>
             n = ''Query'' \<and> fl_Name f \<in> {''__schema'', ''__type''} \<or>
             (case map_of fs (fl_Name f) of None \<Rightarrow> False | Some t \<Rightarrow> conforms (fl_Selections f) t x))
       | _ \<Rightarrow> False))"
  by pat_completeness auto
termination
  by (relation "measures [\<lambda>(sels, t, v). size_list size sels, \<lambda>(sels, t, v). size t]")
    (auto dest!: set_zip_leftD size_selections)

text \<open>The member of an object of type \<open>n\<close>.\<close>

definition member_conforms :: "string \<Rightarrow> gfields \<Rightarrow> collected_field \<Rightarrow> json \<Rightarrow> bool" where
  "member_conforms n fs f x \<longleftrightarrow> fl_Name f = ''__typename'' \<and> x = JStr n \<or>
     n = ''Query'' \<and> fl_Name f \<in> {''__schema'', ''__type''} \<or>
     (case map_of fs (fl_Name f) of None \<Rightarrow> False | Some t \<Rightarrow> conforms (fl_Selections f) t x)"

lemma conforms_object:
  assumes "map_of schema n = Some fs"
  shows "conforms sels (Named n) (JObj kvs) \<longleftrightarrow> map fst kvs = map fl_Alias sels \<and>
    (\<forall>(f, x) \<in> set (zip sels (map snd kvs)). fl_Deferrable f \<noteq> None \<and> x = JNull \<or> member_conforms n fs f x)"
  using assms by (simp add: member_conforms_def)

lemma conforms_null: "conforms sels t JNull \<longleftrightarrow> (\<forall>t'. t \<noteq> NonNull t')"
  by (cases t) (auto simp: leaf_conforms_def split: option.splits)

declare conforms.simps(3) [simp del]

end
