(* ===== verification/GraphLaws.thy ===== *)
theory GraphLaws
  imports GraphSchema
begin

text \<open>
  The generated executor against the schema: what it answers conforms to the schema, and a null in a place that
  must not be null comes with an error. One lemma for every template, one for every object type, then an
  induction over the selections.
\<close>

named_theorems fits_intros

section \<open>The templates\<close>

text \<open>What may become the value of a field of type \<open>t\<close>: null with an error, or a value that conforms.\<close>

definition fits :: "collected_field list \<Rightarrow> gtype \<Rightarrow> gql_out \<Rightarrow> bool" where
  "fits sels t out \<longleftrightarrow> go_Panic out = None \<longrightarrow>
     (if go_Value out = JNull then go_Errors out \<noteq> [] \<or> conforms sels t JNull else conforms sels t (go_Value out))"

definition settled :: "gql_out \<Rightarrow> bool" where
  "settled out \<longleftrightarrow> go_Panic out = None"

lemma fits_marshaled: "conforms sels t j \<Longrightarrow> fits sels t (marshaled j)"
  by (auto simp: fits_def)

lemma fits_null_with: "es \<noteq> [] \<Longrightarrow> fits sels t (null_with es)"
  by (simp add: fits_def)

lemma fits_weaken: "fits sels (NonNull t) out \<Longrightarrow> fits sels t out"
  by (auto simp: fits_def conforms_null split: if_splits)

lemma fits_not_null: "conforms sels t j \<Longrightarrow> fits sels (NonNull t) (not_null p j)"
  by (simp add: not_null_def fits_def)

lemma fits_not_nil [fits_intros]:
  "(\<And>x. v = Some x \<Longrightarrow> fits sels t (run x)) \<Longrightarrow> fits sels t (not_nil p v run)"
  by (cases v) (simp_all add: not_nil_def fits_null_with)

lemma fits_nil_null [fits_intros]:
  assumes "\<And>x. v = Some x \<Longrightarrow> fits sels (NonNull (Named n)) (run x)"
  shows "fits sels (Named n) (nil_null v run)"
  using assms by (cases v) (auto simp: nil_null_def conforms_null intro: fits_marshaled fits_weaken)

lemma recovered_settled: "settled (recovered L p out)"
  by (simp add: recovered_def settled_def split: option.split)

lemma fits_recovered: "fits sels t out \<Longrightarrow> fits sels t (recovered L p out)"
  by (auto simp: recovered_def fits_def split: option.splits)

lemma resolve_settled [simp]: "settled (resolve_field L p r m)"
  by (cases r) (simp_all add: resolve_field_def recovered_settled, simp add: settled_def)

lemma fits_resolve [fits_intros]:
  "(\<And>x. r = Inr x \<Longrightarrow> fits sels t (m x)) \<Longrightarrow> fits sels t (resolve_field L p r m)"
  by (cases r) (simp_all add: resolve_field_def fits_null_with fits_recovered)

lemma args_settled: "(\<And>x. settled (k x)) \<Longrightarrow> settled (with_args L p args k)"
  by (auto simp: with_args_def settled_def split: sum.splits)

lemma fits_args [fits_intros]: "(\<And>x. fits sels t (k x)) \<Longrightarrow> fits sels t (with_args L p args k)"
  by (auto simp: with_args_def fits_null_with split: sum.splits)

lemma fits_list [fits_intros]:
  assumes "\<And>q x. x \<in> set xs \<Longrightarrow> fits sels (NonNull t) (m q x)"
  shows "fits sels (NonNull (ListOf (NonNull t))) (marshal_list L p m xs)"
proof -
  define raw where "raw = map (\<lambda>i. (p @ [PathIndex i], m (p @ [PathIndex i]) (xs ! i))) [0..<length xs]"
  define outs where "outs = map (\<lambda>(q, out). recovered L q out) raw"
  have fit: "fits sels (NonNull t) out" if "out \<in> set outs" for out
    using that assms unfolding outs_def raw_def by (auto intro!: fits_recovered)
  have set': "go_Panic out = None" if "out \<in> set outs" for out
    using that recovered_settled unfolding outs_def settled_def by auto
  have "marshal_list L p m xs = \<lparr>go_Value = (if \<exists>(q, out) \<in> set raw. go_Panic out \<noteq> None then JArr []
        else if \<exists>out \<in> set outs. go_Value out = JNull then JNull else JArr (map go_Value outs)),
      go_Errors = concat (map go_Errors outs), go_Deferred = concat (map go_Deferred outs), go_Panic = None\<rparr>"
    unfolding marshal_list_def Let_def raw_def outs_def ..
  moreover have "go_Errors out \<noteq> []" if "out \<in> set outs" "go_Value out = JNull" for out
    using fit [OF that(1)] set' [OF that(1)] that(2) by (simp add: fits_def conforms_null)
  moreover have "conforms sels (NonNull t) (go_Value out)" if "out \<in> set outs" "go_Value out \<noteq> JNull" for out
    using fit [OF that(1)] set' [OF that(1)] that(2) by (simp add: fits_def)
  ultimately show ?thesis unfolding fits_def by (auto split: if_splits)
qed

section \<open>Objects\<close>

text \<open>The run of a field: null in a place that must not be null has an error, another value conforms.\<close>

definition run_fits :: "string \<Rightarrow> gfields \<Rightarrow> collected_field \<Rightarrow> field_run \<Rightarrow> bool" where
  "run_fits n ts f r \<longleftrightarrow> r \<noteq> UnknownField \<longrightarrow> settled (run_out r) \<and>
     (if run_invalid r then go_Errors (run_out r) \<noteq> [] else member_conforms n ts f (go_Value (run_out r)))"

lemma run_fits_intros:
  assumes "map_of ts (fl_Name f) = Some t" and "settled out" and "fits (fl_Selections f) t out"
    and "nn \<longleftrightarrow> \<not> conforms (fl_Selections f) t JNull"
  shows "run_fits n ts f (Sync nn out)" and "run_fits n ts f (Concurrent nn out)" and "run_fits n ts f (Rooted nn out)"
  using assms by (auto simp: run_fits_def fits_def settled_def member_conforms_def split: if_splits)

lemma run_fits_typename:
  "fl_Name f = ''__typename'' \<Longrightarrow> run_fits n ts f (Sync False (marshaled (JStr n)))"
  by (simp add: run_fits_def settled_def member_conforms_def)

lemma run_fits_unknown [simp]: "run_fits n ts f UnknownField"
  by (simp add: run_fits_def)

lemma run_errors_nonempty: "(f, r) \<in> set fs \<Longrightarrow> go_Errors (run_out r) \<noteq> [] \<Longrightarrow> run_errors fs \<noteq> []"
  by (force simp: run_errors_def)

lemma object_fits:
  assumes "map_of schema n = Some ts" and "map fst fs = sels" and "\<And>f r. (f, r) \<in> set fs \<Longrightarrow> run_fits n ts f r"
  shows "fits sels (NonNull (Named n)) (object_result p fs)"
proof (cases "takeWhile (\<lambda>(_, r). r \<noteq> UnknownField) fs = fs")
  case False
  then show ?thesis by (simp add: object_result_def fits_def Let_def)
next
  case True
  then have known: "r \<noteq> UnknownField" if "(f, r) \<in> set fs" for f r
    using that set_takeWhileD [of "(f, r)" "\<lambda>(_, r). r \<noteq> UnknownField" fs] by auto
  let ?now = "filter (\<lambda>fr. run_deferred fr = None) fs"
  let ?sync = "filter (\<lambda>(_, r). is_sync r) fs" and ?conc = "filter (\<lambda>(_, r). \<not> is_sync r) ?now"
  let ?member = "\<lambda>(f, r). (fl_Alias f, if run_deferred (f, r) = None then go_Value (run_out r) else JNull)"
  have out: "object_result p fs = \<lparr>go_Value = (if \<exists>(_, r) \<in> set ?now. run_invalid r then JNull
        else JObj (map ?member fs)), go_Errors = run_errors ?sync @ run_errors ?conc,
      go_Deferred = run_groups ?sync @ run_groups ?conc @
        (if \<exists>(_, r) \<in> set ?now. run_invalid r then [] else deferred_groups p fs), go_Panic = None\<rparr>"
    unfolding object_result_def Let_def True by simp
  show ?thesis
  proof (cases "\<exists>(_, r) \<in> set ?now. run_invalid r")
    case True
    then obtain f r where fr: "(f, r) \<in> set ?now" "run_invalid r" by auto
    with assms(3) known have "go_Errors (run_out r) \<noteq> []" by (auto simp: run_fits_def)
    with fr(1) have "run_errors ?sync \<noteq> [] \<or> run_errors ?conc \<noteq> []"
      using run_errors_nonempty [of f r ?sync] run_errors_nonempty [of f r ?conc] by (cases "is_sync r") auto
    with True show ?thesis by (auto simp: out fits_def)
  next
    case False
    have "fl_Deferrable f \<noteq> None \<and> x = JNull \<or> member_conforms n ts f x"
      if "(f, x) \<in> set (zip sels (map snd (map ?member fs)))" for f x
    proof -
      have "zip sels (map snd (map ?member fs)) = map (\<lambda>fr. (fst fr, snd (?member fr))) fs"
        unfolding assms(2) [symmetric] by (simp add: zip_map_map zip_same_conv_map)
      with that obtain r where r: "(f, r) \<in> set fs" "x = snd (?member (f, r))" by auto
      show ?thesis
      proof (cases "run_deferred (f, r)")
        case None
        with False r known assms(3) show ?thesis by (fastforce simp: run_fits_def)
      next
        case (Some l)
        then have "fl_Deferrable f \<noteq> None" by (cases r) auto
        with Some r show ?thesis by simp
      qed
    qed
    moreover have "map fst (map ?member fs) = map fl_Alias sels" using assms(2) by auto
    moreover have "go_Value (object_result p fs) = JObj (map ?member fs)"
      unfolding out using False by (simp only: if_False gql_out.select_convs)
    ultimately show ?thesis unfolding fits_def conforms.simps(1) conforms_null
      by (simp only: conforms_object [OF assms(1)]) auto
  qed
qed

section \<open>The object types\<close>

text \<open>
  The objects of the schema, with the name of their type; those of the introspection package are not among
  them. The enum \<open>CompletionStatus\<close> is the only type of which Go has values that the schema does not.
\<close>

fun type_name :: "'i gql_obj \<Rightarrow> string" where
  "type_name OQuery = ''Query''"
| "type_name (OInput _) = ''Input''"
| "type_name (OInputConnection _) = ''InputConnection''"
| "type_name (OInputEdge _) = ''InputEdge''"
| "type_name (ONotice _) = ''Notice''"
| "type_name (ONoticeConnection _) = ''NoticeConnection''"
| "type_name (ONoticeEdge _) = ''NoticeEdge''"
| "type_name (OReport _) = ''Report''"
| "type_name (OReportConnection _) = ''ReportConnection''"
| "type_name (OReportEdge _) = ''ReportEdge''"
| "type_name (OVoucher _) = ''Voucher''"
| "type_name (OVoucherConnection _) = ''VoucherConnection''"
| "type_name (OVoucherEdge _) = ''VoucherEdge''"
| "type_name (OPageInfo _) = ''PageInfo''"
| "type_name (OProof _) = ''Proof''"
| "type_name _ = ''''"

definition input_ok :: "gql_Input \<Rightarrow> bool" where
  "input_ok i = CompletionStatus_IsValid (gi_Status i)"

definition proof_ok :: "gql_Proof \<Rightarrow> bool" where
  "proof_ok pf = (case pf_InputByInputIndex pf of None \<Rightarrow> True | Some i \<Rightarrow> input_ok i)"

fun obj_ok :: "'i gql_obj \<Rightarrow> bool" where
  "obj_ok (OInput i) = input_ok i"
| "obj_ok (OInputConnection c) = (\<forall>e \<in> set (Edges c). input_ok (Node e))"
| "obj_ok (OInputEdge e) = input_ok (Node e)"
| "obj_ok (OProof pf) = proof_ok pf"
| "obj_ok (OSchema _) = False"
| "obj_ok (OType _) = False"
| "obj_ok (OField _) = False"
| "obj_ok (OInputValue _) = False"
| "obj_ok (OEnumValue _) = False"
| "obj_ok (ODirective _) = False"
| "obj_ok _ = True"

definition resolvers_ok :: "ResolverRoot \<Rightarrow> bool" where
  "resolvers_ok R \<longleftrightarrow>
     (\<forall>p obj i. rs_Notice_Input R p obj = Inr (Some i) \<longrightarrow> input_ok i) \<and>
     (\<forall>p obj i. rs_Report_Input R p obj = Inr (Some i) \<longrightarrow> input_ok i) \<and>
     (\<forall>p obj i. rs_Voucher_Input R p obj = Inr (Some i) \<longrightarrow> input_ok i) \<and>
     (\<forall>p index i. rs_Query_Input R p index = Inr (Some i) \<longrightarrow> input_ok i) \<and>
     (\<forall>p first lastN after before where' c. rs_Query_Inputs R p first lastN after before where' = Inr (Some c) \<longrightarrow>
       (\<forall>e \<in> set (Edges c). input_ok (Node e))) \<and>
     (\<forall>p obj pf. rs_Notice_Proof R p obj = Inr (Some pf) \<longrightarrow> proof_ok pf) \<and>
     (\<forall>p obj pf. rs_Voucher_Proof R p obj = Inr (Some pf) \<longrightarrow> proof_ok pf)"

definition child_fits :: "'i runner \<Rightarrow> collected_field list \<Rightarrow> bool" where
  "child_fits child sels \<longleftrightarrow>
     (\<forall>obj p. obj_ok obj \<longrightarrow> fits sels (NonNull (Named (type_name obj))) (child obj p))"

lemma conforms_leaf: "map_of schema n = None \<Longrightarrow> conforms sels (Named n) v = leaf_conforms n v"
  by (simp add: conforms.simps)

lemma fits_leaf [fits_intros]:
  assumes "gql_laws L"
  shows "fits sels (NonNull (Named ''Int'')) (marshalNInt L p i)"
    "fits sels (NonNull (Named ''String'')) (marshalNString L p s)"
    "fits sels (NonNull (Named ''BigInt'')) (marshalNBigInt L p s)"
    "fits sels (NonNull (Named ''ID'')) (marshalNID L p s)"
    "fits sels (NonNull (Named ''Boolean'')) (marshalNBoolean L p b)"
    "fits sels (Named ''Boolean'') (marshalOBoolean L p b)"
    "fits sels (Named ''String'') (marshalOString L p s')"
    "CompletionStatus_IsValid s \<Longrightarrow> fits sels (NonNull (Named ''CompletionStatus'')) (marshalNCompletionStatus L p s)"
  by (auto simp: marshalNInt_def marshalNString_def marshalNBigInt_def marshalNID_def marshalNBoolean_def
      marshalOBoolean_def marshalOString_def marshalNCompletionStatus_def gql_marshal [OF assms] conforms_leaf
      leaf_conforms_def nil_null_def intro!: fits_not_null fits_marshaled split: option.split)

lemma fits_strings [fits_intros]:
  assumes "gql_laws L"
  shows "fits sels (NonNull (ListOf (Named ''String''))) (marshalNString_list L p ss)"
  by (auto simp: marshalNString_list_def marshalOString_def gql_marshal [OF assms] conforms_leaf leaf_conforms_def
      nil_null_def intro!: fits_marshaled split: option.split)

text \<open>The marshalers of objects, given that what is selected of them fits.\<close>

lemma fits_object: "child_fits child sels \<Longrightarrow> obj_ok obj \<Longrightarrow> type_name obj = n \<Longrightarrow>
    fits sels (NonNull (Named n)) (child obj p)"
  by (auto simp: child_fits_def)

lemma fits_outputs [fits_intros]:
  assumes "child_fits child sels"
  shows
    "fits sels (NonNull (Named ''Notice'')) (marshalNNotice L child p n)"
    "fits sels (NonNull (Named ''NoticeConnection'')) (marshalNNoticeConnection L child p nc)"
    "fits sels (NonNull (Named ''NoticeEdge'')) (marshalNNoticeEdge L child p ne)"
    "fits sels (NonNull (ListOf (NonNull (Named ''NoticeEdge'')))) (marshalNNoticeEdge_list L child p nes)"
    "fits sels (NonNull (Named ''Report'')) (marshalNReport L child p r)"
    "fits sels (NonNull (Named ''ReportConnection'')) (marshalNReportConnection L child p rc)"
    "fits sels (NonNull (Named ''ReportEdge'')) (marshalNReportEdge L child p re)"
    "fits sels (NonNull (ListOf (NonNull (Named ''ReportEdge'')))) (marshalNReportEdge_list L child p res)"
    "fits sels (NonNull (Named ''Voucher'')) (marshalNVoucher L child p v)"
    "fits sels (NonNull (Named ''VoucherConnection'')) (marshalNVoucherConnection L child p vc)"
    "fits sels (NonNull (Named ''VoucherEdge'')) (marshalNVoucherEdge L child p ve)"
    "fits sels (NonNull (ListOf (NonNull (Named ''VoucherEdge'')))) (marshalNVoucherEdge_list L child p ves)"
    "fits sels (NonNull (Named ''PageInfo'')) (marshalNPageInfo L child p info)"
  unfolding marshalNNotice_def marshalNNoticeConnection_def marshalNNoticeEdge_def marshalNNoticeEdge_list_def
    marshalNReport_def marshalNReportConnection_def marshalNReportEdge_def marshalNReportEdge_list_def
    marshalNVoucher_def marshalNVoucherConnection_def marshalNVoucherEdge_def marshalNVoucherEdge_list_def
    marshalNPageInfo_def
  by (auto intro!: fits_intros fits_object [OF assms])

lemma fits_inputs [fits_intros]:
  assumes "child_fits child sels"
  shows "(\<And>x. i = Some x \<Longrightarrow> input_ok x) \<Longrightarrow> fits sels (NonNull (Named ''Input'')) (marshalNInput L child p i)"
    "(\<And>x. i = Some x \<Longrightarrow> input_ok x) \<Longrightarrow> fits sels (Named ''Input'') (marshalOInput L child p i)"
    "(\<And>x. pf = Some x \<Longrightarrow> proof_ok x) \<Longrightarrow> fits sels (Named ''Proof'') (marshalOProof L child p pf)"
    "(\<And>x. c = Some x \<Longrightarrow> \<forall>e \<in> set (Edges x). input_ok (Node e)) \<Longrightarrow>
       fits sels (NonNull (Named ''InputConnection'')) (marshalNInputConnection L child p c)"
    "(\<And>e. e \<in> set es \<Longrightarrow> input_ok (Node e)) \<Longrightarrow>
       fits sels (NonNull (ListOf (NonNull (Named ''InputEdge'')))) (marshalNInputEdge_list L child p es)"
  unfolding marshalNInput_def marshalOInput_def marshalOProof_def marshalNInputConnection_def marshalNInputEdge_def
    marshalNInputEdge_list_def
  by (auto intro!: fits_intros fits_object [OF assms])

lemma Proof_fits [fits_intros]:
  assumes "gql_laws (ec_lib ec)" and "resolvers_ok (ec_resolvers ec)" and "child_fits child (fl_Selections f)" and "obj_ok (OProof obj)"
  shows "run_fits ''Proof'' fields_Proof f (exec_Proof ec child f obj p)"
  using assms unfolding exec_Proof_def fields_Proof_def Proof_firstIndex_def Proof_inputByInputIndex_def Proof_inputIndex_def
    Proof_lastInput_def Proof_nodeId_def Proof_outputIndex_def Proof_validityInputIndexWithinEpoch_def
    Proof_validityMachineStateHash_def Proof_validityOutputEpochRootHash_def
    Proof_validityOutputHashInOutputHashesSiblings_def Proof_validityOutputHashesInEpochSiblings_def
    Proof_validityOutputHashesRootHash_def Proof_validityOutputIndexWithinInput_def
  by (auto intro!: run_fits_intros run_fits_typename fits_intros args_settled simp: gql_marshal conforms_null
      resolvers_ok_def proof_ok_def split: prod.split)

lemma Input_fits [fits_intros]:
  assumes "gql_laws (ec_lib ec)" and "resolvers_ok (ec_resolvers ec)" and "child_fits child (fl_Selections f)" and "obj_ok (OInput obj)"
  shows "run_fits ''Input'' fields_Input f (exec_Input ec child f obj p)"
  using assms unfolding exec_Input_def fields_Input_def Input_index_def Input_status_def Input_msgSender_def Input_timestamp_def
    Input_blockNumber_def Input_payload_def Input_voucher_def Input_notice_def Input_report_def
    Input_vouchers_def Input_notices_def Input_reports_def
  by (auto intro!: run_fits_intros run_fits_typename fits_intros args_settled simp: gql_marshal conforms_null
      resolvers_ok_def input_ok_def split: prod.split)

lemma Voucher_fits [fits_intros]:
  assumes "gql_laws (ec_lib ec)" and "resolvers_ok (ec_resolvers ec)" and "child_fits child (fl_Selections f)"
  shows "run_fits ''Voucher'' fields_Voucher f (exec_Voucher ec child f obj p)"
  using assms unfolding exec_Voucher_def fields_Voucher_def Voucher_index_def Voucher_input_def Voucher_destination_def
    Voucher_payload_def Voucher_proof_def Voucher_executed_def
  by (auto intro!: run_fits_intros run_fits_typename fits_intros args_settled simp: gql_marshal conforms_null
      resolvers_ok_def split: prod.split)

lemma Query_fits [fits_intros]:
  assumes "gql_laws (ec_lib ec)" and "resolvers_ok (ec_resolvers ec)" and "child_fits child (fl_Selections f)"
  shows "run_fits ''Query'' fields_Query f (exec_Query ec child f p)"
proof (cases "fl_Name f = ''__schema'' \<or> fl_Name f = ''__type''")
  case True
  then show ?thesis
    by (auto simp: exec_Query_def run_fits_def member_conforms_def Query_introspectType_def
        Query_introspectSchema_def intro!: args_settled)
next
  case False
  then show ?thesis
    using assms unfolding exec_Query_def fields_Query_def Query_input_def Query_voucher_def Query_notice_def Query_report_def
      Query_inputs_def Query_vouchers_def Query_notices_def Query_reports_def
    by (auto intro!: run_fits_intros run_fits_typename fits_intros args_settled simp: gql_marshal conforms_null
      resolvers_ok_def split: prod.split)
qed

lemma NoticeEdge_fits [fits_intros]:
  assumes "gql_laws (ec_lib ec)" and "resolvers_ok (ec_resolvers ec)" and "child_fits child (fl_Selections f)"
  shows "run_fits ''NoticeEdge'' fields_NoticeEdge f (exec_NoticeEdge ec child f obj p)"
  using assms unfolding exec_NoticeEdge_def fields_NoticeEdge_def NoticeEdge_node_def NoticeEdge_cursor_def
  by (auto intro!: run_fits_intros run_fits_typename fits_intros args_settled simp: gql_marshal conforms_null
      resolvers_ok_def split: prod.split)

lemma InputConnection_fits [fits_intros]:
  assumes "gql_laws (ec_lib ec)" and "resolvers_ok (ec_resolvers ec)" and "child_fits child (fl_Selections f)" and "obj_ok (OInputConnection obj)"
  shows "run_fits ''InputConnection'' fields_InputConnection f (exec_InputConnection ec child f obj p)"
  using assms unfolding exec_InputConnection_def fields_InputConnection_def InputConnection_totalCount_def
    InputConnection_edges_def InputConnection_pageInfo_def
  by (auto intro!: run_fits_intros run_fits_typename fits_intros args_settled simp: gql_marshal conforms_null
      resolvers_ok_def split: prod.split)

lemma VoucherConnection_fits [fits_intros]:
  assumes "gql_laws (ec_lib ec)" and "resolvers_ok (ec_resolvers ec)" and "child_fits child (fl_Selections f)"
  shows "run_fits ''VoucherConnection'' fields_VoucherConnection f (exec_VoucherConnection ec child f obj p)"
  using assms unfolding exec_VoucherConnection_def fields_VoucherConnection_def VoucherConnection_totalCount_def
    VoucherConnection_edges_def VoucherConnection_pageInfo_def
  by (auto intro!: run_fits_intros run_fits_typename fits_intros args_settled simp: gql_marshal conforms_null
      resolvers_ok_def split: prod.split)

lemma Notice_fits [fits_intros]:
  assumes "gql_laws (ec_lib ec)" and "resolvers_ok (ec_resolvers ec)" and "child_fits child (fl_Selections f)"
  shows "run_fits ''Notice'' fields_Notice f (exec_Notice ec child f obj p)"
  using assms unfolding exec_Notice_def fields_Notice_def Notice_index_def Notice_input_def Notice_payload_def Notice_proof_def
  by (auto intro!: run_fits_intros run_fits_typename fits_intros args_settled simp: gql_marshal conforms_null
      resolvers_ok_def split: prod.split)

lemma ReportEdge_fits [fits_intros]:
  assumes "gql_laws (ec_lib ec)" and "resolvers_ok (ec_resolvers ec)" and "child_fits child (fl_Selections f)"
  shows "run_fits ''ReportEdge'' fields_ReportEdge f (exec_ReportEdge ec child f obj p)"
  using assms unfolding exec_ReportEdge_def fields_ReportEdge_def ReportEdge_node_def ReportEdge_cursor_def
  by (auto intro!: run_fits_intros run_fits_typename fits_intros args_settled simp: gql_marshal conforms_null
      resolvers_ok_def split: prod.split)

lemma ReportConnection_fits [fits_intros]:
  assumes "gql_laws (ec_lib ec)" and "resolvers_ok (ec_resolvers ec)" and "child_fits child (fl_Selections f)"
  shows "run_fits ''ReportConnection'' fields_ReportConnection f (exec_ReportConnection ec child f obj p)"
  using assms unfolding exec_ReportConnection_def fields_ReportConnection_def ReportConnection_totalCount_def
    ReportConnection_edges_def ReportConnection_pageInfo_def
  by (auto intro!: run_fits_intros run_fits_typename fits_intros args_settled simp: gql_marshal conforms_null
      resolvers_ok_def split: prod.split)

lemma NoticeConnection_fits [fits_intros]:
  assumes "gql_laws (ec_lib ec)" and "resolvers_ok (ec_resolvers ec)" and "child_fits child (fl_Selections f)"
  shows "run_fits ''NoticeConnection'' fields_NoticeConnection f (exec_NoticeConnection ec child f obj p)"
  using assms unfolding exec_NoticeConnection_def fields_NoticeConnection_def NoticeConnection_totalCount_def
    NoticeConnection_edges_def NoticeConnection_pageInfo_def
  by (auto intro!: run_fits_intros run_fits_typename fits_intros args_settled simp: gql_marshal conforms_null
      resolvers_ok_def split: prod.split)

lemma InputEdge_fits [fits_intros]:
  assumes "gql_laws (ec_lib ec)" and "resolvers_ok (ec_resolvers ec)" and "child_fits child (fl_Selections f)" and "obj_ok (OInputEdge obj)"
  shows "run_fits ''InputEdge'' fields_InputEdge f (exec_InputEdge ec child f obj p)"
  using assms unfolding exec_InputEdge_def fields_InputEdge_def InputEdge_node_def InputEdge_cursor_def
  by (auto intro!: run_fits_intros run_fits_typename fits_intros args_settled simp: gql_marshal conforms_null
      resolvers_ok_def split: prod.split)

lemma PageInfo_fits [fits_intros]:
  assumes "gql_laws (ec_lib ec)" and "resolvers_ok (ec_resolvers ec)" and "child_fits child (fl_Selections f)"
  shows "run_fits ''PageInfo'' fields_PageInfo f (exec_PageInfo ec child f obj p)"
  using assms unfolding exec_PageInfo_def fields_PageInfo_def PageInfo_startCursor_def PageInfo_endCursor_def
    PageInfo_hasNextPage_def PageInfo_hasPreviousPage_def
  by (auto intro!: run_fits_intros run_fits_typename fits_intros args_settled simp: gql_marshal conforms_null
      resolvers_ok_def split: prod.split)

lemma Report_fits [fits_intros]:
  assumes "gql_laws (ec_lib ec)" and "resolvers_ok (ec_resolvers ec)" and "child_fits child (fl_Selections f)"
  shows "run_fits ''Report'' fields_Report f (exec_Report ec child f obj p)"
  using assms unfolding exec_Report_def fields_Report_def Report_index_def Report_input_def Report_payload_def
  by (auto intro!: run_fits_intros run_fits_typename fits_intros args_settled simp: gql_marshal conforms_null
      resolvers_ok_def split: prod.split)

lemma VoucherEdge_fits [fits_intros]:
  assumes "gql_laws (ec_lib ec)" and "resolvers_ok (ec_resolvers ec)" and "child_fits child (fl_Selections f)"
  shows "run_fits ''VoucherEdge'' fields_VoucherEdge f (exec_VoucherEdge ec child f obj p)"
  using assms unfolding exec_VoucherEdge_def fields_VoucherEdge_def VoucherEdge_node_def VoucherEdge_cursor_def
  by (auto intro!: run_fits_intros run_fits_typename fits_intros args_settled simp: gql_marshal conforms_null
      resolvers_ok_def split: prod.split)

section \<open>The selections\<close>

lemma run_object_fits:
  assumes "gql_laws (ec_lib ec)" and "resolvers_ok (ec_resolvers ec)" and "child_fits child (fl_Selections f)"
    and "obj_ok obj" and "map_of schema (type_name obj) = Some ts"
  shows "run_fits (type_name obj) ts f (run_object ec child f obj p)"
  using assms(4,5) by (cases obj) (auto simp: run_object_def intro!: fits_intros assms(1-3))

lemma schema_has_type: "obj_ok obj \<Longrightarrow> \<exists>ts. map_of schema (type_name obj) = Some ts"
  by (cases obj) auto

lemma execute_fits:
  assumes "gql_laws (ec_lib ec)" and "resolvers_ok (ec_resolvers ec)"
  shows "child_fits (execute ec sels) sels"
proof (induction sels rule: measure_induct_rule [where f = "size_list size"])
  case (less sels)
  show ?case unfolding child_fits_def
  proof (intro allI impI)
    fix obj :: "'a gql_obj" and p
    assume obj: "obj_ok obj"
    then obtain ts where ts: "map_of schema (type_name obj) = Some ts" using schema_has_type by blast
    show "fits sels (NonNull (Named (type_name obj))) (execute ec sels obj p)"
      unfolding execute_fields [of ec sels obj p]
    proof (rule object_fits [OF ts])
      fix f r
      assume "(f, r) \<in> set (map (\<lambda>f. (f, run_object ec (execute ec (fl_Selections f)) f obj
        (p @ [PathName (fl_Alias f)]))) sels)"
      then show "run_fits (type_name obj) ts f r"
        using run_object_fits [OF assms less [OF size_selections] obj ts] by auto
    qed (simp add: comp_def)
  qed
qed

text \<open>The first response of a query; the others are the groups that were deferred.\<close>

lemma Exec_query:
  assumes "rc_Operation rc = QueryOperation" and "go_Panic (execute ec (rc_SelectionSet rc) OQuery []) = None"
  shows "\<exists>r rs. Exec ec rc = Inr (r # rs) \<and> gs_Data r = Some (go_Value (execute ec (rc_SelectionSet rc) OQuery [])) \<and>
    gs_Errors r = go_Errors (execute ec (rc_SelectionSet rc) OQuery []) \<and>
    length rs = length (go_Deferred (execute ec (rc_SelectionSet rc) OQuery []))"
  using assms by (simp add: Exec_def Let_def)

lemma Exec_panic:
  assumes "rc_Operation rc = QueryOperation" and "go_Panic (execute ec (rc_SelectionSet rc) OQuery []) = Some e"
  shows "Exec ec rc = Inl e"
  using assms by (simp add: Exec_def Let_def)

lemma Exec_conforms:
  assumes "gql_laws (ec_lib ec)" and "resolvers_ok (ec_resolvers ec)" and "rc_Operation rc = QueryOperation"
    and "Exec ec rc = Inr rs"
  shows "\<exists>r rest v. rs = r # rest \<and> gs_Data r = Some v \<and>
    (if v = JNull then gs_Errors r \<noteq> [] else conforms (rc_SelectionSet rc) (Named ''Query'') v)"
proof -
  let ?out = "execute ec (rc_SelectionSet rc) OQuery []"
  have "go_Panic ?out = None" using assms(3,4) Exec_panic [of rc ec] by (cases "go_Panic ?out") auto
  moreover have "fits (rc_SelectionSet rc) (NonNull (Named ''Query'')) ?out"
    by (rule fits_object [OF execute_fits [OF assms(1,2)]]) simp_all
  ultimately show ?thesis using Exec_query [of rc ec] assms(3,4)
    by (auto simp: fits_def split: if_splits)
qed

lemma object_no_panic:
  "(\<And>f r. (f, r) \<in> set fs \<Longrightarrow> r \<noteq> UnknownField) \<Longrightarrow> go_Panic (object_result p fs) = None"
proof -
  assume "\<And>f r. (f, r) \<in> set fs \<Longrightarrow> r \<noteq> UnknownField"
  then have "takeWhile (\<lambda>(_, r). r \<noteq> UnknownField) fs = fs" by (auto simp: takeWhile_eq_all_conv)
  then show ?thesis unfolding object_result_def Let_def by simp
qed

text \<open>A query whose fields are those of the schema does not panic.\<close>

definition root_fields :: "string list" where
  "root_fields = [''__typename'', ''__schema'', ''__type''] @ map fst fields_Query"

lemma Query_known: "fl_Name f \<in> set root_fields \<Longrightarrow> exec_Query ec child f p \<noteq> UnknownField"
  by (auto simp: root_fields_def fields_Query_def exec_Query_def)

lemma query_no_panic:
  assumes "\<And>f. f \<in> set sels \<Longrightarrow> fl_Name f \<in> set root_fields"
  shows "go_Panic (execute ec sels OQuery p) = None"
  unfolding execute_fields [of ec sels OQuery p]
proof (rule object_no_panic)
  fix f r
  assume "(f, r) \<in> set (map (\<lambda>f. (f, run_object ec (execute ec (fl_Selections f)) f OQuery
    (p @ [PathName (fl_Alias f)]))) sels)"
  then have "f \<in> set sels" and "r = exec_Query ec (execute ec (fl_Selections f)) f (p @ [PathName (fl_Alias f)])"
    by (auto simp: run_object_def)
  with assms Query_known show "r \<noteq> UnknownField" by metis
qed

section \<open>The resolvers of the first adapter\<close>

lemma ConvertInput_ok: "ConvertInput E input = Inr i \<Longrightarrow> input_ok i"
  by (auto simp: ConvertInput_def model_convertCompletionStatus_def rbind_Inr_iff input_ok_def
      CompletionStatus_IsValid_def split: if_splits)

lemma V1_GetInput_ok: "fst (V1_GetInput E index d) = Inr i \<Longrightarrow> input_ok i"
  by (auto simp: V1_GetInput_def andThen_apply lift_res_def fail_def split: prod.splits sum.splits option.splits
      dest: ConvertInput_ok)

lemma rmap_elem: "rmap f xs = Inr ys \<Longrightarrow> y \<in> set ys \<Longrightarrow> \<exists>x \<in> set xs. f x = Inr y"
  by (induction xs arbitrary: ys) (auto simp: rbind_Inr_iff)

lemma V1_GetInputs_ok:
  assumes "fst (V1_GetInputs E first lastN after before where' d) = Inr c" and "e \<in> set (Edges c)"
  shows "input_ok (Node e)"
proof -
  from assms(1) obtain xs ys o' t where "rmap (ConvertInput E) xs = Inr ys" and c: "c = NewConnection o' t ys"
    by (auto simp: V1_GetInputs_def Let_def andThen_apply lift_res_def V1_convertToInputConnection_def rbind_Inr_iff
        split: prod.splits sum.splits)
  moreover have "Node e \<in> set ys" using assms(2) NewConnection_nodes [of o' t ys] unfolding c
    by (metis image_eqI list.set_map)
  ultimately show ?thesis using rmap_elem ConvertInput_ok by fast
qed

lemma V1_resolvers_ok: "resolvers_ok (reader_resolvers (AdapterV1 E) E' D)"
  by (auto simp: resolvers_ok_def reader_resolvers_def found_def noticeResolver_Input_def reportResolver_Input_def
      voucherResolver_Input_def queryResolver_Input_def queryResolver_Inputs_def noticeResolver_Proof_def
      voucherResolver_Proof_def AdapterV1_def V1_GetProof_def fail_def split: sum.splits
      dest: V1_GetInput_ok V1_GetInputs_ok)

end
