(* ===== verification/GraphFilters.thy ===== *)
theory GraphFilters
  imports GraphMarshal
begin

text \<open>
  The argument \<open>filter\<close> of the query for vouchers: its depth is enough fuel for the readers, and what a client
  writes is what the resolver gets.
\<close>

section \<open>The fuel is enough\<close>

lemma depth_member: "map_of kvs k = Some v \<Longrightarrow> json_depth v < json_depth (JObj kvs)"
  by (induction kvs) (auto split: if_splits)

lemma depth_elem: "x \<in> set xs \<Longrightarrow> json_depth x < json_depth (JArr xs)"
  by (induction xs) auto

lemma depth_coerced:
  assumes "gql_laws L" and "v \<noteq> JNull" and "x \<in> set (gq_CoerceList L v)"
  shows "json_depth x \<le> json_depth v"
proof (cases "\<exists>vs. v = JArr vs")
  case True
  then show ?thesis using assms(3) depth_elem by (auto simp: gql_unmarshal [OF assms(1)] intro: less_imp_le)
next
  case False
  then show ?thesis using assms(2,3) by (simp add: gql_unmarshal [OF assms(1)])
qed

lemma gmap_from_cong:
  "(\<And>i x. x \<in> set xs \<Longrightarrow> f i x = g i x) \<Longrightarrow> gmap_from i f xs = gmap_from i g xs"
proof (induction xs arbitrary: i)
  case (Cons x xs)
  from Cons.prems have "f i x = g i x" by simp
  moreover have "gmap_from (Suc i) f xs = gmap_from (Suc i) g xs" by (rule Cons.IH) (simp add: Cons.prems)
  ultimately show ?case by simp
qed simp

lemma arg_value_cong:
  assumes "\<And>q w. json_depth w < json_depth (JObj kvs) \<Longrightarrow> un q w = un' q w"
  shows "arg_value kvs p name zero un = arg_value kvs p name zero un'"
  using assms depth_member by (auto simp: arg_value_def split: option.split)

text \<open>Two readers of filters that agree below a depth.\<close>

lemma filters_cong:
  assumes "gql_laws L" and "\<And>q w. json_depth w < n \<Longrightarrow> read q w = read' q w" and "json_depth v < n"
  shows "unmarshalOConvenientFilter_elems L read p v = unmarshalOConvenientFilter_elems L read' p v"
proof (cases "v = JNull")
  case False
  then have "gmap_from 0 (\<lambda>i. unmarshalOConvenientFilter read (p @ [PathIndex i])) (gq_CoerceList L v) =
      gmap_from 0 (\<lambda>i. unmarshalOConvenientFilter read' (p @ [PathIndex i])) (gq_CoerceList L v)"
    using depth_coerced [OF assms(1) False] assms(2,3)
    by (intro gmap_from_cong) (force simp: unmarshalOConvenientFilter_def)
  then show ?thesis by (simp add: unmarshalOConvenientFilter_elems_def)
qed (simp add: unmarshalOConvenientFilter_elems_def)

lemma address_cong:
  assumes "\<And>q w. json_depth w < json_depth v \<Longrightarrow> fs q w = fs' q w"
  shows "unmarshalInputAddressFilterInput L fs p v = unmarshalInputAddressFilterInput L fs' p v"
proof (cases v)
  case (JObj kvs)
  then have "arg_value kvs p n z fs = arg_value kvs p n z fs'" for n z using assms by (intro arg_value_cong) simp
  with JObj show ?thesis by (simp add: unmarshalInputAddressFilterInput_def as_map_def)
qed (simp_all add: unmarshalInputAddressFilterInput_def as_map_def)

lemma boolean_cong:
  assumes "\<And>q w. json_depth w < json_depth v \<Longrightarrow> fs q w = fs' q w"
  shows "unmarshalInputBooleanFilterInput L fs p v = unmarshalInputBooleanFilterInput L fs' p v"
proof (cases v)
  case (JObj kvs)
  then have "arg_value kvs p n z fs = arg_value kvs p n z fs'" for n z using assms by (intro arg_value_cong) simp
  with JObj show ?thesis by (simp add: unmarshalInputBooleanFilterInput_def as_map_def)
qed (simp_all add: unmarshalInputBooleanFilterInput_def as_map_def)

text \<open>More fuel than the depth changes nothing.\<close>

theorem filter_fuel:
  assumes "gql_laws L" and "json_depth v < n" and "json_depth v < m"
  shows "unmarshalInputConvenientFilter L n p v = unmarshalInputConvenientFilter L m p v"
  using assms(2,3)
proof (induction "json_depth v" arbitrary: v n m p rule: less_induct)
  case less
  obtain n' m' where nm: "n = Suc n'" "m = Suc m'" using less.prems by (cases n; cases m) auto
  let ?f = "unmarshalOConvenientFilter_elems L (unmarshalInputConvenientFilter L n')"
  let ?g = "unmarshalOConvenientFilter_elems L (unmarshalInputConvenientFilter L m')"
  have fg: "?f q w = ?g q w" if "json_depth w < json_depth v" for q w
    by (rule filters_cong [OF assms(1) _ that], rule less.hyps) (use less.prems nm in auto)
  show ?case
  proof (cases v)
    case (JObj kvs)
    then have arg: "arg_value kvs p k z ?f = arg_value kvs p k z ?g" for k z
      using fg by (intro arg_value_cong) simp
    have "unmarshalOAddressFilterInput L ?f q w = unmarshalOAddressFilterInput L ?g q w"
      if "json_depth w < json_depth v" for q w
      using that fg address_cong [of w ?f ?g] by (simp add: unmarshalOAddressFilterInput_def)
    then have dest: "arg_value kvs p k z (unmarshalOAddressFilterInput L ?f) =
        arg_value kvs p k z (unmarshalOAddressFilterInput L ?g)" for k z
      using JObj by (intro arg_value_cong) simp
    have "unmarshalOBooleanFilterInput L ?f q w = unmarshalOBooleanFilterInput L ?g q w"
      if "json_depth w < json_depth v" for q w
      using that fg boolean_cong [of w ?f ?g] by (simp add: unmarshalOBooleanFilterInput_def)
    then have exec: "arg_value kvs p k z (unmarshalOBooleanFilterInput L ?f) =
        arg_value kvs p k z (unmarshalOBooleanFilterInput L ?g)" for k z
      using JObj by (intro arg_value_cong) simp
    show ?thesis by (simp add: nm JObj as_map_def Let_def arg dest exec)
  qed (simp_all add: nm as_map_def Let_def)
qed

section \<open>Filters as a client writes them\<close>

definition json_opt :: "('a \<Rightarrow> json) \<Rightarrow> 'a option \<Rightarrow> json" where
  "json_opt f x = (case x of None \<Rightarrow> JNull | Some y \<Rightarrow> f y)"

fun json_of_address :: "AddressFilterInput \<Rightarrow> json"
  and json_of_boolean :: "BooleanFilterInput \<Rightarrow> json"
  and json_of_filter :: "ConvenientFilter \<Rightarrow> json" where
  "json_of_address (AddressFilterInput eq ne in' nin ands ors) =
     JObj [(''eq'', json_opt JStr eq), (''ne'', json_opt JStr ne), (''in'', JArr (map (json_opt JStr) in')),
       (''nin'', JArr (map (json_opt JStr) nin)), (''and'', JArr (map json_of_filter ands)),
       (''or'', JArr (map json_of_filter ors))]"
| "json_of_boolean (BooleanFilterInput eq ne ands ors) =
     JObj [(''eq'', json_opt JBool eq), (''ne'', json_opt JBool ne), (''and'', JArr (map json_of_filter ands)),
       (''or'', JArr (map json_of_filter ors))]"
| "json_of_filter (ConvenientFilter dest exec ands ors) =
     JObj [(''destination'', case dest of None \<Rightarrow> JNull | Some a \<Rightarrow> json_of_address a),
       (''executed'', case exec of None \<Rightarrow> JNull | Some b \<Rightarrow> json_of_boolean b),
       (''and'', JArr (map json_of_filter ands)), (''or'', JArr (map json_of_filter ors))]"

lemma json_not_null [simp]: "json_of_address a \<noteq> JNull" "json_of_boolean b \<noteq> JNull" "json_of_filter f \<noteq> JNull"
  by (cases a, simp, cases b, simp, cases f, simp)

lemma all_or_none_Some [simp]: "all_or_none (map Some xs) = Some xs"
  by (simp add: all_or_none_def comp_def image_iff)

lemma gmap_from_ok: "(\<And>i x. x \<in> set xs \<Longrightarrow> f i (g x) = Inr (h x)) \<Longrightarrow> gmap_from i f (map g xs) = Inr (map h xs)"
proof (induction xs arbitrary: i)
  case (Cons x xs)
  from Cons.prems have "f i (g x) = Inr (h x)" by simp
  moreover have "gmap_from (Suc i) f (map g xs) = Inr (map h xs)" by (rule Cons.IH) (simp add: Cons.prems)
  ultimately show ?case by simp
qed simp

lemma filters_read:
  assumes "gql_laws L" and "\<And>f q. f \<in> set fs \<Longrightarrow> read q (json_of_filter f) = Inr (Some f)"
  shows "unmarshalOConvenientFilter_elems L read p (JArr (map json_of_filter fs)) = Inr (Some fs)"
proof -
  have "gmap_from 0 (\<lambda>i. unmarshalOConvenientFilter read (p @ [PathIndex i])) (map json_of_filter fs) =
      Inr (map Some fs)"
    using assms(2) by (intro gmap_from_ok) (simp add: unmarshalOConvenientFilter_def)
  then show ?thesis by (simp add: unmarshalOConvenientFilter_elems_def gql_unmarshal [OF assms(1)])
qed

lemma scalars_read:
  assumes "gql_laws L"
  shows "unmarshalOString L p (json_opt JStr s) = Inr s" "unmarshalOBoolean_ptr L p (json_opt JBool b) = Inr b"
    "unmarshalOString_list L p (JArr (map (json_opt JStr) ss)) = Inr ss"
proof -
  have string: "unmarshalOString L p (json_opt JStr s) = Inr s" for p s
    by (cases s) (simp_all add: unmarshalOString_def nil_or_def json_opt_def on_path_def gql_unmarshal [OF assms])
  then show "unmarshalOString L p (json_opt JStr s) = Inr s" .
  show "unmarshalOBoolean_ptr L p (json_opt JBool b) = Inr b"
    by (cases b) (simp_all add: unmarshalOBoolean_ptr_def nil_or_def json_opt_def on_path_def gql_unmarshal [OF assms])
  have "gmap_from 0 (\<lambda>i. unmarshalOString L (p @ [PathIndex i])) (map (json_opt JStr) ss) = Inr (map id ss)"
    using string by (intro gmap_from_ok) simp
  then show "unmarshalOString_list L p (JArr (map (json_opt JStr) ss)) = Inr ss"
    by (simp add: unmarshalOString_list_def gql_unmarshal [OF assms])
qed

text \<open>Every filter is read as it was written, whatever is nested in it.\<close>

lemma filter_read:
  assumes "gql_laws L"
  shows "json_depth (json_of_address a) \<le> n \<Longrightarrow>
      unmarshalInputAddressFilterInput L (unmarshalOConvenientFilter_elems L (unmarshalInputConvenientFilter L n)) p
        (json_of_address a) = Inr (Some a)"
    and "json_depth (json_of_boolean b) \<le> n \<Longrightarrow>
      unmarshalInputBooleanFilterInput L (unmarshalOConvenientFilter_elems L (unmarshalInputConvenientFilter L n)) p
        (json_of_boolean b) = Inr (Some b)"
    and "json_depth (json_of_filter f) < n \<Longrightarrow> unmarshalInputConvenientFilter L n p (json_of_filter f) = Inr (Some f)"
proof (induction a and b and f arbitrary: n p and n p and n p)
  case (AddressFilterInput eq ne in' nin ands ors)
  have "\<And>f. f \<in> set ands \<union> set ors \<Longrightarrow> json_depth (json_of_filter f) < n"
    using AddressFilterInput.prems depth_elem [of "json_of_filter _" "map json_of_filter _"]
    by (fastforce simp: max_def split: if_splits)
  with AddressFilterInput.IH show ?case
    by (simp add: unmarshalInputAddressFilterInput_def as_map_def arg_value_def scalars_read [OF assms]
        filters_read [OF assms])
next
  case (BooleanFilterInput eq ne ands ors)
  have "\<And>f. f \<in> set ands \<union> set ors \<Longrightarrow> json_depth (json_of_filter f) < n"
    using BooleanFilterInput.prems depth_elem [of "json_of_filter _" "map json_of_filter _"]
    by (fastforce simp: max_def split: if_splits)
  with BooleanFilterInput.IH show ?case
    by (simp add: unmarshalInputBooleanFilterInput_def as_map_def arg_value_def scalars_read [OF assms]
        filters_read [OF assms])
next
  case (ConvenientFilter dest exec ands ors)
  then obtain n' where n: "n = Suc n'" by (cases n) auto
  have "\<And>f. f \<in> set ands \<union> set ors \<Longrightarrow> json_depth (json_of_filter f) < n'"
    using ConvenientFilter.prems depth_elem [of "json_of_filter _" "map json_of_filter _"]
    by (fastforce simp: n max_def split: if_splits)
  with ConvenientFilter.IH ConvenientFilter.prems show ?case
    by (cases dest; cases exec) (simp_all add: n as_map_def arg_value_def Let_def filters_read [OF assms]
        unmarshalOAddressFilterInput_def unmarshalOBooleanFilterInput_def)
qed

theorem filter_argument_read:
  assumes "gql_laws L"
  shows "unmarshalOConvenientFilter_list L p (JArr (map json_of_filter fs)) = Inr (Some fs)"
proof -
  have "json_depth (json_of_filter f) < Suc (json_depth (JArr (map json_of_filter fs)))" if "f \<in> set fs" for f
    using depth_elem [of "json_of_filter f" "map json_of_filter fs"] that by simp
  then show ?thesis
    by (simp only: unmarshalOConvenientFilter_list_def) (rule filters_read [OF assms], rule filter_read(3) [OF assms])
qed

end
