(* ===== verification/GraphQueries.thy ===== *)
theory GraphQueries
  imports GraphLaws GraphFilters ReaderFilters
begin

text \<open>
  Whole queries, from the selections to the rows: a page of the vouchers and a client that follows its cursors,
  the proofs that the first adapter does not have, and filters that hold a null.
\<close>

section \<open>Selections and their JSON\<close>

definition leaf_field :: "string \<Rightarrow> collected_field" where
  "leaf_field n = CollectedField n n [] None []"

definition node_field :: "string \<Rightarrow> (string \<times> json) list \<Rightarrow> collected_field list \<Rightarrow> collected_field" where
  "node_field n args sels = CollectedField n n args None sels"

definition voucher_selection :: "collected_field list" where
  "voucher_selection = map leaf_field [''index'', ''destination'', ''payload'', ''executed'']"

definition voucher_json :: "gql_Voucher \<Rightarrow> json" where
  "voucher_json v = JObj [(''index'', JNum (itoa (gv_Index v))), (''destination'', JStr (gv_Destination v)),
     (''payload'', JStr (gv_Payload v)), (''executed'', JBool (gv_Executed v))]"

definition page_info_selection :: "collected_field list" where
  "page_info_selection = map leaf_field [''startCursor'', ''endCursor'', ''hasNextPage'', ''hasPreviousPage'']"

definition page_info_json :: "PageInfo \<Rightarrow> json" where
  "page_info_json i = JObj [(''startCursor'', json_opt JStr (StartCursor i)), (''endCursor'', json_opt JStr (EndCursor i)),
     (''hasNextPage'', JBool (HasNextPage i)), (''hasPreviousPage'', JBool (HasPreviousPage i))]"

definition page_selection :: "collected_field list \<Rightarrow> collected_field list" where
  "page_selection sels = [leaf_field ''totalCount'',
     node_field ''edges'' [] [leaf_field ''cursor'', node_field ''node'' [] sels],
     node_field ''pageInfo'' [] page_info_selection]"

definition edge_json :: "('a \<Rightarrow> json) \<Rightarrow> 'a Edge \<Rightarrow> json" where
  "edge_json node e = JObj [(''cursor'', JStr (Cursor e)), (''node'', node (Node e))]"

definition page_json :: "('a \<Rightarrow> json) \<Rightarrow> 'a Connection \<Rightarrow> json" where
  "page_json node c = JObj [(''totalCount'', JNum (itoa (TotalCount c))), (''edges'', JArr (map (edge_json node) (Edges c))),
     (''pageInfo'', page_info_json (Connection_PageInfo c))]"

definition page_args :: "int option \<Rightarrow> int option \<Rightarrow> string option \<Rightarrow> string option \<Rightarrow> (string \<times> json) list" where
  "page_args first lastN after before = [(''first'', json_opt (\<lambda>i. JNum (itoa i)) first),
     (''last'', json_opt (\<lambda>i. JNum (itoa i)) lastN), (''after'', json_opt JStr after), (''before'', json_opt JStr before)]"

definition go_int :: "int option \<Rightarrow> bool" where
  "go_int i = (case i of None \<Rightarrow> True | Some n \<Rightarrow> - (2 ^ 63) \<le> n \<and> n < 2 ^ 63)"

definition query :: "collected_field list \<Rightarrow> operation_context" where
  "query sels = \<lparr>rc_Operation = QueryOperation, rc_SelectionSet = sels\<rparr>"

text \<open>The single response to a query of one field that must not be null.\<close>

definition answer :: "gql_lib \<Rightarrow> string \<Rightarrow> ('a \<Rightarrow> gql_path \<Rightarrow> gql_error list) \<Rightarrow> ('a \<Rightarrow> json) \<Rightarrow> 'a res \<Rightarrow> gql_response list res" where
  "answer L n errors to_json r = Inr [case r of
       Inl e \<Rightarrow> \<lparr>gs_Data = Some JNull, gs_Errors = [([PathName n], if is_panic e then gq_Recover L e else e)],
         gs_Path = [], gs_Label = [], gs_HasNext = None\<rparr>
     | Inr x \<Rightarrow> \<lparr>gs_Data = Some (JObj [(n, to_json x)]), gs_Errors = errors x [PathName n],
         gs_Path = [], gs_Label = [], gs_HasNext = None\<rparr>]"

section \<open>Executing them\<close>

text \<open>A value without panics and deferred groups.\<close>

definition valued :: "json \<Rightarrow> gql_error list \<Rightarrow> gql_out" where
  "valued j es = \<lparr>go_Value = j, go_Errors = es, go_Deferred = [], go_Panic = None\<rparr>"

lemma marshaled_valued: "marshaled j = valued j []"
  by (simp add: marshaled_def valued_def)

lemma valued_simps [simp]:
  "go_Value (valued j es) = j" "go_Errors (valued j es) = es" "go_Deferred (valued j es) = []"
  "go_Panic (valued j es) = None" "recovered L p (valued j es) = valued j es"
  by (simp_all add: valued_def recovered_def)

lemma null_with_valued: "null_with es = valued JNull es"
  by (simp add: null_with_def valued_def)

lemma not_null_valued: "j \<noteq> JNull \<Longrightarrow> not_null p j = valued j []"
  by (simp add: not_null_def marshaled_valued)

lemma resolve_Inr [simp]: "resolve_field L p (Inr x) m = recovered L p (m x)"
  by (simp add: resolve_field_def)

lemma list_valued:
  assumes "\<And>i. i < length xs \<Longrightarrow> m (p @ [PathIndex i]) (xs ! i) = valued (g (xs ! i)) (es (p @ [PathIndex i]))"
    and "\<And>x. g x \<noteq> JNull"
  shows "marshal_list L p m xs = valued (JArr (map g xs)) (concat (map (\<lambda>i. es (p @ [PathIndex i])) [0..<length xs]))"
proof -
  have raw: "map (\<lambda>i. (p @ [PathIndex i], m (p @ [PathIndex i]) (xs ! i))) [0..<length xs] =
      map (\<lambda>i. (p @ [PathIndex i], valued (g (xs ! i)) (es (p @ [PathIndex i])))) [0..<length xs]"
    using assms(1) by auto
  have "map (\<lambda>i. g (xs ! i)) [0..<length xs] = map g xs" by (rule nth_equalityI) simp_all
  then show ?thesis using assms(2)
    unfolding marshal_list_def Let_def raw by (simp add: valued_def [of "JArr _"] comp_def)
qed

lemmas scalar_defs = marshalNInt_def marshalNString_def marshalNBigInt_def marshalNID_def marshalNBoolean_def
  marshalOBoolean_def marshalOString_def

lemmas object_defs = object_result_def Let_def run_errors_def run_groups_def deferred_groups_def leaf_field_def
  node_field_def

lemma voucher_node:
  assumes "gql_laws (ec_lib ec)"
  shows "execute ec voucher_selection (OVoucher v) p = valued (voucher_json v) []"
  unfolding execute_fields [of ec voucher_selection "OVoucher v" p]
  by (simp add: voucher_selection_def run_object_def exec_Voucher_def
      object_defs Voucher_index_def Voucher_destination_def Voucher_payload_def Voucher_executed_def scalar_defs
      gql_marshal [OF assms] not_null_valued marshaled_valued voucher_json_def)

lemma page_info_node:
  assumes "gql_laws (ec_lib ec)"
  shows "execute ec page_info_selection (OPageInfo i) p = valued (page_info_json i) []"
  unfolding execute_fields [of ec page_info_selection "OPageInfo i" p]
  by (simp add: page_info_selection_def run_object_def exec_PageInfo_def
      object_defs PageInfo_startCursor_def PageInfo_endCursor_def PageInfo_hasNextPage_def PageInfo_hasPreviousPage_def
      scalar_defs gql_marshal [OF assms] not_null_valued marshaled_valued page_info_json_def nil_null_def json_opt_def
      split: option.split)

text \<open>A page, given what the nodes are.\<close>

definition node_errors :: "(gql_path \<Rightarrow> gql_error list) \<Rightarrow> 'a list \<Rightarrow> gql_path \<Rightarrow> gql_error list" where
  "node_errors es xs p = concat (map (\<lambda>i. es (p @ [PathName ''edges'', PathIndex i, PathName ''node'']))
     [0..<length xs])"

lemma voucher_page:
  assumes "gql_laws (ec_lib ec)" and "\<And>v q. execute ec sels (OVoucher v) q = valued (nj v) (es q)"
    and "\<And>v. nj v \<noteq> JNull"
  shows "execute ec (page_selection sels) (OVoucherConnection c) p =
    valued (page_json nj c) (node_errors es (Edges c) p)"
proof -
  have edge: "execute ec [leaf_field ''cursor'', node_field ''node'' [] sels] (OVoucherEdge e) q =
      valued (edge_json nj e) (es (q @ [PathName ''node'']))" for e q
    unfolding execute_fields [of ec _ "OVoucherEdge e" q]
    by (simp add: run_object_def exec_VoucherEdge_def object_defs VoucherEdge_node_def VoucherEdge_cursor_def
        scalar_defs gql_marshal [OF assms(1)] not_null_valued edge_json_def marshalNVoucher_def not_nil_def assms(2,3))
  have "marshal_list (ec_lib ec) (p @ [PathName ''edges''])
      (\<lambda>q x. execute ec [leaf_field ''cursor'', node_field ''node'' [] sels] (OVoucherEdge x) q) (Edges c) =
      valued (JArr (map (edge_json nj) (Edges c))) (node_errors es (Edges c) p)"
    using list_valued [of "Edges c" _ "p @ [PathName ''edges'']" "edge_json nj" "\<lambda>q. es (q @ [PathName ''node''])"]
    by (simp add: edge edge_json_def node_errors_def)
  then show ?thesis unfolding execute_fields [of ec "page_selection sels" "OVoucherConnection c" p]
    by (simp add: page_selection_def run_object_def exec_VoucherConnection_def object_defs
        VoucherConnection_totalCount_def VoucherConnection_edges_def VoucherConnection_pageInfo_def
        marshalNVoucherEdge_list_def marshalNVoucherEdge_def marshalNPageInfo_def not_nil_def
        page_info_node [OF assms(1)] scalar_defs gql_marshal [OF assms(1)] not_null_valued page_json_def
        page_info_json_def)
qed

lemma notice_page:
  assumes "gql_laws (ec_lib ec)" and "\<And>v q. execute ec sels (ONotice v) q = valued (nj v) (es q)"
    and "\<And>v. nj v \<noteq> JNull"
  shows "execute ec (page_selection sels) (ONoticeConnection c) p =
    valued (page_json nj c) (node_errors es (Edges c) p)"
proof -
  have edge: "execute ec [leaf_field ''cursor'', node_field ''node'' [] sels] (ONoticeEdge e) q =
      valued (edge_json nj e) (es (q @ [PathName ''node'']))" for e q
    unfolding execute_fields [of ec _ "ONoticeEdge e" q]
    by (simp add: run_object_def exec_NoticeEdge_def object_defs NoticeEdge_node_def NoticeEdge_cursor_def
        scalar_defs gql_marshal [OF assms(1)] not_null_valued edge_json_def marshalNNotice_def not_nil_def assms(2,3))
  have "marshal_list (ec_lib ec) (p @ [PathName ''edges''])
      (\<lambda>q x. execute ec [leaf_field ''cursor'', node_field ''node'' [] sels] (ONoticeEdge x) q) (Edges c) =
      valued (JArr (map (edge_json nj) (Edges c))) (node_errors es (Edges c) p)"
    using list_valued [of "Edges c" _ "p @ [PathName ''edges'']" "edge_json nj" "\<lambda>q. es (q @ [PathName ''node''])"]
    by (simp add: edge edge_json_def node_errors_def)
  then show ?thesis unfolding execute_fields [of ec "page_selection sels" "ONoticeConnection c" p]
    by (simp add: page_selection_def run_object_def exec_NoticeConnection_def object_defs
        NoticeConnection_totalCount_def NoticeConnection_edges_def NoticeConnection_pageInfo_def
        marshalNNoticeEdge_list_def marshalNNoticeEdge_def marshalNPageInfo_def not_nil_def
        page_info_node [OF assms(1)] scalar_defs gql_marshal [OF assms(1)] not_null_valued page_json_def
        page_info_json_def)
qed

lemma root_answer:
  assumes "run_object ec (execute ec sels) (node_field n args sels) OQuery [PathName n] =
      Rooted True (resolve_field L [PathName n] r m)"
    and "\<And>x. r = Inr x \<Longrightarrow> m x = valued (j x) (es x [PathName n])" and "\<And>x. j x \<noteq> JNull"
  shows "Exec ec (query [node_field n args sels]) = answer L n es j r"
  using assms unfolding Exec_def query_def
  by (cases r) (simp_all add: execute_fields object_defs answer_def resolve_field_def Let_def)

section \<open>A page of the vouchers\<close>

lemma read_page_args:
  assumes "gql_laws L" and "go_int first" and "go_int lastN"
  shows "unmarshalOInt L p (json_opt (\<lambda>i. JNum (itoa i)) first) = Inr first"
    "unmarshalOInt L p (json_opt (\<lambda>i. JNum (itoa i)) lastN) = Inr lastN"
  using assms(2,3) by (cases first; cases lastN; simp add: unmarshalOInt_def nil_or_def json_opt_def on_path_def
      go_int_def gql_unmarshal [OF assms(1)])+

text \<open>What the resolver of the vouchers returns for filters that are there.\<close>

definition voucher_page_of ::
  "ethlib \<Rightarrow> ConvenientFilter list \<Rightarrow> int option \<Rightarrow> int option \<Rightarrow> string option \<Rightarrow> string option \<Rightarrow>
   ConvenienceVoucher list \<Rightarrow> gql_Voucher Connection res" where
  "voucher_page_of E fs first lastN after before vs =
     rbind (ConvertToConvenienceFilter fs) (\<lambda>cfs. rbind (voucher_query E cfs vs) (\<lambda>rows.
     rbind (page_of first lastN after before rows) (\<lambda>p. Inr (page_connection (convertConvenientVoucherV1 E) p))))"

lemma vouchers_resolved:
  assumes "vouchers_in E vs d"
  shows "fst (queryResolver_Vouchers E first lastN after before fs d) = voucher_page_of E fs first lastN after before vs"
proof -
  obtain cfs where "ConvertToConvenienceFilter fs = Inr cfs" using Convert_total by blast
  then show ?thesis
    by (simp add: queryResolver_Vouchers_def andThen_apply ConvenienceService_FindAllVouchers_def
        FindAllVouchers_ok [OF assms] voucher_page_of_def ConvertToVoucherConnectionV1_def page_connection_def
        split: sum.split)
      (auto simp: rbind_def split: sum.splits)
qed

definition vouchers_field ::
  "int option \<Rightarrow> int option \<Rightarrow> string option \<Rightarrow> string option \<Rightarrow> ConvenientFilter option list \<Rightarrow>
   collected_field list \<Rightarrow> collected_field" where
  "vouchers_field first lastN after before fs sels = node_field ''vouchers''
     (page_args first lastN after before @ [(''filter'', JArr (map (json_opt json_of_filter) fs))]) (page_selection sels)"

lemma found_map: "found r = map_sum id Some r"
  by (cases r) (simp_all add: found_def)

lemma reader_schema_simps [simp]:
  "ec_lib (reader_schema L I A E D) = L"
  "rs_Query_Vouchers (ec_resolvers (reader_schema L I A E D)) p first lastN after before fs = (case fs of
     None \<Rightarrow> Inl (EPanic ''nil pointer dereference'')
   | Some fs \<Rightarrow> map_sum id Some (fst (queryResolver_Vouchers E first lastN after before fs (D p))))"
  "rs_Query_Notices (ec_resolvers (reader_schema L I A E D)) p first lastN after before =
     map_sum id Some (fst (queryResolver_Notices A first lastN after before (D p)))"
  "rs_Notice_Proof (ec_resolvers (reader_schema L I A E D)) p n = map_sum id Some (fst (noticeResolver_Proof A n (D p)))"
  by (simp_all add: reader_schema_def reader_resolvers_def found_map split: option.split)

lemma map_json_opt [simp]: "map (json_opt f) (map Some xs) = map f xs"
  by (simp add: json_opt_def)

theorem vouchers_query:
  assumes "gql_laws L" and "vouchers_in E vs (D [PathName ''vouchers''])" and "go_int first" and "go_int lastN"
  shows "Exec (reader_schema L I A E D) (query [vouchers_field first lastN after before (map Some fs) voucher_selection]) =
    answer L ''vouchers'' (\<lambda>_ _. []) (page_json voucher_json) (voucher_page_of E fs first lastN after before vs)"
  unfolding vouchers_field_def
proof (rule trans [OF root_answer])
  let ?ec = "reader_schema L I A E D" and ?p = "[PathName ''vouchers'']"
  let ?r = "map_sum id Some (voucher_page_of E fs first lastN after before vs)"
  let ?m = "marshalNVoucherConnection L (execute ?ec (page_selection voucher_selection)) ?p"
  let ?j = "\<lambda>c. page_json voucher_json (the c)"
  show "run_object ?ec (execute ?ec (page_selection voucher_selection)) (node_field ''vouchers''
      (page_args first lastN after before @ [(''filter'', JArr (map (json_opt json_of_filter) (map Some fs)))])
      (page_selection voucher_selection)) OQuery ?p = Rooted True (resolve_field L ?p ?r ?m)"
    by (simp add: run_object_def exec_Query_def node_field_def Query_vouchers_def with_args_def
        field_Query_vouchers_args_def page_args_def arg_value_def read_page_args [OF assms(1,3,4)]
        scalars_read [OF assms(1)] filter_argument_read [OF assms(1)] vouchers_resolved [OF assms(2)] del: map_map)
  show "?m c = valued (?j c) ((\<lambda>_ _. []) c ?p)" if "?r = Inr c" for c
    using that voucher_page [of ?ec voucher_selection voucher_json "\<lambda>_. []"] voucher_node [of ?ec] assms(1)
    by (cases "voucher_page_of E fs first lastN after before vs")
      (auto simp: marshalNVoucherConnection_def not_nil_def voucher_json_def node_errors_def)
  show "?j c \<noteq> JNull" for c by (simp add: page_json_def)
  show "answer L ''vouchers'' (\<lambda>_ _. []) ?j ?r =
      answer L ''vouchers'' (\<lambda>_ _. []) (page_json voucher_json) (voucher_page_of E fs first lastN after before vs)"
    by (cases "voucher_page_of E fs first lastN after before vs") (simp_all add: answer_def)
qed

section \<open>A client that follows the cursors\<close>

text \<open>What a client takes from a page: the nodes, whether there is more, and where it goes on.\<close>

definition member :: "string \<Rightarrow> json \<Rightarrow> json option" where
  "member k v = (case v of JObj kvs \<Rightarrow> map_of kvs k | _ \<Rightarrow> None)"

definition page_of_json :: "json \<Rightarrow> (json list \<times> bool \<times> string option) option" where
  "page_of_json v = (case (member ''edges'' v, Option.bind (member ''pageInfo'' v) (member ''hasNextPage''),
       Option.bind (member ''pageInfo'' v) (member ''endCursor'')) of
     (Some (JArr es), Some (JBool hasNext), Some cursor) \<Rightarrow>
       if None \<in> set (map (member ''node'') es) then None
       else Some (map (\<lambda>e. the (member ''node'' e)) es, hasNext, case cursor of JStr c \<Rightarrow> Some c | _ \<Rightarrow> None)
   | _ \<Rightarrow> None)"

fun graphql_walk ::
  "nat \<Rightarrow> string \<Rightarrow> (string option \<Rightarrow> gql_response list res) \<Rightarrow> string option \<Rightarrow> json list option" where
  "graphql_walk 0 n ask after = None"
| "graphql_walk (Suc fuel) n ask after = (case ask after of
       Inr [r] \<Rightarrow> (case Option.bind (Option.bind (gs_Data r) (member n)) page_of_json of
           None \<Rightarrow> None
         | Some (ns, hasNext, cursor) \<Rightarrow>
             if hasNext then map_option (\<lambda>rest. ns @ rest) (graphql_walk fuel n ask cursor) else Some ns)
     | _ \<Rightarrow> None)"

lemma page_of_page_json [simp]:
  "page_of_json (page_json f c) = Some (map f (nodes c), HasNextPage (Connection_PageInfo c), EndCursor (Connection_PageInfo c))"
  by (simp add: page_of_json_def page_json_def member_def page_info_json_def edge_json_def nodes_def json_opt_def
      comp_def image_iff split: option.split)

lemma graphql_walk_answer:
  assumes "\<And>after. ask after = answer L n es (page_json f) (get after)"
  shows "graphql_walk fuel n ask after = map_option (map f) (connection_walk fuel get after)"
proof (induction fuel arbitrary: after)
  case (Suc fuel)
  show ?case
  proof (cases "get after")
    case (Inr c)
    then have "ask after = Inr [\<lparr>gs_Data = Some (JObj [(n, page_json f c)]), gs_Errors = es c [PathName n],
        gs_Path = [], gs_Label = [], gs_HasNext = None\<rparr>]" by (simp add: assms answer_def)
    with Inr show ?thesis by (simp add: member_def [of n] Suc.IH Let_def option.map_comp comp_def)
  qed (simp add: assms answer_def member_def [of n])
qed simp

theorem graphql_listing:
  assumes "gql_laws L" and "\<And>after. vouchers_in E vs (D after [PathName ''vouchers''])" and "0 < k" and "k < 2 ^ 63"
    and "ConvertToConvenienceFilter fs = Inr cfs" and "voucher_query E cfs vs = Inr rows"
  shows "graphql_walk (Suc (length rows)) ''vouchers'' (\<lambda>after. Exec (reader_schema L I A E (D after))
      (query [vouchers_field (Some k) None after None (map Some fs) voucher_selection])) None =
    Some (map (\<lambda>v. voucher_json (convertConvenientVoucherV1 E v)) rows)"
proof -
  have "length rows \<le> length vs"
    using assms(6) by (auto simp: voucher_query_def rbind_Inr_iff)
  then have "length rows < 2 ^ 63" using assms(2) unfolding vouchers_in_def by (meson le_less_trans)
  moreover have "Exec (reader_schema L I A E (D after))
      (query [vouchers_field (Some k) None after None (map Some fs) voucher_selection]) =
    answer L ''vouchers'' (\<lambda>_ _. []) (page_json voucher_json)
      (rbind (page_of (Some k) None after None rows) (\<lambda>p. Inr (page_connection (convertConvenientVoucherV1 E) p)))" for after
    using vouchers_query [where D = "D after" and first = "Some k" and lastN = None and after = after and before = None
        and fs = fs and I = I and A = A, OF assms(1) assms(2)] assms(3-6)
    by (simp add: go_int_def voucher_page_of_def)
  ultimately show ?thesis
    by (simp add: graphql_walk_answer [where get = "\<lambda>after. rbind (page_of (Some k) None after None rows)
        (\<lambda>p. Inr (page_connection (convertConvenientVoucherV1 E) p))"] connection_walk_all [OF assms(3)] comp_def
        del: graphql_walk.simps connection_walk.simps)
qed

section \<open>Filters that hold a null\<close>

text \<open>The schema allows a null in the list of filters; the resolver takes it for a filter.\<close>

lemma null_filters_read:
  assumes "gql_laws L" and "None \<in> set fs"
  shows "unmarshalOConvenientFilter_list L p (JArr (map (json_opt json_of_filter) fs)) = Inr None"
proof -
  let ?read = "unmarshalInputConvenientFilter L (Suc (json_depth (JArr (map (json_opt json_of_filter) fs))))"
  have "?read q (json_of_filter f) = Inr (Some f)" if "Some f \<in> set fs" for f q
    using depth_elem [of "json_of_filter f" "map (json_opt json_of_filter) fs"] that
    by (intro filter_read(3) [OF assms(1)]) (force simp: json_opt_def image_iff)
  then have "gmap_from 0 (\<lambda>i. unmarshalOConvenientFilter ?read (p @ [PathIndex i])) (map (json_opt json_of_filter) fs) =
      Inr (map id fs)"
    by (intro gmap_from_ok) (auto simp: unmarshalOConvenientFilter_def json_opt_def split: option.split)
  then show ?thesis using assms(2)
    by (simp add: unmarshalOConvenientFilter_list_def unmarshalOConvenientFilter_elems_def gql_unmarshal [OF assms(1)]
        all_or_none_def)
qed

theorem null_filter_query:
  assumes "gql_laws L" and "None \<in> set fs" and "go_int first" and "go_int lastN"
  shows "Exec (reader_schema L I A E D) (query [vouchers_field first lastN after before fs sels]) =
    answer L ''vouchers'' (\<lambda>_ _. []) (\<lambda>_. JNull) (Inl (EPanic ''nil pointer dereference'') :: unit res)"
  unfolding vouchers_field_def
proof (rule trans [OF root_answer [where j = "\<lambda>_. JObj []"]])
  let ?ec = "reader_schema L I A E D" and ?p = "[PathName ''vouchers'']"
  let ?m = "marshalNVoucherConnection L (execute ?ec (page_selection sels)) ?p"
  show "run_object ?ec (execute ?ec (page_selection sels)) (node_field ''vouchers''
      (page_args first lastN after before @ [(''filter'', JArr (map (json_opt json_of_filter) fs))])
      (page_selection sels)) OQuery ?p = Rooted True (resolve_field L ?p (Inl (EPanic ''nil pointer dereference'')) ?m)"
    by (simp add: run_object_def exec_Query_def node_field_def Query_vouchers_def with_args_def
        field_Query_vouchers_args_def page_args_def arg_value_def read_page_args [OF assms(1,3,4)]
        scalars_read [OF assms(1)] null_filters_read [OF assms(1,2)])
qed (simp_all add: answer_def)

section \<open>The proofs of the first adapter\<close>

text \<open>
  The first adapter has no proofs. Their fields may be null: each of them fails on its own, at its path, and the
  page is there.
\<close>

definition notice_selection :: "collected_field list \<Rightarrow> collected_field list" where
  "notice_selection sels = [leaf_field ''index'', leaf_field ''payload'', node_field ''proof'' [] sels]"

definition notice_json :: "gql_Notice \<Rightarrow> json" where
  "notice_json n = JObj [(''index'', JNum (itoa (gn_Index n))), (''payload'', JStr (gn_Payload n)), (''proof'', JNull)]"

definition proof_errors :: "gql_path \<Rightarrow> gql_error list" where
  "proof_errors p = [(p @ [PathName ''proof''], EMsg ''proofs are not supported in nonodo v1'')]"

lemma notice_node:
  assumes "gql_laws L"
  shows "execute (reader_schema L I (AdapterV1 E) E' D) (notice_selection sels) (ONotice n) p =
    valued (notice_json n) (proof_errors p)"
  unfolding execute_fields [of _ "notice_selection sels" "ONotice n" p]
  by (simp add: notice_selection_def run_object_def exec_Notice_def object_defs Notice_index_def Notice_payload_def
      Notice_proof_def scalar_defs gql_marshal [OF assms] not_null_valued notice_json_def noticeResolver_Proof_def
      AdapterV1_def V1_GetProof_def resolve_field_def proof_errors_def null_with_valued fail_def)

theorem notices_query:
  assumes "gql_laws L" and "notices_in E ns (D [PathName ''notices''])" and "go_int first" and "go_int lastN"
  shows "Exec (reader_schema L I (AdapterV1 E) E' D)
      (query [node_field ''notices'' (page_args first lastN after before) (page_selection (notice_selection sels))]) =
    answer L ''notices'' (\<lambda>c. node_errors proof_errors (Edges c)) (page_json notice_json)
      (rbind (page_of first lastN after before (notices_of None ns))
        (\<lambda>p. Inr (page_connection convertConvenientNoticeV1 p)))" (is "_ = answer L _ ?es _ ?page")
proof (rule trans [OF root_answer])
  let ?ec = "reader_schema L I (AdapterV1 E) E' D" and ?p = "[PathName ''notices'']"
  let ?r = "map_sum id Some ?page"
  let ?m = "marshalNNoticeConnection L (execute ?ec (page_selection (notice_selection sels))) ?p"
  let ?j = "\<lambda>c. page_json notice_json (the c)"
  have page: "execute ?ec (page_selection (notice_selection sels)) (ONoticeConnection c) ?p =
      valued (page_json notice_json c) (node_errors proof_errors (Edges c) ?p)" for c
    by (rule notice_page, simp add: assms(1), rule notice_node [OF assms(1)], simp add: notice_json_def)
  have "fst (queryResolver_Notices (AdapterV1 E) first lastN after before (D ?p)) = ?page"
    by (simp add: queryResolver_Notices_def adapter_v1.get_notices [OF assms(2)])
  then show "run_object ?ec (execute ?ec (page_selection (notice_selection sels))) (node_field ''notices''
      (page_args first lastN after before) (page_selection (notice_selection sels))) OQuery ?p =
    Rooted True (resolve_field L ?p ?r ?m)"
    by (simp add: run_object_def exec_Query_def node_field_def Query_notices_def with_args_def
        field_Query_notices_args_def page_args_def arg_value_def read_page_args [OF assms(1,3,4)]
        scalars_read [OF assms(1)])
  show "?m c = valued (?j c) (?es (the c) ?p)" if "?r = Inr c" for c
    using that page by (cases ?page) (auto simp: marshalNNoticeConnection_def not_nil_def)
  show "?j c \<noteq> JNull" for c by (simp add: page_json_def)
  show "answer L ''notices'' (\<lambda>c. ?es (the c)) ?j ?r = answer L ''notices'' ?es (page_json notice_json) ?page"
    by (cases ?page) (simp_all add: answer_def)
qed

end
