(* ===== verification/GraphContexts.thy ===== *)
theory GraphContexts
  imports GraphSchema
begin

text \<open>
  The contexts of the fields, one definition for every function \<open>fieldContext_Type_field\<close> of
  \<open>reader/graph/generated.go\<close>: what the library is told about a field. The arguments that they read are in
  \<open>GraphFields\<close>. A context refers to those of the fields below it by their type and name.
\<close>

datatype field_children = NoChildren string | Children string "string list"

record field_context =
  fc_Object :: string
  fc_IsMethod :: bool
  fc_IsResolver :: bool
  fc_Children :: field_children

text \<open>The function \<open>Child\<close>: the type and the name of the context that it asks for.\<close>

definition fc_Child :: "field_context \<Rightarrow> string \<Rightarrow> (string \<times> string) res" where
  "fc_Child fc name = (case fc_Children fc of
       NoChildren t \<Rightarrow> Inl (EMsg (''field of type '' @ t @ '' does not have child fields''))
     | Children t names \<Rightarrow> if name \<in> set names then Inr (t, name)
         else Inl (EMsg (''no field named '' @ quote name @ '' was found under type '' @ t)))"

section \<open>Input\<close>

definition fieldContext_Input_index :: field_context where
  "fieldContext_Input_index = \<lparr>fc_Object = ''Input'', fc_IsMethod = False, fc_IsResolver = False,
     fc_Children = NoChildren ''Int''\<rparr>"

definition fieldContext_Input_status :: field_context where
  "fieldContext_Input_status = \<lparr>fc_Object = ''Input'', fc_IsMethod = False, fc_IsResolver = False,
     fc_Children = NoChildren ''CompletionStatus''\<rparr>"

definition fieldContext_Input_msgSender :: field_context where
  "fieldContext_Input_msgSender = \<lparr>fc_Object = ''Input'', fc_IsMethod = False, fc_IsResolver = False,
     fc_Children = NoChildren ''String''\<rparr>"

definition fieldContext_Input_timestamp :: field_context where
  "fieldContext_Input_timestamp = \<lparr>fc_Object = ''Input'', fc_IsMethod = False, fc_IsResolver = False,
     fc_Children = NoChildren ''BigInt''\<rparr>"

definition fieldContext_Input_blockNumber :: field_context where
  "fieldContext_Input_blockNumber = \<lparr>fc_Object = ''Input'', fc_IsMethod = False, fc_IsResolver = False,
     fc_Children = NoChildren ''BigInt''\<rparr>"

definition fieldContext_Input_payload :: field_context where
  "fieldContext_Input_payload = \<lparr>fc_Object = ''Input'', fc_IsMethod = False, fc_IsResolver = False,
     fc_Children = NoChildren ''String''\<rparr>"

definition fieldContext_Input_voucher :: field_context where
  "fieldContext_Input_voucher = \<lparr>fc_Object = ''Input'', fc_IsMethod = True, fc_IsResolver = True,
     fc_Children = Children ''Voucher'' [''index'', ''input'', ''destination'', ''payload'', ''proof'',
       ''executed'']\<rparr>"

definition fieldContext_Input_notice :: field_context where
  "fieldContext_Input_notice = \<lparr>fc_Object = ''Input'', fc_IsMethod = True, fc_IsResolver = True,
     fc_Children = Children ''Notice'' [''index'', ''input'', ''payload'', ''proof'']\<rparr>"

definition fieldContext_Input_report :: field_context where
  "fieldContext_Input_report = \<lparr>fc_Object = ''Input'', fc_IsMethod = True, fc_IsResolver = True,
     fc_Children = Children ''Report'' [''index'', ''input'', ''payload'']\<rparr>"

definition fieldContext_Input_vouchers :: field_context where
  "fieldContext_Input_vouchers = \<lparr>fc_Object = ''Input'', fc_IsMethod = True, fc_IsResolver = True,
     fc_Children = Children ''VoucherConnection'' [''totalCount'', ''edges'', ''pageInfo'']\<rparr>"

definition fieldContext_Input_notices :: field_context where
  "fieldContext_Input_notices = \<lparr>fc_Object = ''Input'', fc_IsMethod = True, fc_IsResolver = True,
     fc_Children = Children ''NoticeConnection'' [''totalCount'', ''edges'', ''pageInfo'']\<rparr>"

definition fieldContext_Input_reports :: field_context where
  "fieldContext_Input_reports = \<lparr>fc_Object = ''Input'', fc_IsMethod = True, fc_IsResolver = True,
     fc_Children = Children ''ReportConnection'' [''totalCount'', ''edges'', ''pageInfo'']\<rparr>"

section \<open>InputConnection\<close>

definition fieldContext_InputConnection_totalCount :: field_context where
  "fieldContext_InputConnection_totalCount = \<lparr>fc_Object = ''InputConnection'', fc_IsMethod = False, fc_IsResolver = False,
     fc_Children = NoChildren ''Int''\<rparr>"

definition fieldContext_InputConnection_edges :: field_context where
  "fieldContext_InputConnection_edges = \<lparr>fc_Object = ''InputConnection'', fc_IsMethod = False, fc_IsResolver = False,
     fc_Children = Children ''InputEdge'' [''node'', ''cursor'']\<rparr>"

definition fieldContext_InputConnection_pageInfo :: field_context where
  "fieldContext_InputConnection_pageInfo = \<lparr>fc_Object = ''InputConnection'', fc_IsMethod = False, fc_IsResolver = False,
     fc_Children = Children ''PageInfo'' [''startCursor'', ''endCursor'', ''hasNextPage'',
       ''hasPreviousPage'']\<rparr>"

section \<open>InputEdge\<close>

definition fieldContext_InputEdge_node :: field_context where
  "fieldContext_InputEdge_node = \<lparr>fc_Object = ''InputEdge'', fc_IsMethod = False, fc_IsResolver = False,
     fc_Children = Children ''Input'' [''index'', ''status'', ''msgSender'', ''timestamp'', ''blockNumber'',
       ''payload'', ''voucher'', ''notice'', ''report'', ''vouchers'', ''notices'', ''reports'']\<rparr>"

definition fieldContext_InputEdge_cursor :: field_context where
  "fieldContext_InputEdge_cursor = \<lparr>fc_Object = ''InputEdge'', fc_IsMethod = True, fc_IsResolver = False,
     fc_Children = NoChildren ''String''\<rparr>"

section \<open>Notice\<close>

definition fieldContext_Notice_index :: field_context where
  "fieldContext_Notice_index = \<lparr>fc_Object = ''Notice'', fc_IsMethod = False, fc_IsResolver = False,
     fc_Children = NoChildren ''Int''\<rparr>"

definition fieldContext_Notice_input :: field_context where
  "fieldContext_Notice_input = \<lparr>fc_Object = ''Notice'', fc_IsMethod = True, fc_IsResolver = True,
     fc_Children = Children ''Input'' [''index'', ''status'', ''msgSender'', ''timestamp'', ''blockNumber'',
       ''payload'', ''voucher'', ''notice'', ''report'', ''vouchers'', ''notices'', ''reports'']\<rparr>"

definition fieldContext_Notice_payload :: field_context where
  "fieldContext_Notice_payload = \<lparr>fc_Object = ''Notice'', fc_IsMethod = False, fc_IsResolver = False,
     fc_Children = NoChildren ''String''\<rparr>"

definition fieldContext_Notice_proof :: field_context where
  "fieldContext_Notice_proof = \<lparr>fc_Object = ''Notice'', fc_IsMethod = True, fc_IsResolver = True,
     fc_Children = Children ''Proof'' [''firstIndex'', ''inputByInputIndex'', ''inputIndex'', ''lastInput'',
       ''nodeId'', ''outputIndex'', ''validityInputIndexWithinEpoch'', ''validityMachineStateHash'',
       ''validityOutputEpochRootHash'', ''validityOutputHashInOutputHashesSiblings'',
       ''validityOutputHashesInEpochSiblings'', ''validityOutputHashesRootHash'',
       ''validityOutputIndexWithinInput'']\<rparr>"

section \<open>NoticeConnection\<close>

definition fieldContext_NoticeConnection_totalCount :: field_context where
  "fieldContext_NoticeConnection_totalCount = \<lparr>fc_Object = ''NoticeConnection'', fc_IsMethod = False, fc_IsResolver = False,
     fc_Children = NoChildren ''Int''\<rparr>"

definition fieldContext_NoticeConnection_edges :: field_context where
  "fieldContext_NoticeConnection_edges = \<lparr>fc_Object = ''NoticeConnection'', fc_IsMethod = False, fc_IsResolver = False,
     fc_Children = Children ''NoticeEdge'' [''node'', ''cursor'']\<rparr>"

definition fieldContext_NoticeConnection_pageInfo :: field_context where
  "fieldContext_NoticeConnection_pageInfo = \<lparr>fc_Object = ''NoticeConnection'', fc_IsMethod = False, fc_IsResolver = False,
     fc_Children = Children ''PageInfo'' [''startCursor'', ''endCursor'', ''hasNextPage'',
       ''hasPreviousPage'']\<rparr>"

section \<open>NoticeEdge\<close>

definition fieldContext_NoticeEdge_node :: field_context where
  "fieldContext_NoticeEdge_node = \<lparr>fc_Object = ''NoticeEdge'', fc_IsMethod = False, fc_IsResolver = False,
     fc_Children = Children ''Notice'' [''index'', ''input'', ''payload'', ''proof'']\<rparr>"

definition fieldContext_NoticeEdge_cursor :: field_context where
  "fieldContext_NoticeEdge_cursor = \<lparr>fc_Object = ''NoticeEdge'', fc_IsMethod = True, fc_IsResolver = False,
     fc_Children = NoChildren ''String''\<rparr>"

section \<open>PageInfo\<close>

definition fieldContext_PageInfo_startCursor :: field_context where
  "fieldContext_PageInfo_startCursor = \<lparr>fc_Object = ''PageInfo'', fc_IsMethod = False, fc_IsResolver = False,
     fc_Children = NoChildren ''String''\<rparr>"

definition fieldContext_PageInfo_endCursor :: field_context where
  "fieldContext_PageInfo_endCursor = \<lparr>fc_Object = ''PageInfo'', fc_IsMethod = False, fc_IsResolver = False,
     fc_Children = NoChildren ''String''\<rparr>"

definition fieldContext_PageInfo_hasNextPage :: field_context where
  "fieldContext_PageInfo_hasNextPage = \<lparr>fc_Object = ''PageInfo'', fc_IsMethod = False, fc_IsResolver = False,
     fc_Children = NoChildren ''Boolean''\<rparr>"

definition fieldContext_PageInfo_hasPreviousPage :: field_context where
  "fieldContext_PageInfo_hasPreviousPage = \<lparr>fc_Object = ''PageInfo'', fc_IsMethod = False, fc_IsResolver = False,
     fc_Children = NoChildren ''Boolean''\<rparr>"

section \<open>Proof\<close>

definition fieldContext_Proof_firstIndex :: field_context where
  "fieldContext_Proof_firstIndex = \<lparr>fc_Object = ''Proof'', fc_IsMethod = False, fc_IsResolver = False,
     fc_Children = NoChildren ''Int''\<rparr>"

definition fieldContext_Proof_inputByInputIndex :: field_context where
  "fieldContext_Proof_inputByInputIndex = \<lparr>fc_Object = ''Proof'', fc_IsMethod = False, fc_IsResolver = False,
     fc_Children = Children ''Input'' [''index'', ''status'', ''msgSender'', ''timestamp'', ''blockNumber'',
       ''payload'', ''voucher'', ''notice'', ''report'', ''vouchers'', ''notices'', ''reports'']\<rparr>"

definition fieldContext_Proof_inputIndex :: field_context where
  "fieldContext_Proof_inputIndex = \<lparr>fc_Object = ''Proof'', fc_IsMethod = False, fc_IsResolver = False,
     fc_Children = NoChildren ''Int''\<rparr>"

definition fieldContext_Proof_lastInput :: field_context where
  "fieldContext_Proof_lastInput = \<lparr>fc_Object = ''Proof'', fc_IsMethod = False, fc_IsResolver = False,
     fc_Children = NoChildren ''Int''\<rparr>"

definition fieldContext_Proof_nodeId :: field_context where
  "fieldContext_Proof_nodeId = \<lparr>fc_Object = ''Proof'', fc_IsMethod = False, fc_IsResolver = False,
     fc_Children = NoChildren ''ID''\<rparr>"

definition fieldContext_Proof_outputIndex :: field_context where
  "fieldContext_Proof_outputIndex = \<lparr>fc_Object = ''Proof'', fc_IsMethod = False, fc_IsResolver = False,
     fc_Children = NoChildren ''Int''\<rparr>"

definition fieldContext_Proof_validityInputIndexWithinEpoch :: field_context where
  "fieldContext_Proof_validityInputIndexWithinEpoch = \<lparr>fc_Object = ''Proof'', fc_IsMethod = False, fc_IsResolver = False,
     fc_Children = NoChildren ''Int''\<rparr>"

definition fieldContext_Proof_validityMachineStateHash :: field_context where
  "fieldContext_Proof_validityMachineStateHash = \<lparr>fc_Object = ''Proof'', fc_IsMethod = False, fc_IsResolver = False,
     fc_Children = NoChildren ''String''\<rparr>"

definition fieldContext_Proof_validityOutputEpochRootHash :: field_context where
  "fieldContext_Proof_validityOutputEpochRootHash = \<lparr>fc_Object = ''Proof'', fc_IsMethod = False, fc_IsResolver = False,
     fc_Children = NoChildren ''String''\<rparr>"

definition fieldContext_Proof_validityOutputHashInOutputHashesSiblings :: field_context where
  "fieldContext_Proof_validityOutputHashInOutputHashesSiblings = \<lparr>fc_Object = ''Proof'', fc_IsMethod = False, fc_IsResolver = False,
     fc_Children = NoChildren ''String''\<rparr>"

definition fieldContext_Proof_validityOutputHashesInEpochSiblings :: field_context where
  "fieldContext_Proof_validityOutputHashesInEpochSiblings = \<lparr>fc_Object = ''Proof'', fc_IsMethod = False, fc_IsResolver = False,
     fc_Children = NoChildren ''String''\<rparr>"

definition fieldContext_Proof_validityOutputHashesRootHash :: field_context where
  "fieldContext_Proof_validityOutputHashesRootHash = \<lparr>fc_Object = ''Proof'', fc_IsMethod = False, fc_IsResolver = False,
     fc_Children = NoChildren ''String''\<rparr>"

definition fieldContext_Proof_validityOutputIndexWithinInput :: field_context where
  "fieldContext_Proof_validityOutputIndexWithinInput = \<lparr>fc_Object = ''Proof'', fc_IsMethod = False, fc_IsResolver = False,
     fc_Children = NoChildren ''Int''\<rparr>"

section \<open>Query\<close>

definition fieldContext_Query_input :: field_context where
  "fieldContext_Query_input = \<lparr>fc_Object = ''Query'', fc_IsMethod = True, fc_IsResolver = True,
     fc_Children = Children ''Input'' [''index'', ''status'', ''msgSender'', ''timestamp'', ''blockNumber'',
       ''payload'', ''voucher'', ''notice'', ''report'', ''vouchers'', ''notices'', ''reports'']\<rparr>"

definition fieldContext_Query_voucher :: field_context where
  "fieldContext_Query_voucher = \<lparr>fc_Object = ''Query'', fc_IsMethod = True, fc_IsResolver = True,
     fc_Children = Children ''Voucher'' [''index'', ''input'', ''destination'', ''payload'', ''proof'',
       ''executed'']\<rparr>"

definition fieldContext_Query_notice :: field_context where
  "fieldContext_Query_notice = \<lparr>fc_Object = ''Query'', fc_IsMethod = True, fc_IsResolver = True,
     fc_Children = Children ''Notice'' [''index'', ''input'', ''payload'', ''proof'']\<rparr>"

definition fieldContext_Query_report :: field_context where
  "fieldContext_Query_report = \<lparr>fc_Object = ''Query'', fc_IsMethod = True, fc_IsResolver = True,
     fc_Children = Children ''Report'' [''index'', ''input'', ''payload'']\<rparr>"

definition fieldContext_Query_inputs :: field_context where
  "fieldContext_Query_inputs = \<lparr>fc_Object = ''Query'', fc_IsMethod = True, fc_IsResolver = True,
     fc_Children = Children ''InputConnection'' [''totalCount'', ''edges'', ''pageInfo'']\<rparr>"

definition fieldContext_Query_vouchers :: field_context where
  "fieldContext_Query_vouchers = \<lparr>fc_Object = ''Query'', fc_IsMethod = True, fc_IsResolver = True,
     fc_Children = Children ''VoucherConnection'' [''totalCount'', ''edges'', ''pageInfo'']\<rparr>"

definition fieldContext_Query_notices :: field_context where
  "fieldContext_Query_notices = \<lparr>fc_Object = ''Query'', fc_IsMethod = True, fc_IsResolver = True,
     fc_Children = Children ''NoticeConnection'' [''totalCount'', ''edges'', ''pageInfo'']\<rparr>"

definition fieldContext_Query_reports :: field_context where
  "fieldContext_Query_reports = \<lparr>fc_Object = ''Query'', fc_IsMethod = True, fc_IsResolver = True,
     fc_Children = Children ''ReportConnection'' [''totalCount'', ''edges'', ''pageInfo'']\<rparr>"

definition fieldContext_Query_introspectType :: field_context where
  "fieldContext_Query_introspectType = \<lparr>fc_Object = ''Query'', fc_IsMethod = True, fc_IsResolver = False,
     fc_Children = Children ''__Type'' [''kind'', ''name'', ''description'', ''fields'', ''interfaces'',
       ''possibleTypes'', ''enumValues'', ''inputFields'', ''ofType'', ''specifiedByURL'']\<rparr>"

definition fieldContext_Query_introspectSchema :: field_context where
  "fieldContext_Query_introspectSchema = \<lparr>fc_Object = ''Query'', fc_IsMethod = True, fc_IsResolver = False,
     fc_Children = Children ''__Schema'' [''description'', ''types'', ''queryType'', ''mutationType'',
       ''subscriptionType'', ''directives'']\<rparr>"

section \<open>Report\<close>

definition fieldContext_Report_index :: field_context where
  "fieldContext_Report_index = \<lparr>fc_Object = ''Report'', fc_IsMethod = False, fc_IsResolver = False,
     fc_Children = NoChildren ''Int''\<rparr>"

definition fieldContext_Report_input :: field_context where
  "fieldContext_Report_input = \<lparr>fc_Object = ''Report'', fc_IsMethod = True, fc_IsResolver = True,
     fc_Children = Children ''Input'' [''index'', ''status'', ''msgSender'', ''timestamp'', ''blockNumber'',
       ''payload'', ''voucher'', ''notice'', ''report'', ''vouchers'', ''notices'', ''reports'']\<rparr>"

definition fieldContext_Report_payload :: field_context where
  "fieldContext_Report_payload = \<lparr>fc_Object = ''Report'', fc_IsMethod = False, fc_IsResolver = False,
     fc_Children = NoChildren ''String''\<rparr>"

section \<open>ReportConnection\<close>

definition fieldContext_ReportConnection_totalCount :: field_context where
  "fieldContext_ReportConnection_totalCount = \<lparr>fc_Object = ''ReportConnection'', fc_IsMethod = False, fc_IsResolver = False,
     fc_Children = NoChildren ''Int''\<rparr>"

definition fieldContext_ReportConnection_edges :: field_context where
  "fieldContext_ReportConnection_edges = \<lparr>fc_Object = ''ReportConnection'', fc_IsMethod = False, fc_IsResolver = False,
     fc_Children = Children ''ReportEdge'' [''node'', ''cursor'']\<rparr>"

definition fieldContext_ReportConnection_pageInfo :: field_context where
  "fieldContext_ReportConnection_pageInfo = \<lparr>fc_Object = ''ReportConnection'', fc_IsMethod = False, fc_IsResolver = False,
     fc_Children = Children ''PageInfo'' [''startCursor'', ''endCursor'', ''hasNextPage'',
       ''hasPreviousPage'']\<rparr>"

section \<open>ReportEdge\<close>

definition fieldContext_ReportEdge_node :: field_context where
  "fieldContext_ReportEdge_node = \<lparr>fc_Object = ''ReportEdge'', fc_IsMethod = False, fc_IsResolver = False,
     fc_Children = Children ''Report'' [''index'', ''input'', ''payload'']\<rparr>"

definition fieldContext_ReportEdge_cursor :: field_context where
  "fieldContext_ReportEdge_cursor = \<lparr>fc_Object = ''ReportEdge'', fc_IsMethod = True, fc_IsResolver = False,
     fc_Children = NoChildren ''String''\<rparr>"

section \<open>Voucher\<close>

definition fieldContext_Voucher_index :: field_context where
  "fieldContext_Voucher_index = \<lparr>fc_Object = ''Voucher'', fc_IsMethod = False, fc_IsResolver = False,
     fc_Children = NoChildren ''Int''\<rparr>"

definition fieldContext_Voucher_input :: field_context where
  "fieldContext_Voucher_input = \<lparr>fc_Object = ''Voucher'', fc_IsMethod = True, fc_IsResolver = True,
     fc_Children = Children ''Input'' [''index'', ''status'', ''msgSender'', ''timestamp'', ''blockNumber'',
       ''payload'', ''voucher'', ''notice'', ''report'', ''vouchers'', ''notices'', ''reports'']\<rparr>"

definition fieldContext_Voucher_destination :: field_context where
  "fieldContext_Voucher_destination = \<lparr>fc_Object = ''Voucher'', fc_IsMethod = False, fc_IsResolver = False,
     fc_Children = NoChildren ''String''\<rparr>"

definition fieldContext_Voucher_payload :: field_context where
  "fieldContext_Voucher_payload = \<lparr>fc_Object = ''Voucher'', fc_IsMethod = False, fc_IsResolver = False,
     fc_Children = NoChildren ''String''\<rparr>"

definition fieldContext_Voucher_proof :: field_context where
  "fieldContext_Voucher_proof = \<lparr>fc_Object = ''Voucher'', fc_IsMethod = True, fc_IsResolver = True,
     fc_Children = Children ''Proof'' [''firstIndex'', ''inputByInputIndex'', ''inputIndex'', ''lastInput'',
       ''nodeId'', ''outputIndex'', ''validityInputIndexWithinEpoch'', ''validityMachineStateHash'',
       ''validityOutputEpochRootHash'', ''validityOutputHashInOutputHashesSiblings'',
       ''validityOutputHashesInEpochSiblings'', ''validityOutputHashesRootHash'',
       ''validityOutputIndexWithinInput'']\<rparr>"

definition fieldContext_Voucher_executed :: field_context where
  "fieldContext_Voucher_executed = \<lparr>fc_Object = ''Voucher'', fc_IsMethod = False, fc_IsResolver = False,
     fc_Children = NoChildren ''Boolean''\<rparr>"

section \<open>VoucherConnection\<close>

definition fieldContext_VoucherConnection_totalCount :: field_context where
  "fieldContext_VoucherConnection_totalCount = \<lparr>fc_Object = ''VoucherConnection'', fc_IsMethod = False, fc_IsResolver = False,
     fc_Children = NoChildren ''Int''\<rparr>"

definition fieldContext_VoucherConnection_edges :: field_context where
  "fieldContext_VoucherConnection_edges = \<lparr>fc_Object = ''VoucherConnection'', fc_IsMethod = False, fc_IsResolver = False,
     fc_Children = Children ''VoucherEdge'' [''node'', ''cursor'']\<rparr>"

definition fieldContext_VoucherConnection_pageInfo :: field_context where
  "fieldContext_VoucherConnection_pageInfo = \<lparr>fc_Object = ''VoucherConnection'', fc_IsMethod = False, fc_IsResolver = False,
     fc_Children = Children ''PageInfo'' [''startCursor'', ''endCursor'', ''hasNextPage'',
       ''hasPreviousPage'']\<rparr>"

section \<open>VoucherEdge\<close>

definition fieldContext_VoucherEdge_node :: field_context where
  "fieldContext_VoucherEdge_node = \<lparr>fc_Object = ''VoucherEdge'', fc_IsMethod = False, fc_IsResolver = False,
     fc_Children = Children ''Voucher'' [''index'', ''input'', ''destination'', ''payload'', ''proof'',
       ''executed'']\<rparr>"

definition fieldContext_VoucherEdge_cursor :: field_context where
  "fieldContext_VoucherEdge_cursor = \<lparr>fc_Object = ''VoucherEdge'', fc_IsMethod = True, fc_IsResolver = False,
     fc_Children = NoChildren ''String''\<rparr>"

section \<open>Introspection: Directive\<close>

definition fieldContext_Directive_name :: field_context where
  "fieldContext_Directive_name = \<lparr>fc_Object = ''__Directive'', fc_IsMethod = False, fc_IsResolver = False,
     fc_Children = NoChildren ''String''\<rparr>"

definition fieldContext_Directive_description :: field_context where
  "fieldContext_Directive_description = \<lparr>fc_Object = ''__Directive'', fc_IsMethod = True, fc_IsResolver = False,
     fc_Children = NoChildren ''String''\<rparr>"

definition fieldContext_Directive_locations :: field_context where
  "fieldContext_Directive_locations = \<lparr>fc_Object = ''__Directive'', fc_IsMethod = False, fc_IsResolver = False,
     fc_Children = NoChildren ''__DirectiveLocation''\<rparr>"

definition fieldContext_Directive_args :: field_context where
  "fieldContext_Directive_args = \<lparr>fc_Object = ''__Directive'', fc_IsMethod = False, fc_IsResolver = False,
     fc_Children = Children ''__InputValue'' [''name'', ''description'', ''type'', ''defaultValue'']\<rparr>"

definition fieldContext_Directive_isRepeatable :: field_context where
  "fieldContext_Directive_isRepeatable = \<lparr>fc_Object = ''__Directive'', fc_IsMethod = False, fc_IsResolver = False,
     fc_Children = NoChildren ''Boolean''\<rparr>"

section \<open>Introspection: EnumValue\<close>

definition fieldContext_EnumValue_name :: field_context where
  "fieldContext_EnumValue_name = \<lparr>fc_Object = ''__EnumValue'', fc_IsMethod = False, fc_IsResolver = False,
     fc_Children = NoChildren ''String''\<rparr>"

definition fieldContext_EnumValue_description :: field_context where
  "fieldContext_EnumValue_description = \<lparr>fc_Object = ''__EnumValue'', fc_IsMethod = True, fc_IsResolver = False,
     fc_Children = NoChildren ''String''\<rparr>"

definition fieldContext_EnumValue_isDeprecated :: field_context where
  "fieldContext_EnumValue_isDeprecated = \<lparr>fc_Object = ''__EnumValue'', fc_IsMethod = True, fc_IsResolver = False,
     fc_Children = NoChildren ''Boolean''\<rparr>"

definition fieldContext_EnumValue_deprecationReason :: field_context where
  "fieldContext_EnumValue_deprecationReason = \<lparr>fc_Object = ''__EnumValue'', fc_IsMethod = True, fc_IsResolver = False,
     fc_Children = NoChildren ''String''\<rparr>"

section \<open>Introspection: Field\<close>

definition fieldContext_Field_name :: field_context where
  "fieldContext_Field_name = \<lparr>fc_Object = ''__Field'', fc_IsMethod = False, fc_IsResolver = False,
     fc_Children = NoChildren ''String''\<rparr>"

definition fieldContext_Field_description :: field_context where
  "fieldContext_Field_description = \<lparr>fc_Object = ''__Field'', fc_IsMethod = True, fc_IsResolver = False,
     fc_Children = NoChildren ''String''\<rparr>"

definition fieldContext_Field_args :: field_context where
  "fieldContext_Field_args = \<lparr>fc_Object = ''__Field'', fc_IsMethod = False, fc_IsResolver = False,
     fc_Children = Children ''__InputValue'' [''name'', ''description'', ''type'', ''defaultValue'']\<rparr>"

definition fieldContext_Field_type :: field_context where
  "fieldContext_Field_type = \<lparr>fc_Object = ''__Field'', fc_IsMethod = False, fc_IsResolver = False,
     fc_Children = Children ''__Type'' [''kind'', ''name'', ''description'', ''fields'', ''interfaces'',
       ''possibleTypes'', ''enumValues'', ''inputFields'', ''ofType'', ''specifiedByURL'']\<rparr>"

definition fieldContext_Field_isDeprecated :: field_context where
  "fieldContext_Field_isDeprecated = \<lparr>fc_Object = ''__Field'', fc_IsMethod = True, fc_IsResolver = False,
     fc_Children = NoChildren ''Boolean''\<rparr>"

definition fieldContext_Field_deprecationReason :: field_context where
  "fieldContext_Field_deprecationReason = \<lparr>fc_Object = ''__Field'', fc_IsMethod = True, fc_IsResolver = False,
     fc_Children = NoChildren ''String''\<rparr>"

section \<open>Introspection: InputValue\<close>

definition fieldContext_InputValue_name :: field_context where
  "fieldContext_InputValue_name = \<lparr>fc_Object = ''__InputValue'', fc_IsMethod = False, fc_IsResolver = False,
     fc_Children = NoChildren ''String''\<rparr>"

definition fieldContext_InputValue_description :: field_context where
  "fieldContext_InputValue_description = \<lparr>fc_Object = ''__InputValue'', fc_IsMethod = True, fc_IsResolver = False,
     fc_Children = NoChildren ''String''\<rparr>"

definition fieldContext_InputValue_type :: field_context where
  "fieldContext_InputValue_type = \<lparr>fc_Object = ''__InputValue'', fc_IsMethod = False, fc_IsResolver = False,
     fc_Children = Children ''__Type'' [''kind'', ''name'', ''description'', ''fields'', ''interfaces'',
       ''possibleTypes'', ''enumValues'', ''inputFields'', ''ofType'', ''specifiedByURL'']\<rparr>"

definition fieldContext_InputValue_defaultValue :: field_context where
  "fieldContext_InputValue_defaultValue = \<lparr>fc_Object = ''__InputValue'', fc_IsMethod = False, fc_IsResolver = False,
     fc_Children = NoChildren ''String''\<rparr>"

section \<open>Introspection: Schema\<close>

definition fieldContext_Schema_description :: field_context where
  "fieldContext_Schema_description = \<lparr>fc_Object = ''__Schema'', fc_IsMethod = True, fc_IsResolver = False,
     fc_Children = NoChildren ''String''\<rparr>"

definition fieldContext_Schema_types :: field_context where
  "fieldContext_Schema_types = \<lparr>fc_Object = ''__Schema'', fc_IsMethod = True, fc_IsResolver = False,
     fc_Children = Children ''__Type'' [''kind'', ''name'', ''description'', ''fields'', ''interfaces'',
       ''possibleTypes'', ''enumValues'', ''inputFields'', ''ofType'', ''specifiedByURL'']\<rparr>"

definition fieldContext_Schema_queryType :: field_context where
  "fieldContext_Schema_queryType = \<lparr>fc_Object = ''__Schema'', fc_IsMethod = True, fc_IsResolver = False,
     fc_Children = Children ''__Type'' [''kind'', ''name'', ''description'', ''fields'', ''interfaces'',
       ''possibleTypes'', ''enumValues'', ''inputFields'', ''ofType'', ''specifiedByURL'']\<rparr>"

definition fieldContext_Schema_mutationType :: field_context where
  "fieldContext_Schema_mutationType = \<lparr>fc_Object = ''__Schema'', fc_IsMethod = True, fc_IsResolver = False,
     fc_Children = Children ''__Type'' [''kind'', ''name'', ''description'', ''fields'', ''interfaces'',
       ''possibleTypes'', ''enumValues'', ''inputFields'', ''ofType'', ''specifiedByURL'']\<rparr>"

definition fieldContext_Schema_subscriptionType :: field_context where
  "fieldContext_Schema_subscriptionType = \<lparr>fc_Object = ''__Schema'', fc_IsMethod = True, fc_IsResolver = False,
     fc_Children = Children ''__Type'' [''kind'', ''name'', ''description'', ''fields'', ''interfaces'',
       ''possibleTypes'', ''enumValues'', ''inputFields'', ''ofType'', ''specifiedByURL'']\<rparr>"

definition fieldContext_Schema_directives :: field_context where
  "fieldContext_Schema_directives = \<lparr>fc_Object = ''__Schema'', fc_IsMethod = True, fc_IsResolver = False,
     fc_Children = Children ''__Directive'' [''name'', ''description'', ''locations'', ''args'',
       ''isRepeatable'']\<rparr>"

section \<open>Introspection: Type\<close>

definition fieldContext_Type_kind :: field_context where
  "fieldContext_Type_kind = \<lparr>fc_Object = ''__Type'', fc_IsMethod = True, fc_IsResolver = False,
     fc_Children = NoChildren ''__TypeKind''\<rparr>"

definition fieldContext_Type_name :: field_context where
  "fieldContext_Type_name = \<lparr>fc_Object = ''__Type'', fc_IsMethod = True, fc_IsResolver = False,
     fc_Children = NoChildren ''String''\<rparr>"

definition fieldContext_Type_description :: field_context where
  "fieldContext_Type_description = \<lparr>fc_Object = ''__Type'', fc_IsMethod = True, fc_IsResolver = False,
     fc_Children = NoChildren ''String''\<rparr>"

definition fieldContext_Type_fields :: field_context where
  "fieldContext_Type_fields = \<lparr>fc_Object = ''__Type'', fc_IsMethod = True, fc_IsResolver = False,
     fc_Children = Children ''__Field'' [''name'', ''description'', ''args'', ''type'', ''isDeprecated'',
       ''deprecationReason'']\<rparr>"

definition fieldContext_Type_interfaces :: field_context where
  "fieldContext_Type_interfaces = \<lparr>fc_Object = ''__Type'', fc_IsMethod = True, fc_IsResolver = False,
     fc_Children = Children ''__Type'' [''kind'', ''name'', ''description'', ''fields'', ''interfaces'',
       ''possibleTypes'', ''enumValues'', ''inputFields'', ''ofType'', ''specifiedByURL'']\<rparr>"

definition fieldContext_Type_possibleTypes :: field_context where
  "fieldContext_Type_possibleTypes = \<lparr>fc_Object = ''__Type'', fc_IsMethod = True, fc_IsResolver = False,
     fc_Children = Children ''__Type'' [''kind'', ''name'', ''description'', ''fields'', ''interfaces'',
       ''possibleTypes'', ''enumValues'', ''inputFields'', ''ofType'', ''specifiedByURL'']\<rparr>"

definition fieldContext_Type_enumValues :: field_context where
  "fieldContext_Type_enumValues = \<lparr>fc_Object = ''__Type'', fc_IsMethod = True, fc_IsResolver = False,
     fc_Children = Children ''__EnumValue'' [''name'', ''description'', ''isDeprecated'',
       ''deprecationReason'']\<rparr>"

definition fieldContext_Type_inputFields :: field_context where
  "fieldContext_Type_inputFields = \<lparr>fc_Object = ''__Type'', fc_IsMethod = True, fc_IsResolver = False,
     fc_Children = Children ''__InputValue'' [''name'', ''description'', ''type'', ''defaultValue'']\<rparr>"

definition fieldContext_Type_ofType :: field_context where
  "fieldContext_Type_ofType = \<lparr>fc_Object = ''__Type'', fc_IsMethod = True, fc_IsResolver = False,
     fc_Children = Children ''__Type'' [''kind'', ''name'', ''description'', ''fields'', ''interfaces'',
       ''possibleTypes'', ''enumValues'', ''inputFields'', ''ofType'', ''specifiedByURL'']\<rparr>"

definition fieldContext_Type_specifiedByURL :: field_context where
  "fieldContext_Type_specifiedByURL = \<lparr>fc_Object = ''__Type'', fc_IsMethod = True, fc_IsResolver = False,
     fc_Children = NoChildren ''String''\<rparr>"

section \<open>The contexts and the schema\<close>

definition contexts_Input :: "(string \<times> field_context) list" where
  "contexts_Input = [(''index'', fieldContext_Input_index), (''status'', fieldContext_Input_status),
     (''msgSender'', fieldContext_Input_msgSender), (''timestamp'', fieldContext_Input_timestamp),
     (''blockNumber'', fieldContext_Input_blockNumber), (''payload'', fieldContext_Input_payload),
     (''voucher'', fieldContext_Input_voucher), (''notice'', fieldContext_Input_notice),
     (''report'', fieldContext_Input_report), (''vouchers'', fieldContext_Input_vouchers),
     (''notices'', fieldContext_Input_notices), (''reports'', fieldContext_Input_reports)]"

definition contexts_InputConnection :: "(string \<times> field_context) list" where
  "contexts_InputConnection = [(''totalCount'', fieldContext_InputConnection_totalCount),
     (''edges'', fieldContext_InputConnection_edges), (''pageInfo'', fieldContext_InputConnection_pageInfo)]"

definition contexts_InputEdge :: "(string \<times> field_context) list" where
  "contexts_InputEdge = [(''node'', fieldContext_InputEdge_node), (''cursor'', fieldContext_InputEdge_cursor)]"

definition contexts_Notice :: "(string \<times> field_context) list" where
  "contexts_Notice = [(''index'', fieldContext_Notice_index), (''input'', fieldContext_Notice_input),
     (''payload'', fieldContext_Notice_payload), (''proof'', fieldContext_Notice_proof)]"

definition contexts_NoticeConnection :: "(string \<times> field_context) list" where
  "contexts_NoticeConnection = [(''totalCount'', fieldContext_NoticeConnection_totalCount),
     (''edges'', fieldContext_NoticeConnection_edges),
     (''pageInfo'', fieldContext_NoticeConnection_pageInfo)]"

definition contexts_NoticeEdge :: "(string \<times> field_context) list" where
  "contexts_NoticeEdge = [(''node'', fieldContext_NoticeEdge_node), (''cursor'', fieldContext_NoticeEdge_cursor)]"

definition contexts_PageInfo :: "(string \<times> field_context) list" where
  "contexts_PageInfo = [(''startCursor'', fieldContext_PageInfo_startCursor), (''endCursor'', fieldContext_PageInfo_endCursor),
     (''hasNextPage'', fieldContext_PageInfo_hasNextPage),
     (''hasPreviousPage'', fieldContext_PageInfo_hasPreviousPage)]"

definition contexts_Proof :: "(string \<times> field_context) list" where
  "contexts_Proof = [(''firstIndex'', fieldContext_Proof_firstIndex),
     (''inputByInputIndex'', fieldContext_Proof_inputByInputIndex),
     (''inputIndex'', fieldContext_Proof_inputIndex), (''lastInput'', fieldContext_Proof_lastInput),
     (''nodeId'', fieldContext_Proof_nodeId), (''outputIndex'', fieldContext_Proof_outputIndex),
     (''validityInputIndexWithinEpoch'', fieldContext_Proof_validityInputIndexWithinEpoch),
     (''validityMachineStateHash'', fieldContext_Proof_validityMachineStateHash),
     (''validityOutputEpochRootHash'', fieldContext_Proof_validityOutputEpochRootHash),
     (''validityOutputHashInOutputHashesSiblings'', fieldContext_Proof_validityOutputHashInOutputHashesSiblings),
     (''validityOutputHashesInEpochSiblings'', fieldContext_Proof_validityOutputHashesInEpochSiblings),
     (''validityOutputHashesRootHash'', fieldContext_Proof_validityOutputHashesRootHash),
     (''validityOutputIndexWithinInput'', fieldContext_Proof_validityOutputIndexWithinInput)]"

definition contexts_Query :: "(string \<times> field_context) list" where
  "contexts_Query = [(''input'', fieldContext_Query_input), (''voucher'', fieldContext_Query_voucher),
     (''notice'', fieldContext_Query_notice), (''report'', fieldContext_Query_report),
     (''inputs'', fieldContext_Query_inputs), (''vouchers'', fieldContext_Query_vouchers),
     (''notices'', fieldContext_Query_notices), (''reports'', fieldContext_Query_reports),
     (''__type'', fieldContext_Query_introspectType), (''__schema'', fieldContext_Query_introspectSchema)]"

definition contexts_Report :: "(string \<times> field_context) list" where
  "contexts_Report = [(''index'', fieldContext_Report_index), (''input'', fieldContext_Report_input),
     (''payload'', fieldContext_Report_payload)]"

definition contexts_ReportConnection :: "(string \<times> field_context) list" where
  "contexts_ReportConnection = [(''totalCount'', fieldContext_ReportConnection_totalCount),
     (''edges'', fieldContext_ReportConnection_edges),
     (''pageInfo'', fieldContext_ReportConnection_pageInfo)]"

definition contexts_ReportEdge :: "(string \<times> field_context) list" where
  "contexts_ReportEdge = [(''node'', fieldContext_ReportEdge_node), (''cursor'', fieldContext_ReportEdge_cursor)]"

definition contexts_Voucher :: "(string \<times> field_context) list" where
  "contexts_Voucher = [(''index'', fieldContext_Voucher_index), (''input'', fieldContext_Voucher_input),
     (''destination'', fieldContext_Voucher_destination), (''payload'', fieldContext_Voucher_payload),
     (''proof'', fieldContext_Voucher_proof), (''executed'', fieldContext_Voucher_executed)]"

definition contexts_VoucherConnection :: "(string \<times> field_context) list" where
  "contexts_VoucherConnection = [(''totalCount'', fieldContext_VoucherConnection_totalCount),
     (''edges'', fieldContext_VoucherConnection_edges),
     (''pageInfo'', fieldContext_VoucherConnection_pageInfo)]"

definition contexts_VoucherEdge :: "(string \<times> field_context) list" where
  "contexts_VoucherEdge = [(''node'', fieldContext_VoucherEdge_node), (''cursor'', fieldContext_VoucherEdge_cursor)]"

definition contexts_Directive :: "(string \<times> field_context) list" where
  "contexts_Directive = [(''name'', fieldContext_Directive_name), (''description'', fieldContext_Directive_description),
     (''locations'', fieldContext_Directive_locations), (''args'', fieldContext_Directive_args),
     (''isRepeatable'', fieldContext_Directive_isRepeatable)]"

definition contexts_EnumValue :: "(string \<times> field_context) list" where
  "contexts_EnumValue = [(''name'', fieldContext_EnumValue_name), (''description'', fieldContext_EnumValue_description),
     (''isDeprecated'', fieldContext_EnumValue_isDeprecated),
     (''deprecationReason'', fieldContext_EnumValue_deprecationReason)]"

definition contexts_Field :: "(string \<times> field_context) list" where
  "contexts_Field = [(''name'', fieldContext_Field_name), (''description'', fieldContext_Field_description),
     (''args'', fieldContext_Field_args), (''type'', fieldContext_Field_type),
     (''isDeprecated'', fieldContext_Field_isDeprecated),
     (''deprecationReason'', fieldContext_Field_deprecationReason)]"

definition contexts_InputValue :: "(string \<times> field_context) list" where
  "contexts_InputValue = [(''name'', fieldContext_InputValue_name), (''description'', fieldContext_InputValue_description),
     (''type'', fieldContext_InputValue_type), (''defaultValue'', fieldContext_InputValue_defaultValue)]"

definition contexts_Schema :: "(string \<times> field_context) list" where
  "contexts_Schema = [(''description'', fieldContext_Schema_description), (''types'', fieldContext_Schema_types),
     (''queryType'', fieldContext_Schema_queryType), (''mutationType'', fieldContext_Schema_mutationType),
     (''subscriptionType'', fieldContext_Schema_subscriptionType),
     (''directives'', fieldContext_Schema_directives)]"

definition contexts_Type :: "(string \<times> field_context) list" where
  "contexts_Type = [(''kind'', fieldContext_Type_kind), (''name'', fieldContext_Type_name),
     (''description'', fieldContext_Type_description), (''fields'', fieldContext_Type_fields),
     (''interfaces'', fieldContext_Type_interfaces), (''possibleTypes'', fieldContext_Type_possibleTypes),
     (''enumValues'', fieldContext_Type_enumValues), (''inputFields'', fieldContext_Type_inputFields),
     (''ofType'', fieldContext_Type_ofType), (''specifiedByURL'', fieldContext_Type_specifiedByURL)]"

definition field_contexts :: "(string \<times> (string \<times> field_context) list) list" where
  "field_contexts = [(''Input'', contexts_Input), (''InputConnection'', contexts_InputConnection),
     (''InputEdge'', contexts_InputEdge), (''Notice'', contexts_Notice),
     (''NoticeConnection'', contexts_NoticeConnection), (''NoticeEdge'', contexts_NoticeEdge),
     (''PageInfo'', contexts_PageInfo), (''Proof'', contexts_Proof), (''Query'', contexts_Query),
     (''Report'', contexts_Report), (''ReportConnection'', contexts_ReportConnection),
     (''ReportEdge'', contexts_ReportEdge), (''Voucher'', contexts_Voucher),
     (''VoucherConnection'', contexts_VoucherConnection), (''VoucherEdge'', contexts_VoucherEdge),
     (''__Directive'', contexts_Directive), (''__EnumValue'', contexts_EnumValue),
     (''__Field'', contexts_Field), (''__InputValue'', contexts_InputValue),
     (''__Schema'', contexts_Schema), (''__Type'', contexts_Type)]"

lemma contexts_of_types [simp]:
  "map_of field_contexts ''Input'' = Some contexts_Input"
  "map_of field_contexts ''InputConnection'' = Some contexts_InputConnection"
  "map_of field_contexts ''InputEdge'' = Some contexts_InputEdge"
  "map_of field_contexts ''Notice'' = Some contexts_Notice"
  "map_of field_contexts ''NoticeConnection'' = Some contexts_NoticeConnection"
  "map_of field_contexts ''NoticeEdge'' = Some contexts_NoticeEdge"
  "map_of field_contexts ''PageInfo'' = Some contexts_PageInfo"
  "map_of field_contexts ''Proof'' = Some contexts_Proof"
  "map_of field_contexts ''Query'' = Some contexts_Query"
  "map_of field_contexts ''Report'' = Some contexts_Report"
  "map_of field_contexts ''ReportConnection'' = Some contexts_ReportConnection"
  "map_of field_contexts ''ReportEdge'' = Some contexts_ReportEdge"
  "map_of field_contexts ''Voucher'' = Some contexts_Voucher"
  "map_of field_contexts ''VoucherConnection'' = Some contexts_VoucherConnection"
  "map_of field_contexts ''VoucherEdge'' = Some contexts_VoucherEdge"
  by (simp_all add: field_contexts_def)

fun base_type :: "gtype \<Rightarrow> string" where
  "base_type (Named n) = n"
| "base_type (NonNull t) = base_type t"
| "base_type (ListOf t) = base_type t"

definition context_at :: "string \<Rightarrow> string \<Rightarrow> field_context option" where
  "context_at n f = Option.bind (map_of field_contexts n) (\<lambda>cs. map_of cs f)"

text \<open>The context of a field of the schema: its object, and the fields of its type, in their order.\<close>

definition context_ok :: "string \<Rightarrow> string \<times> gtype \<Rightarrow> bool" where
  "context_ok n ft = (case context_at n (fst ft) of None \<Rightarrow> False
     | Some fc \<Rightarrow> fc_Object fc = n \<and> fc_Children fc = (case map_of schema (base_type (snd ft)) of
         None \<Rightarrow> NoChildren (base_type (snd ft)) | Some ts \<Rightarrow> Children (base_type (snd ft)) (map fst ts)))"

lemma Input_contexts: "list_all (context_ok ''Input'') fields_Input"
  by (simp add: context_ok_def context_at_def
    contexts_Input_def fieldContext_Input_index_def fieldContext_Input_status_def
    fieldContext_Input_msgSender_def fieldContext_Input_timestamp_def fieldContext_Input_blockNumber_def
    fieldContext_Input_payload_def fieldContext_Input_voucher_def fieldContext_Input_notice_def
    fieldContext_Input_report_def fieldContext_Input_vouchers_def fieldContext_Input_notices_def
    fieldContext_Input_reports_def fields_Input_def fields_Notice_def fields_NoticeConnection_def
    fields_Report_def fields_ReportConnection_def fields_Voucher_def fields_VoucherConnection_def)

lemma InputConnection_contexts: "list_all (context_ok ''InputConnection'') fields_InputConnection"
  by (simp add: context_ok_def context_at_def
    contexts_InputConnection_def fieldContext_InputConnection_totalCount_def
    fieldContext_InputConnection_edges_def fieldContext_InputConnection_pageInfo_def fields_InputConnection_def
    fields_InputEdge_def fields_PageInfo_def)

lemma InputEdge_contexts: "list_all (context_ok ''InputEdge'') fields_InputEdge"
  by (simp add: context_ok_def context_at_def
    contexts_InputEdge_def fieldContext_InputEdge_node_def fieldContext_InputEdge_cursor_def fields_Input_def
    fields_InputEdge_def)

lemma Notice_contexts: "list_all (context_ok ''Notice'') fields_Notice"
  by (simp add: context_ok_def context_at_def
    contexts_Notice_def fieldContext_Notice_index_def fieldContext_Notice_input_def
    fieldContext_Notice_payload_def fieldContext_Notice_proof_def fields_Input_def fields_Notice_def
    fields_Proof_def)

lemma NoticeConnection_contexts: "list_all (context_ok ''NoticeConnection'') fields_NoticeConnection"
  by (simp add: context_ok_def context_at_def
    contexts_NoticeConnection_def fieldContext_NoticeConnection_totalCount_def
    fieldContext_NoticeConnection_edges_def fieldContext_NoticeConnection_pageInfo_def
    fields_NoticeConnection_def fields_NoticeEdge_def fields_PageInfo_def)

lemma NoticeEdge_contexts: "list_all (context_ok ''NoticeEdge'') fields_NoticeEdge"
  by (simp add: context_ok_def context_at_def
    contexts_NoticeEdge_def fieldContext_NoticeEdge_node_def fieldContext_NoticeEdge_cursor_def
    fields_Notice_def fields_NoticeEdge_def)

lemma PageInfo_contexts: "list_all (context_ok ''PageInfo'') fields_PageInfo"
  by (simp add: context_ok_def context_at_def
    contexts_PageInfo_def fieldContext_PageInfo_startCursor_def fieldContext_PageInfo_endCursor_def
    fieldContext_PageInfo_hasNextPage_def fieldContext_PageInfo_hasPreviousPage_def fields_PageInfo_def)

lemma Proof_contexts: "list_all (context_ok ''Proof'') fields_Proof"
  by (simp add: context_ok_def context_at_def
    contexts_Proof_def fieldContext_Proof_firstIndex_def fieldContext_Proof_inputByInputIndex_def
    fieldContext_Proof_inputIndex_def fieldContext_Proof_lastInput_def fieldContext_Proof_nodeId_def
    fieldContext_Proof_outputIndex_def fieldContext_Proof_validityInputIndexWithinEpoch_def
    fieldContext_Proof_validityMachineStateHash_def fieldContext_Proof_validityOutputEpochRootHash_def
    fieldContext_Proof_validityOutputHashInOutputHashesSiblings_def
    fieldContext_Proof_validityOutputHashesInEpochSiblings_def
    fieldContext_Proof_validityOutputHashesRootHash_def fieldContext_Proof_validityOutputIndexWithinInput_def
    fields_Input_def fields_Proof_def)

lemma Query_contexts: "list_all (context_ok ''Query'') fields_Query"
  by (simp add: context_ok_def context_at_def
    contexts_Query_def fieldContext_Query_input_def fieldContext_Query_voucher_def fieldContext_Query_notice_def
    fieldContext_Query_report_def fieldContext_Query_inputs_def fieldContext_Query_vouchers_def
    fieldContext_Query_notices_def fieldContext_Query_reports_def fieldContext_Query_introspectType_def
    fieldContext_Query_introspectSchema_def fields_Input_def fields_InputConnection_def fields_Notice_def
    fields_NoticeConnection_def fields_Query_def fields_Report_def fields_ReportConnection_def
    fields_Voucher_def fields_VoucherConnection_def)

lemma Report_contexts: "list_all (context_ok ''Report'') fields_Report"
  by (simp add: context_ok_def context_at_def
    contexts_Report_def fieldContext_Report_index_def fieldContext_Report_input_def
    fieldContext_Report_payload_def fields_Input_def fields_Report_def)

lemma ReportConnection_contexts: "list_all (context_ok ''ReportConnection'') fields_ReportConnection"
  by (simp add: context_ok_def context_at_def
    contexts_ReportConnection_def fieldContext_ReportConnection_totalCount_def
    fieldContext_ReportConnection_edges_def fieldContext_ReportConnection_pageInfo_def fields_PageInfo_def
    fields_ReportConnection_def fields_ReportEdge_def)

lemma ReportEdge_contexts: "list_all (context_ok ''ReportEdge'') fields_ReportEdge"
  by (simp add: context_ok_def context_at_def
    contexts_ReportEdge_def fieldContext_ReportEdge_node_def fieldContext_ReportEdge_cursor_def
    fields_Report_def fields_ReportEdge_def)

lemma Voucher_contexts: "list_all (context_ok ''Voucher'') fields_Voucher"
  by (simp add: context_ok_def context_at_def
    contexts_Voucher_def fieldContext_Voucher_index_def fieldContext_Voucher_input_def
    fieldContext_Voucher_destination_def fieldContext_Voucher_payload_def fieldContext_Voucher_proof_def
    fieldContext_Voucher_executed_def fields_Input_def fields_Proof_def fields_Voucher_def)

lemma VoucherConnection_contexts: "list_all (context_ok ''VoucherConnection'') fields_VoucherConnection"
  by (simp add: context_ok_def context_at_def
    contexts_VoucherConnection_def fieldContext_VoucherConnection_totalCount_def
    fieldContext_VoucherConnection_edges_def fieldContext_VoucherConnection_pageInfo_def fields_PageInfo_def
    fields_VoucherConnection_def fields_VoucherEdge_def)

lemma VoucherEdge_contexts: "list_all (context_ok ''VoucherEdge'') fields_VoucherEdge"
  by (simp add: context_ok_def context_at_def
    contexts_VoucherEdge_def fieldContext_VoucherEdge_node_def fieldContext_VoucherEdge_cursor_def
    fields_Voucher_def fields_VoucherEdge_def)

lemma contexts_ok: "list_all (\<lambda>(n, ts). list_all (context_ok n) ts) schema"
  by (simp add: schema_def
    Input_contexts InputConnection_contexts InputEdge_contexts Notice_contexts NoticeConnection_contexts
    NoticeEdge_contexts PageInfo_contexts Proof_contexts Query_contexts Report_contexts
    ReportConnection_contexts ReportEdge_contexts Voucher_contexts VoucherConnection_contexts
    VoucherEdge_contexts)

text \<open>The types of the fields on a path of names from an object type.\<close>

fun path_types :: "string \<Rightarrow> string list \<Rightarrow> (string \<times> string) list option" where
  "path_types n [] = Some []"
| "path_types n (f # fs) = (case map_of schema n of None \<Rightarrow> None
     | Some ts \<Rightarrow> (case map_of ts f of None \<Rightarrow> None
       | Some t \<Rightarrow> map_option (\<lambda>rest. (n, f) # rest) (path_types (base_type t) fs)))"

text \<open>Following the function \<open>Child\<close> from a context.\<close>

fun follow_children :: "field_context \<Rightarrow> string list \<Rightarrow> (string \<times> string) list res" where
  "follow_children fc [] = Inr []"
| "follow_children fc (f # fs) = rbind (fc_Child fc f) (\<lambda>key.
     case context_at (fst key) (snd key) of None \<Rightarrow> Inl (EPanic ''no context'')
     | Some fc' \<Rightarrow> rbind (follow_children fc' fs) (\<lambda>keys. Inr (key # keys)))"

lemma context_of_field:
  assumes "map_of schema n = Some ts" and "map_of ts f = Some t"
  shows "\<exists>fc. context_at n f = Some fc \<and> fc_Object fc = n \<and> fc_Children fc =
    (case map_of schema (base_type t) of None \<Rightarrow> NoChildren (base_type t) | Some ts' \<Rightarrow> Children (base_type t) (map fst ts'))"
proof -
  have "context_ok n (f, t)"
    using contexts_ok map_of_SomeD [OF assms(1)] map_of_SomeD [OF assms(2)] by (auto simp: list_all_iff)
  then show ?thesis by (auto simp: context_ok_def split: option.splits)
qed

text \<open>Whatever path the schema has, the contexts follow it.\<close>

lemma children_follow_schema:
  assumes "map_of schema n = Some ts" and "map_of ts f = Some t" and "context_at n f = Some fc"
    and "path_types (base_type t) fs = Some keys"
  shows "follow_children fc fs = Inr keys"
  using assms
proof (induction fs arbitrary: n ts f t fc keys)
  case (Cons g gs)
  obtain ts' t' rest where ts': "map_of schema (base_type t) = Some ts'" and t': "map_of ts' g = Some t'"
    and rest: "path_types (base_type t') gs = Some rest" "keys = (base_type t, g) # rest"
    using Cons.prems(4) by (auto split: option.splits)
  have "g \<in> set (map fst ts')" using t' by (metis domI dom_map_of_conv_image_fst list.set_map)
  then have child: "fc_Child fc g = Inr (base_type t, g)"
    using context_of_field [OF Cons.prems(1,2)] Cons.prems(3) ts' by (auto simp: fc_Child_def)
  obtain fc' where fc': "context_at (base_type t) g = Some fc'"
    using context_of_field [OF ts' t'] by blast
  from Cons.IH [OF ts' t' fc' rest(1)] show ?case by (simp add: child fc' rest(2))
qed simp

end
