(* ===== verification/GraphComplexity.thy ===== *)
theory GraphComplexity
  imports GraphSchema
begin

text \<open>
  The costs of fields (\<open>internal/reader/graph/generated.go\<close>): the functions that a configuration may
  set for each field, one record for each object type, and \<open>Complexity\<close>, which looks the field up,
  reads its arguments and applies its function. \<open>reader.go\<close> sets none of them.
\<close>

section \<open>The functions\<close>

record Input_complexity =
  cx_Input_BlockNumber :: "(int \<Rightarrow> int) option"
  cx_Input_Index :: "(int \<Rightarrow> int) option"
  cx_Input_MsgSender :: "(int \<Rightarrow> int) option"
  cx_Input_Notice :: "(int \<Rightarrow> int \<Rightarrow> int) option"
  cx_Input_Notices :: "(int \<Rightarrow> int option \<Rightarrow> int option \<Rightarrow> string option \<Rightarrow> string option \<Rightarrow> int) option"
  cx_Input_Payload :: "(int \<Rightarrow> int) option"
  cx_Input_Report :: "(int \<Rightarrow> int \<Rightarrow> int) option"
  cx_Input_Reports :: "(int \<Rightarrow> int option \<Rightarrow> int option \<Rightarrow> string option \<Rightarrow> string option \<Rightarrow> int) option"
  cx_Input_Status :: "(int \<Rightarrow> int) option"
  cx_Input_Timestamp :: "(int \<Rightarrow> int) option"
  cx_Input_Voucher :: "(int \<Rightarrow> int \<Rightarrow> int) option"
  cx_Input_Vouchers :: "(int \<Rightarrow> int option \<Rightarrow> int option \<Rightarrow> string option \<Rightarrow> string option \<Rightarrow> int) option"

record InputConnection_complexity =
  cx_InputConnection_Edges :: "(int \<Rightarrow> int) option"
  cx_InputConnection_PageInfo :: "(int \<Rightarrow> int) option"
  cx_InputConnection_TotalCount :: "(int \<Rightarrow> int) option"

record InputEdge_complexity =
  cx_InputEdge_Cursor :: "(int \<Rightarrow> int) option"
  cx_InputEdge_Node :: "(int \<Rightarrow> int) option"

record Notice_complexity =
  cx_Notice_Index :: "(int \<Rightarrow> int) option"
  cx_Notice_Input :: "(int \<Rightarrow> int) option"
  cx_Notice_Payload :: "(int \<Rightarrow> int) option"
  cx_Notice_Proof :: "(int \<Rightarrow> int) option"

record NoticeConnection_complexity =
  cx_NoticeConnection_Edges :: "(int \<Rightarrow> int) option"
  cx_NoticeConnection_PageInfo :: "(int \<Rightarrow> int) option"
  cx_NoticeConnection_TotalCount :: "(int \<Rightarrow> int) option"

record NoticeEdge_complexity =
  cx_NoticeEdge_Cursor :: "(int \<Rightarrow> int) option"
  cx_NoticeEdge_Node :: "(int \<Rightarrow> int) option"

record PageInfo_complexity =
  cx_PageInfo_EndCursor :: "(int \<Rightarrow> int) option"
  cx_PageInfo_HasNextPage :: "(int \<Rightarrow> int) option"
  cx_PageInfo_HasPreviousPage :: "(int \<Rightarrow> int) option"
  cx_PageInfo_StartCursor :: "(int \<Rightarrow> int) option"

record Proof_complexity =
  cx_Proof_FirstIndex :: "(int \<Rightarrow> int) option"
  cx_Proof_InputByInputIndex :: "(int \<Rightarrow> int) option"
  cx_Proof_InputIndex :: "(int \<Rightarrow> int) option"
  cx_Proof_LastInput :: "(int \<Rightarrow> int) option"
  cx_Proof_NodeID :: "(int \<Rightarrow> int) option"
  cx_Proof_OutputIndex :: "(int \<Rightarrow> int) option"
  cx_Proof_ValidityInputIndexWithinEpoch :: "(int \<Rightarrow> int) option"
  cx_Proof_ValidityMachineStateHash :: "(int \<Rightarrow> int) option"
  cx_Proof_ValidityOutputEpochRootHash :: "(int \<Rightarrow> int) option"
  cx_Proof_ValidityOutputHashInOutputHashesSiblings :: "(int \<Rightarrow> int) option"
  cx_Proof_ValidityOutputHashesInEpochSiblings :: "(int \<Rightarrow> int) option"
  cx_Proof_ValidityOutputHashesRootHash :: "(int \<Rightarrow> int) option"
  cx_Proof_ValidityOutputIndexWithinInput :: "(int \<Rightarrow> int) option"

record Query_complexity =
  cx_Query_Input :: "(int \<Rightarrow> int \<Rightarrow> int) option"
  cx_Query_Inputs :: "(int \<Rightarrow> int option \<Rightarrow> int option \<Rightarrow> string option \<Rightarrow> string option \<Rightarrow> gql_InputFilter option \<Rightarrow> int) option"
  cx_Query_Notice :: "(int \<Rightarrow> int \<Rightarrow> int \<Rightarrow> int) option"
  cx_Query_Notices :: "(int \<Rightarrow> int option \<Rightarrow> int option \<Rightarrow> string option \<Rightarrow> string option \<Rightarrow> int) option"
  cx_Query_Report :: "(int \<Rightarrow> int \<Rightarrow> int \<Rightarrow> int) option"
  cx_Query_Reports :: "(int \<Rightarrow> int option \<Rightarrow> int option \<Rightarrow> string option \<Rightarrow> string option \<Rightarrow> int) option"
  cx_Query_Voucher :: "(int \<Rightarrow> int \<Rightarrow> int \<Rightarrow> int) option"
  cx_Query_Vouchers :: "(int \<Rightarrow> int option \<Rightarrow> int option \<Rightarrow> string option \<Rightarrow> string option \<Rightarrow> ConvenientFilter list option \<Rightarrow> int) option"

record Report_complexity =
  cx_Report_Index :: "(int \<Rightarrow> int) option"
  cx_Report_Input :: "(int \<Rightarrow> int) option"
  cx_Report_Payload :: "(int \<Rightarrow> int) option"

record ReportConnection_complexity =
  cx_ReportConnection_Edges :: "(int \<Rightarrow> int) option"
  cx_ReportConnection_PageInfo :: "(int \<Rightarrow> int) option"
  cx_ReportConnection_TotalCount :: "(int \<Rightarrow> int) option"

record ReportEdge_complexity =
  cx_ReportEdge_Cursor :: "(int \<Rightarrow> int) option"
  cx_ReportEdge_Node :: "(int \<Rightarrow> int) option"

record Voucher_complexity =
  cx_Voucher_Destination :: "(int \<Rightarrow> int) option"
  cx_Voucher_Executed :: "(int \<Rightarrow> int) option"
  cx_Voucher_Index :: "(int \<Rightarrow> int) option"
  cx_Voucher_Input :: "(int \<Rightarrow> int) option"
  cx_Voucher_Payload :: "(int \<Rightarrow> int) option"
  cx_Voucher_Proof :: "(int \<Rightarrow> int) option"

record VoucherConnection_complexity =
  cx_VoucherConnection_Edges :: "(int \<Rightarrow> int) option"
  cx_VoucherConnection_PageInfo :: "(int \<Rightarrow> int) option"
  cx_VoucherConnection_TotalCount :: "(int \<Rightarrow> int) option"

record VoucherEdge_complexity =
  cx_VoucherEdge_Cursor :: "(int \<Rightarrow> int) option"
  cx_VoucherEdge_Node :: "(int \<Rightarrow> int) option"

record ComplexityRoot =
  cx_Input :: Input_complexity
  cx_InputConnection :: InputConnection_complexity
  cx_InputEdge :: InputEdge_complexity
  cx_Notice :: Notice_complexity
  cx_NoticeConnection :: NoticeConnection_complexity
  cx_NoticeEdge :: NoticeEdge_complexity
  cx_PageInfo :: PageInfo_complexity
  cx_Proof :: Proof_complexity
  cx_Query :: Query_complexity
  cx_Report :: Report_complexity
  cx_ReportConnection :: ReportConnection_complexity
  cx_ReportEdge :: ReportEdge_complexity
  cx_Voucher :: Voucher_complexity
  cx_VoucherConnection :: VoucherConnection_complexity
  cx_VoucherEdge :: VoucherEdge_complexity

section \<open>Looking a field up\<close>

text \<open>
  A field that has no function has no cost of its own, which the second component says; so has one whose
  arguments cannot be read. Nothing recovers a panic of the reading here.
\<close>

definition field_cost :: "(int \<Rightarrow> int) option \<Rightarrow> int \<Rightarrow> (int \<times> bool) res" where
  "field_cost fn childComplexity = (case fn of
       None \<Rightarrow> Inr (0, False) | Some f \<Rightarrow> Inr (f childComplexity, True))"

definition field_cost_args ::
  "'f option \<Rightarrow> 'a gres \<Rightarrow> ('f \<Rightarrow> 'a \<Rightarrow> int) \<Rightarrow> (int \<times> bool) res" where
  "field_cost_args fn args call = (case fn of
       None \<Rightarrow> Inr (0, False)
     | Some f \<Rightarrow> (case args of
         Inl (_, err) \<Rightarrow> if is_panic err then Inl err else Inr (0, False)
       | Inr a \<Rightarrow> Inr (call f a, True)))"

definition complexity_Input ::
  "gql_lib \<Rightarrow> Input_complexity \<Rightarrow> int \<Rightarrow> (string \<times> json) list \<Rightarrow> (string \<times> (int \<times> bool) res) list" where
  "complexity_Input L c childComplexity rawArgs =
     [(''Input.blockNumber'', field_cost (cx_Input_BlockNumber c) childComplexity),
      (''Input.index'', field_cost (cx_Input_Index c) childComplexity),
      (''Input.msgSender'', field_cost (cx_Input_MsgSender c) childComplexity),
      (''Input.notice'', field_cost_args (cx_Input_Notice c) (field_Input_notice_args L [] rawArgs)
        (\<lambda>f a0. f childComplexity a0)),
      (''Input.notices'', field_cost_args (cx_Input_Notices c) (field_Input_notices_args L [] rawArgs)
        (\<lambda>f (a0, a1, a2, a3). f childComplexity a0 a1 a2 a3)),
      (''Input.payload'', field_cost (cx_Input_Payload c) childComplexity),
      (''Input.report'', field_cost_args (cx_Input_Report c) (field_Input_report_args L [] rawArgs)
        (\<lambda>f a0. f childComplexity a0)),
      (''Input.reports'', field_cost_args (cx_Input_Reports c) (field_Input_reports_args L [] rawArgs)
        (\<lambda>f (a0, a1, a2, a3). f childComplexity a0 a1 a2 a3)),
      (''Input.status'', field_cost (cx_Input_Status c) childComplexity),
      (''Input.timestamp'', field_cost (cx_Input_Timestamp c) childComplexity),
      (''Input.voucher'', field_cost_args (cx_Input_Voucher c) (field_Input_voucher_args L [] rawArgs)
        (\<lambda>f a0. f childComplexity a0)),
      (''Input.vouchers'', field_cost_args (cx_Input_Vouchers c) (field_Input_vouchers_args L [] rawArgs)
        (\<lambda>f (a0, a1, a2, a3). f childComplexity a0 a1 a2 a3))]"

definition complexity_InputConnection ::
  "gql_lib \<Rightarrow> InputConnection_complexity \<Rightarrow> int \<Rightarrow> (string \<times> json) list \<Rightarrow> (string \<times> (int \<times> bool) res) list" where
  "complexity_InputConnection L c childComplexity rawArgs =
     [(''InputConnection.edges'', field_cost (cx_InputConnection_Edges c) childComplexity),
      (''InputConnection.pageInfo'', field_cost (cx_InputConnection_PageInfo c) childComplexity),
      (''InputConnection.totalCount'', field_cost (cx_InputConnection_TotalCount c) childComplexity)]"

definition complexity_InputEdge ::
  "gql_lib \<Rightarrow> InputEdge_complexity \<Rightarrow> int \<Rightarrow> (string \<times> json) list \<Rightarrow> (string \<times> (int \<times> bool) res) list" where
  "complexity_InputEdge L c childComplexity rawArgs =
     [(''InputEdge.cursor'', field_cost (cx_InputEdge_Cursor c) childComplexity),
      (''InputEdge.node'', field_cost (cx_InputEdge_Node c) childComplexity)]"

definition complexity_Notice ::
  "gql_lib \<Rightarrow> Notice_complexity \<Rightarrow> int \<Rightarrow> (string \<times> json) list \<Rightarrow> (string \<times> (int \<times> bool) res) list" where
  "complexity_Notice L c childComplexity rawArgs =
     [(''Notice.index'', field_cost (cx_Notice_Index c) childComplexity),
      (''Notice.input'', field_cost (cx_Notice_Input c) childComplexity),
      (''Notice.payload'', field_cost (cx_Notice_Payload c) childComplexity),
      (''Notice.proof'', field_cost (cx_Notice_Proof c) childComplexity)]"

definition complexity_NoticeConnection ::
  "gql_lib \<Rightarrow> NoticeConnection_complexity \<Rightarrow> int \<Rightarrow> (string \<times> json) list \<Rightarrow> (string \<times> (int \<times> bool) res) list" where
  "complexity_NoticeConnection L c childComplexity rawArgs =
     [(''NoticeConnection.edges'', field_cost (cx_NoticeConnection_Edges c) childComplexity),
      (''NoticeConnection.pageInfo'', field_cost (cx_NoticeConnection_PageInfo c) childComplexity),
      (''NoticeConnection.totalCount'', field_cost (cx_NoticeConnection_TotalCount c) childComplexity)]"

definition complexity_NoticeEdge ::
  "gql_lib \<Rightarrow> NoticeEdge_complexity \<Rightarrow> int \<Rightarrow> (string \<times> json) list \<Rightarrow> (string \<times> (int \<times> bool) res) list" where
  "complexity_NoticeEdge L c childComplexity rawArgs =
     [(''NoticeEdge.cursor'', field_cost (cx_NoticeEdge_Cursor c) childComplexity),
      (''NoticeEdge.node'', field_cost (cx_NoticeEdge_Node c) childComplexity)]"

definition complexity_PageInfo ::
  "gql_lib \<Rightarrow> PageInfo_complexity \<Rightarrow> int \<Rightarrow> (string \<times> json) list \<Rightarrow> (string \<times> (int \<times> bool) res) list" where
  "complexity_PageInfo L c childComplexity rawArgs =
     [(''PageInfo.endCursor'', field_cost (cx_PageInfo_EndCursor c) childComplexity),
      (''PageInfo.hasNextPage'', field_cost (cx_PageInfo_HasNextPage c) childComplexity),
      (''PageInfo.hasPreviousPage'', field_cost (cx_PageInfo_HasPreviousPage c) childComplexity),
      (''PageInfo.startCursor'', field_cost (cx_PageInfo_StartCursor c) childComplexity)]"

definition complexity_Proof ::
  "gql_lib \<Rightarrow> Proof_complexity \<Rightarrow> int \<Rightarrow> (string \<times> json) list \<Rightarrow> (string \<times> (int \<times> bool) res) list" where
  "complexity_Proof L c childComplexity rawArgs =
     [(''Proof.firstIndex'', field_cost (cx_Proof_FirstIndex c) childComplexity),
      (''Proof.inputByInputIndex'', field_cost (cx_Proof_InputByInputIndex c) childComplexity),
      (''Proof.inputIndex'', field_cost (cx_Proof_InputIndex c) childComplexity),
      (''Proof.lastInput'', field_cost (cx_Proof_LastInput c) childComplexity),
      (''Proof.nodeId'', field_cost (cx_Proof_NodeID c) childComplexity),
      (''Proof.outputIndex'', field_cost (cx_Proof_OutputIndex c) childComplexity),
      (''Proof.validityInputIndexWithinEpoch'', field_cost (cx_Proof_ValidityInputIndexWithinEpoch c) childComplexity),
      (''Proof.validityMachineStateHash'', field_cost (cx_Proof_ValidityMachineStateHash c) childComplexity),
      (''Proof.validityOutputEpochRootHash'', field_cost (cx_Proof_ValidityOutputEpochRootHash c) childComplexity),
      (''Proof.validityOutputHashInOutputHashesSiblings'', field_cost (cx_Proof_ValidityOutputHashInOutputHashesSiblings c) childComplexity),
      (''Proof.validityOutputHashesInEpochSiblings'', field_cost (cx_Proof_ValidityOutputHashesInEpochSiblings c) childComplexity),
      (''Proof.validityOutputHashesRootHash'', field_cost (cx_Proof_ValidityOutputHashesRootHash c) childComplexity),
      (''Proof.validityOutputIndexWithinInput'', field_cost (cx_Proof_ValidityOutputIndexWithinInput c) childComplexity)]"

definition complexity_Query ::
  "gql_lib \<Rightarrow> Query_complexity \<Rightarrow> int \<Rightarrow> (string \<times> json) list \<Rightarrow> (string \<times> (int \<times> bool) res) list" where
  "complexity_Query L c childComplexity rawArgs =
     [(''Query.input'', field_cost_args (cx_Query_Input c) (field_Query_input_args L [] rawArgs)
        (\<lambda>f a0. f childComplexity a0)),
      (''Query.inputs'', field_cost_args (cx_Query_Inputs c) (field_Query_inputs_args L [] rawArgs)
        (\<lambda>f (a0, a1, a2, a3, a4). f childComplexity a0 a1 a2 a3 a4)),
      (''Query.notice'', field_cost_args (cx_Query_Notice c) (field_Query_notice_args L [] rawArgs)
        (\<lambda>f (a0, a1). f childComplexity a0 a1)),
      (''Query.notices'', field_cost_args (cx_Query_Notices c) (field_Query_notices_args L [] rawArgs)
        (\<lambda>f (a0, a1, a2, a3). f childComplexity a0 a1 a2 a3)),
      (''Query.report'', field_cost_args (cx_Query_Report c) (field_Query_report_args L [] rawArgs)
        (\<lambda>f (a0, a1). f childComplexity a0 a1)),
      (''Query.reports'', field_cost_args (cx_Query_Reports c) (field_Query_reports_args L [] rawArgs)
        (\<lambda>f (a0, a1, a2, a3). f childComplexity a0 a1 a2 a3)),
      (''Query.voucher'', field_cost_args (cx_Query_Voucher c) (field_Query_voucher_args L [] rawArgs)
        (\<lambda>f (a0, a1). f childComplexity a0 a1)),
      (''Query.vouchers'', field_cost_args (cx_Query_Vouchers c) (field_Query_vouchers_args L [] rawArgs)
        (\<lambda>f (a0, a1, a2, a3, a4). f childComplexity a0 a1 a2 a3 a4))]"

definition complexity_Report ::
  "gql_lib \<Rightarrow> Report_complexity \<Rightarrow> int \<Rightarrow> (string \<times> json) list \<Rightarrow> (string \<times> (int \<times> bool) res) list" where
  "complexity_Report L c childComplexity rawArgs =
     [(''Report.index'', field_cost (cx_Report_Index c) childComplexity),
      (''Report.input'', field_cost (cx_Report_Input c) childComplexity),
      (''Report.payload'', field_cost (cx_Report_Payload c) childComplexity)]"

definition complexity_ReportConnection ::
  "gql_lib \<Rightarrow> ReportConnection_complexity \<Rightarrow> int \<Rightarrow> (string \<times> json) list \<Rightarrow> (string \<times> (int \<times> bool) res) list" where
  "complexity_ReportConnection L c childComplexity rawArgs =
     [(''ReportConnection.edges'', field_cost (cx_ReportConnection_Edges c) childComplexity),
      (''ReportConnection.pageInfo'', field_cost (cx_ReportConnection_PageInfo c) childComplexity),
      (''ReportConnection.totalCount'', field_cost (cx_ReportConnection_TotalCount c) childComplexity)]"

definition complexity_ReportEdge ::
  "gql_lib \<Rightarrow> ReportEdge_complexity \<Rightarrow> int \<Rightarrow> (string \<times> json) list \<Rightarrow> (string \<times> (int \<times> bool) res) list" where
  "complexity_ReportEdge L c childComplexity rawArgs =
     [(''ReportEdge.cursor'', field_cost (cx_ReportEdge_Cursor c) childComplexity),
      (''ReportEdge.node'', field_cost (cx_ReportEdge_Node c) childComplexity)]"

definition complexity_Voucher ::
  "gql_lib \<Rightarrow> Voucher_complexity \<Rightarrow> int \<Rightarrow> (string \<times> json) list \<Rightarrow> (string \<times> (int \<times> bool) res) list" where
  "complexity_Voucher L c childComplexity rawArgs =
     [(''Voucher.destination'', field_cost (cx_Voucher_Destination c) childComplexity),
      (''Voucher.executed'', field_cost (cx_Voucher_Executed c) childComplexity),
      (''Voucher.index'', field_cost (cx_Voucher_Index c) childComplexity),
      (''Voucher.input'', field_cost (cx_Voucher_Input c) childComplexity),
      (''Voucher.payload'', field_cost (cx_Voucher_Payload c) childComplexity),
      (''Voucher.proof'', field_cost (cx_Voucher_Proof c) childComplexity)]"

definition complexity_VoucherConnection ::
  "gql_lib \<Rightarrow> VoucherConnection_complexity \<Rightarrow> int \<Rightarrow> (string \<times> json) list \<Rightarrow> (string \<times> (int \<times> bool) res) list" where
  "complexity_VoucherConnection L c childComplexity rawArgs =
     [(''VoucherConnection.edges'', field_cost (cx_VoucherConnection_Edges c) childComplexity),
      (''VoucherConnection.pageInfo'', field_cost (cx_VoucherConnection_PageInfo c) childComplexity),
      (''VoucherConnection.totalCount'', field_cost (cx_VoucherConnection_TotalCount c) childComplexity)]"

definition complexity_VoucherEdge ::
  "gql_lib \<Rightarrow> VoucherEdge_complexity \<Rightarrow> int \<Rightarrow> (string \<times> json) list \<Rightarrow> (string \<times> (int \<times> bool) res) list" where
  "complexity_VoucherEdge L c childComplexity rawArgs =
     [(''VoucherEdge.cursor'', field_cost (cx_VoucherEdge_Cursor c) childComplexity),
      (''VoucherEdge.node'', field_cost (cx_VoucherEdge_Node c) childComplexity)]"

definition Complexity ::
  "gql_lib \<Rightarrow> ComplexityRoot \<Rightarrow> string \<Rightarrow> string \<Rightarrow> int \<Rightarrow> (string \<times> json) list \<Rightarrow> (int \<times> bool) res" where
  "Complexity L c typeName field childComplexity rawArgs =
     (case map_of (complexity_Input L (cx_Input c) childComplexity rawArgs @
        complexity_InputConnection L (cx_InputConnection c) childComplexity rawArgs @
        complexity_InputEdge L (cx_InputEdge c) childComplexity rawArgs @
        complexity_Notice L (cx_Notice c) childComplexity rawArgs @
        complexity_NoticeConnection L (cx_NoticeConnection c) childComplexity rawArgs @
        complexity_NoticeEdge L (cx_NoticeEdge c) childComplexity rawArgs @
        complexity_PageInfo L (cx_PageInfo c) childComplexity rawArgs @
        complexity_Proof L (cx_Proof c) childComplexity rawArgs @
        complexity_Query L (cx_Query c) childComplexity rawArgs @
        complexity_Report L (cx_Report c) childComplexity rawArgs @
        complexity_ReportConnection L (cx_ReportConnection c) childComplexity rawArgs @
        complexity_ReportEdge L (cx_ReportEdge c) childComplexity rawArgs @
        complexity_Voucher L (cx_Voucher c) childComplexity rawArgs @
        complexity_VoucherConnection L (cx_VoucherConnection c) childComplexity rawArgs @
        complexity_VoucherEdge L (cx_VoucherEdge c) childComplexity rawArgs)
        (typeName @ ''.'' @ field) of
        None \<Rightarrow> Inr (0, False) | Some r \<Rightarrow> r)"

section \<open>The schema that is served\<close>

text \<open>
  The configuration and the schema made from it, over the types of the parsed schema and of the
  resolvers; there are no directives. A configuration may bring another parsed schema.
\<close>

record ('sch, 'r) schema_config =
  sc_Schema :: "'sch option"
  sc_Resolvers :: 'r
  sc_Complexity :: ComplexityRoot

record ('sch, 'r) executableSchema =
  es_schema :: "'sch option"
  es_resolvers :: 'r
  es_complexity :: ComplexityRoot

definition NewExecutableSchema :: "('sch, 'r) schema_config \<Rightarrow> ('sch, 'r) executableSchema" where
  "NewExecutableSchema cfg = \<lparr>es_schema = sc_Schema cfg, es_resolvers = sc_Resolvers cfg,
     es_complexity = sc_Complexity cfg\<rparr>"

definition executable_Schema :: "'sch \<Rightarrow> ('sch, 'r) executableSchema \<Rightarrow> 'sch" where
  "executable_Schema parsedSchema e = (case es_schema e of Some s \<Rightarrow> s | None \<Rightarrow> parsedSchema)"

text \<open>The zero value of the functions: with it every field has the cost that the server computes by itself.\<close>

definition no_complexity :: ComplexityRoot where
  "no_complexity = \<lparr>cx_Input = \<lparr>cx_Input_BlockNumber = None, cx_Input_Index = None, cx_Input_MsgSender = None, cx_Input_Notice = None, cx_Input_Notices = None, cx_Input_Payload = None, cx_Input_Report = None, cx_Input_Reports = None, cx_Input_Status = None, cx_Input_Timestamp = None, cx_Input_Voucher = None, cx_Input_Vouchers = None\<rparr>,
     cx_InputConnection = \<lparr>cx_InputConnection_Edges = None, cx_InputConnection_PageInfo = None, cx_InputConnection_TotalCount = None\<rparr>,
     cx_InputEdge = \<lparr>cx_InputEdge_Cursor = None, cx_InputEdge_Node = None\<rparr>,
     cx_Notice = \<lparr>cx_Notice_Index = None, cx_Notice_Input = None, cx_Notice_Payload = None, cx_Notice_Proof = None\<rparr>,
     cx_NoticeConnection = \<lparr>cx_NoticeConnection_Edges = None, cx_NoticeConnection_PageInfo = None, cx_NoticeConnection_TotalCount = None\<rparr>,
     cx_NoticeEdge = \<lparr>cx_NoticeEdge_Cursor = None, cx_NoticeEdge_Node = None\<rparr>,
     cx_PageInfo = \<lparr>cx_PageInfo_EndCursor = None, cx_PageInfo_HasNextPage = None, cx_PageInfo_HasPreviousPage = None, cx_PageInfo_StartCursor = None\<rparr>,
     cx_Proof = \<lparr>cx_Proof_FirstIndex = None, cx_Proof_InputByInputIndex = None, cx_Proof_InputIndex = None, cx_Proof_LastInput = None, cx_Proof_NodeID = None, cx_Proof_OutputIndex = None, cx_Proof_ValidityInputIndexWithinEpoch = None, cx_Proof_ValidityMachineStateHash = None, cx_Proof_ValidityOutputEpochRootHash = None, cx_Proof_ValidityOutputHashInOutputHashesSiblings = None, cx_Proof_ValidityOutputHashesInEpochSiblings = None, cx_Proof_ValidityOutputHashesRootHash = None, cx_Proof_ValidityOutputIndexWithinInput = None\<rparr>,
     cx_Query = \<lparr>cx_Query_Input = None, cx_Query_Inputs = None, cx_Query_Notice = None, cx_Query_Notices = None, cx_Query_Report = None, cx_Query_Reports = None, cx_Query_Voucher = None, cx_Query_Vouchers = None\<rparr>,
     cx_Report = \<lparr>cx_Report_Index = None, cx_Report_Input = None, cx_Report_Payload = None\<rparr>,
     cx_ReportConnection = \<lparr>cx_ReportConnection_Edges = None, cx_ReportConnection_PageInfo = None, cx_ReportConnection_TotalCount = None\<rparr>,
     cx_ReportEdge = \<lparr>cx_ReportEdge_Cursor = None, cx_ReportEdge_Node = None\<rparr>,
     cx_Voucher = \<lparr>cx_Voucher_Destination = None, cx_Voucher_Executed = None, cx_Voucher_Index = None, cx_Voucher_Input = None, cx_Voucher_Payload = None, cx_Voucher_Proof = None\<rparr>,
     cx_VoucherConnection = \<lparr>cx_VoucherConnection_Edges = None, cx_VoucherConnection_PageInfo = None, cx_VoucherConnection_TotalCount = None\<rparr>,
     cx_VoucherEdge = \<lparr>cx_VoucherEdge_Cursor = None, cx_VoucherEdge_Node = None\<rparr>\<rparr>"

lemma field_cost_None [simp]: "field_cost None n = Inr (0, False)"
  by (simp add: field_cost_def)

lemma field_cost_args_None [simp]: "field_cost_args None args call = Inr (0, False)"
  by (simp add: field_cost_args_def)

definition costless :: "(string \<times> (int \<times> bool) res) list \<Rightarrow> bool" where
  "costless kvs \<longleftrightarrow> list_all (\<lambda>(_, r). r = Inr (0, False)) kvs"

lemma costless_append [simp]: "costless (kvs @ kvs') \<longleftrightarrow> costless kvs \<and> costless kvs'"
  by (simp add: costless_def)

lemma costless_lookup: "costless kvs \<Longrightarrow> map_of kvs k = Some r \<Longrightarrow> r = Inr (0, False)"
  by (auto simp: costless_def list_all_iff dest: map_of_SomeD)

lemma costless_Input: "costless (complexity_Input L (cx_Input no_complexity) n rawArgs)"
  by (simp add: costless_def complexity_Input_def no_complexity_def)

lemma costless_InputConnection: "costless (complexity_InputConnection L (cx_InputConnection no_complexity) n rawArgs)"
  by (simp add: costless_def complexity_InputConnection_def no_complexity_def)

lemma costless_InputEdge: "costless (complexity_InputEdge L (cx_InputEdge no_complexity) n rawArgs)"
  by (simp add: costless_def complexity_InputEdge_def no_complexity_def)

lemma costless_Notice: "costless (complexity_Notice L (cx_Notice no_complexity) n rawArgs)"
  by (simp add: costless_def complexity_Notice_def no_complexity_def)

lemma costless_NoticeConnection: "costless (complexity_NoticeConnection L (cx_NoticeConnection no_complexity) n rawArgs)"
  by (simp add: costless_def complexity_NoticeConnection_def no_complexity_def)

lemma costless_NoticeEdge: "costless (complexity_NoticeEdge L (cx_NoticeEdge no_complexity) n rawArgs)"
  by (simp add: costless_def complexity_NoticeEdge_def no_complexity_def)

lemma costless_PageInfo: "costless (complexity_PageInfo L (cx_PageInfo no_complexity) n rawArgs)"
  by (simp add: costless_def complexity_PageInfo_def no_complexity_def)

lemma costless_Proof: "costless (complexity_Proof L (cx_Proof no_complexity) n rawArgs)"
  by (simp add: costless_def complexity_Proof_def no_complexity_def)

lemma costless_Query: "costless (complexity_Query L (cx_Query no_complexity) n rawArgs)"
  by (simp add: costless_def complexity_Query_def no_complexity_def)

lemma costless_Report: "costless (complexity_Report L (cx_Report no_complexity) n rawArgs)"
  by (simp add: costless_def complexity_Report_def no_complexity_def)

lemma costless_ReportConnection: "costless (complexity_ReportConnection L (cx_ReportConnection no_complexity) n rawArgs)"
  by (simp add: costless_def complexity_ReportConnection_def no_complexity_def)

lemma costless_ReportEdge: "costless (complexity_ReportEdge L (cx_ReportEdge no_complexity) n rawArgs)"
  by (simp add: costless_def complexity_ReportEdge_def no_complexity_def)

lemma costless_Voucher: "costless (complexity_Voucher L (cx_Voucher no_complexity) n rawArgs)"
  by (simp add: costless_def complexity_Voucher_def no_complexity_def)

lemma costless_VoucherConnection: "costless (complexity_VoucherConnection L (cx_VoucherConnection no_complexity) n rawArgs)"
  by (simp add: costless_def complexity_VoucherConnection_def no_complexity_def)

lemma costless_VoucherEdge: "costless (complexity_VoucherEdge L (cx_VoucherEdge no_complexity) n rawArgs)"
  by (simp add: costless_def complexity_VoucherEdge_def no_complexity_def)

lemmas costless_fields = costless_Input costless_InputConnection costless_InputEdge costless_Notice costless_NoticeConnection costless_NoticeEdge costless_PageInfo costless_Proof costless_Query costless_Report costless_ReportConnection costless_ReportEdge costless_Voucher costless_VoucherConnection costless_VoucherEdge

lemma no_complexity_costs: "Complexity L no_complexity typeName field n rawArgs = Inr (0, False)"
  by (auto simp: Complexity_def costless_fields split: option.split dest!: costless_lookup [rotated])

end
