(* ===== verification/ContractRuntime.thy ===== *)
theory ContractRuntime
  imports DataAvailability Inputter
begin

text \<open>
  What the contract bindings share (\<open>internal/contracts\<close> and \<open>internal/dataavailability/contracts\<close>,
  generated by \<open>abigen\<close>): the values that are boxed for the ABI coder, the bound contract of
  go-ethereum's \<open>bind\<close> package as a record of its operations, and the three bodies that are the
  same for every event of every contract: advancing an iterator, forwarding the logs of a
  subscription, parsing one log. The theories of the contracts instantiate them.

  What a \<open>select\<close> finds is a schedule: a list of what arrives, in the order in which it is chosen.
\<close>

section \<open>Boxed values\<close>

text \<open>
  The dynamic types that the bindings box into \<open>interface{}\<close> and take out of it. \<open>[N]byte\<close> is
  \<open>AArray\<close>, \<open>[]byte\<close> is \<open>ABytes\<close>; a struct is the list of its fields.
\<close>

datatype go_any =
    AAddress address
  | ABig int
  | AUint64 u64
  | AUint8 byte
  | ABool bool
  | AString string
  | ABytes bytes
  | AArray bytes
  | AList "go_any list"
  | AStruct "go_any list"

datatype go_type = TAddress | TBig | TUint64 | TUint8 | TBool | TString | TArray nat

fun as_address :: "go_any \<Rightarrow> address option" where
  "as_address (AAddress a) = Some a" | "as_address _ = None"

fun as_big :: "go_any \<Rightarrow> int option" where
  "as_big (ABig i) = Some i" | "as_big _ = None"

fun as_uint64 :: "go_any \<Rightarrow> u64 option" where
  "as_uint64 (AUint64 w) = Some w" | "as_uint64 _ = None"

fun as_uint8 :: "go_any \<Rightarrow> byte option" where
  "as_uint8 (AUint8 w) = Some w" | "as_uint8 _ = None"

fun as_bool :: "go_any \<Rightarrow> bool option" where
  "as_bool (ABool b) = Some b" | "as_bool _ = None"

fun as_string :: "go_any \<Rightarrow> string option" where
  "as_string (AString s) = Some s" | "as_string _ = None"

fun as_bytes :: "go_any \<Rightarrow> bytes option" where
  "as_bytes (ABytes b) = Some b" | "as_bytes _ = None"

fun as_array :: "go_any \<Rightarrow> bytes option" where
  "as_array (AArray b) = Some b" | "as_array _ = None"

definition any_Namespace :: "Namespace \<Rightarrow> go_any" where
  "any_Namespace n = AStruct [AArray [ns_Version n], AArray (ns_Id n)]"

definition any_NamespaceNode :: "NamespaceNode \<Rightarrow> go_any" where
  "any_NamespaceNode n =
     AStruct [any_Namespace (nn_Min n), any_Namespace (nn_Max n), AArray (nn_Digest n)]"

definition any_NamespaceMerkleMultiproof :: "NamespaceMerkleMultiproof \<Rightarrow> go_any" where
  "any_NamespaceMerkleMultiproof p = AStruct [ABig (np_BeginKey p), ABig (np_EndKey p),
     AList (map any_NamespaceNode (np_SideNodes p))]"

definition any_BinaryMerkleProof :: "BinaryMerkleProof \<Rightarrow> go_any" where
  "any_BinaryMerkleProof p =
     AStruct [AList (map AArray (bp_SideNodes p)), ABig (bp_Key p), ABig (bp_NumLeaves p)]"

definition any_DataRootTuple :: "DataRootTuple \<Rightarrow> go_any" where
  "any_DataRootTuple t = AStruct [ABig (dr_Height t), AArray (dr_DataRoot t)]"

definition any_AttestationProof :: "AttestationProof \<Rightarrow> go_any" where
  "any_AttestationProof p = AStruct [ABig (ap_TupleRootNonce p), any_DataRootTuple (ap_Tuple p),
     any_BinaryMerkleProof (ap_Proof p)]"

definition any_ShareDigestsProof :: "ShareDigestsProof \<Rightarrow> go_any" where
  "any_ShareDigestsProof p = AStruct [AList (map AArray (sd_Digests p)),
     AList (map any_NamespaceMerkleMultiproof (sd_ShareProofs p)), any_Namespace (sd_Namespace p),
     AList (map any_NamespaceNode (sd_RowRoots p)), AList (map any_BinaryMerkleProof (sd_RowProofs p)),
     any_AttestationProof (sd_AttestationProof p)]"

section \<open>The bound contract\<close>

text \<open>The structs of go-ethereum that the bindings hand on; a context is left out of the options.\<close>

record types_Log = EthLog +
  lg_Address :: address
  lg_Topics :: "bytes list"
  lg_TxHash :: bytes
  lg_TxIndex :: u64
  lg_Index :: u64
  lg_Removed :: bool

record FilterOpts =
  fo_Start :: u64
  fo_End :: "u64 option"

record WatchOpts =
  wo_Start :: "u64 option"

text \<open>What a \<open>select\<close> over a channel of logs and the end of its subscription finds.\<close>

datatype arrival = Arrived types_Log | Ended "err option"

text \<open>
  A turn of the loop of a subscription: a log, with what the second \<open>select\<close> finds (the sink took
  the event, or the subscription ended, or the reader quit), or one of the other two cases.
\<close>

datatype sink_turn = Sunk | SinkEnded "err option" | SinkQuit

datatype watch_turn = WatchLog types_Log sink_turn | WatchEnded "err option" | WatchQuit

text \<open>
  \<open>bind.BoundContract\<close>, and \<open>abi.ConvertType\<close>. \<open>'c\<close> and \<open>'t\<close> are the options of calls and
  transactions, \<open>'x\<close> the transactions, \<open>'w\<close> the node that takes them. \<open>bc_UnpackLog\<close> gives the
  values that it stores in the fields of the event's struct, in their order.
\<close>

record ('w, 'c, 't, 'x) bound_contract =
  bc_Call :: "'c \<Rightarrow> go_any list \<Rightarrow> string \<Rightarrow> go_any list \<Rightarrow> go_any list res"
  bc_Transact :: "'t \<Rightarrow> string \<Rightarrow> go_any list \<Rightarrow> ('w, 'x) comp"
  bc_RawTransact :: "'t \<Rightarrow> bytes \<Rightarrow> ('w, 'x) comp"
  bc_Transfer :: "'t \<Rightarrow> ('w, 'x) comp"
  bc_FilterLogs :: "FilterOpts \<Rightarrow> string \<Rightarrow> go_any list list \<Rightarrow> arrival list res"
  bc_WatchLogs :: "WatchOpts \<Rightarrow> string \<Rightarrow> go_any list list \<Rightarrow> watch_turn list res"
  bc_UnpackLog :: "string \<Rightarrow> types_Log \<Rightarrow> go_any list res"
  bc_ConvertType :: "go_any \<Rightarrow> go_type \<Rightarrow> go_any res"

text \<open>
  The function of \<open>bind\<close> that makes one, and the parsed ABI, which may be nil. The three backends
  may be nil too.
\<close>

record ('k, 'abi, 'b) bind_lib =
  bl_GetAbi :: "'abi option res"
  bl_NewBoundContract :: "address \<Rightarrow> 'abi \<Rightarrow> 'k option \<Rightarrow> 'k option \<Rightarrow> 'k option \<Rightarrow> 'b"

definition bind_contract ::
  "('k, 'abi, 'b) bind_lib \<Rightarrow> address \<Rightarrow> 'k option \<Rightarrow> 'k option \<Rightarrow> 'k option \<Rightarrow> 'b res" where
  "bind_contract L addr caller transactor filterer = (case bl_GetAbi L of
       Inl err \<Rightarrow> Inl err
     | Inr None \<Rightarrow> Inl (EPanic ''nil pointer dereference'')
     | Inr (Some parsed) \<Rightarrow> Inr (bl_NewBoundContract L addr parsed caller transactor filterer))"

text \<open>
  \<open>*abi.ConvertType(out[i], new(T)).(*T)\<close>: the index and the type assertion panic.
\<close>

definition out_value ::
  "('w, 'c, 't, 'x) bound_contract \<Rightarrow> go_any list \<Rightarrow> nat \<Rightarrow> go_type \<Rightarrow> (go_any \<Rightarrow> 'a option) \<Rightarrow> 'a res" where
  "out_value C out i t as =
     (if i < length out then rbind (bc_ConvertType C (out ! i) t) (\<lambda>v. case as v of
          None \<Rightarrow> Inl (EPanic ''interface conversion'') | Some a \<Rightarrow> Inr a)
      else Inl (EPanic ''index out of range''))"

text \<open>The value of a field of an event, as the decoder stores it.\<close>

definition event_field :: "go_any list \<Rightarrow> nat \<Rightarrow> (go_any \<Rightarrow> 'a option) \<Rightarrow> 'a res" where
  "event_field vs i as = (if i < length vs then (case as (vs ! i) of
       None \<Rightarrow> Inl (EExt ''abi: cannot unmarshal'') | Some a \<Rightarrow> Inr a)
     else Inl (EExt ''abi: cannot unmarshal''))"

section \<open>Iterators over events\<close>

text \<open>
  The struct of an iterator, without its contract: the channel of the logs and the subscription are
  the schedule of what still arrives. A struct that could not be filled is not kept as the event.
\<close>

record 'e log_iterator =
  li_Event :: "'e option"
  li_event :: string
  li_arrivals :: "arrival list"
  li_unsubscribed :: bool
  li_done :: bool
  li_fail :: "err option"

type_synonym 'e unpack = "string \<Rightarrow> types_Log \<Rightarrow> 'e res"

definition new_iterator :: "string \<Rightarrow> arrival list \<Rightarrow> 'e log_iterator" where
  "new_iterator event logs = \<lparr>li_Event = None, li_event = event, li_arrivals = logs,
     li_unsubscribed = False, li_done = False, li_fail = None\<rparr>"

definition deliver_log :: "'e unpack \<Rightarrow> types_Log \<Rightarrow> 'e log_iterator \<Rightarrow> bool \<times> 'e log_iterator" where
  "deliver_log unpack log it = (case unpack (li_event it) log of
       Inl err \<Rightarrow> (False, it\<lparr>li_Event := None, li_fail := Some err\<rparr>)
     | Inr event \<Rightarrow> (True, it\<lparr>li_Event := Some event\<rparr>))"

text \<open>
  \<open>Next\<close>. An iterator that is done takes what is left in the channel and does not wait; otherwise it
  waits for a log or for the end of the subscription, after which it is called again. \<open>None\<close> is a
  wait that does not end.
\<close>

function iterator_Next :: "'e unpack \<Rightarrow> 'e log_iterator \<Rightarrow> (bool \<times> 'e log_iterator) option" where
  "iterator_Next unpack it =
     (if li_fail it \<noteq> None then Some (False, it)
      else if li_done it then (case li_arrivals it of
          Arrived log # rest \<Rightarrow> Some (deliver_log unpack log (it\<lparr>li_arrivals := rest\<rparr>))
        | _ \<Rightarrow> Some (False, it))
      else (case li_arrivals it of
          [] \<Rightarrow> None
        | Arrived log # rest \<Rightarrow> Some (deliver_log unpack log (it\<lparr>li_arrivals := rest\<rparr>))
        | Ended err # rest \<Rightarrow> iterator_Next unpack (it\<lparr>li_arrivals := rest, li_done := True, li_fail := err\<rparr>)))"
  by pat_completeness auto
termination by (relation "measure (\<lambda>(_, it). length (li_arrivals it))") auto

declare iterator_Next.simps [simp del]

definition iterator_Error :: "'e log_iterator \<Rightarrow> err option" where
  "iterator_Error it = li_fail it"

definition iterator_Close :: "'e log_iterator \<Rightarrow> unit res \<times> 'e log_iterator" where
  "iterator_Close it = (Inr (), it\<lparr>li_unsubscribed := True\<rparr>)"

lemma deliver_log_arrivals: "li_arrivals (snd (deliver_log unpack log it)) = li_arrivals it"
  by (simp add: deliver_log_def split: sum.split)

lemma iterator_Next_failed: "li_fail it \<noteq> None \<Longrightarrow> iterator_Next unpack it = Some (False, it)"
  by (subst iterator_Next.simps) simp

lemma iterator_Next_done:
  "li_fail it = None \<Longrightarrow> li_done it \<Longrightarrow> iterator_Next unpack it = Some (case li_arrivals it of
     Arrived log # rest \<Rightarrow> deliver_log unpack log (it\<lparr>li_arrivals := rest\<rparr>) | _ \<Rightarrow> (False, it))"
  by (subst iterator_Next.simps) (simp split: list.split arrival.split)

lemma iterator_Next_waiting:
  assumes "li_fail it = None" and "\<not> li_done it"
  shows "li_arrivals it = [] \<Longrightarrow> iterator_Next unpack it = None"
    and "li_arrivals it = Arrived log # rest \<Longrightarrow>
      iterator_Next unpack it = Some (deliver_log unpack log (it\<lparr>li_arrivals := rest\<rparr>))"
    and "li_arrivals it = Ended err # rest \<Longrightarrow>
      iterator_Next unpack it = iterator_Next unpack (it\<lparr>li_arrivals := rest, li_done := True, li_fail := err\<rparr>)"
  using assms by (subst iterator_Next.simps; simp)+

lemmas iterator_Next_cases = iterator_Next_failed iterator_Next_done iterator_Next_waiting

lemma iterator_Next_shorter_done:
  "li_done it \<Longrightarrow> iterator_Next unpack it = Some (True, it') \<Longrightarrow>
     length (li_arrivals it') < length (li_arrivals it)"
  by (cases "li_fail it") (auto simp: iterator_Next_cases deliver_log_def
    split: list.splits arrival.splits sum.splits)

lemma iterator_Next_shorter:
  assumes next': "iterator_Next unpack it = Some (True, it')"
  shows "length (li_arrivals it') < length (li_arrivals it)"
proof (cases "li_done it")
  case True with next' show ?thesis by (rule iterator_Next_shorter_done [rotated])
next
  case waiting: False
  show ?thesis
  proof (cases "li_fail it")
    case (Some e) with next' show ?thesis by (simp add: iterator_Next_cases)
  next
    case None
    note wait = iterator_Next_waiting [OF None waiting]
    show ?thesis
    proof (cases "li_arrivals it")
      case Nil with next' show ?thesis by (simp add: wait)
    next
      case (Cons a rest)
      show ?thesis
      proof (cases a)
        case (Arrived log)
        with next' Cons deliver_log_arrivals [of unpack log "it\<lparr>li_arrivals := rest\<rparr>"] show ?thesis
          by (simp add: wait)
      next
        case (Ended err)
        with next' Cons have "iterator_Next unpack (it\<lparr>li_arrivals := rest, li_done := True, li_fail := err\<rparr>) = Some (True, it')"
          by (simp add: wait)
        from iterator_Next_shorter_done [OF _ this] Cons show ?thesis by simp
      qed
    qed
  qed
qed

section \<open>Loops over an iterator\<close>

text \<open>
  \<open>for it.Next() { body(it.Event) }\<close>, where the body may return an error or a value. The result is
  that of the loop, the state and the iterator as the loop leaves it.
\<close>

function for_Next ::
  "'e unpack \<Rightarrow> ('e \<Rightarrow> ('s, 'r option) comp) \<Rightarrow> 'e log_iterator \<Rightarrow> 's \<Rightarrow>
   ('r option res \<times> 's \<times> 'e log_iterator) option" where
  "for_Next unpack body it s = (case iterator_Next unpack it of
       None \<Rightarrow> None
     | Some (False, it') \<Rightarrow> Some (Inr None, s, it')
     | Some (True, it') \<Rightarrow> (case li_Event it' of
         None \<Rightarrow> Some (Inl (EPanic ''nil pointer dereference''), s, it')
       | Some event \<Rightarrow> (case body event s of
           (Inl err, s') \<Rightarrow> Some (Inl err, s', it')
         | (Inr (Some r), s') \<Rightarrow> Some (Inr (Some r), s', it')
         | (Inr None, s') \<Rightarrow> for_Next unpack body it' s')))"
  by pat_completeness auto
termination
  by (relation "measure (\<lambda>(_, _, it, _). length (li_arrivals it))") (auto dest: iterator_Next_shorter)

declare for_Next.simps [simp del]

text \<open>The same loop over a list.\<close>

fun for_list :: "('e \<Rightarrow> ('s, 'r option) comp) \<Rightarrow> 'e list \<Rightarrow> ('s, 'r option) comp" where
  "for_list body [] s = (Inr None, s)"
| "for_list body (event # es) s = (case body event s of
     (Inl err, s') \<Rightarrow> (Inl err, s')
   | (Inr (Some r), s') \<Rightarrow> (Inr (Some r), s')
   | (Inr None, s') \<Rightarrow> for_list body es s')"

text \<open>All the events that an iterator delivers, and the iterator at the end of the loop.\<close>

definition iterator_events :: "'e unpack \<Rightarrow> 'e log_iterator \<Rightarrow> ('e list \<times> 'e log_iterator) option" where
  "iterator_events unpack it = map_option (\<lambda>(_, es, it'). (es, it'))
     (for_Next unpack (\<lambda>event es. (Inr (None :: unit option), es @ [event])) it [])"

section \<open>Subscriptions\<close>

text \<open>
  The goroutine of a subscription: the events that the sink took and, when it has returned, the
  error that it returned, if any.
\<close>

fun watch_logs :: "(types_Log \<Rightarrow> 'e res) \<Rightarrow> watch_turn list \<Rightarrow> 'e list \<times> err option option" where
  "watch_logs unpack [] = ([], None)"
| "watch_logs unpack (WatchLog log turn # turns) = (case unpack log of
     Inl err \<Rightarrow> ([], Some (Some err))
   | Inr event \<Rightarrow> (case turn of
       Sunk \<Rightarrow> (case watch_logs unpack turns of (events, ending) \<Rightarrow> (event # events, ending))
     | SinkEnded err \<Rightarrow> ([], Some err)
     | SinkQuit \<Rightarrow> ([], Some None)))"
| "watch_logs unpack (WatchEnded err # _) = ([], Some err)"
| "watch_logs unpack (WatchQuit # _) = ([], Some None)"

section \<open>What an iteration delivers\<close>

text \<open>
  The reference: the logs up to the end of the subscription and, when it ended without an error,
  those that were still in the channel; unpacked, up to the first that cannot be.
\<close>

fun unpack_all :: "(types_Log \<Rightarrow> 'e res) \<Rightarrow> types_Log list \<Rightarrow> 'e list \<times> err option" where
  "unpack_all unpack [] = ([], None)"
| "unpack_all unpack (log # logs) = (case unpack log of
     Inl err \<Rightarrow> ([], Some err)
   | Inr event \<Rightarrow> (case unpack_all unpack logs of (events, err) \<Rightarrow> (event # events, err)))"

lemma unpack_all_append:
  "unpack_all unpack (xs @ ys) = (case unpack_all unpack xs of
     (events, Some err) \<Rightarrow> (events, Some err)
   | (events, None) \<Rightarrow> (case unpack_all unpack ys of (events', err) \<Rightarrow> (events @ events', err)))"
  by (induction xs) (auto split: sum.split prod.split option.split)

lemma unpack_all_ok: "rmap unpack logs = Inr events \<Longrightarrow> unpack_all unpack logs = (events, None)"
  by (induction logs arbitrary: events) (auto simp: rbind_Inr_iff)

text \<open>The logs at the head of a schedule: what is in the channel when the subscription has ended.\<close>

fun channel_logs :: "arrival list \<Rightarrow> types_Log list" where
  "channel_logs (Arrived log # as) = log # channel_logs as"
| "channel_logs (Ended e # as) = []"
| "channel_logs [] = []"

fun iteration :: "(types_Log \<Rightarrow> 'e res) \<Rightarrow> arrival list \<Rightarrow> ('e list \<times> err option) option" where
  "iteration unpack [] = None"
| "iteration unpack (Arrived log # as) = (case unpack log of
     Inl err \<Rightarrow> Some ([], Some err)
   | Inr event \<Rightarrow> map_option (\<lambda>(events, err). (event # events, err)) (iteration unpack as))"
| "iteration unpack (Ended (Some err) # _) = Some ([], Some err)"
| "iteration unpack (Ended None # as) = Some (unpack_all unpack (channel_logs as))"

lemma channel_logs_map [simp]: "channel_logs (map Arrived logs) = logs"
  by (induction logs) auto

lemma iteration_logs:
  "iteration unpack (map Arrived logs @ Ended err # as) = (case unpack_all unpack logs of
     (events, Some e) \<Rightarrow> Some (events, Some e)
   | (events, None) \<Rightarrow> (case err of
       Some e \<Rightarrow> Some (events, Some e)
     | None \<Rightarrow> Some (case unpack_all unpack (channel_logs as) of (events', e) \<Rightarrow> (events @ events', e))))"
  by (induction logs) (auto split: sum.split prod.split option.split)

lemma iteration_broken:
  "rmap unpack logs = Inr events \<Longrightarrow> iteration unpack (map Arrived logs @ Ended (Some err) # lost) = Some (events, Some err)"
  by (simp add: iteration_logs unpack_all_ok)

lemma iteration_delivers:
  assumes "rmap unpack (logs @ (if ending = None then channel_logs buffered else [])) = Inr events"
  shows "iteration unpack (map Arrived logs @ Ended ending # buffered) = Some (events, ending)"
  using unpack_all_ok [OF assms]
  by (cases ending) (auto simp: iteration_logs unpack_all_append split: prod.splits option.splits)

text \<open>
  The loop over an iterator does what the loop over the delivered events does, and leaves their
  error in the iterator when it runs to its end.
\<close>

definition loop_matches ::
  "('r option res \<times> 's \<times> 'e log_iterator) option \<Rightarrow> ('e \<Rightarrow> ('s, 'r option) comp) \<Rightarrow> 'e list \<Rightarrow>
   err option \<Rightarrow> 's \<Rightarrow> bool" where
  "loop_matches R body events err s \<longleftrightarrow> (\<exists>it'. R = Some (fst (for_list body events s), snd (for_list body events s), it') \<and>
     (fst (for_list body events s) = Inr None \<longrightarrow> li_fail it' = err))"

lemma loop_stops:
  "iterator_Next unpack it = Some (False, it') \<Longrightarrow> li_fail it' = err \<Longrightarrow>
     loop_matches (for_Next unpack body it s) body [] err s"
  by (subst for_Next.simps) (simp add: loop_matches_def)

lemma loop_steps:
  assumes "iterator_Next unpack it = Some (True, it')" and "li_Event it' = Some event"
    and "\<And>s'. loop_matches (for_Next unpack body it' s') body events err s'"
  shows "loop_matches (for_Next unpack body it s) body (event # events) err s"
  using assms by (subst for_Next.simps)
    (auto simp: loop_matches_def split: prod.splits sum.splits option.splits)

lemma for_Next_cong:
  "iterator_Next unpack it = iterator_Next unpack it' \<Longrightarrow> for_Next unpack body it s = for_Next unpack body it' s"
  by (subst (1 2) for_Next.simps) simp

lemma loop_over_channel:
  assumes "li_done it" and "li_fail it = None"
    and "unpack_all (unpack (li_event it)) (channel_logs (li_arrivals it)) = (events, err)"
  shows "loop_matches (for_Next unpack body it s) body events err s"
  using assms
proof (induction "li_arrivals it" arbitrary: it events s rule: channel_logs.induct)
  case (1 log as)
  note arrivals = 1(2) [symmetric]
  have next': "iterator_Next unpack it = Some (deliver_log unpack log (it\<lparr>li_arrivals := as\<rparr>))"
    using 1(3,4) arrivals by (simp add: iterator_Next_done)
  show ?case
  proof (cases "unpack (li_event it) log")
    case (Inl e)
    with 1(5) arrivals have "events = []" "err = Some e" by simp_all
    with next' Inl show ?thesis by (auto simp: deliver_log_def intro: loop_stops)
  next
    case (Inr event)
    with 1(5) arrivals obtain es where es: "events = event # es"
      "unpack_all (unpack (li_event it)) (channel_logs as) = (es, err)"
      by (auto split: prod.splits)
    let ?it = "it\<lparr>li_arrivals := as, li_Event := Some event\<rparr>"
    have "\<And>s'. loop_matches (for_Next unpack body ?it s') body es err s'"
      using 1(3,4) es by (intro 1(1)) simp_all
    moreover have "iterator_Next unpack it = Some (True, ?it)"
      using next' Inr by (simp add: deliver_log_def)
    moreover have "li_Event ?it = Some event" by simp
    ultimately show ?thesis unfolding es by (blast intro: loop_steps)
  qed
next
  case (2 e as)
  from 2(1) [symmetric] 2(2-) show ?case by (auto simp: iterator_Next_done intro!: loop_stops)
next
  case 3
  then show ?case by (auto simp: iterator_Next_done intro!: loop_stops)
qed

theorem loop_over_iterator:
  assumes "\<not> li_done it" and "li_fail it = None"
    and "iteration (unpack (li_event it)) (li_arrivals it) = Some (events, err)"
  shows "loop_matches (for_Next unpack body it s) body events err s"
  using assms
proof (induction "li_arrivals it" arbitrary: it events s rule: channel_logs.induct)
  case (1 log as)
  note arrivals = 1(2) [symmetric]
  have next': "iterator_Next unpack it = Some (deliver_log unpack log (it\<lparr>li_arrivals := as\<rparr>))"
    using 1(3,4) arrivals by (simp add: iterator_Next_waiting)
  show ?case
  proof (cases "unpack (li_event it) log")
    case (Inl e)
    with 1(5) arrivals have "events = []" "err = Some e" by simp_all
    with next' Inl show ?thesis by (auto simp: deliver_log_def intro: loop_stops)
  next
    case (Inr event)
    with 1(5) arrivals obtain es where es: "events = event # es"
      "iteration (unpack (li_event it)) as = Some (es, err)" by auto
    let ?it = "it\<lparr>li_arrivals := as, li_Event := Some event\<rparr>"
    have "\<And>s'. loop_matches (for_Next unpack body ?it s') body es err s'"
      using 1(3,4) es by (intro 1(1)) simp_all
    moreover have "iterator_Next unpack it = Some (True, ?it)"
      using next' Inr by (simp add: deliver_log_def)
    moreover have "li_Event ?it = Some event" by simp
    ultimately show ?thesis unfolding es by (blast intro: loop_steps)
  qed
next
  case (2 e as)
  note arrivals = 2(1) [symmetric]
  let ?it = "it\<lparr>li_arrivals := as, li_done := True, li_fail := e\<rparr>"
  have next': "iterator_Next unpack it = iterator_Next unpack ?it"
    using 2(2,3) arrivals by (simp add: iterator_Next_waiting)
  show ?case
  proof (cases e)
    case None
    with 2(4) arrivals have "unpack_all (unpack (li_event ?it)) (channel_logs (li_arrivals ?it)) = (events, err)" by simp
    with None show ?thesis unfolding for_Next_cong [OF next'] by (intro loop_over_channel) simp_all
  next
    case (Some e')
    with 2(4) arrivals have "events = []" "err = Some e'" by simp_all
    with Some next' show ?thesis by (auto simp: iterator_Next_failed intro!: loop_stops)
  qed
next
  case 3
  then show ?case by simp
qed

lemma iterator_loop:
  assumes "iteration (unpack event) logs = Some (events, err)"
  obtains it' where "for_Next unpack body (new_iterator event logs) s =
      Some (fst (for_list body events s), snd (for_list body events s), it')"
    and "fst (for_list body events s) = Inr None \<Longrightarrow> li_fail it' = err"
  using loop_over_iterator [where it = "new_iterator event logs" and unpack = unpack and events = events and
      err = err and body = body and s = s] assms
  by (auto simp: loop_matches_def new_iterator_def)

lemma for_list_collects:
  "for_list (\<lambda>event es. (Inr (None :: unit option), es @ [event])) events es = (Inr None, es @ events)"
  by (induction events arbitrary: es) auto

lemma iterator_events_eq:
  assumes "iteration (unpack event) logs = Some (events, err)"
  shows "\<exists>it'. iterator_events unpack (new_iterator event logs) = Some (events, it') \<and> iterator_Error it' = err"
proof -
  obtain it' where "for_Next unpack (\<lambda>event es. (Inr (None :: unit option), es @ [event])) (new_iterator event logs) [] =
      Some (Inr None, events, it')" and "li_fail it' = err"
    using iterator_loop [where body = "\<lambda>event es. (Inr (None :: unit option), es @ [event])" and s = "[]"
        and unpack = unpack and event = event and logs = logs and events = events and err = err] assms
    by (auto simp: for_list_collects)
  then show ?thesis by (simp add: iterator_events_def iterator_Error_def)
qed

end
