(* ===== verification/BindInputBox.thy ===== *)
theory BindInputBox
  imports ContractRuntime
begin

text \<open>
  \<open>internal/contracts/input_box.go\<close>: the generated binding of the input box. Every method is the
  call of its bound contract with its arguments boxed; every event has the iterator, the subscription
  and the parser of \<open>ContractRuntime\<close> with its own unpacking.
\<close>

section \<open>The structs of the binding\<close>

record 'b InputBoxCaller =
  InputBoxCaller_contract :: 'b

record 'b InputBoxTransactor =
  InputBoxTransactor_contract :: 'b

record 'b InputBoxFilterer =
  InputBoxFilterer_contract :: 'b

record 'b InputBox =
  InputBox_Caller :: "'b InputBoxCaller"
  InputBox_Transactor :: "'b InputBoxTransactor"
  InputBox_Filterer :: "'b InputBoxFilterer"

record ('b, 'c, 't) InputBoxSession =
  InputBoxSession_Contract :: "'b InputBox"
  InputBoxSession_CallOpts :: 'c
  InputBoxSession_TransactOpts :: 't

record ('b, 'c) InputBoxCallerSession =
  InputBoxCallerSession_Contract :: "'b InputBoxCaller"
  InputBoxCallerSession_CallOpts :: 'c

record ('b, 't) InputBoxTransactorSession =
  InputBoxTransactorSession_Contract :: "'b InputBoxTransactor"
  InputBoxTransactorSession_TransactOpts :: 't

record 'b InputBoxRaw =
  InputBoxRaw_Contract :: "'b InputBox"

record 'b InputBoxCallerRaw =
  InputBoxCallerRaw_Contract :: "'b InputBoxCaller"

record 'b InputBoxTransactorRaw =
  InputBoxTransactorRaw_Contract :: "'b InputBoxTransactor"

section \<open>Making one\<close>

definition bindInputBox ::
  "('k, 'abi, 'b) bind_lib \<Rightarrow> address \<Rightarrow> 'k option \<Rightarrow> 'k option \<Rightarrow> 'k option \<Rightarrow> 'b res" where
  "bindInputBox = bind_contract"

definition of_contract_InputBox :: "'b \<Rightarrow> 'b InputBox" where
  "of_contract_InputBox contract = \<lparr>InputBox_Caller = \<lparr>InputBoxCaller_contract = contract\<rparr>,
     InputBox_Transactor = \<lparr>InputBoxTransactor_contract = contract\<rparr>, InputBox_Filterer = \<lparr>InputBoxFilterer_contract = contract\<rparr>\<rparr>"

definition NewInputBox :: "('k, 'abi, 'b) bind_lib \<Rightarrow> address \<Rightarrow> 'k \<Rightarrow> 'b InputBox res" where
  "NewInputBox L addr backend =
     rbind (bindInputBox L addr (Some backend) (Some backend) (Some backend)) (\<lambda>contract.
     Inr (of_contract_InputBox contract))"

definition NewInputBoxCaller :: "('k, 'abi, 'b) bind_lib \<Rightarrow> address \<Rightarrow> 'k \<Rightarrow> 'b InputBoxCaller res" where
  "NewInputBoxCaller L addr caller = rbind (bindInputBox L addr (Some caller) None None) (\<lambda>contract.
     Inr \<lparr>InputBoxCaller_contract = contract\<rparr>)"

definition NewInputBoxTransactor :: "('k, 'abi, 'b) bind_lib \<Rightarrow> address \<Rightarrow> 'k \<Rightarrow> 'b InputBoxTransactor res" where
  "NewInputBoxTransactor L addr transactor = rbind (bindInputBox L addr None (Some transactor) None) (\<lambda>contract.
     Inr \<lparr>InputBoxTransactor_contract = contract\<rparr>)"

definition NewInputBoxFilterer :: "('k, 'abi, 'b) bind_lib \<Rightarrow> address \<Rightarrow> 'k \<Rightarrow> 'b InputBoxFilterer res" where
  "NewInputBoxFilterer L addr filterer = rbind (bindInputBox L addr None None (Some filterer)) (\<lambda>contract.
     Inr \<lparr>InputBoxFilterer_contract = contract\<rparr>)"

section \<open>Calls by name\<close>

definition InputBoxRaw_Call ::
  "('w, 'c, 't, 'x) bound_contract InputBoxRaw \<Rightarrow> 'c \<Rightarrow> go_any list \<Rightarrow> string \<Rightarrow> go_any list \<Rightarrow> go_any list res" where
  "InputBoxRaw_Call c opts result method params = bc_Call (InputBoxCaller_contract (InputBox_Caller (InputBoxRaw_Contract c))) opts result method params"

definition InputBoxRaw_Transfer :: "('w, 'c, 't, 'x) bound_contract InputBoxRaw \<Rightarrow> 't \<Rightarrow> ('w, 'x) comp" where
  "InputBoxRaw_Transfer c opts = bc_Transfer (InputBoxTransactor_contract (InputBox_Transactor (InputBoxRaw_Contract c))) opts"

definition InputBoxRaw_Transact ::
  "('w, 'c, 't, 'x) bound_contract InputBoxRaw \<Rightarrow> 't \<Rightarrow> string \<Rightarrow> go_any list \<Rightarrow> ('w, 'x) comp" where
  "InputBoxRaw_Transact c opts method params = bc_Transact (InputBoxTransactor_contract (InputBox_Transactor (InputBoxRaw_Contract c))) opts method params"

definition InputBoxCallerRaw_Call ::
  "('w, 'c, 't, 'x) bound_contract InputBoxCallerRaw \<Rightarrow> 'c \<Rightarrow> go_any list \<Rightarrow> string \<Rightarrow> go_any list \<Rightarrow> go_any list res" where
  "InputBoxCallerRaw_Call c opts result method params = bc_Call (InputBoxCaller_contract (InputBoxCallerRaw_Contract c)) opts result method params"

definition InputBoxTransactorRaw_Transfer :: "('w, 'c, 't, 'x) bound_contract InputBoxTransactorRaw \<Rightarrow> 't \<Rightarrow> ('w, 'x) comp" where
  "InputBoxTransactorRaw_Transfer c opts = bc_Transfer (InputBoxTransactor_contract (InputBoxTransactorRaw_Contract c)) opts"

definition InputBoxTransactorRaw_Transact ::
  "('w, 'c, 't, 'x) bound_contract InputBoxTransactorRaw \<Rightarrow> 't \<Rightarrow> string \<Rightarrow> go_any list \<Rightarrow> ('w, 'x) comp" where
  "InputBoxTransactorRaw_Transact c opts method params = bc_Transact (InputBoxTransactor_contract (InputBoxTransactorRaw_Contract c)) opts method params"

section \<open>Reading methods\<close>

definition InputBoxCaller_GetInputHash ::
  "('w, 'c, 't, 'x) bound_contract InputBoxCaller \<Rightarrow> 'c \<Rightarrow> address \<Rightarrow> int \<Rightarrow> bytes res" where
  "InputBoxCaller_GetInputHash c opts appContract index' =
     rbind (bc_Call (InputBoxCaller_contract c) opts [] ''getInputHash'' [AAddress appContract, ABig index']) (\<lambda>out.
     rbind (out_value (InputBoxCaller_contract c) out 0 (TArray 32) as_array) (\<lambda>out0.
     Inr out0))"

definition InputBoxSession_GetInputHash ::
  "(('w, 'c, 't, 'x) bound_contract, 'c, 't) InputBoxSession \<Rightarrow> address \<Rightarrow> int \<Rightarrow> bytes res" where
  "InputBoxSession_GetInputHash s appContract index' =
     InputBoxCaller_GetInputHash (InputBox_Caller (InputBoxSession_Contract s)) (InputBoxSession_CallOpts s) appContract index'"

definition InputBoxCallerSession_GetInputHash ::
  "(('w, 'c, 't, 'x) bound_contract, 'c) InputBoxCallerSession \<Rightarrow> address \<Rightarrow> int \<Rightarrow> bytes res" where
  "InputBoxCallerSession_GetInputHash s appContract index' =
     InputBoxCaller_GetInputHash (InputBoxCallerSession_Contract s) (InputBoxCallerSession_CallOpts s) appContract index'"

definition InputBoxCaller_GetNumberOfInputs ::
  "('w, 'c, 't, 'x) bound_contract InputBoxCaller \<Rightarrow> 'c \<Rightarrow> address \<Rightarrow> int res" where
  "InputBoxCaller_GetNumberOfInputs c opts appContract =
     rbind (bc_Call (InputBoxCaller_contract c) opts [] ''getNumberOfInputs'' [AAddress appContract]) (\<lambda>out.
     rbind (out_value (InputBoxCaller_contract c) out 0 TBig as_big) (\<lambda>out0.
     Inr out0))"

definition InputBoxSession_GetNumberOfInputs ::
  "(('w, 'c, 't, 'x) bound_contract, 'c, 't) InputBoxSession \<Rightarrow> address \<Rightarrow> int res" where
  "InputBoxSession_GetNumberOfInputs s appContract =
     InputBoxCaller_GetNumberOfInputs (InputBox_Caller (InputBoxSession_Contract s)) (InputBoxSession_CallOpts s) appContract"

definition InputBoxCallerSession_GetNumberOfInputs ::
  "(('w, 'c, 't, 'x) bound_contract, 'c) InputBoxCallerSession \<Rightarrow> address \<Rightarrow> int res" where
  "InputBoxCallerSession_GetNumberOfInputs s appContract =
     InputBoxCaller_GetNumberOfInputs (InputBoxCallerSession_Contract s) (InputBoxCallerSession_CallOpts s) appContract"

section \<open>Transactions\<close>

definition InputBoxTransactor_AddInput ::
  "('w, 'c, 't, 'x) bound_contract InputBoxTransactor \<Rightarrow> 't \<Rightarrow> address \<Rightarrow> bytes \<Rightarrow> ('w, 'x) comp" where
  "InputBoxTransactor_AddInput c opts appContract payload' =
     bc_Transact (InputBoxTransactor_contract c) opts ''addInput'' [AAddress appContract, ABytes payload']"

definition InputBoxSession_AddInput ::
  "(('w, 'c, 't, 'x) bound_contract, 'c, 't) InputBoxSession \<Rightarrow> address \<Rightarrow> bytes \<Rightarrow> ('w, 'x) comp" where
  "InputBoxSession_AddInput s appContract payload' =
     InputBoxTransactor_AddInput (InputBox_Transactor (InputBoxSession_Contract s)) (InputBoxSession_TransactOpts s) appContract payload'"

definition InputBoxTransactorSession_AddInput ::
  "(('w, 'c, 't, 'x) bound_contract, 't) InputBoxTransactorSession \<Rightarrow> address \<Rightarrow> bytes \<Rightarrow> ('w, 'x) comp" where
  "InputBoxTransactorSession_AddInput s appContract payload' =
     InputBoxTransactor_AddInput (InputBoxTransactorSession_Contract s) (InputBoxTransactorSession_TransactOpts s) appContract payload'"

section \<open>Events\<close>

record InputBoxInputAdded =
  InputBoxInputAdded_AppContract :: address
  InputBoxInputAdded_Index :: int
  InputBoxInputAdded_Input :: bytes
  InputBoxInputAdded_Raw :: types_Log

type_synonym InputBoxInputAddedIterator = "InputBoxInputAdded log_iterator"

definition unpack_InputBoxInputAdded :: "('w, 'c, 't, 'x) bound_contract \<Rightarrow> InputBoxInputAdded unpack" where
  "unpack_InputBoxInputAdded C event log = rbind (bc_UnpackLog C event log) (\<lambda>vs.
     rbind (event_field vs 0 as_address) (\<lambda>AppContract'.
     rbind (event_field vs 1 as_big) (\<lambda>Index'.
     rbind (event_field vs 2 as_bytes) (\<lambda>Input'.
     Inr \<lparr>InputBoxInputAdded_AppContract = AppContract', InputBoxInputAdded_Index = Index', InputBoxInputAdded_Input = Input', InputBoxInputAdded_Raw = log\<rparr>))))"

definition InputBoxInputAddedIterator_Next ::
  "('w, 'c, 't, 'x) bound_contract \<Rightarrow> InputBoxInputAddedIterator \<Rightarrow> (bool \<times> InputBoxInputAddedIterator) option" where
  "InputBoxInputAddedIterator_Next C = iterator_Next (unpack_InputBoxInputAdded C)"

definition InputBoxInputAddedIterator_Error :: "InputBoxInputAddedIterator \<Rightarrow> err option" where
  "InputBoxInputAddedIterator_Error = iterator_Error"

definition InputBoxInputAddedIterator_Close :: "InputBoxInputAddedIterator \<Rightarrow> unit res \<times> InputBoxInputAddedIterator" where
  "InputBoxInputAddedIterator_Close = iterator_Close"

definition InputBoxFilterer_FilterInputAdded ::
  "('w, 'c, 't, 'x) bound_contract InputBoxFilterer \<Rightarrow> FilterOpts \<Rightarrow> address list \<Rightarrow> int list \<Rightarrow> InputBoxInputAddedIterator res" where
  "InputBoxFilterer_FilterInputAdded c opts appContract index' =
     rbind (bc_FilterLogs (InputBoxFilterer_contract c) opts ''InputAdded'' [map AAddress appContract, map ABig index']) (\<lambda>logs.
     Inr (new_iterator ''InputAdded'' logs))"

definition InputBoxFilterer_WatchInputAdded ::
  "('w, 'c, 't, 'x) bound_contract InputBoxFilterer \<Rightarrow> WatchOpts \<Rightarrow> address list \<Rightarrow> int list \<Rightarrow> (InputBoxInputAdded list \<times> err option option) res" where
  "InputBoxFilterer_WatchInputAdded c opts appContract index' =
     rbind (bc_WatchLogs (InputBoxFilterer_contract c) opts ''InputAdded'' [map AAddress appContract, map ABig index']) (\<lambda>turns.
     Inr (watch_logs (unpack_InputBoxInputAdded (InputBoxFilterer_contract c) ''InputAdded'') turns))"

definition InputBoxFilterer_ParseInputAdded :: "('w, 'c, 't, 'x) bound_contract InputBoxFilterer \<Rightarrow> types_Log \<Rightarrow> InputBoxInputAdded res" where
  "InputBoxFilterer_ParseInputAdded c log = unpack_InputBoxInputAdded (InputBoxFilterer_contract c) ''InputAdded'' log"

end
