(* ===== verification/BindBlobstreamX.thy ===== *)
theory BindBlobstreamX
  imports ContractRuntime
begin

text \<open>
  \<open>internal/dataavailability/contracts/BlobstreamX.sol/BlobstreamX.go\<close>: the generated binding of Blobstream X. Every method is the
  call of its bound contract with its arguments boxed; every event has the iterator, the subscription
  and the parser of \<open>ContractRuntime\<close> with its own unpacking.
\<close>

record BlobstreamXInitParameters =
  BlobstreamXInitParameters_Guardian :: address
  BlobstreamXInitParameters_Gateway :: address
  BlobstreamXInitParameters_Height :: u64
  BlobstreamXInitParameters_Header :: bytes
  BlobstreamXInitParameters_NextHeaderFunctionId :: bytes
  BlobstreamXInitParameters_HeaderRangeFunctionId :: bytes

definition any_BlobstreamXInitParameters :: "BlobstreamXInitParameters \<Rightarrow> go_any" where
  "any_BlobstreamXInitParameters p = AStruct [AAddress (BlobstreamXInitParameters_Guardian p),
     AAddress (BlobstreamXInitParameters_Gateway p), AUint64 (BlobstreamXInitParameters_Height p),
     AArray (BlobstreamXInitParameters_Header p), AArray (BlobstreamXInitParameters_NextHeaderFunctionId p),
     AArray (BlobstreamXInitParameters_HeaderRangeFunctionId p)]"

section \<open>The structs of the binding\<close>

record 'b BlobstreamXCaller =
  BlobstreamXCaller_contract :: 'b

record 'b BlobstreamXTransactor =
  BlobstreamXTransactor_contract :: 'b

record 'b BlobstreamXFilterer =
  BlobstreamXFilterer_contract :: 'b

record 'b BlobstreamX =
  BlobstreamX_Caller :: "'b BlobstreamXCaller"
  BlobstreamX_Transactor :: "'b BlobstreamXTransactor"
  BlobstreamX_Filterer :: "'b BlobstreamXFilterer"

record ('b, 'c, 't) BlobstreamXSession =
  BlobstreamXSession_Contract :: "'b BlobstreamX"
  BlobstreamXSession_CallOpts :: 'c
  BlobstreamXSession_TransactOpts :: 't

record ('b, 'c) BlobstreamXCallerSession =
  BlobstreamXCallerSession_Contract :: "'b BlobstreamXCaller"
  BlobstreamXCallerSession_CallOpts :: 'c

record ('b, 't) BlobstreamXTransactorSession =
  BlobstreamXTransactorSession_Contract :: "'b BlobstreamXTransactor"
  BlobstreamXTransactorSession_TransactOpts :: 't

record 'b BlobstreamXRaw =
  BlobstreamXRaw_Contract :: "'b BlobstreamX"

record 'b BlobstreamXCallerRaw =
  BlobstreamXCallerRaw_Contract :: "'b BlobstreamXCaller"

record 'b BlobstreamXTransactorRaw =
  BlobstreamXTransactorRaw_Contract :: "'b BlobstreamXTransactor"

section \<open>Making one\<close>

definition bindBlobstreamX ::
  "('k, 'abi, 'b) bind_lib \<Rightarrow> address \<Rightarrow> 'k option \<Rightarrow> 'k option \<Rightarrow> 'k option \<Rightarrow> 'b res" where
  "bindBlobstreamX = bind_contract"

definition of_contract_BlobstreamX :: "'b \<Rightarrow> 'b BlobstreamX" where
  "of_contract_BlobstreamX contract = \<lparr>BlobstreamX_Caller = \<lparr>BlobstreamXCaller_contract = contract\<rparr>,
     BlobstreamX_Transactor = \<lparr>BlobstreamXTransactor_contract = contract\<rparr>, BlobstreamX_Filterer = \<lparr>BlobstreamXFilterer_contract = contract\<rparr>\<rparr>"

definition NewBlobstreamX :: "('k, 'abi, 'b) bind_lib \<Rightarrow> address \<Rightarrow> 'k \<Rightarrow> 'b BlobstreamX res" where
  "NewBlobstreamX L addr backend =
     rbind (bindBlobstreamX L addr (Some backend) (Some backend) (Some backend)) (\<lambda>contract.
     Inr (of_contract_BlobstreamX contract))"

definition NewBlobstreamXCaller :: "('k, 'abi, 'b) bind_lib \<Rightarrow> address \<Rightarrow> 'k \<Rightarrow> 'b BlobstreamXCaller res" where
  "NewBlobstreamXCaller L addr caller = rbind (bindBlobstreamX L addr (Some caller) None None) (\<lambda>contract.
     Inr \<lparr>BlobstreamXCaller_contract = contract\<rparr>)"

definition NewBlobstreamXTransactor :: "('k, 'abi, 'b) bind_lib \<Rightarrow> address \<Rightarrow> 'k \<Rightarrow> 'b BlobstreamXTransactor res" where
  "NewBlobstreamXTransactor L addr transactor = rbind (bindBlobstreamX L addr None (Some transactor) None) (\<lambda>contract.
     Inr \<lparr>BlobstreamXTransactor_contract = contract\<rparr>)"

definition NewBlobstreamXFilterer :: "('k, 'abi, 'b) bind_lib \<Rightarrow> address \<Rightarrow> 'k \<Rightarrow> 'b BlobstreamXFilterer res" where
  "NewBlobstreamXFilterer L addr filterer = rbind (bindBlobstreamX L addr None None (Some filterer)) (\<lambda>contract.
     Inr \<lparr>BlobstreamXFilterer_contract = contract\<rparr>)"

text \<open>Deploying: the library's function, the decoder of hexadecimal text and the creation code are arguments.\<close>

definition DeployBlobstreamX ::
  "('k, 'abi, 'b) bind_lib \<Rightarrow> ('t \<Rightarrow> 'abi \<Rightarrow> bytes \<Rightarrow> 'k \<Rightarrow> ('w, address \<times> 'x \<times> 'b) comp) \<Rightarrow> (string \<Rightarrow> bytes) \<Rightarrow> string \<Rightarrow>
   't \<Rightarrow> 'k \<Rightarrow> ('w, address \<times> 'x \<times> 'b BlobstreamX) comp" where
  "DeployBlobstreamX L DeployContract FromHex Bin auth backend = (case bl_GetAbi L of
       Inl err \<Rightarrow> fail err
     | Inr None \<Rightarrow> fail (EMsg ''GetABI returned nil'')
     | Inr (Some parsed) \<Rightarrow> andThen (DeployContract auth parsed (FromHex Bin) backend) (\<lambda>(addr, tx, contract).
         ret (addr, tx, of_contract_BlobstreamX contract)))"

section \<open>Calls by name\<close>

definition BlobstreamXRaw_Call ::
  "('w, 'c, 't, 'x) bound_contract BlobstreamXRaw \<Rightarrow> 'c \<Rightarrow> go_any list \<Rightarrow> string \<Rightarrow> go_any list \<Rightarrow> go_any list res" where
  "BlobstreamXRaw_Call c opts result method params = bc_Call (BlobstreamXCaller_contract (BlobstreamX_Caller (BlobstreamXRaw_Contract c))) opts result method params"

definition BlobstreamXRaw_Transfer :: "('w, 'c, 't, 'x) bound_contract BlobstreamXRaw \<Rightarrow> 't \<Rightarrow> ('w, 'x) comp" where
  "BlobstreamXRaw_Transfer c opts = bc_Transfer (BlobstreamXTransactor_contract (BlobstreamX_Transactor (BlobstreamXRaw_Contract c))) opts"

definition BlobstreamXRaw_Transact ::
  "('w, 'c, 't, 'x) bound_contract BlobstreamXRaw \<Rightarrow> 't \<Rightarrow> string \<Rightarrow> go_any list \<Rightarrow> ('w, 'x) comp" where
  "BlobstreamXRaw_Transact c opts method params = bc_Transact (BlobstreamXTransactor_contract (BlobstreamX_Transactor (BlobstreamXRaw_Contract c))) opts method params"

definition BlobstreamXCallerRaw_Call ::
  "('w, 'c, 't, 'x) bound_contract BlobstreamXCallerRaw \<Rightarrow> 'c \<Rightarrow> go_any list \<Rightarrow> string \<Rightarrow> go_any list \<Rightarrow> go_any list res" where
  "BlobstreamXCallerRaw_Call c opts result method params = bc_Call (BlobstreamXCaller_contract (BlobstreamXCallerRaw_Contract c)) opts result method params"

definition BlobstreamXTransactorRaw_Transfer :: "('w, 'c, 't, 'x) bound_contract BlobstreamXTransactorRaw \<Rightarrow> 't \<Rightarrow> ('w, 'x) comp" where
  "BlobstreamXTransactorRaw_Transfer c opts = bc_Transfer (BlobstreamXTransactor_contract (BlobstreamXTransactorRaw_Contract c)) opts"

definition BlobstreamXTransactorRaw_Transact ::
  "('w, 'c, 't, 'x) bound_contract BlobstreamXTransactorRaw \<Rightarrow> 't \<Rightarrow> string \<Rightarrow> go_any list \<Rightarrow> ('w, 'x) comp" where
  "BlobstreamXTransactorRaw_Transact c opts method params = bc_Transact (BlobstreamXTransactor_contract (BlobstreamXTransactorRaw_Contract c)) opts method params"

section \<open>Reading methods\<close>

definition BlobstreamXCaller_DATACOMMITMENTMAX ::
  "('w, 'c, 't, 'x) bound_contract BlobstreamXCaller \<Rightarrow> 'c \<Rightarrow> u64 res" where
  "BlobstreamXCaller_DATACOMMITMENTMAX c opts =
     rbind (bc_Call (BlobstreamXCaller_contract c) opts [] ''DATA_COMMITMENT_MAX'' []) (\<lambda>out.
     rbind (out_value (BlobstreamXCaller_contract c) out 0 TUint64 as_uint64) (\<lambda>out0.
     Inr out0))"

definition BlobstreamXSession_DATACOMMITMENTMAX ::
  "(('w, 'c, 't, 'x) bound_contract, 'c, 't) BlobstreamXSession \<Rightarrow> u64 res" where
  "BlobstreamXSession_DATACOMMITMENTMAX s =
     BlobstreamXCaller_DATACOMMITMENTMAX (BlobstreamX_Caller (BlobstreamXSession_Contract s)) (BlobstreamXSession_CallOpts s)"

definition BlobstreamXCallerSession_DATACOMMITMENTMAX ::
  "(('w, 'c, 't, 'x) bound_contract, 'c) BlobstreamXCallerSession \<Rightarrow> u64 res" where
  "BlobstreamXCallerSession_DATACOMMITMENTMAX s =
     BlobstreamXCaller_DATACOMMITMENTMAX (BlobstreamXCallerSession_Contract s) (BlobstreamXCallerSession_CallOpts s)"

definition BlobstreamXCaller_DEFAULTADMINROLE ::
  "('w, 'c, 't, 'x) bound_contract BlobstreamXCaller \<Rightarrow> 'c \<Rightarrow> bytes res" where
  "BlobstreamXCaller_DEFAULTADMINROLE c opts =
     rbind (bc_Call (BlobstreamXCaller_contract c) opts [] ''DEFAULT_ADMIN_ROLE'' []) (\<lambda>out.
     rbind (out_value (BlobstreamXCaller_contract c) out 0 (TArray 32) as_array) (\<lambda>out0.
     Inr out0))"

definition BlobstreamXSession_DEFAULTADMINROLE ::
  "(('w, 'c, 't, 'x) bound_contract, 'c, 't) BlobstreamXSession \<Rightarrow> bytes res" where
  "BlobstreamXSession_DEFAULTADMINROLE s =
     BlobstreamXCaller_DEFAULTADMINROLE (BlobstreamX_Caller (BlobstreamXSession_Contract s)) (BlobstreamXSession_CallOpts s)"

definition BlobstreamXCallerSession_DEFAULTADMINROLE ::
  "(('w, 'c, 't, 'x) bound_contract, 'c) BlobstreamXCallerSession \<Rightarrow> bytes res" where
  "BlobstreamXCallerSession_DEFAULTADMINROLE s =
     BlobstreamXCaller_DEFAULTADMINROLE (BlobstreamXCallerSession_Contract s) (BlobstreamXCallerSession_CallOpts s)"

definition BlobstreamXCaller_GUARDIANROLE ::
  "('w, 'c, 't, 'x) bound_contract BlobstreamXCaller \<Rightarrow> 'c \<Rightarrow> bytes res" where
  "BlobstreamXCaller_GUARDIANROLE c opts =
     rbind (bc_Call (BlobstreamXCaller_contract c) opts [] ''GUARDIAN_ROLE'' []) (\<lambda>out.
     rbind (out_value (BlobstreamXCaller_contract c) out 0 (TArray 32) as_array) (\<lambda>out0.
     Inr out0))"

definition BlobstreamXSession_GUARDIANROLE ::
  "(('w, 'c, 't, 'x) bound_contract, 'c, 't) BlobstreamXSession \<Rightarrow> bytes res" where
  "BlobstreamXSession_GUARDIANROLE s =
     BlobstreamXCaller_GUARDIANROLE (BlobstreamX_Caller (BlobstreamXSession_Contract s)) (BlobstreamXSession_CallOpts s)"

definition BlobstreamXCallerSession_GUARDIANROLE ::
  "(('w, 'c, 't, 'x) bound_contract, 'c) BlobstreamXCallerSession \<Rightarrow> bytes res" where
  "BlobstreamXCallerSession_GUARDIANROLE s =
     BlobstreamXCaller_GUARDIANROLE (BlobstreamXCallerSession_Contract s) (BlobstreamXCallerSession_CallOpts s)"

definition BlobstreamXCaller_TIMELOCKROLE ::
  "('w, 'c, 't, 'x) bound_contract BlobstreamXCaller \<Rightarrow> 'c \<Rightarrow> bytes res" where
  "BlobstreamXCaller_TIMELOCKROLE c opts =
     rbind (bc_Call (BlobstreamXCaller_contract c) opts [] ''TIMELOCK_ROLE'' []) (\<lambda>out.
     rbind (out_value (BlobstreamXCaller_contract c) out 0 (TArray 32) as_array) (\<lambda>out0.
     Inr out0))"

definition BlobstreamXSession_TIMELOCKROLE ::
  "(('w, 'c, 't, 'x) bound_contract, 'c, 't) BlobstreamXSession \<Rightarrow> bytes res" where
  "BlobstreamXSession_TIMELOCKROLE s =
     BlobstreamXCaller_TIMELOCKROLE (BlobstreamX_Caller (BlobstreamXSession_Contract s)) (BlobstreamXSession_CallOpts s)"

definition BlobstreamXCallerSession_TIMELOCKROLE ::
  "(('w, 'c, 't, 'x) bound_contract, 'c) BlobstreamXCallerSession \<Rightarrow> bytes res" where
  "BlobstreamXCallerSession_TIMELOCKROLE s =
     BlobstreamXCaller_TIMELOCKROLE (BlobstreamXCallerSession_Contract s) (BlobstreamXCallerSession_CallOpts s)"

definition BlobstreamXCaller_VERSION ::
  "('w, 'c, 't, 'x) bound_contract BlobstreamXCaller \<Rightarrow> 'c \<Rightarrow> string res" where
  "BlobstreamXCaller_VERSION c opts =
     rbind (bc_Call (BlobstreamXCaller_contract c) opts [] ''VERSION'' []) (\<lambda>out.
     rbind (out_value (BlobstreamXCaller_contract c) out 0 TString as_string) (\<lambda>out0.
     Inr out0))"

definition BlobstreamXSession_VERSION ::
  "(('w, 'c, 't, 'x) bound_contract, 'c, 't) BlobstreamXSession \<Rightarrow> string res" where
  "BlobstreamXSession_VERSION s =
     BlobstreamXCaller_VERSION (BlobstreamX_Caller (BlobstreamXSession_Contract s)) (BlobstreamXSession_CallOpts s)"

definition BlobstreamXCallerSession_VERSION ::
  "(('w, 'c, 't, 'x) bound_contract, 'c) BlobstreamXCallerSession \<Rightarrow> string res" where
  "BlobstreamXCallerSession_VERSION s =
     BlobstreamXCaller_VERSION (BlobstreamXCallerSession_Contract s) (BlobstreamXCallerSession_CallOpts s)"

definition BlobstreamXCaller_BlockHeightToHeaderHash ::
  "('w, 'c, 't, 'x) bound_contract BlobstreamXCaller \<Rightarrow> 'c \<Rightarrow> u64 \<Rightarrow> bytes res" where
  "BlobstreamXCaller_BlockHeightToHeaderHash c opts arg0 =
     rbind (bc_Call (BlobstreamXCaller_contract c) opts [] ''blockHeightToHeaderHash'' [AUint64 arg0]) (\<lambda>out.
     rbind (out_value (BlobstreamXCaller_contract c) out 0 (TArray 32) as_array) (\<lambda>out0.
     Inr out0))"

definition BlobstreamXSession_BlockHeightToHeaderHash ::
  "(('w, 'c, 't, 'x) bound_contract, 'c, 't) BlobstreamXSession \<Rightarrow> u64 \<Rightarrow> bytes res" where
  "BlobstreamXSession_BlockHeightToHeaderHash s arg0 =
     BlobstreamXCaller_BlockHeightToHeaderHash (BlobstreamX_Caller (BlobstreamXSession_Contract s)) (BlobstreamXSession_CallOpts s) arg0"

definition BlobstreamXCallerSession_BlockHeightToHeaderHash ::
  "(('w, 'c, 't, 'x) bound_contract, 'c) BlobstreamXCallerSession \<Rightarrow> u64 \<Rightarrow> bytes res" where
  "BlobstreamXCallerSession_BlockHeightToHeaderHash s arg0 =
     BlobstreamXCaller_BlockHeightToHeaderHash (BlobstreamXCallerSession_Contract s) (BlobstreamXCallerSession_CallOpts s) arg0"

definition BlobstreamXCaller_Gateway ::
  "('w, 'c, 't, 'x) bound_contract BlobstreamXCaller \<Rightarrow> 'c \<Rightarrow> address res" where
  "BlobstreamXCaller_Gateway c opts =
     rbind (bc_Call (BlobstreamXCaller_contract c) opts [] ''gateway'' []) (\<lambda>out.
     rbind (out_value (BlobstreamXCaller_contract c) out 0 TAddress as_address) (\<lambda>out0.
     Inr out0))"

definition BlobstreamXSession_Gateway ::
  "(('w, 'c, 't, 'x) bound_contract, 'c, 't) BlobstreamXSession \<Rightarrow> address res" where
  "BlobstreamXSession_Gateway s =
     BlobstreamXCaller_Gateway (BlobstreamX_Caller (BlobstreamXSession_Contract s)) (BlobstreamXSession_CallOpts s)"

definition BlobstreamXCallerSession_Gateway ::
  "(('w, 'c, 't, 'x) bound_contract, 'c) BlobstreamXCallerSession \<Rightarrow> address res" where
  "BlobstreamXCallerSession_Gateway s =
     BlobstreamXCaller_Gateway (BlobstreamXCallerSession_Contract s) (BlobstreamXCallerSession_CallOpts s)"

definition BlobstreamXCaller_GetHeaderHash ::
  "('w, 'c, 't, 'x) bound_contract BlobstreamXCaller \<Rightarrow> 'c \<Rightarrow> u64 \<Rightarrow> bytes res" where
  "BlobstreamXCaller_GetHeaderHash c opts height' =
     rbind (bc_Call (BlobstreamXCaller_contract c) opts [] ''getHeaderHash'' [AUint64 height']) (\<lambda>out.
     rbind (out_value (BlobstreamXCaller_contract c) out 0 (TArray 32) as_array) (\<lambda>out0.
     Inr out0))"

definition BlobstreamXSession_GetHeaderHash ::
  "(('w, 'c, 't, 'x) bound_contract, 'c, 't) BlobstreamXSession \<Rightarrow> u64 \<Rightarrow> bytes res" where
  "BlobstreamXSession_GetHeaderHash s height' =
     BlobstreamXCaller_GetHeaderHash (BlobstreamX_Caller (BlobstreamXSession_Contract s)) (BlobstreamXSession_CallOpts s) height'"

definition BlobstreamXCallerSession_GetHeaderHash ::
  "(('w, 'c, 't, 'x) bound_contract, 'c) BlobstreamXCallerSession \<Rightarrow> u64 \<Rightarrow> bytes res" where
  "BlobstreamXCallerSession_GetHeaderHash s height' =
     BlobstreamXCaller_GetHeaderHash (BlobstreamXCallerSession_Contract s) (BlobstreamXCallerSession_CallOpts s) height'"

definition BlobstreamXCaller_GetRoleAdmin ::
  "('w, 'c, 't, 'x) bound_contract BlobstreamXCaller \<Rightarrow> 'c \<Rightarrow> bytes \<Rightarrow> bytes res" where
  "BlobstreamXCaller_GetRoleAdmin c opts role' =
     rbind (bc_Call (BlobstreamXCaller_contract c) opts [] ''getRoleAdmin'' [AArray role']) (\<lambda>out.
     rbind (out_value (BlobstreamXCaller_contract c) out 0 (TArray 32) as_array) (\<lambda>out0.
     Inr out0))"

definition BlobstreamXSession_GetRoleAdmin ::
  "(('w, 'c, 't, 'x) bound_contract, 'c, 't) BlobstreamXSession \<Rightarrow> bytes \<Rightarrow> bytes res" where
  "BlobstreamXSession_GetRoleAdmin s role' =
     BlobstreamXCaller_GetRoleAdmin (BlobstreamX_Caller (BlobstreamXSession_Contract s)) (BlobstreamXSession_CallOpts s) role'"

definition BlobstreamXCallerSession_GetRoleAdmin ::
  "(('w, 'c, 't, 'x) bound_contract, 'c) BlobstreamXCallerSession \<Rightarrow> bytes \<Rightarrow> bytes res" where
  "BlobstreamXCallerSession_GetRoleAdmin s role' =
     BlobstreamXCaller_GetRoleAdmin (BlobstreamXCallerSession_Contract s) (BlobstreamXCallerSession_CallOpts s) role'"

definition BlobstreamXCaller_HasRole ::
  "('w, 'c, 't, 'x) bound_contract BlobstreamXCaller \<Rightarrow> 'c \<Rightarrow> bytes \<Rightarrow> address \<Rightarrow> bool res" where
  "BlobstreamXCaller_HasRole c opts role' account' =
     rbind (bc_Call (BlobstreamXCaller_contract c) opts [] ''hasRole'' [AArray role', AAddress account']) (\<lambda>out.
     rbind (out_value (BlobstreamXCaller_contract c) out 0 TBool as_bool) (\<lambda>out0.
     Inr out0))"

definition BlobstreamXSession_HasRole ::
  "(('w, 'c, 't, 'x) bound_contract, 'c, 't) BlobstreamXSession \<Rightarrow> bytes \<Rightarrow> address \<Rightarrow> bool res" where
  "BlobstreamXSession_HasRole s role' account' =
     BlobstreamXCaller_HasRole (BlobstreamX_Caller (BlobstreamXSession_Contract s)) (BlobstreamXSession_CallOpts s) role' account'"

definition BlobstreamXCallerSession_HasRole ::
  "(('w, 'c, 't, 'x) bound_contract, 'c) BlobstreamXCallerSession \<Rightarrow> bytes \<Rightarrow> address \<Rightarrow> bool res" where
  "BlobstreamXCallerSession_HasRole s role' account' =
     BlobstreamXCaller_HasRole (BlobstreamXCallerSession_Contract s) (BlobstreamXCallerSession_CallOpts s) role' account'"

definition BlobstreamXCaller_HeaderRangeFunctionId ::
  "('w, 'c, 't, 'x) bound_contract BlobstreamXCaller \<Rightarrow> 'c \<Rightarrow> bytes res" where
  "BlobstreamXCaller_HeaderRangeFunctionId c opts =
     rbind (bc_Call (BlobstreamXCaller_contract c) opts [] ''headerRangeFunctionId'' []) (\<lambda>out.
     rbind (out_value (BlobstreamXCaller_contract c) out 0 (TArray 32) as_array) (\<lambda>out0.
     Inr out0))"

definition BlobstreamXSession_HeaderRangeFunctionId ::
  "(('w, 'c, 't, 'x) bound_contract, 'c, 't) BlobstreamXSession \<Rightarrow> bytes res" where
  "BlobstreamXSession_HeaderRangeFunctionId s =
     BlobstreamXCaller_HeaderRangeFunctionId (BlobstreamX_Caller (BlobstreamXSession_Contract s)) (BlobstreamXSession_CallOpts s)"

definition BlobstreamXCallerSession_HeaderRangeFunctionId ::
  "(('w, 'c, 't, 'x) bound_contract, 'c) BlobstreamXCallerSession \<Rightarrow> bytes res" where
  "BlobstreamXCallerSession_HeaderRangeFunctionId s =
     BlobstreamXCaller_HeaderRangeFunctionId (BlobstreamXCallerSession_Contract s) (BlobstreamXCallerSession_CallOpts s)"

definition BlobstreamXCaller_LatestBlock ::
  "('w, 'c, 't, 'x) bound_contract BlobstreamXCaller \<Rightarrow> 'c \<Rightarrow> u64 res" where
  "BlobstreamXCaller_LatestBlock c opts =
     rbind (bc_Call (BlobstreamXCaller_contract c) opts [] ''latestBlock'' []) (\<lambda>out.
     rbind (out_value (BlobstreamXCaller_contract c) out 0 TUint64 as_uint64) (\<lambda>out0.
     Inr out0))"

definition BlobstreamXSession_LatestBlock ::
  "(('w, 'c, 't, 'x) bound_contract, 'c, 't) BlobstreamXSession \<Rightarrow> u64 res" where
  "BlobstreamXSession_LatestBlock s =
     BlobstreamXCaller_LatestBlock (BlobstreamX_Caller (BlobstreamXSession_Contract s)) (BlobstreamXSession_CallOpts s)"

definition BlobstreamXCallerSession_LatestBlock ::
  "(('w, 'c, 't, 'x) bound_contract, 'c) BlobstreamXCallerSession \<Rightarrow> u64 res" where
  "BlobstreamXCallerSession_LatestBlock s =
     BlobstreamXCaller_LatestBlock (BlobstreamXCallerSession_Contract s) (BlobstreamXCallerSession_CallOpts s)"

definition BlobstreamXCaller_NextHeaderFunctionId ::
  "('w, 'c, 't, 'x) bound_contract BlobstreamXCaller \<Rightarrow> 'c \<Rightarrow> bytes res" where
  "BlobstreamXCaller_NextHeaderFunctionId c opts =
     rbind (bc_Call (BlobstreamXCaller_contract c) opts [] ''nextHeaderFunctionId'' []) (\<lambda>out.
     rbind (out_value (BlobstreamXCaller_contract c) out 0 (TArray 32) as_array) (\<lambda>out0.
     Inr out0))"

definition BlobstreamXSession_NextHeaderFunctionId ::
  "(('w, 'c, 't, 'x) bound_contract, 'c, 't) BlobstreamXSession \<Rightarrow> bytes res" where
  "BlobstreamXSession_NextHeaderFunctionId s =
     BlobstreamXCaller_NextHeaderFunctionId (BlobstreamX_Caller (BlobstreamXSession_Contract s)) (BlobstreamXSession_CallOpts s)"

definition BlobstreamXCallerSession_NextHeaderFunctionId ::
  "(('w, 'c, 't, 'x) bound_contract, 'c) BlobstreamXCallerSession \<Rightarrow> bytes res" where
  "BlobstreamXCallerSession_NextHeaderFunctionId s =
     BlobstreamXCaller_NextHeaderFunctionId (BlobstreamXCallerSession_Contract s) (BlobstreamXCallerSession_CallOpts s)"

definition BlobstreamXCaller_ProxiableUUID ::
  "('w, 'c, 't, 'x) bound_contract BlobstreamXCaller \<Rightarrow> 'c \<Rightarrow> bytes res" where
  "BlobstreamXCaller_ProxiableUUID c opts =
     rbind (bc_Call (BlobstreamXCaller_contract c) opts [] ''proxiableUUID'' []) (\<lambda>out.
     rbind (out_value (BlobstreamXCaller_contract c) out 0 (TArray 32) as_array) (\<lambda>out0.
     Inr out0))"

definition BlobstreamXSession_ProxiableUUID ::
  "(('w, 'c, 't, 'x) bound_contract, 'c, 't) BlobstreamXSession \<Rightarrow> bytes res" where
  "BlobstreamXSession_ProxiableUUID s =
     BlobstreamXCaller_ProxiableUUID (BlobstreamX_Caller (BlobstreamXSession_Contract s)) (BlobstreamXSession_CallOpts s)"

definition BlobstreamXCallerSession_ProxiableUUID ::
  "(('w, 'c, 't, 'x) bound_contract, 'c) BlobstreamXCallerSession \<Rightarrow> bytes res" where
  "BlobstreamXCallerSession_ProxiableUUID s =
     BlobstreamXCaller_ProxiableUUID (BlobstreamXCallerSession_Contract s) (BlobstreamXCallerSession_CallOpts s)"

definition BlobstreamXCaller_StateDataCommitments ::
  "('w, 'c, 't, 'x) bound_contract BlobstreamXCaller \<Rightarrow> 'c \<Rightarrow> int \<Rightarrow> bytes res" where
  "BlobstreamXCaller_StateDataCommitments c opts arg0 =
     rbind (bc_Call (BlobstreamXCaller_contract c) opts [] ''state_dataCommitments'' [ABig arg0]) (\<lambda>out.
     rbind (out_value (BlobstreamXCaller_contract c) out 0 (TArray 32) as_array) (\<lambda>out0.
     Inr out0))"

definition BlobstreamXSession_StateDataCommitments ::
  "(('w, 'c, 't, 'x) bound_contract, 'c, 't) BlobstreamXSession \<Rightarrow> int \<Rightarrow> bytes res" where
  "BlobstreamXSession_StateDataCommitments s arg0 =
     BlobstreamXCaller_StateDataCommitments (BlobstreamX_Caller (BlobstreamXSession_Contract s)) (BlobstreamXSession_CallOpts s) arg0"

definition BlobstreamXCallerSession_StateDataCommitments ::
  "(('w, 'c, 't, 'x) bound_contract, 'c) BlobstreamXCallerSession \<Rightarrow> int \<Rightarrow> bytes res" where
  "BlobstreamXCallerSession_StateDataCommitments s arg0 =
     BlobstreamXCaller_StateDataCommitments (BlobstreamXCallerSession_Contract s) (BlobstreamXCallerSession_CallOpts s) arg0"

definition BlobstreamXCaller_StateProofNonce ::
  "('w, 'c, 't, 'x) bound_contract BlobstreamXCaller \<Rightarrow> 'c \<Rightarrow> int res" where
  "BlobstreamXCaller_StateProofNonce c opts =
     rbind (bc_Call (BlobstreamXCaller_contract c) opts [] ''state_proofNonce'' []) (\<lambda>out.
     rbind (out_value (BlobstreamXCaller_contract c) out 0 TBig as_big) (\<lambda>out0.
     Inr out0))"

definition BlobstreamXSession_StateProofNonce ::
  "(('w, 'c, 't, 'x) bound_contract, 'c, 't) BlobstreamXSession \<Rightarrow> int res" where
  "BlobstreamXSession_StateProofNonce s =
     BlobstreamXCaller_StateProofNonce (BlobstreamX_Caller (BlobstreamXSession_Contract s)) (BlobstreamXSession_CallOpts s)"

definition BlobstreamXCallerSession_StateProofNonce ::
  "(('w, 'c, 't, 'x) bound_contract, 'c) BlobstreamXCallerSession \<Rightarrow> int res" where
  "BlobstreamXCallerSession_StateProofNonce s =
     BlobstreamXCaller_StateProofNonce (BlobstreamXCallerSession_Contract s) (BlobstreamXCallerSession_CallOpts s)"

definition BlobstreamXCaller_SupportsInterface ::
  "('w, 'c, 't, 'x) bound_contract BlobstreamXCaller \<Rightarrow> 'c \<Rightarrow> bytes \<Rightarrow> bool res" where
  "BlobstreamXCaller_SupportsInterface c opts interfaceId =
     rbind (bc_Call (BlobstreamXCaller_contract c) opts [] ''supportsInterface'' [AArray interfaceId]) (\<lambda>out.
     rbind (out_value (BlobstreamXCaller_contract c) out 0 TBool as_bool) (\<lambda>out0.
     Inr out0))"

definition BlobstreamXSession_SupportsInterface ::
  "(('w, 'c, 't, 'x) bound_contract, 'c, 't) BlobstreamXSession \<Rightarrow> bytes \<Rightarrow> bool res" where
  "BlobstreamXSession_SupportsInterface s interfaceId =
     BlobstreamXCaller_SupportsInterface (BlobstreamX_Caller (BlobstreamXSession_Contract s)) (BlobstreamXSession_CallOpts s) interfaceId"

definition BlobstreamXCallerSession_SupportsInterface ::
  "(('w, 'c, 't, 'x) bound_contract, 'c) BlobstreamXCallerSession \<Rightarrow> bytes \<Rightarrow> bool res" where
  "BlobstreamXCallerSession_SupportsInterface s interfaceId =
     BlobstreamXCaller_SupportsInterface (BlobstreamXCallerSession_Contract s) (BlobstreamXCallerSession_CallOpts s) interfaceId"

definition BlobstreamXCaller_VerifyAttestation ::
  "('w, 'c, 't, 'x) bound_contract BlobstreamXCaller \<Rightarrow> 'c \<Rightarrow> int \<Rightarrow> DataRootTuple \<Rightarrow> BinaryMerkleProof \<Rightarrow> bool res" where
  "BlobstreamXCaller_VerifyAttestation c opts proofNonce tuple proof' =
     rbind (bc_Call (BlobstreamXCaller_contract c) opts [] ''verifyAttestation'' [ABig proofNonce, any_DataRootTuple tuple, any_BinaryMerkleProof proof']) (\<lambda>out.
     rbind (out_value (BlobstreamXCaller_contract c) out 0 TBool as_bool) (\<lambda>out0.
     Inr out0))"

definition BlobstreamXSession_VerifyAttestation ::
  "(('w, 'c, 't, 'x) bound_contract, 'c, 't) BlobstreamXSession \<Rightarrow> int \<Rightarrow> DataRootTuple \<Rightarrow> BinaryMerkleProof \<Rightarrow> bool res" where
  "BlobstreamXSession_VerifyAttestation s proofNonce tuple proof' =
     BlobstreamXCaller_VerifyAttestation (BlobstreamX_Caller (BlobstreamXSession_Contract s)) (BlobstreamXSession_CallOpts s) proofNonce tuple proof'"

definition BlobstreamXCallerSession_VerifyAttestation ::
  "(('w, 'c, 't, 'x) bound_contract, 'c) BlobstreamXCallerSession \<Rightarrow> int \<Rightarrow> DataRootTuple \<Rightarrow> BinaryMerkleProof \<Rightarrow> bool res" where
  "BlobstreamXCallerSession_VerifyAttestation s proofNonce tuple proof' =
     BlobstreamXCaller_VerifyAttestation (BlobstreamXCallerSession_Contract s) (BlobstreamXCallerSession_CallOpts s) proofNonce tuple proof'"

section \<open>Transactions\<close>

definition BlobstreamXTransactor_CommitHeaderRange ::
  "('w, 'c, 't, 'x) bound_contract BlobstreamXTransactor \<Rightarrow> 't \<Rightarrow> u64 \<Rightarrow> u64 \<Rightarrow> ('w, 'x) comp" where
  "BlobstreamXTransactor_CommitHeaderRange c opts trustedBlock targetBlock =
     bc_Transact (BlobstreamXTransactor_contract c) opts ''commitHeaderRange'' [AUint64 trustedBlock, AUint64 targetBlock]"

definition BlobstreamXSession_CommitHeaderRange ::
  "(('w, 'c, 't, 'x) bound_contract, 'c, 't) BlobstreamXSession \<Rightarrow> u64 \<Rightarrow> u64 \<Rightarrow> ('w, 'x) comp" where
  "BlobstreamXSession_CommitHeaderRange s trustedBlock targetBlock =
     BlobstreamXTransactor_CommitHeaderRange (BlobstreamX_Transactor (BlobstreamXSession_Contract s)) (BlobstreamXSession_TransactOpts s) trustedBlock targetBlock"

definition BlobstreamXTransactorSession_CommitHeaderRange ::
  "(('w, 'c, 't, 'x) bound_contract, 't) BlobstreamXTransactorSession \<Rightarrow> u64 \<Rightarrow> u64 \<Rightarrow> ('w, 'x) comp" where
  "BlobstreamXTransactorSession_CommitHeaderRange s trustedBlock targetBlock =
     BlobstreamXTransactor_CommitHeaderRange (BlobstreamXTransactorSession_Contract s) (BlobstreamXTransactorSession_TransactOpts s) trustedBlock targetBlock"

definition BlobstreamXTransactor_CommitNextHeader ::
  "('w, 'c, 't, 'x) bound_contract BlobstreamXTransactor \<Rightarrow> 't \<Rightarrow> u64 \<Rightarrow> ('w, 'x) comp" where
  "BlobstreamXTransactor_CommitNextHeader c opts trustedBlock =
     bc_Transact (BlobstreamXTransactor_contract c) opts ''commitNextHeader'' [AUint64 trustedBlock]"

definition BlobstreamXSession_CommitNextHeader ::
  "(('w, 'c, 't, 'x) bound_contract, 'c, 't) BlobstreamXSession \<Rightarrow> u64 \<Rightarrow> ('w, 'x) comp" where
  "BlobstreamXSession_CommitNextHeader s trustedBlock =
     BlobstreamXTransactor_CommitNextHeader (BlobstreamX_Transactor (BlobstreamXSession_Contract s)) (BlobstreamXSession_TransactOpts s) trustedBlock"

definition BlobstreamXTransactorSession_CommitNextHeader ::
  "(('w, 'c, 't, 'x) bound_contract, 't) BlobstreamXTransactorSession \<Rightarrow> u64 \<Rightarrow> ('w, 'x) comp" where
  "BlobstreamXTransactorSession_CommitNextHeader s trustedBlock =
     BlobstreamXTransactor_CommitNextHeader (BlobstreamXTransactorSession_Contract s) (BlobstreamXTransactorSession_TransactOpts s) trustedBlock"

definition BlobstreamXTransactor_GrantRole ::
  "('w, 'c, 't, 'x) bound_contract BlobstreamXTransactor \<Rightarrow> 't \<Rightarrow> bytes \<Rightarrow> address \<Rightarrow> ('w, 'x) comp" where
  "BlobstreamXTransactor_GrantRole c opts role' account' =
     bc_Transact (BlobstreamXTransactor_contract c) opts ''grantRole'' [AArray role', AAddress account']"

definition BlobstreamXSession_GrantRole ::
  "(('w, 'c, 't, 'x) bound_contract, 'c, 't) BlobstreamXSession \<Rightarrow> bytes \<Rightarrow> address \<Rightarrow> ('w, 'x) comp" where
  "BlobstreamXSession_GrantRole s role' account' =
     BlobstreamXTransactor_GrantRole (BlobstreamX_Transactor (BlobstreamXSession_Contract s)) (BlobstreamXSession_TransactOpts s) role' account'"

definition BlobstreamXTransactorSession_GrantRole ::
  "(('w, 'c, 't, 'x) bound_contract, 't) BlobstreamXTransactorSession \<Rightarrow> bytes \<Rightarrow> address \<Rightarrow> ('w, 'x) comp" where
  "BlobstreamXTransactorSession_GrantRole s role' account' =
     BlobstreamXTransactor_GrantRole (BlobstreamXTransactorSession_Contract s) (BlobstreamXTransactorSession_TransactOpts s) role' account'"

definition BlobstreamXTransactor_Initialize ::
  "('w, 'c, 't, 'x) bound_contract BlobstreamXTransactor \<Rightarrow> 't \<Rightarrow> BlobstreamXInitParameters \<Rightarrow> ('w, 'x) comp" where
  "BlobstreamXTransactor_Initialize c opts params =
     bc_Transact (BlobstreamXTransactor_contract c) opts ''initialize'' [any_BlobstreamXInitParameters params]"

definition BlobstreamXSession_Initialize ::
  "(('w, 'c, 't, 'x) bound_contract, 'c, 't) BlobstreamXSession \<Rightarrow> BlobstreamXInitParameters \<Rightarrow> ('w, 'x) comp" where
  "BlobstreamXSession_Initialize s params =
     BlobstreamXTransactor_Initialize (BlobstreamX_Transactor (BlobstreamXSession_Contract s)) (BlobstreamXSession_TransactOpts s) params"

definition BlobstreamXTransactorSession_Initialize ::
  "(('w, 'c, 't, 'x) bound_contract, 't) BlobstreamXTransactorSession \<Rightarrow> BlobstreamXInitParameters \<Rightarrow> ('w, 'x) comp" where
  "BlobstreamXTransactorSession_Initialize s params =
     BlobstreamXTransactor_Initialize (BlobstreamXTransactorSession_Contract s) (BlobstreamXTransactorSession_TransactOpts s) params"

definition BlobstreamXTransactor_RenounceRole ::
  "('w, 'c, 't, 'x) bound_contract BlobstreamXTransactor \<Rightarrow> 't \<Rightarrow> bytes \<Rightarrow> address \<Rightarrow> ('w, 'x) comp" where
  "BlobstreamXTransactor_RenounceRole c opts role' account' =
     bc_Transact (BlobstreamXTransactor_contract c) opts ''renounceRole'' [AArray role', AAddress account']"

definition BlobstreamXSession_RenounceRole ::
  "(('w, 'c, 't, 'x) bound_contract, 'c, 't) BlobstreamXSession \<Rightarrow> bytes \<Rightarrow> address \<Rightarrow> ('w, 'x) comp" where
  "BlobstreamXSession_RenounceRole s role' account' =
     BlobstreamXTransactor_RenounceRole (BlobstreamX_Transactor (BlobstreamXSession_Contract s)) (BlobstreamXSession_TransactOpts s) role' account'"

definition BlobstreamXTransactorSession_RenounceRole ::
  "(('w, 'c, 't, 'x) bound_contract, 't) BlobstreamXTransactorSession \<Rightarrow> bytes \<Rightarrow> address \<Rightarrow> ('w, 'x) comp" where
  "BlobstreamXTransactorSession_RenounceRole s role' account' =
     BlobstreamXTransactor_RenounceRole (BlobstreamXTransactorSession_Contract s) (BlobstreamXTransactorSession_TransactOpts s) role' account'"

definition BlobstreamXTransactor_RequestHeaderRange ::
  "('w, 'c, 't, 'x) bound_contract BlobstreamXTransactor \<Rightarrow> 't \<Rightarrow> u64 \<Rightarrow> ('w, 'x) comp" where
  "BlobstreamXTransactor_RequestHeaderRange c opts targetBlock =
     bc_Transact (BlobstreamXTransactor_contract c) opts ''requestHeaderRange'' [AUint64 targetBlock]"

definition BlobstreamXSession_RequestHeaderRange ::
  "(('w, 'c, 't, 'x) bound_contract, 'c, 't) BlobstreamXSession \<Rightarrow> u64 \<Rightarrow> ('w, 'x) comp" where
  "BlobstreamXSession_RequestHeaderRange s targetBlock =
     BlobstreamXTransactor_RequestHeaderRange (BlobstreamX_Transactor (BlobstreamXSession_Contract s)) (BlobstreamXSession_TransactOpts s) targetBlock"

definition BlobstreamXTransactorSession_RequestHeaderRange ::
  "(('w, 'c, 't, 'x) bound_contract, 't) BlobstreamXTransactorSession \<Rightarrow> u64 \<Rightarrow> ('w, 'x) comp" where
  "BlobstreamXTransactorSession_RequestHeaderRange s targetBlock =
     BlobstreamXTransactor_RequestHeaderRange (BlobstreamXTransactorSession_Contract s) (BlobstreamXTransactorSession_TransactOpts s) targetBlock"

definition BlobstreamXTransactor_RequestNextHeader ::
  "('w, 'c, 't, 'x) bound_contract BlobstreamXTransactor \<Rightarrow> 't \<Rightarrow> ('w, 'x) comp" where
  "BlobstreamXTransactor_RequestNextHeader c opts =
     bc_Transact (BlobstreamXTransactor_contract c) opts ''requestNextHeader'' []"

definition BlobstreamXSession_RequestNextHeader ::
  "(('w, 'c, 't, 'x) bound_contract, 'c, 't) BlobstreamXSession \<Rightarrow> ('w, 'x) comp" where
  "BlobstreamXSession_RequestNextHeader s =
     BlobstreamXTransactor_RequestNextHeader (BlobstreamX_Transactor (BlobstreamXSession_Contract s)) (BlobstreamXSession_TransactOpts s)"

definition BlobstreamXTransactorSession_RequestNextHeader ::
  "(('w, 'c, 't, 'x) bound_contract, 't) BlobstreamXTransactorSession \<Rightarrow> ('w, 'x) comp" where
  "BlobstreamXTransactorSession_RequestNextHeader s =
     BlobstreamXTransactor_RequestNextHeader (BlobstreamXTransactorSession_Contract s) (BlobstreamXTransactorSession_TransactOpts s)"

definition BlobstreamXTransactor_RevokeRole ::
  "('w, 'c, 't, 'x) bound_contract BlobstreamXTransactor \<Rightarrow> 't \<Rightarrow> bytes \<Rightarrow> address \<Rightarrow> ('w, 'x) comp" where
  "BlobstreamXTransactor_RevokeRole c opts role' account' =
     bc_Transact (BlobstreamXTransactor_contract c) opts ''revokeRole'' [AArray role', AAddress account']"

definition BlobstreamXSession_RevokeRole ::
  "(('w, 'c, 't, 'x) bound_contract, 'c, 't) BlobstreamXSession \<Rightarrow> bytes \<Rightarrow> address \<Rightarrow> ('w, 'x) comp" where
  "BlobstreamXSession_RevokeRole s role' account' =
     BlobstreamXTransactor_RevokeRole (BlobstreamX_Transactor (BlobstreamXSession_Contract s)) (BlobstreamXSession_TransactOpts s) role' account'"

definition BlobstreamXTransactorSession_RevokeRole ::
  "(('w, 'c, 't, 'x) bound_contract, 't) BlobstreamXTransactorSession \<Rightarrow> bytes \<Rightarrow> address \<Rightarrow> ('w, 'x) comp" where
  "BlobstreamXTransactorSession_RevokeRole s role' account' =
     BlobstreamXTransactor_RevokeRole (BlobstreamXTransactorSession_Contract s) (BlobstreamXTransactorSession_TransactOpts s) role' account'"

definition BlobstreamXTransactor_UpdateGateway ::
  "('w, 'c, 't, 'x) bound_contract BlobstreamXTransactor \<Rightarrow> 't \<Rightarrow> address \<Rightarrow> ('w, 'x) comp" where
  "BlobstreamXTransactor_UpdateGateway c opts gateway =
     bc_Transact (BlobstreamXTransactor_contract c) opts ''updateGateway'' [AAddress gateway]"

definition BlobstreamXSession_UpdateGateway ::
  "(('w, 'c, 't, 'x) bound_contract, 'c, 't) BlobstreamXSession \<Rightarrow> address \<Rightarrow> ('w, 'x) comp" where
  "BlobstreamXSession_UpdateGateway s gateway =
     BlobstreamXTransactor_UpdateGateway (BlobstreamX_Transactor (BlobstreamXSession_Contract s)) (BlobstreamXSession_TransactOpts s) gateway"

definition BlobstreamXTransactorSession_UpdateGateway ::
  "(('w, 'c, 't, 'x) bound_contract, 't) BlobstreamXTransactorSession \<Rightarrow> address \<Rightarrow> ('w, 'x) comp" where
  "BlobstreamXTransactorSession_UpdateGateway s gateway =
     BlobstreamXTransactor_UpdateGateway (BlobstreamXTransactorSession_Contract s) (BlobstreamXTransactorSession_TransactOpts s) gateway"

definition BlobstreamXTransactor_UpdateHeaderRangeId ::
  "('w, 'c, 't, 'x) bound_contract BlobstreamXTransactor \<Rightarrow> 't \<Rightarrow> bytes \<Rightarrow> ('w, 'x) comp" where
  "BlobstreamXTransactor_UpdateHeaderRangeId c opts functionId =
     bc_Transact (BlobstreamXTransactor_contract c) opts ''updateHeaderRangeId'' [AArray functionId]"

definition BlobstreamXSession_UpdateHeaderRangeId ::
  "(('w, 'c, 't, 'x) bound_contract, 'c, 't) BlobstreamXSession \<Rightarrow> bytes \<Rightarrow> ('w, 'x) comp" where
  "BlobstreamXSession_UpdateHeaderRangeId s functionId =
     BlobstreamXTransactor_UpdateHeaderRangeId (BlobstreamX_Transactor (BlobstreamXSession_Contract s)) (BlobstreamXSession_TransactOpts s) functionId"

definition BlobstreamXTransactorSession_UpdateHeaderRangeId ::
  "(('w, 'c, 't, 'x) bound_contract, 't) BlobstreamXTransactorSession \<Rightarrow> bytes \<Rightarrow> ('w, 'x) comp" where
  "BlobstreamXTransactorSession_UpdateHeaderRangeId s functionId =
     BlobstreamXTransactor_UpdateHeaderRangeId (BlobstreamXTransactorSession_Contract s) (BlobstreamXTransactorSession_TransactOpts s) functionId"

definition BlobstreamXTransactor_UpdateNextHeaderId ::
  "('w, 'c, 't, 'x) bound_contract BlobstreamXTransactor \<Rightarrow> 't \<Rightarrow> bytes \<Rightarrow> ('w, 'x) comp" where
  "BlobstreamXTransactor_UpdateNextHeaderId c opts functionId =
     bc_Transact (BlobstreamXTransactor_contract c) opts ''updateNextHeaderId'' [AArray functionId]"

definition BlobstreamXSession_UpdateNextHeaderId ::
  "(('w, 'c, 't, 'x) bound_contract, 'c, 't) BlobstreamXSession \<Rightarrow> bytes \<Rightarrow> ('w, 'x) comp" where
  "BlobstreamXSession_UpdateNextHeaderId s functionId =
     BlobstreamXTransactor_UpdateNextHeaderId (BlobstreamX_Transactor (BlobstreamXSession_Contract s)) (BlobstreamXSession_TransactOpts s) functionId"

definition BlobstreamXTransactorSession_UpdateNextHeaderId ::
  "(('w, 'c, 't, 'x) bound_contract, 't) BlobstreamXTransactorSession \<Rightarrow> bytes \<Rightarrow> ('w, 'x) comp" where
  "BlobstreamXTransactorSession_UpdateNextHeaderId s functionId =
     BlobstreamXTransactor_UpdateNextHeaderId (BlobstreamXTransactorSession_Contract s) (BlobstreamXTransactorSession_TransactOpts s) functionId"

definition BlobstreamXTransactor_UpgradeTo ::
  "('w, 'c, 't, 'x) bound_contract BlobstreamXTransactor \<Rightarrow> 't \<Rightarrow> address \<Rightarrow> ('w, 'x) comp" where
  "BlobstreamXTransactor_UpgradeTo c opts newImplementation =
     bc_Transact (BlobstreamXTransactor_contract c) opts ''upgradeTo'' [AAddress newImplementation]"

definition BlobstreamXSession_UpgradeTo ::
  "(('w, 'c, 't, 'x) bound_contract, 'c, 't) BlobstreamXSession \<Rightarrow> address \<Rightarrow> ('w, 'x) comp" where
  "BlobstreamXSession_UpgradeTo s newImplementation =
     BlobstreamXTransactor_UpgradeTo (BlobstreamX_Transactor (BlobstreamXSession_Contract s)) (BlobstreamXSession_TransactOpts s) newImplementation"

definition BlobstreamXTransactorSession_UpgradeTo ::
  "(('w, 'c, 't, 'x) bound_contract, 't) BlobstreamXTransactorSession \<Rightarrow> address \<Rightarrow> ('w, 'x) comp" where
  "BlobstreamXTransactorSession_UpgradeTo s newImplementation =
     BlobstreamXTransactor_UpgradeTo (BlobstreamXTransactorSession_Contract s) (BlobstreamXTransactorSession_TransactOpts s) newImplementation"

definition BlobstreamXTransactor_UpgradeToAndCall ::
  "('w, 'c, 't, 'x) bound_contract BlobstreamXTransactor \<Rightarrow> 't \<Rightarrow> address \<Rightarrow> bytes \<Rightarrow> ('w, 'x) comp" where
  "BlobstreamXTransactor_UpgradeToAndCall c opts newImplementation data' =
     bc_Transact (BlobstreamXTransactor_contract c) opts ''upgradeToAndCall'' [AAddress newImplementation, ABytes data']"

definition BlobstreamXSession_UpgradeToAndCall ::
  "(('w, 'c, 't, 'x) bound_contract, 'c, 't) BlobstreamXSession \<Rightarrow> address \<Rightarrow> bytes \<Rightarrow> ('w, 'x) comp" where
  "BlobstreamXSession_UpgradeToAndCall s newImplementation data' =
     BlobstreamXTransactor_UpgradeToAndCall (BlobstreamX_Transactor (BlobstreamXSession_Contract s)) (BlobstreamXSession_TransactOpts s) newImplementation data'"

definition BlobstreamXTransactorSession_UpgradeToAndCall ::
  "(('w, 'c, 't, 'x) bound_contract, 't) BlobstreamXTransactorSession \<Rightarrow> address \<Rightarrow> bytes \<Rightarrow> ('w, 'x) comp" where
  "BlobstreamXTransactorSession_UpgradeToAndCall s newImplementation data' =
     BlobstreamXTransactor_UpgradeToAndCall (BlobstreamXTransactorSession_Contract s) (BlobstreamXTransactorSession_TransactOpts s) newImplementation data'"

end
