(* ===== verification/BindBlobstreamXEvents.thy ===== *)
theory BindBlobstreamXEvents
  imports BindBlobstreamX
begin

text \<open>
  \<open>internal/dataavailability/contracts/BlobstreamX.sol/BlobstreamX.go\<close>: the events of the binding of
  \<open>BindBlobstreamX\<close>.
\<close>

section \<open>Events\<close>

record BlobstreamXAdminChanged =
  BlobstreamXAdminChanged_PreviousAdmin :: address
  BlobstreamXAdminChanged_NewAdmin :: address
  BlobstreamXAdminChanged_Raw :: types_Log

type_synonym BlobstreamXAdminChangedIterator = "BlobstreamXAdminChanged log_iterator"

definition unpack_BlobstreamXAdminChanged :: "('w, 'c, 't, 'x) bound_contract \<Rightarrow> BlobstreamXAdminChanged unpack" where
  "unpack_BlobstreamXAdminChanged C event log = rbind (bc_UnpackLog C event log) (\<lambda>vs.
     rbind (event_field vs 0 as_address) (\<lambda>PreviousAdmin'.
     rbind (event_field vs 1 as_address) (\<lambda>NewAdmin'.
     Inr \<lparr>BlobstreamXAdminChanged_PreviousAdmin = PreviousAdmin', BlobstreamXAdminChanged_NewAdmin = NewAdmin', BlobstreamXAdminChanged_Raw = log\<rparr>)))"

definition BlobstreamXAdminChangedIterator_Next ::
  "('w, 'c, 't, 'x) bound_contract \<Rightarrow> BlobstreamXAdminChangedIterator \<Rightarrow> (bool \<times> BlobstreamXAdminChangedIterator) option" where
  "BlobstreamXAdminChangedIterator_Next C = iterator_Next (unpack_BlobstreamXAdminChanged C)"

definition BlobstreamXAdminChangedIterator_Error :: "BlobstreamXAdminChangedIterator \<Rightarrow> err option" where
  "BlobstreamXAdminChangedIterator_Error = iterator_Error"

definition BlobstreamXAdminChangedIterator_Close :: "BlobstreamXAdminChangedIterator \<Rightarrow> unit res \<times> BlobstreamXAdminChangedIterator" where
  "BlobstreamXAdminChangedIterator_Close = iterator_Close"

definition BlobstreamXFilterer_FilterAdminChanged ::
  "('w, 'c, 't, 'x) bound_contract BlobstreamXFilterer \<Rightarrow> FilterOpts \<Rightarrow> BlobstreamXAdminChangedIterator res" where
  "BlobstreamXFilterer_FilterAdminChanged c opts =
     rbind (bc_FilterLogs (BlobstreamXFilterer_contract c) opts ''AdminChanged'' []) (\<lambda>logs.
     Inr (new_iterator ''AdminChanged'' logs))"

definition BlobstreamXFilterer_WatchAdminChanged ::
  "('w, 'c, 't, 'x) bound_contract BlobstreamXFilterer \<Rightarrow> WatchOpts \<Rightarrow> (BlobstreamXAdminChanged list \<times> err option option) res" where
  "BlobstreamXFilterer_WatchAdminChanged c opts =
     rbind (bc_WatchLogs (BlobstreamXFilterer_contract c) opts ''AdminChanged'' []) (\<lambda>turns.
     Inr (watch_logs (unpack_BlobstreamXAdminChanged (BlobstreamXFilterer_contract c) ''AdminChanged'') turns))"

definition BlobstreamXFilterer_ParseAdminChanged :: "('w, 'c, 't, 'x) bound_contract BlobstreamXFilterer \<Rightarrow> types_Log \<Rightarrow> BlobstreamXAdminChanged res" where
  "BlobstreamXFilterer_ParseAdminChanged c log = unpack_BlobstreamXAdminChanged (BlobstreamXFilterer_contract c) ''AdminChanged'' log"

record BlobstreamXBeaconUpgraded =
  BlobstreamXBeaconUpgraded_Beacon :: address
  BlobstreamXBeaconUpgraded_Raw :: types_Log

type_synonym BlobstreamXBeaconUpgradedIterator = "BlobstreamXBeaconUpgraded log_iterator"

definition unpack_BlobstreamXBeaconUpgraded :: "('w, 'c, 't, 'x) bound_contract \<Rightarrow> BlobstreamXBeaconUpgraded unpack" where
  "unpack_BlobstreamXBeaconUpgraded C event log = rbind (bc_UnpackLog C event log) (\<lambda>vs.
     rbind (event_field vs 0 as_address) (\<lambda>Beacon'.
     Inr \<lparr>BlobstreamXBeaconUpgraded_Beacon = Beacon', BlobstreamXBeaconUpgraded_Raw = log\<rparr>))"

definition BlobstreamXBeaconUpgradedIterator_Next ::
  "('w, 'c, 't, 'x) bound_contract \<Rightarrow> BlobstreamXBeaconUpgradedIterator \<Rightarrow> (bool \<times> BlobstreamXBeaconUpgradedIterator) option" where
  "BlobstreamXBeaconUpgradedIterator_Next C = iterator_Next (unpack_BlobstreamXBeaconUpgraded C)"

definition BlobstreamXBeaconUpgradedIterator_Error :: "BlobstreamXBeaconUpgradedIterator \<Rightarrow> err option" where
  "BlobstreamXBeaconUpgradedIterator_Error = iterator_Error"

definition BlobstreamXBeaconUpgradedIterator_Close :: "BlobstreamXBeaconUpgradedIterator \<Rightarrow> unit res \<times> BlobstreamXBeaconUpgradedIterator" where
  "BlobstreamXBeaconUpgradedIterator_Close = iterator_Close"

definition BlobstreamXFilterer_FilterBeaconUpgraded ::
  "('w, 'c, 't, 'x) bound_contract BlobstreamXFilterer \<Rightarrow> FilterOpts \<Rightarrow> address list \<Rightarrow> BlobstreamXBeaconUpgradedIterator res" where
  "BlobstreamXFilterer_FilterBeaconUpgraded c opts beacon' =
     rbind (bc_FilterLogs (BlobstreamXFilterer_contract c) opts ''BeaconUpgraded'' [map AAddress beacon']) (\<lambda>logs.
     Inr (new_iterator ''BeaconUpgraded'' logs))"

definition BlobstreamXFilterer_WatchBeaconUpgraded ::
  "('w, 'c, 't, 'x) bound_contract BlobstreamXFilterer \<Rightarrow> WatchOpts \<Rightarrow> address list \<Rightarrow> (BlobstreamXBeaconUpgraded list \<times> err option option) res" where
  "BlobstreamXFilterer_WatchBeaconUpgraded c opts beacon' =
     rbind (bc_WatchLogs (BlobstreamXFilterer_contract c) opts ''BeaconUpgraded'' [map AAddress beacon']) (\<lambda>turns.
     Inr (watch_logs (unpack_BlobstreamXBeaconUpgraded (BlobstreamXFilterer_contract c) ''BeaconUpgraded'') turns))"

definition BlobstreamXFilterer_ParseBeaconUpgraded :: "('w, 'c, 't, 'x) bound_contract BlobstreamXFilterer \<Rightarrow> types_Log \<Rightarrow> BlobstreamXBeaconUpgraded res" where
  "BlobstreamXFilterer_ParseBeaconUpgraded c log = unpack_BlobstreamXBeaconUpgraded (BlobstreamXFilterer_contract c) ''BeaconUpgraded'' log"

record BlobstreamXDataCommitmentStored =
  BlobstreamXDataCommitmentStored_ProofNonce :: int
  BlobstreamXDataCommitmentStored_StartBlock :: u64
  BlobstreamXDataCommitmentStored_EndBlock :: u64
  BlobstreamXDataCommitmentStored_DataCommitment :: bytes
  BlobstreamXDataCommitmentStored_Raw :: types_Log

type_synonym BlobstreamXDataCommitmentStoredIterator = "BlobstreamXDataCommitmentStored log_iterator"

definition unpack_BlobstreamXDataCommitmentStored :: "('w, 'c, 't, 'x) bound_contract \<Rightarrow> BlobstreamXDataCommitmentStored unpack" where
  "unpack_BlobstreamXDataCommitmentStored C event log = rbind (bc_UnpackLog C event log) (\<lambda>vs.
     rbind (event_field vs 0 as_big) (\<lambda>ProofNonce'.
     rbind (event_field vs 1 as_uint64) (\<lambda>StartBlock'.
     rbind (event_field vs 2 as_uint64) (\<lambda>EndBlock'.
     rbind (event_field vs 3 as_array) (\<lambda>DataCommitment'.
     Inr \<lparr>BlobstreamXDataCommitmentStored_ProofNonce = ProofNonce', BlobstreamXDataCommitmentStored_StartBlock = StartBlock', BlobstreamXDataCommitmentStored_EndBlock = EndBlock', BlobstreamXDataCommitmentStored_DataCommitment = DataCommitment', BlobstreamXDataCommitmentStored_Raw = log\<rparr>)))))"

definition BlobstreamXDataCommitmentStoredIterator_Next ::
  "('w, 'c, 't, 'x) bound_contract \<Rightarrow> BlobstreamXDataCommitmentStoredIterator \<Rightarrow> (bool \<times> BlobstreamXDataCommitmentStoredIterator) option" where
  "BlobstreamXDataCommitmentStoredIterator_Next C = iterator_Next (unpack_BlobstreamXDataCommitmentStored C)"

definition BlobstreamXDataCommitmentStoredIterator_Error :: "BlobstreamXDataCommitmentStoredIterator \<Rightarrow> err option" where
  "BlobstreamXDataCommitmentStoredIterator_Error = iterator_Error"

definition BlobstreamXDataCommitmentStoredIterator_Close :: "BlobstreamXDataCommitmentStoredIterator \<Rightarrow> unit res \<times> BlobstreamXDataCommitmentStoredIterator" where
  "BlobstreamXDataCommitmentStoredIterator_Close = iterator_Close"

definition BlobstreamXFilterer_FilterDataCommitmentStored ::
  "('w, 'c, 't, 'x) bound_contract BlobstreamXFilterer \<Rightarrow> FilterOpts \<Rightarrow> u64 list \<Rightarrow> u64 list \<Rightarrow> bytes list \<Rightarrow> BlobstreamXDataCommitmentStoredIterator res" where
  "BlobstreamXFilterer_FilterDataCommitmentStored c opts startBlock endBlock dataCommitment =
     rbind (bc_FilterLogs (BlobstreamXFilterer_contract c) opts ''DataCommitmentStored'' [map AUint64 startBlock, map AUint64 endBlock, map AArray dataCommitment]) (\<lambda>logs.
     Inr (new_iterator ''DataCommitmentStored'' logs))"

definition BlobstreamXFilterer_WatchDataCommitmentStored ::
  "('w, 'c, 't, 'x) bound_contract BlobstreamXFilterer \<Rightarrow> WatchOpts \<Rightarrow> u64 list \<Rightarrow> u64 list \<Rightarrow> bytes list \<Rightarrow> (BlobstreamXDataCommitmentStored list \<times> err option option) res" where
  "BlobstreamXFilterer_WatchDataCommitmentStored c opts startBlock endBlock dataCommitment =
     rbind (bc_WatchLogs (BlobstreamXFilterer_contract c) opts ''DataCommitmentStored'' [map AUint64 startBlock, map AUint64 endBlock, map AArray dataCommitment]) (\<lambda>turns.
     Inr (watch_logs (unpack_BlobstreamXDataCommitmentStored (BlobstreamXFilterer_contract c) ''DataCommitmentStored'') turns))"

definition BlobstreamXFilterer_ParseDataCommitmentStored :: "('w, 'c, 't, 'x) bound_contract BlobstreamXFilterer \<Rightarrow> types_Log \<Rightarrow> BlobstreamXDataCommitmentStored res" where
  "BlobstreamXFilterer_ParseDataCommitmentStored c log = unpack_BlobstreamXDataCommitmentStored (BlobstreamXFilterer_contract c) ''DataCommitmentStored'' log"

record BlobstreamXHeadUpdate =
  BlobstreamXHeadUpdate_BlockNumber :: u64
  BlobstreamXHeadUpdate_HeaderHash :: bytes
  BlobstreamXHeadUpdate_Raw :: types_Log

type_synonym BlobstreamXHeadUpdateIterator = "BlobstreamXHeadUpdate log_iterator"

definition unpack_BlobstreamXHeadUpdate :: "('w, 'c, 't, 'x) bound_contract \<Rightarrow> BlobstreamXHeadUpdate unpack" where
  "unpack_BlobstreamXHeadUpdate C event log = rbind (bc_UnpackLog C event log) (\<lambda>vs.
     rbind (event_field vs 0 as_uint64) (\<lambda>BlockNumber'.
     rbind (event_field vs 1 as_array) (\<lambda>HeaderHash'.
     Inr \<lparr>BlobstreamXHeadUpdate_BlockNumber = BlockNumber', BlobstreamXHeadUpdate_HeaderHash = HeaderHash', BlobstreamXHeadUpdate_Raw = log\<rparr>)))"

definition BlobstreamXHeadUpdateIterator_Next ::
  "('w, 'c, 't, 'x) bound_contract \<Rightarrow> BlobstreamXHeadUpdateIterator \<Rightarrow> (bool \<times> BlobstreamXHeadUpdateIterator) option" where
  "BlobstreamXHeadUpdateIterator_Next C = iterator_Next (unpack_BlobstreamXHeadUpdate C)"

definition BlobstreamXHeadUpdateIterator_Error :: "BlobstreamXHeadUpdateIterator \<Rightarrow> err option" where
  "BlobstreamXHeadUpdateIterator_Error = iterator_Error"

definition BlobstreamXHeadUpdateIterator_Close :: "BlobstreamXHeadUpdateIterator \<Rightarrow> unit res \<times> BlobstreamXHeadUpdateIterator" where
  "BlobstreamXHeadUpdateIterator_Close = iterator_Close"

definition BlobstreamXFilterer_FilterHeadUpdate ::
  "('w, 'c, 't, 'x) bound_contract BlobstreamXFilterer \<Rightarrow> FilterOpts \<Rightarrow> BlobstreamXHeadUpdateIterator res" where
  "BlobstreamXFilterer_FilterHeadUpdate c opts =
     rbind (bc_FilterLogs (BlobstreamXFilterer_contract c) opts ''HeadUpdate'' []) (\<lambda>logs.
     Inr (new_iterator ''HeadUpdate'' logs))"

definition BlobstreamXFilterer_WatchHeadUpdate ::
  "('w, 'c, 't, 'x) bound_contract BlobstreamXFilterer \<Rightarrow> WatchOpts \<Rightarrow> (BlobstreamXHeadUpdate list \<times> err option option) res" where
  "BlobstreamXFilterer_WatchHeadUpdate c opts =
     rbind (bc_WatchLogs (BlobstreamXFilterer_contract c) opts ''HeadUpdate'' []) (\<lambda>turns.
     Inr (watch_logs (unpack_BlobstreamXHeadUpdate (BlobstreamXFilterer_contract c) ''HeadUpdate'') turns))"

definition BlobstreamXFilterer_ParseHeadUpdate :: "('w, 'c, 't, 'x) bound_contract BlobstreamXFilterer \<Rightarrow> types_Log \<Rightarrow> BlobstreamXHeadUpdate res" where
  "BlobstreamXFilterer_ParseHeadUpdate c log = unpack_BlobstreamXHeadUpdate (BlobstreamXFilterer_contract c) ''HeadUpdate'' log"

record BlobstreamXHeaderRangeRequested =
  BlobstreamXHeaderRangeRequested_TrustedBlock :: u64
  BlobstreamXHeaderRangeRequested_TrustedHeader :: bytes
  BlobstreamXHeaderRangeRequested_TargetBlock :: u64
  BlobstreamXHeaderRangeRequested_Raw :: types_Log

type_synonym BlobstreamXHeaderRangeRequestedIterator = "BlobstreamXHeaderRangeRequested log_iterator"

definition unpack_BlobstreamXHeaderRangeRequested :: "('w, 'c, 't, 'x) bound_contract \<Rightarrow> BlobstreamXHeaderRangeRequested unpack" where
  "unpack_BlobstreamXHeaderRangeRequested C event log = rbind (bc_UnpackLog C event log) (\<lambda>vs.
     rbind (event_field vs 0 as_uint64) (\<lambda>TrustedBlock'.
     rbind (event_field vs 1 as_array) (\<lambda>TrustedHeader'.
     rbind (event_field vs 2 as_uint64) (\<lambda>TargetBlock'.
     Inr \<lparr>BlobstreamXHeaderRangeRequested_TrustedBlock = TrustedBlock', BlobstreamXHeaderRangeRequested_TrustedHeader = TrustedHeader', BlobstreamXHeaderRangeRequested_TargetBlock = TargetBlock', BlobstreamXHeaderRangeRequested_Raw = log\<rparr>))))"

definition BlobstreamXHeaderRangeRequestedIterator_Next ::
  "('w, 'c, 't, 'x) bound_contract \<Rightarrow> BlobstreamXHeaderRangeRequestedIterator \<Rightarrow> (bool \<times> BlobstreamXHeaderRangeRequestedIterator) option" where
  "BlobstreamXHeaderRangeRequestedIterator_Next C = iterator_Next (unpack_BlobstreamXHeaderRangeRequested C)"

definition BlobstreamXHeaderRangeRequestedIterator_Error :: "BlobstreamXHeaderRangeRequestedIterator \<Rightarrow> err option" where
  "BlobstreamXHeaderRangeRequestedIterator_Error = iterator_Error"

definition BlobstreamXHeaderRangeRequestedIterator_Close :: "BlobstreamXHeaderRangeRequestedIterator \<Rightarrow> unit res \<times> BlobstreamXHeaderRangeRequestedIterator" where
  "BlobstreamXHeaderRangeRequestedIterator_Close = iterator_Close"

definition BlobstreamXFilterer_FilterHeaderRangeRequested ::
  "('w, 'c, 't, 'x) bound_contract BlobstreamXFilterer \<Rightarrow> FilterOpts \<Rightarrow> u64 list \<Rightarrow> bytes list \<Rightarrow> u64 list \<Rightarrow> BlobstreamXHeaderRangeRequestedIterator res" where
  "BlobstreamXFilterer_FilterHeaderRangeRequested c opts trustedBlock trustedHeader targetBlock =
     rbind (bc_FilterLogs (BlobstreamXFilterer_contract c) opts ''HeaderRangeRequested'' [map AUint64 trustedBlock, map AArray trustedHeader, map AUint64 targetBlock]) (\<lambda>logs.
     Inr (new_iterator ''HeaderRangeRequested'' logs))"

definition BlobstreamXFilterer_WatchHeaderRangeRequested ::
  "('w, 'c, 't, 'x) bound_contract BlobstreamXFilterer \<Rightarrow> WatchOpts \<Rightarrow> u64 list \<Rightarrow> bytes list \<Rightarrow> u64 list \<Rightarrow> (BlobstreamXHeaderRangeRequested list \<times> err option option) res" where
  "BlobstreamXFilterer_WatchHeaderRangeRequested c opts trustedBlock trustedHeader targetBlock =
     rbind (bc_WatchLogs (BlobstreamXFilterer_contract c) opts ''HeaderRangeRequested'' [map AUint64 trustedBlock, map AArray trustedHeader, map AUint64 targetBlock]) (\<lambda>turns.
     Inr (watch_logs (unpack_BlobstreamXHeaderRangeRequested (BlobstreamXFilterer_contract c) ''HeaderRangeRequested'') turns))"

definition BlobstreamXFilterer_ParseHeaderRangeRequested :: "('w, 'c, 't, 'x) bound_contract BlobstreamXFilterer \<Rightarrow> types_Log \<Rightarrow> BlobstreamXHeaderRangeRequested res" where
  "BlobstreamXFilterer_ParseHeaderRangeRequested c log = unpack_BlobstreamXHeaderRangeRequested (BlobstreamXFilterer_contract c) ''HeaderRangeRequested'' log"

record BlobstreamXInitialized =
  BlobstreamXInitialized_Version :: byte
  BlobstreamXInitialized_Raw :: types_Log

type_synonym BlobstreamXInitializedIterator = "BlobstreamXInitialized log_iterator"

definition unpack_BlobstreamXInitialized :: "('w, 'c, 't, 'x) bound_contract \<Rightarrow> BlobstreamXInitialized unpack" where
  "unpack_BlobstreamXInitialized C event log = rbind (bc_UnpackLog C event log) (\<lambda>vs.
     rbind (event_field vs 0 as_uint8) (\<lambda>Version'.
     Inr \<lparr>BlobstreamXInitialized_Version = Version', BlobstreamXInitialized_Raw = log\<rparr>))"

definition BlobstreamXInitializedIterator_Next ::
  "('w, 'c, 't, 'x) bound_contract \<Rightarrow> BlobstreamXInitializedIterator \<Rightarrow> (bool \<times> BlobstreamXInitializedIterator) option" where
  "BlobstreamXInitializedIterator_Next C = iterator_Next (unpack_BlobstreamXInitialized C)"

definition BlobstreamXInitializedIterator_Error :: "BlobstreamXInitializedIterator \<Rightarrow> err option" where
  "BlobstreamXInitializedIterator_Error = iterator_Error"

definition BlobstreamXInitializedIterator_Close :: "BlobstreamXInitializedIterator \<Rightarrow> unit res \<times> BlobstreamXInitializedIterator" where
  "BlobstreamXInitializedIterator_Close = iterator_Close"

definition BlobstreamXFilterer_FilterInitialized ::
  "('w, 'c, 't, 'x) bound_contract BlobstreamXFilterer \<Rightarrow> FilterOpts \<Rightarrow> BlobstreamXInitializedIterator res" where
  "BlobstreamXFilterer_FilterInitialized c opts =
     rbind (bc_FilterLogs (BlobstreamXFilterer_contract c) opts ''Initialized'' []) (\<lambda>logs.
     Inr (new_iterator ''Initialized'' logs))"

definition BlobstreamXFilterer_WatchInitialized ::
  "('w, 'c, 't, 'x) bound_contract BlobstreamXFilterer \<Rightarrow> WatchOpts \<Rightarrow> (BlobstreamXInitialized list \<times> err option option) res" where
  "BlobstreamXFilterer_WatchInitialized c opts =
     rbind (bc_WatchLogs (BlobstreamXFilterer_contract c) opts ''Initialized'' []) (\<lambda>turns.
     Inr (watch_logs (unpack_BlobstreamXInitialized (BlobstreamXFilterer_contract c) ''Initialized'') turns))"

definition BlobstreamXFilterer_ParseInitialized :: "('w, 'c, 't, 'x) bound_contract BlobstreamXFilterer \<Rightarrow> types_Log \<Rightarrow> BlobstreamXInitialized res" where
  "BlobstreamXFilterer_ParseInitialized c log = unpack_BlobstreamXInitialized (BlobstreamXFilterer_contract c) ''Initialized'' log"

record BlobstreamXNextHeaderRequested =
  BlobstreamXNextHeaderRequested_TrustedBlock :: u64
  BlobstreamXNextHeaderRequested_TrustedHeader :: bytes
  BlobstreamXNextHeaderRequested_Raw :: types_Log

type_synonym BlobstreamXNextHeaderRequestedIterator = "BlobstreamXNextHeaderRequested log_iterator"

definition unpack_BlobstreamXNextHeaderRequested :: "('w, 'c, 't, 'x) bound_contract \<Rightarrow> BlobstreamXNextHeaderRequested unpack" where
  "unpack_BlobstreamXNextHeaderRequested C event log = rbind (bc_UnpackLog C event log) (\<lambda>vs.
     rbind (event_field vs 0 as_uint64) (\<lambda>TrustedBlock'.
     rbind (event_field vs 1 as_array) (\<lambda>TrustedHeader'.
     Inr \<lparr>BlobstreamXNextHeaderRequested_TrustedBlock = TrustedBlock', BlobstreamXNextHeaderRequested_TrustedHeader = TrustedHeader', BlobstreamXNextHeaderRequested_Raw = log\<rparr>)))"

definition BlobstreamXNextHeaderRequestedIterator_Next ::
  "('w, 'c, 't, 'x) bound_contract \<Rightarrow> BlobstreamXNextHeaderRequestedIterator \<Rightarrow> (bool \<times> BlobstreamXNextHeaderRequestedIterator) option" where
  "BlobstreamXNextHeaderRequestedIterator_Next C = iterator_Next (unpack_BlobstreamXNextHeaderRequested C)"

definition BlobstreamXNextHeaderRequestedIterator_Error :: "BlobstreamXNextHeaderRequestedIterator \<Rightarrow> err option" where
  "BlobstreamXNextHeaderRequestedIterator_Error = iterator_Error"

definition BlobstreamXNextHeaderRequestedIterator_Close :: "BlobstreamXNextHeaderRequestedIterator \<Rightarrow> unit res \<times> BlobstreamXNextHeaderRequestedIterator" where
  "BlobstreamXNextHeaderRequestedIterator_Close = iterator_Close"

definition BlobstreamXFilterer_FilterNextHeaderRequested ::
  "('w, 'c, 't, 'x) bound_contract BlobstreamXFilterer \<Rightarrow> FilterOpts \<Rightarrow> u64 list \<Rightarrow> bytes list \<Rightarrow> BlobstreamXNextHeaderRequestedIterator res" where
  "BlobstreamXFilterer_FilterNextHeaderRequested c opts trustedBlock trustedHeader =
     rbind (bc_FilterLogs (BlobstreamXFilterer_contract c) opts ''NextHeaderRequested'' [map AUint64 trustedBlock, map AArray trustedHeader]) (\<lambda>logs.
     Inr (new_iterator ''NextHeaderRequested'' logs))"

definition BlobstreamXFilterer_WatchNextHeaderRequested ::
  "('w, 'c, 't, 'x) bound_contract BlobstreamXFilterer \<Rightarrow> WatchOpts \<Rightarrow> u64 list \<Rightarrow> bytes list \<Rightarrow> (BlobstreamXNextHeaderRequested list \<times> err option option) res" where
  "BlobstreamXFilterer_WatchNextHeaderRequested c opts trustedBlock trustedHeader =
     rbind (bc_WatchLogs (BlobstreamXFilterer_contract c) opts ''NextHeaderRequested'' [map AUint64 trustedBlock, map AArray trustedHeader]) (\<lambda>turns.
     Inr (watch_logs (unpack_BlobstreamXNextHeaderRequested (BlobstreamXFilterer_contract c) ''NextHeaderRequested'') turns))"

definition BlobstreamXFilterer_ParseNextHeaderRequested :: "('w, 'c, 't, 'x) bound_contract BlobstreamXFilterer \<Rightarrow> types_Log \<Rightarrow> BlobstreamXNextHeaderRequested res" where
  "BlobstreamXFilterer_ParseNextHeaderRequested c log = unpack_BlobstreamXNextHeaderRequested (BlobstreamXFilterer_contract c) ''NextHeaderRequested'' log"

record BlobstreamXRoleAdminChanged =
  BlobstreamXRoleAdminChanged_Role :: bytes
  BlobstreamXRoleAdminChanged_PreviousAdminRole :: bytes
  BlobstreamXRoleAdminChanged_NewAdminRole :: bytes
  BlobstreamXRoleAdminChanged_Raw :: types_Log

type_synonym BlobstreamXRoleAdminChangedIterator = "BlobstreamXRoleAdminChanged log_iterator"

definition unpack_BlobstreamXRoleAdminChanged :: "('w, 'c, 't, 'x) bound_contract \<Rightarrow> BlobstreamXRoleAdminChanged unpack" where
  "unpack_BlobstreamXRoleAdminChanged C event log = rbind (bc_UnpackLog C event log) (\<lambda>vs.
     rbind (event_field vs 0 as_array) (\<lambda>Role'.
     rbind (event_field vs 1 as_array) (\<lambda>PreviousAdminRole'.
     rbind (event_field vs 2 as_array) (\<lambda>NewAdminRole'.
     Inr \<lparr>BlobstreamXRoleAdminChanged_Role = Role', BlobstreamXRoleAdminChanged_PreviousAdminRole = PreviousAdminRole', BlobstreamXRoleAdminChanged_NewAdminRole = NewAdminRole', BlobstreamXRoleAdminChanged_Raw = log\<rparr>))))"

definition BlobstreamXRoleAdminChangedIterator_Next ::
  "('w, 'c, 't, 'x) bound_contract \<Rightarrow> BlobstreamXRoleAdminChangedIterator \<Rightarrow> (bool \<times> BlobstreamXRoleAdminChangedIterator) option" where
  "BlobstreamXRoleAdminChangedIterator_Next C = iterator_Next (unpack_BlobstreamXRoleAdminChanged C)"

definition BlobstreamXRoleAdminChangedIterator_Error :: "BlobstreamXRoleAdminChangedIterator \<Rightarrow> err option" where
  "BlobstreamXRoleAdminChangedIterator_Error = iterator_Error"

definition BlobstreamXRoleAdminChangedIterator_Close :: "BlobstreamXRoleAdminChangedIterator \<Rightarrow> unit res \<times> BlobstreamXRoleAdminChangedIterator" where
  "BlobstreamXRoleAdminChangedIterator_Close = iterator_Close"

definition BlobstreamXFilterer_FilterRoleAdminChanged ::
  "('w, 'c, 't, 'x) bound_contract BlobstreamXFilterer \<Rightarrow> FilterOpts \<Rightarrow> bytes list \<Rightarrow> bytes list \<Rightarrow> bytes list \<Rightarrow> BlobstreamXRoleAdminChangedIterator res" where
  "BlobstreamXFilterer_FilterRoleAdminChanged c opts role' previousAdminRole newAdminRole =
     rbind (bc_FilterLogs (BlobstreamXFilterer_contract c) opts ''RoleAdminChanged'' [map AArray role', map AArray previousAdminRole, map AArray newAdminRole]) (\<lambda>logs.
     Inr (new_iterator ''RoleAdminChanged'' logs))"

definition BlobstreamXFilterer_WatchRoleAdminChanged ::
  "('w, 'c, 't, 'x) bound_contract BlobstreamXFilterer \<Rightarrow> WatchOpts \<Rightarrow> bytes list \<Rightarrow> bytes list \<Rightarrow> bytes list \<Rightarrow> (BlobstreamXRoleAdminChanged list \<times> err option option) res" where
  "BlobstreamXFilterer_WatchRoleAdminChanged c opts role' previousAdminRole newAdminRole =
     rbind (bc_WatchLogs (BlobstreamXFilterer_contract c) opts ''RoleAdminChanged'' [map AArray role', map AArray previousAdminRole, map AArray newAdminRole]) (\<lambda>turns.
     Inr (watch_logs (unpack_BlobstreamXRoleAdminChanged (BlobstreamXFilterer_contract c) ''RoleAdminChanged'') turns))"

definition BlobstreamXFilterer_ParseRoleAdminChanged :: "('w, 'c, 't, 'x) bound_contract BlobstreamXFilterer \<Rightarrow> types_Log \<Rightarrow> BlobstreamXRoleAdminChanged res" where
  "BlobstreamXFilterer_ParseRoleAdminChanged c log = unpack_BlobstreamXRoleAdminChanged (BlobstreamXFilterer_contract c) ''RoleAdminChanged'' log"

record BlobstreamXRoleGranted =
  BlobstreamXRoleGranted_Role :: bytes
  BlobstreamXRoleGranted_Account :: address
  BlobstreamXRoleGranted_Sender :: address
  BlobstreamXRoleGranted_Raw :: types_Log

type_synonym BlobstreamXRoleGrantedIterator = "BlobstreamXRoleGranted log_iterator"

definition unpack_BlobstreamXRoleGranted :: "('w, 'c, 't, 'x) bound_contract \<Rightarrow> BlobstreamXRoleGranted unpack" where
  "unpack_BlobstreamXRoleGranted C event log = rbind (bc_UnpackLog C event log) (\<lambda>vs.
     rbind (event_field vs 0 as_array) (\<lambda>Role'.
     rbind (event_field vs 1 as_address) (\<lambda>Account'.
     rbind (event_field vs 2 as_address) (\<lambda>Sender'.
     Inr \<lparr>BlobstreamXRoleGranted_Role = Role', BlobstreamXRoleGranted_Account = Account', BlobstreamXRoleGranted_Sender = Sender', BlobstreamXRoleGranted_Raw = log\<rparr>))))"

definition BlobstreamXRoleGrantedIterator_Next ::
  "('w, 'c, 't, 'x) bound_contract \<Rightarrow> BlobstreamXRoleGrantedIterator \<Rightarrow> (bool \<times> BlobstreamXRoleGrantedIterator) option" where
  "BlobstreamXRoleGrantedIterator_Next C = iterator_Next (unpack_BlobstreamXRoleGranted C)"

definition BlobstreamXRoleGrantedIterator_Error :: "BlobstreamXRoleGrantedIterator \<Rightarrow> err option" where
  "BlobstreamXRoleGrantedIterator_Error = iterator_Error"

definition BlobstreamXRoleGrantedIterator_Close :: "BlobstreamXRoleGrantedIterator \<Rightarrow> unit res \<times> BlobstreamXRoleGrantedIterator" where
  "BlobstreamXRoleGrantedIterator_Close = iterator_Close"

definition BlobstreamXFilterer_FilterRoleGranted ::
  "('w, 'c, 't, 'x) bound_contract BlobstreamXFilterer \<Rightarrow> FilterOpts \<Rightarrow> bytes list \<Rightarrow> address list \<Rightarrow> address list \<Rightarrow> BlobstreamXRoleGrantedIterator res" where
  "BlobstreamXFilterer_FilterRoleGranted c opts role' account' sender =
     rbind (bc_FilterLogs (BlobstreamXFilterer_contract c) opts ''RoleGranted'' [map AArray role', map AAddress account', map AAddress sender]) (\<lambda>logs.
     Inr (new_iterator ''RoleGranted'' logs))"

definition BlobstreamXFilterer_WatchRoleGranted ::
  "('w, 'c, 't, 'x) bound_contract BlobstreamXFilterer \<Rightarrow> WatchOpts \<Rightarrow> bytes list \<Rightarrow> address list \<Rightarrow> address list \<Rightarrow> (BlobstreamXRoleGranted list \<times> err option option) res" where
  "BlobstreamXFilterer_WatchRoleGranted c opts role' account' sender =
     rbind (bc_WatchLogs (BlobstreamXFilterer_contract c) opts ''RoleGranted'' [map AArray role', map AAddress account', map AAddress sender]) (\<lambda>turns.
     Inr (watch_logs (unpack_BlobstreamXRoleGranted (BlobstreamXFilterer_contract c) ''RoleGranted'') turns))"

definition BlobstreamXFilterer_ParseRoleGranted :: "('w, 'c, 't, 'x) bound_contract BlobstreamXFilterer \<Rightarrow> types_Log \<Rightarrow> BlobstreamXRoleGranted res" where
  "BlobstreamXFilterer_ParseRoleGranted c log = unpack_BlobstreamXRoleGranted (BlobstreamXFilterer_contract c) ''RoleGranted'' log"

record BlobstreamXRoleRevoked =
  BlobstreamXRoleRevoked_Role :: bytes
  BlobstreamXRoleRevoked_Account :: address
  BlobstreamXRoleRevoked_Sender :: address
  BlobstreamXRoleRevoked_Raw :: types_Log

type_synonym BlobstreamXRoleRevokedIterator = "BlobstreamXRoleRevoked log_iterator"

definition unpack_BlobstreamXRoleRevoked :: "('w, 'c, 't, 'x) bound_contract \<Rightarrow> BlobstreamXRoleRevoked unpack" where
  "unpack_BlobstreamXRoleRevoked C event log = rbind (bc_UnpackLog C event log) (\<lambda>vs.
     rbind (event_field vs 0 as_array) (\<lambda>Role'.
     rbind (event_field vs 1 as_address) (\<lambda>Account'.
     rbind (event_field vs 2 as_address) (\<lambda>Sender'.
     Inr \<lparr>BlobstreamXRoleRevoked_Role = Role', BlobstreamXRoleRevoked_Account = Account', BlobstreamXRoleRevoked_Sender = Sender', BlobstreamXRoleRevoked_Raw = log\<rparr>))))"

definition BlobstreamXRoleRevokedIterator_Next ::
  "('w, 'c, 't, 'x) bound_contract \<Rightarrow> BlobstreamXRoleRevokedIterator \<Rightarrow> (bool \<times> BlobstreamXRoleRevokedIterator) option" where
  "BlobstreamXRoleRevokedIterator_Next C = iterator_Next (unpack_BlobstreamXRoleRevoked C)"

definition BlobstreamXRoleRevokedIterator_Error :: "BlobstreamXRoleRevokedIterator \<Rightarrow> err option" where
  "BlobstreamXRoleRevokedIterator_Error = iterator_Error"

definition BlobstreamXRoleRevokedIterator_Close :: "BlobstreamXRoleRevokedIterator \<Rightarrow> unit res \<times> BlobstreamXRoleRevokedIterator" where
  "BlobstreamXRoleRevokedIterator_Close = iterator_Close"

definition BlobstreamXFilterer_FilterRoleRevoked ::
  "('w, 'c, 't, 'x) bound_contract BlobstreamXFilterer \<Rightarrow> FilterOpts \<Rightarrow> bytes list \<Rightarrow> address list \<Rightarrow> address list \<Rightarrow> BlobstreamXRoleRevokedIterator res" where
  "BlobstreamXFilterer_FilterRoleRevoked c opts role' account' sender =
     rbind (bc_FilterLogs (BlobstreamXFilterer_contract c) opts ''RoleRevoked'' [map AArray role', map AAddress account', map AAddress sender]) (\<lambda>logs.
     Inr (new_iterator ''RoleRevoked'' logs))"

definition BlobstreamXFilterer_WatchRoleRevoked ::
  "('w, 'c, 't, 'x) bound_contract BlobstreamXFilterer \<Rightarrow> WatchOpts \<Rightarrow> bytes list \<Rightarrow> address list \<Rightarrow> address list \<Rightarrow> (BlobstreamXRoleRevoked list \<times> err option option) res" where
  "BlobstreamXFilterer_WatchRoleRevoked c opts role' account' sender =
     rbind (bc_WatchLogs (BlobstreamXFilterer_contract c) opts ''RoleRevoked'' [map AArray role', map AAddress account', map AAddress sender]) (\<lambda>turns.
     Inr (watch_logs (unpack_BlobstreamXRoleRevoked (BlobstreamXFilterer_contract c) ''RoleRevoked'') turns))"

definition BlobstreamXFilterer_ParseRoleRevoked :: "('w, 'c, 't, 'x) bound_contract BlobstreamXFilterer \<Rightarrow> types_Log \<Rightarrow> BlobstreamXRoleRevoked res" where
  "BlobstreamXFilterer_ParseRoleRevoked c log = unpack_BlobstreamXRoleRevoked (BlobstreamXFilterer_contract c) ''RoleRevoked'' log"

record BlobstreamXSkipRequested =
  BlobstreamXSkipRequested_TrustedBlock :: u64
  BlobstreamXSkipRequested_TrustedHeader :: bytes
  BlobstreamXSkipRequested_TargetBlock :: u64
  BlobstreamXSkipRequested_Raw :: types_Log

type_synonym BlobstreamXSkipRequestedIterator = "BlobstreamXSkipRequested log_iterator"

definition unpack_BlobstreamXSkipRequested :: "('w, 'c, 't, 'x) bound_contract \<Rightarrow> BlobstreamXSkipRequested unpack" where
  "unpack_BlobstreamXSkipRequested C event log = rbind (bc_UnpackLog C event log) (\<lambda>vs.
     rbind (event_field vs 0 as_uint64) (\<lambda>TrustedBlock'.
     rbind (event_field vs 1 as_array) (\<lambda>TrustedHeader'.
     rbind (event_field vs 2 as_uint64) (\<lambda>TargetBlock'.
     Inr \<lparr>BlobstreamXSkipRequested_TrustedBlock = TrustedBlock', BlobstreamXSkipRequested_TrustedHeader = TrustedHeader', BlobstreamXSkipRequested_TargetBlock = TargetBlock', BlobstreamXSkipRequested_Raw = log\<rparr>))))"

definition BlobstreamXSkipRequestedIterator_Next ::
  "('w, 'c, 't, 'x) bound_contract \<Rightarrow> BlobstreamXSkipRequestedIterator \<Rightarrow> (bool \<times> BlobstreamXSkipRequestedIterator) option" where
  "BlobstreamXSkipRequestedIterator_Next C = iterator_Next (unpack_BlobstreamXSkipRequested C)"

definition BlobstreamXSkipRequestedIterator_Error :: "BlobstreamXSkipRequestedIterator \<Rightarrow> err option" where
  "BlobstreamXSkipRequestedIterator_Error = iterator_Error"

definition BlobstreamXSkipRequestedIterator_Close :: "BlobstreamXSkipRequestedIterator \<Rightarrow> unit res \<times> BlobstreamXSkipRequestedIterator" where
  "BlobstreamXSkipRequestedIterator_Close = iterator_Close"

definition BlobstreamXFilterer_FilterSkipRequested ::
  "('w, 'c, 't, 'x) bound_contract BlobstreamXFilterer \<Rightarrow> FilterOpts \<Rightarrow> u64 list \<Rightarrow> bytes list \<Rightarrow> u64 list \<Rightarrow> BlobstreamXSkipRequestedIterator res" where
  "BlobstreamXFilterer_FilterSkipRequested c opts trustedBlock trustedHeader targetBlock =
     rbind (bc_FilterLogs (BlobstreamXFilterer_contract c) opts ''SkipRequested'' [map AUint64 trustedBlock, map AArray trustedHeader, map AUint64 targetBlock]) (\<lambda>logs.
     Inr (new_iterator ''SkipRequested'' logs))"

definition BlobstreamXFilterer_WatchSkipRequested ::
  "('w, 'c, 't, 'x) bound_contract BlobstreamXFilterer \<Rightarrow> WatchOpts \<Rightarrow> u64 list \<Rightarrow> bytes list \<Rightarrow> u64 list \<Rightarrow> (BlobstreamXSkipRequested list \<times> err option option) res" where
  "BlobstreamXFilterer_WatchSkipRequested c opts trustedBlock trustedHeader targetBlock =
     rbind (bc_WatchLogs (BlobstreamXFilterer_contract c) opts ''SkipRequested'' [map AUint64 trustedBlock, map AArray trustedHeader, map AUint64 targetBlock]) (\<lambda>turns.
     Inr (watch_logs (unpack_BlobstreamXSkipRequested (BlobstreamXFilterer_contract c) ''SkipRequested'') turns))"

definition BlobstreamXFilterer_ParseSkipRequested :: "('w, 'c, 't, 'x) bound_contract BlobstreamXFilterer \<Rightarrow> types_Log \<Rightarrow> BlobstreamXSkipRequested res" where
  "BlobstreamXFilterer_ParseSkipRequested c log = unpack_BlobstreamXSkipRequested (BlobstreamXFilterer_contract c) ''SkipRequested'' log"

record BlobstreamXStepRequested =
  BlobstreamXStepRequested_TrustedBlock :: u64
  BlobstreamXStepRequested_TrustedHeader :: bytes
  BlobstreamXStepRequested_Raw :: types_Log

type_synonym BlobstreamXStepRequestedIterator = "BlobstreamXStepRequested log_iterator"

definition unpack_BlobstreamXStepRequested :: "('w, 'c, 't, 'x) bound_contract \<Rightarrow> BlobstreamXStepRequested unpack" where
  "unpack_BlobstreamXStepRequested C event log = rbind (bc_UnpackLog C event log) (\<lambda>vs.
     rbind (event_field vs 0 as_uint64) (\<lambda>TrustedBlock'.
     rbind (event_field vs 1 as_array) (\<lambda>TrustedHeader'.
     Inr \<lparr>BlobstreamXStepRequested_TrustedBlock = TrustedBlock', BlobstreamXStepRequested_TrustedHeader = TrustedHeader', BlobstreamXStepRequested_Raw = log\<rparr>)))"

definition BlobstreamXStepRequestedIterator_Next ::
  "('w, 'c, 't, 'x) bound_contract \<Rightarrow> BlobstreamXStepRequestedIterator \<Rightarrow> (bool \<times> BlobstreamXStepRequestedIterator) option" where
  "BlobstreamXStepRequestedIterator_Next C = iterator_Next (unpack_BlobstreamXStepRequested C)"

definition BlobstreamXStepRequestedIterator_Error :: "BlobstreamXStepRequestedIterator \<Rightarrow> err option" where
  "BlobstreamXStepRequestedIterator_Error = iterator_Error"

definition BlobstreamXStepRequestedIterator_Close :: "BlobstreamXStepRequestedIterator \<Rightarrow> unit res \<times> BlobstreamXStepRequestedIterator" where
  "BlobstreamXStepRequestedIterator_Close = iterator_Close"

definition BlobstreamXFilterer_FilterStepRequested ::
  "('w, 'c, 't, 'x) bound_contract BlobstreamXFilterer \<Rightarrow> FilterOpts \<Rightarrow> u64 list \<Rightarrow> bytes list \<Rightarrow> BlobstreamXStepRequestedIterator res" where
  "BlobstreamXFilterer_FilterStepRequested c opts trustedBlock trustedHeader =
     rbind (bc_FilterLogs (BlobstreamXFilterer_contract c) opts ''StepRequested'' [map AUint64 trustedBlock, map AArray trustedHeader]) (\<lambda>logs.
     Inr (new_iterator ''StepRequested'' logs))"

definition BlobstreamXFilterer_WatchStepRequested ::
  "('w, 'c, 't, 'x) bound_contract BlobstreamXFilterer \<Rightarrow> WatchOpts \<Rightarrow> u64 list \<Rightarrow> bytes list \<Rightarrow> (BlobstreamXStepRequested list \<times> err option option) res" where
  "BlobstreamXFilterer_WatchStepRequested c opts trustedBlock trustedHeader =
     rbind (bc_WatchLogs (BlobstreamXFilterer_contract c) opts ''StepRequested'' [map AUint64 trustedBlock, map AArray trustedHeader]) (\<lambda>turns.
     Inr (watch_logs (unpack_BlobstreamXStepRequested (BlobstreamXFilterer_contract c) ''StepRequested'') turns))"

definition BlobstreamXFilterer_ParseStepRequested :: "('w, 'c, 't, 'x) bound_contract BlobstreamXFilterer \<Rightarrow> types_Log \<Rightarrow> BlobstreamXStepRequested res" where
  "BlobstreamXFilterer_ParseStepRequested c log = unpack_BlobstreamXStepRequested (BlobstreamXFilterer_contract c) ''StepRequested'' log"

record BlobstreamXUpgraded =
  BlobstreamXUpgraded_Implementation :: address
  BlobstreamXUpgraded_Raw :: types_Log

type_synonym BlobstreamXUpgradedIterator = "BlobstreamXUpgraded log_iterator"

definition unpack_BlobstreamXUpgraded :: "('w, 'c, 't, 'x) bound_contract \<Rightarrow> BlobstreamXUpgraded unpack" where
  "unpack_BlobstreamXUpgraded C event log = rbind (bc_UnpackLog C event log) (\<lambda>vs.
     rbind (event_field vs 0 as_address) (\<lambda>Implementation'.
     Inr \<lparr>BlobstreamXUpgraded_Implementation = Implementation', BlobstreamXUpgraded_Raw = log\<rparr>))"

definition BlobstreamXUpgradedIterator_Next ::
  "('w, 'c, 't, 'x) bound_contract \<Rightarrow> BlobstreamXUpgradedIterator \<Rightarrow> (bool \<times> BlobstreamXUpgradedIterator) option" where
  "BlobstreamXUpgradedIterator_Next C = iterator_Next (unpack_BlobstreamXUpgraded C)"

definition BlobstreamXUpgradedIterator_Error :: "BlobstreamXUpgradedIterator \<Rightarrow> err option" where
  "BlobstreamXUpgradedIterator_Error = iterator_Error"

definition BlobstreamXUpgradedIterator_Close :: "BlobstreamXUpgradedIterator \<Rightarrow> unit res \<times> BlobstreamXUpgradedIterator" where
  "BlobstreamXUpgradedIterator_Close = iterator_Close"

definition BlobstreamXFilterer_FilterUpgraded ::
  "('w, 'c, 't, 'x) bound_contract BlobstreamXFilterer \<Rightarrow> FilterOpts \<Rightarrow> address list \<Rightarrow> BlobstreamXUpgradedIterator res" where
  "BlobstreamXFilterer_FilterUpgraded c opts implementation =
     rbind (bc_FilterLogs (BlobstreamXFilterer_contract c) opts ''Upgraded'' [map AAddress implementation]) (\<lambda>logs.
     Inr (new_iterator ''Upgraded'' logs))"

definition BlobstreamXFilterer_WatchUpgraded ::
  "('w, 'c, 't, 'x) bound_contract BlobstreamXFilterer \<Rightarrow> WatchOpts \<Rightarrow> address list \<Rightarrow> (BlobstreamXUpgraded list \<times> err option option) res" where
  "BlobstreamXFilterer_WatchUpgraded c opts implementation =
     rbind (bc_WatchLogs (BlobstreamXFilterer_contract c) opts ''Upgraded'' [map AAddress implementation]) (\<lambda>turns.
     Inr (watch_logs (unpack_BlobstreamXUpgraded (BlobstreamXFilterer_contract c) ''Upgraded'') turns))"

definition BlobstreamXFilterer_ParseUpgraded :: "('w, 'c, 't, 'x) bound_contract BlobstreamXFilterer \<Rightarrow> types_Log \<Rightarrow> BlobstreamXUpgraded res" where
  "BlobstreamXFilterer_ParseUpgraded c log = unpack_BlobstreamXUpgraded (BlobstreamXFilterer_contract c) ''Upgraded'' log"

end
