(* ===== verification/BindInputs.thy ===== *)
theory BindInputs
  imports ContractRuntime
begin

text \<open>
  \<open>internal/contracts/inputs.go\<close>: the generated binding of the encodings of inputs. Every method is the
  call of its bound contract with its arguments boxed; every event has the iterator, the subscription
  and the parser of \<open>ContractRuntime\<close> with its own unpacking.
\<close>

section \<open>The structs of the binding\<close>

record 'b InputsCaller =
  InputsCaller_contract :: 'b

record 'b InputsTransactor =
  InputsTransactor_contract :: 'b

record 'b InputsFilterer =
  InputsFilterer_contract :: 'b

record 'b Inputs =
  Inputs_Caller :: "'b InputsCaller"
  Inputs_Transactor :: "'b InputsTransactor"
  Inputs_Filterer :: "'b InputsFilterer"

record ('b, 'c, 't) InputsSession =
  InputsSession_Contract :: "'b Inputs"
  InputsSession_CallOpts :: 'c
  InputsSession_TransactOpts :: 't

record ('b, 'c) InputsCallerSession =
  InputsCallerSession_Contract :: "'b InputsCaller"
  InputsCallerSession_CallOpts :: 'c

record ('b, 't) InputsTransactorSession =
  InputsTransactorSession_Contract :: "'b InputsTransactor"
  InputsTransactorSession_TransactOpts :: 't

record 'b InputsRaw =
  InputsRaw_Contract :: "'b Inputs"

record 'b InputsCallerRaw =
  InputsCallerRaw_Contract :: "'b InputsCaller"

record 'b InputsTransactorRaw =
  InputsTransactorRaw_Contract :: "'b InputsTransactor"

section \<open>Making one\<close>

definition bindInputs ::
  "('k, 'abi, 'b) bind_lib \<Rightarrow> address \<Rightarrow> 'k option \<Rightarrow> 'k option \<Rightarrow> 'k option \<Rightarrow> 'b res" where
  "bindInputs = bind_contract"

definition of_contract_Inputs :: "'b \<Rightarrow> 'b Inputs" where
  "of_contract_Inputs contract = \<lparr>Inputs_Caller = \<lparr>InputsCaller_contract = contract\<rparr>,
     Inputs_Transactor = \<lparr>InputsTransactor_contract = contract\<rparr>, Inputs_Filterer = \<lparr>InputsFilterer_contract = contract\<rparr>\<rparr>"

definition NewInputs :: "('k, 'abi, 'b) bind_lib \<Rightarrow> address \<Rightarrow> 'k \<Rightarrow> 'b Inputs res" where
  "NewInputs L addr backend =
     rbind (bindInputs L addr (Some backend) (Some backend) (Some backend)) (\<lambda>contract.
     Inr (of_contract_Inputs contract))"

definition NewInputsCaller :: "('k, 'abi, 'b) bind_lib \<Rightarrow> address \<Rightarrow> 'k \<Rightarrow> 'b InputsCaller res" where
  "NewInputsCaller L addr caller = rbind (bindInputs L addr (Some caller) None None) (\<lambda>contract.
     Inr \<lparr>InputsCaller_contract = contract\<rparr>)"

definition NewInputsTransactor :: "('k, 'abi, 'b) bind_lib \<Rightarrow> address \<Rightarrow> 'k \<Rightarrow> 'b InputsTransactor res" where
  "NewInputsTransactor L addr transactor = rbind (bindInputs L addr None (Some transactor) None) (\<lambda>contract.
     Inr \<lparr>InputsTransactor_contract = contract\<rparr>)"

definition NewInputsFilterer :: "('k, 'abi, 'b) bind_lib \<Rightarrow> address \<Rightarrow> 'k \<Rightarrow> 'b InputsFilterer res" where
  "NewInputsFilterer L addr filterer = rbind (bindInputs L addr None None (Some filterer)) (\<lambda>contract.
     Inr \<lparr>InputsFilterer_contract = contract\<rparr>)"

section \<open>Calls by name\<close>

definition InputsRaw_Call ::
  "('w, 'c, 't, 'x) bound_contract InputsRaw \<Rightarrow> 'c \<Rightarrow> go_any list \<Rightarrow> string \<Rightarrow> go_any list \<Rightarrow> go_any list res" where
  "InputsRaw_Call c opts result method params = bc_Call (InputsCaller_contract (Inputs_Caller (InputsRaw_Contract c))) opts result method params"

definition InputsRaw_Transfer :: "('w, 'c, 't, 'x) bound_contract InputsRaw \<Rightarrow> 't \<Rightarrow> ('w, 'x) comp" where
  "InputsRaw_Transfer c opts = bc_Transfer (InputsTransactor_contract (Inputs_Transactor (InputsRaw_Contract c))) opts"

definition InputsRaw_Transact ::
  "('w, 'c, 't, 'x) bound_contract InputsRaw \<Rightarrow> 't \<Rightarrow> string \<Rightarrow> go_any list \<Rightarrow> ('w, 'x) comp" where
  "InputsRaw_Transact c opts method params = bc_Transact (InputsTransactor_contract (Inputs_Transactor (InputsRaw_Contract c))) opts method params"

definition InputsCallerRaw_Call ::
  "('w, 'c, 't, 'x) bound_contract InputsCallerRaw \<Rightarrow> 'c \<Rightarrow> go_any list \<Rightarrow> string \<Rightarrow> go_any list \<Rightarrow> go_any list res" where
  "InputsCallerRaw_Call c opts result method params = bc_Call (InputsCaller_contract (InputsCallerRaw_Contract c)) opts result method params"

definition InputsTransactorRaw_Transfer :: "('w, 'c, 't, 'x) bound_contract InputsTransactorRaw \<Rightarrow> 't \<Rightarrow> ('w, 'x) comp" where
  "InputsTransactorRaw_Transfer c opts = bc_Transfer (InputsTransactor_contract (InputsTransactorRaw_Contract c)) opts"

definition InputsTransactorRaw_Transact ::
  "('w, 'c, 't, 'x) bound_contract InputsTransactorRaw \<Rightarrow> 't \<Rightarrow> string \<Rightarrow> go_any list \<Rightarrow> ('w, 'x) comp" where
  "InputsTransactorRaw_Transact c opts method params = bc_Transact (InputsTransactor_contract (InputsTransactorRaw_Contract c)) opts method params"

section \<open>Transactions\<close>

definition InputsTransactor_EvmAdvance ::
  "('w, 'c, 't, 'x) bound_contract InputsTransactor \<Rightarrow> 't \<Rightarrow> int \<Rightarrow> address \<Rightarrow> address \<Rightarrow> int \<Rightarrow> int \<Rightarrow> int \<Rightarrow> int \<Rightarrow> bytes \<Rightarrow> ('w, 'x) comp" where
  "InputsTransactor_EvmAdvance c opts chainId appContract msgSender blockNumber blockTimestamp prevRandao index' payload' =
     bc_Transact (InputsTransactor_contract c) opts ''EvmAdvance'' [ABig chainId, AAddress appContract, AAddress msgSender, ABig blockNumber, ABig blockTimestamp, ABig prevRandao, ABig index', ABytes payload']"

definition InputsSession_EvmAdvance ::
  "(('w, 'c, 't, 'x) bound_contract, 'c, 't) InputsSession \<Rightarrow> int \<Rightarrow> address \<Rightarrow> address \<Rightarrow> int \<Rightarrow> int \<Rightarrow> int \<Rightarrow> int \<Rightarrow> bytes \<Rightarrow> ('w, 'x) comp" where
  "InputsSession_EvmAdvance s chainId appContract msgSender blockNumber blockTimestamp prevRandao index' payload' =
     InputsTransactor_EvmAdvance (Inputs_Transactor (InputsSession_Contract s)) (InputsSession_TransactOpts s) chainId appContract msgSender blockNumber blockTimestamp prevRandao index' payload'"

definition InputsTransactorSession_EvmAdvance ::
  "(('w, 'c, 't, 'x) bound_contract, 't) InputsTransactorSession \<Rightarrow> int \<Rightarrow> address \<Rightarrow> address \<Rightarrow> int \<Rightarrow> int \<Rightarrow> int \<Rightarrow> int \<Rightarrow> bytes \<Rightarrow> ('w, 'x) comp" where
  "InputsTransactorSession_EvmAdvance s chainId appContract msgSender blockNumber blockTimestamp prevRandao index' payload' =
     InputsTransactor_EvmAdvance (InputsTransactorSession_Contract s) (InputsTransactorSession_TransactOpts s) chainId appContract msgSender blockNumber blockTimestamp prevRandao index' payload'"

end
