(* ===== verification/BindOutputs.thy ===== *)
theory BindOutputs
  imports ContractRuntime
begin

text \<open>
  \<open>internal/contracts/outputs.go\<close>: the generated binding of the encodings of outputs. Every method is the
  call of its bound contract with its arguments boxed; every event has the iterator, the subscription
  and the parser of \<open>ContractRuntime\<close> with its own unpacking.
\<close>

section \<open>The structs of the binding\<close>

record 'b OutputsCaller =
  OutputsCaller_contract :: 'b

record 'b OutputsTransactor =
  OutputsTransactor_contract :: 'b

record 'b OutputsFilterer =
  OutputsFilterer_contract :: 'b

record 'b Outputs =
  Outputs_Caller :: "'b OutputsCaller"
  Outputs_Transactor :: "'b OutputsTransactor"
  Outputs_Filterer :: "'b OutputsFilterer"

record ('b, 'c, 't) OutputsSession =
  OutputsSession_Contract :: "'b Outputs"
  OutputsSession_CallOpts :: 'c
  OutputsSession_TransactOpts :: 't

record ('b, 'c) OutputsCallerSession =
  OutputsCallerSession_Contract :: "'b OutputsCaller"
  OutputsCallerSession_CallOpts :: 'c

record ('b, 't) OutputsTransactorSession =
  OutputsTransactorSession_Contract :: "'b OutputsTransactor"
  OutputsTransactorSession_TransactOpts :: 't

record 'b OutputsRaw =
  OutputsRaw_Contract :: "'b Outputs"

record 'b OutputsCallerRaw =
  OutputsCallerRaw_Contract :: "'b OutputsCaller"

record 'b OutputsTransactorRaw =
  OutputsTransactorRaw_Contract :: "'b OutputsTransactor"

section \<open>Making one\<close>

definition bindOutputs ::
  "('k, 'abi, 'b) bind_lib \<Rightarrow> address \<Rightarrow> 'k option \<Rightarrow> 'k option \<Rightarrow> 'k option \<Rightarrow> 'b res" where
  "bindOutputs = bind_contract"

definition of_contract_Outputs :: "'b \<Rightarrow> 'b Outputs" where
  "of_contract_Outputs contract = \<lparr>Outputs_Caller = \<lparr>OutputsCaller_contract = contract\<rparr>,
     Outputs_Transactor = \<lparr>OutputsTransactor_contract = contract\<rparr>, Outputs_Filterer = \<lparr>OutputsFilterer_contract = contract\<rparr>\<rparr>"

definition NewOutputs :: "('k, 'abi, 'b) bind_lib \<Rightarrow> address \<Rightarrow> 'k \<Rightarrow> 'b Outputs res" where
  "NewOutputs L addr backend =
     rbind (bindOutputs L addr (Some backend) (Some backend) (Some backend)) (\<lambda>contract.
     Inr (of_contract_Outputs contract))"

definition NewOutputsCaller :: "('k, 'abi, 'b) bind_lib \<Rightarrow> address \<Rightarrow> 'k \<Rightarrow> 'b OutputsCaller res" where
  "NewOutputsCaller L addr caller = rbind (bindOutputs L addr (Some caller) None None) (\<lambda>contract.
     Inr \<lparr>OutputsCaller_contract = contract\<rparr>)"

definition NewOutputsTransactor :: "('k, 'abi, 'b) bind_lib \<Rightarrow> address \<Rightarrow> 'k \<Rightarrow> 'b OutputsTransactor res" where
  "NewOutputsTransactor L addr transactor = rbind (bindOutputs L addr None (Some transactor) None) (\<lambda>contract.
     Inr \<lparr>OutputsTransactor_contract = contract\<rparr>)"

definition NewOutputsFilterer :: "('k, 'abi, 'b) bind_lib \<Rightarrow> address \<Rightarrow> 'k \<Rightarrow> 'b OutputsFilterer res" where
  "NewOutputsFilterer L addr filterer = rbind (bindOutputs L addr None None (Some filterer)) (\<lambda>contract.
     Inr \<lparr>OutputsFilterer_contract = contract\<rparr>)"

section \<open>Calls by name\<close>

definition OutputsRaw_Call ::
  "('w, 'c, 't, 'x) bound_contract OutputsRaw \<Rightarrow> 'c \<Rightarrow> go_any list \<Rightarrow> string \<Rightarrow> go_any list \<Rightarrow> go_any list res" where
  "OutputsRaw_Call c opts result method params = bc_Call (OutputsCaller_contract (Outputs_Caller (OutputsRaw_Contract c))) opts result method params"

definition OutputsRaw_Transfer :: "('w, 'c, 't, 'x) bound_contract OutputsRaw \<Rightarrow> 't \<Rightarrow> ('w, 'x) comp" where
  "OutputsRaw_Transfer c opts = bc_Transfer (OutputsTransactor_contract (Outputs_Transactor (OutputsRaw_Contract c))) opts"

definition OutputsRaw_Transact ::
  "('w, 'c, 't, 'x) bound_contract OutputsRaw \<Rightarrow> 't \<Rightarrow> string \<Rightarrow> go_any list \<Rightarrow> ('w, 'x) comp" where
  "OutputsRaw_Transact c opts method params = bc_Transact (OutputsTransactor_contract (Outputs_Transactor (OutputsRaw_Contract c))) opts method params"

definition OutputsCallerRaw_Call ::
  "('w, 'c, 't, 'x) bound_contract OutputsCallerRaw \<Rightarrow> 'c \<Rightarrow> go_any list \<Rightarrow> string \<Rightarrow> go_any list \<Rightarrow> go_any list res" where
  "OutputsCallerRaw_Call c opts result method params = bc_Call (OutputsCaller_contract (OutputsCallerRaw_Contract c)) opts result method params"

definition OutputsTransactorRaw_Transfer :: "('w, 'c, 't, 'x) bound_contract OutputsTransactorRaw \<Rightarrow> 't \<Rightarrow> ('w, 'x) comp" where
  "OutputsTransactorRaw_Transfer c opts = bc_Transfer (OutputsTransactor_contract (OutputsTransactorRaw_Contract c)) opts"

definition OutputsTransactorRaw_Transact ::
  "('w, 'c, 't, 'x) bound_contract OutputsTransactorRaw \<Rightarrow> 't \<Rightarrow> string \<Rightarrow> go_any list \<Rightarrow> ('w, 'x) comp" where
  "OutputsTransactorRaw_Transact c opts method params = bc_Transact (OutputsTransactor_contract (OutputsTransactorRaw_Contract c)) opts method params"

section \<open>Transactions\<close>

definition OutputsTransactor_DelegateCallVoucher ::
  "('w, 'c, 't, 'x) bound_contract OutputsTransactor \<Rightarrow> 't \<Rightarrow> address \<Rightarrow> bytes \<Rightarrow> ('w, 'x) comp" where
  "OutputsTransactor_DelegateCallVoucher c opts destination payload' =
     bc_Transact (OutputsTransactor_contract c) opts ''DelegateCallVoucher'' [AAddress destination, ABytes payload']"

definition OutputsSession_DelegateCallVoucher ::
  "(('w, 'c, 't, 'x) bound_contract, 'c, 't) OutputsSession \<Rightarrow> address \<Rightarrow> bytes \<Rightarrow> ('w, 'x) comp" where
  "OutputsSession_DelegateCallVoucher s destination payload' =
     OutputsTransactor_DelegateCallVoucher (Outputs_Transactor (OutputsSession_Contract s)) (OutputsSession_TransactOpts s) destination payload'"

definition OutputsTransactorSession_DelegateCallVoucher ::
  "(('w, 'c, 't, 'x) bound_contract, 't) OutputsTransactorSession \<Rightarrow> address \<Rightarrow> bytes \<Rightarrow> ('w, 'x) comp" where
  "OutputsTransactorSession_DelegateCallVoucher s destination payload' =
     OutputsTransactor_DelegateCallVoucher (OutputsTransactorSession_Contract s) (OutputsTransactorSession_TransactOpts s) destination payload'"

definition OutputsTransactor_Notice ::
  "('w, 'c, 't, 'x) bound_contract OutputsTransactor \<Rightarrow> 't \<Rightarrow> bytes \<Rightarrow> ('w, 'x) comp" where
  "OutputsTransactor_Notice c opts payload' =
     bc_Transact (OutputsTransactor_contract c) opts ''Notice'' [ABytes payload']"

definition OutputsSession_Notice ::
  "(('w, 'c, 't, 'x) bound_contract, 'c, 't) OutputsSession \<Rightarrow> bytes \<Rightarrow> ('w, 'x) comp" where
  "OutputsSession_Notice s payload' =
     OutputsTransactor_Notice (Outputs_Transactor (OutputsSession_Contract s)) (OutputsSession_TransactOpts s) payload'"

definition OutputsTransactorSession_Notice ::
  "(('w, 'c, 't, 'x) bound_contract, 't) OutputsTransactorSession \<Rightarrow> bytes \<Rightarrow> ('w, 'x) comp" where
  "OutputsTransactorSession_Notice s payload' =
     OutputsTransactor_Notice (OutputsTransactorSession_Contract s) (OutputsTransactorSession_TransactOpts s) payload'"

definition OutputsTransactor_Voucher ::
  "('w, 'c, 't, 'x) bound_contract OutputsTransactor \<Rightarrow> 't \<Rightarrow> address \<Rightarrow> int \<Rightarrow> bytes \<Rightarrow> ('w, 'x) comp" where
  "OutputsTransactor_Voucher c opts destination value' payload' =
     bc_Transact (OutputsTransactor_contract c) opts ''Voucher'' [AAddress destination, ABig value', ABytes payload']"

definition OutputsSession_Voucher ::
  "(('w, 'c, 't, 'x) bound_contract, 'c, 't) OutputsSession \<Rightarrow> address \<Rightarrow> int \<Rightarrow> bytes \<Rightarrow> ('w, 'x) comp" where
  "OutputsSession_Voucher s destination value' payload' =
     OutputsTransactor_Voucher (Outputs_Transactor (OutputsSession_Contract s)) (OutputsSession_TransactOpts s) destination value' payload'"

definition OutputsTransactorSession_Voucher ::
  "(('w, 'c, 't, 'x) bound_contract, 't) OutputsTransactorSession \<Rightarrow> address \<Rightarrow> int \<Rightarrow> bytes \<Rightarrow> ('w, 'x) comp" where
  "OutputsTransactorSession_Voucher s destination value' payload' =
     OutputsTransactor_Voucher (OutputsTransactorSession_Contract s) (OutputsTransactorSession_TransactOpts s) destination value' payload'"

end
