(* ===== verification/BindApplication.thy ===== *)
theory BindApplication
  imports ContractRuntime
begin

text \<open>
  \<open>internal/contracts/application.go\<close>: the generated binding of an application. Every method is the
  call of its bound contract with its arguments boxed; every event has the iterator, the subscription
  and the parser of \<open>ContractRuntime\<close> with its own unpacking.
\<close>

record ApplicationOutputValidityProof =
  ApplicationOutputValidityProof_OutputIndex :: u64
  ApplicationOutputValidityProof_OutputHashesSiblings :: "bytes list"

definition any_OutputValidityProof :: "ApplicationOutputValidityProof \<Rightarrow> go_any" where
  "any_OutputValidityProof p = AStruct [AUint64 (ApplicationOutputValidityProof_OutputIndex p),
     AList (map AArray (ApplicationOutputValidityProof_OutputHashesSiblings p))]"

section \<open>The structs of the binding\<close>

record 'b ApplicationCaller =
  ApplicationCaller_contract :: 'b

record 'b ApplicationTransactor =
  ApplicationTransactor_contract :: 'b

record 'b ApplicationFilterer =
  ApplicationFilterer_contract :: 'b

record 'b Application =
  Application_Caller :: "'b ApplicationCaller"
  Application_Transactor :: "'b ApplicationTransactor"
  Application_Filterer :: "'b ApplicationFilterer"

record ('b, 'c, 't) ApplicationSession =
  ApplicationSession_Contract :: "'b Application"
  ApplicationSession_CallOpts :: 'c
  ApplicationSession_TransactOpts :: 't

record ('b, 'c) ApplicationCallerSession =
  ApplicationCallerSession_Contract :: "'b ApplicationCaller"
  ApplicationCallerSession_CallOpts :: 'c

record ('b, 't) ApplicationTransactorSession =
  ApplicationTransactorSession_Contract :: "'b ApplicationTransactor"
  ApplicationTransactorSession_TransactOpts :: 't

record 'b ApplicationRaw =
  ApplicationRaw_Contract :: "'b Application"

record 'b ApplicationCallerRaw =
  ApplicationCallerRaw_Contract :: "'b ApplicationCaller"

record 'b ApplicationTransactorRaw =
  ApplicationTransactorRaw_Contract :: "'b ApplicationTransactor"

section \<open>Making one\<close>

definition bindApplication ::
  "('k, 'abi, 'b) bind_lib \<Rightarrow> address \<Rightarrow> 'k option \<Rightarrow> 'k option \<Rightarrow> 'k option \<Rightarrow> 'b res" where
  "bindApplication = bind_contract"

definition of_contract_Application :: "'b \<Rightarrow> 'b Application" where
  "of_contract_Application contract = \<lparr>Application_Caller = \<lparr>ApplicationCaller_contract = contract\<rparr>,
     Application_Transactor = \<lparr>ApplicationTransactor_contract = contract\<rparr>, Application_Filterer = \<lparr>ApplicationFilterer_contract = contract\<rparr>\<rparr>"

definition NewApplication :: "('k, 'abi, 'b) bind_lib \<Rightarrow> address \<Rightarrow> 'k \<Rightarrow> 'b Application res" where
  "NewApplication L addr backend =
     rbind (bindApplication L addr (Some backend) (Some backend) (Some backend)) (\<lambda>contract.
     Inr (of_contract_Application contract))"

definition NewApplicationCaller :: "('k, 'abi, 'b) bind_lib \<Rightarrow> address \<Rightarrow> 'k \<Rightarrow> 'b ApplicationCaller res" where
  "NewApplicationCaller L addr caller = rbind (bindApplication L addr (Some caller) None None) (\<lambda>contract.
     Inr \<lparr>ApplicationCaller_contract = contract\<rparr>)"

definition NewApplicationTransactor :: "('k, 'abi, 'b) bind_lib \<Rightarrow> address \<Rightarrow> 'k \<Rightarrow> 'b ApplicationTransactor res" where
  "NewApplicationTransactor L addr transactor = rbind (bindApplication L addr None (Some transactor) None) (\<lambda>contract.
     Inr \<lparr>ApplicationTransactor_contract = contract\<rparr>)"

definition NewApplicationFilterer :: "('k, 'abi, 'b) bind_lib \<Rightarrow> address \<Rightarrow> 'k \<Rightarrow> 'b ApplicationFilterer res" where
  "NewApplicationFilterer L addr filterer = rbind (bindApplication L addr None None (Some filterer)) (\<lambda>contract.
     Inr \<lparr>ApplicationFilterer_contract = contract\<rparr>)"

section \<open>Calls by name\<close>

definition ApplicationRaw_Call ::
  "('w, 'c, 't, 'x) bound_contract ApplicationRaw \<Rightarrow> 'c \<Rightarrow> go_any list \<Rightarrow> string \<Rightarrow> go_any list \<Rightarrow> go_any list res" where
  "ApplicationRaw_Call c opts result method params = bc_Call (ApplicationCaller_contract (Application_Caller (ApplicationRaw_Contract c))) opts result method params"

definition ApplicationRaw_Transfer :: "('w, 'c, 't, 'x) bound_contract ApplicationRaw \<Rightarrow> 't \<Rightarrow> ('w, 'x) comp" where
  "ApplicationRaw_Transfer c opts = bc_Transfer (ApplicationTransactor_contract (Application_Transactor (ApplicationRaw_Contract c))) opts"

definition ApplicationRaw_Transact ::
  "('w, 'c, 't, 'x) bound_contract ApplicationRaw \<Rightarrow> 't \<Rightarrow> string \<Rightarrow> go_any list \<Rightarrow> ('w, 'x) comp" where
  "ApplicationRaw_Transact c opts method params = bc_Transact (ApplicationTransactor_contract (Application_Transactor (ApplicationRaw_Contract c))) opts method params"

definition ApplicationCallerRaw_Call ::
  "('w, 'c, 't, 'x) bound_contract ApplicationCallerRaw \<Rightarrow> 'c \<Rightarrow> go_any list \<Rightarrow> string \<Rightarrow> go_any list \<Rightarrow> go_any list res" where
  "ApplicationCallerRaw_Call c opts result method params = bc_Call (ApplicationCaller_contract (ApplicationCallerRaw_Contract c)) opts result method params"

definition ApplicationTransactorRaw_Transfer :: "('w, 'c, 't, 'x) bound_contract ApplicationTransactorRaw \<Rightarrow> 't \<Rightarrow> ('w, 'x) comp" where
  "ApplicationTransactorRaw_Transfer c opts = bc_Transfer (ApplicationTransactor_contract (ApplicationTransactorRaw_Contract c)) opts"

definition ApplicationTransactorRaw_Transact ::
  "('w, 'c, 't, 'x) bound_contract ApplicationTransactorRaw \<Rightarrow> 't \<Rightarrow> string \<Rightarrow> go_any list \<Rightarrow> ('w, 'x) comp" where
  "ApplicationTransactorRaw_Transact c opts method params = bc_Transact (ApplicationTransactor_contract (ApplicationTransactorRaw_Contract c)) opts method params"

section \<open>Reading methods\<close>

definition ApplicationCaller_GetConsensus ::
  "('w, 'c, 't, 'x) bound_contract ApplicationCaller \<Rightarrow> 'c \<Rightarrow> address res" where
  "ApplicationCaller_GetConsensus c opts =
     rbind (bc_Call (ApplicationCaller_contract c) opts [] ''getConsensus'' []) (\<lambda>out.
     rbind (out_value (ApplicationCaller_contract c) out 0 TAddress as_address) (\<lambda>out0.
     Inr out0))"

definition ApplicationSession_GetConsensus ::
  "(('w, 'c, 't, 'x) bound_contract, 'c, 't) ApplicationSession \<Rightarrow> address res" where
  "ApplicationSession_GetConsensus s =
     ApplicationCaller_GetConsensus (Application_Caller (ApplicationSession_Contract s)) (ApplicationSession_CallOpts s)"

definition ApplicationCallerSession_GetConsensus ::
  "(('w, 'c, 't, 'x) bound_contract, 'c) ApplicationCallerSession \<Rightarrow> address res" where
  "ApplicationCallerSession_GetConsensus s =
     ApplicationCaller_GetConsensus (ApplicationCallerSession_Contract s) (ApplicationCallerSession_CallOpts s)"

definition ApplicationCaller_GetTemplateHash ::
  "('w, 'c, 't, 'x) bound_contract ApplicationCaller \<Rightarrow> 'c \<Rightarrow> bytes res" where
  "ApplicationCaller_GetTemplateHash c opts =
     rbind (bc_Call (ApplicationCaller_contract c) opts [] ''getTemplateHash'' []) (\<lambda>out.
     rbind (out_value (ApplicationCaller_contract c) out 0 (TArray 32) as_array) (\<lambda>out0.
     Inr out0))"

definition ApplicationSession_GetTemplateHash ::
  "(('w, 'c, 't, 'x) bound_contract, 'c, 't) ApplicationSession \<Rightarrow> bytes res" where
  "ApplicationSession_GetTemplateHash s =
     ApplicationCaller_GetTemplateHash (Application_Caller (ApplicationSession_Contract s)) (ApplicationSession_CallOpts s)"

definition ApplicationCallerSession_GetTemplateHash ::
  "(('w, 'c, 't, 'x) bound_contract, 'c) ApplicationCallerSession \<Rightarrow> bytes res" where
  "ApplicationCallerSession_GetTemplateHash s =
     ApplicationCaller_GetTemplateHash (ApplicationCallerSession_Contract s) (ApplicationCallerSession_CallOpts s)"

definition ApplicationCaller_Owner ::
  "('w, 'c, 't, 'x) bound_contract ApplicationCaller \<Rightarrow> 'c \<Rightarrow> address res" where
  "ApplicationCaller_Owner c opts =
     rbind (bc_Call (ApplicationCaller_contract c) opts [] ''owner'' []) (\<lambda>out.
     rbind (out_value (ApplicationCaller_contract c) out 0 TAddress as_address) (\<lambda>out0.
     Inr out0))"

definition ApplicationSession_Owner ::
  "(('w, 'c, 't, 'x) bound_contract, 'c, 't) ApplicationSession \<Rightarrow> address res" where
  "ApplicationSession_Owner s =
     ApplicationCaller_Owner (Application_Caller (ApplicationSession_Contract s)) (ApplicationSession_CallOpts s)"

definition ApplicationCallerSession_Owner ::
  "(('w, 'c, 't, 'x) bound_contract, 'c) ApplicationCallerSession \<Rightarrow> address res" where
  "ApplicationCallerSession_Owner s =
     ApplicationCaller_Owner (ApplicationCallerSession_Contract s) (ApplicationCallerSession_CallOpts s)"

definition ApplicationCaller_SupportsInterface ::
  "('w, 'c, 't, 'x) bound_contract ApplicationCaller \<Rightarrow> 'c \<Rightarrow> bytes \<Rightarrow> bool res" where
  "ApplicationCaller_SupportsInterface c opts interfaceId =
     rbind (bc_Call (ApplicationCaller_contract c) opts [] ''supportsInterface'' [AArray interfaceId]) (\<lambda>out.
     rbind (out_value (ApplicationCaller_contract c) out 0 TBool as_bool) (\<lambda>out0.
     Inr out0))"

definition ApplicationSession_SupportsInterface ::
  "(('w, 'c, 't, 'x) bound_contract, 'c, 't) ApplicationSession \<Rightarrow> bytes \<Rightarrow> bool res" where
  "ApplicationSession_SupportsInterface s interfaceId =
     ApplicationCaller_SupportsInterface (Application_Caller (ApplicationSession_Contract s)) (ApplicationSession_CallOpts s) interfaceId"

definition ApplicationCallerSession_SupportsInterface ::
  "(('w, 'c, 't, 'x) bound_contract, 'c) ApplicationCallerSession \<Rightarrow> bytes \<Rightarrow> bool res" where
  "ApplicationCallerSession_SupportsInterface s interfaceId =
     ApplicationCaller_SupportsInterface (ApplicationCallerSession_Contract s) (ApplicationCallerSession_CallOpts s) interfaceId"

definition ApplicationCaller_ValidateOutput ::
  "('w, 'c, 't, 'x) bound_contract ApplicationCaller \<Rightarrow> 'c \<Rightarrow> bytes \<Rightarrow> ApplicationOutputValidityProof \<Rightarrow> unit res" where
  "ApplicationCaller_ValidateOutput c opts output' proof' =
     rbind (bc_Call (ApplicationCaller_contract c) opts [] ''validateOutput'' [ABytes output', any_OutputValidityProof proof']) (\<lambda>out.
     Inr ())"

definition ApplicationSession_ValidateOutput ::
  "(('w, 'c, 't, 'x) bound_contract, 'c, 't) ApplicationSession \<Rightarrow> bytes \<Rightarrow> ApplicationOutputValidityProof \<Rightarrow> unit res" where
  "ApplicationSession_ValidateOutput s output' proof' =
     ApplicationCaller_ValidateOutput (Application_Caller (ApplicationSession_Contract s)) (ApplicationSession_CallOpts s) output' proof'"

definition ApplicationCallerSession_ValidateOutput ::
  "(('w, 'c, 't, 'x) bound_contract, 'c) ApplicationCallerSession \<Rightarrow> bytes \<Rightarrow> ApplicationOutputValidityProof \<Rightarrow> unit res" where
  "ApplicationCallerSession_ValidateOutput s output' proof' =
     ApplicationCaller_ValidateOutput (ApplicationCallerSession_Contract s) (ApplicationCallerSession_CallOpts s) output' proof'"

definition ApplicationCaller_ValidateOutputHash ::
  "('w, 'c, 't, 'x) bound_contract ApplicationCaller \<Rightarrow> 'c \<Rightarrow> bytes \<Rightarrow> ApplicationOutputValidityProof \<Rightarrow> unit res" where
  "ApplicationCaller_ValidateOutputHash c opts outputHash proof' =
     rbind (bc_Call (ApplicationCaller_contract c) opts [] ''validateOutputHash'' [AArray outputHash, any_OutputValidityProof proof']) (\<lambda>out.
     Inr ())"

definition ApplicationSession_ValidateOutputHash ::
  "(('w, 'c, 't, 'x) bound_contract, 'c, 't) ApplicationSession \<Rightarrow> bytes \<Rightarrow> ApplicationOutputValidityProof \<Rightarrow> unit res" where
  "ApplicationSession_ValidateOutputHash s outputHash proof' =
     ApplicationCaller_ValidateOutputHash (Application_Caller (ApplicationSession_Contract s)) (ApplicationSession_CallOpts s) outputHash proof'"

definition ApplicationCallerSession_ValidateOutputHash ::
  "(('w, 'c, 't, 'x) bound_contract, 'c) ApplicationCallerSession \<Rightarrow> bytes \<Rightarrow> ApplicationOutputValidityProof \<Rightarrow> unit res" where
  "ApplicationCallerSession_ValidateOutputHash s outputHash proof' =
     ApplicationCaller_ValidateOutputHash (ApplicationCallerSession_Contract s) (ApplicationCallerSession_CallOpts s) outputHash proof'"

definition ApplicationCaller_WasOutputExecuted ::
  "('w, 'c, 't, 'x) bound_contract ApplicationCaller \<Rightarrow> 'c \<Rightarrow> int \<Rightarrow> bool res" where
  "ApplicationCaller_WasOutputExecuted c opts outputIndex =
     rbind (bc_Call (ApplicationCaller_contract c) opts [] ''wasOutputExecuted'' [ABig outputIndex]) (\<lambda>out.
     rbind (out_value (ApplicationCaller_contract c) out 0 TBool as_bool) (\<lambda>out0.
     Inr out0))"

definition ApplicationSession_WasOutputExecuted ::
  "(('w, 'c, 't, 'x) bound_contract, 'c, 't) ApplicationSession \<Rightarrow> int \<Rightarrow> bool res" where
  "ApplicationSession_WasOutputExecuted s outputIndex =
     ApplicationCaller_WasOutputExecuted (Application_Caller (ApplicationSession_Contract s)) (ApplicationSession_CallOpts s) outputIndex"

definition ApplicationCallerSession_WasOutputExecuted ::
  "(('w, 'c, 't, 'x) bound_contract, 'c) ApplicationCallerSession \<Rightarrow> int \<Rightarrow> bool res" where
  "ApplicationCallerSession_WasOutputExecuted s outputIndex =
     ApplicationCaller_WasOutputExecuted (ApplicationCallerSession_Contract s) (ApplicationCallerSession_CallOpts s) outputIndex"

section \<open>Transactions\<close>

definition ApplicationTransactor_ExecuteOutput ::
  "('w, 'c, 't, 'x) bound_contract ApplicationTransactor \<Rightarrow> 't \<Rightarrow> bytes \<Rightarrow> ApplicationOutputValidityProof \<Rightarrow> ('w, 'x) comp" where
  "ApplicationTransactor_ExecuteOutput c opts output' proof' =
     bc_Transact (ApplicationTransactor_contract c) opts ''executeOutput'' [ABytes output', any_OutputValidityProof proof']"

definition ApplicationSession_ExecuteOutput ::
  "(('w, 'c, 't, 'x) bound_contract, 'c, 't) ApplicationSession \<Rightarrow> bytes \<Rightarrow> ApplicationOutputValidityProof \<Rightarrow> ('w, 'x) comp" where
  "ApplicationSession_ExecuteOutput s output' proof' =
     ApplicationTransactor_ExecuteOutput (Application_Transactor (ApplicationSession_Contract s)) (ApplicationSession_TransactOpts s) output' proof'"

definition ApplicationTransactorSession_ExecuteOutput ::
  "(('w, 'c, 't, 'x) bound_contract, 't) ApplicationTransactorSession \<Rightarrow> bytes \<Rightarrow> ApplicationOutputValidityProof \<Rightarrow> ('w, 'x) comp" where
  "ApplicationTransactorSession_ExecuteOutput s output' proof' =
     ApplicationTransactor_ExecuteOutput (ApplicationTransactorSession_Contract s) (ApplicationTransactorSession_TransactOpts s) output' proof'"

definition ApplicationTransactor_MigrateToConsensus ::
  "('w, 'c, 't, 'x) bound_contract ApplicationTransactor \<Rightarrow> 't \<Rightarrow> address \<Rightarrow> ('w, 'x) comp" where
  "ApplicationTransactor_MigrateToConsensus c opts newConsensus =
     bc_Transact (ApplicationTransactor_contract c) opts ''migrateToConsensus'' [AAddress newConsensus]"

definition ApplicationSession_MigrateToConsensus ::
  "(('w, 'c, 't, 'x) bound_contract, 'c, 't) ApplicationSession \<Rightarrow> address \<Rightarrow> ('w, 'x) comp" where
  "ApplicationSession_MigrateToConsensus s newConsensus =
     ApplicationTransactor_MigrateToConsensus (Application_Transactor (ApplicationSession_Contract s)) (ApplicationSession_TransactOpts s) newConsensus"

definition ApplicationTransactorSession_MigrateToConsensus ::
  "(('w, 'c, 't, 'x) bound_contract, 't) ApplicationTransactorSession \<Rightarrow> address \<Rightarrow> ('w, 'x) comp" where
  "ApplicationTransactorSession_MigrateToConsensus s newConsensus =
     ApplicationTransactor_MigrateToConsensus (ApplicationTransactorSession_Contract s) (ApplicationTransactorSession_TransactOpts s) newConsensus"

definition ApplicationTransactor_OnERC1155BatchReceived ::
  "('w, 'c, 't, 'x) bound_contract ApplicationTransactor \<Rightarrow> 't \<Rightarrow> address \<Rightarrow> address \<Rightarrow> int list \<Rightarrow> int list \<Rightarrow> bytes \<Rightarrow> ('w, 'x) comp" where
  "ApplicationTransactor_OnERC1155BatchReceived c opts arg0 arg1 arg2 arg3 arg4 =
     bc_Transact (ApplicationTransactor_contract c) opts ''onERC1155BatchReceived'' [AAddress arg0, AAddress arg1, AList (map ABig arg2), AList (map ABig arg3), ABytes arg4]"

definition ApplicationSession_OnERC1155BatchReceived ::
  "(('w, 'c, 't, 'x) bound_contract, 'c, 't) ApplicationSession \<Rightarrow> address \<Rightarrow> address \<Rightarrow> int list \<Rightarrow> int list \<Rightarrow> bytes \<Rightarrow> ('w, 'x) comp" where
  "ApplicationSession_OnERC1155BatchReceived s arg0 arg1 arg2 arg3 arg4 =
     ApplicationTransactor_OnERC1155BatchReceived (Application_Transactor (ApplicationSession_Contract s)) (ApplicationSession_TransactOpts s) arg0 arg1 arg2 arg3 arg4"

definition ApplicationTransactorSession_OnERC1155BatchReceived ::
  "(('w, 'c, 't, 'x) bound_contract, 't) ApplicationTransactorSession \<Rightarrow> address \<Rightarrow> address \<Rightarrow> int list \<Rightarrow> int list \<Rightarrow> bytes \<Rightarrow> ('w, 'x) comp" where
  "ApplicationTransactorSession_OnERC1155BatchReceived s arg0 arg1 arg2 arg3 arg4 =
     ApplicationTransactor_OnERC1155BatchReceived (ApplicationTransactorSession_Contract s) (ApplicationTransactorSession_TransactOpts s) arg0 arg1 arg2 arg3 arg4"

definition ApplicationTransactor_OnERC1155Received ::
  "('w, 'c, 't, 'x) bound_contract ApplicationTransactor \<Rightarrow> 't \<Rightarrow> address \<Rightarrow> address \<Rightarrow> int \<Rightarrow> int \<Rightarrow> bytes \<Rightarrow> ('w, 'x) comp" where
  "ApplicationTransactor_OnERC1155Received c opts arg0 arg1 arg2 arg3 arg4 =
     bc_Transact (ApplicationTransactor_contract c) opts ''onERC1155Received'' [AAddress arg0, AAddress arg1, ABig arg2, ABig arg3, ABytes arg4]"

definition ApplicationSession_OnERC1155Received ::
  "(('w, 'c, 't, 'x) bound_contract, 'c, 't) ApplicationSession \<Rightarrow> address \<Rightarrow> address \<Rightarrow> int \<Rightarrow> int \<Rightarrow> bytes \<Rightarrow> ('w, 'x) comp" where
  "ApplicationSession_OnERC1155Received s arg0 arg1 arg2 arg3 arg4 =
     ApplicationTransactor_OnERC1155Received (Application_Transactor (ApplicationSession_Contract s)) (ApplicationSession_TransactOpts s) arg0 arg1 arg2 arg3 arg4"

definition ApplicationTransactorSession_OnERC1155Received ::
  "(('w, 'c, 't, 'x) bound_contract, 't) ApplicationTransactorSession \<Rightarrow> address \<Rightarrow> address \<Rightarrow> int \<Rightarrow> int \<Rightarrow> bytes \<Rightarrow> ('w, 'x) comp" where
  "ApplicationTransactorSession_OnERC1155Received s arg0 arg1 arg2 arg3 arg4 =
     ApplicationTransactor_OnERC1155Received (ApplicationTransactorSession_Contract s) (ApplicationTransactorSession_TransactOpts s) arg0 arg1 arg2 arg3 arg4"

definition ApplicationTransactor_OnERC721Received ::
  "('w, 'c, 't, 'x) bound_contract ApplicationTransactor \<Rightarrow> 't \<Rightarrow> address \<Rightarrow> address \<Rightarrow> int \<Rightarrow> bytes \<Rightarrow> ('w, 'x) comp" where
  "ApplicationTransactor_OnERC721Received c opts arg0 arg1 arg2 arg3 =
     bc_Transact (ApplicationTransactor_contract c) opts ''onERC721Received'' [AAddress arg0, AAddress arg1, ABig arg2, ABytes arg3]"

definition ApplicationSession_OnERC721Received ::
  "(('w, 'c, 't, 'x) bound_contract, 'c, 't) ApplicationSession \<Rightarrow> address \<Rightarrow> address \<Rightarrow> int \<Rightarrow> bytes \<Rightarrow> ('w, 'x) comp" where
  "ApplicationSession_OnERC721Received s arg0 arg1 arg2 arg3 =
     ApplicationTransactor_OnERC721Received (Application_Transactor (ApplicationSession_Contract s)) (ApplicationSession_TransactOpts s) arg0 arg1 arg2 arg3"

definition ApplicationTransactorSession_OnERC721Received ::
  "(('w, 'c, 't, 'x) bound_contract, 't) ApplicationTransactorSession \<Rightarrow> address \<Rightarrow> address \<Rightarrow> int \<Rightarrow> bytes \<Rightarrow> ('w, 'x) comp" where
  "ApplicationTransactorSession_OnERC721Received s arg0 arg1 arg2 arg3 =
     ApplicationTransactor_OnERC721Received (ApplicationTransactorSession_Contract s) (ApplicationTransactorSession_TransactOpts s) arg0 arg1 arg2 arg3"

definition ApplicationTransactor_RenounceOwnership ::
  "('w, 'c, 't, 'x) bound_contract ApplicationTransactor \<Rightarrow> 't \<Rightarrow> ('w, 'x) comp" where
  "ApplicationTransactor_RenounceOwnership c opts =
     bc_Transact (ApplicationTransactor_contract c) opts ''renounceOwnership'' []"

definition ApplicationSession_RenounceOwnership ::
  "(('w, 'c, 't, 'x) bound_contract, 'c, 't) ApplicationSession \<Rightarrow> ('w, 'x) comp" where
  "ApplicationSession_RenounceOwnership s =
     ApplicationTransactor_RenounceOwnership (Application_Transactor (ApplicationSession_Contract s)) (ApplicationSession_TransactOpts s)"

definition ApplicationTransactorSession_RenounceOwnership ::
  "(('w, 'c, 't, 'x) bound_contract, 't) ApplicationTransactorSession \<Rightarrow> ('w, 'x) comp" where
  "ApplicationTransactorSession_RenounceOwnership s =
     ApplicationTransactor_RenounceOwnership (ApplicationTransactorSession_Contract s) (ApplicationTransactorSession_TransactOpts s)"

definition ApplicationTransactor_TransferOwnership ::
  "('w, 'c, 't, 'x) bound_contract ApplicationTransactor \<Rightarrow> 't \<Rightarrow> address \<Rightarrow> ('w, 'x) comp" where
  "ApplicationTransactor_TransferOwnership c opts newOwner =
     bc_Transact (ApplicationTransactor_contract c) opts ''transferOwnership'' [AAddress newOwner]"

definition ApplicationSession_TransferOwnership ::
  "(('w, 'c, 't, 'x) bound_contract, 'c, 't) ApplicationSession \<Rightarrow> address \<Rightarrow> ('w, 'x) comp" where
  "ApplicationSession_TransferOwnership s newOwner =
     ApplicationTransactor_TransferOwnership (Application_Transactor (ApplicationSession_Contract s)) (ApplicationSession_TransactOpts s) newOwner"

definition ApplicationTransactorSession_TransferOwnership ::
  "(('w, 'c, 't, 'x) bound_contract, 't) ApplicationTransactorSession \<Rightarrow> address \<Rightarrow> ('w, 'x) comp" where
  "ApplicationTransactorSession_TransferOwnership s newOwner =
     ApplicationTransactor_TransferOwnership (ApplicationTransactorSession_Contract s) (ApplicationTransactorSession_TransactOpts s) newOwner"

definition ApplicationTransactor_Receive ::
  "('w, 'c, 't, 'x) bound_contract ApplicationTransactor \<Rightarrow> 't \<Rightarrow> ('w, 'x) comp" where
  "ApplicationTransactor_Receive c opts =
     bc_RawTransact (ApplicationTransactor_contract c) opts []"

definition ApplicationSession_Receive ::
  "(('w, 'c, 't, 'x) bound_contract, 'c, 't) ApplicationSession \<Rightarrow> ('w, 'x) comp" where
  "ApplicationSession_Receive s =
     ApplicationTransactor_Receive (Application_Transactor (ApplicationSession_Contract s)) (ApplicationSession_TransactOpts s)"

definition ApplicationTransactorSession_Receive ::
  "(('w, 'c, 't, 'x) bound_contract, 't) ApplicationTransactorSession \<Rightarrow> ('w, 'x) comp" where
  "ApplicationTransactorSession_Receive s =
     ApplicationTransactor_Receive (ApplicationTransactorSession_Contract s) (ApplicationTransactorSession_TransactOpts s)"

section \<open>Events\<close>

record ApplicationNewConsensus =
  ApplicationNewConsensus_NewConsensus :: address
  ApplicationNewConsensus_Raw :: types_Log

type_synonym ApplicationNewConsensusIterator = "ApplicationNewConsensus log_iterator"

definition unpack_ApplicationNewConsensus :: "('w, 'c, 't, 'x) bound_contract \<Rightarrow> ApplicationNewConsensus unpack" where
  "unpack_ApplicationNewConsensus C event log = rbind (bc_UnpackLog C event log) (\<lambda>vs.
     rbind (event_field vs 0 as_address) (\<lambda>NewConsensus'.
     Inr \<lparr>ApplicationNewConsensus_NewConsensus = NewConsensus', ApplicationNewConsensus_Raw = log\<rparr>))"

definition ApplicationNewConsensusIterator_Next ::
  "('w, 'c, 't, 'x) bound_contract \<Rightarrow> ApplicationNewConsensusIterator \<Rightarrow> (bool \<times> ApplicationNewConsensusIterator) option" where
  "ApplicationNewConsensusIterator_Next C = iterator_Next (unpack_ApplicationNewConsensus C)"

definition ApplicationNewConsensusIterator_Error :: "ApplicationNewConsensusIterator \<Rightarrow> err option" where
  "ApplicationNewConsensusIterator_Error = iterator_Error"

definition ApplicationNewConsensusIterator_Close :: "ApplicationNewConsensusIterator \<Rightarrow> unit res \<times> ApplicationNewConsensusIterator" where
  "ApplicationNewConsensusIterator_Close = iterator_Close"

definition ApplicationFilterer_FilterNewConsensus ::
  "('w, 'c, 't, 'x) bound_contract ApplicationFilterer \<Rightarrow> FilterOpts \<Rightarrow> ApplicationNewConsensusIterator res" where
  "ApplicationFilterer_FilterNewConsensus c opts =
     rbind (bc_FilterLogs (ApplicationFilterer_contract c) opts ''NewConsensus'' []) (\<lambda>logs.
     Inr (new_iterator ''NewConsensus'' logs))"

definition ApplicationFilterer_WatchNewConsensus ::
  "('w, 'c, 't, 'x) bound_contract ApplicationFilterer \<Rightarrow> WatchOpts \<Rightarrow> (ApplicationNewConsensus list \<times> err option option) res" where
  "ApplicationFilterer_WatchNewConsensus c opts =
     rbind (bc_WatchLogs (ApplicationFilterer_contract c) opts ''NewConsensus'' []) (\<lambda>turns.
     Inr (watch_logs (unpack_ApplicationNewConsensus (ApplicationFilterer_contract c) ''NewConsensus'') turns))"

definition ApplicationFilterer_ParseNewConsensus :: "('w, 'c, 't, 'x) bound_contract ApplicationFilterer \<Rightarrow> types_Log \<Rightarrow> ApplicationNewConsensus res" where
  "ApplicationFilterer_ParseNewConsensus c log = unpack_ApplicationNewConsensus (ApplicationFilterer_contract c) ''NewConsensus'' log"

record ApplicationOutputExecuted =
  ApplicationOutputExecuted_OutputIndex :: u64
  ApplicationOutputExecuted_Output :: bytes
  ApplicationOutputExecuted_Raw :: types_Log

type_synonym ApplicationOutputExecutedIterator = "ApplicationOutputExecuted log_iterator"

definition unpack_ApplicationOutputExecuted :: "('w, 'c, 't, 'x) bound_contract \<Rightarrow> ApplicationOutputExecuted unpack" where
  "unpack_ApplicationOutputExecuted C event log = rbind (bc_UnpackLog C event log) (\<lambda>vs.
     rbind (event_field vs 0 as_uint64) (\<lambda>OutputIndex'.
     rbind (event_field vs 1 as_bytes) (\<lambda>Output'.
     Inr \<lparr>ApplicationOutputExecuted_OutputIndex = OutputIndex', ApplicationOutputExecuted_Output = Output', ApplicationOutputExecuted_Raw = log\<rparr>)))"

definition ApplicationOutputExecutedIterator_Next ::
  "('w, 'c, 't, 'x) bound_contract \<Rightarrow> ApplicationOutputExecutedIterator \<Rightarrow> (bool \<times> ApplicationOutputExecutedIterator) option" where
  "ApplicationOutputExecutedIterator_Next C = iterator_Next (unpack_ApplicationOutputExecuted C)"

definition ApplicationOutputExecutedIterator_Error :: "ApplicationOutputExecutedIterator \<Rightarrow> err option" where
  "ApplicationOutputExecutedIterator_Error = iterator_Error"

definition ApplicationOutputExecutedIterator_Close :: "ApplicationOutputExecutedIterator \<Rightarrow> unit res \<times> ApplicationOutputExecutedIterator" where
  "ApplicationOutputExecutedIterator_Close = iterator_Close"

definition ApplicationFilterer_FilterOutputExecuted ::
  "('w, 'c, 't, 'x) bound_contract ApplicationFilterer \<Rightarrow> FilterOpts \<Rightarrow> ApplicationOutputExecutedIterator res" where
  "ApplicationFilterer_FilterOutputExecuted c opts =
     rbind (bc_FilterLogs (ApplicationFilterer_contract c) opts ''OutputExecuted'' []) (\<lambda>logs.
     Inr (new_iterator ''OutputExecuted'' logs))"

definition ApplicationFilterer_WatchOutputExecuted ::
  "('w, 'c, 't, 'x) bound_contract ApplicationFilterer \<Rightarrow> WatchOpts \<Rightarrow> (ApplicationOutputExecuted list \<times> err option option) res" where
  "ApplicationFilterer_WatchOutputExecuted c opts =
     rbind (bc_WatchLogs (ApplicationFilterer_contract c) opts ''OutputExecuted'' []) (\<lambda>turns.
     Inr (watch_logs (unpack_ApplicationOutputExecuted (ApplicationFilterer_contract c) ''OutputExecuted'') turns))"

definition ApplicationFilterer_ParseOutputExecuted :: "('w, 'c, 't, 'x) bound_contract ApplicationFilterer \<Rightarrow> types_Log \<Rightarrow> ApplicationOutputExecuted res" where
  "ApplicationFilterer_ParseOutputExecuted c log = unpack_ApplicationOutputExecuted (ApplicationFilterer_contract c) ''OutputExecuted'' log"

record ApplicationOwnershipTransferred =
  ApplicationOwnershipTransferred_PreviousOwner :: address
  ApplicationOwnershipTransferred_NewOwner :: address
  ApplicationOwnershipTransferred_Raw :: types_Log

type_synonym ApplicationOwnershipTransferredIterator = "ApplicationOwnershipTransferred log_iterator"

definition unpack_ApplicationOwnershipTransferred :: "('w, 'c, 't, 'x) bound_contract \<Rightarrow> ApplicationOwnershipTransferred unpack" where
  "unpack_ApplicationOwnershipTransferred C event log = rbind (bc_UnpackLog C event log) (\<lambda>vs.
     rbind (event_field vs 0 as_address) (\<lambda>PreviousOwner'.
     rbind (event_field vs 1 as_address) (\<lambda>NewOwner'.
     Inr \<lparr>ApplicationOwnershipTransferred_PreviousOwner = PreviousOwner', ApplicationOwnershipTransferred_NewOwner = NewOwner', ApplicationOwnershipTransferred_Raw = log\<rparr>)))"

definition ApplicationOwnershipTransferredIterator_Next ::
  "('w, 'c, 't, 'x) bound_contract \<Rightarrow> ApplicationOwnershipTransferredIterator \<Rightarrow> (bool \<times> ApplicationOwnershipTransferredIterator) option" where
  "ApplicationOwnershipTransferredIterator_Next C = iterator_Next (unpack_ApplicationOwnershipTransferred C)"

definition ApplicationOwnershipTransferredIterator_Error :: "ApplicationOwnershipTransferredIterator \<Rightarrow> err option" where
  "ApplicationOwnershipTransferredIterator_Error = iterator_Error"

definition ApplicationOwnershipTransferredIterator_Close :: "ApplicationOwnershipTransferredIterator \<Rightarrow> unit res \<times> ApplicationOwnershipTransferredIterator" where
  "ApplicationOwnershipTransferredIterator_Close = iterator_Close"

definition ApplicationFilterer_FilterOwnershipTransferred ::
  "('w, 'c, 't, 'x) bound_contract ApplicationFilterer \<Rightarrow> FilterOpts \<Rightarrow> address list \<Rightarrow> address list \<Rightarrow> ApplicationOwnershipTransferredIterator res" where
  "ApplicationFilterer_FilterOwnershipTransferred c opts previousOwner newOwner =
     rbind (bc_FilterLogs (ApplicationFilterer_contract c) opts ''OwnershipTransferred'' [map AAddress previousOwner, map AAddress newOwner]) (\<lambda>logs.
     Inr (new_iterator ''OwnershipTransferred'' logs))"

definition ApplicationFilterer_WatchOwnershipTransferred ::
  "('w, 'c, 't, 'x) bound_contract ApplicationFilterer \<Rightarrow> WatchOpts \<Rightarrow> address list \<Rightarrow> address list \<Rightarrow> (ApplicationOwnershipTransferred list \<times> err option option) res" where
  "ApplicationFilterer_WatchOwnershipTransferred c opts previousOwner newOwner =
     rbind (bc_WatchLogs (ApplicationFilterer_contract c) opts ''OwnershipTransferred'' [map AAddress previousOwner, map AAddress newOwner]) (\<lambda>turns.
     Inr (watch_logs (unpack_ApplicationOwnershipTransferred (ApplicationFilterer_contract c) ''OwnershipTransferred'') turns))"

definition ApplicationFilterer_ParseOwnershipTransferred :: "('w, 'c, 't, 'x) bound_contract ApplicationFilterer \<Rightarrow> types_Log \<Rightarrow> ApplicationOwnershipTransferred res" where
  "ApplicationFilterer_ParseOwnershipTransferred c log = unpack_ApplicationOwnershipTransferred (ApplicationFilterer_contract c) ''OwnershipTransferred'' log"

end
