(* ===== verification/BindCelestiaRelay.thy ===== *)
theory BindCelestiaRelay
  imports ContractRuntime
begin

text \<open>
  \<open>internal/contracts/celestia_relay.go\<close>: the generated binding of the Celestia relay. Every method is the
  call of its bound contract with its arguments boxed; every event has the iterator, the subscription
  and the parser of \<open>ContractRuntime\<close> with its own unpacking.
\<close>

section \<open>The structs of the binding\<close>

record 'b CelestiaRelayCaller =
  CelestiaRelayCaller_contract :: 'b

record 'b CelestiaRelayTransactor =
  CelestiaRelayTransactor_contract :: 'b

record 'b CelestiaRelayFilterer =
  CelestiaRelayFilterer_contract :: 'b

record 'b CelestiaRelay =
  CelestiaRelay_Caller :: "'b CelestiaRelayCaller"
  CelestiaRelay_Transactor :: "'b CelestiaRelayTransactor"
  CelestiaRelay_Filterer :: "'b CelestiaRelayFilterer"

record ('b, 'c, 't) CelestiaRelaySession =
  CelestiaRelaySession_Contract :: "'b CelestiaRelay"
  CelestiaRelaySession_CallOpts :: 'c
  CelestiaRelaySession_TransactOpts :: 't

record ('b, 'c) CelestiaRelayCallerSession =
  CelestiaRelayCallerSession_Contract :: "'b CelestiaRelayCaller"
  CelestiaRelayCallerSession_CallOpts :: 'c

record ('b, 't) CelestiaRelayTransactorSession =
  CelestiaRelayTransactorSession_Contract :: "'b CelestiaRelayTransactor"
  CelestiaRelayTransactorSession_TransactOpts :: 't

record 'b CelestiaRelayRaw =
  CelestiaRelayRaw_Contract :: "'b CelestiaRelay"

record 'b CelestiaRelayCallerRaw =
  CelestiaRelayCallerRaw_Contract :: "'b CelestiaRelayCaller"

record 'b CelestiaRelayTransactorRaw =
  CelestiaRelayTransactorRaw_Contract :: "'b CelestiaRelayTransactor"

section \<open>Making one\<close>

definition bindCelestiaRelay ::
  "('k, 'abi, 'b) bind_lib \<Rightarrow> address \<Rightarrow> 'k option \<Rightarrow> 'k option \<Rightarrow> 'k option \<Rightarrow> 'b res" where
  "bindCelestiaRelay = bind_contract"

definition of_contract_CelestiaRelay :: "'b \<Rightarrow> 'b CelestiaRelay" where
  "of_contract_CelestiaRelay contract = \<lparr>CelestiaRelay_Caller = \<lparr>CelestiaRelayCaller_contract = contract\<rparr>,
     CelestiaRelay_Transactor = \<lparr>CelestiaRelayTransactor_contract = contract\<rparr>, CelestiaRelay_Filterer = \<lparr>CelestiaRelayFilterer_contract = contract\<rparr>\<rparr>"

definition NewCelestiaRelay :: "('k, 'abi, 'b) bind_lib \<Rightarrow> address \<Rightarrow> 'k \<Rightarrow> 'b CelestiaRelay res" where
  "NewCelestiaRelay L addr backend =
     rbind (bindCelestiaRelay L addr (Some backend) (Some backend) (Some backend)) (\<lambda>contract.
     Inr (of_contract_CelestiaRelay contract))"

definition NewCelestiaRelayCaller :: "('k, 'abi, 'b) bind_lib \<Rightarrow> address \<Rightarrow> 'k \<Rightarrow> 'b CelestiaRelayCaller res" where
  "NewCelestiaRelayCaller L addr caller = rbind (bindCelestiaRelay L addr (Some caller) None None) (\<lambda>contract.
     Inr \<lparr>CelestiaRelayCaller_contract = contract\<rparr>)"

definition NewCelestiaRelayTransactor :: "('k, 'abi, 'b) bind_lib \<Rightarrow> address \<Rightarrow> 'k \<Rightarrow> 'b CelestiaRelayTransactor res" where
  "NewCelestiaRelayTransactor L addr transactor = rbind (bindCelestiaRelay L addr None (Some transactor) None) (\<lambda>contract.
     Inr \<lparr>CelestiaRelayTransactor_contract = contract\<rparr>)"

definition NewCelestiaRelayFilterer :: "('k, 'abi, 'b) bind_lib \<Rightarrow> address \<Rightarrow> 'k \<Rightarrow> 'b CelestiaRelayFilterer res" where
  "NewCelestiaRelayFilterer L addr filterer = rbind (bindCelestiaRelay L addr None None (Some filterer)) (\<lambda>contract.
     Inr \<lparr>CelestiaRelayFilterer_contract = contract\<rparr>)"

section \<open>Calls by name\<close>

definition CelestiaRelayRaw_Call ::
  "('w, 'c, 't, 'x) bound_contract CelestiaRelayRaw \<Rightarrow> 'c \<Rightarrow> go_any list \<Rightarrow> string \<Rightarrow> go_any list \<Rightarrow> go_any list res" where
  "CelestiaRelayRaw_Call c opts result method params = bc_Call (CelestiaRelayCaller_contract (CelestiaRelay_Caller (CelestiaRelayRaw_Contract c))) opts result method params"

definition CelestiaRelayRaw_Transfer :: "('w, 'c, 't, 'x) bound_contract CelestiaRelayRaw \<Rightarrow> 't \<Rightarrow> ('w, 'x) comp" where
  "CelestiaRelayRaw_Transfer c opts = bc_Transfer (CelestiaRelayTransactor_contract (CelestiaRelay_Transactor (CelestiaRelayRaw_Contract c))) opts"

definition CelestiaRelayRaw_Transact ::
  "('w, 'c, 't, 'x) bound_contract CelestiaRelayRaw \<Rightarrow> 't \<Rightarrow> string \<Rightarrow> go_any list \<Rightarrow> ('w, 'x) comp" where
  "CelestiaRelayRaw_Transact c opts method params = bc_Transact (CelestiaRelayTransactor_contract (CelestiaRelay_Transactor (CelestiaRelayRaw_Contract c))) opts method params"

definition CelestiaRelayCallerRaw_Call ::
  "('w, 'c, 't, 'x) bound_contract CelestiaRelayCallerRaw \<Rightarrow> 'c \<Rightarrow> go_any list \<Rightarrow> string \<Rightarrow> go_any list \<Rightarrow> go_any list res" where
  "CelestiaRelayCallerRaw_Call c opts result method params = bc_Call (CelestiaRelayCaller_contract (CelestiaRelayCallerRaw_Contract c)) opts result method params"

definition CelestiaRelayTransactorRaw_Transfer :: "('w, 'c, 't, 'x) bound_contract CelestiaRelayTransactorRaw \<Rightarrow> 't \<Rightarrow> ('w, 'x) comp" where
  "CelestiaRelayTransactorRaw_Transfer c opts = bc_Transfer (CelestiaRelayTransactor_contract (CelestiaRelayTransactorRaw_Contract c)) opts"

definition CelestiaRelayTransactorRaw_Transact ::
  "('w, 'c, 't, 'x) bound_contract CelestiaRelayTransactorRaw \<Rightarrow> 't \<Rightarrow> string \<Rightarrow> go_any list \<Rightarrow> ('w, 'x) comp" where
  "CelestiaRelayTransactorRaw_Transact c opts method params = bc_Transact (CelestiaRelayTransactor_contract (CelestiaRelayTransactorRaw_Contract c)) opts method params"

section \<open>Transactions\<close>

definition CelestiaRelayTransactor_RelayShares ::
  "('w, 'c, 't, 'x) bound_contract CelestiaRelayTransactor \<Rightarrow> 't \<Rightarrow> address \<Rightarrow> ShareDigestsProof \<Rightarrow> bytes \<Rightarrow> ('w, 'x) comp" where
  "CelestiaRelayTransactor_RelayShares c opts dapp proof' execLayerData =
     bc_Transact (CelestiaRelayTransactor_contract c) opts ''relayShares'' [AAddress dapp, any_ShareDigestsProof proof', ABytes execLayerData]"

definition CelestiaRelaySession_RelayShares ::
  "(('w, 'c, 't, 'x) bound_contract, 'c, 't) CelestiaRelaySession \<Rightarrow> address \<Rightarrow> ShareDigestsProof \<Rightarrow> bytes \<Rightarrow> ('w, 'x) comp" where
  "CelestiaRelaySession_RelayShares s dapp proof' execLayerData =
     CelestiaRelayTransactor_RelayShares (CelestiaRelay_Transactor (CelestiaRelaySession_Contract s)) (CelestiaRelaySession_TransactOpts s) dapp proof' execLayerData"

definition CelestiaRelayTransactorSession_RelayShares ::
  "(('w, 'c, 't, 'x) bound_contract, 't) CelestiaRelayTransactorSession \<Rightarrow> address \<Rightarrow> ShareDigestsProof \<Rightarrow> bytes \<Rightarrow> ('w, 'x) comp" where
  "CelestiaRelayTransactorSession_RelayShares s dapp proof' execLayerData =
     CelestiaRelayTransactor_RelayShares (CelestiaRelayTransactorSession_Contract s) (CelestiaRelayTransactorSession_TransactOpts s) dapp proof' execLayerData"

end
