(* ===== verification/BindShareLoader.thy ===== *)
theory BindShareLoader
  imports ContractRuntime
begin

text \<open>
  \<open>internal/dataavailability/contracts/ShareLoader.sol/ShareLoader.go\<close>: the generated binding of the share loader. Every method is the
  call of its bound contract with its arguments boxed; every event has the iterator, the subscription
  and the parser of \<open>ContractRuntime\<close> with its own unpacking.
\<close>

record SharesProof =
  SharesProof_Data :: "bytes list"
  SharesProof_ShareProofs :: "NamespaceMerkleMultiproof list"
  SharesProof_Namespace :: Namespace
  SharesProof_RowRoots :: "NamespaceNode list"
  SharesProof_RowProofs :: "BinaryMerkleProof list"
  SharesProof_AttestationProof :: AttestationProof

definition any_SharesProof :: "SharesProof \<Rightarrow> go_any" where
  "any_SharesProof p = AStruct [AList (map ABytes (SharesProof_Data p)),
     AList (map any_NamespaceMerkleMultiproof (SharesProof_ShareProofs p)), any_Namespace (SharesProof_Namespace p),
     AList (map any_NamespaceNode (SharesProof_RowRoots p)), AList (map any_BinaryMerkleProof (SharesProof_RowProofs p)),
     any_AttestationProof (SharesProof_AttestationProof p)]"

section \<open>The structs of the binding\<close>

record 'b ShareloaderCaller =
  ShareloaderCaller_contract :: 'b

record 'b ShareloaderTransactor =
  ShareloaderTransactor_contract :: 'b

record 'b ShareloaderFilterer =
  ShareloaderFilterer_contract :: 'b

record 'b Shareloader =
  Shareloader_Caller :: "'b ShareloaderCaller"
  Shareloader_Transactor :: "'b ShareloaderTransactor"
  Shareloader_Filterer :: "'b ShareloaderFilterer"

record ('b, 'c, 't) ShareloaderSession =
  ShareloaderSession_Contract :: "'b Shareloader"
  ShareloaderSession_CallOpts :: 'c
  ShareloaderSession_TransactOpts :: 't

record ('b, 'c) ShareloaderCallerSession =
  ShareloaderCallerSession_Contract :: "'b ShareloaderCaller"
  ShareloaderCallerSession_CallOpts :: 'c

record ('b, 't) ShareloaderTransactorSession =
  ShareloaderTransactorSession_Contract :: "'b ShareloaderTransactor"
  ShareloaderTransactorSession_TransactOpts :: 't

record 'b ShareloaderRaw =
  ShareloaderRaw_Contract :: "'b Shareloader"

record 'b ShareloaderCallerRaw =
  ShareloaderCallerRaw_Contract :: "'b ShareloaderCaller"

record 'b ShareloaderTransactorRaw =
  ShareloaderTransactorRaw_Contract :: "'b ShareloaderTransactor"

section \<open>Making one\<close>

definition bindShareloader ::
  "('k, 'abi, 'b) bind_lib \<Rightarrow> address \<Rightarrow> 'k option \<Rightarrow> 'k option \<Rightarrow> 'k option \<Rightarrow> 'b res" where
  "bindShareloader = bind_contract"

definition of_contract_Shareloader :: "'b \<Rightarrow> 'b Shareloader" where
  "of_contract_Shareloader contract = \<lparr>Shareloader_Caller = \<lparr>ShareloaderCaller_contract = contract\<rparr>,
     Shareloader_Transactor = \<lparr>ShareloaderTransactor_contract = contract\<rparr>, Shareloader_Filterer = \<lparr>ShareloaderFilterer_contract = contract\<rparr>\<rparr>"

definition NewShareloader :: "('k, 'abi, 'b) bind_lib \<Rightarrow> address \<Rightarrow> 'k \<Rightarrow> 'b Shareloader res" where
  "NewShareloader L addr backend =
     rbind (bindShareloader L addr (Some backend) (Some backend) (Some backend)) (\<lambda>contract.
     Inr (of_contract_Shareloader contract))"

definition NewShareloaderCaller :: "('k, 'abi, 'b) bind_lib \<Rightarrow> address \<Rightarrow> 'k \<Rightarrow> 'b ShareloaderCaller res" where
  "NewShareloaderCaller L addr caller = rbind (bindShareloader L addr (Some caller) None None) (\<lambda>contract.
     Inr \<lparr>ShareloaderCaller_contract = contract\<rparr>)"

definition NewShareloaderTransactor :: "('k, 'abi, 'b) bind_lib \<Rightarrow> address \<Rightarrow> 'k \<Rightarrow> 'b ShareloaderTransactor res" where
  "NewShareloaderTransactor L addr transactor = rbind (bindShareloader L addr None (Some transactor) None) (\<lambda>contract.
     Inr \<lparr>ShareloaderTransactor_contract = contract\<rparr>)"

definition NewShareloaderFilterer :: "('k, 'abi, 'b) bind_lib \<Rightarrow> address \<Rightarrow> 'k \<Rightarrow> 'b ShareloaderFilterer res" where
  "NewShareloaderFilterer L addr filterer = rbind (bindShareloader L addr None None (Some filterer)) (\<lambda>contract.
     Inr \<lparr>ShareloaderFilterer_contract = contract\<rparr>)"

section \<open>Calls by name\<close>

definition ShareloaderRaw_Call ::
  "('w, 'c, 't, 'x) bound_contract ShareloaderRaw \<Rightarrow> 'c \<Rightarrow> go_any list \<Rightarrow> string \<Rightarrow> go_any list \<Rightarrow> go_any list res" where
  "ShareloaderRaw_Call c opts result method params = bc_Call (ShareloaderCaller_contract (Shareloader_Caller (ShareloaderRaw_Contract c))) opts result method params"

definition ShareloaderRaw_Transfer :: "('w, 'c, 't, 'x) bound_contract ShareloaderRaw \<Rightarrow> 't \<Rightarrow> ('w, 'x) comp" where
  "ShareloaderRaw_Transfer c opts = bc_Transfer (ShareloaderTransactor_contract (Shareloader_Transactor (ShareloaderRaw_Contract c))) opts"

definition ShareloaderRaw_Transact ::
  "('w, 'c, 't, 'x) bound_contract ShareloaderRaw \<Rightarrow> 't \<Rightarrow> string \<Rightarrow> go_any list \<Rightarrow> ('w, 'x) comp" where
  "ShareloaderRaw_Transact c opts method params = bc_Transact (ShareloaderTransactor_contract (Shareloader_Transactor (ShareloaderRaw_Contract c))) opts method params"

definition ShareloaderCallerRaw_Call ::
  "('w, 'c, 't, 'x) bound_contract ShareloaderCallerRaw \<Rightarrow> 'c \<Rightarrow> go_any list \<Rightarrow> string \<Rightarrow> go_any list \<Rightarrow> go_any list res" where
  "ShareloaderCallerRaw_Call c opts result method params = bc_Call (ShareloaderCaller_contract (ShareloaderCallerRaw_Contract c)) opts result method params"

definition ShareloaderTransactorRaw_Transfer :: "('w, 'c, 't, 'x) bound_contract ShareloaderTransactorRaw \<Rightarrow> 't \<Rightarrow> ('w, 'x) comp" where
  "ShareloaderTransactorRaw_Transfer c opts = bc_Transfer (ShareloaderTransactor_contract (ShareloaderTransactorRaw_Contract c)) opts"

definition ShareloaderTransactorRaw_Transact ::
  "('w, 'c, 't, 'x) bound_contract ShareloaderTransactorRaw \<Rightarrow> 't \<Rightarrow> string \<Rightarrow> go_any list \<Rightarrow> ('w, 'x) comp" where
  "ShareloaderTransactorRaw_Transact c opts method params = bc_Transact (ShareloaderTransactor_contract (ShareloaderTransactorRaw_Contract c)) opts method params"

section \<open>Reading methods\<close>

definition ShareloaderCaller_BlobstreamX ::
  "('w, 'c, 't, 'x) bound_contract ShareloaderCaller \<Rightarrow> 'c \<Rightarrow> address res" where
  "ShareloaderCaller_BlobstreamX c opts =
     rbind (bc_Call (ShareloaderCaller_contract c) opts [] ''blobstreamX'' []) (\<lambda>out.
     rbind (out_value (ShareloaderCaller_contract c) out 0 TAddress as_address) (\<lambda>out0.
     Inr out0))"

definition ShareloaderSession_BlobstreamX ::
  "(('w, 'c, 't, 'x) bound_contract, 'c, 't) ShareloaderSession \<Rightarrow> address res" where
  "ShareloaderSession_BlobstreamX s =
     ShareloaderCaller_BlobstreamX (Shareloader_Caller (ShareloaderSession_Contract s)) (ShareloaderSession_CallOpts s)"

definition ShareloaderCallerSession_BlobstreamX ::
  "(('w, 'c, 't, 'x) bound_contract, 'c) ShareloaderCallerSession \<Rightarrow> address res" where
  "ShareloaderCallerSession_BlobstreamX s =
     ShareloaderCaller_BlobstreamX (ShareloaderCallerSession_Contract s) (ShareloaderCallerSession_CallOpts s)"

definition ShareloaderCaller_VerifyShares ::
  "('w, 'c, 't, 'x) bound_contract ShareloaderCaller \<Rightarrow> 'c \<Rightarrow> SharesProof \<Rightarrow> bytes \<Rightarrow> (bool \<times> byte) res" where
  "ShareloaderCaller_VerifyShares c opts proof' root =
     rbind (bc_Call (ShareloaderCaller_contract c) opts [] ''verifyShares'' [any_SharesProof proof', AArray root]) (\<lambda>out.
     rbind (out_value (ShareloaderCaller_contract c) out 0 TBool as_bool) (\<lambda>out0.
     rbind (out_value (ShareloaderCaller_contract c) out 1 TUint8 as_uint8) (\<lambda>out1.
     Inr (out0, out1))))"

definition ShareloaderSession_VerifyShares ::
  "(('w, 'c, 't, 'x) bound_contract, 'c, 't) ShareloaderSession \<Rightarrow> SharesProof \<Rightarrow> bytes \<Rightarrow> (bool \<times> byte) res" where
  "ShareloaderSession_VerifyShares s proof' root =
     ShareloaderCaller_VerifyShares (Shareloader_Caller (ShareloaderSession_Contract s)) (ShareloaderSession_CallOpts s) proof' root"

definition ShareloaderCallerSession_VerifyShares ::
  "(('w, 'c, 't, 'x) bound_contract, 'c) ShareloaderCallerSession \<Rightarrow> SharesProof \<Rightarrow> bytes \<Rightarrow> (bool \<times> byte) res" where
  "ShareloaderCallerSession_VerifyShares s proof' root =
     ShareloaderCaller_VerifyShares (ShareloaderCallerSession_Contract s) (ShareloaderCallerSession_CallOpts s) proof' root"

end
