(* ===== verification/ContractRuns.thy ===== *)
theory ContractRuns
  imports BindInputBox BindBlobstreamXEvents BindInputs BindOutputs BindApplication BindCelestiaRelay
    BindShareLoader
begin

text \<open>
  The code that reads events, run on the bindings: \<open>ReadPastInputs\<close> of the inputter and
  \<open>findMatchingDataCommitment\<close> of the Celestia client, with the iterator that they loop over, and
  their refinement of the loops over a list of events that the other theories use. Neither of them
  asks the iterator for its error.
\<close>

section \<open>Past inputs\<close>

definition input_of_event :: "InputBoxInputAdded \<Rightarrow> InputAdded" where
  "input_of_event e = \<lparr>ia_AppContract = InputBoxInputAdded_AppContract e, ia_Index = InputBoxInputAdded_Index e,
     ia_Input = InputBoxInputAdded_Input e, ia_BlockNumber = el_BlockNumber (InputBoxInputAdded_Raw e),
     ia_BlockHash = el_BlockHash (InputBoxInputAdded_Raw e)\<rparr>"

definition continue_after :: "('s, unit) comp \<Rightarrow> ('s, unit option) comp" where
  "continue_after m = andThen m (\<lambda>_. ret None)"

text \<open>The value is \<open>None\<close> when the iteration waits for ever.\<close>

definition ReadPastInputs_over ::
  "ethlib \<Rightarrow> 'm input_model \<Rightarrow> headers \<Rightarrow> ('w, 'c, 't, 'x) bound_contract InputBoxFilterer \<Rightarrow> address \<Rightarrow>
   u64 \<Rightarrow> u64 option \<Rightarrow> 'm inputter \<Rightarrow> (unit res \<times> 'm inputter) option" where
  "ReadPastInputs_over E add HeaderByHash inputBox ApplicationAddress startBlockNumber endBlockNumber s =
     (let opts = \<lparr>fo_Start = startBlockNumber, fo_End = endBlockNumber\<rparr>; filter' = [ApplicationAddress]
      in case InputBoxFilterer_FilterInputAdded inputBox opts filter' [] of
           Inl err \<Rightarrow> Some (wrapErr ''inputter: filter input added'' (fail err) s)
         | Inr it \<Rightarrow> map_option (\<lambda>(r, s', _). (rbind r (\<lambda>_. Inr ()), s'))
             (for_Next (unpack_InputBoxInputAdded (InputBoxFilterer_contract inputBox))
               (\<lambda>event. continue_after (read_event E add HeaderByHash (input_of_event event))) it s))"

lemma for_list_continue:
  "for_list (\<lambda>event. continue_after (f (g event))) events s = (case forEach f (map g events) s of
     (Inl err, s') \<Rightarrow> (Inl err, s') | (Inr _, s') \<Rightarrow> (Inr None, s'))"
  by (induction events arbitrary: s)
    (auto simp: continue_after_def andThen_apply split: prod.splits sum.splits)

text \<open>Whatever error the iteration ends with, the loop is the loop over the events that arrived.\<close>

lemma ReadPastInputs_over_refines:
  assumes logs: "bc_FilterLogs (InputBoxFilterer_contract inputBox) \<lparr>fo_Start = b, fo_End = e\<rparr> ''InputAdded''
      [[AAddress app], []] = Inr logs"
    and events: "iteration (unpack_InputBoxInputAdded (InputBoxFilterer_contract inputBox) ''InputAdded'') logs =
      Some (events, err)"
  shows "ReadPastInputs_over E add H inputBox app b e s =
    Some (ReadPastInputs E add H (\<lambda>_ _. Inr (map input_of_event events)) b e s)"
proof -
  let ?body = "\<lambda>event. continue_after (read_event E add H (input_of_event event))"
  obtain it' where loop: "for_Next (unpack_InputBoxInputAdded (InputBoxFilterer_contract inputBox)) ?body
      (new_iterator ''InputAdded'' logs) s = Some (fst (for_list ?body events s), snd (for_list ?body events s), it')"
    using iterator_loop [where body = ?body and s = s and event = "''InputAdded''" and logs = logs
        and unpack = "unpack_InputBoxInputAdded (InputBoxFilterer_contract inputBox)"] events by blast
  show ?thesis
    by (simp add: ReadPastInputs_over_def InputBoxFilterer_FilterInputAdded_def logs loop for_list_continue
        ReadPastInputs_def andThen_apply wrapErr_apply split: prod.split sum.split)
qed

section \<open>The data commitment\<close>

definition commitment_of_event :: "BlobstreamXDataCommitmentStored \<Rightarrow> DataCommitmentStored" where
  "commitment_of_event e = \<lparr>dc_ProofNonce = BlobstreamXDataCommitmentStored_ProofNonce e,
     dc_StartBlock = BlobstreamXDataCommitmentStored_StartBlock e,
     dc_EndBlock = BlobstreamXDataCommitmentStored_EndBlock e,
     dc_DataCommitment = BlobstreamXDataCommitmentStored_DataCommitment e\<rparr>"

definition commitment_covers :: "int \<Rightarrow> BlobstreamXDataCommitmentStored \<Rightarrow> bool" where
  "commitment_covers height e \<longleftrightarrow> sint (BlobstreamXDataCommitmentStored_StartBlock e) \<le> height \<and>
     height < sint (BlobstreamXDataCommitmentStored_EndBlock e)"

definition findMatchingDataCommitment_over ::
  "('w, 'c, 't, 'x) bound_contract BlobstreamXFilterer \<Rightarrow> u64 \<Rightarrow> u64 \<Rightarrow> int \<Rightarrow>
   BlobstreamXDataCommitmentStored option res option" where
  "findMatchingDataCommitment_over contract start end' height =
     (case BlobstreamXFilterer_FilterDataCommitmentStored contract \<lparr>fo_Start = start, fo_End = Some end'\<rparr> [] [] [] of
        Inl err \<Rightarrow> Some (Inl (EWrap ''failed to filter events'' err))
      | Inr events \<Rightarrow> map_option fst
          (for_Next (unpack_BlobstreamXDataCommitmentStored (BlobstreamXFilterer_contract contract))
            (\<lambda>e. ret (if commitment_covers height e then Some e else None)) events ()))"

lemma for_list_find: "for_list (\<lambda>e. ret (if P e then Some e else None)) events s = (Inr (find P events), s)"
  by (induction events) auto

lemma find_commitment_of_event:
  "find (\<lambda>e. sint (dc_StartBlock e) \<le> height \<and> height < sint (dc_EndBlock e)) (map commitment_of_event events) =
   map_option commitment_of_event (find (commitment_covers height) events)"
  by (induction events) (auto simp: commitment_covers_def commitment_of_event_def)

lemma findMatching_over_finds:
  assumes logs: "bc_FilterLogs (BlobstreamXFilterer_contract contract) \<lparr>fo_Start = start, fo_End = Some end'\<rparr>
      ''DataCommitmentStored'' [[], [], []] = Inr logs"
    and events: "iteration (unpack_BlobstreamXDataCommitmentStored (BlobstreamXFilterer_contract contract)
      ''DataCommitmentStored'') logs = Some (events, err)"
  shows "findMatchingDataCommitment_over contract start end' height = Some (Inr (find (commitment_covers height) events))"
proof -
  let ?body = "\<lambda>e. ret (if commitment_covers height e then Some e else None) :: (unit, BlobstreamXDataCommitmentStored option) comp"
  obtain it' where "for_Next (unpack_BlobstreamXDataCommitmentStored (BlobstreamXFilterer_contract contract)) ?body
      (new_iterator ''DataCommitmentStored'' logs) () = Some (fst (for_list ?body events ()), snd (for_list ?body events ()), it')"
    using iterator_loop [where body = ?body and s = "()" and event = "''DataCommitmentStored''" and logs = logs
        and unpack = "unpack_BlobstreamXDataCommitmentStored (BlobstreamXFilterer_contract contract)"] events by blast
  then show ?thesis
    by (simp add: findMatchingDataCommitment_over_def BlobstreamXFilterer_FilterDataCommitmentStored_def logs for_list_find)
qed

lemma findMatching_over_refines:
  assumes "bc_FilterLogs (BlobstreamXFilterer_contract contract) \<lparr>fo_Start = start, fo_End = Some end'\<rparr>
      ''DataCommitmentStored'' [[], [], []] = Inr logs"
    and "iteration (unpack_BlobstreamXDataCommitmentStored (BlobstreamXFilterer_contract contract)
      ''DataCommitmentStored'') logs = Some (events, err)"
  shows "map_option (map_sum id (map_option commitment_of_event)) (findMatchingDataCommitment_over contract start end' height) =
    Some (findMatchingDataCommitment (\<lambda>_ _. Inr (map commitment_of_event events)) start end' height)"
  by (simp add: findMatching_over_finds [OF assms] findMatchingDataCommitment_def find_commitment_of_event)

section \<open>The connections of the inputter\<close>

text \<open>
  A connection of \<open>watchNewInputs\<close> over the input box: the past inputs it reads are those of the events
  that an iteration delivers, what it is sent are the events of the subscription to the application.
\<close>

definition connects :: "('w, 'c, 't, 'x) bound_contract InputBoxFilterer \<Rightarrow> address \<Rightarrow> input_connection \<Rightarrow> bool" where
  "connects inputBox app c \<longleftrightarrow>
     (\<forall>b es. ip_FilterInputAdded c b None = Inr es \<longrightarrow> (\<exists>logs events err.
        bc_FilterLogs (InputBoxFilterer_contract inputBox) \<lparr>fo_Start = b, fo_End = None\<rparr> ''InputAdded''
          [[AAddress app], []] = Inr logs \<and>
        iteration (unpack_InputBoxInputAdded (InputBoxFilterer_contract inputBox) ''InputAdded'') logs = Some (events, err) \<and>
        es = map input_of_event events)) \<and>
     (ip_events c \<noteq> [] \<longrightarrow> (\<exists>events ending.
        InputBoxFilterer_WatchInputAdded inputBox \<lparr>wo_Start = None\<rparr> [app] [] = Inr (events, ending) \<and>
        ip_events c = map input_of_event events))"

lemma watch_logs_unpacked: "event \<in> set (fst (watch_logs unpack turns)) \<Longrightarrow> \<exists>log. unpack log = Inr event"
  by (induction unpack turns rule: watch_logs.induct) (auto split: sum.splits sink_turn.splits prod.splits)

lemma unpack_all_unpacked: "event \<in> set (fst (unpack_all unpack logs)) \<Longrightarrow> \<exists>log. unpack log = Inr event"
  by (induction logs) (auto split: sum.splits prod.splits)

lemma iteration_unpacked:
  "iteration unpack logs = Some (events, err) \<Longrightarrow> event \<in> set events \<Longrightarrow> \<exists>log. unpack log = Inr event"
proof (induction unpack logs arbitrary: events rule: iteration.induct)
  case (4 unpack as)
  then show ?case using unpack_all_unpacked [of event unpack "channel_logs as"] by simp
qed (auto split: sum.splits)

lemma watched_unpacked:
  assumes "InputBoxFilterer_WatchInputAdded inputBox opts apps indices = Inr (events, ending)" and "event \<in> set events"
  shows "\<exists>log. unpack_InputBoxInputAdded (InputBoxFilterer_contract inputBox) ''InputAdded'' log = Inr event"
proof -
  from assms(1) obtain turns where
    "watch_logs (unpack_InputBoxInputAdded (InputBoxFilterer_contract inputBox) ''InputAdded'') turns = (events, ending)"
    by (auto simp: InputBoxFilterer_WatchInputAdded_def rbind_Inr_iff)
  with assms(2) watch_logs_unpacked
    [where unpack = "unpack_InputBoxInputAdded (InputBoxFilterer_contract inputBox) ''InputAdded''" and turns = turns]
  show ?thesis by simp
qed

text \<open>So the inputs of the node stand for logs of the input box.\<close>

lemma connects_offers:
  assumes "connects inputBox app c"
    and src: "\<And>log event x. unpack_InputBoxInputAdded (InputBoxFilterer_contract inputBox) ''InputAdded'' log = Inr event \<Longrightarrow>
      event_input E (ip_HeaderByHash c) (input_of_event event) = Inr x \<Longrightarrow> fits x \<and> x \<in> src"
  shows "offers fits E src c"
proof -
  let ?unpack = "unpack_InputBoxInputAdded (InputBoxFilterer_contract inputBox) ''InputAdded''"
  have "\<exists>log event. ?unpack log = Inr event \<and> e = input_of_event event"
    if "e \<in> set (ip_events c) \<or> (\<exists>b es. ip_FilterInputAdded c b None = Inr es \<and> e \<in> set es)" for e
    using that
  proof
    assume e: "e \<in> set (ip_events c)"
    then obtain events ending where "InputBoxFilterer_WatchInputAdded inputBox \<lparr>wo_Start = None\<rparr> [app] [] = Inr (events, ending)"
        and "ip_events c = map input_of_event events"
      using assms(1) unfolding connects_def by (metis emptyE empty_set)
    with e show ?thesis using watched_unpacked by fastforce
  next
    assume "\<exists>b es. ip_FilterInputAdded c b None = Inr es \<and> e \<in> set es"
    then obtain logs events err where "iteration ?unpack logs = Some (events, err)" and "e \<in> input_of_event ` set events"
      using assms(1) unfolding connects_def by fastforce
    then show ?thesis using iteration_unpacked by fastforce
  qed
  with src show ?thesis unfolding offers_def by blast
qed

end
