(* ===== verification/NodeStates.thy ===== *)
theory NodeStates
  imports NonodoQueue Releases Devnet FetchLaws
begin

text \<open>
  The methods of the three states of the node (\<open>internal/model/state.go\<close>), one by one, behind the
  interface that the model calls them through; that the operations of \<open>NonodoModel\<close> are calls through
  it; and the smaller readers of files and remote services: the runtime that anvil needs on Windows
  (\<open>commons/anvil_window.go\<close>), commands on Windows (\<open>supervisor/command_windows.go\<close>), the ABI of a
  contract (\<open>convenience/decoder/decoder.go\<close>), the endpoints of \<open>celestia.go\<close>, the files of \<open>main.go\<close>.
\<close>

section \<open>The idle state\<close>

definition idle_finish :: "CompletionStatus \<Rightarrow> (NonodoModel, unit) comp" where
  "idle_finish status = ret ()"

definition idle_addVoucher :: "address \<Rightarrow> bytes \<Rightarrow> (NonodoModel, int) comp" where
  "idle_addVoucher destination payload = fail (EMsg ''cannot add voucher in idle state'')"

definition idle_addVoucherWithInput :: "address \<Rightarrow> bytes \<Rightarrow> int \<Rightarrow> (NonodoModel, int) comp" where
  "idle_addVoucherWithInput destination payload inputIndex = fail (EMsg ''cannot add voucher in idle state'')"

definition idle_addNotice :: "bytes \<Rightarrow> (NonodoModel, int) comp" where
  "idle_addNotice payload = fail (EMsg ''cannot add notice in current state'')"

definition idle_addNoticeWithInput :: "bytes \<Rightarrow> int \<Rightarrow> (NonodoModel, int) comp" where
  "idle_addNoticeWithInput payload inputIndex = fail (EMsg ''cannot add notice in current state'')"

definition idle_addReport :: "bytes \<Rightarrow> (NonodoModel, unit) comp" where
  "idle_addReport payload = fail (EMsg ''cannot add report in current state'')"

definition idle_registerException :: "bytes \<Rightarrow> (NonodoModel, unit) comp" where
  "idle_registerException payload = fail (EMsg ''cannot register exception in current state'')"

section \<open>The advance state\<close>

definition advance_addVoucherWithInput ::
  "ethlib \<Rightarrow> rollupsStateAdvance \<Rightarrow> address \<Rightarrow> bytes \<Rightarrow> int \<Rightarrow> (NonodoModel, int) comp" where
  "advance_addVoucherWithInput E st destination payload inputIndex =
     (let index = int (length (sa_vouchers st));
          voucher = \<lparr>cv_Destination = destination, cv_Payload = Bytes2Hex E payload, cv_InputIndex = of_int inputIndex,
            cv_OutputIndex = of_int index, cv_Executed = False, cv_AppContract = 0\<rparr>
      in andThen (set_state (StAdvance (st\<lparr>sa_vouchers := sa_vouchers st @ [voucher]\<rparr>))) (\<lambda>_. ret index))"

definition advance_addNoticeWithInput ::
  "ethlib \<Rightarrow> rollupsStateAdvance \<Rightarrow> bytes \<Rightarrow> int \<Rightarrow> (NonodoModel, int) comp" where
  "advance_addNoticeWithInput E st payload inputIndex =
     (let index = int (length (sa_notices st));
          notice = \<lparr>cn_Payload = Bytes2Hex E payload, cn_InputIndex = of_int inputIndex, cn_OutputIndex = of_int index,
            cn_AppContract = 0\<rparr>
      in andThen (set_state (StAdvance (st\<lparr>sa_notices := sa_notices st @ [notice]\<rparr>))) (\<lambda>_. ret index))"

definition advance_addReport :: "rollupsStateAdvance \<Rightarrow> bytes \<Rightarrow> (NonodoModel, unit) comp" where
  "advance_addReport st payload =
     (let index = int (length (sa_reports st));
          report = \<lparr>rp_Index = index, rp_InputIndex = ai_Index (sa_input st), rp_Payload = payload, rp_AppContract = 0\<rparr>
      in set_state (StAdvance (st\<lparr>sa_reports := sa_reports st @ [report]\<rparr>)))"

section \<open>The inspect state\<close>

definition inspect_addVoucher :: "address \<Rightarrow> bytes \<Rightarrow> (NonodoModel, int) comp" where
  "inspect_addVoucher destination payload = fail (EMsg ''cannot add voucher in inspect state'')"

definition inspect_addVoucherWithInput :: "address \<Rightarrow> bytes \<Rightarrow> int \<Rightarrow> (NonodoModel, int) comp" where
  "inspect_addVoucherWithInput destination payload inputIndex = fail (EMsg ''cannot add voucher in inspect state'')"

definition inspect_addNotice :: "bytes \<Rightarrow> (NonodoModel, int) comp" where
  "inspect_addNotice payload = fail (EMsg ''cannot add notice in current state'')"

definition inspect_addNoticeWithInput :: "bytes \<Rightarrow> int \<Rightarrow> (NonodoModel, int) comp" where
  "inspect_addNoticeWithInput payload inputIndex = fail (EMsg ''cannot add notice in current state'')"

text \<open>The input of the state is shared with the list of the model.\<close>

definition inspect_addReport :: "rollupsStateInspect \<Rightarrow> bytes \<Rightarrow> (NonodoModel, unit) comp" where
  "inspect_addReport st payload s =
     (let index = int (length (si_reports st));
          report = \<lparr>mr_Index = index, mr_InputIndex = ii_Index (nm_inspects s ! si_input st), mr_Payload = payload\<rparr>
      in set_state (StInspect (st\<lparr>si_reports := si_reports st @ [report]\<rparr>)) s)"

section \<open>The interface\<close>

record state_methods =
  sm_finish :: "CompletionStatus \<Rightarrow> (NonodoModel, unit) comp"
  sm_addVoucher :: "address \<Rightarrow> bytes \<Rightarrow> (NonodoModel, int) comp"
  sm_addVoucherWithInput :: "address \<Rightarrow> bytes \<Rightarrow> int \<Rightarrow> (NonodoModel, int) comp"
  sm_addNotice :: "bytes \<Rightarrow> (NonodoModel, int) comp"
  sm_addNoticeWithInput :: "bytes \<Rightarrow> int \<Rightarrow> (NonodoModel, int) comp"
  sm_addReport :: "bytes \<Rightarrow> (NonodoModel, unit) comp"
  sm_registerException :: "bytes \<Rightarrow> (NonodoModel, unit) comp"

fun methods_of :: "ethlib \<Rightarrow> rollupsState \<Rightarrow> state_methods" where
  "methods_of E rollupsStateIdle = \<lparr>sm_finish = idle_finish, sm_addVoucher = idle_addVoucher,
     sm_addVoucherWithInput = idle_addVoucherWithInput, sm_addNotice = idle_addNotice,
     sm_addNoticeWithInput = idle_addNoticeWithInput, sm_addReport = idle_addReport,
     sm_registerException = idle_registerException\<rparr>"
| "methods_of E (StAdvance st) = \<lparr>sm_finish = finish_advance E st,
     sm_addVoucher = (\<lambda>destination payload. addVoucher_advance E st destination payload (of_int (ai_Index (sa_input st)))),
     sm_addVoucherWithInput = advance_addVoucherWithInput E st,
     sm_addNotice = (\<lambda>payload. addNotice_advance E st payload (of_int (ai_Index (sa_input st)))),
     sm_addNoticeWithInput = advance_addNoticeWithInput E st, sm_addReport = advance_addReport st,
     sm_registerException = registerException_advance E st\<rparr>"
| "methods_of E (StInspect st) = \<lparr>sm_finish = finish_inspect E st, sm_addVoucher = inspect_addVoucher,
     sm_addVoucherWithInput = inspect_addVoucherWithInput, sm_addNotice = inspect_addNotice,
     sm_addNoticeWithInput = inspect_addNoticeWithInput, sm_addReport = inspect_addReport st,
     sm_registerException = registerException_inspect E st\<rparr>"

lemmas state_method_defs = idle_finish_def idle_addVoucher_def idle_addVoucherWithInput_def idle_addNotice_def
  idle_addNoticeWithInput_def idle_addReport_def idle_registerException_def advance_addVoucherWithInput_def
  advance_addNoticeWithInput_def advance_addReport_def inspect_addVoucher_def inspect_addVoucherWithInput_def
  inspect_addNotice_def inspect_addNoticeWithInput_def inspect_addReport_def addVoucher_advance_def addNotice_advance_def

text \<open>Every operation of the model is the method of the state it is in.\<close>

lemma operations_dispatch:
  "state_finish E status s = sm_finish (methods_of E (nm_state s)) status s"
  "AddVoucher E destination payload s = sm_addVoucher (methods_of E (nm_state s)) destination payload s"
  "AddVoucherWithInput E destination payload i s = sm_addVoucherWithInput (methods_of E (nm_state s)) destination payload i s"
  "AddNotice E payload s = sm_addNotice (methods_of E (nm_state s)) payload s"
  "AddNoticeWithInput E payload i s = sm_addNoticeWithInput (methods_of E (nm_state s)) payload i s"
  "AddReport payload s = sm_addReport (methods_of E (nm_state s)) payload s"
  "RegisterException E payload s =
     andThen (sm_registerException (methods_of E (nm_state s)) payload) (\<lambda>_. set_state newRollupsStateIdle) s"
  by (cases "nm_state s"; simp add: state_finish_def AddVoucher_def AddVoucherWithInput_def AddNotice_def
      AddNoticeWithInput_def AddReport_def RegisterException_def andThen_apply state_method_defs Let_def)+

text \<open>Outputs are refused, and the node stays as it is, outside an advance; reports and exceptions when it is idle.\<close>

lemma outputs_refused:
  assumes "\<forall>st. nm_state s \<noteq> StAdvance st"
  shows "\<not> is_ok (fst (AddVoucher E destination payload s)) \<and> snd (AddVoucher E destination payload s) = s \<and>
    \<not> is_ok (fst (AddNotice E payload s)) \<and> snd (AddNotice E payload s) = s"
  using assms by (cases "nm_state s") (simp_all add: AddVoucher_def AddNotice_def)

section \<open>The runtime for anvil on Windows\<close>

text \<open>
  \<open>wh_OpenKey\<close>: opening the key of the registry, absent as \<open>None\<close>; \<open>wh_GetIntegerValue\<close>: its value;
  \<open>wh_Do\<close>: the download, of which the body may fail; \<open>wh_Run\<close>: running a program with arguments.
\<close>

record windows_host =
  wh_OpenKey :: "unit option res"
  wh_GetIntegerValue :: "string \<Rightarrow> nat res"
  wh_NewRequest :: "unit res"
  wh_Do :: "string \<Rightarrow> bytes res res"
  wh_Run :: "path \<Rightarrow> string list \<Rightarrow> unit res"
  wh_TempDir :: path
  wh_faults :: fs_faults

definition isVCRedistInstalled :: "windows_host \<Rightarrow> bool res" where
  "isVCRedistInstalled W = (case wh_OpenKey W of
       Inl err \<Rightarrow> Inl err
     | Inr None \<Rightarrow> Inr False
     | Inr (Some _) \<Rightarrow> rbind (wh_GetIntegerValue W ''Installed'') (\<lambda>installed. Inr (installed = 1)))"

definition DownloadRuntime :: "windows_host \<Rightarrow> (files, path) comp" where
  "DownloadRuntime W =
     andThen (textErr ''anvil: failed to download runtime'' (lift_res (wh_NewRequest W))) (\<lambda>_.
     andThen (textErr ''anvil: failed to download runtime''
       (lift_res (wh_Do W ''https://aka.ms/vs/17/release/vc_redist.x64.exe''))) (\<lambda>body.
     andThen (textErr ''anvil: failed to read runtime'' (lift_res body)) (\<lambda>data.
     let root = path_Join (wh_TempDir W) ''foundry-runtime''
     in andThen (textErr ''anvil: failed to create temp dir'' (MkdirAll (wh_faults W) root)) (\<lambda>_.
        let fp = path_Join root ''vc_redist.x64.exe''
        in andThen (textErr ''anvil: failed to write runtime'' (WriteFile (wh_faults W) fp data)) (\<lambda>_. ret fp)))))"

definition InstallRuntime :: "windows_host \<Rightarrow> path \<Rightarrow> (files, unit) comp" where
  "InstallRuntime W fp =
     textErr ''anvil: failed to install runtime'' (lift_res (wh_Run W fp [''/install'', ''/passive'', ''/norestart'']))"

definition Windows_Prerequisites :: "windows_host \<Rightarrow> (files, unit) comp" where
  "Windows_Prerequisites W =
     andThen (lift_res (isVCRedistInstalled W)) (\<lambda>isInstalled.
     if isInstalled then ret ()
     else andThen (DownloadRuntime W) (\<lambda>fp. andThen (InstallRuntime W fp) (\<lambda>_. ret ())))"

text \<open>A machine that has the runtime downloads nothing, and what is downloaded stays in its directory.\<close>

lemma installed_runtime: "isVCRedistInstalled W = Inr True \<Longrightarrow> Windows_Prerequisites W fs = (Inr (), fs)"
  by (simp add: Windows_Prerequisites_def andThen_apply)

text \<open>The command on Windows: no process group, and the cancellation kills the process only.\<close>

definition Windows_CommandWorker_cmd :: "string list \<Rightarrow> CommandWorker \<Rightarrow> exec_cmd" where
  "Windows_CommandWorker_cmd environ w = \<lparr>ex_Command = cw_Command w, ex_Args = cw_Args w, ex_Env = environ @ cw_Env w,
     ex_Stderr = \<lparr>cl_name = cw_Name w, cl_buffName = ''stdout'', cl_buffer = []\<rparr>,
     ex_Stdout = \<lparr>cl_name = cw_Name w, cl_buffName = ''stderr'', cl_buffer = []\<rparr>, ex_Setpgid = False\<rparr>"

definition Windows_CommandWorker_Start ::
  "string list \<Rightarrow> (exec_cmd \<Rightarrow> unit res) \<Rightarrow> err option \<Rightarrow> CommandWorker \<Rightarrow> unit res" where
  "Windows_CommandWorker_Start environ Run ctxErr w =
     (let err = Run (Windows_CommandWorker_cmd environ w)
      in case ctxErr of Some e \<Rightarrow> Inl e | None \<Rightarrow> err)"

definition Windows_CommandWorker_Cancel :: "(int \<Rightarrow> unit res) \<Rightarrow> int \<Rightarrow> unit res" where
  "Windows_CommandWorker_Cancel Kill pid = Kill pid"

section \<open>The ABI of a contract\<close>

text \<open>The answer of Etherscan, as far as it is read.\<close>

record etherscan_answer =
  ea_Status :: string
  ea_Message :: string
  ea_Result :: "string list"

definition into_etherscan :: "etherscan_answer setter" where
  "into_etherscan = decode_struct
     [(''status'', into_string (\<lambda>s a. a\<lparr>ea_Status := s\<rparr>)), (''message'', into_string (\<lambda>s a. a\<lparr>ea_Message := s\<rparr>)),
      (''result'', into_list (decode_struct [(''ABI'', into_plain_string)]) [] (\<lambda>rs a. a\<lparr>ea_Result := rs\<rparr>))]"

text \<open>\<open>UnmarshalAbi\<close> is go-ethereum's reader of an ABI.\<close>

definition jsonToAbi :: "(string \<Rightarrow> 'abi res) \<Rightarrow> string \<Rightarrow> 'abi res" where
  "jsonToAbi UnmarshalAbi abiJSON = (case UnmarshalAbi abiJSON of
       Inl err2 \<Rightarrow> Inl (EMsg (''unexpected error json '' @ err_text err2))
     | Inr abiData \<Rightarrow> Inr abiData)"

definition OutputDecoder_GetAbi :: "ethlib \<Rightarrow> (string \<Rightarrow> string res res) \<Rightarrow> (string \<Rightarrow> 'abi res) \<Rightarrow> address \<Rightarrow> 'abi res" where
  "OutputDecoder_GetAbi E Get UnmarshalAbi addr =
     (let url = ''https://api.etherscan.io/api'' @ ''/'' @ ''?module=contract&action=getsourcecode&address='' @ addr_Hex E addr
      in case Get url of
           Inl err \<Rightarrow> Inl (EMsg ''unexpected error'')
         | Inr (Inl err) \<Rightarrow> Inl (EMsg ''unexpected error io'')
         | Inr (Inr apiResult) \<Rightarrow>
             (case json_unmarshal into_etherscan apiResult \<lparr>ea_Status = [], ea_Message = [], ea_Result = []\<rparr> of
                Inl err \<Rightarrow> Inl (EMsg ''unexpected error'')
              | Inr apiResponse \<Rightarrow> (case ea_Result apiResponse of
                  [] \<Rightarrow> Inl (EPanic ''index out of range'')
                | abiJSON # _ \<Rightarrow> jsonToAbi UnmarshalAbi abiJSON)))"

text \<open>An answer without results makes it panic: neither its status nor the length of the list is looked at.\<close>

definition no_abi_answer :: json where
  "no_abi_answer = JObj [(''status'', JStr ''0''), (''message'', JStr ''No data found''), (''result'', JArr [])]"

lemma no_abi_answer_parsed: "json_parse (json_print no_abi_answer) = Some no_abi_answer"
  using json_roundtrip [of no_abi_answer "[]"]
  by (simp add: no_abi_answer_def ascii_char_def maxNestingDepth_def)

lemma GetAbi_no_result:
  assumes "\<And>url. Get url = Inr (Inr (json_print no_abi_answer))"
  shows "OutputDecoder_GetAbi E Get UnmarshalAbi addr = Inl (EPanic ''index out of range'')"
proof -
  have "into_etherscan no_abi_answer \<lparr>ea_Status = [], ea_Message = [], ea_Result = []\<rparr> =
      Inr \<lparr>ea_Status = ''0'', ea_Message = ''No data found'', ea_Result = []\<rparr>"
    by (simp add: no_abi_answer_def into_etherscan_def decode_struct_def into_string_def into_list_def fold_name_simps)
  then show ?thesis
    by (simp add: OutputDecoder_GetAbi_def assms json_unmarshal_def no_abi_answer_parsed)
qed

section \<open>Endpoints and files\<close>

definition celestia_connections :: "(string \<Rightarrow> 'e res) \<Rightarrow> (string \<Rightarrow> string \<Rightarrow> 't res) \<Rightarrow> ('e \<times> 't) res" where
  "celestia_connections Dial New =
     (let ethEndpoint = ''https://arbitrum-sepolia-rpc.publicnode.com'';
          trpcEndpoint = ''https://celestia-mocha-rpc.publicnode.com:443''
      in rbind (wrap_res ''failed to connect to the Ethereum node'' (Dial ethEndpoint)) (\<lambda>eth.
         rbind (wrap_res ''failed to connect to the Tendermint RPC'' (New trpcEndpoint ''/websocket'')) (\<lambda>trpc.
         Inr (eth, trpc))))"

definition main_downloadFile :: "(string \<Rightarrow> unit res) \<Rightarrow> (string \<Rightarrow> bytes res res) \<Rightarrow> string \<Rightarrow> bytes res" where
  "main_downloadFile NewRequest Do url = rbind (NewRequest url) (\<lambda>_. rbind (Do url) (\<lambda>body. rbind body (\<lambda>content. Inr content)))"

text \<open>
  One call of \<open>Read\<close> fills a buffer of the size of the file; what it did not read stays zero.
\<close>

definition main_readFile ::
  "(string \<Rightarrow> 'f res) \<Rightarrow> ('f \<Rightarrow> nat res) \<Rightarrow> ('f \<Rightarrow> nat \<Rightarrow> bytes res) \<Rightarrow> string \<Rightarrow> bytes res" where
  "main_readFile Open Size Read path =
     rbind (Open path) (\<lambda>file.
     rbind (Size file) (\<lambda>size.
     rbind (Read file size) (\<lambda>data. Inr (copy_into size data))))"

lemma main_readFile_whole:
  assumes "Open path = Inr f" and "Size f = Inr (length content)" and "Read f (length content) = Inr (take n content)"
  shows "main_readFile Open Size Read path = Inr (take n content @ replicate (length content - n) 0)"
  using assms by (simp add: main_readFile_def copy_into_def min_def)

end
