(* ===== verification/HttpClients.thy ===== *)
theory HttpClients
  imports InspectHttp
begin

text \<open>
  What the two generated clients (\<open>rollup/generated.go\<close>, \<open>inspect/generated.go\<close>) have more than once: the
  package \<open>inspect\<close> repeats the client of \<open>rollup\<close>, body for body, and every operation has a response type
  of its own with the same two methods.
\<close>

section \<open>The client of the inspect package\<close>

definition inspect_NewClient ::
  "(wire_request \<Rightarrow> ('s, wire_response) comp) \<Rightarrow> string \<Rightarrow> 's ClientOption list \<Rightarrow> 's Client res" where
  "inspect_NewClient = NewClient"

definition inspect_WithHTTPClient :: "(wire_request \<Rightarrow> ('s, wire_response) comp) \<Rightarrow> 's ClientOption" where
  "inspect_WithHTTPClient = WithHTTPClient"

definition inspect_WithRequestEditorFn :: "(wire_request \<Rightarrow> wire_request res) \<Rightarrow> 's ClientOption" where
  "inspect_WithRequestEditorFn = WithRequestEditorFn"

definition inspect_WithBaseURL :: "(string \<Rightarrow> string res) \<Rightarrow> string \<Rightarrow> 's ClientOption" where
  "inspect_WithBaseURL = WithBaseURL"

definition inspect_applyEditors ::
  "'s Client \<Rightarrow> wire_request \<Rightarrow> (wire_request \<Rightarrow> wire_request res) list \<Rightarrow> wire_request res" where
  "inspect_applyEditors = applyEditors"

definition inspect_NewClientWithResponses ::
  "(wire_request \<Rightarrow> ('s, wire_response) comp) \<Rightarrow> string \<Rightarrow> 's ClientOption list \<Rightarrow> 's Client res" where
  "inspect_NewClientWithResponses http_Client server opts = inspect_NewClient http_Client server opts"

section \<open>The response types\<close>

type_synonym RegisterExceptionResponse = "unit api_response"

definition RegisterExceptionResponse_Status :: "RegisterExceptionResponse \<Rightarrow> string" where
  "RegisterExceptionResponse_Status = Response_Status"

definition RegisterExceptionResponse_StatusCode :: "RegisterExceptionResponse \<Rightarrow> int" where
  "RegisterExceptionResponse_StatusCode = Response_StatusCode"

type_synonym GioResponse = "GioResponseRollup api_response"

definition GioResponse_Status :: "GioResponse \<Rightarrow> string" where
  "GioResponse_Status = Response_Status"

definition GioResponse_StatusCode :: "GioResponse \<Rightarrow> int" where
  "GioResponse_StatusCode = Response_StatusCode"

type_synonym AddNoticeResponse = "u64 api_response"

definition AddNoticeResponse_Status :: "AddNoticeResponse \<Rightarrow> string" where
  "AddNoticeResponse_Status = Response_Status"

definition AddNoticeResponse_StatusCode :: "AddNoticeResponse \<Rightarrow> int" where
  "AddNoticeResponse_StatusCode = Response_StatusCode"

type_synonym AddReportResponse = "unit api_response"

definition AddReportResponse_Status :: "AddReportResponse \<Rightarrow> string" where
  "AddReportResponse_Status = Response_Status"

definition AddReportResponse_StatusCode :: "AddReportResponse \<Rightarrow> int" where
  "AddReportResponse_StatusCode = Response_StatusCode"

type_synonym AddVoucherResponse = "u64 api_response"

definition AddVoucherResponse_Status :: "AddVoucherResponse \<Rightarrow> string" where
  "AddVoucherResponse_Status = Response_Status"

definition AddVoucherResponse_StatusCode :: "AddVoucherResponse \<Rightarrow> int" where
  "AddVoucherResponse_StatusCode = Response_StatusCode"

type_synonym InspectPostResponse = "InspectResult api_response"

definition InspectPostResponse_Status :: "InspectPostResponse \<Rightarrow> string" where
  "InspectPostResponse_Status = Response_Status"

definition InspectPostResponse_StatusCode :: "InspectPostResponse \<Rightarrow> int" where
  "InspectPostResponse_StatusCode = Response_StatusCode"

type_synonym InspectResponse = "InspectResult api_response"

definition InspectResponse_Status :: "InspectResponse \<Rightarrow> string" where
  "InspectResponse_Status = Response_Status"

definition InspectResponse_StatusCode :: "InspectResponse \<Rightarrow> int" where
  "InspectResponse_StatusCode = Response_StatusCode"

section \<open>What a new client is\<close>

text \<open>A new client has a transport and a server that ends in a slash, whatever the options set.\<close>

lemma NewClient_ready:
  assumes "NewClient http_Client server opts = Inr c"
  shows "HasSuffix (hc_Server c) ''/'' \<and> hc_Client c \<noteq> None"
proof -
  obtain x where c: "c = (let client = (if \<not> HasSuffix (hc_Server x) ''/'' then x\<lparr>hc_Server := hc_Server x @ ''/''\<rparr> else x)
      in if hc_Client client = None then client\<lparr>hc_Client := Some http_Client\<rparr> else client)"
    using assms by (auto simp: NewClient_def rbind_Inr_iff Let_def)
  show ?thesis by (cases "hc_Client x") (simp_all add: c Let_def HasSuffix_def)
qed

end
