(* ===== verification/ReaderClient.thy ===== *)
theory ReaderClient
  imports FetchLaws
begin

text \<open>
  The generated client of the GraphQL reader (\<open>internal/readerclient/generated.go\<close>): the types of its
  responses, read from JSON by the names in their tags, the queries, and one function for every operation. The
  library genqlient is the parameter \<open>graphql_Client\<close>.
\<close>

section \<open>The library\<close>

record graphql_Request =
  rq_OpName :: string
  rq_Query :: string
  rq_Variables :: "json option"

text \<open>
  \<open>MakeRequest\<close>: what stands under \<open>data\<close> in the response, when there is one, and the error it returns. The data
  is decoded into the variable of the caller; what a decoding that fails has written by then is not modelled.
\<close>

type_synonym graphql_Client = "graphql_Request \<Rightarrow> json option \<times> err option"

definition make_request :: "graphql_Client \<Rightarrow> graphql_Request \<Rightarrow> 'r setter \<Rightarrow> 'r \<Rightarrow> 'r \<times> err option" where
  "make_request client req into data = (case client req of
       (None, err) \<Rightarrow> (data, err)
     | (Some j, err) \<Rightarrow> (case into j data of Inl e \<Rightarrow> (data, Some e) | Inr data' \<Rightarrow> (data', err)))"

section \<open>The statuses\<close>

definition client_CompletionStatusUnprocessed :: string where "client_CompletionStatusUnprocessed = ''UNPROCESSED''"
definition client_CompletionStatusAccepted :: string where "client_CompletionStatusAccepted = ''ACCEPTED''"
definition client_CompletionStatusRejected :: string where "client_CompletionStatusRejected = ''REJECTED''"
definition client_CompletionStatusException :: string where "client_CompletionStatusException = ''EXCEPTION''"
definition client_CompletionStatusMachineHalted :: string where "client_CompletionStatusMachineHalted = ''MACHINE_HALTED''"
definition client_CompletionStatusCycleLimitExceeded :: string where "client_CompletionStatusCycleLimitExceeded = ''CYCLE_LIMIT_EXCEEDED''"
definition client_CompletionStatusTimeLimitExceeded :: string where "client_CompletionStatusTimeLimitExceeded = ''TIME_LIMIT_EXCEEDED''"
definition client_CompletionStatusPayloadLengthLimitExceeded :: string where "client_CompletionStatusPayloadLengthLimitExceeded = ''PAYLOAD_LENGTH_LIMIT_EXCEEDED''"

section \<open>The types and the operations\<close>

record GetNoticeNotice =
  gnn_Index :: int
  gnn_Payload :: string

definition zero_GetNoticeNotice :: GetNoticeNotice where
  "zero_GetNoticeNotice = \<lparr>gnn_Index = 0, gnn_Payload = []\<rparr>"

definition into_GetNoticeNotice :: "GetNoticeNotice setter" where
  "into_GetNoticeNotice = decode_struct [
     (''index'', into_int (\<lambda>x r. r\<lparr>gnn_Index := x\<rparr>)),
     (''payload'', into_string (\<lambda>x r. r\<lparr>gnn_Payload := x\<rparr>))]"

definition GetNoticeNotice_GetIndex :: "GetNoticeNotice \<Rightarrow> int" where "GetNoticeNotice_GetIndex v = gnn_Index v"

definition GetNoticeNotice_GetPayload :: "GetNoticeNotice \<Rightarrow> string" where "GetNoticeNotice_GetPayload v = gnn_Payload v"

record GetNoticeResponse =
  gnr_Notice :: GetNoticeNotice

definition zero_GetNoticeResponse :: GetNoticeResponse where
  "zero_GetNoticeResponse = \<lparr>gnr_Notice = zero_GetNoticeNotice\<rparr>"

definition into_GetNoticeResponse :: "GetNoticeResponse setter" where
  "into_GetNoticeResponse = decode_struct [
     (''notice'', into_struct into_GetNoticeNotice gnr_Notice (\<lambda>x r. r\<lparr>gnr_Notice := x\<rparr>))]"

definition GetNoticeResponse_GetNotice :: "GetNoticeResponse \<Rightarrow> GetNoticeNotice" where "GetNoticeResponse_GetNotice v = gnr_Notice v"

record GetVoucherVoucher =
  gvv_Index :: int
  gvv_Payload :: string
  gvv_Destination :: string

definition zero_GetVoucherVoucher :: GetVoucherVoucher where
  "zero_GetVoucherVoucher = \<lparr>gvv_Index = 0, gvv_Payload = [], gvv_Destination = []\<rparr>"

definition into_GetVoucherVoucher :: "GetVoucherVoucher setter" where
  "into_GetVoucherVoucher = decode_struct [
     (''index'', into_int (\<lambda>x r. r\<lparr>gvv_Index := x\<rparr>)),
     (''payload'', into_string (\<lambda>x r. r\<lparr>gvv_Payload := x\<rparr>)),
     (''destination'', into_string (\<lambda>x r. r\<lparr>gvv_Destination := x\<rparr>))]"

definition GetVoucherVoucher_GetIndex :: "GetVoucherVoucher \<Rightarrow> int" where "GetVoucherVoucher_GetIndex v = gvv_Index v"

definition GetVoucherVoucher_GetPayload :: "GetVoucherVoucher \<Rightarrow> string" where "GetVoucherVoucher_GetPayload v = gvv_Payload v"

definition GetVoucherVoucher_GetDestination :: "GetVoucherVoucher \<Rightarrow> string" where "GetVoucherVoucher_GetDestination v = gvv_Destination v"

record GetVoucherResponse =
  gvr_Voucher :: GetVoucherVoucher

definition zero_GetVoucherResponse :: GetVoucherResponse where
  "zero_GetVoucherResponse = \<lparr>gvr_Voucher = zero_GetVoucherVoucher\<rparr>"

definition into_GetVoucherResponse :: "GetVoucherResponse setter" where
  "into_GetVoucherResponse = decode_struct [
     (''voucher'', into_struct into_GetVoucherVoucher gvr_Voucher (\<lambda>x r. r\<lparr>gvr_Voucher := x\<rparr>))]"

definition GetVoucherResponse_GetVoucher :: "GetVoucherResponse \<Rightarrow> GetVoucherVoucher" where "GetVoucherResponse_GetVoucher v = gvr_Voucher v"

record InputStatusInput =
  isi_Status :: string

definition zero_InputStatusInput :: InputStatusInput where
  "zero_InputStatusInput = \<lparr>isi_Status = []\<rparr>"

definition into_InputStatusInput :: "InputStatusInput setter" where
  "into_InputStatusInput = decode_struct [
     (''status'', into_string (\<lambda>x r. r\<lparr>isi_Status := x\<rparr>))]"

definition InputStatusInput_GetStatus :: "InputStatusInput \<Rightarrow> string" where "InputStatusInput_GetStatus v = isi_Status v"

record InputStatusResponse =
  isr_Input :: InputStatusInput

definition zero_InputStatusResponse :: InputStatusResponse where
  "zero_InputStatusResponse = \<lparr>isr_Input = zero_InputStatusInput\<rparr>"

definition into_InputStatusResponse :: "InputStatusResponse setter" where
  "into_InputStatusResponse = decode_struct [
     (''input'', into_struct into_InputStatusInput isr_Input (\<lambda>x r. r\<lparr>isr_Input := x\<rparr>))]"

definition InputStatusResponse_GetInput :: "InputStatusResponse \<Rightarrow> InputStatusInput" where "InputStatusResponse_GetInput v = isr_Input v"

record StateNotice =
  snn_Index :: int
  snn_Payload :: string

definition zero_StateNotice :: StateNotice where
  "zero_StateNotice = \<lparr>snn_Index = 0, snn_Payload = []\<rparr>"

definition into_StateNotice :: "StateNotice setter" where
  "into_StateNotice = decode_struct [
     (''index'', into_int (\<lambda>x r. r\<lparr>snn_Index := x\<rparr>)),
     (''payload'', into_string (\<lambda>x r. r\<lparr>snn_Payload := x\<rparr>))]"

definition StateNotice_GetIndex :: "StateNotice \<Rightarrow> int" where "StateNotice_GetIndex v = snn_Index v"

definition StateNotice_GetPayload :: "StateNotice \<Rightarrow> string" where "StateNotice_GetPayload v = snn_Payload v"

record StateNoticeEdge =
  sne_Node :: StateNotice

definition zero_StateNoticeEdge :: StateNoticeEdge where
  "zero_StateNoticeEdge = \<lparr>sne_Node = zero_StateNotice\<rparr>"

definition into_StateNoticeEdge :: "StateNoticeEdge setter" where
  "into_StateNoticeEdge = decode_struct [
     (''node'', into_struct into_StateNotice sne_Node (\<lambda>x r. r\<lparr>sne_Node := x\<rparr>))]"

definition StateNoticeEdge_GetNode :: "StateNoticeEdge \<Rightarrow> StateNotice" where "StateNoticeEdge_GetNode v = sne_Node v"

record StateNoticeConnection =
  snc_Edges :: "StateNoticeEdge list"

definition zero_StateNoticeConnection :: StateNoticeConnection where
  "zero_StateNoticeConnection = \<lparr>snc_Edges = []\<rparr>"

definition into_StateNoticeConnection :: "StateNoticeConnection setter" where
  "into_StateNoticeConnection = decode_struct [
     (''edges'', into_list into_StateNoticeEdge zero_StateNoticeEdge (\<lambda>x r. r\<lparr>snc_Edges := x\<rparr>))]"

definition StateNoticeConnection_GetEdges :: "StateNoticeConnection \<Rightarrow> StateNoticeEdge list" where "StateNoticeConnection_GetEdges v = snc_Edges v"

record StateVoucher =
  svn_Index :: int
  svn_Payload :: string
  svn_Destination :: string

definition zero_StateVoucher :: StateVoucher where
  "zero_StateVoucher = \<lparr>svn_Index = 0, svn_Payload = [], svn_Destination = []\<rparr>"

definition into_StateVoucher :: "StateVoucher setter" where
  "into_StateVoucher = decode_struct [
     (''index'', into_int (\<lambda>x r. r\<lparr>svn_Index := x\<rparr>)),
     (''payload'', into_string (\<lambda>x r. r\<lparr>svn_Payload := x\<rparr>)),
     (''destination'', into_string (\<lambda>x r. r\<lparr>svn_Destination := x\<rparr>))]"

definition StateVoucher_GetIndex :: "StateVoucher \<Rightarrow> int" where "StateVoucher_GetIndex v = svn_Index v"

definition StateVoucher_GetPayload :: "StateVoucher \<Rightarrow> string" where "StateVoucher_GetPayload v = svn_Payload v"

definition StateVoucher_GetDestination :: "StateVoucher \<Rightarrow> string" where "StateVoucher_GetDestination v = svn_Destination v"

record StateVoucherEdge =
  sve_Node :: StateVoucher

definition zero_StateVoucherEdge :: StateVoucherEdge where
  "zero_StateVoucherEdge = \<lparr>sve_Node = zero_StateVoucher\<rparr>"

definition into_StateVoucherEdge :: "StateVoucherEdge setter" where
  "into_StateVoucherEdge = decode_struct [
     (''node'', into_struct into_StateVoucher sve_Node (\<lambda>x r. r\<lparr>sve_Node := x\<rparr>))]"

definition StateVoucherEdge_GetNode :: "StateVoucherEdge \<Rightarrow> StateVoucher" where "StateVoucherEdge_GetNode v = sve_Node v"

record StateVoucherConnection =
  svc_Edges :: "StateVoucherEdge list"

definition zero_StateVoucherConnection :: StateVoucherConnection where
  "zero_StateVoucherConnection = \<lparr>svc_Edges = []\<rparr>"

definition into_StateVoucherConnection :: "StateVoucherConnection setter" where
  "into_StateVoucherConnection = decode_struct [
     (''edges'', into_list into_StateVoucherEdge zero_StateVoucherEdge (\<lambda>x r. r\<lparr>svc_Edges := x\<rparr>))]"

definition StateVoucherConnection_GetEdges :: "StateVoucherConnection \<Rightarrow> StateVoucherEdge list" where "StateVoucherConnection_GetEdges v = svc_Edges v"

record StateReport =
  srn_Index :: int
  srn_Payload :: string

definition zero_StateReport :: StateReport where
  "zero_StateReport = \<lparr>srn_Index = 0, srn_Payload = []\<rparr>"

definition into_StateReport :: "StateReport setter" where
  "into_StateReport = decode_struct [
     (''index'', into_int (\<lambda>x r. r\<lparr>srn_Index := x\<rparr>)),
     (''payload'', into_string (\<lambda>x r. r\<lparr>srn_Payload := x\<rparr>))]"

definition StateReport_GetIndex :: "StateReport \<Rightarrow> int" where "StateReport_GetIndex v = srn_Index v"

definition StateReport_GetPayload :: "StateReport \<Rightarrow> string" where "StateReport_GetPayload v = srn_Payload v"

record StateReportEdge =
  sre_Node :: StateReport

definition zero_StateReportEdge :: StateReportEdge where
  "zero_StateReportEdge = \<lparr>sre_Node = zero_StateReport\<rparr>"

definition into_StateReportEdge :: "StateReportEdge setter" where
  "into_StateReportEdge = decode_struct [
     (''node'', into_struct into_StateReport sre_Node (\<lambda>x r. r\<lparr>sre_Node := x\<rparr>))]"

definition StateReportEdge_GetNode :: "StateReportEdge \<Rightarrow> StateReport" where "StateReportEdge_GetNode v = sre_Node v"

record StateReportConnection =
  src_Edges :: "StateReportEdge list"

definition zero_StateReportConnection :: StateReportConnection where
  "zero_StateReportConnection = \<lparr>src_Edges = []\<rparr>"

definition into_StateReportConnection :: "StateReportConnection setter" where
  "into_StateReportConnection = decode_struct [
     (''edges'', into_list into_StateReportEdge zero_StateReportEdge (\<lambda>x r. r\<lparr>src_Edges := x\<rparr>))]"

definition StateReportConnection_GetEdges :: "StateReportConnection \<Rightarrow> StateReportEdge list" where "StateReportConnection_GetEdges v = src_Edges v"

record StateInput =
  sin_Index :: int
  sin_Status :: string
  sin_MsgSender :: string
  sin_Timestamp :: string
  sin_BlockNumber :: string
  sin_Payload :: string
  sin_Notices :: StateNoticeConnection
  sin_Vouchers :: StateVoucherConnection
  sin_Reports :: StateReportConnection

definition zero_StateInput :: StateInput where
  "zero_StateInput = \<lparr>sin_Index = 0, sin_Status = [], sin_MsgSender = [], sin_Timestamp = [], sin_BlockNumber = [], sin_Payload = [], sin_Notices = zero_StateNoticeConnection, sin_Vouchers = zero_StateVoucherConnection, sin_Reports = zero_StateReportConnection\<rparr>"

definition into_StateInput :: "StateInput setter" where
  "into_StateInput = decode_struct [
     (''index'', into_int (\<lambda>x r. r\<lparr>sin_Index := x\<rparr>)),
     (''status'', into_string (\<lambda>x r. r\<lparr>sin_Status := x\<rparr>)),
     (''msgSender'', into_string (\<lambda>x r. r\<lparr>sin_MsgSender := x\<rparr>)),
     (''timestamp'', into_string (\<lambda>x r. r\<lparr>sin_Timestamp := x\<rparr>)),
     (''blockNumber'', into_string (\<lambda>x r. r\<lparr>sin_BlockNumber := x\<rparr>)),
     (''payload'', into_string (\<lambda>x r. r\<lparr>sin_Payload := x\<rparr>)),
     (''notices'', into_struct into_StateNoticeConnection sin_Notices (\<lambda>x r. r\<lparr>sin_Notices := x\<rparr>)),
     (''vouchers'', into_struct into_StateVoucherConnection sin_Vouchers (\<lambda>x r. r\<lparr>sin_Vouchers := x\<rparr>)),
     (''reports'', into_struct into_StateReportConnection sin_Reports (\<lambda>x r. r\<lparr>sin_Reports := x\<rparr>))]"

definition StateInput_GetIndex :: "StateInput \<Rightarrow> int" where "StateInput_GetIndex v = sin_Index v"

definition StateInput_GetStatus :: "StateInput \<Rightarrow> string" where "StateInput_GetStatus v = sin_Status v"

definition StateInput_GetMsgSender :: "StateInput \<Rightarrow> string" where "StateInput_GetMsgSender v = sin_MsgSender v"

definition StateInput_GetTimestamp :: "StateInput \<Rightarrow> string" where "StateInput_GetTimestamp v = sin_Timestamp v"

definition StateInput_GetBlockNumber :: "StateInput \<Rightarrow> string" where "StateInput_GetBlockNumber v = sin_BlockNumber v"

definition StateInput_GetPayload :: "StateInput \<Rightarrow> string" where "StateInput_GetPayload v = sin_Payload v"

definition StateInput_GetNotices :: "StateInput \<Rightarrow> StateNoticeConnection" where "StateInput_GetNotices v = sin_Notices v"

definition StateInput_GetVouchers :: "StateInput \<Rightarrow> StateVoucherConnection" where "StateInput_GetVouchers v = sin_Vouchers v"

definition StateInput_GetReports :: "StateInput \<Rightarrow> StateReportConnection" where "StateInput_GetReports v = sin_Reports v"

record StateInputEdge =
  sie_Node :: StateInput

definition zero_StateInputEdge :: StateInputEdge where
  "zero_StateInputEdge = \<lparr>sie_Node = zero_StateInput\<rparr>"

definition into_StateInputEdge :: "StateInputEdge setter" where
  "into_StateInputEdge = decode_struct [
     (''node'', into_struct into_StateInput sie_Node (\<lambda>x r. r\<lparr>sie_Node := x\<rparr>))]"

definition StateInputEdge_GetNode :: "StateInputEdge \<Rightarrow> StateInput" where "StateInputEdge_GetNode v = sie_Node v"

record StateInputConnection =
  sic_Edges :: "StateInputEdge list"

definition zero_StateInputConnection :: StateInputConnection where
  "zero_StateInputConnection = \<lparr>sic_Edges = []\<rparr>"

definition into_StateInputConnection :: "StateInputConnection setter" where
  "into_StateInputConnection = decode_struct [
     (''edges'', into_list into_StateInputEdge zero_StateInputEdge (\<lambda>x r. r\<lparr>sic_Edges := x\<rparr>))]"

definition StateInputConnection_GetEdges :: "StateInputConnection \<Rightarrow> StateInputEdge list" where "StateInputConnection_GetEdges v = sic_Edges v"

record StateResponse =
  str_Inputs :: StateInputConnection

definition zero_StateResponse :: StateResponse where
  "zero_StateResponse = \<lparr>str_Inputs = zero_StateInputConnection\<rparr>"

definition into_StateResponse :: "StateResponse setter" where
  "into_StateResponse = decode_struct [
     (''inputs'', into_struct into_StateInputConnection str_Inputs (\<lambda>x r. r\<lparr>str_Inputs := x\<rparr>))]"

definition StateResponse_GetInputs :: "StateResponse \<Rightarrow> StateInputConnection" where "StateResponse_GetInputs v = str_Inputs v"

record client_GetNoticeInput =
  gni_NoticeIndex :: int
  gni_InputIndex :: int

definition json_of_client_GetNoticeInput :: "client_GetNoticeInput \<Rightarrow> json" where
  "json_of_client_GetNoticeInput v = JObj [(''noticeIndex'', JNum (itoa (gni_NoticeIndex v))), (''inputIndex'', JNum (itoa (gni_InputIndex v)))]"

definition client_GetNoticeInput_GetNoticeIndex :: "client_GetNoticeInput \<Rightarrow> int" where "client_GetNoticeInput_GetNoticeIndex v = gni_NoticeIndex v"

definition client_GetNoticeInput_GetInputIndex :: "client_GetNoticeInput \<Rightarrow> int" where "client_GetNoticeInput_GetInputIndex v = gni_InputIndex v"

record client_GetVoucherInput =
  gvi_VoucherIndex :: int
  gvi_InputIndex :: int

definition json_of_client_GetVoucherInput :: "client_GetVoucherInput \<Rightarrow> json" where
  "json_of_client_GetVoucherInput v = JObj [(''voucherIndex'', JNum (itoa (gvi_VoucherIndex v))), (''inputIndex'', JNum (itoa (gvi_InputIndex v)))]"

definition client_GetVoucherInput_GetVoucherIndex :: "client_GetVoucherInput \<Rightarrow> int" where "client_GetVoucherInput_GetVoucherIndex v = gvi_VoucherIndex v"

definition client_GetVoucherInput_GetInputIndex :: "client_GetVoucherInput \<Rightarrow> int" where "client_GetVoucherInput_GetInputIndex v = gvi_InputIndex v"

record client_InputStatusInput =
  isx_Index :: int

definition json_of_client_InputStatusInput :: "client_InputStatusInput \<Rightarrow> json" where
  "json_of_client_InputStatusInput v = JObj [(''index'', JNum (itoa (isx_Index v)))]"

definition client_InputStatusInput_GetIndex :: "client_InputStatusInput \<Rightarrow> int" where "client_InputStatusInput_GetIndex v = isx_Index v"

definition GetNotice_Operation :: string where
  "GetNotice_Operation =
''
query GetNotice ($noticeIndex: Int!, $inputIndex: Int!) {
	notice(noticeIndex: $noticeIndex, inputIndex: $inputIndex) {
		index
		payload
	}
}
''"

definition GetNotice_request :: "int \<Rightarrow> int \<Rightarrow> graphql_Request" where
  "GetNotice_request noticeIndex inputIndex = \<lparr>rq_OpName = ''GetNotice'', rq_Query = GetNotice_Operation,
     rq_Variables = Some (json_of_client_GetNoticeInput \<lparr>gni_NoticeIndex = noticeIndex, gni_InputIndex = inputIndex\<rparr>)\<rparr>"

definition client_GetNotice :: "graphql_Client \<Rightarrow> int \<Rightarrow> int \<Rightarrow> GetNoticeResponse \<times> err option" where
  "client_GetNotice client noticeIndex inputIndex = make_request client (GetNotice_request noticeIndex inputIndex) into_GetNoticeResponse zero_GetNoticeResponse"

definition GetVoucher_Operation :: string where
  "GetVoucher_Operation =
''
query GetVoucher ($voucherIndex: Int!, $inputIndex: Int!) {
	voucher(voucherIndex: $voucherIndex, inputIndex: $inputIndex) {
		index
		payload
		destination
	}
}
''"

definition GetVoucher_request :: "int \<Rightarrow> int \<Rightarrow> graphql_Request" where
  "GetVoucher_request voucherIndex inputIndex = \<lparr>rq_OpName = ''GetVoucher'', rq_Query = GetVoucher_Operation,
     rq_Variables = Some (json_of_client_GetVoucherInput \<lparr>gvi_VoucherIndex = voucherIndex, gvi_InputIndex = inputIndex\<rparr>)\<rparr>"

definition client_GetVoucher :: "graphql_Client \<Rightarrow> int \<Rightarrow> int \<Rightarrow> GetVoucherResponse \<times> err option" where
  "client_GetVoucher client voucherIndex inputIndex = make_request client (GetVoucher_request voucherIndex inputIndex) into_GetVoucherResponse zero_GetVoucherResponse"

definition InputStatus_Operation :: string where
  "InputStatus_Operation =
''
query InputStatus ($index: Int!) {
	input(index: $index) {
		status
	}
}
''"

definition InputStatus_request :: "int \<Rightarrow> graphql_Request" where
  "InputStatus_request index = \<lparr>rq_OpName = ''InputStatus'', rq_Query = InputStatus_Operation,
     rq_Variables = Some (json_of_client_InputStatusInput \<lparr>isx_Index = index\<rparr>)\<rparr>"

definition client_InputStatus :: "graphql_Client \<Rightarrow> int \<Rightarrow> InputStatusResponse \<times> err option" where
  "client_InputStatus client index = make_request client (InputStatus_request index) into_InputStatusResponse zero_InputStatusResponse"

definition State_Operation :: string where
  "State_Operation =
''
query State {
	inputs {
		edges {
			node {
				index
				status
				msgSender
				timestamp
				blockNumber
				payload
				notices {
					edges {
						node {
							index
							payload
						}
					}
				}
				vouchers {
					edges {
						node {
							index
							payload
							destination
						}
					}
				}
				reports {
					edges {
						node {
							index
							payload
						}
					}
				}
			}
		}
	}
}
''"

definition State_request :: "graphql_Request" where
  "State_request = \<lparr>rq_OpName = ''State'', rq_Query = State_Operation,
     rq_Variables = None\<rparr>"

definition client_State :: "graphql_Client \<Rightarrow> StateResponse \<times> err option" where
  "client_State client = make_request client (State_request) into_StateResponse zero_StateResponse"

end
