(* ===== verification/ReaderClientRuns.thy ===== *)
theory ReaderClientRuns
  imports ReaderClient GraphQueries
begin

text \<open>
  The generated client against the GraphQL server: the selections of its queries, what the server answers to
  them, and that what the client reads are the rows of the tables.
\<close>

section \<open>The client and the server\<close>

text \<open>
  The server parses the queries of the client into the fields that they write down. The first response is the
  answer; the client gets its data and an error when it has errors.
\<close>

definition edges_selection :: "collected_field list \<Rightarrow> collected_field list" where
  "edges_selection sels = [node_field ''edges'' [] [node_field ''node'' [] sels]]"

definition pair_selection :: "collected_field list" where
  "pair_selection = map leaf_field [''index'', ''payload'']"

definition triple_selection :: "collected_field list" where
  "triple_selection = map leaf_field [''index'', ''payload'', ''destination'']"

definition input_selection :: "collected_field list" where
  "input_selection = map leaf_field [''index'', ''status'', ''msgSender'', ''timestamp'', ''blockNumber'', ''payload''] @
      [node_field ''notices'' [] (edges_selection pair_selection),
       node_field ''vouchers'' [] (edges_selection triple_selection),
       node_field ''reports'' [] (edges_selection pair_selection)]"

definition state_selection :: "collected_field list" where
  "state_selection = [node_field ''inputs'' [] (edges_selection input_selection)]"

definition output_selection :: "string \<Rightarrow> (string \<times> int) list \<Rightarrow> string list \<Rightarrow> collected_field list" where
  "output_selection n args names =
     [node_field n (map (\<lambda>(a, i). (a, JNum (itoa i))) args) (map leaf_field names)]"

definition parses_client_queries :: "(graphql_Request \<Rightarrow> operation_context option) \<Rightarrow> bool" where
  "parses_client_queries parse \<longleftrightarrow>
     parse State_request = Some (query state_selection) \<and>
     (\<forall>i j. parse (GetNotice_request i j) = Some (query (output_selection ''notice''
        [(''noticeIndex'', i), (''inputIndex'', j)] [''index'', ''payload'']))) \<and>
     (\<forall>i j. parse (GetVoucher_request i j) = Some (query (output_selection ''voucher''
        [(''voucherIndex'', i), (''inputIndex'', j)] [''index'', ''payload'', ''destination'']))) \<and>
     (\<forall>i. parse (InputStatus_request i) = Some (query (output_selection ''input'' [(''index'', i)] [''status''])))"

definition reaches :: "graphql_Client \<Rightarrow> (graphql_Request \<Rightarrow> operation_context option) \<Rightarrow> 'i execution \<Rightarrow> bool" where
  "reaches client parse ec \<longleftrightarrow> (\<forall>req rc r rs. parse req = Some rc \<and> Exec ec rc = Inr (r # rs) \<longrightarrow>
     fst (client req) = gs_Data r \<and> (snd (client req) = None \<longleftrightarrow> gs_Errors r = []))"

section \<open>What the client is to see\<close>

definition notice_seen :: "ConvenienceNotice \<Rightarrow> StateNoticeEdge" where
  "notice_seen n = \<lparr>sne_Node = \<lparr>snn_Index = sint (cn_OutputIndex n), snn_Payload = cn_Payload n\<rparr>\<rparr>"

definition voucher_seen :: "ethlib \<Rightarrow> ConvenienceVoucher \<Rightarrow> StateVoucherEdge" where
  "voucher_seen E v = \<lparr>sve_Node = \<lparr>svn_Index = sint (cv_OutputIndex v), svn_Payload = cv_Payload v,
     svn_Destination = addr_Hex E (cv_Destination v)\<rparr>\<rparr>"

definition report_seen :: "ethlib \<Rightarrow> Report \<Rightarrow> StateReportEdge" where
  "report_seen E r = \<lparr>sre_Node = \<lparr>srn_Index = rp_Index r, srn_Payload = ''0x'' @ Bytes2Hex E (rp_Payload r)\<rparr>\<rparr>"

definition input_seen ::
  "ethlib \<Rightarrow> ConvenienceVoucher list \<Rightarrow> ConvenienceNotice list \<Rightarrow> Report list \<Rightarrow> gql_Input \<Rightarrow> StateInputEdge" where
  "input_seen E vs ns rs i = \<lparr>sie_Node = \<lparr>sin_Index = gi_Index i, sin_Status = gi_Status i,
     sin_MsgSender = gi_MsgSender i, sin_Timestamp = gi_Timestamp i, sin_BlockNumber = gi_BlockNumber i,
     sin_Payload = gi_Payload i,
     sin_Notices = \<lparr>snc_Edges = map notice_seen (take 1000 (notices_of (Some (gi_Index i)) ns))\<rparr>,
     sin_Vouchers = \<lparr>svc_Edges = map (voucher_seen E) (take 1000 (vouchers_of (Some (gi_Index i)) vs))\<rparr>,
     sin_Reports = \<lparr>src_Edges = map (report_seen E) (take 1000 (reports_of (Some (gi_Index i)) rs))\<rparr>\<rparr>\<rparr>"

text \<open>The first thousand inputs by index, each with the first thousand of its outputs.\<close>

definition state_seen ::
  "ethlib \<Rightarrow> ConvenienceVoucher list \<Rightarrow> ConvenienceNotice list \<Rightarrow> Report list \<Rightarrow> AdvanceInput list \<Rightarrow> StateResponse res" where
  "state_seen E vs ns rs xs =
     rbind (rmap (ConvertInput E) (take 1000 (map stored_input (sort_key ai_Index xs)))) (\<lambda>inputs.
     Inr \<lparr>str_Inputs = \<lparr>sic_Edges = map (input_seen E vs ns rs) inputs\<rparr>\<rparr>)"

section \<open>The server's answer\<close>

definition pairs_json :: "('a \<Rightarrow> json) \<Rightarrow> 'a list \<Rightarrow> json" where
  "pairs_json node xs = JObj [(''edges'', JArr (map (\<lambda>x. JObj [(''node'', node x)]) xs))]"

definition notice_pair :: "gql_Notice \<Rightarrow> json" where
  "notice_pair n = JObj [(''index'', JNum (itoa (gn_Index n))), (''payload'', JStr (gn_Payload n))]"

definition voucher_triple :: "gql_Voucher \<Rightarrow> json" where
  "voucher_triple v = JObj [(''index'', JNum (itoa (gv_Index v))), (''payload'', JStr (gv_Payload v)),
     (''destination'', JStr (gv_Destination v))]"

definition report_pair :: "gql_Report \<Rightarrow> json" where
  "report_pair r = JObj [(''index'', JNum (itoa (gr_Index r))), (''payload'', JStr (gr_Payload r))]"

definition input_json ::
  "ethlib \<Rightarrow> ConvenienceVoucher list \<Rightarrow> ConvenienceNotice list \<Rightarrow> Report list \<Rightarrow> gql_Input \<Rightarrow> json" where
  "input_json E vs ns rs i = JObj [(''index'', JNum (itoa (gi_Index i))), (''status'', JStr (gi_Status i)),
     (''msgSender'', JStr (gi_MsgSender i)), (''timestamp'', JStr (gi_Timestamp i)),
     (''blockNumber'', JStr (gi_BlockNumber i)), (''payload'', JStr (gi_Payload i)),
     (''notices'', pairs_json notice_pair
        (map convertConvenientNoticeV1 (take 1000 (notices_of (Some (gi_Index i)) ns)))),
     (''vouchers'', pairs_json voucher_triple
        (map (convertConvenientVoucherV1 E) (take 1000 (vouchers_of (Some (gi_Index i)) vs)))),
     (''reports'', pairs_json report_pair
        (map (V1_convertToReport E) (take 1000 (reports_of (Some (gi_Index i)) rs))))]"

lemma page_first: "page_of None None None None rows =
    Inr \<lparr>Total = of_nat (length rows), Offset = 0, Rows = take 1000 rows\<rparr>"
proof -
  have "take (nat (min 1000 (int (length rows)))) rows = take 1000 rows"
    by (cases "1000 \<le> length rows") (simp_all add: min_def)
  then show ?thesis by (simp add: page_of_def ComputePage_default)
qed

lemma first_page_nodes: "nodes (page_connection f \<lparr>Total = t, Offset = o', Rows = rows\<rparr>) = map f rows"
  by simp

lemma edges_answer:
  assumes "\<And>v q. execute ec sels (Obj v) q = valued (nj v) []" and "\<And>v. nj v \<noteq> JNull"
    and "\<And>e q. run_object ec (execute ec sels) (node_field ''node'' [] sels) (OE e) q =
      Sync True (resolve_field (ec_lib ec) q (Inr (Node e)) (\<lambda>x. execute ec sels (Obj x) q))"
    and "\<And>child q. run_object ec child (node_field ''edges'' [] [node_field ''node'' [] sels]) (OC c) q =
      Sync True (resolve_field (ec_lib ec) q (Inr (Edges c)) (marshal_list (ec_lib ec) q (\<lambda>q x. child (OE x) q)))"
  shows "execute ec (edges_selection sels) (OC c) p = valued (pairs_json nj (nodes c)) []"
proof -
  have edge: "execute ec [node_field ''node'' [] sels] (OE e) q = valued (JObj [(''node'', nj (Node e))]) []" for e q
    using assms(3) unfolding execute_fields [of ec _ "OE e" q]
    by (simp add: object_defs assms(1,2))
  have "marshal_list (ec_lib ec) q (\<lambda>q x. execute ec [node_field ''node'' [] sels] (OE x) q) (Edges c) =
      valued (JArr (map (\<lambda>e. JObj [(''node'', nj (Node e))]) (Edges c))) []" for q
    using list_valued [of "Edges c" _ q "\<lambda>e. JObj [(''node'', nj (Node e))]" "\<lambda>_. []"] by (simp add: edge)
  with assms(4) show ?thesis unfolding edges_selection_def
      execute_fields [of ec "[node_field ''edges'' [] [node_field ''node'' [] sels]]" "OC c" p]
    by (simp add: object_defs pairs_json_def nodes_def comp_def)
qed

lemmas selected_defs = run_object_def object_defs not_nil_def scalar_defs marshalNCompletionStatus_def

lemma notice_edges:
  assumes "gql_laws (ec_lib ec)"
  shows "execute ec (edges_selection pair_selection) (ONoticeConnection c) p =
    valued (pairs_json notice_pair (nodes c)) []"
proof (rule edges_answer [where Obj = ONotice and OE = ONoticeEdge])
  show "execute ec pair_selection (ONotice n) q =
      valued (notice_pair n) []" for n q
    unfolding execute_fields [of ec _ "ONotice n" q]
    by (simp add: pair_selection_def selected_defs exec_Notice_def Notice_index_def Notice_payload_def gql_marshal [OF assms]
        not_null_valued marshaled_valued notice_pair_def)
qed (simp_all add: notice_pair_def selected_defs exec_NoticeEdge_def NoticeEdge_node_def marshalNNotice_def
    exec_NoticeConnection_def NoticeConnection_edges_def marshalNNoticeEdge_list_def marshalNNoticeEdge_def)

lemma voucher_edges:
  assumes "gql_laws (ec_lib ec)"
  shows "execute ec (edges_selection triple_selection) (OVoucherConnection c) p =
    valued (pairs_json voucher_triple (nodes c)) []"
proof (rule edges_answer [where Obj = OVoucher and OE = OVoucherEdge])
  show "execute ec triple_selection (OVoucher v) q =
      valued (voucher_triple v) []" for v q
    unfolding execute_fields [of ec _ "OVoucher v" q]
    by (simp add: triple_selection_def selected_defs exec_Voucher_def Voucher_index_def Voucher_payload_def Voucher_destination_def
        gql_marshal [OF assms] not_null_valued marshaled_valued voucher_triple_def)
qed (simp_all add: voucher_triple_def selected_defs exec_VoucherEdge_def VoucherEdge_node_def marshalNVoucher_def
    exec_VoucherConnection_def VoucherConnection_edges_def marshalNVoucherEdge_list_def marshalNVoucherEdge_def)

lemma report_edges:
  assumes "gql_laws (ec_lib ec)"
  shows "execute ec (edges_selection pair_selection) (OReportConnection c) p =
    valued (pairs_json report_pair (nodes c)) []"
proof (rule edges_answer [where Obj = OReport and OE = OReportEdge])
  show "execute ec pair_selection (OReport r) q =
      valued (report_pair r) []" for r q
    unfolding execute_fields [of ec _ "OReport r" q]
    by (simp add: pair_selection_def selected_defs exec_Report_def Report_index_def Report_payload_def gql_marshal [OF assms]
        not_null_valued marshaled_valued report_pair_def)
qed (simp_all add: report_pair_def selected_defs exec_ReportEdge_def ReportEdge_node_def marshalNReport_def
    exec_ReportConnection_def ReportConnection_edges_def marshalNReportEdge_list_def marshalNReportEdge_def)

text \<open>The tables that every call of a resolver sees.\<close>

definition serves_tables ::
  "ethlib \<Rightarrow> ConvenienceVoucher list \<Rightarrow> ConvenienceNotice list \<Rightarrow> Report list \<Rightarrow> AdvanceInput list \<Rightarrow>
   (gql_path \<Rightarrow> db) \<Rightarrow> bool" where
  "serves_tables E vs ns rs xs D \<longleftrightarrow> (\<forall>p. vouchers_in E vs (D p) \<and> notices_in E ns (D p) \<and>
     reports_in E rs (D p) \<and> inputs_in E xs (D p))"

lemma input_resolvers:
  assumes "serves_tables E vs ns rs xs D"
  shows "rs_Input_Notices (ec_resolvers (reader_schema L I (AdapterV1 E) E' D)) p i None None None None =
      map_sum id Some (rbind (page_of None None None None (notices_of (Some (gi_Index i)) ns))
         (\<lambda>p. Inr (page_connection convertConvenientNoticeV1 p)))"
    "rs_Input_Vouchers (ec_resolvers (reader_schema L I (AdapterV1 E) E' D)) p i None None None None =
      map_sum id Some (rbind (page_of None None None None (vouchers_of (Some (gi_Index i)) vs))
         (\<lambda>p. Inr (page_connection (convertConvenientVoucherV1 E) p)))"
    "rs_Input_Reports (ec_resolvers (reader_schema L I (AdapterV1 E) E' D)) p i None None None None =
      map_sum id Some (rbind (page_of None None None None (reports_of (Some (gi_Index i)) rs))
         (\<lambda>p. Inr (page_connection (V1_convertToReport E) p)))"
proof -
  from assms have "notices_in E ns (D p)" "vouchers_in E vs (D p)" "reports_in E rs (D p)"
    by (simp_all add: serves_tables_def)
  note get = adapter_v1.get_notices [OF this(1)] adapter_v1.get_vouchers [OF this(2)] adapter_v1.get_reports [OF this(3)]
  show "rs_Input_Notices (ec_resolvers (reader_schema L I (AdapterV1 E) E' D)) p i None None None None =
      map_sum id Some (rbind (page_of None None None None (notices_of (Some (gi_Index i)) ns))
         (\<lambda>p. Inr (page_connection convertConvenientNoticeV1 p)))"
    "rs_Input_Vouchers (ec_resolvers (reader_schema L I (AdapterV1 E) E' D)) p i None None None None =
      map_sum id Some (rbind (page_of None None None None (vouchers_of (Some (gi_Index i)) vs))
         (\<lambda>p. Inr (page_connection (convertConvenientVoucherV1 E) p)))"
    "rs_Input_Reports (ec_resolvers (reader_schema L I (AdapterV1 E) E' D)) p i None None None None =
      map_sum id Some (rbind (page_of None None None None (reports_of (Some (gi_Index i)) rs))
         (\<lambda>p. Inr (page_connection (V1_convertToReport E) p)))"
    by (simp_all add: reader_schema_def reader_resolvers_def found_map inputResolver_Notices_def
        inputResolver_Vouchers_def inputResolver_Reports_def get)
qed

text \<open>An object whose fields have values.\<close>

definition plain :: "field_run \<Rightarrow> json \<Rightarrow> bool" where
  "plain r j \<longleftrightarrow> j \<noteq> JNull \<and> (r = Sync True (valued j []) \<or> r = Concurrent True (valued j []))"

lemma plain_simps:
  assumes "plain r j" and "fl_Deferrable f = None"
  shows "r \<noteq> UnknownField" "run_out r = valued j []" "run_deferred (f, r) = None" "\<not> run_invalid r"
  using assms by (auto simp: plain_def)

lemma plain_object:
  assumes "list_all2 (\<lambda>(f, r) j. plain r j \<and> fl_Deferrable f = None) fs js"
  shows "object_result p fs = valued (JObj (zip (map (\<lambda>(f, r). fl_Alias f) fs) js)) []"
proof -
  have all: "\<exists>j. plain r j \<and> fl_Deferrable f = None" if "(f, r) \<in> set fs" for f r
    using assms that by (induction rule: list_all2_induct) auto
  have known: "takeWhile (\<lambda>(_, r). r \<noteq> UnknownField) fs = fs"
    using all plain_simps(1) by (fastforce simp: takeWhile_eq_all_conv)
  have now: "filter (\<lambda>fr. run_deferred fr = None) fs = fs"
    using all plain_simps(3) by (fastforce simp: filter_id_conv)
  have valid: "\<not> (\<exists>(f, r) \<in> set fs. run_invalid r)" using all plain_simps(4) by fastforce
  have none: "run_errors gs = [] \<and> run_groups gs = []" if "set gs \<subseteq> set fs" for gs
  proof -
    have "go_Errors (run_out r) = [] \<and> go_Deferred (run_out r) = []" if "(f, r) \<in> set gs" for f r
      using all [of f r] that \<open>set gs \<subseteq> set fs\<close> plain_simps(2) by fastforce
    then show ?thesis by (auto simp: run_errors_def run_groups_def)
  qed
  have groups: "deferred_groups p fs = []"
  proof -
    have "(case run_deferred fr of Some l \<Rightarrow> [l] | None \<Rightarrow> []) = []" if "fr \<in> set fs" for fr
      using all plain_simps(3) that by (cases fr) fastforce
    then have "concat (map (\<lambda>fr. case run_deferred fr of Some l \<Rightarrow> [l] | None \<Rightarrow> []) fs) = []" by auto
    then show ?thesis unfolding deferred_groups_def by (simp only:) simp
  qed
  have "map (\<lambda>(f, r). (fl_Alias f, if run_deferred (f, r) = None then go_Value (run_out r) else JNull)) fs =
      zip (map (\<lambda>(f, r). fl_Alias f) fs) js"
    using assms by (induction rule: list_all2_induct) (auto simp: plain_simps)
  with valid none [of "filter _ fs"] groups show ?thesis
    unfolding object_result_def Let_def known now by (simp add: valued_def)
qed

lemma input_leaves:
  assumes "gql_laws (ec_lib ec)"
  shows "run_object ec child (leaf_field ''index'') (OInput i) q = Sync True (valued (JNum (itoa (gi_Index i))) [])"
    "run_object ec child (leaf_field ''status'') (OInput i) q = Sync True (valued (JStr (gi_Status i)) [])"
    "run_object ec child (leaf_field ''msgSender'') (OInput i) q = Sync True (valued (JStr (gi_MsgSender i)) [])"
    "run_object ec child (leaf_field ''timestamp'') (OInput i) q = Sync True (valued (JStr (gi_Timestamp i)) [])"
    "run_object ec child (leaf_field ''blockNumber'') (OInput i) q = Sync True (valued (JStr (gi_BlockNumber i)) [])"
    "run_object ec child (leaf_field ''payload'') (OInput i) q = Sync True (valued (JStr (gi_Payload i)) [])"
  by (simp_all add: run_object_def leaf_field_def scalar_defs marshalNCompletionStatus_def exec_Input_def
      Input_index_def Input_status_def Input_msgSender_def Input_timestamp_def Input_blockNumber_def Input_payload_def
      gql_marshal [OF assms] not_null_valued marshaled_valued)

lemma leaf_simps [simp]:
  "fl_Alias (leaf_field n) = n" "fl_Selections (leaf_field n) = []" "fl_Deferrable (leaf_field n) = None"
  "fl_Alias (node_field n args sels) = n" "fl_Selections (node_field n args sels) = sels"
  "fl_Deferrable (node_field n args sels) = None"
  by (simp_all add: leaf_field_def node_field_def)

lemma input_node:
  assumes "gql_laws L" and "serves_tables E vs ns rs xs D"
  shows "execute (reader_schema L I (AdapterV1 E) E' D) input_selection (OInput i) p =
    valued (input_json E vs ns rs i) []"
proof -
  let ?ec = "reader_schema L I (AdapterV1 E) E' D"
  have lib: "gql_laws (ec_lib ?ec)" using assms(1) by simp
  have n: "run_object ?ec (execute ?ec (edges_selection pair_selection)) (node_field ''notices'' [] (edges_selection pair_selection))
      (OInput i) q = Concurrent True (valued (pairs_json notice_pair
        (map convertConvenientNoticeV1 (take 1000 (notices_of (Some (gi_Index i)) ns)))) [])" for q
    by (simp add: run_object_def exec_Input_def node_field_def Input_notices_def with_args_def
        field_Input_notices_args_def arg_value_def input_resolvers [OF assms(2)] page_first
        marshalNNoticeConnection_def not_nil_def notice_edges [OF lib])
  have v: "run_object ?ec (execute ?ec (edges_selection triple_selection)) (node_field ''vouchers'' [] (edges_selection triple_selection))
      (OInput i) q = Concurrent True (valued (pairs_json voucher_triple
        (map (convertConvenientVoucherV1 E) (take 1000 (vouchers_of (Some (gi_Index i)) vs)))) [])" for q
    by (simp add: run_object_def exec_Input_def node_field_def Input_vouchers_def with_args_def
        field_Input_vouchers_args_def arg_value_def input_resolvers [OF assms(2)] page_first
        marshalNVoucherConnection_def not_nil_def voucher_edges [OF lib])
  have r: "run_object ?ec (execute ?ec (edges_selection pair_selection)) (node_field ''reports'' [] (edges_selection pair_selection))
      (OInput i) q = Concurrent True (valued (pairs_json report_pair
        (map (V1_convertToReport E) (take 1000 (reports_of (Some (gi_Index i)) rs)))) [])" for q
    by (simp add: run_object_def exec_Input_def node_field_def Input_reports_def with_args_def
        field_Input_reports_args_def arg_value_def input_resolvers [OF assms(2)] page_first
        marshalNReportConnection_def not_nil_def report_edges [OF lib])
  let ?js = "[JNum (itoa (gi_Index i)), JStr (gi_Status i), JStr (gi_MsgSender i), JStr (gi_Timestamp i),
    JStr (gi_BlockNumber i), JStr (gi_Payload i),
    pairs_json notice_pair (map convertConvenientNoticeV1 (take 1000 (notices_of (Some (gi_Index i)) ns))),
    pairs_json voucher_triple (map (convertConvenientVoucherV1 E) (take 1000 (vouchers_of (Some (gi_Index i)) vs))),
    pairs_json report_pair (map (V1_convertToReport E) (take 1000 (reports_of (Some (gi_Index i)) rs)))]"
  let ?fs = "map (\<lambda>f. (f, run_object ?ec (execute ?ec (fl_Selections f)) f (OInput i) (p @ [PathName (fl_Alias f)])))
    input_selection"
  have "list_all2 (\<lambda>(f, r) j. plain r j \<and> fl_Deferrable f = None) ?fs ?js"
    by (simp add: input_selection_def input_leaves [OF lib] n v r plain_def pairs_json_def)
  from plain_object [OF this] show ?thesis
    unfolding execute_fields [of ?ec input_selection "OInput i" p]
    by (simp add: input_selection_def input_json_def)
qed

lemma input_edges:
  assumes "gql_laws L" and "serves_tables E vs ns rs xs D"
  shows "execute (reader_schema L I (AdapterV1 E) E' D) (edges_selection input_selection) (OInputConnection c) p =
    valued (pairs_json (input_json E vs ns rs) (nodes c)) []"
proof (rule edges_answer [where Obj = OInput and OE = OInputEdge])
  show "execute (reader_schema L I (AdapterV1 E) E' D) input_selection (OInput i) q =
      valued (input_json E vs ns rs i) []" for i q
    by (rule input_node [OF assms])
qed (simp_all add: input_json_def selected_defs exec_InputEdge_def InputEdge_node_def marshalNInput_def
    exec_InputConnection_def InputConnection_edges_def marshalNInputEdge_list_def marshalNInputEdge_def)

definition first_inputs :: "ethlib \<Rightarrow> AdvanceInput list \<Rightarrow> gql_Input list res" where
  "first_inputs E xs = rmap (ConvertInput E) (take 1000 (map stored_input (sort_key ai_Index xs)))"

lemma inputs_resolver:
  assumes "serves_tables E vs ns rs xs D"
  shows "rs_Query_Inputs (ec_resolvers (reader_schema L I (AdapterV1 E) E' D)) p None None None None None =
    map_sum id Some (rbind (first_inputs E xs) (\<lambda>inputs. Inr (NewConnection 0 (sint (of_nat (length xs) :: u64)) inputs)))"
proof -
  from assms have "inputs_in E xs (D p)" by (simp add: serves_tables_def)
  then show ?thesis
    by (simp add: reader_schema_def reader_resolvers_def found_map queryResolver_Inputs_def AdapterV1_def
        V1_GetInputs_def V1_input_filters_def andThen_apply FindAllInputs_ok input_query_def page_first lift_res_def
        V1_convertToInputConnection_def first_inputs_def)
qed

lemma nodes_new: "nodes (NewConnection offset tot xs) = xs"
  by (simp add: nodes_def NewConnection_nodes)

lemma state_answer:
  assumes "gql_laws L" and "serves_tables E vs ns rs xs D" and "first_inputs E xs = Inr inputs"
  shows "Exec (reader_schema L I (AdapterV1 E) E' D) (query state_selection) =
    Inr [\<lparr>gs_Data = Some (JObj [(''inputs'', pairs_json (input_json E vs ns rs) inputs)]), gs_Errors = [],
      gs_Path = [], gs_Label = [], gs_HasNext = None\<rparr>]"
proof -
  let ?ec = "reader_schema L I (AdapterV1 E) E' D" and ?p = "[PathName ''inputs'']"
  have run: "run_object ?ec (execute ?ec (edges_selection input_selection))
      (node_field ''inputs'' [] (edges_selection input_selection)) OQuery ?p =
    Rooted True (resolve_field L ?p (map_sum id Some (rbind (first_inputs E xs)
      (\<lambda>inputs. Inr (NewConnection 0 (sint (of_nat (length xs) :: u64)) inputs))))
      (marshalNInputConnection L (execute ?ec (edges_selection input_selection)) ?p))"
    by (simp add: run_object_def exec_Query_def node_field_def Query_inputs_def with_args_def
        field_Query_inputs_args_def arg_value_def inputs_resolver [OF assms(2)])
  show ?thesis unfolding state_selection_def
    by (rule trans [OF root_answer [where j = "\<lambda>c. pairs_json (input_json E vs ns rs) (nodes (the c))"
          and es = "\<lambda>_ _. []", OF run]])
      (auto simp: assms(3) marshalNInputConnection_def not_nil_def input_edges [OF assms(1,2)] pairs_json_def
        answer_def nodes_new)
qed

section \<open>What the client reads\<close>

definition in_int :: "int \<Rightarrow> bool" where
  "in_int i \<longleftrightarrow> - (2 ^ 63) \<le> i \<and> i < 2 ^ 63"

lemma in_int_sint [simp]: "in_int (sint (w :: u64))"
  using sint_greater_eq [of w] sint_lt [of w] by (simp add: in_int_def)

lemma into_int_read: "in_int i \<Longrightarrow> into_int upd (JNum (itoa i)) r = Inr (upd i r)"
  by (simp add: into_int_def in_int_def Atoi_itoa)

lemma client_names:
  "foldName ''notice'' = ''NOTICE''" "foldName ''voucher'' = ''VOUCHER''" "foldName ''input'' = ''INPUT''"
  "foldName ''notices'' = ''NOTICES''" "foldName ''vouchers'' = ''VOUCHERS''"
  "foldName ''msgSender'' = ''MSGSENDER''" "foldName ''timestamp'' = ''TIMESTAMP''"
  "foldName ''blockNumber'' = ''BLOCKNUMBER''"
  by (simp_all add: fold_name_simps)

declare foldName.simps [simp del]

lemmas client_simps = decode_struct_def folded_names fetch_names client_names into_string_str into_int_read
  into_struct_def

lemma into_list_read:
  assumes "\<And>x z. x \<in> set xs \<Longrightarrow> d (enc x) z = Inr (seen x)"
  shows "into_list d zero upd (JArr (map enc xs)) r = Inr (upd (map seen xs) r)"
proof -
  have "rmap (\<lambda>v. d v zero) (map enc xs) = Inr (map seen xs)"
    using assms by (induction xs) simp_all
  then show ?thesis by (simp add: into_list_def)
qed

lemma notices_read:
  "into_StateNoticeConnection (pairs_json notice_pair (map convertConvenientNoticeV1 xs)) z =
    Inr \<lparr>snc_Edges = map notice_seen xs\<rparr>"
proof -
  have "into_StateNoticeEdge (JObj [(''node'', notice_pair (convertConvenientNoticeV1 n))]) z = Inr (notice_seen n)" for n z
    by (simp add: into_StateNoticeEdge_def into_StateNotice_def notice_pair_def convertConvenientNoticeV1_def
        notice_seen_def client_simps)
  then show ?thesis
    using into_list_read [where d = into_StateNoticeEdge and upd = "\<lambda>x (r :: StateNoticeConnection). r\<lparr>snc_Edges := x\<rparr>"
        and seen = notice_seen and xs = xs
        and enc = "\<lambda>n. JObj [(''node'', notice_pair (convertConvenientNoticeV1 n))]"]
    by (simp add: into_StateNoticeConnection_def pairs_json_def client_simps comp_def)
qed

lemma vouchers_read:
  "into_StateVoucherConnection (pairs_json voucher_triple (map (convertConvenientVoucherV1 E) xs)) z =
    Inr \<lparr>svc_Edges = map (voucher_seen E) xs\<rparr>"
proof -
  have "into_StateVoucherEdge (JObj [(''node'', voucher_triple (convertConvenientVoucherV1 E v))]) z =
      Inr (voucher_seen E v)" for v z
    by (simp add: into_StateVoucherEdge_def into_StateVoucher_def voucher_triple_def convertConvenientVoucherV1_def
        voucher_seen_def client_simps)
  then show ?thesis
    using into_list_read [where d = into_StateVoucherEdge and upd = "\<lambda>x (r :: StateVoucherConnection). r\<lparr>svc_Edges := x\<rparr>"
        and seen = "voucher_seen E" and xs = xs
        and enc = "\<lambda>v. JObj [(''node'', voucher_triple (convertConvenientVoucherV1 E v))]"]
    by (simp add: into_StateVoucherConnection_def pairs_json_def client_simps comp_def)
qed

lemma reports_read:
  assumes "\<And>r. r \<in> set xs \<Longrightarrow> in_int (rp_Index r)"
  shows "into_StateReportConnection (pairs_json report_pair (map (V1_convertToReport E) xs)) z =
    Inr \<lparr>src_Edges = map (report_seen E) xs\<rparr>"
proof -
  have "into_StateReportEdge (JObj [(''node'', report_pair (V1_convertToReport E r))]) z = Inr (report_seen E r)"
    if "in_int (rp_Index r)" for r z
    using that by (simp add: into_StateReportEdge_def into_StateReport_def report_pair_def V1_convertToReport_def
        report_seen_def client_simps)
  then show ?thesis
    using assms into_list_read [where d = into_StateReportEdge and upd = "\<lambda>x (r :: StateReportConnection). r\<lparr>src_Edges := x\<rparr>"
        and seen = "report_seen E" and xs = xs
        and enc = "\<lambda>r. JObj [(''node'', report_pair (V1_convertToReport E r))]"]
    by (simp add: into_StateReportConnection_def pairs_json_def client_simps comp_def)
qed

lemma member_step:
  assumes "map_of (map (\<lambda>(f, d). (foldName f, d)) setters) (foldName k) = Some d" and "d v r = Inr r'"
  shows "decode_members setters ((k, v) # kvs) r = decode_members setters kvs r'"
  using assms by simp

lemma input_read:
  assumes "in_int (gi_Index i)" and "\<And>r. r \<in> set rs \<Longrightarrow> in_int (rp_Index r)"
  shows "into_StateInputEdge (JObj [(''node'', input_json E vs ns rs i)]) z = Inr (input_seen E vs ns rs i)"
proof -
  have reports: "\<And>z. into_StateReportConnection (pairs_json report_pair
      (map (V1_convertToReport E) (take 1000 (reports_of (Some (gi_Index i)) rs)))) z =
    Inr \<lparr>src_Edges = map (report_seen E) (take 1000 (reports_of (Some (gi_Index i)) rs))\<rparr>"
    by (rule reports_read) (auto dest!: in_set_takeD intro: assms(2))
  note member_values = into_int_read [OF assms(1)] into_string_str into_struct_def notices_read vouchers_read reports
  have "into_StateInput (input_json E vs ns rs i) z = Inr (sie_Node (input_seen E vs ns rs i))" for z
    unfolding into_StateInput_def input_json_def decode_struct_def json.case
    by (subst member_step, (simp add: folded_names fetch_names client_names; fail), (simp add: member_values; fail))+
      (simp add: input_seen_def)
  then show ?thesis by (simp add: into_StateInputEdge_def decode_struct_def folded_names fetch_names into_struct_def input_seen_def)
qed

theorem state_read:
  assumes "gql_laws L" and "parses_client_queries parse"
    and "reaches client parse (reader_schema L I (AdapterV1 E) E' D)" and "serves_tables E vs ns rs xs D"
    and "state_seen E vs ns rs xs = Inr s" and "list_all (\<lambda>x. in_int (ai_Index x)) xs"
    and "list_all (\<lambda>r. in_int (rp_Index r)) rs"
  shows "client_State client = (s, None)"
proof -
  from assms(5) obtain inputs where inputs: "first_inputs E xs = Inr inputs"
    and s: "s = \<lparr>str_Inputs = \<lparr>sic_Edges = map (input_seen E vs ns rs) inputs\<rparr>\<rparr>"
    by (auto simp: state_seen_def first_inputs_def rbind_Inr_iff)
  have "in_int (gi_Index i)" if "i \<in> set inputs" for i
  proof -
    from rmap_elem [OF inputs [unfolded first_inputs_def] that]
    obtain x where "x \<in> set (take 1000 (map stored_input (sort_key ai_Index xs)))" and "ConvertInput E x = Inr i"
      by blast
    with assms(6) show ?thesis
      by (auto dest!: in_set_takeD simp: ConvertInput_def rbind_Inr_iff stored_input_def list_all_iff)
  qed
  with assms(7) have read: "\<And>z. into_StateResponse (JObj [(''inputs'', pairs_json (input_json E vs ns rs) inputs)]) z = Inr s"
    using into_list_read [where d = into_StateInputEdge and upd = "\<lambda>x (r :: StateInputConnection). r\<lparr>sic_Edges := x\<rparr>"
        and seen = "input_seen E vs ns rs" and xs = inputs
        and enc = "\<lambda>i. JObj [(''node'', input_json E vs ns rs i)]"]
    by (simp add: s into_StateResponse_def into_StateInputConnection_def pairs_json_def client_simps input_read
        list_all_iff)
  from assms(2,3) state_answer [OF assms(1,4) inputs]
  have "fst (client State_request) = Some (JObj [(''inputs'', pairs_json (input_json E vs ns rs) inputs)])"
    and "snd (client State_request) = None"
    unfolding reaches_def parses_client_queries_def by fastforce+
  with read show ?thesis
    by (cases "client State_request") (simp add: client_State_def make_request_def)
qed

end
