(* ===== verification/Examples.thy ===== *)
theory Examples
  imports RollupServing Reader NonodoQueue GraphileRun ServiceRuns ReaderFilters Wiring Supervisor DataLaws CommandLine Releases CommandLogger
    HttpLaws InspectHttp FetchLaws Devnet GraphQueries GraphContexts GraphComplexity ContractRuns NodeStates HttpClients ReaderClientRuns
begin

text \<open>
  Concrete data at which the properties of the root theory are applied: a database that holds given
  rows, two vouchers, an input, a report, and states of the node over them.
\<close>

definition example_db ::
  "ConvenienceVoucher list \<Rightarrow> ConvenienceNotice list \<Rightarrow> Report list \<Rightarrow> AdvanceInput list \<Rightarrow>
   SynchronizerFetch list \<Rightarrow> db" where
  "example_db vs ns rs xs fs = \<lparr>db_committed =
     [''convenience_vouchers'' \<mapsto> vouchers_table example_eth vs,
      ''convenience_notices'' \<mapsto> notices_table example_eth ns,
      ''convenience_reports'' \<mapsto> reports_table example_eth rs,
      ''convenience_inputs'' \<mapsto> inputs_table example_eth xs,
      ''synchronizer_fetch'' \<mapsto> fetches_table fs], db_pending = None, db_faults = []\<rparr>"

lemma example_db_holds:
  "length vs < 2 ^ 63 \<Longrightarrow> vouchers_in example_eth vs (example_db vs ns rs xs fs)"
  "length ns < 2 ^ 63 \<Longrightarrow> notices_in example_eth ns (example_db vs ns rs xs fs)"
  "length rs < 2 ^ 63 \<Longrightarrow> reports_in example_eth rs (example_db vs ns rs xs fs)"
  "length xs < 2 ^ 63 \<Longrightarrow> list_all input_small xs \<Longrightarrow> inputs_in example_eth xs (example_db vs ns rs xs fs)"
  "fetches_in fs (example_db vs ns rs xs fs)"
  by (simp_all add: example_db_def vouchers_in_def notices_in_def reports_in_def inputs_in_def
      fetches_in_def example_eth_laws)

lemma example_db_fields [simp]:
  "db_faults (example_db vs ns rs xs fs) = []" "db_pending (example_db vs ns rs xs fs) = None"
  "db_committed (example_db vs ns rs xs fs) ''synchronizer_fetch'' = Some (fetches_table fs)"
  "db_committed (example_db vs ns rs xs fs) ''convenience_vouchers'' = Some (vouchers_table example_eth vs)"
  "db_committed (example_db vs ns rs xs fs) ''convenience_inputs'' = Some (inputs_table example_eth xs)"
  by (simp_all add: example_db_def)

definition example_voucher :: "u64 \<Rightarrow> u64 \<Rightarrow> ConvenienceVoucher" where
  "example_voucher i o' = \<lparr>cv_Destination = 7, cv_Payload = ''beef'', cv_InputIndex = i,
     cv_OutputIndex = o', cv_Executed = False, cv_AppContract = 0\<rparr>"

definition example_notice :: "u64 \<Rightarrow> u64 \<Rightarrow> ConvenienceNotice" where
  "example_notice i o' = \<lparr>cn_Payload = ''beef'', cn_InputIndex = i, cn_OutputIndex = o', cn_AppContract = 0\<rparr>"

definition example_input :: "int \<Rightarrow> CompletionStatus \<Rightarrow> AdvanceInput" where
  "example_input i st = \<lparr>ai_Index = i, ai_Status = st, ai_MsgSender = 7, ai_Payload = [1, 2],
     ai_BlockNumber = 5, ai_BlockTimestamp = time_Unix 100, ai_PrevRandao = [], ai_AppContract = 0,
     ai_Vouchers = [], ai_Notices = [], ai_Reports = [], ai_Exception = []\<rparr>"

definition example_report :: "int \<Rightarrow> int \<Rightarrow> Report" where
  "example_report i k = \<lparr>rp_Index = k, rp_InputIndex = i, rp_Payload = [1], rp_AppContract = 0\<rparr>"

definition example_node :: "rollupsState \<Rightarrow> db \<Rightarrow> NonodoModel" where
  "example_node st d = \<lparr>nm_inspects = [], nm_state = st, nm_decoder = None,
     nm_hasReportRepository = True, nm_db = d\<rparr>"

lemma example_node_fields [simp]:
  "nm_inspects (example_node st d) = []" "nm_state (example_node st d) = st"
  "nm_decoder (example_node st d) = None" "nm_hasReportRepository (example_node st d)"
  "nm_db (example_node st d) = d"
  by (simp_all add: example_node_def)

lemma example_input_fields [simp]:
  "ai_Index (example_input i st) = i" "ai_Status (example_input i st) = st"
  by (simp_all add: example_input_def)

lemma example_input_small [simp]: "input_small (example_input i 0)"
  by (simp add: input_small_def example_input_def)

lemma example_voucher_fields [simp]:
  "voucher_key (example_voucher i o') = (i, o')" "cv_InputIndex (example_voucher i o') = i"
  "voucher_slot (example_voucher i o') = (i, 0)" "cv_OutputIndex (example_voucher i o') = o'"
  by (simp_all add: example_voucher_def voucher_key_def voucher_slot_def)

lemma example_voucher_small [simp]:
  "voucher_small (example_voucher i o') \<longleftrightarrow> unat i < 2 ^ 63 \<and> unat o' < 2 ^ 63"
  by (simp add: voucher_small_def)

text \<open>A batch without outputs, inputs and reports, and one that also has the output cursor \<open>c\<close>.\<close>

definition example_page :: "string \<Rightarrow> SyncPageInfo" where
  "example_page c = \<lparr>pi_StartCursor = [], pi_EndCursor = c, pi_HasNextPage = False, pi_HasPreviousPage = False\<rparr>"

definition example_response :: "string \<Rightarrow> OutputResponse" where
  "example_response c = \<lparr>or_OutputsPageInfo = example_page c, or_OutputsEdges = [],
     or_InputsPageInfo = example_page [], or_InputsEdges = [], or_ReportsEdges = [],
     or_ReportsPageInfo = example_page []\<rparr>"

definition example_sync :: "fault option list \<Rightarrow> sync_state" where
  "example_sync faults = \<lparr>sy_fetcher = NewGraphileFetcher,
     sy_db = (example_db [] [] [] [] [])\<lparr>db_faults := faults\<rparr>\<rparr>"

lemma example_sync_fields [simp]:
  "sy_fetcher (example_sync faults) = NewGraphileFetcher"
  "sy_db (example_sync faults) = (example_db [] [] [] [] [])\<lparr>db_faults := faults\<rparr>"
  by (simp_all add: example_sync_def)

lemma example_response_loops [simp]: "batch_loops D ctx (example_response c) = ret ()"
  by (rule ext) (simp add: batch_loops_def example_response_def andThen_apply)

lemma example_response_more [simp]: "hasMore (example_response c) \<longleftrightarrow> c \<noteq> []"
  by (simp add: hasMore_def example_response_def example_page_def)

lemma example_logged [simp]: "logged [] NewGraphileFetcher"
  by (simp add: logged_def NewGraphileFetcher_def)

lemma example_begin:
  "on_db (StartTransaction NoTx) (example_sync (None # faults)) =
     (Inr WithTx, (example_sync faults)\<lparr>sy_db := (example_db [] [] [] [] [])\<lparr>db_faults := faults,
       db_pending := Some (db_committed (example_db [] [] [] [] []))\<rparr>\<rparr>)"
  by (simp add: example_sync_def on_db_def StartTransaction_def andThen_apply wrapErr_apply db_Begin_def
      pop_fault_def example_db_def)

lemma example_transaction:
  "handleWithDBTransaction D now resp (example_sync (None # faults)) =
     andThen (onError (handleGraphileResponse D now WithTx resp) (\<lambda>err. andThen callRollback (\<lambda>_. fail err)))
       (\<lambda>_. onError (on_db tx_Commit) (\<lambda>err. andThen callRollback (\<lambda>_. fail err)))
       ((example_sync faults)\<lparr>sy_db := (example_db [] [] [] [] [])\<lparr>db_faults := faults,
         db_pending := Some (db_committed (example_db [] [] [] [] []))\<rparr>\<rparr>)"
  using example_begin [of faults] by (simp add: handleWithDBTransaction_def andThen_def GetTransaction_def)

text \<open>The batch with a cursor is recorded by one statement.\<close>

lemma example_batch:
  assumes "db_pending (sy_db s) = Some p" and "p ''synchronizer_fetch'' = Some (fetches_table [])"
    and "db_faults (sy_db s) = None # faults" and "c \<noteq> []"
  defines "sf \<equiv> synchronizeFetch 7 (sy_fetcher s) (example_response c)"
  shows "handleGraphileResponse D 7 WithTx (example_response c) s =
    (Inr (), s\<lparr>sy_db := (sy_db s)\<lparr>db_faults := faults,
       db_pending := Some (p(''synchronizer_fetch'' \<mapsto> fetches_table [sf]))\<rparr>,
      sy_fetcher := move_cursors sf (sy_fetcher s)\<rparr>)"
proof -
  have "unat (sf_TimestampAfter sf) < 2 ^ 63" by (simp add: sf_def synchronizeFetch_def)
  from sql_exec_insertFetch [where ts = p and fs = "[]", OF this assms(2)] assms(1,3,4) show ?thesis
    by (simp add: handleGraphileResponse_split record_batch_def andThen_apply Let_def wrapErr_apply on_db_def
        sf_def [symmetric] SynchronizerRepository_Create_def DBExecutor_ExecContext_def GetTransaction_def
        tx_Exec_def pop_fault_def)
qed

text \<open>A node with one inspect that waits.\<close>

definition example_waiting :: NonodoModel where
  "example_waiting = snd (AddInspectInput [1, 2] (NewNonodoModel None True (example_db [] [] [] [] [])))"

lemma example_waiting_reachable: "nonodo_reachable example_eth example_waiting"
  unfolding example_waiting_def
  by (rule nonodo_reachable.step [OF nonodo_reachable.start nonodo_step.st_inspect])

lemma example_waiting_inspects:
  "nm_inspects example_waiting = [\<lparr>ii_Index = 0, ii_Status = CompletionStatusUnprocessed,
     ii_Payload = [1, 2], ii_ProcessedInputCount = 0, ii_Reports = [], ii_Exception = []\<rparr>]"
  by (simp add: example_waiting_def AddInspectInput_def NewNonodoModel_def)

text \<open>The node after it was handed out, and after it was finished.\<close>

definition example_handed :: NonodoModel where
  "example_handed = example_waiting\<lparr>nm_state := newRollupsStateInspect 0\<rparr>"

definition example_result :: InspectInput where
  "example_result = \<lparr>ii_Index = 0, ii_Status = CompletionStatusAccepted,
     ii_Payload = [1, 2], ii_ProcessedInputCount = 0, ii_Reports = [], ii_Exception = []\<rparr>"

definition example_served :: NonodoModel where
  "example_served = example_waiting\<lparr>nm_state := rollupsStateIdle, nm_inspects := [example_result]\<rparr>"

lemma example_handed_out:
  "FinishAndGetNext example_eth accept example_waiting =
     (Inr (Some (IInspect (nm_inspects example_waiting ! 0))), example_handed)"
  by (simp add: FinishAndGetNext_eq andThen_apply state_finish_def example_waiting_def AddInspectInput_def
      NewNonodoModel_def get_next_def example_handed_def)

lemma example_finished: "FinishAndGetNext example_eth True example_handed = (Inr None, example_served)"
proof -
  have i: "inputs_in example_eth [] (nm_db example_handed)"
    using example_db_holds(4) [of "[]" "[]" "[]" "[]" "[]"]
    by (simp add: example_handed_def example_waiting_def AddInspectInput_def NewNonodoModel_def)
  let ?s = "example_handed\<lparr>nm_inspects := [example_result]\<rparr>"
  have f: "state_finish example_eth CompletionStatusAccepted example_handed = (Inr (), ?s)"
    using finish_inspect_ok [OF i, where st = "\<lparr>si_input = 0, si_reports = []\<rparr>" and status = CompletionStatusAccepted]
    by (simp add: state_finish_def example_handed_def newRollupsStateInspect_def example_waiting_inspects
        example_result_def)
  have "get_next example_eth ?s = (Inr None, ?s\<lparr>nm_state := rollupsStateIdle\<rparr>)"
    using get_next_advance [of example_eth "[]" ?s] i
    by (simp add: example_result_def lowest_index_def newRollupsStateIdle_def)
  with f show ?thesis
    by (simp add: FinishAndGetNext_eq andThen_apply example_served_def example_handed_def)
qed

lemma example_run: "finish_run example_eth [True, True] example_waiting = (Inr (), example_served)"
  by (simp add: finish_run_def andThen_apply example_handed_out example_finished)

lemma example_served_reachable: "nonodo_reachable example_eth example_served"
  using nonodo_reachable.step [OF nonodo_reachable.step [OF example_waiting_reachable
      nonodo_step.st_finish [of example_eth example_waiting True]]
      nonodo_step.st_finish [of example_eth _ True]]
  by (simp add: example_handed_out example_finished)

text \<open>A node that processes the first of two advance inputs, and one that processes the only one.\<close>

definition example_current :: rollupsStateAdvance where
  "example_current = \<lparr>sa_input = example_input 0 0, sa_vouchers = [], sa_notices = [], sa_reports = []\<rparr>"

definition example_advancing :: NonodoModel where
  "example_advancing = example_node (StAdvance example_current)
     (example_db [] [] [] [example_input 1 0, example_input 0 0] [])"

definition example_last :: NonodoModel where
  "example_last = example_node (StAdvance example_current) (example_db [] [] [] [example_input 0 0] [])"

lemma example_advancing_fields [simp]:
  "nm_state example_advancing = StAdvance example_current"
  "nm_decoder example_advancing = None" "nm_inspects example_advancing = []"
  by (simp_all add: example_advancing_def)

lemma example_last_fields [simp]:
  "nm_state example_last = StAdvance example_current"
  "nm_decoder example_last = None" "nm_inspects example_last = []"
  by (simp_all add: example_last_def)

lemma example_advancing_inputs:
  "inputs_in example_eth [example_input 1 0, example_input 0 0] (nm_db example_advancing)"
  by (simp add: example_db_holds example_advancing_def)

lemma example_last_inputs: "inputs_in example_eth [example_input 0 0] (nm_db example_last)"
  by (simp add: example_db_holds example_last_def)

lemma example_stored [simp]: "stored_input (example_input i st) = example_input i st"
  by (simp add: stored_input_def example_input_def)

lemma example_finished_input:
  "overwrite_input (finished_input example_current CompletionStatusAccepted) (example_input i 0) =
     example_input i (if i = 0 then CompletionStatusAccepted else 0)"
  by (simp add: overwrite_input_def finished_input_def example_input_def example_current_def)

lemma example_finish:
  assumes "nm_state s = StAdvance example_current" and "nm_decoder s = None" and "nm_inspects s = []"
    and "inputs_in example_eth xs (nm_db s)"
    and "ys = map (overwrite_input (finished_input example_current CompletionStatusAccepted)) xs"
  shows "\<exists>s'. FinishAndGetNext example_eth True s = (Inr (map_option (\<lambda>x. IAdvance (stored_input x))
    (lowest_index (filter (\<lambda>x. ai_Status x = CompletionStatusUnprocessed) ys))), s')"
proof -
  let ?d = "nm_db s"
  have sr: "saveAllReports E b [] = ret ()" for E b by (simp add: saveAllReports_def)
  obtain d where w: "finish_writes example_eth None (nm_hasReportRepository s) example_current
      CompletionStatusAccepted ?d = (Inr (), d)"
    using UpdateInput_ok [of ?d NoTx "db_committed ?d" example_eth xs "finished_input example_current CompletionStatusAccepted"]
      assms(4)
    by (simp add: finish_writes_def andThen_apply sr inputs_in_def example_current_def)
  from finish_writes_inputs [OF quiet_None assms(4) _ w] assms(5)
  have i: "inputs_in example_eth ys d" by simp
  let ?s = "s\<lparr>nm_state := StAdvance (example_current\<lparr>sa_input := finished_input example_current CompletionStatusAccepted\<rparr>),
      nm_db := d\<rparr>"
  have "state_finish example_eth CompletionStatusAccepted s = (Inr (), ?s)"
    using w assms(1,2) by (simp add: state_finish_def finish_advance_eq on_nm_apply)
  with get_next_advance [of example_eth ys ?s] i assms(3) show ?thesis
    by (simp add: FinishAndGetNext_eq andThen_apply split: option.splits)
qed

lemma example_advanced:
  "\<exists>s'. FinishAndGetNext example_eth True example_advancing = (Inr (Some (IAdvance (example_input 1 0))), s')"
proof -
  have "lowest_index (filter (\<lambda>x. ai_Status x = CompletionStatusUnprocessed)
      [example_input 1 0, example_input 0 CompletionStatusAccepted]) = Some (example_input 1 0)"
    by (simp add: lowest_index_def status_defs)
  with example_finish [OF example_advancing_fields example_advancing_inputs refl] show ?thesis
    by (simp add: example_finished_input del: filter.simps)
qed

lemma example_last_finished: "\<exists>s'. FinishAndGetNext example_eth True example_last = (Inr None, s')"
proof -
  have "lowest_index (filter (\<lambda>x. ai_Status x = CompletionStatusUnprocessed)
      [example_input 0 CompletionStatusAccepted]) = None"
    by (simp add: lowest_index_def)
  with example_finish [OF example_last_fields example_last_inputs refl] show ?thesis
    by (simp add: example_finished_input del: filter.simps)
qed

lemma example_report_fields [simp]: "report_key (example_report i k) = (i, k)"
  by (simp add: example_report_def report_key_def)

section \<open>The workers\<close>

definition example_edge :: "string \<Rightarrow> VoucherEdge" where
  "example_edge payload = \<lparr>ve_Node = \<lparr>fv_Index = 0, fv_Destination = ''0x07'', fv_Payload = payload,
     fv_Proof = \<lparr>vp_Validity = \<lparr>ov_InputIndexWithinEpoch = 0, ov_OutputIndexWithinInput = 0,
       ov_OutputHashesRootHash = [], ov_VouchersEpochRootHash = [], ov_NoticesEpochRootHash = [],
       ov_MachineStateHash = [], ov_OutputHashInOutputHashesSiblings = [],
       ov_OutputHashesInEpochSiblings = []\<rparr>, vp_Context = []\<rparr>, fv_Input = \<lparr>ir_Index = 3\<rparr>\<rparr>, ve_Cursor = ''MQ==''\<rparr>"

definition example_vouchers :: "VoucherEdge list \<Rightarrow> VoucherResponse" where
  "example_vouchers edges = \<lparr>vr_Data = \<lparr>vd_Vouchers = \<lparr>fc_TotalCount = int (length edges), fc_Edges = edges,
     fc_PageInfo = \<lparr>pi_StartCursor = ''MQ=='', pi_EndCursor = ''MQ=='', pi_HasNextPage = False,
       pi_HasPreviousPage = False\<rparr>\<rparr>\<rparr>\<rparr>"

definition example_voucher_sync :: voucher_sync where
  "example_voucher_sync = \<lparr>vs_fetcher = NewVoucherFetcher, vs_db = example_db [] [] [] [] []\<rparr>"

lemma example_voucher_sync_log:
  "voucher_log [] (vs_db example_voucher_sync)" "vf_CursorAfter (vs_fetcher example_voucher_sync) = last_cursor []"
  using example_db_holds(5) [of "[]" "[]" "[]" "[]" "[]"]
  by (simp_all add: voucher_log_def fetches_in_def example_voucher_sync_def NewVoucherFetcher_def last_cursor_def)

text \<open>A voucher whose payload has a selector and nothing behind it: the handler fails.\<close>

lemma example_edge_fails:
  "\<exists>e. handle_edge (OutputDecoder example_eth) (example_edge ''0x12345678'') s = (Inl e, s)"
proof -
  have "GetConvertedInput example_eth \<lparr>ie_Cursor = [], ie_Index = 0, ie_Blob = ''0x12345678''\<rparr> =
      Inl (EExt ''abi: improperly formatted'')"
    by (simp add: GetConvertedInput_def slice_from_def example_eth_def example_Unpack_def)
  then show ?thesis
    by (simp add: handle_edge_def example_edge_def Let_def OutputDecoder_def on_vdb_def HandleOutputV2_def
        andThen_apply wrapErr_apply)
qed

definition example_chain :: "abi_value list \<Rightarrow> exec_chain" where
  "example_chain vals = \<lparr>xc_BlockByNumber = (\<lambda>_. Inr 7), xc_Unpack = (\<lambda>_. Inr vals)\<rparr>"

definition example_log :: EthLog where
  "example_log = \<lparr>el_BlockNumber = 1, el_BlockHash = [], el_Data = []\<rparr>"

lemma example_event_data: "GetEventData (example_chain vals) example_log = Inr (7, 1, vals)"
  by (simp add: GetEventData_def example_chain_def example_log_def)

lemma example_marks: "marks_of (example_chain [AbiBigInt i]) [example_log] = {voucher_of_id i}"
  by (simp add: marks_of_def event_mark_def example_event_data)

definition example_event :: "int \<Rightarrow> InputAdded" where
  "example_event i = \<lparr>ia_AppContract = 0, ia_Index = i, ia_Input = [0, 0, 0, 0, 1, 1, 1, 1, 1, 1, 1, 5],
     ia_BlockNumber = 2, ia_BlockHash = []\<rparr>"

definition example_read :: AdvanceInput where
  "example_read = \<lparr>ai_Index = 0, ai_Status = CompletionStatusUnprocessed, ai_MsgSender = 1, ai_Payload = [5],
     ai_BlockNumber = 2, ai_BlockTimestamp = time_Unix 9, ai_PrevRandao = [], ai_AppContract = 0,
     ai_Vouchers = [], ai_Notices = [], ai_Reports = [], ai_Exception = []\<rparr>"

lemma example_event_input: "event_input example_eth (\<lambda>_. Inr 9) (example_event 0) = Inr example_read"
  by (simp add: event_input_def example_event_def example_read_def slice_from_def example_eth_def
      example_Unpack_def big_Int64_def)

lemma example_read_fits: "input_fits example_read"
  by (simp add: input_fits_def example_read_def)

definition example_inputter :: "NonodoModel inputter" where
  "example_inputter = \<lparr>iw_InputBoxBlock = 0, iw_Model = NewNonodoModel None True (example_db [] [] [] [] [])\<rparr>"

lemma example_inputter_holds: "node_inputs example_eth [] (iw_Model example_inputter)"
  by (simp add: node_inputs_def example_inputter_def NewNonodoModel_def example_eth_laws example_db_holds)

definition example_connection :: input_connection where
  "example_connection = \<lparr>ip_HeaderByHash = (\<lambda>_. Inr 9), ip_FilterInputAdded = (\<lambda>_ _. Inr [example_event 0]),
     ip_WatchInputAdded = Inr (), ip_events = [example_event 0], ip_end = SubscriptionClosed\<rparr>"

lemma example_connection_offers: "offers input_fits example_eth {example_read} example_connection"
  by (auto simp: offers_def example_connection_def example_event_input example_read_fits)

section \<open>Bound contracts\<close>

text \<open>
  A log, and contracts on which an iteration brings one log before it breaks down; behind it the channel
  still has another one. What is unpacked of a log is fixed.
\<close>

definition example_types_Log :: types_Log where
  "example_types_Log = \<lparr>el_BlockNumber = 2, el_BlockHash = [], el_Data = [], lg_Address = 0, lg_Topics = [],
     lg_TxHash = [], lg_TxIndex = 0, lg_Index = 0, lg_Removed = False\<rparr>"

definition example_contract :: "go_any list \<Rightarrow> (unit, unit, unit, unit) bound_contract" where
  "example_contract vs = \<lparr>bc_Call = (\<lambda>_ _ _ _. Inr []), bc_Transact = (\<lambda>_ _ _. ret ()), bc_RawTransact = (\<lambda>_ _. ret ()),
     bc_Transfer = (\<lambda>_. ret ()),
     bc_FilterLogs = (\<lambda>_ _ _. Inr [Arrived example_types_Log, Ended (Some (EExt ''timeout'')), Arrived example_types_Log]),
     bc_WatchLogs = (\<lambda>_ _ _. Inr []), bc_UnpackLog = (\<lambda>_ _. Inr vs), bc_ConvertType = (\<lambda>v _. Inr v)\<rparr>"

definition example_added :: InputBoxInputAdded where
  "example_added = \<lparr>InputBoxInputAdded_AppContract = 0, InputBoxInputAdded_Index = 0,
     InputBoxInputAdded_Input = [0, 0, 0, 0, 1, 1, 1, 1, 1, 1, 1, 5], InputBoxInputAdded_Raw = example_types_Log\<rparr>"

definition example_input_box :: "(unit, unit, unit, unit) bound_contract InputBoxFilterer" where
  "example_input_box = \<lparr>InputBoxFilterer_contract =
     example_contract [AAddress 0, ABig 0, ABytes [0, 0, 0, 0, 1, 1, 1, 1, 1, 1, 1, 5]]\<rparr>"

lemma example_input_box_unpacks:
  "unpack_InputBoxInputAdded (InputBoxFilterer_contract example_input_box) ''InputAdded'' example_types_Log = Inr example_added"
  by (simp add: unpack_InputBoxInputAdded_def example_input_box_def example_contract_def event_field_def example_added_def)

lemma example_added_event: "input_of_event example_added = example_event 0"
  by (simp add: input_of_event_def example_added_def example_types_Log_def example_event_def)

definition example_stored :: BlobstreamXDataCommitmentStored where
  "example_stored = \<lparr>BlobstreamXDataCommitmentStored_ProofNonce = 1, BlobstreamXDataCommitmentStored_StartBlock = 3,
     BlobstreamXDataCommitmentStored_EndBlock = 9, BlobstreamXDataCommitmentStored_DataCommitment = [],
     BlobstreamXDataCommitmentStored_Raw = example_types_Log\<rparr>"

definition example_blobstream :: "(unit, unit, unit, unit) bound_contract BlobstreamXFilterer" where
  "example_blobstream = \<lparr>BlobstreamXFilterer_contract =
     example_contract [ABig 1, AUint64 3, AUint64 9, AArray []]\<rparr>"

lemma example_blobstream_unpacks:
  "unpack_BlobstreamXDataCommitmentStored (BlobstreamXFilterer_contract example_blobstream) ''DataCommitmentStored''
     example_types_Log = Inr example_stored"
  by (simp add: unpack_BlobstreamXDataCommitmentStored_def example_blobstream_def example_contract_def event_field_def
      example_stored_def)

section \<open>The process\<close>

definition example_empty_db :: db where
  "example_empty_db = \<lparr>db_committed = Map.empty, db_pending = None, db_faults = []\<rparr>"

lemma example_empty_db_fresh: "fresh_db example_empty_db"
  by (simp add: fresh_db_def example_empty_db_def)

definition example_host :: host_env where
  "example_host = \<lparr>he_Getenv = (\<lambda>_. []), he_url_Parse = (\<lambda>s. Inr \<lparr>url_Host = s, url_rest = []\<rparr>),
     he_Connect = (\<lambda>_ _. Inr example_empty_db), he_InstallAnvil = Inr ''anvil''\<rparr>"

definition example_opts :: NonodoOpts where
  "example_opts = (NewNonodoOpts example_host)\<lparr>op_RpcUrl := ''ws://10.0.0.9:8545''\<rparr>"

lemma example_hl_workers:
  "NewSupervisorHLGraphQL example_eth example_host example_opts = Inr [GraphQLSynchronizerWorker,
     ExecListenerWorker ''ws://127.0.0.1:8545'' (HexToAddress example_eth devnet_ApplicationAddress) 0,
     HttpWorker ''127.0.0.1:8080'' (PublicApi UseAdapterV1)]"
proof -
  have o: "he_Connect example_host ''sqlite3'' (op_SqliteFile example_opts) = Inr example_empty_db"
    "op_DbImplementation example_opts = ''sqlite''" "op_NodeVersion example_opts = ''v1''"
    "op_RpcUrl example_opts \<noteq> []" "\<not> op_LoadTestMode example_opts" "\<not> op_GraphileDisableSync example_opts"
    "op_ApplicationAddress example_opts = devnet_ApplicationAddress" "op_FromBlock example_opts = 0"
    by (simp_all add: example_host_def example_opts_def NewNonodoOpts_def Let_def)
  have p: "itoa AnvilDefaultPort = ''8545''" "itoa DefaultHttpPort = ''8080''"
    by (simp_all add: itoa_def AnvilDefaultPort_def DefaultHttpPort_def nat_to_dec.simps string_of_digit_def
        dec_digits_def)
  have u: "ws_url example_opts = ''ws://127.0.0.1:8545''"
    "http_address example_opts (op_HttpPort example_opts) = ''127.0.0.1:8080''"
    by (simp_all add: ws_url_def http_address_def example_opts_def NewNonodoOpts_def Let_def AnvilDefaultAddress_def p)
  show ?thesis
    by (simp only: NewSupervisorHLGraphQL_v1 [OF o(1) example_empty_db_fresh o(2-6)] u o(7,8) unsigned_0)
qed

definition example_blob_node :: "unit blob_node" where
  "example_blob_node = \<lparr>bn_NewClient = (\<lambda>_ _. Inr ()), bn_NewBlobNamespaceV0 = Inr,
     bn_NewBlobV0 = (\<lambda>ns b. Inr \<lparr>bl_Namespace = ns, bl_Data = b, bl_Commitment = [9]\<rparr>),
     bn_Submit = (\<lambda>_. ret 7), bn_GetProof = (\<lambda>_ _ _. ret [(1, 2)]),
     bn_Get = (\<lambda>_ ns _. ret \<lparr>bl_Namespace = ns, bl_Data = [], bl_Commitment = [9]\<rparr>),
     bn_MarshalJSON = (\<lambda>_. Inr [])\<rparr>"

definition example_release_host :: release_host where
  "example_release_host = \<lparr>rh_GOOS = ''linux'', rh_GOARCH = ''amd64'', rh_TempDir = [''tmp''], rh_Now = [],
     rh_faults = (\<lambda>_. None), rh_Marshal = (\<lambda>_. Inl (EMsg [])), rh_Unmarshal = (\<lambda>_. Inl (EMsg [])),
     rh_ListReleases = (\<lambda>_ _. Inr []), rh_DownloadReleaseAsset = (\<lambda>_ _ _. Inl (EMsg [])),
     rh_HttpGet = (\<lambda>_. Inl (EMsg [])), rh_tarReader = (\<lambda>_. Inr [Inr (EntryFile ''anvil'' [1])]),
     rh_zipReader = (\<lambda>_. Inl (EMsg []))\<rparr>"

section \<open>The wire\<close>

text \<open>A framework with the laws: routes are looked up by their text, bodies are read up to their first value.\<close>

fun route_index :: "(string \<times> string) list \<Rightarrow> string \<times> string \<Rightarrow> nat option" where
  "route_index [] r = None"
| "route_index (x # xs) r = (if x = r then Some 0 else map_option Suc (route_index xs r))"

definition example_body :: "int \<Rightarrow> string \<Rightarrow> string \<Rightarrow> wire_response" where
  "example_body c ct body = \<lparr>wp_Status = itoa c, wp_StatusCode = c, wp_ContentType = ct, wp_Body = Inr body\<rparr>"

definition example_echo :: echo_lib where
  "example_echo = \<lparr>ec_Bind = (\<lambda>_ b. case decode_first b of Some (v, _) \<Rightarrow> Inr (Some v) | None \<Rightarrow> Inl (EExt ''code=400'')),
     ec_String = (\<lambda>c t. example_body c ''text/plain'' t), ec_JSON = (\<lambda>c t. example_body c ''application/json'' (t @ [CHR 0x0A])),
     ec_NoContent = (\<lambda>c. example_body c [] []), ec_Error = (\<lambda>_. example_body 500 ''application/json'' []),
     ec_NotFound = example_body 404 ''application/json'' [], ec_Find = route_index\<rparr>"

lemma route_index_nth: "distinct rs \<Longrightarrow> i < length rs \<Longrightarrow> route_index rs (rs ! i) = Some i"
  by (induction rs arbitrary: i) (auto simp: nth_Cons split: nat.splits)

lemma example_echo_laws: "echo_laws example_echo"
proof -
  have "has_infix ''json'' ''application/json''" "\<not> has_infix ''json'' ''text/plain''" "\<not> has_infix ''json'' []"
    "skip_ws [CHR 0x0A] = []" by (simp_all add: skip_ws_def is_ws_def)
  then show ?thesis by (auto simp: echo_laws_def example_echo_def example_body_def route_index_nth)
qed

definition example_resolve :: "string \<Rightarrow> string \<Rightarrow> string res" where
  "example_resolve server ref = Inr (server @ drop 2 ref)"

lemma example_resolve_laws: "url_laws example_resolve endpoint"
  by (simp add: url_laws_def example_resolve_def)

lemma example_hex_ascii: "hex_ascii example_eth"
proof -
  have "list_all ascii_char hex_digits" by (simp add: hex_digits_def ascii_char_def)
  moreover have "length hex_digits = 16" by (simp add: hex_digits_def)
  ultimately have "\<forall>n < 16. ascii_char (hex_digit n)" by (simp add: hex_digit_def list_all_length)
  moreover have "unat w < 256" for w :: byte
  proof -
    have "unat w < 2 ^ LENGTH(8)" by (rule unsigned_less)
    then show ?thesis by simp
  qed
  ultimately have "ascii_char (hex_digit (unat w div 16)) \<and> ascii_char (hex_digit (unat w mod 16))" for w :: byte
    by (simp add: div_less_iff_less_mult)
  then show ?thesis
    by (auto simp: hex_ascii_def example_eth_def hex_of_bytes_def list_all_iff ascii_char_def)
qed

definition example_voucher_request :: VoucherRequest where
  "example_voucher_request = \<lparr>vr_Destination = hexutil_Encode example_eth (replicate 20 7),
     vr_Payload = hexutil_Encode example_eth [0xBE, 0xEF], vr_Value = []\<rparr>"

lemma example_voucher_request_ascii: "ascii_voucher example_voucher_request"
  using example_hex_ascii by (simp add: ascii_voucher_def example_voucher_request_def hex_ascii_def)

lemma example_voucher_added:
  "\<exists>s'. RollupAPI_AddVoucher example_eth (json_request example_voucher_request) example_advancing =
    (Inr (RJSON 200 0), s')"
  by (simp add: RollupAPI_AddVoucher_def checkContentType_def example_voucher_request_def andThen_apply or_respond_apply
      eth_Decode [OF example_eth_laws] AddVoucher_def addVoucher_advance_def example_current_def set_state_def ret_def Let_def)

text \<open>What a GraphQL server answers to a query that it refuses.\<close>

definition example_errors :: json where
  "example_errors = JObj [(''errors'', JArr [JObj [(''message'', JStr ''too many requests'')]])]"

lemma example_errors_parsed: "json_parse (json_print example_errors) = Some example_errors"
  using json_roundtrip [of example_errors "[]"]
  by (simp add: example_errors_def ascii_char_def maxNestingDepth_def)

lemma example_errors_no_data: "no_data example_errors"
proof -
  have "foldName ''errors'' \<noteq> ''DATA''" by (simp add: fold_name_simps)
  then show ?thesis by (simp add: no_data_def example_errors_def)
qed

definition example_chain_client :: "unit chain_client" where
  "example_chain_client = \<lparr>cc_Dial = (\<lambda>_. Inr ()), cc_ToECDSA = (\<lambda>_. Inr 7), cc_ChainID = Inr 31337,
     cc_NewTransactor = (\<lambda>_. Inr ()), cc_PendingNonceAt = (\<lambda>_. Inr 3), cc_SuggestGasPrice = Inr 9,
     cc_NewInputBox = (\<lambda>_. Inr ()), cc_AddInput = (\<lambda>_. Inr ()), cc_FilterInputAdded = Inr ([], None)\<rparr>"

lemma example_input_sent:
  "\<exists>sent'. devnet_AddInput example_eth example_chain_client [(NotFound, None), (Receipt 1, None)] ''ws://x'' [5] [] =
    Some (Inr (), sent')"
  by (simp add: devnet_AddInput_def input_transaction_def example_chain_client_def wrap_res_def)

section \<open>The GraphQL library\<close>

definition example_gql :: gql_lib where
  "example_gql = \<lparr>gq_MarshalInt = (\<lambda>i. JNum (itoa i)), gq_MarshalString = JStr, gq_MarshalBoolean = JBool,
     gq_MarshalID = JStr,
     gq_UnmarshalInt = (\<lambda>v. case v of JNum s \<Rightarrow> Atoi s | _ \<Rightarrow> Inl (EMsg ''not an int'')),
     gq_UnmarshalString = (\<lambda>v. case v of JStr s \<Rightarrow> Inr s | _ \<Rightarrow> Inl (EMsg ''not a string'')),
     gq_UnmarshalBoolean = (\<lambda>v. case v of JBool b \<Rightarrow> Inr b | _ \<Rightarrow> Inl (EMsg ''not a boolean'')),
     gq_CoerceList = (\<lambda>v. case v of JNull \<Rightarrow> [] | JArr vs \<Rightarrow> vs | _ \<Rightarrow> [v]),
     gq_Recover = (\<lambda>e. EMsg ''internal system error'')\<rparr>"

lemma example_gql_laws: "gql_laws example_gql"
  by (auto simp: gql_laws_def example_gql_def Atoi_itoa split: json.splits)

text \<open>A schema wrapped as its type names.\<close>

definition example_introspection :: "string introspection" where
  "example_introspection = \<lparr>in_WrapSchema = ''schema'', in_WrapTypeFromDef = map_option (\<lambda>_. ''type'') \<circ> map_of schema,
     in_Directive_Name = id, in_Directive_Description = (\<lambda>_. None), in_Directive_Locations = (\<lambda>_. []),
     in_Directive_Args = (\<lambda>_. []), in_Directive_IsRepeatable = (\<lambda>_. False), in_EnumValue_Name = id,
     in_EnumValue_Description = (\<lambda>_. None), in_EnumValue_IsDeprecated = (\<lambda>_. False),
     in_EnumValue_DeprecationReason = (\<lambda>_. None), in_Field_Name = id, in_Field_Description = (\<lambda>_. None),
     in_Field_Args = (\<lambda>_. []), in_Field_Type = (\<lambda>_. None), in_Field_IsDeprecated = (\<lambda>_. False),
     in_Field_DeprecationReason = (\<lambda>_. None), in_InputValue_Name = id, in_InputValue_Description = (\<lambda>_. None),
     in_InputValue_Type = (\<lambda>_. None), in_InputValue_DefaultValue = (\<lambda>_. None), in_Schema_Description = (\<lambda>_. None),
     in_Schema_Types = (\<lambda>_. map fst schema), in_Schema_QueryType = (\<lambda>_. Some ''Query''),
     in_Schema_MutationType = (\<lambda>_. None), in_Schema_SubscriptionType = (\<lambda>_. None), in_Schema_Directives = (\<lambda>_. []),
     in_Type_Kind = (\<lambda>_. ''OBJECT''), in_Type_Name = Some, in_Type_Description = (\<lambda>_. None),
     in_Type_Fields = (\<lambda>_ _. None), in_Type_Interfaces = (\<lambda>_. None), in_Type_PossibleTypes = (\<lambda>_. None),
     in_Type_EnumValues = (\<lambda>_ _. None), in_Type_InputFields = (\<lambda>_. None), in_Type_OfType = (\<lambda>_. None),
     in_Type_SpecifiedByURL = (\<lambda>_. None)\<rparr>"

text \<open>A server over a fixed database.\<close>

definition example_server :: "db \<Rightarrow> string execution" where
  "example_server d = reader_schema example_gql example_introspection (AdapterV1 example_eth) example_eth (\<lambda>_. d)"

text \<open>A query for the vouchers with their proofs.\<close>

definition example_query :: operation_context where
  "example_query = query [vouchers_field (Some 1) None None None []
     (node_field ''proof'' [] [leaf_field ''nodeId''] # voucher_selection)]"

lemma example_query_fields:
  "rc_Operation example_query = QueryOperation"
  "\<forall>f \<in> set (rc_SelectionSet example_query). fl_Name f \<in> set root_fields"
  by (simp_all add: example_query_def query_def vouchers_field_def node_field_def [of "''vouchers''"] root_fields_def
      fields_Query_def)

text \<open>A filter with another filter in it.\<close>

definition example_filter :: ConvenientFilter where
  "example_filter = ConvenientFilter (Some (AddressFilterInput (Some ''0x01'') None [Some ''0x02'', None] [] [] []))
     None [ConvenientFilter None (Some (BooleanFilterInput (Some True) None [] [])) [] []] []"

text \<open>The queries of the generated client, parsed, and a client in front of a server.\<close>

definition example_parse :: "graphql_Request \<Rightarrow> operation_context option" where
  "example_parse req = (if rq_OpName req = ''State'' then Some (query state_selection)
     else case rq_Variables req of Some (JObj args) \<Rightarrow> Some (query
         [if rq_OpName req = ''GetNotice'' then node_field ''notice'' args (map leaf_field [''index'', ''payload''])
          else if rq_OpName req = ''GetVoucher''
          then node_field ''voucher'' args (map leaf_field [''index'', ''payload'', ''destination''])
          else node_field ''input'' args (map leaf_field [''status''])])
       | _ \<Rightarrow> None)"

definition example_graphql_client :: "string execution \<Rightarrow> graphql_Client" where
  "example_graphql_client ec req = (case example_parse req of
       None \<Rightarrow> (None, Some (EExt ''unexpected query''))
     | Some rc \<Rightarrow> (case Exec ec rc of
         Inr (r # rs) \<Rightarrow> (gs_Data r, if gs_Errors r = [] then None else Some (EExt ''errors''))
       | _ \<Rightarrow> (None, Some (EExt ''no response''))))"

lemma example_parses: "parses_client_queries example_parse"
  by (simp add: parses_client_queries_def example_parse_def State_request_def GetNotice_request_def
      GetVoucher_request_def InputStatus_request_def json_of_client_GetNoticeInput_def
      json_of_client_GetVoucherInput_def json_of_client_InputStatusInput_def output_selection_def)

lemma example_reaches: "reaches (example_graphql_client ec) example_parse ec"
  by (simp add: reaches_def example_graphql_client_def)

end
