(* ===== verification/Spec2Isabelle.thy ===== *)
theory Spec2Isabelle
  imports Examples
begin

text \<open>
  A verification library for the rollups node with a high-level GraphQL interface
  (\<open>cartesi-rollups-hl-graphql\<close>, the Go code under \<open>src/internal\<close>). The program keeps the inputs of a
  blockchain application and the outputs the application makes of them in a database, serves them
  over GraphQL, and can itself play the node: it hands inputs to the application over HTTP and
  takes its outputs. This theory holds the properties; the other theories hold the model of the
  code and its lemmas. Definitions keep the names of the source, with the receiver in front of a
  method, and record fields have a short prefix.

  \<^bold>\<open>The parts and how they interact.\<close> A worker fills the database: the Graphile synchronizer or the older
  voucher synchronizer polls a remote node, batch by batch, and hands each output, input and report
  to the output decoder, which stores it through the convenience service and its repositories;
  the execution listener marks vouchers as executed. As a node the program has the inputter, which
  adds inputs of the chain to the node model, and two HTTP interfaces over that model: the
  application asks for its next input and sends outputs through the rollup API, a client runs an
  inspect through the inspect API. The GraphQL server executes the selections of a query with the code that
  gqlgen generated from the schema; its resolvers read through one of two adapters. A container creates
  the components, the process set-up chooses the workers, and a supervisor starts them.

  \<^bold>\<open>The theories.\<close>
  \<^item> \<open>Prelude\<close>: results (\<open>err + 'a\<close>, a panic is an error of its own that no handler catches), stateful
    computations over a state, loops that stop at the first error, Go's slices, decimal numbers,
    the frame rule \<open>keeps\<close>. \<open>Base64\<close>: the standard encoding.
  \<^item> \<open>Pagination\<close>: \<open>commons/pagination.go\<close>, \<open>reader/model/pagination.go\<close>: pages, cursors, connections;
    the walk of a client over the pages of a connection.
  \<^item> \<open>SqlEngine\<close>, \<open>SqlLemmas\<close>: the statements the repositories use, parsed from their very texts and run on
    typed tables, and the database as the driver shows it: transactions, and a schedule of faults that
    may fail any statement, query, begin or commit. \<open>RepoBase\<close>: the executor and the transaction helper.
  \<^item> \<open>ConvModel\<close>: \<open>convenience/model/type.go\<close>, and the Ethereum library as the record \<open>ethlib\<close> with its
    documented laws \<open>eth_laws\<close> and the executable instance \<open>example_eth\<close>.
  \<^item> \<open>VoucherRepository\<close>, \<open>NoticeRepository\<close>, \<open>ReportRepository\<close>, \<open>InputRepository\<close>, \<open>InputLaws\<close>,
    \<open>SynchronizerRepository\<close>: the files of the same names. Each has the invariant that its table
    holds a given list (\<open>vouchers_in\<close>, \<open>inputs_in\<close>, ...), shows that every operation keeps it, and what
    every operation returns as a function of that list, errors included.
  \<^item> \<open>ConvenienceService\<close> (\<open>services/service.go\<close>), \<open>ServiceRuns\<close>: the upserts, and sequences of them, over
    the locale of an output store. \<open>Decoder\<close>: \<open>adapter.go\<close> and \<open>decoder.go\<close>. \<open>Frames\<close>: what writing leaves
    alone, the locale \<open>table_frame\<close>, inside and outside a transaction.
  \<^item> \<open>GraphileSync\<close>, \<open>GraphileRun\<close>: \<open>graphile_fetcher.go\<close>, \<open>graphile_synchornizer.go\<close>; the locale
    \<open>sync_decoder\<close> is what the synchronizer relies on, interpreted on the decoder. \<open>VoucherSync\<close>:
    \<open>synchronizer.go\<close>, \<open>voucher_fetcher.go\<close>. \<open>ExecListener\<close>: \<open>output_exec_listener.go\<close>.
  \<^item> \<open>Reader\<close>, \<open>ReaderFilters\<close>: the adapters, conversions and resolvers of \<open>reader\<close>; a locale states
    what the resolvers need of an adapter.
  \<^item> \<open>GraphRuntime\<close>: the templates of the code that gqlgen generates, a field, an argument, a list, an object, over the
    library as the record \<open>gql_lib\<close> with its laws \<open>gql_laws\<close>. \<open>GraphMarshal\<close>, \<open>GraphFields\<close>, \<open>GraphExec\<close>,
    \<open>GraphContexts\<close>: \<open>reader/graph/generated.go\<close> function by function: arguments and values, the fields, the
    executors of the object types with the recursion over the selections and \<open>Exec\<close>, the contexts of the fields.
    \<open>GraphComplexity\<close>: the costs of fields. \<open>GraphSchema\<close>: the schema as a table and what conforming to it means. \<open>GraphLaws\<close>: every executor conforms.
    \<open>GraphFilters\<close>: reading the filters. \<open>GraphQueries\<close>: whole queries down to the rows. \<open>ReaderClient\<close>:
    \<open>readerclient/generated.go\<close>, its types, queries and operations; \<open>ReaderClientRuns\<close>: the client against the server.
  \<^item> \<open>NonodoModel\<close>, \<open>NonodoLaws\<close>, \<open>NonodoAdvance\<close>, \<open>NonodoQueue\<close>: \<open>internal/model\<close>, the state machine of the
    node (idle, an advance, an inspect), its steps and reachable states. Every exported method holds the
    mutex of the source, so that it is one step. \<open>NodeStates\<close>: the methods of the three states of \<open>state.go\<close>
    behind their interface, which the operations of the node call; and small readers of files and services, with
    the runtime and the commands of Windows.
  \<^item> \<open>RollupApi\<close>, \<open>RollupLaws\<close>, \<open>RollupServing\<close>: the handlers of \<open>rollup\<close> and \<open>inspect\<close>, and the application
    of \<open>echoapp\<close> run against them. \<open>Inputter\<close>: \<open>sequencers/inputter\<close>; the locale \<open>input_sink\<close> is the
    interface \<open>Model\<close> of the source, interpreted on the node.
  \<^item> \<open>Json\<close>: \<open>encoding/json\<close>: printing, parsing, decoding into structs, and that a printed value is parsed
    back. \<open>RollupHttp\<close>, \<open>InspectHttp\<close>, \<open>HttpLaws\<close>: \<open>rollup/generated.go\<close> and \<open>inspect/generated.go\<close>, the JSON
    types, the clients and the registration of the handlers, and the echo application on that client.
    \<open>HttpClients\<close>: what the two clients repeat. \<open>FetchHttp\<close>, \<open>FetchLaws\<close>: \<open>graphileclient_impl.go\<close> and the JSON of the fetchers and of the second adapter.
  \<^item> \<open>DataAvailability\<close>, \<open>DataLaws\<close>: \<open>dataavailability\<close> and the \<open>/gio\<close> handler. \<open>BlobSubmission\<close>:
    submitting a blob and relaying it to a contract (\<open>SubmitBlob\<close>, \<open>CallCelestiaRelay\<close> of \<open>celestia.go\<close>).
  \<^item> \<open>ContractRuntime\<close>: what the contract bindings share: the bound contract of go-ethereum as the record
    \<open>bound_contract\<close>, the iterator over events with its \<open>Next\<close>, loops over it, the goroutine of a subscription; a
    loop over an iterator is the loop over the events that the iteration delivers. \<open>BindInputBox\<close>, \<open>BindInputs\<close>,
    \<open>BindOutputs\<close>, \<open>BindApplication\<close>, \<open>BindCelestiaRelay\<close>, \<open>BindShareLoader\<close>, \<open>BindBlobstreamX\<close>,
    \<open>BindBlobstreamXEvents\<close>: the bindings of \<open>contracts\<close> and \<open>dataavailability/contracts\<close>, method by method.
    \<open>ContractRuns\<close>: the readers of events run on the bindings, and that they refine those of the other theories.
  \<^item> \<open>Supervisor\<close>: \<open>supervisor.go\<close> as a step relation. \<open>Wiring\<close>: \<open>container.go\<close>, \<open>nonodo.go\<close>, \<open>health.go\<close>.
    \<open>CommandLine\<close>: the commands of \<open>main.go\<close>. \<open>Releases\<close>: \<open>commons/handle_release.go\<close>, the archives of
    \<open>commons/utils.go\<close>, \<open>InstallAnvil\<close>. \<open>CommandLogger\<close>: \<open>supervisor/command_logger.go\<close>, the lines of a log.
    \<open>Devnet\<close>: \<open>devnet/input.go\<close>, \<open>devnet/anvil.go\<close> and the workers of \<open>command_unix.go\<close>, \<open>server.go\<close>, \<open>http.go\<close>.
  \<^item> \<open>Examples\<close>: concrete data for the witnesses.

  \<^bold>\<open>What is shown.\<close> C1: pages lie in the result. C2 to C9: the GraphQL server: every response conforms to the schema,
  a query for vouchers answers with the rows, a client that follows the cursors sees everything once, the
  generated client reads what the tables hold, filters are read as they are written, errors stay at their field, a null among the filters panics, nested filters are ignored.
  C10 to C13: a batch is stored as a whole or not at all, under any faults; log and cursors agree and a
  restart resumes; a failed commit loses the batch. C14 to C21: the invariant of the node, that inspects are served
  and stay final, what finishing does, that requests are answered, that the echo application echoes, and a state
  from which no finish succeeds. C22 and C23: the store: upserts, queries that refine filtering and
  sorting a list. C24 and C25: the decoder: a round trip, vouchers stored as notices. C26 to C31: the voucher
  worker, the listener and the inputs of the chain, down to the iterator of the input box, whose error nobody
  asks for. C32 and C33: the process: the order in which workers start, unpacking of archives. C34 to C36: when
  the search for a data commitment ends and which events it sees. C37 to C40: the wire: the echo application over
  HTTP, an index that is lost, answers that are read back, and sending an input.

  \<^bold>\<open>Bounds and fuel.\<close> Go's \<open>int\<close> is \<open>int\<close> where the code cannot overflow it; indices that the database or the ABI
  keeps in 64 bits are words, and the properties name the bound below which the conversion to a signed column is exact.
  Loops that wait run over a list of what happens in the meantime: the rounds of a poller, the
  connections of a subscription, the waits of a poll. The finish handler makes \<open>FinishRetries\<close> attempts, as
  the source. The reader of nested filters has the depth of the JSON value as its fuel, which C6 shows to be enough.
  The scan for a data commitment is a partial function, \<open>None\<close> where it does not end. What a \<open>select\<close> finds is a
  list of arrivals; an iterator whose list ends before its subscription does waits for ever, again \<open>None\<close>.

  \<^bold>\<open>Parameters.\<close> Code that is not in the repository is an argument of the definitions: the Ethereum library and its
  clients, the ABI coder, the remote GraphQL and Celestia nodes, the environment, connecting to a
  database, the echo framework with its laws \<open>echo_laws\<close>, resolving a URL with \<open>url_laws\<close>, the
  processes that are started, gqlgen's scalars and panic handler, its introspection package, and the parsing of a query
  into the tree of its selections (\<open>parses_client_queries\<close> for those of the generated client, which \<open>reaches\<close> the
  server through genqlient). SQLite and PostgreSQL are modelled by their documented behaviour on the statements used.

  \<^bold>\<open>Not modelled.\<close> The programs that generate code and state at build
  time, the parsing of flags, sockets and HTTP middleware, and signals: they are calls of libraries and of the
  operating system. The ABI texts of the contracts and the creation code are data of the coder, a parameter. Log
  output is left out everywhere.
\<close>

section \<open>Pagination\<close>

text \<open>
  C1. The page that \<open>ComputePage\<close> returns always lies inside the result: for any connection
  arguments it accepts, the offset and the limit are non-negative and end at or before the
  total, the limit is at most the requested \<open>first\<close> or \<open>last\<close>, and without either it is at most
  \<open>DefaultPaginationLimit\<close>.
\<close>

theorem computed_page_in_total:
  assumes "ComputePage first lastN after before tot = Inr (off, lim)" and "0 \<le> tot"
  shows "0 \<le> off \<and> 0 \<le> lim \<and> off + lim \<le> tot \<and>
    (case first of Some f \<Rightarrow> lim \<le> f | None \<Rightarrow>
      (case lastN of Some l \<Rightarrow> lim \<le> l | None \<Rightarrow> lim \<le> DefaultPaginationLimit))"
proof (intro conjI)
  show "0 \<le> off" "0 \<le> lim" "off + lim \<le> tot" using ComputePage_bounds [OF assms] by simp_all
  show "case first of Some f \<Rightarrow> lim \<le> f | None \<Rightarrow>
      (case lastN of Some l \<Rightarrow> lim \<le> l | None \<Rightarrow> lim \<le> DefaultPaginationLimit)"
    using assms(1)
    by (auto simp: ComputePage_def computeForwardPage_def computeBackwardPage_def rbind_Inr_iff Let_def
        split: option.splits if_splits)
qed

theorem computed_page_in_total_witness:
  "ComputePage (Some 5) None (Some (EncodeCursor 6)) None 10 = Inr (7, 3) \<and>
   (0::int) \<le> 7 \<and> (0::int) \<le> 3 \<and> 7 + 3 \<le> (10::int)"
proof -
  have "ComputePage (Some 5) None (Some (EncodeCursor 6)) None 10 = Inr (7, 3)"
    by (simp add: ComputePage_first_after)
  with computed_page_in_total [OF this] show ?thesis by simp
qed

section \<open>The GraphQL server\<close>

text \<open>
  C2. What the server answers conforms to the schema. For a query whose fields are those of the type
  \<open>Query\<close>, with anything selected below them and any arguments, \<open>Exec\<close> returns a first response;
  its data is an object that has the selected members in their order, each with the type that the schema
  gives it and not null where the schema forbids it, or the data is null and the response has an error.
\<close>

theorem response_conforms_to_schema:
  assumes "gql_laws L" and "rc_Operation rc = QueryOperation"
    and "\<forall>f \<in> set (rc_SelectionSet rc). fl_Name f \<in> set root_fields"
  shows "\<exists>r rest v. Exec (reader_schema L I (AdapterV1 E) E' D) rc = Inr (r # rest) \<and> gs_Data r = Some v \<and>
    (if v = JNull then gs_Errors r \<noteq> [] else conforms (rc_SelectionSet rc) (Named ''Query'') v)"
proof -
  have "go_Panic (execute (reader_schema L I (AdapterV1 E) E' D) (rc_SelectionSet rc) OQuery []) = None"
    using assms(3) by (intro query_no_panic) blast
  then obtain rs where rs: "Exec (reader_schema L I (AdapterV1 E) E' D) rc = Inr rs"
    using Exec_query [OF assms(2)] by metis
  with Exec_conforms [OF _ _ assms(2) rs] assms(1) V1_resolvers_ok show ?thesis
    by (fastforce simp: reader_schema_def)
qed

theorem response_conforms_to_schema_witness:
  "\<exists>r rest v. Exec (example_server (example_db [example_voucher 3 0] [] [] [] [])) example_query = Inr (r # rest) \<and>
    gs_Data r = Some v \<and>
    (if v = JNull then gs_Errors r \<noteq> [] else conforms (rc_SelectionSet example_query) (Named ''Query'') v)"
  unfolding example_server_def by (rule response_conforms_to_schema [OF example_gql_laws example_query_fields])



text \<open>
  C4. A client that asks the server for a page of \<open>k\<close> vouchers after another and follows \<open>endCursor\<close> as long as
  \<open>hasNextPage\<close> holds gets every voucher that the filters let through once, in the order of their indices,
  and stops.
\<close>

theorem client_lists_all_vouchers:
  assumes "gql_laws L" and "\<And>after. vouchers_in E vs (D after [PathName ''vouchers''])" and "0 < k" and "k < 2 ^ 63"
    and "ConvertToConvenienceFilter fs = Inr cfs" and "voucher_query E cfs vs = Inr rows"
  shows "graphql_walk (Suc (length rows)) ''vouchers'' (\<lambda>after. Exec (reader_schema L I A E (D after))
      (query [vouchers_field (Some k) None after None (map Some fs) voucher_selection])) None =
    Some (map (\<lambda>v. voucher_json (convertConvenientVoucherV1 E v)) rows)"
  using assms by (rule graphql_listing)

theorem client_lists_all_vouchers_witness:
  "graphql_walk 3 ''vouchers'' (\<lambda>after. Exec (example_server (example_db [example_voucher 4 1, example_voucher 3 0] [] [] [] []))
      (query [vouchers_field (Some 1) None after None [] voucher_selection])) None =
   Some (map (\<lambda>v. voucher_json (convertConvenientVoucherV1 example_eth v)) [example_voucher 3 0, example_voucher 4 1])"
proof -
  have "vouchers_in example_eth [example_voucher 4 1, example_voucher 3 0]
      (example_db [example_voucher 4 1, example_voucher 3 0] [] [] [] [])"
    by (intro example_db_holds) simp
  moreover have "voucher_query example_eth [] [example_voucher 4 1, example_voucher 3 0] =
      Inr [example_voucher 3 0, example_voucher 4 1]"
    by (simp add: voucher_query_def)
  ultimately show ?thesis unfolding example_server_def
    using client_lists_all_vouchers [OF example_gql_laws, where E = example_eth and k = 1 and fs = "[]" and cfs = "[]"
        and vs = "[example_voucher 4 1, example_voucher 3 0]" and rows = "[example_voucher 3 0, example_voucher 4 1]"
        and D = "\<lambda>_ _. example_db [example_voucher 4 1, example_voucher 3 0] [] [] [] []"]
    by (simp del: graphql_walk.simps add: eval_nat_numeral)
qed

text \<open>
  C5. The whole reader, from the generated client to the tables. A client whose queries the server parses as
  they are written reads with \<open>State\<close> exactly what the tables hold: the first thousand inputs in the order of
  their indices, each with its first thousand notices, vouchers and reports in the order of theirs, and no error.
\<close>

theorem client_reads_node_state:
  assumes "gql_laws L" and "parses_client_queries parse"
    and "reaches client parse (reader_schema L I (AdapterV1 E) E' D)" and "serves_tables E vs ns rs xs D"
    and "state_seen E vs ns rs xs = Inr s" and "list_all (\<lambda>x. in_int (ai_Index x)) xs"
    and "list_all (\<lambda>r. in_int (rp_Index r)) rs"
  shows "client_State client = (s, None)"
  using assms by (rule state_read)

theorem client_reads_node_state_witness:
  "\<exists>i. ConvertInput example_eth (example_input 4 0) = Inr i \<and>
    client_State (example_graphql_client (example_server
      (example_db [example_voucher 4 1] [example_notice 3 0] [example_report 4 0] [example_input 4 0] []))) =
    (\<lparr>str_Inputs = \<lparr>sic_Edges = [input_seen example_eth [example_voucher 4 1] [example_notice 3 0] [example_report 4 0] i]\<rparr>\<rparr>,
     None)"
proof -
  obtain i where i: "ConvertInput example_eth (example_input 4 0) = Inr i"
    using status_names [of example_eth "example_input 4 0"] by (auto simp: CompletionStatusUnprocessed_def)
  have "serves_tables example_eth [example_voucher 4 1] [example_notice 3 0] [example_report 4 0] [example_input 4 0]
      (\<lambda>_. example_db [example_voucher 4 1] [example_notice 3 0] [example_report 4 0] [example_input 4 0] [])"
    unfolding serves_tables_def by (intro allI conjI example_db_holds) simp_all
  moreover have "state_seen example_eth [example_voucher 4 1] [example_notice 3 0] [example_report 4 0] [example_input 4 0] =
      Inr \<lparr>str_Inputs = \<lparr>sic_Edges = [input_seen example_eth [example_voucher 4 1] [example_notice 3 0] [example_report 4 0] i]\<rparr>\<rparr>"
    by (simp add: state_seen_def i)
  ultimately show ?thesis
    using client_reads_node_state [OF example_gql_laws example_parses example_reaches] i
    by (simp add: example_server_def in_int_def example_report_def)
qed

text \<open>
  C6. A list of filters that a client writes as JSON is read as it is, however deep filters are nested in it; and
  the fuel of the reader is enough for every JSON value, more of it changes nothing.
\<close>

theorem filters_are_read_back:
  assumes "gql_laws L"
  shows "unmarshalOConvenientFilter_list L p (JArr (map json_of_filter fs)) = Inr (Some fs) \<and>
    (\<forall>v n. json_depth v < n \<longrightarrow>
      unmarshalInputConvenientFilter L n p v = unmarshalInputConvenientFilter L (Suc (json_depth v)) p v)"
  using filter_argument_read [OF assms] filter_fuel [OF assms] by blast

theorem filters_are_read_back_witness:
  "unmarshalOConvenientFilter_list example_gql [] (JArr (map json_of_filter [example_filter, example_filter])) =
   Inr (Some [example_filter, example_filter])"
  using filters_are_read_back [OF example_gql_laws] by blast

text \<open>
  C7. The first adapter has no proofs. A query for notices with their proofs still answers with the page: every proof
  is null and has an error of its own, at its path, and nothing else is lost.
\<close>

theorem missing_proofs_stay_local:
  assumes "gql_laws L" and "notices_in E ns (D [PathName ''notices''])" and "go_int first" and "go_int lastN"
  shows "Exec (reader_schema L I (AdapterV1 E) E' D)
      (query [node_field ''notices'' (page_args first lastN after before) (page_selection (notice_selection sels))]) =
    answer L ''notices'' (\<lambda>c. node_errors proof_errors (Edges c)) (page_json notice_json)
      (rbind (page_of first lastN after before (notices_of None ns))
        (\<lambda>p. Inr (page_connection convertConvenientNoticeV1 p)))"
  using assms by (rule notices_query)

theorem missing_proofs_stay_local_witness:
  "\<exists>r. Exec (example_server (example_db [] [example_notice 3 0] [] [] []))
      (query [node_field ''notices'' (page_args (Some 1) None None None) (page_selection (notice_selection []))]) = Inr [r] \<and>
    gs_Errors r = [([PathName ''notices'', PathName ''edges'', PathIndex 0, PathName ''node'', PathName ''proof''],
      EMsg ''proofs are not supported in nonodo v1'')]"
proof -
  have "notices_in example_eth [example_notice 3 0] (example_db [] [example_notice 3 0] [] [] [])"
    by (intro example_db_holds) simp
  moreover have "page_of (Some 1) None None None (notices_of None [example_notice 3 0]) =
      Inr \<lparr>Total = 1, Offset = 0, Rows = [example_notice 3 0]\<rparr>"
    by (simp add: notices_of_def page_of_def ComputePage_first)
  ultimately show ?thesis unfolding example_server_def
    by (subst missing_proofs_stay_local [OF example_gql_laws, where ns = "[example_notice 3 0]"])
      (simp_all add: go_int_def answer_def node_errors_def proof_errors_def page_connection_def)
qed



text \<open>
  C9. Nested filters are ignored: two lists of GraphQL filters with the same outermost destination
  and executed comparisons select the same vouchers, whatever stands in their \<open>and\<close>, \<open>or\<close>, \<open>ne\<close>,
  \<open>in\<close> and \<open>nin\<close> fields.
\<close>

theorem nested_filters_are_ignored:
  assumes "concat (map outer_filters fs) = concat (map outer_filters gs)" and "vouchers_in E vs d"
  shows "queryResolver_Vouchers E first lastN after before fs d =
    queryResolver_Vouchers E first lastN after before gs d"
  using voucher_resolver_outer [OF assms] .

theorem nested_filters_are_ignored_witness:
  "queryResolver_Vouchers example_eth None None None None
     [ConvenientFilter None None [] [ConvenientFilter None (Some (BooleanFilterInput (Some True) None [] [])) [] []]]
     (example_db [] [] [] [] []) =
   queryResolver_Vouchers example_eth None None None None [] (example_db [] [] [] [] [])"
  by (rule nested_filters_are_ignored [OF _ example_db_holds(1)]) (simp_all add: outer_filters_def)

section \<open>Batches of the remote node\<close>

text \<open>
  C10. A batch that fails leaves no trace: whatever statements fail and whenever, if
  \<open>handleWithDBTransaction\<close> returns an error the committed tables are the ones before the batch
  and no transaction is left open.
\<close>

theorem failed_batch_leaves_tables:
  assumes "handleWithDBTransaction (OutputDecoder E) now resp s = (Inl e, s')" and "\<not> is_panic e"
    and "db_pending (sy_db s) = None"
  shows "db_committed (sy_db s') = db_committed (sy_db s) \<and> db_pending (sy_db s') = None"
  using assms by (rule output_decoder.transaction_error)

theorem failed_batch_leaves_tables_witness:
  "\<exists>s'. handleWithDBTransaction (OutputDecoder example_eth) 7 (example_response [])
     (example_sync [None, Some (FailNow ''disk full'')]) = (Inl (EDb ''disk full''), s') \<and>
   db_committed (sy_db s') = db_committed (example_db [] [] [] [] []) \<and> db_pending (sy_db s') = None"
proof -
  let ?s = "example_sync [None, Some (FailNow ''disk full'')]"
  obtain s' where s': "handleWithDBTransaction (OutputDecoder example_eth) 7 (example_response []) ?s =
      (Inl (EDb ''disk full''), s')"
    by (simp add: example_transaction andThen_apply onError_apply handleGraphileResponse_split record_batch_def
        Let_def on_db_def tx_Commit_def pop_fault_def callRollback_def tx_Rollback_def)
  from failed_batch_leaves_tables [OF s'] s' show ?thesis by simp
qed

text \<open>
  C11. A batch that succeeds moves the three cursors of the fetcher, appends the batch to the log,
  and the cursors in memory are again the ones of the last entry of the log, whatever faults the
  database has shown.
\<close>

theorem committed_batch_is_logged:
  assumes "handleWithDBTransaction (OutputDecoder E) now resp s = (Inr x, s')"
    and "db_committed (sy_db s) ''synchronizer_fetch'' = Some (fetches_table fs)"
    and "0 \<le> now" and "now < 2 ^ 63" and "logged fs (sy_fetcher s)"
  shows "db_pending (sy_db s') = None \<and>
    db_committed (sy_db s') ''synchronizer_fetch'' = Some (fetches_table (extend_log now (sy_fetcher s) resp fs)) \<and>
    logged (extend_log now (sy_fetcher s) resp fs) (sy_fetcher s')"
  using output_decoder.transaction_ok [OF assms(1-4)] logged_extend [OF assms(5)] by simp

theorem committed_batch_is_logged_witness:
  "\<exists>s'. handleWithDBTransaction (OutputDecoder example_eth) 7 (example_response ''c1'')
     (example_sync [None, None]) = (Inr (), s') \<and>
   logged [synchronizeFetch 7 NewGraphileFetcher (example_response ''c1'')] (sy_fetcher s')"
proof -
  obtain s' where s': "handleWithDBTransaction (OutputDecoder example_eth) 7 (example_response ''c1'')
      (example_sync [None, None]) = (Inr (), s')"
    unfolding example_transaction
    by (simp add: andThen_apply onError_apply example_batch [where faults = "[]"] on_db_def tx_Commit_def pop_fault_def)
  from committed_batch_is_logged [OF s', of "[]"] s' show ?thesis by (simp add: extend_log_def)
qed

text \<open>
  C12. A restart resumes where the poller stopped: after any number of rounds against any endpoint,
  on a database that answers, the log has only grown, and the cursors that \<open>Start\<close> reads back
  into a new fetcher are the ones that were in memory.
\<close>

theorem restart_resumes:
  assumes "forEach (poll_round (OutputDecoder E)) rounds s = (r, s')"
    and "fetches_in fs (sy_db s)" and "logged fs (sy_fetcher s)"
    and "\<forall>(now, post) \<in> set rounds. 0 \<le> now \<and> now < 2 ^ 63"
  shows "(\<exists>gs. fetches_in (fs @ gs) (sy_db s')) \<and>
    GraphileSynchronizer_Start D [] (s'\<lparr>sy_fetcher := NewGraphileFetcher\<rparr>) =
    (Inr (), s'\<lparr>sy_fetcher := NewGraphileFetcher
      \<lparr>gf_CursorAfter := gf_CursorAfter (sy_fetcher s'),
       gf_CursorInputAfter := gf_CursorInputAfter (sy_fetcher s'),
       gf_CursorReportAfter := gf_CursorReportAfter (sy_fetcher s')\<rparr>\<rparr>)"
  using quiet_decoder.rounds_in_step [OF assms(1) _ assms(4), of fs] assms(2,3) resume_logged
  by (auto simp: in_step_def)

theorem restart_resumes_witness:
  "\<exists>s'. forEach (poll_round (OutputDecoder example_eth)) [(7, \<lambda>q. Inl (EExt ''refused''))] (example_sync []) =
     (Inr (), s') \<and> fst (GraphileSynchronizer_Start (OutputDecoder example_eth) []
       (s'\<lparr>sy_fetcher := NewGraphileFetcher\<rparr>)) = Inr ()"
proof -
  let ?rounds = "[(7 :: int, \<lambda>q :: string. Inl (EExt ''refused'') :: OutputResponse res)]"
  have r: "forEach (poll_round (OutputDecoder example_eth)) ?rounds (example_sync []) = (Inr (), example_sync [])"
    by (simp add: andThen_apply poll_round_def GraphileFetcher_Fetch_def Let_def)
  have "fetches_in [] (sy_db (example_sync []))" by (simp add: fetches_in_def)
  from restart_resumes [OF r this] r show ?thesis by simp
qed

text \<open>
  C13. A commit that fails skips the batch: the handler has moved the cursors before the commit, so
  after the error the committed tables lack the batch and the next round asks for what follows it.
\<close>

theorem failed_commit_skips_batch:
  assumes "on_db (StartTransaction NoTx) s = (Inr WithTx, s1)"
    and "handleGraphileResponse (OutputDecoder E) now WithTx resp s1 = (Inr (), s2)"
    and "on_db tx_Commit s2 = (Inl e, s3)"
    and "db_committed (sy_db s) ''synchronizer_fetch'' = Some (fetches_table fs)"
    and "0 \<le> now" and "now < 2 ^ 63"
  shows "\<exists>s'. handleWithDBTransaction (OutputDecoder E) now resp s = (Inl e, s') \<and>
    db_committed (sy_db s') = db_committed (sy_db s) \<and>
    sy_fetcher s' = move_cursors (synchronizeFetch now (sy_fetcher s) resp) (sy_fetcher s)"
  using assms by (rule failed_commit_skips)

theorem failed_commit_skips_batch_witness:
  "\<exists>s'. fst (handleWithDBTransaction (OutputDecoder example_eth) 7 (example_response ''c1'')
     (example_sync [None, None, Some (FailNow ''disk full'')])) = Inl (EDb ''disk full'') \<and>
   snd (handleWithDBTransaction (OutputDecoder example_eth) 7 (example_response ''c1'')
     (example_sync [None, None, Some (FailNow ''disk full'')])) = s' \<and>
   db_committed (sy_db s') = db_committed (example_db [] [] [] [] []) \<and>
   gf_CursorAfter (sy_fetcher s') = ''c1''"
proof -
  let ?f = "[None, Some (FailNow ''disk full'')]"
  let ?p = "db_committed (example_db [] [] [] [] [])"
  let ?s1 = "(example_sync ?f)\<lparr>sy_db := (example_db [] [] [] [] [])\<lparr>db_faults := ?f, db_pending := Some ?p\<rparr>\<rparr>"
  note h = example_batch [of ?s1 ?p "[Some (FailNow ''disk full'')]" "''c1''" "OutputDecoder example_eth"]
  obtain s2 where s2: "handleGraphileResponse (OutputDecoder example_eth) 7 WithTx (example_response ''c1'') ?s1 =
      (Inr (), s2)" "db_pending (sy_db s2) \<noteq> None" "db_faults (sy_db s2) = [Some (FailNow ''disk full'')]"
    using h by simp
  then obtain s3 where "on_db tx_Commit s2 = (Inl (EDb ''disk full''), s3)"
    by (auto simp: on_db_def tx_Commit_def pop_fault_def)
  from failed_commit_skips_batch [OF example_begin s2(1) this, of "[]"] show ?thesis
    by (auto simp: move_cursors_def synchronizeFetch_def end_cursor_def example_response_def example_page_def)
qed

section \<open>The node\<close>

text \<open>
  C14. In every state that the node reaches by any sequence of requests, with any failures of the
  database: the inspects are numbered by position and processed in order, an inspect that waits
  has no result yet, and the outputs of the current input are numbered from 0 and belong to it.
\<close>

theorem reachable_node_is_consistent:
  assumes "nonodo_reachable E s"
  shows "inspects_ok (nm_inspects s) \<and> (\<exists>n. processed_first n (nm_inspects s)) \<and>
    state_ok (nm_inspects s) (nm_state s)"
  using nonodo_reachable_inv [OF assms] by (simp add: nonodo_inv_def)

theorem reachable_node_is_consistent_witness:
  "inspects_ok (nm_inspects example_served) \<and> (\<exists>n. processed_first n (nm_inspects example_served)) \<and>
   state_ok (nm_inspects example_served) (nm_state example_served)"
  by (rule reachable_node_is_consistent [OF example_served_reachable])

text \<open>
  C15. An inspect does not starve: after \<open>i + 2\<close> successful finishes, whatever advances wait, inspect
  number \<open>i\<close> has been processed.
\<close>

theorem inspects_are_served:
  assumes "nonodo_reachable E s" and "i < length (nm_inspects s)"
    and "finish_run E flags s = (Inr (), s')" and "i + 2 \<le> length flags"
  shows "i < length (nm_inspects s') \<and> ii_Status (nm_inspects s' ! i) \<noteq> CompletionStatusUnprocessed"
proof -
  from finish_run_rank [OF assms(3) nonodo_reachable_inv [OF assms(1)] assms(2)] rank_bound [of i s] assms(4)
  have "i < length (nm_inspects s')" "rank i s' = 0" by auto
  then show ?thesis by (simp add: rank_0)
qed

theorem inspects_are_served_witness:
  "0 < length (nm_inspects example_served) \<and>
   ii_Status (nm_inspects example_served ! 0) \<noteq> CompletionStatusUnprocessed"
  by (rule inspects_are_served [OF example_waiting_reachable _ example_run])
    (simp_all add: example_waiting_inspects)

text \<open>
  C16. The result of an inspect that is done never changes: no request alters an inspect that was
  processed and is not the current one.
\<close>

theorem inspect_results_are_final:
  assumes "nonodo_reachable E s" and "nonodo_step E s s'" and "inspect_done j x s"
  shows "inspect_done j x s'"
  using assms(2) nonodo_reachable_inv [OF assms(1)] assms(3) by (rule inspect_done_step)

theorem inspect_results_are_final_witness:
  "inspect_done 0 example_result (snd (AddInspectInput [9] example_served))"
  by (rule inspect_results_are_final [OF example_served_reachable nonodo_step.st_inspect])
    (simp add: inspect_done_def example_served_def example_result_def)

text \<open>
  C17. Finishing an advance input writes the status of that input and of no other, and what is
  handed out next is an inspect, the unprocessed advance of the lowest index, or nothing when none is
  left: the input just finished is not handed out again.
\<close>

theorem finish_advances:
  assumes "nm_state s = StAdvance st" and "inputs_in E xs (nm_db s)" and "quiet_handler (nm_decoder s)"
    and "FinishAndGetNext E accepted s = (Inr r, s')"
  defines "xs' \<equiv> map (overwrite_input (finished_input st
    (if accepted then CompletionStatusAccepted else CompletionStatusRejected))) xs"
  shows "inputs_in E xs' (nm_db s') \<and>
    (case r of
       Some (IAdvance x) \<Rightarrow> ai_Index x \<noteq> ai_Index (sa_input st) \<and>
         (\<exists>y \<in> set xs. x = stored_input y \<and> ai_Status y = CompletionStatusUnprocessed) \<and>
         (\<forall>y \<in> set xs'. ai_Status y = CompletionStatusUnprocessed \<longrightarrow> ai_Index x \<le> ai_Index y)
     | Some (IInspect x) \<Rightarrow> x \<in> set (nm_inspects s) \<and> ii_Status x = CompletionStatusUnprocessed
     | None \<Rightarrow> \<forall>y \<in> set xs'. ai_Status y \<noteq> CompletionStatusUnprocessed)"
  using finish_hands_out [OF assms(1-4)] unfolding xs'_def .

theorem finish_advances_witness:
  "\<exists>s'. FinishAndGetNext example_eth True example_advancing = (Inr (Some (IAdvance (example_input 1 0))), s') \<and>
   inputs_in example_eth [example_input 1 0, example_input 0 CompletionStatusAccepted] (nm_db s')"
proof -
  obtain s' where s': "FinishAndGetNext example_eth True example_advancing =
      (Inr (Some (IAdvance (example_input 1 0))), s')" using example_advanced by blast
  have "quiet_handler (nm_decoder example_advancing)" by (simp add: quiet_None)
  from finish_advances [OF example_advancing_fields(1) example_advancing_inputs this s'] s'
  show ?thesis by (simp add: example_finished_input)
qed

text \<open>
  C18. Of the vouchers of an input only the first is stored. Accepting an input sends all of them to
  the service, which reports each as saved, but it looks for an existing voucher by input and
  application and not by output index: the second and all further vouchers are lost.
\<close>

theorem only_first_voucher_is_stored:
  assumes "eth_laws E" and "vouchers_in E vs d" and "distinct (map voucher_key vs)"
    and "Suc (length vs) < 2 ^ 63"
    and "list_all (\<lambda>w. voucher_small w \<and> cv_InputIndex w = n \<and> voucher_key w \<notin> voucher_key ` set vs) (v # ws)"
    and "distinct (map voucher_key (v # ws))" and "(n, 0) \<notin> voucher_slot ` set vs"
  shows "\<exists>d'. sendAllInputVouchersToDecoder (Some (HandleOutput E NoTx)) i (v # ws) d = (Inr (), d') \<and>
    vouchers_in E (vs @ [sent_voucher v]) d'"
  using assms by (rule first_voucher_only)

theorem only_first_voucher_is_stored_witness:
  "\<exists>d'. sendAllInputVouchersToDecoder (Some (HandleOutput example_eth NoTx)) 0
     [example_voucher 0 0, example_voucher 0 1] (example_db [] [] [] [] []) = (Inr (), d') \<and>
   vouchers_in example_eth [sent_voucher (example_voucher 0 0)] d'"
proof -
  have "vouchers_in example_eth [] (example_db [] [] [] [] [])" by (simp add: example_db_holds)
  from only_first_voucher_is_stored [OF example_eth_laws this, of 0 "example_voucher 0 0" "[example_voucher 0 1]"]
  show ?thesis by simp
qed



text \<open>
  C20. An inspect request is answered: when the application goes on finishing inputs, successfully, while
  the request polls, then with two finishes more than there are inspects before it the request ends
  with status 200 and a result.
\<close>

theorem inspect_request_is_answered:
  assumes "nonodo_reachable E s" and "length payload \<le> PayloadSizeLimit"
    and "finish_run E flags (snd (AddInspectInput payload s)) = (Inr (), s')"
    and "length (nm_inspects s) + 2 \<le> length flags"
  shows "\<exists>resp t. InspectPost E (Inr payload) (map (finish_step E) flags) s = Some (Inr (RJSON 200 resp), t)"
  using nonodo_reachable_inv [OF assms(1)] assms(2-4) by (rule inspect_answered)

theorem inspect_request_is_answered_witness:
  "\<exists>resp t. InspectPost example_eth (Inr [1, 2]) (map (finish_step example_eth) [True, True])
     (NewNonodoModel None True (example_db [] [] [] [] [])) = Some (Inr (RJSON 200 resp), t)"
  by (rule inspect_request_is_answered [OF nonodo_reachable.start _ example_run [unfolded example_waiting_def]])
    (simp_all add: PayloadSizeLimit_def NewNonodoModel_def)

text \<open>
  C21. The echo application echoes: a round of it against the handlers, when an advance input is next,
  succeeds and leaves the node with that input as the current one and exactly one voucher to its
  sender with its payload, one notice with the payload and \<open>0xff\<close>, and one report with the payload.
  The text that the application builds for the notice is assumed to decode as \<open>hexutil\<close> documents.
\<close>

theorem echo_round_echoes:
  assumes "eth_laws E" and "hexutil_Decode E (hexutil_Encode E (ai_Payload x) @ ''ff'') = Inr (ai_Payload x @ [255])"
    and "FinishAndGetNext E True s = (Inr (Some (IAdvance x)), s1)"
  shows "EchoAppWorker_round (direct_client E waits) s = (Inr (), s1\<lparr>nm_state := StAdvance
    \<lparr>sa_input = x, sa_vouchers = [echo_voucher E x], sa_notices = [echo_notice E x],
     sa_reports = [echo_report x]\<rparr>\<rparr>)"
  using assms by (rule echo_advance)

theorem echo_round_echoes_witness:
  "\<exists>s'. EchoAppWorker_round (direct_client example_eth (\<lambda>_. CtxDone ''cancelled'')) example_advancing = (Inr (), s') \<and>
   nm_state s' = StAdvance \<lparr>sa_input = example_input 1 0, sa_vouchers = [echo_voucher example_eth (example_input 1 0)],
     sa_notices = [echo_notice example_eth (example_input 1 0)], sa_reports = [echo_report (example_input 1 0)]\<rparr>"
proof -
  obtain s1 where f: "FinishAndGetNext example_eth True example_advancing =
      (Inr (Some (IAdvance (example_input 1 0))), s1)" using example_advanced by blast
  have "hexutil_Decode example_eth (hexutil_Encode example_eth [1, 2] @ ''ff'') = Inr [1, 2, 255]"
    by code_simp
  then have "hexutil_Decode example_eth (hexutil_Encode example_eth (ai_Payload (example_input 1 0)) @ ''ff'') =
      Inr (ai_Payload (example_input 1 0) @ [255])" by (simp add: example_input_def)
  from echo_round_echoes [OF example_eth_laws this f, of "\<lambda>_. CtxDone ''cancelled''"] show ?thesis by simp
qed

section \<open>The store\<close>



text \<open>
  C23. The input query implements its specification: the inputs that satisfy the index and sender
  filters, in the order of their indices, as they come back from the table.
\<close>

theorem input_query_refines:
  assumes "inputs_in E xs d"
  shows "InputRepository_FindAll E first lastN after before fs d =
    (rbind (rmap input_acond fs) (\<lambda>_. page_of first lastN after before
       (map stored_input (sort_key ai_Index (filter (\<lambda>x. list_all (\<lambda>f. input_sat E f x) fs) xs)))), d)"
  unfolding FindAllInputs_ok [OF assms] input_query_def
  by (cases "rmap input_acond fs") simp_all

theorem input_query_refines_witness:
  "fst (InputRepository_FindAll example_eth (Some 5) None None None []
     (example_db [] [] [] [example_input 1 0, example_input 0 0] [])) =
   page_of (Some 5) None None None [example_input 0 0, example_input 1 0]"
proof -
  have "inputs_in example_eth [example_input 1 0, example_input 0 0]
      (example_db [] [] [] [example_input 1 0, example_input 0 0] [])"
    by (intro example_db_holds) simp_all
  from input_query_refines [OF this, of "Some 5" None None None "[]"] show ?thesis by simp
qed

section \<open>The decoder\<close>




section \<open>The voucher worker\<close>

text \<open>
  C26. Whatever rounds the older voucher worker makes and whatever faults the database has, the log of
  its batches only grows by entries that start where the one before ended; as long as no round
  failed the cursor in memory is the end of the log; and a restart on a database that answers goes
  on from the end of the log.
\<close>

theorem voucher_cursor_follows_log:
  assumes "forEach (voucher_round (OutputDecoder E)) rounds s = (r, s')" and "voucher_log fs (vs_db s)"
    and "vf_CursorAfter (vs_fetcher s) = last_cursor fs"
    and "\<forall>(now, post) \<in> set rounds. 0 \<le> now \<and> now < 2 ^ 63"
  shows "\<exists>gs. voucher_log (fs @ gs) (vs_db s') \<and> chained (last_cursor fs) gs \<and>
    (is_ok r \<longrightarrow> vf_CursorAfter (vs_fetcher s') = last_cursor (fs @ gs)) \<and>
    VoucherPolling (OutputDecoder E) [] \<lparr>vs_fetcher = NewVoucherFetcher, vs_db = (vs_db s')\<lparr>db_faults := []\<rparr>\<rparr> =
      (Inr (), \<lparr>vs_fetcher = NewVoucherFetcher\<lparr>vf_CursorAfter := last_cursor (fs @ gs)\<rparr>,
        vs_db = (vs_db s')\<lparr>db_faults := []\<rparr>\<rparr>)"
  using voucher_output_decoder.rounds_log [OF assms] VoucherPolling_resumes [of _ "vs_db s'" "OutputDecoder E" "[]"]
  by fastforce

theorem voucher_cursor_follows_log_witness:
  "\<exists>r s' gs. forEach (voucher_round (OutputDecoder example_eth)) [(5, \<lambda>_ _. Inr (example_vouchers []))]
     example_voucher_sync = (r, s') \<and> voucher_log gs (vs_db s') \<and> chained [] gs"
proof -
  obtain r s' where "forEach (voucher_round (OutputDecoder example_eth)) [(5, \<lambda>_ _. Inr (example_vouchers []))]
     example_voucher_sync = (r, s')" by fastforce
  with voucher_cursor_follows_log [OF this example_voucher_sync_log] show ?thesis
    by (auto simp: last_cursor_def)
qed

section \<open>Executed vouchers\<close>

text \<open>
  C27. Reading the past events marks exactly the vouchers they name as executed, the input index in
  the low 64 bits of the identifier and the output index above bit 128; events that cannot be
  read are skipped, and nothing else of the database changes.
\<close>

theorem past_executions_mark:
  assumes "vouchers_in E vs d" and "distinct (map voucher_key vs)"
    and "\<forall>vLog \<in> set logs. \<forall>e. GetEventData C vLog = Inl e \<longrightarrow> \<not> is_panic e"
    and "\<forall>k \<in> marks_of C logs. small_key k"
  shows "\<exists>d'. ReadPastExecutions C (Inr logs) d = (Inr (), d') \<and>
    vouchers_in E (map (\<lambda>w. if voucher_key w \<in> marks_of C logs then w\<lparr>cv_Executed := True\<rparr> else w) vs) d' \<and>
    (\<forall>t. t \<noteq> ''convenience_vouchers'' \<longrightarrow> db_committed d' t = db_committed d t)"
  using logs_mark [OF assms(3,1,2,4)] by (simp add: ReadPastExecutions_def andThen_apply marked_def mark_all_def)

theorem past_executions_mark_witness:
  "\<exists>d'. ReadPastExecutions (example_chain [AbiBigInt (2 ^ 128 * 1 + 3)]) (Inr [example_log])
     (example_db [example_voucher 3 0, example_voucher 3 1] [] [] [] []) = (Inr (), d') \<and>
   vouchers_in example_eth [example_voucher 3 0, (example_voucher 3 1)\<lparr>cv_Executed := True\<rparr>] d'"
proof -
  have "vouchers_in example_eth [example_voucher 3 0, example_voucher 3 1]
      (example_db [example_voucher 3 0, example_voucher 3 1] [] [] [] [])"
    by (intro example_db_holds) simp
  moreover have "voucher_of_id (2 ^ 128 * 1 + 3) = (3, 1)" using voucher_of_id_inverse [of 3 1] by simp
  then have "marks_of (example_chain [AbiBigInt (2 ^ 128 * 1 + 3)]) [example_log] = {(3, 1)}"
    by (simp only: example_marks)
  ultimately show ?thesis
    using past_executions_mark [of example_eth "[example_voucher 3 0, example_voucher 3 1]"
      "example_db [example_voucher 3 0, example_voucher 3 1] [] [] [] []" "[example_log]"
      "example_chain [AbiBigInt (2 ^ 128 * 1 + 3)]"] by (auto simp: small_key_def example_event_data)
qed

text \<open>
  C28. The events of the contract never mark a voucher: the event \<open>OutputExecuted\<close> of the ABI has two
  arguments that are not indexed and the handler wants one value, so that with a decoder that
  returns one value for each such argument the listener leaves the database as it is.
\<close>

theorem contract_events_mark_nothing:
  assumes "\<forall>data vs. xc_Unpack C data = Inr vs \<longrightarrow>
    length vs = length (filter (\<lambda>(indexed, _). \<not> indexed) OutputExecuted_inputs)"
  shows "snd (WatchExecutions C GetAbi connections d) = d"
  using contract_listener assms unfolding unpacks_event_def by blast

theorem contract_events_mark_nothing_witness:
  "snd (WatchExecutions (example_chain [AbiUint64 0, AbiBytes [1]]) (Inr ())
     [\<lparr>cn_FilterLogs = Inr [example_log], cn_SubscribeFilterLogs = Inr (), cn_logs = [example_log],
       cn_end = SubscriptionClosed\<rparr>] (example_db [example_voucher 3 0] [] [] [] [])) =
   example_db [example_voucher 3 0] [] [] [] []"
  by (rule contract_events_mark_nothing) (simp add: example_chain_def OutputExecuted_inputs_def)

section \<open>The inputs of the chain\<close>

text \<open>
  C29. Reading past inputs appends the inputs whose index is new, the first one of each index, and
  reading the same events again changes nothing: a reconnection does not duplicate inputs.
\<close>

theorem rereading_inputs_changes_nothing:
  assumes "ReadPastInputs E (AddAdvanceInput E) H (\<lambda>_ _. Inr es) start end' s = (r, s1)"
    and "list_all2 (\<lambda>e x. event_input E H e = Inr x \<and> input_fits x) es zs" and "node_inputs E xs (iw_Model s)"
  shows "r = Inr () \<and> node_inputs E (foldl (\<lambda>xs x. put_input x xs) xs zs) (iw_Model s1) \<and>
    (\<exists>s2. ReadPastInputs E (AddAdvanceInput E) H (\<lambda>_ _. Inr es) start' end'' s1 = (Inr (), s2) \<and>
      iw_Model s2 = iw_Model s1)"
proof -
  from node_sink.read_all [OF assms(2,3)] assms(1)
  have 1: "r = Inr ()" "node_inputs E (foldl (\<lambda>xs x. put_input x xs) xs zs) (iw_Model s1)"
    by (auto simp: ReadPastInputs_def andThen_apply wrapErr_apply)
  from node_sink.read_stored [OF assms(2) 1(2)] 1 show ?thesis
    by (auto simp: put_inputs_indices ReadPastInputs_def andThen_apply wrapErr_apply)
qed

theorem rereading_inputs_changes_nothing_witness:
  "\<exists>r s1. ReadPastInputs example_eth (AddAdvanceInput example_eth) (\<lambda>_. Inr 9) (\<lambda>_ _. Inr [example_event 0]) 0 None
     example_inputter = (r, s1) \<and> r = Inr () \<and> node_inputs example_eth [example_read] (iw_Model s1)"
proof -
  obtain r s1 where r: "ReadPastInputs example_eth (AddAdvanceInput example_eth) (\<lambda>_. Inr 9)
      (\<lambda>_ _. Inr [example_event 0]) 0 None example_inputter = (r, s1)" by fastforce
  have "list_all2 (\<lambda>e x. event_input example_eth (\<lambda>_. Inr 9) e = Inr x \<and> input_fits x) [example_event 0] [example_read]"
    by (simp add: example_event_input example_read_fits)
  from rereading_inputs_changes_nothing [OF r this example_inputter_holds] r show ?thesis by (simp add: put_input_def)
qed



text \<open>
  C31. When the iteration over the past inputs breaks down, \<open>ReadPastInputs\<close> succeeds all the same: it
  adds the inputs of the events that arrived before, and the error stays in the iterator, which the code
  does not ask. The logs of the input box are filtered by the application, of any index.
\<close>

theorem broken_read_of_inputs_succeeds:
  assumes "node_inputs E xs (iw_Model s)"
    and "bc_FilterLogs (InputBoxFilterer_contract inputBox) \<lparr>fo_Start = b, fo_End = e\<rparr> ''InputAdded'' [[AAddress app], []] =
      Inr (map Arrived logs @ Ended (Some err) # lost)"
    and "rmap (unpack_InputBoxInputAdded (InputBoxFilterer_contract inputBox) ''InputAdded'') logs = Inr events"
    and "list_all2 (\<lambda>event x. event_input E H event = Inr x \<and> input_fits x) (map input_of_event events) zs"
  shows "(\<exists>s'. ReadPastInputs_over E (AddAdvanceInput E) H inputBox app b e s = Some (Inr (), s') \<and>
      node_inputs E (foldl (\<lambda>xs x. put_input x xs) xs zs) (iw_Model s')) \<and>
    (\<exists>it it'. InputBoxFilterer_FilterInputAdded inputBox \<lparr>fo_Start = b, fo_End = e\<rparr> [app] [] = Inr it \<and>
      iterator_events (unpack_InputBoxInputAdded (InputBoxFilterer_contract inputBox)) it = Some (events, it') \<and>
      InputBoxInputAddedIterator_Error it' = Some err)"
proof (intro conjI)
  note events = iteration_broken [OF assms(3), of err lost]
  from node_sink.read_all [OF assms(4,1)]
  show "\<exists>s'. ReadPastInputs_over E (AddAdvanceInput E) H inputBox app b e s = Some (Inr (), s') \<and>
      node_inputs E (foldl (\<lambda>xs x. put_input x xs) xs zs) (iw_Model s')"
    by (auto simp: ReadPastInputs_over_refines [OF assms(2) events] ReadPastInputs_def andThen_apply wrapErr_apply)
  from iterator_events_eq [where unpack = "unpack_InputBoxInputAdded (InputBoxFilterer_contract inputBox)", OF events] assms(2)
  show "\<exists>it it'. InputBoxFilterer_FilterInputAdded inputBox \<lparr>fo_Start = b, fo_End = e\<rparr> [app] [] = Inr it \<and>
      iterator_events (unpack_InputBoxInputAdded (InputBoxFilterer_contract inputBox)) it = Some (events, it') \<and>
      InputBoxInputAddedIterator_Error it' = Some err"
    by (auto simp: InputBoxFilterer_FilterInputAdded_def InputBoxInputAddedIterator_Error_def)
qed

theorem broken_read_of_inputs_succeeds_witness:
  "\<exists>s'. ReadPastInputs_over example_eth (AddAdvanceInput example_eth) (\<lambda>_. Inr 9) example_input_box 7 0 None example_inputter =
     Some (Inr (), s') \<and> node_inputs example_eth [example_read] (iw_Model s')"
proof -
  have "bc_FilterLogs (InputBoxFilterer_contract example_input_box) \<lparr>fo_Start = 0, fo_End = None\<rparr> ''InputAdded''
      [[AAddress 7], []] = Inr (map Arrived [example_types_Log] @ Ended (Some (EExt ''timeout'')) # [Arrived example_types_Log])"
    by (simp add: example_input_box_def example_contract_def)
  from broken_read_of_inputs_succeeds [OF example_inputter_holds this, of "[example_added]" "\<lambda>_. Inr 9" "[example_read]"]
  show ?thesis
    by (simp add: example_input_box_unpacks example_added_event example_event_input example_read_fits put_input_def)
qed

section \<open>The process\<close>

text \<open>
  C32. The supervisor starts a worker only when every one before it has reported that it is ready;
  without a cancellation it announces itself only when all are ready; and it returns without an
  error only after a cancellation and when every worker it started has finished.
\<close>

theorem supervisor_starts_in_order:
  assumes "supervisor_reachable n s"
  shows "(\<forall>i j. i < su_started s \<longrightarrow> j < i \<longrightarrow> j \<in> su_ready s) \<and>
    ((su_phase s = Announce \<or> su_phase s = WaitDone) \<and> \<not> su_cancelled s \<longrightarrow> su_ready s = {..<n}) \<and>
    (su_phase s = Returned (Inr ()) \<longrightarrow> su_cancelled s \<and> su_finished s = {..<su_started s})"
  using supervisor_order [OF assms] by blast

theorem supervisor_starts_in_order_witness:
  "supervisor_reachable 2 \<lparr>su_phase = Await 1, su_started = 2, su_ready = {0}, su_returned = {}, su_finished = {},
     su_cancelled = False\<rparr> \<and> (0::nat) \<in> {0}"
proof -
  have a: "supervisor_reachable 2 \<lparr>su_phase = Await 0, su_started = 1, su_ready = {}, su_returned = {},
      su_finished = {}, su_cancelled = False\<rparr>"
    using supervisor_reachable.step [OF supervisor_reachable.start, OF SupervisorWorker_step.launch [of sup_start 0 2]]
    by (simp add: sup_start_def)
  have b: "supervisor_reachable 2 \<lparr>su_phase = Launch 1, su_started = 1, su_ready = {0}, su_returned = {},
      su_finished = {}, su_cancelled = False\<rparr>"
    using supervisor_reachable.step [OF a, OF SupervisorWorker_step.worker_ready [where i = 0]] by simp
  have c: "supervisor_reachable 2 \<lparr>su_phase = Await 1, su_started = 2, su_ready = {0}, su_returned = {},
      su_finished = {}, su_cancelled = False\<rparr>"
    using supervisor_reachable.step [OF b, OF SupervisorWorker_step.launch [where i = 1]] by (simp add: numeral_2_eq_2)
  with supervisor_starts_in_order [OF c] show ?thesis by simp
qed



section \<open>Data availability\<close>

text \<open>
  C34. On a chain longer than the blocks to look at by a chunk or more, the search for a data
  commitment ends: it returns a commitment of those blocks that covers the height, and when it
  reports that there is none then no event of those blocks covers it.
\<close>

theorem commitment_search_ends:
  assumes "blocks + maxFilterRange \<le> head" and "0 < blocks" and "unat blocks + 10000 < 2 ^ 64"
  shows "\<exists>r. GetDataCommitment (Inr (filter_of log)) (Inr head) height blocks = Some r \<and>
    (case r of
       Inr e \<Rightarrow> commits_to height e \<and> (\<exists>b. (b, e) \<in> set log \<and> head - blocks \<le> b \<and> b \<le> head)
     | Inl err \<Rightarrow> err = EMsg ''no matching data commitment found'' \<and>
         (\<forall>(b, e) \<in> set log. \<not> (head - blocks \<le> b \<and> b \<le> head \<and> commits_to height e)))"
proof -
  obtain r where r: "GetDataCommitment (Inr (filter_of log)) (Inr head) height blocks = Some r"
    and s: "scan_result log height (head - blocks) head r"
    using GetDataCommitment_ok [OF assms] by blast
  show ?thesis
    by (rule exI [of _ r], rule conjI [OF r]) (use s in \<open>auto simp: scan_result_def split: sum.splits\<close>)
qed

theorem commitment_search_ends_witness:
  "\<exists>r. GetDataCommitment (Inr (filter_of [(20000, \<lparr>dc_ProofNonce = 1, dc_StartBlock = 5,
     dc_EndBlock = 9, dc_DataCommitment = []\<rparr>)])) (Inr 30000) 7 15000 = Some r"
proof -
  have "(15000 :: u64) + maxFilterRange \<le> 30000" by (simp add: maxFilterRange_def)
  from commitment_search_ends [OF this, of "[(20000, \<lparr>dc_ProofNonce = 1, dc_StartBlock = 5,
     dc_EndBlock = 9, dc_DataCommitment = []\<rparr>)]" 7] show ?thesis by auto
qed



text \<open>
  C36. The search of a range for a data commitment returns the first event that covers the height among
  those that the iteration delivers, and nothing when there is none; it answers so however the iteration
  ended, also when it broke down before the commitment was reached.
\<close>

theorem commitment_search_sees_delivered_events:
  assumes "bc_FilterLogs (BlobstreamXFilterer_contract contract) \<lparr>fo_Start = start, fo_End = Some end'\<rparr>
      ''DataCommitmentStored'' [[], [], []] = Inr (map Arrived logs @ Ended ending # buffered)"
    and "rmap (unpack_BlobstreamXDataCommitmentStored (BlobstreamXFilterer_contract contract) ''DataCommitmentStored'')
      (logs @ (if ending = None then channel_logs buffered else [])) = Inr events"
  shows "findMatchingDataCommitment_over contract start end' height = Some (Inr (find (commitment_covers height) events))"
  using findMatching_over_finds [OF assms(1) iteration_delivers [OF assms(2)]] .

theorem commitment_search_sees_delivered_events_witness:
  "findMatchingDataCommitment_over example_blobstream 0 9 12 = Some (Inr None) \<and>
   findMatchingDataCommitment_over example_blobstream 0 9 5 = Some (Inr (Some example_stored))"
proof -
  have logs: "bc_FilterLogs (BlobstreamXFilterer_contract example_blobstream) \<lparr>fo_Start = 0, fo_End = Some 9\<rparr>
      ''DataCommitmentStored'' [[], [], []] =
      Inr (map Arrived [example_types_Log] @ Ended (Some (EExt ''timeout'')) # [Arrived example_types_Log])"
    by (simp add: example_blobstream_def example_contract_def)
  have events: "rmap (unpack_BlobstreamXDataCommitmentStored (BlobstreamXFilterer_contract example_blobstream) ''DataCommitmentStored'')
      ([example_types_Log] @ (if Some (EExt ''timeout'') = None then channel_logs [Arrived example_types_Log] else [])) =
      Inr [example_stored]"
    by (simp add: example_blobstream_unpacks)
  show ?thesis
    by (simp add: commitment_search_sees_delivered_events [OF logs events] commitment_covers_def example_stored_def)
qed

section \<open>The wire\<close>

text \<open>
  C37. The echo application on the generated client, over HTTP and JSON, does what it does on the
  handlers: a round leaves the same node and succeeds or fails alike. So the JSON of every request and
  response is read back as it was written, on both sides.
\<close>

theorem echo_over_http:
  assumes "echo_laws L" and "url_laws U endpoint" and "hex_ascii E"
  shows "snd (wire_echo_round U (rollup_client L E endpoint (Some (InputBoxSequencer_FinishAndGetNext E)) waits F) s) =
      snd (EchoAppWorker_round (direct_client E waits) s) \<and>
    (is_ok (fst (wire_echo_round U (rollup_client L E endpoint (Some (InputBoxSequencer_FinishAndGetNext E)) waits F) s)) \<longleftrightarrow>
      is_ok (fst (EchoAppWorker_round (direct_client E waits) s)))"
  using echo_round_wire [OF assms] unfolding same_outcome_def by blast

theorem echo_over_http_witness:
  "snd (wire_echo_round example_resolve (rollup_client example_echo example_eth ''http://127.0.0.1:8080/rollup''
      (Some (InputBoxSequencer_FinishAndGetNext example_eth)) (\<lambda>_. AfterInterval id) (\<lambda>_. Inr (Inr None))) example_advancing) =
   snd (EchoAppWorker_round (direct_client example_eth (\<lambda>_. AfterInterval id)) example_advancing)"
  using echo_over_http [OF example_echo_laws example_resolve_laws example_hex_ascii] by blast

text \<open>
  C38. The index of an output never reaches the client as such: the handler answers with 200, the client
  looks for 201, and so \<open>JSON201\<close> stays empty although the body holds the index.
\<close>

theorem output_index_is_lost:
  assumes "echo_laws L" and "url_laws U endpoint" and "ascii_voucher v"
    and "RollupAPI_AddVoucher E (json_request v) s = (Inr (RJSON status i), s')"
  shows "\<exists>resp. AddVoucherWithResponse U (rollup_client L E endpoint sequencer waits F) v [] s = (Inr resp, s') \<and>
    ar_JSON resp = None \<and> Response_StatusCode resp = 200 \<and> json_parse (ar_Body resp) = Some (json_of_IndexResponse i)"
  using AddVoucherWithResponse_index [OF assms] AddVoucher_status [OF assms(4)] by fastforce

theorem output_index_is_lost_witness:
  "\<exists>resp. fst (AddVoucherWithResponse example_resolve (rollup_client example_echo example_eth ''http://node/rollup''
      None (\<lambda>_. AfterInterval id) (\<lambda>_. Inr (Inr None))) example_voucher_request [] example_advancing) = Inr resp \<and>
    ar_JSON resp = None \<and> Response_StatusCode resp = 200 \<and> json_parse (ar_Body resp) = Some (json_of_IndexResponse 0)"
proof -
  obtain s' where "RollupAPI_AddVoucher example_eth (json_request example_voucher_request) example_advancing =
      (Inr (RJSON 200 0), s')" using example_voucher_added by blast
  from output_index_is_lost [OF example_echo_laws example_resolve_laws example_voucher_request_ascii this,
      where F = "\<lambda>_. Inr (Inr None)" and endpoint = "''http://node/rollup''" and sequencer = None
        and waits = "\<lambda>_. AfterInterval id"] show ?thesis by auto
qed



text \<open>
  C40. \<open>AddInput\<close> of the development network sends at most one transaction, never an empty one, and
  returns nil exactly when the first definite answer about it is a receipt of an accepted transaction.
\<close>

theorem input_is_sent_once:
  assumes "devnet_AddInput E C turns url payload sent = Some (r, sent')"
  shows "(sent' = sent \<or> (\<exists>tx. sent' = sent @ [tx] \<and> it_Payload tx = payload \<and> payload \<noteq> [])) \<and>
    (r = Inr () \<longrightarrow> (\<exists>tx status pre post e. sent' = sent @ [tx] \<and> status \<noteq> 0 \<and>
      turns = pre @ (Receipt status, e) # post \<and> (\<forall>t \<in> set pre. t = (NotFound, None))))"
  using AddInput_at_most_once [OF assms] AddInput_success [of E C turns url payload sent sent'] assms by blast

theorem input_is_sent_once_witness:
  "\<exists>sent'. devnet_AddInput example_eth example_chain_client [(NotFound, None), (Receipt 1, None)] ''ws://x'' [5] [] =
      Some (Inr (), sent') \<and> (sent' = [] \<or> (\<exists>tx. sent' = [] @ [tx] \<and> it_Payload tx = [5] \<and> [5 :: byte] \<noteq> []))"
proof -
  obtain sent' where "devnet_AddInput example_eth example_chain_client [(NotFound, None), (Receipt 1, None)] ''ws://x''
      [5] [] = Some (Inr (), sent')" using example_input_sent by blast
  with input_is_sent_once [OF this] show ?thesis by auto
qed


section \<open>Further facts\<close>

text \<open>A finished inspect holds its status, its reports in order and the number of processed advance inputs.\<close>

lemma inspect_result_content:
  assumes "nonodo_reachable E s" and "nm_state s = StInspect st" and "inputs_in E xs (nm_db s)"
  shows "\<exists>r s'. FinishAndGetNext E accepted s = (Inr r, s') \<and>
    nm_inspects s' = (nm_inspects s)[si_input st := (nm_inspects s ! si_input st)
      \<lparr>ii_Status := (if accepted then CompletionStatusAccepted else CompletionStatusRejected),
       ii_ProcessedInputCount := int (length (filter (\<lambda>x. ai_Status x \<noteq> CompletionStatusUnprocessed) xs)),
       ii_Reports := si_reports st\<rparr>]"
proof -
  have "si_input st < length (nm_inspects s)"
    using nonodo_reachable_inv [OF assms(1)] assms(2) by (simp add: nonodo_inv_def state_ok_def)
  note f = finish_inspect_ok [OF assms(3) this]
  show ?thesis using assms(2,3)
    by (auto simp: FinishAndGetNext_eq andThen_apply state_finish_def f get_next_def FindByStatus_ok
        split: option.splits)
qed

text \<open>Saving a voucher that is stored is without effect on the table.\<close>

lemma saving_again_changes_nothing:
  assumes "eth_laws E" and "vouchers_in E vs d" and "distinct (map voucher_key vs)"
    and "voucher_small v" and "v \<in> set vs"
  shows "\<exists>d'. ConvenienceService_CreateVoucher E NoTx v d = (Inr v, d') \<and> vouchers_in E vs d'"
  using voucher_store.save_again [OF conjI [OF assms(1,2)] assms(3-5)] by blast

text \<open>The vouchers that GraphQL lists under an input are that input's, in both adapters.\<close>

lemma vouchers_under_an_input:
  assumes "vouchers_in E vs d" and "list_all voucher_small vs"
    and "fst (inputResolver_Vouchers A obj first lastN after before d) = Inr c" and "n \<in> set (nodes c)"
    and "A = AdapterV1 E \<or> A = NewAdapterV2 E G"
  shows "gv_InputIndex n = gi_Index obj"
  using assms(5) adapter_v1.input_vouchers [OF assms(1,2) _ assms(4)]
    adapter_v2.input_vouchers [OF assms(1,2) _ assms(4)] assms(3) by blast

text \<open>The commands that send a file do what \<open>send\<close> does with the empty payload.\<close>

lemma file_commands_send_nothing:
  assumes "readFile path = Inr content" and "downloadFile url = Inr content"
    and "CheckIfValidSize (of_nat (length content)) = Inr ()"
  shows "celestia_send_file E Getenv readFile N (file_opts path [] ns) n = celestia_send E Getenv N (file_opts [] [] ns) n \<and>
    celestia_send_file_url E Getenv downloadFile N (file_opts [] url ns) n = celestia_send E Getenv N (file_opts [] [] ns) n"
  by (intro conjI file_content_not_sent [where content = content] url_content_not_sent [where content = content] assms)

text \<open>The gio handler answers with the body of the Syscoin node or panics.\<close>

lemma gio_syscoin_panics_on_error:
  assumes "checkContentType c" and "rq_Bind c = Inr request" and "gio_Domain request = 5700"
  shows "RollupAPI_Gio (RollupAPI_Fetcher (SyscoinClient_Fetch Get) celestiaFetch) c =
    (case Get (''https://poda.syscoin.org/vh/'' @ gio_Id request) of
       Inr (Inr body) \<Rightarrow> Inr (RJSON 200 \<lparr>gio_Code = 42, gio_Data = string_of_bytes body\<rparr>)
     | _ \<Rightarrow> Inl (EPanic ''nil pointer dereference''))"
  using assms by (rule Gio_syscoin)

end
